(* ===== verification/PL_Prelude.thy ===== *)
theory PL_Prelude
  imports Main "HOL-Library.Sublist" "HOL-Library.List_Lexorder" "HOL-Library.Char_ord"
begin

text \<open>
  Shared vocabulary of the Problem Locator development: the result type of the coordinator
  (a value, an application error, or a raised exception), Python text as UTF-8 bytes, the
  list and dictionary idioms of the sources (\<open>_unique\<close>, \<open>dict\<close>
  comprehensions, order-preserving deduplication), and the lemma collections the component
  theories extend.
\<close>

named_theorems plan_simps \<open>equations that compute the fields of transition plans\<close>
named_theorems plan_dests \<open>destruction rules for successful handler runs\<close>
named_theorems valid_defs \<open>definitions of the contract validators\<close>

section \<open>Text\<close>

text \<open>
  A Python \<open>str\<close> is represented by the bytes of its UTF-8 encoding, so that
  \<open>len(value.encode("utf-8"))\<close> is \<^const>\<open>length\<close> and literals are written
  \<open>''abc''\<close>.
\<close>

type_synonym text_t = string
type_synonym opaque_id = string
type_synonym timestamp = string
type_synonym sha256_t = string
type_synonym proposal_key = string

text \<open>\<open>str.isspace\<close> on UTF-8 bytes: every code point is Unicode whitespace
  (the empty string is all whitespace here, and is excluded by the callers).\<close>

fun all_space_bytes :: "nat list \<Rightarrow> bool" where
  "all_space_bytes [] = True"
| "all_space_bytes (a # bs) =
    (if (9 \<le> a \<and> a \<le> 13) \<or> (28 \<le> a \<and> a \<le> 32) then all_space_bytes bs
     else case bs of
       [] \<Rightarrow> False
     | b # cs \<Rightarrow>
         if a = 194 \<and> (b = 133 \<or> b = 160) then all_space_bytes cs
         else case cs of
           [] \<Rightarrow> False
         | c # ds \<Rightarrow>
             ((a = 225 \<and> b = 154 \<and> c = 128) \<or>
              (a = 226 \<and> b = 128 \<and> ((128 \<le> c \<and> c \<le> 138) \<or> c = 168 \<or> c = 169 \<or> c = 175)) \<or>
              (a = 226 \<and> b = 129 \<and> c = 159) \<or>
              (a = 227 \<and> b = 128 \<and> c = 128)) \<and> all_space_bytes ds)"

definition blank_text :: "text_t \<Rightarrow> bool" where
  "blank_text s \<longleftrightarrow> all_space_bytes (map of_char s)"

definition utf8 :: "nat list \<Rightarrow> text_t" where
  "utf8 bs = map char_of bs"

section \<open>Results\<close>

text \<open>The exceptions the modelled code raises. A pydantic \<open>ValidationError\<close> is a
  \<open>ValueError\<close>.\<close>

datatype exn = ValueError | AssertionError | KeyError | AttributeError | LookupError

text \<open>Code that only raises or returns has type \<^typ>\<open>exn + 'a\<close>.\<close>

definition ensure :: "bool \<Rightarrow> 'a \<Rightarrow> exn + 'a" where
  "ensure b x = (if b then Inr x else Inl ValueError)"

lemma ensure_Inr [simp]: "ensure b x = Inr y \<longleftrightarrow> b \<and> x = y"
  by (simp add: ensure_def)

lemma ensure_Inl [simp]: "ensure b x = Inl e \<longleftrightarrow> \<not> b \<and> e = ValueError"
  by (auto simp: ensure_def)

fun bindE :: "exn + 'a \<Rightarrow> ('a \<Rightarrow> exn + 'b) \<Rightarrow> exn + 'b" where
  "bindE (Inl e) f = Inl e"
| "bindE (Inr x) f = f x"

lemma bindE_Inr: "bindE r f = Inr y \<longleftrightarrow> (\<exists>x. r = Inr x \<and> f x = Inr y)"
  by (cases r) auto

lemma bindE_cong [fundef_cong]:
  "r = r' \<Longrightarrow> (\<And>x. r' = Inr x \<Longrightarrow> f x = g x) \<Longrightarrow> bindE r f = bindE r' g"
  by (cases r') auto

text \<open>A comprehension whose element expression may raise.\<close>

fun mapE :: "('a \<Rightarrow> exn + 'b) \<Rightarrow> 'a list \<Rightarrow> exn + 'b list" where
  "mapE f [] = Inr []"
| "mapE f (x # xs) = bindE (f x) (\<lambda>y. bindE (mapE f xs) (\<lambda>ys. Inr (y # ys)))"

lemma mapE_Inr: "mapE f xs = Inr ys \<longleftrightarrow> list_all2 (\<lambda>x y. f x = Inr y) xs ys"
  by (induction xs arbitrary: ys) (auto simp: bindE_Inr list_all2_Cons1)

section \<open>List and dictionary idioms\<close>

text \<open>\<open>{key(x): x for x in xs}\<close>: the last occurrence of a key wins.\<close>

definition dict_by :: "('a \<Rightarrow> 'k) \<Rightarrow> 'a list \<Rightarrow> ('k \<rightharpoonup> 'a)" where
  "dict_by key xs = map_of (rev (map (\<lambda>x. (key x, x)) xs))"

lemma dict_by_Some: "dict_by key xs k = Some x \<Longrightarrow> x \<in> set xs \<and> key x = k"
  by (auto simp: dict_by_def dest: map_of_SomeD)

lemma dom_dict_by [simp]: "dom (dict_by key xs) = key ` set xs"
  by (force simp: dict_by_def dom_map_of_conv_image_fst)

lemma dict_by_None [simp]: "dict_by key xs k = None \<longleftrightarrow> k \<notin> key ` set xs"
  by (metis dom_dict_by domIff)

lemma dict_by_distinct:
  "distinct (map key xs) \<Longrightarrow> x \<in> set xs \<Longrightarrow> dict_by key xs (key x) = Some x"
  by (auto simp: dict_by_def map_of_eq_Some_iff rev_map [symmetric] comp_def intro!: map_of_is_SomeI)

text \<open>\<open>{key(x): i for i, x in enumerate(xs)}\<close>.\<close>

definition index_by :: "('a \<Rightarrow> 'k) \<Rightarrow> 'a list \<Rightarrow> ('k \<rightharpoonup> nat)" where
  "index_by key xs = map_of (rev (zip (map key xs) [0..<length xs]))"

lemma index_by_Some:
  "index_by key xs k = Some i \<Longrightarrow> i < length xs \<and> key (xs ! i) = k"
  by (auto simp: index_by_def dest!: map_of_SomeD simp: in_set_zip)

lemma index_by_hit: "k \<in> key ` set xs \<Longrightarrow> \<exists>i. index_by key xs k = Some i"
proof -
  assume "k \<in> key ` set xs"
  then have "k \<in> fst ` set (rev (zip (map key xs) [0..<length xs]))"
    by (metis dom_map_of_conv_image_fst length_map length_upt map_fst_zip minus_nat.diff_0 set_map
        set_rev)
  then show ?thesis unfolding index_by_def by (metis map_of_eq_None_iff option.exhaust)
qed

lemma index_by_nth:
  assumes "distinct (map key xs)" and "i < length xs"
  shows "index_by key xs (key (xs ! i)) = Some i"
proof -
  obtain j where j: "index_by key xs (key (xs ! i)) = Some j"
    using index_by_hit [of "key (xs ! i)" key xs] assms(2) by auto
  with index_by_Some [OF j] assms(2) nth_eq_iff_index_eq [OF assms(1), of j i] show ?thesis
    by simp
qed

text \<open>\<open>dict.values()\<close>: one value per key, at the position of the key's first
  insertion, holding the last value stored.\<close>

fun first_keys :: "('a \<Rightarrow> 'k) \<Rightarrow> 'k list \<Rightarrow> 'a list \<Rightarrow> 'k list" where
  "first_keys key seen [] = []"
| "first_keys key seen (x # xs) =
     (if key x \<in> set seen then first_keys key seen xs
      else key x # first_keys key (key x # seen) xs)"

definition dict_values :: "('a \<Rightarrow> 'k) \<Rightarrow> 'a list \<Rightarrow> 'a list" where
  "dict_values key xs = map (\<lambda>k. the (dict_by key xs k)) (first_keys key [] xs)"

text \<open>The order-preserving deduplication loops of the sources: \<open>_dedupe\<close>,
  \<open>_dedupe_evidence_bindings\<close> and \<open>_stable_unique\<close> all keep the first
  element of every key.\<close>

fun dedupe_loop :: "('a \<Rightarrow> 'k) \<Rightarrow> 'k list \<Rightarrow> 'a list \<Rightarrow> 'a list" where
  "dedupe_loop key seen [] = []"
| "dedupe_loop key seen (x # xs) =
     (if key x \<in> set seen then dedupe_loop key seen xs
      else x # dedupe_loop key (key x # seen) xs)"

lemma set_dedupe_loop:
  "key ` set (dedupe_loop key seen xs) = key ` set xs - set seen"
  by (induction key seen xs rule: dedupe_loop.induct) auto

lemma dedupe_loop_subset: "set (dedupe_loop key seen xs) \<subseteq> set xs"
  by (induction key seen xs rule: dedupe_loop.induct) auto

lemma distinct_dedupe_loop: "distinct (map key (dedupe_loop key seen xs))"
proof (induction key seen xs rule: dedupe_loop.induct)
  case (2 key seen x xs)
  then show ?case using set_dedupe_loop [of key "key x # seen" xs] by auto
qed simp

lemma subseq_dedupe_loop: "subseq (dedupe_loop key seen xs) xs"
  by (induction key seen xs rule: dedupe_loop.induct) auto

lemma dedupe_loop_id:
  "distinct (map key xs) \<Longrightarrow> set seen \<inter> key ` set xs = {} \<Longrightarrow> dedupe_loop key seen xs = xs"
  by (induction key seen xs rule: dedupe_loop.induct) auto

lemma subseq_set: "subseq xs ys \<Longrightarrow> set xs \<subseteq> set ys"
  by (induction rule: list_emb.induct) auto

section \<open>Interface: stable deduplication\<close>

text \<open>What the clients of the deduplication helpers rely on.\<close>

locale stable_dedupe =
  fixes key :: "'a \<Rightarrow> 'k"
    and dd :: "'a list \<Rightarrow> 'a list"
  assumes keys_kept: "key ` set (dd xs) = key ` set xs"
    and keys_distinct: "distinct (map key (dd xs))"
    and order_kept: "subseq (dd xs) xs"
    and already_distinct: "distinct (map key xs) \<Longrightarrow> dd xs = xs"
begin

lemma dd_subset: "set (dd xs) \<subseteq> set xs"
  using order_kept by (rule subseq_set)

lemma dd_idem: "dd (dd xs) = dd xs"
  by (rule already_distinct) (rule keys_distinct)

lemma dd_distinct: "distinct (dd xs)"
  using keys_distinct distinct_map by blast

lemma dd_empty_iff: "dd xs = [] \<longleftrightarrow> xs = []"
  using keys_kept [of xs] by (metis image_is_empty set_empty)

lemma dd_all_keys: "(\<forall>x \<in> set (dd xs). P (key x)) \<longleftrightarrow> (\<forall>x \<in> set xs. P (key x))"
  using keys_kept [of xs] by (metis (no_types, lifting) image_iff)

end

interpretation dedupe_by: stable_dedupe key "dedupe_loop key []"
  by unfold_locales
    (simp_all add: set_dedupe_loop distinct_dedupe_loop subseq_dedupe_loop dedupe_loop_id)

section \<open>Sorting by a key\<close>

text \<open>\<open>sorted(xs, key=...)\<close> is stable, as \<^const>\<open>sort_key\<close> is; identifiers are ASCII, so
  the byte order of the strings is Python's code-point order.\<close>

lemma set_sort_key [simp]: "set (sort_key f xs) = set xs"
  by simp

lemma sort_key_Nil_iff [simp]: "sort_key f xs = [] \<longleftrightarrow> xs = []"
  by (metis length_0_conv length_sort)

end
