(* ===== verification/Contract_Enums.thy ===== *)
theory Contract_Enums
  imports PL_Prelude
begin

text \<open>
  The enumerations of \<open>contracts/enums.py\<close>, one datatype each with the members of the
  source in its order. A two-letter prefix keeps apart the members that several enumerations
  share (\<open>CS_RUNNING\<close> is \<open>CaseStatus.RUNNING\<close>, \<open>JS_RUNNING\<close> is \<open>JobStatus.RUNNING\<close>). The
  \<open>_value\<close> functions give the wire spelling of the members that occur in error details.
\<close>

datatype case_status =
    CS_NEW | CS_RUNNING | CS_WAITING_INPUT | CS_WAITING_ATTACHMENT | CS_REVIEWING
  | CS_RESOLVED | CS_PARTIALLY_RESOLVED | CS_UNRESOLVED | CS_FAILED | CS_CANCELLED
  | CS_INTERRUPTED

fun case_status_value :: "case_status \<Rightarrow> string" where
  "case_status_value CS_NEW = ''NEW''"
| "case_status_value CS_RUNNING = ''RUNNING''"
| "case_status_value CS_WAITING_INPUT = ''WAITING_INPUT''"
| "case_status_value CS_WAITING_ATTACHMENT = ''WAITING_ATTACHMENT''"
| "case_status_value CS_REVIEWING = ''REVIEWING''"
| "case_status_value CS_RESOLVED = ''RESOLVED''"
| "case_status_value CS_PARTIALLY_RESOLVED = ''PARTIALLY_RESOLVED''"
| "case_status_value CS_UNRESOLVED = ''UNRESOLVED''"
| "case_status_value CS_FAILED = ''FAILED''"
| "case_status_value CS_CANCELLED = ''CANCELLED''"
| "case_status_value CS_INTERRUPTED = ''INTERRUPTED''"

datatype job_status =
    JS_PENDING | JS_RUNNING | JS_SUCCEEDED | JS_FAILED | JS_CANCELLED | JS_INTERRUPTED

fun job_status_value :: "job_status \<Rightarrow> string" where
  "job_status_value JS_PENDING = ''PENDING''"
| "job_status_value JS_RUNNING = ''RUNNING''"
| "job_status_value JS_SUCCEEDED = ''SUCCEEDED''"
| "job_status_value JS_FAILED = ''FAILED''"
| "job_status_value JS_CANCELLED = ''CANCELLED''"
| "job_status_value JS_INTERRUPTED = ''INTERRUPTED''"

datatype job_type =
    JT_ROUTE | JT_DIAGNOSE | JT_REVIEW

fun job_type_value :: "job_type \<Rightarrow> string" where
  "job_type_value JT_ROUTE = ''ROUTE''"
| "job_type_value JT_DIAGNOSE = ''DIAGNOSE''"
| "job_type_value JT_REVIEW = ''REVIEW''"

datatype diagnosis_mode =
    DM_SPECIALIZED | DM_GENERIC

datatype review_policy =
    RP_NONE | RP_INDEPENDENT

datatype generic_result_status =
    GS_RESOLVED | GS_UNRESOLVED

datatype outcome_disposition =
    OD_APPLIED | OD_DUPLICATE | OD_STALE | OD_REJECTED

datatype outcome_result_type =
    RT_COMPLETED | RT_NEED_INPUT | RT_NEED_ATTACHMENT | RT_REROUTE | RT_NO_CAPABILITY
  | RT_FAILED | RT_INCONCLUSIVE

datatype failure_report_disposition =
    FD_APPLIED | FD_DUPLICATE | FD_STALE

datatype attachment_status =
    AT_UPLOADING | AT_READY | AT_FAILED

datatype attachment_filename_suffix =
    AS_GZ | AS_ZIP | AS_TAR_GZ | AS_TGZ | AS_TAR

datatype candidate_status =
    CD_PROPOSED | CD_REVIEWING | CD_REJECTED | CD_ACCEPTED

datatype diagnosis_resolution_status =
    DR_COMPLETE | DR_PARTIAL

datatype completion_criterion_status =
    CR_SATISFIED | CR_PARTIALLY_SATISFIED | CR_UNSATISFIED | CR_UNKNOWN

datatype causal_factor_role =
    FR_CAUSE | FR_CONTRIBUTOR | FR_CONDITION

datatype review_verdict =
    RV_PASS | RV_NEED_MORE_EVIDENCE | RV_REJECT

datatype route_kind =
    RK_MATCHED | RK_NO_CAPABILITY

datatype requirement_kind =
    QK_INPUT | QK_ATTACHMENT

datatype requirement_status =
    QS_OPEN | QS_FULFILLED

datatype artifact_kind =
    AK_USER_RESULT | AK_USER_RESULT_ARCHIVE | AK_GENERIC_REPORT | AK_DIAGNOSTIC_EXPORT
  | AK_LOGPARSE_RUN | AK_AUDIT_BUNDLE

datatype resource_kind =
    RS_FILE | RS_DIRECTORY

datatype supplement_policy =
    SP_NONE | SP_MISSING_ONLY

datatype rule_claim_result =
    CL_PASS | CL_FAIL | CL_UNKNOWN

datatype server_rule_status =
    SR_VERIFIED_PASS | SR_VERIFIED_FAIL | SR_UNVERIFIABLE | SR_SEMANTIC_ONLY
  | SR_NOT_APPLICABLE

datatype unresolved_reason_code =
    UR_MECHANICAL_VERIFICATION_FAILED | UR_INSUFFICIENT_EVIDENCE
  | UR_SEMANTIC_REVIEW_REJECTED | UR_INVALID_NEED_MORE_REQUEST

datatype diagnosis_item_status =
    DI_ACTIVE | DI_RESOLVED | DI_REJECTED | DI_SUPERSEDED

datatype diagnosis_provenance_type =
    DP_USER_INPUT | DP_AGENT_OUTCOME

datatype field_update_action =
    FU_SET | FU_CLEAR

datatype candidate_mutation_action =
    CM_INSTALL | CM_SET_STATUS

datatype evidence_source_type =
    ES_USER_FACT | ES_ATTACHMENT | ES_LOGPARSE | ES_TOOL_OUTPUT | ES_PREVIOUS_OUTCOME

datatype execution_stage =
    XS_ASSET_RESOLUTION | XS_CONTEXT_BUILD | XS_WORKSPACE_PREPARE | XS_BACKEND_START
  | XS_BACKEND_EXECUTE | XS_TOOL_EXECUTE | XS_OUTCOME_VALIDATE | XS_RESOURCE_STAGE
  | XS_EXECUTION_RECORD

datatype trigger_type =
    TT_CREATE_CASE | TT_ROUTE_OUTCOME | TT_DIAGNOSIS_OUTCOME | TT_REVIEW_OUTCOME
  | TT_SUBMIT_SUPPLEMENT | TT_CANCEL_CASE | TT_RESTART_GENERIC_DIAGNOSIS
  | TT_RESUME_INTERRUPTED | TT_EXECUTION_FAILED | TT_ASSET_VERSION_UNAVAILABLE
  | TT_MARK_OLD_EPOCH_INTERRUPTED | TT_STALE_ACTIVE_OUTCOME

fun trigger_type_value :: "trigger_type \<Rightarrow> string" where
  "trigger_type_value TT_CREATE_CASE = ''CREATE_CASE''"
| "trigger_type_value TT_ROUTE_OUTCOME = ''ROUTE_OUTCOME''"
| "trigger_type_value TT_DIAGNOSIS_OUTCOME = ''DIAGNOSIS_OUTCOME''"
| "trigger_type_value TT_REVIEW_OUTCOME = ''REVIEW_OUTCOME''"
| "trigger_type_value TT_SUBMIT_SUPPLEMENT = ''SUBMIT_SUPPLEMENT''"
| "trigger_type_value TT_CANCEL_CASE = ''CANCEL_CASE''"
| "trigger_type_value TT_RESTART_GENERIC_DIAGNOSIS = ''RESTART_GENERIC_DIAGNOSIS''"
| "trigger_type_value TT_RESUME_INTERRUPTED = ''RESUME_INTERRUPTED''"
| "trigger_type_value TT_EXECUTION_FAILED = ''EXECUTION_FAILED''"
| "trigger_type_value TT_ASSET_VERSION_UNAVAILABLE = ''ASSET_VERSION_UNAVAILABLE''"
| "trigger_type_value TT_MARK_OLD_EPOCH_INTERRUPTED = ''MARK_OLD_EPOCH_INTERRUPTED''"
| "trigger_type_value TT_STALE_ACTIVE_OUTCOME = ''STALE_ACTIVE_OUTCOME''"

datatype error_code =
    EC_VALIDATION_ERROR | EC_CASE_NOT_FOUND | EC_JOB_NOT_FOUND | EC_JOB_CASE_MISMATCH
  | EC_ATTACHMENT_NOT_FOUND | EC_ARTIFACT_NOT_FOUND | EC_RESOURCE_NOT_FOUND
  | EC_INVALID_CASE_STATE | EC_ACTIVE_JOB_EXISTS | EC_NEW_CASE_REQUIRED
  | EC_REVISION_CONFLICT | EC_IDEMPOTENCY_CONFLICT | EC_RESOURCE_CASE_MISMATCH
  | EC_ATTACHMENT_NOT_READY | EC_UPLOAD_INCOMPLETE | EC_RESOURCE_HASH_MISMATCH
  | EC_RESOURCE_SIZE_MISMATCH | EC_RESOURCE_LIMIT_EXCEEDED | EC_PATH_VIOLATION
  | EC_CONTEXT_LIMIT | EC_ASSET_VERSION_UNAVAILABLE | EC_OUTCOME_MISSING
  | EC_OUTCOME_INVALID | EC_BACKEND_START_FAILED | EC_BACKEND_CANCELLED
  | EC_BACKEND_TIMEOUT | EC_BACKEND_OUTPUT_LIMIT | EC_BACKEND_EXIT_FAILED
  | EC_WORKSPACE_LIMIT | EC_WORKSPACE_PREPARE_FAILED | EC_RESOURCE_STAGE_FAILED
  | EC_EXECUTION_RECORD_FAILED | EC_LOGPARSE_FAILED | EC_LOGPARSE_OUTPUT_INVALID
  | EC_DISPATCH_REJECTED | EC_CLAIM_REJECTED | EC_INSTANCE_LOCKED | EC_STATE_CORRUPT
  | EC_STATE_SCHEMA_UNSUPPORTED | EC_STATE_WRITE_FAILED | EC_RESOURCE_PUBLISH_FAILED
  | EC_CONFIG_INVALID | EC_NO_CAPABILITY

fun error_code_value :: "error_code \<Rightarrow> string" where
  "error_code_value EC_VALIDATION_ERROR = ''VALIDATION_ERROR''"
| "error_code_value EC_CASE_NOT_FOUND = ''CASE_NOT_FOUND''"
| "error_code_value EC_JOB_NOT_FOUND = ''JOB_NOT_FOUND''"
| "error_code_value EC_JOB_CASE_MISMATCH = ''JOB_CASE_MISMATCH''"
| "error_code_value EC_ATTACHMENT_NOT_FOUND = ''ATTACHMENT_NOT_FOUND''"
| "error_code_value EC_ARTIFACT_NOT_FOUND = ''ARTIFACT_NOT_FOUND''"
| "error_code_value EC_RESOURCE_NOT_FOUND = ''RESOURCE_NOT_FOUND''"
| "error_code_value EC_INVALID_CASE_STATE = ''INVALID_CASE_STATE''"
| "error_code_value EC_ACTIVE_JOB_EXISTS = ''ACTIVE_JOB_EXISTS''"
| "error_code_value EC_NEW_CASE_REQUIRED = ''NEW_CASE_REQUIRED''"
| "error_code_value EC_REVISION_CONFLICT = ''REVISION_CONFLICT''"
| "error_code_value EC_IDEMPOTENCY_CONFLICT = ''IDEMPOTENCY_CONFLICT''"
| "error_code_value EC_RESOURCE_CASE_MISMATCH = ''RESOURCE_CASE_MISMATCH''"
| "error_code_value EC_ATTACHMENT_NOT_READY = ''ATTACHMENT_NOT_READY''"
| "error_code_value EC_UPLOAD_INCOMPLETE = ''UPLOAD_INCOMPLETE''"
| "error_code_value EC_RESOURCE_HASH_MISMATCH = ''RESOURCE_HASH_MISMATCH''"
| "error_code_value EC_RESOURCE_SIZE_MISMATCH = ''RESOURCE_SIZE_MISMATCH''"
| "error_code_value EC_RESOURCE_LIMIT_EXCEEDED = ''RESOURCE_LIMIT_EXCEEDED''"
| "error_code_value EC_PATH_VIOLATION = ''PATH_VIOLATION''"
| "error_code_value EC_CONTEXT_LIMIT = ''CONTEXT_LIMIT''"
| "error_code_value EC_ASSET_VERSION_UNAVAILABLE = ''ASSET_VERSION_UNAVAILABLE''"
| "error_code_value EC_OUTCOME_MISSING = ''OUTCOME_MISSING''"
| "error_code_value EC_OUTCOME_INVALID = ''OUTCOME_INVALID''"
| "error_code_value EC_BACKEND_START_FAILED = ''BACKEND_START_FAILED''"
| "error_code_value EC_BACKEND_CANCELLED = ''BACKEND_CANCELLED''"
| "error_code_value EC_BACKEND_TIMEOUT = ''BACKEND_TIMEOUT''"
| "error_code_value EC_BACKEND_OUTPUT_LIMIT = ''BACKEND_OUTPUT_LIMIT''"
| "error_code_value EC_BACKEND_EXIT_FAILED = ''BACKEND_EXIT_FAILED''"
| "error_code_value EC_WORKSPACE_LIMIT = ''WORKSPACE_LIMIT''"
| "error_code_value EC_WORKSPACE_PREPARE_FAILED = ''WORKSPACE_PREPARE_FAILED''"
| "error_code_value EC_RESOURCE_STAGE_FAILED = ''RESOURCE_STAGE_FAILED''"
| "error_code_value EC_EXECUTION_RECORD_FAILED = ''EXECUTION_RECORD_FAILED''"
| "error_code_value EC_LOGPARSE_FAILED = ''LOGPARSE_FAILED''"
| "error_code_value EC_LOGPARSE_OUTPUT_INVALID = ''LOGPARSE_OUTPUT_INVALID''"
| "error_code_value EC_DISPATCH_REJECTED = ''DISPATCH_REJECTED''"
| "error_code_value EC_CLAIM_REJECTED = ''CLAIM_REJECTED''"
| "error_code_value EC_INSTANCE_LOCKED = ''INSTANCE_LOCKED''"
| "error_code_value EC_STATE_CORRUPT = ''STATE_CORRUPT''"
| "error_code_value EC_STATE_SCHEMA_UNSUPPORTED = ''STATE_SCHEMA_UNSUPPORTED''"
| "error_code_value EC_STATE_WRITE_FAILED = ''STATE_WRITE_FAILED''"
| "error_code_value EC_RESOURCE_PUBLISH_FAILED = ''RESOURCE_PUBLISH_FAILED''"
| "error_code_value EC_CONFIG_INVALID = ''CONFIG_INVALID''"
| "error_code_value EC_NO_CAPABILITY = ''NO_CAPABILITY''"

section \<open>Groups of members\<close>

text \<open>\<open>OUTCOME_REJECTION_CODES\<close> and \<open>UNTRUSTED_OUTCOME_REJECTION_CODES\<close>.\<close>

definition untrusted_outcome_rejection_codes :: "error_code list" where
  "untrusted_outcome_rejection_codes = [EC_OUTCOME_MISSING, EC_EXECUTION_RECORD_FAILED, EC_OUTCOME_INVALID]"

definition outcome_rejection_codes :: "error_code list" where
  "outcome_rejection_codes =
     untrusted_outcome_rejection_codes @ [EC_RESOURCE_LIMIT_EXCEEDED, EC_RESOURCE_HASH_MISMATCH]"

text \<open>The Methods V2 terminal vocabulary (\<open>contracts/methods_reason_v2.py\<close>): the terminal
  status of a projection and the reason codes of an unresolved and of a failed terminal.\<close>

datatype methods_terminal_status = MT_RESOLVED | MT_UNRESOLVED | MT_FAILED

text \<open>Case statuses that no trigger leaves.\<close>

fun terminal_status :: "case_status \<Rightarrow> bool" where
  "terminal_status CS_RESOLVED = True"
| "terminal_status CS_PARTIALLY_RESOLVED = True"
| "terminal_status CS_UNRESOLVED = True"
| "terminal_status CS_FAILED = True"
| "terminal_status CS_CANCELLED = True"
| "terminal_status _ = False"

text \<open>Job statuses of a finished execution.\<close>

fun finished_job_status :: "job_status \<Rightarrow> bool" where
  "finished_job_status JS_PENDING = False"
| "finished_job_status JS_RUNNING = False"
| "finished_job_status _ = True"

definition fatal_failure_codes :: "error_code list" where
  "fatal_failure_codes =
    [EC_CONTEXT_LIMIT, EC_ASSET_VERSION_UNAVAILABLE, EC_BACKEND_OUTPUT_LIMIT, EC_OUTCOME_MISSING,
     EC_OUTCOME_INVALID, EC_WORKSPACE_LIMIT, EC_LOGPARSE_OUTPUT_INVALID, EC_CONFIG_INVALID,
     EC_RESOURCE_NOT_FOUND, EC_RESOURCE_HASH_MISMATCH, EC_RESOURCE_SIZE_MISMATCH,
     EC_RESOURCE_LIMIT_EXCEEDED, EC_PATH_VIOLATION]"

definition conditional_failure_codes :: "error_code list" where
  "conditional_failure_codes =
    [EC_BACKEND_START_FAILED, EC_BACKEND_CANCELLED, EC_BACKEND_TIMEOUT, EC_BACKEND_EXIT_FAILED,
     EC_WORKSPACE_PREPARE_FAILED, EC_RESOURCE_STAGE_FAILED, EC_EXECUTION_RECORD_FAILED,
     EC_LOGPARSE_FAILED]"

definition application_error_retryable_codes :: "error_code list" where
  "application_error_retryable_codes =
    [EC_REVISION_CONFLICT, EC_ATTACHMENT_NOT_READY, EC_UPLOAD_INCOMPLETE, EC_DISPATCH_REJECTED,
     EC_INSTANCE_LOCKED, EC_STATE_WRITE_FAILED, EC_RESOURCE_PUBLISH_FAILED]"

definition execution_failure_retryable_codes :: "error_code list" where
  "execution_failure_retryable_codes =
    [EC_BACKEND_START_FAILED, EC_BACKEND_CANCELLED, EC_BACKEND_TIMEOUT, EC_BACKEND_EXIT_FAILED,
     EC_WORKSPACE_PREPARE_FAILED, EC_RESOURCE_STAGE_FAILED, EC_EXECUTION_RECORD_FAILED,
     EC_LOGPARSE_FAILED]"

text \<open>\<open>COORDINATOR_PLAN_ERROR_CODES_BY_TRIGGER\<close>.\<close>

fun coordinator_plan_error_codes :: "trigger_type \<Rightarrow> error_code list" where
  "coordinator_plan_error_codes TT_CREATE_CASE =
     [EC_INVALID_CASE_STATE, EC_ACTIVE_JOB_EXISTS, EC_VALIDATION_ERROR]"
| "coordinator_plan_error_codes TT_DIAGNOSIS_OUTCOME =
     [EC_INVALID_CASE_STATE, EC_NEW_CASE_REQUIRED, EC_VALIDATION_ERROR]"
| "coordinator_plan_error_codes TT_SUBMIT_SUPPLEMENT =
     [EC_INVALID_CASE_STATE, EC_ACTIVE_JOB_EXISTS, EC_NEW_CASE_REQUIRED, EC_VALIDATION_ERROR]"
| "coordinator_plan_error_codes TT_RESUME_INTERRUPTED =
     [EC_INVALID_CASE_STATE, EC_ACTIVE_JOB_EXISTS, EC_VALIDATION_ERROR]"
| "coordinator_plan_error_codes _ = [EC_INVALID_CASE_STATE, EC_VALIDATION_ERROR]"

lemma coordinator_codes_not_retryable:
  "c \<in> set (coordinator_plan_error_codes tt) \<Longrightarrow> c \<notin> set application_error_retryable_codes"
  by (cases tt) (auto simp: application_error_retryable_codes_def)

end
