(* ===== verification/Methods_Reasons.thy ===== *)
theory Methods_Reasons
  imports PL_Prelude
begin

text \<open>
  \<open>contracts/methods_reason_v2.py\<close>: the closed vocabulary of terminal reasons of a Methods
  evaluation, its groups, and the fixed public text of every reason.
\<close>

datatype method_verdict = CONFIRMED | REJECTED | UNKNOWN

datatype method_reason =
    MR_SPECIALIST_PROTOCOL_REPAIR_EXHAUSTED | MR_REVIEWER_PROTOCOL_REPAIR_EXHAUSTED |
    MR_SPECIALIST_SEMANTIC_INVALID | MR_REVIEWER_SEMANTIC_INVALID |
    MR_SPECIALIST_MODEL_EXECUTION_FAILED | MR_REVIEWER_MODEL_EXECUTION_FAILED |
    MR_SPECIALIST_REVIEWER_DISAGREEMENT | MR_INCOMPLETE_EVALUATION | MR_NO_CONFIRMED_METHOD |
    MR_NO_MATCHING_METHOD_EVIDENCE | MR_RESOURCE_SNAPSHOT_DRIFT | MR_SERVER_INVARIANT_VIOLATION
    | MR_AUDIT_ARCHIVE_FAILED

fun method_reason_str :: "method_reason \<Rightarrow> text_t" where
  "method_reason_str MR_SPECIALIST_PROTOCOL_REPAIR_EXHAUSTED = ''SPECIALIST_PROTOCOL_REPAIR_EXHAUSTED''"
| "method_reason_str MR_REVIEWER_PROTOCOL_REPAIR_EXHAUSTED = ''REVIEWER_PROTOCOL_REPAIR_EXHAUSTED''"
| "method_reason_str MR_SPECIALIST_SEMANTIC_INVALID = ''SPECIALIST_SEMANTIC_INVALID''"
| "method_reason_str MR_REVIEWER_SEMANTIC_INVALID = ''REVIEWER_SEMANTIC_INVALID''"
| "method_reason_str MR_SPECIALIST_MODEL_EXECUTION_FAILED = ''SPECIALIST_MODEL_EXECUTION_FAILED''"
| "method_reason_str MR_REVIEWER_MODEL_EXECUTION_FAILED = ''REVIEWER_MODEL_EXECUTION_FAILED''"
| "method_reason_str MR_SPECIALIST_REVIEWER_DISAGREEMENT = ''SPECIALIST_REVIEWER_DISAGREEMENT''"
| "method_reason_str MR_INCOMPLETE_EVALUATION = ''INCOMPLETE_EVALUATION''"
| "method_reason_str MR_NO_CONFIRMED_METHOD = ''NO_CONFIRMED_METHOD''"
| "method_reason_str MR_NO_MATCHING_METHOD_EVIDENCE = ''NO_MATCHING_METHOD_EVIDENCE''"
| "method_reason_str MR_RESOURCE_SNAPSHOT_DRIFT = ''RESOURCE_SNAPSHOT_DRIFT''"
| "method_reason_str MR_SERVER_INVARIANT_VIOLATION = ''SERVER_INVARIANT_VIOLATION''"
| "method_reason_str MR_AUDIT_ARCHIVE_FAILED = ''AUDIT_ARCHIVE_FAILED''"

fun method_public_reason_text :: "method_reason \<Rightarrow> text_t" where
  "method_public_reason_text MR_SPECIALIST_PROTOCOL_REPAIR_EXHAUSTED =
     utf8 [83, 112, 101, 99, 105, 97, 108, 105, 115, 116, 32, 231, 154, 132, 232, 190, 147, 229,
       135, 186, 228, 191, 174, 229, 164, 141, 228, 184, 128, 230, 172, 161, 229, 144, 142,
       228, 187, 141, 228, 184, 141, 231, 172, 166, 229, 144, 136, 231, 187, 147, 230, 158,
       132, 232, 166, 129, 230, 177, 130, 227, 128, 130]"
| "method_public_reason_text MR_REVIEWER_PROTOCOL_REPAIR_EXHAUSTED =
     utf8 [82, 101, 118, 105, 101, 119, 101, 114, 32, 231, 154, 132, 232, 190, 147, 229, 135, 186,
       228, 191, 174, 229, 164, 141, 228, 184, 128, 230, 172, 161, 229, 144, 142, 228, 187,
       141, 228, 184, 141, 231, 172, 166, 229, 144, 136, 231, 187, 147, 230, 158, 132, 232,
       166, 129, 230, 177, 130, 227, 128, 130]"
| "method_public_reason_text MR_SPECIALIST_SEMANTIC_INVALID =
     utf8 [83, 112, 101, 99, 105, 97, 108, 105, 115, 116, 32, 231, 154, 132, 232, 175, 132, 228,
       188, 176, 231, 187, 147, 230, 158, 156, 228, 184, 141, 231, 172, 166, 229, 144, 136,
       232, 175, 132, 228, 188, 176, 232, 167, 132, 229, 136, 153, 227, 128, 130]"
| "method_public_reason_text MR_REVIEWER_SEMANTIC_INVALID =
     utf8 [82, 101, 118, 105, 101, 119, 101, 114, 32, 231, 154, 132, 232, 175, 132, 228, 188, 176,
       231, 187, 147, 230, 158, 156, 228, 184, 141, 231, 172, 166, 229, 144, 136, 232, 175,
       132, 228, 188, 176, 232, 167, 132, 229, 136, 153, 227, 128, 130]"
| "method_public_reason_text MR_SPECIALIST_MODEL_EXECUTION_FAILED =
     utf8 [83, 112, 101, 99, 105, 97, 108, 105, 115, 116, 32, 232, 175, 132, 228, 188, 176, 230,
       156, 170, 232, 131, 189, 229, 174, 140, 230, 136, 144, 227, 128, 130]"
| "method_public_reason_text MR_REVIEWER_MODEL_EXECUTION_FAILED =
     utf8 [82, 101, 118, 105, 101, 119, 101, 114, 32, 232, 175, 132, 228, 188, 176, 230, 156, 170,
       232, 131, 189, 229, 174, 140, 230, 136, 144, 227, 128, 130]"
| "method_public_reason_text MR_SPECIALIST_REVIEWER_DISAGREEMENT =
     utf8 [83, 112, 101, 99, 105, 97, 108, 105, 115, 116, 32, 228, 184, 142, 32, 82, 101, 118, 105,
       101, 119, 101, 114, 32, 231, 154, 132, 229, 136, 164, 229, 174, 154, 228, 184, 141, 228,
       184, 128, 232, 135, 180, 227, 128, 130]"
| "method_public_reason_text MR_INCOMPLETE_EVALUATION =
     utf8 [232, 135, 179, 229, 176, 145, 228, 184, 128, 233, 161, 185, 232, 175, 132, 228, 188,
       176, 231, 187, 147, 230, 158, 156, 228, 187, 141, 228, 184, 186, 32, 85, 78, 75, 78, 79,
       87, 78, 227, 128, 130]"
| "method_public_reason_text MR_NO_CONFIRMED_METHOD =
     utf8 [230, 178, 161, 230, 156, 137, 228, 187, 187, 228, 189, 149, 230, 150, 185, 230, 179,
       149, 232, 142, 183, 229, 190, 151, 32, 67, 79, 78, 70, 73, 82, 77, 69, 68, 32, 229, 136,
       164, 229, 174, 154, 227, 128, 130]"
| "method_public_reason_text MR_NO_MATCHING_METHOD_EVIDENCE =
     utf8 [229, 189, 147, 229, 137, 141, 230, 151, 165, 229, 191, 151, 228, 184, 173, 230, 178,
       161, 230, 156, 137, 229, 140, 185, 233, 133, 141, 228, 187, 187, 228, 189, 149, 229,
       183, 178, 229, 138, 160, 232, 189, 189, 230, 150, 185, 230, 179, 149, 231, 154, 132,
       232, 175, 129, 230, 141, 174, 227, 128, 130]"
| "method_public_reason_text MR_RESOURCE_SNAPSHOT_DRIFT =
     utf8 [232, 175, 132, 228, 188, 176, 229, 174, 140, 230, 136, 144, 229, 137, 141, 239, 188,
       140, 229, 134, 187, 231, 187, 147, 231, 154, 132, 232, 181, 132, 230, 186, 144, 229,
       191, 171, 231, 133, 167, 229, 183, 178, 229, 143, 145, 231, 148, 159, 229, 143, 152,
       229, 140, 150, 227, 128, 130]"
| "method_public_reason_text MR_SERVER_INVARIANT_VIOLATION =
     utf8 [230, 156, 141, 229, 138, 161, 231, 171, 175, 230, 156, 170, 232, 131, 189, 228, 191,
       157, 230, 140, 129, 32, 69, 118, 105, 100, 101, 110, 99, 101, 32, 86, 50, 32, 231, 154,
       132, 232, 175, 132, 228, 188, 176, 231, 186, 166, 230, 157, 159, 227, 128, 130]"
| "method_public_reason_text MR_AUDIT_ARCHIVE_FAILED =
     utf8 [232, 175, 132, 228, 188, 176, 229, 174, 161, 232, 174, 161, 232, 174, 176, 229, 189,
       149, 230, 156, 170, 232, 131, 189, 229, 174, 140, 230, 149, 180, 229, 189, 146, 230,
       161, 163, 227, 128, 130]"

definition specialist_unresolved_reason_codes :: "method_reason list" where
  "specialist_unresolved_reason_codes =
     [MR_SPECIALIST_PROTOCOL_REPAIR_EXHAUSTED, MR_SPECIALIST_SEMANTIC_INVALID,
      MR_SPECIALIST_MODEL_EXECUTION_FAILED, MR_NO_MATCHING_METHOD_EVIDENCE]"

definition reviewer_unresolved_reason_codes :: "method_reason list" where
  "reviewer_unresolved_reason_codes =
     [MR_REVIEWER_PROTOCOL_REPAIR_EXHAUSTED, MR_REVIEWER_SEMANTIC_INVALID,
      MR_REVIEWER_MODEL_EXECUTION_FAILED]"

definition consensus_unresolved_reason_codes :: "method_reason list" where
  "consensus_unresolved_reason_codes =
     [MR_SPECIALIST_REVIEWER_DISAGREEMENT, MR_INCOMPLETE_EVALUATION, MR_NO_CONFIRMED_METHOD]"

definition unresolved_method_reason_codes :: "method_reason list" where
  "unresolved_method_reason_codes =
     specialist_unresolved_reason_codes @ reviewer_unresolved_reason_codes @ consensus_unresolved_reason_codes"

definition failed_method_reason_codes :: "method_reason list" where
  "failed_method_reason_codes =
     [MR_RESOURCE_SNAPSHOT_DRIFT, MR_SERVER_INVARIANT_VIOLATION, MR_AUDIT_ARCHIVE_FAILED]"

lemmas reason_codes = unresolved_method_reason_codes_def specialist_unresolved_reason_codes_def
  reviewer_unresolved_reason_codes_def consensus_unresolved_reason_codes_def failed_method_reason_codes_def

lemma reason_groups_partition:
  "r \<in> set unresolved_method_reason_codes \<longleftrightarrow> r \<notin> set failed_method_reason_codes"
  by (cases r) (simp_all add: reason_codes)

lemma method_reason_str_inj: "method_reason_str r = method_reason_str s \<longleftrightarrow> r = s"
  by (cases r; cases s) simp_all

lemma public_reason_text_nonempty [simp]: "method_public_reason_text r \<noteq> []"
  by (cases r) (simp_all add: utf8_def)

declare method_public_reason_text.simps [simp del]

end
