(* ===== verification/Contract_Models.thy ===== *)
theory Contract_Models
  imports Contract_Enums Methods_Reasons
begin

text \<open>
  The data of \<open>contracts/models.py\<close>: one record per pydantic model, one field per attribute,
  in the source's order, with a short prefix per record. Unions become datatypes; the two-armed
  \<open>*Binding\<close> models, whose validator demands exactly one non-null arm, become datatypes
  with one constructor per arm. Attributes that no modelled operation reads or copies
  (staged files, descriptions, schema versions, audit details) are left out.
\<close>

section \<open>References, limits and the problem specification\<close>

record versioned_ref =
  ref_id :: text_t
  ref_version :: text_t
  ref_content_hash :: sha256_t

record resource_limits =
  rl_context_bytes :: int
  rl_wall_time_seconds :: int
  rl_stdout_stderr_bytes :: int
  rl_workspace_bytes :: int

record problem_spec =
  ps_statement :: text_t
  ps_expected_behavior :: text_t
  ps_actual_behavior :: text_t
  ps_scope :: text_t
  ps_goals :: "text_t list"
  ps_non_goals :: "text_t list"
  ps_constraints :: "text_t list"
  ps_completion_criteria :: "text_t list"
  ps_revision :: int

text \<open>A patch field is present (\<open>model_fields_set\<close>) exactly when it is \<open>Some\<close>.\<close>

record problem_spec_patch =
  pp_statement :: "text_t option"
  pp_expected_behavior :: "text_t option"
  pp_actual_behavior :: "text_t option"
  pp_scope :: "text_t option"
  pp_goals :: "text_t list option"
  pp_non_goals :: "text_t list option"
  pp_constraints :: "text_t list option"
  pp_completion_criteria :: "text_t list option"

section \<open>Diagnosis items and requirements\<close>

record diagnosis_provenance =
  pv_source_type :: diagnosis_provenance_type
  pv_source_ref :: opaque_id
  pv_input_name :: "text_t option"

record diagnosis_item =
  it_item_id :: opaque_id
  it_statement :: text_t
  it_status :: diagnosis_item_status
  it_provenance :: diagnosis_provenance
  it_evidence_refs :: "opaque_id list"
  it_created_revision :: int
  it_supersedes :: "opaque_id list"

record input_constraints =
  ic_min_utf8_bytes :: int
  ic_max_utf8_bytes :: int
  ic_pattern :: "text_t option"
  ic_allowed_values :: "text_t list"

record attachment_constraints =
  ac_allowed_content_types :: "text_t list"
  ac_min_count :: int
  ac_max_count :: int

datatype requirement_constraints =
    InputConstraints input_constraints
  | AttachmentConstraints attachment_constraints

record pending_requirement =
  rq_requirement_id :: opaque_id
  rq_kind :: requirement_kind
  rq_name :: text_t
  rq_prompt :: text_t
  rq_required :: bool
  rq_constraints :: requirement_constraints
  rq_status :: requirement_status
  rq_requested_by_job_id :: opaque_id
  rq_fulfilled_by_refs :: "opaque_id list"
  rq_supplement_policy :: supplement_policy

section \<open>Candidates\<close>

record criterion_mapping =
  cm_criterion_index :: int
  cm_criterion :: text_t
  cm_status :: completion_criterion_status
  cm_evidence_refs :: "opaque_id list"
  cm_explanation :: text_t

record causal_factor =
  cf_factor_id :: text_t
  cf_role :: causal_factor_role
  cf_statement :: text_t
  cf_evidence_refs :: "opaque_id list"
  cf_required_rule_ids :: "text_t list"

record candidate_target =
  ct_conclusion_id :: opaque_id
  ct_revision :: int
  ct_content_hash :: sha256_t

record candidate_conclusion =
  cc_conclusion_id :: opaque_id
  cc_revision :: int
  cc_content_hash :: sha256_t
  cc_resolution_status :: diagnosis_resolution_status
  cc_terminal_path_id :: text_t
  cc_statement :: text_t
  cc_causal_factors :: "causal_factor list"
  cc_candidate_factors :: "causal_factor list"
  cc_excluded_factors :: "causal_factor list"
  cc_supporting_evidence_refs :: "opaque_id list"
  cc_completion_criteria_mapping :: "criterion_mapping list"
  cc_proposed_by_job_id :: opaque_id
  cc_status :: candidate_status

section \<open>Methods V2 identities\<close>

record methods_review_target =
  mt_evaluation_id :: opaque_id
  mt_source_job_id :: opaque_id
  mt_graph_ref :: text_t
  mt_plan_ref :: text_t
  mt_skill_ref :: versioned_ref
  mt_reviewed_state_revision :: int

record reviewer_evaluation =
  re_evaluation_ref :: text_t
  re_verdict :: method_verdict
  re_supporting_event_refs :: "text_t list"
  re_reason :: text_t

record methods_reviewer_result =
  mw_review_job_id :: opaque_id
  mw_target :: methods_review_target
  mw_evaluations :: "reviewer_evaluation list"
  mw_repair_used :: bool

record methods_terminal_projection =
  mp_case_id :: opaque_id
  mp_source_job_id :: opaque_id
  mp_result_ref :: text_t
  mp_evaluation_id :: opaque_id
  mp_status :: methods_terminal_status
  mp_plan_ref :: text_t
  mp_evidence_graph_ref :: text_t
  mp_reason_code :: "method_reason option"
  mp_diagnostic_id :: text_t
  mp_diagnostic_evaluation_ref :: "text_t option"
  mp_confirmed_evaluation_refs :: "text_t list"
  mp_confirmed_method_ids :: "text_t list"
  mp_confirmed_event_refs :: "text_t list"
  mp_confirmed_hit_refs :: "text_t list"
  mp_limitations :: "text_t list"
  mp_reasons :: "text_t list"

section \<open>Diagnosis state and snapshots of it\<close>

record diagnosis_state =
  ds_revision :: int
  ds_problem_spec :: problem_spec
  ds_user_facts :: "diagnosis_item list"
  ds_confirmed_facts :: "diagnosis_item list"
  ds_active_hypotheses :: "diagnosis_item list"
  ds_rejected_hypotheses :: "diagnosis_item list"
  ds_open_questions :: "diagnosis_item list"
  ds_pending_requirements :: "pending_requirement list"
  ds_evidence_refs :: "opaque_id list"
  ds_candidate_conclusion :: "candidate_conclusion option"

record context_snapshot =
  cx_diagnosis_state_revision :: int
  cx_problem_spec :: problem_spec
  cx_user_facts :: "diagnosis_item list"
  cx_confirmed_facts :: "diagnosis_item list"
  cx_active_hypotheses :: "diagnosis_item list"
  cx_rejected_hypotheses :: "diagnosis_item list"
  cx_open_questions :: "diagnosis_item list"
  cx_pending_requirements :: "pending_requirement list"
  cx_evidence_refs :: "opaque_id list"
  cx_candidate_conclusion :: "candidate_conclusion option"

section \<open>Failures and results\<close>

record case_failure =
  fl_code :: error_code
  fl_message :: text_t
  fl_source_job_id :: "opaque_id option"
  fl_source_outcome_id :: "opaque_id option"
  fl_occurred_at :: timestamp
  fl_reason_code :: "text_t option"
  fl_diagnostic_id :: "text_t option"

datatype detail_value = DStr text_t | DInt int | DBool bool

record error_detail =
  ed_field :: "text_t option"
  ed_resource_type :: "text_t option"
  ed_resource_id :: "opaque_id option"
  ed_resource_ref :: "versioned_ref option"
  ed_expected :: "detail_value option"
  ed_actual :: "detail_value option"
  ed_limit :: "int option"
  ed_observed :: "int option"

record application_error =
  ae_code :: error_code
  ae_message :: text_t
  ae_details :: "error_detail list"
  ae_retryable :: bool

record execution_failure =
  xf_stage :: execution_stage
  xf_code :: error_code
  xf_message :: text_t
  xf_retryable :: bool
  xf_details :: "error_detail list"
  xf_reason_code :: "text_t option"
  xf_diagnostic_id :: "text_t option"

datatype evidence_binding =
    ExistingEvidence opaque_id
  | ProposedEvidence proposal_key

datatype source_binding =
    ExistingSource opaque_id
  | ArtifactSource proposal_key

record unresolved_result_draft =
  ud_source_job_id :: opaque_id
  ud_source_outcome_id :: opaque_id
  ud_reason_code :: unresolved_reason_code
  ud_summary :: text_t
  ud_blocking_rule_ids :: "text_t list"
  ud_evidence_bindings :: "evidence_binding list"
  ud_user_result_proposal_key :: proposal_key
  ud_recommended_next_step :: text_t
  ud_occurred_at :: timestamp

record unresolved_result =
  un_source_job_id :: opaque_id
  un_source_outcome_id :: opaque_id
  un_reason_code :: unresolved_reason_code
  un_summary :: text_t
  un_blocking_rule_ids :: "text_t list"
  un_evidence_refs :: "opaque_id list"
  un_user_result_artifact_id :: opaque_id
  un_recommended_next_step :: text_t
  un_occurred_at :: timestamp
  un_audit_artifact_id :: opaque_id

record generic_result =
  gr_status :: generic_result_status
  gr_conclusion :: text_t
  gr_root_cause_analysis :: text_t
  gr_skill_name :: text_t
  gr_source_job_id :: opaque_id
  gr_source_outcome_id :: opaque_id
  gr_occurred_at :: timestamp

record generic_result_v2_draft =
  gd_format_version :: int
  gd_status :: generic_result_status
  gd_report_markdown :: text_t
  gd_report_utf8_size :: int
  gd_report_sha256 :: sha256_t
  gd_skill_name :: text_t
  gd_source_job_id :: opaque_id
  gd_source_outcome_id :: opaque_id
  gd_occurred_at :: timestamp

record generic_result_v2 =
  g2_format_version :: int
  g2_status :: generic_result_status
  g2_report_markdown :: text_t
  g2_report_utf8_size :: int
  g2_report_sha256 :: sha256_t
  g2_report_artifact_id :: opaque_id
  g2_skill_name :: text_t
  g2_source_job_id :: opaque_id
  g2_source_outcome_id :: opaque_id
  g2_occurred_at :: timestamp

record report_continuation =
  rc_parent_run_id :: opaque_id
  rc_parent_case_id :: opaque_id
  rc_parent_report_artifact_id :: opaque_id
  rc_parent_report_sha256 :: sha256_t
  rc_parent_report_markdown :: text_t
  rc_parent_report_version :: int
  rc_change_note :: text_t
  rc_goal :: text_t
  rc_followup_context_json :: "text_t option"

section \<open>Cases and jobs\<close>

record case_t =
  cs_case_id :: opaque_id
  cs_status :: case_status
  cs_case_revision :: int
  cs_archive_status :: text_t
  cs_raw_problem_text :: text_t
  cs_product_line :: "text_t option"
  cs_initial_log_archive_expected :: bool
  cs_continuation_context :: "report_continuation option"
  cs_diagnosis_state :: diagnosis_state
  cs_active_job_id :: "opaque_id option"
  cs_selected_skill_ref :: "versioned_ref option"
  cs_final_result :: "candidate_conclusion option"
  cs_unresolved_result :: "unresolved_result option"
  cs_generic_result :: "generic_result option"
  cs_generic_result_v2 :: "generic_result_v2 option"
  cs_methods_result :: "methods_terminal_projection option"
  cs_failure :: "case_failure option"
  cs_created_at :: timestamp
  cs_updated_at :: timestamp

record job =
  jb_job_id :: opaque_id
  jb_case_id :: opaque_id
  jb_job_type :: job_type
  jb_diagnosis_mode :: "diagnosis_mode option"
  jb_review_policy :: "review_policy option"
  jb_generic_skill_name :: "text_t option"
  jb_generic_log_preparation :: "text_t option"
  jb_generic_problem_text :: "text_t option"
  jb_generic_product_line :: "text_t option"
  jb_generic_log_archive_expected :: bool
  jb_generic_supplement_texts :: "text_t list"
  jb_continuation_context :: "report_continuation option"
  jb_status :: job_status
  jb_goal :: text_t
  jb_base_state_revision :: int
  jb_context_snapshot :: "context_snapshot option"
  jb_evidence_refs :: "opaque_id list"
  jb_attachment_refs :: "opaque_id list"
  jb_previous_outcome_refs :: "opaque_id list"
  jb_artifact_refs :: "opaque_id list"
  jb_agent_profile_ref :: versioned_ref
  jb_available_skill_refs :: "versioned_ref list"
  jb_skill_ref :: "versioned_ref option"
  jb_tool_bundle_ref :: versioned_ref
  jb_context_policy_ref :: versioned_ref
  jb_output_contract_ref :: versioned_ref
  jb_logparse_tool_ref :: "versioned_ref option"
  jb_logparse_product :: "text_t option"
  jb_review_target :: "candidate_target option"
  jb_methods_review_target :: "methods_review_target option"
  jb_replacement_for_job_id :: "opaque_id option"
  jb_resource_limits :: resource_limits
  jb_created_at :: timestamp
  jb_started_at :: "timestamp option"
  jb_finished_at :: "timestamp option"
  jb_runtime_epoch :: "opaque_id option"

record continuation_resources =
  cr_evidence_refs :: "opaque_id list"
  cr_attachment_refs :: "opaque_id list"
  cr_artifact_refs :: "opaque_id list"
  cr_previous_outcome_refs :: "opaque_id list"

record runtime_bindings =
  rb_diagnosis_mode :: "diagnosis_mode option"
  rb_review_policy :: "review_policy option"
  rb_generic_skill_name :: "text_t option"
  rb_generic_log_preparation :: "text_t option"
  rb_agent_profile_ref :: versioned_ref
  rb_available_skill_refs :: "versioned_ref list"
  rb_skill_ref :: "versioned_ref option"
  rb_tool_bundle_ref :: versioned_ref
  rb_context_policy_ref :: versioned_ref
  rb_output_contract_ref :: versioned_ref
  rb_logparse_tool_ref :: "versioned_ref option"
  rb_logparse_product :: "text_t option"
  rb_resource_limits :: resource_limits

section \<open>Drafts, deltas and proposals\<close>

record criterion_draft_mapping =
  dm_criterion_index :: int
  dm_criterion :: text_t
  dm_status :: completion_criterion_status
  dm_evidence_bindings :: "evidence_binding list"
  dm_explanation :: text_t

record causal_factor_draft =
  fd_factor_id :: text_t
  fd_role :: causal_factor_role
  fd_statement :: text_t
  fd_evidence_bindings :: "evidence_binding list"
  fd_required_rule_ids :: "text_t list"

record candidate_draft =
  cd_proposal_key :: proposal_key
  cd_existing_conclusion_id :: "opaque_id option"
  cd_resolution_status :: diagnosis_resolution_status
  cd_terminal_path_id :: text_t
  cd_statement :: text_t
  cd_causal_factors :: "causal_factor_draft list"
  cd_candidate_factors :: "causal_factor_draft list"
  cd_excluded_factors :: "causal_factor_draft list"
  cd_supporting_evidence_bindings :: "evidence_binding list"
  cd_completion_criteria_mapping :: "criterion_draft_mapping list"

record finding =
  fn_statement :: text_t
  fn_evidence_bindings :: "evidence_binding list"

record item_draft =
  dr_item_id :: opaque_id
  dr_statement :: text_t
  dr_provenance :: diagnosis_provenance
  dr_evidence_bindings :: "evidence_binding list"
  dr_supersedes :: "opaque_id list"

record item_change =
  ch_item_id :: opaque_id
  ch_statement :: "text_t option"
  ch_reason :: text_t
  ch_evidence_bindings :: "evidence_binding list"

record requirement_fulfillment =
  rf_requirement_id :: opaque_id
  rf_fulfilled_by_refs :: "opaque_id list"

record state_delta =
  sd_problem_spec_patch :: "problem_spec_patch option"
  sd_add_user_facts :: "diagnosis_item list"
  sd_proposed_facts :: "item_draft list"
  sd_add_active_hypotheses :: "item_draft list"
  sd_update_hypotheses :: "item_change list"
  sd_reject_hypotheses :: "item_change list"
  sd_add_open_questions :: "item_draft list"
  sd_resolve_questions :: "item_change list"
  sd_add_pending_requirements :: "pending_requirement list"
  sd_fulfill_requirements :: "requirement_fulfillment list"
  sd_add_evidence_bindings :: "evidence_binding list"

text \<open>The locators of evidence, discriminated by their kind, and the metadata of artifacts, one
  constructor per model of the union.\<close>

datatype evidence_locator =
    UserFactLocator (lo_input_name: text_t)
  | AttachmentLocator "int option" "int option"
  | LogparseLocator text_t "int option" "int option" "timestamp option" "timestamp option"
  | ToolOutputLocator text_t "text_t option"
  | PreviousOutcomeLocator text_t

fun locator_kind :: "evidence_locator \<Rightarrow> evidence_source_type" where
  "locator_kind (UserFactLocator n) = ES_USER_FACT"
| "locator_kind (AttachmentLocator a b) = ES_ATTACHMENT"
| "locator_kind (LogparseLocator p a b c d) = ES_LOGPARSE"
| "locator_kind (ToolOutputLocator p q) = ES_TOOL_OUTPUT"
| "locator_kind (PreviousOutcomeLocator q) = ES_PREVIOUS_OUTCOME"

datatype archive_source_kind = INPUT_ARTIFACT | OUTPUT_PROPOSAL

record archive_source_file =
  as_source_kind :: archive_source_kind
  as_source_ref :: text_t
  as_relative_path :: text_t
  as_archive_name :: text_t
  as_size :: int
  as_sha256 :: sha256_t

record archive_plan =
  an_result_text :: text_t
  an_manifest_json :: text_t
  an_logs :: "archive_source_file list"

record generic_report_metadata =
  gm_description :: text_t
  gm_status :: generic_result_status
  gm_source_job_id :: opaque_id
  gm_source_outcome_id :: opaque_id
  gm_report_utf8_size :: int
  gm_report_sha256 :: sha256_t

record audit_bundle_metadata =
  am_description :: text_t
  am_case_id :: opaque_id
  am_source_job_id :: opaque_id
  am_source_outcome_id :: opaque_id

record logparse_run_metadata =
  lm_tree_manifest_sha256 :: sha256_t
  lm_logparse_version_ref :: versioned_ref
  lm_parse_manifest_relative_path :: text_t
  lm_source_attachment_id :: opaque_id
  lm_source_attachment_sha256 :: sha256_t
  lm_product :: text_t

datatype artifact_metadata =
    UserResultMetadata "archive_plan option"
  | UserResultArchiveMetadata proposal_key int
  | GenericReportMetadata generic_report_metadata
  | DiagnosticExportMetadata text_t
  | LogparseRunMetadata logparse_run_metadata
  | AuditBundleMetadata audit_bundle_metadata

fun metadata_kind :: "artifact_metadata \<Rightarrow> artifact_kind" where
  "metadata_kind (UserResultMetadata p) = AK_USER_RESULT"
| "metadata_kind (UserResultArchiveMetadata k n) = AK_USER_RESULT_ARCHIVE"
| "metadata_kind (GenericReportMetadata m) = AK_GENERIC_REPORT"
| "metadata_kind (DiagnosticExportMetadata f) = AK_DIAGNOSTIC_EXPORT"
| "metadata_kind (LogparseRunMetadata m) = AK_LOGPARSE_RUN"
| "metadata_kind (AuditBundleMetadata m) = AK_AUDIT_BUNDLE"

record tree_entry =
  te_path :: text_t
  te_size :: int
  te_sha256 :: sha256_t

record staged_resource_ref =
  sg_staging_id :: opaque_id
  sg_owner_job_id :: opaque_id
  sg_proposal_key :: proposal_key
  sg_resource_kind :: resource_kind
  sg_size :: int
  sg_sha256 :: sha256_t
  sg_tree_manifest :: "tree_entry list option"

record evidence_proposal =
  ep_proposal_key :: proposal_key
  ep_source_type :: evidence_source_type
  ep_source_binding :: source_binding
  ep_locator :: evidence_locator
  ep_summary :: text_t
  ep_content_hash :: "sha256_t option"
  ep_staged_resource_ref :: "staged_resource_ref option"

record artifact_proposal =
  ap_proposal_key :: proposal_key
  ap_artifact_kind :: artifact_kind
  ap_name :: text_t
  ap_content_type :: text_t
  ap_resource_kind :: resource_kind
  ap_size :: int
  ap_sha256 :: sha256_t
  ap_staged_resource_ref :: staged_resource_ref
  ap_metadata :: artifact_metadata

section \<open>Outcome payloads and the decision audit\<close>

record route_decision =
  rd_kind :: route_kind
  rd_skill_ref :: "versioned_ref option"
  rd_reason :: text_t

record diagnosis_outcome =
  do_findings :: "finding list"
  do_state_delta :: state_delta
  do_requested_input :: "opaque_id list"
  do_requested_attachments :: "opaque_id list"
  do_candidate_conclusion_draft :: "candidate_draft option"
  do_recommended_next_step :: text_t

record generic_diagnosis_outcome =
  go_status :: generic_result_status
  go_conclusion :: text_t
  go_root_cause_analysis :: text_t
  go_skill_name :: text_t

record generic_diagnosis_outcome_v2 =
  g2o_format_version :: int
  g2o_status :: generic_result_status
  g2o_report_markdown :: text_t
  g2o_report_utf8_size :: int
  g2o_report_sha256 :: sha256_t
  g2o_skill_name :: text_t

record review_assessment =
  ra_candidate_conclusion_id :: opaque_id
  ra_candidate_revision :: int
  ra_candidate_content_hash :: sha256_t
  ra_reviewed_state_revision :: int
  ra_reviewed_evidence_refs :: "opaque_id list"
  ra_verdict :: review_verdict
  ra_requested_requirement_ids :: "opaque_id list"
  ra_recommendation :: text_t

datatype outcome_payload =
    RoutePayload route_decision
  | DiagnosisPayload diagnosis_outcome
  | ReviewPayload review_assessment
  | GenericPayload generic_diagnosis_outcome
  | GenericV2Payload generic_diagnosis_outcome_v2

record rule_claim =
  cl_rule_id :: text_t
  cl_claimed_result :: rule_claim_result

record rule_evaluation =
  ev_rule_id :: text_t
  ev_status :: server_rule_status
  ev_evidence_bindings :: "evidence_binding list"
  ev_issues :: "text_t list"

record decision_rule_audit =
  ar_rule_id :: text_t
  ar_agent_claim :: "rule_claim option"
  ar_server_evaluation :: rule_evaluation

record decision_audit =
  au_job_id :: opaque_id
  au_case_id :: opaque_id
  au_job_type :: job_type
  au_skill_ref :: versioned_ref
  au_candidate_target :: "candidate_target option"
  au_selected_terminal_path_id :: text_t
  au_terminal_resolution_status :: "diagnosis_resolution_status option"
  au_required_rule_ids :: "text_t list"
  au_required_evidence_bindings :: "evidence_binding list"
  au_rules :: "decision_rule_audit list"

record job_outcome =
  oc_outcome_id :: opaque_id
  oc_job_id :: opaque_id
  oc_case_id :: opaque_id
  oc_job_type :: job_type
  oc_base_state_revision :: int
  oc_result_type :: outcome_result_type
  oc_payload :: "outcome_payload option"
  oc_consumed_evidence_refs :: "opaque_id list"
  oc_proposed_evidence :: "evidence_proposal list"
  oc_proposed_artifacts :: "artifact_proposal list"
  oc_error :: "execution_failure option"
  oc_produced_at :: timestamp
  oc_decision_audit :: "decision_audit option"
  oc_methods_review_target :: "methods_review_target option"
  oc_methods_reviewer_result :: "methods_reviewer_result option"
  oc_methods_terminal_projection :: "methods_terminal_projection option"

section \<open>Snapshots, triggers and transition plans\<close>

record case_snapshot =
  sn_case :: case_t
  sn_active_job :: "job option"
  sn_resume_source_job :: "job option"
  sn_waiting_source_job :: "job option"
  sn_replacement_job_ids_by_source :: "(opaque_id \<times> opaque_id) list"

datatype planned_binding =
    ExistingResource opaque_id
  | AcceptedProposal proposal_key

datatype review_target_binding =
    ExistingCandidate candidate_target
  | AcceptedCandidate proposal_key

datatype final_target =
    FinalTarget candidate_target
  | FinalBinding review_target_binding

datatype skill_update = SetSkill versioned_ref | ClearSkill

datatype failure_update = SetFailure case_failure | ClearFailure

record candidate_mutation =
  mu_action :: candidate_mutation_action
  mu_candidate_binding :: review_target_binding
  mu_expected_status :: "candidate_status option"
  mu_target_status :: candidate_status
  mu_reason :: "text_t option"

record job_update =
  ju_job_id :: opaque_id
  ju_expected_status :: job_status
  ju_target_status :: job_status
  ju_started_at :: "timestamp option"
  ju_finished_at :: "timestamp option"
  ju_runtime_epoch :: "opaque_id option"

record job_spec =
  js_job_type :: job_type
  js_diagnosis_mode :: "diagnosis_mode option"
  js_review_policy :: "review_policy option"
  js_generic_skill_name :: "text_t option"
  js_generic_log_preparation :: "text_t option"
  js_generic_problem_text :: "text_t option"
  js_generic_product_line :: "text_t option"
  js_generic_log_archive_expected :: bool
  js_generic_supplement_texts :: "text_t list"
  js_continuation_context :: "report_continuation option"
  js_goal :: text_t
  js_target_state_revision :: int
  js_evidence_bindings :: "planned_binding list"
  js_attachment_refs :: "opaque_id list"
  js_previous_outcome_refs :: "opaque_id list"
  js_artifact_bindings :: "planned_binding list"
  js_agent_profile_ref :: versioned_ref
  js_available_skill_refs :: "versioned_ref list"
  js_skill_ref :: "versioned_ref option"
  js_tool_bundle_ref :: versioned_ref
  js_context_policy_ref :: versioned_ref
  js_output_contract_ref :: versioned_ref
  js_logparse_tool_ref :: "versioned_ref option"
  js_logparse_product :: "text_t option"
  js_review_target_binding :: "review_target_binding option"
  js_methods_review_target :: "methods_review_target option"
  js_replacement_for_job_id :: "opaque_id option"
  js_resource_limits :: resource_limits

record create_case_payload =
  pc_raw_problem_text :: text_t
  pc_product_line :: "text_t option"
  pc_initial_log_archive_expected :: bool
  pc_force_generic :: bool
  pc_continuation_context :: "report_continuation option"
  pc_problem_spec :: problem_spec
  pc_initial_user_facts :: "diagnosis_item list"

record supplement_payload =
  sp_user_facts :: "diagnosis_item list"
  sp_ready_attachment_ids :: "opaque_id list"
  sp_stable_target_changed :: bool
  sp_generic_supplement_text :: text_t

record execution_failed_payload =
  xp_source_job_id :: opaque_id
  xp_source_outcome_id :: "opaque_id option"
  xp_execution_failure :: execution_failure

datatype trigger_payload =
    CreateCasePayload create_case_payload
  | RouteOutcomePayload job_outcome
  | DiagnosisOutcomePayload job_outcome
  | ReviewOutcomePayload job_outcome
  | SubmitSupplementPayload supplement_payload
  | CancelCasePayload (cancel_active_job_id: "opaque_id option")
  | RestartGenericPayload (restart_source_job_id: opaque_id) (restart_supplement_text: text_t)
  | ResumeInterruptedPayload (resume_source_job_id: opaque_id)
  | ExecutionFailedPayload execution_failed_payload
  | AssetUnavailablePayload (asset_source_job_id: opaque_id) (asset_missing_refs: "versioned_ref list")
  | OldEpochPayload (epoch_source_job_id: opaque_id) (epoch_previous: opaque_id) (epoch_current: opaque_id)
  | StaleActivePayload (stale_source_job_id: opaque_id) (stale_outcome_id: opaque_id)
      (stale_expected_base: int) (stale_actual: int)

record trigger =
  tr_trigger_id :: opaque_id
  tr_trigger_type :: trigger_type
  tr_case_id :: opaque_id
  tr_expected_case_revision :: int
  tr_idempotency_key :: text_t
  tr_payload :: trigger_payload
  tr_continuation_resources :: continuation_resources
  tr_runtime_bindings :: "job_type \<rightharpoonup> runtime_bindings"
  tr_occurred_at :: timestamp

record plan =
  tp_accepted_state_delta :: state_delta
  tp_target_case_status :: case_status
  tp_job_updates :: "job_update list"
  tp_outcome_disposition :: "outcome_disposition option"
  tp_accepted_evidence_keys :: "proposal_key list"
  tp_accepted_artifact_keys :: "proposal_key list"
  tp_accepted_candidate_key :: "proposal_key option"
  tp_selected_skill_update :: "skill_update option"
  tp_case_failure_update :: "failure_update option"
  tp_candidate_mutation :: "candidate_mutation option"
  tp_next_job_spec :: "job_spec option"
  tp_final_result_target :: "final_target option"
  tp_unresolved_result_draft :: "unresolved_result_draft option"
  tp_generic_result :: "generic_result option"
  tp_generic_result_v2_draft :: "generic_result_v2_draft option"
  tp_methods_terminal_projection :: "methods_terminal_projection option"
  tp_clear_active_job :: bool
  tp_reason :: text_t

end
