(* ===== verification/Contract_Validators.thy ===== *)
theory Contract_Validators
  imports Contract_Models
begin

text \<open>
  The cross-field validators of \<open>contracts/models.py\<close> as bool-valued functions: a
  validator is \<open>True\<close> exactly when the pydantic model can be constructed, \<open>False\<close>
  when a \<open>ValueError\<close> is raised. Scalar shape constraints (UUID, timestamp, hash spelling)
  are properties of fields the coordinator only copies and are not repeated here; the text bounds of
  fields that can receive unchecked text are.

  \<open>py_env\<close> holds what the validators use of \<open>re\<close> and \<open>hashlib\<close>: full matching of
  a requirement's own pattern, SHA-256 of the bytes of a text, and the canonical hash of a
  candidate preimage.
\<close>

record candidate_preimage =
  pi_resolution_status :: diagnosis_resolution_status
  pi_terminal_path_id :: text_t
  pi_statement :: text_t
  pi_causal_factors :: "causal_factor list"
  pi_candidate_factors :: "causal_factor list"
  pi_excluded_factors :: "causal_factor list"
  pi_supporting_evidence_refs :: "opaque_id list"
  pi_completion_criteria_mapping :: "criterion_mapping list"

record py_env =
  env_fullmatch :: "text_t \<Rightarrow> text_t \<Rightarrow> bool"
  env_sha256 :: "text_t \<Rightarrow> sha256_t"
  env_canonical_sha256 :: "candidate_preimage \<Rightarrow> sha256_t"

section \<open>Text\<close>

definition max_user_text_utf8_bytes :: nat where
  "max_user_text_utf8_bytes = 65536"

text \<open>\<open>NonEmptyText\<close>: \<open>_utf8_nonblank\<close> with the user text limit.\<close>

definition valid_text :: "text_t \<Rightarrow> bool" where
  "valid_text s \<longleftrightarrow> \<not> blank_text s \<and> length s \<le> max_user_text_utf8_bytes"

fun skill_name_tail :: "bool \<Rightarrow> string \<Rightarrow> bool" where
  "skill_name_tail ok [] = ok"
| "skill_name_tail ok (c # cs) =
     (if (CHR ''a'' \<le> c \<and> c \<le> CHR ''z'') \<or> (CHR ''0'' \<le> c \<and> c \<le> CHR ''9'')
      then skill_name_tail True cs
      else ok \<and> c = CHR ''-'' \<and> skill_name_tail False cs)"

text \<open>\<open>SKILL_NAME_PATTERN\<close>: \<open>[a-z0-9]+(-[a-z0-9]+)*\<close>.\<close>

definition skill_name_pattern :: "string \<Rightarrow> bool" where
  "skill_name_pattern s = skill_name_tail False s"

section \<open>Direct specialized delivery\<close>

definition direct_output_contract_id :: text_t where
  "direct_output_contract_id = ''output-contract/skill-direct''"

definition direct_agent_profile_id :: text_t where
  "direct_agent_profile_id = ''agent-profile/skill-direct''"

definition skill_ref_prefix :: text_t where
  "skill_ref_prefix = ''diagnosis-skill/''"

definition is_specialized_direct ::
  "job_type \<Rightarrow> diagnosis_mode option \<Rightarrow> review_policy option \<Rightarrow> versioned_ref option \<Rightarrow>
   versioned_ref \<Rightarrow> versioned_ref \<Rightarrow> bool" where
  "is_specialized_direct jt dm rp sk out prof \<longleftrightarrow>
     jt = JT_DIAGNOSE \<and> dm = Some DM_SPECIALIZED \<and> rp = Some RP_NONE \<and> sk \<noteq> None \<and>
     ref_id out = direct_output_contract_id \<and> ref_id prof = direct_agent_profile_id"

definition job_direct :: "job \<Rightarrow> bool" where
  "job_direct j = is_specialized_direct (jb_job_type j) (jb_diagnosis_mode j) (jb_review_policy j)
     (jb_skill_ref j) (jb_output_contract_ref j) (jb_agent_profile_ref j)"

text \<open>\<open>RuntimeBindings\<close> have no \<open>job_type\<close>; the source defaults it to DIAGNOSE.\<close>

definition bindings_direct :: "runtime_bindings \<Rightarrow> bool" where
  "bindings_direct b = is_specialized_direct JT_DIAGNOSE (rb_diagnosis_mode b) (rb_review_policy b)
     (rb_skill_ref b) (rb_output_contract_ref b) (rb_agent_profile_ref b)"

text \<open>The name part of a registered Skill reference; \<open>None\<close> where the source raises.\<close>

definition skill_name_of_ref :: "versioned_ref \<Rightarrow> text_t option" where
  "skill_name_of_ref r =
     (let n = length skill_ref_prefix; name = drop n (ref_id r)
      in if take n (ref_id r) = skill_ref_prefix \<and> length name \<le> 64 \<and> skill_name_pattern name
         then Some name else None)"

definition specialized_direct_skill_name :: "job \<Rightarrow> text_t option" where
  "specialized_direct_skill_name j =
     (if job_direct j then Option.bind (jb_skill_ref j) skill_name_of_ref else None)"

text \<open>\<open>_validate_specialized_direct_bindings\<close>; \<open>has_review\<close> says whether a review target or
  binding is present, \<open>has_candidate\<close> whether the context snapshot holds a Candidate.\<close>

definition valid_direct_bindings ::
  "job_type \<Rightarrow> diagnosis_mode option \<Rightarrow> review_policy option \<Rightarrow> versioned_ref option \<Rightarrow>
   versioned_ref \<Rightarrow> versioned_ref \<Rightarrow> bool \<Rightarrow> bool \<Rightarrow> bool" where
  "valid_direct_bindings jt dm rp sk out prof has_review has_candidate \<longleftrightarrow>
     (ref_id out = direct_output_contract_id \<or> ref_id prof = direct_agent_profile_id \<longrightarrow>
        is_specialized_direct jt dm rp sk out prof \<and>
        Option.bind sk skill_name_of_ref \<noteq> None \<and> \<not> has_review \<and> \<not> has_candidate)"

section \<open>Role bindings\<close>

definition default_resource_limits :: "job_type \<Rightarrow> resource_limits" where
  "default_resource_limits jt =
     \<lparr>rl_context_bytes =
        (case jt of JT_ROUTE \<Rightarrow> 131072 | JT_DIAGNOSE \<Rightarrow> 262144 | JT_REVIEW \<Rightarrow> 204800),
      rl_wall_time_seconds = 1800,
      rl_stdout_stderr_bytes = 67108864,
      rl_workspace_bytes = 1073741824\<rparr>"

definition valid_generic_log_preparation ::
  "text_t option \<Rightarrow> diagnosis_mode option \<Rightarrow> versioned_ref option \<Rightarrow> text_t option \<Rightarrow> bool" where
  "valid_generic_log_preparation prep dm lref lprod \<longleftrightarrow>
     (prep \<noteq> None \<longrightarrow> dm = Some DM_GENERIC \<and> lref = None \<and> lprod = None)"

definition valid_role_bindings ::
  "job_type \<Rightarrow> diagnosis_mode option \<Rightarrow> text_t option \<Rightarrow> versioned_ref list \<Rightarrow> versioned_ref option \<Rightarrow>
   versioned_ref option \<Rightarrow> text_t option \<Rightarrow> resource_limits \<Rightarrow> bool" where
  "valid_role_bindings jt dm gsn avail sk lref lprod limits \<longleftrightarrow>
     limits = default_resource_limits jt \<and>
     (case jt of
        JT_ROUTE \<Rightarrow> dm = None \<and> gsn = None \<and> sk = None \<and> lref = None \<and> lprod = None
      | JT_REVIEW \<Rightarrow> avail = [] \<and> dm = None \<and> gsn = None \<and> sk \<noteq> None \<and> lref = None \<and> lprod = None
      | JT_DIAGNOSE \<Rightarrow> avail = [] \<and>
          (case dm of
             None \<Rightarrow> False
           | Some DM_SPECIALIZED \<Rightarrow> gsn = None \<and> sk \<noteq> None
           | Some DM_GENERIC \<Rightarrow> gsn \<noteq> None \<and> sk = None))"

definition ref_key :: "versioned_ref \<Rightarrow> string" where
  "ref_key r = ref_id r @ ''@'' @ ref_version r @ ''#'' @ ref_content_hash r"

definition valid_runtime_bindings :: "runtime_bindings \<Rightarrow> bool" where
  "valid_runtime_bindings b \<longleftrightarrow>
     valid_generic_log_preparation (rb_generic_log_preparation b) (rb_diagnosis_mode b)
       (rb_logparse_tool_ref b) (rb_logparse_product b) \<and>
     valid_direct_bindings JT_DIAGNOSE (rb_diagnosis_mode b) (rb_review_policy b) (rb_skill_ref b)
       (rb_output_contract_ref b) (rb_agent_profile_ref b) False False \<and>
     ((rb_logparse_tool_ref b = None) = (rb_logparse_product b = None)) \<and>
     distinct (map ref_key (rb_available_skill_refs b)) \<and>
     (if rb_diagnosis_mode b = Some DM_GENERIC
      then rb_generic_skill_name b \<noteq> None \<and> rb_skill_ref b = None \<and> rb_review_policy b = None
      else rb_generic_skill_name b = None \<and>
           (rb_skill_ref b = None \<longrightarrow> rb_review_policy b = None) \<and>
           (rb_skill_ref b \<noteq> None \<longrightarrow> rb_review_policy b \<noteq> None))"

definition role_bindings_ok :: "job_type \<Rightarrow> runtime_bindings \<Rightarrow> bool" where
  "role_bindings_ok jt b = valid_role_bindings jt (rb_diagnosis_mode b) (rb_generic_skill_name b)
     (rb_available_skill_refs b) (rb_skill_ref b) (rb_logparse_tool_ref b) (rb_logparse_product b)
     (rb_resource_limits b)"

section \<open>Job specifications\<close>

fun planned_key :: "planned_binding \<Rightarrow> string" where
  "planned_key (ExistingResource i) = i"
| "planned_key (AcceptedProposal k) = ''proposal:'' @ k"

definition spec_direct :: "job_spec \<Rightarrow> bool" where
  "spec_direct s = is_specialized_direct (js_job_type s) (js_diagnosis_mode s) (js_review_policy s)
     (js_skill_ref s) (js_output_contract_ref s) (js_agent_profile_ref s)"

definition valid_spec_generic_fields :: "job_spec \<Rightarrow> bool" where
  "valid_spec_generic_fields s \<longleftrightarrow>
     valid_generic_log_preparation (js_generic_log_preparation s) (js_diagnosis_mode s)
       (js_logparse_tool_ref s) (js_logparse_product s) \<and>
     (js_generic_product_line s \<noteq> None \<longrightarrow>
        js_job_type s = JT_DIAGNOSE \<and> js_diagnosis_mode s = Some DM_GENERIC) \<and>
     (js_continuation_context s \<noteq> None \<longrightarrow>
        js_job_type s = JT_DIAGNOSE \<and> (js_diagnosis_mode s = Some DM_GENERIC \<or> spec_direct s)) \<and>
     (js_diagnosis_mode s \<noteq> Some DM_GENERIC \<longrightarrow>
        \<not> js_generic_log_archive_expected s \<and> js_generic_supplement_texts s = []) \<and>
     list_all valid_text (js_generic_supplement_texts s) \<and>
     pred_option valid_text (js_generic_problem_text s)"

definition valid_spec_resources :: "job_spec \<Rightarrow> bool" where
  "valid_spec_resources s \<longleftrightarrow>
     distinct (map planned_key (js_evidence_bindings s)) \<and>
     distinct (map planned_key (js_artifact_bindings s)) \<and>
     distinct (js_attachment_refs s) \<and>
     distinct (js_previous_outcome_refs s) \<and>
     distinct (map ref_key (js_available_skill_refs s)) \<and>
     ((js_logparse_tool_ref s = None) = (js_logparse_product s = None)) \<and>
     (js_logparse_tool_ref s \<noteq> None \<longrightarrow> js_job_type s = JT_DIAGNOSE)"

definition valid_spec_mode :: "job_spec \<Rightarrow> bool" where
  "valid_spec_mode s \<longleftrightarrow>
     (case js_job_type s of
        JT_DIAGNOSE \<Rightarrow>
          (if js_diagnosis_mode s = Some DM_GENERIC
           then js_review_policy s = None \<and> js_generic_problem_text s \<noteq> None \<and>
                js_evidence_bindings s = [] \<and> js_previous_outcome_refs s = [] \<and>
                js_artifact_bindings s = []
           else js_generic_problem_text s = None \<and> js_review_policy s \<noteq> None)
      | JT_ROUTE \<Rightarrow>
          js_diagnosis_mode s = None \<and> js_generic_skill_name s = None \<and>
          js_generic_problem_text s = None \<and> js_review_policy s = None
      | JT_REVIEW \<Rightarrow>
          js_diagnosis_mode s = None \<and> js_generic_skill_name s = None \<and>
          js_generic_problem_text s = None \<and> js_review_policy s \<noteq> None)"

definition valid_spec_review :: "job_spec \<Rightarrow> bool" where
  "valid_spec_review s \<longleftrightarrow>
     (if js_job_type s = JT_REVIEW
      then ((js_review_target_binding s = None) \<noteq> (js_methods_review_target s = None)) \<and>
           js_logparse_tool_ref s = None \<and>
           (case js_methods_review_target s of
              None \<Rightarrow> True
            | Some t \<Rightarrow>
                js_evidence_bindings s = [] \<and> js_attachment_refs s = [] \<and>
                js_previous_outcome_refs s = [] \<and> js_artifact_bindings s = [] \<and>
                Some (mt_skill_ref t) = js_skill_ref s \<and>
                mt_reviewed_state_revision t = js_target_state_revision s)
      else js_review_target_binding s = None \<and> js_methods_review_target s = None)"

definition valid_job_spec :: "job_spec \<Rightarrow> bool" where
  "valid_job_spec s \<longleftrightarrow>
     valid_text (js_goal s) \<and> js_target_state_revision s > 0 \<and>
     valid_spec_generic_fields s \<and>
     valid_direct_bindings (js_job_type s) (js_diagnosis_mode s) (js_review_policy s) (js_skill_ref s)
       (js_output_contract_ref s) (js_agent_profile_ref s)
       (js_review_target_binding s \<noteq> None \<or> js_methods_review_target s \<noteq> None) False \<and>
     valid_spec_resources s \<and> valid_spec_mode s \<and> valid_spec_review s \<and>
     valid_role_bindings (js_job_type s) (js_diagnosis_mode s) (js_generic_skill_name s)
       (js_available_skill_refs s) (js_skill_ref s) (js_logparse_tool_ref s) (js_logparse_product s)
       (js_resource_limits s)"

section \<open>Deltas, drafts and mutations\<close>

text \<open>The key under which the contract compares evidence bindings:
  \<open>existing_evidence_id or f"proposal:{key}"\<close>.\<close>

fun binding_unique_key :: "evidence_binding \<Rightarrow> string" where
  "binding_unique_key (ExistingEvidence i) = i"
| "binding_unique_key (ProposedEvidence k) = ''proposal:'' @ k"

fun binding_proposal_key :: "evidence_binding \<Rightarrow> proposal_key option" where
  "binding_proposal_key (ExistingEvidence i) = None"
| "binding_proposal_key (ProposedEvidence k) = Some k"

fun source_artifact_key :: "source_binding \<Rightarrow> proposal_key option" where
  "source_artifact_key (ExistingSource i) = None"
| "source_artifact_key (ArtifactSource k) = Some k"

definition valid_state_delta :: "state_delta \<Rightarrow> bool" where
  "valid_state_delta d \<longleftrightarrow>
     distinct (map dr_item_id (sd_proposed_facts d @ sd_add_active_hypotheses d @ sd_add_open_questions d)) \<and>
     distinct (map rq_requirement_id (sd_add_pending_requirements d)) \<and>
     distinct (map rq_name (sd_add_pending_requirements d)) \<and>
     list_all (\<lambda>c. ch_statement c = None) (sd_reject_hypotheses d @ sd_resolve_questions d)"

definition valid_fulfillment :: "requirement_fulfillment \<Rightarrow> bool" where
  "valid_fulfillment f \<longleftrightarrow> rf_fulfilled_by_refs f \<noteq> [] \<and> distinct (rf_fulfilled_by_refs f)"

definition valid_unresolved_draft :: "unresolved_result_draft \<Rightarrow> bool" where
  "valid_unresolved_draft u \<longleftrightarrow>
     distinct (ud_blocking_rule_ids u) \<and>
     distinct (map binding_unique_key (ud_evidence_bindings u)) \<and>
     (ud_reason_code u \<in> {UR_MECHANICAL_VERIFICATION_FAILED, UR_INSUFFICIENT_EVIDENCE} \<longrightarrow>
        ud_blocking_rule_ids u \<noteq> [])"

text \<open>\<open>_validate_generic_report_content\<close>: no byte order mark, the declared size and hash.\<close>

definition valid_report_content :: "py_env \<Rightarrow> text_t \<Rightarrow> int \<Rightarrow> sha256_t \<Rightarrow> bool" where
  "valid_report_content env md n h \<longleftrightarrow>
     take 3 md \<noteq> utf8 [239, 187, 191] \<and> int (length md) = n \<and> env_sha256 env md = h"

definition valid_generic_v2_draft :: "py_env \<Rightarrow> generic_result_v2_draft \<Rightarrow> bool" where
  "valid_generic_v2_draft env g =
     valid_report_content env (gd_report_markdown g) (gd_report_utf8_size g) (gd_report_sha256 g)"

definition valid_generic_v2_outcome :: "py_env \<Rightarrow> generic_diagnosis_outcome_v2 \<Rightarrow> bool" where
  "valid_generic_v2_outcome env g =
     valid_report_content env (g2o_report_markdown g) (g2o_report_utf8_size g) (g2o_report_sha256 g)"

definition valid_candidate_mutation :: "candidate_mutation \<Rightarrow> bool" where
  "valid_candidate_mutation m \<longleftrightarrow>
     (case mu_action m of
        CM_INSTALL \<Rightarrow>
          (\<exists>k. mu_candidate_binding m = AcceptedCandidate k) \<and> mu_expected_status m = None \<and>
          mu_target_status m \<in> {CD_REVIEWING, CD_ACCEPTED}
      | CM_SET_STATUS \<Rightarrow>
          (\<exists>t. mu_candidate_binding m = ExistingCandidate t) \<and>
          mu_expected_status m = Some CD_REVIEWING \<and>
          mu_target_status m \<in> {CD_ACCEPTED, CD_REJECTED} \<and>
          (mu_target_status m = CD_REJECTED \<longrightarrow> mu_reason m \<noteq> None))"

text \<open>Executable form of the two existential tests on the binding.\<close>

lemma valid_candidate_mutation_code [code]:
  "valid_candidate_mutation m \<longleftrightarrow>
     (case mu_action m of
        CM_INSTALL \<Rightarrow>
          (case mu_candidate_binding m of AcceptedCandidate k \<Rightarrow> True | _ \<Rightarrow> False) \<and>
          mu_expected_status m = None \<and> mu_target_status m \<in> {CD_REVIEWING, CD_ACCEPTED}
      | CM_SET_STATUS \<Rightarrow>
          (case mu_candidate_binding m of ExistingCandidate t \<Rightarrow> True | _ \<Rightarrow> False) \<and>
          mu_expected_status m = Some CD_REVIEWING \<and>
          mu_target_status m \<in> {CD_ACCEPTED, CD_REJECTED} \<and>
          (mu_target_status m = CD_REJECTED \<longrightarrow> mu_reason m \<noteq> None))"
  by (auto simp: valid_candidate_mutation_def split: candidate_mutation_action.splits
      review_target_binding.splits)

end
