(* ===== verification/Plan_Contract.thy ===== *)
theory Plan_Contract
  imports Contract_Validators
begin

text \<open>
  The contract of a transition plan: the validator of \<open>TransitionPlan\<close>
  (\<open>contracts/models.py\<close>), the result type of the coordinator, and the two checks of
  \<open>contracts/outcomes.py\<close> that guard the seam between coordinator and application:
  \<open>validate_coordinator_plan_result\<close> and \<open>validate_transition_plan_for_outcome\<close>.
\<close>

section \<open>Coordinator results\<close>

text \<open>\<open>CoordinatorPlanResult\<close> with the exceptional channel made explicit.\<close>

datatype 'a cres = Ok 'a | AppErr application_error | Raise exn

fun bindC :: "'a cres \<Rightarrow> ('a \<Rightarrow> 'b cres) \<Rightarrow> 'b cres" where
  "bindC (Ok x) f = f x"
| "bindC (AppErr e) f = AppErr e"
| "bindC (Raise x) f = Raise x"

lemma bindC_Ok: "bindC r f = Ok y \<longleftrightarrow> (\<exists>x. r = Ok x \<and> f x = Ok y)"
  by (cases r) auto

lemma bindC_AppErr: "bindC r f = AppErr e \<longleftrightarrow> r = AppErr e \<or> (\<exists>x. r = Ok x \<and> f x = AppErr e)"
  by (cases r) auto

lemma bindC_Raise: "bindC r f = Raise e \<longleftrightarrow> r = Raise e \<or> (\<exists>x. r = Ok x \<and> f x = Raise e)"
  by (cases r) auto

section \<open>The TransitionPlan validator\<close>

definition empty_delta :: state_delta where
  "empty_delta =
     \<lparr>sd_problem_spec_patch = None, sd_add_user_facts = [], sd_proposed_facts = [],
      sd_add_active_hypotheses = [], sd_update_hypotheses = [], sd_reject_hypotheses = [],
      sd_add_open_questions = [], sd_resolve_questions = [], sd_add_pending_requirements = [],
      sd_fulfill_requirements = [], sd_add_evidence_bindings = []\<rparr>"

definition delta_is_empty :: "state_delta \<Rightarrow> bool" where
  "delta_is_empty d \<longleftrightarrow>
     sd_problem_spec_patch d = None \<and> sd_add_user_facts d = [] \<and> sd_proposed_facts d = [] \<and>
     sd_add_active_hypotheses d = [] \<and> sd_update_hypotheses d = [] \<and> sd_reject_hypotheses d = [] \<and>
     sd_add_open_questions d = [] \<and> sd_resolve_questions d = [] \<and>
     sd_add_pending_requirements d = [] \<and> sd_fulfill_requirements d = [] \<and>
     sd_add_evidence_bindings d = []"

lemma delta_is_empty_iff: "delta_is_empty d \<longleftrightarrow> d = empty_delta"
  by (cases d) (auto simp: delta_is_empty_def empty_delta_def)

fun methods_case_status :: "methods_terminal_status \<Rightarrow> case_status" where
  "methods_case_status MT_RESOLVED = CS_RESOLVED"
| "methods_case_status MT_UNRESOLVED = CS_UNRESOLVED"
| "methods_case_status MT_FAILED = CS_FAILED"

text \<open>\<open>CaseStatus(generic.status.value)\<close>.\<close>

fun generic_case_status :: "generic_result_status \<Rightarrow> case_status" where
  "generic_case_status GS_RESOLVED = CS_RESOLVED"
| "generic_case_status GS_UNRESOLVED = CS_UNRESOLVED"

fun binding_candidate_key :: "review_target_binding \<Rightarrow> proposal_key option" where
  "binding_candidate_key (ExistingCandidate t) = None"
| "binding_candidate_key (AcceptedCandidate k) = Some k"

fun binding_existing_target :: "review_target_binding \<Rightarrow> candidate_target option" where
  "binding_existing_target (ExistingCandidate t) = Some t"
| "binding_existing_target (AcceptedCandidate k) = None"

fun planned_proposal_key :: "planned_binding \<Rightarrow> proposal_key option" where
  "planned_proposal_key (ExistingResource i) = None"
| "planned_proposal_key (AcceptedProposal k) = Some k"

text \<open>\<open>generic_result or generic_result_v2_draft\<close>: status and Skill name of the Markdown
  result the plan carries.\<close>

definition plan_generic :: "plan \<Rightarrow> (generic_result_status \<times> text_t) option" where
  "plan_generic p =
     (case tp_generic_result p of
        Some g \<Rightarrow> Some (gr_status g, gr_skill_name g)
      | None \<Rightarrow>
          (case tp_generic_result_v2_draft p of
             Some g \<Rightarrow> Some (gd_status g, gd_skill_name g)
           | None \<Rightarrow> None))"

definition valid_plan_failure :: "plan \<Rightarrow> bool" where
  "valid_plan_failure p \<longleftrightarrow>
     distinct (tp_accepted_evidence_keys p) \<and> distinct (tp_accepted_artifact_keys p) \<and>
     (if tp_target_case_status p = CS_FAILED
      then (case tp_case_failure_update p of Some (SetFailure f) \<Rightarrow> True | _ \<Rightarrow> False)
      else (case tp_case_failure_update p of Some (SetFailure f) \<Rightarrow> False | _ \<Rightarrow> True)) \<and>
     \<not> (tp_generic_result p \<noteq> None \<and> tp_generic_result_v2_draft p \<noteq> None)"

definition valid_plan_methods :: "plan \<Rightarrow> bool" where
  "valid_plan_methods p \<longleftrightarrow>
     (case tp_methods_terminal_projection p of
        None \<Rightarrow> True
      | Some m \<Rightarrow>
          tp_target_case_status p = methods_case_status (mp_status m) \<and>
          delta_is_empty (tp_accepted_state_delta p) \<and> plan_generic p = None \<and>
          tp_unresolved_result_draft p = None \<and> tp_accepted_evidence_keys p = [] \<and>
          tp_accepted_artifact_keys p = [] \<and> tp_accepted_candidate_key p = None \<and>
          tp_candidate_mutation p = None \<and> tp_next_job_spec p = None \<and>
          tp_final_result_target p = None \<and> tp_clear_active_job p \<and>
          tp_outcome_disposition p = Some OD_APPLIED)"

definition valid_plan_generic :: "plan \<Rightarrow> bool" where
  "valid_plan_generic p \<longleftrightarrow>
     (case plan_generic p of
        None \<Rightarrow> True
      | Some (st, name) \<Rightarrow>
          tp_target_case_status p = generic_case_status st \<and>
          tp_unresolved_result_draft p = None \<and> tp_accepted_evidence_keys p = [] \<and>
          tp_accepted_artifact_keys p = [] \<and> tp_accepted_candidate_key p = None \<and>
          tp_candidate_mutation p = None \<and> tp_next_job_spec p = None \<and>
          tp_final_result_target p = None \<and> tp_clear_active_job p \<and>
          (case tp_selected_skill_update p of
             None \<Rightarrow> False
           | Some ClearSkill \<Rightarrow> True
           | Some (SetSkill r) \<Rightarrow>
               tp_generic_result_v2_draft p \<noteq> None \<and> ref_id r = skill_ref_prefix @ name \<and>
               delta_is_empty (tp_accepted_state_delta p)))"

definition valid_plan_unresolved :: "plan \<Rightarrow> bool" where
  "valid_plan_unresolved p \<longleftrightarrow>
     (if tp_target_case_status p = CS_UNRESOLVED
      then (tp_unresolved_result_draft p \<noteq> None \<or> plan_generic p \<noteq> None \<or>
            tp_methods_terminal_projection p \<noteq> None) \<and>
           tp_next_job_spec p = None \<and> tp_clear_active_job p
      else tp_unresolved_result_draft p = None) \<and>
     (plan_generic p \<noteq> None \<longrightarrow> tp_target_case_status p \<in> {CS_RESOLVED, CS_UNRESOLVED})"

definition valid_plan_candidate :: "plan \<Rightarrow> bool" where
  "valid_plan_candidate p \<longleftrightarrow>
     (tp_accepted_candidate_key p \<noteq> None \<longrightarrow>
        (case tp_candidate_mutation p of
           None \<Rightarrow> False
         | Some m \<Rightarrow> mu_action m = CM_INSTALL \<and>
             binding_candidate_key (mu_candidate_binding m) = tp_accepted_candidate_key p)) \<and>
     (case tp_candidate_mutation p of
        None \<Rightarrow> tp_final_result_target p = None
      | Some m \<Rightarrow>
          (mu_action m = CM_INSTALL \<longrightarrow>
             tp_accepted_candidate_key p \<noteq> None \<and>
             binding_candidate_key (mu_candidate_binding m) = tp_accepted_candidate_key p) \<and>
          (if mu_target_status m = CD_ACCEPTED
           then tp_final_result_target p =
                  (if mu_action m = CM_SET_STATUS
                   then map_option FinalTarget (binding_existing_target (mu_candidate_binding m))
                   else Some (FinalBinding (mu_candidate_binding m))) \<and>
                tp_target_case_status p \<in> {CS_RESOLVED, CS_PARTIALLY_RESOLVED}
           else tp_final_result_target p = None))"

definition valid_plan_next_job :: "plan \<Rightarrow> bool" where
  "valid_plan_next_job p \<longleftrightarrow>
     (case tp_next_job_spec p of
        None \<Rightarrow> True
      | Some s \<Rightarrow>
          list_all (\<lambda>b. case planned_proposal_key b of None \<Rightarrow> True
                       | Some k \<Rightarrow> k \<in> set (tp_accepted_evidence_keys p)) (js_evidence_bindings s) \<and>
          list_all (\<lambda>b. case planned_proposal_key b of None \<Rightarrow> True
                       | Some k \<Rightarrow> k \<in> set (tp_accepted_artifact_keys p)) (js_artifact_bindings s) \<and>
          (case js_review_target_binding s of
             None \<Rightarrow> True
           | Some b \<Rightarrow>
               (if tp_accepted_candidate_key p \<noteq> None
                then binding_candidate_key b = tp_accepted_candidate_key p
                else binding_candidate_key b = None)) \<and>
          (case js_methods_review_target s of
             None \<Rightarrow> True
           | Some t \<Rightarrow>
               tp_target_case_status p = CS_REVIEWING \<and> tp_accepted_candidate_key p = None \<and>
               tp_candidate_mutation p = None \<and> tp_accepted_evidence_keys p = [] \<and>
               tp_accepted_artifact_keys p = [] \<and>
               (if js_replacement_for_job_id s \<noteq> None then tp_job_updates p = []
                else list_ex (\<lambda>u. ju_job_id u = mt_source_job_id t \<and>
                                ju_target_status u = JS_SUCCEEDED) (tp_job_updates p))))"

definition valid_plan :: "plan \<Rightarrow> bool" where
  "valid_plan p \<longleftrightarrow>
     valid_plan_failure p \<and> valid_plan_methods p \<and> valid_plan_generic p \<and>
     valid_plan_unresolved p \<and> valid_plan_candidate p \<and> valid_plan_next_job p"

text \<open>Constructing a plan constructs its new parts (mutation, unresolved draft, V2 draft) in the
  same expression; any failing validator raises.\<close>

definition plan_constructible :: "py_env \<Rightarrow> plan \<Rightarrow> bool" where
  "plan_constructible env p \<longleftrightarrow>
     pred_option valid_candidate_mutation (tp_candidate_mutation p) \<and>
     pred_option valid_unresolved_draft (tp_unresolved_result_draft p) \<and>
     pred_option (valid_generic_v2_draft env) (tp_generic_result_v2_draft p) \<and>
     valid_plan p"

definition mk_plan :: "py_env \<Rightarrow> plan \<Rightarrow> plan cres" where
  "mk_plan env p = (if plan_constructible env p then Ok p else Raise ValueError)"

lemma mk_plan_Ok [simp]: "mk_plan env p = Ok q \<longleftrightarrow> plan_constructible env p \<and> q = p"
  by (auto simp: mk_plan_def)

lemma mk_plan_not_AppErr [simp]: "mk_plan env p \<noteq> AppErr e"
  by (simp add: mk_plan_def)

lemmas valid_plan_defs = plan_constructible_def valid_plan_def valid_plan_failure_def
  valid_plan_methods_def valid_plan_generic_def valid_plan_unresolved_def
  valid_plan_candidate_def valid_plan_next_job_def plan_generic_def

section \<open>The coordinator's decision channel\<close>

fun trigger_payload_type :: "trigger_payload \<Rightarrow> trigger_type" where
  "trigger_payload_type (CreateCasePayload _) = TT_CREATE_CASE"
| "trigger_payload_type (RouteOutcomePayload _) = TT_ROUTE_OUTCOME"
| "trigger_payload_type (DiagnosisOutcomePayload _) = TT_DIAGNOSIS_OUTCOME"
| "trigger_payload_type (ReviewOutcomePayload _) = TT_REVIEW_OUTCOME"
| "trigger_payload_type (SubmitSupplementPayload _) = TT_SUBMIT_SUPPLEMENT"
| "trigger_payload_type (CancelCasePayload _) = TT_CANCEL_CASE"
| "trigger_payload_type (RestartGenericPayload _ _) = TT_RESTART_GENERIC_DIAGNOSIS"
| "trigger_payload_type (ResumeInterruptedPayload _) = TT_RESUME_INTERRUPTED"
| "trigger_payload_type (ExecutionFailedPayload _) = TT_EXECUTION_FAILED"
| "trigger_payload_type (AssetUnavailablePayload _ _) = TT_ASSET_VERSION_UNAVAILABLE"
| "trigger_payload_type (OldEpochPayload _ _ _) = TT_MARK_OLD_EPOCH_INTERRUPTED"
| "trigger_payload_type (StaleActivePayload _ _ _ _) = TT_STALE_ACTIVE_OUTCOME"

definition stable_target_changed :: "trigger \<Rightarrow> bool" where
  "stable_target_changed t \<longleftrightarrow>
     (case tr_payload t of SubmitSupplementPayload p \<Rightarrow> sp_stable_target_changed p | _ \<Rightarrow> False)"

definition validate_coordinator_plan_result :: "trigger \<Rightarrow> plan cres \<Rightarrow> plan cres" where
  "validate_coordinator_plan_result t r =
     (case r of
        Raise x \<Rightarrow> Raise x
      | AppErr e \<Rightarrow>
          if ae_code e \<notin> set (coordinator_plan_error_codes (tr_trigger_type t)) \<or> ae_retryable e
          then Raise ValueError
          else if stable_target_changed t \<and> ae_code e \<noteq> EC_NEW_CASE_REQUIRED
          then Raise ValueError else AppErr e
      | Ok p \<Rightarrow> if stable_target_changed t then Raise ValueError else Ok p)"

lemma validate_result_Ok [simp]:
  "validate_coordinator_plan_result t r = Ok p \<longleftrightarrow> r = Ok p \<and> \<not> stable_target_changed t"
  by (cases r) (auto simp: validate_coordinator_plan_result_def)

end
