(* ===== verification/Supersedes.thy ===== *)
theory Supersedes
  imports Contract_Models
begin

text \<open>
  The \<open>supersedes\<close> graph of diagnosis items. Both the coordinator
  (\<open>domain/coordinator.py\<close>, \<open>_validate_supersedes\<close>) and the state formalization
  (\<open>application/formalization.py\<close>, \<open>_validate_supersedes\<close>) walk it depth first with a set
  of nodes under visit and a set of finished nodes; the first answers with a bool, the second
  raises, and the second follows only edges whose target is a key of the graph. Both are shown to
  decide acyclicity, so they agree.
\<close>

type_synonym ref_graph = "(opaque_id \<times> opaque_id list) list"

text \<open>A Python dict built by a comprehension and \<open>update\<close>: the last entry of a key counts.\<close>

definition graph_get :: "ref_graph \<Rightarrow> opaque_id \<Rightarrow> opaque_id list" where
  "graph_get g x = (case map_of (rev g) x of None \<Rightarrow> [] | Some ys \<Rightarrow> ys)"

definition graph_keys :: "ref_graph \<Rightarrow> opaque_id list" where
  "graph_keys g = map fst g"

definition graph_edges :: "ref_graph \<Rightarrow> (opaque_id \<times> opaque_id) set" where
  "graph_edges g = {(x, y). y \<in> set (graph_get g x)}"

lemma graph_get_not_key: "x \<notin> set (graph_keys g) \<Longrightarrow> graph_get g x = []"
  by (force simp: graph_get_def graph_keys_def split: option.splits dest: map_of_SomeD)

lemma graph_edges_key: "(x, y) \<in> graph_edges g \<Longrightarrow> x \<in> set (graph_keys g)"
  using graph_get_not_key by (fastforce simp: graph_edges_def)

lemma card_keys_less:
  "x \<notin> set visiting \<Longrightarrow> x \<in> set (graph_keys g) \<Longrightarrow>
   card (set (graph_keys g) - insert x (set visiting)) < card (set (graph_keys g) - set visiting)"
  by (rule psubset_card_mono) auto

section \<open>The coordinator's visit\<close>

text \<open>\<open>None\<close> is the answer \<open>False\<close> (a node under visit was met again); \<open>Some visited\<close>
  is \<open>True\<close> with the finished nodes. \<open>visit_all\<close> is the short-circuiting
  \<open>any(not visit(target) for target in ...)\<close>.\<close>

function (sequential) visit :: "ref_graph \<Rightarrow> opaque_id list \<Rightarrow> opaque_id list \<Rightarrow> opaque_id \<Rightarrow> opaque_id list option"
  and visit_all :: "ref_graph \<Rightarrow> opaque_id list \<Rightarrow> opaque_id list \<Rightarrow> opaque_id list \<Rightarrow> opaque_id list option"
  where
  "visit g visiting visited x =
     (if x \<in> set visiting then None
      else if x \<in> set visited then Some visited
      else case visit_all g (x # visiting) visited (graph_get g x) of
        None \<Rightarrow> None
      | Some v \<Rightarrow> Some (x # v))"
| "visit_all g visiting visited [] = Some visited"
| "visit_all g visiting visited (y # ys) =
     (case visit g visiting visited y of
        None \<Rightarrow> None
      | Some v \<Rightarrow> visit_all g visiting v ys)"
  by pat_completeness auto

termination
proof (relation "measures
    [\<lambda>s. case s of Inl (g, visiting, _, _) \<Rightarrow> card (set (graph_keys g) - set visiting)
               | Inr (g, visiting, _, _) \<Rightarrow> card (set (graph_keys g) - set visiting),
     \<lambda>s. case s of Inl _ \<Rightarrow> 1 | Inr (_, _, _, ys) \<Rightarrow> 2 * length ys]", goal_cases)
  case (2 g visiting visited x)
  show ?case
  proof (cases "x \<in> set (graph_keys g)")
    case True
    with 2(1) card_keys_less show ?thesis by simp
  next
    case False
    then have "set (graph_keys g) - insert x (set visiting) = set (graph_keys g) - set visiting" by auto
    with False show ?thesis by (simp add: graph_get_not_key)
  qed
qed simp_all

declare visit.simps [simp del]

definition acyclic_check :: "ref_graph \<Rightarrow> bool" where
  "acyclic_check g \<longleftrightarrow> visit_all g [] [] (graph_keys g) \<noteq> None"

text \<open>A failed visit exhibits a cycle.\<close>

lemma visit_None_cycle:
  "visit g visiting visited x = None \<Longrightarrow>
     (\<And>p. p \<in> set visiting \<Longrightarrow> (p, x) \<in> (graph_edges g)\<^sup>+) \<Longrightarrow> \<not> acyclic (graph_edges g)"
  "visit_all g visiting visited ys = None \<Longrightarrow>
     (\<And>p y. p \<in> set visiting \<Longrightarrow> y \<in> set ys \<Longrightarrow> (p, y) \<in> (graph_edges g)\<^sup>+) \<Longrightarrow>
     \<not> acyclic (graph_edges g)"
proof (induction g visiting visited x and g visiting visited ys rule: visit_visit_all.induct)
  case (1 g visiting visited x)
  show ?case
  proof (cases "x \<in> set visiting")
    case True
    with 1(3) show ?thesis by (auto simp: acyclic_def)
  next
    case False
    with 1(2) have new: "x \<notin> set visited" and
      none: "visit_all g (x # visiting) visited (graph_get g x) = None"
      by (auto simp: visit.simps [of g visiting visited x] split: if_splits option.splits)
    show ?thesis
    proof (rule 1(1) [OF False new none])
      fix p y assume p: "p \<in> set (x # visiting)" and y: "y \<in> set (graph_get g x)"
      then have "(x, y) \<in> graph_edges g" by (simp add: graph_edges_def)
      with p 1(3) show "(p, y) \<in> (graph_edges g)\<^sup>+" by (auto intro: trancl_into_trancl)
    qed
  qed
qed (auto split: option.splits)

text \<open>A successful visit only finishes nodes that lie on no cycle.\<close>

definition finished_ok :: "ref_graph \<Rightarrow> opaque_id list \<Rightarrow> opaque_id list \<Rightarrow> bool" where
  "finished_ok g visiting v \<longleftrightarrow>
     set v \<inter> set visiting = {} \<and> (\<forall>x \<in> set v. set (graph_get g x) \<subseteq> set v) \<and>
     (\<forall>x \<in> set v. (x, x) \<notin> (graph_edges g)\<^sup>+)"

lemma closed_trancl:
  assumes "\<forall>x \<in> V. set (graph_get g x) \<subseteq> V" and "(a, b) \<in> (graph_edges g)\<^sup>+" and "a \<in> V"
  shows "b \<in> V"
  using assms(2,3)
  by (induction rule: trancl_induct) (use assms(1) in \<open>auto simp: graph_edges_def\<close>)

lemma finished_ok_Cons:
  assumes ok: "finished_ok g (x # visiting) v" and ch: "set (graph_get g x) \<subseteq> set v"
    and new: "x \<notin> set visiting"
  shows "finished_ok g visiting (x # v)"
proof -
  have "(x, x) \<notin> (graph_edges g)\<^sup>+"
  proof
    assume "(x, x) \<in> (graph_edges g)\<^sup>+"
    then obtain c where c: "(x, c) \<in> graph_edges g" and cx: "c = x \<or> (c, x) \<in> (graph_edges g)\<^sup>+"
      by (metis tranclD rtranclD)
    from c ch have "c \<in> set v" by (auto simp: graph_edges_def)
    with cx closed_trancl [of "set v" g c x] ok have "x \<in> set v" by (auto simp: finished_ok_def)
    with ok show False by (auto simp: finished_ok_def)
  qed
  with ok ch new show ?thesis by (auto simp: finished_ok_def)
qed

lemma visit_Some_ok:
  "visit g visiting visited x = Some v \<Longrightarrow> finished_ok g visiting visited \<Longrightarrow>
     finished_ok g visiting v \<and> insert x (set visited) \<subseteq> set v"
  "visit_all g visiting visited ys = Some v \<Longrightarrow> finished_ok g visiting visited \<Longrightarrow>
     finished_ok g visiting v \<and> set ys \<union> set visited \<subseteq> set v"
proof (induction g visiting visited x and g visiting visited ys arbitrary: v and v
    rule: visit_visit_all.induct)
  case (1 g visiting visited x)
  show ?case
  proof (cases "x \<in> set visited")
    case True
    with 1(2,3) show ?thesis
      by (auto simp: visit.simps [of g visiting visited x] split: if_splits)
  next
    case False
    with 1(2) obtain w where nv: "x \<notin> set visiting" and
      w: "visit_all g (x # visiting) visited (graph_get g x) = Some w" and v: "v = x # w"
      by (auto simp: visit.simps [of g visiting visited x] split: if_splits option.splits)
    from 1(3) False have "finished_ok g (x # visiting) visited" by (auto simp: finished_ok_def)
    from 1(1) [OF nv False w this]
    have "finished_ok g (x # visiting) w" and "set (graph_get g x) \<union> set visited \<subseteq> set w" by auto
    with finished_ok_Cons [of g x visiting w] nv v show ?thesis by auto
  qed
next
  case (3 g visiting visited y ys)
  from 3(3) obtain w where w: "visit g visiting visited y = Some w"
    and v: "visit_all g visiting w ys = Some v" by (auto split: option.splits)
  from 3(1) [OF w 3(4)] have ok: "finished_ok g visiting w" and sub: "insert y (set visited) \<subseteq> set w"
    by auto
  from 3(2) [OF w v ok] sub show ?case by auto
qed auto

lemma acyclic_check_iff: "acyclic_check g \<longleftrightarrow> acyclic (graph_edges g)"
proof
  assume "acyclic_check g"
  then obtain v where "visit_all g [] [] (graph_keys g) = Some v" by (auto simp: acyclic_check_def)
  from visit_Some_ok(2) [OF this] have ok: "finished_ok g [] v" and ks: "set (graph_keys g) \<subseteq> set v"
    by (auto simp: finished_ok_def)
  show "acyclic (graph_edges g)"
    unfolding acyclic_def
  proof (intro allI notI)
    fix x assume xx: "(x, x) \<in> (graph_edges g)\<^sup>+"
    then obtain y where "(x, y) \<in> graph_edges g" by (meson tranclD)
    with ks have "x \<in> set v" using graph_edges_key by blast
    with ok xx show False by (auto simp: finished_ok_def)
  qed
next
  assume "acyclic (graph_edges g)"
  with visit_None_cycle(2) [of g "[]" "[]" "graph_keys g"] show "acyclic_check g"
    by (auto simp: acyclic_check_def)
qed

section \<open>The formalization's visit\<close>

text \<open>\<open>None\<close> is the raised \<open>ValueError\<close>. Only targets that are keys of the graph are
  followed.\<close>

function (sequential) fvisit :: "ref_graph \<Rightarrow> opaque_id list \<Rightarrow> opaque_id list \<Rightarrow> opaque_id \<Rightarrow> opaque_id list option"
  and fvisit_all :: "ref_graph \<Rightarrow> opaque_id list \<Rightarrow> opaque_id list \<Rightarrow> opaque_id list \<Rightarrow> opaque_id list option"
  where
  "fvisit g visiting visited x =
     (if x \<in> set visiting then None
      else if x \<in> set visited then Some visited
      else case fvisit_all g (x # visiting) visited (graph_get g x) of
        None \<Rightarrow> None
      | Some v \<Rightarrow> Some (x # v))"
| "fvisit_all g visiting visited [] = Some visited"
| "fvisit_all g visiting visited (y # ys) =
     (if y \<in> set (graph_keys g)
      then case fvisit g visiting visited y of
             None \<Rightarrow> None
           | Some v \<Rightarrow> fvisit_all g visiting v ys
      else fvisit_all g visiting visited ys)"
  by pat_completeness auto

termination
proof (relation "measures
    [\<lambda>s. case s of Inl (g, visiting, _, _) \<Rightarrow> card (set (graph_keys g) - set visiting)
               | Inr (g, visiting, _, _) \<Rightarrow> card (set (graph_keys g) - set visiting),
     \<lambda>s. case s of Inl _ \<Rightarrow> 1 | Inr (_, _, _, ys) \<Rightarrow> 2 * length ys]", goal_cases)
  case (2 g visiting visited x)
  show ?case
  proof (cases "x \<in> set (graph_keys g)")
    case True
    with 2(1) card_keys_less show ?thesis by simp
  next
    case False
    then have "set (graph_keys g) - insert x (set visiting) = set (graph_keys g) - set visiting" by auto
    with False show ?thesis by (simp add: graph_get_not_key)
  qed
qed simp_all

declare fvisit.simps [simp del]

definition facyclic_check :: "ref_graph \<Rightarrow> bool" where
  "facyclic_check g \<longleftrightarrow> fvisit_all g [] [] (graph_keys g) \<noteq> None"

text \<open>The formalization's walk is the coordinator's walk of the graph cut down to its keys.\<close>

definition key_graph :: "ref_graph \<Rightarrow> ref_graph" where
  "key_graph g = map (\<lambda>(k, vs). (k, filter (\<lambda>v. v \<in> set (graph_keys g)) vs)) g"

lemma graph_keys_key_graph [simp]: "graph_keys (key_graph g) = graph_keys g"
  by (auto simp: graph_keys_def key_graph_def)

lemma map_of_map_snd: "map_of (map (\<lambda>(k, v). (k, f v)) xs) x = map_option f (map_of xs x)"
  by (induction xs) auto

lemma graph_get_key_graph:
  "graph_get (key_graph g) x = filter (\<lambda>v. v \<in> set (graph_keys g)) (graph_get g x)"
proof -
  have "map_of (rev (key_graph g)) x =
      map_option (filter (\<lambda>v. v \<in> set (graph_keys g))) (map_of (rev g) x)"
    by (simp only: key_graph_def rev_map map_of_map_snd)
  then show ?thesis by (cases "map_of (rev g) x") (simp_all add: graph_get_def)
qed

lemma fvisit_key_graph:
  "fvisit g visiting visited x = visit (key_graph g) visiting visited x"
  "fvisit_all g visiting visited ys =
     visit_all (key_graph g) visiting visited (filter (\<lambda>v. v \<in> set (graph_keys g)) ys)"
proof (induction g visiting visited x and g visiting visited ys rule: fvisit_fvisit_all.induct)
  case (1 g visiting visited x)
  then show ?case
    by (auto simp: fvisit.simps [of g visiting visited x]
        visit.simps [of "key_graph g" visiting visited x] graph_get_key_graph)
qed (auto split: option.splits)

lemma edges_key_graph:
  "graph_edges (key_graph g) = {(x, y) \<in> graph_edges g. y \<in> set (graph_keys g)}"
  by (auto simp: graph_edges_def graph_get_key_graph)

lemma acyclic_key_graph: "acyclic (graph_edges (key_graph g)) \<longleftrightarrow> acyclic (graph_edges g)"
proof
  assume ac: "acyclic (graph_edges (key_graph g))"
  have mono: "(a, b) \<in> (graph_edges g)\<^sup>+ \<Longrightarrow> b \<in> set (graph_keys g) \<Longrightarrow>
      (a, b) \<in> (graph_edges (key_graph g))\<^sup>+" for a b
  proof (induction rule: trancl_induct)
    case (step b c)
    then have "b \<in> set (graph_keys g)" using graph_edges_key by blast
    with step show ?case by (auto simp: edges_key_graph intro: trancl_into_trancl)
  qed (auto simp: edges_key_graph)
  show "acyclic (graph_edges g)"
    unfolding acyclic_def
  proof (intro allI notI)
    fix x assume xx: "(x, x) \<in> (graph_edges g)\<^sup>+"
    then obtain y where "(x, y) \<in> graph_edges g" by (meson tranclD)
    then have "x \<in> set (graph_keys g)" by (rule graph_edges_key)
    with mono [OF xx] ac show False by (auto simp: acyclic_def)
  qed
next
  assume "acyclic (graph_edges g)"
  then show "acyclic (graph_edges (key_graph g))"
    by (rule acyclic_subset) (auto simp: edges_key_graph)
qed

lemma facyclic_check_iff: "facyclic_check g \<longleftrightarrow> acyclic (graph_edges g)"
proof -
  have "facyclic_check g \<longleftrightarrow> acyclic_check (key_graph g)"
    by (simp add: facyclic_check_def acyclic_check_def fvisit_key_graph)
  then show ?thesis by (simp add: acyclic_check_iff acyclic_key_graph)
qed

section \<open>Interface: a cycle check\<close>

text \<open>What coordinator and formalization rely on, whichever walk is used.\<close>

locale cycle_check =
  fixes check :: "ref_graph \<Rightarrow> bool"
  assumes check_iff: "check g \<longleftrightarrow> acyclic (graph_edges g)"
begin

lemma check_edges_cong: "graph_edges g = graph_edges h \<Longrightarrow> check g = check h"
  by (simp add: check_iff)

lemma check_no_self: "check g \<Longrightarrow> x \<notin> set (graph_get g x)"
proof
  assume "check g" and "x \<in> set (graph_get g x)"
  then have "(x, x) \<in> graph_edges g" by (simp add: graph_edges_def)
  with \<open>check g\<close> show False by (auto simp: check_iff acyclic_def)
qed

lemma check_subgraph: "check g \<Longrightarrow> graph_edges h \<subseteq> graph_edges g \<Longrightarrow> check h"
  by (auto simp: check_iff intro: acyclic_subset)

lemma check_terminates_supersession: "check g \<Longrightarrow> wf ((graph_edges g)\<inverse>)"
proof -
  have "graph_edges g = (SIGMA x : set (graph_keys g). set (graph_get g x))"
    using graph_get_not_key [of _ g] by (force simp: graph_edges_def)
  then have "finite (graph_edges g)" by simp
  then show "check g \<Longrightarrow> wf ((graph_edges g)\<inverse>)"
    by (simp add: check_iff finite_acyclic_wf_converse)
qed

end

interpretation coordinator_check: cycle_check acyclic_check
  by unfold_locales (rule acyclic_check_iff)

interpretation formalization_check: cycle_check facyclic_check
  by unfold_locales (rule facyclic_check_iff)

end
