(* ===== verification/Coordinator_Messages.thy ===== *)
theory Coordinator_Messages
  imports PL_Prelude
begin

text \<open>
  The goals, error messages and transition reasons of \<open>domain/coordinator.py\<close>, one constant
  each, so that the handlers carry the texts of the source without the proofs ever looking inside
  them.
\<close>

section \<open>Goals of the jobs the coordinator starts\<close>

definition route_goal :: text_t where
  "route_goal =
     ''Select a diagnosis skill for the fixed problem.''"

definition diagnose_goal :: text_t where
  "diagnose_goal =
     ''Diagnose the fixed problem using the selected skill.''"

definition generic_diagnose_goal :: text_t where
  "generic_diagnose_goal =
     ''Diagnose the raw problem with the configured generic Skill.''"

definition supplement_goal :: text_t where
  "supplement_goal =
     ''Continue diagnosis with the accepted supplement.''"

definition review_goal :: text_t where
  "review_goal =
     ''Review the fixed candidate against all supporting evidence.''"

section \<open>Messages of \<open>plan\<close> and the shared helpers\<close>

definition msg_invalid_state :: text_t where
  "msg_invalid_state =
     ''The trigger is not valid for the current Case state.''"

definition txt_allowed_trigger :: text_t where
  "txt_allowed_trigger =
     ''a trigger allowed by the S01 state table''"

definition msg_stable_target :: text_t where
  "msg_stable_target =
     ''The validated supplement changes the stable diagnosis target.''"

definition msg_other_case :: text_t where
  "msg_other_case =
     ''The Trigger belongs to a different Case.''"

definition msg_case_revision :: text_t where
  "msg_case_revision =
     ''The Trigger Case revision does not match the snapshot.''"

definition msg_no_active_job :: text_t where
  "msg_no_active_job =
     ''The Case has no active Job for this Trigger.''"

definition msg_active_job_kind :: text_t where
  "msg_active_job_kind =
     ''The active Job type or status does not match the Trigger.''"

definition msg_outcome_mismatch :: text_t where
  "msg_outcome_mismatch =
     ''The Outcome does not match the current active Job.''"

definition msg_direct_contract :: text_t where
  "msg_direct_contract =
     ''A direct Skill result must match its frozen Job and Markdown contract.''"

definition msg_failure_code :: text_t where
  "msg_failure_code =
     ''This error code is not a valid Agent ExecutionFailure.''"

definition txt_failure_codes :: text_t where
  "txt_failure_codes =
     ''an S01 fatal or conditional execution code''"

definition why_interrupt_retryable :: text_t where
  "why_interrupt_retryable =
     ''Interrupt the Case after a retryable execution failure.''"

definition why_fail_fatal :: text_t where
  "why_fail_fatal =
     ''Fail the Case after a fatal or non-retryable execution failure.''"

definition msg_missing_bindings :: text_t where
  "msg_missing_bindings =
     ''The Trigger is missing RuntimeBindings for the next Job type.''"

definition msg_continuation_unsupported :: text_t where
  "msg_continuation_unsupported = utf8
       [230, 140, 129, 231, 187, 173, 232, 175, 138, 230, 150, 173, 231, 155, 174, 229, 137,
        141, 229, 143, 170, 230, 148, 175, 230, 140, 129, 233, 128, 154, 231, 148, 168, 232,
        175, 138, 230, 150, 173, 229, 146, 140, 231, 155, 180, 230, 142, 165, 232, 190, 147,
        229, 135, 186, 32, 77, 97, 114, 107, 100, 111, 119, 110, 32, 230, 138, 165, 229, 145,
        138, 231, 154, 132, 228, 184, 147, 231, 148, 168, 232, 175, 138, 230, 150, 173, 227,
        128, 130]"

definition msg_route_skill :: text_t where
  "msg_route_skill =
     ''A ROUTE Job cannot have a selected Skill.''"

definition msg_generic_skill :: text_t where
  "msg_generic_skill =
     ''GENERIC RuntimeBindings must not select a specialized Skill.''"

definition msg_skill_mismatch :: text_t where
  "msg_skill_mismatch =
     ''RuntimeBindings do not match the Case selected Skill.''"

section \<open>Messages of the delta validation\<close>

definition msg_changed_twice :: text_t where
  "msg_changed_twice =
     ''A Diagnosis item may be changed only once per Delta.''"

definition msg_new_ids_exist :: text_t where
  "msg_new_ids_exist =
     ''New Diagnosis item IDs must not already exist.''"

definition msg_active_hypotheses :: text_t where
  "msg_active_hypotheses =
     ''Hypothesis changes must target ACTIVE hypotheses.''"

definition msg_open_question :: text_t where
  "msg_open_question =
     ''Question resolution must target an OPEN question.''"

definition msg_logparse_partial :: text_t where
  "msg_logparse_partial =
     ''A LOGPARSE_RUN cannot be accepted while a bound Evidence proposal '' @
     ''remains unaccepted.''"

definition msg_patch_target :: text_t where
  "msg_patch_target =
     ''The ProblemSpec patch changes the stable diagnosis target.''"

definition txt_same_target :: text_t where
  "txt_same_target =
     ''same stable diagnosis target''"

definition msg_supersedes_known :: text_t where
  "msg_supersedes_known =
     ''supersedes may only reference known Diagnosis items.''"

definition msg_supersedes_cycle :: text_t where
  "msg_supersedes_cycle =
     ''supersedes relationships must be acyclic.''"

definition msg_requirement_ids :: text_t where
  "msg_requirement_ids =
     ''New requirement IDs must not already exist.''"

definition msg_requirement_names :: text_t where
  "msg_requirement_names =
     ''New requirement names must not duplicate OPEN requirements.''"

definition msg_input_again :: text_t where
  "msg_input_again =
     ''An existing Case input cannot be requested again or corrected.''"

definition msg_requirement_owner :: text_t where
  "msg_requirement_owner =
     ''New requirements must be OPEN and requested by the active Job.''"

definition msg_one_attachment :: text_t where
  "msg_one_attachment =
     ''A DiagnosisState may have at most one OPEN ATTACHMENT requirement.''"

definition msg_existing_evidence :: text_t where
  "msg_existing_evidence =
     ''Existing Evidence bindings must belong to the current DiagnosisState.''"

definition msg_unknown_proposal :: text_t where
  "msg_unknown_proposal =
     ''Evidence binding references an unknown proposal key.''"

definition msg_logparse_artifact :: text_t where
  "msg_logparse_artifact =
     ''LOGPARSE Evidence must bind a same-Outcome LOGPARSE_RUN Artifact.''"

definition msg_waiting_policy :: text_t where
  "msg_waiting_policy =
     ''Waiting transitions require Skill-declared MISSING_ONLY requirements.''"

definition msg_waiting_owner :: text_t where
  "msg_waiting_owner =
     ''All OPEN requirements in a waiting transition must belong to the '' @
     ''current Job.''"

definition msg_bypass_input :: text_t where
  "msg_bypass_input =
     ''NEED_ATTACHMENT cannot bypass an OPEN INPUT requirement.''"

definition msg_requested_kind :: text_t where
  "msg_requested_kind =
     ''Requested requirement IDs must resolve the expected OPEN kind.''"

definition msg_criteria :: text_t where
  "msg_criteria =
     ''Candidate completion mappings must exactly cover the ProblemSpec.''"

definition msg_supporting :: text_t where
  "msg_supporting =
     ''Candidate supporting Evidence must be drawn from target Evidence.''"

definition msg_candidate_revision :: text_t where
  "msg_candidate_revision =
     ''Candidate revision must target the current conclusion ID.''"

definition msg_candidate_user_result :: text_t where
  "msg_candidate_user_result =
     ''Candidate acceptance requires exactly one USER_RESULT.''"

section \<open>Messages of the handlers\<close>

definition msg_new_case_active :: text_t where
  "msg_new_case_active =
     ''A new Case cannot already have an active Job.''"

definition msg_new_snapshot :: text_t where
  "msg_new_snapshot =
     ''The transient NEW snapshot does not match the normalized '' @
     ''CreateCase payload.''"

definition why_create_generic :: text_t where
  "why_create_generic =
     ''Create the Case and its initial GENERIC DIAGNOSE Job.''"

definition why_create_route :: text_t where
  "why_create_route =
     ''Create the Case and its initial ROUTE Job.''"

definition msg_route_proposals :: text_t where
  "msg_route_proposals =
     ''ROUTE Outcomes cannot propose Evidence or Artifacts.''"

definition why_no_capability :: text_t where
  "why_no_capability =
     ''No specialized capability matched; start generic diagnosis.''"

definition why_route_applied :: text_t where
  "why_route_applied =
     ''Apply the fixed route decision and start diagnosis.''"

definition why_wait_generic :: text_t where
  "why_wait_generic =
     ''Wait for the explicitly selected log archive before generic diagnosis.''"

definition msg_generic_isolated :: text_t where
  "msg_generic_isolated =
     ''A GENERIC DIAGNOSE Outcome must be the isolated generic result.''"

definition why_deliver_report :: text_t where
  "why_deliver_report =
     ''Deliver the Skill Markdown report directly without review.''"

definition msg_no_mode :: text_t where
  "msg_no_mode =
     ''A DIAGNOSE Job must have a frozen diagnosis mode.''"

definition msg_candidate_completed :: text_t where
  "msg_candidate_completed =
     ''Only a COMPLETED diagnosis can propose a Candidate.''"

definition msg_reroute_candidate :: text_t where
  "msg_reroute_candidate =
     ''REROUTE cannot carry a Candidate.''"

definition msg_unresolved_user_result :: text_t where
  "msg_unresolved_user_result =
     ''An unresolved diagnosis requires its server-generated USER_RESULT.''"

definition sum_unverifiable :: text_t where
  "sum_unverifiable =
     ''The available facts and logs do not establish a complete, '' @
     ''verifiable diagnosis.''"

definition why_close_unresolved :: text_t where
  "why_close_unresolved =
     ''Close the Case without a final result because the server '' @
     ''verification gate did not establish a diagnosis.''"

definition why_need_input :: text_t where
  "why_need_input =
     ''The Specialist requires structured user input.''"

definition why_need_attachment :: text_t where
  "why_need_attachment =
     ''The Specialist requires a READY Attachment.''"

definition msg_reroute_progress :: text_t where
  "msg_reroute_progress =
     ''A reroute diagnosis must make semantic progress before routing again.''"

definition why_reroute :: text_t where
  "why_reroute =
     ''Apply diagnosis progress and reroute from the fixed Outcome.''"

definition msg_accept_user_result :: text_t where
  "msg_accept_user_result =
     ''An accepted Candidate requires exactly one USER_RESULT Artifact.''"

definition msg_one_archive :: text_t where
  "msg_one_archive = utf8
       [232, 175, 138, 230, 150, 173, 231, 187, 147, 230, 158, 156, 230, 156, 128, 229, 164,
        154, 229, 143, 170, 232, 131, 189, 230, 156, 137, 228, 184, 128, 228, 184, 170, 229,
        189, 146, 230, 161, 163, 227, 128, 130]"

definition why_accept_unreviewed :: text_t where
  "why_accept_unreviewed =
     ''Accept and publish the server-verified Candidate because the '' @
     ''frozen review policy is NONE.''"

definition msg_no_review_policy :: text_t where
  "msg_no_review_policy =
     ''A specialized DIAGNOSE Job has no supported frozen review policy.''"

definition why_install_candidate :: text_t where
  "why_install_candidate =
     ''Install the evidence-backed Candidate and start independent review.''"

definition msg_no_progress :: text_t where
  "msg_no_progress =
     ''A completed diagnosis without a Candidate must make semantic progress.''"

definition why_continue :: text_t where
  "why_continue =
     ''Apply semantic progress and continue diagnosis in a new Job.''"

definition msg_methods_projection :: text_t where
  "msg_methods_projection =
     ''Methods V2 terminal processing requires its server projection.''"

definition msg_methods_candidate :: text_t where
  "msg_methods_candidate =
     ''Methods V2 terminal transition must remain Candidate-free.''"

definition msg_methods_failure :: text_t where
  "msg_methods_failure =
     ''A failed Methods V2 terminal Outcome requires its mapped failure.''"

definition why_methods_terminal :: text_t where
  "why_methods_terminal =
     ''Apply the Evidence V2 terminal projection without Candidate state.''"

definition msg_methods_review :: text_t where
  "msg_methods_review =
     ''Methods V2 REVIEW Outcome requires its server terminal projection.''"

definition msg_review_proposals :: text_t where
  "msg_review_proposals =
     ''REVIEW Outcomes may contain only the server-generated USER_RESULT.''"

definition msg_review_user_result :: text_t where
  "msg_review_user_result =
     ''Only an unresolved REVIEW may carry its server-generated USER_RESULT.''"

definition msg_review_target :: text_t where
  "msg_review_target =
     ''A REVIEW Job must have a fixed CandidateTarget.''"

definition msg_reviewing_mismatch :: text_t where
  "msg_reviewing_mismatch =
     ''The current REVIEWING Candidate does not match the Job target.''"

definition sum_review_gate :: text_t where
  "sum_review_gate =
     ''The available evidence did not pass the server verification gate '' @
     ''for this reviewed candidate.''"

definition why_review_pass :: text_t where
  "why_review_pass =
     ''Accept the fixed Candidate at its declared resolution status '' @
     ''after an independent PASS review.''"

definition why_review_wait :: text_t where
  "why_review_wait =
     ''Reject the Candidate and wait only for the explicitly declared '' @
     ''missing supplement.''"

definition sum_review_need_more :: text_t where
  "sum_review_need_more =
     ''The review requested more information without a single eligible '' @
     ''Skill-declared missing requirement.''"

definition sum_review_reject :: text_t where
  "sum_review_reject =
     ''Independent review did not confirm the proposed diagnosis under '' @
     ''the current facts and evidence.''"

definition why_review_unresolved :: text_t where
  "why_review_unresolved =
     ''Reject the reviewed Candidate and close the Case without '' @
     ''automatically starting another diagnosis.''"

definition msg_supplement_active :: text_t where
  "msg_supplement_active =
     ''A waiting Case cannot accept supplements while a Job is active.''"

definition msg_fact_fixed :: text_t where
  "msg_fact_fixed =
     ''A user fact already fixed in this Case cannot be corrected.''"

definition txt_missing_input :: text_t where
  "txt_missing_input =
     ''a previously missing input name''"

definition msg_missing_only :: text_t where
  "msg_missing_only =
     ''A waiting Case may accept only Skill-declared MISSING_ONLY '' @
     ''requirements.''"

definition msg_no_open_input :: text_t where
  "msg_no_open_input =
     ''Supplement input does not match an OPEN INPUT requirement.''"

definition txt_open_input :: text_t where
  "txt_open_input =
     ''an OPEN INPUT requirement name''"

definition msg_fact_ids :: text_t where
  "msg_fact_ids =
     ''Supplement fact IDs must be new within the DiagnosisState.''"

definition txt_new_item :: text_t where
  "txt_new_item =
     ''a new Diagnosis item ID''"

definition msg_fact_revision :: text_t where
  "msg_fact_revision =
     ''Supplement facts must be created at the target DiagnosisState '' @
     ''revision.''"

definition msg_input_bytes :: text_t where
  "msg_input_bytes =
     ''Supplement input violates its UTF-8 byte constraints.''"

definition msg_input_pattern :: text_t where
  "msg_input_pattern =
     ''Supplement input violates its required pattern.''"

definition msg_input_allowed :: text_t where
  "msg_input_allowed =
     ''Supplement input is not one of the allowed values.''"

definition txt_allowed_values :: text_t where
  "txt_allowed_values =
     ''one of the requirement allowed_values''"

definition msg_attachment_one :: text_t where
  "msg_attachment_one =
     ''Supplement Attachments require exactly one OPEN ATTACHMENT '' @
     ''requirement.''"

definition msg_attachment_count :: text_t where
  "msg_attachment_count =
     ''Supplement Attachments violate the required count constraints.''"

definition msg_supplement_empty :: text_t where
  "msg_supplement_empty =
     ''A supplement must satisfy at least one current requirement.''"

definition why_inputs_open :: text_t where
  "why_inputs_open =
     ''Retain the accepted supplement while required inputs remain open.''"

definition why_attachment_open :: text_t where
  "why_attachment_open =
     ''Retain the accepted supplement while the Attachment requirement '' @
     ''remains open.''"

definition msg_generic_supplement :: text_t where
  "msg_generic_supplement =
     ''Generic supplements require the requested log archive without '' @
     ''extracted facts.''"

definition msg_generic_text :: text_t where
  "msg_generic_text =
     ''Generic supplement text requires a generic waiting Job.''"

definition why_supplement_done :: text_t where
  "why_supplement_done =
     ''Fulfill all current requirements and continue diagnosis once.''"

definition msg_restart_bindings :: text_t where
  "msg_restart_bindings =
     ''Restarting generic diagnosis requires fixed log preparation bindings.''"

definition msg_restart_preserve :: text_t where
  "msg_restart_preserve =
     ''Generic restart must preserve the source Job runtime bindings.''"

definition why_restart :: text_t where
  "why_restart =
     ''Restart generic diagnosis with the newly selected log archive.''"

definition msg_cancel_mismatch :: text_t where
  "msg_cancel_mismatch =
     ''CancelCase active_job_id does not match the Case snapshot.''"

definition msg_cancel_active :: text_t where
  "msg_cancel_active =
     ''CancelCase must target the current active Job.''"

definition why_cancel :: text_t where
  "why_cancel =
     ''Cancel the non-terminal Case and any current active Job.''"

definition msg_resume_source :: text_t where
  "msg_resume_source =
     ''ResumeInterrupted must target the unresolved source Job.''"

definition msg_resume_replaced :: text_t where
  "msg_resume_replaced =
     ''The interrupted Job already has a replacement.''"

definition msg_resume_skill :: text_t where
  "msg_resume_skill =
     ''The interrupted source Job does not match the Case selected Skill.''"

definition msg_resume_methods :: text_t where
  "msg_resume_methods =
     ''An interrupted Methods V2 REVIEW must remain Candidate-free.''"

definition msg_resume_target :: text_t where
  "msg_resume_target =
     ''The interrupted REVIEW target no longer matches the current Candidate.''"

definition msg_resume_bindings :: text_t where
  "msg_resume_bindings =
     ''ResumeInterrupted RuntimeBindings must exactly equal the source '' @
     ''Job bindings.''"

definition why_resume :: text_t where
  "why_resume =
     ''Create the unique same-stage replacement for the interrupted Job.''"

definition msg_failed_target :: text_t where
  "msg_failed_target =
     ''Execution failure must target the current RUNNING Job.''"

definition msg_asset_pending :: text_t where
  "msg_asset_pending =
     ''Asset unavailability for an active Case must target its PENDING Job.''"

definition msg_asset_resume :: text_t where
  "msg_asset_resume =
     ''Asset unavailability for an interrupted Case must target its '' @
     ''resume source.''"

definition msg_asset :: text_t where
  "msg_asset =
     ''A fixed runtime asset version is unavailable.''"

definition why_asset :: text_t where
  "why_asset =
     ''Fail the Case because a fixed runtime asset cannot be loaded.''"

definition msg_old_epoch :: text_t where
  "msg_old_epoch =
     ''Old-epoch interruption must target the current RUNNING Job.''"

definition why_old_epoch :: text_t where
  "why_old_epoch =
     ''Interrupt the RUNNING Job from the previous runtime epoch.''"

definition msg_stale_active :: text_t where
  "msg_stale_active =
     ''Stale-active interruption must match the active Job drift.''"

definition why_stale :: text_t where
  "why_stale =
     ''Interrupt the active Job and preserve the stale Outcome as audit only.''"

end
