(* ===== verification/Coordinator_Support.thy ===== *)
theory Coordinator_Support
  imports Plan_Contract Supersedes Coordinator_Messages
begin

text \<open>
  The module-level helpers of \<open>domain/coordinator.py\<close> and the private methods that several
  handlers share: error values, bindings, audit summaries, the specification of the next job,
  the guards on the active job and its outcome, the failure, interruption and waiting plans, and
  the normalization of an agent's state delta.
\<close>

section \<open>Error values\<close>

fun nat_str :: "nat \<Rightarrow> string" where
  "nat_str n = (if n < 10 then [char_of (48 + n)] else nat_str (n div 10) @ [char_of (48 + n mod 10)])"

declare nat_str.simps [simp del]

text \<open>\<open>str(i)\<close> of a Python integer.\<close>

definition int_str :: "int \<Rightarrow> string" where
  "int_str i = (if i < 0 then ''-'' @ nat_str (nat (- i)) else nat_str (nat i))"

definition error_detail_of ::
  "text_t option \<Rightarrow> detail_value option \<Rightarrow> detail_value option \<Rightarrow> error_detail" where
  "error_detail_of field expected actual =
     \<lparr>ed_field = field, ed_resource_type = None, ed_resource_id = None, ed_resource_ref = None,
      ed_expected = expected, ed_actual = actual, ed_limit = None, ed_observed = None\<rparr>"

definition app_error :: "error_code \<Rightarrow> text_t \<Rightarrow> error_detail list \<Rightarrow> application_error" where
  "app_error code message details =
     \<lparr>ae_code = code, ae_message = message, ae_details = details, ae_retryable = False\<rparr>"

definition invalid_state :: "case_status \<Rightarrow> trigger_type \<Rightarrow> application_error" where
  "invalid_state st tt = app_error EC_INVALID_CASE_STATE msg_invalid_state
     [error_detail_of (Some ''trigger_type'') (Some (DStr txt_allowed_trigger))
        (Some (DStr (case_status_value st @ '':'' @ trigger_type_value tt)))]"

text \<open>\<open>_validation(message)\<close> and \<open>_validation(message, field=..., expected=..., actual=...)\<close>.\<close>

definition validation :: "text_t \<Rightarrow> application_error" where
  "validation message = app_error EC_VALIDATION_ERROR message []"

definition validation_at ::
  "text_t \<Rightarrow> text_t \<Rightarrow> detail_value option \<Rightarrow> detail_value option \<Rightarrow> application_error" where
  "validation_at message field expected actual =
     app_error EC_VALIDATION_ERROR message [error_detail_of (Some field) expected actual]"

lemma error_codes [simp]:
  "ae_code (app_error c m ds) = c"
  "ae_code (invalid_state st tt) = EC_INVALID_CASE_STATE"
  "ae_code (validation m) = EC_VALIDATION_ERROR"
  "ae_code (validation_at m f e a) = EC_VALIDATION_ERROR"
  by (simp_all add: app_error_def invalid_state_def validation_def validation_at_def)

lemma error_not_retryable [simp]:
  "\<not> ae_retryable (app_error c m ds)"
  "\<not> ae_retryable (invalid_state st tt)"
  "\<not> ae_retryable (validation m)"
  "\<not> ae_retryable (validation_at m f e a)"
  by (simp_all add: app_error_def invalid_state_def validation_def validation_at_def)

text \<open>A loop that returns the first error of its elements.\<close>

fun first_error :: "('a \<Rightarrow> application_error option) \<Rightarrow> 'a list \<Rightarrow> application_error option" where
  "first_error f [] = None"
| "first_error f (x # xs) = (case f x of Some e \<Rightarrow> Some e | None \<Rightarrow> first_error f xs)"

lemma first_error_None [simp]: "first_error f xs = None \<longleftrightarrow> (\<forall>x \<in> set xs. f x = None)"
  by (induction xs) (auto split: option.splits)

lemma first_error_Some: "first_error f xs = Some e \<Longrightarrow> \<exists>x \<in> set xs. f x = Some e"
  by (induction xs) (auto split: option.splits)

text \<open>\<open>if error is not None: return error\<close> before the rest of a handler.\<close>

definition guardC :: "application_error option \<Rightarrow> 'a cres \<Rightarrow> 'a cres" where
  "guardC err rest = (case err of Some e \<Rightarrow> AppErr e | None \<Rightarrow> rest)"

lemma guardC_simps [simp]: "guardC None r = r" "guardC (Some e) r = AppErr e"
  by (simp_all add: guardC_def)

lemma guardC_Ok: "guardC err r = Ok x \<longleftrightarrow> err = None \<and> r = Ok x"
  by (cases err) auto

lemma guardC_AppErr: "guardC err r = AppErr e \<longleftrightarrow> err = Some e \<or> (err = None \<and> r = AppErr e)"
  by (cases err) auto

lemma guardC_Raise: "guardC err r = Raise x \<longleftrightarrow> err = None \<and> r = Raise x"
  by (cases err) auto

section \<open>Bindings and deduplication\<close>

definition existing_bindings :: "opaque_id list \<Rightarrow> planned_binding list" where
  "existing_bindings ids = map ExistingResource ids"

definition proposal_binding :: "proposal_key \<Rightarrow> planned_binding" where
  "proposal_binding key = AcceptedProposal key"

fun evidence_binding_key :: "evidence_binding \<Rightarrow> string" where
  "evidence_binding_key (ExistingEvidence i) = ''existing:'' @ i"
| "evidence_binding_key (ProposedEvidence k) = ''proposal:'' @ k"

lemma evidence_binding_key_inject [simp]:
  "evidence_binding_key a = evidence_binding_key b \<longleftrightarrow> a = b"
  by (cases a; cases b) auto

lemma inj_evidence_binding_key: "inj evidence_binding_key"
  by (simp add: inj_def)

definition dedupe :: "string list \<Rightarrow> string list" where
  "dedupe values = dedupe_loop (\<lambda>v. v) [] values"

definition dedupe_evidence_bindings :: "evidence_binding list \<Rightarrow> evidence_binding list" where
  "dedupe_evidence_bindings values = dedupe_loop evidence_binding_key [] values"

interpretation dedupe_keys: stable_dedupe "\<lambda>v. v" dedupe
  unfolding dedupe_def by (rule dedupe_by.stable_dedupe_axioms)

interpretation dedupe_bindings: stable_dedupe evidence_binding_key dedupe_evidence_bindings
  unfolding dedupe_evidence_bindings_def by (rule dedupe_by.stable_dedupe_axioms)

lemma set_dedupe [simp]: "set (dedupe xs) = set xs"
  using dedupe_keys.keys_kept [of xs] by simp

lemma distinct_dedupe [simp]: "distinct (dedupe xs)"
  by (rule dedupe_keys.dd_distinct)

lemma set_dedupe_bindings [simp]: "set (dedupe_evidence_bindings bs) = set bs"
  using dedupe_bindings.keys_kept [of bs] inj_evidence_binding_key by (simp add: inj_image_eq_iff)

lemma distinct_dedupe_bindings [simp]: "distinct (dedupe_evidence_bindings bs)"
  by (rule dedupe_bindings.dd_distinct)

definition user_result_proposal_key :: "job_outcome \<Rightarrow> proposal_key option" where
  "user_result_proposal_key oc =
     (let keys = map ap_proposal_key
        (filter (\<lambda>p. ap_artifact_kind p = AK_USER_RESULT) (oc_proposed_artifacts oc))
      in if length keys = 1 then Some (hd keys) else None)"

definition runtime_from_job :: "job \<Rightarrow> runtime_bindings" where
  "runtime_from_job j =
     \<lparr>rb_diagnosis_mode = jb_diagnosis_mode j, rb_review_policy = jb_review_policy j,
      rb_generic_skill_name = jb_generic_skill_name j,
      rb_generic_log_preparation = jb_generic_log_preparation j,
      rb_agent_profile_ref = jb_agent_profile_ref j,
      rb_available_skill_refs = jb_available_skill_refs j, rb_skill_ref = jb_skill_ref j,
      rb_tool_bundle_ref = jb_tool_bundle_ref j, rb_context_policy_ref = jb_context_policy_ref j,
      rb_output_contract_ref = jb_output_contract_ref j,
      rb_logparse_tool_ref = jb_logparse_tool_ref j, rb_logparse_product = jb_logparse_product j,
      rb_resource_limits = jb_resource_limits j\<rparr>"

definition job_update_to :: "job \<Rightarrow> job_status \<Rightarrow> timestamp \<Rightarrow> job_update" where
  "job_update_to j target_status occurred_at =
     \<lparr>ju_job_id = jb_job_id j, ju_expected_status = jb_status j, ju_target_status = target_status,
      ju_started_at = None, ju_finished_at = Some occurred_at, ju_runtime_epoch = None\<rparr>"

section \<open>Audit summaries\<close>

definition rule_blocked :: "decision_rule_audit \<Rightarrow> bool" where
  "rule_blocked r \<longleftrightarrow>
     ev_status (ar_server_evaluation r) \<in> {SR_VERIFIED_FAIL, SR_UNVERIFIABLE} \<or>
     (case ar_agent_claim r of
        None \<Rightarrow> False | Some c \<Rightarrow> cl_claimed_result c \<in> {CL_FAIL, CL_UNKNOWN})"

definition blocking_rule_ids :: "job_outcome \<Rightarrow> text_t list" where
  "blocking_rule_ids oc =
     (case oc_decision_audit oc of
        None \<Rightarrow> []
      | Some audit \<Rightarrow>
          let blocked = map ar_rule_id (filter rule_blocked (au_rules audit));
              semantic = map ar_rule_id
                (filter (\<lambda>r. ev_status (ar_server_evaluation r) = SR_SEMANTIC_ONLY) (au_rules audit))
          in if blocked \<noteq> [] then dedupe blocked
             else if semantic \<noteq> [] then semantic else au_required_rule_ids audit)"

definition audit_evidence_bindings :: "job_outcome \<Rightarrow> evidence_binding list" where
  "audit_evidence_bindings oc =
     (case oc_decision_audit oc of
        None \<Rightarrow> []
      | Some audit \<Rightarrow> dedupe_evidence_bindings
          (au_required_evidence_bindings audit @
           concat (map (\<lambda>r. ev_evidence_bindings (ar_server_evaluation r)) (au_rules audit))))"

definition inconclusive_reason :: "job_outcome \<Rightarrow> unresolved_reason_code" where
  "inconclusive_reason oc =
     (case oc_decision_audit oc of
        None \<Rightarrow> UR_INSUFFICIENT_EVIDENCE
      | Some audit \<Rightarrow>
          if list_ex (\<lambda>r. ev_status (ar_server_evaluation r) = SR_VERIFIED_FAIL) (au_rules audit)
          then UR_MECHANICAL_VERIFICATION_FAILED else UR_INSUFFICIENT_EVIDENCE)"

section \<open>Plans without a next job\<close>

text \<open>The arguments every \<open>TransitionPlan(...)\<close> of the coordinator sets to their empty value
  unless the handler says otherwise.\<close>

definition base_plan :: "case_status \<Rightarrow> text_t \<Rightarrow> plan" where
  "base_plan status reason =
     \<lparr>tp_accepted_state_delta = empty_delta, tp_target_case_status = status, tp_job_updates = [],
      tp_outcome_disposition = None, tp_accepted_evidence_keys = [],
      tp_accepted_artifact_keys = [], tp_accepted_candidate_key = None,
      tp_selected_skill_update = None, tp_case_failure_update = None,
      tp_candidate_mutation = None, tp_next_job_spec = None, tp_final_result_target = None,
      tp_unresolved_result_draft = None, tp_generic_result = None,
      tp_generic_result_v2_draft = None, tp_methods_terminal_projection = None,
      tp_clear_active_job = False, tp_reason = reason\<rparr>"

lemma base_plan_fields [simp]:
  "tp_accepted_state_delta (base_plan s r) = empty_delta"
  "tp_target_case_status (base_plan s r) = s"
  "tp_job_updates (base_plan s r) = []"
  "tp_outcome_disposition (base_plan s r) = None"
  "tp_accepted_evidence_keys (base_plan s r) = []"
  "tp_accepted_artifact_keys (base_plan s r) = []"
  "tp_accepted_candidate_key (base_plan s r) = None"
  "tp_selected_skill_update (base_plan s r) = None"
  "tp_case_failure_update (base_plan s r) = None"
  "tp_candidate_mutation (base_plan s r) = None"
  "tp_next_job_spec (base_plan s r) = None"
  "tp_final_result_target (base_plan s r) = None"
  "tp_unresolved_result_draft (base_plan s r) = None"
  "tp_generic_result (base_plan s r) = None"
  "tp_generic_result_v2_draft (base_plan s r) = None"
  "tp_methods_terminal_projection (base_plan s r) = None"
  "tp_clear_active_job (base_plan s r) = False"
  "tp_reason (base_plan s r) = r"
  by (simp_all add: base_plan_def)

text \<open>The plan skeleton of an applied outcome: the active job succeeds and the case drops it.\<close>

definition applied_plan :: "case_status \<Rightarrow> text_t \<Rightarrow> job \<Rightarrow> timestamp \<Rightarrow> plan" where
  "applied_plan status reason active occurred_at =
     (base_plan status reason)
       \<lparr>tp_job_updates := [job_update_to active JS_SUCCEEDED occurred_at],
        tp_outcome_disposition := Some OD_APPLIED, tp_clear_active_job := True\<rparr>"

definition failure_plan ::
  "py_env \<Rightarrow> job \<Rightarrow> execution_failure \<Rightarrow> trigger \<Rightarrow> opaque_id option \<Rightarrow>
   outcome_disposition option \<Rightarrow> plan cres" where
  "failure_plan env j failure t source_outcome_id disposition =
     (if xf_code failure \<notin> set fatal_failure_codes \<union> set conditional_failure_codes
      then AppErr (validation_at msg_failure_code ''execution_failure.code''
             (Some (DStr txt_failure_codes)) (Some (DStr (error_code_value (xf_code failure)))))
      else
        let interrupted = xf_code failure \<in> set conditional_failure_codes \<and> xf_retryable failure
        in mk_plan env
          ((base_plan (if interrupted then CS_INTERRUPTED else CS_FAILED)
              (if interrupted then why_interrupt_retryable else why_fail_fatal))
           \<lparr>tp_job_updates := [job_update_to j (if interrupted then JS_INTERRUPTED else JS_FAILED)
                                (tr_occurred_at t)],
            tp_outcome_disposition := disposition,
            tp_case_failure_update :=
              (if interrupted then None
               else Some (SetFailure
                 \<lparr>fl_code = xf_code failure, fl_message = xf_message failure,
                  fl_source_job_id = Some (jb_job_id j), fl_source_outcome_id = source_outcome_id,
                  fl_occurred_at = tr_occurred_at t, fl_reason_code = xf_reason_code failure,
                  fl_diagnostic_id = xf_diagnostic_id failure\<rparr>)),
            tp_clear_active_job := True\<rparr>))"

definition interrupt_plan ::
  "py_env \<Rightarrow> job \<Rightarrow> trigger \<Rightarrow> outcome_disposition option \<Rightarrow> text_t \<Rightarrow> plan cres" where
  "interrupt_plan env j t disposition reason =
     mk_plan env ((base_plan CS_INTERRUPTED reason)
       \<lparr>tp_job_updates := [job_update_to j JS_INTERRUPTED (tr_occurred_at t)],
        tp_outcome_disposition := disposition, tp_clear_active_job := True\<rparr>)"

definition supplement_wait_plan ::
  "py_env \<Rightarrow> state_delta \<Rightarrow> case_status \<Rightarrow> text_t \<Rightarrow> plan cres" where
  "supplement_wait_plan env accepted_delta target_status reason =
     mk_plan env ((base_plan target_status reason)\<lparr>tp_accepted_state_delta := accepted_delta\<rparr>)"

definition diagnosis_wait_plan ::
  "py_env \<Rightarrow> job \<Rightarrow> trigger \<Rightarrow> state_delta \<Rightarrow> proposal_key list \<Rightarrow> proposal_key list \<Rightarrow>
   case_status \<Rightarrow> text_t \<Rightarrow> plan cres" where
  "diagnosis_wait_plan env active t accepted_delta evidence_keys artifact_keys target_status reason =
     mk_plan env ((applied_plan target_status reason active (tr_occurred_at t))
       \<lparr>tp_accepted_state_delta := accepted_delta, tp_accepted_evidence_keys := evidence_keys,
        tp_accepted_artifact_keys := artifact_keys\<rparr>)"

section \<open>The specification of the next job\<close>

text \<open>The keyword arguments of \<open>_job_spec\<close>.\<close>

record spec_args =
  sa_target_state_revision :: int
  sa_goal :: text_t
  sa_evidence_bindings :: "planned_binding list"
  sa_attachment_refs :: "opaque_id list"
  sa_previous_outcome_refs :: "opaque_id list"
  sa_artifact_bindings :: "planned_binding list"
  sa_selected_skill_ref :: "versioned_ref option"
  sa_review_target_binding :: "review_target_binding option"
  sa_methods_review_target :: "methods_review_target option"
  sa_replacement_for_job_id :: "opaque_id option"
  sa_generic_problem_text :: "text_t option"
  sa_generic_product_line :: "text_t option"
  sa_generic_log_archive_expected :: bool
  sa_generic_supplement_texts :: "text_t list"
  sa_continuation_context :: "report_continuation option"

definition spec_args_of :: "int \<Rightarrow> text_t \<Rightarrow> spec_args" where
  "spec_args_of revision goal =
     \<lparr>sa_target_state_revision = revision, sa_goal = goal, sa_evidence_bindings = [],
      sa_attachment_refs = [], sa_previous_outcome_refs = [], sa_artifact_bindings = [],
      sa_selected_skill_ref = None, sa_review_target_binding = None,
      sa_methods_review_target = None, sa_replacement_for_job_id = None,
      sa_generic_problem_text = None, sa_generic_product_line = None,
      sa_generic_log_archive_expected = False, sa_generic_supplement_texts = [],
      sa_continuation_context = None\<rparr>"

lemma spec_args_fields [simp]:
  "sa_target_state_revision (spec_args_of r g) = r"
  "sa_goal (spec_args_of r g) = g"
  "sa_evidence_bindings (spec_args_of r g) = []"
  "sa_attachment_refs (spec_args_of r g) = []"
  "sa_previous_outcome_refs (spec_args_of r g) = []"
  "sa_artifact_bindings (spec_args_of r g) = []"
  "sa_selected_skill_ref (spec_args_of r g) = None"
  "sa_review_target_binding (spec_args_of r g) = None"
  "sa_methods_review_target (spec_args_of r g) = None"
  "sa_replacement_for_job_id (spec_args_of r g) = None"
  "sa_generic_problem_text (spec_args_of r g) = None"
  "sa_generic_product_line (spec_args_of r g) = None"
  "sa_generic_log_archive_expected (spec_args_of r g) = False"
  "sa_generic_supplement_texts (spec_args_of r g) = []"
  "sa_continuation_context (spec_args_of r g) = None"
  by (simp_all add: spec_args_of_def)

text \<open>The body of the \<open>JobSpec(...)\<close> constructor call.\<close>

definition spec_from_bindings :: "job_type \<Rightarrow> runtime_bindings \<Rightarrow> spec_args \<Rightarrow> job_spec" where
  "spec_from_bindings jt b a =
     \<lparr>js_job_type = jt, js_diagnosis_mode = rb_diagnosis_mode b,
      js_review_policy = rb_review_policy b, js_generic_skill_name = rb_generic_skill_name b,
      js_generic_log_preparation = rb_generic_log_preparation b,
      js_generic_problem_text = sa_generic_problem_text a,
      js_generic_product_line = sa_generic_product_line a,
      js_generic_log_archive_expected = sa_generic_log_archive_expected a,
      js_generic_supplement_texts = sa_generic_supplement_texts a,
      js_continuation_context = sa_continuation_context a, js_goal = sa_goal a,
      js_target_state_revision = sa_target_state_revision a,
      js_evidence_bindings = sa_evidence_bindings a, js_attachment_refs = sa_attachment_refs a,
      js_previous_outcome_refs = sa_previous_outcome_refs a,
      js_artifact_bindings = sa_artifact_bindings a,
      js_agent_profile_ref = rb_agent_profile_ref b,
      js_available_skill_refs = rb_available_skill_refs b, js_skill_ref = rb_skill_ref b,
      js_tool_bundle_ref = rb_tool_bundle_ref b, js_context_policy_ref = rb_context_policy_ref b,
      js_output_contract_ref = rb_output_contract_ref b,
      js_logparse_tool_ref = rb_logparse_tool_ref b, js_logparse_product = rb_logparse_product b,
      js_review_target_binding = sa_review_target_binding a,
      js_methods_review_target = sa_methods_review_target a,
      js_replacement_for_job_id = sa_replacement_for_job_id a,
      js_resource_limits = rb_resource_limits b\<rparr>"

text \<open>The guards of \<open>_job_spec\<close> before the constructor.\<close>

definition job_spec_error :: "job_type \<Rightarrow> runtime_bindings \<Rightarrow> spec_args \<Rightarrow> application_error option" where
  "job_spec_error jt b a =
     (if sa_continuation_context a \<noteq> None \<and>
         (jt \<noteq> JT_DIAGNOSE \<or> (rb_diagnosis_mode b \<noteq> Some DM_GENERIC \<and> \<not> bindings_direct b))
      then Some (validation_at msg_continuation_unsupported ''continuation_context'' None None)
      else if jt = JT_ROUTE
      then (if sa_selected_skill_ref a \<noteq> None then Some (validation msg_route_skill) else None)
      else if jt = JT_DIAGNOSE \<and> rb_diagnosis_mode b = Some DM_GENERIC
      then (if sa_selected_skill_ref a \<noteq> None \<or> rb_skill_ref b \<noteq> None
            then Some (validation msg_generic_skill) else None)
      else if sa_selected_skill_ref a = None \<or> rb_skill_ref b \<noteq> sa_selected_skill_ref a
      then Some (validation_at msg_skill_mismatch ''runtime_bindings_by_job_type.skill_ref''
             (map_option (\<lambda>r. DStr (ref_id r)) (sa_selected_skill_ref a))
             (map_option (\<lambda>r. DStr (ref_id r)) (rb_skill_ref b)))
      else None)"

definition job_spec :: "trigger \<Rightarrow> job_type \<Rightarrow> spec_args \<Rightarrow> job_spec cres" where
  "job_spec t jt a =
     (case tr_runtime_bindings t jt of
        None \<Rightarrow> AppErr (validation_at msg_missing_bindings ''runtime_bindings_by_job_type''
                  (Some (DStr (job_type_value jt))) None)
      | Some b \<Rightarrow> guardC (job_spec_error jt b a)
          (let s = spec_from_bindings jt b a in if valid_job_spec s then Ok s else Raise ValueError))"

section \<open>The active job and its outcome\<close>

definition active_job_for :: "case_snapshot \<Rightarrow> trigger \<Rightarrow> job_type \<Rightarrow> job_status \<Rightarrow> job cres" where
  "active_job_for sn t expected_type expected_status =
     (let case_status = cs_status (sn_case sn)
      in if case_status \<noteq> (if expected_type = JT_REVIEW then CS_REVIEWING else CS_RUNNING)
         then AppErr (invalid_state case_status (tr_trigger_type t))
         else case sn_active_job sn of
           None \<Rightarrow> AppErr (validation msg_no_active_job)
         | Some active \<Rightarrow>
             if jb_job_type active \<noteq> expected_type \<or> jb_status active \<noteq> expected_status
             then AppErr (validation_at msg_active_job_kind ''active_job''
                    (Some (DStr (job_type_value expected_type @ '':'' @ job_status_value expected_status)))
                    (Some (DStr (job_type_value (jb_job_type active) @ '':'' @
                                 job_status_value (jb_status active)))))
             else Ok active)"

definition outcome_matches_job :: "job \<Rightarrow> job_outcome \<Rightarrow> bool" where
  "outcome_matches_job j oc \<longleftrightarrow>
     oc_job_id oc = jb_job_id j \<and> oc_case_id oc = jb_case_id j \<and> oc_job_type oc = jb_job_type j \<and>
     oc_base_state_revision oc = jb_base_state_revision j"

text \<open>The requirement requests of a diagnosis payload, resolved against the job's frozen snapshot
  (\<open>validate_outcome_for_job\<close>).\<close>

definition open_requirement_at ::
  "pending_requirement list \<Rightarrow> opaque_id list \<Rightarrow> requirement_kind \<Rightarrow> opaque_id \<Rightarrow> bool" where
  "open_requirement_at reqs fulfilled kind i \<longleftrightarrow>
     (case dict_by rq_requirement_id reqs i of
        None \<Rightarrow> False
      | Some r \<Rightarrow> rq_status r = QS_OPEN \<and> i \<notin> set fulfilled \<and> rq_kind r = kind)"

definition diagnosis_requests_resolve :: "context_snapshot \<Rightarrow> diagnosis_outcome \<Rightarrow> bool" where
  "diagnosis_requests_resolve cx d \<longleftrightarrow>
     (let added = sd_add_pending_requirements (do_state_delta d);
          reqs = cx_pending_requirements cx @ added;
          fulfilled = map rf_requirement_id (sd_fulfill_requirements (do_state_delta d))
      in list_all (\<lambda>r. rq_requirement_id r \<notin> rq_requirement_id ` set (cx_pending_requirements cx)) added \<and>
         distinct (map rq_requirement_id added) \<and>
         list_all (open_requirement_at reqs fulfilled QK_INPUT) (do_requested_input d) \<and>
         list_all (open_requirement_at reqs fulfilled QK_ATTACHMENT) (do_requested_attachments d))"

definition delta_only_requirements :: "state_delta \<Rightarrow> bool" where
  "delta_only_requirements d \<longleftrightarrow> delta_is_empty (d\<lparr>sd_add_pending_requirements := []\<rparr>)"

text \<open>The path of \<open>validate_outcome_for_job\<close> for a direct specialized job, the only jobs the
  coordinator calls it for. Evidence, proposals and the audit are empty on that path, so the rules
  about them hold trivially.\<close>

definition validate_direct_outcome :: "job \<Rightarrow> job_outcome \<Rightarrow> exn + unit" where
  "validate_direct_outcome j oc =
     (if \<not> outcome_matches_job j oc \<or>
         oc_methods_review_target oc \<noteq> None \<or> oc_methods_terminal_projection oc \<noteq> None \<or>
         oc_consumed_evidence_refs oc \<noteq> [] \<or> oc_proposed_evidence oc \<noteq> [] \<or>
         oc_proposed_artifacts oc \<noteq> [] \<or> oc_decision_audit oc \<noteq> None
      then Inl ValueError
      else case oc_result_type oc of
        RT_FAILED \<Rightarrow> Inr ()
      | RT_COMPLETED \<Rightarrow>
          (case oc_payload oc of
             Some (GenericV2Payload g) \<Rightarrow>
               ensure (specialized_direct_skill_name j = Some (g2o_skill_name g)) ()
           | _ \<Rightarrow> Inl ValueError)
      | rt \<Rightarrow>
          (case oc_payload oc of
             Some (DiagnosisPayload d) \<Rightarrow>
               if rt \<in> {RT_NEED_INPUT, RT_NEED_ATTACHMENT} \<and>
                  do_candidate_conclusion_draft d = None \<and> do_findings d = [] \<and>
                  delta_only_requirements (do_state_delta d)
               then (case jb_context_snapshot j of
                       None \<Rightarrow> Inl AssertionError
                     | Some cx \<Rightarrow> ensure (diagnosis_requests_resolve cx d) ())
               else Inl ValueError
           | _ \<Rightarrow> Inl ValueError))"

text \<open>\<open>_validate_active_outcome\<close>: the \<open>try\<close> block turns a \<open>ValueError\<close> into the validation
  error and lets an \<open>AssertionError\<close> escape.\<close>

definition validate_active_outcome :: "job \<Rightarrow> job_outcome \<Rightarrow> unit cres" where
  "validate_active_outcome active oc =
     (if \<not> outcome_matches_job active oc then AppErr (validation msg_outcome_mismatch)
      else if job_direct active
      then (case validate_direct_outcome active oc of
              Inr u \<Rightarrow> Ok u
            | Inl ValueError \<Rightarrow> AppErr (validation msg_direct_contract)
            | Inl x \<Rightarrow> Raise x)
      else Ok ())"

end
