(* ===== verification/Delta_Normalization.thy ===== *)
theory Delta_Normalization
  imports Coordinator_Support
begin

text \<open>
  How the coordinator turns the state delta of a diagnosis outcome into the delta it accepts:
  \<open>_normalize_delta\<close> and the validators it calls, and the patch semantics of
  \<open>contracts/outcomes.py\<close> (\<open>apply_problem_spec_patch\<close>).
\<close>

section \<open>Problem specification patches\<close>

definition valid_problem_spec :: "problem_spec \<Rightarrow> bool" where
  "valid_problem_spec s \<longleftrightarrow>
     valid_text (ps_statement s) \<and> valid_text (ps_expected_behavior s) \<and>
     valid_text (ps_actual_behavior s) \<and> valid_text (ps_scope s) \<and>
     list_all valid_text (ps_goals s) \<and> list_all valid_text (ps_non_goals s) \<and>
     list_all valid_text (ps_constraints s) \<and> list_all valid_text (ps_completion_criteria s) \<and>
     ps_goals s \<noteq> [] \<and> ps_completion_criteria s \<noteq> [] \<and>
     distinct (ps_goals s) \<and> distinct (ps_non_goals s) \<and> distinct (ps_constraints s) \<and>
     distinct (ps_completion_criteria s) \<and> ps_revision s > 0"

definition valid_problem_spec_patch :: "problem_spec_patch \<Rightarrow> bool" where
  "valid_problem_spec_patch p \<longleftrightarrow>
     pred_option valid_text (pp_statement p) \<and> pred_option valid_text (pp_expected_behavior p) \<and>
     pred_option valid_text (pp_actual_behavior p) \<and> pred_option valid_text (pp_scope p) \<and>
     pred_option (\<lambda>v. v \<noteq> [] \<and> distinct v \<and> list_all valid_text v) (pp_goals p) \<and>
     pred_option (\<lambda>v. distinct v \<and> list_all valid_text v) (pp_non_goals p) \<and>
     pred_option (\<lambda>v. distinct v \<and> list_all valid_text v) (pp_constraints p) \<and>
     pred_option (\<lambda>v. v \<noteq> [] \<and> distinct v \<and> list_all valid_text v) (pp_completion_criteria p) \<and>
     (pp_statement p \<noteq> None \<or> pp_expected_behavior p \<noteq> None \<or> pp_actual_behavior p \<noteq> None \<or>
      pp_scope p \<noteq> None \<or> pp_goals p \<noteq> None \<or> pp_non_goals p \<noteq> None \<or>
      pp_constraints p \<noteq> None \<or> pp_completion_criteria p \<noteq> None)"

definition patched :: "'a \<Rightarrow> 'a option \<Rightarrow> 'a" where
  "patched current v = (case v of None \<Rightarrow> current | Some x \<Rightarrow> x)"

definition field_differs :: "'a \<Rightarrow> 'a option \<Rightarrow> bool" where
  "field_differs current v \<longleftrightarrow> (case v of None \<Rightarrow> False | Some x \<Rightarrow> current \<noteq> x)"

text \<open>The names of the present fields whose value differs, in the order of
  \<open>PROBLEM_SPEC_PATCH_FIELDS\<close>.\<close>

definition patch_changes :: "problem_spec \<Rightarrow> problem_spec_patch \<Rightarrow> string list" where
  "patch_changes s p = map snd (filter fst
     [(field_differs (ps_statement s) (pp_statement p), ''statement''),
      (field_differs (ps_expected_behavior s) (pp_expected_behavior p), ''expected_behavior''),
      (field_differs (ps_actual_behavior s) (pp_actual_behavior p), ''actual_behavior''),
      (field_differs (ps_scope s) (pp_scope p), ''scope''),
      (field_differs (ps_goals s) (pp_goals p), ''goals''),
      (field_differs (ps_non_goals s) (pp_non_goals p), ''non_goals''),
      (field_differs (ps_constraints s) (pp_constraints p), ''constraints''),
      (field_differs (ps_completion_criteria s) (pp_completion_criteria p), ''completion_criteria'')])"

definition patch_spec :: "problem_spec \<Rightarrow> problem_spec_patch \<Rightarrow> problem_spec" where
  "patch_spec s p =
     \<lparr>ps_statement = patched (ps_statement s) (pp_statement p),
      ps_expected_behavior = patched (ps_expected_behavior s) (pp_expected_behavior p),
      ps_actual_behavior = patched (ps_actual_behavior s) (pp_actual_behavior p),
      ps_scope = patched (ps_scope s) (pp_scope p),
      ps_goals = patched (ps_goals s) (pp_goals p),
      ps_non_goals = patched (ps_non_goals s) (pp_non_goals p),
      ps_constraints = patched (ps_constraints s) (pp_constraints p),
      ps_completion_criteria = patched (ps_completion_criteria s) (pp_completion_criteria p),
      ps_revision = ps_revision s + 1\<rparr>"

definition apply_problem_spec_patch ::
  "problem_spec \<Rightarrow> problem_spec_patch \<Rightarrow> exn + (problem_spec \<times> bool)" where
  "apply_problem_spec_patch s p =
     (if patch_changes s p = [] then Inr (s, False)
      else ensure (valid_problem_spec (patch_spec s p)) (patch_spec s p, True))"

definition stable_target_fields :: "string list" where
  "stable_target_fields =
     [''statement'', ''expected_behavior'', ''scope'', ''goals'', ''completion_criteria'']"

fun join_comma :: "string list \<Rightarrow> string" where
  "join_comma [] = []"
| "join_comma [x] = x"
| "join_comma (x # xs) = x @ '','' @ join_comma xs"

definition normalize_patch ::
  "diagnosis_state \<Rightarrow> problem_spec_patch option \<Rightarrow> (problem_spec_patch option \<times> bool) cres" where
  "normalize_patch s patch =
     (case patch of
        None \<Rightarrow> Ok (None, False)
      | Some p \<Rightarrow>
          (case apply_problem_spec_patch (ds_problem_spec s) p of
             Inl x \<Rightarrow> Raise x
           | Inr (_, changed) \<Rightarrow>
               if \<not> changed then Ok (None, False)
               else
                 let stable = filter (\<lambda>f. f \<in> set stable_target_fields)
                       (patch_changes (ds_problem_spec s) p)
                 in if stable \<noteq> []
                    then AppErr (app_error EC_NEW_CASE_REQUIRED msg_patch_target
                           [error_detail_of (Some ''problem_spec_patch'') (Some (DStr txt_same_target))
                              (Some (DStr (join_comma (sort stable))))])
                    else Ok (Some p, True)))"

section \<open>Validators of the parts of a delta\<close>

definition state_items :: "diagnosis_state \<Rightarrow> diagnosis_item list" where
  "state_items s = ds_user_facts s @ ds_confirmed_facts s @ ds_active_hypotheses s @
     ds_rejected_hypotheses s @ ds_open_questions s"

definition hypothesis_update_changes_projection :: "diagnosis_item \<Rightarrow> item_change \<Rightarrow> bool" where
  "hypothesis_update_changes_projection current change \<longleftrightarrow>
     (case ch_statement change of None \<Rightarrow> False | Some s \<Rightarrow> s \<noteq> it_statement current) \<or>
     list_ex (\<lambda>b. case b of
          ProposedEvidence k \<Rightarrow> True
        | ExistingEvidence i \<Rightarrow> i \<notin> set (it_evidence_refs current)) (ch_evidence_bindings change)"

definition supersedes_graph :: "diagnosis_item list \<Rightarrow> item_draft list \<Rightarrow> ref_graph" where
  "supersedes_graph items drafts =
     map (\<lambda>i. (it_item_id i, it_supersedes i)) items @
     map (\<lambda>d. (dr_item_id d, dr_supersedes d)) drafts"

definition validate_supersedes ::
  "diagnosis_item list \<Rightarrow> item_draft list \<Rightarrow> application_error option" where
  "validate_supersedes items drafts =
     (let graph = supersedes_graph items drafts; known = graph_keys graph
      in if list_ex (\<lambda>k. list_ex (\<lambda>r. r \<notin> set known) (graph_get graph k)) known
         then Some (validation msg_supersedes_known)
         else if \<not> acyclic_check graph then Some (validation msg_supersedes_cycle)
         else None)"

definition open_requirements :: "diagnosis_state \<Rightarrow> pending_requirement list" where
  "open_requirements s = filter (\<lambda>r. rq_status r = QS_OPEN) (ds_pending_requirements s)"

text \<open>The names of the inputs the Case already fixes (\<open>None\<close> is Python's \<open>None\<close>).\<close>

definition fixed_input_names :: "diagnosis_state \<Rightarrow> text_t option list" where
  "fixed_input_names s = map (\<lambda>i. pv_input_name (it_provenance i)) (ds_user_facts s)"

definition validate_new_requirements ::
  "diagnosis_state \<Rightarrow> job \<Rightarrow> pending_requirement list \<Rightarrow> application_error option" where
  "validate_new_requirements s active reqs =
     (if list_ex (\<lambda>r. rq_requirement_id r \<in> rq_requirement_id ` set (ds_pending_requirements s)) reqs
      then Some (validation msg_requirement_ids)
      else if list_ex (\<lambda>r. rq_name r \<in> rq_name ` set (open_requirements s)) reqs
      then Some (validation msg_requirement_names)
      else if list_ex (\<lambda>r. rq_kind r = QK_INPUT \<and> Some (rq_name r) \<in> set (fixed_input_names s)) reqs
      then Some (app_error EC_NEW_CASE_REQUIRED msg_input_again [])
      else if list_ex (\<lambda>r. rq_requested_by_job_id r \<noteq> jb_job_id active \<or> rq_status r \<noteq> QS_OPEN) reqs
      then Some (validation msg_requirement_owner)
      else if length (filter (\<lambda>r. rq_kind r = QK_ATTACHMENT \<and> rq_status r = QS_OPEN)
                (ds_pending_requirements s)) +
              length (filter (\<lambda>r. rq_kind r = QK_ATTACHMENT) reqs) > 1
      then Some (validation msg_one_attachment)
      else None)"

definition evidence_binding_error ::
  "diagnosis_state \<Rightarrow> (proposal_key \<rightharpoonup> evidence_proposal) \<Rightarrow> (proposal_key \<rightharpoonup> artifact_proposal) \<Rightarrow>
   evidence_binding \<Rightarrow> application_error option" where
  "evidence_binding_error s proposals artifacts b =
     (case b of
        ExistingEvidence i \<Rightarrow>
          if i \<notin> set (ds_evidence_refs s) then Some (validation msg_existing_evidence) else None
      | ProposedEvidence k \<Rightarrow>
          (case proposals k of
             None \<Rightarrow> Some (validation msg_unknown_proposal)
           | Some p \<Rightarrow>
               (case source_artifact_key (ep_source_binding p) of
                  None \<Rightarrow> None
                | Some a \<Rightarrow>
                    (case artifacts a of
                       None \<Rightarrow> Some (validation msg_logparse_artifact)
                     | Some x \<Rightarrow>
                         if ap_artifact_kind x \<noteq> AK_LOGPARSE_RUN
                         then Some (validation msg_logparse_artifact) else None))))"

definition validate_evidence_bindings ::
  "diagnosis_state \<Rightarrow> evidence_binding list \<Rightarrow> (proposal_key \<rightharpoonup> evidence_proposal) \<Rightarrow>
   (proposal_key \<rightharpoonup> artifact_proposal) \<Rightarrow> application_error option" where
  "validate_evidence_bindings s bindings proposals artifacts =
     first_error (evidence_binding_error s proposals artifacts) bindings"

definition validate_requested_requirements ::
  "diagnosis_state \<Rightarrow> job \<Rightarrow> state_delta \<Rightarrow> opaque_id list \<Rightarrow> requirement_kind \<Rightarrow>
   application_error option" where
  "validate_requested_requirements s active delta requested_ids kind =
     (let all = ds_pending_requirements s @ sd_add_pending_requirements delta;
          target = dict_by rq_requirement_id all;
          open_reqs = filter (\<lambda>r. rq_status r = QS_OPEN) (dict_values rq_requirement_id all)
      in if list_ex (\<lambda>r. rq_supplement_policy r \<noteq> SP_MISSING_ONLY) open_reqs
         then Some (validation msg_waiting_policy)
         else if list_ex (\<lambda>r. rq_requested_by_job_id r \<noteq> jb_job_id active) open_reqs
         then Some (validation msg_waiting_owner)
         else if kind = QK_ATTACHMENT \<and> list_ex (\<lambda>r. rq_kind r = QK_INPUT) open_reqs
         then Some (validation msg_bypass_input)
         else if list_ex (\<lambda>i. case target i of
                    None \<Rightarrow> True
                  | Some r \<Rightarrow> rq_kind r \<noteq> kind \<or> rq_status r \<noteq> QS_OPEN) requested_ids
         then Some (validation msg_requested_kind)
         else None)"

section \<open>Candidates\<close>

definition candidate_bindings :: "candidate_draft option \<Rightarrow> evidence_binding list" where
  "candidate_bindings candidate =
     (case candidate of
        None \<Rightarrow> []
      | Some c \<Rightarrow>
          cd_supporting_evidence_bindings c @
          concat (map dm_evidence_bindings (cd_completion_criteria_mapping c)) @
          concat (map fd_evidence_bindings
            (cd_causal_factors c @ cd_candidate_factors c @ cd_excluded_factors c)))"

fun criteria_covered :: "int \<Rightarrow> criterion_draft_mapping list \<Rightarrow> text_t list \<Rightarrow> bool" where
  "criteria_covered i [] [] = True"
| "criteria_covered i (m # ms) (c # cs) =
     (dm_criterion_index m = i \<and> dm_criterion m = c \<and> criteria_covered (i + 1) ms cs)"
| "criteria_covered i _ _ = False"

definition validate_candidate ::
  "diagnosis_state \<Rightarrow> state_delta \<Rightarrow> candidate_draft \<Rightarrow> job_outcome \<Rightarrow> application_error option" where
  "validate_candidate s accepted_delta candidate oc =
     (if cd_supporting_evidence_bindings candidate = [] \<or>
         \<not> criteria_covered 0 (cd_completion_criteria_mapping candidate)
             (ps_completion_criteria (ds_problem_spec s))
      then Some (validation msg_criteria)
      else if \<not> list_all (\<lambda>b. evidence_binding_key b \<in>
                 set (map (\<lambda>i. ''existing:'' @ i) (ds_evidence_refs s) @
                      map evidence_binding_key (sd_add_evidence_bindings accepted_delta)))
                 (cd_supporting_evidence_bindings candidate)
      then Some (validation msg_supporting)
      else if (case cd_existing_conclusion_id candidate of
                 None \<Rightarrow> False
               | Some i \<Rightarrow> (case ds_candidate_conclusion s of
                   None \<Rightarrow> True | Some c \<Rightarrow> cc_conclusion_id c \<noteq> i))
      then Some (validation msg_candidate_revision)
      else if length (filter (\<lambda>p. ap_artifact_kind p = AK_USER_RESULT) (oc_proposed_artifacts oc)) \<noteq> 1
      then Some (validation msg_candidate_user_result)
      else None)"

definition continuation_with_proposals ::
  "trigger \<Rightarrow> proposal_key list \<Rightarrow> proposal_key list \<Rightarrow>
   planned_binding list \<times> opaque_id list \<times> planned_binding list" where
  "continuation_with_proposals t evidence_keys dependency_artifact_keys =
     (let c = tr_continuation_resources t
      in (existing_bindings (cr_evidence_refs c) @ map proposal_binding evidence_keys,
          cr_attachment_refs c,
          existing_bindings (cr_artifact_refs c) @ map proposal_binding dependency_artifact_keys))"

section \<open>Normalizing a delta\<close>

text \<open>The lists \<open>_normalize_delta\<close> computes before it validates.\<close>

definition accepted_facts :: "state_delta \<Rightarrow> item_draft list" where
  "accepted_facts d = filter (\<lambda>x. dr_evidence_bindings x \<noteq> []) (sd_proposed_facts d)"

definition new_drafts :: "state_delta \<Rightarrow> item_draft list" where
  "new_drafts d = accepted_facts d @ sd_add_active_hypotheses d @ sd_add_open_questions d"

definition operation_ids :: "state_delta \<Rightarrow> opaque_id list" where
  "operation_ids d = map dr_item_id (new_drafts d) @ map ch_item_id (sd_update_hypotheses d) @
     map ch_item_id (sd_reject_hypotheses d) @ map ch_item_id (sd_resolve_questions d)"

text \<open>The updates that change what the state shows. Every updated hypothesis is an item of the
  state when this is computed, so the lookup never misses.\<close>

definition effective_hypothesis_updates :: "diagnosis_state \<Rightarrow> state_delta \<Rightarrow> item_change list" where
  "effective_hypothesis_updates s d =
     filter (\<lambda>c. case dict_by it_item_id (state_items s) (ch_item_id c) of
               None \<Rightarrow> False
             | Some item \<Rightarrow> hypothesis_update_changes_projection item c) (sd_update_hypotheses d)"

definition delta_bindings :: "diagnosis_state \<Rightarrow> state_delta \<Rightarrow> evidence_binding list \<Rightarrow> evidence_binding list" where
  "delta_bindings s d extra = dedupe_evidence_bindings
     (sd_add_evidence_bindings d @
      concat (map dr_evidence_bindings (new_drafts d)) @
      concat (map ch_evidence_bindings
        (effective_hypothesis_updates s d @ sd_reject_hypotheses d @ sd_resolve_questions d)) @
      extra)"

definition binding_additions :: "diagnosis_state \<Rightarrow> evidence_binding list \<Rightarrow> evidence_binding list" where
  "binding_additions s bs = filter (\<lambda>b. case b of
       ProposedEvidence k \<Rightarrow> True | ExistingEvidence i \<Rightarrow> i \<notin> set (ds_evidence_refs s)) bs"

definition binding_keys :: "evidence_binding list \<Rightarrow> proposal_key list" where
  "binding_keys bs = List.map_filter binding_proposal_key bs"

text \<open>The artifacts the accepted evidence comes from; every key has been validated.\<close>

definition dependency_artifact_keys ::
  "(proposal_key \<rightharpoonup> evidence_proposal) \<Rightarrow> proposal_key list \<Rightarrow> proposal_key list" where
  "dependency_artifact_keys proposals keys = dedupe (List.map_filter
     (\<lambda>k. Option.bind (proposals k) (\<lambda>p. source_artifact_key (ep_source_binding p))) keys)"

definition delta_target_error :: "diagnosis_state \<Rightarrow> state_delta \<Rightarrow> application_error option" where
  "delta_target_error s d =
     (if \<not> distinct (operation_ids d) then Some (validation msg_changed_twice)
      else if list_ex (\<lambda>x. dr_item_id x \<in> it_item_id ` set (state_items s)) (new_drafts d)
      then Some (validation msg_new_ids_exist)
      else if list_ex (\<lambda>c. ch_item_id c \<notin> it_item_id ` set (ds_active_hypotheses s))
                (sd_update_hypotheses d @ sd_reject_hypotheses d)
      then Some (validation msg_active_hypotheses)
      else if list_ex (\<lambda>c. ch_item_id c \<notin> it_item_id ` set (ds_open_questions s))
                (sd_resolve_questions d)
      then Some (validation msg_open_question)
      else None)"

definition logparse_run_split :: "job_outcome \<Rightarrow> proposal_key list \<Rightarrow> proposal_key list \<Rightarrow> bool" where
  "logparse_run_split oc evidence_keys artifact_keys \<longleftrightarrow>
     list_ex (\<lambda>p. ep_proposal_key p \<notin> set evidence_keys \<and>
        (case source_artifact_key (ep_source_binding p) of
           None \<Rightarrow> False | Some a \<Rightarrow> a \<in> set artifact_keys)) (oc_proposed_evidence oc)"

definition accepted_delta_of ::
  "diagnosis_state \<Rightarrow> state_delta \<Rightarrow> problem_spec_patch option \<Rightarrow> evidence_binding list \<Rightarrow> state_delta" where
  "accepted_delta_of s d accepted_patch additions =
     \<lparr>sd_problem_spec_patch = accepted_patch, sd_add_user_facts = [],
      sd_proposed_facts = sort_key dr_item_id (accepted_facts d),
      sd_add_active_hypotheses = sort_key dr_item_id (sd_add_active_hypotheses d),
      sd_update_hypotheses = sort_key ch_item_id (effective_hypothesis_updates s d),
      sd_reject_hypotheses = sort_key ch_item_id (sd_reject_hypotheses d),
      sd_add_open_questions = sort_key dr_item_id (sd_add_open_questions d),
      sd_resolve_questions = sort_key ch_item_id (sd_resolve_questions d),
      sd_add_pending_requirements = sd_add_pending_requirements d,
      sd_fulfill_requirements = [], sd_add_evidence_bindings = additions\<rparr>"

definition delta_semantic_change :: "bool \<Rightarrow> state_delta \<Rightarrow> bool" where
  "delta_semantic_change patch_changed d \<longleftrightarrow>
     patch_changed \<or> sd_proposed_facts d \<noteq> [] \<or> sd_add_active_hypotheses d \<noteq> [] \<or>
     sd_update_hypotheses d \<noteq> [] \<or> sd_reject_hypotheses d \<noteq> [] \<or> sd_add_open_questions d \<noteq> [] \<or>
     sd_resolve_questions d \<noteq> [] \<or> sd_add_pending_requirements d \<noteq> [] \<or>
     sd_add_evidence_bindings d \<noteq> []"

text \<open>\<open>(accepted_delta, semantic_change, evidence_keys, artifact_keys)\<close>.\<close>

type_synonym normalized = "state_delta \<times> bool \<times> proposal_key list \<times> proposal_key list"

definition normalize_delta ::
  "diagnosis_state \<Rightarrow> job \<Rightarrow> job_outcome \<Rightarrow> state_delta \<Rightarrow> evidence_binding list \<Rightarrow> normalized cres" where
  "normalize_delta s active oc d extra =
     bindC (normalize_patch s (sd_problem_spec_patch d)) (\<lambda>(accepted_patch, patch_changed).
     guardC (delta_target_error s d)
     (guardC (validate_supersedes (state_items s) (new_drafts d))
     (guardC (validate_new_requirements s active (sd_add_pending_requirements d))
     (let bindings = delta_bindings s d extra;
          proposals = dict_by ep_proposal_key (oc_proposed_evidence oc);
          artifacts = dict_by ap_proposal_key (oc_proposed_artifacts oc)
      in guardC (validate_evidence_bindings s bindings proposals artifacts)
      (let additions = binding_additions s bindings;
           evidence_keys = binding_keys additions;
           artifact_keys = dependency_artifact_keys proposals evidence_keys
       in if logparse_run_split oc evidence_keys artifact_keys
          then AppErr (validation msg_logparse_partial)
          else
            let accepted = accepted_delta_of s d accepted_patch additions
            in if \<not> valid_state_delta accepted then Raise ValueError
               else Ok (accepted, delta_semantic_change patch_changed accepted,
                        evidence_keys, artifact_keys))))))"

end
