(* ===== verification/Coordinator_Outcomes.thy ===== *)
theory Coordinator_Outcomes
  imports Delta_Normalization
begin

text \<open>
  \<open>DomainCoordinator\<close> (\<open>domain/coordinator.py\<close>), the handlers of case creation and of the
  outcomes of ROUTE, DIAGNOSE and REVIEW jobs: one definition per handler, from its first guard to
  the \<open>TransitionPlan\<close> it returns, with a definition per long branch. A handler returns a plan (\<open>Ok\<close>), an application error (\<open>AppErr\<close>) or lets an
  exception escape (\<open>Raise\<close>); \<open>assert isinstance(...)\<close> is the branch
  \<open>Raise AssertionError\<close>, a failing model constructor \<open>Raise ValueError\<close>.
\<close>

section \<open>Creating a case\<close>

definition new_snapshot_matches :: "case_t \<Rightarrow> trigger \<Rightarrow> create_case_payload \<Rightarrow> bool" where
  "new_snapshot_matches c t p \<longleftrightarrow>
     (let s = cs_diagnosis_state c
      in cs_case_id c = tr_case_id t \<and> cs_case_revision c = 1 \<and> ds_revision s = 1 \<and>
         ds_problem_spec s = pc_problem_spec p \<and> ds_user_facts s = pc_initial_user_facts p \<and>
         ds_confirmed_facts s = [] \<and> ds_active_hypotheses s = [] \<and> ds_rejected_hypotheses s = [] \<and>
         ds_open_questions s = [] \<and> ds_pending_requirements s = [] \<and> ds_evidence_refs s = [] \<and>
         ds_candidate_conclusion s = None \<and> cs_selected_skill_ref c = None \<and>
         cs_final_result c = None \<and> cs_unresolved_result c = None \<and> cs_generic_result c = None \<and>
         cs_generic_result_v2 c = None \<and> cs_failure c = None \<and>
         cs_raw_problem_text c = pc_raw_problem_text p \<and> cs_product_line c = pc_product_line p \<and>
         cs_initial_log_archive_expected c = pc_initial_log_archive_expected p \<and>
         cs_continuation_context c = pc_continuation_context p)"

definition create_case :: "py_env \<Rightarrow> case_snapshot \<Rightarrow> trigger \<Rightarrow> plan cres" where
  "create_case env sn t =
     (let c = sn_case sn
      in if cs_status c \<noteq> CS_NEW then AppErr (invalid_state (cs_status c) (tr_trigger_type t))
         else if sn_active_job sn \<noteq> None
         then AppErr (app_error EC_ACTIVE_JOB_EXISTS msg_new_case_active [])
         else case tr_payload t of
           CreateCasePayload p \<Rightarrow>
             if \<not> new_snapshot_matches c t p then AppErr (validation msg_new_snapshot)
             else
               let generic = pc_force_generic p
               in bindC (job_spec t (if generic then JT_DIAGNOSE else JT_ROUTE)
                    ((spec_args_of 1 (if generic then generic_diagnose_goal else route_goal))
                     \<lparr>sa_generic_problem_text := (if generic then Some (cs_raw_problem_text c) else None),
                      sa_generic_product_line := (if generic then cs_product_line c else None),
                      sa_generic_log_archive_expected :=
                        (generic \<and> cs_initial_log_archive_expected c),
                      sa_continuation_context :=
                        (if generic then cs_continuation_context c else None)\<rparr>))
                  (\<lambda>next_job. mk_plan env
                    ((base_plan CS_RUNNING (if generic then why_create_generic else why_create_route))
                     \<lparr>tp_next_job_spec := Some next_job\<rparr>))
         | _ \<Rightarrow> Raise AssertionError)"

section \<open>Outcomes of a ROUTE job\<close>

text \<open>The common prologue of the three outcome handlers: the active job of the expected type must
  be RUNNING, the payload must be the one of the trigger, and the outcome must belong to the job.\<close>

fun payload_outcome :: "job_type \<Rightarrow> trigger_payload \<Rightarrow> job_outcome option" where
  "payload_outcome JT_ROUTE (RouteOutcomePayload oc) = Some oc"
| "payload_outcome JT_DIAGNOSE (DiagnosisOutcomePayload oc) = Some oc"
| "payload_outcome JT_REVIEW (ReviewOutcomePayload oc) = Some oc"
| "payload_outcome _ _ = None"

definition on_active_outcome ::
  "case_snapshot \<Rightarrow> trigger \<Rightarrow> job_type \<Rightarrow> (job \<Rightarrow> job_outcome \<Rightarrow> plan cres) \<Rightarrow> plan cres" where
  "on_active_outcome sn t jt decide =
     bindC (active_job_for sn t jt JS_RUNNING) (\<lambda>active.
     case payload_outcome jt (tr_payload t) of
       None \<Rightarrow> Raise AssertionError
     | Some oc \<Rightarrow> bindC (validate_active_outcome active oc) (\<lambda>_. decide active oc))"

definition route_no_capability :: "py_env \<Rightarrow> case_snapshot \<Rightarrow> trigger \<Rightarrow> job \<Rightarrow> plan cres" where
  "route_no_capability env sn t active =
     (let c = sn_case sn; attachments = cr_attachment_refs (tr_continuation_resources t)
      in bindC (job_spec t JT_DIAGNOSE
           ((spec_args_of (ds_revision (cs_diagnosis_state c)) generic_diagnose_goal)
            \<lparr>sa_attachment_refs := attachments,
             sa_generic_problem_text := Some (cs_raw_problem_text c),
             sa_generic_product_line := cs_product_line c,
             sa_generic_log_archive_expected :=
               (cs_initial_log_archive_expected c \<or> attachments \<noteq> []),
             sa_continuation_context := cs_continuation_context c\<rparr>))
         (\<lambda>next_job. mk_plan env
           ((applied_plan CS_RUNNING why_no_capability active (tr_occurred_at t))
            \<lparr>tp_selected_skill_update := Some ClearSkill, tp_next_job_spec := Some next_job\<rparr>)))"

definition route_matched ::
  "py_env \<Rightarrow> case_snapshot \<Rightarrow> trigger \<Rightarrow> job \<Rightarrow> versioned_ref \<Rightarrow> plan cres" where
  "route_matched env sn t active skill_ref =
     (let c = sn_case sn; cont = tr_continuation_resources t
      in bindC (job_spec t JT_DIAGNOSE
           ((spec_args_of (ds_revision (cs_diagnosis_state c)) diagnose_goal)
            \<lparr>sa_evidence_bindings := existing_bindings (cr_evidence_refs cont),
             sa_attachment_refs := cr_attachment_refs cont,
             sa_previous_outcome_refs := cr_previous_outcome_refs cont,
             sa_artifact_bindings := existing_bindings (cr_artifact_refs cont),
             sa_selected_skill_ref := Some skill_ref,
             sa_continuation_context := cs_continuation_context c\<rparr>))
         (\<lambda>next_job. mk_plan env
           ((applied_plan CS_RUNNING why_route_applied active (tr_occurred_at t))
            \<lparr>tp_selected_skill_update := Some (SetSkill skill_ref),
             tp_next_job_spec := Some next_job\<rparr>)))"

text \<open>\<open>assert outcome.error is not None\<close> and the failure plan of a FAILED outcome.\<close>

definition failed_outcome_plan :: "py_env \<Rightarrow> job \<Rightarrow> job_outcome \<Rightarrow> trigger \<Rightarrow> plan cres" where
  "failed_outcome_plan env active oc t =
     (case oc_error oc of
        None \<Rightarrow> Raise AssertionError
      | Some e \<Rightarrow> failure_plan env active e t (Some (oc_outcome_id oc)) (Some OD_APPLIED))"

definition route_decided ::
  "py_env \<Rightarrow> case_snapshot \<Rightarrow> trigger \<Rightarrow> job \<Rightarrow> job_outcome \<Rightarrow> plan cres" where
  "route_decided env sn t active oc =
     (if oc_proposed_evidence oc \<noteq> [] \<or> oc_proposed_artifacts oc \<noteq> []
      then AppErr (validation msg_route_proposals)
      else if oc_result_type oc = RT_FAILED then failed_outcome_plan env active oc t
      else case oc_payload oc of
        Some (RoutePayload decision) \<Rightarrow>
          if rd_kind decision = RK_NO_CAPABILITY then route_no_capability env sn t active
          else (case rd_skill_ref decision of
                  None \<Rightarrow> Raise AssertionError
                | Some r \<Rightarrow> route_matched env sn t active r)
      | _ \<Rightarrow> Raise AssertionError)"

definition route_outcome :: "py_env \<Rightarrow> case_snapshot \<Rightarrow> trigger \<Rightarrow> plan cres" where
  "route_outcome env sn t = on_active_outcome sn t JT_ROUTE (route_decided env sn t)"

section \<open>Methods V2 terminals\<close>

definition methods_candidate_free :: "case_snapshot \<Rightarrow> job \<Rightarrow> bool" where
  "methods_candidate_free sn active \<longleftrightarrow>
     ds_candidate_conclusion (cs_diagnosis_state (sn_case sn)) = None \<and>
     (case jb_context_snapshot active of
        None \<Rightarrow> False | Some cx \<Rightarrow> cx_candidate_conclusion cx = None) \<and>
     \<not> (jb_job_type active = JT_DIAGNOSE \<and> jb_diagnosis_mode active \<noteq> Some DM_SPECIALIZED) \<and>
     \<not> (jb_job_type active = JT_REVIEW \<and> jb_methods_review_target active = None)"

definition methods_terminal_plan ::
  "py_env \<Rightarrow> case_snapshot \<Rightarrow> job \<Rightarrow> job_outcome \<Rightarrow> trigger \<Rightarrow> plan cres" where
  "methods_terminal_plan env sn active oc t =
     (case oc_methods_terminal_projection oc of
        None \<Rightarrow> AppErr (validation msg_methods_projection)
      | Some terminal \<Rightarrow>
          if \<not> methods_candidate_free sn active then AppErr (validation msg_methods_candidate)
          else if mp_status terminal = MT_FAILED
          then (case oc_error oc of
                  None \<Rightarrow> AppErr (validation msg_methods_failure)
                | Some e \<Rightarrow>
                    bindC (failure_plan env active e t (Some (oc_outcome_id oc)) (Some OD_APPLIED))
                      (\<lambda>p. mk_plan env (p\<lparr>tp_methods_terminal_projection := Some terminal\<rparr>)))
          else mk_plan env
            ((applied_plan (if mp_status terminal = MT_RESOLVED then CS_RESOLVED else CS_UNRESOLVED)
                why_methods_terminal active (tr_occurred_at t))
             \<lparr>tp_methods_terminal_projection := Some terminal\<rparr>))"

section \<open>Outcomes of a DIAGNOSE job\<close>

text \<open>Status and Skill name of a Markdown payload.\<close>

fun generic_payload :: "outcome_payload option \<Rightarrow> (generic_result_status \<times> text_t \<times> bool) option" where
  "generic_payload (Some (GenericPayload g)) = Some (go_status g, go_skill_name g, False)"
| "generic_payload (Some (GenericV2Payload g)) = Some (g2o_status g, g2o_skill_name g, True)"
| "generic_payload _ = None"

text \<open>The test that a GENERIC or direct outcome is the isolated Markdown result. A direct job's
  Skill name has been resolved by \<open>validate_active_outcome\<close> when this runs.\<close>

definition isolated_generic_outcome :: "job \<Rightarrow> job_outcome \<Rightarrow> bool" where
  "isolated_generic_outcome active oc \<longleftrightarrow>
     (case generic_payload (oc_payload oc) of
        None \<Rightarrow> False
      | Some (status, name, v2) \<Rightarrow>
          (job_direct active \<longrightarrow> v2) \<and>
          Some name = (if job_direct active then specialized_direct_skill_name active
                       else jb_generic_skill_name active)) \<and>
     oc_result_type oc = RT_COMPLETED \<and> oc_consumed_evidence_refs oc = [] \<and>
     oc_proposed_evidence oc = [] \<and> oc_proposed_artifacts oc = [] \<and> oc_decision_audit oc = None"

definition generic_delivery :: "py_env \<Rightarrow> trigger \<Rightarrow> job \<Rightarrow> job_outcome \<Rightarrow> plan cres" where
  "generic_delivery env t active oc =
     (let common = (\<lambda>status. (applied_plan (generic_case_status status) why_deliver_report active
             (tr_occurred_at t))
           \<lparr>tp_selected_skill_update :=
              (if job_direct active then map_option SetSkill (jb_skill_ref active)
               else Some ClearSkill)\<rparr>)
      in if \<not> isolated_generic_outcome active oc then AppErr (validation msg_generic_isolated)
         else case oc_payload oc of
           Some (GenericV2Payload g) \<Rightarrow>
             mk_plan env ((common (g2o_status g))
               \<lparr>tp_generic_result_v2_draft := Some
                  \<lparr>gd_format_version = g2o_format_version g, gd_status = g2o_status g,
                   gd_report_markdown = g2o_report_markdown g,
                   gd_report_utf8_size = g2o_report_utf8_size g,
                   gd_report_sha256 = g2o_report_sha256 g, gd_skill_name = g2o_skill_name g,
                   gd_source_job_id = jb_job_id active, gd_source_outcome_id = oc_outcome_id oc,
                   gd_occurred_at = oc_produced_at oc\<rparr>\<rparr>)
         | Some (GenericPayload g) \<Rightarrow>
             mk_plan env ((common (go_status g))
               \<lparr>tp_generic_result := Some
                  \<lparr>gr_status = go_status g, gr_conclusion = go_conclusion g,
                   gr_root_cause_analysis = go_root_cause_analysis g,
                   gr_skill_name = go_skill_name g, gr_source_job_id = jb_job_id active,
                   gr_source_outcome_id = oc_outcome_id oc, gr_occurred_at = oc_produced_at oc\<rparr>\<rparr>)
         | _ \<Rightarrow> AppErr (validation msg_generic_isolated))"

definition inconclusive_plan ::
  "py_env \<Rightarrow> trigger \<Rightarrow> job \<Rightarrow> job_outcome \<Rightarrow> diagnosis_outcome \<Rightarrow> state_delta \<Rightarrow>
   proposal_key list \<Rightarrow> proposal_key list \<Rightarrow> plan cres" where
  "inconclusive_plan env t active oc d accepted_delta evidence_keys artifact_keys =
     (case user_result_proposal_key oc of
        None \<Rightarrow> AppErr (validation msg_unresolved_user_result)
      | Some key \<Rightarrow> mk_plan env
          ((applied_plan CS_UNRESOLVED why_close_unresolved active (tr_occurred_at t))
           \<lparr>tp_accepted_state_delta := accepted_delta,
            tp_accepted_evidence_keys := evidence_keys,
            tp_accepted_artifact_keys := dedupe (artifact_keys @ [key]),
            tp_unresolved_result_draft := Some
              \<lparr>ud_source_job_id = jb_job_id active, ud_source_outcome_id = oc_outcome_id oc,
               ud_reason_code = inconclusive_reason oc, ud_summary = sum_unverifiable,
               ud_blocking_rule_ids = blocking_rule_ids oc,
               ud_evidence_bindings = audit_evidence_bindings oc,
               ud_user_result_proposal_key = key,
               ud_recommended_next_step = do_recommended_next_step d,
               ud_occurred_at = tr_occurred_at t\<rparr>\<rparr>))"

definition reroute_plan ::
  "py_env \<Rightarrow> trigger \<Rightarrow> job \<Rightarrow> job_outcome \<Rightarrow> diagnosis_outcome \<Rightarrow> normalized \<Rightarrow> int \<Rightarrow> plan cres" where
  "reroute_plan env t active oc d n target_revision =
     (case n of (accepted_delta, semantic_change, evidence_keys, artifact_keys) \<Rightarrow>
        if \<not> semantic_change then AppErr (validation msg_reroute_progress)
        else bindC (job_spec t JT_ROUTE
               ((spec_args_of target_revision (do_recommended_next_step d))
                \<lparr>sa_previous_outcome_refs := [oc_outcome_id oc]\<rparr>))
             (\<lambda>next_job. mk_plan env
               ((applied_plan CS_RUNNING why_reroute active (tr_occurred_at t))
                \<lparr>tp_accepted_state_delta := accepted_delta,
                 tp_accepted_evidence_keys := evidence_keys,
                 tp_accepted_artifact_keys := artifact_keys,
                 tp_selected_skill_update := Some ClearSkill,
                 tp_next_job_spec := Some next_job\<rparr>)))"

definition proposal_keys_of_kind :: "artifact_kind \<Rightarrow> job_outcome \<Rightarrow> proposal_key list" where
  "proposal_keys_of_kind kind oc =
     map ap_proposal_key (filter (\<lambda>p. ap_artifact_kind p = kind) (oc_proposed_artifacts oc))"

fun resolution_case_status :: "diagnosis_resolution_status \<Rightarrow> case_status" where
  "resolution_case_status DR_COMPLETE = CS_RESOLVED"
| "resolution_case_status DR_PARTIAL = CS_PARTIALLY_RESOLVED"

definition install_mutation :: "proposal_key \<Rightarrow> candidate_status \<Rightarrow> candidate_mutation" where
  "install_mutation key status =
     \<lparr>mu_action = CM_INSTALL, mu_candidate_binding = AcceptedCandidate key,
      mu_expected_status = None, mu_target_status = status, mu_reason = None\<rparr>"

definition candidate_review_job ::
  "case_snapshot \<Rightarrow> trigger \<Rightarrow> job_outcome \<Rightarrow> candidate_draft \<Rightarrow> proposal_key list \<Rightarrow>
   proposal_key list \<Rightarrow> int \<Rightarrow> job_spec cres" where
  "candidate_review_job sn t oc candidate evidence_keys artifact_keys target_revision =
     (let resources = continuation_with_proposals t evidence_keys artifact_keys
      in job_spec t JT_REVIEW
        ((spec_args_of target_revision review_goal)
         \<lparr>sa_evidence_bindings :=
            existing_bindings (ds_evidence_refs (cs_diagnosis_state (sn_case sn))) @
            map proposal_binding evidence_keys,
          sa_attachment_refs := fst (snd resources),
          sa_previous_outcome_refs := [oc_outcome_id oc],
          sa_artifact_bindings := snd (snd resources),
          sa_selected_skill_ref := cs_selected_skill_ref (sn_case sn),
          sa_review_target_binding := Some (AcceptedCandidate (cd_proposal_key candidate))\<rparr>))"

definition candidate_plan ::
  "py_env \<Rightarrow> case_snapshot \<Rightarrow> trigger \<Rightarrow> job \<Rightarrow> job_outcome \<Rightarrow> candidate_draft \<Rightarrow> normalized \<Rightarrow>
   int \<Rightarrow> plan cres" where
  "candidate_plan env sn t active oc candidate n target_revision =
     (case n of (accepted_delta, semantic_change, evidence_keys, dependency_keys) \<Rightarrow>
      guardC (validate_candidate (cs_diagnosis_state (sn_case sn)) accepted_delta candidate oc)
      (let user_keys = proposal_keys_of_kind AK_USER_RESULT oc;
           archive_keys = proposal_keys_of_kind AK_USER_RESULT_ARCHIVE oc;
           key = cd_proposal_key candidate
       in if length user_keys \<noteq> 1 then AppErr (validation msg_accept_user_result)
          else if length archive_keys > 1 then AppErr (validation msg_one_archive)
          else
            let common = (\<lambda>status reason.
                  (applied_plan status reason active (tr_occurred_at t))
                  \<lparr>tp_accepted_state_delta := accepted_delta,
                   tp_accepted_evidence_keys := evidence_keys,
                   tp_accepted_artifact_keys := dedupe (dependency_keys @ [hd user_keys] @ archive_keys),
                   tp_accepted_candidate_key := Some key\<rparr>)
            in if jb_review_policy active = Some RP_NONE
               then mk_plan env
                 ((common (resolution_case_status (cd_resolution_status candidate)) why_accept_unreviewed)
                  \<lparr>tp_candidate_mutation := Some (install_mutation key CD_ACCEPTED),
                   tp_final_result_target := Some (FinalBinding (AcceptedCandidate key))\<rparr>)
               else if jb_review_policy active \<noteq> Some RP_INDEPENDENT
               then AppErr (validation msg_no_review_policy)
               else bindC
                 (candidate_review_job sn t oc candidate evidence_keys dependency_keys target_revision)
                 (\<lambda>next_job. mk_plan env
                   ((common CS_REVIEWING why_install_candidate)
                    \<lparr>tp_candidate_mutation := Some (install_mutation key CD_REVIEWING),
                     tp_next_job_spec := Some next_job\<rparr>))))"

definition progress_plan ::
  "py_env \<Rightarrow> case_snapshot \<Rightarrow> trigger \<Rightarrow> job \<Rightarrow> diagnosis_outcome \<Rightarrow> normalized \<Rightarrow> int \<Rightarrow> plan cres" where
  "progress_plan env sn t active d n target_revision =
     (case n of (accepted_delta, semantic_change, evidence_keys, artifact_keys) \<Rightarrow>
        if \<not> semantic_change then AppErr (validation msg_no_progress)
        else
          let resources = continuation_with_proposals t evidence_keys artifact_keys
          in bindC (job_spec t JT_DIAGNOSE
               ((spec_args_of target_revision (do_recommended_next_step d))
                \<lparr>sa_evidence_bindings := fst resources,
                 sa_attachment_refs := fst (snd resources),
                 sa_previous_outcome_refs := cr_previous_outcome_refs (tr_continuation_resources t),
                 sa_artifact_bindings := snd (snd resources),
                 sa_selected_skill_ref := cs_selected_skill_ref (sn_case sn),
                 sa_continuation_context := cs_continuation_context (sn_case sn)\<rparr>))
             (\<lambda>next_job. mk_plan env
               ((applied_plan CS_RUNNING why_continue active (tr_occurred_at t))
                \<lparr>tp_accepted_state_delta := accepted_delta,
                 tp_accepted_evidence_keys := evidence_keys,
                 tp_accepted_artifact_keys := artifact_keys,
                 tp_next_job_spec := Some next_job\<rparr>)))"

definition diagnosis_request_plan ::
  "py_env \<Rightarrow> case_snapshot \<Rightarrow> trigger \<Rightarrow> job \<Rightarrow> normalized \<Rightarrow> opaque_id list \<Rightarrow> requirement_kind \<Rightarrow> plan cres"
  where
  "diagnosis_request_plan env sn t active n requested kind =
     (case n of (accepted_delta, semantic_change, evidence_keys, artifact_keys) \<Rightarrow>
        guardC (validate_requested_requirements (cs_diagnosis_state (sn_case sn)) active
                  accepted_delta requested kind)
          (case kind of
             QK_INPUT \<Rightarrow> diagnosis_wait_plan env active t accepted_delta evidence_keys artifact_keys
               CS_WAITING_INPUT why_need_input
           | QK_ATTACHMENT \<Rightarrow> diagnosis_wait_plan env active t accepted_delta evidence_keys
               artifact_keys CS_WAITING_ATTACHMENT why_need_attachment))"

definition specialized_diagnosis ::
  "py_env \<Rightarrow> case_snapshot \<Rightarrow> trigger \<Rightarrow> job \<Rightarrow> job_outcome \<Rightarrow> diagnosis_outcome \<Rightarrow> plan cres" where
  "specialized_diagnosis env sn t active oc d =
     (let candidate = do_candidate_conclusion_draft d; rt = oc_result_type oc;
          state = cs_diagnosis_state (sn_case sn)
      in if candidate \<noteq> None \<and> rt \<noteq> RT_COMPLETED then AppErr (validation msg_candidate_completed)
         else if rt = RT_REROUTE \<and> candidate \<noteq> None then AppErr (validation msg_reroute_candidate)
         else bindC (normalize_delta state active oc (do_state_delta d)
                (if rt = RT_INCONCLUSIVE then audit_evidence_bindings oc
                 else candidate_bindings candidate))
           (\<lambda>n. case n of (accepted_delta, semantic_change, evidence_keys, artifact_keys) \<Rightarrow>
              let target_revision =
                    ds_revision state + (if semantic_change \<or> candidate \<noteq> None then 1 else 0)
              in if rt = RT_INCONCLUSIVE
                 then inconclusive_plan env t active oc d accepted_delta evidence_keys artifact_keys
                 else if rt = RT_NEED_INPUT
                 then diagnosis_request_plan env sn t active n (do_requested_input d) QK_INPUT
                 else if rt = RT_NEED_ATTACHMENT
                 then diagnosis_request_plan env sn t active n (do_requested_attachments d) QK_ATTACHMENT
                 else if rt = RT_REROUTE then reroute_plan env t active oc d n target_revision
                 else case candidate of
                   Some c \<Rightarrow> candidate_plan env sn t active oc c n target_revision
                 | None \<Rightarrow> progress_plan env sn t active d n target_revision))"

definition diagnosis_decided ::
  "py_env \<Rightarrow> case_snapshot \<Rightarrow> trigger \<Rightarrow> job \<Rightarrow> job_outcome \<Rightarrow> plan cres" where
  "diagnosis_decided env sn t active oc =
     (if oc_methods_terminal_projection oc \<noteq> None
      then methods_terminal_plan env sn active oc t
      else if oc_result_type oc = RT_FAILED then failed_outcome_plan env active oc t
      else if jb_diagnosis_mode active = Some DM_GENERIC \<and> oc_result_type oc = RT_NEED_ATTACHMENT
      then (case oc_payload oc of
              Some (DiagnosisPayload d) \<Rightarrow> mk_plan env
                ((applied_plan CS_WAITING_ATTACHMENT why_wait_generic active (tr_occurred_at t))
                 \<lparr>tp_accepted_state_delta := do_state_delta d\<rparr>)
            | _ \<Rightarrow> Raise AssertionError)
      else if jb_diagnosis_mode active = Some DM_GENERIC \<or>
              (job_direct active \<and> oc_result_type oc = RT_COMPLETED)
      then generic_delivery env t active oc
      else if jb_diagnosis_mode active \<noteq> Some DM_SPECIALIZED
      then AppErr (validation msg_no_mode)
      else case oc_payload oc of
        Some (DiagnosisPayload d) \<Rightarrow> specialized_diagnosis env sn t active oc d
      | _ \<Rightarrow> Raise AssertionError)"

definition diagnosis_outcome :: "py_env \<Rightarrow> case_snapshot \<Rightarrow> trigger \<Rightarrow> plan cres" where
  "diagnosis_outcome env sn t = on_active_outcome sn t JT_DIAGNOSE (diagnosis_decided env sn t)"

section \<open>Outcomes of a REVIEW job\<close>

definition candidate_matches :: "candidate_target \<Rightarrow> candidate_conclusion \<Rightarrow> bool" where
  "candidate_matches target c \<longleftrightarrow>
     cc_status c = CD_REVIEWING \<and> cc_conclusion_id c = ct_conclusion_id target \<and>
     cc_revision c = ct_revision target \<and> cc_content_hash c = ct_content_hash target"

definition review_mutation ::
  "candidate_target \<Rightarrow> candidate_status \<Rightarrow> text_t option \<Rightarrow> candidate_mutation" where
  "review_mutation target status reason =
     \<lparr>mu_action = CM_SET_STATUS, mu_candidate_binding = ExistingCandidate target,
      mu_expected_status = Some CD_REVIEWING, mu_target_status = status, mu_reason = reason\<rparr>"

definition review_unresolved_plan ::
  "py_env \<Rightarrow> job \<Rightarrow> job_outcome \<Rightarrow> review_assessment \<Rightarrow> candidate_target \<Rightarrow> trigger \<Rightarrow>
   unresolved_reason_code \<Rightarrow> text_t \<Rightarrow> plan cres" where
  "review_unresolved_plan env active oc assessment target t reason_code summary =
     (case user_result_proposal_key oc of
        None \<Rightarrow> Raise ValueError
      | Some key \<Rightarrow> mk_plan env
          ((applied_plan CS_UNRESOLVED why_review_unresolved active (tr_occurred_at t))
           \<lparr>tp_accepted_artifact_keys := [key],
            tp_candidate_mutation :=
              Some (review_mutation target CD_REJECTED (Some (ra_recommendation assessment))),
            tp_unresolved_result_draft := Some
              \<lparr>ud_source_job_id = jb_job_id active, ud_source_outcome_id = oc_outcome_id oc,
               ud_reason_code = reason_code, ud_summary = summary,
               ud_blocking_rule_ids = blocking_rule_ids oc,
               ud_evidence_bindings = audit_evidence_bindings oc,
               ud_user_result_proposal_key = key,
               ud_recommended_next_step = ra_recommendation assessment,
               ud_occurred_at = tr_occurred_at t\<rparr>\<rparr>))"

text \<open>The single OPEN requirement with policy MISSING_ONLY a NEED_MORE_EVIDENCE verdict may wait
  for.\<close>

definition eligible_requirement ::
  "diagnosis_state \<Rightarrow> opaque_id list \<Rightarrow> pending_requirement option" where
  "eligible_requirement s requested =
     (case requested of
        [i] \<Rightarrow>
          (case dict_by rq_requirement_id (ds_pending_requirements s) i of
             None \<Rightarrow> None
           | Some r \<Rightarrow>
               if rq_status r = QS_OPEN \<and> rq_supplement_policy r = SP_MISSING_ONLY
               then Some r else None)
      | _ \<Rightarrow> None)"

definition review_decision ::
  "py_env \<Rightarrow> case_snapshot \<Rightarrow> trigger \<Rightarrow> job \<Rightarrow> job_outcome \<Rightarrow> review_assessment \<Rightarrow>
   candidate_target \<Rightarrow> candidate_conclusion \<Rightarrow> plan cres" where
  "review_decision env sn t active oc assessment target candidate =
     (if oc_result_type oc = RT_INCONCLUSIVE
      then review_unresolved_plan env active oc assessment target t (inconclusive_reason oc)
             sum_review_gate
      else case ra_verdict assessment of
        RV_PASS \<Rightarrow> mk_plan env
          ((applied_plan (resolution_case_status (cc_resolution_status candidate)) why_review_pass
              active (tr_occurred_at t))
           \<lparr>tp_candidate_mutation := Some (review_mutation target CD_ACCEPTED None),
            tp_final_result_target := Some (FinalTarget target)\<rparr>)
      | RV_NEED_MORE_EVIDENCE \<Rightarrow>
          (case eligible_requirement (cs_diagnosis_state (sn_case sn))
                  (ra_requested_requirement_ids assessment) of
             Some r \<Rightarrow> mk_plan env
               ((applied_plan
                   (if rq_kind r = QK_INPUT then CS_WAITING_INPUT else CS_WAITING_ATTACHMENT)
                   why_review_wait active (tr_occurred_at t))
                \<lparr>tp_candidate_mutation :=
                   Some (review_mutation target CD_REJECTED (Some (ra_recommendation assessment)))\<rparr>)
           | None \<Rightarrow> review_unresolved_plan env active oc assessment target t
               UR_INVALID_NEED_MORE_REQUEST sum_review_need_more)
      | RV_REJECT \<Rightarrow> review_unresolved_plan env active oc assessment target t
          UR_SEMANTIC_REVIEW_REJECTED sum_review_reject)"

definition review_assessed ::
  "py_env \<Rightarrow> case_snapshot \<Rightarrow> trigger \<Rightarrow> job \<Rightarrow> job_outcome \<Rightarrow> review_assessment \<Rightarrow> plan cres" where
  "review_assessed env sn t active oc assessment =
     (let unresolved_review =
            oc_result_type oc = RT_INCONCLUSIVE \<or> ra_verdict assessment \<noteq> RV_PASS
      in if unresolved_review \<noteq> (user_result_proposal_key oc \<noteq> None)
         then AppErr (validation msg_review_user_result)
         else case jb_review_target active of
           None \<Rightarrow> AppErr (validation msg_review_target)
         | Some target \<Rightarrow>
             (case ds_candidate_conclusion (cs_diagnosis_state (sn_case sn)) of
                None \<Rightarrow> AppErr (validation msg_reviewing_mismatch)
              | Some candidate \<Rightarrow>
                  if \<not> candidate_matches target candidate
                  then AppErr (validation msg_reviewing_mismatch)
                  else review_decision env sn t active oc assessment target candidate))"

definition review_decided ::
  "py_env \<Rightarrow> case_snapshot \<Rightarrow> trigger \<Rightarrow> job \<Rightarrow> job_outcome \<Rightarrow> plan cres" where
  "review_decided env sn t active oc =
     (if oc_methods_terminal_projection oc \<noteq> None
      then methods_terminal_plan env sn active oc t
      else if oc_result_type oc = RT_FAILED then failed_outcome_plan env active oc t
      else if jb_methods_review_target active \<noteq> None
      then AppErr (validation msg_methods_review)
      else if oc_proposed_evidence oc \<noteq> [] \<or>
              list_ex (\<lambda>p. ap_artifact_kind p \<noteq> AK_USER_RESULT) (oc_proposed_artifacts oc)
      then AppErr (validation msg_review_proposals)
      else case oc_payload oc of
        Some (ReviewPayload assessment) \<Rightarrow> review_assessed env sn t active oc assessment
      | _ \<Rightarrow> Raise AssertionError)"

definition review_outcome :: "py_env \<Rightarrow> case_snapshot \<Rightarrow> trigger \<Rightarrow> plan cres" where
  "review_outcome env sn t = on_active_outcome sn t JT_REVIEW (review_decided env sn t)"

end
