(* ===== verification/Coordinator_Control.thy ===== *)
theory Coordinator_Control
  imports Coordinator_Outcomes
begin

text \<open>
  \<open>DomainCoordinator\<close> (\<open>domain/coordinator.py\<close>), the remaining handlers: supplements of
  a waiting case, the restart of a generic diagnosis, cancellation, resumption of an interrupted
  job, and the failures the runtime reports.
\<close>

section \<open>Supplements\<close>

text \<open>\<open>open_requirements.values()\<close> and \<open>open_inputs_by_name\<close>.\<close>

definition open_requirement_values :: "diagnosis_state \<Rightarrow> pending_requirement list" where
  "open_requirement_values s = dict_values rq_requirement_id (open_requirements s)"

definition open_inputs_by_name :: "diagnosis_state \<Rightarrow> (text_t \<rightharpoonup> pending_requirement)" where
  "open_inputs_by_name s = dict_by rq_name
     (filter (\<lambda>r. rq_kind r = QK_INPUT) (open_requirement_values s))"

definition fixed_fact_error :: "diagnosis_state \<Rightarrow> diagnosis_item \<Rightarrow> application_error option" where
  "fixed_fact_error s ufact =
     (let name = pv_input_name (it_provenance ufact)
      in if name \<in> set (fixed_input_names s)
         then Some (app_error EC_NEW_CASE_REQUIRED msg_fact_fixed
                [error_detail_of (Some ''user_facts.provenance.input_name'')
                   (Some (DStr txt_missing_input)) (map_option DStr name)])
         else None)"

text \<open>The checks of one supplement fact against the constraints of its requirement.\<close>

definition input_constraint_error ::
  "py_env \<Rightarrow> input_constraints \<Rightarrow> text_t \<Rightarrow> application_error option" where
  "input_constraint_error env c statement =
     (let n = int (length statement)
      in if \<not> (ic_min_utf8_bytes c \<le> n \<and> n \<le> ic_max_utf8_bytes c)
         then Some (validation_at msg_input_bytes ''user_facts.statement''
                (Some (DStr (int_str (ic_min_utf8_bytes c) @ ''..'' @
                             int_str (ic_max_utf8_bytes c) @ '' UTF-8 bytes'')))
                (Some (DInt n)))
         else if (case ic_pattern c of None \<Rightarrow> False | Some p \<Rightarrow> \<not> env_fullmatch env p statement)
         then Some (validation_at msg_input_pattern ''user_facts.statement''
                (map_option DStr (ic_pattern c)) (Some (DStr statement)))
         else if ic_allowed_values c \<noteq> [] \<and> statement \<notin> set (ic_allowed_values c)
         then Some (validation_at msg_input_allowed ''user_facts.statement''
                (Some (DStr txt_allowed_values)) (Some (DStr statement)))
         else None)"

text \<open>One round of the loop over the supplement facts: the fulfillment it appends.\<close>

definition fulfill_fact ::
  "py_env \<Rightarrow> diagnosis_state \<Rightarrow> diagnosis_item \<Rightarrow> requirement_fulfillment cres" where
  "fulfill_fact env s ufact =
     (let name = pv_input_name (it_provenance ufact)
      in case Option.bind name (open_inputs_by_name s) of
           None \<Rightarrow> AppErr (validation_at msg_no_open_input ''user_facts.provenance.input_name''
                     (Some (DStr txt_open_input)) (map_option DStr name))
         | Some requirement \<Rightarrow>
             if it_item_id ufact \<in> it_item_id ` set (state_items s)
             then AppErr (validation_at msg_fact_ids ''user_facts.item_id''
                    (Some (DStr txt_new_item)) (Some (DStr (it_item_id ufact))))
             else if it_created_revision ufact \<noteq> ds_revision s + 1
             then AppErr (validation_at msg_fact_revision ''user_facts.created_revision''
                    (Some (DInt (ds_revision s + 1))) (Some (DInt (it_created_revision ufact))))
             else case rq_constraints requirement of
               AttachmentConstraints _ \<Rightarrow> Raise AssertionError
             | InputConstraints c \<Rightarrow>
                 guardC (input_constraint_error env c (it_statement ufact))
                   (Ok \<lparr>rf_requirement_id = rq_requirement_id requirement,
                        rf_fulfilled_by_refs = [it_item_id ufact]\<rparr>))"

fun fulfill_facts ::
  "py_env \<Rightarrow> diagnosis_state \<Rightarrow> diagnosis_item list \<Rightarrow> requirement_fulfillment list cres" where
  "fulfill_facts env s [] = Ok []"
| "fulfill_facts env s (ufact # facts) =
     bindC (fulfill_fact env s ufact) (\<lambda>f.
     bindC (fulfill_facts env s facts) (\<lambda>fs. Ok (f # fs)))"

definition fulfill_attachments ::
  "diagnosis_state \<Rightarrow> opaque_id list \<Rightarrow> requirement_fulfillment list cres" where
  "fulfill_attachments s ready =
     (if ready = [] then Ok []
      else case filter (\<lambda>r. rq_kind r = QK_ATTACHMENT) (open_requirement_values s) of
        [requirement] \<Rightarrow>
          (case rq_constraints requirement of
             InputConstraints _ \<Rightarrow> Raise AssertionError
           | AttachmentConstraints c \<Rightarrow>
               let n = int (length ready);
                   f = \<lparr>rf_requirement_id = rq_requirement_id requirement,
                        rf_fulfilled_by_refs = ready\<rparr>
               in if \<not> (ac_min_count c \<le> n \<and> n \<le> ac_max_count c)
                  then AppErr (validation_at msg_attachment_count ''ready_attachment_ids''
                         (Some (DStr (int_str (ac_min_count c) @ ''..'' @ int_str (ac_max_count c))))
                         (Some (DInt n)))
                  else if \<not> valid_fulfillment f then Raise ValueError
                  else Ok [f])
      | _ \<Rightarrow> AppErr (validation msg_attachment_one))"

definition supplement_delta ::
  "diagnosis_item list \<Rightarrow> requirement_fulfillment list \<Rightarrow> state_delta" where
  "supplement_delta facts fulfillments =
     empty_delta\<lparr>sd_add_user_facts := sort_key it_item_id facts,
                 sd_fulfill_requirements := sort_key rf_requirement_id fulfillments\<rparr>"

text \<open>The OPEN required requirements that remain after the fulfillments.\<close>

definition remaining_requirements ::
  "diagnosis_state \<Rightarrow> requirement_fulfillment list \<Rightarrow> requirement_kind \<Rightarrow> pending_requirement list" where
  "remaining_requirements s fulfillments kind =
     filter (\<lambda>r. rq_status r = QS_OPEN \<and> rq_required r \<and>
               rq_requirement_id r \<notin> rf_requirement_id ` set fulfillments \<and> rq_kind r = kind)
       (ds_pending_requirements s)"

text \<open>\<open>[*texts, *([text] if text.strip() else [])]\<close>.\<close>

definition append_supplement :: "text_t list \<Rightarrow> text_t \<Rightarrow> text_t list" where
  "append_supplement texts extra = texts @ (if blank_text extra then [] else [extra])"

definition supplement_next_job ::
  "case_snapshot \<Rightarrow> trigger \<Rightarrow> supplement_payload \<Rightarrow> job_spec cres" where
  "supplement_next_job sn t p =
     (let c = sn_case sn; cont = tr_continuation_resources t;
          revision = ds_revision (cs_diagnosis_state c) + 1;
          specialized =
            (if sp_generic_supplement_text p \<noteq> [] then AppErr (validation msg_generic_text)
             else job_spec t JT_DIAGNOSE
               ((spec_args_of revision supplement_goal)
                \<lparr>sa_evidence_bindings := existing_bindings (cr_evidence_refs cont),
                 sa_attachment_refs := cr_attachment_refs cont,
                 sa_previous_outcome_refs := cr_previous_outcome_refs cont,
                 sa_artifact_bindings := existing_bindings (cr_artifact_refs cont),
                 sa_selected_skill_ref := cs_selected_skill_ref c,
                 sa_continuation_context := cs_continuation_context c\<rparr>))
      in case sn_waiting_source_job sn of
           None \<Rightarrow> specialized
         | Some source \<Rightarrow>
             if jb_diagnosis_mode source \<noteq> Some DM_GENERIC then specialized
             else if sp_user_facts p \<noteq> [] \<or> sp_ready_attachment_ids p = []
             then AppErr (validation msg_generic_supplement)
             else job_spec t JT_DIAGNOSE
               ((spec_args_of revision supplement_goal)
                \<lparr>sa_attachment_refs := sp_ready_attachment_ids p,
                 sa_generic_problem_text := jb_generic_problem_text source,
                 sa_generic_product_line := jb_generic_product_line source,
                 sa_generic_log_archive_expected := True,
                 sa_generic_supplement_texts :=
                   append_supplement (jb_generic_supplement_texts source) (sp_generic_supplement_text p),
                 sa_continuation_context := cs_continuation_context c\<rparr>))"

definition accept_supplement ::
  "py_env \<Rightarrow> case_snapshot \<Rightarrow> trigger \<Rightarrow> supplement_payload \<Rightarrow> plan cres" where
  "accept_supplement env sn t p =
     (let s = cs_diagnosis_state (sn_case sn)
      in guardC (first_error (fixed_fact_error s) (sp_user_facts p))
         (if list_ex (\<lambda>r. rq_supplement_policy r \<noteq> SP_MISSING_ONLY) (open_requirement_values s)
          then AppErr (validation msg_missing_only)
          else bindC (fulfill_facts env s (sp_user_facts p)) (\<lambda>by_facts.
               bindC (fulfill_attachments s (sp_ready_attachment_ids p)) (\<lambda>by_attachments.
               if sp_user_facts p = [] \<and> sp_ready_attachment_ids p = []
               then AppErr (validation msg_supplement_empty)
               else
                 let fulfillments = by_facts @ by_attachments;
                     delta = supplement_delta (sp_user_facts p) fulfillments
                 in if remaining_requirements s fulfillments QK_INPUT \<noteq> []
                    then supplement_wait_plan env delta CS_WAITING_INPUT why_inputs_open
                    else if remaining_requirements s fulfillments QK_ATTACHMENT \<noteq> []
                    then supplement_wait_plan env delta CS_WAITING_ATTACHMENT why_attachment_open
                    else bindC (supplement_next_job sn t p) (\<lambda>next_job. mk_plan env
                      ((base_plan CS_RUNNING why_supplement_done)
                       \<lparr>tp_accepted_state_delta := delta, tp_next_job_spec := Some next_job\<rparr>))))))"

definition submit_supplement :: "py_env \<Rightarrow> case_snapshot \<Rightarrow> trigger \<Rightarrow> plan cres" where
  "submit_supplement env sn t =
     (let st = cs_status (sn_case sn)
      in if st \<notin> {CS_WAITING_INPUT, CS_WAITING_ATTACHMENT}
         then AppErr (invalid_state st (tr_trigger_type t))
         else if sn_active_job sn \<noteq> None
         then AppErr (app_error EC_ACTIVE_JOB_EXISTS msg_supplement_active [])
         else case tr_payload t of
           SubmitSupplementPayload p \<Rightarrow> accept_supplement env sn t p
         | _ \<Rightarrow> Raise AssertionError)"

section \<open>Restarting a generic diagnosis\<close>

text \<open>\<open>_runtime_from_job\<close> with the validation of the \<open>RuntimeBindings\<close> it constructs.\<close>

definition runtime_bindings_of_job :: "job \<Rightarrow> runtime_bindings cres" where
  "runtime_bindings_of_job j =
     (if valid_runtime_bindings (runtime_from_job j) then Ok (runtime_from_job j) else Raise ValueError)"

definition restart_expected_bindings :: "job \<Rightarrow> runtime_bindings \<Rightarrow> runtime_bindings cres" where
  "restart_expected_bindings source b =
     bindC (runtime_bindings_of_job source) (\<lambda>r.
       let expected =
         (if jb_logparse_tool_ref source = None \<and> jb_generic_log_preparation source = None
          then r\<lparr>rb_generic_log_preparation := rb_generic_log_preparation b,
                 rb_logparse_tool_ref := rb_logparse_tool_ref b,
                 rb_logparse_product := rb_logparse_product b\<rparr>
          else r)
       in if valid_runtime_bindings expected then Ok expected else Raise ValueError)"

definition restart_generic_diagnosis :: "py_env \<Rightarrow> case_snapshot \<Rightarrow> trigger \<Rightarrow> plan cres" where
  "restart_generic_diagnosis env sn t =
     (case tr_payload t of
        RestartGenericPayload source_id supplement \<Rightarrow>
          (case sn_active_job sn of
             None \<Rightarrow> AppErr (invalid_state (cs_status (sn_case sn)) (tr_trigger_type t))
           | Some source \<Rightarrow>
               if cs_status (sn_case sn) \<noteq> CS_RUNNING \<or> jb_job_id source \<noteq> source_id \<or>
                  jb_diagnosis_mode source \<noteq> Some DM_GENERIC \<or>
                  jb_status source \<notin> {JS_PENDING, JS_RUNNING}
               then AppErr (invalid_state (cs_status (sn_case sn)) (tr_trigger_type t))
               else case tr_runtime_bindings t JT_DIAGNOSE of
                 None \<Rightarrow> AppErr (validation msg_restart_bindings)
               | Some b \<Rightarrow>
                   if rb_generic_log_preparation b = None \<and> rb_logparse_tool_ref b = None
                   then AppErr (validation msg_restart_bindings)
                   else bindC (restart_expected_bindings source b) (\<lambda>expected.
                     if b \<noteq> expected then AppErr (validation msg_restart_preserve)
                     else bindC (job_spec t JT_DIAGNOSE
                       ((spec_args_of (ds_revision (cs_diagnosis_state (sn_case sn))) generic_diagnose_goal)
                        \<lparr>sa_generic_problem_text := jb_generic_problem_text source,
                         sa_generic_product_line := jb_generic_product_line source,
                         sa_generic_log_archive_expected := True,
                         sa_generic_supplement_texts :=
                           append_supplement (jb_generic_supplement_texts source) supplement,
                         sa_continuation_context := jb_continuation_context source\<rparr>))
                       (\<lambda>next_job. mk_plan env
                         ((base_plan CS_RUNNING why_restart)
                          \<lparr>tp_job_updates := [job_update_to source JS_CANCELLED (tr_occurred_at t)],
                           tp_next_job_spec := Some next_job, tp_clear_active_job := True\<rparr>))))
      | _ \<Rightarrow> Raise AssertionError)"

section \<open>Cancelling\<close>

definition cancel_case :: "py_env \<Rightarrow> case_snapshot \<Rightarrow> trigger \<Rightarrow> plan cres" where
  "cancel_case env sn t =
     (let st = cs_status (sn_case sn)
      in if st \<in> {CS_CANCELLED, CS_NEW, CS_RESOLVED, CS_PARTIALLY_RESOLVED, CS_UNRESOLVED, CS_FAILED}
         then AppErr (invalid_state st (tr_trigger_type t))
         else case tr_payload t of
           CancelCasePayload active_job_id \<Rightarrow>
             if (sn_active_job sn = None) \<noteq> (active_job_id = None)
             then AppErr (validation msg_cancel_mismatch)
             else (case sn_active_job sn of
               None \<Rightarrow> mk_plan env (base_plan CS_CANCELLED why_cancel)
             | Some active \<Rightarrow>
                 if active_job_id \<noteq> Some (jb_job_id active) \<or>
                    jb_status active \<notin> {JS_PENDING, JS_RUNNING}
                 then AppErr (validation msg_cancel_active)
                 else mk_plan env ((base_plan CS_CANCELLED why_cancel)
                   \<lparr>tp_job_updates := [job_update_to active JS_CANCELLED (tr_occurred_at t)],
                    tp_clear_active_job := True\<rparr>))
         | _ \<Rightarrow> Raise AssertionError)"

section \<open>Resuming an interrupted job\<close>

definition resume_skill_mismatch :: "job \<Rightarrow> versioned_ref option \<Rightarrow> bool" where
  "resume_skill_mismatch source selected_skill \<longleftrightarrow>
     (jb_job_type source = JT_ROUTE \<and> selected_skill \<noteq> None) \<or>
     (jb_job_type source = JT_DIAGNOSE \<and> jb_diagnosis_mode source = Some DM_GENERIC \<and>
        selected_skill \<noteq> None) \<or>
     (jb_job_type source \<noteq> JT_ROUTE \<and> jb_diagnosis_mode source \<noteq> Some DM_GENERIC \<and>
        selected_skill \<noteq> jb_skill_ref source)"

definition resume_review_error :: "case_snapshot \<Rightarrow> job \<Rightarrow> application_error option" where
  "resume_review_error sn source =
     (let candidate = ds_candidate_conclusion (cs_diagnosis_state (sn_case sn))
      in if jb_job_type source \<noteq> JT_REVIEW then None
         else if jb_methods_review_target source \<noteq> None
         then (if candidate \<noteq> None then Some (validation msg_resume_methods) else None)
         else case (jb_review_target source, candidate) of
           (Some target, Some c) \<Rightarrow>
             if candidate_matches target c then None else Some (validation msg_resume_target)
         | _ \<Rightarrow> Some (validation msg_resume_target))"

definition resume_args :: "case_snapshot \<Rightarrow> job \<Rightarrow> spec_args" where
  "resume_args sn source =
     \<lparr>sa_target_state_revision = ds_revision (cs_diagnosis_state (sn_case sn)),
      sa_goal = jb_goal source,
      sa_evidence_bindings = existing_bindings (jb_evidence_refs source),
      sa_attachment_refs = jb_attachment_refs source,
      sa_previous_outcome_refs = jb_previous_outcome_refs source,
      sa_artifact_bindings = existing_bindings (jb_artifact_refs source),
      sa_selected_skill_ref = jb_skill_ref source,
      sa_review_target_binding = map_option ExistingCandidate (jb_review_target source),
      sa_methods_review_target = jb_methods_review_target source,
      sa_replacement_for_job_id = Some (jb_job_id source),
      sa_generic_problem_text = jb_generic_problem_text source,
      sa_generic_product_line = jb_generic_product_line source,
      sa_generic_log_archive_expected = jb_generic_log_archive_expected source,
      sa_generic_supplement_texts = jb_generic_supplement_texts source,
      sa_continuation_context = jb_continuation_context source\<rparr>"

definition resume_interrupted :: "py_env \<Rightarrow> case_snapshot \<Rightarrow> trigger \<Rightarrow> plan cres" where
  "resume_interrupted env sn t =
     (if cs_status (sn_case sn) \<noteq> CS_INTERRUPTED
      then AppErr (invalid_state (cs_status (sn_case sn)) (tr_trigger_type t))
      else case tr_payload t of
        ResumeInterruptedPayload source_id \<Rightarrow>
          (case sn_resume_source_job sn of
             None \<Rightarrow> AppErr (validation msg_resume_source)
           | Some source \<Rightarrow>
               if jb_job_id source \<noteq> source_id then AppErr (validation msg_resume_source)
               else if jb_job_id source \<in> fst ` set (sn_replacement_job_ids_by_source sn)
               then AppErr (app_error EC_ACTIVE_JOB_EXISTS msg_resume_replaced [])
               else if resume_skill_mismatch source (cs_selected_skill_ref (sn_case sn))
               then AppErr (validation msg_resume_skill)
               else guardC (resume_review_error sn source)
                 (case tr_runtime_bindings t (jb_job_type source) of
                    None \<Rightarrow> AppErr (validation msg_resume_bindings)
                  | Some b \<Rightarrow>
                      bindC (runtime_bindings_of_job source) (\<lambda>frozen.
                      if b \<noteq> frozen then AppErr (validation msg_resume_bindings)
                      else bindC (job_spec t (jb_job_type source) (resume_args sn source))
                        (\<lambda>next_job. mk_plan env
                          ((base_plan (if jb_job_type source = JT_REVIEW then CS_REVIEWING
                                       else CS_RUNNING) why_resume)
                           \<lparr>tp_next_job_spec := Some next_job\<rparr>)))))
      | _ \<Rightarrow> Raise AssertionError)"

section \<open>Failures reported by the runtime\<close>

definition execution_failed :: "py_env \<Rightarrow> case_snapshot \<Rightarrow> trigger \<Rightarrow> plan cres" where
  "execution_failed env sn t =
     (let st = cs_status (sn_case sn)
      in if st \<notin> {CS_RUNNING, CS_REVIEWING} then AppErr (invalid_state st (tr_trigger_type t))
         else case tr_payload t of
           ExecutionFailedPayload p \<Rightarrow>
             (case sn_active_job sn of
                None \<Rightarrow> AppErr (validation msg_failed_target)
              | Some active \<Rightarrow>
                  if jb_job_id active \<noteq> xp_source_job_id p \<or> jb_status active \<noteq> JS_RUNNING
                  then AppErr (validation msg_failed_target)
                  else failure_plan env active (xp_execution_failure p) t (xp_source_outcome_id p) None)
         | _ \<Rightarrow> Raise AssertionError)"

definition asset_failure :: "trigger \<Rightarrow> opaque_id \<Rightarrow> case_failure" where
  "asset_failure t source_job_id =
     \<lparr>fl_code = EC_ASSET_VERSION_UNAVAILABLE, fl_message = msg_asset,
      fl_source_job_id = Some source_job_id, fl_source_outcome_id = None,
      fl_occurred_at = tr_occurred_at t, fl_reason_code = None, fl_diagnostic_id = None\<rparr>"

definition asset_unavailable :: "py_env \<Rightarrow> case_snapshot \<Rightarrow> trigger \<Rightarrow> plan cres" where
  "asset_unavailable env sn t =
     (case tr_payload t of
        AssetUnavailablePayload source_id missing \<Rightarrow>
          (let st = cs_status (sn_case sn);
               failing = (\<lambda>updates clear. mk_plan env ((base_plan CS_FAILED why_asset)
                 \<lparr>tp_job_updates := updates,
                  tp_case_failure_update := Some (SetFailure (asset_failure t source_id)),
                  tp_clear_active_job := clear\<rparr>))
           in if st \<in> {CS_RUNNING, CS_REVIEWING}
              then (case sn_active_job sn of
                      None \<Rightarrow> AppErr (validation msg_asset_pending)
                    | Some active \<Rightarrow>
                        if jb_job_id active \<noteq> source_id \<or> jb_status active \<noteq> JS_PENDING
                        then AppErr (validation msg_asset_pending)
                        else failing [job_update_to active JS_FAILED (tr_occurred_at t)] True)
              else if st = CS_INTERRUPTED
              then (case sn_resume_source_job sn of
                      None \<Rightarrow> AppErr (validation msg_asset_resume)
                    | Some source \<Rightarrow>
                        if jb_job_id source \<noteq> source_id then AppErr (validation msg_asset_resume)
                        else failing [] False)
              else AppErr (invalid_state st (tr_trigger_type t)))
      | _ \<Rightarrow> Raise AssertionError)"

definition old_epoch :: "py_env \<Rightarrow> case_snapshot \<Rightarrow> trigger \<Rightarrow> plan cres" where
  "old_epoch env sn t =
     (let st = cs_status (sn_case sn)
      in if st \<notin> {CS_RUNNING, CS_REVIEWING} then AppErr (invalid_state st (tr_trigger_type t))
         else case tr_payload t of
           OldEpochPayload source_id previous current \<Rightarrow>
             (case sn_active_job sn of
                None \<Rightarrow> AppErr (validation msg_old_epoch)
              | Some active \<Rightarrow>
                  if jb_job_id active \<noteq> source_id \<or> jb_status active \<noteq> JS_RUNNING \<or>
                     jb_runtime_epoch active \<noteq> Some previous
                  then AppErr (validation msg_old_epoch)
                  else interrupt_plan env active t None why_old_epoch)
         | _ \<Rightarrow> Raise AssertionError)"

definition stale_active_outcome :: "py_env \<Rightarrow> case_snapshot \<Rightarrow> trigger \<Rightarrow> plan cres" where
  "stale_active_outcome env sn t =
     (let st = cs_status (sn_case sn)
      in if st \<notin> {CS_RUNNING, CS_REVIEWING} then AppErr (invalid_state st (tr_trigger_type t))
         else case tr_payload t of
           StaleActivePayload source_id outcome_id expected_base actual \<Rightarrow>
             (case sn_active_job sn of
                None \<Rightarrow> AppErr (validation msg_stale_active)
              | Some active \<Rightarrow>
                  if jb_job_id active \<noteq> source_id \<or> jb_status active \<noteq> JS_RUNNING \<or>
                     jb_base_state_revision active \<noteq> expected_base \<or>
                     ds_revision (cs_diagnosis_state (sn_case sn)) \<noteq> actual
                  then AppErr (validation msg_stale_active)
                  else interrupt_plan env active t (Some OD_STALE) why_stale)
         | _ \<Rightarrow> Raise AssertionError)"

section \<open>The dispatcher\<close>

definition handler :: "py_env \<Rightarrow> trigger_type \<Rightarrow> case_snapshot \<Rightarrow> trigger \<Rightarrow> plan cres" where
  "handler env tt =
     (case tt of
        TT_CREATE_CASE \<Rightarrow> create_case env
      | TT_ROUTE_OUTCOME \<Rightarrow> route_outcome env
      | TT_DIAGNOSIS_OUTCOME \<Rightarrow> diagnosis_outcome env
      | TT_REVIEW_OUTCOME \<Rightarrow> review_outcome env
      | TT_SUBMIT_SUPPLEMENT \<Rightarrow> submit_supplement env
      | TT_CANCEL_CASE \<Rightarrow> cancel_case env
      | TT_RESTART_GENERIC_DIAGNOSIS \<Rightarrow> restart_generic_diagnosis env
      | TT_RESUME_INTERRUPTED \<Rightarrow> resume_interrupted env
      | TT_EXECUTION_FAILED \<Rightarrow> execution_failed env
      | TT_ASSET_VERSION_UNAVAILABLE \<Rightarrow> asset_unavailable env
      | TT_MARK_OLD_EPOCH_INTERRUPTED \<Rightarrow> old_epoch env
      | TT_STALE_ACTIVE_OUTCOME \<Rightarrow> stale_active_outcome env)"

text \<open>The guards of \<open>plan\<close> before the dispatch.\<close>

definition plan_guard :: "case_snapshot \<Rightarrow> trigger \<Rightarrow> application_error option" where
  "plan_guard sn t =
     (if stable_target_changed t
      then Some (app_error EC_NEW_CASE_REQUIRED msg_stable_target
             [error_detail_of (Some ''stable_target_changed'') (Some (DBool False)) (Some (DBool True))])
      else if cs_case_id (sn_case sn) \<noteq> tr_case_id t
      then Some (validation_at msg_other_case ''case_id''
             (Some (DStr (cs_case_id (sn_case sn)))) (Some (DStr (tr_case_id t))))
      else if tr_trigger_type t \<noteq> TT_CREATE_CASE \<and>
              cs_case_revision (sn_case sn) \<noteq> tr_expected_case_revision t
      then Some (validation_at msg_case_revision ''expected_case_revision''
             (Some (DInt (cs_case_revision (sn_case sn)))) (Some (DInt (tr_expected_case_revision t))))
      else None)"

definition plan :: "py_env \<Rightarrow> case_snapshot \<Rightarrow> trigger \<Rightarrow> plan cres" where
  "plan env sn t = validate_coordinator_plan_result t
     (guardC (plan_guard sn t) (handler env (tr_trigger_type t) sn t))"

end
