(* ===== verification/Coordinator_Shape.thy ===== *)
theory Coordinator_Shape
  imports Coordinator_Control
begin

text \<open>
  What a successful run of a handler says about the plan it returns: the lifecycle step of the
  case, the update of the active job, and the presence of a next job and of a disposition. The
  facts are proved per handler and collected for \<open>plan\<close>.
\<close>

section \<open>The lifecycle of a case\<close>

text \<open>The abstract state machine: which status a trigger may lead to.\<close>

inductive lifecycle :: "case_status \<Rightarrow> trigger_type \<Rightarrow> case_status \<Rightarrow> bool" where
  life_create: "lifecycle CS_NEW TT_CREATE_CASE CS_RUNNING"
| life_route: "st \<in> {CS_RUNNING, CS_FAILED, CS_INTERRUPTED} \<Longrightarrow>
    lifecycle CS_RUNNING TT_ROUTE_OUTCOME st"
| life_diagnosis: "st \<in> {CS_RUNNING, CS_WAITING_INPUT, CS_WAITING_ATTACHMENT, CS_REVIEWING, CS_RESOLVED,
      CS_PARTIALLY_RESOLVED, CS_UNRESOLVED, CS_FAILED, CS_INTERRUPTED} \<Longrightarrow>
    lifecycle CS_RUNNING TT_DIAGNOSIS_OUTCOME st"
| life_review: "st \<in> {CS_WAITING_INPUT, CS_WAITING_ATTACHMENT, CS_RESOLVED, CS_PARTIALLY_RESOLVED,
      CS_UNRESOLVED, CS_FAILED, CS_INTERRUPTED} \<Longrightarrow>
    lifecycle CS_REVIEWING TT_REVIEW_OUTCOME st"
| life_supplement: "w \<in> {CS_WAITING_INPUT, CS_WAITING_ATTACHMENT} \<Longrightarrow>
    st \<in> {CS_RUNNING, CS_WAITING_INPUT, CS_WAITING_ATTACHMENT} \<Longrightarrow>
    lifecycle w TT_SUBMIT_SUPPLEMENT st"
| life_cancel: "w \<in> {CS_RUNNING, CS_REVIEWING, CS_WAITING_INPUT, CS_WAITING_ATTACHMENT, CS_INTERRUPTED} \<Longrightarrow>
    lifecycle w TT_CANCEL_CASE CS_CANCELLED"
| life_restart: "lifecycle CS_RUNNING TT_RESTART_GENERIC_DIAGNOSIS CS_RUNNING"
| life_resume: "st \<in> {CS_RUNNING, CS_REVIEWING} \<Longrightarrow> lifecycle CS_INTERRUPTED TT_RESUME_INTERRUPTED st"
| life_failed: "w \<in> {CS_RUNNING, CS_REVIEWING} \<Longrightarrow> st \<in> {CS_FAILED, CS_INTERRUPTED} \<Longrightarrow>
    lifecycle w TT_EXECUTION_FAILED st"
| life_asset: "w \<in> {CS_RUNNING, CS_REVIEWING, CS_INTERRUPTED} \<Longrightarrow>
    lifecycle w TT_ASSET_VERSION_UNAVAILABLE CS_FAILED"
| life_epoch: "w \<in> {CS_RUNNING, CS_REVIEWING} \<Longrightarrow>
    lifecycle w TT_MARK_OLD_EPOCH_INTERRUPTED CS_INTERRUPTED"
| life_stale: "w \<in> {CS_RUNNING, CS_REVIEWING} \<Longrightarrow>
    lifecycle w TT_STALE_ACTIVE_OUTCOME CS_INTERRUPTED"

inductive_simps lifecycle_from: "lifecycle st TT_CREATE_CASE st'"
  "lifecycle st TT_ROUTE_OUTCOME st'" "lifecycle st TT_DIAGNOSIS_OUTCOME st'"
  "lifecycle st TT_REVIEW_OUTCOME st'" "lifecycle st TT_SUBMIT_SUPPLEMENT st'"
  "lifecycle st TT_CANCEL_CASE st'" "lifecycle st TT_RESTART_GENERIC_DIAGNOSIS st'"
  "lifecycle st TT_RESUME_INTERRUPTED st'" "lifecycle st TT_EXECUTION_FAILED st'"
  "lifecycle st TT_ASSET_VERSION_UNAVAILABLE st'" "lifecycle st TT_MARK_OLD_EPOCH_INTERRUPTED st'"
  "lifecycle st TT_STALE_ACTIVE_OUTCOME st'"

lemma lifecycle_not_terminal: "lifecycle st tt st' \<Longrightarrow> \<not> terminal_status st"
  by (induction rule: lifecycle.induct) auto

section \<open>Interpreting the guards\<close>

lemma active_job_for_Ok [plan_dests]:
  "active_job_for sn t jt js = Ok a \<Longrightarrow>
     sn_active_job sn = Some a \<and> jb_job_type a = jt \<and> jb_status a = js \<and>
     cs_status (sn_case sn) = (if jt = JT_REVIEW then CS_REVIEWING else CS_RUNNING)"
  by (auto simp: active_job_for_def Let_def split: if_splits option.splits)

lemma active_job_for_AppErr:
  "active_job_for sn t jt js = AppErr e \<Longrightarrow>
     ae_code e \<in> {EC_INVALID_CASE_STATE, EC_VALIDATION_ERROR} \<and> \<not> ae_retryable e"
  by (auto simp: active_job_for_def Let_def split: if_splits option.splits)

lemma active_job_for_no_Raise [simp]: "active_job_for sn t jt js \<noteq> Raise x"
  by (auto simp: active_job_for_def Let_def split: if_splits option.splits)

lemma job_spec_Ok [plan_dests]:
  "job_spec t jt a = Ok s \<Longrightarrow>
     \<exists>b. tr_runtime_bindings t jt = Some b \<and> job_spec_error jt b a = None \<and>
         s = spec_from_bindings jt b a \<and> valid_job_spec s"
  by (auto simp: job_spec_def Let_def guardC_Ok split: option.splits if_splits)

section \<open>The shape of a plan\<close>

text \<open>The job update of a plan: the active job, which has not finished, moves to a finished status
  at the time of the trigger and the case drops it; or there is no update, and then no job was
  active (an interrupted case has none).\<close>

definition job_update_shape :: "case_snapshot \<Rightarrow> trigger \<Rightarrow> plan \<Rightarrow> bool" where
  "job_update_shape sn t p \<longleftrightarrow>
     (if tp_clear_active_job p
      then (\<exists>a st. sn_active_job sn = Some a \<and> \<not> finished_job_status (jb_status a) \<and>
              finished_job_status st \<and> tp_job_updates p = [job_update_to a st (tr_occurred_at t)])
      else tp_job_updates p = [] \<and>
        (sn_active_job sn = None \<or> cs_status (sn_case sn) = CS_INTERRUPTED))"

definition next_job_shape :: "plan \<Rightarrow> bool" where
  "next_job_shape p \<longleftrightarrow>
     (tp_target_case_status p \<in> {CS_RUNNING, CS_REVIEWING} \<longleftrightarrow> tp_next_job_spec p \<noteq> None) \<and>
     (\<forall>s. tp_next_job_spec p = Some s \<longrightarrow>
        valid_job_spec s \<and> (tp_target_case_status p = CS_REVIEWING \<longleftrightarrow> js_job_type s = JT_REVIEW))"

fun trigger_disposition :: "trigger_type \<Rightarrow> outcome_disposition option" where
  "trigger_disposition TT_ROUTE_OUTCOME = Some OD_APPLIED"
| "trigger_disposition TT_DIAGNOSIS_OUTCOME = Some OD_APPLIED"
| "trigger_disposition TT_REVIEW_OUTCOME = Some OD_APPLIED"
| "trigger_disposition TT_STALE_ACTIVE_OUTCOME = Some OD_STALE"
| "trigger_disposition _ = None"

definition plan_shape :: "case_snapshot \<Rightarrow> trigger \<Rightarrow> trigger_type \<Rightarrow> plan \<Rightarrow> bool" where
  "plan_shape sn t tt p \<longleftrightarrow>
     lifecycle (cs_status (sn_case sn)) tt (tp_target_case_status p) \<and>
     job_update_shape sn t p \<and> next_job_shape p \<and> tp_outcome_disposition p = trigger_disposition tt"

lemmas shape_defs = plan_shape_def job_update_shape_def next_job_shape_def lifecycle_from
  applied_plan_def spec_from_bindings_def

lemma create_case_shape: "create_case env sn t = Ok p \<Longrightarrow> plan_shape sn t TT_CREATE_CASE p"
  by (auto simp: create_case_def Let_def bindC_Ok shape_defs dest!: plan_dests
      split: if_splits trigger_payload.splits)

lemma failure_plan_Ok:
  "failure_plan env j f t src disp = Ok p \<Longrightarrow>
     plan_constructible env p \<and>
     xf_code f \<in> set fatal_failure_codes \<union> set conditional_failure_codes \<and>
     (let interrupted = xf_code f \<in> set conditional_failure_codes \<and> xf_retryable f
      in tp_target_case_status p = (if interrupted then CS_INTERRUPTED else CS_FAILED) \<and>
         tp_job_updates p =
           [job_update_to j (if interrupted then JS_INTERRUPTED else JS_FAILED) (tr_occurred_at t)]) \<and>
     tp_clear_active_job p \<and> tp_next_job_spec p = None \<and> tp_outcome_disposition p = disp \<and>
     tp_accepted_state_delta p = empty_delta \<and> tp_candidate_mutation p = None \<and>
     tp_accepted_evidence_keys p = [] \<and> tp_accepted_artifact_keys p = [] \<and>
     tp_accepted_candidate_key p = None \<and> tp_selected_skill_update p = None \<and>
     tp_methods_terminal_projection p = None \<and> tp_generic_result p = None \<and>
     tp_generic_result_v2_draft p = None \<and> tp_unresolved_result_draft p = None \<and>
     tp_final_result_target p = None"
  by (auto simp: failure_plan_def Let_def split: if_splits)

lemma job_update_to_status [simp]: "job_update_to a st o1 = job_update_to a st' o1 \<longleftrightarrow> st = st'"
  by (auto simp: job_update_to_def)

text \<open>The part of the shape the outcome handlers share; \<open>S\<close> is the set of target statuses.\<close>

definition outcome_shape :: "case_snapshot \<Rightarrow> trigger \<Rightarrow> case_status set \<Rightarrow> plan \<Rightarrow> bool" where
  "outcome_shape sn t S p \<longleftrightarrow>
     tp_target_case_status p \<in> S \<and> job_update_shape sn t p \<and> next_job_shape p \<and>
     tp_outcome_disposition p = Some OD_APPLIED"

lemma outcome_shape_mono: "outcome_shape sn t S p \<Longrightarrow> S \<subseteq> S' \<Longrightarrow> outcome_shape sn t S' p"
  by (auto simp: outcome_shape_def)

lemmas outcome_shape_defs = outcome_shape_def job_update_shape_def next_job_shape_def
  applied_plan_def spec_from_bindings_def Let_def bindC_Ok guardC_Ok

definition running_job :: "case_snapshot \<Rightarrow> job \<Rightarrow> bool" where
  "running_job sn a \<longleftrightarrow> sn_active_job sn = Some a \<and> jb_status a = JS_RUNNING"

lemma on_active_outcome_Ok:
  assumes "on_active_outcome sn t jt decide = Ok p"
  obtains a oc where "running_job sn a" "jb_job_type a = jt"
    "cs_status (sn_case sn) = (if jt = JT_REVIEW then CS_REVIEWING else CS_RUNNING)"
    "payload_outcome jt (tr_payload t) = Some oc" "validate_active_outcome a oc = Ok ()"
    "decide a oc = Ok p"
  using assms
  by (auto simp: on_active_outcome_def bindC_Ok running_job_def dest!: active_job_for_Ok
      split: option.splits)

lemma failed_outcome_shape:
  "failed_outcome_plan env a oc t = Ok p \<Longrightarrow> running_job sn a \<Longrightarrow>
     outcome_shape sn t {CS_FAILED, CS_INTERRUPTED} p"
  by (auto simp: failed_outcome_plan_def running_job_def outcome_shape_defs
      dest!: failure_plan_Ok split: option.splits if_splits)

lemma methods_terminal_shape:
  "methods_terminal_plan env sn a oc t = Ok p \<Longrightarrow> running_job sn a \<Longrightarrow>
     outcome_shape sn t {CS_RESOLVED, CS_UNRESOLVED, CS_FAILED, CS_INTERRUPTED} p"
  by (auto simp: methods_terminal_plan_def running_job_def outcome_shape_defs
      dest!: failure_plan_Ok split: option.splits if_splits)

subsection \<open>ROUTE outcomes\<close>

lemma route_no_capability_shape:
  "route_no_capability env sn t a = Ok p \<Longrightarrow> running_job sn a \<Longrightarrow> outcome_shape sn t {CS_RUNNING} p"
  by (auto simp: route_no_capability_def running_job_def outcome_shape_defs dest!: job_spec_Ok)

lemma route_matched_shape:
  "route_matched env sn t a r = Ok p \<Longrightarrow> running_job sn a \<Longrightarrow> outcome_shape sn t {CS_RUNNING} p"
  by (auto simp: route_matched_def running_job_def outcome_shape_defs dest!: job_spec_Ok)

lemma route_decided_shape:
  "route_decided env sn t a oc = Ok p \<Longrightarrow> running_job sn a \<Longrightarrow>
     outcome_shape sn t {CS_RUNNING, CS_FAILED, CS_INTERRUPTED} p"
  by (auto simp: route_decided_def split: if_splits option.splits outcome_payload.splits
      dest!: failed_outcome_shape route_no_capability_shape route_matched_shape
      elim!: outcome_shape_mono)

lemma route_outcome_shape: "route_outcome env sn t = Ok p \<Longrightarrow> plan_shape sn t TT_ROUTE_OUTCOME p"
  unfolding route_outcome_def
  by (erule on_active_outcome_Ok)
    (auto simp: plan_shape_def lifecycle_from outcome_shape_def dest!: route_decided_shape)

subsection \<open>DIAGNOSE outcomes\<close>

lemma generic_case_status_eq:
  "generic_case_status s = (if s = GS_RESOLVED then CS_RESOLVED else CS_UNRESOLVED)"
  by (cases s) auto

lemma resolution_case_status_cases: "resolution_case_status s \<in> {CS_RESOLVED, CS_PARTIALLY_RESOLVED}"
  by (cases s) auto

lemma generic_delivery_shape:
  "generic_delivery env t a oc = Ok p \<Longrightarrow> running_job sn a \<Longrightarrow>
     outcome_shape sn t {CS_RESOLVED, CS_UNRESOLVED} p"
  by (auto simp: generic_delivery_def running_job_def outcome_shape_defs generic_case_status_eq
      split: if_splits option.splits outcome_payload.splits)

lemma inconclusive_shape:
  "inconclusive_plan env t a oc d ad ek ak = Ok p \<Longrightarrow> running_job sn a \<Longrightarrow>
     outcome_shape sn t {CS_UNRESOLVED} p"
  by (auto simp: inconclusive_plan_def running_job_def outcome_shape_defs split: option.splits)

lemma reroute_shape:
  "reroute_plan env t a oc d n r = Ok p \<Longrightarrow> running_job sn a \<Longrightarrow> outcome_shape sn t {CS_RUNNING} p"
  by (auto simp: reroute_plan_def running_job_def outcome_shape_defs dest!: job_spec_Ok
      split: prod.splits if_splits)

lemma progress_shape:
  "progress_plan env sn t a d n r = Ok p \<Longrightarrow> running_job sn a \<Longrightarrow> outcome_shape sn t {CS_RUNNING} p"
  by (auto simp: progress_plan_def running_job_def outcome_shape_defs dest!: job_spec_Ok
      split: prod.splits if_splits)

lemma candidate_shape:
  "candidate_plan env sn t a oc c n r = Ok p \<Longrightarrow> running_job sn a \<Longrightarrow>
     outcome_shape sn t {CS_RESOLVED, CS_PARTIALLY_RESOLVED, CS_REVIEWING} p"
  using resolution_case_status_cases [of "cd_resolution_status c"]
  by (auto simp: candidate_plan_def candidate_review_job_def running_job_def outcome_shape_defs
      dest!: job_spec_Ok split: prod.splits if_splits)

lemma diagnosis_request_shape:
  "diagnosis_request_plan env sn t a n req k = Ok p \<Longrightarrow> running_job sn a \<Longrightarrow>
     outcome_shape sn t {CS_WAITING_INPUT, CS_WAITING_ATTACHMENT} p"
  by (auto simp: diagnosis_request_plan_def diagnosis_wait_plan_def running_job_def
      outcome_shape_defs split: prod.splits requirement_kind.splits)

lemmas diagnosis_shapes = inconclusive_shape reroute_shape progress_shape candidate_shape
  diagnosis_request_shape

lemma specialized_diagnosis_shape:
  "specialized_diagnosis env sn t a oc d = Ok p \<Longrightarrow> running_job sn a \<Longrightarrow>
     outcome_shape sn t {CS_RUNNING, CS_WAITING_INPUT, CS_WAITING_ATTACHMENT, CS_REVIEWING,
       CS_RESOLVED, CS_PARTIALLY_RESOLVED, CS_UNRESOLVED} p"
  by (auto simp: specialized_diagnosis_def bindC_Ok Let_def dest!: diagnosis_shapes
      split: if_splits prod.splits option.splits elim!: outcome_shape_mono)

lemma diagnosis_decided_shape:
  "diagnosis_decided env sn t a oc = Ok p \<Longrightarrow> running_job sn a \<Longrightarrow>
     outcome_shape sn t {CS_RUNNING, CS_WAITING_INPUT, CS_WAITING_ATTACHMENT, CS_REVIEWING,
       CS_RESOLVED, CS_PARTIALLY_RESOLVED, CS_UNRESOLVED, CS_FAILED, CS_INTERRUPTED} p"
  by (auto simp: diagnosis_decided_def running_job_def
      split: if_splits option.splits outcome_payload.splits
      dest!: failed_outcome_shape [where sn = sn] methods_terminal_shape
        generic_delivery_shape [where sn = sn] specialized_diagnosis_shape
      elim!: outcome_shape_mono simp: outcome_shape_defs)

lemma diagnosis_outcome_shape:
  "diagnosis_outcome env sn t = Ok p \<Longrightarrow> plan_shape sn t TT_DIAGNOSIS_OUTCOME p"
  unfolding diagnosis_outcome_def
  by (erule on_active_outcome_Ok)
    (auto simp: plan_shape_def lifecycle_from outcome_shape_def dest!: diagnosis_decided_shape)

subsection \<open>REVIEW outcomes\<close>

lemma review_unresolved_shape:
  "review_unresolved_plan env a oc ra target t rc sm = Ok p \<Longrightarrow> running_job sn a \<Longrightarrow>
     outcome_shape sn t {CS_UNRESOLVED} p"
  by (auto simp: review_unresolved_plan_def running_job_def outcome_shape_defs split: option.splits)

lemma review_decision_shape:
  "review_decision env sn t a oc ra target c = Ok p \<Longrightarrow> running_job sn a \<Longrightarrow>
     outcome_shape sn t {CS_WAITING_INPUT, CS_WAITING_ATTACHMENT, CS_RESOLVED, CS_PARTIALLY_RESOLVED,
       CS_UNRESOLVED} p"
  using resolution_case_status_cases [of "cc_resolution_status c"]
  by (auto simp: review_decision_def split: if_splits review_verdict.splits option.splits
      dest!: review_unresolved_shape [where sn = sn] elim!: outcome_shape_mono)
    (auto simp: running_job_def outcome_shape_defs)

lemma review_decided_shape:
  "review_decided env sn t a oc = Ok p \<Longrightarrow> running_job sn a \<Longrightarrow>
     outcome_shape sn t {CS_WAITING_INPUT, CS_WAITING_ATTACHMENT, CS_RESOLVED, CS_PARTIALLY_RESOLVED,
       CS_UNRESOLVED, CS_FAILED, CS_INTERRUPTED} p"
  by (auto simp: review_decided_def review_assessed_def Let_def
      split: if_splits option.splits outcome_payload.splits
      dest!: failed_outcome_shape [where sn = sn] methods_terminal_shape review_decision_shape
      elim!: outcome_shape_mono)

lemma review_outcome_shape: "review_outcome env sn t = Ok p \<Longrightarrow> plan_shape sn t TT_REVIEW_OUTCOME p"
  unfolding review_outcome_def
  by (erule on_active_outcome_Ok)
    (auto simp: plan_shape_def lifecycle_from outcome_shape_def dest!: review_decided_shape)

subsection \<open>The other triggers\<close>

lemma supplement_next_job_Ok:
  "supplement_next_job sn t p = Ok s \<Longrightarrow> valid_job_spec s \<and> js_job_type s = JT_DIAGNOSE \<and>
     js_target_state_revision s = ds_revision (cs_diagnosis_state (sn_case sn)) + 1"
  by (auto simp: supplement_next_job_def Let_def spec_from_bindings_def dest!: job_spec_Ok
      split: option.splits if_splits)

lemma accept_supplement_shape:
  "accept_supplement env sn t q = Ok p \<Longrightarrow> sn_active_job sn = None \<Longrightarrow>
     tp_target_case_status p \<in> {CS_RUNNING, CS_WAITING_INPUT, CS_WAITING_ATTACHMENT} \<and>
     job_update_shape sn t p \<and> next_job_shape p \<and> tp_outcome_disposition p = None"
  by (auto simp: accept_supplement_def supplement_wait_plan_def Let_def guardC_Ok bindC_Ok
      job_update_shape_def next_job_shape_def dest!: supplement_next_job_Ok split: if_splits)

lemma submit_supplement_shape:
  "submit_supplement env sn t = Ok p \<Longrightarrow> plan_shape sn t TT_SUBMIT_SUPPLEMENT p"
  by (auto simp: submit_supplement_def plan_shape_def lifecycle_from Let_def
      dest!: accept_supplement_shape split: if_splits trigger_payload.splits)

lemma restart_shape:
  "restart_generic_diagnosis env sn t = Ok p \<Longrightarrow> plan_shape sn t TT_RESTART_GENERIC_DIAGNOSIS p"
  by (auto simp: restart_generic_diagnosis_def bindC_Ok shape_defs dest!: job_spec_Ok
      split: if_splits trigger_payload.splits option.splits)

lemma cancel_shape: "cancel_case env sn t = Ok p \<Longrightarrow> plan_shape sn t TT_CANCEL_CASE p"
  by (cases "cs_status (sn_case sn)")
    (auto simp: cancel_case_def Let_def shape_defs split: if_splits trigger_payload.splits option.splits)

lemma resume_shape: "resume_interrupted env sn t = Ok p \<Longrightarrow> plan_shape sn t TT_RESUME_INTERRUPTED p"
  by (auto simp: resume_interrupted_def Let_def bindC_Ok guardC_Ok shape_defs resume_args_def
      dest!: job_spec_Ok split: if_splits trigger_payload.splits option.splits)

lemma execution_failed_shape: "execution_failed env sn t = Ok p \<Longrightarrow> plan_shape sn t TT_EXECUTION_FAILED p"
  by (auto simp: execution_failed_def Let_def shape_defs dest!: failure_plan_Ok
      split: if_splits trigger_payload.splits option.splits)

lemma asset_shape:
  "asset_unavailable env sn t = Ok p \<Longrightarrow> plan_shape sn t TT_ASSET_VERSION_UNAVAILABLE p"
  by (auto simp: asset_unavailable_def Let_def shape_defs
      split: if_splits trigger_payload.splits option.splits)

lemma old_epoch_shape: "old_epoch env sn t = Ok p \<Longrightarrow> plan_shape sn t TT_MARK_OLD_EPOCH_INTERRUPTED p"
  by (auto simp: old_epoch_def interrupt_plan_def Let_def shape_defs
      split: if_splits trigger_payload.splits option.splits)

lemma stale_active_shape:
  "stale_active_outcome env sn t = Ok p \<Longrightarrow> plan_shape sn t TT_STALE_ACTIVE_OUTCOME p"
  by (auto simp: stale_active_outcome_def interrupt_plan_def Let_def shape_defs
      split: if_splits trigger_payload.splits option.splits)

lemma handler_shape: "handler env tt sn t = Ok p \<Longrightarrow> plan_shape sn t tt p"
  by (cases tt)
    (simp_all add: handler_def create_case_shape route_outcome_shape diagnosis_outcome_shape
      review_outcome_shape submit_supplement_shape restart_shape cancel_shape resume_shape
      execution_failed_shape asset_shape old_epoch_shape stale_active_shape)

lemma plan_Ok:
  "plan env sn t = Ok p \<longleftrightarrow>
     handler env (tr_trigger_type t) sn t = Ok p \<and> plan_guard sn t = None \<and> \<not> stable_target_changed t"
  by (auto simp: plan_def guardC_Ok)

lemma plan_has_shape: "plan env sn t = Ok p \<Longrightarrow> plan_shape sn t (tr_trigger_type t) p"
  by (auto simp: plan_Ok intro: handler_shape)

end
