(* ===== verification/State_Contract.thy ===== *)
theory State_Contract
  imports Delta_Normalization
begin

text \<open>
  The validators of the stored aggregates of \<open>contracts/models.py\<close>: diagnosis items,
  requirements, candidates, the diagnosis state and its snapshots, jobs and cases, and the
  finalization of a Markdown result. As in \<open>Contract_Validators\<close>, a validator is true exactly
  when the model can be constructed.
\<close>

section \<open>Items and requirements\<close>

definition valid_provenance :: "diagnosis_provenance \<Rightarrow> bool" where
  "valid_provenance p \<longleftrightarrow>
     (case pv_source_type p of
        DP_USER_INPUT \<Rightarrow> pv_input_name p \<noteq> None | DP_AGENT_OUTCOME \<Rightarrow> pv_input_name p = None)"

definition valid_diagnosis_item :: "diagnosis_item \<Rightarrow> bool" where
  "valid_diagnosis_item i \<longleftrightarrow>
     distinct (it_evidence_refs i) \<and> distinct (it_supersedes i) \<and> it_item_id i \<notin> set (it_supersedes i) \<and>
     valid_provenance (it_provenance i) \<and> it_created_revision i > 0"

definition valid_item_draft :: "item_draft \<Rightarrow> bool" where
  "valid_item_draft d \<longleftrightarrow>
     distinct (dr_supersedes d) \<and> dr_item_id d \<notin> set (dr_supersedes d) \<and>
     valid_provenance (dr_provenance d)"

fun valid_constraints :: "requirement_constraints \<Rightarrow> bool" where
  "valid_constraints (InputConstraints c) =
     (0 < ic_min_utf8_bytes c \<and> ic_min_utf8_bytes c \<le> ic_max_utf8_bytes c \<and>
      ic_max_utf8_bytes c \<le> int max_user_text_utf8_bytes \<and> distinct (ic_allowed_values c))"
| "valid_constraints (AttachmentConstraints c) =
     (0 < ac_min_count c \<and> ac_min_count c \<le> ac_max_count c \<and> distinct (ac_allowed_content_types c))"

fun constraints_kind :: "requirement_constraints \<Rightarrow> requirement_kind" where
  "constraints_kind (InputConstraints c) = QK_INPUT"
| "constraints_kind (AttachmentConstraints c) = QK_ATTACHMENT"

definition valid_requirement :: "pending_requirement \<Rightarrow> bool" where
  "valid_requirement r \<longleftrightarrow>
     rq_required r \<and> valid_constraints (rq_constraints r) \<and>
     constraints_kind (rq_constraints r) = rq_kind r \<and> distinct (rq_fulfilled_by_refs r) \<and>
     (case rq_status r of
        QS_OPEN \<Rightarrow> rq_fulfilled_by_refs r = []
      | QS_FULFILLED \<Rightarrow>
          (case rq_constraints r of
             InputConstraints c \<Rightarrow> length (rq_fulfilled_by_refs r) = 1
           | AttachmentConstraints c \<Rightarrow>
               ac_min_count c \<le> int (length (rq_fulfilled_by_refs r)) \<and>
               int (length (rq_fulfilled_by_refs r)) \<le> ac_max_count c))"

section \<open>Candidates\<close>

definition valid_criterion_mapping :: "criterion_mapping \<Rightarrow> bool" where
  "valid_criterion_mapping m \<longleftrightarrow>
     cm_criterion_index m \<ge> 0 \<and> distinct (cm_evidence_refs m) \<and>
     (cm_status m \<in> {CR_SATISFIED, CR_PARTIALLY_SATISFIED} \<longrightarrow> cm_evidence_refs m \<noteq> [])"

definition valid_causal_factor :: "causal_factor \<Rightarrow> bool" where
  "valid_causal_factor f \<longleftrightarrow>
     cf_evidence_refs f \<noteq> [] \<and> cf_required_rule_ids f \<noteq> [] \<and> distinct (cf_evidence_refs f) \<and>
     distinct (cf_required_rule_ids f)"

definition candidate_factors_of :: "candidate_conclusion \<Rightarrow> causal_factor list" where
  "candidate_factors_of c = cc_causal_factors c @ cc_candidate_factors c @ cc_excluded_factors c"

definition preimage_of :: "candidate_conclusion \<Rightarrow> candidate_preimage" where
  "preimage_of c =
     \<lparr>pi_resolution_status = cc_resolution_status c, pi_terminal_path_id = cc_terminal_path_id c,
      pi_statement = cc_statement c, pi_causal_factors = cc_causal_factors c,
      pi_candidate_factors = cc_candidate_factors c, pi_excluded_factors = cc_excluded_factors c,
      pi_supporting_evidence_refs = cc_supporting_evidence_refs c,
      pi_completion_criteria_mapping = cc_completion_criteria_mapping c\<rparr>"

definition resolution_consistent ::
  "diagnosis_resolution_status \<Rightarrow> bool \<Rightarrow> bool \<Rightarrow> bool \<Rightarrow> completion_criterion_status list \<Rightarrow> bool" where
  "resolution_consistent res has_causal has_candidate has_excluded statuses \<longleftrightarrow>
     (case res of
        DR_COMPLETE \<Rightarrow> has_causal \<and> \<not> has_candidate \<and> list_all (\<lambda>s. s = CR_SATISFIED) statuses
      | DR_PARTIAL \<Rightarrow> (has_causal \<or> has_excluded) \<and> \<not> list_all (\<lambda>s. s = CR_SATISFIED) statuses)"

definition valid_candidate :: "py_env \<Rightarrow> candidate_conclusion \<Rightarrow> bool" where
  "valid_candidate env c \<longleftrightarrow>
     cc_revision c > 0 \<and> cc_completion_criteria_mapping c \<noteq> [] \<and>
     list_all valid_criterion_mapping (cc_completion_criteria_mapping c) \<and>
     list_all valid_causal_factor (candidate_factors_of c) \<and>
     distinct (cc_supporting_evidence_refs c) \<and>
     map cm_criterion_index (cc_completion_criteria_mapping c) =
       map int [0..<length (cc_completion_criteria_mapping c)] \<and>
     distinct (map cf_factor_id (candidate_factors_of c)) \<and>
     resolution_consistent (cc_resolution_status c) (cc_causal_factors c \<noteq> [])
       (cc_candidate_factors c \<noteq> []) (cc_excluded_factors c \<noteq> [])
       (map cm_status (cc_completion_criteria_mapping c)) \<and>
     cc_content_hash c = env_canonical_sha256 env (preimage_of c)"

definition review_required_evidence_refs :: "candidate_conclusion \<Rightarrow> opaque_id list" where
  "review_required_evidence_refs c = dedupe_loop (\<lambda>v. v) []
     (cc_supporting_evidence_refs c @
      concat (map cm_evidence_refs (cc_completion_criteria_mapping c)) @
      concat (map cf_evidence_refs (candidate_factors_of c)))"

lemma set_review_required [simp]:
  "set (review_required_evidence_refs c) =
     set (cc_supporting_evidence_refs c) \<union>
     (\<Union>m \<in> set (cc_completion_criteria_mapping c). set (cm_evidence_refs m)) \<union>
     (\<Union>f \<in> set (candidate_factors_of c). set (cf_evidence_refs f))"
  unfolding review_required_evidence_refs_def dedupe_def [symmetric] by auto

section \<open>The diagnosis state\<close>

fun criteria_mapped :: "int \<Rightarrow> criterion_mapping list \<Rightarrow> text_t list \<Rightarrow> bool" where
  "criteria_mapped i [] [] = True"
| "criteria_mapped i (m # ms) (c # cs) =
     (cm_criterion_index m = i \<and> cm_criterion m = c \<and> criteria_mapped (i + 1) ms cs)"
| "criteria_mapped i _ _ = False"

definition agent_items :: "diagnosis_state \<Rightarrow> diagnosis_item list" where
  "agent_items s = ds_confirmed_facts s @ ds_active_hypotheses s @ ds_rejected_hypotheses s @
     ds_open_questions s"

definition valid_state_items :: "diagnosis_state \<Rightarrow> bool" where
  "valid_state_items s \<longleftrightarrow>
     list_all valid_diagnosis_item (state_items s) \<and>
     distinct (map it_item_id (state_items s)) \<and>
     list_all (\<lambda>i. pv_source_type (it_provenance i) = DP_USER_INPUT \<and>
                 pv_input_name (it_provenance i) \<noteq> None) (ds_user_facts s) \<and>
     distinct (fixed_input_names s) \<and>
     list_all (\<lambda>i. pv_source_type (it_provenance i) = DP_AGENT_OUTCOME) (agent_items s) \<and>
     list_all (\<lambda>i. it_evidence_refs i \<noteq> []) (ds_confirmed_facts s) \<and>
     list_all (\<lambda>i. it_status i = DI_ACTIVE) (ds_active_hypotheses s) \<and>
     list_all (\<lambda>i. it_status i = DI_REJECTED) (ds_rejected_hypotheses s) \<and>
     list_all (\<lambda>i. it_status i = DI_ACTIVE) (ds_open_questions s)"

definition valid_state_requirements :: "diagnosis_state \<Rightarrow> bool" where
  "valid_state_requirements s \<longleftrightarrow>
     list_all valid_requirement (ds_pending_requirements s) \<and>
     distinct (map rq_name (open_requirements s)) \<and>
     list_all (\<lambda>r. \<not> (rq_kind r = QK_INPUT \<and> Some (rq_name r) \<in> set (fixed_input_names s)))
       (open_requirements s) \<and>
     length (filter (\<lambda>r. rq_kind r = QK_ATTACHMENT) (open_requirements s)) \<le> 1 \<and>
     distinct (map rq_requirement_id (ds_pending_requirements s))"

definition valid_state_evidence :: "diagnosis_state \<Rightarrow> bool" where
  "valid_state_evidence s \<longleftrightarrow>
     distinct (ds_evidence_refs s) \<and>
     list_all (\<lambda>i. list_all (\<lambda>r. r \<in> set (ds_evidence_refs s)) (it_evidence_refs i)) (state_items s)"

definition valid_state_candidate :: "py_env \<Rightarrow> diagnosis_state \<Rightarrow> bool" where
  "valid_state_candidate env s \<longleftrightarrow>
     (case ds_candidate_conclusion s of
        None \<Rightarrow> True
      | Some c \<Rightarrow>
          valid_candidate env c \<and>
          criteria_mapped 0 (cc_completion_criteria_mapping c)
            (ps_completion_criteria (ds_problem_spec s)) \<and>
          list_all (\<lambda>r. r \<in> set (ds_evidence_refs s)) (review_required_evidence_refs c))"

definition valid_diagnosis_state :: "py_env \<Rightarrow> diagnosis_state \<Rightarrow> bool" where
  "valid_diagnosis_state env s \<longleftrightarrow>
     ds_revision s > 0 \<and> valid_problem_spec (ds_problem_spec s) \<and> valid_state_items s \<and>
     valid_state_requirements s \<and> valid_state_evidence s \<and> valid_state_candidate env s"

definition snapshot_state :: "context_snapshot \<Rightarrow> diagnosis_state" where
  "snapshot_state x =
     \<lparr>ds_revision = cx_diagnosis_state_revision x, ds_problem_spec = cx_problem_spec x,
      ds_user_facts = cx_user_facts x, ds_confirmed_facts = cx_confirmed_facts x,
      ds_active_hypotheses = cx_active_hypotheses x, ds_rejected_hypotheses = cx_rejected_hypotheses x,
      ds_open_questions = cx_open_questions x, ds_pending_requirements = cx_pending_requirements x,
      ds_evidence_refs = cx_evidence_refs x, ds_candidate_conclusion = cx_candidate_conclusion x\<rparr>"

definition valid_context_snapshot :: "py_env \<Rightarrow> context_snapshot \<Rightarrow> bool" where
  "valid_context_snapshot env x = valid_diagnosis_state env (snapshot_state x)"

section \<open>Jobs\<close>

definition valid_job_generic_fields :: "job \<Rightarrow> bool" where
  "valid_job_generic_fields j \<longleftrightarrow>
     valid_generic_log_preparation (jb_generic_log_preparation j) (jb_diagnosis_mode j)
       (jb_logparse_tool_ref j) (jb_logparse_product j) \<and>
     (jb_generic_product_line j \<noteq> None \<longrightarrow>
        jb_job_type j = JT_DIAGNOSE \<and> jb_diagnosis_mode j = Some DM_GENERIC) \<and>
     (jb_continuation_context j \<noteq> None \<longrightarrow>
        jb_job_type j = JT_DIAGNOSE \<and> (jb_diagnosis_mode j = Some DM_GENERIC \<or> job_direct j)) \<and>
     (jb_diagnosis_mode j \<noteq> Some DM_GENERIC \<longrightarrow>
        \<not> jb_generic_log_archive_expected j \<and> jb_generic_supplement_texts j = []) \<and>
     list_all valid_text (jb_generic_supplement_texts j) \<and>
     pred_option valid_text (jb_generic_problem_text j)"

definition valid_job_snapshot :: "py_env \<Rightarrow> job \<Rightarrow> bool" where
  "valid_job_snapshot env j \<longleftrightarrow>
     (if jb_job_type j = JT_DIAGNOSE \<and> jb_diagnosis_mode j = Some DM_GENERIC
      then jb_context_snapshot j = None
      else case jb_context_snapshot j of
        None \<Rightarrow> False
      | Some x \<Rightarrow> valid_context_snapshot env x \<and> jb_base_state_revision j = cx_diagnosis_state_revision x) \<and>
     (case jb_context_snapshot j of
        None \<Rightarrow> True
      | Some x \<Rightarrow> filter (\<lambda>r. r \<in> set (jb_evidence_refs j)) (cx_evidence_refs x) = jb_evidence_refs j)"

definition valid_job_resources :: "job \<Rightarrow> bool" where
  "valid_job_resources j \<longleftrightarrow>
     distinct (jb_evidence_refs j) \<and> distinct (jb_attachment_refs j) \<and>
     distinct (jb_previous_outcome_refs j) \<and> distinct (jb_artifact_refs j) \<and>
     distinct (map ref_key (jb_available_skill_refs j)) \<and>
     ((jb_logparse_tool_ref j = None) = (jb_logparse_product j = None)) \<and>
     (jb_logparse_tool_ref j \<noteq> None \<longrightarrow> jb_job_type j = JT_DIAGNOSE)"

definition valid_job_mode :: "job \<Rightarrow> bool" where
  "valid_job_mode j \<longleftrightarrow>
     (case jb_job_type j of
        JT_DIAGNOSE \<Rightarrow>
          (if jb_diagnosis_mode j = Some DM_GENERIC
           then jb_review_policy j = None \<and> jb_generic_problem_text j \<noteq> None \<and>
                jb_evidence_refs j = [] \<and> jb_previous_outcome_refs j = [] \<and> jb_artifact_refs j = []
           else jb_generic_problem_text j = None \<and> jb_review_policy j \<noteq> None)
      | JT_ROUTE \<Rightarrow>
          jb_diagnosis_mode j = None \<and> jb_generic_skill_name j = None \<and>
          jb_generic_problem_text j = None \<and> jb_review_policy j = None
      | JT_REVIEW \<Rightarrow>
          jb_diagnosis_mode j = None \<and> jb_generic_skill_name j = None \<and>
          jb_generic_problem_text j = None \<and> jb_review_policy j \<noteq> None)"

definition valid_job_review :: "job \<Rightarrow> bool" where
  "valid_job_review j \<longleftrightarrow>
     (if jb_job_type j \<noteq> JT_REVIEW
      then jb_review_target j = None \<and> jb_methods_review_target j = None
      else ((jb_review_target j = None) \<noteq> (jb_methods_review_target j = None)) \<and>
        jb_logparse_tool_ref j = None \<and>
        (case jb_context_snapshot j of
           None \<Rightarrow> False
         | Some x \<Rightarrow>
             (case jb_methods_review_target j of
                Some target \<Rightarrow>
                  cx_candidate_conclusion x = None \<and>
                  jb_evidence_refs j = [] \<and> jb_attachment_refs j = [] \<and>
                  jb_previous_outcome_refs j = [] \<and> jb_artifact_refs j = [] \<and>
                  Some (mt_skill_ref target) = jb_skill_ref j \<and>
                  mt_reviewed_state_revision target = jb_base_state_revision j \<and>
                  mt_source_job_id target \<noteq> jb_job_id j
              | None \<Rightarrow>
                  (case (cx_candidate_conclusion x, jb_review_target j) of
                     (Some c, Some target) \<Rightarrow>
                       cc_status c = CD_REVIEWING \<and>
                       cc_conclusion_id c = ct_conclusion_id target \<and>
                       cc_revision c = ct_revision target \<and>
                       cc_content_hash c = ct_content_hash target \<and>
                       list_all (\<lambda>r. r \<in> set (jb_evidence_refs j)) (review_required_evidence_refs c)
                   | _ \<Rightarrow> False))))"

definition valid_job_lifecycle :: "job \<Rightarrow> bool" where
  "valid_job_lifecycle j \<longleftrightarrow>
     (case jb_status j of
        JS_PENDING \<Rightarrow> jb_started_at j = None \<and> jb_finished_at j = None \<and> jb_runtime_epoch j = None
      | JS_RUNNING \<Rightarrow> jb_started_at j \<noteq> None \<and> jb_finished_at j = None \<and> jb_runtime_epoch j \<noteq> None
      | _ \<Rightarrow> jb_finished_at j \<noteq> None)"

definition valid_job :: "py_env \<Rightarrow> job \<Rightarrow> bool" where
  "valid_job env j \<longleftrightarrow>
     valid_text (jb_goal j) \<and> jb_base_state_revision j > 0 \<and>
     valid_job_generic_fields j \<and>
     valid_direct_bindings (jb_job_type j) (jb_diagnosis_mode j) (jb_review_policy j) (jb_skill_ref j)
       (jb_output_contract_ref j) (jb_agent_profile_ref j)
       (jb_review_target j \<noteq> None \<or> jb_methods_review_target j \<noteq> None)
       (case jb_context_snapshot j of None \<Rightarrow> False | Some x \<Rightarrow> cx_candidate_conclusion x \<noteq> None) \<and>
     valid_job_snapshot env j \<and> valid_job_resources j \<and> valid_job_mode j \<and> valid_job_review j \<and>
     valid_role_bindings (jb_job_type j) (jb_diagnosis_mode j) (jb_generic_skill_name j)
       (jb_available_skill_refs j) (jb_skill_ref j) (jb_logparse_tool_ref j) (jb_logparse_product j)
       (jb_resource_limits j) \<and>
     valid_job_lifecycle j"

section \<open>Results and cases\<close>

definition valid_generic_result_v2 :: "py_env \<Rightarrow> generic_result_v2 \<Rightarrow> bool" where
  "valid_generic_result_v2 env g =
     valid_report_content env (g2_report_markdown g) (g2_report_utf8_size g) (g2_report_sha256 g)"

definition finalize_generic_result_v2 ::
  "py_env \<Rightarrow> generic_result_v2_draft \<Rightarrow> opaque_id \<Rightarrow> exn + generic_result_v2" where
  "finalize_generic_result_v2 env d report_artifact_id =
     (let g = \<lparr>g2_format_version = gd_format_version d, g2_status = gd_status d,
               g2_report_markdown = gd_report_markdown d, g2_report_utf8_size = gd_report_utf8_size d,
               g2_report_sha256 = gd_report_sha256 d, g2_report_artifact_id = report_artifact_id,
               g2_skill_name = gd_skill_name d, g2_source_job_id = gd_source_job_id d,
               g2_source_outcome_id = gd_source_outcome_id d, g2_occurred_at = gd_occurred_at d\<rparr>
      in ensure (valid_generic_result_v2 env g) g)"

text \<open>Status and Skill name of \<open>generic_result or generic_result_v2\<close>.\<close>

definition generic_view :: "generic_result option \<Rightarrow> generic_result_v2 option \<Rightarrow>
    (generic_result_status \<times> text_t) option" where
  "generic_view g g2 =
     (case g of
        Some r \<Rightarrow> Some (gr_status r, gr_skill_name r)
      | None \<Rightarrow> map_option (\<lambda>r. (g2_status r, g2_skill_name r)) g2)"

definition case_generic :: "case_t \<Rightarrow> (generic_result_status \<times> text_t) option" where
  "case_generic c = generic_view (cs_generic_result c) (cs_generic_result_v2 c)"

definition valid_case_markdown :: "case_t \<Rightarrow> bool" where
  "valid_case_markdown c \<longleftrightarrow>
     \<not> (cs_generic_result c \<noteq> None \<and> cs_generic_result_v2 c \<noteq> None) \<and>
     (case case_generic c of
        None \<Rightarrow> True
      | Some (status, name) \<Rightarrow>
          cs_status c = generic_case_status status \<and> cs_final_result c = None \<and>
          cs_unresolved_result c = None \<and>
          (case cs_selected_skill_ref c of
             None \<Rightarrow> True
           | Some r \<Rightarrow> cs_generic_result_v2 c \<noteq> None \<and> ref_id r = skill_ref_prefix @ name \<and>
               ds_candidate_conclusion (cs_diagnosis_state c) = None))"

definition valid_case_final :: "case_t \<Rightarrow> bool" where
  "valid_case_final c \<longleftrightarrow>
     (if cs_status c \<in> {CS_RESOLVED, CS_PARTIALLY_RESOLVED}
      then case_generic c \<noteq> None \<or>
        (case cs_final_result c of
           None \<Rightarrow> False
         | Some f \<Rightarrow> cc_status f = CD_ACCEPTED \<and>
             ds_candidate_conclusion (cs_diagnosis_state c) = Some f \<and>
             cc_resolution_status f =
               (if cs_status c = CS_RESOLVED then DR_COMPLETE else DR_PARTIAL))
      else cs_final_result c = None)"

definition valid_case_unresolved :: "case_t \<Rightarrow> bool" where
  "valid_case_unresolved c \<longleftrightarrow>
     (if cs_status c = CS_UNRESOLVED
      then (case_generic c \<noteq> None \<or> cs_unresolved_result c \<noteq> None) \<and> cs_failure c = None
      else cs_unresolved_result c = None) \<and>
     (case_generic c \<noteq> None \<longrightarrow> cs_status c \<in> {CS_RESOLVED, CS_UNRESOLVED})"

definition valid_case_activity :: "case_t \<Rightarrow> bool" where
  "valid_case_activity c \<longleftrightarrow>
     (cs_status c = CS_REVIEWING \<longrightarrow>
        (case ds_candidate_conclusion (cs_diagnosis_state c) of
           None \<Rightarrow> True | Some k \<Rightarrow> cc_status k = CD_REVIEWING)) \<and>
     (cs_status c \<in> {CS_RUNNING, CS_REVIEWING} \<longrightarrow> cs_active_job_id c \<noteq> None) \<and>
     (cs_status c \<notin> {CS_NEW, CS_RUNNING, CS_REVIEWING} \<longrightarrow> cs_active_job_id c = None)"

definition valid_case :: "py_env \<Rightarrow> case_t \<Rightarrow> bool" where
  "valid_case env c \<longleftrightarrow>
     cs_case_revision c > 0 \<and> valid_diagnosis_state env (cs_diagnosis_state c) \<and>
     cs_methods_result c = None \<and>
     (cs_status c = CS_FAILED \<longleftrightarrow> cs_failure c \<noteq> None) \<and>
     valid_case_markdown c \<and> valid_case_final c \<and> valid_case_unresolved c \<and> valid_case_activity c"

definition valid_snapshot :: "py_env \<Rightarrow> case_snapshot \<Rightarrow> bool" where
  "valid_snapshot env sn \<longleftrightarrow>
     (let c = sn_case sn
      in valid_case env c \<and>
         pred_option (valid_job env) (sn_active_job sn) \<and>
         pred_option (valid_job env) (sn_resume_source_job sn) \<and>
         pred_option (valid_job env) (sn_waiting_source_job sn) \<and>
         map_option jb_job_id (sn_active_job sn) = cs_active_job_id c \<and>
         pred_option (\<lambda>j. jb_case_id j = cs_case_id c) (sn_active_job sn) \<and>
         (case sn_waiting_source_job sn of
            None \<Rightarrow> True
          | Some w \<Rightarrow>
              cs_status c \<in> {CS_WAITING_INPUT, CS_WAITING_ATTACHMENT} \<and> jb_case_id w = cs_case_id c \<and>
              rq_requested_by_job_id ` set (open_requirements (cs_diagnosis_state c)) = {jb_job_id w}) \<and>
         (cs_status c = CS_REVIEWING \<longrightarrow>
            (case sn_active_job sn of
               None \<Rightarrow> False
             | Some a \<Rightarrow> jb_job_type a = JT_REVIEW \<and>
                 (if jb_methods_review_target a \<noteq> None
                  then ds_candidate_conclusion (cs_diagnosis_state c) = None \<and> jb_review_target a = None
                  else (case ds_candidate_conclusion (cs_diagnosis_state c) of
                          None \<Rightarrow> False | Some k \<Rightarrow> cc_status k = CD_REVIEWING) \<and>
                       jb_review_target a \<noteq> None))) \<and>
         (case sn_resume_source_job sn of
            None \<Rightarrow> True
          | Some j \<Rightarrow> cs_status c = CS_INTERRUPTED \<and> jb_case_id j = cs_case_id c \<and>
              jb_status j = JS_INTERRUPTED \<and>
              jb_job_id j \<notin> fst ` set (sn_replacement_job_ids_by_source sn)))"

end
