(* ===== verification/Plan_Effects.thy ===== *)
theory Plan_Effects
  imports Coordinator_Shape State_Contract
begin

text \<open>
  Further facts about the plans of the coordinator, beside their shape: every plan passed the
  validator of \<open>TransitionPlan\<close>, an idle plan leaves no active job behind, and the candidate
  mutation of a plan fits the status it announces.
\<close>

section \<open>Every plan is validated\<close>

definition constructs :: "py_env \<Rightarrow> plan cres \<Rightarrow> bool" where
  "constructs env r \<longleftrightarrow> (\<forall>p. r = Ok p \<longrightarrow> plan_constructible env p)"

lemma constructs_simps [simp]:
  "constructs env (mk_plan env p)" "constructs env (AppErr e)" "constructs env (Raise x)"
  by (simp_all add: constructs_def)

lemma constructs_bindC [intro!]: "(\<And>x. r = Ok x \<Longrightarrow> constructs env (f x)) \<Longrightarrow> constructs env (bindC r f)"
  by (auto simp: constructs_def bindC_Ok)

lemma constructs_guardC [intro!]: "constructs env r \<Longrightarrow> constructs env (guardC e r)"
  by (auto simp: constructs_def guardC_Ok)

lemma constructs_failure [simp]: "constructs env (failure_plan env j f t src disp)"
  by (simp add: failure_plan_def Let_def)

lemma constructs_failed [simp]: "constructs env (failed_outcome_plan env a oc t)"
  by (simp add: failed_outcome_plan_def split: option.splits)

lemma constructs_methods [simp]: "constructs env (methods_terminal_plan env sn a oc t)"
  by (auto simp: methods_terminal_plan_def split: option.splits)

lemma constructs_interrupt [simp]: "constructs env (interrupt_plan env j t disp reason)"
  by (simp add: interrupt_plan_def)

lemma constructs_active: "(\<And>a oc. constructs env (decide a oc)) \<Longrightarrow> constructs env (on_active_outcome sn t jt decide)"
  by (auto simp: on_active_outcome_def split: option.splits)

lemma constructs_route: "constructs env (route_decided env sn t a oc)"
  by (auto simp: route_decided_def route_no_capability_def route_matched_def Let_def
      split: option.splits outcome_payload.splits)

lemma constructs_specialized: "constructs env (specialized_diagnosis env sn t a oc d)"
  by (auto simp: specialized_diagnosis_def inconclusive_plan_def reroute_plan_def candidate_plan_def
      progress_plan_def diagnosis_request_plan_def diagnosis_wait_plan_def Let_def
      split: option.splits prod.splits requirement_kind.splits)

lemma constructs_generic: "constructs env (generic_delivery env t a oc)"
  by (auto simp: generic_delivery_def Let_def split: option.splits outcome_payload.splits)

lemma constructs_diagnosis: "constructs env (diagnosis_decided env sn t a oc)"
  by (auto simp: diagnosis_decided_def constructs_generic constructs_specialized
      split: option.splits outcome_payload.splits)

lemma constructs_review: "constructs env (review_decided env sn t a oc)"
  by (auto simp: review_decided_def review_assessed_def review_decision_def review_unresolved_plan_def
      Let_def split: option.splits outcome_payload.splits review_verdict.splits)

lemma constructs_control:
  "constructs env (create_case env sn t)" "constructs env (submit_supplement env sn t)"
  "constructs env (restart_generic_diagnosis env sn t)" "constructs env (cancel_case env sn t)"
  "constructs env (resume_interrupted env sn t)" "constructs env (execution_failed env sn t)"
  "constructs env (asset_unavailable env sn t)" "constructs env (old_epoch env sn t)"
  "constructs env (stale_active_outcome env sn t)"
  by (auto simp: create_case_def submit_supplement_def accept_supplement_def supplement_wait_plan_def
      restart_generic_diagnosis_def cancel_case_def resume_interrupted_def execution_failed_def
      asset_unavailable_def old_epoch_def stale_active_outcome_def Let_def
      split: trigger_payload.splits option.splits)

lemma handler_constructible:
  assumes "handler env tt sn t = Ok p"
  shows "plan_constructible env p"
proof -
  have "constructs env (handler env tt sn t)"
    by (cases tt) (simp_all add: handler_def constructs_control route_outcome_def diagnosis_outcome_def
        review_outcome_def constructs_active constructs_route constructs_diagnosis constructs_review)
  with assms show ?thesis by (simp add: constructs_def)
qed

section \<open>The active job of an idle plan\<close>

lemma idle_plan:
  assumes "plan_shape sn t tt p" and "valid_snapshot env sn"
  shows "tp_clear_active_job p \<or> cs_active_job_id (sn_case sn) = None"
proof (rule ccontr)
  assume n: "\<not> ?thesis"
  have "job_update_shape sn t p" using assms(1) by (simp add: plan_shape_def)
  then have "sn_active_job sn = None \<or> cs_status (sn_case sn) = CS_INTERRUPTED"
    using n by (simp add: job_update_shape_def)
  then show False
    using assms(2) n by (auto simp: valid_snapshot_def valid_case_def valid_case_activity_def Let_def)
qed

section \<open>The candidate of a plan\<close>

text \<open>The candidate draft of the outcome a trigger carries.\<close>

definition trigger_draft :: "trigger \<Rightarrow> candidate_draft option" where
  "trigger_draft t =
     (case tr_payload t of
        DiagnosisOutcomePayload oc \<Rightarrow>
          (case oc_payload oc of
             Some (DiagnosisPayload d) \<Rightarrow> do_candidate_conclusion_draft d
           | _ \<Rightarrow> None)
      | _ \<Rightarrow> None)"

definition accepts_candidate :: "case_snapshot \<Rightarrow> trigger \<Rightarrow> plan \<Rightarrow> bool" where
  "accepts_candidate sn t p \<longleftrightarrow>
     (\<exists>d. trigger_draft t = Some d \<and>
        tp_accepted_candidate_key p = Some (cd_proposal_key d) \<and>
        tp_candidate_mutation p = Some (install_mutation (cd_proposal_key d) CD_ACCEPTED) \<and>
        tp_final_result_target p = Some (FinalBinding (AcceptedCandidate (cd_proposal_key d))) \<and>
        tp_target_case_status p = resolution_case_status (cd_resolution_status d)) \<or>
     (\<exists>target c. ds_candidate_conclusion (cs_diagnosis_state (sn_case sn)) = Some c \<and>
        candidate_matches target c \<and>
        tp_candidate_mutation p = Some (review_mutation target CD_ACCEPTED None) \<and>
        tp_final_result_target p = Some (FinalTarget target) \<and>
        tp_target_case_status p = resolution_case_status (cc_resolution_status c))"

definition reviews_candidate :: "case_snapshot \<Rightarrow> trigger \<Rightarrow> plan \<Rightarrow> bool" where
  "reviews_candidate sn t p \<longleftrightarrow>
     (\<exists>d. trigger_draft t = Some d \<and>
        tp_accepted_candidate_key p = Some (cd_proposal_key d) \<and>
        tp_candidate_mutation p = Some (install_mutation (cd_proposal_key d) CD_REVIEWING)) \<or>
     (tp_candidate_mutation p = None \<and>
        (case ds_candidate_conclusion (cs_diagnosis_state (sn_case sn)) of
           None \<Rightarrow> True | Some c \<Rightarrow> cc_status c = CD_REVIEWING))"

definition candidate_effect :: "case_snapshot \<Rightarrow> trigger \<Rightarrow> plan \<Rightarrow> bool" where
  "candidate_effect sn t p \<longleftrightarrow>
     (tp_target_case_status p \<in> {CS_RESOLVED, CS_PARTIALLY_RESOLVED} \<longrightarrow>
        plan_generic p \<noteq> None \<or> tp_methods_terminal_projection p \<noteq> None \<or> accepts_candidate sn t p) \<and>
     (tp_target_case_status p = CS_REVIEWING \<longrightarrow> reviews_candidate sn t p) \<and>
     (\<forall>r. plan_generic p \<noteq> None \<and> tp_selected_skill_update p = Some (SetSkill r) \<longrightarrow>
        (\<exists>a. sn_active_job sn = Some a \<and> job_direct a))"

lemma candidate_effect_other:
  assumes "valid_plan p" and "tp_target_case_status p \<notin> {CS_RESOLVED, CS_PARTIALLY_RESOLVED, CS_UNRESOLVED, CS_REVIEWING}"
  shows "candidate_effect sn t p"
  using assms
  by (auto simp: candidate_effect_def valid_plan_def valid_plan_unresolved_def split: option.splits)

lemma candidate_effect_plain:
  "tp_target_case_status p \<notin> {CS_RESOLVED, CS_PARTIALLY_RESOLVED, CS_REVIEWING} \<Longrightarrow>
     plan_generic p = None \<Longrightarrow> candidate_effect sn t p"
  by (auto simp: candidate_effect_def)

lemma failed_effect: "failed_outcome_plan env a oc t = Ok p \<Longrightarrow> candidate_effect sn t p"
  by (rule candidate_effect_plain)
    (auto simp: failed_outcome_plan_def plan_generic_def Let_def dest!: failure_plan_Ok
      split: option.splits if_splits)

lemma methods_effect:
  "methods_terminal_plan env sn a oc t = Ok p \<Longrightarrow> candidate_effect sn t p"
  by (auto simp: methods_terminal_plan_def candidate_effect_def bindC_Ok applied_plan_def plan_generic_def
      dest!: failure_plan_Ok split: option.splits if_splits)

lemma generic_delivery_effect:
  "generic_delivery env t a oc = Ok p \<Longrightarrow> running_job sn a \<Longrightarrow> candidate_effect sn t p"
  by (auto simp: generic_delivery_def candidate_effect_def applied_plan_def plan_generic_def
      running_job_def Let_def generic_case_status_eq split: option.splits if_splits outcome_payload.splits)

lemma candidate_plan_effect:
  assumes "candidate_plan env sn t a oc c n r = Ok p" and "trigger_draft t = Some c"
  shows "candidate_effect sn t p"
  using assms resolution_case_status_cases [of "cd_resolution_status c"]
  by (auto simp: candidate_plan_def candidate_effect_def accepts_candidate_def reviews_candidate_def
      applied_plan_def plan_generic_def Let_def bindC_Ok guardC_Ok split: if_splits prod.splits)

lemma review_decision_effect:
  assumes "review_decision env sn t a oc ra target c = Ok p"
    and "ds_candidate_conclusion (cs_diagnosis_state (sn_case sn)) = Some c" "candidate_matches target c"
  shows "candidate_effect sn t p"
  using assms resolution_case_status_cases [of "cc_resolution_status c"]
  by (auto simp: review_decision_def review_unresolved_plan_def candidate_effect_def
      accepts_candidate_def applied_plan_def plan_generic_def
      split: if_splits option.splits review_verdict.splits)

lemma branch_effects:
  "inconclusive_plan env t a oc d ad ek ak = Ok p \<Longrightarrow> candidate_effect sn t p"
  "reroute_plan env t a oc d n r = Ok p \<Longrightarrow> candidate_effect sn t p"
  "progress_plan env sn t a d n r = Ok p \<Longrightarrow> candidate_effect sn t p"
  "diagnosis_request_plan env sn t a n req k = Ok p \<Longrightarrow> candidate_effect sn t p"
  by (rule candidate_effect_plain;
      auto simp: inconclusive_plan_def reroute_plan_def progress_plan_def diagnosis_request_plan_def
        diagnosis_wait_plan_def applied_plan_def plan_generic_def Let_def bindC_Ok guardC_Ok
      split: if_splits prod.splits option.splits requirement_kind.splits)+

lemma specialized_effect:
  assumes "specialized_diagnosis env sn t a oc d = Ok p" and "trigger_draft t = do_candidate_conclusion_draft d"
  shows "candidate_effect sn t p"
  using assms
  by (auto simp: specialized_diagnosis_def Let_def bindC_Ok intro: branch_effects candidate_plan_effect
      split: if_splits prod.splits option.splits)

lemma diagnosis_outcome_effect:
  assumes "diagnosis_outcome env sn t = Ok p"
  shows "candidate_effect sn t p"
  using assms unfolding diagnosis_outcome_def
proof (rule on_active_outcome_Ok)
  fix a oc
  assume run: "running_job sn a" and oc: "payload_outcome JT_DIAGNOSE (tr_payload t) = Some oc"
    and d: "diagnosis_decided env sn t a oc = Ok p"
  have t: "tr_payload t = DiagnosisOutcomePayload oc" using oc by (cases "tr_payload t") auto
  show ?thesis
    using d run t
    by (auto simp: diagnosis_decided_def trigger_draft_def applied_plan_def plan_generic_def
        intro: methods_effect generic_delivery_effect specialized_effect failed_effect
          candidate_effect_plain
        split: if_splits option.splits outcome_payload.splits)
qed

lemma review_outcome_effect:
  assumes "review_outcome env sn t = Ok p"
  shows "candidate_effect sn t p"
  using assms unfolding review_outcome_def
  by (rule on_active_outcome_Ok)
    (auto simp: review_decided_def review_assessed_def Let_def
      intro: methods_effect failed_effect review_decision_effect
      split: if_splits option.splits outcome_payload.splits)

text \<open>A resumed review keeps the candidate it was reviewing.\<close>

lemma resume_effect:
  assumes "resume_interrupted env sn t = Ok p"
  shows "candidate_effect sn t p"
  using assms
  by (auto simp: resume_interrupted_def resume_review_error_def candidate_effect_def reviews_candidate_def
      plan_generic_def candidate_matches_def Let_def bindC_Ok guardC_Ok
      split: if_splits trigger_payload.splits option.splits)

lemma handler_effect:
  assumes "handler env tt sn t = Ok p"
  shows "candidate_effect sn t p"
proof (cases "tt \<in> {TT_DIAGNOSIS_OUTCOME, TT_REVIEW_OUTCOME, TT_RESUME_INTERRUPTED}")
  case True
  with assms show ?thesis
    by (auto simp: handler_def intro: diagnosis_outcome_effect review_outcome_effect resume_effect)
next
  case False
  have "valid_plan p" using handler_constructible [OF assms] by (simp add: plan_constructible_def)
  moreover have "tp_target_case_status p \<notin> {CS_RESOLVED, CS_PARTIALLY_RESOLVED, CS_UNRESOLVED, CS_REVIEWING}"
    using handler_shape [OF assms] False by (cases tt) (auto simp: plan_shape_def lifecycle_from)
  ultimately show ?thesis by (rule candidate_effect_other)
qed

end
