(* ===== verification/Formalization.thy ===== *)
theory Formalization
  imports State_Contract
begin

text \<open>
  \<open>application/formalization.py\<close>: the mechanical steps that turn an accepted plan into stored
  values. Proposal keys are resolved to the identifiers the service has allocated, drafts become
  items, an accepted candidate gets its revision and content hash, and the accepted delta is
  applied to the diagnosis state with a single revision bump. Every failing check of the source
  raises \<open>ValueError\<close>.
\<close>

section \<open>Resolving bindings\<close>

text \<open>\<open>_stable_unique\<close>.\<close>

definition stable_unique :: "string list \<Rightarrow> string list" where
  "stable_unique values = dedupe_loop (\<lambda>v. v) [] values"

interpretation stable_ids: stable_dedupe "\<lambda>v. v" stable_unique
  unfolding stable_unique_def by (rule dedupe_by.stable_dedupe_axioms)

lemma set_stable_unique [simp]: "set (stable_unique xs) = set xs"
  using stable_ids.keys_kept [of xs] by simp

lemma distinct_stable_unique [simp]: "distinct (stable_unique xs)"
  by (rule stable_ids.dd_distinct)

lemma stable_unique_Nil [simp]: "stable_unique xs = [] \<longleftrightarrow> xs = []"
  by (rule stable_ids.dd_empty_iff)

text \<open>\<open>_require\<close>.\<close>

definition require_key :: "('k \<rightharpoonup> 'a) \<Rightarrow> 'k \<Rightarrow> exn + 'a" where
  "require_key m k = (case m k of None \<Rightarrow> Inl ValueError | Some x \<Rightarrow> Inr x)"

lemma require_key_Inr [simp]: "require_key m k = Inr x \<longleftrightarrow> m k = Some x"
  by (auto simp: require_key_def split: option.splits)

definition candidate_target_of :: "candidate_conclusion \<Rightarrow> candidate_target" where
  "candidate_target_of c =
     \<lparr>ct_conclusion_id = cc_conclusion_id c, ct_revision = cc_revision c,
      ct_content_hash = cc_content_hash c\<rparr>"

definition target_matches :: "candidate_conclusion \<Rightarrow> candidate_target \<Rightarrow> bool" where
  "target_matches c t \<longleftrightarrow> candidate_target_of c = t"

fun resolve_evidence_binding ::
  "opaque_id list \<Rightarrow> (proposal_key \<rightharpoonup> opaque_id) \<Rightarrow> evidence_binding \<Rightarrow> exn + opaque_id" where
  "resolve_evidence_binding existing ids (ExistingEvidence i) = ensure (i \<in> set existing) i"
| "resolve_evidence_binding existing ids (ProposedEvidence k) = require_key ids k"

fun resolve_planned_resource_binding ::
  "opaque_id list \<Rightarrow> (proposal_key \<rightharpoonup> opaque_id) \<Rightarrow> planned_binding \<Rightarrow> exn + opaque_id" where
  "resolve_planned_resource_binding existing ids (ExistingResource i) = ensure (i \<in> set existing) i"
| "resolve_planned_resource_binding existing ids (AcceptedProposal k) = require_key ids k"

fun resolve_review_target_binding ::
  "candidate_conclusion option \<Rightarrow> (proposal_key \<rightharpoonup> candidate_conclusion) \<Rightarrow> review_target_binding \<Rightarrow>
   exn + candidate_target" where
  "resolve_review_target_binding existing cands (ExistingCandidate t) =
     ensure (case existing of None \<Rightarrow> False | Some c \<Rightarrow> target_matches c t) t"
| "resolve_review_target_binding existing cands (AcceptedCandidate k) =
     bindE (require_key cands k) (\<lambda>c. Inr (candidate_target_of c))"

definition resolve_evidence_bindings ::
  "opaque_id list \<Rightarrow> (proposal_key \<rightharpoonup> opaque_id) \<Rightarrow> evidence_binding list \<Rightarrow> exn + opaque_id list" where
  "resolve_evidence_bindings existing ids bs =
     bindE (mapE (resolve_evidence_binding existing ids) bs) (\<lambda>rs. Inr (stable_unique rs))"

section \<open>Candidates\<close>

definition resolve_mapping ::
  "opaque_id list \<Rightarrow> (proposal_key \<rightharpoonup> opaque_id) \<Rightarrow> criterion_draft_mapping \<Rightarrow> exn + criterion_mapping" where
  "resolve_mapping existing ids m =
     bindE (resolve_evidence_bindings existing ids (dm_evidence_bindings m)) (\<lambda>refs.
       let r = \<lparr>cm_criterion_index = dm_criterion_index m, cm_criterion = dm_criterion m,
                cm_status = dm_status m, cm_evidence_refs = refs, cm_explanation = dm_explanation m\<rparr>
       in ensure (valid_criterion_mapping r) r)"

definition resolve_factor ::
  "opaque_id list \<Rightarrow> (proposal_key \<rightharpoonup> opaque_id) \<Rightarrow> causal_factor_draft \<Rightarrow> exn + causal_factor" where
  "resolve_factor existing ids f =
     bindE (resolve_evidence_bindings existing ids (fd_evidence_bindings f)) (\<lambda>refs.
       let r = \<lparr>cf_factor_id = fd_factor_id f, cf_role = fd_role f, cf_statement = fd_statement f,
                cf_evidence_refs = refs, cf_required_rule_ids = fd_required_rule_ids f\<rparr>
       in ensure (valid_causal_factor r) r)"

text \<open>The identity of a formalized candidate: a fresh conclusion starts at revision 1, a draft
  that names the current conclusion increments its revision.\<close>

definition candidate_identity ::
  "candidate_draft \<Rightarrow> candidate_conclusion option \<Rightarrow> (proposal_key \<rightharpoonup> opaque_id) \<Rightarrow>
   exn + (opaque_id \<times> int)" where
  "candidate_identity d current candidate_ids =
     (case cd_existing_conclusion_id d of
        None \<Rightarrow> bindE (require_key candidate_ids (cd_proposal_key d)) (\<lambda>i. Inr (i, 1))
      | Some i \<Rightarrow>
          (case current of
             None \<Rightarrow> Inl ValueError
           | Some c \<Rightarrow> ensure (cc_conclusion_id c = i) (cc_conclusion_id c, cc_revision c + 1)))"

definition formalize_accepted_candidate ::
  "py_env \<Rightarrow> candidate_draft option \<Rightarrow> proposal_key option \<Rightarrow> candidate_conclusion option \<Rightarrow>
   text_t list \<Rightarrow> opaque_id list \<Rightarrow> (proposal_key \<rightharpoonup> opaque_id) \<Rightarrow> (proposal_key \<rightharpoonup> opaque_id) \<Rightarrow>
   opaque_id \<Rightarrow> exn + candidate_conclusion option" where
  "formalize_accepted_candidate env draft accepted_key current criteria existing evidence_ids
     candidate_ids proposed_by =
     (case accepted_key of
        None \<Rightarrow> Inr None
      | Some key \<Rightarrow>
          (case draft of
             None \<Rightarrow> Inl ValueError
           | Some d \<Rightarrow>
               if cd_proposal_key d \<noteq> key then Inl ValueError
               else
                 bindE (candidate_identity d current candidate_ids) (\<lambda>(conclusion_id, revision).
                 bindE (resolve_evidence_bindings existing evidence_ids
                          (cd_supporting_evidence_bindings d)) (\<lambda>supporting.
                 if \<not> criteria_covered 0 (cd_completion_criteria_mapping d) criteria
                 then Inl ValueError
                 else
                 bindE (mapE (resolve_mapping existing evidence_ids)
                          (cd_completion_criteria_mapping d)) (\<lambda>mappings.
                 bindE (mapE (resolve_factor existing evidence_ids) (cd_causal_factors d)) (\<lambda>causal.
                 bindE (mapE (resolve_factor existing evidence_ids) (cd_candidate_factors d)) (\<lambda>cands.
                 bindE (mapE (resolve_factor existing evidence_ids) (cd_excluded_factors d)) (\<lambda>excluded.
                 let c0 = \<lparr>cc_conclusion_id = conclusion_id, cc_revision = revision,
                           cc_content_hash = [], cc_resolution_status = cd_resolution_status d,
                           cc_terminal_path_id = cd_terminal_path_id d,
                           cc_statement = cd_statement d, cc_causal_factors = causal,
                           cc_candidate_factors = cands, cc_excluded_factors = excluded,
                           cc_supporting_evidence_refs = supporting,
                           cc_completion_criteria_mapping = mappings,
                           cc_proposed_by_job_id = proposed_by, cc_status = CD_PROPOSED\<rparr>;
                     c = c0\<lparr>cc_content_hash := env_canonical_sha256 env (preimage_of c0)\<rparr>
                 in ensure (valid_candidate env c) (Some c)))))))))"

fun apply_selected_skill_update ::
  "versioned_ref option \<Rightarrow> skill_update option \<Rightarrow> versioned_ref option" where
  "apply_selected_skill_update current None = current"
| "apply_selected_skill_update current (Some ClearSkill) = None"
| "apply_selected_skill_update current (Some (SetSkill r)) = Some r"

fun apply_case_failure_update ::
  "case_failure option \<Rightarrow> failure_update option \<Rightarrow> case_failure option" where
  "apply_case_failure_update current None = current"
| "apply_case_failure_update current (Some ClearFailure) = None"
| "apply_case_failure_update current (Some (SetFailure f)) = Some f"

definition set_candidate_status ::
  "py_env \<Rightarrow> candidate_conclusion \<Rightarrow> candidate_status \<Rightarrow> exn + candidate_conclusion option" where
  "set_candidate_status env c status =
     (let c' = c\<lparr>cc_status := status\<rparr> in ensure (valid_candidate env c') (Some c'))"

definition install_revision_ok :: "candidate_conclusion option \<Rightarrow> candidate_conclusion \<Rightarrow> bool" where
  "install_revision_ok current c \<longleftrightarrow>
     (case current of
        None \<Rightarrow> cc_revision c = 1
      | Some k \<Rightarrow>
          if cc_conclusion_id k \<noteq> cc_conclusion_id c then cc_revision c = 1
          else cc_revision c = cc_revision k + 1)"

definition apply_candidate_mutation ::
  "py_env \<Rightarrow> candidate_conclusion option \<Rightarrow> candidate_mutation option \<Rightarrow>
   (proposal_key \<rightharpoonup> candidate_conclusion) \<Rightarrow> exn + candidate_conclusion option" where
  "apply_candidate_mutation env current mutation cands =
     (case mutation of
        None \<Rightarrow> Inr current
      | Some m \<Rightarrow>
          (case mu_action m of
             CM_INSTALL \<Rightarrow>
               (case mu_candidate_binding m of
                  ExistingCandidate t \<Rightarrow> Inl ValueError
                | AcceptedCandidate key \<Rightarrow>
                    bindE (require_key cands key) (\<lambda>c.
                    if cc_status c \<noteq> CD_PROPOSED \<or> \<not> install_revision_ok current c
                    then Inl ValueError
                    else set_candidate_status env c (mu_target_status m)))
           | CM_SET_STATUS \<Rightarrow>
               (case (current, mu_candidate_binding m) of
                  (Some c, ExistingCandidate t) \<Rightarrow>
                    if \<not> target_matches c t \<or> Some (cc_status c) \<noteq> mu_expected_status m
                    then Inl ValueError
                    else set_candidate_status env c (mu_target_status m)
                | _ \<Rightarrow> Inl ValueError)))"

definition resolve_final_result ::
  "candidate_conclusion option \<Rightarrow> final_target option \<Rightarrow> exn + candidate_conclusion option" where
  "resolve_final_result candidate target =
     (case target of
        None \<Rightarrow> Inr None
      | Some (FinalBinding (ExistingCandidate t)) \<Rightarrow> Inl ValueError
      | Some ft \<Rightarrow>
          (case candidate of
             None \<Rightarrow> Inl ValueError
           | Some c \<Rightarrow>
               ensure (cc_status c = CD_ACCEPTED \<and>
                       (case ft of FinalTarget t \<Rightarrow> target_matches c t | FinalBinding b \<Rightarrow> True))
                 (Some c)))"

section \<open>Items\<close>

definition draft_item ::
  "diagnosis_item_status \<Rightarrow> int \<Rightarrow> opaque_id list \<Rightarrow> (proposal_key \<rightharpoonup> opaque_id) \<Rightarrow> item_draft \<Rightarrow>
   exn + diagnosis_item" where
  "draft_item status created_revision existing ids d =
     bindE (resolve_evidence_bindings existing ids (dr_evidence_bindings d)) (\<lambda>refs.
       let i = \<lparr>it_item_id = dr_item_id d, it_statement = dr_statement d, it_status = status,
                it_provenance = dr_provenance d, it_evidence_refs = refs,
                it_created_revision = created_revision, it_supersedes = sort (dr_supersedes d)\<rparr>
       in ensure (valid_diagnosis_item i) i)"

definition merge_refs :: "opaque_id list \<Rightarrow> opaque_id list \<Rightarrow> opaque_id list" where
  "merge_refs existing incoming =
     existing @ sort (remdups (filter (\<lambda>r. r \<notin> set existing) incoming))"

definition changed_item ::
  "diagnosis_item_status \<Rightarrow> opaque_id list \<Rightarrow> (proposal_key \<rightharpoonup> opaque_id) \<Rightarrow> diagnosis_item \<Rightarrow>
   item_change \<Rightarrow> exn + diagnosis_item" where
  "changed_item status existing ids item change =
     bindE (resolve_evidence_bindings existing ids (ch_evidence_bindings change)) (\<lambda>refs.
       let i = item\<lparr>it_statement :=
                      (case ch_statement change of Some s \<Rightarrow> s | None \<Rightarrow> it_statement item),
                    it_status := status,
                    it_evidence_refs := merge_refs (it_evidence_refs item) refs\<rparr>
       in ensure (valid_diagnosis_item i) i)"

definition formalize_supersedes_ok :: "diagnosis_item list \<Rightarrow> item_draft list \<Rightarrow> bool" where
  "formalize_supersedes_ok items drafts \<longleftrightarrow>
     (let graph = supersedes_graph items drafts; known = graph_keys graph
      in list_all (\<lambda>d. list_all (\<lambda>r. r \<in> set known) (dr_supersedes d)) drafts \<and>
         facyclic_check graph)"

definition append_items :: "diagnosis_item list \<Rightarrow> diagnosis_item list \<Rightarrow> diagnosis_item list" where
  "append_items existing new = existing @ sort_key it_item_id new"

text \<open>The loop of step 4 that rewrites the updated hypotheses in place.\<close>

fun update_hypotheses ::
  "opaque_id list \<Rightarrow> (proposal_key \<rightharpoonup> opaque_id) \<Rightarrow> (opaque_id \<rightharpoonup> nat) \<Rightarrow> diagnosis_item list \<Rightarrow>
   item_change list \<Rightarrow> exn + diagnosis_item list" where
  "update_hypotheses existing ids active_by_id items [] = Inr items"
| "update_hypotheses existing ids active_by_id items (c # cs) =
     bindE (require_key active_by_id (ch_item_id c)) (\<lambda>i.
     bindE (changed_item DI_ACTIVE existing ids (items ! i) c) (\<lambda>item.
     update_hypotheses existing ids active_by_id (items[i := item]) cs))"

definition reject_hypothesis ::
  "opaque_id list \<Rightarrow> (proposal_key \<rightharpoonup> opaque_id) \<Rightarrow> (opaque_id \<rightharpoonup> nat) \<Rightarrow> diagnosis_item list \<Rightarrow>
   item_change \<Rightarrow> exn + diagnosis_item" where
  "reject_hypothesis existing ids active_by_id items c =
     bindE (require_key active_by_id (ch_item_id c)) (\<lambda>i.
     changed_item DI_REJECTED existing ids (items ! i) c)"

text \<open>The loop of step 6 that fulfills requirements in place.\<close>

definition fulfilled_requirement :: "pending_requirement \<Rightarrow> opaque_id list \<Rightarrow> pending_requirement" where
  "fulfilled_requirement r refs = r\<lparr>rq_status := QS_FULFILLED, rq_fulfilled_by_refs := refs\<rparr>"

fun fulfill_requirements ::
  "(opaque_id \<rightharpoonup> nat) \<Rightarrow> pending_requirement list \<Rightarrow> requirement_fulfillment list \<Rightarrow>
   exn + pending_requirement list" where
  "fulfill_requirements requirement_by_id reqs [] = Inr reqs"
| "fulfill_requirements requirement_by_id reqs (f # fs) =
     bindE (require_key requirement_by_id (rf_requirement_id f)) (\<lambda>i.
     let r = fulfilled_requirement (reqs ! i) (rf_fulfilled_by_refs f)
     in if rq_status (reqs ! i) \<noteq> QS_OPEN \<or> \<not> valid_requirement r then Inl ValueError
        else fulfill_requirements requirement_by_id (reqs[i := r]) fs)"

section \<open>Applying a delta\<close>

definition delta_drafts :: "state_delta \<Rightarrow> item_draft list" where
  "delta_drafts d = sd_proposed_facts d @ sd_add_active_hypotheses d @ sd_add_open_questions d"

definition delta_new_ids :: "state_delta \<Rightarrow> opaque_id list" where
  "delta_new_ids d = map it_item_id (sd_add_user_facts d) @ map dr_item_id (delta_drafts d)"

definition delta_changed_ids :: "state_delta \<Rightarrow> opaque_id list" where
  "delta_changed_ids d = map ch_item_id (sd_update_hypotheses d) @
     map ch_item_id (sd_reject_hypotheses d) @ map ch_item_id (sd_resolve_questions d)"

definition delta_identity_ok :: "diagnosis_state \<Rightarrow> state_delta \<Rightarrow> bool" where
  "delta_identity_ok s d \<longleftrightarrow>
     distinct (delta_new_ids d) \<and> set (map it_item_id (state_items s)) \<inter> set (delta_new_ids d) = {} \<and>
     distinct (delta_changed_ids d) \<and> set (delta_changed_ids d) \<inter> set (delta_new_ids d) = {} \<and>
     formalize_supersedes_ok (state_items s) (delta_drafts d)"

definition apply_spec_patch_opt ::
  "problem_spec \<Rightarrow> problem_spec_patch option \<Rightarrow> exn + problem_spec" where
  "apply_spec_patch_opt s patch =
     (case patch of
        None \<Rightarrow> Inr s | Some p \<Rightarrow> bindE (apply_problem_spec_patch s p) (\<lambda>(s', _). Inr s'))"

text \<open>Steps 3 to 5 for the agent's items: new confirmed facts, the hypotheses, the questions.\<close>

definition apply_fact_drafts ::
  "diagnosis_state \<Rightarrow> (proposal_key \<rightharpoonup> opaque_id) \<Rightarrow> state_delta \<Rightarrow> exn + diagnosis_item list" where
  "apply_fact_drafts s ids d =
     bindE (mapE (draft_item DI_ACTIVE (ds_revision s + 1) (ds_evidence_refs s) ids)
              (sd_proposed_facts d)) (\<lambda>facts.
     if list_ex (\<lambda>i. it_evidence_refs i = []) facts then Inl ValueError
     else Inr (append_items (ds_confirmed_facts s) facts))"

definition apply_hypotheses ::
  "diagnosis_state \<Rightarrow> (proposal_key \<rightharpoonup> opaque_id) \<Rightarrow> state_delta \<Rightarrow>
   exn + (diagnosis_item list \<times> diagnosis_item list)" where
  "apply_hypotheses s ids d =
     (let existing = ds_evidence_refs s; by_id = index_by it_item_id (ds_active_hypotheses s)
      in bindE (update_hypotheses existing ids by_id (ds_active_hypotheses s) (sd_update_hypotheses d))
           (\<lambda>active.
         bindE (mapE (reject_hypothesis existing ids by_id active) (sd_reject_hypotheses d))
           (\<lambda>rejected.
         bindE (mapE (draft_item DI_ACTIVE (ds_revision s + 1) existing ids)
                  (sd_add_active_hypotheses d)) (\<lambda>added.
         Inr (append_items
                (filter (\<lambda>i. it_item_id i \<notin> ch_item_id ` set (sd_reject_hypotheses d)) active) added,
              append_items (ds_rejected_hypotheses s) rejected)))))"

definition apply_questions ::
  "diagnosis_state \<Rightarrow> (proposal_key \<rightharpoonup> opaque_id) \<Rightarrow> state_delta \<Rightarrow> exn + diagnosis_item list" where
  "apply_questions s ids d =
     (let existing = ds_evidence_refs s; resolved = ch_item_id ` set (sd_resolve_questions d)
      in if \<not> resolved \<subseteq> it_item_id ` set (ds_open_questions s) then Inl ValueError
         else bindE (mapE (\<lambda>c. resolve_evidence_bindings existing ids (ch_evidence_bindings c))
                (sd_resolve_questions d)) (\<lambda>_.
         bindE (mapE (draft_item DI_ACTIVE (ds_revision s + 1) existing ids)
                  (sd_add_open_questions d)) (\<lambda>added.
         Inr (append_items (filter (\<lambda>i. it_item_id i \<notin> resolved) (ds_open_questions s)) added))))"

definition apply_requirements ::
  "diagnosis_state \<Rightarrow> state_delta \<Rightarrow> exn + pending_requirement list" where
  "apply_requirements s d =
     (let reqs = ds_pending_requirements s
      in if \<not> distinct (map rf_requirement_id (sd_fulfill_requirements d)) then Inl ValueError
         else bindE (fulfill_requirements (index_by rq_requirement_id reqs) reqs
                (sd_fulfill_requirements d)) (\<lambda>fulfilled.
         if set (map rq_requirement_id reqs) \<inter>
            set (map rq_requirement_id (sd_add_pending_requirements d)) \<noteq> {}
         then Inl ValueError
         else Inr (fulfilled @ sd_add_pending_requirements d)))"

definition provisional_state ::
  "py_env \<Rightarrow> diagnosis_state \<Rightarrow> state_delta \<Rightarrow> (proposal_key \<rightharpoonup> opaque_id) \<Rightarrow>
   candidate_mutation option \<Rightarrow> (proposal_key \<rightharpoonup> candidate_conclusion) \<Rightarrow> exn + diagnosis_state" where
  "provisional_state env s d ids mutation cands =
     (if \<not> delta_identity_ok s d then Inl ValueError
      else
        bindE (apply_spec_patch_opt (ds_problem_spec s) (sd_problem_spec_patch d)) (\<lambda>spec.
        if list_ex (\<lambda>i. it_created_revision i \<noteq> ds_revision s + 1) (sd_add_user_facts d)
        then Inl ValueError
        else
        bindE (apply_fact_drafts s ids d) (\<lambda>confirmed.
        bindE (apply_hypotheses s ids d) (\<lambda>(active, rejected).
        bindE (apply_questions s ids d) (\<lambda>questions.
        bindE (apply_requirements s d) (\<lambda>requirements.
        bindE (resolve_evidence_bindings (ds_evidence_refs s) ids (sd_add_evidence_bindings d)) (\<lambda>added.
        bindE (apply_candidate_mutation env (ds_candidate_conclusion s) mutation cands) (\<lambda>candidate.
        let s' = \<lparr>ds_revision = ds_revision s, ds_problem_spec = spec,
                  ds_user_facts = append_items (ds_user_facts s) (sd_add_user_facts d),
                  ds_confirmed_facts = confirmed, ds_active_hypotheses = active,
                  ds_rejected_hypotheses = rejected, ds_open_questions = questions,
                  ds_pending_requirements = requirements,
                  ds_evidence_refs = merge_refs (ds_evidence_refs s) added,
                  ds_candidate_conclusion = candidate\<rparr>
        in ensure (valid_diagnosis_state env s') s'))))))))"

definition apply_diagnosis_state_delta ::
  "py_env \<Rightarrow> diagnosis_state \<Rightarrow> state_delta \<Rightarrow> (proposal_key \<rightharpoonup> opaque_id) \<Rightarrow>
   candidate_mutation option \<Rightarrow> (proposal_key \<rightharpoonup> candidate_conclusion) \<Rightarrow> int option \<Rightarrow>
   exn + diagnosis_state" where
  "apply_diagnosis_state_delta env s d ids mutation cands expected_target_revision =
     bindE (provisional_state env s d ids mutation cands) (\<lambda>s'.
     let result = s'\<lparr>ds_revision := (if s' \<noteq> s then ds_revision s + 1 else ds_revision s)\<rparr>
     in ensure (valid_diagnosis_state env result \<and>
                (case expected_target_revision of None \<Rightarrow> True | Some r \<Rightarrow> ds_revision result = r))
          result)"

end
