(* ===== verification/Delta_Application.thy ===== *)
theory Delta_Application
  imports Formalization "HOL-Library.Multiset"
begin

text \<open>
  The steps of \<open>apply_diagnosis_state_delta\<close> in closed form, for deltas whose bindings resolve:
  which items the new state holds, and that each step succeeds. The closed forms carry the proof
  that a delta accepted by the coordinator always applies (theory \<open>Delta_Agreement\<close>).
\<close>

section \<open>Resolved bindings\<close>

definition resolvable :: "opaque_id list \<Rightarrow> (proposal_key \<rightharpoonup> opaque_id) \<Rightarrow> evidence_binding \<Rightarrow> bool" where
  "resolvable existing ids b \<longleftrightarrow>
     (case b of ExistingEvidence i \<Rightarrow> i \<in> set existing | ProposedEvidence k \<Rightarrow> ids k \<noteq> None)"

definition binding_id :: "(proposal_key \<rightharpoonup> opaque_id) \<Rightarrow> evidence_binding \<Rightarrow> opaque_id" where
  "binding_id ids b = (case b of ExistingEvidence i \<Rightarrow> i | ProposedEvidence k \<Rightarrow> the (ids k))"

lemma mapE_Inr_map: "(\<And>x. x \<in> set xs \<Longrightarrow> f x = Inr (g x)) \<Longrightarrow> mapE f xs = Inr (map g xs)"
  by (induction xs) auto

lemma resolve_binding_ok:
  "resolvable ex ids b \<Longrightarrow> resolve_evidence_binding ex ids b = Inr (binding_id ids b)"
  by (cases b) (auto simp: resolvable_def binding_id_def)

lemma resolve_bindings_ok:
  "list_all (resolvable ex ids) bs \<Longrightarrow>
     resolve_evidence_bindings ex ids bs = Inr (stable_unique (map (binding_id ids) bs))"
  by (auto simp: resolve_evidence_bindings_def list_all_iff resolve_binding_ok
      mapE_Inr_map [where g = "binding_id ids"])

lemma set_merge_refs [simp]: "set (merge_refs a b) = set a \<union> set b"
  by (auto simp: merge_refs_def)

lemma distinct_merge_refs [simp]: "distinct (merge_refs a b) \<longleftrightarrow> distinct a"
  by (auto simp: merge_refs_def)

lemma merge_refs_Nil [simp]: "merge_refs a [] = a"
  by (simp add: merge_refs_def)

lemma merge_refs_same: "merge_refs a b = a \<longleftrightarrow> set b \<subseteq> set a"
proof -
  have "sort (remdups (filter (\<lambda>r. r \<notin> set a) b)) = [] \<longleftrightarrow> filter (\<lambda>r. r \<notin> set a) b = []"
    by (metis remdups_eq_nil_iff sort_key_Nil_iff)
  then show ?thesis by (auto simp: merge_refs_def filter_empty_conv)
qed

lemma append_items_Nil [simp]: "append_items a [] = a"
  by (simp add: append_items_def)

lemma set_append_items [simp]: "set (append_items a b) = set a \<union> set b"
  by (simp add: append_items_def)

lemma length_append_items [simp]: "length (append_items a b) = length a + length b"
  by (simp add: append_items_def)

lemma distinct_map_sort_key [simp]: "distinct (map f (sort_key g xs)) = distinct (map f xs)"
  by (rule mset_eq_imp_distinct_iff) simp

lemma ids_append_items:
  "distinct (map it_item_id (append_items a b)) \<longleftrightarrow>
     distinct (map it_item_id a) \<and> distinct (map it_item_id b) \<and>
     it_item_id ` set a \<inter> it_item_id ` set b = {}"
  by (auto simp: append_items_def)

section \<open>Items in closed form\<close>

definition item_of_draft ::
  "int \<Rightarrow> (proposal_key \<rightharpoonup> opaque_id) \<Rightarrow> item_draft \<Rightarrow> diagnosis_item" where
  "item_of_draft r ids d =
     \<lparr>it_item_id = dr_item_id d, it_statement = dr_statement d, it_status = DI_ACTIVE,
      it_provenance = dr_provenance d,
      it_evidence_refs = stable_unique (map (binding_id ids) (dr_evidence_bindings d)),
      it_created_revision = r, it_supersedes = sort (dr_supersedes d)\<rparr>"

definition item_changed ::
  "diagnosis_item_status \<Rightarrow> (proposal_key \<rightharpoonup> opaque_id) \<Rightarrow> diagnosis_item \<Rightarrow> item_change \<Rightarrow> diagnosis_item"
  where
  "item_changed status ids item c =
     item\<lparr>it_statement := (case ch_statement c of Some s \<Rightarrow> s | None \<Rightarrow> it_statement item),
          it_status := status,
          it_evidence_refs := merge_refs (it_evidence_refs item)
             (stable_unique (map (binding_id ids) (ch_evidence_bindings c)))\<rparr>"

lemma item_of_draft_fields [simp]:
  "it_item_id (item_of_draft r ids d) = dr_item_id d"
  "it_status (item_of_draft r ids d) = DI_ACTIVE"
  "it_provenance (item_of_draft r ids d) = dr_provenance d"
  "set (it_evidence_refs (item_of_draft r ids d)) = binding_id ids ` set (dr_evidence_bindings d)"
  "it_evidence_refs (item_of_draft r ids d) = [] \<longleftrightarrow> dr_evidence_bindings d = []"
  "set (it_supersedes (item_of_draft r ids d)) = set (dr_supersedes d)"
  by (simp_all add: item_of_draft_def)

lemma item_changed_fields [simp]:
  "it_item_id (item_changed st ids i c) = it_item_id i"
  "it_status (item_changed st ids i c) = st"
  "it_provenance (item_changed st ids i c) = it_provenance i"
  "it_supersedes (item_changed st ids i c) = it_supersedes i"
  "set (it_evidence_refs (item_changed st ids i c)) =
     set (it_evidence_refs i) \<union> binding_id ids ` set (ch_evidence_bindings c)"
  by (simp_all add: item_changed_def)

lemma valid_item_of_draft: "valid_item_draft d \<Longrightarrow> r > 0 \<Longrightarrow> valid_diagnosis_item (item_of_draft r ids d)"
  by (auto simp: valid_diagnosis_item_def valid_item_draft_def item_of_draft_def)

lemma valid_item_changed: "valid_diagnosis_item i \<Longrightarrow> valid_diagnosis_item (item_changed st ids i c)"
  by (auto simp: valid_diagnosis_item_def item_changed_def)

lemma draft_item_ok:
  "valid_item_draft d \<Longrightarrow> r > 0 \<Longrightarrow> list_all (resolvable ex ids) (dr_evidence_bindings d) \<Longrightarrow>
     draft_item DI_ACTIVE r ex ids d = Inr (item_of_draft r ids d)"
  using valid_item_of_draft [of d r ids]
  by (simp add: draft_item_def resolve_bindings_ok Let_def item_of_draft_def)

lemma changed_item_ok:
  "valid_diagnosis_item i \<Longrightarrow> list_all (resolvable ex ids) (ch_evidence_bindings c) \<Longrightarrow>
     changed_item st ex ids i c = Inr (item_changed st ids i c)"
  using valid_item_changed [of i st ids c]
  by (simp add: changed_item_def resolve_bindings_ok Let_def item_changed_def)

lemma draft_items_ok:
  assumes "list_all valid_item_draft ds" and "r > 0"
    and "list_all (\<lambda>d. list_all (resolvable ex ids) (dr_evidence_bindings d)) ds"
  shows "mapE (draft_item DI_ACTIVE r ex ids) ds = Inr (map (item_of_draft r ids) ds)"
  using assms by (auto simp: list_all_iff intro!: mapE_Inr_map draft_item_ok)

section \<open>Indices\<close>

lemma disjoint_images:
  assumes "\<And>y. y \<in> B \<Longrightarrow> g y \<notin> f ` A"
  shows "f ` A \<inter> g ` B = {}"
proof (rule equals0I)
  fix z
  assume z: "z \<in> f ` A \<inter> g ` B"
  then obtain y where y: "y \<in> B" "z = g y" by blast
  with z have "g y \<in> f ` A" by simp
  with assms y(1) show False by simp
qed

lemma index_by_update:
  "i < length xs \<Longrightarrow> key y = key (xs ! i) \<Longrightarrow> index_by key (xs[i := y]) = index_by key xs"
  using list_update_id [of "map key xs" i] by (simp add: index_by_def map_update)

section \<open>The hypothesis loop\<close>

definition change_for :: "item_change list \<Rightarrow> opaque_id \<Rightarrow> item_change option" where
  "change_for cs i = map_of (map (\<lambda>c. (ch_item_id c, c)) cs) i"

definition updated_item ::
  "(proposal_key \<rightharpoonup> opaque_id) \<Rightarrow> item_change list \<Rightarrow> diagnosis_item \<Rightarrow> diagnosis_item" where
  "updated_item ids cs i =
     (case change_for cs (it_item_id i) of None \<Rightarrow> i | Some c \<Rightarrow> item_changed DI_ACTIVE ids i c)"

lemma updated_item_id [simp]: "it_item_id (updated_item ids cs i) = it_item_id i"
  by (simp add: updated_item_def split: option.splits)

lemma update_hypotheses_ok:
  assumes "distinct (map it_item_id items)" and "list_all valid_diagnosis_item items"
    and "distinct (map ch_item_id cs)" and "ch_item_id ` set cs \<subseteq> it_item_id ` set items"
    and "list_all (\<lambda>c. list_all (resolvable ex ids) (ch_evidence_bindings c)) cs"
  shows "update_hypotheses ex ids (index_by it_item_id items) items cs =
           Inr (map (updated_item ids cs) items)"
  using assms
proof (induction cs arbitrary: items)
  case Nil
  then show ?case by (simp add: updated_item_def change_for_def map_idI)
next
  case (Cons c cs)
  obtain i where i: "index_by it_item_id items (ch_item_id c) = Some i"
    using Cons.prems(4) index_by_hit [of "ch_item_id c" it_item_id items] by auto
  note il = index_by_Some [OF i]
  let ?y = "item_changed DI_ACTIVE ids (items ! i) c"
  let ?items = "items[i := ?y]"
  have valid_i: "valid_diagnosis_item (items ! i)" using Cons.prems(2) il by (simp add: list_all_iff)
  have ids_same: "map it_item_id ?items = map it_item_id items"
    using il by (simp add: map_update) (metis length_map list_update_id nth_map)
  have 1: "changed_item DI_ACTIVE ex ids (items ! i) c = Inr ?y"
    using Cons.prems(5) by (intro changed_item_ok valid_i) simp
  have set_eq: "it_item_id ` set ?items = it_item_id ` set items"
    by (metis ids_same set_map)
  have valid: "list_all valid_diagnosis_item ?items"
    using Cons.prems(2) valid_item_changed [OF valid_i, of DI_ACTIVE ids c]
    by (auto simp: list_all_iff dest!: set_update_subset_insert [THEN subsetD])
  have step: "update_hypotheses ex ids (index_by it_item_id items) items (c # cs) =
      update_hypotheses ex ids (index_by it_item_id ?items) ?items cs"
    using i il 1 by (simp add: index_by_update require_key_def)
  have rest: "update_hypotheses ex ids (index_by it_item_id ?items) ?items cs =
      Inr (map (updated_item ids cs) ?items)"
    using Cons.prems ids_same set_eq valid by (intro Cons.IH) auto
  have "map (updated_item ids cs) ?items = map (updated_item ids (c # cs)) items"
  proof (rule nth_equalityI)
    fix j
    assume "j < length (map (updated_item ids cs) ?items)"
    then have j: "j < length items" by simp
    have neq: "j \<noteq> i \<Longrightarrow> it_item_id (items ! j) \<noteq> ch_item_id c"
      using Cons.prems(1) j il by (metis index_by_nth i option.inject)
    have "change_for cs (ch_item_id c) = None"
      using Cons.prems(3) by (force simp: change_for_def map_of_eq_None_iff)
    then show "map (updated_item ids cs) ?items ! j = map (updated_item ids (c # cs)) items ! j"
      using j il neq by (cases "j = i") (auto simp: updated_item_def change_for_def)
  qed simp
  with step rest show ?case by simp
qed

section \<open>An agent's delta in closed form\<close>

text \<open>What a delta must satisfy for its application to succeed: new identifiers, targets of the
  right list, bindings that resolve and whose evidence enters the state, admissible new
  requirements.\<close>

definition applicable_items :: "diagnosis_state \<Rightarrow> state_delta \<Rightarrow> bool" where
  "applicable_items s d \<longleftrightarrow>
     sd_add_user_facts d = [] \<and> delta_identity_ok s d \<and>
     list_all (\<lambda>x. valid_item_draft x \<and> pv_source_type (dr_provenance x) = DP_AGENT_OUTCOME)
       (delta_drafts d) \<and>
     list_all (\<lambda>x. dr_evidence_bindings x \<noteq> []) (sd_proposed_facts d) \<and>
     ch_item_id ` set (sd_update_hypotheses d @ sd_reject_hypotheses d)
       \<subseteq> it_item_id ` set (ds_active_hypotheses s) \<and>
     ch_item_id ` set (sd_resolve_questions d) \<subseteq> it_item_id ` set (ds_open_questions s)"

definition delta_changes :: "state_delta \<Rightarrow> item_change list" where
  "delta_changes d = sd_update_hypotheses d @ sd_reject_hypotheses d @ sd_resolve_questions d"

definition delta_item_bindings :: "state_delta \<Rightarrow> evidence_binding list" where
  "delta_item_bindings d = concat (map dr_evidence_bindings (delta_drafts d)) @
     concat (map ch_evidence_bindings (delta_changes d))"

definition applicable_bindings ::
  "diagnosis_state \<Rightarrow> state_delta \<Rightarrow> (proposal_key \<rightharpoonup> opaque_id) \<Rightarrow> bool" where
  "applicable_bindings s d ids \<longleftrightarrow>
     list_all (resolvable (ds_evidence_refs s) ids)
       (delta_item_bindings d @ sd_add_evidence_bindings d) \<and>
     list_all (\<lambda>b. binding_id ids b \<in> set (ds_evidence_refs s) \<union>
                 binding_id ids ` set (sd_add_evidence_bindings d)) (delta_item_bindings d)"

definition applicable_requirements :: "diagnosis_state \<Rightarrow> pending_requirement list \<Rightarrow> bool" where
  "applicable_requirements s reqs \<longleftrightarrow>
     list_all (\<lambda>r. valid_requirement r \<and> rq_status r = QS_OPEN \<and>
        rq_requirement_id r \<notin> rq_requirement_id ` set (ds_pending_requirements s) \<and>
        rq_name r \<notin> rq_name ` set (open_requirements s) \<and>
        \<not> (rq_kind r = QK_INPUT \<and> Some (rq_name r) \<in> set (fixed_input_names s))) reqs \<and>
     distinct (map rq_requirement_id reqs) \<and> distinct (map rq_name reqs) \<and>
     length (filter (\<lambda>r. rq_kind r = QK_ATTACHMENT) (open_requirements s)) +
       length (filter (\<lambda>r. rq_kind r = QK_ATTACHMENT) reqs) \<le> 1"

definition rejected_item ::
  "diagnosis_state \<Rightarrow> state_delta \<Rightarrow> (proposal_key \<rightharpoonup> opaque_id) \<Rightarrow> item_change \<Rightarrow> diagnosis_item" where
  "rejected_item s d ids c = item_changed DI_REJECTED ids
     (updated_item ids (sd_update_hypotheses d)
        (the (dict_by it_item_id (ds_active_hypotheses s) (ch_item_id c)))) c"

definition agent_state ::
  "diagnosis_state \<Rightarrow> state_delta \<Rightarrow> (proposal_key \<rightharpoonup> opaque_id) \<Rightarrow> problem_spec \<Rightarrow>
   candidate_conclusion option \<Rightarrow> diagnosis_state" where
  "agent_state s d ids spec candidate =
     (let r = ds_revision s + 1
      in \<lparr>ds_revision = ds_revision s, ds_problem_spec = spec, ds_user_facts = ds_user_facts s,
          ds_confirmed_facts = append_items (ds_confirmed_facts s)
            (map (item_of_draft r ids) (sd_proposed_facts d)),
          ds_active_hypotheses = append_items
            (filter (\<lambda>i. it_item_id i \<notin> ch_item_id ` set (sd_reject_hypotheses d))
               (map (updated_item ids (sd_update_hypotheses d)) (ds_active_hypotheses s)))
            (map (item_of_draft r ids) (sd_add_active_hypotheses d)),
          ds_rejected_hypotheses = append_items (ds_rejected_hypotheses s)
            (map (rejected_item s d ids) (sd_reject_hypotheses d)),
          ds_open_questions = append_items
            (filter (\<lambda>i. it_item_id i \<notin> ch_item_id ` set (sd_resolve_questions d))
               (ds_open_questions s))
            (map (item_of_draft r ids) (sd_add_open_questions d)),
          ds_pending_requirements = ds_pending_requirements s @ sd_add_pending_requirements d,
          ds_evidence_refs = merge_refs (ds_evidence_refs s)
            (stable_unique (map (binding_id ids) (sd_add_evidence_bindings d))),
          ds_candidate_conclusion = candidate\<rparr>)"

lemma active_item_by_id:
  assumes "distinct (map it_item_id xs)" and "k \<in> it_item_id ` set xs"
  shows "the (dict_by it_item_id xs k) \<in> set xs \<and> it_item_id (the (dict_by it_item_id xs k)) = k"
    and "xs ! the (index_by it_item_id xs k) = the (dict_by it_item_id xs k)"
proof -
  obtain x where x: "x \<in> set xs" "it_item_id x = k" using assms(2) by auto
  then have d: "dict_by it_item_id xs k = Some x"
    using dict_by_distinct [OF assms(1) x(1)] by simp
  then show "the (dict_by it_item_id xs k) \<in> set xs \<and> it_item_id (the (dict_by it_item_id xs k)) = k"
    using x by simp
  obtain i where i: "i < length xs" "xs ! i = x" using x by (auto simp: in_set_conv_nth)
  with assms(1) x have "index_by it_item_id xs k = Some i" using index_by_nth [of it_item_id xs i] by auto
  with i d show "xs ! the (index_by it_item_id xs k) = the (dict_by it_item_id xs k)" by simp
qed

lemma index_by_ids: "map key xs = map key ys \<Longrightarrow> index_by key xs = index_by key ys"
  by (metis index_by_def length_map)

lemma valid_updated_item: "valid_diagnosis_item i \<Longrightarrow> valid_diagnosis_item (updated_item ids cs i)"
  by (simp add: updated_item_def valid_item_changed split: option.splits)

lemma state_lists_valid:
  assumes "valid_diagnosis_state env s"
  shows "distinct (map it_item_id (ds_active_hypotheses s))"
    and "list_all valid_diagnosis_item (ds_active_hypotheses s)"
    and "ds_revision s > 0"
  using assms by (auto simp: valid_diagnosis_state_def valid_state_items_def state_items_def)

lemma apply_hypotheses_ok:
  assumes s: "valid_diagnosis_state env s" and d: "applicable_items s d"
    and b: "applicable_bindings s d ids"
  shows "apply_hypotheses s ids d =
    Inr (ds_active_hypotheses (agent_state s d ids sp c), ds_rejected_hypotheses (agent_state s d ids sp c))"
proof -
  let ?act = "ds_active_hypotheses s" and ?ex = "ds_evidence_refs s"
  let ?idx = "index_by it_item_id ?act"
  let ?upd = "map (updated_item ids (sd_update_hypotheses d)) ?act"
  note act = state_lists_valid [OF s]
  have dist: "distinct (map ch_item_id (sd_update_hypotheses d))"
    using d by (auto simp: applicable_items_def delta_identity_ok_def delta_changed_ids_def)
  have 1: "update_hypotheses ?ex ids ?idx ?act (sd_update_hypotheses d) = Inr ?upd"
    using d b dist act
    by (intro update_hypotheses_ok)
      (auto simp: applicable_items_def applicable_bindings_def delta_item_bindings_def
        delta_changes_def list_all_iff)
  have idx: "it_item_id ` set ?act = dom ?idx"
    using index_by_hit [of _ it_item_id ?act] index_by_Some [of it_item_id ?act] nth_mem by fastforce
  have "reject_hypothesis ?ex ids ?idx ?upd ch = Inr (rejected_item s d ids ch)"
    if ch: "ch \<in> set (sd_reject_hypotheses d)" for ch
  proof -
    have in_act: "ch_item_id ch \<in> it_item_id ` set ?act"
      using d ch by (auto simp: applicable_items_def)
    then obtain i where i: "?idx (ch_item_id ch) = Some i" using idx by auto
    have il: "i < length ?act" using index_by_Some [OF i] by simp
    have "?upd ! i = updated_item ids (sd_update_hypotheses d)
        (the (dict_by it_item_id ?act (ch_item_id ch)))"
      using active_item_by_id(2) [OF act(1) in_act] i il by simp
    moreover have "valid_diagnosis_item (?upd ! i)"
      using act(2) il by (simp add: list_all_length valid_updated_item)
    moreover have "list_all (resolvable ?ex ids) (ch_evidence_bindings ch)"
      using b ch by (auto simp: applicable_bindings_def delta_item_bindings_def delta_changes_def list_all_iff)
    ultimately show ?thesis
      using i by (simp add: reject_hypothesis_def require_key_def changed_item_ok rejected_item_def)
  qed
  then have 2: "mapE (reject_hypothesis ?ex ids ?idx ?upd) (sd_reject_hypotheses d) =
      Inr (map (rejected_item s d ids) (sd_reject_hypotheses d))"
    by (rule mapE_Inr_map)
  have 3: "mapE (draft_item DI_ACTIVE (ds_revision s + 1) ?ex ids) (sd_add_active_hypotheses d) =
      Inr (map (item_of_draft (ds_revision s + 1) ids) (sd_add_active_hypotheses d))"
    using d b act(3)
    by (intro draft_items_ok)
      (auto simp: applicable_items_def applicable_bindings_def delta_item_bindings_def
        delta_drafts_def list_all_iff)
  show ?thesis using 1 2 3 by (simp add: apply_hypotheses_def Let_def agent_state_def)
qed

lemma apply_facts_ok:
  assumes "valid_diagnosis_state env s" "applicable_items s d" "applicable_bindings s d ids"
  shows "apply_fact_drafts s ids d = Inr (ds_confirmed_facts (agent_state s d ids sp c))"
proof -
  have "mapE (draft_item DI_ACTIVE (ds_revision s + 1) (ds_evidence_refs s) ids) (sd_proposed_facts d) =
      Inr (map (item_of_draft (ds_revision s + 1) ids) (sd_proposed_facts d))"
    using assms state_lists_valid(3) [OF assms(1)]
    by (intro draft_items_ok)
      (auto simp: applicable_items_def applicable_bindings_def delta_item_bindings_def
        delta_drafts_def list_all_iff)
  then show ?thesis using assms(2)
    by (auto simp: apply_fact_drafts_def agent_state_def Let_def applicable_items_def list_ex_iff
        list_all_iff)
qed

lemma apply_questions_ok:
  assumes "valid_diagnosis_state env s" "applicable_items s d" "applicable_bindings s d ids"
  shows "apply_questions s ids d = Inr (ds_open_questions (agent_state s d ids sp c))"
proof -
  have 1: "mapE (draft_item DI_ACTIVE (ds_revision s + 1) (ds_evidence_refs s) ids) (sd_add_open_questions d) =
      Inr (map (item_of_draft (ds_revision s + 1) ids) (sd_add_open_questions d))"
    using assms state_lists_valid(3) [OF assms(1)]
    by (intro draft_items_ok)
      (auto simp: applicable_items_def applicable_bindings_def delta_item_bindings_def
        delta_drafts_def list_all_iff)
  have 2: "mapE (\<lambda>c. resolve_evidence_bindings (ds_evidence_refs s) ids (ch_evidence_bindings c))
      (sd_resolve_questions d) =
      Inr (map (\<lambda>c. stable_unique (map (binding_id ids) (ch_evidence_bindings c))) (sd_resolve_questions d))"
    using assms(3)
    by (intro mapE_Inr_map resolve_bindings_ok)
      (auto simp: applicable_bindings_def delta_item_bindings_def delta_changes_def list_all_iff)
  show ?thesis using 1 2 assms(2)
    by (auto simp: apply_questions_def Let_def agent_state_def applicable_items_def)
qed

lemma apply_requirements_ok:
  assumes "sd_fulfill_requirements d = []" "applicable_requirements s (sd_add_pending_requirements d)"
  shows "apply_requirements s d = Inr (ds_pending_requirements (agent_state s d ids sp c))"
proof -
  have "rq_requirement_id ` set (ds_pending_requirements s) \<inter>
      rq_requirement_id ` set (sd_add_pending_requirements d) = {}"
    by (rule disjoint_images)
      (use assms(2) in \<open>simp add: applicable_requirements_def list_all_iff\<close>)
  with assms(1) show ?thesis by (simp add: apply_requirements_def Let_def agent_state_def)
qed

lemma provisional_agent_state:
  assumes "valid_diagnosis_state env s" "applicable_items s d" "applicable_bindings s d ids"
    and "sd_fulfill_requirements d = []" "applicable_requirements s (sd_add_pending_requirements d)"
    and "apply_spec_patch_opt (ds_problem_spec s) (sd_problem_spec_patch d) = Inr sp"
    and "apply_candidate_mutation env (ds_candidate_conclusion s) m cands = Inr c"
    and "valid_diagnosis_state env (agent_state s d ids sp c)"
  shows "provisional_state env s d ids m cands = Inr (agent_state s d ids sp c)"
proof -
  have ev: "resolve_evidence_bindings (ds_evidence_refs s) ids (sd_add_evidence_bindings d) =
      Inr (stable_unique (map (binding_id ids) (sd_add_evidence_bindings d)))"
    using assms(3) by (intro resolve_bindings_ok) (simp add: applicable_bindings_def)
  have "sd_add_user_facts d = []" "delta_identity_ok s d"
    using assms(2) by (auto simp: applicable_items_def)
  then show ?thesis
    using assms(6-8) ev apply_facts_ok [OF assms(1-3), where sp = sp and c = c]
      apply_hypotheses_ok [OF assms(1-3), where sp = sp and c = c]
      apply_questions_ok [OF assms(1-3), where sp = sp and c = c]
      apply_requirements_ok [OF assms(4,5), where ids = ids and sp = sp and c = c]
    by (simp add: provisional_state_def Let_def) (simp add: agent_state_def Let_def)
qed

section \<open>Validity of the new state\<close>

lemma change_for_mem: "change_for cs k = Some c \<Longrightarrow> c \<in> set cs"
  by (auto simp: change_for_def dest!: map_of_SomeD)

lemma updated_item_fields:
  "it_provenance (updated_item ids cs i) = it_provenance i"
  "it_supersedes (updated_item ids cs i) = it_supersedes i"
  "it_status i = DI_ACTIVE \<Longrightarrow> it_status (updated_item ids cs i) = DI_ACTIVE"
  by (auto simp: updated_item_def split: option.splits)

lemma updated_item_evidence:
  "set (it_evidence_refs (updated_item ids cs i)) \<subseteq>
     set (it_evidence_refs i) \<union> binding_id ids ` set (concat (map ch_evidence_bindings cs))"
proof (cases "change_for cs (it_item_id i)")
  case (Some c)
  then have "set (ch_evidence_bindings c) \<subseteq> set (concat (map ch_evidence_bindings cs))"
    using change_for_mem by fastforce
  then show ?thesis using Some by (simp add: updated_item_def) blast
qed (simp add: updated_item_def)

lemma rejected_item_facts:
  assumes "valid_diagnosis_state env s" "applicable_items s d" "c \<in> set (sd_reject_hypotheses d)"
  shows "it_item_id (rejected_item s d ids c) = ch_item_id c"
    and "it_status (rejected_item s d ids c) = DI_REJECTED"
    and "\<exists>i \<in> set (ds_active_hypotheses s). it_provenance (rejected_item s d ids c) = it_provenance i \<and>
      it_supersedes (rejected_item s d ids c) = it_supersedes i \<and> it_item_id i = ch_item_id c \<and>
      valid_diagnosis_item (rejected_item s d ids c) \<and>
      set (it_evidence_refs (rejected_item s d ids c)) \<subseteq> set (it_evidence_refs i) \<union>
        binding_id ids ` set (concat (map ch_evidence_bindings (sd_update_hypotheses d @ [c])))"
proof -
  have k: "ch_item_id c \<in> it_item_id ` set (ds_active_hypotheses s)"
    using assms by (auto simp: applicable_items_def)
  define i where "i = the (dict_by it_item_id (ds_active_hypotheses s) (ch_item_id c))"
  note lists = state_lists_valid [OF assms(1)]
  have i: "i \<in> set (ds_active_hypotheses s)" "it_item_id i = ch_item_id c"
    using active_item_by_id(1) [OF lists(1) k] by (simp_all add: i_def)
  have rj: "rejected_item s d ids c =
      item_changed DI_REJECTED ids (updated_item ids (sd_update_hypotheses d) i) c"
    by (simp add: rejected_item_def i_def)
  show "it_item_id (rejected_item s d ids c) = ch_item_id c"
    and "it_status (rejected_item s d ids c) = DI_REJECTED" using i by (simp_all add: rj)
  have "valid_diagnosis_item i" using lists(2) i by (simp add: list_all_iff)
  then have v: "valid_diagnosis_item (rejected_item s d ids c)"
    unfolding rj by (intro valid_item_changed valid_updated_item)
  with i v show "\<exists>i \<in> set (ds_active_hypotheses s).
      it_provenance (rejected_item s d ids c) = it_provenance i \<and>
      it_supersedes (rejected_item s d ids c) = it_supersedes i \<and> it_item_id i = ch_item_id c \<and>
      valid_diagnosis_item (rejected_item s d ids c) \<and>
      set (it_evidence_refs (rejected_item s d ids c)) \<subseteq> set (it_evidence_refs i) \<union>
        binding_id ids ` set (concat (map ch_evidence_bindings (sd_update_hypotheses d @ [c])))"
    using updated_item_evidence [of ids "sd_update_hypotheses d" i]
    by (intro bexI [of _ i]) (auto simp: rj updated_item_fields)
qed

text \<open>Every item of the new state is an old item, an updated or rejected hypothesis, or a draft.\<close>

lemma agent_state_items:
  assumes "i \<in> set (state_items (agent_state s d ids sp c))"
  shows "i \<in> set (state_items s) \<or>
    (\<exists>h \<in> set (ds_active_hypotheses s). i = updated_item ids (sd_update_hypotheses d) h) \<or>
    (\<exists>x \<in> set (sd_reject_hypotheses d). i = rejected_item s d ids x) \<or>
    (\<exists>x \<in> set (delta_drafts d). i = item_of_draft (ds_revision s + 1) ids x)"
  using assms by (auto simp: state_items_def agent_state_def Let_def delta_drafts_def)

lemma agent_state_item_valid:
  assumes s: "valid_diagnosis_state env s" and d: "applicable_items s d"
    and i: "i \<in> set (state_items (agent_state s d ids sp c))"
  shows "valid_diagnosis_item i"
proof -
  have old: "list_all valid_diagnosis_item (state_items s)" "ds_revision s > 0"
    using s by (auto simp: valid_diagnosis_state_def valid_state_items_def)
  have "list_all valid_item_draft (delta_drafts d)"
    using d by (auto simp: applicable_items_def list_all_iff)
  with agent_state_items [OF i] old state_lists_valid(2) [OF s] rejected_item_facts(3) [OF s d]
  show ?thesis
    by (auto simp: list_all_iff intro!: valid_updated_item valid_item_of_draft)
qed

lemma agent_state_item_evidence:
  assumes s: "valid_diagnosis_state env s" and d: "applicable_items s d"
    and b: "applicable_bindings s d ids"
    and i: "i \<in> set (state_items (agent_state s d ids sp c))"
  shows "set (it_evidence_refs i) \<subseteq> set (ds_evidence_refs (agent_state s d ids sp c))"
proof -
  let ?E = "set (ds_evidence_refs s) \<union> binding_id ids ` set (sd_add_evidence_bindings d)"
  have E: "set (ds_evidence_refs (agent_state s d ids sp c)) = ?E" by (simp add: agent_state_def Let_def)
  have old: "\<And>x. x \<in> set (state_items s) \<Longrightarrow> set (it_evidence_refs x) \<subseteq> ?E"
    using s by (auto simp: valid_diagnosis_state_def valid_state_evidence_def list_all_iff)
  then have act: "\<And>x. x \<in> set (ds_active_hypotheses s) \<Longrightarrow> set (it_evidence_refs x) \<subseteq> ?E"
    by (simp add: state_items_def)
  have new: "binding_id ids ` set (delta_item_bindings d) \<subseteq> ?E"
    using b by (auto simp: applicable_bindings_def list_all_iff)
  then have drafts: "\<And>x. x \<in> set (delta_drafts d) \<Longrightarrow> binding_id ids ` set (dr_evidence_bindings x) \<subseteq> ?E"
    and changes: "\<And>x. x \<in> set (delta_changes d) \<Longrightarrow> binding_id ids ` set (ch_evidence_bindings x) \<subseteq> ?E"
    by (auto simp: delta_item_bindings_def)
  have upd: "binding_id ids ` set (concat (map ch_evidence_bindings (sd_update_hypotheses d))) \<subseteq> ?E"
  proof -
    have "set (concat (map ch_evidence_bindings (sd_update_hypotheses d))) \<subseteq> set (delta_item_bindings d)"
      by (auto simp: delta_item_bindings_def delta_changes_def)
    with new show ?thesis by blast
  qed
  from agent_state_items [OF i] show ?thesis unfolding E
  proof (elim disjE bexE)
    fix h assume "h \<in> set (ds_active_hypotheses s)" and "i = updated_item ids (sd_update_hypotheses d) h"
    then show "set (it_evidence_refs i) \<subseteq> ?E"
      using updated_item_evidence [of ids "sd_update_hypotheses d" h] act upd by blast
  next
    fix x assume x: "x \<in> set (sd_reject_hypotheses d)" and i: "i = rejected_item s d ids x"
    have "binding_id ids ` set (concat (map ch_evidence_bindings (sd_update_hypotheses d @ [x]))) \<subseteq> ?E"
      using upd changes [of x] x by (auto simp: delta_changes_def)
    then show "set (it_evidence_refs i) \<subseteq> ?E"
      using rejected_item_facts(3) [OF s d x, of ids] act i by blast
  qed (use old drafts in auto)
qed

text \<open>The identifiers of the new state: those of the old one without the resolved questions, and
  the new ones.\<close>

lemma distinct_mset_sub:
  assumes "mset xs \<subseteq># mset ys" and "distinct ys"
  shows "distinct xs"
proof -
  obtain zs where "mset ys = mset xs + mset zs"
    using assms(1) by (metis ex_mset mset_subset_eq_exists_conv)
  then have "mset ys = mset (xs @ zs)" by simp
  then have "distinct (xs @ zs)" using assms(2) mset_eq_imp_distinct_iff by blast
  then show ?thesis by simp
qed

lemma mset_filter_rejoin:
  assumes "distinct ks" and "distinct rs" and "set rs \<subseteq> set ks"
  shows "mset (filter (\<lambda>k. k \<notin> set rs) ks) + mset rs = mset ks"
proof -
  have "mset (filter (\<lambda>k. k \<in> set rs) ks) = mset rs"
    using assms by (intro set_eq_iff_mset_eq_distinct [THEN iffD1]) auto
  then show ?thesis
    using multiset_partition [of "mset ks" "\<lambda>k. k \<in> set rs"] by (metis add.commute mset_filter)
qed

lemma map_id_filter:
  "map it_item_id (filter (\<lambda>i. it_item_id i \<notin> R) xs) = filter (\<lambda>k. k \<notin> R) (map it_item_id xs)"
  by (induction xs) auto

lemma mset_ids_append_items [simp]:
  "mset (map it_item_id (append_items a b)) = mset (map it_item_id a) + mset (map it_item_id b)"
  by (simp add: append_items_def)

lemma agent_state_ids:
  assumes s: "valid_diagnosis_state env s" and d: "applicable_items s d"
  shows "distinct (map it_item_id (state_items (agent_state s d ids sp c)))"
proof -
  let ?rej = "map ch_item_id (sd_reject_hypotheses d)"
  let ?act = "map it_item_id (ds_active_hypotheses s)"
  let ?res = "ch_item_id ` set (sd_resolve_questions d)"
  let ?q = "map it_item_id (ds_open_questions s)"
  have rejected: "map it_item_id (map (rejected_item s d ids) (sd_reject_hypotheses d)) = ?rej"
    using rejected_item_facts(1) [OF s d] by (simp add: map_eq_conv)
  have active: "map it_item_id (map (updated_item ids (sd_update_hypotheses d)) (ds_active_hypotheses s)) = ?act"
    by simp
  have drafts: "map it_item_id (map (item_of_draft r ids) xs) = map dr_item_id xs" for r xs
    by simp
  have "mset (filter (\<lambda>k. k \<notin> set ?rej) ?act) + mset ?rej = mset ?act"
    using d state_lists_valid(1) [OF s]
    by (intro mset_filter_rejoin)
      (auto simp: applicable_items_def delta_identity_ok_def delta_changed_ids_def)
  then have rejoin: "mset (filter (\<lambda>k. k \<notin> ch_item_id ` set (sd_reject_hypotheses d)) ?act) + mset ?rej = mset ?act"
    by simp
  have open_sub: "mset (filter (\<lambda>k. k \<notin> ?res) ?q) \<subseteq># mset ?q"
    unfolding mset_filter by (rule multiset_filter_subset)
  let ?old = "map it_item_id (state_items s)" and ?new = "map dr_item_id (delta_drafts d)"
  let ?rest = "mset (map it_item_id (ds_user_facts s)) + mset (map it_item_id (ds_confirmed_facts s)) +
    mset ?act + mset (map it_item_id (ds_rejected_hypotheses s)) + mset ?new"
  have "mset (map it_item_id (state_items (agent_state s d ids sp c))) =
      ?rest + mset (filter (\<lambda>k. k \<notin> ?res) ?q)"
    unfolding state_items_def agent_state_def Let_def delta_drafts_def rejoin [symmetric]
    by (simp only: diagnosis_state.simps map_append mset_append mset_ids_append_items map_id_filter
        rejected active drafts ac_simps)
  also have "\<dots> \<subseteq># ?rest + mset ?q" by (rule subset_mset.add_left_mono [OF open_sub])
  also have "\<dots> = mset (?old @ ?new)" by (simp add: state_items_def ac_simps)
  finally show ?thesis
  proof (rule distinct_mset_sub)
    show "distinct (?old @ ?new)"
      using s d by (auto simp: valid_diagnosis_state_def valid_state_items_def applicable_items_def
          delta_identity_ok_def delta_new_ids_def simp del: map_map)
  qed
qed

lemma agent_state_agent_items:
  assumes s: "valid_diagnosis_state env s" and d: "applicable_items s d"
  shows "list_all (\<lambda>i. pv_source_type (it_provenance i) = DP_AGENT_OUTCOME)
      (agent_items (agent_state s d ids sp c))"
proof -
  have old: "\<And>i. i \<in> set (agent_items s) \<Longrightarrow> pv_source_type (it_provenance i) = DP_AGENT_OUTCOME"
    using s by (simp add: valid_diagnosis_state_def valid_state_items_def list_all_iff)
  have new: "\<And>x. x \<in> set (delta_drafts d) \<Longrightarrow> pv_source_type (dr_provenance x) = DP_AGENT_OUTCOME"
    using d by (simp add: applicable_items_def list_all_iff)
  have rej: "\<And>x. x \<in> set (sd_reject_hypotheses d) \<Longrightarrow>
      pv_source_type (it_provenance (rejected_item s d ids x)) = DP_AGENT_OUTCOME"
    using rejected_item_facts(3) [OF s d, where ids = ids] old by (fastforce simp: agent_items_def)
  show ?thesis
    using old new rej
    by (auto simp: agent_items_def agent_state_def Let_def list_all_iff updated_item_fields
        delta_drafts_def)
qed

lemma agent_state_valid_items:
  assumes s: "valid_diagnosis_state env s" and d: "applicable_items s d"
  shows "valid_state_items (agent_state s d ids sp c)"
proof -
  let ?s' = "agent_state s d ids sp c"
  have old: "valid_state_items s" using s by (simp add: valid_diagnosis_state_def)
  have user: "ds_user_facts ?s' = ds_user_facts s" "fixed_input_names ?s' = fixed_input_names s"
    by (simp_all add: agent_state_def Let_def fixed_input_names_def)
  have facts: "list_all (\<lambda>i. it_evidence_refs i \<noteq> []) (ds_confirmed_facts ?s')"
    using old d
    by (auto simp: agent_state_def Let_def valid_state_items_def applicable_items_def list_all_iff)
  have status: "list_all (\<lambda>i. it_status i = DI_ACTIVE) (ds_active_hypotheses ?s')"
    "list_all (\<lambda>i. it_status i = DI_REJECTED) (ds_rejected_hypotheses ?s')"
    "list_all (\<lambda>i. it_status i = DI_ACTIVE) (ds_open_questions ?s')"
    using old rejected_item_facts(2) [OF s d]
    by (auto simp: agent_state_def Let_def valid_state_items_def list_all_iff updated_item_fields(3))
  show ?thesis
    using old user facts status agent_state_ids [OF s d] agent_state_agent_items [OF s d]
      agent_state_item_valid [OF s d]
    by (simp add: valid_state_items_def list_all_iff)
qed

lemma agent_state_valid_requirements:
  assumes s: "valid_diagnosis_state env s"
    and r: "applicable_requirements s (sd_add_pending_requirements d)"
  shows "valid_state_requirements (agent_state s d ids sp c)"
proof -
  let ?s' = "agent_state s d ids sp c" and ?new = "sd_add_pending_requirements d"
  have old: "valid_state_requirements s" using s by (simp add: valid_diagnosis_state_def)
  have all_open: "filter (\<lambda>r. rq_status r = QS_OPEN) ?new = ?new"
    using r by (auto simp: applicable_requirements_def list_all_iff filter_id_conv)
  have reqs: "open_requirements ?s' = open_requirements s @ ?new"
    "ds_pending_requirements ?s' = ds_pending_requirements s @ ?new"
    "fixed_input_names ?s' = fixed_input_names s"
    using all_open by (simp_all add: open_requirements_def agent_state_def Let_def fixed_input_names_def)
  have names: "rq_name ` set (open_requirements s) \<inter> rq_name ` set ?new = {}"
    by (rule disjoint_images) (use r in \<open>simp add: applicable_requirements_def list_all_iff\<close>)
  have ids: "rq_requirement_id ` set (ds_pending_requirements s) \<inter> rq_requirement_id ` set ?new = {}"
    by (rule disjoint_images) (use r in \<open>simp add: applicable_requirements_def list_all_iff\<close>)
  show ?thesis
    using old r names ids
    by (auto simp: valid_state_requirements_def reqs applicable_requirements_def list_all_iff)
qed

lemma agent_state_valid:
  assumes s: "valid_diagnosis_state env s" and d: "applicable_items s d"
    and b: "applicable_bindings s d ids"
    and r: "applicable_requirements s (sd_add_pending_requirements d)"
    and "valid_problem_spec sp" and "valid_state_candidate env (agent_state s d ids sp c)"
  shows "valid_diagnosis_state env (agent_state s d ids sp c)"
proof -
  have "valid_state_evidence (agent_state s d ids sp c)"
  proof -
    have "distinct (ds_evidence_refs s)"
      using s by (simp add: valid_diagnosis_state_def valid_state_evidence_def)
    then show ?thesis
      using agent_state_item_evidence [OF s d b]
      by (auto simp: valid_state_evidence_def list_all_iff) (simp add: agent_state_def Let_def)
  qed
  moreover have "ds_revision (agent_state s d ids sp c) > 0"
    "ds_problem_spec (agent_state s d ids sp c) = sp"
    using state_lists_valid(3) [OF s] by (simp_all add: agent_state_def Let_def)
  ultimately show ?thesis
    using assms(5,6) agent_state_valid_items [OF s d] agent_state_valid_requirements [OF s r]
    by (simp add: valid_diagnosis_state_def)
qed

end
