(* ===== verification/Delta_Agreement.thy ===== *)
theory Delta_Agreement
  imports Delta_Application
begin

text \<open>
  Coordinator and formalization agree: a delta that \<open>_normalize_delta\<close> accepts is applied by
  \<open>apply_diagnosis_state_delta\<close> without an exception, the state it yields is valid, and its
  revision moves exactly when the coordinator announced a semantic change.
\<close>

section \<open>Deltas an outcome may carry\<close>

text \<open>\<open>_validate_agent_delta\<close>.\<close>

definition valid_agent_delta :: "state_delta \<Rightarrow> opaque_id \<Rightarrow> opaque_id \<Rightarrow> bool" where
  "valid_agent_delta d outcome_id job_id \<longleftrightarrow>
     sd_add_user_facts d = [] \<and> sd_fulfill_requirements d = [] \<and>
     list_all (\<lambda>x. pv_source_type (dr_provenance x) = DP_AGENT_OUTCOME \<and>
                 pv_source_ref (dr_provenance x) = outcome_id \<and>
                 pv_input_name (dr_provenance x) = None) (delta_drafts d) \<and>
     list_all (\<lambda>r. rq_requested_by_job_id r = job_id \<and> rq_status r = QS_OPEN)
       (sd_add_pending_requirements d)"

text \<open>The delta and its parts passed their own constructors.\<close>

definition delta_well_formed :: "state_delta \<Rightarrow> bool" where
  "delta_well_formed d \<longleftrightarrow>
     valid_state_delta d \<and> list_all valid_item_draft (delta_drafts d) \<and>
     list_all valid_requirement (sd_add_pending_requirements d) \<and>
     pred_option valid_problem_spec_patch (sd_problem_spec_patch d)"

section \<open>What an accepted normalization establishes\<close>

lemma normalize_delta_Ok:
  assumes "normalize_delta s a oc d x = Ok (ad, ch, ek, ak)"
  obtains patch pch where
    "normalize_patch s (sd_problem_spec_patch d) = Ok (patch, pch)"
    "delta_target_error s d = None"
    "validate_supersedes (state_items s) (new_drafts d) = None"
    "validate_new_requirements s a (sd_add_pending_requirements d) = None"
    "validate_evidence_bindings s (delta_bindings s d x) (dict_by ep_proposal_key (oc_proposed_evidence oc))
       (dict_by ap_proposal_key (oc_proposed_artifacts oc)) = None"
    "ad = accepted_delta_of s d patch (binding_additions s (delta_bindings s d x))"
    "ch = delta_semantic_change pch ad" "valid_state_delta ad"
    "ek = binding_keys (binding_additions s (delta_bindings s d x))"
    "ak = dependency_artifact_keys (dict_by ep_proposal_key (oc_proposed_evidence oc)) ek"
    "\<not> logparse_run_split oc ek ak"
  using assms
  by (auto simp: normalize_delta_def bindC_Ok guardC_Ok Let_def split: if_splits prod.splits)

lemma normalize_patch_Ok:
  assumes "normalize_patch s q = Ok (patch, pch)"
  shows "pch = (patch \<noteq> None)" and "patch = None \<or> patch = q"
    and "patch = Some p \<Longrightarrow> apply_problem_spec_patch (ds_problem_spec s) p = Inr (patch_spec (ds_problem_spec s) p, True)"
    and "patch = Some p \<Longrightarrow> \<not> (\<exists>f \<in> set (patch_changes (ds_problem_spec s) p). f \<in> set stable_target_fields)"
    and "patch = Some p \<Longrightarrow> patch_changes (ds_problem_spec s) p \<noteq> []"
  using assms
  by (auto simp: normalize_patch_def apply_problem_spec_patch_def Let_def filter_empty_conv
      split: option.splits sum.splits if_splits prod.splits)

text \<open>A patch without a change of the stable target keeps the completion criteria.\<close>

lemma patch_keeps_criteria:
  assumes "\<not> (\<exists>f \<in> set (patch_changes s p). f \<in> set stable_target_fields)"
  shows "ps_completion_criteria (patch_spec s p) = ps_completion_criteria s"
proof -
  have "''completion_criteria'' \<notin> set (patch_changes s p)"
    using assms by (auto simp: stable_target_fields_def)
  moreover have "''completion_criteria'' \<in> set (patch_changes s p)"
    if "field_differs (ps_completion_criteria s) (pp_completion_criteria p)"
    unfolding patch_changes_def set_map set_filter
    by (rule image_eqI [where x = "(True, ''completion_criteria'')"]) (use that in auto)
  ultimately have "\<not> field_differs (ps_completion_criteria s) (pp_completion_criteria p)" by blast
  then show ?thesis by (auto simp: patch_spec_def patched_def field_differs_def split: option.splits)
qed

lemma additions_mem:
  "b \<in> set (binding_additions s bs) \<longleftrightarrow>
     b \<in> set bs \<and> (case b of ProposedEvidence k \<Rightarrow> True | ExistingEvidence i \<Rightarrow> i \<notin> set (ds_evidence_refs s))"
  by (auto simp: binding_additions_def)

lemma binding_key_Some [simp]: "binding_proposal_key b = Some k \<longleftrightarrow> b = ProposedEvidence k"
  by (cases b) auto

lemma binding_keys_mem: "k \<in> set (binding_keys bs) \<longleftrightarrow> ProposedEvidence k \<in> set bs"
  by (induction bs) (auto simp: binding_keys_def List.map_filter_def split: option.splits)

lemma validated_binding:
  assumes "validate_evidence_bindings s bs proposals artifacts = None" and "b \<in> set bs"
  shows "case b of ExistingEvidence i \<Rightarrow> i \<in> set (ds_evidence_refs s)
    | ProposedEvidence k \<Rightarrow> proposals k \<noteq> None"
  using assms
  by (cases b) (auto simp: validate_evidence_bindings_def evidence_binding_error_def split: if_splits option.splits)

section \<open>The supersedes graph of a permuted draft list\<close>

lemma graph_get_distinct:
  "distinct (graph_keys g) \<Longrightarrow> y \<in> set (graph_get g x) \<longleftrightarrow> (\<exists>ys. (x, ys) \<in> set g \<and> y \<in> set ys)"
proof -
  assume d: "distinct (graph_keys g)"
  then have "distinct (map fst (rev g))" by (simp add: graph_keys_def rev_map [symmetric])
  then have iff: "map_of (rev g) x = Some ys \<longleftrightarrow> (x, ys) \<in> set g" for ys
    by (simp add: map_of_eq_Some_iff)
  show ?thesis
  proof (cases "map_of (rev g) x")
    case None
    then have "(x, ys) \<notin> set g" for ys by (metis iff option.distinct(1))
    with None show ?thesis by (simp add: graph_get_def)
  next
    case (Some zs)
    then have "(x, ys) \<in> set g \<longleftrightarrow> ys = zs" for ys by (metis iff option.inject)
    with Some show ?thesis by (simp add: graph_get_def)
  qed
qed

lemma graph_edges_set_eq:
  assumes "distinct (graph_keys g)" and "distinct (graph_keys h)" and "set g = set h"
  shows "graph_edges g = graph_edges h"
  using assms by (auto simp: graph_edges_def graph_get_distinct)

lemma supersedes_checks_agree:
  assumes v: "validate_supersedes items ds = None"
    and ids: "distinct (map it_item_id items @ map dr_item_id ds)"
    and p: "set ds' = set ds" and ids': "distinct (map dr_item_id ds')"
  shows "formalize_supersedes_ok items ds'"
proof -
  let ?g = "supersedes_graph items ds" and ?h = "supersedes_graph items ds'"
  have keys: "graph_keys (supersedes_graph items xs) = map it_item_id items @ map dr_item_id xs" for xs
    by (auto simp: graph_keys_def supersedes_graph_def)
  have dg: "distinct (graph_keys ?g)" using ids keys by simp
  have dh: "distinct (graph_keys ?h)" using ids ids' p keys by simp
  have eq: "graph_edges ?h = graph_edges ?g"
    by (rule graph_edges_set_eq [OF dh dg]) (simp add: supersedes_graph_def p)
  have v': "list_all (\<lambda>k. list_all (\<lambda>r. r \<in> set (graph_keys ?g)) (graph_get ?g k)) (graph_keys ?g)"
    and ac: "acyclic_check ?g"
    using v by (auto simp: validate_supersedes_def Let_def list_ex_iff list_all_iff split: if_splits)
  have "facyclic_check ?h"
    using ac eq by (simp add: formalization_check.check_iff coordinator_check.check_iff)
  moreover have "list_all (\<lambda>d. list_all (\<lambda>r. r \<in> set (graph_keys ?h)) (dr_supersedes d)) ds'"
  proof -
    have "r \<in> set (graph_keys ?g)" if "d \<in> set ds" "r \<in> set (dr_supersedes d)" for d r
    proof -
      have "(dr_item_id d, dr_supersedes d) \<in> set ?g" using that(1) by (auto simp: supersedes_graph_def)
      then have "r \<in> set (graph_get ?g (dr_item_id d))" using that(2) graph_get_distinct [OF dg] by blast
      moreover have "dr_item_id d \<in> set (graph_keys ?g)" using that(1) keys by simp
      ultimately show ?thesis using v' by (simp add: list_all_iff)
    qed
    then show ?thesis using p keys by (simp add: list_all_iff)
  qed
  ultimately show ?thesis by (simp add: formalize_supersedes_ok_def Let_def)
qed

section \<open>Accepted deltas are applicable\<close>

lemma accepted_delta_fields [simp]:
  "sd_problem_spec_patch (accepted_delta_of s d p adds) = p"
  "sd_add_user_facts (accepted_delta_of s d p adds) = []"
  "sd_fulfill_requirements (accepted_delta_of s d p adds) = []"
  "sd_add_pending_requirements (accepted_delta_of s d p adds) = sd_add_pending_requirements d"
  "sd_add_evidence_bindings (accepted_delta_of s d p adds) = adds"
  "set (sd_proposed_facts (accepted_delta_of s d p adds)) = set (accepted_facts d)"
  "set (sd_add_active_hypotheses (accepted_delta_of s d p adds)) = set (sd_add_active_hypotheses d)"
  "set (sd_add_open_questions (accepted_delta_of s d p adds)) = set (sd_add_open_questions d)"
  "set (sd_update_hypotheses (accepted_delta_of s d p adds)) = set (effective_hypothesis_updates s d)"
  "set (sd_reject_hypotheses (accepted_delta_of s d p adds)) = set (sd_reject_hypotheses d)"
  "set (sd_resolve_questions (accepted_delta_of s d p adds)) = set (sd_resolve_questions d)"
  by (simp_all add: accepted_delta_of_def)

lemma accepted_drafts_set: "set (delta_drafts (accepted_delta_of s d p adds)) = set (new_drafts d)"
  by (simp add: delta_drafts_def new_drafts_def)

lemma accepted_drafts_ids:
  "distinct (map dr_item_id (new_drafts d)) \<Longrightarrow>
     distinct (map dr_item_id (delta_drafts (accepted_delta_of s d p adds)))"
  by (auto simp: delta_drafts_def new_drafts_def accepted_delta_of_def)

lemma disjoint_subset: "A \<subseteq> B \<Longrightarrow> B \<inter> C = {} \<Longrightarrow> A \<inter> C = {}"
  by blast

lemma effective_subset: "set (effective_hypothesis_updates s d) \<subseteq> set (sd_update_hypotheses d)"
  by (auto simp: effective_hypothesis_updates_def)

lemma distinct_map_effective:
  "distinct (map ch_item_id (sd_update_hypotheses d)) \<Longrightarrow>
     distinct (map ch_item_id (effective_hypothesis_updates s d))"
  by (simp add: effective_hypothesis_updates_def distinct_map_filter)

lemma accepted_items_applicable:
  assumes s: "valid_diagnosis_state env s" and t: "delta_target_error s d = None"
    and v: "validate_supersedes (state_items s) (new_drafts d) = None"
    and w: "delta_well_formed d" and g: "valid_agent_delta d oid jid"
  shows "applicable_items s (accepted_delta_of s d p adds)"
proof -
  let ?ad = "accepted_delta_of s d p adds"
  have ops: "distinct (operation_ids d)"
    and fresh: "\<And>x. x \<in> set (new_drafts d) \<Longrightarrow> dr_item_id x \<notin> it_item_id ` set (state_items s)"
    and hyp: "ch_item_id ` set (sd_update_hypotheses d @ sd_reject_hypotheses d)
       \<subseteq> it_item_id ` set (ds_active_hypotheses s)"
    and qs: "ch_item_id ` set (sd_resolve_questions d) \<subseteq> it_item_id ` set (ds_open_questions s)"
    using t by (auto simp: delta_target_error_def list_ex_iff split: if_splits)
  have new: "distinct (map dr_item_id (new_drafts d))"
    using ops by (simp add: operation_ids_def)
  have disj: "it_item_id ` set (state_items s) \<inter> dr_item_id ` set (new_drafts d) = {}"
    using fresh by (rule disjoint_images)
  have old: "distinct (map it_item_id (state_items s))"
    using s by (simp add: valid_diagnosis_state_def valid_state_items_def)
  have sup: "formalize_supersedes_ok (state_items s) (delta_drafts ?ad)"
    by (rule supersedes_checks_agree [OF v])
      (use old new disj accepted_drafts_ids [OF new] in \<open>auto simp: accepted_drafts_set\<close>)
  have eff: "ch_item_id ` set (effective_hypothesis_updates s d) \<subseteq> ch_item_id ` set (sd_update_hypotheses d)"
    by (rule image_mono [OF effective_subset])
  have changed: "delta_changed_ids ?ad = map ch_item_id (sort_key ch_item_id (effective_hypothesis_updates s d)) @
      map ch_item_id (sort_key ch_item_id (sd_reject_hypotheses d)) @
      map ch_item_id (sort_key ch_item_id (sd_resolve_questions d))"
    by (simp add: delta_changed_ids_def accepted_delta_of_def)
  have chg: "distinct (delta_changed_ids ?ad)"
    using ops distinct_map_effective [of d s] disjoint_subset [OF eff]
    by (simp add: changed operation_ids_def)
  have chg_new: "set (delta_changed_ids ?ad) \<inter> dr_item_id ` set (new_drafts d) = {}"
  proof -
    have "set (delta_changed_ids ?ad) \<subseteq> ch_item_id ` set (sd_update_hypotheses d) \<union>
        (ch_item_id ` set (sd_reject_hypotheses d) \<union> ch_item_id ` set (sd_resolve_questions d))"
      using eff by (simp add: changed) blast
    moreover have "dr_item_id ` set (new_drafts d) \<inter> (ch_item_id ` set (sd_update_hypotheses d) \<union>
        (ch_item_id ` set (sd_reject_hypotheses d) \<union> ch_item_id ` set (sd_resolve_questions d))) = {}"
      using ops by (simp add: operation_ids_def)
    ultimately show ?thesis by (metis Int_commute disjoint_subset)
  qed
  have "delta_identity_ok s ?ad"
    using accepted_drafts_ids [OF new] disj chg chg_new sup
    by (simp add: delta_identity_ok_def delta_new_ids_def accepted_drafts_set)
  moreover have "list_all (\<lambda>x. valid_item_draft x \<and> pv_source_type (dr_provenance x) = DP_AGENT_OUTCOME)
      (delta_drafts ?ad)"
  proof -
    have "set (new_drafts d) \<subseteq> set (delta_drafts d)"
      by (auto simp: new_drafts_def delta_drafts_def accepted_facts_def)
    with w g show ?thesis
      by (simp add: accepted_drafts_set list_all_iff delta_well_formed_def valid_agent_delta_def) blast
  qed
  moreover have "list_all (\<lambda>x. dr_evidence_bindings x \<noteq> []) (sd_proposed_facts ?ad)"
    by (simp add: list_all_iff accepted_facts_def)
  moreover have "ch_item_id ` set (effective_hypothesis_updates s d) \<union>
      ch_item_id ` set (sd_reject_hypotheses d) \<subseteq> it_item_id ` set (ds_active_hypotheses s)"
    using hyp by (simp add: image_Un subset_trans [OF eff])
  ultimately show ?thesis
    using qs by (simp add: applicable_items_def image_Un)
qed

lemma accepted_bindings_set:
  "set (delta_item_bindings (accepted_delta_of s d p adds)) \<subseteq> set (delta_bindings s d x)"
  by (auto simp: delta_item_bindings_def delta_bindings_def delta_changes_def accepted_drafts_set)

text \<open>The service allocates a new identifier for every accepted evidence proposal.\<close>

definition fresh_ids :: "diagnosis_state \<Rightarrow> proposal_key list \<Rightarrow> (proposal_key \<rightharpoonup> opaque_id) \<Rightarrow> bool" where
  "fresh_ids s keys ids \<longleftrightarrow>
     list_all (\<lambda>k. case ids k of None \<Rightarrow> False | Some i \<Rightarrow> i \<notin> set (ds_evidence_refs s)) keys"

lemma accepted_bindings_applicable:
  assumes v: "validate_evidence_bindings s (delta_bindings s d x) ps as = None"
    and f: "fresh_ids s (binding_keys (binding_additions s (delta_bindings s d x))) ids"
  shows "applicable_bindings s (accepted_delta_of s d p (binding_additions s (delta_bindings s d x))) ids"
proof -
  let ?bs = "delta_bindings s d x" and ?adds = "binding_additions s (delta_bindings s d x)"
  have res: "resolvable (ds_evidence_refs s) ids b" if "b \<in> set ?bs" for b
  proof (cases b)
    case (ExistingEvidence i)
    then show ?thesis using validated_binding [OF v that] by (simp add: resolvable_def)
  next
    case (ProposedEvidence k)
    then have "k \<in> set (binding_keys ?adds)" using that by (simp add: binding_keys_mem additions_mem)
    then show ?thesis using f ProposedEvidence
      by (auto simp: resolvable_def fresh_ids_def list_all_iff split: option.splits)
  qed
  have ev: "binding_id ids b \<in> set (ds_evidence_refs s) \<union> binding_id ids ` set ?adds" if "b \<in> set ?bs" for b
  proof (cases b)
    case (ExistingEvidence i)
    then show ?thesis using validated_binding [OF v that] by (simp add: binding_id_def)
  next
    case (ProposedEvidence k)
    then have "b \<in> set ?adds" using that by (simp add: additions_mem)
    then show ?thesis by blast
  qed
  have "set ?adds \<subseteq> set ?bs" by (auto simp: additions_mem)
  then show ?thesis
    using res ev accepted_bindings_set [of s d p ?adds x]
    by (auto simp: applicable_bindings_def list_all_iff)
qed

lemma accepted_requirements_applicable:
  assumes "validate_new_requirements s a (sd_add_pending_requirements d) = None"
    and "delta_well_formed d"
  shows "applicable_requirements s (sd_add_pending_requirements d)"
proof -
  have "filter (\<lambda>r. rq_kind r = QK_ATTACHMENT) (open_requirements s) =
      filter (\<lambda>r. rq_kind r = QK_ATTACHMENT \<and> rq_status r = QS_OPEN) (ds_pending_requirements s)"
    by (auto simp: open_requirements_def intro: filter_cong)
  then show ?thesis using assms
    by (auto simp: validate_new_requirements_def applicable_requirements_def delta_well_formed_def
        valid_state_delta_def list_ex_iff list_all_iff split: if_splits)
qed

section \<open>The revision moves exactly on a semantic change\<close>

lemma no_change_empty:
  assumes "\<not> delta_semantic_change pch (accepted_delta_of s d p adds)" and "pch = (p \<noteq> None)"
  shows "accepted_delta_of s d p adds = empty_delta"
  using assms
  by (auto simp: delta_semantic_change_def accepted_delta_of_def empty_delta_def)

lemma agent_state_empty: "agent_state s empty_delta ids (ds_problem_spec s) (ds_candidate_conclusion s) = s"
proof -
  have "updated_item ids [] = (\<lambda>i. i)" by (rule ext) (simp add: updated_item_def change_for_def)
  then show ?thesis
    by (cases s) (simp add: agent_state_def empty_delta_def Let_def stable_unique_def)
qed

text \<open>An effective update changes its hypothesis.\<close>

lemma effective_update_changes:
  assumes h: "hypothesis_update_changes_projection h c" and r: "set (it_evidence_refs h) \<subseteq> E"
    and f: "\<And>k. ProposedEvidence k \<in> set (ch_evidence_bindings c) \<Longrightarrow> binding_id ids (ProposedEvidence k) \<notin> E"
  shows "item_changed st ids h c \<noteq> h"
proof
  assume eq: "item_changed st ids h c = h"
  have st: "it_statement h = (case ch_statement c of Some x \<Rightarrow> x | None \<Rightarrow> it_statement h)"
    using arg_cong [OF eq, of it_statement] by (simp add: item_changed_def)
  have "it_evidence_refs h = merge_refs (it_evidence_refs h)
      (stable_unique (map (binding_id ids) (ch_evidence_bindings c)))"
    using arg_cong [OF eq, of it_evidence_refs] by (simp add: item_changed_def)
  then have ev: "binding_id ids ` set (ch_evidence_bindings c) \<subseteq> set (it_evidence_refs h)"
    by (metis merge_refs_same set_map set_stable_unique)
  have "\<not> (case b of ExistingEvidence i \<Rightarrow> i \<notin> set (it_evidence_refs h) | ProposedEvidence k \<Rightarrow> True)"
    if b: "b \<in> set (ch_evidence_bindings c)" for b
  proof -
    have "binding_id ids b \<in> set (it_evidence_refs h)" using ev b by blast
    then show ?thesis using f b r by (cases b) (auto simp: binding_id_def)
  qed
  with h st show False
    by (auto simp: hypothesis_update_changes_projection_def list_ex_iff split: option.splits)
qed

lemma no_new_drafts:
  assumes "append_items xs (map (item_of_draft r ids) ds) = ys"
    and "\<And>x. x \<in> set ds \<Longrightarrow> dr_item_id x \<notin> it_item_id ` set ys"
  shows "ds = []"
proof (cases ds)
  case (Cons a as)
  then have "item_of_draft r ids a \<in> set ys" using assms(1) by auto
  then have "dr_item_id a \<in> it_item_id ` set ys" using image_iff by fastforce
  with assms(2) Cons show ?thesis by simp
qed simp

text \<open>If a delta leaves the state as it was, none of its lists changes anything.\<close>

lemma unchanged_lists:
  assumes s: "valid_diagnosis_state env s" and d: "applicable_items s d"
    and eq: "agent_state s d ids sp c = s"
  shows "sp = ds_problem_spec s" "sd_proposed_facts d = []" "sd_add_active_hypotheses d = []"
    "sd_reject_hypotheses d = []" "sd_add_open_questions d = []" "sd_resolve_questions d = []"
    "sd_add_pending_requirements d = []"
    "binding_id ids ` set (sd_add_evidence_bindings d) \<subseteq> set (ds_evidence_refs s)"
    "\<forall>h \<in> set (ds_active_hypotheses s). updated_item ids (sd_update_hypotheses d) h = h"
proof -
  let ?r = "ds_revision s + 1"
  have fresh: "x \<in> set (delta_drafts d) \<Longrightarrow> dr_item_id x \<notin> it_item_id ` set (state_items s)" for x
    using d by (force simp: applicable_items_def delta_identity_ok_def delta_new_ids_def)
  show "sp = ds_problem_spec s" using arg_cong [OF eq, of ds_problem_spec] by (simp add: agent_state_def Let_def)
  have "length (ds_confirmed_facts s) + length (sd_proposed_facts d) = length (ds_confirmed_facts s)"
    using arg_cong [OF eq, of "\<lambda>z. length (ds_confirmed_facts z)"] by (simp add: agent_state_def Let_def)
  then show "sd_proposed_facts d = []" by simp
  have "length (ds_pending_requirements s @ sd_add_pending_requirements d) = length (ds_pending_requirements s)"
    using arg_cong [OF eq, of "\<lambda>z. length (ds_pending_requirements z)"] by (simp add: agent_state_def Let_def)
  then show "sd_add_pending_requirements d = []" by simp
  have "merge_refs (ds_evidence_refs s) (stable_unique (map (binding_id ids) (sd_add_evidence_bindings d))) =
      ds_evidence_refs s"
    using arg_cong [OF eq, of ds_evidence_refs] by (simp add: agent_state_def Let_def)
  then show "binding_id ids ` set (sd_add_evidence_bindings d) \<subseteq> set (ds_evidence_refs s)"
    by (simp add: merge_refs_same)
  have act: "append_items (filter (\<lambda>i. it_item_id i \<notin> ch_item_id ` set (sd_reject_hypotheses d))
      (map (updated_item ids (sd_update_hypotheses d)) (ds_active_hypotheses s)))
      (map (item_of_draft ?r ids) (sd_add_active_hypotheses d)) = ds_active_hypotheses s"
    using arg_cong [OF eq, of ds_active_hypotheses] by (simp add: agent_state_def Let_def)
  have qs: "append_items (filter (\<lambda>i. it_item_id i \<notin> ch_item_id ` set (sd_resolve_questions d))
      (ds_open_questions s)) (map (item_of_draft ?r ids) (sd_add_open_questions d)) = ds_open_questions s"
    using arg_cong [OF eq, of ds_open_questions] by (simp add: agent_state_def Let_def)
  have sub: "it_item_id ` set (ds_active_hypotheses s) \<subseteq> it_item_id ` set (state_items s)"
    "it_item_id ` set (ds_open_questions s) \<subseteq> it_item_id ` set (state_items s)"
    by (simp_all add: state_items_def image_Un) blast+
  show hyps: "sd_add_active_hypotheses d = []"
    by (rule no_new_drafts [OF act], rule contra_subsetD [OF sub(1)], rule fresh)
      (simp add: delta_drafts_def)
  show quest: "sd_add_open_questions d = []"
    by (rule no_new_drafts [OF qs], rule contra_subsetD [OF sub(2)], rule fresh)
      (simp add: delta_drafts_def)
  show "sd_resolve_questions d = []"
    using d qs quest
    by (cases "sd_resolve_questions d") (auto simp: applicable_items_def filter_id_conv)
  show rej: "sd_reject_hypotheses d = []"
  proof (cases "sd_reject_hypotheses d")
    case (Cons x xs)
    then obtain h where "h \<in> set (ds_active_hypotheses s)" "it_item_id h = ch_item_id x"
      using d by (auto simp: applicable_items_def)
    with arg_cong [OF act, of set] hyps Cons show ?thesis by (auto dest!: equalityD2 [THEN subsetD])
  qed simp
  have "map (updated_item ids (sd_update_hypotheses d)) (ds_active_hypotheses s) = ds_active_hypotheses s"
    using act hyps rej by simp
  then show "\<forall>h \<in> set (ds_active_hypotheses s). updated_item ids (sd_update_hypotheses d) h = h"
    by (metis (no_types, lifting) in_set_conv_nth nth_map)
qed

section \<open>Applying an accepted delta\<close>

lemma accepted_patch_applies:
  assumes n: "normalize_patch s q = Ok (patch, pch)" and s: "valid_diagnosis_state env s"
  obtains sp where "apply_spec_patch_opt (ds_problem_spec s) patch = Inr sp" "valid_problem_spec sp"
    "ps_completion_criteria sp = ps_completion_criteria (ds_problem_spec s)"
    "sp = ds_problem_spec s \<longleftrightarrow> \<not> pch"
proof (cases patch)
  case None
  then show ?thesis
    using that [of "ds_problem_spec s"] s normalize_patch_Ok(1) [OF n]
    by (simp add: apply_spec_patch_opt_def valid_diagnosis_state_def)
next
  case (Some p)
  let ?sp = "patch_spec (ds_problem_spec s) p"
  have "apply_problem_spec_patch (ds_problem_spec s) p = Inr (?sp, True)"
    using normalize_patch_Ok(3) [OF n Some] .
  moreover from this have "valid_problem_spec ?sp"
    by (auto simp: apply_problem_spec_patch_def split: if_splits)
  moreover have "ps_completion_criteria ?sp = ps_completion_criteria (ds_problem_spec s)"
    by (rule patch_keeps_criteria [OF normalize_patch_Ok(4) [OF n Some]])
  moreover have "ps_revision ?sp = ps_revision (ds_problem_spec s) + 1" by (simp add: patch_spec_def)
  then have "?sp \<noteq> ds_problem_spec s" by auto
  ultimately show ?thesis
    using that [of ?sp] Some normalize_patch_Ok(1) [OF n] by (simp add: apply_spec_patch_opt_def)
qed

lemma fresh_binding_id:
  assumes "fresh_ids s (binding_keys bs) ids" and "ProposedEvidence k \<in> set bs"
  shows "binding_id ids (ProposedEvidence k) \<notin> set (ds_evidence_refs s)"
  using assms by (auto simp: fresh_ids_def list_all_iff binding_id_def binding_keys_mem split: option.splits)

lemma accepted_changes_state:
  assumes s: "valid_diagnosis_state env s"
    and v: "validate_evidence_bindings s (delta_bindings s d x) ps as = None"
    and ad: "ad = accepted_delta_of s d patch (binding_additions s (delta_bindings s d x))"
    and ap: "applicable_items s ad"
    and f: "fresh_ids s (binding_keys (binding_additions s (delta_bindings s d x))) ids"
    and sp: "sp = ds_problem_spec s \<longleftrightarrow> \<not> pch"
    and ch: "delta_semantic_change pch ad"
  shows "agent_state s ad ids sp c \<noteq> s"
proof
  assume eq: "agent_state s ad ids sp c = s"
  let ?adds = "binding_additions s (delta_bindings s d x)"
  note un = unchanged_lists [OF s ap eq]
  have additions: "?adds = []"
  proof (cases ?adds)
    case (Cons b bs)
    then have b: "b \<in> set ?adds" by simp
    then have mem: "binding_id ids b \<in> set (ds_evidence_refs s)" using un(8) ad by auto
    from b have bm: "b \<in> set (delta_bindings s d x)" by (simp add: additions_mem)
    show ?thesis using mem b validated_binding [OF v bm] fresh_binding_id [OF f]
      by (cases b) (auto simp: additions_mem binding_id_def)
  qed simp
  have updates: "sd_update_hypotheses ad = []"
  proof (rule ccontr)
    assume "sd_update_hypotheses ad \<noteq> []"
    then obtain ch' where c0: "ch' \<in> set (sd_update_hypotheses ad)" by (cases "sd_update_hypotheses ad") auto
    have dist: "distinct (map ch_item_id (sd_update_hypotheses ad))"
      using ap by (simp add: applicable_items_def delta_identity_ok_def delta_changed_ids_def)
    have eff: "ch' \<in> set (effective_hypothesis_updates s d)" using c0 ad by simp
    then obtain h where h: "dict_by it_item_id (state_items s) (ch_item_id ch') = Some h"
      and proj: "hypothesis_update_changes_projection h ch'"
      by (auto simp: effective_hypothesis_updates_def split: option.splits)
    note hm = dict_by_Some [OF h]
    have "ch_item_id ch' \<in> it_item_id ` set (ds_active_hypotheses s)"
      using ap c0 by (auto simp: applicable_items_def)
    then obtain h' where h': "h' \<in> set (ds_active_hypotheses s)" "it_item_id h' = ch_item_id ch'" by auto
    have "inj_on it_item_id (set (state_items s))"
      using s by (simp add: valid_diagnosis_state_def valid_state_items_def distinct_map)
    moreover have "h' \<in> set (state_items s)" using h' by (simp add: state_items_def)
    ultimately have "h' = h" using h' hm by (metis inj_onD)
    have "change_for (sd_update_hypotheses ad) (it_item_id h) = Some ch'"
      using dist c0 hm by (simp add: change_for_def map_of_eq_Some_iff comp_def image_iff)
    then have "updated_item ids (sd_update_hypotheses ad) h = item_changed DI_ACTIVE ids h ch'"
      by (simp add: updated_item_def)
    moreover have "item_changed DI_ACTIVE ids h ch' \<noteq> h"
    proof (rule effective_update_changes [OF proj])
      show "set (it_evidence_refs h) \<subseteq> set (ds_evidence_refs s)"
        using s hm by (auto simp: valid_diagnosis_state_def valid_state_evidence_def list_all_iff)
      fix k
      assume "ProposedEvidence k \<in> set (ch_evidence_bindings ch')"
      then have "ProposedEvidence k \<in> set ?adds"
        using eff by (auto simp: additions_mem delta_bindings_def)
      then show "binding_id ids (ProposedEvidence k) \<notin> set (ds_evidence_refs s)"
        by (rule fresh_binding_id [OF f])
    qed
    ultimately show False using un(9) h' \<open>h' = h\<close> by simp
  qed
  show False using ch un sp additions updates ad by (simp add: delta_semantic_change_def)
qed

text \<open>The candidate step of a plan: none, or one that installs a new candidate.\<close>

definition candidate_step_ok ::
  "py_env \<Rightarrow> diagnosis_state \<Rightarrow> state_delta \<Rightarrow> (proposal_key \<rightharpoonup> opaque_id) \<Rightarrow> candidate_mutation option \<Rightarrow>
   (proposal_key \<rightharpoonup> candidate_conclusion) \<Rightarrow> candidate_conclusion option \<Rightarrow> bool" where
  "candidate_step_ok env s d ids m cands c \<longleftrightarrow>
     apply_candidate_mutation env (ds_candidate_conclusion s) m cands = Inr c \<and>
     (c = ds_candidate_conclusion s \<longleftrightarrow> m = None) \<and>
     (m \<noteq> None \<longrightarrow> (case c of
        None \<Rightarrow> False
      | Some k \<Rightarrow> valid_candidate env k \<and>
          criteria_mapped 0 (cc_completion_criteria_mapping k) (ps_completion_criteria (ds_problem_spec s)) \<and>
          set (review_required_evidence_refs k) \<subseteq>
            set (ds_evidence_refs s) \<union> binding_id ids ` set (sd_add_evidence_bindings d)))"

lemma revision_valid:
  assumes "valid_diagnosis_state env z" and "r > 0"
  shows "valid_diagnosis_state env (z\<lparr>ds_revision := r\<rparr>)"
  using assms
  by (simp add: valid_diagnosis_state_def valid_state_items_def valid_state_requirements_def
      valid_state_evidence_def valid_state_candidate_def state_items_def agent_items_def
      open_requirements_def fixed_input_names_def cong: option.case_cong)

lemma accepted_delta_step:
  assumes s: "valid_diagnosis_state env s"
    and n: "normalize_delta s a oc d x = Ok (ad, ch, ek, ak)"
    and w: "delta_well_formed d" and g: "valid_agent_delta d oid jid" and f: "fresh_ids s ek ids"
    and step: "candidate_step_ok env s ad ids m cands c"
  shows "\<exists>s'. apply_diagnosis_state_delta env s ad ids m cands
              (Some (ds_revision s + (if ch \<or> m \<noteq> None then 1 else 0))) = Inr s' \<and>
            valid_diagnosis_state env s' \<and> ds_candidate_conclusion s' = c \<and>
            ds_revision s' = ds_revision s + (if ch \<or> m \<noteq> None then 1 else 0)"
  using n
proof (rule normalize_delta_Ok)
  fix patch pch
  assume p: "normalize_patch s (sd_problem_spec_patch d) = Ok (patch, pch)"
    and t: "delta_target_error s d = None"
    and sup: "validate_supersedes (state_items s) (new_drafts d) = None"
    and req: "validate_new_requirements s a (sd_add_pending_requirements d) = None"
    and ev: "validate_evidence_bindings s (delta_bindings s d x)
       (dict_by ep_proposal_key (oc_proposed_evidence oc))
       (dict_by ap_proposal_key (oc_proposed_artifacts oc)) = None"
    and ad: "ad = accepted_delta_of s d patch (binding_additions s (delta_bindings s d x))"
    and ch: "ch = delta_semantic_change pch ad"
    and ek: "ek = binding_keys (binding_additions s (delta_bindings s d x))"
  obtain sp where sp: "apply_spec_patch_opt (ds_problem_spec s) patch = Inr sp" "valid_problem_spec sp"
    "ps_completion_criteria sp = ps_completion_criteria (ds_problem_spec s)"
    "sp = ds_problem_spec s \<longleftrightarrow> \<not> pch"
    by (rule accepted_patch_applies [OF p s])
  let ?s = "agent_state s ad ids sp c"
  have items: "applicable_items s ad" unfolding ad by (rule accepted_items_applicable [OF s t sup w g])
  have binds: "applicable_bindings s ad ids"
    unfolding ad by (rule accepted_bindings_applicable [OF ev f [unfolded ek]])
  have reqs: "applicable_requirements s (sd_add_pending_requirements ad)"
    using accepted_requirements_applicable [OF req w] by (simp add: ad)
  have view: "ds_problem_spec ?s = sp" "ds_candidate_conclusion ?s = c" "ds_revision ?s = ds_revision s"
    "set (ds_evidence_refs ?s) = set (ds_evidence_refs s) \<union> binding_id ids ` set (sd_add_evidence_bindings ad)"
    by (simp_all add: agent_state_def Let_def)
  have cand: "valid_state_candidate env ?s"
    using step s view sp(3)
    by (cases m)
      (auto simp: candidate_step_ok_def valid_state_candidate_def valid_diagnosis_state_def list_all_iff
        simp del: set_review_required split: option.splits)
  have valid: "valid_diagnosis_state env ?s" by (rule agent_state_valid [OF s items binds reqs sp(2) cand])
  have prov: "provisional_state env s ad ids m cands = Inr ?s"
    by (rule provisional_agent_state [OF s items binds _ reqs _ _ valid])
      (use sp(1) step in \<open>auto simp: ad candidate_step_ok_def\<close>)
  have changed: "?s \<noteq> s \<longleftrightarrow> ch \<or> m \<noteq> None"
  proof (cases ch)
    case True
    then show ?thesis using accepted_changes_state [OF s ev ad items f [unfolded ek] sp(4)] ch by simp
  next
    case False
    have e: "ad = empty_delta"
      using False normalize_patch_Ok(1) [OF p] no_change_empty ad ch by metis
    moreover have "sp = ds_problem_spec s" using False ch sp(4) by (simp add: delta_semantic_change_def)
    ultimately have "?s = s\<lparr>ds_candidate_conclusion := c\<rparr>"
      using agent_state_empty [of s ids] by (simp add: agent_state_def Let_def) (metis (no_types, lifting) diagnosis_state.update_convs(10))
    moreover have "c = ds_candidate_conclusion s" if "?s = s" using view(2) that by simp
    moreover have "s\<lparr>ds_candidate_conclusion := ds_candidate_conclusion s\<rparr> = s" by simp
    ultimately show ?thesis using step False unfolding candidate_step_ok_def by metis
  qed
  show ?thesis
    using prov changed view state_lists_valid(3) [OF s] valid revision_valid [OF valid]
    by (auto simp: apply_diagnosis_state_delta_def Let_def)
qed

end
