(* ===== verification/Case_Application.thy ===== *)
theory Case_Application
  imports Plan_Effects Delta_Agreement
begin

text \<open>
  \<open>application/mutations.py\<close>: \<open>apply_transition_plan_to_case\<close> writes the explicit fields of a
  plan into the case, and \<open>build_job\<close> (\<open>application/formalization.py\<close>) turns the job
  specification of a plan into a PENDING job over the projected state (\<open>domain/projector.py\<close>).
  The theorems show that every plan of the coordinator, except one that carries a Methods terminal
  projection, is applied without an exception and leaves a valid case.
\<close>

section \<open>Applying a plan to a case\<close>

text \<open>The comparison of the finalized Markdown result with the draft of the plan.\<close>

definition check_generic_v2 ::
  "py_env \<Rightarrow> generic_result_v2_draft option \<Rightarrow> generic_result_v2 option \<Rightarrow> exn + unit" where
  "check_generic_v2 env draft result =
     (case (draft, result) of
        (None, None) \<Rightarrow> Inr ()
      | (Some d, Some g) \<Rightarrow>
          bindE (finalize_generic_result_v2 env d (g2_report_artifact_id g)) (\<lambda>expected.
            ensure (g = expected) ())
      | _ \<Rightarrow> Inl ValueError)"

definition next_active_job ::
  "case_t \<Rightarrow> plan \<Rightarrow> diagnosis_state \<Rightarrow> job option \<Rightarrow> exn + opaque_id option" where
  "next_active_job current p target created =
     (case created of
        Some j \<Rightarrow>
          ensure (jb_case_id j = cs_case_id current \<and> jb_base_state_revision j = ds_revision target)
            (Some (jb_job_id j))
      | None \<Rightarrow> Inr (if tp_clear_active_job p then None else cs_active_job_id current))"

definition apply_transition_plan_to_case ::
  "py_env \<Rightarrow> case_t \<Rightarrow> plan \<Rightarrow> diagnosis_state \<Rightarrow> job option \<Rightarrow> timestamp \<Rightarrow> unresolved_result option \<Rightarrow>
   generic_result_v2 option \<Rightarrow> exn + case_t" where
  "apply_transition_plan_to_case env current p target created processed_at unresolved generic_v2 =
     (if (tp_next_job_spec p = None) \<noteq> (created = None) then Inl ValueError
      else bindE (check_generic_v2 env (tp_generic_result_v2_draft p) generic_v2) (\<lambda>_.
        let generic = tp_generic_result p \<noteq> None \<or> generic_v2 \<noteq> None;
            methods = tp_methods_terminal_projection p
        in if tp_generic_result p \<noteq> None \<and> generic_v2 \<noteq> None then Inl ValueError
           else if \<not> generic \<and> methods = None \<and>
                   (tp_target_case_status p = CS_UNRESOLVED) \<noteq> (unresolved \<noteq> None)
           then Inl ValueError
           else if generic \<and> unresolved \<noteq> None then Inl ValueError
           else if methods \<noteq> None \<and>
                   (unresolved \<noteq> None \<or> generic \<or> ds_candidate_conclusion target \<noteq> None)
           then Inl ValueError
           else bindE (next_active_job current p target created) (\<lambda>active_job_id.
             bindE (resolve_final_result (ds_candidate_conclusion target) (tp_final_result_target p))
               (\<lambda>final_result.
               let c = current\<lparr>cs_status := tp_target_case_status p,
                     cs_case_revision := cs_case_revision current + 1,
                     cs_diagnosis_state := target,
                     cs_active_job_id := active_job_id,
                     cs_selected_skill_ref :=
                       apply_selected_skill_update (cs_selected_skill_ref current)
                         (tp_selected_skill_update p),
                     cs_final_result := final_result,
                     cs_unresolved_result := unresolved,
                     cs_generic_result := tp_generic_result p,
                     cs_generic_result_v2 := generic_v2,
                     cs_methods_result := methods,
                     cs_failure := apply_case_failure_update (cs_failure current)
                       (tp_case_failure_update p),
                     cs_updated_at := processed_at\<rparr>
               in ensure (valid_case env c) c))))"

text \<open>What the caller hands over beside the plan: a job exactly when the plan specifies one, an
  unresolved result exactly when the plan drafts one, and the finalized Markdown draft.\<close>

definition supplied_parts ::
  "py_env \<Rightarrow> case_t \<Rightarrow> plan \<Rightarrow> diagnosis_state \<Rightarrow> job option \<Rightarrow> unresolved_result option \<Rightarrow>
   generic_result_v2 option \<Rightarrow> bool" where
  "supplied_parts env current p target created unresolved generic_v2 \<longleftrightarrow>
     (tp_next_job_spec p = None) = (created = None) \<and>
     pred_option (\<lambda>j. jb_case_id j = cs_case_id current \<and> jb_base_state_revision j = ds_revision target)
       created \<and>
     (tp_unresolved_result_draft p = None) = (unresolved = None) \<and>
     check_generic_v2 env (tp_generic_result_v2_draft p) generic_v2 = Inr ()"

lemma finalized_draft:
  assumes "finalize_generic_result_v2 env d i = Inr g"
  shows "g2_status g = gd_status d \<and> g2_skill_name g = gd_skill_name d \<and> g2_report_artifact_id g = i"
  using assms by (auto simp: finalize_generic_result_v2_def Let_def)

lemma checked_generic_view:
  assumes "check_generic_v2 env (tp_generic_result_v2_draft p) g = Inr ()"
  shows "(tp_generic_result_v2_draft p = None) = (g = None)"
    and "generic_view (tp_generic_result p) g = plan_generic p"
  using assms
  by (auto simp: check_generic_v2_def generic_view_def plan_generic_def bindE_Inr
      dest!: finalized_draft split: option.splits)

section \<open>The candidate of the target state\<close>

text \<open>What the Case contract asks of the candidate the target state carries.\<close>

definition target_candidate_ok :: "plan \<Rightarrow> candidate_conclusion option \<Rightarrow> bool" where
  "target_candidate_ok p c \<longleftrightarrow>
     (tp_target_case_status p \<in> {CS_RESOLVED, CS_PARTIALLY_RESOLVED} \<and> plan_generic p = None \<longrightarrow>
        (case c of None \<Rightarrow> False
         | Some k \<Rightarrow> resolve_final_result c (tp_final_result_target p) = Inr (Some k) \<and>
             tp_target_case_status p = resolution_case_status (cc_resolution_status k))) \<and>
     (tp_target_case_status p = CS_REVIEWING \<longrightarrow>
        (case c of None \<Rightarrow> True | Some k \<Rightarrow> cc_status k = CD_REVIEWING)) \<and>
     (\<forall>r. plan_generic p \<noteq> None \<and> tp_selected_skill_update p = Some (SetSkill r) \<longrightarrow> c = None)"

lemma final_target_resolved:
  assumes "valid_plan_candidate p" and "tp_target_case_status p \<notin> {CS_RESOLVED, CS_PARTIALLY_RESOLVED}"
  shows "tp_final_result_target p = None"
  using assms by (auto simp: valid_plan_candidate_def split: option.splits if_splits)

lemma failure_exactly_failed:
  assumes "valid_plan_failure p" and "current = None"
  shows "tp_target_case_status p = CS_FAILED \<longleftrightarrow>
    apply_case_failure_update current (tp_case_failure_update p) \<noteq> None"
  using assms
  by (cases "tp_case_failure_update p" rule: option.exhaust)
    (auto simp: valid_plan_failure_def split: if_splits failure_update.splits)

lemma generic_plan_parts:
  assumes "valid_plan p" and "plan_generic p = Some (st, name)"
  shows "tp_target_case_status p = generic_case_status st" "tp_unresolved_result_draft p = None"
    "tp_final_result_target p = None" "tp_selected_skill_update p \<noteq> None"
    "\<And>r. tp_selected_skill_update p = Some (SetSkill r) \<Longrightarrow>
       tp_generic_result_v2_draft p \<noteq> None \<and> ref_id r = skill_ref_prefix @ name"
  using assms by (auto simp: valid_plan_def valid_plan_generic_def split: option.splits)

text \<open>The final result the case receives.\<close>

definition final_result_of :: "plan \<Rightarrow> candidate_conclusion option \<Rightarrow> candidate_conclusion option" where
  "final_result_of p c =
     (if tp_target_case_status p \<in> {CS_RESOLVED, CS_PARTIALLY_RESOLVED} \<and> plan_generic p = None
      then c else None)"

lemma final_result_resolved:
  assumes "valid_plan p" and "target_candidate_ok p c"
  shows "resolve_final_result c (tp_final_result_target p) = Inr (final_result_of p c)"
proof (cases "plan_generic p")
  case None
  show ?thesis
  proof (cases "tp_target_case_status p \<in> {CS_RESOLVED, CS_PARTIALLY_RESOLVED}")
    case True
    with None assms(2) show ?thesis
      by (cases c) (auto simp: target_candidate_ok_def final_result_of_def)
  next
    case False
    with assms(1) final_target_resolved show ?thesis
      by (simp add: valid_plan_def final_result_of_def resolve_final_result_def)
  qed
next
  case (Some g)
  with generic_plan_parts(3) [OF assms(1)] show ?thesis
    by (cases g) (simp add: final_result_of_def resolve_final_result_def)
qed

lemma final_result_accepted:
  assumes "resolve_final_result c ft = Inr (Some k)"
  shows "c = Some k \<and> cc_status k = CD_ACCEPTED"
  using assms by (auto simp: resolve_final_result_def split: option.splits final_target.splits review_target_binding.splits)

lemma resolution_case_status_iff [simp]:
  "CS_RESOLVED = resolution_case_status r \<longleftrightarrow> r = DR_COMPLETE"
  "CS_PARTIALLY_RESOLVED = resolution_case_status r \<longleftrightarrow> r = DR_PARTIAL"
  by (cases r; simp)+

lemma applied_case_valid:
  assumes c: "valid_case env current" "\<not> terminal_status (cs_status current)"
    and p: "valid_plan p" "tp_methods_terminal_projection p = None"
    and shape: "next_job_shape p" "tp_target_case_status p \<noteq> CS_NEW"
    and idle: "tp_next_job_spec p = None \<Longrightarrow> tp_clear_active_job p \<or> cs_active_job_id current = None"
    and s: "valid_diagnosis_state env target" "target_candidate_ok p (ds_candidate_conclusion target)"
    and parts: "supplied_parts env current p target created unresolved generic_v2"
  shows "\<exists>c'. apply_transition_plan_to_case env current p target created at unresolved generic_v2 = Inr c' \<and>
      valid_case env c' \<and> cs_status c' = tp_target_case_status p \<and>
      cs_case_revision c' = cs_case_revision current + 1 \<and> cs_diagnosis_state c' = target \<and>
      cs_active_job_id c' = map_option jb_job_id created"
proof -
  let ?st = "tp_target_case_status p" and ?k = "ds_candidate_conclusion target"
  let ?c = "current\<lparr>cs_status := ?st, cs_case_revision := cs_case_revision current + 1,
    cs_diagnosis_state := target, cs_active_job_id := map_option jb_job_id created,
    cs_selected_skill_ref := apply_selected_skill_update (cs_selected_skill_ref current)
      (tp_selected_skill_update p),
    cs_final_result := final_result_of p ?k, cs_unresolved_result := unresolved,
    cs_generic_result := tp_generic_result p, cs_generic_result_v2 := generic_v2,
    cs_methods_result := None,
    cs_failure := apply_case_failure_update (cs_failure current) (tp_case_failure_update p),
    cs_updated_at := at\<rparr>"
  note sub = p(1) [unfolded valid_plan_def]
  have v2: "check_generic_v2 env (tp_generic_result_v2_draft p) generic_v2 = Inr ()"
    and un: "(tp_unresolved_result_draft p = None) = (unresolved = None)"
    and job: "(tp_next_job_spec p = None) = (created = None)"
    using parts by (auto simp: supplied_parts_def)
  note view = checked_generic_view [OF v2]
  have gen: "case_generic ?c = plan_generic p" by (simp add: case_generic_def view)
  have excl: "\<not> (tp_generic_result p \<noteq> None \<and> generic_v2 \<noteq> None)"
    using sub view(1) by (simp add: valid_plan_failure_def)
  have isgen: "plan_generic p \<noteq> None \<longleftrightarrow> tp_generic_result p \<noteq> None \<or> generic_v2 \<noteq> None"
    using view(1) by (auto simp: plan_generic_def split: option.splits)
  have fail: "cs_failure current = None" using c by (cases "cs_status current") (auto simp: valid_case_def)
  have status: "?st = CS_FAILED \<longleftrightarrow> cs_failure ?c \<noteq> None"
    using failure_exactly_failed [of p "cs_failure current"] sub fail by simp
  have markdown: "valid_case_markdown ?c"
  proof (cases "plan_generic p")
    case (Some g)
    obtain st name where g: "g = (st, name)" by (cases g)
    note gp = generic_plan_parts [OF p(1) Some [unfolded g]]
    consider (clear) "tp_selected_skill_update p = Some ClearSkill"
      | (set) r where "tp_selected_skill_update p = Some (SetSkill r)"
      using gp(4) by (metis not_None_eq skill_update.exhaust)
    then show ?thesis
    proof cases
      case clear
      with gp gen excl Some g un show ?thesis
        by (simp add: valid_case_markdown_def final_result_of_def)
    next
      case set
      with gp gen excl Some g un view(1) s(2) show ?thesis
        by (simp add: valid_case_markdown_def final_result_of_def target_candidate_ok_def)
    qed
  qed (use gen excl in \<open>simp add: valid_case_markdown_def\<close>)
  have final: "valid_case_final ?c"
    using gen s(2) final_result_accepted
    by (auto simp: valid_case_final_def final_result_of_def target_candidate_ok_def
        split: option.splits)
  have unres: "valid_case_unresolved ?c"
    using gen un sub p(2) status by (auto simp: valid_case_unresolved_def valid_plan_unresolved_def)
  have activity: "valid_case_activity ?c"
    using shape job s(2) by (auto simp: valid_case_activity_def next_job_shape_def target_candidate_ok_def)
  have valid: "valid_case env ?c"
    using c s(1) markdown final unres activity status by (simp add: valid_case_def)
  have active: "next_active_job current p target created = Inr (map_option jb_job_id created)"
    using parts idle by (auto simp: next_active_job_def supplied_parts_def split: option.splits)
  have ur: "(?st = CS_UNRESOLVED) = (unresolved \<noteq> None)" if "plan_generic p = None"
    using sub un p(2) that by (auto simp: valid_plan_unresolved_def split: if_splits)
  have ug: "unresolved = None" if "plan_generic p \<noteq> None"
    using un generic_plan_parts(2) [OF p(1)] that by fastforce
  have "apply_transition_plan_to_case env current p target created at unresolved generic_v2 = Inr ?c"
    unfolding apply_transition_plan_to_case_def Let_def isgen [symmetric]
    by (cases "plan_generic p = None")
      (use job v2 excl ur ug active final_result_resolved [OF p(1) s(2)] valid p(2) in simp_all)
  with valid show ?thesis by auto
qed

section \<open>Plans of the coordinator\<close>

text \<open>\<open>candidates\<close> in \<open>application/outcome_submission.py\<close>: the formalized candidate under the
  key the plan accepted.\<close>

definition candidates_by_key ::
  "proposal_key option \<Rightarrow> candidate_conclusion option \<Rightarrow> (proposal_key \<rightharpoonup> candidate_conclusion)" where
  "candidates_by_key key formal =
     (case (key, formal) of (Some k, Some c) \<Rightarrow> [k \<mapsto> c] | _ \<Rightarrow> Map.empty)"

text \<open>The snapshot frozen into the active job shows the candidate of the case. Outcomes of a job
  whose base revision is no longer current take the stale path instead.\<close>

definition active_candidate_current :: "case_snapshot \<Rightarrow> bool" where
  "active_candidate_current sn \<longleftrightarrow>
     (case Option.bind (sn_active_job sn) jb_context_snapshot of
        None \<Rightarrow> True
      | Some x \<Rightarrow> cx_candidate_conclusion x = ds_candidate_conclusion (cs_diagnosis_state (sn_case sn)))"

lemma formalized_resolution:
  assumes "formalize_accepted_candidate env (Some d) (Some key) cur crit ex eids cids jid = Inr fc"
  shows "\<exists>c. fc = Some c \<and> cc_resolution_status c = cd_resolution_status d \<and> cd_proposal_key d = key"
  using assms
  by (auto simp: formalize_accepted_candidate_def Let_def bindE_Inr split: if_splits prod.splits)

lemma mutated_candidate:
  "apply_candidate_mutation env cur None cands = Inr c \<longleftrightarrow> c = cur"
  "apply_candidate_mutation env cur (Some (install_mutation key st)) cands = Inr c \<Longrightarrow>
     \<exists>k. cands key = Some k \<and> c = Some (k\<lparr>cc_status := st\<rparr>)"
  "apply_candidate_mutation env cur (Some (review_mutation tgt st why)) cands = Inr c \<Longrightarrow>
     \<exists>k. cur = Some k \<and> target_matches k tgt \<and> c = Some (k\<lparr>cc_status := st\<rparr>)"
  by (auto simp: apply_candidate_mutation_def install_mutation_def review_mutation_def bindE_Inr
      set_candidate_status_def Let_def split: if_splits option.splits)

lemma direct_job_no_candidate:
  assumes "valid_snapshot env sn" and "active_candidate_current sn"
    and "sn_active_job sn = Some a" and "job_direct a"
  shows "ds_candidate_conclusion (cs_diagnosis_state (sn_case sn)) = None"
proof -
  have j: "valid_job env a" using assms by (simp add: valid_snapshot_def Let_def)
  from assms(4) have dir: "ref_id (jb_output_contract_ref a) = direct_output_contract_id"
    "jb_diagnosis_mode a \<noteq> Some DM_GENERIC"
    by (auto simp: job_direct_def is_specialized_direct_def)
  then obtain x where x: "jb_context_snapshot a = Some x"
    using j by (auto simp: valid_job_def valid_job_snapshot_def split: option.splits)
  then have "cx_candidate_conclusion x = None"
    using j dir by (auto simp: valid_job_def valid_direct_bindings_def)
  with assms(2,3) x show ?thesis by (simp add: active_candidate_current_def)
qed

lemma effect_target_candidate:
  assumes eff: "candidate_effect sn t p" and p: "valid_plan p" "tp_methods_terminal_projection p = None"
    and sn: "valid_snapshot env sn" "active_candidate_current sn"
    and fc: "formalize_accepted_candidate env (trigger_draft t) (tp_accepted_candidate_key p)
       (ds_candidate_conclusion (cs_diagnosis_state (sn_case sn))) crit ex eids cids jid = Inr fc"
    and m: "apply_candidate_mutation env (ds_candidate_conclusion (cs_diagnosis_state (sn_case sn)))
       (tp_candidate_mutation p) (candidates_by_key (tp_accepted_candidate_key p) fc) = Inr c"
  shows "target_candidate_ok p c"
proof -
  let ?k = "ds_candidate_conclusion (cs_diagnosis_state (sn_case sn))"
  have resolved: "case c of None \<Rightarrow> False
     | Some k \<Rightarrow> resolve_final_result c (tp_final_result_target p) = Inr (Some k) \<and>
         tp_target_case_status p = resolution_case_status (cc_resolution_status k)"
    if st: "tp_target_case_status p \<in> {CS_RESOLVED, CS_PARTIALLY_RESOLVED}" "plan_generic p = None"
  proof -
    have "accepts_candidate sn t p" using eff st p(2) by (auto simp: candidate_effect_def)
    then consider
      (install) d where "trigger_draft t = Some d" "tp_accepted_candidate_key p = Some (cd_proposal_key d)"
        "tp_candidate_mutation p = Some (install_mutation (cd_proposal_key d) CD_ACCEPTED)"
        "tp_final_result_target p = Some (FinalBinding (AcceptedCandidate (cd_proposal_key d)))"
        "tp_target_case_status p = resolution_case_status (cd_resolution_status d)"
    | (review) target k where "?k = Some k" "candidate_matches target k"
        "tp_candidate_mutation p = Some (review_mutation target CD_ACCEPTED None)"
        "tp_final_result_target p = Some (FinalTarget target)"
        "tp_target_case_status p = resolution_case_status (cc_resolution_status k)"
      unfolding accepts_candidate_def by blast
    then show ?thesis
    proof cases
      case install
      obtain k where "fc = Some k" "cc_resolution_status k = cd_resolution_status d"
        using formalized_resolution fc install(1,2) by metis
      with install m show ?thesis
        by (auto simp: candidates_by_key_def resolve_final_result_def dest!: mutated_candidate(2))
    next
      case review
      with m show ?thesis
        by (auto simp: resolve_final_result_def target_matches_def candidate_target_of_def
            dest!: mutated_candidate(3))
    qed
  qed
  have reviewing: "case c of None \<Rightarrow> True | Some k \<Rightarrow> cc_status k = CD_REVIEWING"
    if "tp_target_case_status p = CS_REVIEWING"
  proof -
    have "reviews_candidate sn t p" using eff that by (simp add: candidate_effect_def)
    with m show ?thesis
      by (auto simp: reviews_candidate_def mutated_candidate(1) dest!: mutated_candidate(2)
          split: option.splits)
  qed
  have direct: "c = None" if "plan_generic p \<noteq> None" "tp_selected_skill_update p = Some (SetSkill r)" for r
  proof -
    have "\<exists>a. sn_active_job sn = Some a \<and> job_direct a"
      using eff that unfolding candidate_effect_def by metis
    then obtain a where "sn_active_job sn = Some a" "job_direct a" by blast
    then have "?k = None" by (rule direct_job_no_candidate [OF sn])
    moreover have "tp_candidate_mutation p = None"
      using p(1) that(1) by (auto simp: valid_plan_def valid_plan_generic_def)
    ultimately show ?thesis using m by (simp add: mutated_candidate(1))
  qed
  show ?thesis using resolved reviewing direct by (auto simp: target_candidate_ok_def)
qed

lemma provisional_candidate:
  "provisional_state env s d ids m cands = Inr z \<Longrightarrow>
     apply_candidate_mutation env (ds_candidate_conclusion s) m cands = Inr (ds_candidate_conclusion z)"
  by (auto simp: provisional_state_def Let_def bindE_Inr split: if_splits prod.splits)

lemma applied_delta_valid:
  assumes "apply_diagnosis_state_delta env s d ids m cands r = Inr s'"
  shows "valid_diagnosis_state env s'"
    and "apply_candidate_mutation env (ds_candidate_conclusion s) m cands = Inr (ds_candidate_conclusion s')"
proof -
  obtain z where "provisional_state env s d ids m cands = Inr z"
    and z: "s' = z\<lparr>ds_revision := (if z \<noteq> s then ds_revision s + 1 else ds_revision s)\<rparr>"
      "valid_diagnosis_state env s'"
    using assms unfolding apply_diagnosis_state_delta_def Let_def bindE_Inr ensure_Inr by metis
  then show "apply_candidate_mutation env (ds_candidate_conclusion s) m cands =
      Inr (ds_candidate_conclusion s')"
    by (simp add: provisional_candidate)
  show "valid_diagnosis_state env s'" by (rule z(2))
qed

text \<open>The port through which the application sees the domain: a planner whose plans follow the
  lifecycle, pass their validator and announce the candidate they leave behind.\<close>

locale coordinator_port =
  fixes env :: py_env and planner :: "case_snapshot \<Rightarrow> trigger \<Rightarrow> plan cres"
  assumes planned_shape: "planner sn t = Ok p \<Longrightarrow> plan_shape sn t (tr_trigger_type t) p"
    and planned_constructible: "planner sn t = Ok p \<Longrightarrow> plan_constructible env p"
    and planned_effect: "planner sn t = Ok p \<Longrightarrow> candidate_effect sn t p"
begin

lemma planned_not_terminal: "planner sn t = Ok p \<Longrightarrow> \<not> terminal_status (cs_status (sn_case sn))"
  using planned_shape lifecycle_not_terminal unfolding plan_shape_def by blast

lemma planned_status_not_new: "planner sn t = Ok p \<Longrightarrow> tp_target_case_status p \<noteq> CS_NEW"
  by (drule planned_shape) (auto simp: plan_shape_def elim: lifecycle.cases)

lemma planned_case:
  assumes sn: "valid_snapshot env sn" "active_candidate_current sn"
    and p: "planner sn t = Ok p" "tp_methods_terminal_projection p = None"
    and fc: "formalize_accepted_candidate env (trigger_draft t) (tp_accepted_candidate_key p)
       (ds_candidate_conclusion (cs_diagnosis_state (sn_case sn))) crit ex eids cids jid = Inr fc"
    and s: "apply_diagnosis_state_delta env (cs_diagnosis_state (sn_case sn)) (tp_accepted_state_delta p)
       eids (tp_candidate_mutation p) (candidates_by_key (tp_accepted_candidate_key p) fc) expected = Inr target"
    and parts: "supplied_parts env (sn_case sn) p target created unresolved generic_v2"
  shows "\<exists>c'. apply_transition_plan_to_case env (sn_case sn) p target created at unresolved generic_v2 = Inr c' \<and>
      valid_case env c' \<and> cs_status c' = tp_target_case_status p \<and>
      cs_case_revision c' = cs_case_revision (sn_case sn) + 1 \<and> cs_diagnosis_state c' = target \<and>
      cs_active_job_id c' = map_option jb_job_id created"
proof (rule applied_case_valid [OF _ planned_not_terminal [OF p(1)] _ p(2) _
      planned_status_not_new [OF p(1)] idle_plan [OF planned_shape [OF p(1)] sn(1)] _ _ parts])
  show "valid_case env (sn_case sn)" using sn(1) by (simp add: valid_snapshot_def Let_def)
  show v: "valid_plan p" using planned_constructible [OF p(1)] by (simp add: plan_constructible_def)
  show "next_job_shape p" using planned_shape [OF p(1)] by (simp add: plan_shape_def)
  show "valid_diagnosis_state env target" by (rule applied_delta_valid(1) [OF s])
  show "target_candidate_ok p (ds_candidate_conclusion target)"
    by (rule effect_target_candidate [OF planned_effect [OF p(1)] v p(2) sn fc applied_delta_valid(2) [OF s]])
qed

text \<open>The application refuses parts that do not fit the plan.\<close>

lemma planned_parts:
  assumes p: "planner sn t = Ok p" "tp_methods_terminal_projection p = None"
    and ap: "apply_transition_plan_to_case env c p target created at unresolved generic_v2 = Inr c'"
  shows "supplied_parts env c p target created unresolved generic_v2"
proof -
  have v: "valid_plan p" using planned_constructible [OF p(1)] by (simp add: plan_constructible_def)
  have job: "(tp_next_job_spec p = None) = (created = None)"
    and v2: "check_generic_v2 env (tp_generic_result_v2_draft p) generic_v2 = Inr ()"
    and un: "\<not> (tp_generic_result p \<noteq> None \<or> generic_v2 \<noteq> None) \<Longrightarrow>
      (tp_target_case_status p = CS_UNRESOLVED) = (unresolved \<noteq> None)"
      "tp_generic_result p \<noteq> None \<or> generic_v2 \<noteq> None \<Longrightarrow> unresolved = None"
    and act: "\<exists>i. next_active_job c p target created = Inr i"
    using ap p(2) by (auto simp: apply_transition_plan_to_case_def Let_def bindE_Inr split: if_split_asm)
  have isgen: "plan_generic p \<noteq> None \<longleftrightarrow> tp_generic_result p \<noteq> None \<or> generic_v2 \<noteq> None"
    using checked_generic_view(1) [OF v2] by (auto simp: plan_generic_def split: option.splits)
  have "(tp_unresolved_result_draft p = None) = (unresolved = None)"
  proof (cases "plan_generic p")
    case None
    then show ?thesis using un(1) isgen v p(2)
      by (auto simp: valid_plan_def valid_plan_unresolved_def split: if_split_asm)
  next
    case (Some g)
    then show ?thesis using un(2) isgen generic_plan_parts(2) [OF v, of "fst g" "snd g"] by simp
  qed
  then show ?thesis using job v2 act by (auto simp: supplied_parts_def next_active_job_def split: option.split_asm)
qed

end

interpretation domain_coordinator: coordinator_port env "plan env" for env
  by unfold_locales (auto simp: plan_Ok intro: handler_shape handler_constructible handler_effect)

text \<open>Every exception of the application is a \<open>ValueError\<close>, which the caller turns into the
  rejection of the outcome. A plan with a Methods terminal projection always ends there: the case
  it describes fails its own validator.\<close>

lemma bindE_Inl: "bindE r f = Inl e \<longleftrightarrow> r = Inl e \<or> (\<exists>x. r = Inr x \<and> f x = Inl e)"
  by (cases r) auto

lemma application_raises_ValueError:
  assumes "apply_transition_plan_to_case env current p target created at unresolved generic_v2 = Inl x"
  shows "x = ValueError"
  using assms
  by (auto simp: apply_transition_plan_to_case_def check_generic_v2_def finalize_generic_result_v2_def
      next_active_job_def resolve_final_result_def Let_def bindE_Inl
      split: if_splits option.splits final_target.splits review_target_binding.splits)

lemma application_not_methods:
  assumes "apply_transition_plan_to_case env current p target created at unresolved generic_v2 = Inr c"
  shows "tp_methods_terminal_projection p = None"
  using assms
  by (auto simp: apply_transition_plan_to_case_def valid_case_def Let_def bindE_Inr split: if_splits)

end
