(* ===== verification/Job_Construction.thy ===== *)
theory Job_Construction
  imports Case_Application
begin

text \<open>
  From the specification of the next job to the stored PENDING job: the pure projector
  (\<open>domain/projector.py\<close>) and \<open>build_job\<close> (\<open>application/formalization.py\<close>). The projector is
  a port of \<open>build_job\<close>; its contract is the locale \<open>snapshot_projector\<close>, and the facts about
  built jobs are proved against it.
\<close>

section \<open>The projector\<close>

definition context_of_state :: "diagnosis_state \<Rightarrow> context_snapshot" where
  "context_of_state s =
     \<lparr>cx_diagnosis_state_revision = ds_revision s, cx_problem_spec = ds_problem_spec s,
      cx_user_facts = ds_user_facts s, cx_confirmed_facts = ds_confirmed_facts s,
      cx_active_hypotheses = ds_active_hypotheses s,
      cx_rejected_hypotheses = ds_rejected_hypotheses s,
      cx_open_questions = ds_open_questions s,
      cx_pending_requirements = ds_pending_requirements s,
      cx_evidence_refs = ds_evidence_refs s,
      cx_candidate_conclusion = ds_candidate_conclusion s\<rparr>"

definition project :: "py_env \<Rightarrow> diagnosis_state \<Rightarrow> exn + context_snapshot" where
  "project env s =
     (let x = context_of_state s in ensure (valid_context_snapshot env x) x)"

lemma snapshot_of_context [simp]: "snapshot_state (context_of_state s) = s"
  by (simp add: snapshot_state_def context_of_state_def)

lemma context_fields [simp]:
  "cx_diagnosis_state_revision (context_of_state s) = ds_revision s"
  "cx_evidence_refs (context_of_state s) = ds_evidence_refs s"
  "cx_candidate_conclusion (context_of_state s) = ds_candidate_conclusion s"
  by (simp_all add: context_of_state_def)

lemma valid_context [simp]: "valid_context_snapshot env (context_of_state s) = valid_diagnosis_state env s"
  by (simp add: valid_context_snapshot_def)

section \<open>Building a job\<close>

type_synonym id_map = "proposal_key \<rightharpoonup> opaque_id"

text \<open>What \<open>build_job\<close> needs to resolve the bindings of a specification.\<close>

record job_inputs =
  bi_job_id :: opaque_id
  bi_case_id :: opaque_id
  bi_created_at :: timestamp
  bi_existing_evidence_ids :: "opaque_id list"
  bi_evidence_ids :: id_map
  bi_existing_artifact_ids :: "opaque_id list"
  bi_artifact_ids :: id_map
  bi_existing_candidate :: "candidate_conclusion option"
  bi_candidates :: "proposal_key \<rightharpoonup> candidate_conclusion"

definition pending_job ::
  "job_spec \<Rightarrow> job_inputs \<Rightarrow> context_snapshot option \<Rightarrow> opaque_id list \<Rightarrow> opaque_id list \<Rightarrow>
   candidate_target option \<Rightarrow> job" where
  "pending_job spec i snapshot evidence_refs artifact_refs review_target =
     \<lparr>jb_job_id = bi_job_id i, jb_case_id = bi_case_id i, jb_job_type = js_job_type spec,
      jb_diagnosis_mode = js_diagnosis_mode spec, jb_review_policy = js_review_policy spec,
      jb_generic_skill_name = js_generic_skill_name spec,
      jb_generic_log_preparation = js_generic_log_preparation spec,
      jb_generic_problem_text = js_generic_problem_text spec,
      jb_generic_product_line = js_generic_product_line spec,
      jb_generic_log_archive_expected = js_generic_log_archive_expected spec,
      jb_generic_supplement_texts = js_generic_supplement_texts spec,
      jb_continuation_context = js_continuation_context spec, jb_status = JS_PENDING,
      jb_goal = js_goal spec, jb_base_state_revision = js_target_state_revision spec,
      jb_context_snapshot = snapshot, jb_evidence_refs = evidence_refs,
      jb_attachment_refs = js_attachment_refs spec,
      jb_previous_outcome_refs = js_previous_outcome_refs spec, jb_artifact_refs = artifact_refs,
      jb_agent_profile_ref = js_agent_profile_ref spec,
      jb_available_skill_refs = js_available_skill_refs spec, jb_skill_ref = js_skill_ref spec,
      jb_tool_bundle_ref = js_tool_bundle_ref spec,
      jb_context_policy_ref = js_context_policy_ref spec,
      jb_output_contract_ref = js_output_contract_ref spec,
      jb_logparse_tool_ref = js_logparse_tool_ref spec,
      jb_logparse_product = js_logparse_product spec, jb_review_target = review_target,
      jb_methods_review_target = js_methods_review_target spec,
      jb_replacement_for_job_id = js_replacement_for_job_id spec,
      jb_resource_limits = js_resource_limits spec, jb_created_at = bi_created_at i,
      jb_started_at = None, jb_finished_at = None, jb_runtime_epoch = None\<rparr>"

definition projected_snapshot ::
  "(diagnosis_state \<Rightarrow> exn + context_snapshot) \<Rightarrow> job_spec \<Rightarrow> diagnosis_state \<Rightarrow>
   exn + context_snapshot option" where
  "projected_snapshot projector spec s =
     (if js_diagnosis_mode spec = Some DM_GENERIC then Inr None
      else bindE (projector s) (\<lambda>x.
        ensure (cx_diagnosis_state_revision x = js_target_state_revision spec) (Some x)))"

definition resolved_review_target :: "job_spec \<Rightarrow> job_inputs \<Rightarrow> exn + candidate_target option" where
  "resolved_review_target spec i =
     (case js_review_target_binding spec of
        None \<Rightarrow> Inr None
      | Some b \<Rightarrow>
          bindE (resolve_review_target_binding (bi_existing_candidate i) (bi_candidates i) b)
            (\<lambda>t. Inr (Some t)))"

definition build_job ::
  "py_env \<Rightarrow> (diagnosis_state \<Rightarrow> exn + context_snapshot) \<Rightarrow> job_spec \<Rightarrow> job_inputs \<Rightarrow>
   diagnosis_state \<Rightarrow> exn + job" where
  "build_job env projector spec i s =
     (if js_target_state_revision spec \<noteq> ds_revision s then Inl ValueError
      else
      bindE (projected_snapshot projector spec s) (\<lambda>snapshot.
      bindE (mapE (resolve_planned_resource_binding (bi_existing_evidence_ids i) (bi_evidence_ids i))
               (js_evidence_bindings spec)) (\<lambda>requested.
      if \<not> distinct requested then Inl ValueError
      else
      let evidence_refs = (case snapshot of None \<Rightarrow> []
            | Some x \<Rightarrow> filter (\<lambda>r. r \<in> set requested) (cx_evidence_refs x))
      in if length evidence_refs \<noteq> length requested then Inl ValueError
      else
      bindE (mapE (resolve_planned_resource_binding (bi_existing_artifact_ids i) (bi_artifact_ids i))
               (js_artifact_bindings spec)) (\<lambda>artifact_refs.
      bindE (resolved_review_target spec i) (\<lambda>review_target.
      let j = pending_job spec i snapshot evidence_refs artifact_refs review_target
      in ensure (valid_job env j) j)))))"

section \<open>The contract of the projector\<close>

text \<open>A projector accepts every valid state and shows all of it.\<close>

locale snapshot_projector =
  fixes env :: py_env and projector :: "diagnosis_state \<Rightarrow> exn + context_snapshot"
  assumes projects: "valid_diagnosis_state env s \<Longrightarrow> \<exists>x. projector s = Inr x"
    and shows_state: "projector s = Inr x \<Longrightarrow> snapshot_state x = s"
begin

lemma projected_context: "projector s = Inr x \<Longrightarrow> x = context_of_state s"
  by (drule shows_state) (auto simp: snapshot_state_def context_of_state_def)

lemma projected_valid:
  "valid_diagnosis_state env s \<Longrightarrow> projector s = Inr x \<Longrightarrow> valid_context_snapshot env x"
  by (drule shows_state) (simp add: valid_context_snapshot_def)

lemma built_evidence:
  assumes "build_job env projector spec i s = Inr j"
  obtains requested where
    "mapE (resolve_planned_resource_binding (bi_existing_evidence_ids i) (bi_evidence_ids i))
       (js_evidence_bindings spec) = Inr requested"
    "jb_evidence_refs j = (if js_diagnosis_mode spec = Some DM_GENERIC then []
       else filter (\<lambda>r. r \<in> set requested) (ds_evidence_refs s))"
    "distinct requested" "length (jb_evidence_refs j) = length requested"
  using assms
  by (auto simp: build_job_def projected_snapshot_def Let_def bindE_Inr pending_job_def context_of_state_def
      dest!: projected_context split: if_splits)

lemma built_evidence_set:
  assumes "build_job env projector spec i s = Inr j" and "distinct (ds_evidence_refs s)"
    and "mapE (resolve_planned_resource_binding (bi_existing_evidence_ids i) (bi_evidence_ids i))
       (js_evidence_bindings spec) = Inr requested"
  shows "set (jb_evidence_refs j) = set requested"
  using assms(1)
proof (rule built_evidence)
  fix req
  assume r: "mapE (resolve_planned_resource_binding (bi_existing_evidence_ids i) (bi_evidence_ids i))
       (js_evidence_bindings spec) = Inr req"
    and refs: "jb_evidence_refs j = (if js_diagnosis_mode spec = Some DM_GENERIC then []
       else filter (\<lambda>r. r \<in> set req) (ds_evidence_refs s))"
    and d: "distinct req" "length (jb_evidence_refs j) = length req"
  have "set (jb_evidence_refs j) \<subseteq> set req" "distinct (jb_evidence_refs j)"
    using refs assms(2) by auto
  then have "set (jb_evidence_refs j) = set req"
    using d by (metis card_subset_eq distinct_card List.finite_set)
  with r assms(3) show ?thesis by simp
qed

end

interpretation pure_projector: snapshot_projector env "project env" for env
  by unfold_locales (auto simp: project_def valid_context_snapshot_def Let_def ensure_def split: if_splits)

section \<open>Building succeeds\<close>

text \<open>The review target of a specification fits the candidate of the target state.\<close>

definition review_ready :: "job_spec \<Rightarrow> job_inputs \<Rightarrow> diagnosis_state \<Rightarrow> opaque_id list \<Rightarrow> bool" where
  "review_ready spec i s requested \<longleftrightarrow>
     (js_review_target_binding spec \<noteq> None \<longrightarrow>
        (case (resolved_review_target spec i, ds_candidate_conclusion s) of
           (Inr (Some t), Some c) \<Rightarrow>
             cc_status c = CD_REVIEWING \<and> target_matches c t \<and>
             list_all (\<lambda>r. r \<in> set requested) (review_required_evidence_refs c)
         | _ \<Rightarrow> False)) \<and>
     (case js_methods_review_target spec of
        None \<Rightarrow> True
      | Some m \<Rightarrow> ds_candidate_conclusion s = None \<and> mt_source_job_id m \<noteq> bi_job_id i)"

lemma pending_job_direct: "job_direct (pending_job spec i x e a r) = spec_direct spec"
  by (simp add: job_direct_def spec_direct_def pending_job_def)

lemma pending_job_valid:
  assumes spec: "valid_job_spec spec" and s: "valid_diagnosis_state env s"
    and r: "js_target_state_revision spec = ds_revision s"
    and ev: "set requested \<subseteq> set (ds_evidence_refs s)" "js_evidence_bindings spec = [] \<Longrightarrow> requested = []"
    and ar: "distinct artifacts" "js_artifact_bindings spec = [] \<Longrightarrow> artifacts = []"
    and rt: "resolved_review_target spec i = Inr target" and ready: "review_ready spec i s requested"
    and direct: "spec_direct spec \<Longrightarrow> ds_candidate_conclusion s = None"
    and x: "x = (if js_diagnosis_mode spec = Some DM_GENERIC then None else Some (context_of_state s))"
    and e: "e = (if js_diagnosis_mode spec = Some DM_GENERIC then []
       else filter (\<lambda>r. r \<in> set requested) (ds_evidence_refs s))"
  shows "valid_job env (pending_job spec i x e artifacts target)"
proof -
  let ?j = "pending_job spec i x e artifacts target"
  have dist: "distinct (ds_evidence_refs s)"
    using s by (simp add: valid_diagnosis_state_def valid_state_evidence_def)
  have gen: "js_diagnosis_mode spec = Some DM_GENERIC \<Longrightarrow> js_job_type spec = JT_DIAGNOSE"
    using spec by (auto simp: valid_job_spec_def valid_spec_mode_def split: job_type.splits)
  have fields: "valid_job_generic_fields ?j"
    using spec pending_job_direct [of spec i x e artifacts target]
    by (simp add: valid_job_spec_def valid_job_generic_fields_def valid_spec_generic_fields_def)
      (simp add: pending_job_def)
  have snap: "valid_job_snapshot env ?j"
    using s r gen x e dist
    by (auto simp: valid_job_snapshot_def pending_job_def intro: filter_cong)
  have res: "valid_job_resources ?j"
    using spec ar dist e by (auto simp: valid_job_spec_def valid_spec_resources_def valid_job_resources_def pending_job_def)
  have mode: "valid_job_mode ?j"
    using spec ar(2) ev(2) e gen
    by (auto simp: valid_job_spec_def valid_spec_mode_def valid_job_mode_def pending_job_def split: job_type.splits)
  have target: "target = None \<longleftrightarrow> js_review_target_binding spec = None"
    using rt by (auto simp: resolved_review_target_def bindE_Inr split: option.splits)
  have rv: "valid_job_review ?j"
  proof (cases "js_job_type spec = JT_REVIEW")
    case False
    then show ?thesis using spec target
      by (auto simp: valid_job_spec_def valid_spec_review_def valid_job_review_def pending_job_def)
  next
    case True
    then have ng: "js_diagnosis_mode spec \<noteq> Some DM_GENERIC" using gen by auto
    have sr: "valid_spec_review spec" using spec by (simp add: valid_job_spec_def)
    show ?thesis
    proof (cases "js_methods_review_target spec")
      case None
      then obtain t c where "target = Some t" "ds_candidate_conclusion s = Some c"
        "cc_status c = CD_REVIEWING" "target_matches c t"
        "list_all (\<lambda>r. r \<in> set requested) (review_required_evidence_refs c)"
        using sr True ready rt
        by (auto simp: valid_spec_review_def review_ready_def split: option.splits sum.splits)
      moreover have "list_all (\<lambda>r. r \<in> set (ds_evidence_refs s)) (review_required_evidence_refs c)"
        using s calculation(2) by (simp add: valid_diagnosis_state_def valid_state_candidate_def)
      ultimately show ?thesis
        using True None sr x e ng
        by (auto simp: valid_job_review_def valid_spec_review_def pending_job_def target_matches_def
            candidate_target_of_def list_all_iff)
    next
      case (Some m)
      then show ?thesis
        using True sr x e ng ready r ev(2) ar(2) target
        by (auto simp: valid_job_review_def valid_spec_review_def pending_job_def review_ready_def)
    qed
  qed
  have dir: "valid_direct_bindings (js_job_type spec) (js_diagnosis_mode spec) (js_review_policy spec)
      (js_skill_ref spec) (js_output_contract_ref spec) (js_agent_profile_ref spec)
      (target \<noteq> None \<or> js_methods_review_target spec \<noteq> None)
      (case x of None \<Rightarrow> False | Some x \<Rightarrow> cx_candidate_conclusion x \<noteq> None)"
    using spec target direct x
    by (auto simp: valid_job_spec_def valid_direct_bindings_def spec_direct_def)
  show ?thesis
    using spec fields snap res mode rv dir unfolding valid_job_def valid_job_spec_def
    by (simp add: pending_job_def valid_job_lifecycle_def)
qed

text \<open>
  What \<open>build_job\<close> asks of the references of a specification: it was planned for the revision of the state; the
  evidence resolves to different items of the state, the artifacts to different ones; the review target is the
  candidate under review, with all the evidence this candidate needs, and the evaluation under review is of another
  job; and a direct job starts without a candidate.
\<close>

definition job_references_fit :: "job_spec \<Rightarrow> job_inputs \<Rightarrow> diagnosis_state \<Rightarrow> bool" where
  "job_references_fit spec i s \<longleftrightarrow>
     js_target_state_revision spec = ds_revision s \<and>
     (case mapE (resolve_planned_resource_binding (bi_existing_evidence_ids i) (bi_evidence_ids i))
             (js_evidence_bindings spec) of
        Inl e \<Rightarrow> False
      | Inr requested \<Rightarrow>
          distinct requested \<and> set requested \<subseteq> set (ds_evidence_refs s) \<and> review_ready spec i s requested) \<and>
     (case mapE (resolve_planned_resource_binding (bi_existing_artifact_ids i) (bi_artifact_ids i))
             (js_artifact_bindings spec) of
        Inl e \<Rightarrow> False | Inr artifacts \<Rightarrow> distinct artifacts) \<and>
     (spec_direct spec \<longrightarrow> ds_candidate_conclusion s = None)"

lemma generic_no_evidence:
  "valid_job_spec spec \<Longrightarrow> js_diagnosis_mode spec = Some DM_GENERIC \<Longrightarrow> js_evidence_bindings spec = []"
  by (auto simp: valid_job_spec_def valid_spec_mode_def split: job_type.splits)

lemma filter_all_requested:
  assumes "distinct xs" "distinct requested" "set requested \<subseteq> set xs"
  shows "set (filter (\<lambda>r. r \<in> set requested) xs) = set requested"
    "length (filter (\<lambda>r. r \<in> set requested) xs) = length requested"
proof -
  show "set (filter (\<lambda>r. r \<in> set requested) xs) = set requested" using assms(3) by auto
  then show "length (filter (\<lambda>r. r \<in> set requested) xs) = length requested"
    using assms(1,2) by (metis distinct_card distinct_filter)
qed

text \<open>What the evidence of a built job is.\<close>

definition job_evidence :: "job_spec \<Rightarrow> diagnosis_state \<Rightarrow> opaque_id list \<Rightarrow> opaque_id list" where
  "job_evidence spec s requested =
     (if js_diagnosis_mode spec = Some DM_GENERIC then [] else filter (\<lambda>r. r \<in> set requested) (ds_evidence_refs s))"

lemma fitting_job_built:
  assumes spec: "valid_job_spec spec" and s: "valid_diagnosis_state env s" and fit: "job_references_fit spec i s"
  shows "\<exists>j requested.
    mapE (resolve_planned_resource_binding (bi_existing_evidence_ids i) (bi_evidence_ids i))
      (js_evidence_bindings spec) = Inr requested \<and>
    build_job env (project env) spec i s = Inr j \<and> valid_job env j \<and> jb_status j = JS_PENDING \<and>
    jb_evidence_refs j = job_evidence spec s requested \<and> set (jb_evidence_refs j) = set requested"
proof -
  let ?generic = "js_diagnosis_mode spec = Some DM_GENERIC"
  let ?x = "if ?generic then None else Some (context_of_state s)"
  obtain requested artifacts where r: "js_target_state_revision spec = ds_revision s"
    and ev: "mapE (resolve_planned_resource_binding (bi_existing_evidence_ids i) (bi_evidence_ids i))
       (js_evidence_bindings spec) = Inr requested" "distinct requested" "set requested \<subseteq> set (ds_evidence_refs s)"
    and ready: "review_ready spec i s requested"
    and ar: "mapE (resolve_planned_resource_binding (bi_existing_artifact_ids i) (bi_artifact_ids i))
       (js_artifact_bindings spec) = Inr artifacts" "distinct artifacts"
    and direct: "spec_direct spec \<Longrightarrow> ds_candidate_conclusion s = None"
    using fit by (auto simp: job_references_fit_def split: sum.splits)
  obtain target where rt: "resolved_review_target spec i = Inr target"
    using ready by (cases "js_review_target_binding spec")
      (auto simp: review_ready_def resolved_review_target_def split: sum.splits option.splits)
  let ?e = "job_evidence spec s requested"
  let ?j = "pending_job spec i ?x ?e artifacts target"
  have none: "js_evidence_bindings spec = [] \<Longrightarrow> requested = []" "js_artifact_bindings spec = [] \<Longrightarrow> artifacts = []"
    using ev(1) ar(1) by auto
  have valid: "valid_job env ?j"
    by (rule pending_job_valid [OF spec s r ev(3) none(1) ar(2) none(2) rt ready direct refl job_evidence_def])
  have gen: "?generic \<Longrightarrow> requested = []" using generic_no_evidence [OF spec] none(1) by blast
  have dist: "distinct (ds_evidence_refs s)"
    using s by (simp add: valid_diagnosis_state_def valid_state_evidence_def)
  note all = filter_all_requested [OF dist ev(2,3)]
  have snap: "projected_snapshot (project env) spec s = Inr ?x"
    using s r by (auto simp: projected_snapshot_def project_def Let_def ensure_def)
  have "build_job env (project env) spec i s = Inr ?j"
    unfolding build_job_def Let_def
    using r snap ev(1,2) ar(1) rt valid all(2) gen by (cases ?generic) (auto simp: job_evidence_def)
  moreover have "set ?e = set requested" using all(1) gen by (auto simp: job_evidence_def)
  ultimately show ?thesis using ev(1) valid by (intro exI [of _ ?j] exI [of _ requested]) (auto simp: pending_job_def)
qed

text \<open>A specification whose references do not fit is refused.\<close>

lemma filter_length_subset:
  assumes "distinct xs" "distinct requested" "length (filter (\<lambda>r. r \<in> set requested) xs) = length requested"
  shows "set requested \<subseteq> set xs"
proof -
  let ?kept = "filter (\<lambda>r. r \<in> set requested) xs"
  have "card (set ?kept) = card (set requested)"
    using assms by (metis distinct_card distinct_filter)
  then have "set ?kept = set requested" by (intro card_subset_eq) auto
  then show ?thesis by auto
qed

lemma built_job_fits:
  assumes spec: "valid_job_spec spec" and s: "valid_diagnosis_state env s"
    and built: "build_job env (project env) spec i s = Inr j"
  shows "job_references_fit spec i s"
proof -
  let ?generic = "js_diagnosis_mode spec = Some DM_GENERIC"
  let ?x = "if ?generic then None else Some (context_of_state s)"
  have dist: "distinct (ds_evidence_refs s)"
    using s by (simp add: valid_diagnosis_state_def valid_state_evidence_def)
  have r: "js_target_state_revision spec = ds_revision s" using built by (simp add: build_job_def split: if_splits)
  have snap: "projected_snapshot (project env) spec s = Inr ?x"
    using s r by (auto simp: projected_snapshot_def project_def Let_def ensure_def)
  obtain requested artifacts target where
    ev: "mapE (resolve_planned_resource_binding (bi_existing_evidence_ids i) (bi_evidence_ids i))
       (js_evidence_bindings spec) = Inr requested" "distinct requested"
    and len: "length (job_evidence spec s requested) = length requested"
    and ar: "mapE (resolve_planned_resource_binding (bi_existing_artifact_ids i) (bi_artifact_ids i))
       (js_artifact_bindings spec) = Inr artifacts"
    and rt: "resolved_review_target spec i = Inr target"
    and j: "j = pending_job spec i ?x (job_evidence spec s requested) artifacts target" and valid: "valid_job env j"
    using built snap
    by (cases ?generic) (auto simp: build_job_def Let_def bindE_Inr job_evidence_def split: if_splits)
  have sub: "set requested \<subseteq> set (ds_evidence_refs s)"
    using len filter_length_subset [OF dist ev(2)] by (auto simp: job_evidence_def split: if_splits)
  have ad: "distinct artifacts"
    using valid by (simp add: j valid_job_def valid_job_resources_def pending_job_def)
  have rv: "valid_job_review j" using valid by (simp add: valid_job_def)
  have spec_rv: "valid_spec_review spec" using spec by (simp add: valid_job_spec_def)
  have target: "js_review_target_binding spec = None \<longleftrightarrow> target = None"
    using rt by (auto simp: resolved_review_target_def bindE_Inr split: option.splits)
  have ready: "review_ready spec i s requested"
  proof (cases "js_job_type spec = JT_REVIEW")
    case False
    then show ?thesis using spec_rv by (simp add: valid_spec_review_def review_ready_def)
  next
    case True
    have ng: "\<not> ?generic"
      using True spec by (auto simp: valid_job_spec_def valid_spec_mode_def)
    have in_requested: "r \<in> set (job_evidence spec s requested) \<Longrightarrow> r \<in> set requested" for r
      by (simp add: job_evidence_def split: if_splits)
    show ?thesis
    proof (cases "js_methods_review_target spec")
      case None
      then show ?thesis
        using True rv ng rt target in_requested
        by (cases target; cases "ds_candidate_conclusion s")
          (auto simp: j valid_job_review_def pending_job_def review_ready_def target_matches_def candidate_target_of_def
            list_all_iff)
    next
      case (Some m)
      then show ?thesis using True rv spec_rv ng
        by (simp add: j valid_job_review_def pending_job_def review_ready_def valid_spec_review_def)
    qed
  qed
  have direct: "ds_candidate_conclusion s = None" if d: "spec_direct spec"
  proof -
    have ng: "\<not> ?generic" using d by (auto simp: spec_direct_def is_specialized_direct_def)
    have "ref_id (jb_output_contract_ref j) = direct_output_contract_id"
      using d by (simp add: j pending_job_def spec_direct_def is_specialized_direct_def)
    then have "\<not> (case jb_context_snapshot j of None \<Rightarrow> False | Some x \<Rightarrow> cx_candidate_conclusion x \<noteq> None)"
      using valid by (simp add: valid_job_def valid_direct_bindings_def)
    then show ?thesis using ng by (simp add: j pending_job_def)
  qed
  show ?thesis using r ev sub ready ar ad direct by (simp add: job_references_fit_def)
qed

text \<open>Every refusal is a \<open>ValueError\<close>.\<close>

lemma mapE_Inl: "mapE f xs = Inl e \<Longrightarrow> \<exists>x \<in> set xs. f x = Inl e"
  by (induction xs) (auto simp: bindE_Inl)

lemma resolve_planned_Inl: "resolve_planned_resource_binding ex ids b = Inl e \<Longrightarrow> e = ValueError"
  by (cases b) (auto simp: ensure_def require_key_def split: if_splits option.splits)

lemma build_job_Inl:
  assumes "build_job env (project env) spec i s = Inl e"
  shows "e = ValueError"
proof -
  have "resolved_review_target spec i = Inl x \<Longrightarrow> x = ValueError" for x
    by (cases "js_review_target_binding spec"; cases "the (js_review_target_binding spec)")
      (auto simp: resolved_review_target_def bindE_Inl ensure_def require_key_def split: if_splits option.splits)
  then show ?thesis
    using assms
    by (auto simp: build_job_def projected_snapshot_def project_def ensure_def Let_def bindE_Inl
        dest!: mapE_Inl resolve_planned_Inl split: if_splits)
qed

section \<open>A resumed job\<close>

lemma resume_spec:
  assumes "resume_interrupted env sn t = Ok p" and "tp_next_job_spec p = Some spec"
  obtains source where "sn_resume_source_job sn = Some source"
    "spec = spec_from_bindings (jb_job_type source) (runtime_from_job source) (resume_args sn source)"
  using assms
  by (auto simp: resume_interrupted_def runtime_bindings_of_job_def Let_def bindC_Ok guardC_Ok
      dest!: job_spec_Ok split: if_splits trigger_payload.splits option.splits)

lemma resolve_existing_bindings:
  "mapE (resolve_planned_resource_binding ex ids) (existing_bindings refs) = Inr out \<Longrightarrow> out = refs"
  by (induction refs arbitrary: out) (auto simp: existing_bindings_def bindE_Inr)

lemma built_fields:
  assumes "build_job env projector spec i s = Inr j"
  obtains x e artifacts target where "j = pending_job spec i x e artifacts target" "valid_job env j"
    "mapE (resolve_planned_resource_binding (bi_existing_artifact_ids i) (bi_artifact_ids i))
       (js_artifact_bindings spec) = Inr artifacts"
    "resolved_review_target spec i = Inr target"
  using assms by (auto simp: build_job_def Let_def bindE_Inr split: if_splits)

text \<open>What a job execution depends on beside the state: the frozen bindings, the inputs and the
  review target.\<close>

definition same_work :: "job \<Rightarrow> job \<Rightarrow> bool" where
  "same_work j k \<longleftrightarrow>
     jb_job_type j = jb_job_type k \<and> runtime_from_job j = runtime_from_job k \<and> jb_goal j = jb_goal k \<and>
     set (jb_evidence_refs j) = set (jb_evidence_refs k) \<and>
     jb_attachment_refs j = jb_attachment_refs k \<and>
     jb_previous_outcome_refs j = jb_previous_outcome_refs k \<and>
     jb_artifact_refs j = jb_artifact_refs k \<and> jb_review_target j = jb_review_target k \<and>
     jb_methods_review_target j = jb_methods_review_target k \<and>
     jb_generic_problem_text j = jb_generic_problem_text k \<and>
     jb_generic_product_line j = jb_generic_product_line k \<and>
     jb_generic_log_archive_expected j = jb_generic_log_archive_expected k \<and>
     jb_generic_supplement_texts j = jb_generic_supplement_texts k \<and>
     jb_continuation_context j = jb_continuation_context k"

end
