(* ===== verification/Coordinator_Errors.thy ===== *)
theory Coordinator_Errors
  imports Coordinator_Shape
begin

text \<open>
  The error channel of the coordinator: which codes a handler may return, that none is retryable,
  and that the control triggers never let an exception escape.
\<close>

section \<open>Codes of the shared helpers\<close>

definition error_in :: "error_code set \<Rightarrow> application_error \<Rightarrow> bool" where
  "error_in S e \<longleftrightarrow> ae_code e \<in> S \<and> \<not> ae_retryable e"

lemma error_in_mono: "error_in S e \<Longrightarrow> S \<subseteq> S' \<Longrightarrow> error_in S' e"
  by (auto simp: error_in_def)

lemma error_in_simps [simp]:
  "error_in S (app_error c m ds) \<longleftrightarrow> c \<in> S"
  "error_in S (invalid_state st tt) \<longleftrightarrow> EC_INVALID_CASE_STATE \<in> S"
  "error_in S (validation m) \<longleftrightarrow> EC_VALIDATION_ERROR \<in> S"
  "error_in S (validation_at m f x a) \<longleftrightarrow> EC_VALIDATION_ERROR \<in> S"
  by (simp_all add: error_in_def)

abbreviation "val_codes \<equiv> {EC_VALIDATION_ERROR}"
abbreviation "new_codes \<equiv> {EC_VALIDATION_ERROR, EC_NEW_CASE_REQUIRED}"
abbreviation "state_codes \<equiv> {EC_VALIDATION_ERROR, EC_INVALID_CASE_STATE}"

lemmas error_rules = bindC_AppErr guardC_AppErr Let_def

lemma active_job_for_error: "active_job_for sn t jt js = AppErr e \<Longrightarrow> error_in state_codes e"
  by (auto simp: active_job_for_def Let_def split: if_splits option.splits)

lemma job_spec_error_code: "job_spec_error jt b a = Some e \<Longrightarrow> error_in val_codes e"
  by (auto simp: job_spec_error_def split: if_splits)

lemma job_spec_code: "job_spec t jt a = AppErr e \<Longrightarrow> error_in val_codes e"
  by (auto simp: job_spec_def error_rules dest: job_spec_error_code split: option.splits if_splits)

lemma failure_plan_code: "failure_plan env j f t src disp = AppErr e \<Longrightarrow> error_in val_codes e"
  by (auto simp: failure_plan_def Let_def split: if_splits)

lemma validate_active_outcome_code: "validate_active_outcome a oc = AppErr e \<Longrightarrow> error_in val_codes e"
  by (auto simp: validate_active_outcome_def split: if_splits sum.splits exn.splits)

lemma failed_outcome_code: "failed_outcome_plan env a oc t = AppErr e \<Longrightarrow> error_in val_codes e"
  by (auto simp: failed_outcome_plan_def dest: failure_plan_code split: option.splits)

lemma methods_terminal_code: "methods_terminal_plan env sn a oc t = AppErr e \<Longrightarrow> error_in val_codes e"
  by (auto simp: methods_terminal_plan_def error_rules dest: failure_plan_code
      split: option.splits if_splits)

lemma on_active_outcome_error:
  assumes "on_active_outcome sn t jt decide = AppErr e"
  obtains (guard) "error_in state_codes e"
    | (decide) a oc where "decide a oc = AppErr e"
  using assms
  by (auto simp: on_active_outcome_def error_rules split: option.splits
      dest!: active_job_for_error validate_active_outcome_code intro: error_in_mono)

section \<open>Codes of the delta normalization\<close>

lemma normalize_patch_code: "normalize_patch s q = AppErr e \<Longrightarrow> error_in {EC_NEW_CASE_REQUIRED} e"
  by (auto simp: normalize_patch_def Let_def split: option.splits sum.splits if_splits)

lemma delta_target_code: "delta_target_error s d = Some e \<Longrightarrow> error_in val_codes e"
  by (auto simp: delta_target_error_def split: if_splits)

lemma validate_supersedes_code: "validate_supersedes is ds = Some e \<Longrightarrow> error_in val_codes e"
  by (auto simp: validate_supersedes_def Let_def split: if_splits)

lemma new_requirements_code: "validate_new_requirements s a rs = Some e \<Longrightarrow> error_in new_codes e"
  by (auto simp: validate_new_requirements_def split: if_splits)

lemma evidence_bindings_code: "validate_evidence_bindings s bs ps as = Some e \<Longrightarrow> error_in val_codes e"
  by (auto simp: validate_evidence_bindings_def evidence_binding_error_def dest!: first_error_Some
      split: evidence_binding.splits option.splits if_splits)

lemma normalize_delta_code: "normalize_delta s a oc d x = AppErr e \<Longrightarrow> error_in new_codes e"
  by (auto simp: normalize_delta_def error_rules split: prod.splits if_splits
      dest!: normalize_patch_code delta_target_code validate_supersedes_code evidence_bindings_code
      dest: new_requirements_code elim!: error_in_mono)

lemma requested_requirements_code:
  "validate_requested_requirements s a d rs k = Some e \<Longrightarrow> error_in val_codes e"
  by (auto simp: validate_requested_requirements_def Let_def split: if_splits)

lemma validate_candidate_code: "validate_candidate s d c oc = Some e \<Longrightarrow> error_in val_codes e"
  by (auto simp: validate_candidate_def split: if_splits)

section \<open>Codes of the handlers\<close>

lemma create_case_code:
  "create_case env sn t = AppErr e \<Longrightarrow>
     error_in {EC_INVALID_CASE_STATE, EC_ACTIVE_JOB_EXISTS, EC_VALIDATION_ERROR} e"
  by (auto simp: create_case_def error_rules split: if_splits trigger_payload.splits
      dest!: job_spec_code intro: error_in_mono)

lemma route_decided_code: "route_decided env sn t a oc = AppErr e \<Longrightarrow> error_in val_codes e"
  by (auto simp: route_decided_def route_no_capability_def route_matched_def error_rules
      dest: failed_outcome_code job_spec_code
      split: if_splits option.splits outcome_payload.splits)

lemma specialized_diagnosis_code:
  "specialized_diagnosis env sn t a oc d = AppErr e \<Longrightarrow> error_in new_codes e"
  by (auto simp: specialized_diagnosis_def inconclusive_plan_def reroute_plan_def progress_plan_def
      candidate_plan_def candidate_review_job_def diagnosis_request_plan_def diagnosis_wait_plan_def
      error_rules split: if_splits option.splits prod.splits requirement_kind.splits
      dest: normalize_delta_code
      dest!: job_spec_code validate_candidate_code requested_requirements_code
      elim!: error_in_mono)

lemma generic_delivery_code: "generic_delivery env t a oc = AppErr e \<Longrightarrow> error_in val_codes e"
  by (auto simp: generic_delivery_def Let_def split: if_splits option.splits outcome_payload.splits)

lemma diagnosis_decided_code: "diagnosis_decided env sn t a oc = AppErr e \<Longrightarrow> error_in new_codes e"
  by (auto simp: diagnosis_decided_def split: if_splits option.splits outcome_payload.splits
      dest: specialized_diagnosis_code
      dest!: generic_delivery_code methods_terminal_code failed_outcome_code elim!: error_in_mono)

lemma review_decided_code: "review_decided env sn t a oc = AppErr e \<Longrightarrow> error_in val_codes e"
  by (auto simp: review_decided_def review_assessed_def review_decision_def review_unresolved_plan_def
      Let_def dest: failed_outcome_code methods_terminal_code
      split: if_splits option.splits outcome_payload.splits review_verdict.splits)

lemma fulfill_fact_code: "fulfill_fact env s i = AppErr e \<Longrightarrow> error_in val_codes e"
  by (auto simp: fulfill_fact_def input_constraint_error_def error_rules
      split: if_splits option.splits requirement_constraints.splits)

lemma fulfill_facts_code: "fulfill_facts env s is = AppErr e \<Longrightarrow> error_in val_codes e"
  by (induction "is") (auto simp: error_rules dest: fulfill_fact_code)

lemma fulfill_attachments_code: "fulfill_attachments s r = AppErr e \<Longrightarrow> error_in val_codes e"
  by (auto simp: fulfill_attachments_def Let_def
      split: if_splits list.splits requirement_constraints.splits)

lemma supplement_next_job_code: "supplement_next_job sn t p = AppErr e \<Longrightarrow> error_in val_codes e"
  by (auto simp: supplement_next_job_def Let_def dest: job_spec_code split: if_splits option.splits)

lemma fixed_fact_code: "first_error (fixed_fact_error s) is = Some e \<Longrightarrow> error_in {EC_NEW_CASE_REQUIRED} e"
  by (auto simp: fixed_fact_error_def Let_def dest!: first_error_Some split: if_splits)

lemma accept_supplement_code: "accept_supplement env sn t p = AppErr e \<Longrightarrow> error_in new_codes e"
  by (auto simp: accept_supplement_def supplement_wait_plan_def error_rules split: if_splits
      dest!: fulfill_facts_code fulfill_attachments_code supplement_next_job_code fixed_fact_code
      elim!: error_in_mono)

lemma submit_supplement_code:
  "submit_supplement env sn t = AppErr e \<Longrightarrow>
     error_in {EC_INVALID_CASE_STATE, EC_ACTIVE_JOB_EXISTS, EC_NEW_CASE_REQUIRED, EC_VALIDATION_ERROR} e"
  by (auto simp: submit_supplement_def Let_def dest!: accept_supplement_code elim!: error_in_mono
      split: if_splits trigger_payload.splits)

lemma restart_code: "restart_generic_diagnosis env sn t = AppErr e \<Longrightarrow> error_in state_codes e"
  by (auto simp: restart_generic_diagnosis_def restart_expected_bindings_def
      runtime_bindings_of_job_def error_rules dest!: job_spec_code elim!: error_in_mono
      split: if_splits trigger_payload.splits option.splits)

lemma resume_review_code: "resume_review_error sn j = Some e \<Longrightarrow> error_in val_codes e"
  by (auto simp: resume_review_error_def Let_def split: if_splits option.splits)

lemma resume_code:
  "resume_interrupted env sn t = AppErr e \<Longrightarrow>
     error_in {EC_INVALID_CASE_STATE, EC_ACTIVE_JOB_EXISTS, EC_VALIDATION_ERROR} e"
  by (auto simp: resume_interrupted_def runtime_bindings_of_job_def error_rules
      dest!: job_spec_code resume_review_code elim!: error_in_mono
      split: if_splits trigger_payload.splits option.splits)

lemma control_code:
  "cancel_case env sn t = AppErr e \<Longrightarrow> error_in state_codes e"
  "execution_failed env sn t = AppErr e \<Longrightarrow> error_in state_codes e"
  "asset_unavailable env sn t = AppErr e \<Longrightarrow> error_in state_codes e"
  "old_epoch env sn t = AppErr e \<Longrightarrow> error_in state_codes e"
  "stale_active_outcome env sn t = AppErr e \<Longrightarrow> error_in state_codes e"
  by (auto simp: cancel_case_def execution_failed_def asset_unavailable_def old_epoch_def
      stale_active_outcome_def interrupt_plan_def Let_def dest!: failure_plan_code
      elim!: error_in_mono split: if_splits trigger_payload.splits option.splits)

lemma outcome_code:
  "route_outcome env sn t = AppErr e \<Longrightarrow> error_in state_codes e"
  "review_outcome env sn t = AppErr e \<Longrightarrow> error_in state_codes e"
  "diagnosis_outcome env sn t = AppErr e \<Longrightarrow>
     error_in {EC_INVALID_CASE_STATE, EC_NEW_CASE_REQUIRED, EC_VALIDATION_ERROR} e"
  unfolding route_outcome_def review_outcome_def diagnosis_outcome_def
  by (auto elim!: on_active_outcome_error error_in_mono
      dest!: route_decided_code review_decided_code diagnosis_decided_code)

lemma handler_code:
  "handler env tt sn t = AppErr e \<Longrightarrow> error_in (set (coordinator_plan_error_codes tt)) e"
  by (cases tt)
    (auto simp: handler_def elim!: error_in_mono dest!: create_case_code outcome_code
      submit_supplement_code restart_code resume_code control_code)

section \<open>The result channel\<close>

lemma plan_guard_code:
  assumes "plan_guard sn t = Some e" and "tr_trigger_type t = trigger_payload_type (tr_payload t)"
  shows "error_in (set (coordinator_plan_error_codes (tr_trigger_type t))) e \<and>
    (stable_target_changed t \<longrightarrow> ae_code e = EC_NEW_CASE_REQUIRED)"
proof -
  have "EC_VALIDATION_ERROR \<in> set (coordinator_plan_error_codes tt)" for tt by (cases tt) auto
  with assms show ?thesis
    by (auto simp: plan_guard_def stable_target_changed_def split: if_splits trigger_payload.splits)
qed

text \<open>For a trigger whose payload has its own type, the final check of the coordinator never
  objects: it returns what the guards and the handler produced.\<close>

lemma plan_transparent:
  assumes "tr_trigger_type t = trigger_payload_type (tr_payload t)"
  shows "plan env sn t = guardC (plan_guard sn t) (handler env (tr_trigger_type t) sn t)"
proof (cases "plan_guard sn t")
  case None
  then have "\<not> stable_target_changed t" by (auto simp: plan_guard_def split: if_splits)
  with None handler_code [of env "tr_trigger_type t" sn t] show ?thesis
    by (cases "handler env (tr_trigger_type t) sn t")
      (auto simp: plan_def validate_coordinator_plan_result_def error_in_def)
next
  case (Some e)
  with plan_guard_code [OF Some assms] show ?thesis
    by (auto simp: plan_def validate_coordinator_plan_result_def error_in_def)
qed

text \<open>The failure and control triggers build plans that always pass their validator.\<close>

lemma failure_plan_no_Raise [simp]: "failure_plan env j f t src disp \<noteq> Raise x"
  by (auto simp: failure_plan_def mk_plan_def valid_plan_defs Let_def base_plan_def)

lemma interrupt_plan_no_Raise [simp]: "interrupt_plan env j t disp reason \<noteq> Raise x"
  by (auto simp: interrupt_plan_def mk_plan_def valid_plan_defs base_plan_def)

definition control_trigger :: "trigger_type \<Rightarrow> bool" where
  "control_trigger tt \<longleftrightarrow> tt \<in> {TT_CANCEL_CASE, TT_EXECUTION_FAILED, TT_ASSET_VERSION_UNAVAILABLE,
     TT_MARK_OLD_EPOCH_INTERRUPTED, TT_STALE_ACTIVE_OUTCOME}"

lemma control_handlers_no_Raise:
  assumes "control_trigger (trigger_payload_type (tr_payload t))"
  shows "handler env (trigger_payload_type (tr_payload t)) sn t \<noteq> Raise x"
  using assms
  by (cases "tr_payload t")
    (auto simp: control_trigger_def handler_def cancel_case_def execution_failed_def asset_unavailable_def
      old_epoch_def stale_active_outcome_def mk_plan_def valid_plan_defs base_plan_def Let_def
      split: if_splits option.splits)

lemma control_plan_no_Raise:
  assumes "tr_trigger_type t = trigger_payload_type (tr_payload t)" and "control_trigger (tr_trigger_type t)"
  shows "plan env sn t \<noteq> Raise x"
  using control_handlers_no_Raise [of t env sn x] assms
  by (cases "plan_guard sn t") (auto simp: plan_transparent)

end
