(* ===== verification/Case_Lifecycle.thy ===== *)
theory Case_Lifecycle
  imports Case_Application Coordinator_Errors
begin

text \<open>
  The life of a case as a state machine: one step plans a trigger with the coordinator and applies
  the plan with \<open>apply_transition_plan_to_case\<close>; a run is a sequence of steps. Invariants of runs
  are proved by rule induction.
\<close>

section \<open>Steps and runs\<close>

inductive case_step :: "py_env \<Rightarrow> case_t \<Rightarrow> trigger \<Rightarrow> case_t \<Rightarrow> bool" for env where
  step: "sn_case sn = c \<Longrightarrow> plan env sn t = Ok p \<Longrightarrow>
    apply_transition_plan_to_case env c p target created at unresolved generic_v2 = Inr c' \<Longrightarrow>
    case_step env c t c'"

inductive case_run :: "py_env \<Rightarrow> case_t \<Rightarrow> trigger list \<Rightarrow> case_t \<Rightarrow> bool" for env where
  run_Nil: "case_run env c [] c"
| run_Cons: "case_step env c t c1 \<Longrightarrow> case_run env c1 ts c2 \<Longrightarrow> case_run env c (t # ts) c2"

inductive_cases case_run_NilE: "case_run env c [] c'"
inductive_cases case_run_ConsE: "case_run env c (t # ts) c'"

lemma applied_fields:
  assumes "apply_transition_plan_to_case env c p target created at unresolved generic_v2 = Inr c'"
  shows "valid_case env c'" "cs_status c' = tp_target_case_status p"
    "cs_case_revision c' = cs_case_revision c + 1" "cs_case_id c' = cs_case_id c"
    "cs_raw_problem_text c' = cs_raw_problem_text c" "cs_created_at c' = cs_created_at c"
    "cs_diagnosis_state c' = target"
  using assms
  by (auto simp: apply_transition_plan_to_case_def Let_def bindE_Inr split: if_splits)

lemma case_step_lifecycle:
  assumes "case_step env c t c'"
  shows "lifecycle (cs_status c) (tr_trigger_type t) (cs_status c')"
  using assms
proof cases
  case (step sn p target created at unresolved generic_v2)
  then show ?thesis
    using domain_coordinator.planned_shape [of env sn t p] applied_fields(2) by (simp add: plan_shape_def)
qed

lemma case_step_valid: "case_step env c t c' \<Longrightarrow> valid_case env c'"
  by (auto elim!: case_step.cases dest: applied_fields)

lemma case_step_revision: "case_step env c t c' \<Longrightarrow> cs_case_revision c' = cs_case_revision c + 1"
  by (auto elim!: case_step.cases dest: applied_fields)

lemma case_step_identity:
  "case_step env c t c' \<Longrightarrow> cs_case_id c' = cs_case_id c \<and> cs_raw_problem_text c' = cs_raw_problem_text c \<and>
     cs_created_at c' = cs_created_at c"
  by (auto elim!: case_step.cases dest: applied_fields)

lemma terminal_no_step: "terminal_status (cs_status c) \<Longrightarrow> \<not> case_step env c t c'"
  using case_step_lifecycle lifecycle_not_terminal by blast

section \<open>Invariants of runs\<close>

lemma run_revision: "case_run env c ts c' \<Longrightarrow> cs_case_revision c' = cs_case_revision c + int (length ts)"
  by (induction rule: case_run.induct) (auto dest: case_step_revision)

lemma run_valid: "case_run env c ts c' \<Longrightarrow> valid_case env c \<Longrightarrow> valid_case env c'"
  by (induction rule: case_run.induct) (auto dest: case_step_valid)

lemma run_identity:
  "case_run env c ts c' \<Longrightarrow> cs_case_id c' = cs_case_id c \<and> cs_raw_problem_text c' = cs_raw_problem_text c \<and>
     cs_created_at c' = cs_created_at c"
  by (induction rule: case_run.induct) (auto dest: case_step_identity)

lemma run_from_terminal: "case_run env c ts c' \<Longrightarrow> terminal_status (cs_status c) \<Longrightarrow> ts = [] \<and> c' = c"
  by (induction rule: case_run.induct) (auto dest: terminal_no_step)

text \<open>Only an interrupted job can be resumed, and a review starts from a running diagnosis or from
  an interrupted review: the predecessors of a status.\<close>

definition predecessors :: "case_status \<Rightarrow> case_status set" where
  "predecessors st = {w. \<exists>tt. lifecycle w tt st}"

lemma predecessors_reviewing: "predecessors CS_REVIEWING = {CS_RUNNING, CS_INTERRUPTED}"
proof -
  have "lifecycle w tt CS_REVIEWING \<longleftrightarrow>
      w = CS_RUNNING \<and> tt = TT_DIAGNOSIS_OUTCOME \<or> w = CS_INTERRUPTED \<and> tt = TT_RESUME_INTERRUPTED" for w tt
    by (cases tt) (auto simp: lifecycle_from)
  then show ?thesis by (auto simp: predecessors_def)
qed

lemma create_only_first:
  assumes "case_run env c ts c'"
  shows "list_all (\<lambda>t. tr_trigger_type t \<noteq> TT_CREATE_CASE) (tl ts) \<and>
    (cs_status c \<noteq> CS_NEW \<longrightarrow> list_all (\<lambda>t. tr_trigger_type t \<noteq> TT_CREATE_CASE) ts)"
  using assms
proof (induction rule: case_run.induct)
  case (run_Cons c t c1 ts c2)
  note life = case_step_lifecycle [OF run_Cons.hyps(1)]
  have "cs_status c1 \<noteq> CS_NEW" using life by (auto elim: lifecycle.cases)
  moreover have "cs_status c \<noteq> CS_NEW \<Longrightarrow> tr_trigger_type t \<noteq> TT_CREATE_CASE"
    using life by (auto simp: lifecycle_from)
  ultimately show ?case using run_Cons.IH by auto
qed simp

end
