(* ===== verification/State_History.thy ===== *)
theory State_History
  imports Delta_Agreement
begin

text \<open>
  What every application of a delta keeps (\<open>apply_diagnosis_state_delta\<close>), whoever built the delta:
  the diagnosis state grows only at the end of its lists, an active hypothesis never disappears (it
  stays active or is recorded as rejected), an open question stays open unless the delta resolves it, the revision counts the changes, and the supersedes
  relation stays free of cycles.
\<close>

section \<open>The identity of an item\<close>

lemma mapE_from: "mapE f xs = Inr ys \<Longrightarrow> y \<in> set ys \<Longrightarrow> \<exists>x \<in> set xs. f x = Inr y"
  by (induction xs arbitrary: ys) (auto simp: bindE_Inr)

lemma mapE_onto: "mapE f xs = Inr ys \<Longrightarrow> x \<in> set xs \<Longrightarrow> \<exists>y \<in> set ys. f x = Inr y"
  by (induction xs arbitrary: ys) (auto simp: bindE_Inr)

text \<open>An update or a rejection keeps the id and the supersedes list of its item.\<close>

definition item_edge :: "diagnosis_item \<Rightarrow> opaque_id \<times> opaque_id list" where
  "item_edge i = (it_item_id i, it_supersedes i)"

lemma edges_ids: "it_item_id ` set xs = fst ` set (map item_edge xs)"
  by (simp add: image_image item_edge_def)

lemma changed_item_edge: "changed_item st ex ids i c = Inr j \<Longrightarrow> item_edge j = item_edge i"
  by (auto simp: changed_item_def bindE_Inr Let_def item_edge_def)

lemma draft_item_edge:
  "draft_item st r ex ids d = Inr i \<Longrightarrow> item_edge i = (dr_item_id d, sort (dr_supersedes d))"
  by (auto simp: draft_item_def bindE_Inr Let_def item_edge_def)

lemma update_hypotheses_edges:
  assumes "update_hypotheses ex ids (index_by it_item_id items) items' cs = Inr ys"
    and "map item_edge items' = map item_edge items"
  shows "map item_edge ys = map item_edge items"
  using assms
proof (induction cs arbitrary: items')
  case (Cons c cs)
  then obtain i item where i: "index_by it_item_id items (ch_item_id c) = Some i"
    and item: "changed_item DI_ACTIVE ex ids (items' ! i) c = Inr item"
    and rest: "update_hypotheses ex ids (index_by it_item_id items) (items'[i := item]) cs = Inr ys"
    by (auto simp: bindE_Inr require_key_def split: option.splits)
  have "i < length items'" using index_by_Some [OF i] Cons.prems(2) by (metis length_map)
  then have "map item_edge (items'[i := item]) = map item_edge items"
    using changed_item_edge [OF item] Cons.prems(2) by (metis list_update_id map_update nth_map)
  with Cons.IH [OF rest] show ?case by simp
qed simp

lemma reject_hypothesis_edge:
  assumes "reject_hypothesis ex ids (index_by it_item_id items) active c = Inr j"
    and "map item_edge active = map item_edge items"
  shows "item_edge j \<in> item_edge ` set items" and "it_item_id j = ch_item_id c"
proof -
  obtain i where i: "index_by it_item_id items (ch_item_id c) = Some i"
    and j: "changed_item DI_REJECTED ex ids (active ! i) c = Inr j"
    using assms(1) by (auto simp: reject_hypothesis_def bindE_Inr require_key_def split: option.splits)
  have len: "i < length items" "it_item_id (items ! i) = ch_item_id c" using index_by_Some [OF i] by simp_all
  have "item_edge j = item_edge (items ! i)"
    using changed_item_edge [OF j] assms(2) len(1) by (metis length_map nth_map)
  with len show "item_edge j \<in> item_edge ` set items" "it_item_id j = ch_item_id c"
    by (metis imageI nth_mem) (metis \<open>item_edge j = item_edge (items ! i)\<close> fst_conv item_edge_def len(2))
qed

section \<open>The parts of a provisional state\<close>

lemma provisional_parts:
  assumes "provisional_state env s d ids m cands = Inr z"
  obtains active rejected where "delta_identity_ok s d" "valid_diagnosis_state env z" "ds_revision z = ds_revision s"
    "ds_user_facts z = append_items (ds_user_facts s) (sd_add_user_facts d)"
    "apply_fact_drafts s ids d = Inr (ds_confirmed_facts z)"
    "apply_hypotheses s ids d = Inr (ds_active_hypotheses z, ds_rejected_hypotheses z)"
    "apply_questions s ids d = Inr (ds_open_questions z)"
    "apply_requirements s d = Inr (ds_pending_requirements z)"
    "prefix (ds_evidence_refs s) (ds_evidence_refs z)"
  using assms
  by (auto simp: provisional_state_def bindE_Inr Let_def merge_refs_def split: if_splits)

text \<open>The edges of a list of formalized drafts.\<close>

lemma drafted_edges:
  assumes "mapE (draft_item st r ex ids) ds = Inr xs"
  shows "item_edge ` set xs \<subseteq> (\<lambda>d. (dr_item_id d, sort (dr_supersedes d))) ` set ds"
proof (rule image_subsetI)
  fix i
  assume "i \<in> set xs"
  then obtain d where "d \<in> set ds" "item_edge i = (dr_item_id d, sort (dr_supersedes d))"
    using mapE_from [OF assms] draft_item_edge by metis
  then show "item_edge i \<in> (\<lambda>d. (dr_item_id d, sort (dr_supersedes d))) ` set ds" by blast
qed

lemma hypotheses_kept:
  assumes "apply_hypotheses s ids d = Inr (active, rejected)"
  shows "prefix (ds_rejected_hypotheses s) rejected"
    and "it_item_id ` set (ds_active_hypotheses s) \<subseteq> it_item_id ` set active \<union> it_item_id ` set rejected"
    and "item_edge ` set (active @ rejected) \<subseteq> item_edge ` set (ds_active_hypotheses s @ ds_rejected_hypotheses s) \<union>
      (\<lambda>d. (dr_item_id d, sort (dr_supersedes d))) ` set (sd_add_active_hypotheses d)"
proof -
  let ?act = "ds_active_hypotheses s"
  let ?gone = "ch_item_id ` set (sd_reject_hypotheses d)"
  obtain updated rej added where
    u: "update_hypotheses (ds_evidence_refs s) ids (index_by it_item_id ?act) ?act (sd_update_hypotheses d) = Inr updated"
    and r: "mapE (reject_hypothesis (ds_evidence_refs s) ids (index_by it_item_id ?act) updated)
       (sd_reject_hypotheses d) = Inr rej"
    and a: "mapE (draft_item DI_ACTIVE (ds_revision s + 1) (ds_evidence_refs s) ids) (sd_add_active_hypotheses d) = Inr added"
    and active: "active = append_items (filter (\<lambda>i. it_item_id i \<notin> ?gone) updated) added"
    and rejected: "rejected = append_items (ds_rejected_hypotheses s) rej"
    using assms by (auto simp: apply_hypotheses_def bindE_Inr Let_def)
  have up: "map item_edge updated = map item_edge ?act" by (rule update_hypotheses_edges [OF u refl])
  then have up_set: "item_edge ` set updated = item_edge ` set ?act" by (metis set_map)
  then have up_ids: "it_item_id ` set updated = it_item_id ` set ?act"
    using up edges_ids [of updated] edges_ids [of ?act] by simp
  have rej: "item_edge j \<in> item_edge ` set ?act" if "j \<in> set rej" for j
    using mapE_from [OF r that] reject_hypothesis_edge(1) [OF _ up] by blast
  have gone: "?gone \<subseteq> it_item_id ` set rej"
  proof
    fix k
    assume "k \<in> ?gone"
    then obtain c where c: "c \<in> set (sd_reject_hypotheses d)" "k = ch_item_id c" by blast
    then show "k \<in> it_item_id ` set rej"
      using mapE_onto [OF r c(1)] reject_hypothesis_edge(2) [OF _ up] by (metis imageI)
  qed
  show "prefix (ds_rejected_hypotheses s) rejected" by (simp add: rejected append_items_def)
  show "it_item_id ` set ?act \<subseteq> it_item_id ` set active \<union> it_item_id ` set rejected"
  proof
    fix k
    assume "k \<in> it_item_id ` set ?act"
    then obtain x where x: "x \<in> set updated" "k = it_item_id x" using up_ids by blast
    show "k \<in> it_item_id ` set active \<union> it_item_id ` set rejected"
    proof (cases "k \<in> ?gone")
      case True
      with gone show ?thesis by (auto simp: rejected image_Un)
    next
      case False
      with x show ?thesis by (auto simp: active image_Un)
    qed
  qed
  show "item_edge ` set (active @ rejected) \<subseteq> item_edge ` set (?act @ ds_rejected_hypotheses s) \<union>
      (\<lambda>d. (dr_item_id d, sort (dr_supersedes d))) ` set (sd_add_active_hypotheses d)"
    using drafted_edges [OF a] rej up_set by (auto simp: active rejected)
qed

section \<open>Append-only history\<close>

text \<open>The lists of a state only grow at their end, no hypothesis is lost, and exactly the questions the delta
  resolves are gone.\<close>

definition extends_history :: "state_delta \<Rightarrow> diagnosis_state \<Rightarrow> diagnosis_state \<Rightarrow> bool" where
  "extends_history d s z \<longleftrightarrow>
     prefix (ds_user_facts s) (ds_user_facts z) \<and> prefix (ds_confirmed_facts s) (ds_confirmed_facts z) \<and>
     prefix (ds_rejected_hypotheses s) (ds_rejected_hypotheses z) \<and>
     prefix (map rq_requirement_id (ds_pending_requirements s)) (map rq_requirement_id (ds_pending_requirements z)) \<and>
     prefix (ds_evidence_refs s) (ds_evidence_refs z) \<and>
     it_item_id ` set (ds_active_hypotheses s) \<subseteq>
       it_item_id ` set (ds_active_hypotheses z) \<union> it_item_id ` set (ds_rejected_hypotheses z) \<and>
     ch_item_id ` set (sd_resolve_questions d) \<subseteq> it_item_id ` set (ds_open_questions s) \<and>
     prefix (filter (\<lambda>q. it_item_id q \<notin> ch_item_id ` set (sd_resolve_questions d)) (ds_open_questions s))
       (ds_open_questions z)"

lemma fulfill_requirements_ids:
  assumes "fulfill_requirements (index_by rq_requirement_id reqs) reqs' fs = Inr zs"
    and "map rq_requirement_id reqs' = map rq_requirement_id reqs"
  shows "map rq_requirement_id zs = map rq_requirement_id reqs"
  using assms
proof (induction fs arbitrary: reqs')
  case (Cons f fs)
  then obtain i where i: "index_by rq_requirement_id reqs (rf_requirement_id f) = Some i"
    and rest: "fulfill_requirements (index_by rq_requirement_id reqs)
       (reqs'[i := fulfilled_requirement (reqs' ! i) (rf_fulfilled_by_refs f)]) fs = Inr zs"
    by (auto simp: bindE_Inr require_key_def Let_def split: option.splits if_splits)
  have "i < length reqs'" using index_by_Some [OF i] Cons.prems(2) by (metis length_map)
  then have "map rq_requirement_id (reqs'[i := fulfilled_requirement (reqs' ! i) (rf_fulfilled_by_refs f)]) =
      map rq_requirement_id reqs"
    using Cons.prems(2) by (simp add: map_update fulfilled_requirement_def) (metis list_update_id nth_map)
  with Cons.IH [OF rest] show ?case by simp
qed simp

lemma provisional_extends:
  assumes "provisional_state env s d ids m cands = Inr z"
  shows "extends_history d s z"
  using assms
proof (rule provisional_parts)
  assume facts: "ds_user_facts z = append_items (ds_user_facts s) (sd_add_user_facts d)"
    and drafts: "apply_fact_drafts s ids d = Inr (ds_confirmed_facts z)"
    and hyps: "apply_hypotheses s ids d = Inr (ds_active_hypotheses z, ds_rejected_hypotheses z)"
    and reqs: "apply_requirements s d = Inr (ds_pending_requirements z)"
    and quest: "apply_questions s ids d = Inr (ds_open_questions z)"
    and ev: "prefix (ds_evidence_refs s) (ds_evidence_refs z)"
  let ?left = "filter (\<lambda>q. it_item_id q \<notin> ch_item_id ` set (sd_resolve_questions d)) (ds_open_questions s)"
  obtain qs where known: "ch_item_id ` set (sd_resolve_questions d) \<subseteq> it_item_id ` set (ds_open_questions s)"
    and left: "append_items ?left qs = ds_open_questions z"
    using quest by (auto simp: apply_questions_def Let_def bindE_Inr split: if_splits)
  have kept: "prefix ?left (ds_open_questions z)" unfolding left [symmetric] by (simp add: append_items_def)
  obtain xs where "ds_confirmed_facts s @ sort_key it_item_id xs = ds_confirmed_facts z"
    using drafts by (auto simp: apply_fact_drafts_def append_items_def bindE_Inr split: if_splits)
  then have "prefix (ds_confirmed_facts s) (ds_confirmed_facts z)" by (metis prefixI)
  moreover have "prefix (map rq_requirement_id (ds_pending_requirements s)) (map rq_requirement_id (ds_pending_requirements z))"
  proof -
    obtain fulfilled where "fulfill_requirements (index_by rq_requirement_id (ds_pending_requirements s))
        (ds_pending_requirements s) (sd_fulfill_requirements d) = Inr fulfilled"
      and z: "fulfilled @ sd_add_pending_requirements d = ds_pending_requirements z"
      using reqs by (auto simp: apply_requirements_def bindE_Inr Let_def split: if_splits)
    then have "map rq_requirement_id fulfilled = map rq_requirement_id (ds_pending_requirements s)"
      using fulfill_requirements_ids by blast
    then show ?thesis unfolding z [symmetric] by simp
  qed
  ultimately show ?thesis
    using facts hypotheses_kept(1,2) [OF hyps] ev known kept by (simp add: extends_history_def append_items_def)
qed

lemma applied_delta_parts:
  assumes "apply_diagnosis_state_delta env s d ids m cands r = Inr s'"
  obtains z where "provisional_state env s d ids m cands = Inr z" "valid_diagnosis_state env s'"
    "s' = z\<lparr>ds_revision := ds_revision s'\<rparr>"
    "ds_revision s' = (if z \<noteq> s then ds_revision s + 1 else ds_revision s)"
  using assms by (auto simp: apply_diagnosis_state_delta_def bindE_Inr Let_def)

lemma applied_delta_extends:
  assumes "apply_diagnosis_state_delta env s d ids m cands r = Inr s'"
  shows "extends_history d s s'"
  using assms
proof (rule applied_delta_parts)
  fix z
  assume z: "provisional_state env s d ids m cands = Inr z" "s' = z\<lparr>ds_revision := ds_revision s'\<rparr>"
  then have "extends_history d s z" using provisional_extends by blast
  then have "extends_history d s (z\<lparr>ds_revision := ds_revision s'\<rparr>)" by (simp add: extends_history_def)
  then show ?thesis using z(2) by simp
qed

lemma applied_delta_revision:
  assumes "apply_diagnosis_state_delta env s d ids m cands r = Inr s'"
  shows "ds_revision s' = (if s' = s then ds_revision s else ds_revision s + 1)"
  using assms
proof (rule applied_delta_parts)
  fix z
  assume z: "provisional_state env s d ids m cands = Inr z" "s' = z\<lparr>ds_revision := ds_revision s'\<rparr>"
    "ds_revision s' = (if z \<noteq> s then ds_revision s + 1 else ds_revision s)"
  have "ds_revision z = ds_revision s" using z(1) by (rule provisional_parts)
  then have "s' = s" if "z = s" using z(2,3) that by simp
  moreover have "s' \<noteq> s" if "z \<noteq> s" using z(3) that by auto
  ultimately show ?thesis using z(3) by metis
qed

section \<open>Supersession stays acyclic\<close>

definition supersedes_acyclic :: "diagnosis_state \<Rightarrow> bool" where
  "supersedes_acyclic s \<longleftrightarrow> facyclic_check (supersedes_graph (state_items s) [])"

lemma item_graph_edges:
  assumes "distinct (map it_item_id items)"
  shows "(x, y) \<in> graph_edges (supersedes_graph items []) \<longleftrightarrow> (\<exists>ys. (x, ys) \<in> item_edge ` set items \<and> y \<in> set ys)"
proof -
  have "distinct (graph_keys (supersedes_graph items []))"
    using assms by (simp add: graph_keys_def supersedes_graph_def comp_def)
  then show ?thesis
    by (auto simp: graph_edges_def graph_get_distinct supersedes_graph_def item_edge_def)
qed

lemma union_parts:
  "\<lbrakk>u = U \<union> N; c \<subseteq> C \<union> F; h \<subseteq> H \<union> G; q \<subseteq> Q \<union> K\<rbrakk> \<Longrightarrow>
     u \<union> c \<union> h \<union> q \<subseteq> (U \<union> C \<union> H \<union> Q) \<union> N \<union> (F \<union> (G \<union> K))"
  by blast

text \<open>Every item of the new state has the id and the supersedes of an old item, of a new user fact or
  of a draft.\<close>

lemma provisional_edges:
  assumes "provisional_state env s d ids m cands = Inr z"
  shows "item_edge ` set (state_items z) \<subseteq> item_edge ` set (state_items s @ sd_add_user_facts d) \<union>
    (\<lambda>d. (dr_item_id d, sort (dr_supersedes d))) ` set (delta_drafts d)"
  using assms
proof (rule provisional_parts)
  let ?e = "\<lambda>d. (dr_item_id d, sort (dr_supersedes d))"
  assume facts: "ds_user_facts z = append_items (ds_user_facts s) (sd_add_user_facts d)"
    and drafts: "apply_fact_drafts s ids d = Inr (ds_confirmed_facts z)"
    and hyps: "apply_hypotheses s ids d = Inr (ds_active_hypotheses z, ds_rejected_hypotheses z)"
    and quest: "apply_questions s ids d = Inr (ds_open_questions z)"
  obtain xs where xs: "mapE (draft_item DI_ACTIVE (ds_revision s + 1) (ds_evidence_refs s) ids)
      (sd_proposed_facts d) = Inr xs" "ds_confirmed_facts z = append_items (ds_confirmed_facts s) xs"
    using drafts by (auto simp: apply_fact_drafts_def bindE_Inr split: if_splits)
  obtain qs where qs: "mapE (draft_item DI_ACTIVE (ds_revision s + 1) (ds_evidence_refs s) ids)
      (sd_add_open_questions d) = Inr qs"
    "ds_open_questions z = append_items (filter (\<lambda>i. it_item_id i \<notin> ch_item_id ` set (sd_resolve_questions d))
       (ds_open_questions s)) qs"
    using quest by (auto simp: apply_questions_def bindE_Inr Let_def split: if_splits)
  have kept: "set (ds_open_questions z) \<subseteq> set (ds_open_questions s) \<union> set qs" by (auto simp: qs(2))
  have "item_edge ` set (ds_confirmed_facts z) \<subseteq> item_edge ` set (ds_confirmed_facts s) \<union> ?e ` set (sd_proposed_facts d)"
    using drafted_edges [OF xs(1)] by (auto simp: xs(2) image_Un)
  moreover have "item_edge ` set (ds_open_questions z) \<subseteq> item_edge ` set (ds_open_questions s) \<union> ?e ` set (sd_add_open_questions d)"
    using drafted_edges [OF qs(1)] image_mono [OF kept, of item_edge] by (simp add: image_Un) blast
  moreover have "item_edge ` set (ds_user_facts z) = item_edge ` set (ds_user_facts s) \<union> item_edge ` set (sd_add_user_facts d)"
    by (simp add: facts image_Un)
  moreover have "item_edge ` set (state_items y) = item_edge ` set (ds_user_facts y) \<union> item_edge ` set (ds_confirmed_facts y) \<union>
      item_edge ` set (ds_active_hypotheses y @ ds_rejected_hypotheses y) \<union> item_edge ` set (ds_open_questions y)" for y
    by (simp add: state_items_def image_Un Un_ac)
  ultimately show ?thesis
    using union_parts [OF _ _ hypotheses_kept(3) [OF hyps]]
    by (simp only: delta_drafts_def image_Un set_append)
qed

lemma applied_delta_acyclic:
  assumes s: "valid_diagnosis_state env s"
    and d: "\<forall>u \<in> set (sd_add_user_facts d). it_supersedes u = []"
    and ap: "apply_diagnosis_state_delta env s d ids m cands r = Inr s'"
  shows "supersedes_acyclic s'"
  using ap
proof (rule applied_delta_parts)
  fix z
  let ?g = "supersedes_graph (state_items s) (delta_drafts d)"
  let ?h = "supersedes_graph (state_items s') []"
  assume z: "provisional_state env s d ids m cands = Inr z" "s' = z\<lparr>ds_revision := ds_revision s'\<rparr>"
    and v: "valid_diagnosis_state env s'"
  have "delta_identity_ok s d" using z(1) by (rule provisional_parts)
  then have ok: "facyclic_check ?g" and fresh: "distinct (map dr_item_id (delta_drafts d))"
    "it_item_id ` set (state_items s) \<inter> dr_item_id ` set (delta_drafts d) = {}"
    by (auto simp: delta_identity_ok_def delta_new_ids_def formalize_supersedes_ok_def Let_def)
  have old: "distinct (map it_item_id (state_items s))" "distinct (map it_item_id (state_items s'))"
    using s v by (simp_all add: valid_diagnosis_state_def valid_state_items_def)
  have keys: "distinct (graph_keys ?g)"
    using old(1) fresh by (simp add: graph_keys_def supersedes_graph_def comp_def)
  have "state_items s' = state_items z" by (subst z(2)) (simp add: state_items_def)
  then have from_parts: "item_edge ` set (state_items s') \<subseteq> item_edge ` set (state_items s @ sd_add_user_facts d) \<union>
      (\<lambda>d. (dr_item_id d, sort (dr_supersedes d))) ` set (delta_drafts d)"
    using provisional_edges [OF z(1)] by simp
  have "graph_edges ?h \<subseteq> graph_edges ?g"
  proof (rule subrelI)
    fix x y
    assume "(x, y) \<in> graph_edges ?h"
    then obtain ys where ys: "(x, ys) \<in> item_edge ` set (state_items s')" "y \<in> set ys"
      using item_graph_edges [OF old(2)] by blast
    then consider i where "i \<in> set (state_items s)" "x = it_item_id i" "ys = it_supersedes i"
      | u where "u \<in> set (sd_add_user_facts d)" "ys = it_supersedes u"
      | w where "w \<in> set (delta_drafts d)" "x = dr_item_id w" "ys = sort (dr_supersedes w)"
      using from_parts by (auto simp: item_edge_def)
    then have "\<exists>zs. (x, zs) \<in> set ?g \<and> y \<in> set zs"
    proof cases
      case 2
      with d ys(2) show ?thesis by simp
    qed (use ys(2) in \<open>force simp: supersedes_graph_def\<close>)+
    then show "(x, y) \<in> graph_edges ?g" using graph_get_distinct [OF keys] by (simp add: graph_edges_def)
  qed
  then show ?thesis using formalization_check.check_subgraph [OF ok] by (simp add: supersedes_acyclic_def)
qed

end
