(* ===== verification/Supplement_Application.thy ===== *)
theory Supplement_Application
  imports Case_Application State_History
begin

text \<open>
  Supplements of a waiting case, end to end: the delta that \<open>_submit_supplement\<close> builds is applied
  by \<open>apply_diagnosis_state_delta\<close> without an exception; the new state is valid, carries the
  supplied facts, and has fulfilled exactly the requirements the supplement answers.
\<close>

section \<open>What a supplement carries\<close>

text \<open>\<open>SubmitSupplementTriggerPayload.validate_payload\<close>, with the validator of its items.\<close>

definition valid_supplement :: "supplement_payload \<Rightarrow> bool" where
  "valid_supplement p \<longleftrightarrow>
     (sp_user_facts p \<noteq> [] \<or> sp_ready_attachment_ids p \<noteq> []) \<and>
     distinct (map it_item_id (sp_user_facts p)) \<and>
     distinct (map (\<lambda>i. pv_input_name (it_provenance i)) (sp_user_facts p)) \<and>
     list_all (\<lambda>i. valid_diagnosis_item i \<and> it_status i = DI_ACTIVE \<and>
        pv_source_type (it_provenance i) = DP_USER_INPUT \<and> it_evidence_refs i = [] \<and>
        it_supersedes i = []) (sp_user_facts p) \<and>
     distinct (sp_ready_attachment_ids p)"

lemma disjoint_imageI:
  "\<forall>x \<in> A. f x \<notin> B \<Longrightarrow> B \<inter> f ` A = {}"
  by auto

lemma first_keys_distinct: "distinct (map key xs) \<Longrightarrow> key ` set xs \<inter> set seen = {} \<Longrightarrow>
    first_keys key seen xs = map key xs"
  by (induction xs arbitrary: seen) auto

lemma dict_values_distinct:
  assumes "distinct (map key xs)"
  shows "dict_values key xs = xs"
proof -
  have "map (\<lambda>x. the (dict_by key xs (key x))) xs = xs"
    by (rule map_idI) (use dict_by_distinct [OF assms] in force)
  then show ?thesis
    using first_keys_distinct [OF assms, of "[]"] by (simp add: dict_values_def comp_def)
qed

lemma open_values:
  assumes "valid_diagnosis_state env s"
  shows "open_requirement_values s = open_requirements s"
proof -
  have "distinct (map rq_requirement_id (ds_pending_requirements s))"
    using assms by (simp add: valid_diagnosis_state_def valid_state_requirements_def)
  then have "distinct (map rq_requirement_id (open_requirements s))"
    by (simp add: open_requirements_def distinct_map_filter)
  then show ?thesis by (simp add: open_requirement_values_def dict_values_distinct)
qed

section \<open>The fulfillments of a supplement\<close>

text \<open>A fulfillment answers an OPEN requirement of the state and keeps it valid.\<close>

definition answers :: "diagnosis_state \<Rightarrow> requirement_fulfillment \<Rightarrow> pending_requirement \<Rightarrow> bool" where
  "answers s f r \<longleftrightarrow>
     r \<in> set (ds_pending_requirements s) \<and> rq_status r = QS_OPEN \<and>
     rf_requirement_id f = rq_requirement_id r \<and>
     valid_requirement (fulfilled_requirement r (rf_fulfilled_by_refs f))"

lemma requirement_valid:
  "valid_diagnosis_state env s \<Longrightarrow> r \<in> set (ds_pending_requirements s) \<Longrightarrow> valid_requirement r"
  by (simp add: valid_diagnosis_state_def valid_state_requirements_def list_all_iff)

lemma fulfill_fact_answers:
  assumes s: "valid_diagnosis_state env s" and f: "fulfill_fact env s u = Ok f"
  obtains r where "answers s f r" "rq_kind r = QK_INPUT"
    "pv_input_name (it_provenance u) = Some (rq_name r)"
    "it_item_id u \<notin> it_item_id ` set (state_items s)" "it_created_revision u = ds_revision s + 1"
proof -
  obtain r c where r: "Option.bind (pv_input_name (it_provenance u)) (open_inputs_by_name s) = Some r"
    and c: "rq_constraints r = InputConstraints c"
    and f': "f = \<lparr>rf_requirement_id = rq_requirement_id r, rf_fulfilled_by_refs = [it_item_id u]\<rparr>"
    and u: "it_item_id u \<notin> it_item_id ` set (state_items s)" "it_created_revision u = ds_revision s + 1"
    using f by (auto simp: fulfill_fact_def Let_def guardC_Ok split: option.splits if_splits
        requirement_constraints.splits)
  then obtain n where n: "pv_input_name (it_provenance u) = Some n" "open_inputs_by_name s n = Some r"
    by (auto simp: Option.bind_eq_Some_conv)
  then have mem: "r \<in> set (open_requirements s)" "rq_kind r = QK_INPUT" "rq_name r = n"
    using dict_by_Some [OF n(2) [unfolded open_inputs_by_name_def open_values [OF s]]] by auto
  moreover have "valid_requirement r" using requirement_valid [OF s] mem by (simp add: open_requirements_def)
  ultimately have "answers s f r"
    using f' c by (simp add: answers_def open_requirements_def fulfilled_requirement_def valid_requirement_def)
  with mem n u that show ?thesis by blast
qed

lemma fulfill_attachments_answers:
  assumes s: "valid_diagnosis_state env s" and f: "fulfill_attachments s ready = Ok fs"
  obtains "ready = []" "fs = []"
  | r x where "fs = [x]" "answers s x r" "rq_kind r = QK_ATTACHMENT"
proof (cases "ready = []")
  case True
  with f that(1) show ?thesis by (simp add: fulfill_attachments_def)
next
  case False
  with f obtain r c where r: "filter (\<lambda>r. rq_kind r = QK_ATTACHMENT) (open_requirement_values s) = [r]"
    and c: "rq_constraints r = AttachmentConstraints c"
    and fs: "fs = [\<lparr>rf_requirement_id = rq_requirement_id r, rf_fulfilled_by_refs = ready\<rparr>]"
    and n: "ac_min_count c \<le> int (length ready)" "int (length ready) \<le> ac_max_count c" "distinct ready"
    by (auto simp: fulfill_attachments_def Let_def valid_fulfillment_def split: list.splits
        requirement_constraints.splits if_splits)
  have "r \<in> set (filter (\<lambda>r. rq_kind r = QK_ATTACHMENT) (open_requirements s))"
    using r by (simp add: open_values [OF s])
  then have mem: "r \<in> set (ds_pending_requirements s)" "rq_status r = QS_OPEN" "rq_kind r = QK_ATTACHMENT"
    by (auto simp: open_requirements_def)
  have "answers s \<lparr>rf_requirement_id = rq_requirement_id r, rf_fulfilled_by_refs = ready\<rparr> r"
    using mem c n requirement_valid [OF s mem(1)]
    by (simp add: answers_def fulfilled_requirement_def valid_requirement_def)
  with fs mem(3) that(2) show ?thesis by blast
qed

lemma fulfill_facts_Ok: "fulfill_facts env s us = Ok fs \<Longrightarrow> list_all2 (\<lambda>u f. fulfill_fact env s u = Ok f) us fs"
  by (induction us arbitrary: fs) (auto simp: bindC_Ok)

lemma answered_unique:
  assumes "valid_diagnosis_state env s" and "answers s f r" and "answers s g q"
    and "rf_requirement_id f = rf_requirement_id g"
  shows "r = q"
proof -
  have "inj_on rq_requirement_id (set (ds_pending_requirements s))"
    using assms(1) by (simp add: valid_diagnosis_state_def valid_state_requirements_def distinct_map)
  with assms(2-4) show ?thesis by (auto simp: answers_def dest: inj_onD)
qed

text \<open>The fulfillments of an accepted supplement: one requirement each, and every supplied fact
  answers the requirement of its name.\<close>

lemma supplement_fulfillments:
  assumes s: "valid_diagnosis_state env s" and p: "valid_supplement p"
    and fs: "fulfill_facts env s (sp_user_facts p) = Ok fs"
    and gs: "fulfill_attachments s (sp_ready_attachment_ids p) = Ok gs"
  shows "distinct (map rf_requirement_id (fs @ gs))"
    and "\<forall>f \<in> set (fs @ gs). \<exists>r. answers s f r"
    and "\<forall>u \<in> set (sp_user_facts p). \<exists>r f. f \<in> set (fs @ gs) \<and> answers s f r \<and> rq_kind r = QK_INPUT \<and>
           pv_input_name (it_provenance u) = Some (rq_name r)"
    and "\<forall>u \<in> set (sp_user_facts p). it_item_id u \<notin> it_item_id ` set (state_items s) \<and>
           it_created_revision u = ds_revision s + 1"
proof -
  let ?us = "sp_user_facts p"
  have rel: "list_all2 (\<lambda>u f. fulfill_fact env s u = Ok f) ?us fs" by (rule fulfill_facts_Ok [OF fs])
  then have len: "length ?us = length fs" and nth: "\<And>i. i < length fs \<Longrightarrow> fulfill_fact env s (?us ! i) = Ok (fs ! i)"
    by (auto simp: list_all2_conv_all_nth)
  have nth_answers: "\<exists>r. answers s (fs ! i) r \<and> rq_kind r = QK_INPUT \<and>
      pv_input_name (it_provenance (?us ! i)) = Some (rq_name r)" if "i < length fs" for i
    using fulfill_fact_answers [OF s nth [OF that]] by metis
  have dist: "distinct (map rf_requirement_id fs)"
    unfolding distinct_conv_nth
  proof (intro allI impI)
    fix i j
    assume ij: "i < length (map rf_requirement_id fs)" "j < length (map rf_requirement_id fs)" "i \<noteq> j"
    then have neq: "pv_input_name (it_provenance (?us ! i)) \<noteq> pv_input_name (it_provenance (?us ! j))"
      using p len by (simp add: valid_supplement_def distinct_conv_nth)
    obtain r q where "answers s (fs ! i) r" "pv_input_name (it_provenance (?us ! i)) = Some (rq_name r)"
      "answers s (fs ! j) q" "pv_input_name (it_provenance (?us ! j)) = Some (rq_name q)"
      using ij nth_answers by (metis length_map)
    then have "rf_requirement_id (fs ! i) \<noteq> rf_requirement_id (fs ! j)"
      using neq answered_unique [OF s] by metis
    with ij show "map rf_requirement_id fs ! i \<noteq> map rf_requirement_id fs ! j" by simp
  qed
  have ans: "\<exists>r. answers s f r \<and> rq_kind r = QK_INPUT" if "f \<in> set fs" for f
    using nth_answers that by (auto simp: in_set_conv_nth)
  show "\<forall>u \<in> set ?us. \<exists>r f. f \<in> set (fs @ gs) \<and> answers s f r \<and> rq_kind r = QK_INPUT \<and>
      pv_input_name (it_provenance u) = Some (rq_name r)"
    using nth_answers len by (fastforce simp: in_set_conv_nth)
  show "\<forall>u \<in> set ?us. it_item_id u \<notin> it_item_id ` set (state_items s) \<and>
      it_created_revision u = ds_revision s + 1"
  proof
    fix u
    assume "u \<in> set ?us"
    then obtain f where "fulfill_fact env s u = Ok f" using nth len by (auto simp: in_set_conv_nth)
    then show "it_item_id u \<notin> it_item_id ` set (state_items s) \<and> it_created_revision u = ds_revision s + 1"
      by (rule fulfill_fact_answers [OF s]) simp
  qed
  from s gs show "distinct (map rf_requirement_id (fs @ gs))"
  proof (rule fulfill_attachments_answers)
    fix r x
    assume x: "gs = [x]" "answers s x r" "rq_kind r = QK_ATTACHMENT"
    have "rf_requirement_id f \<noteq> rf_requirement_id x" if "f \<in> set fs" for f
      using ans [OF that] answered_unique [OF s _ x(2)] x(3) by (metis requirement_kind.distinct(1))
    then have "rf_requirement_id x \<notin> rf_requirement_id ` set fs" by (metis imageE)
    with dist x(1) show ?thesis by simp
  qed (use dist in simp)
  from s gs show "\<forall>f \<in> set (fs @ gs). \<exists>r. answers s f r"
    by (rule fulfill_attachments_answers) (use ans in auto)
qed

section \<open>Fulfilling in place\<close>

definition refs_for :: "requirement_fulfillment list \<Rightarrow> opaque_id \<Rightarrow> opaque_id list option" where
  "refs_for fs i = map_of (map (\<lambda>f. (rf_requirement_id f, rf_fulfilled_by_refs f)) fs) i"

definition fulfilled_by :: "requirement_fulfillment list \<Rightarrow> pending_requirement \<Rightarrow> pending_requirement" where
  "fulfilled_by fs r =
     (case refs_for fs (rq_requirement_id r) of None \<Rightarrow> r | Some refs \<Rightarrow> fulfilled_requirement r refs)"

lemma fulfilled_requirement_fields [simp]:
  "rq_requirement_id (fulfilled_requirement r refs) = rq_requirement_id r"
  "rq_name (fulfilled_requirement r refs) = rq_name r" "rq_kind (fulfilled_requirement r refs) = rq_kind r"
  "rq_status (fulfilled_requirement r refs) = QS_FULFILLED"
  "rq_fulfilled_by_refs (fulfilled_requirement r refs) = refs"
  by (simp_all add: fulfilled_requirement_def)

lemma fulfilled_by_fields [simp]:
  "rq_requirement_id (fulfilled_by fs r) = rq_requirement_id r" "rq_name (fulfilled_by fs r) = rq_name r"
  "rq_kind (fulfilled_by fs r) = rq_kind r"
  by (simp_all add: fulfilled_by_def split: option.splits)

lemma refs_for_None: "refs_for fs i = None \<longleftrightarrow> i \<notin> rf_requirement_id ` set fs"
  by (simp add: refs_for_def map_of_eq_None_iff image_image)

lemma fulfilled_by_open: "rq_status (fulfilled_by fs r) = QS_OPEN \<longleftrightarrow>
    rq_status r = QS_OPEN \<and> rq_requirement_id r \<notin> rf_requirement_id ` set fs"
  by (cases "refs_for fs (rq_requirement_id r)") (auto simp: fulfilled_by_def refs_for_None [symmetric])

lemma fulfill_requirements_ok:
  assumes "distinct (map rq_requirement_id reqs)" and "distinct (map rf_requirement_id fs)"
    and "\<forall>f \<in> set fs. \<exists>r \<in> set reqs. rq_requirement_id r = rf_requirement_id f \<and> rq_status r = QS_OPEN \<and>
           valid_requirement (fulfilled_requirement r (rf_fulfilled_by_refs f))"
  shows "fulfill_requirements (index_by rq_requirement_id reqs) reqs fs = Inr (map (fulfilled_by fs) reqs)"
  using assms
proof (induction fs arbitrary: reqs)
  case Nil
  then show ?case by (simp add: fulfilled_by_def refs_for_def map_idI)
next
  case (Cons f fs)
  obtain r where r: "r \<in> set reqs" "rq_requirement_id r = rf_requirement_id f" "rq_status r = QS_OPEN"
    "valid_requirement (fulfilled_requirement r (rf_fulfilled_by_refs f))"
    using Cons.prems(3) by auto
  obtain i where i: "i < length reqs" "reqs ! i = r" using r(1) by (auto simp: in_set_conv_nth)
  have idx: "index_by rq_requirement_id reqs (rf_requirement_id f) = Some i"
    using index_by_nth [OF Cons.prems(1) i(1)] i(2) r(2) by simp
  let ?y = "fulfilled_requirement r (rf_fulfilled_by_refs f)"
  let ?reqs = "reqs[i := ?y]"
  have ids_same: "map rq_requirement_id ?reqs = map rq_requirement_id reqs"
    using i by (simp add: map_update) (metis length_map list_update_id nth_map)
  have step: "fulfill_requirements (index_by rq_requirement_id reqs) reqs (f # fs) =
      fulfill_requirements (index_by rq_requirement_id ?reqs) ?reqs fs"
    using idx i r by (simp add: index_by_update require_key_def Let_def)
  have other: "q \<in> set ?reqs" if "q \<in> set reqs" "rq_requirement_id q \<noteq> rf_requirement_id f" for q
    using that r(2) i by (metis in_set_conv_nth length_list_update nth_list_update_neq)
  have rest: "fulfill_requirements (index_by rq_requirement_id ?reqs) ?reqs fs = Inr (map (fulfilled_by fs) ?reqs)"
  proof (rule Cons.IH)
    show "distinct (map rq_requirement_id ?reqs)" using ids_same Cons.prems(1) by simp
    show "distinct (map rf_requirement_id fs)" using Cons.prems(2) by simp
    show "\<forall>g \<in> set fs. \<exists>q \<in> set ?reqs. rq_requirement_id q = rf_requirement_id g \<and> rq_status q = QS_OPEN \<and>
        valid_requirement (fulfilled_requirement q (rf_fulfilled_by_refs g))"
      using Cons.prems(2,3) other by (metis (no_types, lifting) distinct.simps(2) image_eqI list.set_intros(2)
          list.simps(9) set_map)
  qed
  have "map (fulfilled_by fs) ?reqs = map (fulfilled_by (f # fs)) reqs"
  proof (rule nth_equalityI)
    fix j
    assume "j < length (map (fulfilled_by fs) ?reqs)"
    then have j: "j < length reqs" by simp
    have neq: "j \<noteq> i \<Longrightarrow> rq_requirement_id (reqs ! j) \<noteq> rf_requirement_id f"
      using Cons.prems(1) j idx by (metis index_by_nth option.inject)
    have "refs_for fs (rf_requirement_id f) = None" using Cons.prems(2) by (simp add: refs_for_None)
    then show "map (fulfilled_by fs) ?reqs ! j = map (fulfilled_by (f # fs)) reqs ! j"
      using j i r neq by (cases "j = i") (auto simp: fulfilled_by_def refs_for_def)
  qed simp
  with step rest show ?case by simp
qed

section \<open>Applying a supplement\<close>

definition supplemented ::
  "diagnosis_state \<Rightarrow> diagnosis_item list \<Rightarrow> requirement_fulfillment list \<Rightarrow> diagnosis_state" where
  "supplemented s us fs =
     s\<lparr>ds_user_facts := ds_user_facts s @ sort_key it_item_id us,
       ds_pending_requirements := map (fulfilled_by fs) (ds_pending_requirements s)\<rparr>"

lemma refs_for_Some:
  assumes "distinct (map rf_requirement_id fs)"
  shows "refs_for fs i = Some refs \<longleftrightarrow>
    (\<exists>f \<in> set fs. rf_requirement_id f = i \<and> rf_fulfilled_by_refs f = refs)"
  using assms by (auto simp: refs_for_def map_of_eq_Some_iff comp_def)

lemma refs_for_sort:
  assumes "distinct (map rf_requirement_id fs)"
  shows "refs_for (sort_key rf_requirement_id fs) = refs_for fs"
proof
  fix i
  have "distinct (map rf_requirement_id (sort_key rf_requirement_id fs))"
    using assms by (simp add: distinct_map)
  then have "refs_for (sort_key rf_requirement_id fs) i = Some refs \<longleftrightarrow> refs_for fs i = Some refs" for refs
    using refs_for_Some [OF assms] refs_for_Some [of "sort_key rf_requirement_id fs"] by simp
  then show "refs_for (sort_key rf_requirement_id fs) i = refs_for fs i" by (metis option.exhaust)
qed

lemma supplement_provisional:
  assumes s: "valid_diagnosis_state env s" "supersedes_acyclic s"
    and us: "distinct (map it_item_id us)"
      "\<forall>u \<in> set us. it_item_id u \<notin> it_item_id ` set (state_items s) \<and> it_created_revision u = ds_revision s + 1"
    and fs: "distinct (map rf_requirement_id fs)" "\<forall>f \<in> set fs. \<exists>r. answers s f r"
    and valid: "valid_diagnosis_state env (supplemented s us fs)"
  shows "provisional_state env s (supplement_delta us fs) ids None cands = Inr (supplemented s us fs)"
proof -
  let ?d = "supplement_delta us fs"
  have req: "fulfill_requirements (index_by rq_requirement_id (ds_pending_requirements s))
      (ds_pending_requirements s) (sort_key rf_requirement_id fs) =
      Inr (map (fulfilled_by fs) (ds_pending_requirements s))"
  proof -
    have "fulfilled_by (sort_key rf_requirement_id fs) = fulfilled_by fs"
      using refs_for_sort [OF fs(1)] by (auto simp: fulfilled_by_def)
    moreover have "distinct (map rq_requirement_id (ds_pending_requirements s))"
      using s(1) by (simp add: valid_diagnosis_state_def valid_state_requirements_def)
    ultimately show ?thesis
      using fulfill_requirements_ok [of "ds_pending_requirements s" "sort_key rf_requirement_id fs"] fs
      by (force simp: answers_def)
  qed
  have fresh: "it_item_id ` set (state_items s) \<inter> it_item_id ` set us = {}"
    by (rule disjoint_imageI) (use us(2) in simp)
  have ident: "delta_identity_ok s ?d"
    using s(2) us fresh
    by (simp add: delta_identity_ok_def delta_new_ids_def delta_drafts_def delta_changed_ids_def
        supplement_delta_def empty_delta_def formalize_supersedes_ok_def supersedes_acyclic_def Let_def distinct_map)
  have state: "supplemented s us fs = \<lparr>ds_revision = ds_revision s, ds_problem_spec = ds_problem_spec s,
      ds_user_facts = append_items (ds_user_facts s) (sort_key it_item_id us),
      ds_confirmed_facts = ds_confirmed_facts s, ds_active_hypotheses = ds_active_hypotheses s,
      ds_rejected_hypotheses = ds_rejected_hypotheses s, ds_open_questions = ds_open_questions s,
      ds_pending_requirements = map (fulfilled_by fs) (ds_pending_requirements s),
      ds_evidence_refs = ds_evidence_refs s, ds_candidate_conclusion = ds_candidate_conclusion s\<rparr>"
    by (simp add: supplemented_def append_items_def sort_key_id_if_sorted)
  show ?thesis
    unfolding provisional_state_def state [symmetric]
    using ident us fs req valid
    by (simp add: supplement_delta_def empty_delta_def apply_spec_patch_opt_def apply_fact_drafts_def
        apply_hypotheses_def apply_questions_def apply_requirements_def resolve_evidence_bindings_def
        apply_candidate_mutation_def state Let_def list_ex_iff merge_refs_def stable_unique_def)
qed

text \<open>The OPEN requirements afterwards are those the supplement left unanswered.\<close>

lemma open_after:
  "open_requirements (supplemented s us fs) =
     filter (\<lambda>r. rq_requirement_id r \<notin> rf_requirement_id ` set fs) (open_requirements s)"
proof -
  have "map (fulfilled_by fs) (filter (\<lambda>r. rq_status r = QS_OPEN \<and> rq_requirement_id r \<notin> rf_requirement_id ` set fs) rs) =
      filter (\<lambda>r. rq_status r = QS_OPEN \<and> rq_requirement_id r \<notin> rf_requirement_id ` set fs) rs" for rs
    by (rule map_idI) (auto simp: fulfilled_by_def refs_for_None [symmetric])
  then show ?thesis
    by (simp add: supplemented_def open_requirements_def filter_map comp_def fulfilled_by_open conj_commute)
qed

lemma fulfilled_by_valid:
  assumes s: "valid_diagnosis_state env s" and fs: "distinct (map rf_requirement_id fs)"
    and ans: "\<forall>f \<in> set fs. \<exists>r. answers s f r" and r: "r \<in> set (ds_pending_requirements s)"
  shows "valid_requirement (fulfilled_by fs r)"
proof (cases "refs_for fs (rq_requirement_id r)")
  case None
  then show ?thesis using requirement_valid [OF s r] by (simp add: fulfilled_by_def)
next
  case (Some refs)
  then obtain f q where f: "rf_requirement_id f = rq_requirement_id r" "rf_fulfilled_by_refs f = refs" "answers s f q"
    using refs_for_Some [OF fs] ans by metis
  have "inj_on rq_requirement_id (set (ds_pending_requirements s))"
    using s by (simp add: valid_diagnosis_state_def valid_state_requirements_def distinct_map)
  then have "q = r" using f r by (auto simp: answers_def dest: inj_onD)
  with f Some show ?thesis by (simp add: answers_def fulfilled_by_def)
qed

lemma supplemented_requirements:
  assumes s: "valid_diagnosis_state env s" and fs: "distinct (map rf_requirement_id fs)"
    and ans: "\<forall>f \<in> set fs. \<exists>r. answers s f r"
    and named: "\<forall>u \<in> set us. \<exists>r f. f \<in> set fs \<and> answers s f r \<and> rq_kind r = QK_INPUT \<and>
           pv_input_name (it_provenance u) = Some (rq_name r)"
  shows "valid_state_requirements (supplemented s us fs)"
proof -
  let ?s = "supplemented s us fs"
  have old: "valid_state_requirements s" using s by (simp add: valid_diagnosis_state_def)
  then have inj: "inj_on rq_name (set (open_requirements s))"
    by (simp add: valid_state_requirements_def distinct_map)
  have unnamed: "Some (rq_name r) \<notin> set (fixed_input_names ?s)"
    if r: "r \<in> set (open_requirements ?s)" "rq_kind r = QK_INPUT" for r
  proof
    have r': "r \<in> set (open_requirements s)" "rq_requirement_id r \<notin> rf_requirement_id ` set fs"
      using r(1) by (auto simp: open_after)
    assume "Some (rq_name r) \<in> set (fixed_input_names ?s)"
    then consider "Some (rq_name r) \<in> set (fixed_input_names s)"
      | u where "u \<in> set us" "pv_input_name (it_provenance u) = Some (rq_name r)"
      by (auto simp: fixed_input_names_def supplemented_def)
    then show False
    proof cases
      case 1
      with old r' r(2) show False by (simp add: valid_state_requirements_def list_all_iff)
    next
      case 2
      then obtain q f where q: "f \<in> set fs" "answers s f q" "rq_name q = rq_name r" using named by force
      then have "q = r" using inj r'(1) by (auto simp: answers_def open_requirements_def dest: inj_onD)
      with q r'(2) show False by (metis answers_def imageI)
    qed
  qed
  have "distinct (map rq_name (open_requirements ?s))"
    using old by (simp add: open_after valid_state_requirements_def distinct_map_filter)
  moreover have "length (filter (\<lambda>r. rq_kind r = QK_ATTACHMENT) (open_requirements ?s)) \<le> 1"
    using old length_filter_le [of "\<lambda>r. rq_requirement_id r \<notin> rf_requirement_id ` set fs"
        "filter (\<lambda>r. rq_kind r = QK_ATTACHMENT) (open_requirements s)"]
    by (simp add: open_after valid_state_requirements_def conj_commute)
  moreover have "map rq_requirement_id (ds_pending_requirements ?s) = map rq_requirement_id (ds_pending_requirements s)"
    by (simp add: supplemented_def)
  moreover have "list_all valid_requirement (ds_pending_requirements ?s)"
    using fulfilled_by_valid [OF s fs ans] by (simp add: supplemented_def list_all_iff)
  ultimately show ?thesis
    using old unnamed by (auto simp: valid_state_requirements_def list_all_iff)
qed

lemma supplemented_items:
  assumes s: "valid_diagnosis_state env s" and p: "valid_supplement p"
    and new: "\<forall>u \<in> set (sp_user_facts p). it_item_id u \<notin> it_item_id ` set (state_items s)"
      "\<forall>u \<in> set (sp_user_facts p). pv_input_name (it_provenance u) \<notin> set (fixed_input_names s)"
  shows "valid_state_items (supplemented s (sp_user_facts p) fs)"
    and "valid_state_evidence (supplemented s (sp_user_facts p) fs)"
proof -
  let ?us = "sp_user_facts p" and ?s = "supplemented s (sp_user_facts p) fs"
  have old: "valid_state_items s" "valid_state_evidence s" using s by (simp_all add: valid_diagnosis_state_def)
  have us: "valid_diagnosis_item u" "pv_source_type (it_provenance u) = DP_USER_INPUT"
    "it_evidence_refs u = []" "pv_input_name (it_provenance u) \<noteq> None" if "u \<in> set ?us" for u
    using p that by (auto simp: valid_supplement_def list_all_iff valid_diagnosis_item_def valid_provenance_def)
  have items: "mset (state_items ?s) = mset ?us + mset (state_items s)"
    by (simp add: state_items_def supplemented_def)
  then have set_items: "set (state_items ?s) = set ?us \<union> set (state_items s)"
    by (metis set_mset_mset set_mset_union)
  have "it_item_id ` set (state_items s) \<inter> it_item_id ` set ?us = {}"
    by (rule disjoint_imageI) (rule new(1))
  then have "distinct (map it_item_id (?us @ state_items s))"
    using old(1) p by (simp add: valid_state_items_def valid_supplement_def Int_commute)
  then have ids: "distinct (map it_item_id (state_items ?s))"
    by (rule mset_eq_imp_distinct_iff [THEN iffD1, rotated]) (simp add: items)
  let ?n = "\<lambda>i. pv_input_name (it_provenance i)"
  have "set (fixed_input_names s) \<inter> ?n ` set ?us = {}"
    by (rule disjoint_imageI) (rule new(2))
  moreover have "distinct (map ?n (sort_key it_item_id ?us))"
    using p by (simp add: valid_supplement_def distinct_map)
  ultimately have names: "distinct (fixed_input_names ?s)"
    using old(1) by (simp add: valid_state_items_def fixed_input_names_def supplemented_def)
  show "valid_state_items ?s"
    using old(1) us ids names
    by (auto simp: valid_state_items_def list_all_iff set_items) (auto simp: supplemented_def agent_items_def)
  have "ds_evidence_refs ?s = ds_evidence_refs s" by (simp add: supplemented_def)
  then show "valid_state_evidence ?s"
    using old(2) us by (auto simp: valid_state_evidence_def list_all_iff set_items)
qed

section \<open>The delta of an accepted supplement\<close>

lemma fixed_fact_error_None:
  "fixed_fact_error s u = None \<longleftrightarrow> pv_input_name (it_provenance u) \<notin> set (fixed_input_names s)"
  by (simp add: fixed_fact_error_def Let_def)

lemma accepted_supplement:
  assumes "accept_supplement env sn t p = Ok q"
  obtains fs gs where "fulfill_facts env (cs_diagnosis_state (sn_case sn)) (sp_user_facts p) = Ok fs"
    "fulfill_attachments (cs_diagnosis_state (sn_case sn)) (sp_ready_attachment_ids p) = Ok gs"
    "\<forall>u \<in> set (sp_user_facts p). pv_input_name (it_provenance u) \<notin>
       set (fixed_input_names (cs_diagnosis_state (sn_case sn)))"
    "tp_accepted_state_delta q = supplement_delta (sp_user_facts p) (fs @ gs)"
    "tp_candidate_mutation q = None" "tp_accepted_candidate_key q = None"
  using assms
  by (auto simp: accept_supplement_def Let_def guardC_Ok bindC_Ok supplement_wait_plan_def mk_plan_Ok
      first_error_None fixed_fact_error_None base_plan_def split: if_splits)

lemma supplemented_changes:
  assumes us: "us \<noteq> [] \<or> fs \<noteq> []" and ans: "\<forall>f \<in> set fs. \<exists>r. answers s f r"
  shows "supplemented s us fs \<noteq> s"
proof
  assume eq: "supplemented s us fs = s"
  have "ds_user_facts (supplemented s us fs) = ds_user_facts s @ sort_key it_item_id us"
    by (simp add: supplemented_def)
  with eq have "us = []" by (metis append_self_conv length_0_conv length_sort)
  then obtain f r where f: "f \<in> set fs" "answers s f r" using us ans by (metis list.set_intros(1) neq_Nil_conv)
  then have r: "r \<in> set (ds_pending_requirements s)" "rq_status r = QS_OPEN"
    "rq_requirement_id r \<in> rf_requirement_id ` set fs" by (simp_all add: answers_def) (metis imageI)
  then have "r \<in> set (open_requirements s)" "r \<notin> set (open_requirements (supplemented s us fs))"
    by (auto simp: open_after) (simp add: open_requirements_def)
  with eq show False by simp
qed

lemma supplement_applies:
  assumes s: "valid_diagnosis_state env s" "supersedes_acyclic s" and p: "valid_supplement p"
    and fs: "fulfill_facts env s (sp_user_facts p) = Ok fs"
    and gs: "fulfill_attachments s (sp_ready_attachment_ids p) = Ok gs"
    and fixed: "\<forall>u \<in> set (sp_user_facts p). pv_input_name (it_provenance u) \<notin> set (fixed_input_names s)"
  shows "apply_diagnosis_state_delta env s (supplement_delta (sp_user_facts p) (fs @ gs)) ids None cands
      (Some (ds_revision s + 1)) =
      Inr ((supplemented s (sp_user_facts p) (fs @ gs))\<lparr>ds_revision := ds_revision s + 1\<rparr>)"
proof -
  note full = supplement_fulfillments [OF s(1) p fs gs]
  let ?s = "supplemented s (sp_user_facts p) (fs @ gs)"
  have keep: "ds_revision ?s = ds_revision s" "ds_problem_spec ?s = ds_problem_spec s"
    "valid_state_candidate env ?s = valid_state_candidate env s"
    by (simp_all add: supplemented_def valid_state_candidate_def split: option.splits)
  have new: "\<forall>u \<in> set (sp_user_facts p). it_item_id u \<notin> it_item_id ` set (state_items s)"
    using full(4) by simp
  have valid: "valid_diagnosis_state env ?s"
    unfolding valid_diagnosis_state_def keep
    using s(1) supplemented_items [OF s(1) p new fixed] supplemented_requirements [OF s(1) full(1,2,3)]
    by (simp add: valid_diagnosis_state_def)
  have prov: "provisional_state env s (supplement_delta (sp_user_facts p) (fs @ gs)) ids None cands = Inr ?s"
    by (rule supplement_provisional [OF s _ full(4) full(1,2) valid]) (use p in \<open>simp add: valid_supplement_def\<close>)
  have "fs @ gs \<noteq> [] \<or> sp_user_facts p \<noteq> []"
    using p gs by (cases "sp_ready_attachment_ids p = []")
      (auto simp: valid_supplement_def elim: fulfill_attachments_answers [OF s(1)])
  then have "?s \<noteq> s" using supplemented_changes [OF _ full(2)] by blast
  moreover have "valid_diagnosis_state env (?s\<lparr>ds_revision := ds_revision s + 1\<rparr>)"
    by (rule revision_valid [OF valid]) (use s(1) in \<open>simp add: valid_diagnosis_state_def\<close>)
  ultimately show ?thesis
    by (simp add: apply_diagnosis_state_delta_def prov ensure_def Let_def)
qed

text \<open>The requirements a supplement answers, read off the request itself.\<close>

definition answered_by :: "supplement_payload \<Rightarrow> pending_requirement \<Rightarrow> bool" where
  "answered_by p r \<longleftrightarrow>
     (case rq_kind r of
        QK_INPUT \<Rightarrow> Some (rq_name r) \<in> set (map (\<lambda>u. pv_input_name (it_provenance u)) (sp_user_facts p))
      | QK_ATTACHMENT \<Rightarrow> sp_ready_attachment_ids p \<noteq> [])"

lemma fulfilled_facts_named:
  assumes s: "valid_diagnosis_state env s" and fs: "fulfill_facts env s us = Ok fs"
  shows "f \<in> set fs \<Longrightarrow> \<exists>u \<in> set us. \<exists>r. answers s f r \<and> rq_kind r = QK_INPUT \<and>
      pv_input_name (it_provenance u) = Some (rq_name r)"
    and "u \<in> set us \<Longrightarrow> \<exists>f \<in> set fs. \<exists>r. answers s f r \<and> rq_kind r = QK_INPUT \<and>
      pv_input_name (it_provenance u) = Some (rq_name r)"
  using fs
proof (induction us arbitrary: fs)
  case (Cons u us)
  {
    case 1
    with Cons.IH(1) show ?case by (fastforce simp: bindC_Ok elim: fulfill_fact_answers [OF s])
  next
    case 2
    with Cons.IH(2) show ?case by (fastforce simp: bindC_Ok elim: fulfill_fact_answers [OF s])
  }
qed simp_all

lemma answered_open:
  assumes s: "valid_diagnosis_state env s"
    and fs: "fulfill_facts env s (sp_user_facts p) = Ok fs"
    and gs: "fulfill_attachments s (sp_ready_attachment_ids p) = Ok gs"
    and r: "r \<in> set (open_requirements s)"
  shows "rq_requirement_id r \<in> rf_requirement_id ` set (fs @ gs) \<longleftrightarrow> answered_by p r"
proof -
  have reqs: "valid_state_requirements s" using s by (simp add: valid_diagnosis_state_def)
  have same: "q = r" if "answers s f q" "rq_requirement_id q = rq_requirement_id r \<or> rq_name q = rq_name r" for f q
  proof -
    have "q \<in> set (open_requirements s)" using that(1) by (simp add: answers_def open_requirements_def)
    moreover have "inj_on rq_name (set (open_requirements s))" "inj_on rq_requirement_id (set (open_requirements s))"
      using reqs by (auto simp: valid_state_requirements_def distinct_map open_requirements_def inj_on_def)
    ultimately show ?thesis using r that(2) by (auto dest: inj_onD)
  qed
  have id: "rf_requirement_id f = rq_requirement_id r \<longleftrightarrow> q = r" if "answers s f q" for f q
    using that same [OF that] by (auto simp: answers_def)
  have input: "rq_requirement_id r \<in> rf_requirement_id ` set fs \<longleftrightarrow>
      rq_kind r = QK_INPUT \<and> Some (rq_name r) \<in> (\<lambda>u. pv_input_name (it_provenance u)) ` set (sp_user_facts p)"
  proof
    assume "rq_requirement_id r \<in> rf_requirement_id ` set fs"
    then obtain f where f: "f \<in> set fs" "rf_requirement_id f = rq_requirement_id r" by fastforce
    then obtain u q where u: "u \<in> set (sp_user_facts p)" "answers s f q" "rq_kind q = QK_INPUT"
      "pv_input_name (it_provenance u) = Some (rq_name q)" using fulfilled_facts_named(1) [OF s fs] by blast
    then show "rq_kind r = QK_INPUT \<and> Some (rq_name r) \<in> (\<lambda>u. pv_input_name (it_provenance u)) ` set (sp_user_facts p)"
      using f id [OF u(2)] by (metis imageI)
  next
    assume "rq_kind r = QK_INPUT \<and> Some (rq_name r) \<in> (\<lambda>u. pv_input_name (it_provenance u)) ` set (sp_user_facts p)"
    then obtain u where u: "u \<in> set (sp_user_facts p)" "pv_input_name (it_provenance u) = Some (rq_name r)" by fastforce
    then obtain f q where f: "f \<in> set fs" "answers s f q" "rq_name q = rq_name r"
      using fulfilled_facts_named(2) [OF s fs] by fastforce
    with same id show "rq_requirement_id r \<in> rf_requirement_id ` set fs" by (metis imageI)
  qed
  have "rq_requirement_id r \<in> rf_requirement_id ` set gs \<longleftrightarrow> rq_kind r = QK_ATTACHMENT \<and> sp_ready_attachment_ids p \<noteq> []"
    using s gs
  proof (rule fulfill_attachments_answers)
    fix q x
    assume x: "gs = [x]" "answers s x q" "rq_kind q = QK_ATTACHMENT"
    have ready: "sp_ready_attachment_ids p \<noteq> []" using gs x(1) by (auto simp: fulfill_attachments_def)
    have "q = r" if "rq_kind r = QK_ATTACHMENT"
    proof -
      have "length (filter (\<lambda>r. rq_kind r = QK_ATTACHMENT) (open_requirements s)) \<le> 1"
        using reqs by (simp add: valid_state_requirements_def)
      moreover have "{q, r} \<subseteq> set (filter (\<lambda>r. rq_kind r = QK_ATTACHMENT) (open_requirements s))"
        using x r that by (simp add: answers_def open_requirements_def)
      ultimately show ?thesis
        by (cases "filter (\<lambda>r. rq_kind r = QK_ATTACHMENT) (open_requirements s)") auto
    qed
    then show ?thesis using x ready id [OF x(2)] by auto
  qed simp
  with input show ?thesis by (cases "rq_kind r") (auto simp: answered_by_def image_Un)
qed

lemma open_required: "valid_diagnosis_state env s \<Longrightarrow> r \<in> set (open_requirements s) \<Longrightarrow> rq_required r"
  using requirement_valid [of env s r] by (simp add: open_requirements_def valid_requirement_def)

text \<open>A supplement that leaves nothing open starts the next job, any other one keeps the case waiting.\<close>

lemma supplement_status:
  assumes acc: "accept_supplement env sn t p = Ok q"
    and fs: "fulfill_facts env (cs_diagnosis_state (sn_case sn)) (sp_user_facts p) = Ok fs"
    and gs: "fulfill_attachments (cs_diagnosis_state (sn_case sn)) (sp_ready_attachment_ids p) = Ok gs"
    and s: "valid_diagnosis_state env (cs_diagnosis_state (sn_case sn))"
  shows "tp_target_case_status q = CS_RUNNING \<longleftrightarrow>
    open_requirements (supplemented (cs_diagnosis_state (sn_case sn)) us (fs @ gs)) = []"
proof -
  let ?s = "cs_diagnosis_state (sn_case sn)"
  have "tp_target_case_status q = CS_RUNNING \<longleftrightarrow>
      remaining_requirements ?s (fs @ gs) QK_INPUT = [] \<and> remaining_requirements ?s (fs @ gs) QK_ATTACHMENT = []"
    using acc fs gs
    by (auto simp: accept_supplement_def Let_def guardC_Ok bindC_Ok supplement_wait_plan_def split: if_splits)
  also have "\<dots> \<longleftrightarrow> open_requirements (supplemented ?s us (fs @ gs)) = []"
    unfolding open_after remaining_requirements_def filter_empty_conv
    using open_required [OF s] by (auto simp: open_requirements_def) (metis requirement_kind.exhaust)+
  finally show ?thesis .
qed

end
