(* ===== verification/Scenario.thy ===== *)
theory Scenario
  imports Job_Construction Case_Lifecycle Supplement_Application
begin

text \<open>
  Concrete cases, jobs and triggers on which the witnesses of the properties are evaluated: a
  generic diagnosis from its creation to its report, and a specialised diagnosis with a candidate
  under review, a waiting case and an interrupted job. The environment instantiates the hash and the
  regular expression matcher by simple computable functions.
\<close>

section \<open>Shared parts\<close>

definition sc_env :: py_env where
  "sc_env = \<lparr>env_fullmatch = (\<lambda>p s. p = s), env_sha256 = (\<lambda>s. s),
     env_canonical_sha256 = (\<lambda>p. pi_statement p)\<rparr>"

definition sc_ref :: "text_t \<Rightarrow> versioned_ref" where
  "sc_ref i = \<lparr>ref_id = i, ref_version = ''1'', ref_content_hash = ''h''\<rparr>"

definition sc_skill :: versioned_ref where "sc_skill = sc_ref ''diagnosis-skill/disk''"

definition sc_generic_bindings :: runtime_bindings where
  "sc_generic_bindings =
     \<lparr>rb_diagnosis_mode = Some DM_GENERIC, rb_review_policy = None,
      rb_generic_skill_name = Some ''general'', rb_generic_log_preparation = None,
      rb_agent_profile_ref = sc_ref ''profile'', rb_available_skill_refs = [], rb_skill_ref = None,
      rb_tool_bundle_ref = sc_ref ''tools'', rb_context_policy_ref = sc_ref ''policy'',
      rb_output_contract_ref = sc_ref ''contract'', rb_logparse_tool_ref = None,
      rb_logparse_product = None, rb_resource_limits = default_resource_limits JT_DIAGNOSE\<rparr>"

definition sc_skill_bindings :: "job_type \<Rightarrow> runtime_bindings" where
  "sc_skill_bindings jt = sc_generic_bindings
     \<lparr>rb_diagnosis_mode := (if jt = JT_DIAGNOSE then Some DM_SPECIALIZED else None),
      rb_review_policy := Some RP_INDEPENDENT, rb_generic_skill_name := None,
      rb_skill_ref := Some sc_skill, rb_resource_limits := default_resource_limits jt\<rparr>"

definition sc_spec :: problem_spec where
  "sc_spec = \<lparr>ps_statement = ''disk full'', ps_expected_behavior = ''writes succeed'',
     ps_actual_behavior = ''writes fail'', ps_scope = ''host'', ps_goals = [''find cause''],
     ps_non_goals = [], ps_constraints = [], ps_completion_criteria = [''cause named''],
     ps_revision = 1\<rparr>"

definition sc_state :: diagnosis_state where
  "sc_state = \<lparr>ds_revision = 1, ds_problem_spec = sc_spec, ds_user_facts = [], ds_confirmed_facts = [],
     ds_active_hypotheses = [], ds_rejected_hypotheses = [], ds_open_questions = [],
     ds_pending_requirements = [], ds_evidence_refs = [], ds_candidate_conclusion = None\<rparr>"

definition sc_case :: case_t where
  "sc_case = \<lparr>cs_case_id = ''case'', cs_status = CS_NEW, cs_case_revision = 1,
     cs_archive_status = ''NOT_REQUIRED'', cs_raw_problem_text = ''disk full'', cs_product_line = None,
     cs_initial_log_archive_expected = False, cs_continuation_context = None,
     cs_diagnosis_state = sc_state, cs_active_job_id = None, cs_selected_skill_ref = None,
     cs_final_result = None, cs_unresolved_result = None, cs_generic_result = None,
     cs_generic_result_v2 = None, cs_methods_result = None, cs_failure = None,
     cs_created_at = ''t0'', cs_updated_at = ''t0''\<rparr>"

definition sc_snapshot :: "case_t \<Rightarrow> case_snapshot" where
  "sc_snapshot c = \<lparr>sn_case = c, sn_active_job = None, sn_resume_source_job = None,
     sn_waiting_source_job = None, sn_replacement_job_ids_by_source = []\<rparr>"

definition sc_trigger :: "case_t \<Rightarrow> trigger_payload \<Rightarrow> trigger" where
  "sc_trigger c p = \<lparr>tr_trigger_id = ''trigger'', tr_trigger_type = trigger_payload_type p,
     tr_case_id = ''case'', tr_expected_case_revision = cs_case_revision c, tr_idempotency_key = ''k'',
     tr_payload = p,
     tr_continuation_resources = \<lparr>cr_evidence_refs = [], cr_attachment_refs = [],
       cr_artifact_refs = [], cr_previous_outcome_refs = []\<rparr>,
     tr_runtime_bindings = Map.empty, tr_occurred_at = ''t1''\<rparr>"

section \<open>A generic diagnosis\<close>

definition sc_create :: trigger where
  "sc_create = (sc_trigger sc_case (CreateCasePayload
     \<lparr>pc_raw_problem_text = ''disk full'', pc_product_line = None,
      pc_initial_log_archive_expected = False, pc_force_generic = True,
      pc_continuation_context = None, pc_problem_spec = sc_spec, pc_initial_user_facts = []\<rparr>))
     \<lparr>tr_runtime_bindings := [JT_DIAGNOSE \<mapsto> sc_generic_bindings]\<rparr>"

definition sc_generic_spec :: job_spec where
  "sc_generic_spec = spec_from_bindings JT_DIAGNOSE sc_generic_bindings
     ((spec_args_of 1 generic_diagnose_goal)\<lparr>sa_generic_problem_text := Some ''disk full''\<rparr>)"

definition sc_create_plan :: plan where
  "sc_create_plan = (base_plan CS_RUNNING why_create_generic)\<lparr>tp_next_job_spec := Some sc_generic_spec\<rparr>"

definition sc_inputs :: job_inputs where
  "sc_inputs = \<lparr>bi_job_id = ''job'', bi_case_id = ''case'', bi_created_at = ''t1'',
     bi_existing_evidence_ids = [], bi_evidence_ids = Map.empty, bi_existing_artifact_ids = [],
     bi_artifact_ids = Map.empty, bi_existing_candidate = None, bi_candidates = Map.empty\<rparr>"

definition sc_generic_job :: job where
  "sc_generic_job = pending_job sc_generic_spec sc_inputs None [] [] None"

definition sc_running_job :: job where
  "sc_running_job = sc_generic_job\<lparr>jb_status := JS_RUNNING, jb_started_at := Some ''t2'',
     jb_runtime_epoch := Some ''epoch''\<rparr>"

definition sc_running_case :: case_t where
  "sc_running_case = sc_case\<lparr>cs_status := CS_RUNNING, cs_case_revision := 2,
     cs_active_job_id := Some ''job'', cs_updated_at := ''t1''\<rparr>"

definition sc_running :: case_snapshot where
  "sc_running = (sc_snapshot sc_running_case)\<lparr>sn_active_job := Some sc_running_job\<rparr>"

definition sc_cancel :: trigger where
  "sc_cancel = sc_trigger sc_running_case (CancelCasePayload (Some ''job''))"

definition sc_failure :: "error_code \<Rightarrow> bool \<Rightarrow> execution_failure" where
  "sc_failure code retryable = \<lparr>xf_stage = XS_ASSET_RESOLUTION, xf_code = code, xf_message = ''failed'',
     xf_retryable = retryable, xf_details = [], xf_reason_code = None, xf_diagnostic_id = None\<rparr>"

definition sc_failed :: "error_code \<Rightarrow> bool \<Rightarrow> trigger" where
  "sc_failed code retryable = sc_trigger sc_running_case (ExecutionFailedPayload
     \<lparr>xp_source_job_id = ''job'', xp_source_outcome_id = None,
      xp_execution_failure = sc_failure code retryable\<rparr>)"

definition sc_interrupted_job :: job where
  "sc_interrupted_job = sc_running_job\<lparr>jb_status := JS_INTERRUPTED, jb_finished_at := Some ''t3''\<rparr>"

definition sc_interrupted_case :: case_t where
  "sc_interrupted_case = sc_running_case\<lparr>cs_status := CS_INTERRUPTED, cs_case_revision := 3,
     cs_active_job_id := None\<rparr>"

definition sc_interrupted :: case_snapshot where
  "sc_interrupted = (sc_snapshot sc_interrupted_case)\<lparr>sn_resume_source_job := Some sc_interrupted_job\<rparr>"

definition sc_resume :: trigger where
  "sc_resume = (sc_trigger sc_interrupted_case (ResumeInterruptedPayload ''job''))
     \<lparr>tr_runtime_bindings := [JT_DIAGNOSE \<mapsto> sc_generic_bindings]\<rparr>"

definition sc_resume_spec :: job_spec where
  "sc_resume_spec = sc_generic_spec\<lparr>js_replacement_for_job_id := Some ''job''\<rparr>"

definition sc_resume_plan :: plan where
  "sc_resume_plan = (base_plan CS_RUNNING why_resume)\<lparr>tp_next_job_spec := Some sc_resume_spec\<rparr>"

definition sc_patch :: problem_spec_patch where
  "sc_patch = \<lparr>pp_statement = None, pp_expected_behavior = None, pp_actual_behavior = Some ''host'',
     pp_scope = None, pp_goals = None, pp_non_goals = None, pp_constraints = None,
     pp_completion_criteria = None\<rparr>"

definition sc_projection :: methods_terminal_projection where
  "sc_projection = \<lparr>mp_case_id = ''case'', mp_source_job_id = ''job'', mp_result_ref = ''result'',
     mp_evaluation_id = ''evaluation'', mp_status = MT_UNRESOLVED, mp_plan_ref = ''plan'',
     mp_evidence_graph_ref = ''graph'', mp_reason_code = Some MR_NO_MATCHING_METHOD_EVIDENCE,
     mp_diagnostic_id = ''d'', mp_diagnostic_evaluation_ref = None, mp_confirmed_evaluation_refs = [],
     mp_confirmed_method_ids = [], mp_confirmed_event_refs = [], mp_confirmed_hit_refs = [],
     mp_limitations = [], mp_reasons = [method_public_reason_text MR_NO_MATCHING_METHOD_EVIDENCE]\<rparr>"

section \<open>A specialised diagnosis\<close>

definition sc_agent :: diagnosis_provenance where
  "sc_agent = \<lparr>pv_source_type = DP_AGENT_OUTCOME, pv_source_ref = ''outcome'', pv_input_name = None\<rparr>"

definition sc_hypothesis :: diagnosis_item where
  "sc_hypothesis = \<lparr>it_item_id = ''h1'', it_statement = ''logs fill the disk'', it_status = DI_ACTIVE,
     it_provenance = sc_agent, it_evidence_refs = [''ev0''], it_created_revision = 1, it_supersedes = []\<rparr>"

definition sc_working_state :: diagnosis_state where
  "sc_working_state = sc_state\<lparr>ds_active_hypotheses := [sc_hypothesis], ds_evidence_refs := [''ev0'']\<rparr>"

text \<open>A job that is planned with one known and one accepted piece of evidence, in the reverse order of the state.\<close>

definition sc_evidence_state :: diagnosis_state where
  "sc_evidence_state = sc_working_state\<lparr>ds_evidence_refs := [''ev0'', ''ev1'']\<rparr>"

definition sc_evidence_spec :: job_spec where
  "sc_evidence_spec = spec_from_bindings JT_DIAGNOSE (sc_skill_bindings JT_DIAGNOSE)
     ((spec_args_of 1 generic_diagnose_goal)\<lparr>sa_evidence_bindings := [AcceptedProposal ''p1'', ExistingResource ''ev0'']\<rparr>)"

definition sc_evidence_inputs :: job_inputs where
  "sc_evidence_inputs = sc_inputs\<lparr>bi_existing_evidence_ids := [''ev0''], bi_evidence_ids := [''p1'' \<mapsto> ''ev1'']\<rparr>"

text \<open>A delta that adds a fact with new evidence and rejects the hypothesis.\<close>

definition sc_delta :: state_delta where
  "sc_delta = empty_delta
     \<lparr>sd_proposed_facts := [\<lparr>dr_item_id = ''f1'', dr_statement = ''tmp is full'', dr_provenance = sc_agent,
        dr_evidence_bindings = [ProposedEvidence ''p1''], dr_supersedes = [''h1'']\<rparr>],
      sd_reject_hypotheses := [\<lparr>ch_item_id = ''h1'', ch_statement = None, ch_reason = ''tmp is full'',
        ch_evidence_bindings = [ExistingEvidence ''ev0'']\<rparr>]\<rparr>"

definition sc_accepted_delta :: state_delta where
  "sc_accepted_delta = sc_delta\<lparr>sd_add_evidence_bindings := [ProposedEvidence ''p1'']\<rparr>"

definition sc_outcome :: job_outcome where
  "sc_outcome = \<lparr>oc_outcome_id = ''outcome'', oc_job_id = ''job'', oc_case_id = ''case'',
     oc_job_type = JT_DIAGNOSE, oc_base_state_revision = 1, oc_result_type = RT_COMPLETED,
     oc_payload = None, oc_consumed_evidence_refs = [],
     oc_proposed_evidence = [\<lparr>ep_proposal_key = ''p1'', ep_source_type = ES_ATTACHMENT,
       ep_source_binding = ExistingSource ''att'', ep_locator = AttachmentLocator None None,
       ep_summary = ''disk usage'', ep_content_hash = None, ep_staged_resource_ref = None\<rparr>],
     oc_proposed_artifacts = [], oc_error = None, oc_produced_at = ''t3'', oc_decision_audit = None,
     oc_methods_review_target = None, oc_methods_reviewer_result = None,
     oc_methods_terminal_projection = None\<rparr>"

definition sc_report :: trigger where
  "sc_report = sc_trigger sc_running_case (DiagnosisOutcomePayload (sc_outcome
     \<lparr>oc_proposed_evidence := [], oc_payload := Some (GenericPayload
        \<lparr>go_status = GS_RESOLVED, go_conclusion = ''disk full'', go_root_cause_analysis = ''disk full'',
         go_skill_name = ''general''\<rparr>)\<rparr>))"

section \<open>A waiting case\<close>

definition sc_input :: "text_t \<Rightarrow> pending_requirement" where
  "sc_input n = \<lparr>rq_requirement_id = n, rq_kind = QK_INPUT, rq_name = n, rq_prompt = n, rq_required = True,
     rq_constraints = InputConstraints \<lparr>ic_min_utf8_bytes = 1, ic_max_utf8_bytes = 64, ic_pattern = None,
       ic_allowed_values = []\<rparr>,
     rq_status = QS_OPEN, rq_requested_by_job_id = ''job'', rq_fulfilled_by_refs = [],
     rq_supplement_policy = SP_MISSING_ONLY\<rparr>"

definition sc_waiting_state :: diagnosis_state where
  "sc_waiting_state = sc_state\<lparr>ds_pending_requirements := [sc_input ''region'', sc_input ''time'']\<rparr>"

definition sc_waiting_case :: case_t where
  "sc_waiting_case = sc_case\<lparr>cs_status := CS_WAITING_INPUT, cs_case_revision := 3,
     cs_diagnosis_state := sc_waiting_state\<rparr>"

definition sc_user_fact :: diagnosis_item where
  "sc_user_fact = \<lparr>it_item_id = ''u1'', it_statement = ''eu'', it_status = DI_ACTIVE,
     it_provenance = \<lparr>pv_source_type = DP_USER_INPUT, pv_source_ref = ''trigger'', pv_input_name = Some ''region''\<rparr>,
     it_evidence_refs = [], it_created_revision = 2, it_supersedes = []\<rparr>"

definition sc_supplement_payload :: supplement_payload where
  "sc_supplement_payload = \<lparr>sp_user_facts = [sc_user_fact], sp_ready_attachment_ids = [],
     sp_stable_target_changed = False, sp_generic_supplement_text = []\<rparr>"

definition sc_supplement :: trigger where
  "sc_supplement = sc_trigger sc_waiting_case (SubmitSupplementPayload sc_supplement_payload)"

definition sc_supplement_plan :: plan where
  "sc_supplement_plan = (base_plan CS_WAITING_INPUT why_inputs_open)
     \<lparr>tp_accepted_state_delta := supplement_delta [sc_user_fact]
        [\<lparr>rf_requirement_id = ''region'', rf_fulfilled_by_refs = [''u1'']\<rparr>]\<rparr>"

section \<open>Evaluation\<close>

lemmas sc_data = sc_env_def sc_ref_def sc_skill_def sc_generic_bindings_def sc_skill_bindings_def
  sc_spec_def sc_state_def sc_case_def sc_snapshot_def sc_trigger_def sc_create_def sc_generic_spec_def
  sc_create_plan_def sc_inputs_def sc_generic_job_def sc_running_job_def sc_running_case_def sc_running_def
  sc_cancel_def sc_failure_def sc_failed_def sc_interrupted_job_def sc_interrupted_case_def
  sc_interrupted_def sc_agent_def sc_hypothesis_def sc_working_state_def sc_delta_def sc_accepted_delta_def
  sc_evidence_state_def sc_evidence_spec_def sc_evidence_inputs_def
  sc_input_def sc_waiting_state_def sc_waiting_case_def sc_user_fact_def sc_supplement_payload_def
  sc_supplement_def sc_supplement_plan_def sc_outcome_def sc_report_def sc_resume_def sc_resume_spec_def sc_resume_plan_def pending_job_def
  default_resource_limits_def

lemmas run_plan = plan_def plan_guard_def handler_def stable_target_changed_def guardC_def
  job_spec_def job_spec_error_def spec_from_bindings_def spec_args_of_def base_plan_def applied_plan_def
  mk_plan_def valid_plan_defs valid_job_spec_def valid_spec_generic_fields_def valid_spec_resources_def
  valid_spec_mode_def valid_spec_review_def valid_role_bindings_def valid_direct_bindings_def
  valid_generic_log_preparation_def is_specialized_direct_def spec_direct_def bindings_direct_def
  direct_output_contract_id_def direct_agent_profile_id_def empty_delta_def Let_def

lemmas run_valid_state = valid_diagnosis_state_def valid_state_items_def valid_state_requirements_def
  valid_state_evidence_def valid_state_candidate_def valid_problem_spec_def state_items_def
  open_requirements_def fixed_input_names_def agent_items_def

lemmas run_valid_case = valid_case_def valid_case_markdown_def valid_case_final_def
  valid_case_unresolved_def valid_case_activity_def case_generic_def generic_view_def

lemmas run_valid_job = valid_job_def valid_job_generic_fields_def valid_job_snapshot_def
  valid_job_resources_def valid_job_mode_def valid_job_review_def valid_job_lifecycle_def job_direct_def
  valid_role_bindings_def valid_direct_bindings_def valid_generic_log_preparation_def
  is_specialized_direct_def direct_output_contract_id_def direct_agent_profile_id_def

lemma sc_texts [simp]: "valid_text ''disk full''" "valid_text generic_diagnose_goal"
  "valid_text ''writes succeed''" "valid_text ''writes fail''" "valid_text ''host''"
  "valid_text ''find cause''" "valid_text ''cause named''"
  by (simp_all add: valid_text_def generic_diagnose_goal_def blank_text_def max_user_text_utf8_bytes_def)

lemma sc_state_valid: "valid_diagnosis_state sc_env sc_state"
  by (simp add: run_valid_state sc_data)

lemma sc_snapshots_valid:
  "valid_snapshot sc_env (sc_snapshot sc_case)"
  "valid_snapshot sc_env sc_running" "valid_snapshot sc_env sc_interrupted"
  by (simp_all add: valid_snapshot_def Let_def run_valid_case run_valid_job run_valid_state sc_data
      spec_from_bindings_def spec_args_of_def)

lemma sc_create_planned: "plan sc_env (sc_snapshot sc_case) sc_create = Ok sc_create_plan"
  by (simp add: run_plan create_case_def new_snapshot_matches_def sc_data)

lemma sc_resume_planned: "plan sc_env sc_interrupted sc_resume = Ok sc_resume_plan"
  by (simp add: run_plan resume_interrupted_def resume_skill_mismatch_def resume_review_error_def
      runtime_bindings_of_job_def runtime_from_job_def valid_runtime_bindings_def resume_args_def
      existing_bindings_def sc_data)

lemma sc_working_state_valid: "valid_diagnosis_state sc_env sc_working_state"
  by (simp add: run_valid_state valid_diagnosis_item_def valid_provenance_def sc_data)

lemmas run_normalize = normalize_delta_def normalize_patch_def guardC_def delta_target_error_def
  operation_ids_def new_drafts_def accepted_facts_def state_items_def validate_supersedes_def
  supersedes_graph_def graph_keys_def graph_get_def validate_new_requirements_def delta_bindings_def
  effective_hypothesis_updates_def dedupe_evidence_bindings_def validate_evidence_bindings_def
  evidence_binding_error_def binding_additions_def binding_keys_def dependency_artifact_keys_def
  logparse_run_split_def accepted_delta_of_def delta_semantic_change_def dict_by_def dedupe_def
  open_requirements_def fixed_input_names_def empty_delta_def Let_def valid_state_delta_def acyclic_check_def
  visit.simps

lemma sc_normalized:
  "normalize_delta sc_working_state sc_running_job sc_outcome sc_delta [] = Ok (sc_accepted_delta, True, [''p1''], [])"
  by (simp add: run_normalize sc_data)

lemmas run_apply = apply_diagnosis_state_delta_def provisional_state_def delta_identity_ok_def
  delta_new_ids_def delta_drafts_def delta_changed_ids_def formalize_supersedes_ok_def apply_spec_patch_opt_def
  apply_fact_drafts_def apply_hypotheses_def apply_questions_def apply_requirements_def
  resolve_evidence_bindings_def apply_candidate_mutation_def append_items_def merge_refs_def
  supersedes_graph_def graph_keys_def graph_get_def facyclic_check_def fvisit.simps state_items_def
  candidates_by_key_def index_by_def Let_def base_plan_def empty_delta_def run_valid_state stable_unique_def ensure_def

lemma sc_waiting_valid: "valid_diagnosis_state sc_env sc_waiting_state" "supersedes_acyclic sc_waiting_state"
  "valid_supplement sc_supplement_payload"
  by (simp_all add: run_valid_state valid_requirement_def supersedes_acyclic_def valid_supplement_def
      facyclic_check_def supersedes_graph_def graph_keys_def valid_diagnosis_item_def valid_provenance_def
      max_user_text_utf8_bytes_def sc_data)

lemma sc_supplement_planned: "plan sc_env (sc_snapshot sc_waiting_case) sc_supplement = Ok sc_supplement_plan"
  by (simp add: run_plan submit_supplement_def accept_supplement_def fixed_fact_error_def fixed_input_names_def
      open_requirement_values_def open_requirements_def dict_values_def dict_by_def fulfill_fact_def
      open_inputs_by_name_def state_items_def input_constraint_error_def fulfill_attachments_def
      remaining_requirements_def supplement_wait_plan_def supplement_delta_def sc_data)

lemma sc_create_applied:
  "apply_transition_plan_to_case sc_env sc_case sc_create_plan sc_state (Some sc_generic_job) ''t1'' None None =
     Inr sc_running_case"
  by (simp add: apply_transition_plan_to_case_def check_generic_v2_def next_active_job_def run_valid_case
      run_valid_state spec_from_bindings_def spec_args_of_def base_plan_def plan_generic_def
      resolve_final_result_def ensure_def Let_def sc_data)

lemma sc_failed_planned:
  "\<exists>p. plan sc_env sc_running (sc_failed EC_BACKEND_TIMEOUT True) = Ok p"
  by (simp add: run_plan execution_failed_def failure_plan_def conditional_failure_codes_def
      fatal_failure_codes_def sc_data)

lemma sc_report_planned:
  "\<exists>p. plan sc_env sc_running sc_report = Ok p \<and> tp_target_case_status p = CS_RESOLVED \<and>
     tp_methods_terminal_projection p = None"
  by (simp add: run_plan diagnosis_outcome_def on_active_outcome_def diagnosis_decided_def generic_delivery_def
      isolated_generic_outcome_def active_job_for_def payload_outcome.simps validate_active_outcome_def
      outcome_matches_job_def job_update_to_def job_direct_def valid_report_content_def sc_data)

end
