(* ===== verification/Canonical_Json.thy ===== *)
theory Canonical_Json
  imports Coordinator_Support
begin

text \<open>
  \<open>contracts/serialization.py\<close>: the canonical JSON profile that every content reference is computed
  from. \<open>canonical_json_bytes\<close> is \<open>json.dumps\<close> with sorted keys, compact separators and
  \<open>ensure_ascii=False\<close>, followed by one line feed; text is UTF-8 bytes as everywhere in the
  development. Floats do not occur in the modelled values. SHA-256 is a parameter of the environment.
\<close>

section \<open>Values\<close>

datatype json = JNull | JBool bool | JInt int | JStr text_t | JList "json list" | JObj "(text_t \<times> json) list"

definition json_opt :: "('a \<Rightarrow> json) \<Rightarrow> 'a option \<Rightarrow> json" where
  "json_opt f x = (case x of None \<Rightarrow> JNull | Some y \<Rightarrow> f y)"

definition json_strs :: "text_t list \<Rightarrow> json" where
  "json_strs xs = JList (map JStr xs)"

lemma json_opt_inj: "inj f \<Longrightarrow> (\<And>y. f y \<noteq> JNull) \<Longrightarrow> json_opt f x = json_opt f y \<longleftrightarrow> x = y"
  by (auto simp: json_opt_def inj_eq split: option.splits) metis+

lemma json_strs_inj [simp]: "json_strs xs = json_strs ys \<longleftrightarrow> xs = ys"
  by (simp add: json_strs_def inj_map_eq_map inj_def)

section \<open>Printing\<close>

definition hex_digit :: "nat \<Rightarrow> char" where
  "hex_digit n = (if n < 10 then char_of (48 + n) else char_of (87 + n))"

text \<open>\<open>py_encode_basestring\<close>: the escapes of a string.\<close>

definition json_escape :: "char \<Rightarrow> text_t" where
  "json_escape c =
     (let n = of_char c :: nat
      in if n = 34 then [char_of (92::nat), char_of (34::nat)]
         else if n = 92 then [char_of (92::nat), char_of (92::nat)]
         else if n = 10 then [char_of (92::nat), CHR ''n'']
         else if n = 13 then [char_of (92::nat), CHR ''r'']
         else if n = 9 then [char_of (92::nat), CHR ''t'']
         else if n = 12 then [char_of (92::nat), CHR ''f'']
         else if n = 8 then [char_of (92::nat), CHR ''b'']
         else if n < 32 then char_of (92::nat) # ''u00'' @ [hex_digit (n div 16), hex_digit (n mod 16)]
         else [c])"

definition json_quote :: "text_t \<Rightarrow> text_t" where
  "json_quote s = char_of (34::nat) # concat (map json_escape s) @ [char_of (34::nat)]"

fun joined :: "text_t list \<Rightarrow> text_t" where
  "joined [] = []"
| "joined [x] = x"
| "joined (x # y # ys) = x @ '','' @ joined (y # ys)"

fun json_dumps :: "json \<Rightarrow> text_t" where
  "json_dumps JNull = ''null''"
| "json_dumps (JBool b) = (if b then ''true'' else ''false'')"
| "json_dumps (JInt i) = int_str i"
| "json_dumps (JStr s) = json_quote s"
| "json_dumps (JList xs) = ''['' @ joined (map json_dumps xs) @ '']''"
| "json_dumps (JObj kvs) =
     CHR ''{'' # joined (map snd (sort_key fst (map (\<lambda>(k, v). (k, json_quote k @ '':'' @ json_dumps v)) kvs))) @
     [CHR ''}'']"

definition canonical_json_bytes :: "json \<Rightarrow> text_t" where
  "canonical_json_bytes j = json_dumps j @ [char_of (10::nat)]"

definition canonical_json_sha256 :: "py_env \<Rightarrow> json \<Rightarrow> sha256_t" where
  "canonical_json_sha256 env j = env_sha256 env (canonical_json_bytes j)"

end
