(* ===== verification/Methods_Contract.thy ===== *)
theory Methods_Contract
  imports Canonical_Json Formalization "HOL-Library.Product_Lexorder"
begin

text \<open>
  \<open>contracts/methods_v2.py\<close>: the immutable values of the Methods evaluation core (evidence sources,
  hits, events and graphs, evaluation plans, role evaluations, consensus), the content references they
  carry, and their validators. As for the other contracts, a validator is true exactly when the model can
  be constructed. Of the patterns of strings the ones of method and source identifiers and of identity tokens are
  kept; the pattern of a content reference is that of the SHA-256 it is made of.
\<close>

section \<open>Data\<close>

datatype method_role = SPECIALIST | REVIEWER
datatype consensus_status = C_RESOLVED | C_UNRESOLVED

fun role_str :: "method_role \<Rightarrow> text_t" where
  "role_str SPECIALIST = ''SPECIALIST''"
| "role_str REVIEWER = ''REVIEWER''"

fun verdict_str :: "method_verdict \<Rightarrow> text_t" where
  "verdict_str CONFIRMED = ''CONFIRMED''"
| "verdict_str REJECTED = ''REJECTED''"
| "verdict_str UNKNOWN = ''UNKNOWN''"

fun consensus_status_str :: "consensus_status \<Rightarrow> text_t" where
  "consensus_status_str C_RESOLVED = ''RESOLVED''"
| "consensus_status_str C_UNRESOLVED = ''UNRESOLVED''"

record method_source =
  sr_source_ref :: text_t
  sr_source_id :: text_t
  sr_relative_path :: text_t
  sr_content_sha256 :: sha256_t

record method_hit =
  ht_hit_ref :: text_t
  ht_method_id :: text_t
  ht_method_priority :: int
  ht_marker_index :: int
  ht_source_ref :: text_t
  ht_source_id :: text_t
  ht_line_number :: int
  ht_marker :: text_t
  ht_line :: text_t

record method_event =
  ev_event_ref :: text_t
  ev_method_id :: text_t
  ev_method_priority :: int
  ev_identity_tokens :: "text_t list"
  ev_evidence_hit_refs :: "text_t list"

record method_graph =
  gr_graph_ref :: text_t
  gr_skill_sha256 :: sha256_t
  gr_sources :: "method_source list"
  gr_hits :: "method_hit list"
  gr_events :: "method_event list"
  gr_loaded_method_ids :: "text_t list"
  gr_limitations :: "text_t list"

record plan_item =
  pl_evaluation_ref :: text_t
  pl_method_id :: text_t
  pl_method_priority :: int
  pl_evidence_event_refs :: "text_t list"
  pl_evidence_hit_refs :: "text_t list"

record evaluation_plan =
  ep_plan_ref :: text_t
  ep_skill_sha256 :: sha256_t
  ep_evidence_graph_ref :: text_t
  ep_evaluations :: "plan_item list"

record output_item =
  ot_evaluation_ref :: text_t
  ot_verdict :: method_verdict
  ot_supporting_event_refs :: "text_t list"
  ot_reason :: text_t

record role_evaluation =
  re_role :: method_role
  re_plan_ref :: text_t
  re_evaluations :: "output_item list"
  re_repair_used :: bool

record method_consensus =
  mc_plan_ref :: text_t
  mc_status :: consensus_status
  mc_confirmed_evaluation_refs :: "text_t list"
  mc_confirmed_method_ids :: "text_t list"
  mc_confirmed_event_refs :: "text_t list"

section \<open>Content references\<close>

definition method_evidence_source_ref :: "py_env \<Rightarrow> text_t \<Rightarrow> text_t \<Rightarrow> sha256_t \<Rightarrow> text_t" where
  "method_evidence_source_ref env source_id relative_path content_sha256 =
     ''source-'' @ canonical_json_sha256 env (JObj
       [(''kind'', JStr ''method-evidence-source-v2''), (''source_id'', JStr source_id),
        (''relative_path'', JStr relative_path), (''content_sha256'', JStr content_sha256)])"

definition method_evidence_hit_ref :: "py_env \<Rightarrow> method_hit \<Rightarrow> text_t" where
  "method_evidence_hit_ref env h =
     ''hit-'' @ canonical_json_sha256 env (JObj
       [(''kind'', JStr ''method-evidence-hit-v2''), (''method_id'', JStr (ht_method_id h)),
        (''method_priority'', JInt (ht_method_priority h)), (''marker_index'', JInt (ht_marker_index h)),
        (''source_ref'', JStr (ht_source_ref h)), (''source_id'', JStr (ht_source_id h)),
        (''line_number'', JInt (ht_line_number h)), (''marker'', JStr (ht_marker h)),
        (''line'', JStr (ht_line h))])"

definition method_evidence_event_ref ::
  "py_env \<Rightarrow> text_t \<Rightarrow> int \<Rightarrow> text_t list \<Rightarrow> text_t list \<Rightarrow> text_t" where
  "method_evidence_event_ref env method_id priority identity_tokens hit_refs =
     ''event-'' @ canonical_json_sha256 env (JObj
       [(''kind'', JStr ''method-evidence-event-v2''), (''method_id'', JStr method_id),
        (''method_priority'', JInt priority), (''identity_tokens'', json_strs identity_tokens),
        (''evidence_hit_refs'', json_strs hit_refs)])"

definition method_evidence_graph_ref ::
  "py_env \<Rightarrow> sha256_t \<Rightarrow> method_source list \<Rightarrow> method_hit list \<Rightarrow> method_event list \<Rightarrow> text_t list \<Rightarrow>
   text_t list \<Rightarrow> text_t" where
  "method_evidence_graph_ref env skill_sha256 sources hits events loaded limitations =
     ''graph-'' @ canonical_json_sha256 env (JObj
       [(''kind'', JStr ''method-evidence-graph-v2''), (''skill_sha256'', JStr skill_sha256),
        (''source_refs'', json_strs (map sr_source_ref sources)), (''hit_refs'', json_strs (map ht_hit_ref hits)),
        (''event_refs'', json_strs (map ev_event_ref events)), (''loaded_method_ids'', json_strs loaded),
        (''limitations'', json_strs limitations)])"

definition method_evaluation_ref ::
  "py_env \<Rightarrow> text_t \<Rightarrow> int \<Rightarrow> text_t list \<Rightarrow> text_t list \<Rightarrow> text_t" where
  "method_evaluation_ref env method_id priority event_refs hit_refs =
     ''eval-'' @ canonical_json_sha256 env (JObj
       [(''kind'', JStr ''method-evaluation-v2''), (''method_id'', JStr method_id),
        (''method_priority'', JInt priority), (''evidence_event_refs'', json_strs event_refs),
        (''evidence_hit_refs'', json_strs hit_refs)])"

definition method_evaluation_plan_ref ::
  "py_env \<Rightarrow> sha256_t \<Rightarrow> text_t \<Rightarrow> plan_item list \<Rightarrow> text_t" where
  "method_evaluation_plan_ref env skill_sha256 graph_ref evaluations =
     ''plan-'' @ canonical_json_sha256 env (JObj
       [(''kind'', JStr ''method-evaluation-plan-v2''), (''skill_sha256'', JStr skill_sha256),
        (''evidence_graph_ref'', JStr graph_ref),
        (''evaluation_refs'', json_strs (map pl_evaluation_ref evaluations))])"

section \<open>Identifiers\<close>

definition is_lower :: "nat \<Rightarrow> bool" where
  "is_lower c \<longleftrightarrow> 97 \<le> c \<and> c \<le> 122"

definition is_digit :: "nat \<Rightarrow> bool" where
  "is_digit c \<longleftrightarrow> 48 \<le> c \<and> c \<le> 57"

text \<open>Words of lower case letters and digits, joined by single separators; \<open>fresh\<close> says that a word has to start.\<close>

fun joined_words :: "nat list \<Rightarrow> bool \<Rightarrow> nat list \<Rightarrow> bool" where
  "joined_words seps fresh [] = (\<not> fresh)"
| "joined_words seps fresh (c # cs) =
     (if c \<in> set seps then \<not> fresh \<and> joined_words seps True cs
      else (is_lower c \<or> is_digit c) \<and> joined_words seps False cs)"

definition starts_lower :: "nat list \<Rightarrow> bool" where
  "starts_lower cs = (case cs of [] \<Rightarrow> False | c # _ \<Rightarrow> is_lower c)"

text \<open>\<open>[a-z0-9]+(?:-[a-z0-9]+)*\<close>, \<open>[a-z][a-z0-9]*(?:_[a-z0-9]+)*\<close> and \<open>[a-z][a-z0-9]*(?:[_-][a-z0-9]+)*\<close>.\<close>

definition kebab_case :: "text_t \<Rightarrow> bool" where
  "kebab_case s = joined_words [45] True (map of_char s)"

definition snake_case :: "text_t \<Rightarrow> bool" where
  "snake_case s \<longleftrightarrow> starts_lower (map of_char s) \<and> joined_words [95] True (map of_char s)"

definition source_name :: "text_t \<Rightarrow> bool" where
  "source_name s \<longleftrightarrow> starts_lower (map of_char s) \<and> joined_words [95, 45] True (map of_char s)"

text \<open>\<open>MethodIdV2\<close> and \<open>MethodEvidenceSourceIdV2\<close>; the patterns are ASCII, so a character is a byte.\<close>

definition method_id_ok :: "text_t \<Rightarrow> bool" where
  "method_id_ok s \<longleftrightarrow> length s \<le> 256 \<and> kebab_case s"

definition source_id_ok :: "text_t \<Rightarrow> bool" where
  "source_id_ok s \<longleftrightarrow> length s \<le> 256 \<and> source_name s"

text \<open>\<open>MethodEvidenceIdentityTokenV2\<close>: a name, \<open>=\<close>, and a value without white space, comma and semicolon.\<close>

fun white_space_at :: "nat list \<Rightarrow> bool" where
  "white_space_at [] = False"
| "white_space_at (a # bs) =
     ((9 \<le> a \<and> a \<le> 13) \<or> a = 32 \<or>
      (a = 194 \<and> take 1 bs \<in> {[133], [160]}) \<or> (a = 225 \<and> take 2 bs = [154, 128]) \<or>
      (a = 226 \<and> (case take 2 bs of
         [b, c] \<Rightarrow> (b = 128 \<and> ((128 \<le> c \<and> c \<le> 138) \<or> c = 168 \<or> c = 169 \<or> c = 175)) \<or> (b = 129 \<and> c = 159)
       | _ \<Rightarrow> False)) \<or>
      (a = 227 \<and> take 2 bs = [128, 128]))"

fun plain_value :: "text_t \<Rightarrow> bool" where
  "plain_value [] = True"
| "plain_value (c # cs) =
     (\<not> white_space_at (map of_char (c # cs)) \<and> c \<noteq> CHR '','' \<and> c \<noteq> CHR '';'' \<and> plain_value cs)"

text \<open>\<open>item.split("=", 1)[0]\<close>.\<close>

definition token_name :: "text_t \<Rightarrow> text_t" where
  "token_name t = takeWhile (\<lambda>c. c \<noteq> CHR ''='') t"

definition identity_token_ok :: "text_t \<Rightarrow> bool" where
  "identity_token_ok t \<longleftrightarrow>
     snake_case (token_name t) \<and>
     (case drop (length (token_name t)) t of [] \<Rightarrow> False | e # value \<Rightarrow> value \<noteq> [] \<and> plain_value value)"

section \<open>Validators\<close>

definition unique_refs :: "text_t list \<Rightarrow> bool" where
  "unique_refs xs \<longleftrightarrow> xs \<noteq> [] \<and> distinct xs"

definition valid_method_source :: "py_env \<Rightarrow> method_source \<Rightarrow> bool" where
  "valid_method_source env s \<longleftrightarrow>
     source_id_ok (sr_source_id s) \<and>
     sr_source_ref s =
       method_evidence_source_ref env (sr_source_id s) (sr_relative_path s) (sr_content_sha256 s)"

definition valid_method_hit :: "py_env \<Rightarrow> method_hit \<Rightarrow> bool" where
  "valid_method_hit env h \<longleftrightarrow>
     method_id_ok (ht_method_id h) \<and> source_id_ok (ht_source_id h) \<and>
     ht_method_priority h > 0 \<and> ht_marker_index h > 0 \<and> ht_line_number h > 0 \<and>
     ht_marker h \<noteq> [] \<and> ht_line h \<noteq> [] \<and> ht_hit_ref h = method_evidence_hit_ref env h"

definition valid_method_event :: "py_env \<Rightarrow> method_event \<Rightarrow> bool" where
  "valid_method_event env e \<longleftrightarrow>
     method_id_ok (ev_method_id e) \<and> list_all identity_token_ok (ev_identity_tokens e) \<and>
     ev_method_priority e > 0 \<and> distinct (ev_identity_tokens e) \<and>
     distinct (map token_name (ev_identity_tokens e)) \<and> unique_refs (ev_evidence_hit_refs e) \<and>
     ev_event_ref e = method_evidence_event_ref env (ev_method_id e) (ev_method_priority e)
       (ev_identity_tokens e) (ev_evidence_hit_refs e)"

text \<open>The sort keys of hits, events and evaluations.\<close>

definition hit_order_key :: "method_hit \<Rightarrow> int \<times> text_t \<times> int \<times> text_t \<times> int" where
  "hit_order_key h = (ht_method_priority h, ht_method_id h, ht_marker_index h, ht_source_id h, ht_line_number h)"

definition hit_positions :: "method_hit list \<Rightarrow> text_t \<rightharpoonup> nat" where
  "hit_positions hits = index_by ht_hit_ref hits"

definition event_order_key :: "method_hit list \<Rightarrow> method_event \<Rightarrow> int \<times> text_t \<times> nat" where
  "event_order_key hits e = (ev_method_priority e, ev_method_id e,
     min_list (map (\<lambda>r. the (hit_positions hits r)) (ev_evidence_hit_refs e)))"

text \<open>The loop over the events of \<open>validate_graph\<close>; \<open>seen\<close> is \<open>keyed_event_keys\<close>.\<close>

fun graph_events_ok ::
  "method_hit list \<Rightarrow> (text_t \<times> text_t list) list \<Rightarrow> method_event list \<Rightarrow> bool" where
  "graph_events_ok hits seen [] = True"
| "graph_events_ok hits seen (e # es) =
     ((if ev_identity_tokens e \<noteq> [] then (ev_method_id e, ev_identity_tokens e) \<notin> set seen
       else length (ev_evidence_hit_refs e) = 1) \<and>
      list_all (\<lambda>r. case dict_by ht_hit_ref hits r of
          None \<Rightarrow> False
        | Some h \<Rightarrow> ht_method_id h = ev_method_id e \<and> ht_method_priority h = ev_method_priority e)
        (ev_evidence_hit_refs e) \<and>
      graph_events_ok hits
        (if ev_identity_tokens e \<noteq> [] then (ev_method_id e, ev_identity_tokens e) # seen else seen) es)"

text \<open>\<open>priority_by_method\<close> in the order of first occurrence, and the loop that fills it.\<close>

definition method_priorities :: "method_hit list \<Rightarrow> (text_t \<times> int) list" where
  "method_priorities hits = map (\<lambda>h. (ht_method_id h, ht_method_priority h)) (dedupe_loop ht_method_id [] hits)"

definition priorities_stable :: "method_hit list \<Rightarrow> bool" where
  "priorities_stable hits \<longleftrightarrow>
     list_all (\<lambda>h. map_of (method_priorities hits) (ht_method_id h) = Some (ht_method_priority h)) hits"

definition valid_graph_events :: "method_graph \<Rightarrow> bool" where
  "valid_graph_events g \<longleftrightarrow>
     distinct (map ev_event_ref (gr_events g)) \<and> graph_events_ok (gr_hits g) [] (gr_events g) \<and>
     sort (concat (map ev_evidence_hit_refs (gr_events g))) = sort (map ht_hit_ref (gr_hits g)) \<and>
     sort_key (event_order_key (gr_hits g)) (gr_events g) = gr_events g"

definition valid_graph_hits :: "method_graph \<Rightarrow> bool" where
  "valid_graph_hits g \<longleftrightarrow>
     distinct (map sr_source_ref (gr_sources g)) \<and> distinct (map sr_source_id (gr_sources g)) \<and>
     distinct (map ht_hit_ref (gr_hits g)) \<and>
     list_all (\<lambda>h. case dict_by sr_source_ref (gr_sources g) (ht_source_ref h) of
        None \<Rightarrow> False | Some s \<Rightarrow> ht_source_id h = sr_source_id s) (gr_hits g) \<and>
     sort_key hit_order_key (gr_hits g) = gr_hits g"

definition valid_graph_methods :: "method_graph \<Rightarrow> bool" where
  "valid_graph_methods g \<longleftrightarrow>
     distinct (gr_loaded_method_ids g) \<and> distinct (gr_limitations g) \<and>
     set (gr_loaded_method_ids g) = ht_method_id ` set (gr_hits g) \<and> priorities_stable (gr_hits g) \<and>
     gr_loaded_method_ids g = map fst (sort_key (\<lambda>(m, p). (p, m)) (method_priorities (gr_hits g)))"

definition valid_method_graph :: "py_env \<Rightarrow> method_graph \<Rightarrow> bool" where
  "valid_method_graph env g \<longleftrightarrow>
     list_all (valid_method_source env) (gr_sources g) \<and> list_all (valid_method_hit env) (gr_hits g) \<and>
     list_all (valid_method_event env) (gr_events g) \<and> list_all valid_text (gr_limitations g) \<and>
     list_all method_id_ok (gr_loaded_method_ids g) \<and>
     valid_graph_hits g \<and> valid_graph_events g \<and> valid_graph_methods g \<and>
     gr_graph_ref g = method_evidence_graph_ref env (gr_skill_sha256 g) (gr_sources g) (gr_hits g)
       (gr_events g) (gr_loaded_method_ids g) (gr_limitations g)"

definition valid_plan_item :: "py_env \<Rightarrow> plan_item \<Rightarrow> bool" where
  "valid_plan_item env i \<longleftrightarrow>
     method_id_ok (pl_method_id i) \<and> pl_method_priority i > 0 \<and>
     unique_refs (pl_evidence_event_refs i) \<and> unique_refs (pl_evidence_hit_refs i) \<and>
     pl_evaluation_ref i = method_evaluation_ref env (pl_method_id i) (pl_method_priority i)
       (pl_evidence_event_refs i) (pl_evidence_hit_refs i)"

definition plan_order_key :: "plan_item \<Rightarrow> int \<times> text_t" where
  "plan_order_key i = (pl_method_priority i, pl_method_id i)"

definition valid_evaluation_plan :: "py_env \<Rightarrow> evaluation_plan \<Rightarrow> bool" where
  "valid_evaluation_plan env p \<longleftrightarrow>
     list_all (valid_plan_item env) (ep_evaluations p) \<and>
     distinct (map pl_evaluation_ref (ep_evaluations p)) \<and> distinct (map pl_method_id (ep_evaluations p)) \<and>
     sort_key plan_order_key (ep_evaluations p) = ep_evaluations p \<and>
     ep_plan_ref p =
       method_evaluation_plan_ref env (ep_skill_sha256 p) (ep_evidence_graph_ref p) (ep_evaluations p)"

definition valid_output_item :: "output_item \<Rightarrow> bool" where
  "valid_output_item i \<longleftrightarrow>
     valid_text (ot_reason i) \<and> distinct (ot_supporting_event_refs i) \<and>
     (ot_verdict i = CONFIRMED \<longleftrightarrow> ot_supporting_event_refs i \<noteq> [])"

definition valid_role_evaluation :: "role_evaluation \<Rightarrow> bool" where
  "valid_role_evaluation r \<longleftrightarrow> list_all valid_output_item (re_evaluations r)"

definition valid_consensus :: "method_consensus \<Rightarrow> bool" where
  "valid_consensus c \<longleftrightarrow>
     list_all method_id_ok (mc_confirmed_method_ids c) \<and>
     length (mc_confirmed_evaluation_refs c) = length (mc_confirmed_method_ids c) \<and>
     distinct (mc_confirmed_evaluation_refs c) \<and> distinct (mc_confirmed_method_ids c) \<and>
     distinct (mc_confirmed_event_refs c) \<and>
     (case mc_status c of
        C_UNRESOLVED \<Rightarrow> mc_confirmed_evaluation_refs c = [] \<and> mc_confirmed_method_ids c = [] \<and>
          mc_confirmed_event_refs c = []
      | C_RESOLVED \<Rightarrow> mc_confirmed_evaluation_refs c \<noteq> [] \<and> mc_confirmed_event_refs c \<noteq> [])"

end
