(* ===== verification/Methods_Evaluation.thy ===== *)
theory Methods_Evaluation
  imports Methods_Contract
begin

text \<open>
  \<open>runtime/methods_evidence_v2.py\<close> and \<open>runtime/methods_evaluation_v2.py\<close>: planning one evaluation per
  method that has evidence, binding the response of a role to the plan, and the blind consensus of the two
  roles. The scan of the log files that produces the evidence graph is in \<open>Methods_Scan\<close>.
  \<open>MethodEvaluationResponseError\<close> is a \<open>ValueError\<close>; the response is modelled after \<open>json.loads\<close>.
\<close>

section \<open>Planning\<close>

text \<open>The fields of \<open>MethodCardV1\<close> and \<open>ResolvedSpecializedSkillV1\<close> that planning reads.\<close>

record method_card =
  cd_id :: text_t
  cd_priority :: int
  cd_evidence_markers :: "text_t list"
  cd_activation_markers :: "text_t list"

record resolved_skill =
  sk_combined_sha256 :: sha256_t
  sk_methods :: "method_card list"
  sk_log_derived_fields :: "text_t list"

definition methods_of_event :: "text_t \<Rightarrow> method_event list \<Rightarrow> method_event list" where
  "methods_of_event m es = filter (\<lambda>e. ev_method_id e = m) es"

definition hits_of_method :: "text_t \<Rightarrow> method_hit list \<Rightarrow> method_hit list" where
  "hits_of_method m hs = filter (\<lambda>h. ht_method_id h = m) hs"

text \<open>The checks of one plan item against its graph.\<close>

definition plan_item_bound :: "method_graph \<Rightarrow> plan_item \<Rightarrow> bool" where
  "plan_item_bound g i \<longleftrightarrow>
     pl_evidence_event_refs i = map ev_event_ref (methods_of_event (pl_method_id i) (gr_events g)) \<and>
     pl_evidence_hit_refs i = map ht_hit_ref (hits_of_method (pl_method_id i) (gr_hits g)) \<and>
     list_all (\<lambda>h. ht_method_priority h = pl_method_priority i) (hits_of_method (pl_method_id i) (gr_hits g)) \<and>
     list_all (\<lambda>e. ev_method_priority e = pl_method_priority i) (methods_of_event (pl_method_id i) (gr_events g))"

definition validate_method_evaluation_plan :: "method_graph \<Rightarrow> evaluation_plan \<Rightarrow> exn + unit" where
  "validate_method_evaluation_plan g p = ensure
     (ep_skill_sha256 p = gr_skill_sha256 g \<and> ep_evidence_graph_ref p = gr_graph_ref g \<and>
      map pl_method_id (ep_evaluations p) = gr_loaded_method_ids g \<and>
      list_all (plan_item_bound g) (ep_evaluations p) \<and>
      concat (map pl_evidence_event_refs (ep_evaluations p)) = map ev_event_ref (gr_events g) \<and>
      concat (map pl_evidence_hit_refs (ep_evaluations p)) = map ht_hit_ref (gr_hits g)) ()"

text \<open>The guards of \<open>build_method_evaluation_plan_v2\<close>: the graph belongs to the skill.\<close>

definition hit_card_ok :: "method_card list \<Rightarrow> method_hit \<Rightarrow> bool" where
  "hit_card_ok cards h \<longleftrightarrow>
     (case dict_by cd_id cards (ht_method_id h) of
        None \<Rightarrow> False
      | Some c \<Rightarrow>
          ht_method_priority h = cd_priority c \<and> ht_marker_index h \<le> int (length (cd_evidence_markers c)) \<and>
          ht_marker h = cd_evidence_markers c ! nat (ht_marker_index h - 1))"

definition method_activated :: "method_card list \<Rightarrow> method_hit list \<Rightarrow> text_t \<Rightarrow> bool" where
  "method_activated cards hits m \<longleftrightarrow>
     (case dict_by cd_id cards m of
        None \<Rightarrow> False
      | Some c \<Rightarrow> list_ex (\<lambda>h. ht_method_id h = m \<and> ht_marker h \<in> set (cd_activation_markers c)) hits)"

definition graph_of_skill :: "resolved_skill \<Rightarrow> method_graph \<Rightarrow> bool" where
  "graph_of_skill sk g \<longleftrightarrow>
     gr_skill_sha256 g = sk_combined_sha256 sk \<and>
     list_all (\<lambda>h. ht_method_id h \<in> cd_id ` set (sk_methods sk)) (gr_hits g) \<and>
     gr_loaded_method_ids g =
       map cd_id (filter (\<lambda>c. cd_id c \<in> ht_method_id ` set (gr_hits g))
         (sort_key (\<lambda>c. (cd_priority c, cd_id c)) (sk_methods sk))) \<and>
     list_all (hit_card_ok (sk_methods sk)) (gr_hits g) \<and>
     list_all (method_activated (sk_methods sk) (gr_hits g)) (gr_loaded_method_ids g)"

definition planned_item :: "py_env \<Rightarrow> resolved_skill \<Rightarrow> method_graph \<Rightarrow> text_t \<Rightarrow> plan_item" where
  "planned_item env sk g m =
     (let priority = cd_priority (the (dict_by cd_id (sk_methods sk) m));
          event_refs = map ev_event_ref (methods_of_event m (gr_events g));
          hit_refs = map ht_hit_ref (hits_of_method m (gr_hits g))
      in \<lparr>pl_evaluation_ref = method_evaluation_ref env m priority event_refs hit_refs,
          pl_method_id = m, pl_method_priority = priority, pl_evidence_event_refs = event_refs,
          pl_evidence_hit_refs = hit_refs\<rparr>)"

definition build_method_evaluation_plan ::
  "py_env \<Rightarrow> resolved_skill \<Rightarrow> method_graph \<Rightarrow> exn + evaluation_plan" where
  "build_method_evaluation_plan env sk g =
     (if \<not> graph_of_skill sk g then Inl ValueError
      else
        let items = map (planned_item env sk g) (gr_loaded_method_ids g);
            p = \<lparr>ep_plan_ref = method_evaluation_plan_ref env (sk_combined_sha256 sk) (gr_graph_ref g) items,
                 ep_skill_sha256 = sk_combined_sha256 sk, ep_evidence_graph_ref = gr_graph_ref g,
                 ep_evaluations = items\<rparr>
        in bindE (ensure (valid_evaluation_plan env p) p) (\<lambda>p.
           bindE (validate_method_evaluation_plan g p) (\<lambda>_. Inr p)))"

section \<open>Responses of a role\<close>

fun json_text_list :: "json list \<Rightarrow> text_t list option" where
  "json_text_list [] = Some []"
| "json_text_list (JStr s # xs) = map_option (\<lambda>ys. s # ys) (json_text_list xs)"
| "json_text_list (_ # xs) = None"

fun verdict_of :: "text_t \<Rightarrow> method_verdict option" where
  "verdict_of s =
     (if s = ''CONFIRMED'' then Some CONFIRMED else if s = ''REJECTED'' then Some REJECTED
      else if s = ''UNKNOWN'' then Some UNKNOWN else None)"

text \<open>\<open>MethodEvaluationOutputItemV2.model_validate\<close> of an object with exactly the four fields.\<close>

definition output_item_of_json :: "json \<Rightarrow> output_item option" where
  "output_item_of_json j =
     (case j of
        JObj kvs \<Rightarrow>
          (if \<not> (distinct (map fst kvs) \<and>
                 set (map fst kvs) = {''evaluation_ref'', ''verdict'', ''supporting_event_refs'', ''reason''})
           then None
           else
             (case (map_of kvs ''evaluation_ref'', map_of kvs ''verdict'',
                    map_of kvs ''supporting_event_refs'', map_of kvs ''reason'') of
                (Some (JStr r), Some (JStr v), Some (JList refs), Some (JStr why)) \<Rightarrow>
                  (case (verdict_of v, json_text_list refs) of
                     (Some verdict, Some events) \<Rightarrow>
                       let i = \<lparr>ot_evaluation_ref = r, ot_verdict = verdict,
                                ot_supporting_event_refs = events, ot_reason = why\<rparr>
                       in if valid_output_item i then Some i else None
                   | _ \<Rightarrow> None)
              | _ \<Rightarrow> None))
      | _ \<Rightarrow> None)"

text \<open>The supporting events of an item stay inside the planned evaluation and keep its order.\<close>

definition supports_in_order :: "plan_item \<Rightarrow> output_item \<Rightarrow> bool" where
  "supports_in_order planned i \<longleftrightarrow>
     list_all (\<lambda>r. r \<in> set (pl_evidence_event_refs planned)) (ot_supporting_event_refs i) \<and>
     ot_supporting_event_refs i =
       filter (\<lambda>r. r \<in> set (ot_supporting_event_refs i)) (pl_evidence_event_refs planned)"

fun parse_items :: "json list \<Rightarrow> plan_item list \<Rightarrow> exn + output_item list" where
  "parse_items (raw # raws) (planned # ps) =
     (case output_item_of_json raw of
        None \<Rightarrow> Inl ValueError
      | Some i \<Rightarrow>
          if ot_evaluation_ref i \<noteq> pl_evaluation_ref planned then Inl ValueError
          else if \<not> supports_in_order planned i then Inl ValueError
          else bindE (parse_items raws ps) (\<lambda>is. Inr (i # is)))"
| "parse_items _ _ = Inr []"

definition parse_method_evaluation_response :: "evaluation_plan \<Rightarrow> json \<Rightarrow> exn + output_item list" where
  "parse_method_evaluation_response p decoded =
     (case decoded of
        JList raws \<Rightarrow>
          if length raws \<noteq> length (ep_evaluations p) then Inl ValueError
          else parse_items raws (ep_evaluations p)
      | _ \<Rightarrow> Inl ValueError)"

definition evaluate_method_role ::
  "method_role \<Rightarrow> evaluation_plan \<Rightarrow> json \<Rightarrow> bool \<Rightarrow> exn + role_evaluation" where
  "evaluate_method_role role p response repair =
     bindE (parse_method_evaluation_response p response) (\<lambda>is.
       Inr \<lparr>re_role = role, re_plan_ref = ep_plan_ref p, re_evaluations = is, re_repair_used = repair\<rparr>)"

section \<open>Consensus\<close>

definition role_covers_plan :: "evaluation_plan \<Rightarrow> role_evaluation \<Rightarrow> bool" where
  "role_covers_plan p r \<longleftrightarrow>
     re_plan_ref r = ep_plan_ref p \<and>
     map ot_evaluation_ref (re_evaluations r) = map pl_evaluation_ref (ep_evaluations p) \<and>
     list_all2 supports_in_order (ep_evaluations p) (re_evaluations r)"

text \<open>What two blind roles are compared on: references, verdicts and evidence, not the reasons.\<close>

definition blind :: "role_evaluation \<Rightarrow> (text_t \<times> method_verdict \<times> text_t list) list" where
  "blind r = map (\<lambda>i. (ot_evaluation_ref i, ot_verdict i, ot_supporting_event_refs i)) (re_evaluations r)"

definition roles_resolve :: "role_evaluation \<Rightarrow> role_evaluation \<Rightarrow> bool" where
  "roles_resolve a b \<longleftrightarrow>
     blind a = blind b \<and> UNKNOWN \<notin> set (map ot_verdict (re_evaluations a)) \<and>
     CONFIRMED \<in> set (map ot_verdict (re_evaluations a))"

definition confirmed_items :: "role_evaluation \<Rightarrow> output_item list" where
  "confirmed_items r = filter (\<lambda>i. ot_verdict i = CONFIRMED) (re_evaluations r)"

definition resolve_method_consensus ::
  "evaluation_plan \<Rightarrow> role_evaluation \<Rightarrow> role_evaluation \<Rightarrow> exn + method_consensus" where
  "resolve_method_consensus p first second =
     (if {re_role first, re_role second} \<noteq> {SPECIALIST, REVIEWER} then Inl ValueError
      else if \<not> role_covers_plan p first \<or> \<not> role_covers_plan p second then Inl ValueError
      else
        let c = (if \<not> roles_resolve first second
                 then \<lparr>mc_plan_ref = ep_plan_ref p, mc_status = C_UNRESOLVED,
                       mc_confirmed_evaluation_refs = [], mc_confirmed_method_ids = [],
                       mc_confirmed_event_refs = []\<rparr>
                 else
                   let pairs = filter (\<lambda>(_, i). ot_verdict i = CONFIRMED)
                         (zip (ep_evaluations p) (re_evaluations first))
                   in \<lparr>mc_plan_ref = ep_plan_ref p, mc_status = C_RESOLVED,
                       mc_confirmed_evaluation_refs = map (\<lambda>(q, _). pl_evaluation_ref q) pairs,
                       mc_confirmed_method_ids = map (\<lambda>(q, _). pl_method_id q) pairs,
                       mc_confirmed_event_refs = concat (map (\<lambda>(_, i). ot_supporting_event_refs i) pairs)\<rparr>)
        in ensure (valid_consensus c) c)"

end
