(* ===== verification/Methods_State.thy ===== *)
theory Methods_State
  imports Methods_Evaluation
begin

text \<open>
  \<open>contracts/methods_state_v2.py\<close> (the state) and \<open>domain/methods_state_v2.py\<close> (its reducer): the
  business state machine of a Methods evaluation. A state is content addressed; every operation builds the
  next state, computes its reference and runs the validator of \<open>MethodStateV2\<close> on it.
\<close>

section \<open>The state\<close>

datatype method_status =
    M_SPECIALIST_PENDING | M_REVIEWER_PENDING | M_RESOLVED | M_UNRESOLVED | M_FAILED | M_INTERRUPTED

fun method_status_str :: "method_status \<Rightarrow> text_t" where
  "method_status_str M_SPECIALIST_PENDING = ''SPECIALIST_PENDING''"
| "method_status_str M_REVIEWER_PENDING = ''REVIEWER_PENDING''"
| "method_status_str M_RESOLVED = ''RESOLVED''"
| "method_status_str M_UNRESOLVED = ''UNRESOLVED''"
| "method_status_str M_FAILED = ''FAILED''"
| "method_status_str M_INTERRUPTED = ''INTERRUPTED''"

record method_state =
  ms_state_ref :: text_t
  ms_case_id :: opaque_id
  ms_source_job_id :: opaque_id
  ms_evaluation_id :: opaque_id
  ms_plan_ref :: text_t
  ms_evaluation_refs :: "text_t list"
  ms_status :: method_status
  ms_current_role :: "method_role option"
  ms_specialist_protocol_failures :: int
  ms_reviewer_protocol_failures :: int
  ms_specialist_evaluation :: "role_evaluation option"
  ms_reviewer_evaluation :: "role_evaluation option"
  ms_consensus :: "method_consensus option"
  ms_reason_code :: "method_reason option"
  ms_diagnostic_id :: "text_t option"
  ms_diagnostic_evaluation_ref :: "text_t option"
  ms_reasons :: "text_t list"

definition method_diagnostic_id ::
  "py_env \<Rightarrow> opaque_id \<Rightarrow> opaque_id \<Rightarrow> opaque_id \<Rightarrow> text_t \<Rightarrow> method_status \<Rightarrow> method_reason option \<Rightarrow>
   text_t option \<Rightarrow> text_t" where
  "method_diagnostic_id env case_id source_job_id evaluation_id plan_ref status reason_code evaluation_ref =
     ''diag-'' @ canonical_json_sha256 env (JObj
       [(''kind'', JStr ''method-diagnostic-v2''), (''case_id'', JStr case_id),
        (''source_job_id'', JStr source_job_id), (''evaluation_id'', JStr evaluation_id),
        (''plan_ref'', JStr plan_ref), (''status'', JStr (method_status_str status)),
        (''reason_code'', json_opt (\<lambda>r. JStr (method_reason_str r)) reason_code),
        (''evaluation_ref'', json_opt JStr evaluation_ref)])"

definition output_item_dump :: "output_item \<Rightarrow> json" where
  "output_item_dump i = JObj
     [(''evaluation_ref'', JStr (ot_evaluation_ref i)), (''verdict'', JStr (verdict_str (ot_verdict i))),
      (''supporting_event_refs'', json_strs (ot_supporting_event_refs i)), (''reason'', JStr (ot_reason i))]"

definition role_dump :: "role_evaluation \<Rightarrow> json" where
  "role_dump r = JObj
     [(''role'', JStr (role_str (re_role r))), (''plan_ref'', JStr (re_plan_ref r)),
      (''evaluations'', JList (map output_item_dump (re_evaluations r))),
      (''repair_used'', JBool (re_repair_used r))]"

definition consensus_dump :: "method_consensus \<Rightarrow> json" where
  "consensus_dump c = JObj
     [(''plan_ref'', JStr (mc_plan_ref c)), (''status'', JStr (consensus_status_str (mc_status c))),
      (''confirmed_evaluation_refs'', json_strs (mc_confirmed_evaluation_refs c)),
      (''confirmed_method_ids'', json_strs (mc_confirmed_method_ids c)),
      (''confirmed_event_refs'', json_strs (mc_confirmed_event_refs c))]"

text \<open>The preimage of \<open>method_state_ref_v2\<close>.\<close>

definition method_state_json :: "method_state \<Rightarrow> json" where
  "method_state_json s = JObj
     [(''kind'', JStr ''method-state-v2''), (''case_id'', JStr (ms_case_id s)),
      (''source_job_id'', JStr (ms_source_job_id s)), (''evaluation_id'', JStr (ms_evaluation_id s)),
      (''plan_ref'', JStr (ms_plan_ref s)), (''evaluation_refs'', json_strs (ms_evaluation_refs s)),
      (''status'', JStr (method_status_str (ms_status s))),
      (''current_role'', json_opt (\<lambda>r. JStr (role_str r)) (ms_current_role s)),
      (''specialist_protocol_failures'', JInt (ms_specialist_protocol_failures s)),
      (''reviewer_protocol_failures'', JInt (ms_reviewer_protocol_failures s)),
      (''specialist_evaluation'', json_opt role_dump (ms_specialist_evaluation s)),
      (''reviewer_evaluation'', json_opt role_dump (ms_reviewer_evaluation s)),
      (''consensus'', json_opt consensus_dump (ms_consensus s)),
      (''reason_code'', json_opt (\<lambda>r. JStr (method_reason_str r)) (ms_reason_code s)),
      (''diagnostic_id'', json_opt JStr (ms_diagnostic_id s)),
      (''diagnostic_evaluation_ref'', json_opt JStr (ms_diagnostic_evaluation_ref s)),
      (''reasons'', json_strs (ms_reasons s))]"

definition method_state_ref :: "py_env \<Rightarrow> method_state \<Rightarrow> text_t" where
  "method_state_ref env s = ''state-'' @ canonical_json_sha256 env (method_state_json s)"

section \<open>The validator\<close>

definition role_fits :: "method_state \<Rightarrow> method_role \<Rightarrow> role_evaluation option \<Rightarrow> int \<Rightarrow> bool" where
  "role_fits s role ev failures \<longleftrightarrow>
     (case ev of
        None \<Rightarrow> True
      | Some r \<Rightarrow>
          valid_role_evaluation r \<and> re_role r = role \<and> re_plan_ref r = ms_plan_ref s \<and>
          map ot_evaluation_ref (re_evaluations r) = ms_evaluation_refs s \<and>
          failures = (if re_repair_used r then 1 else 0))"

text \<open>The consensus that two role evaluations determine.\<close>

definition consensus_expected :: "method_consensus \<Rightarrow> role_evaluation \<Rightarrow> role_evaluation \<Rightarrow> bool" where
  "consensus_expected c specialist reviewer \<longleftrightarrow>
     (let resolved = roles_resolve specialist reviewer
      in mc_status c = (if resolved then C_RESOLVED else C_UNRESOLVED) \<and>
         mc_confirmed_evaluation_refs c =
           (if resolved then map ot_evaluation_ref (confirmed_items specialist) else []) \<and>
         mc_confirmed_event_refs c =
           (if resolved then concat (map ot_supporting_event_refs (confirmed_items specialist)) else []))"

definition consensus_fits :: "method_state \<Rightarrow> bool" where
  "consensus_fits s \<longleftrightarrow>
     (case ms_consensus s of
        None \<Rightarrow> True
      | Some c \<Rightarrow>
          valid_consensus c \<and> mc_plan_ref c = ms_plan_ref s \<and>
          list_all (\<lambda>r. r \<in> set (ms_evaluation_refs s)) (mc_confirmed_evaluation_refs c) \<and>
          (case (ms_specialist_evaluation s, ms_reviewer_evaluation s) of
             (Some a, Some b) \<Rightarrow> consensus_expected c a b
           | _ \<Rightarrow> False)) \<and>
     (ms_reviewer_evaluation s = None \<longleftrightarrow> ms_consensus s = None)"

definition role_waiting :: "method_state \<Rightarrow> method_role \<Rightarrow> bool" where
  "role_waiting s role \<longleftrightarrow>
     ms_current_role s = Some role \<and> ms_reason_code s = None \<and> ms_diagnostic_id s = None \<and>
     ms_diagnostic_evaluation_ref s = None \<and> ms_consensus s = None \<and> ms_reasons s = [] \<and>
     ms_specialist_protocol_failures s \<le> 1 \<and> ms_reviewer_protocol_failures s \<le> 1 \<and>
     ms_reviewer_evaluation s = None \<and>
     (case role of
        SPECIALIST \<Rightarrow> ms_specialist_evaluation s = None \<and> ms_reviewer_protocol_failures s = 0
      | REVIEWER \<Rightarrow> ms_specialist_evaluation s \<noteq> None)"

definition verdicts :: "role_evaluation \<Rightarrow> method_verdict list" where
  "verdicts r = map ot_verdict (re_evaluations r)"

definition resolved_fits :: "method_state \<Rightarrow> bool" where
  "resolved_fits s \<longleftrightarrow>
     ms_reason_code s = None \<and> ms_reasons s = [] \<and>
     (case ms_specialist_evaluation s of
        None \<Rightarrow> False
      | Some a \<Rightarrow>
          (case ms_consensus s of
             None \<Rightarrow> ms_reviewer_evaluation s = None \<and> ms_reviewer_protocol_failures s = 0 \<and>
               UNKNOWN \<notin> set (verdicts a) \<and> CONFIRMED \<in> set (verdicts a)
           | Some c \<Rightarrow> ms_reviewer_evaluation s \<noteq> None \<and> mc_status c = C_RESOLVED))"

definition unresolved_fits :: "method_state \<Rightarrow> bool" where
  "unresolved_fits s \<longleftrightarrow>
     (case ms_reason_code s of
        None \<Rightarrow> False
      | Some r \<Rightarrow>
          r \<in> set unresolved_method_reason_codes \<and>
          (case ms_consensus s of
             Some c \<Rightarrow> mc_status c = C_UNRESOLVED \<and> r \<in> set consensus_unresolved_reason_codes
           | None \<Rightarrow>
               r \<noteq> MR_SPECIALIST_REVIEWER_DISAGREEMENT \<and>
               (r \<in> {MR_INCOMPLETE_EVALUATION, MR_NO_CONFIRMED_METHOD} \<longrightarrow>
                  ms_reviewer_protocol_failures s = 0 \<and>
                  (case ms_specialist_evaluation s of
                     None \<Rightarrow> False
                   | Some a \<Rightarrow>
                       if r = MR_INCOMPLETE_EVALUATION then UNKNOWN \<in> set (verdicts a)
                       else verdicts a \<noteq> [] \<and> list_all (\<lambda>v. v = REJECTED) (verdicts a)))))"

definition failed_fits :: "method_state \<Rightarrow> bool" where
  "failed_fits s \<longleftrightarrow>
     (case ms_reason_code s of None \<Rightarrow> False | Some r \<Rightarrow> r \<in> set failed_method_reason_codes)"

definition terminal_fits :: "method_state \<Rightarrow> bool" where
  "terminal_fits s \<longleftrightarrow>
     ms_current_role s = None \<and> ms_diagnostic_id s \<noteq> None \<and>
     (ms_status s \<in> {M_UNRESOLVED, M_FAILED} \<longrightarrow>
        ms_reasons s = map method_public_reason_text (case ms_reason_code s of None \<Rightarrow> [] | Some r \<Rightarrow> [r])) \<and>
     (ms_reason_code s = Some MR_SPECIALIST_PROTOCOL_REPAIR_EXHAUSTED \<longrightarrow> ms_specialist_protocol_failures s = 2) \<and>
     (ms_reason_code s = Some MR_REVIEWER_PROTOCOL_REPAIR_EXHAUSTED \<longrightarrow> ms_reviewer_protocol_failures s = 2)"

definition status_fits :: "method_state \<Rightarrow> bool" where
  "status_fits s \<longleftrightarrow>
     (case ms_status s of
        M_SPECIALIST_PENDING \<Rightarrow> role_waiting s SPECIALIST
      | M_REVIEWER_PENDING \<Rightarrow> role_waiting s REVIEWER
      | M_INTERRUPTED \<Rightarrow> role_waiting s SPECIALIST \<or> role_waiting s REVIEWER
      | M_RESOLVED \<Rightarrow> terminal_fits s \<and> resolved_fits s
      | M_UNRESOLVED \<Rightarrow> terminal_fits s \<and> unresolved_fits s
      | M_FAILED \<Rightarrow> terminal_fits s \<and> failed_fits s)"

definition diagnostic_of :: "py_env \<Rightarrow> method_state \<Rightarrow> method_status \<Rightarrow> method_reason option \<Rightarrow> text_t option \<Rightarrow> text_t" where
  "diagnostic_of env s status reason_code evaluation_ref =
     method_diagnostic_id env (ms_case_id s) (ms_source_job_id s) (ms_evaluation_id s) (ms_plan_ref s)
       status reason_code evaluation_ref"

definition state_fits :: "py_env \<Rightarrow> method_state \<Rightarrow> bool" where
  "state_fits env s \<longleftrightarrow>
     ms_specialist_protocol_failures s \<in> {0, 1, 2} \<and> ms_reviewer_protocol_failures s \<in> {0, 1, 2} \<and>
     list_all valid_text (ms_reasons s) \<and> distinct (ms_evaluation_refs s) \<and> distinct (ms_reasons s) \<and>
     pred_option (\<lambda>r. r \<in> set (ms_evaluation_refs s)) (ms_diagnostic_evaluation_ref s) \<and>
     role_fits s SPECIALIST (ms_specialist_evaluation s) (ms_specialist_protocol_failures s) \<and>
     role_fits s REVIEWER (ms_reviewer_evaluation s) (ms_reviewer_protocol_failures s) \<and>
     consensus_fits s \<and> status_fits s \<and>
     pred_option (\<lambda>d. d = diagnostic_of env s (ms_status s) (ms_reason_code s) (ms_diagnostic_evaluation_ref s))
       (ms_diagnostic_id s)"

definition valid_method_state :: "py_env \<Rightarrow> method_state \<Rightarrow> bool" where
  "valid_method_state env s \<longleftrightarrow> state_fits env s \<and> ms_state_ref s = method_state_ref env s"

end
