(* ===== verification/Methods_Reducer.thy ===== *)
theory Methods_Reducer
  imports Methods_State
begin

text \<open>
  \<open>domain/methods_state_v2.py\<close>: the operations of the Methods state machine. Each one checks its guards,
  builds the next state with \<open>_make_state\<close> and returns it, or raises \<open>ValueError\<close>.
\<close>

section \<open>Building states\<close>

text \<open>\<open>_make_state\<close>: compute the reference, run the validator. \<open>_replace\<close> is a record update followed
  by \<open>_make_state\<close>.\<close>

definition make_state :: "py_env \<Rightarrow> method_state \<Rightarrow> exn + method_state" where
  "make_state env s =
     (let s' = s\<lparr>ms_state_ref := method_state_ref env s\<rparr> in ensure (valid_method_state env s') s')"

fun role_pending_status :: "method_role \<Rightarrow> method_status" where
  "role_pending_status SPECIALIST = M_SPECIALIST_PENDING"
| "role_pending_status REVIEWER = M_REVIEWER_PENDING"

fun role_protocol_failures :: "method_role \<Rightarrow> method_state \<Rightarrow> int" where
  "role_protocol_failures SPECIALIST s = ms_specialist_protocol_failures s"
| "role_protocol_failures REVIEWER s = ms_reviewer_protocol_failures s"

fun set_protocol_failures :: "method_role \<Rightarrow> int \<Rightarrow> method_state \<Rightarrow> method_state" where
  "set_protocol_failures SPECIALIST n s = s\<lparr>ms_specialist_protocol_failures := n\<rparr>"
| "set_protocol_failures REVIEWER n s = s\<lparr>ms_reviewer_protocol_failures := n\<rparr>"

definition pending_role :: "method_state \<Rightarrow> method_role \<Rightarrow> bool" where
  "pending_role s role \<longleftrightarrow> ms_status s = role_pending_status role \<and> ms_current_role s = Some role"

definition evaluation_ref_ok :: "method_state \<Rightarrow> text_t option \<Rightarrow> bool" where
  "evaluation_ref_ok s r \<longleftrightarrow> pred_option (\<lambda>x. x \<in> set (ms_evaluation_refs s)) r"

definition validate_role_evaluation :: "method_state \<Rightarrow> role_evaluation \<Rightarrow> method_role \<Rightarrow> bool" where
  "validate_role_evaluation s ev role \<longleftrightarrow>
     re_role ev = role \<and> re_plan_ref ev = ms_plan_ref s \<and>
     map ot_evaluation_ref (re_evaluations ev) = ms_evaluation_refs s"

definition validate_repair_attempt :: "method_state \<Rightarrow> role_evaluation \<Rightarrow> method_role \<Rightarrow> bool" where
  "validate_repair_attempt s ev role \<longleftrightarrow> re_repair_used ev = (role_protocol_failures role s = 1)"

text \<open>A terminal state: the role is cleared and the diagnosis attached.\<close>

definition terminal_state ::
  "py_env \<Rightarrow> method_state \<Rightarrow> method_status \<Rightarrow> method_reason option \<Rightarrow> text_t option \<Rightarrow> method_state" where
  "terminal_state env s status reason_code evaluation_ref =
     s\<lparr>ms_status := status, ms_current_role := None, ms_reason_code := reason_code,
       ms_diagnostic_id := Some (diagnostic_of env s status reason_code evaluation_ref),
       ms_diagnostic_evaluation_ref := evaluation_ref,
       ms_reasons := (case reason_code of None \<Rightarrow> [] | Some r \<Rightarrow> [method_public_reason_text r])\<rparr>"

section \<open>Operations\<close>

definition start_method_state ::
  "py_env \<Rightarrow> opaque_id \<Rightarrow> opaque_id \<Rightarrow> opaque_id \<Rightarrow> evaluation_plan \<Rightarrow> exn + method_state" where
  "start_method_state env case_id source_job_id evaluation_id plan =
     (let refs = map pl_evaluation_ref (ep_evaluations plan);
          s = \<lparr>ms_state_ref = [], ms_case_id = case_id, ms_source_job_id = source_job_id,
               ms_evaluation_id = evaluation_id, ms_plan_ref = ep_plan_ref plan, ms_evaluation_refs = refs,
               ms_status = M_SPECIALIST_PENDING, ms_current_role = Some SPECIALIST,
               ms_specialist_protocol_failures = 0, ms_reviewer_protocol_failures = 0,
               ms_specialist_evaluation = None, ms_reviewer_evaluation = None, ms_consensus = None,
               ms_reason_code = None, ms_diagnostic_id = None, ms_diagnostic_evaluation_ref = None,
               ms_reasons = []\<rparr>
      in make_state env
           (if refs \<noteq> [] then s
            else terminal_state env s M_UNRESOLVED (Some MR_NO_MATCHING_METHOD_EVIDENCE) None))"

definition accept_specialist_evaluation ::
  "py_env \<Rightarrow> method_state \<Rightarrow> role_evaluation \<Rightarrow> exn + method_state" where
  "accept_specialist_evaluation env s ev =
     (if \<not> (pending_role s SPECIALIST \<and> validate_role_evaluation s ev SPECIALIST \<and>
            validate_repair_attempt s ev SPECIALIST)
      then Inl ValueError
      else make_state env (s\<lparr>ms_status := M_REVIEWER_PENDING, ms_current_role := Some REVIEWER,
             ms_specialist_evaluation := Some ev\<rparr>))"

text \<open>\<open>next((item.evaluation_ref for item in items if ...), None)\<close>.\<close>

definition first_ref :: "('a \<Rightarrow> bool) \<Rightarrow> ('a \<Rightarrow> text_t) \<Rightarrow> 'a list \<Rightarrow> text_t option" where
  "first_ref P ref xs = map_option ref (find P xs)"

definition finalize_specialist_evaluation ::
  "py_env \<Rightarrow> method_state \<Rightarrow> role_evaluation \<Rightarrow> exn + method_state" where
  "finalize_specialist_evaluation env s ev =
     (if \<not> (pending_role s SPECIALIST \<and> validate_role_evaluation s ev SPECIALIST \<and>
            validate_repair_attempt s ev SPECIALIST)
      then Inl ValueError
      else
        let s1 = s\<lparr>ms_specialist_evaluation := Some ev\<rparr>
        in case first_ref (\<lambda>i. ot_verdict i = UNKNOWN) ot_evaluation_ref (re_evaluations ev) of
             Some r \<Rightarrow> make_state env (terminal_state env s1 M_UNRESOLVED (Some MR_INCOMPLETE_EVALUATION) (Some r))
           | None \<Rightarrow>
               if CONFIRMED \<in> set (verdicts ev)
               then make_state env (terminal_state env s1 M_RESOLVED None None)
               else make_state env (terminal_state env s1 M_UNRESOLVED (Some MR_NO_CONFIRMED_METHOD)
                      (first_ref (\<lambda>_. True) ot_evaluation_ref (re_evaluations ev))))"

fun protocol_exhausted :: "method_role \<Rightarrow> method_reason" where
  "protocol_exhausted SPECIALIST = MR_SPECIALIST_PROTOCOL_REPAIR_EXHAUSTED"
| "protocol_exhausted REVIEWER = MR_REVIEWER_PROTOCOL_REPAIR_EXHAUSTED"

definition record_protocol_error ::
  "py_env \<Rightarrow> method_state \<Rightarrow> method_role \<Rightarrow> text_t \<Rightarrow> text_t option \<Rightarrow> exn + method_state" where
  "record_protocol_error env s role reason evaluation_ref =
     (if \<not> pending_role s role \<or> blank_text reason \<or> \<not> evaluation_ref_ok s evaluation_ref then Inl ValueError
      else if role_protocol_failures role s = 0 then make_state env (set_protocol_failures role 1 s)
      else make_state env (terminal_state env (set_protocol_failures role 2 s) M_UNRESOLVED
             (Some (protocol_exhausted role)) evaluation_ref))"

definition unresolve_role_failure ::
  "py_env \<Rightarrow> method_state \<Rightarrow> method_role \<Rightarrow> method_reason \<Rightarrow> text_t \<Rightarrow> text_t option \<Rightarrow> exn + method_state" where
  "unresolve_role_failure env s role reason_code reason evaluation_ref =
     (if \<not> pending_role s role \<or> blank_text reason \<or> \<not> evaluation_ref_ok s evaluation_ref then Inl ValueError
      else make_state env (terminal_state env s M_UNRESOLVED (Some reason_code) evaluation_ref))"

fun semantic_invalid :: "method_role \<Rightarrow> method_reason" where
  "semantic_invalid SPECIALIST = MR_SPECIALIST_SEMANTIC_INVALID"
| "semantic_invalid REVIEWER = MR_REVIEWER_SEMANTIC_INVALID"

fun model_execution_failed :: "method_role \<Rightarrow> method_reason" where
  "model_execution_failed SPECIALIST = MR_SPECIALIST_MODEL_EXECUTION_FAILED"
| "model_execution_failed REVIEWER = MR_REVIEWER_MODEL_EXECUTION_FAILED"

definition record_semantic_invalid ::
  "py_env \<Rightarrow> method_state \<Rightarrow> method_role \<Rightarrow> text_t \<Rightarrow> text_t option \<Rightarrow> exn + method_state" where
  "record_semantic_invalid env s role reason evaluation_ref =
     unresolve_role_failure env s role (semantic_invalid role) reason evaluation_ref"

definition record_model_execution_failure ::
  "py_env \<Rightarrow> method_state \<Rightarrow> method_role \<Rightarrow> text_t \<Rightarrow> text_t option \<Rightarrow> exn + method_state" where
  "record_model_execution_failure env s role reason evaluation_ref =
     unresolve_role_failure env s role (model_execution_failed role) reason evaluation_ref"

definition consensus_reason :: "role_evaluation \<Rightarrow> role_evaluation \<Rightarrow> method_reason \<times> text_t option" where
  "consensus_reason specialist reviewer =
     (let pairs = zip (re_evaluations specialist) (re_evaluations reviewer)
      in case first_ref (\<lambda>(_, b). ot_verdict b = UNKNOWN) (\<lambda>(_, b). ot_evaluation_ref b) pairs of
           Some r \<Rightarrow> (MR_INCOMPLETE_EVALUATION, Some r)
         | None \<Rightarrow>
             (case first_ref (\<lambda>(a, b). ot_verdict a \<noteq> ot_verdict b \<or>
                                ot_supporting_event_refs a \<noteq> ot_supporting_event_refs b)
                     (\<lambda>(a, _). ot_evaluation_ref a) pairs of
                Some r \<Rightarrow> (MR_SPECIALIST_REVIEWER_DISAGREEMENT, Some r)
              | None \<Rightarrow> (MR_NO_CONFIRMED_METHOD,
                  first_ref (\<lambda>_. True) ot_evaluation_ref (re_evaluations specialist))))"

datatype consensus_subreason = UNKNOWN_PRESENT | VERDICT_MISMATCH | EVIDENCE_SET_MISMATCH | NO_CONFIRMED

definition method_consensus_subreason ::
  "role_evaluation \<Rightarrow> role_evaluation \<Rightarrow> exn + consensus_subreason" where
  "method_consensus_subreason specialist reviewer =
     (let pairs = zip (re_evaluations specialist) (re_evaluations reviewer)
      in if length (re_evaluations specialist) \<noteq> length (re_evaluations reviewer) then Inl ValueError
         else if list_ex (\<lambda>(a, b). ot_verdict a = UNKNOWN \<or> ot_verdict b = UNKNOWN) pairs then Inr UNKNOWN_PRESENT
         else if list_ex (\<lambda>(a, b). ot_verdict a \<noteq> ot_verdict b) pairs then Inr VERDICT_MISMATCH
         else if list_ex (\<lambda>(a, b). set (ot_supporting_event_refs a) \<noteq> set (ot_supporting_event_refs b)) pairs
         then Inr EVIDENCE_SET_MISMATCH
         else if list_ex (\<lambda>(a, _). ot_verdict a = CONFIRMED) pairs then Inl ValueError
         else Inr NO_CONFIRMED)"

definition validate_consensus ::
  "evaluation_plan \<Rightarrow> role_evaluation \<Rightarrow> role_evaluation \<Rightarrow> method_consensus \<Rightarrow> bool" where
  "validate_consensus plan specialist reviewer c \<longleftrightarrow>
     mc_plan_ref c = ep_plan_ref plan \<and> consensus_expected c specialist reviewer \<and>
     mc_confirmed_method_ids c =
       (if roles_resolve specialist reviewer
        then map (\<lambda>i. pl_method_id (the (dict_by pl_evaluation_ref (ep_evaluations plan) (ot_evaluation_ref i))))
               (confirmed_items specialist)
        else [])"

definition finalize_reviewer_consensus ::
  "py_env \<Rightarrow> method_state \<Rightarrow> evaluation_plan \<Rightarrow> role_evaluation \<Rightarrow> method_consensus \<Rightarrow> exn + method_state" where
  "finalize_reviewer_consensus env s plan ev c =
     (if \<not> (pending_role s REVIEWER \<and> ep_plan_ref plan = ms_plan_ref s \<and>
            map pl_evaluation_ref (ep_evaluations plan) = ms_evaluation_refs s \<and>
            validate_role_evaluation s ev REVIEWER \<and> validate_repair_attempt s ev REVIEWER)
      then Inl ValueError
      else case ms_specialist_evaluation s of
        None \<Rightarrow> Inl ValueError
      | Some specialist \<Rightarrow>
          if \<not> validate_consensus plan specialist ev c then Inl ValueError
          else
            let s1 = s\<lparr>ms_reviewer_evaluation := Some ev, ms_consensus := Some c\<rparr>
            in if mc_status c = C_RESOLVED then make_state env (terminal_state env s1 M_RESOLVED None None)
               else
                 let (reason_code, evaluation_ref) = consensus_reason specialist ev
                 in make_state env (terminal_state env s1 M_UNRESOLVED (Some reason_code) evaluation_ref))"

definition fail_method_state ::
  "py_env \<Rightarrow> method_state \<Rightarrow> method_reason \<Rightarrow> text_t \<Rightarrow> text_t option \<Rightarrow> exn + method_state" where
  "fail_method_state env s reason_code reason evaluation_ref =
     (if reason_code \<notin> set failed_method_reason_codes \<or> blank_text reason \<or>
         \<not> evaluation_ref_ok s evaluation_ref
      then Inl ValueError
      else make_state env (terminal_state env s M_FAILED (Some reason_code) evaluation_ref))"

definition interrupt_method_state :: "py_env \<Rightarrow> method_state \<Rightarrow> exn + method_state" where
  "interrupt_method_state env s =
     (if ms_status s \<notin> {M_SPECIALIST_PENDING, M_REVIEWER_PENDING} then Inl ValueError
      else make_state env (s\<lparr>ms_status := M_INTERRUPTED\<rparr>))"

definition resume_method_state :: "py_env \<Rightarrow> method_state \<Rightarrow> opaque_id option \<Rightarrow> exn + method_state" where
  "resume_method_state env s source_job_id =
     (case ms_current_role s of
        None \<Rightarrow> Inl ValueError
      | Some role \<Rightarrow>
          if ms_status s \<noteq> M_INTERRUPTED then Inl ValueError
          else make_state env (s\<lparr>ms_source_job_id :=
                   (case source_job_id of None \<Rightarrow> ms_source_job_id s | Some j \<Rightarrow> j),
                 ms_status := role_pending_status role\<rparr>))"

section \<open>Every enabled operation succeeds\<close>

lemma json_ignores_ref [simp]: "method_state_json (s\<lparr>ms_state_ref := r\<rparr>) = method_state_json s"
  by (simp add: method_state_json_def)

lemma fits_ignores_ref [simp]: "state_fits env (s\<lparr>ms_state_ref := r\<rparr>) = state_fits env s"
  by (simp add: state_fits_def role_fits_def consensus_fits_def status_fits_def role_waiting_def
      terminal_fits_def resolved_fits_def unresolved_fits_def failed_fits_def diagnostic_of_def
      cong: option.case_cong method_status.case_cong)

lemma make_state_eq:
  "make_state env s = ensure (state_fits env s) (s\<lparr>ms_state_ref := method_state_ref env s\<rparr>)"
  by (simp add: make_state_def valid_method_state_def method_state_ref_def Let_def)

lemma make_state_valid: "make_state env s = Inr s' \<Longrightarrow> valid_method_state env s'"
  by (auto simp: make_state_def Let_def)


text \<open>The invariant of a state before its role has answered, and what it says of every status.\<close>

lemma public_text_valid [simp]: "valid_text (method_public_reason_text r)"
  by (cases r) (simp_all add: valid_text_def blank_text_def method_public_reason_text.simps utf8_def
      max_user_text_utf8_bytes_def)

lemmas fits_defs = state_fits_def role_fits_def consensus_fits_def status_fits_def role_waiting_def
  terminal_fits_def resolved_fits_def unresolved_fits_def failed_fits_def diagnostic_of_def

lemma valid_fits: "valid_method_state env s \<Longrightarrow> state_fits env s"
  by (simp add: valid_method_state_def)

lemma pending_waiting: "valid_method_state env s \<Longrightarrow> pending_role s role \<Longrightarrow> role_waiting s role"
  by (cases role) (simp_all add: valid_method_state_def state_fits_def status_fits_def pending_role_def)

lemma waiting_clear:
  assumes "role_waiting s role"
  shows "ms_consensus s = None" "ms_reviewer_evaluation s = None" "ms_reason_code s = None" "ms_diagnostic_id s = None"
    "ms_diagnostic_evaluation_ref s = None" "ms_reasons s = []"
  using assms by (simp_all add: role_waiting_def)

text \<open>The part of the validator that no status changes.\<close>

definition base_fits :: "method_state \<Rightarrow> bool" where
  "base_fits s \<longleftrightarrow>
     ms_specialist_protocol_failures s \<in> {0, 1, 2} \<and> ms_reviewer_protocol_failures s \<in> {0, 1, 2} \<and>
     distinct (ms_evaluation_refs s) \<and>
     role_fits s SPECIALIST (ms_specialist_evaluation s) (ms_specialist_protocol_failures s) \<and>
     role_fits s REVIEWER (ms_reviewer_evaluation s) (ms_reviewer_protocol_failures s) \<and> consensus_fits s"

lemma valid_base: "valid_method_state env s \<Longrightarrow> base_fits s"
  by (simp add: valid_method_state_def state_fits_def base_fits_def)

lemma terminal_state_fields [simp]:
  "ms_case_id (terminal_state env s st code ref) = ms_case_id s"
  "ms_source_job_id (terminal_state env s st code ref) = ms_source_job_id s"
  "ms_evaluation_id (terminal_state env s st code ref) = ms_evaluation_id s"
  "ms_plan_ref (terminal_state env s st code ref) = ms_plan_ref s"
  "ms_evaluation_refs (terminal_state env s st code ref) = ms_evaluation_refs s"
  "ms_status (terminal_state env s st code ref) = st"
  "ms_current_role (terminal_state env s st code ref) = None"
  "ms_specialist_protocol_failures (terminal_state env s st code ref) = ms_specialist_protocol_failures s"
  "ms_reviewer_protocol_failures (terminal_state env s st code ref) = ms_reviewer_protocol_failures s"
  "ms_specialist_evaluation (terminal_state env s st code ref) = ms_specialist_evaluation s"
  "ms_reviewer_evaluation (terminal_state env s st code ref) = ms_reviewer_evaluation s"
  "ms_consensus (terminal_state env s st code ref) = ms_consensus s"
  "ms_reason_code (terminal_state env s st code ref) = code"
  "ms_diagnostic_id (terminal_state env s st code ref) = Some (diagnostic_of env s st code ref)"
  "ms_diagnostic_evaluation_ref (terminal_state env s st code ref) = ref"
  "ms_reasons (terminal_state env s st code ref) =
     (case code of None \<Rightarrow> [] | Some r \<Rightarrow> [method_public_reason_text r])"
  by (simp_all add: terminal_state_def)

lemma terminal_state_fits:
  assumes "base_fits s" and "evaluation_ref_ok s ref"
    and "st = M_RESOLVED \<Longrightarrow> code = None"
    and "code = Some MR_SPECIALIST_PROTOCOL_REPAIR_EXHAUSTED \<Longrightarrow> ms_specialist_protocol_failures s = 2"
    and "code = Some MR_REVIEWER_PROTOCOL_REPAIR_EXHAUSTED \<Longrightarrow> ms_reviewer_protocol_failures s = 2"
    and "case st of M_RESOLVED \<Rightarrow> resolved_fits (terminal_state env s st code ref)
      | M_UNRESOLVED \<Rightarrow> unresolved_fits (terminal_state env s st code ref)
      | M_FAILED \<Rightarrow> failed_fits (terminal_state env s st code ref) | _ \<Rightarrow> False"
  shows "state_fits env (terminal_state env s st code ref)"
  using assms
  by (cases st)
    (auto simp: base_fits_def state_fits_def role_fits_def consensus_fits_def status_fits_def terminal_fits_def
      diagnostic_of_def evaluation_ref_ok_def unresolved_fits_def failed_fits_def
      split: option.splits)

text \<open>A waiting state can always end without a consensus, for a reason that needs none.\<close>

lemma unresolved_without_consensus:
  assumes "base_fits s" and "evaluation_ref_ok s ref" and "ms_consensus s = None"
    and "code \<in> set unresolved_method_reason_codes" "code \<notin> set consensus_unresolved_reason_codes"
    and "code = MR_SPECIALIST_PROTOCOL_REPAIR_EXHAUSTED \<Longrightarrow> ms_specialist_protocol_failures s = 2"
    and "code = MR_REVIEWER_PROTOCOL_REPAIR_EXHAUSTED \<Longrightarrow> ms_reviewer_protocol_failures s = 2"
  shows "state_fits env (terminal_state env s M_UNRESOLVED (Some code) ref)"
  using assms by (intro terminal_state_fits) (auto simp: unresolved_fits_def reason_codes)

text \<open>The answer of a role.\<close>

lemma specialist_answers:
  assumes s: "valid_method_state env s" "pending_role s SPECIALIST" and ev: "valid_role_evaluation ev"
    "validate_role_evaluation s ev SPECIALIST" "validate_repair_attempt s ev SPECIALIST"
  shows "base_fits (s\<lparr>ms_specialist_evaluation := Some ev\<rparr>)"
    and "ms_consensus s = None" "ms_reviewer_evaluation s = None" "ms_reviewer_protocol_failures s = 0"
proof -
  have w: "role_waiting s SPECIALIST" by (rule pending_waiting [OF s])
  then show "ms_consensus s = None" "ms_reviewer_evaluation s = None" "ms_reviewer_protocol_failures s = 0"
    by (simp_all add: role_waiting_def)
  show "base_fits (s\<lparr>ms_specialist_evaluation := Some ev\<rparr>)"
    using valid_base [OF s(1)] w ev
    by (auto simp: base_fits_def role_fits_def consensus_fits_def role_waiting_def validate_role_evaluation_def
        validate_repair_attempt_def)
qed

lemma accept_specialist_ok:
  assumes "valid_method_state env s" "pending_role s SPECIALIST" "valid_role_evaluation ev"
    "validate_role_evaluation s ev SPECIALIST" "validate_repair_attempt s ev SPECIALIST"
  shows "\<exists>s'. accept_specialist_evaluation env s ev = Inr s' \<and> pending_role s' REVIEWER \<and>
    ms_specialist_evaluation s' = Some ev"
proof -
  let ?z = "s\<lparr>ms_status := M_REVIEWER_PENDING, ms_current_role := Some REVIEWER, ms_specialist_evaluation := Some ev\<rparr>"
  have w: "role_waiting s SPECIALIST" by (rule pending_waiting [OF assms(1,2)])
  have "state_fits env ?z"
    using specialist_answers(1) [OF assms] w valid_fits [OF assms(1)]
    by (auto simp: base_fits_def state_fits_def role_fits_def consensus_fits_def status_fits_def role_waiting_def
        split: option.splits)
  then show ?thesis
    using assms(2,4,5) by (simp add: accept_specialist_evaluation_def make_state_eq ensure_def pending_role_def)
qed

lemma first_ref_Some: "first_ref P ref xs = Some r \<Longrightarrow> \<exists>x \<in> set xs. P x \<and> ref x = r"
  by (auto simp: first_ref_def find_Some_iff)

lemma first_ref_None: "first_ref P ref xs = None \<longleftrightarrow> (\<forall>x \<in> set xs. \<not> P x)"
  by (auto simp: first_ref_def find_None_iff)

lemma finalize_specialist_ok:
  assumes "valid_method_state env s" "pending_role s SPECIALIST" "valid_role_evaluation ev"
    "validate_role_evaluation s ev SPECIALIST" "validate_repair_attempt s ev SPECIALIST"
    "re_evaluations ev \<noteq> []"
  shows "\<exists>s'. finalize_specialist_evaluation env s ev = Inr s' \<and>
    (ms_status s' = M_RESOLVED \<longleftrightarrow> UNKNOWN \<notin> set (verdicts ev) \<and> CONFIRMED \<in> set (verdicts ev)) \<and>
    ms_status s' \<in> {M_RESOLVED, M_UNRESOLVED}"
proof -
  let ?s = "s\<lparr>ms_specialist_evaluation := Some ev\<rparr>"
  let ?unknown = "first_ref (\<lambda>i. ot_verdict i = UNKNOWN) ot_evaluation_ref (re_evaluations ev)"
  let ?first = "first_ref (\<lambda>_. True) ot_evaluation_ref (re_evaluations ev)"
  note ans = specialist_answers [OF assms(1-5)]
  have refs: "ot_evaluation_ref ` set (re_evaluations ev) = set (ms_evaluation_refs s)"
    using assms(4) by (metis list.set_map validate_role_evaluation_def)
  have ok: "evaluation_ref_ok ?s (first_ref P ot_evaluation_ref (re_evaluations ev))" for P
    using first_ref_Some [of P ot_evaluation_ref "re_evaluations ev"] refs
    by (cases "first_ref P ot_evaluation_ref (re_evaluations ev)") (auto simp: evaluation_ref_ok_def)
  consider (unknown) r where "?unknown = Some r" | (confirmed) "?unknown = None" "CONFIRMED \<in> set (verdicts ev)"
    | (none) "?unknown = None" "CONFIRMED \<notin> set (verdicts ev)" by (cases ?unknown) auto
  then show ?thesis
  proof cases
    case unknown
    obtain i where i: "i \<in> set (re_evaluations ev)" "ot_verdict i = UNKNOWN" using first_ref_Some [OF unknown] by blast
    have u: "UNKNOWN \<in> set (verdicts ev)" using imageI [OF i(1), of ot_verdict] i(2) by (simp add: verdicts_def)
    have "state_fits env (terminal_state env ?s M_UNRESOLVED (Some MR_INCOMPLETE_EVALUATION) (Some r))"
      using u ans ok [of "\<lambda>i. ot_verdict i = UNKNOWN"] unknown
      by (intro terminal_state_fits) (auto simp: unresolved_fits_def reason_codes)
    with u unknown assms(2,4,5) show ?thesis
      by (simp add: finalize_specialist_evaluation_def make_state_eq ensure_def Let_def)
  next
    case confirmed
    then have u: "UNKNOWN \<notin> set (verdicts ev)" by (auto simp: verdicts_def first_ref_None)
    then have "state_fits env (terminal_state env ?s M_RESOLVED None None)"
      using ans confirmed by (intro terminal_state_fits) (auto simp: resolved_fits_def evaluation_ref_ok_def)
    with u confirmed assms(2,4,5) show ?thesis
      by (simp add: finalize_specialist_evaluation_def make_state_eq ensure_def Let_def)
  next
    case none
    then have "list_all (\<lambda>v. v = REJECTED) (verdicts ev)"
      by (auto simp: verdicts_def first_ref_None list_all_iff) (metis (full_types) imageI method_verdict.exhaust)
    then have "state_fits env (terminal_state env ?s M_UNRESOLVED (Some MR_NO_CONFIRMED_METHOD) ?first)"
      using ans ok [of "\<lambda>_. True"] assms(6)
      by (intro terminal_state_fits) (auto simp: unresolved_fits_def reason_codes verdicts_def)
    with none assms(2,4,5) show ?thesis
      by (simp add: finalize_specialist_evaluation_def make_state_eq ensure_def Let_def)
  qed
qed

text \<open>Errors of a role: one repair, then the evaluation ends unresolved.\<close>

lemma protocol_failures_bound:
  assumes "valid_method_state env s" "pending_role s role"
  shows "role_protocol_failures role s \<in> {0, 1}"
  using valid_base [OF assms(1)] pending_waiting [OF assms]
  by (cases role) (auto simp: base_fits_def role_waiting_def)

lemma pending_role_eval:
  assumes "valid_method_state env s" "pending_role s role"
  shows "role = SPECIALIST \<Longrightarrow> ms_specialist_evaluation s = None" "ms_reviewer_evaluation s = None"
  using pending_waiting [OF assms] by (simp_all add: role_waiting_def)

lemma set_protocol_failures_fields [simp]:
  "ms_evaluation_refs (set_protocol_failures role n s) = ms_evaluation_refs s"
  "ms_consensus (set_protocol_failures role n s) = ms_consensus s"
  "ms_status (set_protocol_failures role n s) = ms_status s"
  "ms_current_role (set_protocol_failures role n s) = ms_current_role s"
  "role_protocol_failures role (set_protocol_failures role n s) = n"
  by (cases role; simp)+

lemma set_failures_base:
  assumes "valid_method_state env s" "pending_role s role" "n \<in> {0, 1, 2}"
  shows "base_fits (set_protocol_failures role n s)"
  using valid_base [OF assms(1)] pending_role_eval [OF assms(1,2)] assms(3)
  by (cases role) (auto simp: base_fits_def role_fits_def consensus_fits_def split: option.splits)

lemma protocol_error_ok:
  assumes s: "valid_method_state env s" "pending_role s role"
    and "\<not> blank_text reason" "evaluation_ref_ok s ref"
  shows "\<exists>s'. record_protocol_error env s role reason ref = Inr s' \<and>
    (if role_protocol_failures role s = 0 then pending_role s' role \<and> role_protocol_failures role s' = 1
     else ms_status s' = M_UNRESOLVED \<and> ms_reason_code s' = Some (protocol_exhausted role) \<and>
          role_protocol_failures role s' = 2)"
proof (cases "role_protocol_failures role s = 0")
  case True
  have w: "role_waiting s role" by (rule pending_waiting [OF s])
  have "state_fits env (set_protocol_failures role 1 s)"
    using True valid_fits [OF s(1)] w s(2)
    by (cases role)
      (auto simp: state_fits_def role_fits_def consensus_fits_def status_fits_def role_waiting_def diagnostic_of_def
        pending_role_def split: option.splits)
  with True assms show ?thesis
    by (cases role) (simp_all add: record_protocol_error_def make_state_eq ensure_def pending_role_def)
next
  case False
  let ?z = "set_protocol_failures role 2 s"
  have none: "ms_consensus s = None" using pending_waiting [OF s] by (simp add: role_waiting_def)
  have "state_fits env (terminal_state env ?z M_UNRESOLVED (Some (protocol_exhausted role)) ref)"
    using set_failures_base [OF s, of 2] assms(4) none
    by (intro unresolved_without_consensus; cases role) (auto simp: evaluation_ref_ok_def reason_codes)
  with False assms show ?thesis
    by (cases role) (simp_all add: record_protocol_error_def make_state_eq ensure_def)
qed

lemma role_failure_ok:
  assumes s: "valid_method_state env s" "pending_role s role"
    and "\<not> blank_text reason" "evaluation_ref_ok s ref"
    and code: "code \<in> {semantic_invalid role, model_execution_failed role}"
  shows "\<exists>s'. unresolve_role_failure env s role code reason ref = Inr s' \<and> ms_status s' = M_UNRESOLVED \<and>
    ms_reason_code s' = Some code"
proof -
  have "ms_consensus s = None" using pending_waiting [OF s] by (simp add: role_waiting_def)
  then have "state_fits env (terminal_state env s M_UNRESOLVED (Some code) ref)"
    using valid_base [OF s(1)] assms(4) code
    by (intro unresolved_without_consensus; cases role) (auto simp: reason_codes)
  with assms(2-4) show ?thesis by (simp add: unresolve_role_failure_def make_state_eq ensure_def)
qed

lemma fail_ok:
  assumes "valid_method_state env s" "code \<in> set failed_method_reason_codes"
    and "\<not> blank_text reason" "evaluation_ref_ok s ref"
  shows "\<exists>s'. fail_method_state env s code reason ref = Inr s' \<and> ms_status s' = M_FAILED \<and>
    ms_reason_code s' = Some code"
proof -
  have "state_fits env (terminal_state env s M_FAILED (Some code) ref)"
    using valid_base [OF assms(1)] assms(2,4)
    by (intro terminal_state_fits) (auto simp: failed_fits_def reason_codes)
  with assms(2-4) show ?thesis by (simp add: fail_method_state_def make_state_eq ensure_def)
qed

lemma interrupt_ok:
  assumes s: "valid_method_state env s" "pending_role s role"
  shows "\<exists>s'. interrupt_method_state env s = Inr s' \<and> ms_status s' = M_INTERRUPTED \<and>
    ms_current_role s' = Some role \<and> s' = s\<lparr>ms_status := M_INTERRUPTED, ms_state_ref := ms_state_ref s'\<rparr>"
proof -
  have "state_fits env (s\<lparr>ms_status := M_INTERRUPTED\<rparr>)"
    using valid_fits [OF s(1)] pending_waiting [OF s]
    by (cases role)
      (auto simp: state_fits_def role_fits_def consensus_fits_def status_fits_def role_waiting_def diagnostic_of_def
        split: option.splits)
  moreover have "ms_status s \<in> {M_SPECIALIST_PENDING, M_REVIEWER_PENDING}"
    using s(2) by (cases role) (simp_all add: pending_role_def)
  ultimately show ?thesis
    using s(2) by (simp add: interrupt_method_state_def make_state_eq ensure_def pending_role_def)
qed

lemma resume_ok:
  assumes s: "valid_method_state env s" "ms_status s = M_INTERRUPTED"
  shows "\<exists>role s'. ms_current_role s = Some role \<and> resume_method_state env s job = Inr s' \<and> pending_role s' role"
proof -
  obtain role where w: "role_waiting s role" using valid_fits [OF s(1)] s(2) by (auto simp: state_fits_def status_fits_def)
  then have r: "ms_current_role s = Some role" by (simp add: role_waiting_def)
  let ?z = "s\<lparr>ms_source_job_id := (case job of None \<Rightarrow> ms_source_job_id s | Some j \<Rightarrow> j), ms_status := role_pending_status role\<rparr>"
  have "state_fits env ?z"
    using valid_fits [OF s(1)] w
    by (cases role)
      (auto simp: state_fits_def role_fits_def consensus_fits_def status_fits_def role_waiting_def split: option.splits)
  with r s(2) show ?thesis
    by (simp add: resume_method_state_def make_state_eq ensure_def pending_role_def)
qed

text \<open>Interrupting and resuming the same job is the identity, references included.\<close>

lemma resume_interrupt:
  assumes s: "valid_method_state env s" "pending_role s role" and i: "interrupt_method_state env s = Inr s'"
  shows "resume_method_state env s' None = Inr s"
proof -
  have s': "s' = s\<lparr>ms_status := M_INTERRUPTED, ms_state_ref := ms_state_ref s'\<rparr>"
    using interrupt_ok [OF s] i by auto
  have st: "ms_status s = role_pending_status role" "ms_current_role s = Some role"
    using s(2) by (simp_all add: pending_role_def)
  have same: "s\<lparr>ms_state_ref := x, ms_status := role_pending_status role\<rparr> = s\<lparr>ms_state_ref := x\<rparr>" for x
    unfolding st(1) [symmetric] by simp
  have "s\<lparr>ms_state_ref := method_state_ref env s\<rparr> = s" using s(1) by (simp add: valid_method_state_def)
  then have "make_state env (s\<lparr>ms_state_ref := x\<rparr>) = Inr s" for x
    using valid_fits [OF s(1)] by (simp add: make_state_eq ensure_def method_state_ref_def)
  then show ?thesis using st by (subst s') (simp add: resume_method_state_def same)
qed

end
