(* ===== verification/Methods_Consensus.thy ===== *)
theory Methods_Consensus
  imports Methods_Reducer
begin

text \<open>
  Runtime and domain agree on the consensus: what \<open>resolve_method_consensus_v2\<close> computes from two role
  evaluations of a plan is exactly what \<open>finalize_reviewer_consensus_v2\<close> accepts, and the reason and the
  subreason of an unresolved consensus classify the same disagreement.
\<close>

section \<open>Evaluations of the same plan\<close>

text \<open>The evidence events of a plan are pairwise different: it partitions the events of its graph.\<close>

definition plan_partitions :: "evaluation_plan \<Rightarrow> bool" where
  "plan_partitions p \<longleftrightarrow> distinct (concat (map pl_evidence_event_refs (ep_evaluations p)))"

lemma bound_plan_partitions:
  assumes "validate_method_evaluation_plan g p = Inr ()" and "valid_method_graph env g"
  shows "plan_partitions p"
  using assms
  by (simp add: validate_method_evaluation_plan_def plan_partitions_def valid_method_graph_def valid_graph_events_def)

lemma covers_length: "role_covers_plan p r \<Longrightarrow> length (re_evaluations r) = length (ep_evaluations p)"
  by (metis length_map role_covers_plan_def)

lemma covers_nth:
  assumes "role_covers_plan p r" and "k < length (ep_evaluations p)"
  shows "ot_evaluation_ref (re_evaluations r ! k) = pl_evaluation_ref (ep_evaluations p ! k)"
    and "supports_in_order (ep_evaluations p ! k) (re_evaluations r ! k)"
proof -
  have len: "length (re_evaluations r) = length (ep_evaluations p)" by (rule covers_length [OF assms(1)])
  have "map ot_evaluation_ref (re_evaluations r) = map pl_evaluation_ref (ep_evaluations p)"
    using assms(1) by (simp add: role_covers_plan_def)
  then show "ot_evaluation_ref (re_evaluations r ! k) = pl_evaluation_ref (ep_evaluations p ! k)"
    using assms(2) len by (metis nth_map)
  show "supports_in_order (ep_evaluations p ! k) (re_evaluations r ! k)"
    using assms by (simp add: role_covers_plan_def list_all2_conv_all_nth)
qed

lemma supports_set_eq:
  assumes "supports_in_order q a" and "supports_in_order q b"
    and "set (ot_supporting_event_refs a) = set (ot_supporting_event_refs b)"
  shows "ot_supporting_event_refs a = ot_supporting_event_refs b"
  using assms unfolding supports_in_order_def by metis

section \<open>The confirmed part of a plan\<close>

definition confirmed_pairs :: "evaluation_plan \<Rightarrow> role_evaluation \<Rightarrow> (plan_item \<times> output_item) list" where
  "confirmed_pairs p r =
     filter (\<lambda>(_, i). ot_verdict i = CONFIRMED) (zip (ep_evaluations p) (re_evaluations r))"

lemma confirmed_pairs_items:
  assumes "role_covers_plan p r"
  shows "map snd (confirmed_pairs p r) = confirmed_items r"
    and "map (\<lambda>(q, _). pl_evaluation_ref q) (confirmed_pairs p r) = map ot_evaluation_ref (confirmed_items r)"
proof -
  have snd: "map snd (filter (\<lambda>(_, i). P i) (zip xs ys)) = filter P ys" if "length xs = length ys"
    for P and xs :: "plan_item list" and ys :: "output_item list"
    using that by (induction xs ys rule: list_induct2) auto
  show "map snd (confirmed_pairs p r) = confirmed_items r"
    unfolding confirmed_pairs_def confirmed_items_def using covers_length [OF assms] by (intro snd) simp
  have "pl_evaluation_ref q = ot_evaluation_ref i" if "(q, i) \<in> set (confirmed_pairs p r)" for q i
    using that covers_nth(1) [OF assms] covers_length [OF assms]
    by (auto simp: confirmed_pairs_def in_set_zip)
  then have "map (\<lambda>(q, _). pl_evaluation_ref q) (confirmed_pairs p r) = map ot_evaluation_ref (map snd (confirmed_pairs p r))"
    by (auto simp: case_prod_beta)
  then show "map (\<lambda>(q, _). pl_evaluation_ref q) (confirmed_pairs p r) = map ot_evaluation_ref (confirmed_items r)"
    using \<open>map snd (confirmed_pairs p r) = confirmed_items r\<close> by simp
qed

lemma map_fst_confirmed: "subseq (map fst (confirmed_pairs p r)) (ep_evaluations p)"
proof -
  have "subseq (map fst (confirmed_pairs p r)) (map fst (zip (ep_evaluations p) (re_evaluations r)))"
    unfolding confirmed_pairs_def by (intro subseq_map subseq_filter_left)
  also have "subseq (map fst (zip (ep_evaluations p) (re_evaluations r))) (ep_evaluations p)"
    by (simp add: map_fst_zip_take prefix_imp_subseq take_is_prefix)
  finally show ?thesis .
qed

lemma distinct_subseq_map: "subseq xs ys \<Longrightarrow> distinct (map f ys) \<Longrightarrow> distinct (map f xs)"
proof (induction rule: list_emb.induct)
  case (list_emb_Cons2 x y xs ys)
  then show ?case using subseq_set [of xs ys] by auto
qed auto

lemma concat_filter: "\<forall>x \<in> set xs. \<not> P x \<longrightarrow> f x = [] \<Longrightarrow> concat (map f (filter P xs)) = concat (map f xs)"
  by (induction xs) auto

lemma distinct_concat_supports:
  assumes "distinct (concat (map f qs))" and "list_all2 (\<lambda>q i. set (g i) \<subseteq> set (f q) \<and> distinct (g i)) qs is"
  shows "distinct (concat (map g is))"
  using assms(2,1)
proof (induction qs "is" rule: list_all2_induct)
  case (Cons q qs i "is")
  have "set (concat (map g is)) \<subseteq> set (concat (map f qs))"
    using Cons.hyps(2) by (induction qs "is" rule: list_all2_induct) auto
  with Cons show ?case by auto
qed simp

lemma confirmed_events_distinct:
  assumes "plan_partitions p" and "role_covers_plan p r" and "valid_role_evaluation r"
  shows "distinct (concat (map ot_supporting_event_refs (confirmed_items r)))"
proof -
  have "list_all2 (\<lambda>q i. set (ot_supporting_event_refs i) \<subseteq> set (pl_evidence_event_refs q) \<and>
      distinct (ot_supporting_event_refs i)) (ep_evaluations p) (re_evaluations r)"
    using assms(2,3)
    by (auto simp: role_covers_plan_def valid_role_evaluation_def valid_output_item_def supports_in_order_def
        list_all2_conv_all_nth list_all_iff subset_iff)
  then have all: "distinct (concat (map ot_supporting_event_refs (re_evaluations r)))"
    using assms(1) unfolding plan_partitions_def by (rule distinct_concat_supports [rotated])
  have "concat (map ot_supporting_event_refs (confirmed_items r)) = concat (map ot_supporting_event_refs (re_evaluations r))"
    unfolding confirmed_items_def
    by (rule concat_filter) (use assms(3) in \<open>auto simp: valid_role_evaluation_def valid_output_item_def list_all_iff\<close>)
  with all show ?thesis by simp
qed

section \<open>The consensus of two roles\<close>

lemma methods_of_refs:
  assumes "valid_evaluation_plan env p" and "role_covers_plan p r"
  shows "map (\<lambda>i. pl_method_id (the (dict_by pl_evaluation_ref (ep_evaluations p) (ot_evaluation_ref i)))) (confirmed_items r) =
    map (\<lambda>(q, _). pl_method_id q) (confirmed_pairs p r)"
proof -
  have "pl_method_id (the (dict_by pl_evaluation_ref (ep_evaluations p) (ot_evaluation_ref i))) = pl_method_id q"
    if "(q, i) \<in> set (confirmed_pairs p r)" for q i
  proof -
    obtain k where k: "k < length (ep_evaluations p)" "q = ep_evaluations p ! k" "i = re_evaluations r ! k"
      using \<open>(q, i) \<in> set (confirmed_pairs p r)\<close> by (auto simp: confirmed_pairs_def in_set_zip)
    then have "ot_evaluation_ref i = pl_evaluation_ref q" "q \<in> set (ep_evaluations p)"
      using covers_nth(1) [OF assms(2)] by simp_all
    moreover have "distinct (map pl_evaluation_ref (ep_evaluations p))"
      using assms(1) by (simp add: valid_evaluation_plan_def)
    ultimately show ?thesis using dict_by_distinct by (metis option.sel)
  qed
  then show ?thesis
    unfolding confirmed_pairs_items(1) [OF assms(2), symmetric] by (auto simp: case_prod_beta)
qed

lemma consensus_computed:
  assumes p: "valid_evaluation_plan env p" "plan_partitions p"
    and a: "role_covers_plan p a" "valid_role_evaluation a" "re_role a = SPECIALIST"
    and b: "role_covers_plan p b" "valid_role_evaluation b" "re_role b = REVIEWER"
  shows "\<exists>c. resolve_method_consensus p a b = Inr c \<and> valid_consensus c \<and> validate_consensus p a b c \<and>
    (mc_status c = C_RESOLVED \<longleftrightarrow> roles_resolve a b)"
proof (cases "roles_resolve a b")
  case False
  with a b show ?thesis
    by (simp add: resolve_method_consensus_def valid_consensus_def validate_consensus_def consensus_expected_def
        ensure_def Let_def insert_commute)
next
  case True
  let ?c = "\<lparr>mc_plan_ref = ep_plan_ref p, mc_status = C_RESOLVED,
    mc_confirmed_evaluation_refs = map (\<lambda>(q, _). pl_evaluation_ref q) (confirmed_pairs p a),
    mc_confirmed_method_ids = map (\<lambda>(q, _). pl_method_id q) (confirmed_pairs p a),
    mc_confirmed_event_refs = concat (map (\<lambda>(_, i). ot_supporting_event_refs i) (confirmed_pairs p a))\<rparr>"
  have events: "concat (map (\<lambda>(_, i). ot_supporting_event_refs i) (confirmed_pairs p a)) =
      concat (map ot_supporting_event_refs (confirmed_items a))"
    unfolding confirmed_pairs_items(1) [OF a(1), symmetric] by (simp add: comp_def case_prod_unfold)
  have "list_all method_id_ok (map (\<lambda>(q, _). pl_method_id q) (confirmed_pairs p a))"
    using p(1) by (auto simp: list_all_iff valid_evaluation_plan_def valid_plan_item_def confirmed_pairs_def dest: set_zip_leftD)
  moreover have "distinct (map pl_evaluation_ref (map fst (confirmed_pairs p a)))"
    "distinct (map pl_method_id (map fst (confirmed_pairs p a)))"
    using p(1) distinct_subseq_map [OF map_fst_confirmed] by (auto simp: valid_evaluation_plan_def simp del: map_map)
  ultimately have dist: "distinct (mc_confirmed_evaluation_refs ?c)" "distinct (mc_confirmed_method_ids ?c)"
    "list_all method_id_ok (mc_confirmed_method_ids ?c)"
    by (simp_all add: comp_def case_prod_unfold)
  obtain i where i: "i \<in> set (re_evaluations a)" "ot_verdict i = CONFIRMED"
    using True by (auto simp: roles_resolve_def)
  then have "i \<in> set (confirmed_items a)" by (simp add: confirmed_items_def)
  moreover have "ot_supporting_event_refs i \<noteq> []"
    using i a(2) by (auto simp: valid_role_evaluation_def valid_output_item_def list_all_iff)
  ultimately have "confirmed_pairs p a \<noteq> []" "concat (map ot_supporting_event_refs (confirmed_items a)) \<noteq> []"
    using confirmed_pairs_items(1) [OF a(1)] by auto
  then have valid: "valid_consensus ?c"
    using dist confirmed_events_distinct [OF p(2) a(1,2)] events by (simp add: valid_consensus_def)
  have "resolve_method_consensus p a b = Inr ?c"
    using a b True valid
    by (simp add: resolve_method_consensus_def confirmed_pairs_def ensure_def Let_def insert_commute)
  moreover have "validate_consensus p a b ?c"
    using True confirmed_pairs_items(2) [OF a(1)] events methods_of_refs [OF p(1) a(1)]
    by (simp add: validate_consensus_def consensus_expected_def)
  ultimately show ?thesis using valid True by simp
qed

end
