(* ===== verification/Methods_Workflow.thy ===== *)
theory Methods_Workflow
  imports Methods_Consensus
begin

text \<open>
  The Methods state machine as a whole: what two roles that answered the same plan determine, that the
  reviewer's answer always ends the evaluation, and the runs of the reducer as a step relation with the
  invariants of every reachable state and the bound on the number of role attempts.
\<close>

section \<open>Two answers to one plan\<close>

lemma zip_nth_ex:
  assumes "length xs = length ys"
  shows "list_ex (\<lambda>(x, y). P x y) (zip xs ys) \<longleftrightarrow> (\<exists>k < length xs. P (xs ! k) (ys ! k))"
  using assms by (induction xs ys rule: list_induct2) (auto simp: less_Suc_eq_0_disj)

lemma first_ref_zip_None:
  assumes "length xs = length ys"
  shows "first_ref (\<lambda>(x, y). P x y) f (zip xs ys) = None \<longleftrightarrow> \<not> (\<exists>k < length xs. P (xs ! k) (ys ! k))"
  using assms by (auto simp: first_ref_def find_None_iff in_set_zip)

lemma verdicts_nth: "v \<in> set (map ot_verdict xs) \<longleftrightarrow> (\<exists>k < length xs. ot_verdict (xs ! k) = v)"
  unfolding in_set_conv_nth by auto

definition same_at :: "role_evaluation \<Rightarrow> role_evaluation \<Rightarrow> nat \<Rightarrow> bool" where
  "same_at a b k \<longleftrightarrow>
     ot_verdict (re_evaluations a ! k) = ot_verdict (re_evaluations b ! k) \<and>
     ot_supporting_event_refs (re_evaluations a ! k) = ot_supporting_event_refs (re_evaluations b ! k)"

lemma supports_sets:
  assumes "role_covers_plan p a" "role_covers_plan p b" "k < length (ep_evaluations p)"
  shows "set (ot_supporting_event_refs (re_evaluations a ! k)) = set (ot_supporting_event_refs (re_evaluations b ! k)) \<longleftrightarrow>
    ot_supporting_event_refs (re_evaluations a ! k) = ot_supporting_event_refs (re_evaluations b ! k)"
  using supports_set_eq covers_nth(2) [OF assms(1,3)] covers_nth(2) [OF assms(2,3)] by metis

lemma blind_eq:
  assumes "role_covers_plan p a" "role_covers_plan p b"
  shows "blind a = blind b \<longleftrightarrow> (\<forall>k < length (ep_evaluations p). same_at a b k)"
  using covers_length [OF assms(1)] covers_length [OF assms(2)] covers_nth(1) [OF assms(1)] covers_nth(1) [OF assms(2)]
  by (auto simp: blind_def list_eq_iff_nth_eq same_at_def)

lemma resolve_iff:
  assumes "role_covers_plan p a" "role_covers_plan p b"
  shows "roles_resolve a b \<longleftrightarrow>
     (\<forall>k < length (ep_evaluations p). same_at a b k \<and> ot_verdict (re_evaluations a ! k) \<noteq> UNKNOWN) \<and>
     (\<exists>k < length (ep_evaluations p). ot_verdict (re_evaluations a ! k) = CONFIRMED)"
  unfolding roles_resolve_def blind_eq [OF assms] verdicts_nth covers_length [OF assms(1)] by auto

lemma subreason_cases:
  assumes "role_covers_plan p a" "role_covers_plan p b"
  shows "method_consensus_subreason a b =
     (if \<exists>k < length (ep_evaluations p).
           ot_verdict (re_evaluations a ! k) = UNKNOWN \<or> ot_verdict (re_evaluations b ! k) = UNKNOWN
      then Inr UNKNOWN_PRESENT
      else if \<exists>k < length (ep_evaluations p). ot_verdict (re_evaluations a ! k) \<noteq> ot_verdict (re_evaluations b ! k)
      then Inr VERDICT_MISMATCH
      else if \<exists>k < length (ep_evaluations p). \<not> same_at a b k then Inr EVIDENCE_SET_MISMATCH
      else if roles_resolve a b then Inl ValueError
      else Inr NO_CONFIRMED)"
proof -
  have len: "length (re_evaluations a) = length (re_evaluations b)"
    using covers_length [OF assms(1)] covers_length [OF assms(2)] by simp
  have ex: "list_ex (\<lambda>(x, y). P x y) (zip (re_evaluations a) (re_evaluations b)) \<longleftrightarrow>
      (\<exists>k < length (ep_evaluations p). P (re_evaluations a ! k) (re_evaluations b ! k))" for P
    using zip_nth_ex [OF len] covers_length [OF assms(1)] by simp
  show ?thesis
    unfolding method_consensus_subreason_def Let_def ex resolve_iff [OF assms] using len supports_sets [OF assms]
    by (auto simp: same_at_def)
qed

lemma reason_cases:
  assumes "role_covers_plan p a" "role_covers_plan p b"
  shows "fst (consensus_reason a b) =
     (if \<exists>k < length (ep_evaluations p). ot_verdict (re_evaluations b ! k) = UNKNOWN
      then MR_INCOMPLETE_EVALUATION
      else if \<exists>k < length (ep_evaluations p). \<not> same_at a b k then MR_SPECIALIST_REVIEWER_DISAGREEMENT
      else MR_NO_CONFIRMED_METHOD)"
proof -
  have len: "length (re_evaluations a) = length (re_evaluations b)"
    using covers_length [OF assms(1)] covers_length [OF assms(2)] by simp
  have none: "first_ref (\<lambda>(x, y). P x y) f (zip (re_evaluations a) (re_evaluations b)) = None \<longleftrightarrow>
      \<not> (\<exists>k < length (ep_evaluations p). P (re_evaluations a ! k) (re_evaluations b ! k))" for P f
    using first_ref_zip_None [OF len] covers_length [OF assms(1)] by simp
  show ?thesis
    unfolding consensus_reason_def Let_def
    using none [of "\<lambda>_ y. ot_verdict y = UNKNOWN" "\<lambda>(_, y). ot_evaluation_ref y"]
      none [of "\<lambda>x y. ot_verdict x \<noteq> ot_verdict y \<or> ot_supporting_event_refs x \<noteq> ot_supporting_event_refs y"
        "\<lambda>(x, _). ot_evaluation_ref x"]
    by (auto simp: same_at_def split: option.splits)
qed

text \<open>The reason stored in the state and the subreason of the archive classify the same disagreement.\<close>

lemma consensus_classified:
  assumes "role_covers_plan p a" "role_covers_plan p b"
  shows "method_consensus_subreason a b = Inl ValueError \<longleftrightarrow> roles_resolve a b"
    and "method_consensus_subreason a b = Inr NO_CONFIRMED \<longleftrightarrow>
      \<not> roles_resolve a b \<and> fst (consensus_reason a b) = MR_NO_CONFIRMED_METHOD"
    and "method_consensus_subreason a b \<in> {Inr VERDICT_MISMATCH, Inr EVIDENCE_SET_MISMATCH} \<Longrightarrow>
      fst (consensus_reason a b) = MR_SPECIALIST_REVIEWER_DISAGREEMENT"
    and "fst (consensus_reason a b) = MR_INCOMPLETE_EVALUATION \<Longrightarrow>
      method_consensus_subreason a b = Inr UNKNOWN_PRESENT"
  unfolding subreason_cases [OF assms] reason_cases [OF assms]
  by (auto simp: resolve_iff [OF assms] same_at_def split: if_splits)

lemma reason_ref:
  assumes "role_covers_plan p a" "role_covers_plan p b" and r: "snd (consensus_reason a b) = Some r"
  shows "r \<in> set (map pl_evaluation_ref (ep_evaluations p))"
proof -
  have refs: "map ot_evaluation_ref (re_evaluations a) = map pl_evaluation_ref (ep_evaluations p)"
    "map ot_evaluation_ref (re_evaluations b) = map pl_evaluation_ref (ep_evaluations p)"
    using assms by (simp_all add: role_covers_plan_def)
  have in_a: "ot_evaluation_ref x \<in> set (map ot_evaluation_ref (re_evaluations a))" if "x \<in> set (re_evaluations a)" for x
    using that by simp
  have in_b: "ot_evaluation_ref y \<in> set (map ot_evaluation_ref (re_evaluations b))" if "y \<in> set (re_evaluations b)" for y
    using that by simp
  have "(\<exists>x \<in> set (re_evaluations a). ot_evaluation_ref x = r) \<or> (\<exists>y \<in> set (re_evaluations b). ot_evaluation_ref y = r)"
    using r
    by (fastforce simp: consensus_reason_def Let_def dest!: first_ref_Some dest: set_zip_leftD set_zip_rightD
        split: option.splits)
  then show ?thesis using in_a in_b unfolding refs by blast
qed

section \<open>The reviewer ends the evaluation\<close>

lemma reviewer_base:
  assumes s: "valid_method_state env s" "pending_role s REVIEWER" "ms_specialist_evaluation s = Some a"
    and b: "valid_role_evaluation b" "validate_role_evaluation s b REVIEWER" "validate_repair_attempt s b REVIEWER"
    and c: "valid_consensus c" "mc_plan_ref c = ms_plan_ref s" "consensus_expected c a b"
  shows "base_fits (s\<lparr>ms_reviewer_evaluation := Some b, ms_consensus := Some c\<rparr>)"
proof -
  have base: "base_fits s" by (rule valid_base [OF s(1)])
  have fail: "ms_reviewer_protocol_failures s \<in> {0, 1}" using protocol_failures_bound [OF s(1,2)] by simp
  have "map ot_evaluation_ref (re_evaluations a) = ms_evaluation_refs s"
    using base s(3) by (simp add: base_fits_def role_fits_def)
  then have refs: "set (map ot_evaluation_ref (re_evaluations a)) = set (ms_evaluation_refs s)" by (rule arg_cong)
  have "set (map ot_evaluation_ref (confirmed_items a)) \<subseteq> set (map ot_evaluation_ref (re_evaluations a))"
    by (auto simp: confirmed_items_def)
  then have "set (mc_confirmed_evaluation_refs c) \<subseteq> set (ms_evaluation_refs s)"
    using c(3) unfolding refs consensus_expected_def Let_def by (auto split: if_splits)
  then have inside: "list_all (\<lambda>r. r \<in> set (ms_evaluation_refs s)) (mc_confirmed_evaluation_refs c)"
    by (auto simp: list_all_iff)
  show ?thesis
    using base fail b c inside s(3)
    by (auto simp: base_fits_def role_fits_def consensus_fits_def validate_role_evaluation_def validate_repair_attempt_def)
qed

definition plan_of_state :: "evaluation_plan \<Rightarrow> method_state \<Rightarrow> bool" where
  "plan_of_state p s \<longleftrightarrow>
     ep_plan_ref p = ms_plan_ref s \<and> map pl_evaluation_ref (ep_evaluations p) = ms_evaluation_refs s"

lemma reviewer_finalizes:
  assumes s: "valid_method_state env s" "pending_role s REVIEWER" "ms_specialist_evaluation s = Some a"
    and p: "plan_of_state p s" "valid_evaluation_plan env p" "plan_partitions p"
    and a: "role_covers_plan p a" and b: "role_covers_plan p b" "valid_role_evaluation b" "re_role b = REVIEWER"
      "validate_repair_attempt s b REVIEWER"
  shows "\<exists>c s'. resolve_method_consensus p a b = Inr c \<and> finalize_reviewer_consensus env s p b c = Inr s' \<and>
    (if roles_resolve a b then ms_status s' = M_RESOLVED \<and> ms_reason_code s' = None
     else ms_status s' = M_UNRESOLVED \<and> ms_reason_code s' = Some (fst (consensus_reason a b)))"
proof -
  have va: "valid_role_evaluation a" "re_role a = SPECIALIST"
    using valid_base [OF s(1)] s(3) by (simp_all add: base_fits_def role_fits_def)
  obtain c where c: "resolve_method_consensus p a b = Inr c" "valid_consensus c" "validate_consensus p a b c"
    "mc_status c = C_RESOLVED \<longleftrightarrow> roles_resolve a b"
    using consensus_computed [OF p(2,3) a va b(1-3)] by auto
  have role: "validate_role_evaluation s b REVIEWER"
    using b(1,3) p(1) by (simp add: validate_role_evaluation_def role_covers_plan_def plan_of_state_def)
  have cons: "mc_plan_ref c = ms_plan_ref s" "consensus_expected c a b"
    using c(3) p(1) by (simp_all add: validate_consensus_def plan_of_state_def)
  let ?z = "s\<lparr>ms_reviewer_evaluation := Some b, ms_consensus := Some c\<rparr>"
  have base: "base_fits ?z" by (rule reviewer_base [OF s b(2) role b(4) c(2) cons])
  have guard: "finalize_reviewer_consensus env s p b c =
      (if mc_status c = C_RESOLVED then make_state env (terminal_state env ?z M_RESOLVED None None)
       else make_state env (terminal_state env ?z M_UNRESOLVED (Some (fst (consensus_reason a b))) (snd (consensus_reason a b))))"
    using s(2,3) p(1) role b(4) c(3)
    by (simp add: finalize_reviewer_consensus_def plan_of_state_def Let_def case_prod_unfold)
  show ?thesis
  proof (cases "roles_resolve a b")
    case True
    have "state_fits env (terminal_state env ?z M_RESOLVED None None)"
      using base s(3) c(4) True by (intro terminal_state_fits) (auto simp: resolved_fits_def evaluation_ref_ok_def)
    with True c guard show ?thesis by (auto simp: make_state_eq ensure_def)
  next
    case False
    have "set (map pl_evaluation_ref (ep_evaluations p)) = set (ms_evaluation_refs s)"
      using p(1) unfolding plan_of_state_def by (intro arg_cong [where f = set]) simp
    then have "evaluation_ref_ok ?z (snd (consensus_reason a b))"
      using reason_ref [OF a b(1)] by (cases "snd (consensus_reason a b)") (simp_all add: evaluation_ref_ok_def)
    moreover have "fst (consensus_reason a b) \<in> set consensus_unresolved_reason_codes"
      unfolding reason_cases [OF a b(1)] by (simp add: reason_codes)
    moreover have "mc_status c = C_UNRESOLVED" using False c(4) by (cases "mc_status c") auto
    ultimately have "state_fits env (terminal_state env ?z M_UNRESOLVED (Some (fst (consensus_reason a b))) (snd (consensus_reason a b)))"
      using base by (intro terminal_state_fits) (auto simp: unresolved_fits_def reason_codes)
    with False c guard show ?thesis by (auto simp: make_state_eq ensure_def)
  qed
qed

section \<open>Runs\<close>

lemma start_ok:
  assumes "valid_evaluation_plan env p"
  shows "\<exists>s. start_method_state env case_id job_id evaluation_id p = Inr s \<and> valid_method_state env s \<and>
    plan_of_state p s \<and>
    (if ep_evaluations p = [] then ms_status s = M_UNRESOLVED \<and> ms_reason_code s = Some MR_NO_MATCHING_METHOD_EVIDENCE
     else pending_role s SPECIALIST \<and> ms_specialist_protocol_failures s = 0)"
proof -
  let ?s = "\<lparr>ms_state_ref = [], ms_case_id = case_id, ms_source_job_id = job_id,
      ms_evaluation_id = evaluation_id, ms_plan_ref = ep_plan_ref p,
      ms_evaluation_refs = map pl_evaluation_ref (ep_evaluations p),
      ms_status = M_SPECIALIST_PENDING, ms_current_role = Some SPECIALIST,
      ms_specialist_protocol_failures = 0, ms_reviewer_protocol_failures = 0,
      ms_specialist_evaluation = None, ms_reviewer_evaluation = None, ms_consensus = None,
      ms_reason_code = None, ms_diagnostic_id = None, ms_diagnostic_evaluation_ref = None, ms_reasons = []\<rparr>"
  have base: "base_fits ?s"
    using assms by (simp add: base_fits_def role_fits_def consensus_fits_def valid_evaluation_plan_def)
  have pending: "state_fits env ?s"
    using base by (simp add: state_fits_def base_fits_def status_fits_def role_waiting_def)
  have ended: "state_fits env (terminal_state env ?s M_UNRESOLVED (Some MR_NO_MATCHING_METHOD_EVIDENCE) None)"
    by (rule unresolved_without_consensus [OF base]) (simp_all add: evaluation_ref_ok_def reason_codes)
  have "\<exists>s. start_method_state env case_id job_id evaluation_id p = Inr s \<and> plan_of_state p s \<and>
    (if ep_evaluations p = [] then ms_status s = M_UNRESOLVED \<and> ms_reason_code s = Some MR_NO_MATCHING_METHOD_EVIDENCE
     else pending_role s SPECIALIST \<and> ms_specialist_protocol_failures s = 0)"
    using pending ended
    by (cases "ep_evaluations p = []")
      (simp_all add: start_method_state_def Let_def make_state_eq ensure_def plan_of_state_def pending_role_def)
  moreover have "valid_method_state env s" if "start_method_state env case_id job_id evaluation_id p = Inr s" for s
    using that unfolding start_method_state_def Let_def by (rule make_state_valid)
  ultimately show ?thesis by blast
qed

text \<open>The operations as labelled steps. An attempt of a role is an answer, a response that cannot be
  parsed, or a failed execution; the other steps end, pause or continue the evaluation.\<close>

datatype method_action = Attempt method_role | Abort | Pause | Continue

inductive method_step :: "py_env \<Rightarrow> evaluation_plan \<Rightarrow> method_state \<Rightarrow> method_action \<Rightarrow> method_state \<Rightarrow> bool"
  for env p where
  accept: "accept_specialist_evaluation env s ev = Inr s' \<Longrightarrow> method_step env p s (Attempt SPECIALIST) s'"
| finalize: "finalize_specialist_evaluation env s ev = Inr s' \<Longrightarrow> method_step env p s (Attempt SPECIALIST) s'"
| review: "finalize_reviewer_consensus env s p ev c = Inr s' \<Longrightarrow> method_step env p s (Attempt REVIEWER) s'"
| protocol: "record_protocol_error env s role reason ref = Inr s' \<Longrightarrow> method_step env p s (Attempt role) s'"
| semantic: "record_semantic_invalid env s role reason ref = Inr s' \<Longrightarrow> method_step env p s (Attempt role) s'"
| execution: "record_model_execution_failure env s role reason ref = Inr s' \<Longrightarrow> method_step env p s (Attempt role) s'"
| abort: "fail_method_state env s code reason ref = Inr s' \<Longrightarrow> method_step env p s Abort s'"
| pause: "interrupt_method_state env s = Inr s' \<Longrightarrow> method_step env p s Pause s'"
| resume: "resume_method_state env s job = Inr s' \<Longrightarrow> method_step env p s Continue s'"

inductive_cases method_stepE: "method_step env p s act s'"

inductive method_run :: "py_env \<Rightarrow> evaluation_plan \<Rightarrow> method_state \<Rightarrow> method_action list \<Rightarrow> method_state \<Rightarrow> bool"
  for env p where
  stop: "method_run env p s [] s"
| go: "method_step env p s act s1 \<Longrightarrow> method_run env p s1 acts s' \<Longrightarrow> method_run env p s (act # acts) s'"

fun is_attempt :: "method_action \<Rightarrow> bool" where
  "is_attempt (Attempt _) = True"
| "is_attempt _ = False"

text \<open>The attempts a state still allows: two per role.\<close>

definition attempts_left :: "method_state \<Rightarrow> int" where
  "attempts_left s =
     (case ms_current_role s of
        None \<Rightarrow> 0
      | Some SPECIALIST \<Rightarrow> 4 - ms_specialist_protocol_failures s
      | Some REVIEWER \<Rightarrow> 2 - ms_reviewer_protocol_failures s)"

definition same_evaluation :: "method_state \<Rightarrow> method_state \<Rightarrow> bool" where
  "same_evaluation s s' \<longleftrightarrow>
     ms_case_id s' = ms_case_id s \<and> ms_evaluation_id s' = ms_evaluation_id s \<and>
     ms_plan_ref s' = ms_plan_ref s \<and> ms_evaluation_refs s' = ms_evaluation_refs s"

lemma make_state_Inr:
  "make_state env z = Inr s' \<longleftrightarrow> state_fits env z \<and> s' = z\<lparr>ms_state_ref := method_state_ref env z\<rparr>"
  by (auto simp: make_state_eq)

lemma set_failures_same [simp]:
  "ms_case_id (set_protocol_failures role n s) = ms_case_id s"
  "ms_evaluation_id (set_protocol_failures role n s) = ms_evaluation_id s"
  "ms_plan_ref (set_protocol_failures role n s) = ms_plan_ref s"
  by (cases role; simp)+

lemmas reducer_defs = accept_specialist_evaluation_def finalize_specialist_evaluation_def
  finalize_reviewer_consensus_def record_protocol_error_def record_semantic_invalid_def
  record_model_execution_failure_def unresolve_role_failure_def fail_method_state_def
  interrupt_method_state_def resume_method_state_def

lemma step_valid: "method_step env p s act s' \<Longrightarrow> valid_method_state env s'"
  by (erule method_stepE)
    (auto simp: reducer_defs Let_def case_prod_unfold intro: make_state_valid split: if_splits option.splits)

lemma step_same: "method_step env p s act s' \<Longrightarrow> same_evaluation s s'"
  by (erule method_stepE)
    (auto simp: reducer_defs Let_def case_prod_unfold make_state_Inr same_evaluation_def split: if_splits option.splits)

lemma attempts_nonneg:
  assumes "valid_method_state env s"
  shows "attempts_left s \<ge> 0" and "attempts_left s = 0 \<longleftrightarrow> ms_status s \<in> {M_RESOLVED, M_UNRESOLVED, M_FAILED}"
  using valid_fits [OF assms]
  by (auto simp: state_fits_def status_fits_def role_waiting_def terminal_fits_def attempts_left_def
      split: method_status.splits option.splits method_role.splits)

lemma attempts_pending:
  assumes "valid_method_state env s" and "pending_role s role"
  shows "attempts_left s \<ge> (case role of SPECIALIST \<Rightarrow> 3 | REVIEWER \<Rightarrow> 1)"
  using protocol_failures_bound [OF assms] assms(2)
  by (cases role) (auto simp: attempts_left_def pending_role_def)

lemma attempts_ended:
  assumes "make_state env (terminal_state env z st code ref) = Inr s'"
  shows "attempts_left s' = 0"
  using assms by (simp add: make_state_Inr attempts_left_def)

lemma attempts_waiting:
  assumes "make_state env z = Inr s'" and "ms_current_role z = ms_current_role s"
    and "ms_specialist_protocol_failures z = ms_specialist_protocol_failures s"
    and "ms_reviewer_protocol_failures z = ms_reviewer_protocol_failures s"
  shows "attempts_left s' = attempts_left s"
  using assms by (simp add: make_state_Inr attempts_left_def cong: option.case_cong method_role.case_cong)

lemma step_attempts:
  assumes s: "valid_method_state env s" and "method_step env p s act s'"
  shows "if is_attempt act then attempts_left s' < attempts_left s else attempts_left s' \<le> attempts_left s"
  using assms(2)
proof cases
  case (accept ev)
  then have m: "pending_role s SPECIALIST" "make_state env (s\<lparr>ms_status := M_REVIEWER_PENDING,
      ms_current_role := Some REVIEWER, ms_specialist_evaluation := Some ev\<rparr>) = Inr s'"
    by (auto simp: accept_specialist_evaluation_def split: if_splits)
  have "attempts_left s' \<le> 2"
    using m(2) valid_base [OF s] by (auto simp: make_state_Inr attempts_left_def base_fits_def)
  with accept attempts_pending [OF s m(1)] show ?thesis by simp
next
  case (finalize ev)
  then have "pending_role s SPECIALIST" "attempts_left s' = 0"
    by (auto simp: finalize_specialist_evaluation_def Let_def dest: attempts_ended split: if_splits option.splits)
  with finalize attempts_pending [OF s] show ?thesis by fastforce
next
  case (review ev c)
  then have "pending_role s REVIEWER" "attempts_left s' = 0"
    by (auto simp: finalize_reviewer_consensus_def Let_def case_prod_unfold dest: attempts_ended
        split: if_splits option.splits)
  with review attempts_pending [OF s] show ?thesis by fastforce
next
  case (protocol role reason ref)
  then have pend: "pending_role s role" by (auto simp: record_protocol_error_def split: if_splits)
  then show ?thesis
    using protocol protocol_failures_bound [OF s pend]
    by (cases role)
      (auto simp: record_protocol_error_def make_state_Inr attempts_left_def pending_role_def split: if_splits)
next
  case (semantic role reason ref)
  then have "pending_role s role" "attempts_left s' = 0"
    by (auto simp: record_semantic_invalid_def unresolve_role_failure_def dest: attempts_ended split: if_splits)
  with semantic attempts_pending [OF s] show ?thesis by (cases role) fastforce+
next
  case (execution role reason ref)
  then have "pending_role s role" "attempts_left s' = 0"
    by (auto simp: record_model_execution_failure_def unresolve_role_failure_def dest: attempts_ended split: if_splits)
  with execution attempts_pending [OF s] show ?thesis by (cases role) fastforce+
next
  case (abort code reason ref)
  then have "attempts_left s' = 0" by (auto simp: fail_method_state_def dest: attempts_ended split: if_splits)
  with abort attempts_nonneg(1) [OF s] show ?thesis by simp
next
  case pause
  then show ?thesis
    using attempts_waiting [of env "s\<lparr>ms_status := M_INTERRUPTED\<rparr>" s' s]
    by (auto simp: interrupt_method_state_def split: if_splits)
next
  case (resume job)
  then show ?thesis
    by (auto simp: resume_method_state_def make_state_Inr attempts_left_def split: if_splits option.splits method_role.splits)
qed

lemma terminal_steps:
  assumes "method_step env p s act s'" and "ms_status s \<in> {M_RESOLVED, M_UNRESOLVED, M_FAILED}"
  shows "act = Abort \<and> ms_status s' = M_FAILED"
  using assms
proof cases
  case (protocol role reason ref)
  then show ?thesis using assms(2) by (cases role) (auto simp: record_protocol_error_def pending_role_def split: if_splits)
next
  case (semantic role reason ref)
  then show ?thesis using assms(2) by (cases role) (auto simp: reducer_defs pending_role_def split: if_splits)
next
  case (execution role reason ref)
  then show ?thesis using assms(2) by (cases role) (auto simp: reducer_defs pending_role_def split: if_splits)
qed (auto simp: reducer_defs Let_def make_state_Inr pending_role_def split: if_splits option.splits)

lemma run_invariant:
  assumes "method_run env p s acts s'" and "valid_method_state env s"
  shows "valid_method_state env s' \<and> same_evaluation s s' \<and>
    attempts_left s' + int (length (filter is_attempt acts)) \<le> attempts_left s"
  using assms
proof (induction rule: method_run.induct)
  case (go s act s1 acts s')
  then show ?case
    using step_valid [OF go.hyps(1)] step_same [OF go.hyps(1)] step_attempts [OF go.prems go.hyps(1)]
    by (cases act) (auto simp: same_evaluation_def)
qed (simp add: same_evaluation_def)

end
