(* ===== verification/Methods_Result.thy ===== *)
theory Methods_Result
  imports Methods_Workflow
begin

text \<open>
  The terminal result of a Methods evaluation: \<open>MethodTerminalResultV2\<close>, its reference and its binding to
  state, plan and graph (\<open>contracts/methods_state_v2.py\<close>), its construction from a terminal state
  (\<open>runtime/methods_outcome_v2.py\<close>) and its public projection (\<open>contracts/models.py\<close>). The pydantic
  round trip \<open>model_validate(model_dump(...))\<close> is the validator of the value.
\<close>

section \<open>Data\<close>

record confirmed_evaluation =
  ce_evaluation_ref :: text_t
  ce_method_id :: text_t
  ce_evidence_event_refs :: "text_t list"
  ce_evidence_hit_refs :: "text_t list"

record method_result =
  mr_result_ref :: text_t
  mr_case_id :: opaque_id
  mr_source_job_id :: opaque_id
  mr_terminal_job_id :: opaque_id
  mr_evaluation_id :: opaque_id
  mr_status :: method_status
  mr_plan_ref :: text_t
  mr_evidence_graph_ref :: text_t
  mr_reason_code :: "method_reason option"
  mr_diagnostic_id :: text_t
  mr_diagnostic_evaluation_ref :: "text_t option"
  mr_evaluations :: "confirmed_evaluation list"
  mr_confirmed_evaluation_refs :: "text_t list"
  mr_confirmed_method_ids :: "text_t list"
  mr_confirmed_event_refs :: "text_t list"
  mr_confirmed_hit_refs :: "text_t list"
  mr_limitations :: "text_t list"
  mr_reasons :: "text_t list"

definition valid_confirmed_evaluation :: "confirmed_evaluation \<Rightarrow> bool" where
  "valid_confirmed_evaluation e \<longleftrightarrow>
     method_id_ok (ce_method_id e) \<and> unique_refs (ce_evidence_event_refs e) \<and> unique_refs (ce_evidence_hit_refs e)"

definition confirmed_dump :: "confirmed_evaluation \<Rightarrow> json" where
  "confirmed_dump e = JObj
     [(''evaluation_ref'', JStr (ce_evaluation_ref e)), (''method_id'', JStr (ce_method_id e)),
      (''evidence_event_refs'', json_strs (ce_evidence_event_refs e)),
      (''evidence_hit_refs'', json_strs (ce_evidence_hit_refs e)), (''verdict'', JStr ''CONFIRMED'')]"

definition method_terminal_result_ref :: "py_env \<Rightarrow> method_result \<Rightarrow> text_t" where
  "method_terminal_result_ref env r =
     ''result-'' @ canonical_json_sha256 env (JObj
       [(''kind'', JStr ''method-terminal-result-v2''), (''case_id'', JStr (mr_case_id r)),
        (''source_job_id'', JStr (mr_source_job_id r)), (''terminal_job_id'', JStr (mr_terminal_job_id r)),
        (''evaluation_id'', JStr (mr_evaluation_id r)), (''status'', JStr (method_status_str (mr_status r))),
        (''plan_ref'', JStr (mr_plan_ref r)), (''evidence_graph_ref'', JStr (mr_evidence_graph_ref r)),
        (''reason_code'', json_opt (\<lambda>c. JStr (method_reason_str c)) (mr_reason_code r)),
        (''diagnostic_id'', JStr (mr_diagnostic_id r)),
        (''diagnostic_evaluation_ref'', json_opt JStr (mr_diagnostic_evaluation_ref r)),
        (''evaluations'', JList (map confirmed_dump (mr_evaluations r))),
        (''confirmed_evaluation_refs'', json_strs (mr_confirmed_evaluation_refs r)),
        (''confirmed_method_ids'', json_strs (mr_confirmed_method_ids r)),
        (''confirmed_event_refs'', json_strs (mr_confirmed_event_refs r)),
        (''confirmed_hit_refs'', json_strs (mr_confirmed_hit_refs r)),
        (''limitations'', json_strs (mr_limitations r)), (''reasons'', json_strs (mr_reasons r))])"

section \<open>Validators\<close>

definition result_unique :: "method_result \<Rightarrow> bool" where
  "result_unique r \<longleftrightarrow>
     distinct (map ce_evaluation_ref (mr_evaluations r)) \<and>
     distinct (mr_confirmed_evaluation_refs r) \<and> distinct (mr_confirmed_method_ids r) \<and>
     distinct (mr_confirmed_event_refs r) \<and> distinct (mr_confirmed_hit_refs r) \<and>
     distinct (mr_limitations r) \<and> distinct (mr_reasons r) \<and>
     length (mr_confirmed_evaluation_refs r) = length (mr_confirmed_method_ids r)"

definition result_confirmed :: "method_result \<Rightarrow> bool" where
  "result_confirmed r \<longleftrightarrow>
     mr_reason_code r = None \<and>
     mr_confirmed_evaluation_refs r \<noteq> [] \<and> mr_confirmed_method_ids r \<noteq> [] \<and>
     mr_confirmed_event_refs r \<noteq> [] \<and> mr_confirmed_hit_refs r \<noteq> [] \<and>
     map ce_evaluation_ref (mr_evaluations r) = mr_confirmed_evaluation_refs r \<and>
     map ce_method_id (mr_evaluations r) = mr_confirmed_method_ids r \<and>
     dedupe (concat (map ce_evidence_event_refs (mr_evaluations r))) = mr_confirmed_event_refs r \<and>
     dedupe (concat (map ce_evidence_hit_refs (mr_evaluations r))) = mr_confirmed_hit_refs r"

definition result_cleared :: "method_result \<Rightarrow> bool" where
  "result_cleared r \<longleftrightarrow>
     mr_evaluations r = [] \<and> mr_confirmed_evaluation_refs r = [] \<and> mr_confirmed_method_ids r = [] \<and>
     mr_confirmed_event_refs r = [] \<and> mr_confirmed_hit_refs r = []"

definition reason_allowed :: "method_status \<Rightarrow> method_reason option \<Rightarrow> bool" where
  "reason_allowed st code \<longleftrightarrow>
     (case code of
        None \<Rightarrow> False
      | Some c \<Rightarrow>
          (st = M_UNRESOLVED \<longrightarrow> c \<in> set unresolved_method_reason_codes) \<and>
          (st = M_FAILED \<longrightarrow> c \<in> set failed_method_reason_codes))"

definition valid_method_result :: "py_env \<Rightarrow> method_result \<Rightarrow> bool" where
  "valid_method_result env r \<longleftrightarrow>
     mr_status r \<in> {M_RESOLVED, M_UNRESOLVED, M_FAILED} \<and>
     list_all valid_confirmed_evaluation (mr_evaluations r) \<and>
     list_all method_id_ok (mr_confirmed_method_ids r) \<and>
     list_all valid_text (mr_limitations r) \<and> list_all valid_text (mr_reasons r) \<and> result_unique r \<and>
     mr_diagnostic_id r = method_diagnostic_id env (mr_case_id r) (mr_source_job_id r) (mr_evaluation_id r)
       (mr_plan_ref r) (mr_status r) (mr_reason_code r) (mr_diagnostic_evaluation_ref r) \<and>
     (if mr_status r = M_RESOLVED then result_confirmed r
      else result_cleared r \<and> reason_allowed (mr_status r) (mr_reason_code r)) \<and>
     mr_result_ref r = method_terminal_result_ref env r"

section \<open>Binding a result to its state, plan and graph\<close>

text \<open>\<open>mapping[key]\<close>, raising the given exception for a missing key.\<close>

definition get_key :: "exn \<Rightarrow> ('a \<Rightarrow> text_t) \<Rightarrow> 'a list \<Rightarrow> text_t \<Rightarrow> exn + 'a" where
  "get_key e key xs k = (case dict_by key xs k of None \<Rightarrow> Inl e | Some x \<Rightarrow> Inr x)"

text \<open>The confirmed evaluations and methods of a resolved state.\<close>

definition confirmed_of_state :: "evaluation_plan \<Rightarrow> method_state \<Rightarrow> exn + text_t list \<times> text_t list" where
  "confirmed_of_state p s =
     (case ms_specialist_evaluation s of
        None \<Rightarrow> Inl ValueError
      | Some a \<Rightarrow>
          (case ms_consensus s of
             None \<Rightarrow>
               if ms_reviewer_evaluation s \<noteq> None then Inl ValueError
               else
                 let refs = map ot_evaluation_ref (confirmed_items a)
                 in bindE (mapE (\<lambda>r. bindE (get_key KeyError pl_evaluation_ref (ep_evaluations p) r)
                        (\<lambda>q. Inr (pl_method_id q))) refs) (\<lambda>ms. Inr (refs, ms))
           | Some c \<Rightarrow>
               if mc_status c \<noteq> C_RESOLVED \<or> ms_reviewer_evaluation s = None then Inl ValueError
               else Inr (mc_confirmed_evaluation_refs c, mc_confirmed_method_ids c)))"

text \<open>The events that the roles selected for the confirmed evaluations.\<close>

definition selected_events :: "method_state \<Rightarrow> text_t list \<Rightarrow> exn + text_t list list" where
  "selected_events s refs =
     (case ms_specialist_evaluation s of
        None \<Rightarrow> Inl ValueError
      | Some a \<Rightarrow>
          bindE (mapE (\<lambda>r. bindE (get_key KeyError ot_evaluation_ref (re_evaluations a) r)
                   (\<lambda>i. Inr (ot_supporting_event_refs i))) refs) (\<lambda>sel.
          bindE (case ms_reviewer_evaluation s of
                   None \<Rightarrow> Inr []
                 | Some b \<Rightarrow> mapE (\<lambda>(r, x). bindE (get_key KeyError ot_evaluation_ref (re_evaluations b) r)
                     (\<lambda>i. ensure (ot_supporting_event_refs i = x) ())) (zip refs sel)) (\<lambda>_.
          ensure (case ms_consensus s of None \<Rightarrow> True | Some c \<Rightarrow> dedupe (concat sel) = mc_confirmed_event_refs c) sel)))"

definition check_selected :: "exn \<Rightarrow> method_graph \<Rightarrow> plan_item \<times> text_t list \<Rightarrow> exn + unit" where
  "check_selected e g = (\<lambda>(q, sel).
     if \<not> list_all (\<lambda>r. r \<in> set (pl_evidence_event_refs q)) sel then Inl ValueError
     else bindE (mapE (get_key e ev_event_ref (gr_events g)) sel) (\<lambda>events.
       ensure (list_all (\<lambda>v. ev_method_id v = pl_method_id q) events) ()))"

definition confirmed_entry :: "method_graph \<Rightarrow> plan_item \<times> text_t list \<Rightarrow> exn + confirmed_evaluation" where
  "confirmed_entry g = (\<lambda>(q, sel).
     bindE (mapE (get_key KeyError ev_event_ref (gr_events g)) sel) (\<lambda>events.
       let x = \<lparr>ce_evaluation_ref = pl_evaluation_ref q, ce_method_id = pl_method_id q,
                ce_evidence_event_refs = sel,
                ce_evidence_hit_refs = dedupe (concat (map ev_evidence_hit_refs events))\<rparr>
       in ensure (valid_confirmed_evaluation x) x))"

definition planned_items :: "evaluation_plan \<Rightarrow> text_t list \<Rightarrow> exn + plan_item list" where
  "planned_items p refs = mapE (get_key ValueError pl_evaluation_ref (ep_evaluations p)) refs"

definition result_bound :: "method_state \<Rightarrow> method_result \<Rightarrow> evaluation_plan \<Rightarrow> method_graph \<Rightarrow> bool" where
  "result_bound s r p g \<longleftrightarrow>
     ms_evaluation_refs s = map pl_evaluation_ref (ep_evaluations p) \<and> ms_plan_ref s = ep_plan_ref p \<and>
     mr_case_id r = ms_case_id s \<and> mr_source_job_id r = ms_source_job_id s \<and>
     mr_evaluation_id r = ms_evaluation_id s \<and> mr_status r = ms_status s \<and> mr_plan_ref r = ep_plan_ref p \<and>
     mr_evidence_graph_ref r = ep_evidence_graph_ref p \<and> mr_reason_code r = ms_reason_code s \<and>
     Some (mr_diagnostic_id r) = ms_diagnostic_id s \<and>
     mr_diagnostic_evaluation_ref r = ms_diagnostic_evaluation_ref s \<and> mr_reasons r = ms_reasons s \<and>
     gr_graph_ref g = ep_evidence_graph_ref p \<and> mr_evidence_graph_ref r = gr_graph_ref g"

definition validate_method_terminal_result ::
  "py_env \<Rightarrow> method_state \<Rightarrow> method_result \<Rightarrow> evaluation_plan \<Rightarrow> method_graph \<Rightarrow> exn + method_result" where
  "validate_method_terminal_result env s r p g =
     (if \<not> (valid_method_state env s \<and> valid_method_result env r \<and> valid_evaluation_plan env p \<and>
            valid_method_graph env g \<and> result_bound s r p g)
      then Inl ValueError
      else if ms_status s \<noteq> M_RESOLVED then Inr r
      else
        bindE (confirmed_of_state p s) (\<lambda>(refs, methods).
        bindE (planned_items p refs) (\<lambda>items.
        bindE (selected_events s refs) (\<lambda>sel.
        bindE (mapE (\<lambda>x.
            if pl_evaluation_ref (fst x) \<notin> ce_evaluation_ref ` set (mr_evaluations r) then Inl ValueError
            else bindE (check_selected ValueError g x) (\<lambda>_. confirmed_entry g x)) (zip items sel)) (\<lambda>evs.
        ensure (mr_evaluations r = evs \<and> mr_confirmed_evaluation_refs r = refs \<and>
                mr_confirmed_method_ids r = methods \<and> mr_confirmed_event_refs r = dedupe (concat sel) \<and>
                mr_confirmed_hit_refs r = dedupe (concat (map ce_evidence_hit_refs evs))) r)))))"

section \<open>Building the result\<close>

text \<open>\<open>_text\<close>: non-blank strings, duplicates removed.\<close>

definition result_text :: "text_t list \<Rightarrow> exn + text_t list" where
  "result_text xs = ensure (list_all (\<lambda>x. \<not> blank_text x) xs) (dedupe xs)"

definition confirmed_part ::
  "evaluation_plan \<Rightarrow> method_graph \<Rightarrow> method_state \<Rightarrow>
   exn + confirmed_evaluation list \<times> text_t list \<times> text_t list \<times> text_t list \<times> text_t list" where
  "confirmed_part p g s =
     bindE (confirmed_of_state p s) (\<lambda>(refs, methods).
     bindE (planned_items p refs) (\<lambda>items.
     if map pl_method_id items \<noteq> methods then Inl ValueError
     else
       bindE (selected_events s refs) (\<lambda>sel.
       bindE (mapE (check_selected KeyError g) (zip items sel)) (\<lambda>_.
       bindE (mapE (confirmed_entry g) (zip items sel)) (\<lambda>evs.
       Inr (evs, refs, methods, dedupe (concat sel), dedupe (concat (map ce_evidence_hit_refs evs))))))))"

definition result_of_state ::
  "py_env \<Rightarrow> method_state \<Rightarrow> evaluation_plan \<Rightarrow> method_graph \<Rightarrow> opaque_id \<Rightarrow> text_t list \<Rightarrow> text_t list \<Rightarrow> text_t \<Rightarrow>
   confirmed_evaluation list \<times> text_t list \<times> text_t list \<times> text_t list \<times> text_t list \<Rightarrow> method_result" where
  "result_of_state env s p g terminal_job_id limitations reasons diagnostic = (\<lambda>(evs, refs, methods, events, hits).
     let r = \<lparr>mr_result_ref = [], mr_case_id = ms_case_id s, mr_source_job_id = ms_source_job_id s,
              mr_terminal_job_id = terminal_job_id, mr_evaluation_id = ms_evaluation_id s,
              mr_status = ms_status s, mr_plan_ref = ep_plan_ref p, mr_evidence_graph_ref = gr_graph_ref g,
              mr_reason_code = ms_reason_code s, mr_diagnostic_id = diagnostic,
              mr_diagnostic_evaluation_ref = ms_diagnostic_evaluation_ref s, mr_evaluations = evs,
              mr_confirmed_evaluation_refs = refs, mr_confirmed_method_ids = methods,
              mr_confirmed_event_refs = events, mr_confirmed_hit_refs = hits,
              mr_limitations = limitations, mr_reasons = reasons\<rparr>
     in r\<lparr>mr_result_ref := method_terminal_result_ref env r\<rparr>)"

definition build_method_terminal_result ::
  "py_env \<Rightarrow> method_state \<Rightarrow> evaluation_plan \<Rightarrow> method_graph \<Rightarrow> opaque_id \<Rightarrow> text_t list \<Rightarrow> text_t list \<Rightarrow>
   exn + method_result" where
  "build_method_terminal_result env s p g terminal_job_id limitations reasons =
     (if ms_status s \<notin> {M_RESOLVED, M_UNRESOLVED, M_FAILED} \<or> ms_plan_ref s \<noteq> ep_plan_ref p \<or>
         ms_evaluation_refs s \<noteq> map pl_evaluation_ref (ep_evaluations p)
      then Inl ValueError
      else
        bindE (validate_method_evaluation_plan g p) (\<lambda>_.
        if \<not> list_all (\<lambda>q. list_all (\<lambda>r. r \<in> ev_event_ref ` set (gr_events g)) (pl_evidence_event_refs q) \<and>
                         list_all (\<lambda>r. r \<in> ht_hit_ref ` set (gr_hits g)) (pl_evidence_hit_refs q)) (ep_evaluations p)
        then Inl ValueError
        else
          bindE (if ms_status s = M_RESOLVED then confirmed_part p g s else Inr ([], [], [], [], [])) (\<lambda>part.
          case ms_diagnostic_id s of
            None \<Rightarrow> Inl ValueError
          | Some diagnostic \<Rightarrow>
              bindE (result_text limitations) (\<lambda>frozen_limitations.
              bindE (result_text reasons) (\<lambda>extra.
              let r = result_of_state env s p g terminal_job_id frozen_limitations
                        (dedupe (ms_reasons s @ extra)) diagnostic part
              in bindE (ensure (valid_method_result env r) r) (\<lambda>r. validate_method_terminal_result env s r p g))))))"

section \<open>The public projection\<close>

fun terminal_status_of :: "method_status \<Rightarrow> methods_terminal_status" where
  "terminal_status_of M_RESOLVED = MT_RESOLVED"
| "terminal_status_of M_UNRESOLVED = MT_UNRESOLVED"
| "terminal_status_of _ = MT_FAILED"

definition valid_projection :: "methods_terminal_projection \<Rightarrow> bool" where
  "valid_projection q \<longleftrightarrow>
     distinct (mp_confirmed_evaluation_refs q) \<and> distinct (mp_confirmed_method_ids q) \<and>
     distinct (mp_confirmed_event_refs q) \<and> distinct (mp_confirmed_hit_refs q) \<and>
     distinct (mp_limitations q) \<and> distinct (mp_reasons q) \<and>
     list_all valid_text (mp_limitations q) \<and> list_all valid_text (mp_reasons q) \<and>
     length (mp_confirmed_evaluation_refs q) = length (mp_confirmed_method_ids q) \<and>
     (if mp_status q = MT_RESOLVED
      then mp_reason_code q = None \<and> mp_confirmed_evaluation_refs q \<noteq> [] \<and> mp_confirmed_method_ids q \<noteq> [] \<and>
        mp_confirmed_event_refs q \<noteq> [] \<and> mp_confirmed_hit_refs q \<noteq> [] \<and> mp_reasons q = []
      else mp_confirmed_evaluation_refs q = [] \<and> mp_confirmed_method_ids q = [] \<and>
        mp_confirmed_event_refs q = [] \<and> mp_confirmed_hit_refs q = [] \<and>
        (case mp_reason_code q of
           None \<Rightarrow> False
         | Some c \<Rightarrow>
             c \<in> set (if mp_status q = MT_UNRESOLVED then unresolved_method_reason_codes
                     else failed_method_reason_codes) \<and>
             mp_reasons q = [method_public_reason_text c]))"

definition project_method_terminal_result :: "py_env \<Rightarrow> method_result \<Rightarrow> exn + methods_terminal_projection" where
  "project_method_terminal_result env r =
     (if \<not> valid_method_result env r then Inl ValueError
      else
        let q = \<lparr>mp_case_id = mr_case_id r, mp_source_job_id = mr_terminal_job_id r, mp_result_ref = mr_result_ref r,
                 mp_evaluation_id = mr_evaluation_id r, mp_status = terminal_status_of (mr_status r),
                 mp_plan_ref = mr_plan_ref r, mp_evidence_graph_ref = mr_evidence_graph_ref r,
                 mp_reason_code = mr_reason_code r, mp_diagnostic_id = mr_diagnostic_id r,
                 mp_diagnostic_evaluation_ref = mr_diagnostic_evaluation_ref r,
                 mp_confirmed_evaluation_refs = mr_confirmed_evaluation_refs r,
                 mp_confirmed_method_ids = mr_confirmed_method_ids r,
                 mp_confirmed_event_refs = mr_confirmed_event_refs r,
                 mp_confirmed_hit_refs = mr_confirmed_hit_refs r, mp_limitations = mr_limitations r,
                 mp_reasons = mr_reasons r\<rparr>
        in ensure (valid_projection q) q)"

section \<open>Every terminal state has a result\<close>

text \<open>What a state reached by evaluating a plan satisfies beyond its validator: the answers of the roles
  stay inside the plan, and the methods of a consensus are those of its evaluations.\<close>

definition evaluated_under :: "evaluation_plan \<Rightarrow> method_state \<Rightarrow> bool" where
  "evaluated_under p s \<longleftrightarrow>
     plan_of_state p s \<and> pred_option (role_covers_plan p) (ms_specialist_evaluation s) \<and>
     pred_option (role_covers_plan p) (ms_reviewer_evaluation s) \<and>
     pred_option (\<lambda>c. mc_confirmed_method_ids c =
         map (\<lambda>r. pl_method_id (the (dict_by pl_evaluation_ref (ep_evaluations p) r))) (mc_confirmed_evaluation_refs c))
       (ms_consensus s)"

lemma mapE_map: "(\<And>x. x \<in> set xs \<Longrightarrow> f x = Inr (h x)) \<Longrightarrow> mapE f xs = Inr (map h xs)"
  by (induction xs) auto

lemma mapE_comp: "mapE f (map h xs) = mapE (\<lambda>x. f (h x)) xs"
  by (induction xs) simp_all

lemma zip_map_same: "zip (map f xs) (map h xs) = map (\<lambda>x. (f x, h x)) xs"
  by (induction xs) simp_all

lemma get_key_distinct:
  assumes "distinct (map key xs)" and "x \<in> set xs"
  shows "get_key e key xs (key x) = Inr x"
  using dict_by_distinct [OF assms] by (simp add: get_key_def)

lemma dedupe_distinct: "distinct xs \<Longrightarrow> dedupe xs = xs"
  by (simp add: dedupe_def dedupe_loop_id)

lemma dedupe_Nil_iff [simp]: "dedupe xs = [] \<longleftrightarrow> xs = []"
  by (metis set_dedupe set_empty)

lemma confirmed_pairs_nth:
  assumes "role_covers_plan p a" and "(q, i) \<in> set (confirmed_pairs p a)"
  obtains k where "k < length (ep_evaluations p)" "q = ep_evaluations p ! k" "i = re_evaluations a ! k"
    "ot_verdict i = CONFIRMED" "ot_evaluation_ref i = pl_evaluation_ref q" "supports_in_order q i"
    "q \<in> set (ep_evaluations p)" "i \<in> set (re_evaluations a)"
proof -
  obtain k where k: "k < length (ep_evaluations p)" "k < length (re_evaluations a)" "q = ep_evaluations p ! k"
    "i = re_evaluations a ! k" "ot_verdict i = CONFIRMED"
    using assms(2) by (auto simp: confirmed_pairs_def in_set_zip)
  with covers_nth [OF assms(1) k(1)] that show thesis by simp
qed

lemma confirmed_refs_planned:
  assumes "valid_evaluation_plan env p" and "role_covers_plan p a"
  shows "mapE (get_key e pl_evaluation_ref (ep_evaluations p)) (map ot_evaluation_ref (confirmed_items a)) =
    Inr (map fst (confirmed_pairs p a))"
proof -
  have d: "distinct (map pl_evaluation_ref (ep_evaluations p))" using assms(1) by (simp add: valid_evaluation_plan_def)
  have "get_key e pl_evaluation_ref (ep_evaluations p) (pl_evaluation_ref (fst x)) = Inr (fst x)"
    if "x \<in> set (confirmed_pairs p a)" for x
  proof -
    obtain q i where x: "x = (q, i)" by (cases x)
    with that have "(q, i) \<in> set (confirmed_pairs p a)" by simp
    then have "q \<in> set (ep_evaluations p)" by (rule confirmed_pairs_nth [OF assms(2)])
    then show ?thesis using get_key_distinct [OF d] x by simp
  qed
  then have "mapE (\<lambda>x. get_key e pl_evaluation_ref (ep_evaluations p) (pl_evaluation_ref (fst x))) (confirmed_pairs p a) =
      Inr (map fst (confirmed_pairs p a))"
    by (rule mapE_map)
  then show ?thesis
    unfolding confirmed_pairs_items(2) [OF assms(2), symmetric] mapE_comp by (simp add: case_prod_unfold)
qed

lemma resolved_specialist:
  assumes s: "valid_method_state env s" "ms_status s = M_RESOLVED" and u: "evaluated_under p s"
  obtains a where "ms_specialist_evaluation s = Some a" "role_covers_plan p a" "valid_role_evaluation a"
    "CONFIRMED \<in> set (verdicts a)" "distinct (map ot_evaluation_ref (re_evaluations a))"
    "ms_consensus s = None \<Longrightarrow> ms_reviewer_evaluation s = None"
    "\<And>c. ms_consensus s = Some c \<Longrightarrow> \<exists>b. ms_reviewer_evaluation s = Some b \<and> role_covers_plan p b \<and>
       roles_resolve a b \<and> mc_status c = C_RESOLVED \<and> consensus_expected c a b"
proof -
  have fits: "state_fits env s" by (rule valid_fits [OF s(1)])
  then have res: "resolved_fits s" using s(2) by (simp add: state_fits_def status_fits_def)
  then obtain a where a: "ms_specialist_evaluation s = Some a" by (auto simp: resolved_fits_def split: option.splits)
  have role: "valid_role_evaluation a" "map ot_evaluation_ref (re_evaluations a) = ms_evaluation_refs s"
    using fits a by (simp_all add: state_fits_def role_fits_def)
  have cov: "role_covers_plan p a" using u a by (simp add: evaluated_under_def)
  have dist: "distinct (map ot_evaluation_ref (re_evaluations a))"
    using fits role(2) by (simp add: state_fits_def)
  have reviewed: "\<exists>b. ms_reviewer_evaluation s = Some b \<and> role_covers_plan p b \<and> roles_resolve a b \<and>
      mc_status c = C_RESOLVED \<and> consensus_expected c a b" if c: "ms_consensus s = Some c" for c
  proof -
    have st: "mc_status c = C_RESOLVED" "ms_reviewer_evaluation s \<noteq> None" using res c a by (simp_all add: resolved_fits_def)
    then obtain b where b: "ms_reviewer_evaluation s = Some b" by auto
    then have "consensus_expected c a b" using fits c a by (simp add: state_fits_def consensus_fits_def)
    then show ?thesis
      using st b u by (auto simp: evaluated_under_def consensus_expected_def Let_def split: if_splits)
  qed
  have conf: "CONFIRMED \<in> set (verdicts a)"
  proof (cases "ms_consensus s")
    case None
    then show ?thesis using res a by (simp add: resolved_fits_def)
  next
    case (Some c)
    then show ?thesis using reviewed [OF Some] by (auto simp: roles_resolve_def verdicts_def)
  qed
  have alone: "ms_reviewer_evaluation s = None" if "ms_consensus s = None"
    using fits that by (simp add: state_fits_def consensus_fits_def)
  show thesis by (rule that [OF a cov role(1) conf dist alone reviewed])
qed

lemma reviewer_selects_same:
  assumes a: "role_covers_plan p a" and b: "role_covers_plan p b" and blind: "blind a = blind b"
    and dist: "distinct (map ot_evaluation_ref (re_evaluations a))" and i: "i \<in> set (re_evaluations a)"
  shows "\<exists>j. get_key e ot_evaluation_ref (re_evaluations b) (ot_evaluation_ref i) = Inr j \<and>
    ot_supporting_event_refs j = ot_supporting_event_refs i"
proof -
  obtain k where k: "k < length (re_evaluations a)" "i = re_evaluations a ! k" using i by (metis in_set_conv_nth)
  have len: "length (re_evaluations b) = length (re_evaluations a)" using a b covers_length by metis
  let ?j = "re_evaluations b ! k"
  have "blind a ! k = blind b ! k" using blind by simp
  then have j: "ot_evaluation_ref ?j = ot_evaluation_ref i" "ot_supporting_event_refs ?j = ot_supporting_event_refs i"
    using k len by (simp_all add: blind_def)
  have "distinct (map ot_evaluation_ref (re_evaluations b))"
    using dist a b by (simp add: role_covers_plan_def)
  then have "get_key e ot_evaluation_ref (re_evaluations b) (ot_evaluation_ref ?j) = Inr ?j"
    using k len by (intro get_key_distinct) simp_all
  with j show ?thesis by auto
qed

lemma resolved_confirmed:
  assumes s: "valid_method_state env s" "ms_status s = M_RESOLVED" and u: "evaluated_under p s"
    and p: "valid_evaluation_plan env p" and a: "ms_specialist_evaluation s = Some a"
  shows "confirmed_of_state p s =
    Inr (map ot_evaluation_ref (confirmed_items a), map pl_method_id (map fst (confirmed_pairs p a)))"
proof -
  obtain a' where a': "ms_specialist_evaluation s = Some a'" and cov: "role_covers_plan p a'"
    and alone: "ms_consensus s = None \<Longrightarrow> ms_reviewer_evaluation s = None"
    and rev: "\<And>c. ms_consensus s = Some c \<Longrightarrow> \<exists>b. ms_reviewer_evaluation s = Some b \<and> role_covers_plan p b \<and>
       roles_resolve a' b \<and> mc_status c = C_RESOLVED \<and> consensus_expected c a' b"
    using resolved_specialist [OF s u] by metis
  have [simp]: "a' = a" using a a' by simp
  have bindmap: "mapE (\<lambda>r. bindE (f r) (\<lambda>q. Inr (h q))) xs = bindE (mapE f xs) (\<lambda>ys. Inr (map h ys))"
    for f :: "text_t \<Rightarrow> exn + plan_item" and h :: "plan_item \<Rightarrow> text_t" and xs
  proof (induction xs)
    case (Cons x xs)
    then show ?case by (cases "f x"; cases "mapE f xs") auto
  qed simp
  note planned = confirmed_refs_planned [OF p cov, unfolded \<open>a' = a\<close>]
  show ?thesis
  proof (cases "ms_consensus s")
    case None
    then show ?thesis using a alone by (simp add: confirmed_of_state_def bindmap planned Let_def)
  next
    case (Some c)
    obtain b where b: "ms_reviewer_evaluation s = Some b" "roles_resolve a b" "mc_status c = C_RESOLVED" "consensus_expected c a b"
      using rev [OF Some] by auto
    have "mc_confirmed_method_ids c =
        map (\<lambda>r. pl_method_id (the (dict_by pl_evaluation_ref (ep_evaluations p) r))) (mc_confirmed_evaluation_refs c)"
      using u Some by (simp add: evaluated_under_def)
    moreover have refs: "mc_confirmed_evaluation_refs c = map ot_evaluation_ref (confirmed_items a)"
      using b(2,4) by (simp add: consensus_expected_def)
    ultimately have "mc_confirmed_method_ids c = map (\<lambda>(q, _). pl_method_id q) (confirmed_pairs p a)"
      using methods_of_refs [OF p cov] by (simp add: comp_def)
    then show ?thesis using Some a b refs by (simp add: confirmed_of_state_def case_prod_unfold comp_def)
  qed
qed

lemma resolved_selected:
  assumes s: "valid_method_state env s" "ms_status s = M_RESOLVED" and u: "evaluated_under p s"
    and p: "plan_partitions p" and a: "ms_specialist_evaluation s = Some a"
  shows "selected_events s (map ot_evaluation_ref (confirmed_items a)) = Inr (map ot_supporting_event_refs (confirmed_items a))"
    and "dedupe (concat (map ot_supporting_event_refs (confirmed_items a))) =
      concat (map ot_supporting_event_refs (confirmed_items a))"
proof -
  obtain a' where a': "ms_specialist_evaluation s = Some a'" and cov: "role_covers_plan p a'" and va: "valid_role_evaluation a'"
    and dist: "distinct (map ot_evaluation_ref (re_evaluations a'))"
    and alone: "ms_consensus s = None \<Longrightarrow> ms_reviewer_evaluation s = None"
    and rev: "\<And>c. ms_consensus s = Some c \<Longrightarrow> \<exists>b. ms_reviewer_evaluation s = Some b \<and> role_covers_plan p b \<and>
       roles_resolve a' b \<and> mc_status c = C_RESOLVED \<and> consensus_expected c a' b"
    using resolved_specialist [OF s u] by metis
  have [simp]: "a' = a" using a a' by simp
  let ?refs = "map ot_evaluation_ref (confirmed_items a)" and ?sel = "map ot_supporting_event_refs (confirmed_items a)"
  have items: "i \<in> set (re_evaluations a)" if "i \<in> set (confirmed_items a)" for i
    using that by (simp add: confirmed_items_def)
  show events: "dedupe (concat ?sel) = concat ?sel"
    using dedupe_distinct confirmed_events_distinct [OF p cov va] by simp
  have own: "mapE (\<lambda>r. bindE (get_key KeyError ot_evaluation_ref (re_evaluations a) r)
      (\<lambda>i. Inr (ot_supporting_event_refs i))) ?refs = Inr ?sel"
    unfolding mapE_comp using get_key_distinct [OF dist] items by (intro mapE_map) simp
  show "selected_events s ?refs = Inr ?sel"
  proof (cases "ms_consensus s")
    case None
    then show ?thesis using a alone own by (simp add: selected_events_def ensure_def)
  next
    case (Some c)
    obtain b where b: "ms_reviewer_evaluation s = Some b" "role_covers_plan p b" "roles_resolve a b" "consensus_expected c a b"
      using rev [OF Some] by auto
    have "bindE (get_key KeyError ot_evaluation_ref (re_evaluations b) (ot_evaluation_ref i))
        (\<lambda>j. ensure (ot_supporting_event_refs j = ot_supporting_event_refs i) ()) = Inr ()"
      if "i \<in> set (confirmed_items a)" for i
      using reviewer_selects_same [OF cov b(2) _ dist, of i KeyError] items [OF that] b(3)
      by (auto simp: roles_resolve_def)
    then have other: "mapE (\<lambda>(r, x). bindE (get_key KeyError ot_evaluation_ref (re_evaluations b) r)
        (\<lambda>i. ensure (ot_supporting_event_refs i = x) ())) (zip ?refs ?sel) = Inr (map (\<lambda>_. ()) (confirmed_items a))"
      unfolding zip_map_same mapE_comp by (intro mapE_map) simp
    have "dedupe (concat ?sel) = mc_confirmed_event_refs c"
      using events b(3,4) by (simp add: consensus_expected_def)
    then show ?thesis using Some a b(1) own other by (simp add: selected_events_def ensure_def)
  qed
qed

text \<open>The entry of one confirmed evaluation.\<close>

definition entry_of :: "method_graph \<Rightarrow> plan_item \<Rightarrow> output_item \<Rightarrow> confirmed_evaluation" where
  "entry_of g q i =
     \<lparr>ce_evaluation_ref = pl_evaluation_ref q, ce_method_id = pl_method_id q,
      ce_evidence_event_refs = ot_supporting_event_refs i,
      ce_evidence_hit_refs = dedupe (concat (map
        (\<lambda>r. ev_evidence_hit_refs (the (dict_by ev_event_ref (gr_events g) r))) (ot_supporting_event_refs i)))\<rparr>"

lemma confirmed_entry_ok:
  assumes g: "valid_method_graph env g" and bound: "validate_method_evaluation_plan g p = Inr ()"
    and a: "role_covers_plan p a" "valid_role_evaluation a" and x: "(q, i) \<in> set (confirmed_pairs p a)"
  shows "check_selected e g (q, ot_supporting_event_refs i) = Inr ()"
    and "confirmed_entry g (q, ot_supporting_event_refs i) = Inr (entry_of g q i)"
    and "valid_confirmed_evaluation (entry_of g q i)"
proof -
  obtain k where conf: "ot_verdict i = CONFIRMED" and order: "supports_in_order q i" and q: "q \<in> set (ep_evaluations p)"
    and i: "i \<in> set (re_evaluations a)"
    using confirmed_pairs_nth [OF a(1) x] by metis
  have sup: "ot_supporting_event_refs i \<noteq> []" "distinct (ot_supporting_event_refs i)"
    using a(2) i conf by (auto simp: valid_role_evaluation_def valid_output_item_def list_all_iff)
  have inside: "set (ot_supporting_event_refs i) \<subseteq> set (pl_evidence_event_refs q)"
    using order by (auto simp: supports_in_order_def list_all_iff)
  have "plan_item_bound g q" using bound q by (auto simp: validate_method_evaluation_plan_def list_all_iff)
  then have ev: "pl_evidence_event_refs q = map ev_event_ref (methods_of_event (pl_method_id q) (gr_events g))"
    by (simp add: plan_item_bound_def)
  have dist: "distinct (map ev_event_ref (gr_events g))"
    using g by (simp add: valid_method_graph_def valid_graph_events_def)
  have found: "\<exists>v. dict_by ev_event_ref (gr_events g) r = Some v \<and> ev_method_id v = pl_method_id q \<and>
      ev_evidence_hit_refs v \<noteq> [] \<and> method_id_ok (pl_method_id q)" if "r \<in> set (ot_supporting_event_refs i)" for r
  proof -
    have "r \<in> set (map ev_event_ref (methods_of_event (pl_method_id q) (gr_events g)))"
      using subsetD [OF inside that] unfolding ev .
    then obtain v where "v \<in> set (methods_of_event (pl_method_id q) (gr_events g))" "r = ev_event_ref v"
      unfolding set_map by (rule imageE)
    then have v: "v \<in> set (gr_events g)" "ev_method_id v = pl_method_id q" "ev_event_ref v = r"
      by (simp_all add: methods_of_event_def)
    moreover have "valid_method_event env v" using g v(1) by (simp add: valid_method_graph_def list_all_iff)
    ultimately show ?thesis
      using dict_by_distinct [OF dist v(1)] by (auto simp: valid_method_event_def unique_refs_def)
  qed
  let ?v = "\<lambda>r. the (dict_by ev_event_ref (gr_events g) r)"
  have "get_key f ev_event_ref (gr_events g) r = Inr (?v r)" if "r \<in> set (ot_supporting_event_refs i)" for f r
    using found [OF that] by (auto simp: get_key_def)
  then have lookups: "mapE (get_key f ev_event_ref (gr_events g)) (ot_supporting_event_refs i) =
      Inr (map ?v (ot_supporting_event_refs i))" for f
    by (rule mapE_map)
  have "list_all (\<lambda>r. r \<in> set (pl_evidence_event_refs q)) (ot_supporting_event_refs i)"
    using inside by (auto simp: list_all_iff)
  moreover have "list_all (\<lambda>v. ev_method_id v = pl_method_id q) (map ?v (ot_supporting_event_refs i))"
    using found by (fastforce simp: list_all_iff)
  ultimately show "check_selected e g (q, ot_supporting_event_refs i) = Inr ()"
    by (simp add: check_selected_def lookups ensure_def)
  obtain r where r: "r \<in> set (ot_supporting_event_refs i)" using sup(1) by (meson list.set_sel(1))
  then have "concat (map (\<lambda>r. ev_evidence_hit_refs (?v r)) (ot_supporting_event_refs i)) \<noteq> []"
    using found [OF r] by fastforce
  moreover have "method_id_ok (pl_method_id q)" using found [OF r] by blast
  ultimately show valid: "valid_confirmed_evaluation (entry_of g q i)"
    using sup by (simp add: valid_confirmed_evaluation_def entry_of_def unique_refs_def del: concat_eq_Nil_conv)
  show "confirmed_entry g (q, ot_supporting_event_refs i) = Inr (entry_of g q i)"
    using valid by (simp add: confirmed_entry_def lookups entry_of_def Let_def ensure_def comp_def)
qed

lemma zip_confirmed:
  assumes "role_covers_plan p a"
  shows "zip (map fst (confirmed_pairs p a)) (map ot_supporting_event_refs (confirmed_items a)) =
    map (\<lambda>x. (fst x, ot_supporting_event_refs (snd x))) (confirmed_pairs p a)"
  unfolding confirmed_pairs_items(1) [OF assms, symmetric] map_map zip_map_same by simp

text \<open>The confirmed part of a resolved state, and what its validator needs of it.\<close>

definition entries_of :: "evaluation_plan \<Rightarrow> method_graph \<Rightarrow> role_evaluation \<Rightarrow> confirmed_evaluation list" where
  "entries_of p g a = map (\<lambda>x. entry_of g (fst x) (snd x)) (confirmed_pairs p a)"

lemma entries_fields:
  assumes "role_covers_plan p a"
  shows "map ce_evaluation_ref (entries_of p g a) = map ot_evaluation_ref (confirmed_items a)"
    and "map ce_method_id (entries_of p g a) = map pl_method_id (map fst (confirmed_pairs p a))"
    and "map ce_evidence_event_refs (entries_of p g a) = map ot_supporting_event_refs (confirmed_items a)"
  unfolding confirmed_pairs_items(2) [OF assms, symmetric]
  by (simp_all add: entries_of_def entry_of_def case_prod_unfold comp_def
      confirmed_pairs_items(1) [OF assms, symmetric])

lemma confirmed_part_ok:
  assumes s: "valid_method_state env s" "ms_status s = M_RESOLVED" and u: "evaluated_under p s"
    and p: "valid_evaluation_plan env p" and g: "valid_method_graph env g"
    and bound: "validate_method_evaluation_plan g p = Inr ()" and a: "ms_specialist_evaluation s = Some a"
    and cov: "role_covers_plan p a" "valid_role_evaluation a"
  shows "confirmed_part p g s = Inr (entries_of p g a, map ot_evaluation_ref (confirmed_items a),
      map pl_method_id (map fst (confirmed_pairs p a)), concat (map ot_supporting_event_refs (confirmed_items a)),
      dedupe (concat (map ce_evidence_hit_refs (entries_of p g a))))"
proof -
  have part: "plan_partitions p" by (rule bound_plan_partitions [OF bound g])
  note ok = confirmed_entry_ok [OF g bound cov]
  have checks: "mapE (check_selected KeyError g) (map (\<lambda>x. (fst x, ot_supporting_event_refs (snd x))) (confirmed_pairs p a)) =
      Inr (map (\<lambda>_. ()) (confirmed_pairs p a))"
    unfolding mapE_comp by (rule mapE_map) (rule ok(1), simp)
  have entries: "mapE (confirmed_entry g) (map (\<lambda>x. (fst x, ot_supporting_event_refs (snd x))) (confirmed_pairs p a)) =
      Inr (entries_of p g a)"
    unfolding mapE_comp entries_of_def by (rule mapE_map) (rule ok(2), simp)
  show ?thesis
    unfolding confirmed_part_def resolved_confirmed [OF s u p a] planned_items_def
    by (simp add: confirmed_refs_planned [OF p cov(1)] resolved_selected [OF s u part a] zip_confirmed [OF cov(1)]
        checks entries)
qed

lemma entries_valid:
  assumes g: "valid_method_graph env g" and p: "valid_evaluation_plan env p"
    and bound: "validate_method_evaluation_plan g p = Inr ()" and cov: "role_covers_plan p a" "valid_role_evaluation a"
    and conf: "CONFIRMED \<in> set (verdicts a)"
  shows "list_all valid_confirmed_evaluation (entries_of p g a)" and "entries_of p g a \<noteq> []"
    and "distinct (map ce_evaluation_ref (entries_of p g a))" and "distinct (map ce_method_id (entries_of p g a))"
proof -
  show valid: "list_all valid_confirmed_evaluation (entries_of p g a)"
    using confirmed_entry_ok(3) [OF g bound cov] by (auto simp: entries_of_def list_all_iff)
  obtain i where "i \<in> set (re_evaluations a)" "ot_verdict i = CONFIRMED" using conf by (auto simp: verdicts_def)
  then have "i \<in> set (confirmed_items a)" by (simp add: confirmed_items_def)
  then have "confirmed_pairs p a \<noteq> []" using confirmed_pairs_items(1) [OF cov(1)] by auto
  then show "entries_of p g a \<noteq> []" by (simp add: entries_of_def)
  have "distinct (map pl_evaluation_ref (map fst (confirmed_pairs p a)))"
    "distinct (map pl_method_id (map fst (confirmed_pairs p a)))"
    using p distinct_subseq_map [OF map_fst_confirmed] by (auto simp: valid_evaluation_plan_def simp del: map_map)
  then show "distinct (map ce_evaluation_ref (entries_of p g a))" "distinct (map ce_method_id (entries_of p g a))"
    by (simp_all add: entries_of_def entry_of_def comp_def)
qed

lemma result_fields [simp]:
  "mr_case_id (result_of_state env s p g j l rs d (evs, refs, ms, es, hs)) = ms_case_id s"
  "mr_source_job_id (result_of_state env s p g j l rs d (evs, refs, ms, es, hs)) = ms_source_job_id s"
  "mr_terminal_job_id (result_of_state env s p g j l rs d (evs, refs, ms, es, hs)) = j"
  "mr_evaluation_id (result_of_state env s p g j l rs d (evs, refs, ms, es, hs)) = ms_evaluation_id s"
  "mr_status (result_of_state env s p g j l rs d (evs, refs, ms, es, hs)) = ms_status s"
  "mr_plan_ref (result_of_state env s p g j l rs d (evs, refs, ms, es, hs)) = ep_plan_ref p"
  "mr_evidence_graph_ref (result_of_state env s p g j l rs d (evs, refs, ms, es, hs)) = gr_graph_ref g"
  "mr_reason_code (result_of_state env s p g j l rs d (evs, refs, ms, es, hs)) = ms_reason_code s"
  "mr_diagnostic_id (result_of_state env s p g j l rs d (evs, refs, ms, es, hs)) = d"
  "mr_diagnostic_evaluation_ref (result_of_state env s p g j l rs d (evs, refs, ms, es, hs)) = ms_diagnostic_evaluation_ref s"
  "mr_evaluations (result_of_state env s p g j l rs d (evs, refs, ms, es, hs)) = evs"
  "mr_confirmed_evaluation_refs (result_of_state env s p g j l rs d (evs, refs, ms, es, hs)) = refs"
  "mr_confirmed_method_ids (result_of_state env s p g j l rs d (evs, refs, ms, es, hs)) = ms"
  "mr_confirmed_event_refs (result_of_state env s p g j l rs d (evs, refs, ms, es, hs)) = es"
  "mr_confirmed_hit_refs (result_of_state env s p g j l rs d (evs, refs, ms, es, hs)) = hs"
  "mr_limitations (result_of_state env s p g j l rs d (evs, refs, ms, es, hs)) = l"
  "mr_reasons (result_of_state env s p g j l rs d (evs, refs, ms, es, hs)) = rs"
  by (simp_all add: result_of_state_def Let_def)

lemma result_ref_of [simp]:
  "mr_result_ref (result_of_state env s p g j l rs d x) = method_terminal_result_ref env (result_of_state env s p g j l rs d x)"
  by (cases x) (simp add: result_of_state_def Let_def method_terminal_result_ref_def)

lemma terminal_diagnostic:
  assumes "valid_method_state env s" and "ms_status s \<in> {M_RESOLVED, M_UNRESOLVED, M_FAILED}"
  shows "ms_diagnostic_id s = Some (diagnostic_of env s (ms_status s) (ms_reason_code s) (ms_diagnostic_evaluation_ref s))"
  using valid_fits [OF assms(1)] assms(2) by (auto simp: state_fits_def status_fits_def terminal_fits_def)

lemma plan_known:
  assumes "validate_method_evaluation_plan g p = Inr ()" and "q \<in> set (ep_evaluations p)"
  shows "list_all (\<lambda>r. r \<in> ev_event_ref ` set (gr_events g)) (pl_evidence_event_refs q)"
    and "list_all (\<lambda>r. r \<in> ht_hit_ref ` set (gr_hits g)) (pl_evidence_hit_refs q)"
proof -
  have "plan_item_bound g q" using assms by (auto simp: validate_method_evaluation_plan_def list_all_iff)
  then have "pl_evidence_event_refs q = map ev_event_ref (methods_of_event (pl_method_id q) (gr_events g))"
    "pl_evidence_hit_refs q = map ht_hit_ref (hits_of_method (pl_method_id q) (gr_hits g))"
    by (simp_all add: plan_item_bound_def)
  then show "list_all (\<lambda>r. r \<in> ev_event_ref ` set (gr_events g)) (pl_evidence_event_refs q)"
    "list_all (\<lambda>r. r \<in> ht_hit_ref ` set (gr_hits g)) (pl_evidence_hit_refs q)"
    by (auto simp: list_all_iff methods_of_event_def hits_of_method_def)
qed

lemma terminal_reason:
  assumes "valid_method_state env s"
  shows "ms_status s = M_RESOLVED \<Longrightarrow> ms_reason_code s = None \<and> ms_reasons s = []"
    and "ms_status s \<in> {M_UNRESOLVED, M_FAILED} \<Longrightarrow> reason_allowed (ms_status s) (ms_reason_code s)"
    and "ms_status s \<in> {M_UNRESOLVED, M_FAILED} \<Longrightarrow>
      \<exists>c. ms_reason_code s = Some c \<and> ms_reasons s = [method_public_reason_text c]"
  using valid_fits [OF assms]
  by (auto simp: state_fits_def status_fits_def terminal_fits_def resolved_fits_def unresolved_fits_def failed_fits_def
      reason_allowed_def split: option.splits)

lemma result_ok:
  assumes s: "valid_method_state env s" "ms_status s \<in> {M_RESOLVED, M_UNRESOLVED, M_FAILED}" and u: "evaluated_under p s"
    and p: "valid_evaluation_plan env p" and g: "valid_method_graph env g"
    and bound: "validate_method_evaluation_plan g p = Inr ()" and l: "list_all valid_text limitations"
  shows "\<exists>r. build_method_terminal_result env s p g job limitations [] = Inr r \<and> valid_method_result env r \<and>
    result_bound s r p g \<and> mr_terminal_job_id r = job \<and> mr_limitations r = dedupe limitations"
proof -
  have lim: "result_text limitations = Inr (dedupe limitations)" "list_all valid_text (dedupe limitations)"
    using l by (auto simp: result_text_def ensure_def list_all_iff valid_text_def)
  have none: "result_text [] = Inr []" by (simp add: result_text_def ensure_def)
  have rs: "dedupe (ms_reasons s) = ms_reasons s" "distinct (ms_reasons s)" "list_all valid_text (ms_reasons s)"
    using valid_fits [OF s(1)] by (simp_all add: state_fits_def dedupe_distinct)
  have plan: "ms_plan_ref s = ep_plan_ref p" "ms_evaluation_refs s = map pl_evaluation_ref (ep_evaluations p)"
    using u by (simp_all add: evaluated_under_def plan_of_state_def)
  have gp: "gr_graph_ref g = ep_evidence_graph_ref p" using bound by (simp add: validate_method_evaluation_plan_def)
  have known: "list_all (\<lambda>q. list_all (\<lambda>r. r \<in> ev_event_ref ` set (gr_events g)) (pl_evidence_event_refs q) \<and>
      list_all (\<lambda>r. r \<in> ht_hit_ref ` set (gr_hits g)) (pl_evidence_hit_refs q)) (ep_evaluations p)"
    unfolding list_all_iff [of _ "ep_evaluations p"] using plan_known [OF bound] by blast
  let ?d = "diagnostic_of env s (ms_status s) (ms_reason_code s) (ms_diagnostic_evaluation_ref s)"
  note diag = terminal_diagnostic [OF s]
  let ?r = "\<lambda>part. result_of_state env s p g job (dedupe limitations) (ms_reasons s) ?d part"
  have build: "build_method_terminal_result env s p g job limitations [] =
      bindE (if ms_status s = M_RESOLVED then confirmed_part p g s else Inr ([], [], [], [], [])) (\<lambda>part.
        bindE (ensure (valid_method_result env (?r part)) (?r part)) (\<lambda>r. validate_method_terminal_result env s r p g))"
    unfolding build_method_terminal_result_def bound lim(1) none using s(2) plan known diag rs(1) by (simp add: Let_def)
  have rb: "result_bound s (?r (evs, refs, ms, es, hs)) p g" for evs refs ms es hs
    using plan gp diag by (simp add: result_bound_def)
  show ?thesis
  proof (cases "ms_status s = M_RESOLVED")
    case False
    then have "reason_allowed (ms_status s) (ms_reason_code s)" using terminal_reason(2) [OF s(1)] s(2) by auto
    then have "valid_method_result env (?r ([], [], [], [], []))"
      using False s(2) lim rs plan by (simp add: valid_method_result_def result_unique_def result_cleared_def diagnostic_of_def)
    then show ?thesis using False build rb s(1) p g by (simp add: validate_method_terminal_result_def ensure_def)
  next
    case True
    obtain a where a: "ms_specialist_evaluation s = Some a" and cov: "role_covers_plan p a" "valid_role_evaluation a"
      and conf: "CONFIRMED \<in> set (verdicts a)"
      using resolved_specialist [OF s(1) True u] by metis
    have part: "plan_partitions p" by (rule bound_plan_partitions [OF bound g])
    note entries = entries_valid [OF g p bound cov conf] and fields = entries_fields [OF cov(1), of g]
    let ?hits = "dedupe (concat (map ce_evidence_hit_refs (entries_of p g a)))"
    let ?z = "?r (entries_of p g a, map ot_evaluation_ref (confirmed_items a),
        map pl_method_id (map fst (confirmed_pairs p a)), concat (map ot_supporting_event_refs (confirmed_items a)), ?hits)"
    obtain x where x: "x \<in> set (entries_of p g a)" using entries(2) by (meson list.set_sel(1))
    then have "ce_evidence_event_refs x \<noteq> []" "ce_evidence_hit_refs x \<noteq> []"
      using entries(1) by (auto simp: list_all_iff valid_confirmed_evaluation_def unique_refs_def)
    then have "concat (map ce_evidence_event_refs (entries_of p g a)) \<noteq> []" "concat (map ce_evidence_hit_refs (entries_of p g a)) \<noteq> []"
      using x by auto
    moreover have "list_all method_id_ok (map pl_method_id (map fst (confirmed_pairs p a)))"
      using p by (auto simp: list_all_iff valid_evaluation_plan_def valid_plan_item_def confirmed_pairs_def dest: set_zip_leftD)
    moreover have "confirmed_pairs p a \<noteq> []" using entries(2) by (simp add: entries_of_def)
    moreover have "length (confirmed_items a) = length (confirmed_pairs p a)"
      unfolding confirmed_pairs_items(1) [OF cov(1), symmetric] by simp
    moreover from calculation(4,5) have "confirmed_items a \<noteq> []" by force
    ultimately have valid: "valid_method_result env ?z"
      using True entries fields lim rs plan terminal_reason(1) [OF s(1)] confirmed_events_distinct [OF part cov]
        resolved_selected(2) [OF s(1) True u part a]
      by (simp add: valid_method_result_def result_unique_def result_confirmed_def diagnostic_of_def
          del: concat_eq_Nil_conv map_map)
    have "x \<in> set (confirmed_pairs p a) \<Longrightarrow>
        (if pl_evaluation_ref (fst (fst x, ot_supporting_event_refs (snd x))) \<notin> ce_evaluation_ref ` set (mr_evaluations ?z) then Inl ValueError
         else bindE (check_selected ValueError g (fst x, ot_supporting_event_refs (snd x)))
           (\<lambda>_. confirmed_entry g (fst x, ot_supporting_event_refs (snd x)))) = Inr (entry_of g (fst x) (snd x))" for x
      using confirmed_entry_ok(1,2) [OF g bound cov, of "fst x" "snd x"]
      by (auto simp: entries_of_def entry_of_def image_image)
    then have checked: "mapE (\<lambda>x. if pl_evaluation_ref (fst x) \<notin> ce_evaluation_ref ` set (mr_evaluations ?z) then Inl ValueError
        else bindE (check_selected ValueError g x) (\<lambda>_. confirmed_entry g x))
        (map (\<lambda>x. (fst x, ot_supporting_event_refs (snd x))) (confirmed_pairs p a)) = Inr (entries_of p g a)"
      unfolding mapE_comp entries_of_def by (rule mapE_map)
    have "validate_method_terminal_result env s ?z p g = Inr ?z"
      unfolding validate_method_terminal_result_def resolved_confirmed [OF s(1) True u p a] planned_items_def
      using checked s(1) True p g valid rb resolved_selected [OF s(1) True u part a]
      by (simp add: confirmed_refs_planned [OF p cov(1)] zip_confirmed [OF cov(1)] ensure_def)
    then show ?thesis
      using build True confirmed_part_ok [OF s(1) True u p g bound a cov] valid rb by (simp add: ensure_def)
  qed
qed

lemma projection_ok:
  assumes s: "valid_method_state env s" "ms_status s \<in> {M_RESOLVED, M_UNRESOLVED, M_FAILED}"
    and r: "valid_method_result env r" "result_bound s r p g"
  shows "\<exists>q. project_method_terminal_result env r = Inr q \<and> valid_projection q \<and>
    mp_status q = terminal_status_of (ms_status s) \<and> mp_case_id q = ms_case_id s \<and>
    mp_source_job_id q = mr_terminal_job_id r"
proof -
  have b: "mr_status r = ms_status s" "mr_reason_code r = ms_reason_code s" "mr_reasons r = ms_reasons s" "mr_case_id r = ms_case_id s"
    using r(2) by (simp_all add: result_bound_def)
  have u: "result_unique r" "list_all valid_text (mr_limitations r)" "list_all valid_text (mr_reasons r)"
    using r(1) by (simp_all add: valid_method_result_def)
  consider (resolved) "ms_status s = M_RESOLVED" | (unresolved) "ms_status s = M_UNRESOLVED" | (failed) "ms_status s = M_FAILED"
    using s(2) by auto
  then show ?thesis
  proof cases
    case resolved
    then have "result_confirmed r" using r(1) b by (simp add: valid_method_result_def)
    with resolved r(1) b u terminal_reason(1) [OF s(1)] show ?thesis
      by (simp add: project_method_terminal_result_def valid_projection_def result_unique_def result_confirmed_def Let_def ensure_def)
  next
    case unresolved
    then have c: "result_cleared r" "reason_allowed M_UNRESOLVED (ms_reason_code s)" using r(1) b by (simp_all add: valid_method_result_def)
    obtain code where "ms_reason_code s = Some code" "ms_reasons s = [method_public_reason_text code]"
      using terminal_reason(3) [OF s(1)] unresolved by auto
    with unresolved r(1) b u c show ?thesis
      by (simp add: project_method_terminal_result_def valid_projection_def result_cleared_def reason_allowed_def
          result_unique_def Let_def ensure_def)
  next
    case failed
    then have c: "result_cleared r" "reason_allowed M_FAILED (ms_reason_code s)" using r(1) b by (simp_all add: valid_method_result_def)
    obtain code where "ms_reason_code s = Some code" "ms_reasons s = [method_public_reason_text code]"
      using terminal_reason(3) [OF s(1)] failed by auto
    with failed r(1) b u c show ?thesis
      by (simp add: project_method_terminal_result_def valid_projection_def result_cleared_def reason_allowed_def
          result_unique_def Let_def ensure_def)
  qed
qed

end
