(* ===== verification/Methods_Driver.thy ===== *)
theory Methods_Driver
  imports Methods_Result
begin

text \<open>
  The part of \<open>runtime/diagnosis_runtime.py\<close> that drives a Methods evaluation: the attempt loops of the
  two roles, the handoff from the specialist to the reviewer, and the end of an evaluation. Everything
  outside the process (the model backend, the workspace files, the execution records) is an argument: the
  result of an attempt and whether each record could be committed. A role ends with an answer, with a
  terminal state, with an interrupted state, or with an exception that leaves the handler.
\<close>

section \<open>Attempts\<close>

text \<open>What executing a role and reading its response file gives: the decoded document, or the exception.\<close>

datatype attempt_io =
    Io_Document json
  | Io_Unreadable text_t
  | Io_Runtime error_code text_t
  | Io_Os_Error
  | Io_Archive_Error
  | Io_Crash

datatype attempt_result =
    Validated role_evaluation
  | Rejected text_t
  | Runtime_Error error_code text_t
  | Os_Error
  | Archive_Error
  | Crash

text \<open>Every message of \<open>MethodEvaluationResponseError\<close> is non-blank; the reducer checks nothing else of it.\<close>

definition response_rejected :: text_t where
  "response_rejected = ''model evaluation response must use exact plan order and coverage''"

definition run_method_role_attempt :: "method_role \<Rightarrow> evaluation_plan \<Rightarrow> bool \<Rightarrow> attempt_io \<Rightarrow> attempt_result" where
  "run_method_role_attempt role p repair io =
     (case io of
        Io_Document document \<Rightarrow>
          (case evaluate_method_role role p document repair of
             Inr ev \<Rightarrow> Validated ev
           | Inl _ \<Rightarrow> Rejected response_rejected)
      | Io_Unreadable m \<Rightarrow> Rejected m
      | Io_Runtime code m \<Rightarrow> Runtime_Error code m
      | Io_Os_Error \<Rightarrow> Os_Error
      | Io_Archive_Error \<Rightarrow> Archive_Error
      | Io_Crash \<Rightarrow> Crash)"

text \<open>Publishing the role inputs and materializing the context.\<close>

datatype prepare_result = Prepared | Prepare_Error error_code text_t | Prepare_Crash

record driver_io =
  io_attempt :: "bool \<Rightarrow> attempt_io"
  io_archived :: "bool \<Rightarrow> bool"
  io_committed :: "method_state \<Rightarrow> bool"
  io_attributed :: bool
  io_primary_rejected :: bool
  io_repair_rejected :: bool
  io_prepared :: prepare_result

datatype escape = Raised exn | Context_Limit | Archive_Failed

datatype role_exit =
    Answered method_state role_evaluation
  | Handed_Over method_state
  | Ended method_state
  | Interrupted method_state
  | Escaped escape

section \<open>Ending an evaluation\<close>

definition ended :: "exn + method_state \<Rightarrow> role_exit" where
  "ended r = (case r of Inl e \<Rightarrow> Escaped (Raised e) | Inr s \<Rightarrow> Ended s)"

text \<open>\<open>_fail_methods_terminal_v2\<close> up to the state it hands to \<open>_finish_methods_terminal_v2\<close>; its reasons
  are non-blank literals.\<close>

definition fail_methods_terminal :: "py_env \<Rightarrow> method_state \<Rightarrow> method_reason \<Rightarrow> text_t \<Rightarrow> role_exit" where
  "fail_methods_terminal env s code reason = ended (fail_method_state env s code reason None)"

definition interrupt_methods_state :: "py_env \<Rightarrow> driver_io \<Rightarrow> method_state \<Rightarrow> role_exit" where
  "interrupt_methods_state env io s =
     (case interrupt_method_state env s of
        Inl e \<Rightarrow> Escaped (Raised e)
      | Inr s' \<Rightarrow> if io_committed io s' then Interrupted s' else Escaped Archive_Failed)"

definition audit_failed_method_state :: "py_env \<Rightarrow> method_state \<Rightarrow> exn + method_state" where
  "audit_failed_method_state env s =
     (if ms_status s = M_FAILED \<and> ms_reason_code s = Some MR_AUDIT_ARCHIVE_FAILED then Inr s
      else fail_method_state env s MR_AUDIT_ARCHIVE_FAILED
             ''The Evidence V2 audit record could not be committed.'' None)"

text \<open>\<open>_finish_methods_terminal_v2\<close>: the result is built before the state is committed, and rebuilt from
  the failed state when the commit fails.\<close>

definition finish_methods_terminal ::
  "py_env \<Rightarrow> driver_io \<Rightarrow> evaluation_plan \<Rightarrow> method_graph \<Rightarrow> opaque_id \<Rightarrow> text_t list \<Rightarrow> bool \<Rightarrow> method_state \<Rightarrow>
   exn + method_state \<times> method_result" where
  "finish_methods_terminal env io p g job limitations persist s =
     bindE (build_method_terminal_result env s p g job limitations []) (\<lambda>r.
     if persist \<and> \<not> io_committed io s
     then bindE (audit_failed_method_state env s) (\<lambda>f.
          bindE (build_method_terminal_result env f p g job limitations []) (\<lambda>r'. Inr (f, r')))
     else Inr (s, r))"

section \<open>The specialist\<close>

definition role_failed :: "py_env \<Rightarrow> driver_io \<Rightarrow> method_role \<Rightarrow> method_state \<Rightarrow> error_code \<Rightarrow> text_t \<Rightarrow> role_exit" where
  "role_failed env io role s code message =
     (if code = EC_CONTEXT_LIMIT then Escaped Context_Limit
      else if code = EC_BACKEND_CANCELLED then interrupt_methods_state env io s
      else ended (record_model_execution_failure env s role message None))"

text \<open>A rejected response always moves the state: the loop runs at most once more.\<close>

lemma rejection_progress:
  assumes "record_protocol_error env s role reason ref = Inr s'" and "ms_status s' \<noteq> M_UNRESOLVED"
  shows "role_protocol_failures role s = 0" "role_protocol_failures role s' = 1"
  using assms by (cases role; auto simp: record_protocol_error_def make_state_Inr split: if_splits)+

function specialist_loop :: "py_env \<Rightarrow> evaluation_plan \<Rightarrow> driver_io \<Rightarrow> bool \<Rightarrow> method_state \<Rightarrow> role_exit" where
  "specialist_loop env p io repair s =
     (case run_method_role_attempt SPECIALIST p repair (io_attempt io repair) of
        Validated ev \<Rightarrow> Answered s ev
      | Rejected m \<Rightarrow>
          if \<not> io_archived io repair
          then fail_methods_terminal env s MR_AUDIT_ARCHIVE_FAILED
                 ''The rejected Specialist response could not be archived.''
          else
            (case record_protocol_error env s SPECIALIST m None of
               Inl e \<Rightarrow> Escaped (Raised e)
             | Inr s' \<Rightarrow> if ms_status s' = M_UNRESOLVED then Ended s' else specialist_loop env p io True s')
      | Runtime_Error code m \<Rightarrow> role_failed env io SPECIALIST s code m
      | Os_Error \<Rightarrow> fail_methods_terminal env s MR_SERVER_INVARIANT_VIOLATION
          ''The Specialist output could not be read.''
      | Archive_Error \<Rightarrow> fail_methods_terminal env s MR_AUDIT_ARCHIVE_FAILED
          ''The Specialist prompt could not be archived.''
      | Crash \<Rightarrow> fail_methods_terminal env s MR_SERVER_INVARIANT_VIOLATION
          ''The Specialist execution violated a server invariant.'')"
  by pat_completeness auto
termination
  by (relation "measure (\<lambda>(env, p, io, repair, s). if role_protocol_failures SPECIALIST s = 0 then 1 else 0)")
    (use rejection_progress [of _ _ SPECIALIST] in fastforce)+

definition evaluate_methods_specialist ::
  "py_env \<Rightarrow> evaluation_plan \<Rightarrow> driver_io \<Rightarrow> method_state \<Rightarrow> role_exit" where
  "evaluate_methods_specialist env p io s =
     (if io_repair_rejected io \<and> \<not> io_primary_rejected io
      then fail_methods_terminal env s MR_SERVER_INVARIANT_VIOLATION
             ''A Specialist repair record exists without its primary rejection.''
      else
        case (if io_primary_rejected io \<and> ms_specialist_protocol_failures s = 0
              then record_protocol_error env s SPECIALIST
                     ''The persisted primary Specialist response was rejected.'' None
              else Inr s) of
          Inl e \<Rightarrow> Escaped (Raised e)
        | Inr s1 \<Rightarrow>
            if io_repair_rejected io
            then ended (record_protocol_error env s1 SPECIALIST
                   ''The persisted Specialist repair response was rejected.'' None)
            else specialist_loop env p io (io_primary_rejected io) s1)"

declare specialist_loop.simps [simp del]

text \<open>The state a DIAGNOSE job starts from: its own record, the resumed record of the job it replaces, or a
  new evaluation; it has to belong to the job and the plan.\<close>

definition stored_specialist_state ::
  "py_env \<Rightarrow> opaque_id \<Rightarrow> bool \<Rightarrow> method_state option \<Rightarrow> method_state option \<Rightarrow> exn + method_state option" where
  "stored_specialist_state env job_id replacement stored predecessor =
     (if \<not> replacement then Inr stored
      else case stored of
        None \<Rightarrow>
          (case predecessor of
             None \<Rightarrow> Inr None
           | Some q \<Rightarrow> bindE (resume_method_state env q (Some job_id)) (\<lambda>s. Inr (Some s)))
      | Some s \<Rightarrow>
          if ms_status s = M_INTERRUPTED then bindE (resume_method_state env s (Some job_id)) (\<lambda>s. Inr (Some s))
          else Inr (Some s))"

definition specialist_state ::
  "py_env \<Rightarrow> opaque_id \<Rightarrow> opaque_id \<Rightarrow> opaque_id \<Rightarrow> evaluation_plan \<Rightarrow> method_state option \<Rightarrow> exn + method_state" where
  "specialist_state env case_id job_id evaluation_id p stored =
     bindE (case stored of Some s \<Rightarrow> Inr s | None \<Rightarrow> start_method_state env case_id job_id evaluation_id p) (\<lambda>s.
     ensure (ms_case_id s = case_id \<and> ms_source_job_id s = job_id \<and> ms_plan_ref s = ep_plan_ref p \<and>
       ms_evaluation_refs s = map pl_evaluation_ref (ep_evaluations p)) s)"

text \<open>\<open>_finish_methods_specialist_handoff_v2\<close>: the outcome of the handoff carries no state of its own.\<close>

definition finish_specialist_handoff ::
  "py_env \<Rightarrow> driver_io \<Rightarrow> method_state \<Rightarrow> role_evaluation option \<Rightarrow> role_exit" where
  "finish_specialist_handoff env io s ev =
     (case (if ms_status s = M_REVIEWER_PENDING \<and> ev = None then Inr s
            else case ev of None \<Rightarrow> Inl ValueError | Some e \<Rightarrow> accept_specialist_evaluation env s e) of
        Inl _ \<Rightarrow> fail_methods_terminal env s MR_SERVER_INVARIANT_VIOLATION
          ''The Specialist evaluation could not enter Reviewer handoff.''
      | Inr s' \<Rightarrow> if io_committed io s' then Handed_Over s' else ended (audit_failed_method_state env s'))"

definition execute_methods_specialist ::
  "py_env \<Rightarrow> bool \<Rightarrow> evaluation_plan \<Rightarrow> driver_io \<Rightarrow> method_state \<Rightarrow> role_exit" where
  "execute_methods_specialist env reviewer_enabled p io s =
     (if ms_status s \<in> {M_UNRESOLVED, M_FAILED} then Ended s
      else if ms_status s = M_REVIEWER_PENDING then finish_specialist_handoff env io s None
      else if ms_status s \<noteq> M_SPECIALIST_PENDING
      then fail_methods_terminal env s MR_SERVER_INVARIANT_VIOLATION ''The stored Specialist state is not resumable.''
      else
        case io_prepared io of
          Prepare_Error code m \<Rightarrow>
            if code = EC_CONTEXT_LIMIT then Escaped Context_Limit
            else fail_methods_terminal env s
              (if code = EC_EXECUTION_RECORD_FAILED then MR_AUDIT_ARCHIVE_FAILED else MR_SERVER_INVARIANT_VIOLATION) m
        | Prepare_Crash \<Rightarrow> fail_methods_terminal env s MR_SERVER_INVARIANT_VIOLATION
            ''The Specialist workspace could not be materialized.''
        | Prepared \<Rightarrow>
            (case evaluate_methods_specialist env p io s of
               Answered s' ev \<Rightarrow>
                 if reviewer_enabled then finish_specialist_handoff env io s' (Some ev)
                 else (case finalize_specialist_evaluation env s' ev of
                         Inr t \<Rightarrow> Ended t
                       | Inl _ \<Rightarrow> fail_methods_terminal env s' MR_SERVER_INVARIANT_VIOLATION
                           ''The Specialist evaluation could not be finalized.'')
             | x \<Rightarrow> x))"

section \<open>The reviewer\<close>

text \<open>What \<open>_read_methods_reviewer_state_v2\<close> reads: the identities of job and target, and the stored
  states of the job it replaces and of the source job.\<close>

record reviewer_source =
  rv_case_id :: opaque_id
  rv_job_id :: opaque_id
  rv_source_job_id :: opaque_id
  rv_evaluation_id :: opaque_id
  rv_predecessor :: "method_state option"
  rv_source :: "method_state option"
  rv_package_method_count :: int

definition read_methods_reviewer_state ::
  "py_env \<Rightarrow> reviewer_source \<Rightarrow> evaluation_plan \<Rightarrow> exn + method_state" where
  "read_methods_reviewer_state env src p =
     bindE (case rv_predecessor src of
              None \<Rightarrow> Inr (rv_source src)
            | Some s \<Rightarrow> if ms_status s = M_INTERRUPTED then bindE (resume_method_state env s None) (\<lambda>s. Inr (Some s))
                        else Inr (Some s)) (\<lambda>st.
     case st of
       None \<Rightarrow> Inl ValueError
     | Some s \<Rightarrow> ensure
         (ms_status s = M_REVIEWER_PENDING \<and> ms_current_role s = Some REVIEWER \<and> ms_case_id s = rv_case_id src \<and>
          ms_source_job_id s = rv_source_job_id src \<and> ms_evaluation_id s = rv_evaluation_id src \<and>
          ms_plan_ref s = ep_plan_ref p \<and> ms_evaluation_refs s = map pl_evaluation_ref (ep_evaluations p) \<and>
          ms_specialist_evaluation s \<noteq> None \<and> ms_reviewer_evaluation s = None) s)"

fun subreason_str :: "consensus_subreason \<Rightarrow> text_t" where
  "subreason_str UNKNOWN_PRESENT = ''UNKNOWN_PRESENT''"
| "subreason_str VERDICT_MISMATCH = ''VERDICT_MISMATCH''"
| "subreason_str EVIDENCE_SET_MISMATCH = ''EVIDENCE_SET_MISMATCH''"
| "subreason_str NO_CONFIRMED = ''NO_CONFIRMED''"

text \<open>\<open>_methods_consensus_attribution_bytes_v2\<close>; the job is a Methods reviewer job.\<close>

definition attribution_subreason :: "method_state \<Rightarrow> exn + consensus_subreason option" where
  "attribution_subreason s =
     (case (ms_specialist_evaluation s, ms_reviewer_evaluation s, ms_consensus s) of
        (Some a, Some b, Some c) \<Rightarrow>
          if ms_status s = M_UNRESOLVED then bindE (method_consensus_subreason a b) (\<lambda>x. Inr (Some x)) else Inr None
      | _ \<Rightarrow> Inr None)"

definition consensus_attribution ::
  "reviewer_source \<Rightarrow> method_graph \<Rightarrow> evaluation_plan \<Rightarrow> method_state \<Rightarrow> exn + text_t" where
  "consensus_attribution src g p s =
     (if \<not> (ms_status s \<in> {M_RESOLVED, M_UNRESOLVED, M_FAILED} \<and> ms_case_id s = rv_case_id src \<and>
            ms_source_job_id s = rv_source_job_id src \<and> ms_plan_ref s = ep_plan_ref p \<and>
            ep_evidence_graph_ref p = gr_graph_ref g \<and> rv_package_method_count src \<ge> 1 \<and>
            rv_package_method_count src \<ge> int (length (gr_loaded_method_ids g)))
      then Inl ValueError
      else
        bindE (attribution_subreason s) (\<lambda>subreason.
        Inr (canonical_json_bytes (JObj
          [(''schema_version'', JInt 1), (''record_type'', JStr ''methods-consensus-attribution-v2''),
           (''case_id'', JStr (rv_case_id src)), (''job_id'', JStr (rv_job_id src)),
           (''source_job_id'', JStr (ms_source_job_id s)), (''evaluation_id'', JStr (ms_evaluation_id s)),
           (''evidence_graph_ref'', JStr (gr_graph_ref g)), (''plan_ref'', JStr (ep_plan_ref p)),
           (''skill_sha256'', JStr (gr_skill_sha256 g)), (''terminal_status'', JStr (method_status_str (ms_status s))),
           (''reason_code'', json_opt (\<lambda>c. JStr (method_reason_str c)) (ms_reason_code s)),
           (''attribution_stage'', JStr
             (if ms_specialist_evaluation s \<noteq> None \<and> ms_reviewer_evaluation s \<noteq> None \<and> ms_consensus s \<noteq> None
              then ''CONSENSUS'' else ''PRE_CONSENSUS_TERMINAL'')),
           (''consensus_subreason'', json_opt (\<lambda>x. JStr (subreason_str x)) subreason),
           (''evaluation_count'', JInt (int (length (ep_evaluations p)))),
           (''evaluation_event_counts'', JList (map (\<lambda>q. JObj
              [(''evaluation_ref'', JStr (pl_evaluation_ref q)),
               (''event_count'', JInt (int (length (pl_evidence_event_refs q))))]) (ep_evaluations p))),
           (''activated_method_count'', JInt (int (length (gr_loaded_method_ids g)))),
           (''package_method_count'', JInt (rv_package_method_count src))]))))"

definition finish_review ::
  "py_env \<Rightarrow> evaluation_plan \<Rightarrow> method_graph \<Rightarrow> driver_io \<Rightarrow> reviewer_source \<Rightarrow> method_state \<Rightarrow> role_evaluation \<Rightarrow> role_exit" where
  "finish_review env p g io src s ev =
     (case ms_specialist_evaluation s of
        None \<Rightarrow> Escaped (Raised AssertionError)
      | Some a \<Rightarrow>
          (case bindE (resolve_method_consensus p a ev) (\<lambda>c. finalize_reviewer_consensus env s p ev c) of
             Inl _ \<Rightarrow> fail_methods_terminal env s MR_SERVER_INVARIANT_VIOLATION
               ''The Reviewer evaluation could not be resolved mechanically.''
           | Inr t \<Rightarrow>
               (case consensus_attribution src g p t of
                  Inl e \<Rightarrow> Escaped (Raised e)
                | Inr _ \<Rightarrow>
                    if io_attributed io then Ended t
                    else fail_methods_terminal env s MR_AUDIT_ARCHIVE_FAILED
                           ''The consensus attribution could not be archived.'')))"

text \<open>The state of the reviewer is read only after its first attempt has returned.\<close>

definition reviewer_state_after_attempt ::
  "py_env \<Rightarrow> evaluation_plan \<Rightarrow> driver_io \<Rightarrow> reviewer_source \<Rightarrow> method_state option \<Rightarrow> exn + method_state" where
  "reviewer_state_after_attempt env p io src st =
     (case st of
        Some s \<Rightarrow> Inr s
      | None \<Rightarrow> bindE (read_methods_reviewer_state env src p) (\<lambda>s.
          if io_primary_rejected io \<and> ms_reviewer_protocol_failures s = 0
          then record_protocol_error env s REVIEWER ''The persisted primary Reviewer response was rejected.'' None
          else Inr s))"

fun is_context_limit :: "attempt_result \<Rightarrow> bool" where
  "is_context_limit (Runtime_Error code _) = (code = EC_CONTEXT_LIMIT)"
| "is_context_limit _ = False"

function reviewer_loop ::
  "py_env \<Rightarrow> evaluation_plan \<Rightarrow> method_graph \<Rightarrow> driver_io \<Rightarrow> reviewer_source \<Rightarrow> bool \<Rightarrow> method_state option \<Rightarrow> role_exit" where
  "reviewer_loop env p g io src repair st =
     (let r = run_method_role_attempt REVIEWER p repair (io_attempt io repair)
      in if is_context_limit r then Escaped Context_Limit
         else case reviewer_state_after_attempt env p io src st of
           Inl e \<Rightarrow> Escaped (Raised e)
         | Inr s \<Rightarrow>
             (case r of
                Rejected m \<Rightarrow>
                  if \<not> io_archived io repair
                  then fail_methods_terminal env s MR_AUDIT_ARCHIVE_FAILED
                         ''The rejected Reviewer response could not be archived.''
                  else
                    (case record_protocol_error env s REVIEWER m None of
                       Inl e \<Rightarrow> Escaped (Raised e)
                     | Inr s' \<Rightarrow> if ms_status s' = M_UNRESOLVED then Ended s'
                                else reviewer_loop env p g io src True (Some s'))
              | Runtime_Error code m \<Rightarrow> role_failed env io REVIEWER s code m
              | Os_Error \<Rightarrow> fail_methods_terminal env s MR_SERVER_INVARIANT_VIOLATION
                  ''The Reviewer output could not be read.''
              | Archive_Error \<Rightarrow> fail_methods_terminal env s MR_AUDIT_ARCHIVE_FAILED
                  ''The Reviewer prompt could not be archived.''
              | Crash \<Rightarrow> fail_methods_terminal env s MR_SERVER_INVARIANT_VIOLATION
                  ''The Reviewer execution violated a server invariant.''
              | Validated ev \<Rightarrow> finish_review env p g io src s ev))"
  by pat_completeness auto
termination
  by (relation "measure (\<lambda>(env, p, g, io, src, repair, st).
      case st of None \<Rightarrow> 2 | Some s \<Rightarrow> if role_protocol_failures REVIEWER s = 0 then 1 else 0)")
    (use rejection_progress [of _ _ REVIEWER] in \<open>fastforce simp: reviewer_state_after_attempt_def split: option.splits\<close>)+

declare reviewer_loop.simps [simp del]

definition evaluate_methods_reviewer ::
  "py_env \<Rightarrow> evaluation_plan \<Rightarrow> method_graph \<Rightarrow> driver_io \<Rightarrow> reviewer_source \<Rightarrow> role_exit" where
  "evaluate_methods_reviewer env p g io src =
     (if io_repair_rejected io then
        (case read_methods_reviewer_state env src p of
           Inl e \<Rightarrow> Escaped (Raised e)
         | Inr s \<Rightarrow>
             if \<not> io_primary_rejected io
             then fail_methods_terminal env s MR_SERVER_INVARIANT_VIOLATION
                    ''A Reviewer repair record exists without its primary rejection.''
             else ended (bindE (if ms_reviewer_protocol_failures s = 0
                           then record_protocol_error env s REVIEWER
                                  ''The persisted primary Reviewer response was rejected.'' None
                           else Inr s) (\<lambda>s. record_protocol_error env s REVIEWER
                                  ''The persisted Reviewer repair response was rejected.'' None)))
      else reviewer_loop env p g io src (io_primary_rejected io) None)"

end
