(* ===== verification/Methods_Execution.thy ===== *)
theory Methods_Execution
  imports Methods_Driver
begin

text \<open>
  The drivers of the two roles are sound: whatever the backend returns and whichever records can be
  committed, a role ends with a valid state of the same plan, and no exception of the reducer escapes. A
  terminal state always has a result and a public projection.
\<close>

section \<open>Answers of a role\<close>

lemma output_item_of_json_valid: "output_item_of_json j = Some i \<Longrightarrow> valid_output_item i"
  by (auto simp: output_item_of_json_def Let_def split: json.splits if_splits option.splits)

lemma parse_items_ok:
  assumes "parse_items raws ps = Inr is" and "length raws = length ps"
  shows "list_all valid_output_item is" and "map ot_evaluation_ref is = map pl_evaluation_ref ps"
    and "list_all2 supports_in_order ps is"
  using assms
proof (induction raws ps arbitrary: "is" rule: parse_items.induct)
  case (1 raw raws planned ps)
  {
    case 1
    then show ?case
      using "1.IH"(1) output_item_of_json_valid [of raw]
      by (auto simp: bindE_Inr split: option.splits if_splits)
  next
    case 2
    then show ?case using "1.IH"(2) by (auto simp: bindE_Inr split: option.splits if_splits)
  next
    case 3
    then show ?case using "1.IH"(3) by (auto simp: bindE_Inr split: option.splits if_splits)
  }
qed auto

lemma evaluated_role:
  assumes "evaluate_method_role role p document repair = Inr ev"
  shows "valid_role_evaluation ev" "role_covers_plan p ev" "re_role ev = role" "re_repair_used ev = repair"
proof -
  obtain xs where xs: "parse_method_evaluation_response p document = Inr xs"
    and ev: "ev = \<lparr>re_role = role, re_plan_ref = ep_plan_ref p, re_evaluations = xs, re_repair_used = repair\<rparr>"
    using assms by (auto simp: evaluate_method_role_def bindE_Inr)
  obtain raws where "length raws = length (ep_evaluations p)" "parse_items raws (ep_evaluations p) = Inr xs"
    using xs by (auto simp: parse_method_evaluation_response_def split: json.splits if_splits)
  with parse_items_ok show "valid_role_evaluation ev" "role_covers_plan p ev" "re_role ev = role" "re_repair_used ev = repair"
    by (auto simp: ev valid_role_evaluation_def role_covers_plan_def)
qed

lemma validated_role:
  assumes "run_method_role_attempt role p repair io = Validated ev"
  shows "valid_role_evaluation ev" "role_covers_plan p ev" "re_role ev = role" "re_repair_used ev = repair"
  using assms evaluated_role by (auto simp: run_method_role_attempt_def split: attempt_io.splits sum.splits)

section \<open>The invariant of the drivers\<close>

definition driver_inv :: "py_env \<Rightarrow> evaluation_plan \<Rightarrow> method_state \<Rightarrow> bool" where
  "driver_inv env p s \<longleftrightarrow> valid_method_state env s \<and> evaluated_under p s"

lemma under_same:
  assumes "same_evaluation s s'" and "ms_specialist_evaluation s' = ms_specialist_evaluation s"
    and "ms_reviewer_evaluation s' = ms_reviewer_evaluation s" and "ms_consensus s' = ms_consensus s"
  shows "evaluated_under p s' = evaluated_under p s"
  using assms by (simp add: evaluated_under_def same_evaluation_def plan_of_state_def)

lemma set_failures_answers [simp]:
  "ms_specialist_evaluation (set_protocol_failures role n s) = ms_specialist_evaluation s"
  "ms_reviewer_evaluation (set_protocol_failures role n s) = ms_reviewer_evaluation s"
  by (cases role; simp)+

lemma inv_make:
  assumes "make_state env z = Inr s'" and "driver_inv env p s" and "same_evaluation s z"
    and "ms_specialist_evaluation z = ms_specialist_evaluation s"
    and "ms_reviewer_evaluation z = ms_reviewer_evaluation s" and "ms_consensus z = ms_consensus s"
  shows "driver_inv env p s'"
proof -
  have "s' = z\<lparr>ms_state_ref := method_state_ref env z\<rparr>" using assms(1) by (simp add: make_state_Inr)
  then have "evaluated_under p s' = evaluated_under p s"
    using assms(3-) by (intro under_same) (simp_all add: same_evaluation_def)
  with assms(2) make_state_valid [OF assms(1)] show ?thesis by (simp add: driver_inv_def)
qed

lemma inv_protocol:
  assumes "driver_inv env p s" and "record_protocol_error env s role reason ref = Inr s'"
  shows "driver_inv env p s'"
  using assms
  by (auto simp: record_protocol_error_def same_evaluation_def elim!: inv_make split: if_splits)

lemma inv_failures:
  assumes "driver_inv env p s"
  shows "record_model_execution_failure env s role reason ref = Inr s' \<Longrightarrow> driver_inv env p s'"
    and "fail_method_state env s code reason ref = Inr s' \<Longrightarrow> driver_inv env p s'"
    and "interrupt_method_state env s = Inr s' \<Longrightarrow> driver_inv env p s'"
    and "resume_method_state env s job = Inr s' \<Longrightarrow> driver_inv env p s'"
  using assms
  by (auto simp: reducer_defs same_evaluation_def elim!: inv_make split: if_splits option.splits)

definition terminal :: "method_state \<Rightarrow> bool" where
  "terminal s \<longleftrightarrow> ms_status s \<in> {M_RESOLVED, M_UNRESOLVED, M_FAILED}"

text \<open>How a role may end.\<close>

fun exit_ok :: "py_env \<Rightarrow> evaluation_plan \<Rightarrow> role_exit \<Rightarrow> bool" where
  "exit_ok env p (Answered s ev) = False"
| "exit_ok env p (Handed_Over s) = (driver_inv env p s \<and> pending_role s REVIEWER)"
| "exit_ok env p (Ended s) = (driver_inv env p s \<and> terminal s)"
| "exit_ok env p (Interrupted s) = (driver_inv env p s \<and> ms_status s = M_INTERRUPTED)"
| "exit_ok env p (Escaped e) = (e \<in> {Context_Limit, Archive_Failed})"

lemma fail_exit:
  assumes "driver_inv env p s" and "code \<in> set failed_method_reason_codes" and "\<not> blank_text reason"
  shows "\<exists>t. fail_methods_terminal env s code reason = Ended t \<and> driver_inv env p t \<and> ms_status t = M_FAILED \<and>
    ms_reason_code t = Some code"
  using fail_ok [OF _ assms(2,3), of env s None] assms(1) inv_failures(2) [OF assms(1)]
  by (auto simp: fail_methods_terminal_def ended_def driver_inv_def evaluation_ref_ok_def split: sum.splits)

lemma fail_exit_ok:
  assumes "driver_inv env p s" and "code \<in> set failed_method_reason_codes" and "\<not> blank_text reason"
  shows "exit_ok env p (fail_methods_terminal env s code reason)"
  using fail_exit [OF assms] by (auto simp: terminal_def)

lemma interrupt_exit_ok:
  assumes "driver_inv env p s" and "pending_role s role"
  shows "exit_ok env p (interrupt_methods_state env io s)"
  using interrupt_ok [of env s role] assms inv_failures(3) [OF assms(1)]
  by (auto simp: interrupt_methods_state_def driver_inv_def)

lemma role_failed_exit_ok:
  assumes "driver_inv env p s" and "pending_role s role" and "\<not> blank_text m"
  shows "exit_ok env p (role_failed env io role s code m)"
proof -
  have "\<exists>s'. record_model_execution_failure env s role m None = Inr s' \<and> ms_status s' = M_UNRESOLVED"
    using role_failure_ok [OF _ assms(2,3), of env None "model_execution_failed role"] assms(1)
    by (auto simp: record_model_execution_failure_def driver_inv_def evaluation_ref_ok_def)
  then show ?thesis
    using interrupt_exit_ok [OF assms(1,2)] inv_failures(1) [OF assms(1)]
    by (auto simp: role_failed_def ended_def terminal_def)
qed

lemma protocol_step:
  assumes "driver_inv env p s" and "pending_role s role" and "\<not> blank_text m"
  obtains s' where "record_protocol_error env s role m None = Inr s'" "driver_inv env p s'"
    "role_protocol_failures role s = 0 \<longrightarrow> pending_role s' role \<and> role_protocol_failures role s' = 1"
    "role_protocol_failures role s \<noteq> 0 \<longrightarrow> ms_status s' = M_UNRESOLVED"
proof -
  obtain s' where s': "record_protocol_error env s role m None = Inr s'"
    "if role_protocol_failures role s = 0 then pending_role s' role \<and> role_protocol_failures role s' = 1
     else ms_status s' = M_UNRESOLVED \<and> ms_reason_code s' = Some (protocol_exhausted role) \<and>
          role_protocol_failures role s' = 2"
    using protocol_error_ok [OF _ assms(2,3), of env None] assms(1) by (auto simp: driver_inv_def evaluation_ref_ok_def)
  show thesis
    by (rule that [OF s'(1) inv_protocol [OF assms(1) s'(1)]]) (use s'(2) in auto)
qed

section \<open>The specialist\<close>

text \<open>The exceptions of the backend carry a message.\<close>

fun message_ok :: "attempt_io \<Rightarrow> bool" where
  "message_ok (Io_Unreadable m) = (\<not> blank_text m)"
| "message_ok (Io_Runtime _ m) = (\<not> blank_text m)"
| "message_ok _ = True"

fun prepare_message_ok :: "prepare_result \<Rightarrow> bool" where
  "prepare_message_ok (Prepare_Error _ m) = (\<not> blank_text m)"
| "prepare_message_ok _ = True"

text \<open>What the execution records guarantee: a repair is rejected only after the primary response was, and
  a counted failure of the role has its rejection record.\<close>

definition records_ok :: "driver_io \<Rightarrow> int \<Rightarrow> bool" where
  "records_ok io failures \<longleftrightarrow>
     (io_repair_rejected io \<longrightarrow> io_primary_rejected io) \<and> (failures = 1 \<longrightarrow> io_primary_rejected io) \<and>
     message_ok (io_attempt io False) \<and> message_ok (io_attempt io True) \<and> prepare_message_ok (io_prepared io)"

lemma records_message: "records_ok io n \<Longrightarrow> message_ok (io_attempt io repair)"
  by (cases repair) (simp_all add: records_ok_def)

lemma rejected_message:
  assumes "run_method_role_attempt role p repair io = Rejected m" and "message_ok io"
  shows "\<not> blank_text m"
proof -
  have "\<not> blank_text response_rejected" by (simp add: response_rejected_def blank_text_def)
  then show ?thesis
    using assms by (auto simp: run_method_role_attempt_def split: attempt_io.splits sum.splits)
qed

lemma runtime_message:
  "run_method_role_attempt role p repair io = Runtime_Error code m \<Longrightarrow> message_ok io \<Longrightarrow> \<not> blank_text m"
  by (auto simp: run_method_role_attempt_def split: attempt_io.splits sum.splits)

definition answered_ok :: "py_env \<Rightarrow> evaluation_plan \<Rightarrow> role_exit \<Rightarrow> bool" where
  "answered_ok env p x \<longleftrightarrow>
     (case x of
        Answered s ev \<Rightarrow>
          driver_inv env p s \<and> pending_role s SPECIALIST \<and> valid_role_evaluation ev \<and> role_covers_plan p ev \<and>
          re_role ev = SPECIALIST \<and> validate_repair_attempt s ev SPECIALIST
      | _ \<Rightarrow> exit_ok env p x)"

lemma exit_answered [simp]: "exit_ok env p x \<Longrightarrow> answered_ok env p x"
  by (cases x) (simp_all add: answered_ok_def)

lemma literals_nonblank [simp]:
  "\<not> blank_text ''The rejected Specialist response could not be archived.''"
  "\<not> blank_text ''The Specialist output could not be read.''"
  "\<not> blank_text ''The Specialist prompt could not be archived.''"
  "\<not> blank_text ''The Specialist execution violated a server invariant.''"
  "\<not> blank_text ''A Specialist repair record exists without its primary rejection.''"
  "\<not> blank_text ''The persisted primary Specialist response was rejected.''"
  "\<not> blank_text ''The persisted Specialist repair response was rejected.''"
  "\<not> blank_text ''The Specialist evaluation could not enter Reviewer handoff.''"
  "\<not> blank_text ''The stored Specialist state is not resumable.''"
  "\<not> blank_text ''The Specialist workspace could not be materialized.''"
  "\<not> blank_text ''The Specialist evaluation could not be finalized.''"
  "\<not> blank_text ''The Evidence V2 audit record could not be committed.''"
  "\<not> blank_text ''The rejected Reviewer response could not be archived.''"
  "\<not> blank_text ''The Reviewer output could not be read.''"
  "\<not> blank_text ''The Reviewer prompt could not be archived.''"
  "\<not> blank_text ''The Reviewer execution violated a server invariant.''"
  "\<not> blank_text ''A Reviewer repair record exists without its primary rejection.''"
  "\<not> blank_text ''The persisted primary Reviewer response was rejected.''"
  "\<not> blank_text ''The persisted Reviewer repair response was rejected.''"
  "\<not> blank_text ''The Reviewer evaluation could not be resolved mechanically.''"
  "\<not> blank_text ''The consensus attribution could not be archived.''"
  by (simp_all add: blank_text_def)

lemma failed_codes [simp]:
  "MR_AUDIT_ARCHIVE_FAILED \<in> set failed_method_reason_codes"
  "MR_SERVER_INVARIANT_VIOLATION \<in> set failed_method_reason_codes"
  by (simp_all add: reason_codes)

lemma specialist_loop_ok:
  assumes "driver_inv env p s" and "pending_role s SPECIALIST" and "records_ok io n"
    and "repair \<longleftrightarrow> ms_specialist_protocol_failures s = 1"
  shows "answered_ok env p (specialist_loop env p io repair s)"
  using assms
proof (induction env p io repair s rule: specialist_loop.induct)
  case (1 env p io repair s)
  have m: "message_ok (io_attempt io repair)" by (rule records_message [OF 1(4)])
  show ?case
  proof (cases "run_method_role_attempt SPECIALIST p repair (io_attempt io repair)")
    case (Validated ev)
    with 1(2,3,5) validated_role [OF Validated] show ?thesis
      by (subst specialist_loop.simps) (simp add: answered_ok_def validate_repair_attempt_def)
  next
    case (Rejected m)
    obtain s' where s': "record_protocol_error env s SPECIALIST m None = Inr s'" "driver_inv env p s'"
      "role_protocol_failures SPECIALIST s = 0 \<longrightarrow> pending_role s' SPECIALIST \<and> role_protocol_failures SPECIALIST s' = 1"
      "role_protocol_failures SPECIALIST s \<noteq> 0 \<longrightarrow> ms_status s' = M_UNRESOLVED"
      by (rule protocol_step [OF 1(2,3) rejected_message [OF Rejected m]])
    show ?thesis
    proof (cases "io_archived io repair \<and> ms_status s' \<noteq> M_UNRESOLVED")
      case True
      then have "answered_ok env p (specialist_loop env p io True s')"
        using s' 1(4) rejection_progress [OF s'(1)] by (intro 1(1) [OF Rejected _ s'(1)]) auto
      with True Rejected s'(1) show ?thesis by (subst specialist_loop.simps) simp
    next
      case False
      with Rejected s'(1,2) fail_exit_ok [OF 1(2)] show ?thesis
        by (subst specialist_loop.simps) (auto simp: terminal_def)
    qed
  next
    case (Runtime_Error code m)
    with role_failed_exit_ok [OF 1(2,3) runtime_message [OF Runtime_Error m]] show ?thesis
      by (subst specialist_loop.simps) simp
  qed (subst specialist_loop.simps, simp add: fail_exit_ok [OF 1(2)])+
qed

lemma evaluate_specialist_ok:
  assumes s: "driver_inv env p s" "pending_role s SPECIALIST" and r: "records_ok io (ms_specialist_protocol_failures s)"
  shows "answered_ok env p (evaluate_methods_specialist env p io s)"
proof -
  have bound: "ms_specialist_protocol_failures s \<in> {0, 1}"
    using protocol_failures_bound [of env s SPECIALIST] s by (simp add: driver_inv_def)
  have repair: "io_repair_rejected io \<Longrightarrow> io_primary_rejected io" using r by (simp add: records_ok_def)
  obtain s1 where s1: "(if io_primary_rejected io \<and> ms_specialist_protocol_failures s = 0
      then record_protocol_error env s SPECIALIST ''The persisted primary Specialist response was rejected.'' None
      else Inr s) = Inr s1" "driver_inv env p s1" "pending_role s1 SPECIALIST"
    "io_primary_rejected io \<longleftrightarrow> ms_specialist_protocol_failures s1 = 1"
  proof (cases "io_primary_rejected io \<and> ms_specialist_protocol_failures s = 0")
    case True
    then show thesis
      using protocol_step [OF s, of "''The persisted primary Specialist response was rejected.''"] that by auto
  next
    case False
    then show thesis using that [of s] s r bound by (auto simp: records_ok_def)
  qed
  show ?thesis
  proof (cases "io_repair_rejected io")
    case True
    then have "ms_specialist_protocol_failures s1 = 1" using repair s1(4) by simp
    then obtain s2 where "record_protocol_error env s1 SPECIALIST
        ''The persisted Specialist repair response was rejected.'' None = Inr s2" "driver_inv env p s2"
      "ms_status s2 = M_UNRESOLVED"
      using protocol_step [OF s1(2,3), of "''The persisted Specialist repair response was rejected.''"] by auto
    then show ?thesis
      using True repair s1(1) by (simp add: evaluate_methods_specialist_def ended_def terminal_def)
  next
    case False
    then show ?thesis
      using s1(1) specialist_loop_ok [OF s1(2,3) r s1(4)] by (simp add: evaluate_methods_specialist_def)
  qed
qed

lemma inv_accept:
  assumes "driver_inv env p s" and "accept_specialist_evaluation env s ev = Inr s'" and "role_covers_plan p ev"
  shows "driver_inv env p s'"
  using assms
  by (auto simp: accept_specialist_evaluation_def make_state_Inr driver_inv_def valid_method_state_def
      evaluated_under_def plan_of_state_def method_state_ref_def split: if_splits)

lemma inv_finalize:
  assumes "driver_inv env p s" and "finalize_specialist_evaluation env s ev = Inr s'" and "role_covers_plan p ev"
  shows "driver_inv env p s'" and "terminal s'"
proof -
  obtain st code ref where m: "make_state env (terminal_state env (s\<lparr>ms_specialist_evaluation := Some ev\<rparr>) st code ref) = Inr s'"
    and st: "st \<in> {M_RESOLVED, M_UNRESOLVED}"
    using assms(2) by (auto simp: finalize_specialist_evaluation_def Let_def split: if_splits option.splits)
  show "driver_inv env p s'"
    using assms(1,3) m make_state_valid [OF m]
    by (simp add: driver_inv_def make_state_Inr evaluated_under_def plan_of_state_def)
  show "terminal s'" using m st by (auto simp: make_state_Inr terminal_def)
qed

lemma audit_failed_exit_ok:
  assumes "driver_inv env p s"
  shows "\<exists>t. audit_failed_method_state env s = Inr t \<and> driver_inv env p t \<and> ms_status t = M_FAILED \<and>
    ms_reason_code t = Some MR_AUDIT_ARCHIVE_FAILED"
proof (cases "ms_status s = M_FAILED \<and> ms_reason_code s = Some MR_AUDIT_ARCHIVE_FAILED")
  case True
  with assms show ?thesis by (simp add: audit_failed_method_state_def)
next
  case False
  obtain t where t: "fail_method_state env s MR_AUDIT_ARCHIVE_FAILED ''The Evidence V2 audit record could not be committed.'' None = Inr t"
    "ms_status t = M_FAILED" "ms_reason_code t = Some MR_AUDIT_ARCHIVE_FAILED"
    using fail_ok [of env s MR_AUDIT_ARCHIVE_FAILED "''The Evidence V2 audit record could not be committed.''" None] assms
    by (auto simp: driver_inv_def evaluation_ref_ok_def)
  with False inv_failures(2) [OF assms t(1)] show ?thesis by (auto simp: audit_failed_method_state_def)
qed

lemma handoff_exit_ok:
  assumes s: "driver_inv env p s"
    and ev: "case ev of None \<Rightarrow> pending_role s REVIEWER
      | Some e \<Rightarrow> pending_role s SPECIALIST \<and> valid_role_evaluation e \<and> role_covers_plan p e \<and>
          re_role e = SPECIALIST \<and> validate_repair_attempt s e SPECIALIST"
  shows "exit_ok env p (finish_specialist_handoff env io s ev)"
proof -
  have "\<exists>s'. (if ms_status s = M_REVIEWER_PENDING \<and> ev = None then Inr s
      else case ev of None \<Rightarrow> Inl ValueError | Some e \<Rightarrow> accept_specialist_evaluation env s e) = Inr s' \<and>
      driver_inv env p s' \<and> pending_role s' REVIEWER"
  proof (cases ev)
    case None
    then show ?thesis using s ev by (simp add: pending_role_def)
  next
    case (Some e)
    then have e: "pending_role s SPECIALIST" "valid_role_evaluation e" "role_covers_plan p e" "re_role e = SPECIALIST"
      "validate_repair_attempt s e SPECIALIST" using ev by simp_all
    have "validate_role_evaluation s e SPECIALIST"
      using s e(3,4) by (simp add: driver_inv_def evaluated_under_def plan_of_state_def role_covers_plan_def validate_role_evaluation_def)
    then obtain s' where s': "accept_specialist_evaluation env s e = Inr s'" "pending_role s' REVIEWER"
      using accept_specialist_ok [OF _ e(1,2) _ e(5)] s by (auto simp: driver_inv_def)
    then show ?thesis using inv_accept [OF s s'(1) e(3)] Some by simp
  qed
  then show ?thesis
    using audit_failed_exit_ok by (fastforce simp: finish_specialist_handoff_def ended_def terminal_def)
qed

lemma execute_specialist_ok:
  assumes s: "driver_inv env p s" and st: "ms_status s \<noteq> M_INTERRUPTED"
    and r: "records_ok io (ms_specialist_protocol_failures s)"
  shows "exit_ok env p (execute_methods_specialist env reviewer_enabled p io s)"
proof -
  have valid: "valid_method_state env s" using s by (simp add: driver_inv_def)
  then have pending: "ms_status s = M_SPECIALIST_PENDING \<Longrightarrow> pending_role s SPECIALIST"
    "ms_status s = M_REVIEWER_PENDING \<Longrightarrow> pending_role s REVIEWER"
    by (simp_all add: valid_method_state_def state_fits_def status_fits_def role_waiting_def pending_role_def)
  have answered: "exit_ok env p (case evaluate_methods_specialist env p io s of
      Answered s' ev \<Rightarrow>
        if reviewer_enabled then finish_specialist_handoff env io s' (Some ev)
        else (case finalize_specialist_evaluation env s' ev of Inr t \<Rightarrow> Ended t
              | Inl _ \<Rightarrow> fail_methods_terminal env s' MR_SERVER_INVARIANT_VIOLATION
                  ''The Specialist evaluation could not be finalized.'') | x \<Rightarrow> x)"
    if "ms_status s = M_SPECIALIST_PENDING"
  proof -
    have ok: "answered_ok env p (evaluate_methods_specialist env p io s)"
      by (rule evaluate_specialist_ok [OF s pending(1) [OF that] r])
    show ?thesis
    proof (cases "evaluate_methods_specialist env p io s")
      case (Answered s' ev)
      then have a: "driver_inv env p s'" "pending_role s' SPECIALIST" "valid_role_evaluation ev" "role_covers_plan p ev"
        "re_role ev = SPECIALIST" "validate_repair_attempt s' ev SPECIALIST"
        using ok by (simp_all add: answered_ok_def)
      then show ?thesis
        using Answered handoff_exit_ok [OF a(1), of "Some ev"] inv_finalize [OF a(1) _ a(4)] fail_exit_ok [OF a(1)]
        by (auto split: sum.splits)
    qed (use ok in \<open>simp_all add: answered_ok_def\<close>)
  qed
  have "prepare_message_ok (io_prepared io)" using r by (simp add: records_ok_def)
  then show ?thesis
    using s st pending answered handoff_exit_ok [OF s, of None] fail_exit_ok [OF s]
    by (cases "ms_status s")
      (auto simp: execute_methods_specialist_def terminal_def split: prepare_result.splits)
qed

section \<open>The reviewer\<close>

text \<open>What the reviewer's job guarantees: the graph and the size of the Skill package fit the plan.\<close>

definition review_inputs_ok :: "py_env \<Rightarrow> evaluation_plan \<Rightarrow> method_graph \<Rightarrow> reviewer_source \<Rightarrow> bool" where
  "review_inputs_ok env p g src \<longleftrightarrow>
     valid_evaluation_plan env p \<and> plan_partitions p \<and> ep_evidence_graph_ref p = gr_graph_ref g \<and>
     rv_package_method_count src \<ge> 1 \<and> rv_package_method_count src \<ge> int (length (gr_loaded_method_ids g))"

definition under_review :: "py_env \<Rightarrow> evaluation_plan \<Rightarrow> reviewer_source \<Rightarrow> method_state \<Rightarrow> bool" where
  "under_review env p src s \<longleftrightarrow>
     driver_inv env p s \<and> pending_role s REVIEWER \<and> ms_case_id s = rv_case_id src \<and>
     ms_source_job_id s = rv_source_job_id src"

lemma review_protocol:
  assumes "under_review env p src s" and "\<not> blank_text m"
  obtains s' where "record_protocol_error env s REVIEWER m None = Inr s'" "driver_inv env p s'"
    "ms_reviewer_protocol_failures s = 0 \<longrightarrow> under_review env p src s' \<and> ms_reviewer_protocol_failures s' = 1"
    "ms_reviewer_protocol_failures s \<noteq> 0 \<longrightarrow> ms_status s' = M_UNRESOLVED"
proof -
  have s: "driver_inv env p s" "pending_role s REVIEWER" using assms(1) by (simp_all add: under_review_def)
  obtain s' where s': "record_protocol_error env s REVIEWER m None = Inr s'" "driver_inv env p s'"
    "role_protocol_failures REVIEWER s = 0 \<longrightarrow> pending_role s' REVIEWER \<and> role_protocol_failures REVIEWER s' = 1"
    "role_protocol_failures REVIEWER s \<noteq> 0 \<longrightarrow> ms_status s' = M_UNRESOLVED"
    by (rule protocol_step [OF s assms(2)])
  have "ms_case_id s' = ms_case_id s \<and> ms_source_job_id s' = ms_source_job_id s"
    using s'(1) by (auto simp: record_protocol_error_def make_state_Inr split: if_splits)
  with s' assms(1) show thesis by (intro that [OF s'(1,2)]) (auto simp: under_review_def)
qed

lemma consensus_methods:
  assumes "validate_consensus p a b c"
  shows "mc_confirmed_method_ids c =
    map (\<lambda>r. pl_method_id (the (dict_by pl_evaluation_ref (ep_evaluations p) r))) (mc_confirmed_evaluation_refs c)"
  using assms by (auto simp: validate_consensus_def consensus_expected_def comp_def)

lemma inv_review:
  assumes "driver_inv env p s" and "finalize_reviewer_consensus env s p b c = Inr t" and "role_covers_plan p b"
  shows "driver_inv env p t" and "terminal t" and "ms_case_id t = ms_case_id s" "ms_source_job_id t = ms_source_job_id s"
    and "ms_plan_ref t = ms_plan_ref s" "ms_reviewer_evaluation t = Some b" "ms_specialist_evaluation t = ms_specialist_evaluation s"
proof -
  obtain a where a: "ms_specialist_evaluation s = Some a" "validate_consensus p a b c"
    using assms(2) by (auto simp: finalize_reviewer_consensus_def split: if_splits option.splits)
  obtain st code ref where m: "make_state env
      (terminal_state env (s\<lparr>ms_reviewer_evaluation := Some b, ms_consensus := Some c\<rparr>) st code ref) = Inr t"
    and st: "st \<in> {M_RESOLVED, M_UNRESOLVED}"
    using assms(2)
    by (auto simp: finalize_reviewer_consensus_def Let_def case_prod_unfold split: if_splits option.splits)
  show "driver_inv env p t"
    using assms(1,3) m make_state_valid [OF m] consensus_methods [OF a(2)]
    by (simp add: driver_inv_def make_state_Inr evaluated_under_def plan_of_state_def)
  show "terminal t" using m st by (auto simp: make_state_Inr terminal_def)
  show "ms_case_id t = ms_case_id s" "ms_source_job_id t = ms_source_job_id s" "ms_plan_ref t = ms_plan_ref s"
    "ms_reviewer_evaluation t = Some b" "ms_specialist_evaluation t = ms_specialist_evaluation s"
    using m by (simp_all add: make_state_Inr)
qed

lemma finish_review_ok:
  assumes s: "under_review env p src s" and i: "review_inputs_ok env p g src"
    and b: "valid_role_evaluation b" "role_covers_plan p b" "re_role b = REVIEWER" "validate_repair_attempt s b REVIEWER"
  shows "exit_ok env p (finish_review env p g io src s b)"
    and "io_attributed io \<Longrightarrow> \<exists>a t. ms_specialist_evaluation s = Some a \<and> finish_review env p g io src s b = Ended t \<and>
      ms_status t = (if roles_resolve a b then M_RESOLVED else M_UNRESOLVED)"
proof -
  have inv: "driver_inv env p s" and pend: "pending_role s REVIEWER" and ids: "ms_case_id s = rv_case_id src" "ms_source_job_id s = rv_source_job_id src"
    using s by (simp_all add: under_review_def)
  have valid: "valid_method_state env s" and under: "evaluated_under p s" using inv by (simp_all add: driver_inv_def)
  obtain a where a: "ms_specialist_evaluation s = Some a"
    using pending_waiting [OF valid pend] by (auto simp: role_waiting_def)
  have cov: "role_covers_plan p a" "plan_of_state p s" using under a by (simp_all add: evaluated_under_def)
  obtain c t where c: "resolve_method_consensus p a b = Inr c" and t: "finalize_reviewer_consensus env s p b c = Inr t"
    and status: "if roles_resolve a b then ms_status t = M_RESOLVED \<and> ms_reason_code t = None
       else ms_status t = M_UNRESOLVED \<and> ms_reason_code t = Some (fst (consensus_reason a b))"
    using reviewer_finalizes [OF valid pend a cov(2) _ _ cov(1) b(2,1,3,4)] i by (auto simp: review_inputs_ok_def)
  note inv_t = inv_review [OF inv t b(2)]
  have "\<exists>x. attribution_subreason t = Inr x"
    using status inv_t(6,7) a consensus_classified(1) [OF cov(1) b(2)]
    by (cases "method_consensus_subreason a b"; cases "roles_resolve a b"; cases "ms_consensus t")
      (auto simp: attribution_subreason_def method_consensus_subreason_def Let_def split: if_splits)
  then obtain x where x: "attribution_subreason t = Inr x" by blast
  have "ms_plan_ref t = ep_plan_ref p" using inv_t(5) cov(2) by (simp add: plan_of_state_def)
  then obtain bytes where bytes: "consensus_attribution src g p t = Inr bytes"
    using inv_t(2-5) ids i x by (auto simp: consensus_attribution_def terminal_def review_inputs_ok_def)
  show "exit_ok env p (finish_review env p g io src s b)"
    using a c t bytes inv_t(1,2) fail_exit_ok [OF inv] by (simp add: finish_review_def)
  show "\<exists>a t. ms_specialist_evaluation s = Some a \<and> finish_review env p g io src s b = Ended t \<and>
      ms_status t = (if roles_resolve a b then M_RESOLVED else M_UNRESOLVED)" if "io_attributed io"
    using a c t bytes status that by (auto simp: finish_review_def)
qed

lemma reviewer_loop_ok:
  assumes "review_inputs_ok env p g src" and "records_ok io n"
    and "\<exists>s. reviewer_state_after_attempt env p io src st = Inr s \<and> under_review env p src s \<and>
      (repair \<longleftrightarrow> ms_reviewer_protocol_failures s = 1)"
  shows "exit_ok env p (reviewer_loop env p g io src repair st)"
  using assms
proof (induction env p g io src repair st rule: reviewer_loop.induct)
  case (1 env p g io src repair st)
  have m: "message_ok (io_attempt io repair)" by (rule records_message [OF 1(3)])
  obtain s where s: "reviewer_state_after_attempt env p io src st = Inr s" "under_review env p src s"
    and rep: "repair \<longleftrightarrow> ms_reviewer_protocol_failures s = 1"
    using 1(4) by blast
  have inv: "driver_inv env p s" "pending_role s REVIEWER" using s(2) by (simp_all add: under_review_def)
  let ?r = "run_method_role_attempt REVIEWER p repair (io_attempt io repair)"
  show ?case
  proof (cases ?r)
    case (Validated ev)
    with validated_role [OF Validated] rep finish_review_ok(1) [OF s(2) 1(2)] s(1) show ?thesis
      by (subst reviewer_loop.simps) (simp add: validate_repair_attempt_def Let_def)
  next
    case (Rejected m')
    obtain s' where s': "record_protocol_error env s REVIEWER m' None = Inr s'" "driver_inv env p s'"
      "ms_reviewer_protocol_failures s = 0 \<longrightarrow> under_review env p src s' \<and> ms_reviewer_protocol_failures s' = 1"
      "ms_reviewer_protocol_failures s \<noteq> 0 \<longrightarrow> ms_status s' = M_UNRESOLVED"
      by (rule review_protocol [OF s(2) rejected_message [OF Rejected m]])
    show ?thesis
    proof (cases "io_archived io repair \<and> ms_status s' \<noteq> M_UNRESOLVED")
      case True
      have "exit_ok env p (reviewer_loop env p g io src True (Some s'))"
        by (rule 1(1) [OF refl _ s(1) Rejected _ s'(1)])
          (use True s' 1(2,3) Rejected in \<open>auto simp: reviewer_state_after_attempt_def\<close>)
      with True Rejected s(1) s'(1) show ?thesis by (subst reviewer_loop.simps) (simp add: Let_def)
    next
      case False
      with Rejected s(1) s'(1,2) fail_exit_ok [OF inv(1)] show ?thesis
        by (subst reviewer_loop.simps) (auto simp: terminal_def Let_def)
    qed
  next
    case (Runtime_Error code m')
    with role_failed_exit_ok [OF inv runtime_message [OF Runtime_Error m]] s(1) show ?thesis
      by (subst reviewer_loop.simps) (simp add: Let_def)
  qed (subst reviewer_loop.simps, simp add: Let_def s(1) fail_exit_ok [OF inv(1)])+
qed

lemma evaluate_reviewer_ok:
  assumes i: "review_inputs_ok env p g src" and s: "read_methods_reviewer_state env src p = Inr s" "driver_inv env p s"
    and r: "records_ok io (ms_reviewer_protocol_failures s)"
  shows "exit_ok env p (evaluate_methods_reviewer env p g io src)"
proof -
  have u: "under_review env p src s"
    using s by (auto simp: read_methods_reviewer_state_def under_review_def pending_role_def bindE_Inr split: option.splits)
  have bound: "ms_reviewer_protocol_failures s \<in> {0, 1}"
    using protocol_failures_bound [of env s REVIEWER] u by (simp add: driver_inv_def under_review_def)
  obtain s1 where s1: "record_protocol_error env s REVIEWER ''The persisted primary Reviewer response was rejected.'' None = Inr s1"
    "ms_reviewer_protocol_failures s = 0 \<longrightarrow> under_review env p src s1 \<and> ms_reviewer_protocol_failures s1 = 1"
    using review_protocol [OF u, of "''The persisted primary Reviewer response was rejected.''"] by (metis literals_nonblank(18))
  let ?s = "if io_primary_rejected io \<and> ms_reviewer_protocol_failures s = 0 then s1 else s"
  have after: "reviewer_state_after_attempt env p io src None = Inr ?s"
    using s(1) s1(1) by (simp add: reviewer_state_after_attempt_def)
  have u1: "under_review env p src ?s" "io_primary_rejected io \<longleftrightarrow> ms_reviewer_protocol_failures ?s = 1"
    using u s1(2) r bound by (auto simp: records_ok_def)
  show ?thesis
  proof (cases "io_repair_rejected io")
    case False
    then show ?thesis
      using reviewer_loop_ok [OF i r] after u1 by (simp add: evaluate_methods_reviewer_def)
  next
    case True
    then have prim: "io_primary_rejected io" using r by (simp add: records_ok_def)
    obtain s2 where "record_protocol_error env ?s REVIEWER ''The persisted Reviewer repair response was rejected.'' None = Inr s2"
      "driver_inv env p s2" "ms_status s2 = M_UNRESOLVED"
      using review_protocol [OF u1(1), of "''The persisted Reviewer repair response was rejected.''"] u1(2) prim
      by (metis literals_nonblank(19) zero_neq_one)
    then show ?thesis
      using True prim s(1) s1(1) by (auto simp: evaluate_methods_reviewer_def ended_def terminal_def split: if_splits)
  qed
qed

section \<open>The end\<close>

lemma finish_ok:
  assumes s: "driver_inv env p s" "terminal s" and p: "valid_evaluation_plan env p" and g: "valid_method_graph env g"
    and bound: "validate_method_evaluation_plan g p = Inr ()" and l: "list_all valid_text limitations"
  shows "\<exists>t r q. finish_methods_terminal env io p g job limitations persist s = Inr (t, r) \<and>
    (if persist \<and> \<not> io_committed io s then ms_status t = M_FAILED \<and> ms_reason_code t = Some MR_AUDIT_ARCHIVE_FAILED else t = s) \<and>
    result_bound t r p g \<and> project_method_terminal_result env r = Inr q \<and> valid_projection q \<and>
    mp_status q = terminal_status_of (ms_status t) \<and> mp_case_id q = ms_case_id t \<and> mp_source_job_id q = job"
proof -
  have built: "\<exists>r q. build_method_terminal_result env t p g job limitations [] = Inr r \<and> result_bound t r p g \<and>
      project_method_terminal_result env r = Inr q \<and> valid_projection q \<and>
      mp_status q = terminal_status_of (ms_status t) \<and> mp_case_id q = ms_case_id t \<and> mp_source_job_id q = job"
    if t: "driver_inv env p t" "terminal t" for t
  proof -
    have t': "valid_method_state env t" "ms_status t \<in> {M_RESOLVED, M_UNRESOLVED, M_FAILED}" "evaluated_under p t"
      using t by (auto simp: driver_inv_def terminal_def)
    obtain r where r: "build_method_terminal_result env t p g job limitations [] = Inr r" "valid_method_result env r"
      "result_bound t r p g" "mr_terminal_job_id r = job"
      using result_ok [OF t' p g bound l] by blast
    with projection_ok [OF t'(1,2) r(2,3)] show ?thesis by auto
  qed
  show ?thesis
  proof (cases "persist \<and> \<not> io_committed io s")
    case True
    obtain t where t: "audit_failed_method_state env s = Inr t" "driver_inv env p t" "ms_status t = M_FAILED"
      "ms_reason_code t = Some MR_AUDIT_ARCHIVE_FAILED"
      using audit_failed_exit_ok [OF s(1)] by blast
    then have "terminal t" by (simp add: terminal_def)
    with True built [OF s] built [OF t(2)] t show ?thesis by (auto simp: finish_methods_terminal_def)
  next
    case False
    with built [OF s] show ?thesis by (auto simp: finish_methods_terminal_def)
  qed
qed

section \<open>One repair\<close>

lemma repair_once:
  assumes s: "driver_inv env p s" "pending_role s SPECIALIST" "ms_specialist_protocol_failures s = 0"
    and io: "\<not> io_primary_rejected io" "\<not> io_repair_rejected io" "io_archived io False" "io_archived io True"
    and first: "run_method_role_attempt SPECIALIST p False (io_attempt io False) = Rejected m" "\<not> blank_text m"
  shows "run_method_role_attempt SPECIALIST p True (io_attempt io True) = Validated ev \<Longrightarrow>
      \<exists>s'. evaluate_methods_specialist env p io s = Answered s' ev \<and> re_repair_used ev"
    and "run_method_role_attempt SPECIALIST p True (io_attempt io True) = Rejected m' \<Longrightarrow> \<not> blank_text m' \<Longrightarrow>
      \<exists>t. evaluate_methods_specialist env p io s = Ended t \<and> ms_status t = M_UNRESOLVED \<and>
        ms_reason_code t = Some MR_SPECIALIST_PROTOCOL_REPAIR_EXHAUSTED"
proof -
  obtain s1 where s1: "record_protocol_error env s SPECIALIST m None = Inr s1" "driver_inv env p s1"
    "role_protocol_failures SPECIALIST s = 0 \<longrightarrow> pending_role s1 SPECIALIST \<and> role_protocol_failures SPECIALIST s1 = 1"
    "role_protocol_failures SPECIALIST s \<noteq> 0 \<longrightarrow> ms_status s1 = M_UNRESOLVED"
    by (rule protocol_step [OF s(1,2) first(2)])
  then have p1: "pending_role s1 SPECIALIST" "ms_specialist_protocol_failures s1 = 1" using s(3) by simp_all
  have "evaluate_methods_specialist env p io s = specialist_loop env p io False s"
    using io(1,2) by (simp add: evaluate_methods_specialist_def)
  also have "\<dots> = specialist_loop env p io True s1"
    using first io(3) s1(1) p1 by (subst specialist_loop.simps) (simp add: pending_role_def)
  finally have run: "evaluate_methods_specialist env p io s = specialist_loop env p io True s1" .
  show "\<exists>s'. evaluate_methods_specialist env p io s = Answered s' ev \<and> re_repair_used ev"
    if "run_method_role_attempt SPECIALIST p True (io_attempt io True) = Validated ev"
    unfolding run using that validated_role(4) [OF that] by (subst specialist_loop.simps) simp
  show "\<exists>t. evaluate_methods_specialist env p io s = Ended t \<and> ms_status t = M_UNRESOLVED \<and>
        ms_reason_code t = Some MR_SPECIALIST_PROTOCOL_REPAIR_EXHAUSTED"
    if second: "run_method_role_attempt SPECIALIST p True (io_attempt io True) = Rejected m'" "\<not> blank_text m'"
  proof -
    obtain t where "record_protocol_error env s1 SPECIALIST m' None = Inr t" "ms_status t = M_UNRESOLVED"
      "ms_reason_code t = Some MR_SPECIALIST_PROTOCOL_REPAIR_EXHAUSTED"
      using protocol_error_ok [OF _ p1(1) second(2), of env None] s1(2) p1(2)
      by (auto simp: driver_inv_def evaluation_ref_ok_def)
    with second io(4) show ?thesis unfolding run by (subst specialist_loop.simps) simp
  qed
qed

end
