(* ===== verification/Methods_Planning.thy ===== *)
theory Methods_Planning
  imports Methods_Consensus
begin

text \<open>
  Planning is total: every valid evidence graph of a Skill has an evaluation plan, which passes its own
  validator and the binding check, and partitions the events and hits of the graph in their order. The
  only assumption about the hash is that the references of the planned evaluations do not collide.
\<close>

section \<open>Grouping a sorted list\<close>

lemma sorted_split:
  fixes k :: "'a \<Rightarrow> 'b::linorder"
  assumes "sorted (map k xs)" and "\<And>x. x \<in> set xs \<Longrightarrow> m \<le> k x"
  shows "filter (\<lambda>x. k x = m) xs @ filter (\<lambda>x. k x \<noteq> m) xs = xs"
  using assms
proof (induction xs)
  case (Cons x xs)
  show ?case
  proof (cases "k x = m")
    case True
    then show ?thesis using Cons by simp
  next
    case False
    then have "k y \<noteq> m" if "y \<in> set (x # xs)" for y
      using Cons.prems that by (metis antisym_conv image_eqI list.set_intros(1) list.set_map list.simps(9) set_ConsD sorted_simps(2))
    then have "filter (\<lambda>y. k y = m) (x # xs) = []" "filter (\<lambda>y. k y \<noteq> m) (x # xs) = x # xs"
      by (auto simp: filter_empty_conv filter_id_conv)
    then show ?thesis by simp
  qed
qed simp

lemma concat_groups:
  fixes k :: "'a \<Rightarrow> 'b::linorder"
  assumes "sorted (map k xs)" and "sorted ms" "distinct ms" and "k ` set xs \<subseteq> set ms"
  shows "concat (map (\<lambda>m. filter (\<lambda>x. k x = m) xs) ms) = xs"
  using assms
proof (induction ms arbitrary: xs)
  case (Cons m ms)
  let ?rest = "filter (\<lambda>x. k x \<noteq> m) xs"
  have min: "m \<le> k x" if "x \<in> set xs" for x using Cons.prems that by auto
  have "filter (\<lambda>x. k x = m') ?rest = filter (\<lambda>x. k x = m') xs" if "m' \<in> set ms" for m'
    using that Cons.prems(3) by (auto simp: filter_filter intro!: filter_cong)
  then have "concat (map (\<lambda>m'. filter (\<lambda>x. k x = m') xs) ms) = concat (map (\<lambda>m'. filter (\<lambda>x. k x = m') ?rest) ms)"
    by (metis (mono_tags, lifting) map_eq_conv)
  also have "\<dots> = ?rest"
    using Cons.prems by (intro Cons.IH) (auto simp: sorted_filter)
  finally show ?case using sorted_split [OF Cons.prems(1) min] by simp
qed simp

lemma sorted_by_pair:
  assumes "sort_key (\<lambda>x. (f x, h x, r x)) xs = xs"
  shows "sorted (map (\<lambda>x. (f x, h x)) xs)"
proof -
  have "sorted (map (\<lambda>x. (f x, h x, r x)) xs)" using assms sorted_sort_key by metis
  then show ?thesis
    unfolding sorted_map by (rule sorted_wrt_mono_rel [rotated]) auto
qed

section \<open>Hits and events of a graph\<close>

lemma graph_event_hits:
  assumes "graph_events_ok hits seen es" and "e \<in> set es" and "r \<in> set (ev_evidence_hit_refs e)"
  shows "\<exists>h \<in> set hits. ht_hit_ref h = r \<and> ht_method_id h = ev_method_id e \<and> ht_method_priority h = ev_method_priority e"
  using assms
proof (induction hits seen es rule: graph_events_ok.induct)
  case (2 hits seen e' es)
  show ?case
  proof (cases "e = e'")
    case True
    then have "case dict_by ht_hit_ref hits r of None \<Rightarrow> False
        | Some h \<Rightarrow> ht_method_id h = ev_method_id e \<and> ht_method_priority h = ev_method_priority e"
      using 2(2,4) unfolding graph_events_ok.simps(2) list_all_iff by blast
    then show ?thesis by (cases "dict_by ht_hit_ref hits r") (auto dest: dict_by_Some)
  next
    case False
    with 2 show ?thesis by simp
  qed
qed simp

lemma graph_methods:
  assumes "valid_method_graph env g"
  shows "set (gr_loaded_method_ids g) = ht_method_id ` set (gr_hits g)" "distinct (gr_loaded_method_ids g)"
    "gr_loaded_method_ids g = map fst (sort_key (\<lambda>(m, p). (p, m)) (method_priorities (gr_hits g)))"
  using assms unfolding valid_method_graph_def valid_graph_methods_def by blast+

text \<open>The order of methods: by priority, then by identifier.\<close>

definition method_key :: "resolved_skill \<Rightarrow> text_t \<Rightarrow> int \<times> text_t" where
  "method_key sk m = (cd_priority (the (dict_by cd_id (sk_methods sk) m)), m)"

lemma graph_keys:
  assumes g: "valid_method_graph env g" and sk: "graph_of_skill sk g"
  shows "h \<in> set (gr_hits g) \<Longrightarrow> (ht_method_priority h, ht_method_id h) = method_key sk (ht_method_id h)"
    and "e \<in> set (gr_events g) \<Longrightarrow> (ev_method_priority e, ev_method_id e) = method_key sk (ev_method_id e)"
    and "h \<in> set (gr_hits g) \<Longrightarrow> ht_method_id h \<in> set (gr_loaded_method_ids g)"
    and "e \<in> set (gr_events g) \<Longrightarrow> ev_method_id e \<in> set (gr_loaded_method_ids g)"
proof -
  show hit: "(ht_method_priority h, ht_method_id h) = method_key sk (ht_method_id h)" if "h \<in> set (gr_hits g)" for h
    using sk that by (auto simp: graph_of_skill_def hit_card_ok_def list_all_iff method_key_def split: option.splits)
  note loaded = graph_methods(1) [OF g]
  show "ht_method_id h \<in> set (gr_loaded_method_ids g)" if "h \<in> set (gr_hits g)" for h
    unfolding loaded using that by (rule imageI)
  have ev: "\<exists>h \<in> set (gr_hits g). ht_method_id h = ev_method_id e \<and> ht_method_priority h = ev_method_priority e"
    if "e \<in> set (gr_events g)" for e
  proof -
    have "graph_events_ok (gr_hits g) [] (gr_events g)" "valid_method_event env e"
      using g that by (simp_all add: valid_method_graph_def valid_graph_events_def list_all_iff)
    moreover from this(2) obtain r where "r \<in> set (ev_evidence_hit_refs e)"
      by (metis valid_method_event_def unique_refs_def list.set_sel(1))
    ultimately show ?thesis using graph_event_hits [OF _ that] by blast
  qed
  show "(ev_method_priority e, ev_method_id e) = method_key sk (ev_method_id e)" if e: "e \<in> set (gr_events g)" for e
  proof -
    obtain h where h: "h \<in> set (gr_hits g)" "ht_method_id h = ev_method_id e" "ht_method_priority h = ev_method_priority e"
      using ev [OF e] by blast
    from hit [OF h(1)] h(2,3) show ?thesis by simp
  qed
  show "ev_method_id e \<in> set (gr_loaded_method_ids g)" if e: "e \<in> set (gr_events g)" for e
  proof -
    obtain h where "h \<in> set (gr_hits g)" "ht_method_id h = ev_method_id e" using ev [OF e] by blast
    then show ?thesis unfolding loaded by (metis imageI)
  qed
qed

lemma loaded_sorted:
  assumes g: "valid_method_graph env g" and sk: "graph_of_skill sk g"
  shows "sorted (map (method_key sk) (gr_loaded_method_ids g))" "distinct (map (method_key sk) (gr_loaded_method_ids g))"
    "distinct (gr_loaded_method_ids g)"
proof -
  let ?mp = "sort_key (\<lambda>(m, p). (p, m)) (method_priorities (gr_hits g))"
  note loaded = graph_methods(3) [OF g] and dist = graph_methods(2) [OF g]
  have "method_key sk (fst x) = (case x of (m, p) \<Rightarrow> (p, m))" if "x \<in> set ?mp" for x
  proof -
    have "x \<in> set (method_priorities (gr_hits g))" using that by simp
    then obtain h where "h \<in> set (dedupe_loop ht_method_id [] (gr_hits g))" "x = (ht_method_id h, ht_method_priority h)"
      unfolding method_priorities_def set_map by (rule imageE)
    moreover from this(1) have "h \<in> set (gr_hits g)" by (rule subsetD [OF dedupe_loop_subset])
    ultimately show ?thesis using graph_keys(1) [OF g sk] by (metis case_prod_conv fst_conv)
  qed
  then have "map (method_key sk) (gr_loaded_method_ids g) = map (\<lambda>(m, p). (p, m)) ?mp"
    unfolding loaded map_map by (simp add: map_eq_conv)
  then show "sorted (map (method_key sk) (gr_loaded_method_ids g))" by simp
  show "distinct (gr_loaded_method_ids g)" by (rule dist)
  then show "distinct (map (method_key sk) (gr_loaded_method_ids g))"
    by (simp add: distinct_map inj_on_def method_key_def)
qed

lemma graph_grouped:
  assumes g: "valid_method_graph env g" and sk: "graph_of_skill sk g"
  shows "concat (map (\<lambda>m. hits_of_method m (gr_hits g)) (gr_loaded_method_ids g)) = gr_hits g"
    and "concat (map (\<lambda>m. methods_of_event m (gr_events g)) (gr_loaded_method_ids g)) = gr_events g"
proof -
  let ?ms = "map (method_key sk) (gr_loaded_method_ids g)"
  note ms = loaded_sorted [OF g sk] and keys = graph_keys [OF g sk]
  have "sort_key hit_order_key (gr_hits g) = gr_hits g" "sort_key (event_order_key (gr_hits g)) (gr_events g) = gr_events g"
    using g by (simp_all add: valid_method_graph_def valid_graph_hits_def valid_graph_events_def)
  then have hs: "sorted (map (\<lambda>h. (ht_method_priority h, ht_method_id h)) (gr_hits g))"
    and es: "sorted (map (\<lambda>e. (ev_method_priority e, ev_method_id e)) (gr_events g))"
    unfolding hit_order_key_def event_order_key_def by (auto intro: sorted_by_pair)
  have key_eq: "method_key sk m = method_key sk m' \<longleftrightarrow> m = m'" for m m' by (auto simp: method_key_def)
  have inside: "method_key sk m \<in> set ?ms" if "m \<in> set (gr_loaded_method_ids g)" for m using that by simp
  have "(\<lambda>h. (ht_method_priority h, ht_method_id h)) ` set (gr_hits g) \<subseteq> set ?ms"
    using keys(1,3) inside by (metis (mono_tags, lifting) image_subsetI)
  from concat_groups [OF hs ms(1,2) this]
  have "concat (map (\<lambda>m. filter (\<lambda>h. (ht_method_priority h, ht_method_id h) = method_key sk m) (gr_hits g)) (gr_loaded_method_ids g)) = gr_hits g"
    by (simp add: comp_def)
  moreover have "filter (\<lambda>h. (ht_method_priority h, ht_method_id h) = method_key sk m) (gr_hits g) = hits_of_method m (gr_hits g)" for m
    unfolding hits_of_method_def using keys(1) key_eq by (intro filter_cong) metis+
  ultimately show "concat (map (\<lambda>m. hits_of_method m (gr_hits g)) (gr_loaded_method_ids g)) = gr_hits g" by simp
  have "(\<lambda>e. (ev_method_priority e, ev_method_id e)) ` set (gr_events g) \<subseteq> set ?ms"
    using keys(2,4) inside by (metis (mono_tags, lifting) image_subsetI)
  from concat_groups [OF es ms(1,2) this]
  have "concat (map (\<lambda>m. filter (\<lambda>e. (ev_method_priority e, ev_method_id e) = method_key sk m) (gr_events g)) (gr_loaded_method_ids g)) = gr_events g"
    by (simp add: comp_def)
  moreover have "filter (\<lambda>e. (ev_method_priority e, ev_method_id e) = method_key sk m) (gr_events g) = methods_of_event m (gr_events g)" for m
    unfolding methods_of_event_def using keys(2) key_eq by (intro filter_cong) metis+
  ultimately show "concat (map (\<lambda>m. methods_of_event m (gr_events g)) (gr_loaded_method_ids g)) = gr_events g" by simp
qed

section \<open>The plan of a graph\<close>

lemma planned_item_valid:
  assumes g: "valid_method_graph env g" and sk: "graph_of_skill sk g" and m: "m \<in> set (gr_loaded_method_ids g)"
  shows "valid_plan_item env (planned_item env sk g m)" and "plan_item_bound g (planned_item env sk g m)"
proof -
  note keys = graph_keys [OF g sk]
  obtain h where h: "h \<in> set (gr_hits g)" "ht_method_id h = m"
    using m unfolding graph_methods(1) [OF g] by auto
  have pos: "ht_method_priority h > 0" "method_id_ok m"
    using g h by (auto simp: valid_method_graph_def list_all_iff valid_method_hit_def)
  have pr: "cd_priority (the (dict_by cd_id (sk_methods sk) m)) = ht_method_priority h"
    using keys(1) [OF h(1)] h(2) by (simp add: method_key_def)
  have dist: "distinct (map ht_hit_ref (gr_hits g))" "distinct (map ev_event_ref (gr_events g))"
    using g by (simp_all add: valid_method_graph_def valid_graph_hits_def valid_graph_events_def)
  have hits: "hits_of_method m (gr_hits g) \<noteq> []" using h by (auto simp: hits_of_method_def filter_empty_conv)
  have "sort (concat (map ev_evidence_hit_refs (gr_events g))) = sort (map ht_hit_ref (gr_hits g))"
    using g by (simp add: valid_method_graph_def valid_graph_events_def)
  then have "set (concat (map ev_evidence_hit_refs (gr_events g))) = set (map ht_hit_ref (gr_hits g))" by (metis set_sort)
  then obtain e where e: "e \<in> set (gr_events g)" "ht_hit_ref h \<in> set (ev_evidence_hit_refs e)"
    using imageI [OF h(1), of ht_hit_ref] by auto
  have "graph_events_ok (gr_hits g) [] (gr_events g)"
    using g by (simp add: valid_method_graph_def valid_graph_events_def)
  then obtain h' where h': "h' \<in> set (gr_hits g)" "ht_hit_ref h' = ht_hit_ref h" "ht_method_id h' = ev_method_id e"
    using graph_event_hits [OF _ e] by blast
  then have "h' = h" using dist(1) h(1) by (simp add: distinct_map inj_on_def)
  then have "e \<in> set (methods_of_event m (gr_events g))" using e h' h by (simp add: methods_of_event_def)
  then have events: "methods_of_event m (gr_events g) \<noteq> []" by auto
  show "valid_plan_item env (planned_item env sk g m)"
    using pos pr hits events dist
    by (simp add: valid_plan_item_def planned_item_def Let_def unique_refs_def hits_of_method_def methods_of_event_def
        distinct_map_filter)
  show "plan_item_bound g (planned_item env sk g m)"
    using keys(1,2) pr
    by (auto simp: plan_item_bound_def planned_item_def Let_def list_all_iff hits_of_method_def methods_of_event_def method_key_def)
qed

lemma plan_total:
  assumes g: "valid_method_graph env g" and sk: "graph_of_skill sk g"
    and refs: "distinct (map (\<lambda>m. pl_evaluation_ref (planned_item env sk g m)) (gr_loaded_method_ids g))"
  shows "\<exists>p. build_method_evaluation_plan env sk g = Inr p \<and> valid_evaluation_plan env p \<and>
    validate_method_evaluation_plan g p = Inr () \<and> plan_partitions p \<and>
    map pl_method_id (ep_evaluations p) = gr_loaded_method_ids g"
proof -
  let ?items = "map (planned_item env sk g) (gr_loaded_method_ids g)"
  let ?p = "\<lparr>ep_plan_ref = method_evaluation_plan_ref env (sk_combined_sha256 sk) (gr_graph_ref g) ?items,
      ep_skill_sha256 = sk_combined_sha256 sk, ep_evidence_graph_ref = gr_graph_ref g, ep_evaluations = ?items\<rparr>"
  have ids: "map pl_method_id ?items = gr_loaded_method_ids g"
    by (simp add: planned_item_def Let_def comp_def)
  have keys: "map plan_order_key ?items = map (method_key sk) (gr_loaded_method_ids g)"
    by (simp add: planned_item_def plan_order_key_def method_key_def Let_def comp_def)
  have sorted: "sort_key plan_order_key ?items = ?items"
    by (rule sort_key_id_if_sorted) (unfold keys, rule loaded_sorted(1) [OF g sk])
  have valid: "valid_evaluation_plan env ?p"
    using refs planned_item_valid(1) [OF g sk] ids sorted loaded_sorted(3) [OF g sk]
    by (simp add: valid_evaluation_plan_def list_all_iff comp_def)
  have "concat (map pl_evidence_event_refs ?items) = map ev_event_ref (gr_events g)"
    "concat (map pl_evidence_hit_refs ?items) = map ht_hit_ref (gr_hits g)"
  proof -
    have "concat (map pl_evidence_event_refs ?items) =
        map ev_event_ref (concat (map (\<lambda>m. methods_of_event m (gr_events g)) (gr_loaded_method_ids g)))"
      "concat (map pl_evidence_hit_refs ?items) =
        map ht_hit_ref (concat (map (\<lambda>m. hits_of_method m (gr_hits g)) (gr_loaded_method_ids g)))"
      by (simp_all add: planned_item_def Let_def comp_def map_concat)
    then show "concat (map pl_evidence_event_refs ?items) = map ev_event_ref (gr_events g)"
      "concat (map pl_evidence_hit_refs ?items) = map ht_hit_ref (gr_hits g)"
      unfolding graph_grouped [OF g sk] .
  qed
  moreover have "gr_skill_sha256 g = sk_combined_sha256 sk" using sk by (simp add: graph_of_skill_def)
  ultimately have bound: "validate_method_evaluation_plan g ?p = Inr ()"
    using planned_item_valid(2) [OF g sk] ids
    by (simp add: validate_method_evaluation_plan_def list_all_iff)
  then have "build_method_evaluation_plan env sk g = Inr ?p"
    using sk valid by (simp add: build_method_evaluation_plan_def Let_def ensure_def)
  with valid bound ids bound_plan_partitions [OF bound g] show ?thesis by simp
qed

end
