(* ===== verification/Methods_Scan.thy ===== *)
theory Methods_Scan
  imports Methods_Planning
begin

text \<open>
  \<open>scan_method_evidence_v2\<close> of \<open>runtime/methods_evidence_v2.py\<close>: one pass over the frozen target logs
  that finds the markers of the methods, keeps the hits of the activated methods in business order and
  groups them into events by the identity tokens of their line. \<open>str.casefold\<close> is the parameter \<open>cf\<close>;
  \<open>str.splitlines\<close> and the identity pattern are modelled on UTF-8 bytes. The methods of the Skill are the
  ones \<open>load_methods_package\<close> (\<open>runtime/methods_skill.py\<close>) accepts.
\<close>

section \<open>Methods of a loaded package\<close>

definition marker_ok :: "text_t \<Rightarrow> bool" where
  "marker_ok m \<longleftrightarrow> m \<noteq> [] \<and> char_of (10::nat) \<notin> set m \<and> char_of (13::nat) \<notin> set m \<and> length m \<le> 1024"

definition markers_ok :: "text_t list \<Rightarrow> bool" where
  "markers_ok ms \<longleftrightarrow> ms \<noteq> [] \<and> length ms \<le> 100 \<and> list_all marker_ok ms \<and> distinct ms"

definition card_ok :: "method_card \<Rightarrow> bool" where
  "card_ok c \<longleftrightarrow>
     markers_ok (cd_evidence_markers c) \<and> markers_ok (cd_activation_markers c) \<and>
     subseq (cd_activation_markers c) (cd_evidence_markers c)"

definition skill_methods_ok :: "resolved_skill \<Rightarrow> bool" where
  "skill_methods_ok sk \<longleftrightarrow>
     sk_methods sk \<noteq> [] \<and> length (sk_methods sk) \<le> 100 \<and> distinct (map cd_id (sk_methods sk)) \<and>
     list_all (\<lambda>c. kebab_case (cd_id c)) (sk_methods sk) \<and> list_all card_ok (sk_methods sk) \<and>
     map cd_priority (sk_methods sk) = map int [1..<length (sk_methods sk) + 1] \<and>
     length (sk_log_derived_fields sk) \<le> 200 \<and> list_all snake_case (sk_log_derived_fields sk) \<and>
     distinct (sk_log_derived_fields sk)"

section \<open>Text\<close>

text \<open>The number of bytes of the line boundary a text starts with.\<close>

fun line_boundary :: "nat list \<Rightarrow> nat" where
  "line_boundary [] = 0"
| "line_boundary (a # bs) =
     (if a = 13 \<and> take 1 bs = [10] then 2
      else if (10 \<le> a \<and> a \<le> 13) \<or> (28 \<le> a \<and> a \<le> 30) then 1
      else if a = 194 \<and> take 1 bs = [133] then 2
      else if a = 226 \<and> take 2 bs \<in> {[128, 168], [128, 169]} then 3
      else 0)"

function splitlines_from :: "text_t \<Rightarrow> text_t \<Rightarrow> text_t list" where
  "splitlines_from cur [] = (if cur = [] then [] else [cur])"
| "splitlines_from cur (c # cs) =
     (let n = line_boundary (map of_char (c # cs))
      in if n = 0 then splitlines_from (cur @ [c]) cs
         else cur # splitlines_from [] (drop n (c # cs)))"
  by pat_completeness auto
termination
  by (relation "measure (\<lambda>(_, xs). length xs)") auto

definition splitlines :: "text_t \<Rightarrow> text_t list" where
  "splitlines s = splitlines_from [] s"

text \<open>\<open>re.compile(r"(?<![A-Za-z0-9_])(field=[^\s,;]+)").search(line)\<close>.\<close>

definition is_word :: "nat \<Rightarrow> bool" where
  "is_word c \<longleftrightarrow> is_lower c \<or> is_digit c \<or> (65 \<le> c \<and> c \<le> 90) \<or> c = 95"

fun space_at :: "nat list \<Rightarrow> bool" where
  "space_at [] = False"
| "space_at (a # bs) =
     ((9 \<le> a \<and> a \<le> 13) \<or> (28 \<le> a \<and> a \<le> 32) \<or>
      (a = 194 \<and> take 1 bs \<in> {[133], [160]}) \<or> (a = 225 \<and> take 2 bs = [154, 128]) \<or>
      (a = 226 \<and> (case take 2 bs of
         [b, c] \<Rightarrow> (b = 128 \<and> ((128 \<le> c \<and> c \<le> 138) \<or> c = 168 \<or> c = 169 \<or> c = 175)) \<or> (b = 129 \<and> c = 159)
       | _ \<Rightarrow> False)) \<or>
      (a = 227 \<and> take 2 bs = [128, 128]))"

fun token_value :: "text_t \<Rightarrow> text_t" where
  "token_value [] = []"
| "token_value (c # cs) =
     (if space_at (map of_char (c # cs)) \<or> c = CHR '','' \<or> c = CHR '';'' then [] else c # token_value cs)"

fun search_token :: "text_t \<Rightarrow> bool \<Rightarrow> text_t \<Rightarrow> text_t option" where
  "search_token pat after_word [] = None"
| "search_token pat after_word (c # cs) =
     (let value = token_value (drop (length pat) (c # cs))
      in if \<not> after_word \<and> prefix pat (c # cs) \<and> value \<noteq> [] then Some (pat @ value)
         else search_token pat (is_word (of_char c)) cs)"

definition line_identity :: "text_t list \<Rightarrow> text_t \<Rightarrow> text_t list" where
  "line_identity fs line = List.map_filter (\<lambda>f. search_token (f @ ''='') False line) fs"

section \<open>The scan\<close>

record target_log =
  lg_source_id :: text_t
  lg_relative_path :: text_t
  lg_content_sha256 :: sha256_t
  lg_content :: text_t

text \<open>The check of \<open>FrozenTargetLogV1\<close> on the source identifier. Its other checks (the path, the hash and the
  encoding of the content) concern no branch of the scan.\<close>

definition target_log_ok :: "target_log \<Rightarrow> bool" where
  "target_log_ok l = source_name (lg_source_id l)"

text \<open>\<open>d.setdefault(key, []).append(value)\<close> over a list, as the items of the dictionary.\<close>

definition grouped :: "('k \<times> 'v) list \<Rightarrow> ('k \<times> 'v list) list" where
  "grouped kvs = map (\<lambda>k. (k, map snd (filter (\<lambda>x. fst x = k) kvs))) (dedupe_loop id [] (map fst kvs))"

record marker_binding =
  mb_priority :: int
  mb_method_id :: text_t
  mb_marker_index :: int
  mb_marker :: text_t
  mb_activation :: bool

definition bindings_of_card :: "method_card \<Rightarrow> marker_binding list" where
  "bindings_of_card c = map (\<lambda>(i, m).
     \<lparr>mb_priority = cd_priority c, mb_method_id = cd_id c, mb_marker_index = int i, mb_marker = m,
      mb_activation = (m \<in> set (cd_activation_markers c))\<rparr>) (enumerate 1 (cd_evidence_markers c))"

definition cards_in_order :: "resolved_skill \<Rightarrow> method_card list" where
  "cards_in_order sk = sort_key (\<lambda>c. (cd_priority c, cd_id c)) (sk_methods sk)"

definition indexed_markers :: "(text_t \<Rightarrow> text_t) \<Rightarrow> resolved_skill \<Rightarrow> (text_t \<times> marker_binding list) list" where
  "indexed_markers cf sk =
     grouped (map (\<lambda>b. (cf (mb_marker b), b)) (concat (map bindings_of_card (cards_in_order sk))))"

definition source_of_log :: "py_env \<Rightarrow> target_log \<Rightarrow> method_source" where
  "source_of_log env l =
     \<lparr>sr_source_ref = method_evidence_source_ref env (lg_source_id l) (lg_relative_path l) (lg_content_sha256 l),
      sr_source_id = lg_source_id l, sr_relative_path = lg_relative_path l, sr_content_sha256 = lg_content_sha256 l\<rparr>"

definition hit_of :: "py_env \<Rightarrow> target_log \<Rightarrow> nat \<times> text_t \<Rightarrow> marker_binding \<Rightarrow> method_hit" where
  "hit_of env l = (\<lambda>(n, line) b.
     let h = \<lparr>ht_hit_ref = [], ht_method_id = mb_method_id b, ht_method_priority = mb_priority b,
              ht_marker_index = mb_marker_index b, ht_source_ref = sr_source_ref (source_of_log env l),
              ht_source_id = lg_source_id l, ht_line_number = int n, ht_marker = mb_marker b, ht_line = line\<rparr>
     in h\<lparr>ht_hit_ref := method_evidence_hit_ref env h\<rparr>)"

text \<open>The bindings of the markers that occur in a line.\<close>

definition line_bindings :: "(text_t \<Rightarrow> text_t) \<Rightarrow> (text_t \<times> marker_binding list) list \<Rightarrow> text_t \<Rightarrow> marker_binding list" where
  "line_bindings cf index line = concat (map snd (filter (\<lambda>(m, _). sublist m (cf line)) index))"

definition log_hits ::
  "py_env \<Rightarrow> (text_t \<Rightarrow> text_t) \<Rightarrow> (text_t \<times> marker_binding list) list \<Rightarrow> target_log \<Rightarrow> (method_hit \<times> bool) list" where
  "log_hits env cf index l = concat (map (\<lambda>(n, line).
     map (\<lambda>b. (hit_of env l (n, line) b, mb_activation b)) (line_bindings cf index line))
     (enumerate 1 (splitlines (lg_content l))))"

definition scanned_hits ::
  "py_env \<Rightarrow> (text_t \<Rightarrow> text_t) \<Rightarrow> resolved_skill \<Rightarrow> target_log list \<Rightarrow> (method_hit \<times> bool) list" where
  "scanned_hits env cf sk logs = concat (map (log_hits env cf (indexed_markers cf sk)) logs)"

definition activated_ids :: "(method_hit \<times> bool) list \<Rightarrow> text_t list" where
  "activated_ids hs = map (\<lambda>(h, _). ht_method_id h) (filter snd hs)"

definition frozen_hits :: "(method_hit \<times> bool) list \<Rightarrow> method_hit list" where
  "frozen_hits hs = sort_key hit_order_key (filter (\<lambda>h. ht_method_id h \<in> set (activated_ids hs)) (map fst hs))"

text \<open>The identity tokens of the hits, with the cache \<open>identity_by_line\<close>.\<close>

fun identity_loop ::
  "text_t list \<Rightarrow> ((text_t \<times> int) \<times> text_t list) list \<Rightarrow> method_hit list \<Rightarrow> text_t list list" where
  "identity_loop fs cache [] = []"
| "identity_loop fs cache (h # hs) =
     (let key = (ht_source_ref h, ht_line_number h)
      in case map_of cache key of
           Some ts \<Rightarrow> ts # identity_loop fs cache hs
         | None \<Rightarrow>
             let ts = line_identity fs (ht_line h) in ts # identity_loop fs ((key, ts) # cache) hs)"

definition event_key :: "method_hit \<Rightarrow> text_t list \<Rightarrow> text_t \<times> text_t list \<times> text_t option" where
  "event_key h ts = (ht_method_id h, ts, if ts \<noteq> [] then None else Some (ht_hit_ref h))"

definition event_groups ::
  "text_t list \<Rightarrow> method_hit list \<Rightarrow> ((text_t \<times> text_t list \<times> text_t option) \<times> method_hit list) list" where
  "event_groups fs hs = grouped (map (\<lambda>(h, ts). (event_key h ts, h)) (zip hs (identity_loop fs [] hs)))"

definition event_of_group ::
  "py_env \<Rightarrow> (text_t \<times> text_t list \<times> text_t option) \<times> method_hit list \<Rightarrow> method_event" where
  "event_of_group env = (\<lambda>((m, ts, _), hs).
     let priority = ht_method_priority (hd hs); refs = map ht_hit_ref hs
     in \<lparr>ev_event_ref = method_evidence_event_ref env m priority ts refs, ev_method_id = m,
         ev_method_priority = priority, ev_identity_tokens = ts, ev_evidence_hit_refs = refs\<rparr>)"

definition scan_method_evidence ::
  "py_env \<Rightarrow> (text_t \<Rightarrow> text_t) \<Rightarrow> resolved_skill \<Rightarrow> target_log list \<Rightarrow> text_t list \<Rightarrow> exn + method_graph" where
  "scan_method_evidence env cf sk logs limitations =
     (if logs = [] \<or> \<not> distinct (map lg_source_id logs) then Inl ValueError
      else
        let frozen_limitations = dedupe limitations
        in if list_ex blank_text frozen_limitations then Inl ValueError
           else
             let sources = sort_key sr_source_id (map (source_of_log env) logs);
                 scanned = scanned_hits env cf sk logs;
                 hits = frozen_hits scanned;
                 events = map (event_of_group env) (event_groups (sk_log_derived_fields sk) hits);
                 loaded = map cd_id (filter (\<lambda>c. cd_id c \<in> set (activated_ids scanned)) (cards_in_order sk));
                 g = \<lparr>gr_graph_ref = method_evidence_graph_ref env (sk_combined_sha256 sk) sources hits events
                        loaded frozen_limitations,
                      gr_skill_sha256 = sk_combined_sha256 sk, gr_sources = sources, gr_hits = hits,
                      gr_events = events, gr_loaded_method_ids = loaded, gr_limitations = frozen_limitations\<rparr>
             in if \<not> list_all (valid_method_hit env) (map fst scanned) then Inl ValueError
                else ensure (valid_method_graph env g) g)"

end
