(* ===== verification/Methods_Evidence.thy ===== *)
theory Methods_Evidence
  imports Methods_Scan "HOL-Library.Multiset"
begin

text \<open>
  The scan is correct: for the methods of a loaded package and logs with different source identifiers, all
  identifiers of at most 256 characters, it returns a valid evidence graph of the Skill, whose hits are exactly
  the occurrences of the markers of the activated methods (\<open>scan_total\<close>, \<open>frozen_characterised\<close>); a longer
  identifier ends it (\<open>scan_refused\<close>). Assumed are that \<open>str.casefold\<close> keeps exactly the empty text empty and that the
  content references that occur do not collide.
\<close>

section \<open>Grouping\<close>

lemma grouped_in:
  assumes "(k, vs) \<in> set (grouped kvs)"
  shows "vs = map snd (filter (\<lambda>x. fst x = k) kvs)" and "vs \<noteq> []"
proof -
  show vs: "vs = map snd (filter (\<lambda>x. fst x = k) kvs)" using assms by (auto simp: grouped_def)
  have "k \<in> set (dedupe_loop id [] (map fst kvs))" using assms by (auto simp: grouped_def)
  then have "k \<in> set (map fst kvs)" using dedupe_loop_subset by fastforce
  then show "vs \<noteq> []" unfolding vs by (auto simp: filter_empty_conv)
qed

lemma grouped_keys: "map fst (grouped kvs) = dedupe_loop id [] (map fst kvs)"
  by (simp add: grouped_def comp_def)

lemma distinct_grouped: "distinct (map fst (grouped kvs))"
  using distinct_dedupe_loop [of id "[]" "map fst kvs"] by (simp add: grouped_keys)

lemma set_grouped_keys: "fst ` set (grouped kvs) = fst ` set kvs"
  using set_dedupe_loop [of id "[]" "map fst kvs"] by (metis (no_types, lifting) Diff_empty grouped_keys id_apply image_id list.set_map set_empty2)

lemma mset_groups:
  assumes "distinct ks" and "fst ` set kvs \<subseteq> set ks"
  shows "mset (concat (map (\<lambda>k. map snd (filter (\<lambda>x. fst x = k) kvs)) ks)) = mset (map snd kvs)"
  using assms
proof (induction ks arbitrary: kvs)
  case (Cons k ks)
  let ?rest = "filter (\<lambda>x. fst x \<noteq> k) kvs"
  have "filter (\<lambda>x. fst x = k') ?rest = filter (\<lambda>x. fst x = k') kvs" if "k' \<in> set ks" for k'
    using that Cons.prems(1) by (auto simp: filter_filter intro!: filter_cong)
  then have "concat (map (\<lambda>k'. map snd (filter (\<lambda>x. fst x = k') kvs)) ks) =
      concat (map (\<lambda>k'. map snd (filter (\<lambda>x. fst x = k') ?rest)) ks)"
    by (metis (mono_tags, lifting) map_eq_conv)
  moreover have "mset (concat (map (\<lambda>k'. map snd (filter (\<lambda>x. fst x = k') ?rest)) ks)) = mset (map snd ?rest)"
    using Cons.prems by (intro Cons.IH) auto
  moreover have "mset (map snd kvs) = mset (map snd (filter (\<lambda>x. fst x = k) kvs)) + mset (map snd ?rest)"
    by (metis (no_types) image_mset_union mset_filter mset_map multiset_partition)
  ultimately show ?case by simp
qed simp

lemma mset_grouped: "mset (concat (map snd (grouped kvs))) = mset (map snd kvs)"
proof -
  have "fst ` set kvs \<subseteq> set (dedupe_loop id [] (map fst kvs))"
    using set_grouped_keys [of kvs] grouped_keys [of kvs] by (metis list.set_map subset_refl)
  moreover have "distinct (dedupe_loop id [] (map fst kvs))" using distinct_grouped [of kvs] by (simp add: grouped_keys)
  moreover have "map snd (grouped kvs) = map (\<lambda>k. map snd (filter (\<lambda>x. fst x = k) kvs)) (dedupe_loop id [] (map fst kvs))"
    by (simp add: grouped_def comp_def)
  ultimately show ?thesis using mset_groups by metis
qed

lemma distinct_keyed_concat:
  assumes "\<And>x. x \<in> set xs \<Longrightarrow> distinct (map key (f x))" and "distinct (map tag xs)"
    and "\<And>x y. x \<in> set xs \<Longrightarrow> y \<in> set (f x) \<Longrightarrow> sel (key y) = tag x"
  shows "distinct (map key (concat (map f xs)))"
  using assms
proof (induction xs)
  case (Cons x xs)
  have "key y \<noteq> key z" if y: "y \<in> set (f x)" and z: "z \<in> set (concat (map f xs))" for y z
  proof
    assume eq: "key y = key z"
    obtain x' where x': "x' \<in> set xs" "z \<in> set (f x')" using z by auto
    then have "tag x = tag x'" using Cons.prems(3) [of x y] Cons.prems(3) [of x' z] y eq by simp
    with x'(1) Cons.prems(2) show False by (metis distinct.simps(2) image_eqI list.set_map list.simps(9))
  qed
  then have "key ` set (f x) \<inter> key ` set (concat (map f xs)) = {}" by blast
  moreover have "distinct (map key (concat (map f xs)))"
    using Cons.prems by (intro Cons.IH) auto
  ultimately show ?case using Cons.prems(1) [of x] by auto
qed simp

text \<open>The first occurrences of the keys come in their order.\<close>

definition first_pos :: "'a list \<Rightarrow> 'a \<Rightarrow> nat" where
  "first_pos ys k = length (takeWhile (\<lambda>y. y \<noteq> k) ys)"

lemma first_pos_sorted: "sorted_wrt (<) (map (first_pos ys) (dedupe_loop id seen ys))"
proof (induction ys arbitrary: seen)
  case (Cons y ys)
  have shift: "first_pos (y # ys) k = Suc (first_pos ys k)" if "k \<noteq> y" for k
    using that by (auto simp: first_pos_def)
  have suc: "sorted_wrt (<) (map Suc zs) = sorted_wrt (<) zs" for zs by (simp add: sorted_wrt_map)
  show ?case
  proof (cases "y \<in> set seen")
    case True
    then have "k \<noteq> y" if "k \<in> set (dedupe_loop id seen ys)" for k
      using that set_dedupe_loop [of id seen ys] by auto
    then have "map (first_pos (y # ys)) (dedupe_loop id seen ys) = map Suc (map (first_pos ys) (dedupe_loop id seen ys))"
      using shift by simp
    moreover have "dedupe_loop id seen (y # ys) = dedupe_loop id seen ys" using True by simp
    ultimately show ?thesis using Cons.IH suc by metis
  next
    case False
    have "k \<noteq> y" if "k \<in> set (dedupe_loop id (y # seen) ys)" for k
      using that set_dedupe_loop [of id "y # seen" ys] by auto
    then have eq: "map (first_pos (y # ys)) (dedupe_loop id (y # seen) ys) = map Suc (map (first_pos ys) (dedupe_loop id (y # seen) ys))"
      using shift by simp
    then have "sorted_wrt (<) (map (first_pos (y # ys)) (dedupe_loop id (y # seen) ys))" using Cons.IH suc by metis
    moreover have "0 < k" if "k \<in> set (map (first_pos (y # ys)) (dedupe_loop id (y # seen) ys))" for k
      using that unfolding eq by auto
    moreover have "first_pos (y # ys) y = 0" by (simp add: first_pos_def)
    moreover have "dedupe_loop id seen (y # ys) = y # dedupe_loop id (y # seen) ys" using False by simp
    ultimately show ?thesis by (metis list.simps(9) sorted_wrt.simps(2))
  qed
qed simp

section \<open>Bindings\<close>

definition all_bindings :: "resolved_skill \<Rightarrow> marker_binding list" where
  "all_bindings sk = concat (map bindings_of_card (cards_in_order sk))"

definition binding_key :: "marker_binding \<Rightarrow> text_t \<times> int" where
  "binding_key b = (mb_method_id b, mb_marker_index b)"

lemma set_cards [simp]: "set (cards_in_order sk) = set (sk_methods sk)"
  by (simp add: cards_in_order_def)

lemma binding_card:
  assumes "b \<in> set (all_bindings sk)"
  obtains c i where "c \<in> set (sk_methods sk)" "i < length (cd_evidence_markers c)"
    "b = \<lparr>mb_priority = cd_priority c, mb_method_id = cd_id c, mb_marker_index = int i + 1,
          mb_marker = cd_evidence_markers c ! i, mb_activation = (cd_evidence_markers c ! i \<in> set (cd_activation_markers c))\<rparr>"
proof -
  obtain c n m where c: "c \<in> set (sk_methods sk)" and nm: "(n, m) \<in> set (enumerate 1 (cd_evidence_markers c))"
    and b: "b = \<lparr>mb_priority = cd_priority c, mb_method_id = cd_id c, mb_marker_index = int n, mb_marker = m,
      mb_activation = (m \<in> set (cd_activation_markers c))\<rparr>"
    using assms by (auto simp: all_bindings_def bindings_of_card_def)
  obtain i where "i < length (cd_evidence_markers c)" "n = i + 1" "m = cd_evidence_markers c ! i"
    using nm by (auto simp: in_set_enumerate_eq intro: that [of "n - 1"])
  with b c show thesis by (intro that [of c i]) auto
qed

lemma binding_of_marker:
  assumes "c \<in> set (sk_methods sk)" and "i < length (cd_evidence_markers c)"
  shows "\<exists>b \<in> set (all_bindings sk). mb_method_id b = cd_id c \<and> mb_priority b = cd_priority c \<and> mb_marker_index b = int i + 1 \<and>
    mb_marker b = cd_evidence_markers c ! i \<and> (mb_activation b \<longleftrightarrow> cd_evidence_markers c ! i \<in> set (cd_activation_markers c))"
proof -
  have "(i + 1, cd_evidence_markers c ! i) \<in> set (enumerate 1 (cd_evidence_markers c))"
    using assms(2) by (simp add: in_set_enumerate_eq)
  then show ?thesis
    using assms(1) unfolding all_bindings_def by (force simp: bindings_of_card_def)
qed

lemma distinct_binding_keys:
  assumes "distinct (map cd_id (sk_methods sk))"
  shows "distinct (map binding_key (all_bindings sk))"
  unfolding all_bindings_def
proof (rule distinct_keyed_concat [where tag = cd_id and sel = fst])
  fix c
  have "map snd (map binding_key (bindings_of_card c)) = map int (map fst (enumerate 1 (cd_evidence_markers c)))"
    unfolding map_map by (simp add: bindings_of_card_def binding_key_def comp_def case_prod_unfold del: map_fst_enumerate)
  then have "distinct (map snd (map binding_key (bindings_of_card c)))" by (simp add: distinct_map)
  then show "distinct (map binding_key (bindings_of_card c))" unfolding distinct_map by blast
next
  have "mset (map cd_id (cards_in_order sk)) = mset (map cd_id (sk_methods sk))" by (simp add: cards_in_order_def)
  then show "distinct (map cd_id (cards_in_order sk))" using assms mset_eq_imp_distinct_iff by blast
qed (auto simp: bindings_of_card_def binding_key_def)

lemma line_bindings_iff:
  "b \<in> set (line_bindings cf (indexed_markers cf sk) line) \<longleftrightarrow>
     b \<in> set (all_bindings sk) \<and> sublist (cf (mb_marker b)) (cf line)"
proof -
  let ?kvs = "map (\<lambda>b. (cf (mb_marker b), b)) (all_bindings sk)"
  have idx: "indexed_markers cf sk = grouped ?kvs" by (simp add: indexed_markers_def all_bindings_def)
  have "b \<in> set (line_bindings cf (indexed_markers cf sk) line) \<longleftrightarrow>
      (\<exists>k vs. (k, vs) \<in> set (grouped ?kvs) \<and> sublist k (cf line) \<and> b \<in> set vs)"
    by (auto simp: line_bindings_def idx)
  also have "\<dots> \<longleftrightarrow> b \<in> set (all_bindings sk) \<and> sublist (cf (mb_marker b)) (cf line)"
  proof
    assume "\<exists>k vs. (k, vs) \<in> set (grouped ?kvs) \<and> sublist k (cf line) \<and> b \<in> set vs"
    then obtain k vs where k: "(k, vs) \<in> set (grouped ?kvs)" "sublist k (cf line)" "b \<in> set vs" by blast
    from grouped_in(1) [OF k(1)] k(2,3) show "b \<in> set (all_bindings sk) \<and> sublist (cf (mb_marker b)) (cf line)" by auto
  next
    assume b: "b \<in> set (all_bindings sk) \<and> sublist (cf (mb_marker b)) (cf line)"
    then have "cf (mb_marker b) \<in> fst ` set (grouped ?kvs)" unfolding set_grouped_keys by force
    then obtain vs where vs: "(cf (mb_marker b), vs) \<in> set (grouped ?kvs)" by auto
    have "b \<in> set vs" unfolding grouped_in(1) [OF vs] using b by force
    with vs b show "\<exists>k vs. (k, vs) \<in> set (grouped ?kvs) \<and> sublist k (cf line) \<and> b \<in> set vs" by blast
  qed
  finally show ?thesis .
qed

lemma distinct_line_bindings:
  assumes "distinct (map cd_id (sk_methods sk))"
  shows "distinct (map binding_key (line_bindings cf (indexed_markers cf sk) line))"
proof -
  let ?kvs = "map (\<lambda>b. (cf (mb_marker b), b)) (all_bindings sk)"
  let ?sel = "\<lambda>x. cf (mb_marker (inv_into (set (all_bindings sk)) binding_key x))"
  have idx: "indexed_markers cf sk = grouped ?kvs" by (simp add: indexed_markers_def all_bindings_def)
  have inj: "inj_on binding_key (set (all_bindings sk))"
    using distinct_binding_keys [OF assms] by (simp add: distinct_map)
  show ?thesis
    unfolding line_bindings_def idx
  proof (rule distinct_keyed_concat [where tag = fst and sel = ?sel])
    show "distinct (map fst (filter (\<lambda>(m, _). sublist m (cf line)) (grouped ?kvs)))"
      by (rule distinct_map_filter [OF distinct_grouped])
  next
    fix x assume x: "x \<in> set (filter (\<lambda>(m, _). sublist m (cf line)) (grouped ?kvs))"
    obtain k vs where kv: "x = (k, vs)" by (cases x)
    have vs: "vs = map snd (filter (\<lambda>x. fst x = k) ?kvs)" using x kv grouped_in(1) by auto
    then have "vs = filter (\<lambda>b. cf (mb_marker b) = k) (all_bindings sk)" by (simp add: filter_map comp_def)
    then show "distinct (map binding_key (snd x))"
      using distinct_map_filter [OF distinct_binding_keys [OF assms]] kv by simp
    fix b assume "b \<in> set (snd x)"
    then have "b \<in> set (all_bindings sk)" "cf (mb_marker b) = k" using vs kv by auto
    then show "?sel (binding_key b) = fst x" using inj kv by (simp add: inv_into_f_f)
  qed
qed

section \<open>Hits\<close>

text \<open>A marker of a method occurs in a line of a log.\<close>

definition occurrence ::
  "py_env \<Rightarrow> (text_t \<Rightarrow> text_t) \<Rightarrow> resolved_skill \<Rightarrow> target_log list \<Rightarrow> method_hit \<Rightarrow> method_card \<Rightarrow> bool" where
  "occurrence env cf sk logs h c \<longleftrightarrow>
     c \<in> set (sk_methods sk) \<and> ht_method_id h = cd_id c \<and> ht_method_priority h = cd_priority c \<and>
     0 < ht_marker_index h \<and> ht_marker_index h \<le> int (length (cd_evidence_markers c)) \<and>
     ht_marker h = cd_evidence_markers c ! nat (ht_marker_index h - 1) \<and>
     sublist (cf (ht_marker h)) (cf (ht_line h)) \<and> ht_hit_ref h = method_evidence_hit_ref env h \<and>
     (\<exists>l \<in> set logs. ht_source_ref h = sr_source_ref (source_of_log env l) \<and> ht_source_id h = lg_source_id l \<and>
        0 < ht_line_number h \<and> ht_line_number h \<le> int (length (splitlines (lg_content l))) \<and>
        ht_line h = splitlines (lg_content l) ! nat (ht_line_number h - 1))"

definition hit_key :: "method_hit \<Rightarrow> text_t \<times> int \<times> text_t \<times> int" where
  "hit_key h = (ht_source_id h, ht_line_number h, ht_method_id h, ht_marker_index h)"

lemma hit_ref_ref [simp]: "method_evidence_hit_ref env (h\<lparr>ht_hit_ref := r\<rparr>) = method_evidence_hit_ref env h"
  by (simp add: method_evidence_hit_ref_def)

lemma hit_of_simps [simp]:
  "ht_method_id (hit_of env l x b) = mb_method_id b" "ht_method_priority (hit_of env l x b) = mb_priority b"
  "ht_marker_index (hit_of env l x b) = mb_marker_index b" "ht_source_id (hit_of env l x b) = lg_source_id l"
  "ht_source_ref (hit_of env l x b) = sr_source_ref (source_of_log env l)"
  "ht_line_number (hit_of env l x b) = int (fst x)" "ht_line (hit_of env l x b) = snd x"
  "ht_marker (hit_of env l x b) = mb_marker b"
  "ht_hit_ref (hit_of env l x b) = method_evidence_hit_ref env (hit_of env l x b)"
  by (simp_all add: hit_of_def case_prod_unfold Let_def method_evidence_hit_ref_def)

lemma scanned_iff:
  "(h, a) \<in> set (scanned_hits env cf sk logs) \<longleftrightarrow>
     (\<exists>l \<in> set logs. \<exists>x \<in> set (enumerate 1 (splitlines (lg_content l))). \<exists>b \<in> set (all_bindings sk).
        sublist (cf (mb_marker b)) (cf (snd x)) \<and> h = hit_of env l x b \<and> a = mb_activation b)"
proof -
  have "(h, a) \<in> set (scanned_hits env cf sk logs) \<longleftrightarrow> (\<exists>l \<in> set logs. (h, a) \<in> set (log_hits env cf (indexed_markers cf sk) l))"
    by (simp add: scanned_hits_def)
  also have "\<dots> \<longleftrightarrow> (\<exists>l \<in> set logs. \<exists>x \<in> set (enumerate 1 (splitlines (lg_content l))).
      (h, a) \<in> (\<lambda>b. (hit_of env l x b, mb_activation b)) ` set (line_bindings cf (indexed_markers cf sk) (snd x)))"
    by (simp add: log_hits_def case_prod_unfold)
  also have "\<dots> \<longleftrightarrow> (\<exists>l \<in> set logs. \<exists>x \<in> set (enumerate 1 (splitlines (lg_content l))).
      \<exists>b \<in> set (line_bindings cf (indexed_markers cf sk) (snd x)). h = hit_of env l x b \<and> a = mb_activation b)"
    by (simp add: image_iff)
  also have "\<dots> \<longleftrightarrow> (\<exists>l \<in> set logs. \<exists>x \<in> set (enumerate 1 (splitlines (lg_content l))). \<exists>b \<in> set (all_bindings sk).
      sublist (cf (mb_marker b)) (cf (snd x)) \<and> h = hit_of env l x b \<and> a = mb_activation b)"
    unfolding Bex_def line_bindings_iff by (simp only: conj_assoc)
  finally show ?thesis .
qed

lemma enumerate_line:
  "x \<in> set (enumerate (Suc 0) ls) \<longleftrightarrow> 0 < fst x \<and> fst x \<le> length ls \<and> snd x = ls ! (fst x - 1)"
  by (auto simp: in_set_enumerate_eq)

lemma scanned_occurrence:
  assumes "(h, a) \<in> set (scanned_hits env cf sk logs)"
  obtains c where "occurrence env cf sk logs h c" "a = (ht_marker h \<in> set (cd_activation_markers c))"
proof -
  obtain l x b where l: "l \<in> set logs" and x: "x \<in> set (enumerate 1 (splitlines (lg_content l)))"
    and b: "b \<in> set (all_bindings sk)" "sublist (cf (mb_marker b)) (cf (snd x))"
    and h: "h = hit_of env l x b" "a = mb_activation b"
    using assms unfolding scanned_iff by blast
  obtain c i where c: "c \<in> set (sk_methods sk)" "i < length (cd_evidence_markers c)"
    and bc: "b = \<lparr>mb_priority = cd_priority c, mb_method_id = cd_id c, mb_marker_index = int i + 1,
          mb_marker = cd_evidence_markers c ! i, mb_activation = (cd_evidence_markers c ! i \<in> set (cd_activation_markers c))\<rparr>"
    using binding_card [OF b(1)] by blast
  have "0 < fst x" "fst x \<le> length (splitlines (lg_content l))" "snd x = splitlines (lg_content l) ! (fst x - 1)"
    using x by (simp_all add: enumerate_line)
  moreover from this have "nat (int (fst x) - 1) = fst x - 1" by linarith
  ultimately have "occurrence env cf sk logs h c"
    using c l b(2) unfolding occurrence_def h(1) bc by auto
  with h bc show thesis by (intro that [of c]) auto
qed

lemma occurrence_scanned:
  assumes "occurrence env cf sk logs h c"
  shows "(h, ht_marker h \<in> set (cd_activation_markers c)) \<in> set (scanned_hits env cf sk logs)"
proof -
  obtain l where l: "l \<in> set logs" "ht_source_ref h = sr_source_ref (source_of_log env l)" "ht_source_id h = lg_source_id l"
    "0 < ht_line_number h" "ht_line_number h \<le> int (length (splitlines (lg_content l)))"
    "ht_line h = splitlines (lg_content l) ! nat (ht_line_number h - 1)"
    using assms unfolding occurrence_def by blast
  let ?i = "nat (ht_marker_index h - 1)" and ?x = "(nat (ht_line_number h), ht_line h)"
  have h: "c \<in> set (sk_methods sk)" "ht_method_id h = cd_id c" "ht_method_priority h = cd_priority c"
    "0 < ht_marker_index h" "ht_marker_index h \<le> int (length (cd_evidence_markers c))"
    "ht_marker h = cd_evidence_markers c ! ?i" "sublist (cf (ht_marker h)) (cf (ht_line h))"
    "ht_hit_ref h = method_evidence_hit_ref env h"
    using assms unfolding occurrence_def by blast+
  have i: "?i < length (cd_evidence_markers c)" "int ?i + 1 = ht_marker_index h" using h(4,5) by linarith+
  obtain b where b: "b \<in> set (all_bindings sk)" "mb_method_id b = cd_id c" "mb_priority b = cd_priority c"
    "mb_marker_index b = ht_marker_index h" "mb_marker b = ht_marker h"
    "mb_activation b \<longleftrightarrow> ht_marker h \<in> set (cd_activation_markers c)"
    using binding_of_marker [OF h(1) i(1)] i(2) h(6) by metis
  have "nat (ht_line_number h) - 1 = nat (ht_line_number h - 1)" using l(4) by linarith
  then have "?x \<in> set (enumerate 1 (splitlines (lg_content l)))" using l(4-6) by (simp add: enumerate_line)
  moreover have "h = hit_of env l ?x b"
    using l h b by (simp add: hit_of_def Let_def method_evidence_hit_ref_def)
  ultimately show ?thesis unfolding scanned_iff using l(1) b h(7) by (metis snd_conv)
qed

lemma distinct_scanned:
  assumes "distinct (map cd_id (sk_methods sk))" and "distinct (map lg_source_id logs)"
  shows "distinct (map hit_key (map fst (scanned_hits env cf sk logs)))"
proof -
  let ?ix = "indexed_markers cf sk"
  have lines: "distinct (map (hit_key \<circ> fst) (log_hits env cf ?ix l))" for l
    unfolding log_hits_def
  proof (rule distinct_keyed_concat [where tag = "\<lambda>x. int (fst x)" and sel = "fst \<circ> snd"])
    fix x :: "nat \<times> text_t"
    let ?bs = "line_bindings cf ?ix (snd x)"
    have "map (\<lambda>(s, n, m, i). (m, i)) (map (hit_key \<circ> fst) (map (\<lambda>b. (hit_of env l x b, mb_activation b)) ?bs)) = map binding_key ?bs"
      by (simp add: hit_key_def binding_key_def)
    then show "distinct (map (hit_key \<circ> fst) ((\<lambda>(n, line). map (\<lambda>b. (hit_of env l (n, line) b, mb_activation b)) (line_bindings cf ?ix line)) x))"
      using distinct_line_bindings [OF assms(1), of cf "snd x"] unfolding case_prod_unfold prod.collapse
      by (metis (no_types, lifting) distinct_map)
  next
    have "map (\<lambda>x. int (fst x)) (enumerate 1 (splitlines (lg_content l))) = map int (map fst (enumerate 1 (splitlines (lg_content l))))"
      by (simp del: map_fst_enumerate)
    then show "distinct (map (\<lambda>x. int (fst x)) (enumerate 1 (splitlines (lg_content l))))" by (simp add: distinct_map)
  qed (auto simp: hit_key_def)
  have "distinct (map (hit_key \<circ> fst) (scanned_hits env cf sk logs))"
    unfolding scanned_hits_def
    by (rule distinct_keyed_concat [where tag = lg_source_id and sel = fst])
      (use lines assms(2) in \<open>auto simp: hit_key_def log_hits_def\<close>)
  then show ?thesis by simp
qed

text \<open>What is assumed of the inputs: the content references of the occurrences and of the logs do not collide.\<close>

definition refs_collide_free ::
  "py_env \<Rightarrow> (text_t \<Rightarrow> text_t) \<Rightarrow> resolved_skill \<Rightarrow> target_log list \<Rightarrow> bool" where
  "refs_collide_free env cf sk logs \<longleftrightarrow>
     distinct (map (\<lambda>l. sr_source_ref (source_of_log env l)) logs) \<and>
     inj_on ht_hit_ref (set (map fst (scanned_hits env cf sk logs))) \<and>
     distinct (map (\<lambda>x. ev_event_ref (event_of_group env x))
       (event_groups (sk_log_derived_fields sk) (frozen_hits (scanned_hits env cf sk logs))))"

lemma frozen_iff:
  "h \<in> set (frozen_hits hs) \<longleftrightarrow> h \<in> set (map fst hs) \<and> ht_method_id h \<in> set (activated_ids hs)"
  by (auto simp: frozen_hits_def)

lemma frozen_scanned: "h \<in> set (frozen_hits hs) \<Longrightarrow> \<exists>a. (h, a) \<in> set hs"
  by (auto simp: frozen_iff)

lemma frozen_occurrence:
  assumes "h \<in> set (frozen_hits (scanned_hits env cf sk logs))"
  obtains c where "occurrence env cf sk logs h c"
  using frozen_scanned [OF assms] scanned_occurrence by metis

lemma distinct_frozen:
  assumes "distinct (map cd_id (sk_methods sk))" and "distinct (map lg_source_id logs)"
    and "refs_collide_free env cf sk logs"
  shows "distinct (map ht_hit_ref (frozen_hits (scanned_hits env cf sk logs)))"
proof -
  let ?hs = "map fst (scanned_hits env cf sk logs)"
  have "distinct ?hs" using distinct_scanned [OF assms(1,2)] by (metis distinct_map)
  moreover have "inj_on ht_hit_ref (set ?hs)" using assms(3) by (simp add: refs_collide_free_def)
  ultimately have "distinct (map ht_hit_ref ?hs)" by (simp only: distinct_map)
  then have "distinct (map ht_hit_ref (filter (\<lambda>h. ht_method_id h \<in> set (activated_ids (scanned_hits env cf sk logs))) ?hs))"
    by (rule distinct_map_filter)
  moreover have "mset (map ht_hit_ref (frozen_hits (scanned_hits env cf sk logs))) =
      mset (map ht_hit_ref (filter (\<lambda>h. ht_method_id h \<in> set (activated_ids (scanned_hits env cf sk logs))) ?hs))"
    unfolding frozen_hits_def mset_map by simp
  ultimately show ?thesis using mset_eq_imp_distinct_iff by blast
qed

lemma sorted_frozen: "sort_key hit_order_key (frozen_hits hs) = frozen_hits hs"
  unfolding frozen_hits_def by (rule sort_key_id_if_sorted) simp

lemma same_line:
  assumes "refs_collide_free env cf sk logs" and "occurrence env cf sk logs h c" and "occurrence env cf sk logs h' c'"
    and "ht_source_ref h = ht_source_ref h'" and "ht_line_number h = ht_line_number h'"
  shows "ht_line h = ht_line h'"
proof -
  obtain l where l: "l \<in> set logs" "ht_source_ref h = sr_source_ref (source_of_log env l)"
    "ht_line h = splitlines (lg_content l) ! nat (ht_line_number h - 1)"
    using assms(2) unfolding occurrence_def by blast
  obtain l' where l': "l' \<in> set logs" "ht_source_ref h' = sr_source_ref (source_of_log env l')"
    "ht_line h' = splitlines (lg_content l') ! nat (ht_line_number h' - 1)"
    using assms(3) unfolding occurrence_def by blast
  have "inj_on (\<lambda>l. sr_source_ref (source_of_log env l)) (set logs)"
    using assms(1) by (simp add: refs_collide_free_def distinct_map)
  then have "l = l'" by (rule inj_onD) (use l l' assms(4) in simp_all)
  with l(3) l'(3) assms(5) show ?thesis by simp
qed

lemma identity_loop_map:
  assumes "\<And>h h'. h \<in> set hs \<Longrightarrow> h' \<in> set hs \<Longrightarrow> ht_source_ref h = ht_source_ref h' \<Longrightarrow>
      ht_line_number h = ht_line_number h' \<Longrightarrow> ht_line h = ht_line h'"
    and "\<And>h ts. h \<in> set hs \<Longrightarrow> map_of cache (ht_source_ref h, ht_line_number h) = Some ts \<Longrightarrow> ts = line_identity fs (ht_line h)"
  shows "identity_loop fs cache hs = map (\<lambda>h. line_identity fs (ht_line h)) hs"
  using assms
proof (induction hs arbitrary: cache)
  case (Cons h hs)
  let ?k = "(ht_source_ref h, ht_line_number h)" and ?ts = "line_identity fs (ht_line h)"
  show ?case
  proof (cases "map_of cache ?k")
    case None
    have "identity_loop fs ((?k, ?ts) # cache) hs = map (\<lambda>h. line_identity fs (ht_line h)) hs"
    proof (rule Cons.IH)
      fix h' ts assume h': "h' \<in> set hs" and ts: "map_of ((?k, ?ts) # cache) (ht_source_ref h', ht_line_number h') = Some ts"
      show "ts = line_identity fs (ht_line h')"
      proof (cases "?k = (ht_source_ref h', ht_line_number h')")
        case True
        then have "ht_line h = ht_line h'" using h' by (intro Cons.prems(1)) auto
        with True ts show ?thesis by simp
      next
        case False
        then show ?thesis using ts h' by (intro Cons.prems(2)) (auto split: if_splits)
      qed
    next
      fix h1 h2 assume "h1 \<in> set hs" "h2 \<in> set hs" "ht_source_ref h1 = ht_source_ref h2" "ht_line_number h1 = ht_line_number h2"
      then show "ht_line h1 = ht_line h2" by (intro Cons.prems(1) list.set_intros(2))
    qed
    with None show ?thesis by (simp add: Let_def)
  next
    case (Some ts)
    then have "ts = ?ts" by (intro Cons.prems(2)) simp_all
    moreover have "identity_loop fs cache hs = map (\<lambda>h. line_identity fs (ht_line h)) hs"
      by (rule Cons.IH) (erule (3) Cons.prems(1) [OF list.set_intros(2) list.set_intros(2)],
        erule (1) Cons.prems(2) [OF list.set_intros(2)])
    ultimately show ?thesis using Some by (simp add: Let_def)
  qed
qed simp

definition identified :: "text_t list \<Rightarrow> method_hit \<Rightarrow> text_t \<times> text_t list \<times> text_t option" where
  "identified fs h = event_key h (line_identity fs (ht_line h))"

lemma event_groups_frozen:
  assumes "refs_collide_free env cf sk logs"
  shows "event_groups fs (frozen_hits (scanned_hits env cf sk logs)) =
    grouped (map (\<lambda>h. (identified fs h, h)) (frozen_hits (scanned_hits env cf sk logs)))"
proof -
  let ?hs = "frozen_hits (scanned_hits env cf sk logs)"
  have "identity_loop fs [] ?hs = map (\<lambda>h. line_identity fs (ht_line h)) ?hs"
  proof (rule identity_loop_map)
    fix h h' assume hs: "h \<in> set ?hs" "h' \<in> set ?hs"
      and eq: "ht_source_ref h = ht_source_ref h'" "ht_line_number h = ht_line_number h'"
    from hs obtain c c' where "occurrence env cf sk logs h c" "occurrence env cf sk logs h' c'"
      by (elim frozen_occurrence)
    then show "ht_line h = ht_line h'" using same_line [OF assms] eq by blast
  qed simp
  moreover have "zip ?hs (map f ?hs) = map (\<lambda>h. (h, f h)) ?hs" for f :: "method_hit \<Rightarrow> text_t list"
    by (simp add: zip_map2 zip_same_conv_map)
  ultimately show ?thesis
    unfolding event_groups_def by (simp only: map_map comp_def case_prod_conv identified_def)
qed

section \<open>Events\<close>

lemma joined_words_chars:
  "joined_words seps fresh cs \<Longrightarrow> c \<in> set cs \<Longrightarrow> c \<in> set seps \<or> is_lower c \<or> is_digit c"
  by (induction seps fresh cs rule: joined_words.induct) (auto split: if_splits)

lemma snake_no_equals: "snake_case f \<Longrightarrow> CHR ''='' \<notin> set f"
proof
  assume f: "snake_case f" and "CHR ''='' \<in> set f"
  then have "of_char (CHR ''='') \<in> set (map of_char f :: nat list)" by (metis imageI list.set_map)
  then show False using joined_words_chars [of "[95]" True "map of_char f" 61] f
    by (simp add: snake_case_def is_lower_def is_digit_def)
qed

text \<open>The white space of the pattern of an identity token is among the one of \<open>str.isspace\<close>, and a value stops
  before the first of it.\<close>

lemma white_space_in_space: "white_space_at xs \<Longrightarrow> space_at (xs @ ys)"
proof (cases xs)
  case (Cons a bs)
  assume w: "white_space_at xs"
  consider "bs = []" | b where "bs = [b]" | b c cs where "bs = b # c # cs" by (metis neq_Nil_conv)
  then show ?thesis
  proof cases
    case 1
    with w Cons show ?thesis by auto
  next
    case 2
    with w Cons show ?thesis by (cases "a = 194") auto
  next
    case 3
    with w Cons show ?thesis by auto
  qed
qed simp

lemma token_value_prefix: "prefix (token_value s) s"
  by (induction s) auto

lemma token_value_plain: "plain_value (token_value s)"
proof (induction s)
  case (Cons c cs)
  obtain zs where "cs = token_value cs @ zs" using token_value_prefix [of cs] by (auto simp: prefix_def)
  then have eq: "map of_char (c # cs) = map of_char (c # token_value cs) @ map of_char zs"
    by (metis append_Cons map_append)
  have "\<not> white_space_at (map of_char (c # token_value cs))" if "\<not> space_at (map of_char (c # cs))"
    using that white_space_in_space unfolding eq by blast
  with Cons show ?case by simp
qed simp

lemma search_token_value: "search_token pat w s = Some t \<Longrightarrow> \<exists>v. t = pat @ v \<and> v \<noteq> [] \<and> plain_value v"
  by (induction pat w s rule: search_token.induct) (auto simp: Let_def token_value_plain split: if_splits)

lemma token_name_field:
  assumes "snake_case f" and "search_token (f @ ''='') w s = Some t"
  shows "token_name t = f"
proof -
  obtain v where "t = f @ ''='' @ v" using search_token_value [OF assms(2)] by auto
  then show ?thesis using snake_no_equals [OF assms(1)] by (simp add: token_name_def takeWhile_append)
qed

lemma line_identity_ok:
  assumes "list_all snake_case fs" and "t \<in> set (line_identity fs line)"
  shows "identity_token_ok t"
proof -
  obtain f where f: "f \<in> set fs" "search_token (f @ ''='') False line = Some t"
    using assms(2) by (auto simp: line_identity_def List.map_filter_def)
  have snake: "snake_case f" using assms(1) f(1) by (simp add: list_all_iff)
  obtain v where "t = f @ CHR ''='' # v" "v \<noteq> []" "plain_value v" using search_token_value [OF f(2)] by auto
  with snake token_name_field [OF snake f(2)] show ?thesis by (simp add: identity_token_ok_def)
qed

lemma line_identity_names:
  assumes "list_all snake_case fs"
  shows "subseq (map token_name (line_identity fs line)) fs"
  using assms
proof (induction fs)
  case (Cons f fs)
  then show ?case
    using token_name_field by (auto simp: line_identity_def map_filter_simps split: option.splits)
qed (simp add: line_identity_def map_filter_simps)

lemma line_identity_distinct:
  assumes "list_all snake_case fs" and "distinct fs"
  shows "distinct (map token_name (line_identity fs line))" "distinct (line_identity fs line)"
proof -
  show *: "distinct (map token_name (line_identity fs line))"
    using line_identity_names [OF assms(1), of line] assms(2) by (auto simp: subseq_conv_nths)
  show "distinct (line_identity fs line)" using * by (simp add: distinct_map)
qed

text \<open>Hits in business order with a priority per method: their groups are the events of a graph.\<close>

definition ordered_hits :: "py_env \<Rightarrow> (text_t \<Rightarrow> int) \<Rightarrow> method_hit list \<Rightarrow> bool" where
  "ordered_hits env prio hs \<longleftrightarrow>
     list_all (valid_method_hit env) hs \<and> distinct (map ht_hit_ref hs) \<and> sorted (map hit_order_key hs) \<and>
     list_all (\<lambda>h. ht_method_priority h = prio (ht_method_id h)) hs"

definition groups_of :: "text_t list \<Rightarrow> method_hit list \<Rightarrow> ((text_t \<times> text_t list \<times> text_t option) \<times> method_hit list) list" where
  "groups_of fs hs = grouped (map (\<lambda>h. (identified fs h, h)) hs)"

lemma group_members:
  assumes "(k, vs) \<in> set (groups_of fs hs)"
  shows "vs = filter (\<lambda>h. identified fs h = k) hs" and "vs \<noteq> []" and "hd vs \<in> set hs" and "identified fs (hd vs) = k"
proof -
  show vs: "vs = filter (\<lambda>h. identified fs h = k) hs" and ne: "vs \<noteq> []"
    using grouped_in [OF assms [unfolded groups_of_def]] by (simp_all add: filter_map comp_def)
  have "hd vs \<in> set (filter (\<lambda>h. identified fs h = k) hs)" using hd_in_set [OF ne] vs by simp
  then show "hd vs \<in> set hs" "identified fs (hd vs) = k" by simp_all
qed

lemma event_of_group_simps [simp]:
  "ev_method_id (event_of_group env ((m, ts, r), hs)) = m"
  "ev_identity_tokens (event_of_group env ((m, ts, r), hs)) = ts"
  "ev_method_priority (event_of_group env ((m, ts, r), hs)) = ht_method_priority (hd hs)"
  "ev_evidence_hit_refs (event_of_group env ((m, ts, r), hs)) = map ht_hit_ref hs"
  "ev_event_ref (event_of_group env ((m, ts, r), hs)) =
     method_evidence_event_ref env m (ht_method_priority (hd hs)) ts (map ht_hit_ref hs)"
  by (simp_all add: event_of_group_def Let_def)

lemma group_event_valid:
  assumes hs: "ordered_hits env prio hs" and fs: "list_all snake_case fs" "distinct fs" and x: "x \<in> set (groups_of fs hs)"
  shows "valid_method_event env (event_of_group env x)"
proof -
  obtain m ts r vs where x_eq: "x = ((m, ts, r), vs)" by (metis prod.collapse)
  note g = group_members [OF x [unfolded x_eq]]
  have ts: "ts = line_identity fs (ht_line (hd vs))" using g(4) by (simp add: identified_def event_key_def)
  have "ht_method_priority (hd vs) > 0"
    using hs g(3) unfolding ordered_hits_def list_all_iff valid_method_hit_def by blast
  moreover have "distinct (map ht_hit_ref vs)"
    unfolding g(1) using hs by (intro distinct_map_filter) (simp add: ordered_hits_def)
  moreover have "method_id_ok m"
    using hs g(3,4) by (auto simp: ordered_hits_def list_all_iff valid_method_hit_def identified_def event_key_def)
  moreover have "list_all identity_token_ok ts" unfolding ts list_all_iff using line_identity_ok [OF fs(1)] by blast
  ultimately show ?thesis
    using line_identity_distinct [OF fs] g(2) unfolding x_eq valid_method_event_def
    by (simp add: unique_refs_def ts)
qed

lemma groups_ok:
  assumes hs: "ordered_hits env prio hs"
    and gs: "set gs \<subseteq> set (groups_of fs hs)" "distinct (map fst gs)"
    and seen: "\<And>m ts r vs. ((m, ts, r), vs) \<in> set gs \<Longrightarrow> ts \<noteq> [] \<Longrightarrow> (m, ts) \<notin> set seen"
  shows "graph_events_ok hs seen (map (event_of_group env) gs)"
  using gs seen
proof (induction gs arbitrary: seen)
  case (Cons x gs)
  obtain m ts r vs where x: "x = ((m, ts, r), vs)" by (metis prod.collapse)
  have x_in: "((m, ts, r), vs) \<in> set (groups_of fs hs)" using Cons.prems(1) x by simp
  note g = group_members [OF x_in]
  have key: "identified fs h = (m, ts, r)" "h \<in> set hs" if "h \<in> set vs" for h using that g(1) by auto
  have refs: "distinct (map ht_hit_ref hs)" using hs by (simp add: ordered_hits_def)
  have single: "length vs = 1" if "ts = []"
  proof -
    have "ht_hit_ref h = the r" if "h \<in> set vs" for h
      using key(1) [OF that] \<open>ts = []\<close> by (auto simp: identified_def event_key_def split: if_splits)
    then have "ht_hit_ref ` set vs \<subseteq> {the r}" by blast
    moreover have "distinct (map ht_hit_ref vs)" unfolding g(1) by (rule distinct_map_filter [OF refs])
    ultimately have "length (map ht_hit_ref vs) \<le> 1"
      using card_mono [of "{the r}" "set (map ht_hit_ref vs)"] distinct_card [of "map ht_hit_ref vs"] by simp
    then show ?thesis using g(2) by (cases vs) auto
  qed
  have member: "\<exists>h'. dict_by ht_hit_ref hs (ht_hit_ref h) = Some h' \<and> ht_method_id h' = m \<and> ht_method_priority h' = ht_method_priority (hd vs)"
    if h: "h \<in> set vs" for h
  proof -
    have "ht_method_id h = m" "ht_method_id (hd vs) = m" using key(1) [OF h] g(4) by (simp_all add: identified_def event_key_def)
    then have "ht_method_priority h = ht_method_priority (hd vs)"
      using hs key(2) [OF h] g(3) by (simp add: ordered_hits_def list_all_iff)
    then show ?thesis using dict_by_distinct [OF refs key(2) [OF h]] \<open>ht_method_id h = m\<close> by auto
  qed
  have "graph_events_ok hs (if ts \<noteq> [] then (m, ts) # seen else seen) (map (event_of_group env) gs)"
  proof (rule Cons.IH)
    fix m' ts' r' vs' assume in': "((m', ts', r'), vs') \<in> set gs" and ts': "ts' \<noteq> []"
    have "((m', ts', r'), vs') \<in> set (groups_of fs hs)" using Cons.prems(1) in' by auto
    from group_members(4) [OF this] ts' have r': "r' = None" by (auto simp: identified_def event_key_def split: if_splits)
    have "(m', ts') \<noteq> (m, ts)"
    proof
      assume eq: "(m', ts') = (m, ts)"
      then have "r = None" using g(4) ts' by (auto simp: identified_def event_key_def split: if_splits)
      with eq r' in' x Cons.prems(2) show False by (force simp: image_iff)
    qed
    then show "(m', ts') \<notin> set (if ts \<noteq> [] then (m, ts) # seen else seen)"
      using Cons.prems(3) [of m' ts' r' vs'] in' ts' by auto
  qed (use Cons.prems in auto)
  moreover have "if ts \<noteq> [] then (m, ts) \<notin> set seen else length vs = 1" using Cons.prems(3) [of m ts r vs] x single by auto
  ultimately show ?case using member by (fastforce simp: x list_all_iff)
qed simp

lemma groups_partition:
  "mset (concat (map ev_evidence_hit_refs (map (event_of_group env) (groups_of fs hs)))) = mset (map ht_hit_ref hs)"
proof -
  have "ev_evidence_hit_refs (event_of_group env x) = map ht_hit_ref (snd x)" for x
    by (metis event_of_group_simps(4) prod.collapse)
  then have "concat (map ev_evidence_hit_refs (map (event_of_group env) (groups_of fs hs))) =
      map ht_hit_ref (concat (map snd (groups_of fs hs)))" by (simp add: map_concat comp_def)
  also have "mset \<dots> = image_mset ht_hit_ref (mset (map snd (map (\<lambda>h. (identified fs h, h)) hs)))"
    unfolding mset_map [of ht_hit_ref] groups_of_def mset_grouped ..
  also have "\<dots> = mset (map ht_hit_ref hs)" by (simp add: comp_def)
  finally show ?thesis .
qed

lemma first_pos_nth:
  assumes "k \<in> set ys"
  shows "first_pos ys k < length ys" "ys ! first_pos ys k = k" "i < length ys \<Longrightarrow> ys ! i = k \<Longrightarrow> first_pos ys k \<le> i"
proof -
  show lt: "first_pos ys k < length ys"
    using assms by (induction ys) (auto simp: first_pos_def)
  then show "ys ! first_pos ys k = k" unfolding first_pos_def using nth_length_takeWhile by fastforce
  show "first_pos ys k \<le> i" if "i < length ys" "ys ! i = k"
    using that
  proof (induction ys arbitrary: i)
    case (Cons y ys)
    then show ?case by (cases i) (auto simp: first_pos_def)
  qed simp
qed

lemma hd_filter_first:
  assumes "k \<in> f ` set hs"
  shows "hd (filter (\<lambda>h. f h = k) hs) = hs ! first_pos (map f hs) k"
  using assms
proof (induction hs)
  case (Cons h hs)
  then show ?case by (cases "f h = k") (auto simp: first_pos_def)
qed simp

lemma min_list_eqI:
  assumes "x \<in> set xs" and "\<And>y. y \<in> set xs \<Longrightarrow> x \<le> (y :: nat)"
  shows "min_list xs = x"
proof -
  have "xs \<noteq> []" using assms(1) by auto
  then have "min_list xs = Min (set xs)" by (rule min_list_Min)
  also have "\<dots> = x" using assms by (intro Min_eqI) auto
  finally show ?thesis .
qed

lemma group_order_key:
  assumes hs: "ordered_hits env prio hs" and x: "x \<in> set (groups_of fs hs)"
  shows "\<exists>i < length hs. i = first_pos (map (identified fs) hs) (fst x) \<and>
    event_order_key hs (event_of_group env x) = (ht_method_priority (hs ! i), ht_method_id (hs ! i), i)"
proof -
  obtain m ts r vs where x_eq: "x = ((m, ts, r), vs)" by (metis prod.collapse)
  let ?k = "(m, ts, r)" and ?ks = "map (identified fs) hs"
  let ?i = "first_pos ?ks ?k"
  note g = group_members [OF x [unfolded x_eq]]
  have refs: "distinct (map ht_hit_ref hs)" using hs by (simp add: ordered_hits_def)
  have k: "?k \<in> set ?ks" unfolding g(4) [symmetric] set_map by (rule imageI [OF g(3)])
  note first = first_pos_nth [OF k]
  have i: "?i < length hs" using first(1) by simp
  have key_i: "identified fs (hs ! ?i) = ?k" using first(2) i by simp
  have hd: "hd vs = hs ! ?i" unfolding g(1) using k by (intro hd_filter_first) simp
  let ?pos = "\<lambda>h. the (hit_positions hs (ht_hit_ref h))"
  have pos: "?pos (hs ! j) = j" if "j < length hs" for j
    using index_by_nth [OF refs that] by (simp add: hit_positions_def)
  have "min_list (map ?pos vs) = ?i"
  proof (rule min_list_eqI)
    have "hs ! ?i \<in> set vs" unfolding g(1) using i key_i by simp
    then show "?i \<in> set (map ?pos vs)" using pos [OF i] by (metis (no_types, lifting) image_eqI list.set_map)
  next
    fix y assume "y \<in> set (map ?pos vs)"
    then obtain h where h: "h \<in> set vs" "y = ?pos h" unfolding set_map by (rule imageE)
    obtain j where j: "j < length hs" "h = hs ! j" using h(1) g(1) by (metis filter_is_subset in_set_conv_nth subsetD)
    have "identified fs h = ?k" using h(1) g(1) by simp
    then have "?i \<le> j" using first(3) [of j] j by simp
    then show "?i \<le> y" using h(2) j pos by simp
  qed
  moreover have "ht_method_id (hs ! ?i) = m" using key_i by (simp add: identified_def event_key_def)
  ultimately have "event_order_key hs (event_of_group env x) = (ht_method_priority (hs ! ?i), ht_method_id (hs ! ?i), ?i)"
    by (simp add: x_eq event_order_key_def hd comp_def)
  with i show ?thesis by (simp add: x_eq)
qed

lemma groups_sorted:
  assumes hs: "ordered_hits env prio hs"
  shows "sort_key (event_order_key hs) (map (event_of_group env) (groups_of fs hs)) = map (event_of_group env) (groups_of fs hs)"
proof (rule sort_key_id_if_sorted)
  let ?gs = "groups_of fs hs"
  let ?pos = "\<lambda>x. first_pos (map (identified fs) hs) (fst x)"
  let ?f = "\<lambda>i. (ht_method_priority (hs ! i), ht_method_id (hs ! i), i)"
  have key: "event_order_key hs (event_of_group env x) = ?f (?pos x) \<and> ?pos x < length hs" if "x \<in> set ?gs" for x
    using group_order_key [OF hs that] by metis
  have mono: "?f i \<le> ?f j" if "i < j" "j < length hs" for i j
  proof -
    have "hit_order_key (hs ! i) \<le> hit_order_key (hs ! j)"
      using hs that by (simp add: ordered_hits_def sorted_iff_nth_mono)
    then show ?thesis using that(1) by (auto simp: hit_order_key_def less_eq_prod_def)
  qed
  have "map fst (map (\<lambda>h. (identified fs h, h)) hs) = map (identified fs) hs" by simp
  then have "sorted_wrt (<) (map ?pos ?gs)"
    using first_pos_sorted [of "map (identified fs) hs" "[]"] grouped_keys [of "map (\<lambda>h. (identified fs h, h)) hs"]
    unfolding groups_of_def by (metis (no_types, lifting) map_map comp_apply map_eq_conv)
  then have "sorted_wrt (\<lambda>x y. ?pos x < ?pos y) ?gs" by (simp add: sorted_wrt_map)
  then have "sorted_wrt (\<lambda>x y. ?f (?pos x) \<le> ?f (?pos y)) ?gs"
    by (rule sorted_wrt_mono_rel [rotated]) (use mono key in blast)
  then have "sorted (map (\<lambda>x. ?f (?pos x)) ?gs)" by (simp only: sorted_map)
  moreover have "map (event_order_key hs) (map (event_of_group env) ?gs) = map (\<lambda>x. ?f (?pos x)) ?gs"
    unfolding map_map comp_def using key by (intro map_cong refl) blast
  ultimately show "sorted (map (event_order_key hs) (map (event_of_group env) ?gs))" by (simp only:)
qed

section \<open>The graph\<close>

text \<open>\<open>str.casefold\<close> maps only the empty text to the empty text.\<close>

definition casefold_law :: "(text_t \<Rightarrow> text_t) \<Rightarrow> bool" where
  "casefold_law cf \<longleftrightarrow> (\<forall>x. cf x = [] \<longleftrightarrow> x = [])"

definition card_priority :: "resolved_skill \<Rightarrow> text_t \<Rightarrow> int" where
  "card_priority sk m = cd_priority (the (dict_by cd_id (sk_methods sk) m))"

lemma skill_card:
  assumes "skill_methods_ok sk" and "c \<in> set (sk_methods sk)"
  shows "dict_by cd_id (sk_methods sk) (cd_id c) = Some c" "card_priority sk (cd_id c) = cd_priority c" "cd_priority c > 0"
    "\<And>m. m \<in> set (cd_evidence_markers c) \<Longrightarrow> m \<noteq> []"
proof -
  show d: "dict_by cd_id (sk_methods sk) (cd_id c) = Some c"
    using assms by (intro dict_by_distinct) (simp_all add: skill_methods_ok_def)
  then show "card_priority sk (cd_id c) = cd_priority c" by (simp add: card_priority_def)
  have "cd_priority c \<in> set (map cd_priority (sk_methods sk))" using assms(2) by simp
  also have "\<dots> = set (map int [1..<length (sk_methods sk) + 1])" using assms(1) by (simp add: skill_methods_ok_def)
  finally show "cd_priority c > 0" by auto
  show "m \<noteq> []" if "m \<in> set (cd_evidence_markers c)" for m
    using assms that by (auto simp: skill_methods_ok_def card_ok_def markers_ok_def marker_ok_def list_all_iff)
qed

text \<open>The contracts of the scan bound identifiers to 256 characters, the package loader and the contract of a
  frozen log do not: the identifiers that the graph has to carry must fit.\<close>

definition identifiers_fit ::
  "py_env \<Rightarrow> (text_t \<Rightarrow> text_t) \<Rightarrow> resolved_skill \<Rightarrow> target_log list \<Rightarrow> bool" where
  "identifiers_fit env cf sk logs \<longleftrightarrow>
     (\<forall>l \<in> set logs. length (lg_source_id l) \<le> 256) \<and>
     (\<forall>h c. occurrence env cf sk logs h c \<longrightarrow> length (ht_method_id h) \<le> 256)"

lemma occurrence_source:
  assumes "occurrence env cf sk logs h c"
  obtains l where "l \<in> set logs" "ht_source_id h = lg_source_id l"
  using assms unfolding occurrence_def by blast

lemma occurrence_valid:
  assumes sk: "skill_methods_ok sk" and cf: "casefold_law cf" and names: "list_all target_log_ok logs"
    and fit: "identifiers_fit env cf sk logs" and h: "occurrence env cf sk logs h c"
  shows "valid_method_hit env h" "ht_method_priority h = card_priority sk (ht_method_id h)"
proof -
  have c: "c \<in> set (sk_methods sk)" "ht_method_id h = cd_id c" "ht_method_priority h = cd_priority c"
      "ht_marker_index h > 0" "ht_marker_index h \<le> int (length (cd_evidence_markers c))"
      "ht_marker h = cd_evidence_markers c ! nat (ht_marker_index h - 1)"
      "sublist (cf (ht_marker h)) (cf (ht_line h))" "ht_hit_ref h = method_evidence_hit_ref env h" "ht_line_number h > 0"
    using h unfolding occurrence_def by blast+
  have marker: "ht_marker h \<in> set (cd_evidence_markers c)" unfolding c(6) using c(4,5) by (intro nth_mem) linarith
  note card = skill_card [OF sk c(1)]
  have "ht_marker h \<noteq> []" by (rule card(4) [OF marker])
  moreover from this have "ht_line h \<noteq> []"
    using c(7) cf unfolding casefold_law_def by (metis sublist_Nil_right)
  moreover have "method_id_ok (ht_method_id h)"
    using sk c(1,2) fit h unfolding identifiers_fit_def
    by (auto simp: method_id_ok_def skill_methods_ok_def list_all_iff)
  moreover have "source_id_ok (ht_source_id h)"
    using names fit by (auto simp: source_id_ok_def target_log_ok_def list_all_iff identifiers_fit_def
        intro: occurrence_source [OF h])
  ultimately show "valid_method_hit env h"
    using c(3,4,8,9) card(3) by (simp add: valid_method_hit_def)
  show "ht_method_priority h = card_priority sk (ht_method_id h)" unfolding c(2,3) by (rule card(2) [symmetric])
qed

lemma scanned_valid:
  assumes "skill_methods_ok sk" and "casefold_law cf" and "list_all target_log_ok logs"
    and "identifiers_fit env cf sk logs"
  shows "list_all (valid_method_hit env) (map fst (scanned_hits env cf sk logs))"
  unfolding list_all_iff
proof
  fix h assume "h \<in> set (map fst (scanned_hits env cf sk logs))"
  then obtain a where "(h, a) \<in> set (scanned_hits env cf sk logs)" by auto
  then obtain c where "occurrence env cf sk logs h c" by (rule scanned_occurrence)
  then show "valid_method_hit env h" by (rule occurrence_valid(1) [OF assms])
qed

lemma frozen_ordered:
  assumes sk: "skill_methods_ok sk" and cf: "casefold_law cf" and logs: "distinct (map lg_source_id logs)"
    and names: "list_all target_log_ok logs" and fit: "identifiers_fit env cf sk logs"
    and refs: "refs_collide_free env cf sk logs"
  shows "ordered_hits env (card_priority sk) (frozen_hits (scanned_hits env cf sk logs))"
proof -
  let ?hs = "frozen_hits (scanned_hits env cf sk logs)"
  have "valid_method_hit env h \<and> ht_method_priority h = card_priority sk (ht_method_id h)" if "h \<in> set ?hs" for h
    using frozen_occurrence [OF that] occurrence_valid [OF sk cf names fit] by metis
  moreover have "distinct (map ht_hit_ref ?hs)"
    using sk by (intro distinct_frozen [OF _ logs refs]) (simp add: skill_methods_ok_def)
  moreover have "sorted (map hit_order_key ?hs)" by (simp add: frozen_hits_def)
  ultimately show ?thesis by (simp add: ordered_hits_def list_all_iff)
qed

lemma activated_card:
  assumes "m \<in> set (activated_ids (scanned_hits env cf sk logs))"
  obtains h c where "h \<in> set (frozen_hits (scanned_hits env cf sk logs))" "occurrence env cf sk logs h c"
    "ht_method_id h = m" "ht_marker h \<in> set (cd_activation_markers c)"
proof -
  obtain h where h: "(h, True) \<in> set (scanned_hits env cf sk logs)" "ht_method_id h = m"
    using assms by (auto simp: activated_ids_def)
  obtain c where "occurrence env cf sk logs h c" "ht_marker h \<in> set (cd_activation_markers c)"
    using scanned_occurrence [OF h(1)] by metis
  moreover have "h \<in> set (frozen_hits (scanned_hits env cf sk logs))"
    unfolding frozen_iff using h assms by (metis fst_conv image_eqI list.set_map)
  ultimately show thesis using h(2) by (intro that)
qed

lemma activated_methods: "ht_method_id ` set (frozen_hits (scanned_hits env cf sk logs)) = set (activated_ids (scanned_hits env cf sk logs))"
proof
  show "ht_method_id ` set (frozen_hits (scanned_hits env cf sk logs)) \<subseteq> set (activated_ids (scanned_hits env cf sk logs))"
    by (auto simp: frozen_iff)
  show "set (activated_ids (scanned_hits env cf sk logs)) \<subseteq> ht_method_id ` set (frozen_hits (scanned_hits env cf sk logs))"
  proof
    fix m assume "m \<in> set (activated_ids (scanned_hits env cf sk logs))"
    then obtain h where "h \<in> set (frozen_hits (scanned_hits env cf sk logs))" "ht_method_id h = m" by (rule activated_card)
    then show "m \<in> ht_method_id ` set (frozen_hits (scanned_hits env cf sk logs))" by (metis imageI)
  qed
qed

lemma loaded_unique:
  assumes hs: "list_all (\<lambda>h. ht_method_priority h = prio (ht_method_id h)) hs"
    and ms: "distinct ms" "set ms = ht_method_id ` set hs" "sorted (map (\<lambda>m. (prio m, m)) ms)"
  shows "ms = map fst (sort_key (\<lambda>(m, p). (p, m)) (method_priorities hs))" and "priorities_stable hs"
proof -
  let ?ps = "method_priorities hs" and ?f = "\<lambda>m. (prio m, m)"
  have fsts: "map fst ?ps = map ht_method_id (dedupe_loop ht_method_id [] hs)" by (simp add: method_priorities_def)
  have set_fst: "set (map fst ?ps) = ht_method_id ` set hs"
    unfolding fsts set_map using set_dedupe_loop [of ht_method_id "[]" hs] by simp
  have dist: "distinct (map fst ?ps)" unfolding fsts by (rule distinct_dedupe_loop)
  have prio: "p = prio m" if "(m, p) \<in> set ?ps" for m p
    using that hs dedupe_loop_subset [of ht_method_id "[]" hs] by (auto simp: method_priorities_def list_all_iff)
  let ?qs = "sort_key (\<lambda>(m, p). (p, m)) ?ps"
  have "map ?f (map fst ?qs) = map (\<lambda>(m, p). (p, m)) ?qs" using prio by (auto intro!: map_cong)
  moreover have "sorted (map (\<lambda>(m, p). (p, m)) ?qs)" by simp
  ultimately have sorted: "sorted (map ?f (map fst ?qs))" by (simp only:)
  have "mset (map fst ?qs) = mset (map fst ?ps)" by simp
  then have d: "distinct (map fst ?qs)" and set: "set (map fst ?qs) = set (map fst ?ps)"
    using dist mset_eq_imp_distinct_iff mset_eq_setD by blast+
  have inj: "inj_on ?f A" for A by (simp add: inj_on_def)
  have distf: "distinct (map ?f xs)" if "distinct xs" for xs using that inj by (simp add: distinct_map)
  show "ms = map fst ?qs"
  proof (rule map_sorted_distinct_set_unique [OF inj ms(3) distf sorted distf])
    show "set ms = set (map fst ?qs)" unfolding set set_fst ms(2) ..
  qed (fact ms(1) d)+
  show "priorities_stable hs"
    unfolding priorities_stable_def list_all_iff
  proof
    fix h assume h: "h \<in> set hs"
    have "ht_method_id h \<in> set (map fst ?ps)" unfolding set_fst by (rule imageI [OF h])
    then obtain p where p: "(ht_method_id h, p) \<in> set ?ps" by auto
    moreover have "p = ht_method_priority h" using prio [OF p] hs h by (simp add: list_all_iff)
    ultimately show "map_of ?ps (ht_method_id h) = Some (ht_method_priority h)" using dist by (simp add: map_of_is_SomeI)
  qed
qed

definition loaded_ids :: "(method_hit \<times> bool) list \<Rightarrow> resolved_skill \<Rightarrow> text_t list" where
  "loaded_ids hs sk = map cd_id (filter (\<lambda>c. cd_id c \<in> set (activated_ids hs)) (cards_in_order sk))"

lemma loaded_ids_props:
  fixes env cf logs
  assumes sk: "skill_methods_ok sk"
  defines "hs \<equiv> scanned_hits env cf sk logs"
  shows "distinct (loaded_ids hs sk)" "set (loaded_ids hs sk) = ht_method_id ` set (frozen_hits hs)"
    "sorted (map (\<lambda>m. (card_priority sk m, m)) (loaded_ids hs sk))"
proof -
  have "mset (map cd_id (cards_in_order sk)) = mset (map cd_id (sk_methods sk))" by (simp add: cards_in_order_def)
  moreover have "distinct (map cd_id (sk_methods sk))" using sk by (simp add: skill_methods_ok_def)
  ultimately have "distinct (map cd_id (cards_in_order sk))" using mset_eq_imp_distinct_iff by blast
  then show "distinct (loaded_ids hs sk)" unfolding loaded_ids_def by (rule distinct_map_filter)
  have "m \<in> cd_id ` set (sk_methods sk)" if m: "m \<in> set (activated_ids hs)" for m
  proof -
    obtain h c where "occurrence env cf sk logs h c" "ht_method_id h = m" using m unfolding hs_def by (rule activated_card)
    then have "c \<in> set (sk_methods sk)" "m = cd_id c" unfolding occurrence_def by blast+
    then show ?thesis by blast
  qed
  then have "set (loaded_ids hs sk) = set (activated_ids hs)"
    unfolding loaded_ids_def set_map set_filter set_cards by blast
  then show "set (loaded_ids hs sk) = ht_method_id ` set (frozen_hits hs)" unfolding hs_def activated_methods .
  have eq: "map (\<lambda>m. (card_priority sk m, m)) (loaded_ids hs sk) =
      map (\<lambda>c. (cd_priority c, cd_id c)) (filter (\<lambda>c. cd_id c \<in> set (activated_ids hs)) (cards_in_order sk))"
    unfolding loaded_ids_def map_map using skill_card(2) [OF sk] by (intro map_cong refl) (simp add: comp_def)
  have "sorted (map (\<lambda>c. (cd_priority c, cd_id c)) (cards_in_order sk))" by (simp add: cards_in_order_def)
  then show "sorted (map (\<lambda>m. (card_priority sk m, m)) (loaded_ids hs sk))" unfolding eq by (rule sorted_filter)
qed

lemma sources_ok:
  assumes "distinct (map lg_source_id logs)" and "refs_collide_free env cf sk logs"
  defines "ss \<equiv> sort_key sr_source_id (map (source_of_log env) logs)"
  shows "distinct (map sr_source_ref ss)" "distinct (map sr_source_id ss)"
    "list_all (valid_method_source env) ss \<longleftrightarrow> list_all (\<lambda>l. source_id_ok (lg_source_id l)) logs"
    "occurrence env cf sk logs h c \<Longrightarrow> \<exists>s. dict_by sr_source_ref ss (ht_source_ref h) = Some s \<and> ht_source_id h = sr_source_id s"
proof -
  have ids: "map sr_source_id (map (source_of_log env) logs) = map lg_source_id logs" by (simp add: source_of_log_def)
  have same: "mset (map f ss) = mset (map f (map (source_of_log env) logs))" for f :: "method_source \<Rightarrow> text_t"
    by (simp add: ss_def multiset.map_comp)
  show refs: "distinct (map sr_source_ref ss)"
    using mset_eq_imp_distinct_iff [OF same] assms(2) by (simp add: refs_collide_free_def comp_def)
  show "distinct (map sr_source_id ss)" using mset_eq_imp_distinct_iff [OF same] assms(1) by (simp only: ids)
  show "list_all (valid_method_source env) ss \<longleftrightarrow> list_all (\<lambda>l. source_id_ok (lg_source_id l)) logs"
    by (auto simp: ss_def list_all_iff valid_method_source_def source_of_log_def)
  assume "occurrence env cf sk logs h c"
  then obtain l where l: "l \<in> set logs" "ht_source_ref h = sr_source_ref (source_of_log env l)" "ht_source_id h = lg_source_id l"
    unfolding occurrence_def by blast
  have "source_of_log env l \<in> set ss" using l(1) by (simp add: ss_def)
  from dict_by_distinct [OF refs this] l(2,3)
  show "\<exists>s. dict_by sr_source_ref ss (ht_source_ref h) = Some s \<and> ht_source_id h = sr_source_id s"
    by (simp add: source_of_log_def)
qed

lemma occurrence_method: "occurrence env cf sk logs h c \<Longrightarrow> ht_method_id h \<in> cd_id ` set (sk_methods sk)"
  unfolding occurrence_def by blast

lemma occurrence_card:
  assumes "skill_methods_ok sk" and h: "occurrence env cf sk logs h c"
  shows "hit_card_ok (sk_methods sk) h"
proof -
  have "c \<in> set (sk_methods sk)" "ht_method_id h = cd_id c" "ht_method_priority h = cd_priority c"
    "ht_marker_index h \<le> int (length (cd_evidence_markers c))"
    "ht_marker h = cd_evidence_markers c ! nat (ht_marker_index h - 1)"
    using h unfolding occurrence_def by blast+
  then show ?thesis using skill_card(1) [OF assms(1)] by (simp add: hit_card_ok_def)
qed

lemma activated_ok:
  assumes "skill_methods_ok sk" and m: "m \<in> set (activated_ids (scanned_hits env cf sk logs))"
  shows "method_activated (sk_methods sk) (frozen_hits (scanned_hits env cf sk logs)) m"
proof -
  obtain h c where h: "h \<in> set (frozen_hits (scanned_hits env cf sk logs))" "occurrence env cf sk logs h c"
    "ht_method_id h = m" "ht_marker h \<in> set (cd_activation_markers c)"
    using m by (rule activated_card)
  then have c: "c \<in> set (sk_methods sk)" "m = cd_id c" unfolding occurrence_def by blast+
  show ?thesis
    unfolding method_activated_def c(2) skill_card(1) [OF assms(1) c(1)] option.case list_ex_iff
    using h(1,3,4) c(2) by blast
qed

lemma scanned_graph:
  assumes "scan_method_evidence env cf sk logs limitations = Inr g"
  shows "valid_method_graph env g" "gr_skill_sha256 g = sk_combined_sha256 sk"
    "gr_hits g = frozen_hits (scanned_hits env cf sk logs)" "gr_loaded_method_ids g = loaded_ids (scanned_hits env cf sk logs) sk"
  using assms by (auto simp: scan_method_evidence_def Let_def loaded_ids_def split: if_splits)

lemma scanned_graph_of_skill:
  assumes sk: "skill_methods_ok sk" and g: "scan_method_evidence env cf sk logs limitations = Inr g"
  shows "graph_of_skill sk g"
proof -
  let ?hs = "frozen_hits (scanned_hits env cf sk logs)"
  note ms = loaded_ids_props(2) [OF sk, of env cf logs]
  have "list_all (\<lambda>h. ht_method_id h \<in> cd_id ` set (sk_methods sk)) ?hs"
    unfolding list_all_iff using frozen_occurrence occurrence_method by metis
  moreover have "loaded_ids (scanned_hits env cf sk logs) sk =
      map cd_id (filter (\<lambda>c. cd_id c \<in> ht_method_id ` set ?hs) (sort_key (\<lambda>c. (cd_priority c, cd_id c)) (sk_methods sk)))"
    unfolding loaded_ids_def activated_methods cards_in_order_def ..
  moreover have "list_all (hit_card_ok (sk_methods sk)) ?hs"
    unfolding list_all_iff using frozen_occurrence occurrence_card [OF sk] by metis
  moreover have "list_all (method_activated (sk_methods sk) ?hs) (loaded_ids (scanned_hits env cf sk logs) sk)"
    unfolding list_all_iff ms activated_methods using activated_ok [OF sk] by blast
  ultimately show ?thesis unfolding graph_of_skill_def scanned_graph(2-4) [OF g] by blast
qed

theorem scan_total:
  assumes sk: "skill_methods_ok sk" and cf: "casefold_law cf" and logs: "logs \<noteq> []" "distinct (map lg_source_id logs)"
    and names: "list_all target_log_ok logs" and fit: "identifiers_fit env cf sk logs"
    and lim: "list_all valid_text limitations" and refs: "refs_collide_free env cf sk logs"
  obtains g where "scan_method_evidence env cf sk logs limitations = Inr g" "valid_method_graph env g" "graph_of_skill sk g"
    "gr_hits g = frozen_hits (scanned_hits env cf sk logs)"
proof -
  let ?scan = "scanned_hits env cf sk logs"
  let ?hs = "frozen_hits ?scan" and ?ss = "sort_key sr_source_id (map (source_of_log env) logs)"
    and ?fs = "sk_log_derived_fields sk" and ?ms = "loaded_ids ?scan sk" and ?lim = "dedupe limitations"
  let ?es = "map (event_of_group env) (groups_of ?fs ?hs)"
  let ?g = "\<lparr>gr_graph_ref = method_evidence_graph_ref env (sk_combined_sha256 sk) ?ss ?hs ?es ?ms ?lim,
    gr_skill_sha256 = sk_combined_sha256 sk, gr_sources = ?ss, gr_hits = ?hs, gr_events = ?es,
    gr_loaded_method_ids = ?ms, gr_limitations = ?lim\<rparr>"
  note hs = frozen_ordered [OF sk cf logs(2) names fit refs] and ms = loaded_ids_props [OF sk, of env cf logs]
    and ss = sources_ok [OF logs(2) refs] and groups = event_groups_frozen [OF refs, of ?fs, folded groups_of_def]
  have fs: "list_all snake_case ?fs" "distinct ?fs" using sk by (simp_all add: skill_methods_ok_def)
  have prio: "list_all (\<lambda>h. ht_method_priority h = card_priority sk (ht_method_id h)) ?hs"
    and hits: "list_all (valid_method_hit env) ?hs" "distinct (map ht_hit_ref ?hs)"
    using hs by (simp_all add: ordered_hits_def)
  have lim': "list_all valid_text ?lim" "\<not> list_ex blank_text ?lim" "distinct ?lim"
    using lim dedupe_keys.dd_subset [of limitations] dedupe_keys.dd_distinct [of limitations]
    by (auto simp: list_all_iff list_ex_iff valid_text_def)
  have "valid_graph_hits ?g"
  proof -
    have "case dict_by sr_source_ref ?ss (ht_source_ref h) of None \<Rightarrow> False | Some s \<Rightarrow> ht_source_id h = sr_source_id s"
      if h: "h \<in> set ?hs" for h
    proof -
      obtain c where "occurrence env cf sk logs h c" using h by (rule frozen_occurrence)
      from ss(4) [OF this] show ?thesis by auto
    qed
    then show ?thesis
      using ss(1,2) hits(2) sorted_frozen unfolding valid_graph_hits_def list_all_iff by simp
  qed
  moreover have "valid_graph_events ?g"
    unfolding valid_graph_events_def
  proof (intro conjI; simp only: method_graph.simps)
    show "distinct (map ev_event_ref ?es)"
      using refs unfolding refs_collide_free_def groups map_map comp_def by blast
    show "graph_events_ok ?hs [] ?es"
      using distinct_grouped unfolding groups_of_def by (intro groups_ok [OF hs]) (auto simp: groups_of_def)
    show "sort (concat (map ev_evidence_hit_refs ?es)) = sort (map ht_hit_ref ?hs)"
      by (rule properties_for_sort) (simp_all add: groups_partition del: map_map mset_map)
    show "sort_key (event_order_key ?hs) ?es = ?es" by (rule groups_sorted [OF hs])
  qed
  moreover have "valid_graph_methods ?g"
    unfolding valid_graph_methods_def using ms(1,2) lim'(3) loaded_unique [OF prio ms] by simp
  moreover have "list_all (valid_method_source env) ?ss"
    unfolding ss(3) using names fit by (simp add: list_all_iff source_id_ok_def target_log_ok_def identifiers_fit_def)
  moreover have "list_all method_id_ok ?ms"
    using hits(1) ms(2) by (auto simp: list_all_iff valid_method_hit_def)
  ultimately have valid: "valid_method_graph env ?g"
    using hits(1) lim'(1) group_event_valid [OF hs fs] by (simp add: valid_method_graph_def list_all_iff)
  moreover have scan: "scan_method_evidence env cf sk logs limitations = Inr ?g"
    using logs lim'(2) scanned_valid [OF sk cf names fit] valid
    by (simp add: scan_method_evidence_def Let_def groups ensure_def loaded_ids_def)
  moreover have "graph_of_skill sk ?g" by (rule scanned_graph_of_skill [OF sk scan])
  ultimately show thesis by (intro that [of ?g]) simp_all
qed

text \<open>An identifier that does not fit ends the scan.\<close>

lemma scan_refused:
  assumes "\<not> identifiers_fit env cf sk logs" and "distinct (map lg_source_id logs)"
    and "refs_collide_free env cf sk logs"
  shows "scan_method_evidence env cf sk logs limitations = Inl ValueError"
proof -
  note ss = sources_ok(3) [OF assms(2,3)]
  have "\<not> list_all (valid_method_source env) (sort_key sr_source_id (map (source_of_log env) logs)) \<or>
      \<not> list_all (valid_method_hit env) (map fst (scanned_hits env cf sk logs))"
  proof (cases "\<forall>l \<in> set logs. length (lg_source_id l) \<le> 256")
    case True
    then obtain h c where h: "occurrence env cf sk logs h c" "\<not> length (ht_method_id h) \<le> 256"
      using assms(1) unfolding identifiers_fit_def by blast
    have "h \<in> set (map fst (scanned_hits env cf sk logs))" using occurrence_scanned [OF h(1)] by force
    moreover have "\<not> valid_method_hit env h" using h(2) by (simp add: valid_method_hit_def method_id_ok_def)
    ultimately show ?thesis unfolding list_all_iff by blast
  next
    case False
    then show ?thesis unfolding ss by (auto simp: list_all_iff source_id_ok_def)
  qed
  then show ?thesis
    by (auto simp: scan_method_evidence_def Let_def ensure_def valid_method_graph_def)
qed

text \<open>The methods whose activation markers occur, and the hits of the scan in these terms.\<close>

definition activates :: "py_env \<Rightarrow> (text_t \<Rightarrow> text_t) \<Rightarrow> resolved_skill \<Rightarrow> target_log list \<Rightarrow> text_t \<Rightarrow> bool" where
  "activates env cf sk logs m \<longleftrightarrow>
     (\<exists>h c. occurrence env cf sk logs h c \<and> cd_id c = m \<and> ht_marker h \<in> set (cd_activation_markers c))"

lemma activated_iff: "m \<in> set (activated_ids (scanned_hits env cf sk logs)) \<longleftrightarrow> activates env cf sk logs m"
proof
  assume "m \<in> set (activated_ids (scanned_hits env cf sk logs))"
  then obtain h c where "occurrence env cf sk logs h c" "ht_method_id h = m" "ht_marker h \<in> set (cd_activation_markers c)"
    by (rule activated_card)
  moreover from this(1,2) have "cd_id c = m" unfolding occurrence_def by simp
  ultimately show "activates env cf sk logs m" unfolding activates_def by blast
next
  assume "activates env cf sk logs m"
  then obtain h c where h: "occurrence env cf sk logs h c" "cd_id c = m" "ht_marker h \<in> set (cd_activation_markers c)"
    unfolding activates_def by blast
  have "(h, True) \<in> set (scanned_hits env cf sk logs)" using occurrence_scanned [OF h(1)] h(3) by simp
  then have "(h, True) \<in> set (filter snd (scanned_hits env cf sk logs))" by simp
  from imageI [OF this, of "\<lambda>(h, _). ht_method_id h"] have "ht_method_id h \<in> set (activated_ids (scanned_hits env cf sk logs))"
    unfolding activated_ids_def set_map by simp
  moreover have "ht_method_id h = m" using h(1,2) unfolding occurrence_def by simp
  ultimately show "m \<in> set (activated_ids (scanned_hits env cf sk logs))" by simp
qed

lemma frozen_characterised:
  "h \<in> set (frozen_hits (scanned_hits env cf sk logs)) \<longleftrightarrow>
     (\<exists>c. occurrence env cf sk logs h c) \<and> activates env cf sk logs (ht_method_id h)"
proof -
  have "h \<in> set (map fst (scanned_hits env cf sk logs)) \<longleftrightarrow> (\<exists>c. occurrence env cf sk logs h c)"
  proof
    assume "h \<in> set (map fst (scanned_hits env cf sk logs))"
    then obtain a where "(h, a) \<in> set (scanned_hits env cf sk logs)" by auto
    then show "\<exists>c. occurrence env cf sk logs h c" by (rule scanned_occurrence) blast
  next
    assume "\<exists>c. occurrence env cf sk logs h c"
    then obtain c where "occurrence env cf sk logs h c" ..
    from imageI [OF occurrence_scanned [OF this], of fst] show "h \<in> set (map fst (scanned_hits env cf sk logs))" by simp
  qed
  then show ?thesis unfolding frozen_iff activated_iff by simp
qed

section \<open>Interface: a source of evidence graphs\<close>

text \<open>What the runtime relies on when it plans an evaluation: whatever graph it is given is valid and belongs to
  the Skill. Then the plan exists, binds to the graph, and the evaluation starts.\<close>

locale evidence_source =
  fixes env :: py_env and sk :: resolved_skill and scan :: "'l \<Rightarrow> text_t list \<Rightarrow> exn + method_graph"
  assumes graph_valid: "scan l ls = Inr g \<Longrightarrow> valid_method_graph env g"
    and graph_of: "skill_methods_ok sk \<Longrightarrow> scan l ls = Inr g \<Longrightarrow> graph_of_skill sk g"
begin

lemma source_planned:
  assumes "skill_methods_ok sk" and "scan l ls = Inr g"
    and "distinct (map (\<lambda>m. pl_evaluation_ref (planned_item env sk g m)) (gr_loaded_method_ids g))"
  obtains p where "build_method_evaluation_plan env sk g = Inr p" "valid_evaluation_plan env p" "plan_partitions p"
    "validate_method_evaluation_plan g p = Inr ()" "map pl_method_id (ep_evaluations p) = gr_loaded_method_ids g"
  using plan_total [OF graph_valid [OF assms(2)] graph_of [OF assms(1,2)] assms(3)] by blast

lemma source_empty_plan:
  assumes "skill_methods_ok sk" and "scan l ls = Inr g" and "gr_hits g = []"
  shows "\<exists>p. build_method_evaluation_plan env sk g = Inr p \<and> ep_evaluations p = []"
proof -
  have "gr_loaded_method_ids g = []" using graph_methods(1) [OF graph_valid [OF assms(2)]] assms(3) by simp
  with plan_total [OF graph_valid [OF assms(2)] graph_of [OF assms(1,2)]] show ?thesis by auto
qed

end

interpretation scanner: evidence_source env sk "scan_method_evidence env cf sk" for env cf sk
  by unfold_locales (fact scanned_graph(1), fact scanned_graph_of_skill)

end
