(* ===== verification/Methods_Scenario.thy ===== *)
theory Methods_Scenario
  imports Methods_Execution Methods_Evidence
begin

text \<open>
  A concrete Methods evaluation on which the witnesses are evaluated: a package with one method, one log
  with one matching line, its evidence graph and plan, and the states of the evaluation up to its
  agreement. The hash is constant and casefolding is the identity.
\<close>

section \<open>Package, log, graph and plan\<close>

definition mc_env :: py_env where
  "mc_env = \<lparr>env_fullmatch = (\<lambda>p s. p = s), env_sha256 = (\<lambda>_. ''h''), env_canonical_sha256 = (\<lambda>_. ''h'')\<rparr>"

definition mc_card :: method_card where
  "mc_card = \<lparr>cd_id = ''m1'', cd_priority = 1, cd_evidence_markers = [''ERR''], cd_activation_markers = [''ERR'']\<rparr>"

definition mc_skill :: resolved_skill where
  "mc_skill = \<lparr>sk_combined_sha256 = ''s'', sk_methods = [mc_card], sk_log_derived_fields = [''req'']\<rparr>"

definition mc_log :: target_log where
  "mc_log = \<lparr>lg_source_id = ''log'', lg_relative_path = ''a.log'', lg_content_sha256 = ''c'', lg_content = ''ERR req=7''\<rparr>"

definition mc_source :: method_source where
  "mc_source = \<lparr>sr_source_ref = ''source-h'', sr_source_id = ''log'', sr_relative_path = ''a.log'', sr_content_sha256 = ''c''\<rparr>"

definition mc_hit :: method_hit where
  "mc_hit = \<lparr>ht_hit_ref = ''hit-h'', ht_method_id = ''m1'', ht_method_priority = 1, ht_marker_index = 1,
     ht_source_ref = ''source-h'', ht_source_id = ''log'', ht_line_number = 1, ht_marker = ''ERR'', ht_line = ''ERR req=7''\<rparr>"

definition mc_event :: method_event where
  "mc_event = \<lparr>ev_event_ref = ''event-h'', ev_method_id = ''m1'', ev_method_priority = 1,
     ev_identity_tokens = [''req=7''], ev_evidence_hit_refs = [''hit-h'']\<rparr>"

definition mc_graph :: method_graph where
  "mc_graph = \<lparr>gr_graph_ref = ''graph-h'', gr_skill_sha256 = ''s'', gr_sources = [mc_source], gr_hits = [mc_hit],
     gr_events = [mc_event], gr_loaded_method_ids = [''m1''], gr_limitations = []\<rparr>"

definition mc_item :: plan_item where
  "mc_item = \<lparr>pl_evaluation_ref = ''eval-h'', pl_method_id = ''m1'', pl_method_priority = 1,
     pl_evidence_event_refs = [''event-h''], pl_evidence_hit_refs = [''hit-h'']\<rparr>"

definition mc_plan :: evaluation_plan where
  "mc_plan = \<lparr>ep_plan_ref = ''plan-h'', ep_skill_sha256 = ''s'', ep_evidence_graph_ref = ''graph-h'', ep_evaluations = [mc_item]\<rparr>"

lemmas mc_data = mc_env_def mc_card_def mc_skill_def mc_log_def mc_source_def mc_hit_def mc_event_def mc_graph_def
  mc_item_def mc_plan_def

lemmas mc_refs = method_evidence_source_ref_def method_evidence_hit_ref_def method_evidence_event_ref_def
  method_evidence_graph_ref_def method_evaluation_ref_def method_evaluation_plan_ref_def canonical_json_sha256_def

lemmas mc_names = method_id_ok_def kebab_case_def source_id_ok_def source_name_def snake_case_def starts_lower_def
  is_lower_def is_digit_def identity_token_ok_def token_name_def target_log_ok_def

lemma mc_skill_ok: "skill_methods_ok mc_skill"
  by (simp add: skill_methods_ok_def mc_data card_ok_def markers_ok_def marker_ok_def mc_names char_of_eq_iff take_bit_eq_mod)

lemma mc_log_ok: "list_all target_log_ok [mc_log]"
  by (simp add: mc_log_def mc_names)

lemma mc_casefold: "casefold_law id"
  by (simp add: casefold_law_def)

lemma mc_lines: "splitlines ''ERR req=7'' = [''ERR req=7'']"
  by (simp add: splitlines_def)

lemma mc_scanned: "scanned_hits mc_env id mc_skill [mc_log] = [(mc_hit, True)]"
  by (simp add: scanned_hits_def log_hits_def mc_lines indexed_markers_def cards_in_order_def bindings_of_card_def grouped_def
      line_bindings_def hit_of_def source_of_log_def mc_data mc_refs Let_def sublist_code)

lemma mc_fit: "identifiers_fit mc_env id mc_skill [mc_log]"
  by (auto simp: identifiers_fit_def occurrence_def mc_data)

lemma mc_frozen: "frozen_hits [(mc_hit, True)] = [mc_hit]"
  by (simp add: frozen_hits_def activated_ids_def)

lemma mc_identity: "line_identity [''req''] ''ERR req=7'' = [''req=7'']"
  by (simp add: line_identity_def map_filter_simps is_word_def is_lower_def is_digit_def)

lemma mc_groups: "event_groups (sk_log_derived_fields mc_skill) [mc_hit] = [((''m1'', [''req=7''], None), [mc_hit])]"
proof -
  have "identity_loop [''req''] [] [mc_hit] = [[''req=7'']]" by (simp add: mc_hit_def mc_identity)
  then show ?thesis by (simp add: event_groups_def grouped_def event_key_def mc_skill_def mc_hit_def)
qed

lemma mc_free: "refs_collide_free mc_env id mc_skill [mc_log]"
  by (simp add: refs_collide_free_def mc_scanned mc_frozen mc_groups)

text \<open>The same log under a name of 257 letters.\<close>

definition mc_long_log :: target_log where
  "mc_long_log = mc_log\<lparr>lg_source_id := replicate 257 (CHR ''a'')\<rparr>"

definition mc_long_hit :: method_hit where
  "mc_long_hit = mc_hit\<lparr>ht_source_id := replicate 257 (CHR ''a'')\<rparr>"

lemma joined_letters: "97 \<notin> set seps \<Longrightarrow> joined_words seps fresh (replicate (Suc n) 97)"
proof (induction n arbitrary: fresh)
  case (Suc n)
  then show ?case by (subst replicate_Suc) (simp add: is_lower_def del: replicate_Suc)
qed (simp add: is_lower_def)

lemma mc_long_log_ok: "list_all target_log_ok [mc_long_log]"
proof -
  have eq: "map of_char (replicate 257 (CHR ''a'')) = (replicate (Suc 256) 97 :: nat list)" by simp
  have "starts_lower (replicate (Suc 256) 97)" by (simp only: starts_lower_def replicate_Suc list.case is_lower_def) simp
  then have "source_name (replicate 257 (CHR ''a''))"
    unfolding source_name_def eq using joined_letters [of "[95, 45]" True 256] by (auto simp del: replicate_Suc)
  then show ?thesis by (simp add: mc_long_log_def target_log_ok_def)
qed

lemma mc_long_scanned: "scanned_hits mc_env id mc_skill [mc_long_log] = [(mc_long_hit, True)]"
proof -
  have "log_hits mc_env id ix mc_long_log =
      map (\<lambda>(h, a). (h\<lparr>ht_source_id := replicate 257 (CHR ''a'')\<rparr>, a)) (log_hits mc_env id ix mc_log)" for ix
    by (simp add: log_hits_def map_concat comp_def hit_of_def mc_long_log_def source_of_log_def mc_env_def mc_refs
        case_prod_unfold)
  moreover have "log_hits mc_env id (indexed_markers id mc_skill) mc_log = [(mc_hit, True)]"
    using mc_scanned by (simp add: scanned_hits_def)
  ultimately show ?thesis by (simp add: scanned_hits_def mc_long_hit_def)
qed

lemma mc_long_free: "refs_collide_free mc_env id mc_skill [mc_long_log]"
proof -
  have "identity_loop [''req''] [] [mc_long_hit] = [[''req=7'']]" by (simp add: mc_long_hit_def mc_hit_def mc_identity)
  then have "event_groups (sk_log_derived_fields mc_skill) [mc_long_hit] = [((''m1'', [''req=7''], None), [mc_long_hit])]"
    by (simp add: event_groups_def grouped_def event_key_def mc_skill_def mc_long_hit_def mc_hit_def)
  moreover have "frozen_hits [(mc_long_hit, True)] = [mc_long_hit]" by (simp add: frozen_hits_def activated_ids_def)
  ultimately show ?thesis by (simp add: refs_collide_free_def mc_long_scanned)
qed

lemma mc_graph_valid: "valid_method_graph mc_env mc_graph" "graph_of_skill mc_skill mc_graph"
proof -
  have "valid_graph_hits mc_graph" by (simp add: valid_graph_hits_def mc_data dict_by_def)
  moreover have "valid_graph_events mc_graph"
    by (simp add: valid_graph_events_def mc_data dict_by_def)
  moreover have "valid_graph_methods mc_graph"
    by (simp add: valid_graph_methods_def priorities_stable_def method_priorities_def mc_data)
  ultimately show "valid_method_graph mc_env mc_graph"
    by (simp add: valid_method_graph_def valid_method_source_def valid_method_hit_def valid_method_event_def mc_data mc_refs
        unique_refs_def mc_names)
  show "graph_of_skill mc_skill mc_graph"
    by (simp add: graph_of_skill_def mc_data hit_card_ok_def method_activated_def dict_by_def)
qed

lemma mc_scan: "scan_method_evidence mc_env id mc_skill [mc_log] [] = Inr mc_graph"
proof -
  have parts: "map (event_of_group mc_env) [((''m1'', [''req=7''], None), [mc_hit])] = [mc_event]"
    "sort_key sr_source_id (map (source_of_log mc_env) [mc_log]) = [mc_source]"
    "map cd_id (filter (\<lambda>c. cd_id c \<in> set (activated_ids [(mc_hit, True)])) (cards_in_order mc_skill)) = [''m1'']"
    by (simp_all add: event_of_group_def source_of_log_def activated_ids_def cards_in_order_def mc_data mc_refs)
  have "method_evidence_graph_ref mc_env (sk_combined_sha256 mc_skill) [mc_source] [mc_hit] [mc_event] [''m1''] [] = ''graph-h''"
    by (simp add: mc_env_def mc_refs)
  moreover have "sk_combined_sha256 mc_skill = ''s''" by (simp add: mc_skill_def)
  moreover have "list_all (valid_method_hit mc_env) (map fst [(mc_hit, True)])"
    using scanned_valid [OF mc_skill_ok mc_casefold mc_log_ok mc_fit] by (simp only: mc_scanned)
  ultimately show ?thesis
    using mc_graph_valid(1) unfolding scan_method_evidence_def Let_def mc_scanned mc_frozen mc_groups parts
    by (simp add: ensure_def dedupe_def mc_graph_def)
qed

lemma mc_plan_ok: "valid_evaluation_plan mc_env mc_plan" "plan_partitions mc_plan"
  "validate_method_evaluation_plan mc_graph mc_plan = Inr ()"
  by (simp_all add: valid_evaluation_plan_def valid_plan_item_def unique_refs_def plan_partitions_def mc_names
      validate_method_evaluation_plan_def mc_data mc_refs dict_by_def methods_of_event_def hits_of_method_def plan_item_bound_def ensure_def)

lemma mc_plan_built: "build_method_evaluation_plan mc_env mc_skill mc_graph = Inr mc_plan"
proof -
  have "map (planned_item mc_env mc_skill mc_graph) (gr_loaded_method_ids mc_graph) = [mc_item]"
    by (simp add: planned_item_def mc_data mc_refs dict_by_def methods_of_event_def hits_of_method_def)
  moreover have "method_evaluation_plan_ref mc_env (sk_combined_sha256 mc_skill) (gr_graph_ref mc_graph) [mc_item] = ''plan-h''"
    by (simp add: mc_env_def mc_refs)
  moreover have "sk_combined_sha256 mc_skill = ''s''" "gr_graph_ref mc_graph = ''graph-h''" by (simp_all add: mc_data)
  ultimately show ?thesis
    using mc_plan_ok mc_graph_valid(2) unfolding build_method_evaluation_plan_def Let_def
    by (simp add: ensure_def mc_plan_def)
qed

section \<open>States\<close>

definition mc_start :: method_state where
  "mc_start = \<lparr>ms_state_ref = ''state-h'', ms_case_id = ''case'', ms_source_job_id = ''job'', ms_evaluation_id = ''e'',
     ms_plan_ref = ''plan-h'', ms_evaluation_refs = [''eval-h''], ms_status = M_SPECIALIST_PENDING,
     ms_current_role = Some SPECIALIST, ms_specialist_protocol_failures = 0, ms_reviewer_protocol_failures = 0,
     ms_specialist_evaluation = None, ms_reviewer_evaluation = None, ms_consensus = None, ms_reason_code = None,
     ms_diagnostic_id = None, ms_diagnostic_evaluation_ref = None, ms_reasons = []\<rparr>"

definition mc_answer :: "method_role \<Rightarrow> bool \<Rightarrow> role_evaluation" where
  "mc_answer role repair = \<lparr>re_role = role, re_plan_ref = ''plan-h'', re_evaluations = [\<lparr>ot_evaluation_ref = ''eval-h'',
     ot_verdict = CONFIRMED, ot_supporting_event_refs = [''event-h''], ot_reason = ''seen''\<rparr>], re_repair_used = repair\<rparr>"

definition mc_waiting :: method_state where
  "mc_waiting = mc_start\<lparr>ms_status := M_REVIEWER_PENDING, ms_current_role := Some REVIEWER,
     ms_specialist_evaluation := Some (mc_answer SPECIALIST False)\<rparr>"

lemmas mc_run = driver_inv_def evaluated_under_def plan_of_state_def valid_method_state_def method_state_ref_def
  canonical_json_sha256_def fits_defs pending_role_def mc_answer_def mc_start_def mc_waiting_def role_covers_plan_def
  supports_in_order_def valid_role_evaluation_def valid_output_item_def valid_text_def

lemma mc_start_inv: "driver_inv mc_env mc_plan mc_start" "pending_role mc_start SPECIALIST"
  by (simp_all add: mc_run mc_data)

lemma mc_waiting_inv: "driver_inv mc_env mc_plan mc_waiting" "pending_role mc_waiting REVIEWER"
  by (simp_all add: mc_run mc_data blank_text_def max_user_text_utf8_bytes_def)

section \<open>Executions\<close>

definition mc_document :: json where
  "mc_document = JList [JObj [(''evaluation_ref'', JStr ''eval-h''), (''verdict'', JStr ''CONFIRMED''),
     (''supporting_event_refs'', JList [JStr ''event-h'']), (''reason'', JStr ''seen'')]]"

text \<open>The first response cannot be read, the second one is the document.\<close>

definition mc_io :: driver_io where
  "mc_io = \<lparr>io_attempt = (\<lambda>repair. if repair then Io_Document mc_document else Io_Unreadable ''not JSON''),
     io_archived = (\<lambda>_. True), io_committed = (\<lambda>_. True), io_attributed = True, io_primary_rejected = False,
     io_repair_rejected = False, io_prepared = Prepared\<rparr>"

definition mc_review :: reviewer_source where
  "mc_review = \<lparr>rv_case_id = ''case'', rv_job_id = ''review'', rv_source_job_id = ''job'', rv_evaluation_id = ''e'',
     rv_predecessor = None, rv_source = Some mc_waiting, rv_package_method_count = 1\<rparr>"

lemma mc_attempts:
  "run_method_role_attempt role mc_plan False (io_attempt mc_io False) = Rejected ''not JSON''"
  "run_method_role_attempt role mc_plan True (io_attempt mc_io True) = Validated (mc_answer role True)"
  by (simp_all add: run_method_role_attempt_def mc_io_def evaluate_method_role_def parse_method_evaluation_response_def
      mc_document_def output_item_of_json_def mc_run mc_data blank_text_def max_user_text_utf8_bytes_def ensure_def Let_def)

lemma mc_records: "records_ok mc_io 0"
  by (simp add: records_ok_def mc_io_def blank_text_def)

lemma mc_review_ok: "review_inputs_ok mc_env mc_plan mc_graph mc_review"
  "read_methods_reviewer_state mc_env mc_review mc_plan = Inr mc_waiting"
proof -
  show "review_inputs_ok mc_env mc_plan mc_graph mc_review"
    using mc_plan_ok(1,2) by (simp add: review_inputs_ok_def mc_review_def mc_plan_def mc_graph_def)
  show "read_methods_reviewer_state mc_env mc_review mc_plan = Inr mc_waiting"
    by (simp add: read_methods_reviewer_state_def mc_review_def mc_waiting_def mc_start_def mc_plan_def mc_item_def ensure_def)
qed

lemma mc_review_answer:
  "role_covers_plan mc_plan (mc_answer role repair)" "valid_role_evaluation (mc_answer role repair)"
  "roles_resolve (mc_answer SPECIALIST a) (mc_answer REVIEWER b)"
  by (simp_all add: mc_run mc_data blank_text_def max_user_text_utf8_bytes_def roles_resolve_def blind_def)

end
