(* ===== verification/Methods_Properties.thy ===== *)
theory Methods_Properties
  imports Methods_Scenario
begin

text \<open>
  The properties of a Methods evaluation, from the scan of the logs to the projected result, with the
  witnesses that apply them to the concrete evaluation of \<open>Methods_Scenario\<close>.
\<close>

section \<open>From logs to a plan\<close>



text \<open>C18. Every evidence graph of the Skill has an evaluation plan: one item per loaded method in the
  order of priority, whose event and hit references partition those of the graph.\<close>

theorem graph_has_plan:
  assumes "valid_method_graph env g" and "graph_of_skill sk g"
    and "distinct (map (\<lambda>m. pl_evaluation_ref (planned_item env sk g m)) (gr_loaded_method_ids g))"
  shows "\<exists>p. build_method_evaluation_plan env sk g = Inr p \<and> valid_evaluation_plan env p \<and>
    validate_method_evaluation_plan g p = Inr () \<and> map pl_method_id (ep_evaluations p) = gr_loaded_method_ids g \<and>
    concat (map pl_evidence_event_refs (ep_evaluations p)) = map ev_event_ref (gr_events g) \<and>
    concat (map pl_evidence_hit_refs (ep_evaluations p)) = map ht_hit_ref (gr_hits g)"
  using plan_total [OF assms] by (auto simp: validate_method_evaluation_plan_def ensure_def split: if_splits)

theorem graph_has_plan_witness:
  "build_method_evaluation_plan mc_env mc_skill mc_graph = Inr mc_plan \<and>
   concat (map pl_evidence_hit_refs (ep_evaluations mc_plan)) = [''hit-h'']"
proof -
  have "gr_loaded_method_ids mc_graph = [''m1'']" "map ht_hit_ref (gr_hits mc_graph) = [''hit-h'']"
    by (simp_all add: mc_graph_def mc_hit_def)
  then show ?thesis using graph_has_plan [OF mc_graph_valid] mc_plan_built by force
qed

lemma started:
  assumes "start_method_state env case_id job_id evaluation_id p = Inr s"
  shows "ms_specialist_evaluation s = None" "ms_reviewer_evaluation s = None" "ms_consensus s = None"
    "ms_specialist_protocol_failures s = 0" "ms_current_role s \<noteq> Some REVIEWER"
  using assms by (auto simp: start_method_state_def Let_def make_state_Inr split: if_splits)



section \<open>The evaluation as a state machine\<close>

text \<open>C20. Along every run of an evaluation, whatever the order of answers, rejected responses, failures,
  pauses and resumptions, the state stays valid and bound to its case, evaluation and plan, and the two
  roles together make at most four attempts.\<close>

theorem evaluation_run_bounded:
  assumes "valid_evaluation_plan env p" and "start_method_state env case_id job_id evaluation_id p = Inr s"
    and "method_run env p s acts s'"
  shows "valid_method_state env s' \<and> plan_of_state p s' \<and> ms_case_id s' = ms_case_id s \<and>
    ms_evaluation_id s' = ms_evaluation_id s \<and> length (filter is_attempt acts) \<le> 4"
proof -
  have s: "valid_method_state env s" "plan_of_state p s" 
    using start_ok [OF assms(1), of case_id job_id evaluation_id] assms(2) by auto
  note run = run_invariant [OF assms(3) s(1)]
  have "attempts_left s \<le> 4" using started(4,5) [OF assms(2)] by (auto simp: attempts_left_def split: option.splits method_role.splits)
  moreover have "0 \<le> attempts_left s'" using attempts_nonneg run by blast
  ultimately have "length (filter is_attempt acts) \<le> 4" using run by linarith
  with run s(2) show ?thesis by (auto simp: same_evaluation_def plan_of_state_def)
qed

theorem evaluation_run_bounded_witness:
  "\<exists>s s'. start_method_state mc_env ''case'' ''job'' ''e'' mc_plan = Inr s \<and>
     method_run mc_env mc_plan s [Pause] s' \<and> valid_method_state mc_env s'"
proof -
  obtain s where s: "start_method_state mc_env ''case'' ''job'' ''e'' mc_plan = Inr s" "valid_method_state mc_env s"
    "pending_role s SPECIALIST"
    using start_ok [OF mc_plan_ok(1), of "''case''" "''job''" "''e''"] by (auto simp: mc_plan_def)
  obtain s' where "interrupt_method_state mc_env s = Inr s'" using interrupt_ok [OF s(2,3)] by blast
  then have run: "method_run mc_env mc_plan s [Pause] s'" by (rule method_run.go [OF method_step.pause method_run.stop])
  with evaluation_run_bounded [OF mc_plan_ok(1) s(1) run] s(1) show ?thesis by blast
qed

text \<open>A resolved, unresolved or failed evaluation is final: the only steps it still allows are aborts,
  and these leave it failed.\<close>

lemma ended_evaluation_is_final:
  assumes "method_run env p s acts s'" and "terminal s"
  shows "set acts \<subseteq> {Abort} \<and> (if acts = [] then s' = s else ms_status s' = M_FAILED)"
  using assms
proof (induction rule: method_run.induct)
  case (go s act s1 acts s')
  have "act = Abort" "ms_status s1 = M_FAILED"
    using terminal_steps [OF go.hyps(1)] go.prems by (auto simp: terminal_def)
  with go.IH show ?case by (auto simp: terminal_def split: if_splits)
qed simp

text \<open>C22. Interrupting a waiting evaluation and resuming it for the same job is the identity on states,
  their references included.\<close>

theorem resume_undoes_interrupt:
  assumes "valid_method_state env s" and "pending_role s role"
  shows "\<exists>s'. interrupt_method_state env s = Inr s' \<and> ms_status s' = M_INTERRUPTED \<and>
    resume_method_state env s' None = Inr s"
  using interrupt_ok [OF assms] resume_interrupt [OF assms] by blast

theorem resume_undoes_interrupt_witness:
  "\<exists>s'. interrupt_method_state mc_env mc_start = Inr s' \<and> resume_method_state mc_env s' None = Inr mc_start"
  using resume_undoes_interrupt [of mc_env mc_start SPECIALIST] mc_start_inv by (auto simp: driver_inv_def)

section \<open>Agreement of the roles\<close>

text \<open>C23. The answer of the reviewer always ends the evaluation, and it is resolved exactly when both
  roles agree without reading each other's reasons: the same verdict and the same supporting events for
  every method, none unknown and at least one confirmed; otherwise it is unresolved with the reason of the
  first disagreement.\<close>

theorem reviewer_decides_by_agreement:
  assumes "valid_method_state env s" and "pending_role s REVIEWER" and "ms_specialist_evaluation s = Some a"
    and "plan_of_state p s" and "valid_evaluation_plan env p" and "plan_partitions p"
    and "role_covers_plan p a" and "role_covers_plan p b" and "valid_role_evaluation b" and "re_role b = REVIEWER"
    and "validate_repair_attempt s b REVIEWER"
  shows "\<exists>c s'. resolve_method_consensus p a b = Inr c \<and> finalize_reviewer_consensus env s p b c = Inr s' \<and>
    (if roles_resolve a b then ms_status s' = M_RESOLVED \<and> ms_reason_code s' = None
     else ms_status s' = M_UNRESOLVED \<and> ms_reason_code s' = Some (fst (consensus_reason a b)))"
  by (rule reviewer_finalizes [OF assms])

theorem reviewer_decides_by_agreement_witness:
  "\<exists>c s'. resolve_method_consensus mc_plan (mc_answer SPECIALIST False) (mc_answer REVIEWER False) = Inr c \<and>
     finalize_reviewer_consensus mc_env mc_waiting mc_plan (mc_answer REVIEWER False) c = Inr s' \<and> ms_status s' = M_RESOLVED"
proof -
  have "ms_specialist_evaluation mc_waiting = Some (mc_answer SPECIALIST False)" by (simp add: mc_waiting_def)
  moreover have "re_role (mc_answer REVIEWER False) = REVIEWER"
    "validate_repair_attempt mc_waiting (mc_answer REVIEWER False) REVIEWER"
    by (simp_all add: mc_answer_def validate_repair_attempt_def mc_waiting_def mc_start_def)
  moreover have "valid_method_state mc_env mc_waiting" "plan_of_state mc_plan mc_waiting"
    using mc_waiting_inv(1) by (simp_all add: driver_inv_def evaluated_under_def)
  ultimately show ?thesis
    using reviewer_decides_by_agreement [OF _ mc_waiting_inv(2) _ _ mc_plan_ok(1,2) mc_review_answer(1) mc_review_answer(1,2)]
      mc_review_answer(3) by fastforce
qed

section \<open>The drivers\<close>

text \<open>C24. Whatever the backend answers and whichever records can be committed, the specialist of a stored
  evaluation ends with a valid state of its plan, handed to the reviewer, terminal or interrupted, or
  with the two exceptions the runtime reports itself; no exception of the reducer escapes.\<close>

theorem specialist_driver_sound:
  assumes "driver_inv env p s" and "ms_status s \<noteq> M_INTERRUPTED" and "records_ok io (ms_specialist_protocol_failures s)"
  shows "case execute_methods_specialist env reviewer_enabled p io s of
      Answered _ _ \<Rightarrow> False
    | Handed_Over t \<Rightarrow> driver_inv env p t \<and> pending_role t REVIEWER
    | Ended t \<Rightarrow> driver_inv env p t \<and> terminal t
    | Interrupted t \<Rightarrow> driver_inv env p t \<and> ms_status t = M_INTERRUPTED
    | Escaped e \<Rightarrow> e \<in> {Context_Limit, Archive_Failed}"
  using execute_specialist_ok [OF assms, of reviewer_enabled]
  by (cases "execute_methods_specialist env reviewer_enabled p io s") simp_all

theorem specialist_driver_sound_witness:
  "exit_ok mc_env mc_plan (execute_methods_specialist mc_env False mc_plan mc_io mc_waiting)"
proof -
  have "ms_status mc_waiting = M_REVIEWER_PENDING" "ms_specialist_protocol_failures mc_waiting = 0"
    by (simp_all add: mc_waiting_def mc_start_def)
  with specialist_driver_sound [OF mc_waiting_inv(1), of mc_io False] mc_records show ?thesis
    by (auto split: role_exit.splits)
qed

text \<open>The reviewer driver is sound in the same sense, once the stored state of the specialist has been
  read.\<close>

lemma reviewer_driver_sound:
  assumes "review_inputs_ok env p g src" and "read_methods_reviewer_state env src p = Inr s" and "driver_inv env p s"
    and "records_ok io (ms_reviewer_protocol_failures s)"
  shows "case evaluate_methods_reviewer env p g io src of
      Ended t \<Rightarrow> driver_inv env p t \<and> terminal t
    | Handed_Over t \<Rightarrow> driver_inv env p t \<and> pending_role t REVIEWER
    | Interrupted t \<Rightarrow> driver_inv env p t \<and> ms_status t = M_INTERRUPTED
    | Escaped e \<Rightarrow> e \<in> {Context_Limit, Archive_Failed}
    | Answered _ _ \<Rightarrow> False"
  using evaluate_reviewer_ok [OF assms] by (cases "evaluate_methods_reviewer env p g io src") simp_all

text \<open>C26. The specialist gets exactly one repair: a rejected first response followed by a valid one is
  answered and marked as repaired, two rejected responses leave the evaluation unresolved with the reason
  of an exhausted repair.\<close>

theorem specialist_repairs_once:
  assumes "driver_inv env p s" and "pending_role s SPECIALIST" and "ms_specialist_protocol_failures s = 0"
    and "\<not> io_primary_rejected io" and "\<not> io_repair_rejected io" and "io_archived io False" and "io_archived io True"
    and "run_method_role_attempt SPECIALIST p False (io_attempt io False) = Rejected m" and "\<not> blank_text m"
  shows "(\<forall>ev. run_method_role_attempt SPECIALIST p True (io_attempt io True) = Validated ev \<longrightarrow>
        (\<exists>s'. evaluate_methods_specialist env p io s = Answered s' ev \<and> re_repair_used ev)) \<and>
    (\<forall>m'. run_method_role_attempt SPECIALIST p True (io_attempt io True) = Rejected m' \<and> \<not> blank_text m' \<longrightarrow>
        (\<exists>t. evaluate_methods_specialist env p io s = Ended t \<and> ms_status t = M_UNRESOLVED \<and>
           ms_reason_code t = Some MR_SPECIALIST_PROTOCOL_REPAIR_EXHAUSTED))"
  using repair_once [OF assms] by blast

theorem specialist_repairs_once_witness:
  "\<exists>s'. evaluate_methods_specialist mc_env mc_plan mc_io mc_start = Answered s' (mc_answer SPECIALIST True)"
proof -
  have "\<not> blank_text ''not JSON''" by (simp add: blank_text_def)
  moreover have "\<not> io_primary_rejected mc_io" "\<not> io_repair_rejected mc_io" "io_archived mc_io False" "io_archived mc_io True"
    "ms_specialist_protocol_failures mc_start = 0"
    by (simp_all add: mc_io_def mc_start_def)
  ultimately show ?thesis
    using specialist_repairs_once [OF mc_start_inv, of mc_io] mc_attempts by blast
qed

text \<open>C27. Every terminal evaluation gets its result and its public projection: the result is bound to the
  state, the plan and the graph, the projection is valid and has the status of the state; when the state
  cannot be committed, both are those of the failed audit.\<close>

theorem terminal_evaluation_projected:
  assumes "driver_inv env p s" and "terminal s" and "valid_evaluation_plan env p" and "valid_method_graph env g"
    and "validate_method_evaluation_plan g p = Inr ()" and "list_all valid_text limitations"
  shows "\<exists>t r q. finish_methods_terminal env io p g job limitations persist s = Inr (t, r) \<and>
    (if persist \<and> \<not> io_committed io s then ms_status t = M_FAILED \<and> ms_reason_code t = Some MR_AUDIT_ARCHIVE_FAILED else t = s) \<and>
    result_bound t r p g \<and> project_method_terminal_result env r = Inr q \<and> valid_projection q \<and>
    mp_status q = terminal_status_of (ms_status t) \<and> mp_case_id q = ms_case_id t \<and> mp_source_job_id q = job"
  by (rule finish_ok [OF assms])

theorem terminal_evaluation_projected_witness:
  "\<exists>s r q. finish_methods_terminal mc_env mc_io mc_plan mc_graph ''job'' [] True s = Inr (s, r) \<and>
     project_method_terminal_result mc_env r = Inr q \<and> mp_status q = MT_FAILED"
proof -
  obtain s where s: "driver_inv mc_env mc_plan s" "ms_status s = M_FAILED"
    using fail_exit [OF mc_start_inv(1), of MR_SERVER_INVARIANT_VIOLATION "''x''"] by (auto simp: reason_codes blank_text_def)
  then have "terminal s" by (simp add: terminal_def)
  from terminal_evaluation_projected [OF s(1) this mc_plan_ok(1) mc_graph_valid(1) mc_plan_ok(3), of "[]" mc_io "''job''" True]
  show ?thesis using s(2) by (auto simp: mc_io_def)
qed

text \<open>C28. A replacement job can take over the evaluation of its predecessor only if that one was
  interrupted: with a predecessor in any other status the specialist does not start, even when its answer
  was already waiting for the reviewer.\<close>

theorem replacement_needs_interrupted:
  assumes "ms_status q \<noteq> M_INTERRUPTED"
  shows "stored_specialist_state env job_id True None (Some q) = Inl ValueError"
  using assms by (simp add: stored_specialist_state_def resume_method_state_def split: option.splits)

theorem replacement_needs_interrupted_witness:
  "stored_specialist_state mc_env ''job2'' True None (Some mc_waiting) = Inl ValueError"
  by (rule replacement_needs_interrupted) (simp add: mc_waiting_def)

end
