(* ===== verification/PL_Dict.thy ===== *)
theory PL_Dict
  imports PL_Prelude "HOL-Library.AList"
begin

text \<open>
  Python dictionaries of the persisted state as association lists in insertion order:
  \<open>d[k] = v\<close> is \<^const>\<open>AList.update\<close>, which overwrites in place or appends, \<open>d.get(k)\<close> is
  \<^const>\<open>map_of\<close>, \<open>d.values()\<close> and \<open>d.keys()\<close> are the projections. A dictionary never repeats a key,
  \<open>dict_ok\<close>, and every operation keeps that.
\<close>

type_synonym 'v dict = "(opaque_id \<times> 'v) list"

definition dict_ok :: "('k \<times> 'v) list \<Rightarrow> bool" where
  "dict_ok d \<longleftrightarrow> distinct (map fst d)"

abbreviation dict_keys :: "('k \<times> 'v) list \<Rightarrow> 'k list" where
  "dict_keys d \<equiv> map fst d"

abbreviation dict_items :: "('k \<times> 'v) list \<Rightarrow> 'v list" where
  "dict_items d \<equiv> map snd d"

text \<open>\<open>_insert_unique\<close>: an immutable object enters once.\<close>

definition insert_unique :: "('k \<times> 'v) list \<Rightarrow> 'k \<Rightarrow> 'v \<Rightarrow> exn + ('k \<times> 'v) list" where
  "insert_unique d k v = (if k \<in> set (dict_keys d) then Inl ValueError else Inr (AList.update k v d))"

text \<open>Sequencing of code with another error type, and a loop that threads a state through a body that may
  fail.\<close>

fun bindS :: "'e + 'a \<Rightarrow> ('a \<Rightarrow> 'e + 'b) \<Rightarrow> 'e + 'b" where
  "bindS (Inl e) f = Inl e"
| "bindS (Inr x) f = f x"

lemma bindS_Inr: "bindS r f = Inr y \<longleftrightarrow> (\<exists>x. r = Inr x \<and> f x = Inr y)"
  by (cases r) auto

lemma bindS_InrE:
  assumes "bindS r f = Inr y"
  obtains x where "r = Inr x" "f x = Inr y"
  using assms by (auto simp: bindS_Inr)

fun foldS :: "('a \<Rightarrow> 's \<Rightarrow> 'e + 's) \<Rightarrow> 'a list \<Rightarrow> 's \<Rightarrow> 'e + 's" where
  "foldS f [] s = Inr s"
| "foldS f (x # xs) s = bindS (f x s) (foldS f xs)"

lemma foldS_invariant:
  assumes "foldS f xs s = Inr s'" and "P s"
    and step: "\<And>x t t'. x \<in> set xs \<Longrightarrow> f x t = Inr t' \<Longrightarrow> P t \<Longrightarrow> P t'"
  shows "P s'"
  using assms(1,2) step
proof (induction xs arbitrary: s)
  case (Cons x xs)
  from Cons.prems(1) obtain t where t: "f x s = Inr t" "foldS f xs t = Inr s'"
    by (auto simp: bindS_Inr)
  have "P t" using Cons.prems(3) [of x s t] t(1) Cons.prems(2) by simp
  then show ?case by (intro Cons.IH [OF t(2)]) (auto intro: Cons.prems(3))
qed simp

lemma map_filter_via_map: "List.map_filter f xs = List.map_filter (\<lambda>x. x) (map f xs)"
  by (induction xs) (auto simp: List.map_filter_simps split: option.splits)

section \<open>Laws of the dictionary operations\<close>

lemma dict_ok_Nil [simp]: "dict_ok []"
  by (simp add: dict_ok_def)

lemma dict_ok_update [simp]: "dict_ok d \<Longrightarrow> dict_ok (AList.update k v d)"
  by (simp add: dict_ok_def distinct_update)

lemma map_of_update [simp]: "map_of (AList.update k v d) = (map_of d)(k \<mapsto> v)"
  by (rule update_conv')

lemma dict_get_iff: "dict_ok d \<Longrightarrow> map_of d k = Some v \<longleftrightarrow> (k, v) \<in> set d"
  by (simp add: dict_ok_def)

lemma dict_get_item: "map_of d k = Some v \<Longrightarrow> v \<in> set (dict_items d)"
  by (force dest: map_of_SomeD)

lemma dict_get_key: "map_of d k = Some v \<Longrightarrow> k \<in> set (dict_keys d)"
  by (force dest: map_of_SomeD)

lemma dict_key_get: "k \<in> set (dict_keys d) \<Longrightarrow> \<exists>v. map_of d k = Some v"
  by (metis list.set_map map_of_eq_None_iff not_None_eq)

lemma update_new: "k \<notin> set (dict_keys d) \<Longrightarrow> AList.update k v d = d @ [(k, v)]"
  by (induction d) auto

lemma dict_keys_update: "k \<in> set (dict_keys d) \<Longrightarrow> dict_keys (AList.update k v d) = dict_keys d"
  by (induction d) auto

lemma set_update:
  "dict_ok d \<Longrightarrow> set (AList.update k v d) = {(k, v)} \<union> {p \<in> set d. fst p \<noteq> k}"
  by (induction d) (auto simp: dict_ok_def image_iff)

lemma set_dict_keys_update [simp]: "set (dict_keys (AList.update k v d)) = insert k (set (dict_keys d))"
  by (induction d) auto

lemma dict_items_update:
  "dict_ok d \<Longrightarrow> set (dict_items (AList.update k v d)) \<subseteq> insert v (set (dict_items d))"
  by (auto simp: set_update)

lemma dict_items_map:
  assumes "dict_ok d" and "map_of d k = Some v" and "\<And>a. a \<in> set (dict_items d) \<Longrightarrow> a \<noteq> v \<Longrightarrow> g a = a"
    and "\<And>i. (i, v) \<in> set d \<Longrightarrow> i = k"
  shows "AList.update k (g v) d = map (\<lambda>(i, a). (i, g a)) d"
  using assms
proof (induction d)
  case (Cons p d)
  obtain i a where p: "p = (i, a)" by fastforce
  show ?case
  proof (cases "i = k")
    case True
    then have "v = a" using Cons.prems(2) p by simp
    have "k \<notin> fst ` set d" using Cons.prems(1) True p by (auto simp: dict_ok_def)
    then have "(j, b) \<in> set d \<Longrightarrow> g b = b" for j b
      using Cons.prems(3) [of b] Cons.prems(4) [of j] p True
      by (metis (no_types, lifting) fst_conv image_eqI list.set_intros(2) list.set_map snd_conv)
    then have "map (\<lambda>(i, a). (i, g a)) d = d" by (auto intro!: map_idI)
    then show ?thesis using p True \<open>v = a\<close> by simp
  next
    case False
    have "a \<noteq> v" using Cons.prems(4) [of i] p False by auto
    then have "g a = a" using Cons.prems(3) [of a] p by simp
    moreover have "AList.update k (g v) d = map (\<lambda>(i, a). (i, g a)) d"
      using Cons.prems p False by (intro Cons.IH) (auto simp: dict_ok_def)
    ultimately show ?thesis using p False by simp
  qed
qed simp

lemma insert_unique_Inr:
  "insert_unique d k v = Inr d' \<longleftrightarrow> k \<notin> set (dict_keys d) \<and> d' = d @ [(k, v)]"
  unfolding insert_unique_def using update_new [of k d v] by (auto simp del: list.set_map set_map)

lemma insert_unique_ok: "insert_unique d k v = Inr d' \<Longrightarrow> dict_ok d \<Longrightarrow> dict_ok d'"
  by (auto simp: insert_unique_Inr dict_ok_def)

lemma insert_unique_keeps: "insert_unique d k v = Inr d' \<Longrightarrow> map_of d i = Some a \<Longrightarrow> map_of d' i = Some a"
  by (auto simp: insert_unique_Inr map_add_def split: option.splits)

lemma insert_unique_gets: "insert_unique d k v = Inr d' \<Longrightarrow> map_of d' k = Some v"
  by (auto simp: insert_unique_Inr map_add_def map_of_eq_None_iff [symmetric] split: option.splits)

end
