(* ===== verification/Resource_Models.thy ===== *)
theory Resource_Models
  imports PL_Dict State_Contract
begin

text \<open>
  The persisted objects of a case beside the case and its jobs (\<open>contracts/models.py\<close>): attachments,
  evidence, artifacts, the audit records of outcomes and failures, and \<open>CaseAggregate\<close>, which holds
  them by identifier. \<open>store_env\<close> adds to \<open>py_env\<close> the canonical JSON bytes of an outcome and of an
  execution failure, and the instant a service timestamp denotes.
\<close>

record store_env =
  sv_py :: py_env
  sv_outcome_bytes :: "job_outcome \<Rightarrow> text_t"
  sv_failure_bytes :: "execution_failure \<Rightarrow> text_t"
  sv_instant :: "timestamp \<Rightarrow> int"

section \<open>Resources\<close>

record resource_ref =
  rr_resource_kind :: resource_kind
  rr_storage_key :: text_t
  rr_size :: int
  rr_sha256 :: sha256_t

record attachment =
  at_attachment_id :: opaque_id
  at_case_id :: opaque_id
  at_status :: attachment_status
  at_name :: text_t
  at_content_type :: text_t
  at_declared_size :: "int option"
  at_declared_sha256 :: "sha256_t option"
  at_size :: "int option"
  at_sha256 :: "sha256_t option"
  at_storage_key :: "text_t option"
  at_created_at :: timestamp
  at_updated_at :: timestamp

record evidence =
  vd_evidence_id :: opaque_id
  vd_case_id :: opaque_id
  vd_source_type :: evidence_source_type
  vd_source_ref :: opaque_id
  vd_locator :: evidence_locator
  vd_summary :: text_t
  vd_collected_at :: timestamp
  vd_content_hash :: "sha256_t option"
  vd_resource_ref :: "resource_ref option"

definition valid_evidence :: "evidence \<Rightarrow> bool" where
  "valid_evidence e \<longleftrightarrow>
     locator_kind (vd_locator e) = vd_source_type e \<and>
     (case (vd_content_hash e, vd_resource_ref e) of
        (Some h, Some r) \<Rightarrow> h = rr_sha256 r
      | _ \<Rightarrow> True)"

record artifact =
  af_artifact_id :: opaque_id
  af_case_id :: opaque_id
  af_kind :: artifact_kind
  af_name :: text_t
  af_content_type :: text_t
  af_resource_kind :: resource_kind
  af_size :: int
  af_sha256 :: sha256_t
  af_storage_key :: text_t
  af_metadata :: artifact_metadata
  af_created_by_job_id :: opaque_id
  af_created_at :: timestamp

definition logparse_run_content_type :: text_t where
  "logparse_run_content_type = ''application/vnd.problem-locator.logparse-run+directory''"

text \<open>The fixed resource kind and content type of every artifact kind; a diagnostic export has none.\<close>

definition artifact_shape :: "artifact_kind \<Rightarrow> resource_kind \<Rightarrow> text_t \<Rightarrow> bool" where
  "artifact_shape k rk ct \<longleftrightarrow>
     (case k of
        AK_USER_RESULT \<Rightarrow> rk = RS_FILE \<and> ct = ''application/json''
      | AK_USER_RESULT_ARCHIVE \<Rightarrow> rk = RS_FILE \<and> ct = ''application/zip''
      | AK_GENERIC_REPORT \<Rightarrow> rk = RS_FILE \<and> ct = ''text/markdown''
      | AK_DIAGNOSTIC_EXPORT \<Rightarrow> True
      | AK_LOGPARSE_RUN \<Rightarrow> rk = RS_DIRECTORY \<and> ct = logparse_run_content_type
      | AK_AUDIT_BUNDLE \<Rightarrow> rk = RS_FILE \<and> ct = ''application/zip'')"

definition valid_artifact :: "artifact \<Rightarrow> bool" where
  "valid_artifact a \<longleftrightarrow>
     metadata_kind (af_metadata a) = af_kind a \<and>
     artifact_shape (af_kind a) (af_resource_kind a) (af_content_type a) \<and>
     (case af_metadata a of
        GenericReportMetadata m \<Rightarrow>
          gm_source_job_id m = af_created_by_job_id a \<and> gm_report_utf8_size m = af_size a \<and>
          gm_report_sha256 m = af_sha256 a
      | LogparseRunMetadata m \<Rightarrow> lm_tree_manifest_sha256 m = af_sha256 a
      | _ \<Rightarrow> True)"

section \<open>Audit records\<close>

record execution_file_ref =
  ef_relative_key :: text_t
  ef_size :: int
  ef_sha256 :: sha256_t

record outcome_processing =
  op_outcome_id :: opaque_id
  op_job_id :: opaque_id
  op_outcome_hash :: sha256_t
  op_outcome_file_ref :: execution_file_ref
  op_disposition :: outcome_disposition
  op_processed_at :: timestamp
  op_error_code :: "error_code option"
  op_accepted_evidence_ids :: "opaque_id list"
  op_accepted_artifact_ids :: "opaque_id list"
  op_generated_artifact_ids :: "opaque_id list"
  op_created_job_id :: "opaque_id option"
  op_reason :: text_t

definition valid_processing :: "outcome_processing \<Rightarrow> bool" where
  "valid_processing r \<longleftrightarrow>
     distinct (op_accepted_evidence_ids r) \<and> distinct (op_accepted_artifact_ids r) \<and>
     distinct (op_generated_artifact_ids r) \<and>
     set (op_accepted_artifact_ids r) \<inter> set (op_generated_artifact_ids r) = {} \<and>
     op_outcome_hash r = ef_sha256 (op_outcome_file_ref r) \<and>
     ef_relative_key (op_outcome_file_ref r) = ''jobs/'' @ op_job_id r @ ''/job_outcome.json'' \<and>
     (case op_disposition r of
        OD_DUPLICATE \<Rightarrow> False
      | OD_APPLIED \<Rightarrow> op_error_code r = None
      | d \<Rightarrow>
          op_accepted_evidence_ids r = [] \<and> op_accepted_artifact_ids r = [] \<and>
          op_generated_artifact_ids r = [] \<and> op_created_job_id r = None \<and>
          ((d = OD_REJECTED) = (op_error_code r \<noteq> None)) \<and>
          (d = OD_REJECTED \<longrightarrow>
             (case op_error_code r of None \<Rightarrow> False | Some c \<Rightarrow> c \<in> set outcome_rejection_codes)))"

record failure_record =
  fr_failure_id :: opaque_id
  fr_job_id :: opaque_id
  fr_runtime_epoch :: opaque_id
  fr_failure :: execution_failure
  fr_recorded_at :: timestamp

section \<open>The case aggregate\<close>

record case_aggregate =
  ag_case :: case_t
  ag_jobs :: "job dict"
  ag_outcomes :: "job_outcome dict"
  ag_processing :: "outcome_processing dict"
  ag_failures :: "failure_record dict"
  ag_attachments :: "attachment dict"
  ag_evidence :: "evidence dict"
  ag_artifacts :: "artifact dict"

definition has_key :: "'v dict \<Rightarrow> opaque_id \<Rightarrow> bool" where
  "has_key d k \<longleftrightarrow> k \<in> set (dict_keys d)"

lemma has_key_get: "has_key d k \<longleftrightarrow> map_of d k \<noteq> None"
  by (simp add: has_key_def map_of_eq_None_iff)

text \<open>\<open>self.attachments.get(ref)\<close> resolves a READY attachment.\<close>

definition ready_attachment :: "attachment dict \<Rightarrow> opaque_id \<Rightarrow> bool" where
  "ready_attachment d r \<longleftrightarrow> (case map_of d r of None \<Rightarrow> False | Some a \<Rightarrow> at_status a = AT_READY)"

definition artifact_of_kind :: "artifact dict \<Rightarrow> artifact_kind \<Rightarrow> opaque_id \<Rightarrow> bool" where
  "artifact_of_kind d k r \<longleftrightarrow> (case map_of d r of None \<Rightarrow> False | Some a \<Rightarrow> af_kind a = k)"

end
