(* ===== verification/Outcome_Contract.thy ===== *)
theory Outcome_Contract
  imports Resource_Models Delta_Normalization Coordinator_Support
begin

text \<open>
  \<open>contracts/outcomes.py\<close>: \<open>validate_outcome_for_job\<close>, the technical invariants between a job and the
  outcome it returns, with the stored case as its resource context. The checks are made in the source's
  order; \<open>Inl\<close> is the exception the source raises.
\<close>

section \<open>Methods V2 outcomes\<close>

definition reviewer_matches_terminal :: "methods_reviewer_result \<Rightarrow> methods_terminal_projection \<Rightarrow> bool" where
  "reviewer_matches_terminal r t \<longleftrightarrow>
     (let confirmed = filter (\<lambda>e. re_verdict e = CONFIRMED) (mw_evaluations r);
          has_unknown = list_ex (\<lambda>e. re_verdict e = UNKNOWN) (mw_evaluations r)
      in if mp_status t = MT_RESOLVED
         then map re_evaluation_ref confirmed = mp_confirmed_evaluation_refs t \<and>
              concat (map re_supporting_event_refs confirmed) = mp_confirmed_event_refs t \<and> \<not> has_unknown
         else if mp_reason_code t = Some MR_NO_CONFIRMED_METHOD
         then list_all (\<lambda>e. re_verdict e = REJECTED) (mw_evaluations r)
         else if mp_reason_code t = Some MR_INCOMPLETE_EVALUATION then has_unknown
         else if mp_reason_code t = Some MR_SPECIALIST_REVIEWER_DISAGREEMENT then \<not> has_unknown
         else True)"

definition reason_in :: "method_reason option \<Rightarrow> method_reason list \<Rightarrow> bool" where
  "reason_in r codes \<longleftrightarrow> (case r of None \<Rightarrow> False | Some c \<Rightarrow> c \<in> set codes)"

definition validate_methods_reviewer_terminal ::
  "methods_reviewer_result option \<Rightarrow> methods_terminal_projection \<Rightarrow> opaque_id \<Rightarrow> int \<Rightarrow>
   methods_review_target option \<Rightarrow> bool" where
  "validate_methods_reviewer_terminal reviewer terminal review_job_id reviewed_state_revision expected_target \<longleftrightarrow>
     (let requires_reviewer = (mp_status terminal = MT_RESOLVED \<or>
            reason_in (mp_reason_code terminal) consensus_unresolved_reason_codes);
          target = (case expected_target of Some x \<Rightarrow> Some x | None \<Rightarrow> map_option mw_target reviewer)
      in mp_source_job_id terminal = review_job_id \<and>
         (case target of
            None \<Rightarrow> True
          | Some x \<Rightarrow> mt_evaluation_id x = mp_evaluation_id terminal \<and> mt_plan_ref x = mp_plan_ref terminal \<and>
              mt_graph_ref x = mp_evidence_graph_ref terminal \<and>
              mt_reviewed_state_revision x = reviewed_state_revision) \<and>
         requires_reviewer = (reviewer \<noteq> None) \<and>
         (case reviewer of
            None \<Rightarrow> True
          | Some r \<Rightarrow> mw_review_job_id r = review_job_id \<and> target = Some (mw_target r) \<and>
              reviewer_matches_terminal r terminal))"

definition specialist_handoff_ok :: "job \<Rightarrow> methods_review_target \<Rightarrow> bool" where
  "specialist_handoff_ok j t \<longleftrightarrow>
     jb_job_type j = JT_DIAGNOSE \<and> jb_skill_ref j = Some (mt_skill_ref t) \<and>
     jb_job_id j = mt_source_job_id t \<and> jb_base_state_revision j = mt_reviewed_state_revision t"

definition terminal_reason_ok :: "job \<Rightarrow> job_outcome \<Rightarrow> methods_terminal_projection \<Rightarrow> bool" where
  "terminal_reason_ok j oc t \<longleftrightarrow>
     (mp_status t = MT_FAILED \<longrightarrow>
        (case oc_error oc of
           None \<Rightarrow> False
         | Some e \<Rightarrow> xf_reason_code e = map_option method_reason_str (mp_reason_code t) \<and>
             xf_diagnostic_id e = Some (mp_diagnostic_id t))) \<and>
     (mp_status t = MT_UNRESOLVED \<longrightarrow>
        reason_in (mp_reason_code t)
          (if jb_job_type j = JT_DIAGNOSE
           then specialist_unresolved_reason_codes @ [MR_INCOMPLETE_EVALUATION, MR_NO_CONFIRMED_METHOD]
           else reviewer_unresolved_reason_codes @ consensus_unresolved_reason_codes))"

definition validate_methods_outcome :: "job \<Rightarrow> job_outcome \<Rightarrow> bool" where
  "validate_methods_outcome j oc \<longleftrightarrow>
     jb_diagnosis_mode j \<noteq> Some DM_GENERIC \<and> \<not> job_direct j \<and>
     (case jb_context_snapshot j of None \<Rightarrow> False | Some cx \<Rightarrow> cx_candidate_conclusion cx = None) \<and>
     oc_payload oc = None \<and> oc_consumed_evidence_refs oc = [] \<and> oc_proposed_evidence oc = [] \<and>
     oc_proposed_artifacts oc = [] \<and> oc_decision_audit oc = None \<and>
     (case oc_methods_review_target oc of
        Some t \<Rightarrow> specialist_handoff_ok j t
      | None \<Rightarrow>
          (case oc_methods_terminal_projection oc of
             None \<Rightarrow> False
           | Some t \<Rightarrow>
               mp_case_id t = oc_case_id oc \<and> mp_source_job_id t = oc_job_id oc \<and> terminal_reason_ok j oc t \<and>
               (case jb_job_type j of
                  JT_REVIEW \<Rightarrow> validate_methods_reviewer_terminal (oc_methods_reviewer_result oc) t
                    (jb_job_id j) (jb_base_state_revision j) (jb_methods_review_target j)
                | JT_DIAGNOSE \<Rightarrow> True
                | JT_ROUTE \<Rightarrow> False)))"

section \<open>Generic and direct outcomes\<close>

definition generic_legacy_log_content_types :: "text_t list" where
  "generic_legacy_log_content_types = [''application/gzip'', ''application/zip'', ''application/x-tar'']"

definition generic_direct_log_content_types :: "text_t list" where
  "generic_direct_log_content_types =
     [''application/gzip'', ''application/json'', ''application/jsonl'', ''application/x-ndjson'',
      ''application/x-tar'', ''application/zip'', ''text/plain'']"

definition log_content_types :: "job \<Rightarrow> text_t list" where
  "log_content_types j =
     (if jb_generic_log_preparation j = Some ''direct-v1'' then generic_direct_log_content_types
      else generic_legacy_log_content_types)"

definition preflight_requirement_ok :: "job \<Rightarrow> diagnosis_outcome \<Rightarrow> pending_requirement \<Rightarrow> bool" where
  "preflight_requirement_ok j d r \<longleftrightarrow>
     rq_kind r = QK_ATTACHMENT \<and> rq_name r = ''log_archive'' \<and> rq_required r \<and> rq_status r = QS_OPEN \<and>
     rq_requested_by_job_id r = jb_job_id j \<and> rq_fulfilled_by_refs r = [] \<and>
     rq_supplement_policy r = SP_MISSING_ONLY \<and>
     (case rq_constraints r of
        AttachmentConstraints c \<Rightarrow>
          ac_allowed_content_types c = log_content_types j \<and> ac_min_count c = 1 \<and> ac_max_count c \<in> {1, 20}
      | InputConstraints c \<Rightarrow> False) \<and>
     do_requested_attachments d = [rq_requirement_id r]"

definition generic_preflight_ok :: "job \<Rightarrow> outcome_payload option \<Rightarrow> bool" where
  "generic_preflight_ok j payload \<longleftrightarrow>
     jb_generic_log_archive_expected j \<and> jb_attachment_refs j = [] \<and>
     (case payload of
        Some (DiagnosisPayload d) \<Rightarrow>
          do_findings d = [] \<and> do_candidate_conclusion_draft d = None \<and> do_requested_input d = [] \<and>
          delta_only_requirements (do_state_delta d) \<and>
          (case sd_add_pending_requirements (do_state_delta d) of
             [r] \<Rightarrow> preflight_requirement_ok j d r
           | _ \<Rightarrow> False)
      | _ \<Rightarrow> False)"

definition validate_generic_outcome :: "job \<Rightarrow> job_outcome \<Rightarrow> bool" where
  "validate_generic_outcome j oc \<longleftrightarrow>
     jb_context_snapshot j = None \<and> oc_consumed_evidence_refs oc = [] \<and> oc_proposed_evidence oc = [] \<and>
     oc_proposed_artifacts oc = [] \<and> oc_decision_audit oc = None \<and>
     (case oc_result_type oc of
        RT_FAILED \<Rightarrow> True
      | RT_NEED_ATTACHMENT \<Rightarrow> generic_preflight_ok j (oc_payload oc)
      | RT_COMPLETED \<Rightarrow>
          (case oc_payload oc of
             Some (GenericPayload g) \<Rightarrow> jb_generic_skill_name j = Some (go_skill_name g)
           | Some (GenericV2Payload g) \<Rightarrow> jb_generic_skill_name j = Some (g2o_skill_name g)
           | _ \<Rightarrow> False)
      | _ \<Rightarrow> False)"

text \<open>The gate of direct specialized jobs: \<open>Inr True\<close> when the outcome is accepted at once, \<open>Inr False\<close>
  when the common checks still apply.\<close>

definition direct_gate :: "job \<Rightarrow> job_outcome \<Rightarrow> exn + bool" where
  "direct_gate j oc =
     (if oc_consumed_evidence_refs oc \<noteq> [] \<or> oc_proposed_evidence oc \<noteq> [] \<or>
         oc_proposed_artifacts oc \<noteq> [] \<or> oc_decision_audit oc \<noteq> None
      then Inl ValueError
      else case oc_result_type oc of
        RT_FAILED \<Rightarrow> Inr True
      | RT_COMPLETED \<Rightarrow>
          (case oc_payload oc of
             Some (GenericV2Payload g) \<Rightarrow>
               ensure (specialized_direct_skill_name j = Some (g2o_skill_name g)) True
           | _ \<Rightarrow> Inl ValueError)
      | rt \<Rightarrow>
          (case oc_payload oc of
             Some (DiagnosisPayload d) \<Rightarrow>
               ensure (rt \<in> {RT_NEED_INPUT, RT_NEED_ATTACHMENT} \<and> do_candidate_conclusion_draft d = None \<and>
                 do_findings d = [] \<and> delta_only_requirements (do_state_delta d)) False
           | _ \<Rightarrow> Inl ValueError))"

section \<open>The decision audit and the payload\<close>

definition binding_fixed :: "opaque_id list \<Rightarrow> proposal_key list \<Rightarrow> evidence_binding \<Rightarrow> bool" where
  "binding_fixed ids keys b \<longleftrightarrow>
     (case b of ExistingEvidence i \<Rightarrow> i \<in> set ids | ProposedEvidence k \<Rightarrow> k \<in> set keys)"

fun binding_existing :: "evidence_binding \<Rightarrow> opaque_id option" where
  "binding_existing (ExistingEvidence i) = Some i"
| "binding_existing (ProposedEvidence k) = None"

definition validate_outcome_audit :: "job \<Rightarrow> job_outcome \<Rightarrow> exn + unit" where
  "validate_outcome_audit j oc =
     (case oc_decision_audit oc of
        None \<Rightarrow> Inr ()
      | Some audit \<Rightarrow>
          if Some (au_skill_ref audit) \<noteq> jb_skill_ref j \<or>
             \<not> list_all (binding_fixed (jb_evidence_refs j) (map ep_proposal_key (oc_proposed_evidence oc)))
                 (au_required_evidence_bindings audit)
          then Inl ValueError
          else if jb_job_type j \<noteq> JT_REVIEW then Inr ()
          else case jb_context_snapshot j of
            None \<Rightarrow> Inl AttributeError
          | Some cx \<Rightarrow>
              (case cx_candidate_conclusion cx of
                 None \<Rightarrow> Inl ValueError
               | Some c \<Rightarrow>
                   let required = map binding_existing (au_required_evidence_bindings audit);
                       needed = review_required_evidence_refs c
                   in ensure (set required = Some ` set needed \<and>
                        required = map Some (filter (\<lambda>r. r \<in> set needed) (jb_evidence_refs j))) ()))"

definition validate_review_payload :: "job \<Rightarrow> job_outcome \<Rightarrow> review_assessment \<Rightarrow> exn + unit" where
  "validate_review_payload j oc a =
     (case jb_context_snapshot j of
        None \<Rightarrow> Inl AssertionError
      | Some cx \<Rightarrow>
          let reviewed = ra_reviewed_evidence_refs a in
          ensure
            ((case jb_review_target j of
                None \<Rightarrow> False
              | Some t \<Rightarrow> ra_candidate_conclusion_id a = ct_conclusion_id t \<and>
                  ra_candidate_revision a = ct_revision t \<and> ra_candidate_content_hash a = ct_content_hash t) \<and>
             ra_reviewed_state_revision a = jb_base_state_revision j \<and>
             list_all (\<lambda>r. r \<in> set (jb_evidence_refs j)) reviewed \<and>
             reviewed = oc_consumed_evidence_refs oc \<and>
             reviewed = filter (\<lambda>r. r \<in> set reviewed) (jb_evidence_refs j) \<and>
             (ra_verdict a = RV_PASS \<longrightarrow>
                (case cx_candidate_conclusion cx of
                   None \<Rightarrow> True
                 | Some c \<Rightarrow> list_all (\<lambda>r. r \<in> set reviewed) (review_required_evidence_refs c)))) ())"

definition payload_evidence_bindings :: "diagnosis_outcome \<Rightarrow> evidence_binding list" where
  "payload_evidence_bindings d =
     (let delta = do_state_delta d
      in concat (map fn_evidence_bindings (do_findings d)) @
         concat (map dr_evidence_bindings
           (sd_proposed_facts delta @ sd_add_active_hypotheses delta @ sd_add_open_questions delta)) @
         concat (map ch_evidence_bindings
           (sd_update_hypotheses delta @ sd_reject_hypotheses delta @ sd_resolve_questions delta)) @
         sd_add_evidence_bindings delta @ candidate_bindings (do_candidate_conclusion_draft d))"

definition validate_diagnosis_payload :: "job \<Rightarrow> diagnosis_outcome \<Rightarrow> exn + unit" where
  "validate_diagnosis_payload j d =
     (case jb_context_snapshot j of
        None \<Rightarrow> Inl AssertionError
      | Some cx \<Rightarrow>
          ensure
            (diagnosis_requests_resolve cx d \<and>
             (case do_candidate_conclusion_draft d of
                None \<Rightarrow> True
              | Some c \<Rightarrow>
                  criteria_covered 0 (cd_completion_criteria_mapping c)
                    (ps_completion_criteria (cx_problem_spec cx)) \<and>
                  (case cd_existing_conclusion_id c of
                     None \<Rightarrow> True
                   | Some i \<Rightarrow> map_option cc_conclusion_id (cx_candidate_conclusion cx) = Some i)) \<and>
             list_all (\<lambda>b. case b of ExistingEvidence i \<Rightarrow> i \<in> set (jb_evidence_refs j) | ProposedEvidence k \<Rightarrow> True)
               (payload_evidence_bindings d)) ())"

definition validate_outcome_payload :: "job \<Rightarrow> job_outcome \<Rightarrow> exn + unit" where
  "validate_outcome_payload j oc =
     (case oc_payload oc of
        None \<Rightarrow> Inr ()
      | Some (RoutePayload r) \<Rightarrow>
          ensure (rd_kind r = RK_MATCHED \<longrightarrow>
            (case rd_skill_ref r of None \<Rightarrow> False | Some s \<Rightarrow> s \<in> set (jb_available_skill_refs j))) ()
      | Some (ReviewPayload a) \<Rightarrow> validate_review_payload j oc a
      | Some (DiagnosisPayload d) \<Rightarrow> validate_diagnosis_payload j d
      | Some g \<Rightarrow>
          ensure (\<not> (jb_job_type j = JT_DIAGNOSE \<and> oc_result_type oc \<noteq> RT_FAILED)) ())"

section \<open>Proposals and their sources\<close>

definition source_refs :: "job \<Rightarrow> context_snapshot \<Rightarrow> evidence_source_type \<Rightarrow> opaque_id list" where
  "source_refs j cx st =
     (case st of
        ES_USER_FACT \<Rightarrow> map it_item_id (cx_user_facts cx)
      | ES_ATTACHMENT \<Rightarrow> jb_attachment_refs j
      | ES_LOGPARSE \<Rightarrow> jb_artifact_refs j
      | ES_TOOL_OUTPUT \<Rightarrow> jb_artifact_refs j
      | ES_PREVIOUS_OUTCOME \<Rightarrow> jb_previous_outcome_refs j)"

definition user_fact_locator_ok :: "evidence_locator \<Rightarrow> diagnosis_item \<Rightarrow> bool" where
  "user_fact_locator_ok l fct \<longleftrightarrow>
     (case l of UserFactLocator n \<Rightarrow> pv_input_name (it_provenance fct) = Some n | _ \<Rightarrow> False)"

definition evidence_proposal_fixed :: "job \<Rightarrow> context_snapshot \<Rightarrow> evidence_proposal \<Rightarrow> bool" where
  "evidence_proposal_fixed j cx p \<longleftrightarrow>
     (case ep_source_binding p of
        ArtifactSource k \<Rightarrow> True
      | ExistingSource i \<Rightarrow>
          i \<in> set (source_refs j cx (ep_source_type p)) \<and>
          (ep_source_type p = ES_USER_FACT \<longrightarrow>
             (case find (\<lambda>x. it_item_id x = i) (cx_user_facts cx) of
                None \<Rightarrow> False
              | Some fct \<Rightarrow> user_fact_locator_ok (ep_locator p) fct)))"

definition artifact_proposal_fixed :: "job \<Rightarrow> artifact_proposal \<Rightarrow> exn + unit" where
  "artifact_proposal_fixed j p =
     (if ap_artifact_kind p \<noteq> AK_LOGPARSE_RUN then Inr ()
      else case ap_metadata p of
        LogparseRunMetadata m \<Rightarrow>
          ensure (jb_logparse_tool_ref j = Some (lm_logparse_version_ref m) \<and>
            jb_logparse_product j = Some (lm_product m) \<and>
            lm_source_attachment_id m \<in> set (jb_attachment_refs j)) ()
      | _ \<Rightarrow> Inl AttributeError)"

definition needs_resource_context :: "job_outcome \<Rightarrow> bool" where
  "needs_resource_context oc \<longleftrightarrow>
     list_ex (\<lambda>p. (case ep_source_binding p of ExistingSource i \<Rightarrow> True | ArtifactSource k \<Rightarrow> False) \<and>
         ep_source_type p \<in> {ES_ATTACHMENT, ES_LOGPARSE, ES_TOOL_OUTPUT}) (oc_proposed_evidence oc) \<or>
     list_ex (\<lambda>p. ap_artifact_kind p = AK_LOGPARSE_RUN) (oc_proposed_artifacts oc)"

text \<open>\<open>validate_outcome_resources_for_job\<close> with a stored case as its context.\<close>

definition evidence_source_resolves :: "job \<Rightarrow> case_aggregate \<Rightarrow> evidence_proposal \<Rightarrow> bool" where
  "evidence_source_resolves j ag p \<longleftrightarrow>
     (case ep_source_binding p of
        ArtifactSource k \<Rightarrow> True
      | ExistingSource i \<Rightarrow>
          (case ep_source_type p of
             ES_ATTACHMENT \<Rightarrow> i \<in> set (jb_attachment_refs j) \<and> ready_attachment (ag_attachments ag) i
           | ES_LOGPARSE \<Rightarrow> i \<in> set (jb_artifact_refs j) \<and> artifact_of_kind (ag_artifacts ag) AK_LOGPARSE_RUN i
           | ES_TOOL_OUTPUT \<Rightarrow>
               i \<in> set (jb_artifact_refs j) \<and> artifact_of_kind (ag_artifacts ag) AK_DIAGNOSTIC_EXPORT i
           | _ \<Rightarrow> True))"

definition logparse_source_matches :: "job \<Rightarrow> case_aggregate \<Rightarrow> logparse_run_metadata \<Rightarrow> bool" where
  "logparse_source_matches j ag m \<longleftrightarrow>
     lm_source_attachment_id m \<in> set (jb_attachment_refs j) \<and>
     (case map_of (ag_attachments ag) (lm_source_attachment_id m) of
        None \<Rightarrow> False
      | Some a \<Rightarrow> at_status a = AT_READY \<and> at_sha256 a = Some (lm_source_attachment_sha256 m))"

definition validate_outcome_resources_for_job :: "job \<Rightarrow> job_outcome \<Rightarrow> case_aggregate \<Rightarrow> exn + unit" where
  "validate_outcome_resources_for_job j oc ag =
     (if map_of (ag_jobs ag) (jb_job_id j) \<noteq> Some j \<or> cs_case_id (ag_case ag) \<noteq> jb_case_id j \<or>
         \<not> list_all (evidence_source_resolves j ag) (oc_proposed_evidence oc)
      then Inl ValueError
      else bindE (mapE (\<lambda>p.
             if ap_artifact_kind p \<noteq> AK_LOGPARSE_RUN then Inr ()
             else case ap_metadata p of
               LogparseRunMetadata m \<Rightarrow> ensure (logparse_source_matches j ag m) ()
             | _ \<Rightarrow> Inl AttributeError) (oc_proposed_artifacts oc)) (\<lambda>_. Inr ()))"

section \<open>The whole check\<close>

definition validate_outcome_proposals :: "job \<Rightarrow> job_outcome \<Rightarrow> case_aggregate option \<Rightarrow> exn + unit" where
  "validate_outcome_proposals j oc ctx =
     (case jb_context_snapshot j of
        None \<Rightarrow> Inl AssertionError
      | Some cx \<Rightarrow>
          bindE (ensure (list_all (evidence_proposal_fixed j cx) (oc_proposed_evidence oc)) ()) (\<lambda>_.
          bindE (mapE (artifact_proposal_fixed j) (oc_proposed_artifacts oc)) (\<lambda>_.
          case ctx of
            None \<Rightarrow> ensure (\<not> needs_resource_context oc) ()
          | Some ag \<Rightarrow> validate_outcome_resources_for_job j oc ag)))"

definition validate_outcome_common :: "job \<Rightarrow> job_outcome \<Rightarrow> case_aggregate option \<Rightarrow> exn + unit" where
  "validate_outcome_common j oc ctx =
     bindE (validate_outcome_audit j oc) (\<lambda>_.
     bindE (validate_outcome_payload j oc) (\<lambda>_.
     validate_outcome_proposals j oc ctx))"

definition validate_outcome_for_job :: "job \<Rightarrow> job_outcome \<Rightarrow> case_aggregate option \<Rightarrow> exn + unit" where
  "validate_outcome_for_job j oc ctx =
     (if \<not> outcome_matches_job j oc \<or>
         \<not> list_all (\<lambda>r. r \<in> set (jb_evidence_refs j)) (oc_consumed_evidence_refs oc)
      then Inl ValueError
      else if oc_methods_review_target oc \<noteq> None \<or> oc_methods_terminal_projection oc \<noteq> None
      then ensure (validate_methods_outcome j oc) ()
      else if jb_diagnosis_mode j = Some DM_GENERIC then ensure (validate_generic_outcome j oc) ()
      else if job_direct j
      then bindE (direct_gate j oc) (\<lambda>accepted. if accepted then Inr () else validate_outcome_common j oc ctx)
      else validate_outcome_common j oc ctx)"

text \<open>For the direct jobs the coordinator calls it for, without a context, the check is the one of
  \<open>validate_direct_outcome\<close>.\<close>

lemma direct_payload_bindings:
  assumes "do_candidate_conclusion_draft d = None" "do_findings d = []" "delta_only_requirements (do_state_delta d)"
  shows "payload_evidence_bindings d = []"
  using assms
  by (simp add: payload_evidence_bindings_def delta_only_requirements_def delta_is_empty_def candidate_bindings_def Let_def)

lemma direct_common:
  assumes "oc_decision_audit oc = None" "oc_proposed_evidence oc = []" "oc_proposed_artifacts oc = []"
    and "oc_payload oc = Some (DiagnosisPayload d)" "do_candidate_conclusion_draft d = None" "do_findings d = []"
    and "delta_only_requirements (do_state_delta d)"
  shows "validate_outcome_common j oc None =
    (case jb_context_snapshot j of None \<Rightarrow> Inl AssertionError | Some cx \<Rightarrow> ensure (diagnosis_requests_resolve cx d) ())"
  using assms direct_payload_bindings [of d]
  by (auto simp: validate_outcome_common_def validate_outcome_audit_def validate_outcome_payload_def
      validate_diagnosis_payload_def validate_outcome_proposals_def needs_resource_context_def ensure_def
      split: option.splits)

lemma validate_direct_agrees:
  assumes "job_direct j"
  shows "validate_outcome_for_job j oc None = validate_direct_outcome j oc"
proof (cases "oc_consumed_evidence_refs oc = [] \<and> oc_proposed_evidence oc = [] \<and> oc_proposed_artifacts oc = [] \<and>
    oc_decision_audit oc = None \<and> oc_methods_review_target oc = None \<and> oc_methods_terminal_projection oc = None")
  case False
  then show ?thesis using assms
    by (auto simp: validate_outcome_for_job_def validate_direct_outcome_def direct_gate_def
        validate_methods_outcome_def ensure_def job_direct_def is_specialized_direct_def)
next
  case True
  have mode: "jb_diagnosis_mode j \<noteq> Some DM_GENERIC"
    using assms by (auto simp: job_direct_def is_specialized_direct_def)
  show ?thesis
  proof (cases "oc_payload oc")
    case None
    then show ?thesis using True assms mode
      by (auto simp: validate_outcome_for_job_def validate_direct_outcome_def direct_gate_def
          split: outcome_result_type.splits)
  next
    case (Some p)
    then show ?thesis using True assms mode
      by (cases p) (auto simp: validate_outcome_for_job_def validate_direct_outcome_def direct_gate_def
          direct_common ensure_def split: outcome_result_type.splits)
  qed
qed

end
