(* ===== verification/Case_Aggregate.thy ===== *)
theory Case_Aggregate
  imports Outcome_Contract
begin

text \<open>
  \<open>CaseAggregate.validate_maps\<close>: everything one persisted case must satisfy, one definition per group of
  checks of the source, in its order. An aggregate holds constructed models, so the validators of the
  case, its jobs and resources are part of \<open>valid_aggregate\<close>. Pydantic turns a \<open>ValueError\<close> or a failed
  assertion inside a validator into its own error, so the check is bool-valued.
\<close>

section \<open>Identity and ownership\<close>

definition keyed_by :: "('v \<Rightarrow> opaque_id) \<Rightarrow> 'v dict \<Rightarrow> bool" where
  "keyed_by f d \<longleftrightarrow> list_all (\<lambda>(k, v). k = f v) d"

definition agg_keys :: "case_aggregate \<Rightarrow> bool" where
  "agg_keys ag \<longleftrightarrow>
     keyed_by jb_job_id (ag_jobs ag) \<and> keyed_by oc_outcome_id (ag_outcomes ag) \<and>
     keyed_by op_outcome_id (ag_processing ag) \<and> keyed_by fr_failure_id (ag_failures ag) \<and>
     keyed_by at_attachment_id (ag_attachments ag) \<and> keyed_by vd_evidence_id (ag_evidence ag) \<and>
     keyed_by af_artifact_id (ag_artifacts ag)"

definition code_in :: "error_code option \<Rightarrow> error_code list \<Rightarrow> bool" where
  "code_in c codes \<longleftrightarrow> (case c of None \<Rightarrow> False | Some x \<Rightarrow> x \<in> set codes)"

definition untrusted_rejection :: "outcome_processing \<Rightarrow> bool" where
  "untrusted_rejection r \<longleftrightarrow>
     op_disposition r = OD_REJECTED \<and> code_in (op_error_code r) untrusted_outcome_rejection_codes"

definition agg_saved :: "case_aggregate \<Rightarrow> bool" where
  "agg_saved ag \<longleftrightarrow>
     list_all (has_key (ag_processing ag)) (dict_keys (ag_outcomes ag)) \<and>
     list_all (\<lambda>(i, r). has_key (ag_outcomes ag) i \<or> untrusted_rejection r) (ag_processing ag)"

definition agg_owner :: "case_aggregate \<Rightarrow> bool" where
  "agg_owner ag \<longleftrightarrow>
     (let c = cs_case_id (ag_case ag)
      in list_all (\<lambda>j. jb_case_id j = c) (dict_items (ag_jobs ag)) \<and>
         list_all (\<lambda>x. oc_case_id x = c) (dict_items (ag_outcomes ag)) \<and>
         list_all (\<lambda>x. at_case_id x = c) (dict_items (ag_attachments ag)) \<and>
         list_all (\<lambda>x. vd_case_id x = c) (dict_items (ag_evidence ag)) \<and>
         list_all (\<lambda>x. af_case_id x = c) (dict_items (ag_artifacts ag)))"

section \<open>The active job\<close>

definition review_activity_ok :: "candidate_conclusion option \<Rightarrow> job \<Rightarrow> bool" where
  "review_activity_ok candidate a \<longleftrightarrow>
     (if jb_methods_review_target a \<noteq> None then candidate = None \<and> jb_review_target a = None
      else (case candidate of None \<Rightarrow> False | Some k \<Rightarrow> cc_status k = CD_REVIEWING) \<and> jb_review_target a \<noteq> None)"

definition agg_active :: "case_aggregate \<Rightarrow> bool" where
  "agg_active ag \<longleftrightarrow>
     (let c = ag_case ag
      in case cs_active_job_id c of
           None \<Rightarrow> True
         | Some i \<Rightarrow>
             (case map_of (ag_jobs ag) i of
                None \<Rightarrow> False
              | Some a \<Rightarrow>
                  jb_status a \<in> {JS_PENDING, JS_RUNNING} \<and>
                  (if cs_status c = CS_REVIEWING
                   then jb_job_type a = JT_REVIEW \<and>
                        review_activity_ok (ds_candidate_conclusion (cs_diagnosis_state c)) a
                   else \<not> (cs_status c = CS_RUNNING \<and> jb_job_type a = JT_REVIEW))))"

section \<open>The diagnosis state\<close>

definition input_fulfilled :: "py_env \<Rightarrow> diagnosis_item list \<Rightarrow> pending_requirement \<Rightarrow> bool" where
  "input_fulfilled env facts r \<longleftrightarrow>
     list_all (\<lambda>i. dict_by it_item_id facts i \<noteq> None) (rq_fulfilled_by_refs r) \<and>
     (case (rq_constraints r, rq_fulfilled_by_refs r) of
        (InputConstraints k, i # _) \<Rightarrow>
          (case dict_by it_item_id facts i of
             None \<Rightarrow> False
           | Some x \<Rightarrow>
               ic_min_utf8_bytes k \<le> int (length (it_statement x)) \<and>
               int (length (it_statement x)) \<le> ic_max_utf8_bytes k \<and>
               (case ic_pattern k of None \<Rightarrow> True | Some p \<Rightarrow> env_fullmatch env p (it_statement x)) \<and>
               (ic_allowed_values k \<noteq> [] \<longrightarrow> it_statement x \<in> set (ic_allowed_values k)))
      | _ \<Rightarrow> False)"

definition attachment_fulfilled :: "attachment dict \<Rightarrow> pending_requirement \<Rightarrow> bool" where
  "attachment_fulfilled atts r \<longleftrightarrow>
     (case rq_constraints r of
        AttachmentConstraints k \<Rightarrow>
          list_all (ready_attachment atts) (rq_fulfilled_by_refs r) \<and>
          (ac_allowed_content_types k \<noteq> [] \<longrightarrow>
             list_all (\<lambda>i. case map_of atts i of
                 None \<Rightarrow> True
               | Some a \<Rightarrow> at_content_type a \<in> set (ac_allowed_content_types k)) (rq_fulfilled_by_refs r))
      | InputConstraints k \<Rightarrow> False)"

definition agg_diagnosis :: "py_env \<Rightarrow> case_aggregate \<Rightarrow> bool" where
  "agg_diagnosis env ag \<longleftrightarrow>
     (let s = cs_diagnosis_state (ag_case ag)
      in list_all (has_key (ag_evidence ag)) (ds_evidence_refs s) \<and>
         list_all (\<lambda>r. has_key (ag_jobs ag) (rq_requested_by_job_id r)) (ds_pending_requirements s) \<and>
         list_all (\<lambda>r. rq_status r \<noteq> QS_FULFILLED \<or>
             (if rq_kind r = QK_INPUT then input_fulfilled env (ds_user_facts s) r
              else attachment_fulfilled (ag_attachments ag) r)) (ds_pending_requirements s) \<and>
         pred_option (\<lambda>k. has_key (ag_jobs ag) (cc_proposed_by_job_id k)) (ds_candidate_conclusion s))"

section \<open>Jobs\<close>

definition review_source_ok :: "job dict \<Rightarrow> methods_review_target \<Rightarrow> bool" where
  "review_source_ok jobs t \<longleftrightarrow>
     (case map_of jobs (mt_source_job_id t) of
        None \<Rightarrow> False
      | Some s \<Rightarrow> jb_job_type s = JT_DIAGNOSE \<and> jb_status s = JS_SUCCEEDED \<and>
          jb_skill_ref s = Some (mt_skill_ref t) \<and> jb_base_state_revision s = mt_reviewed_state_revision t)"

definition interrupted_job :: "job dict \<Rightarrow> opaque_id \<Rightarrow> bool" where
  "interrupted_job jobs i \<longleftrightarrow> (case map_of jobs i of None \<Rightarrow> False | Some s \<Rightarrow> jb_status s = JS_INTERRUPTED)"

definition agg_job :: "case_aggregate \<Rightarrow> job \<Rightarrow> bool" where
  "agg_job ag j \<longleftrightarrow>
     (jb_job_type j = JT_DIAGNOSE \<longrightarrow> jb_continuation_context j = cs_continuation_context (ag_case ag)) \<and>
     pred_option (review_source_ok (ag_jobs ag)) (jb_methods_review_target j) \<and>
     (jb_diagnosis_mode j = Some DM_GENERIC \<longrightarrow>
        jb_generic_problem_text j = Some (cs_raw_problem_text (ag_case ag)) \<and>
        jb_generic_product_line j = cs_product_line (ag_case ag)) \<and>
     list_all (has_key (ag_evidence ag)) (jb_evidence_refs j) \<and>
     pred_option (\<lambda>cx. list_all (has_key (ag_evidence ag)) (cx_evidence_refs cx)) (jb_context_snapshot j) \<and>
     list_all (ready_attachment (ag_attachments ag)) (jb_attachment_refs j) \<and>
     list_all (has_key (ag_artifacts ag)) (jb_artifact_refs j) \<and>
     (jb_diagnosis_mode j = Some DM_GENERIC \<longrightarrow>
        list_all (\<lambda>r. case map_of (ag_attachments ag) r of
            None \<Rightarrow> False
          | Some a \<Rightarrow> at_content_type a \<in> set (log_content_types j)) (jb_attachment_refs j)) \<and>
     list_all (has_key (ag_outcomes ag)) (jb_previous_outcome_refs j) \<and>
     pred_option (interrupted_job (ag_jobs ag)) (jb_replacement_for_job_id j)"

definition agg_jobs_ok :: "case_aggregate \<Rightarrow> bool" where
  "agg_jobs_ok ag \<longleftrightarrow>
     list_all (agg_job ag) (dict_items (ag_jobs ag)) \<and>
     distinct (List.map_filter jb_replacement_for_job_id (dict_items (ag_jobs ag)))"

section \<open>Evidence and artifacts\<close>

definition agg_evidence_item :: "case_aggregate \<Rightarrow> evidence \<Rightarrow> bool" where
  "agg_evidence_item ag e \<longleftrightarrow>
     (case vd_source_type e of
        ES_USER_FACT \<Rightarrow>
          (case dict_by it_item_id (ds_user_facts (cs_diagnosis_state (ag_case ag))) (vd_source_ref e) of
             None \<Rightarrow> False
           | Some x \<Rightarrow> user_fact_locator_ok (vd_locator e) x)
      | ES_ATTACHMENT \<Rightarrow> ready_attachment (ag_attachments ag) (vd_source_ref e)
      | ES_LOGPARSE \<Rightarrow> artifact_of_kind (ag_artifacts ag) AK_LOGPARSE_RUN (vd_source_ref e)
      | ES_TOOL_OUTPUT \<Rightarrow> artifact_of_kind (ag_artifacts ag) AK_DIAGNOSTIC_EXPORT (vd_source_ref e)
      | ES_PREVIOUS_OUTCOME \<Rightarrow> has_key (ag_outcomes ag) (vd_source_ref e))"

definition agg_artifact :: "case_aggregate \<Rightarrow> artifact \<Rightarrow> bool" where
  "agg_artifact ag a \<longleftrightarrow>
     (case map_of (ag_jobs ag) (af_created_by_job_id a) of
        None \<Rightarrow> False
      | Some j \<Rightarrow>
          (case af_metadata a of
             AuditBundleMetadata m \<Rightarrow>
               am_case_id m = cs_case_id (ag_case ag) \<and> am_source_job_id m = af_created_by_job_id a \<and>
               has_key (ag_outcomes ag) (am_source_outcome_id m)
           | GenericReportMetadata m \<Rightarrow>
               gm_source_job_id m = af_created_by_job_id a \<and> has_key (ag_outcomes ag) (gm_source_outcome_id m)
           | LogparseRunMetadata m \<Rightarrow>
               jb_logparse_tool_ref j = Some (lm_logparse_version_ref m) \<and>
               jb_logparse_product j = Some (lm_product m) \<and> logparse_source_matches j ag m
           | _ \<Rightarrow> True))"

section \<open>Audit records\<close>

definition agg_applied :: "case_aggregate \<Rightarrow> job \<Rightarrow> job_outcome \<Rightarrow> outcome_processing \<Rightarrow> bool" where
  "agg_applied ag j oc r \<longleftrightarrow>
     validate_outcome_for_job j oc (Some ag) = Inr () \<and>
     list_all (\<lambda>i. case map_of (ag_evidence ag) i of
         None \<Rightarrow> False | Some e \<Rightarrow> vd_collected_at e = oc_produced_at oc) (op_accepted_evidence_ids r) \<and>
     list_all (\<lambda>i. case map_of (ag_artifacts ag) i of
         None \<Rightarrow> False | Some a \<Rightarrow> af_created_at a = oc_produced_at oc) (op_accepted_artifact_ids r) \<and>
     list_all (\<lambda>i. case map_of (ag_artifacts ag) i of
         None \<Rightarrow> False
       | Some a \<Rightarrow> af_kind a \<in> {AK_AUDIT_BUNDLE, AK_GENERIC_REPORT} \<and> af_created_at a = op_processed_at r \<and>
           af_created_by_job_id a = jb_job_id j) (op_generated_artifact_ids r) \<and>
     pred_option (\<lambda>i. case map_of (ag_jobs ag) i of
         None \<Rightarrow> False | Some cj \<Rightarrow> jb_created_at cj = oc_produced_at oc) (op_created_job_id r)"

definition agg_processing_record :: "store_env \<Rightarrow> case_aggregate \<Rightarrow> outcome_processing \<Rightarrow> bool" where
  "agg_processing_record sv ag r \<longleftrightarrow>
     (case map_of (ag_jobs ag) (op_job_id r) of
        None \<Rightarrow> False
      | Some j \<Rightarrow>
          (case map_of (ag_outcomes ag) (op_outcome_id r) of
             None \<Rightarrow> untrusted_rejection r
           | Some oc \<Rightarrow>
               int (length (sv_outcome_bytes sv oc)) = ef_size (op_outcome_file_ref r) \<and>
               env_sha256 (sv_py sv) (sv_outcome_bytes sv oc) = op_outcome_hash r \<and>
               (op_disposition r \<in> {OD_APPLIED, OD_STALE} \<longrightarrow>
                  oc_job_id oc = jb_job_id j \<and> oc_case_id oc = cs_case_id (ag_case ag) \<and>
                  oc_job_type oc = jb_job_type j \<and> oc_base_state_revision oc = jb_base_state_revision j) \<and>
               (op_disposition r = OD_APPLIED \<longrightarrow> agg_applied ag j oc r)))"

definition agg_failure_record :: "case_aggregate \<Rightarrow> failure_record \<Rightarrow> bool" where
  "agg_failure_record ag f \<longleftrightarrow>
     (case map_of (ag_jobs ag) (fr_job_id f) of
        None \<Rightarrow> False | Some j \<Rightarrow> jb_runtime_epoch j = Some (fr_runtime_epoch f))"

section \<open>Results\<close>

definition applied_outcome :: "case_aggregate \<Rightarrow> opaque_id \<Rightarrow> bool" where
  "applied_outcome ag i \<longleftrightarrow>
     (case map_of (ag_processing ag) i of None \<Rightarrow> False | Some r \<Rightarrow> op_disposition r = OD_APPLIED)"

definition methods_source_ok :: "case_aggregate \<Rightarrow> methods_terminal_projection \<Rightarrow> job_outcome \<Rightarrow> bool" where
  "methods_source_ok ag t oc \<longleftrightarrow>
     (let c = ag_case ag
      in (case (map_of (ag_jobs ag) (oc_job_id oc), map_of (ag_processing ag) (oc_outcome_id oc)) of
            (Some j, Some r) \<Rightarrow>
              mp_case_id t = cs_case_id c \<and> mp_source_job_id t = jb_job_id j \<and>
              jb_status j = (if mp_status t = MT_FAILED then JS_FAILED else JS_SUCCEEDED) \<and>
              jb_job_type j \<in> {JT_DIAGNOSE, JT_REVIEW} \<and> oc_case_id oc = cs_case_id c \<and>
              op_disposition r = OD_APPLIED \<and> op_accepted_evidence_ids r = [] \<and>
              op_accepted_artifact_ids r = [] \<and> op_generated_artifact_ids r = [] \<and> op_created_job_id r = None \<and>
              ds_candidate_conclusion (cs_diagnosis_state c) = None \<and>
              list_all (\<lambda>a. af_kind a \<notin> {AK_USER_RESULT, AK_USER_RESULT_ARCHIVE}) (dict_items (ag_artifacts ag)) \<and>
              (mp_status t = MT_FAILED \<longrightarrow>
                 (case (cs_failure c, oc_error oc) of
                    (Some f, Some e) \<Rightarrow> fl_code f = xf_code e \<and> fl_source_job_id f = Some (jb_job_id j) \<and>
                      fl_source_outcome_id f = Some (oc_outcome_id oc)
                  | _ \<Rightarrow> False))
          | _ \<Rightarrow> False))"

definition agg_methods :: "case_aggregate \<Rightarrow> bool" where
  "agg_methods ag \<longleftrightarrow>
     (case cs_methods_result (ag_case ag) of
        None \<Rightarrow> True
      | Some t \<Rightarrow>
          (case filter (\<lambda>oc. oc_methods_terminal_projection oc = Some t \<and> applied_outcome ag (oc_outcome_id oc))
                  (dict_items (ag_outcomes ag)) of
             [oc] \<Rightarrow> methods_source_ok ag t oc
           | _ \<Rightarrow> False))"

text \<open>The source job, outcome and processing record of a generic result.\<close>

definition generic_source_ok ::
  "case_aggregate \<Rightarrow> opaque_id \<Rightarrow> opaque_id \<Rightarrow> timestamp \<Rightarrow> (job \<Rightarrow> bool) \<Rightarrow> (outcome_payload \<Rightarrow> bool) \<Rightarrow>
   opaque_id list \<Rightarrow> bool" where
  "generic_source_ok ag job_id outcome_id occurred_at job_matches payload_matches generated \<longleftrightarrow>
     (case (map_of (ag_jobs ag) job_id, map_of (ag_outcomes ag) outcome_id, map_of (ag_processing ag) outcome_id) of
        (Some j, Some oc, Some r) \<Rightarrow>
          jb_job_type j = JT_DIAGNOSE \<and> job_matches j \<and> jb_status j = JS_SUCCEEDED \<and>
          oc_job_id oc = jb_job_id j \<and> oc_job_type oc = JT_DIAGNOSE \<and> oc_result_type oc = RT_COMPLETED \<and>
          pred_option payload_matches (oc_payload oc) \<and> oc_payload oc \<noteq> None \<and> oc_produced_at oc = occurred_at \<and>
          op_job_id r = jb_job_id j \<and> op_disposition r = OD_APPLIED \<and> op_accepted_evidence_ids r = [] \<and>
          op_accepted_artifact_ids r = [] \<and> op_generated_artifact_ids r = generated \<and> op_created_job_id r = None
      | _ \<Rightarrow> False)"

definition agg_generic :: "case_aggregate \<Rightarrow> bool" where
  "agg_generic ag \<longleftrightarrow>
     (case cs_generic_result (ag_case ag) of
        None \<Rightarrow> True
      | Some g \<Rightarrow>
          generic_source_ok ag (gr_source_job_id g) (gr_source_outcome_id g) (gr_occurred_at g)
            (\<lambda>j. jb_diagnosis_mode j = Some DM_GENERIC \<and> jb_generic_skill_name j = Some (gr_skill_name g))
            (\<lambda>p. case p of
               GenericPayload x \<Rightarrow> go_status x = gr_status g \<and> go_conclusion x = gr_conclusion g \<and>
                 go_root_cause_analysis x = gr_root_cause_analysis g \<and> go_skill_name x = gr_skill_name g
             | _ \<Rightarrow> False) [])"

definition report_job_matches :: "case_aggregate \<Rightarrow> generic_result_v2 \<Rightarrow> job \<Rightarrow> bool" where
  "report_job_matches ag g j \<longleftrightarrow>
     (if job_direct j
      then jb_skill_ref j = cs_selected_skill_ref (ag_case ag) \<and>
           specialized_direct_skill_name j = Some (g2_skill_name g) \<and>
           ds_candidate_conclusion (cs_diagnosis_state (ag_case ag)) = None
      else jb_diagnosis_mode j = Some DM_GENERIC \<and> jb_generic_skill_name j = Some (g2_skill_name g) \<and>
           cs_selected_skill_ref (ag_case ag) = None)"

definition report_artifact_matches :: "generic_result_v2 \<Rightarrow> artifact \<Rightarrow> bool" where
  "report_artifact_matches g a \<longleftrightarrow>
     af_kind a = AK_GENERIC_REPORT \<and> af_content_type a = ''text/markdown'' \<and> af_resource_kind a = RS_FILE \<and>
     af_size a = g2_report_utf8_size g \<and> af_sha256 a = g2_report_sha256 g \<and>
     af_created_by_job_id a = g2_source_job_id g \<and>
     (case af_metadata a of
        GenericReportMetadata m \<Rightarrow>
          gm_status m = g2_status g \<and> gm_source_job_id m = g2_source_job_id g \<and>
          gm_source_outcome_id m = g2_source_outcome_id g \<and> gm_report_utf8_size m = g2_report_utf8_size g \<and>
          gm_report_sha256 m = g2_report_sha256 g
      | _ \<Rightarrow> False)"

definition artifact_ids_of :: "case_aggregate \<Rightarrow> artifact_kind \<Rightarrow> (opaque_id \<Rightarrow> bool) \<Rightarrow> opaque_id list" where
  "artifact_ids_of ag k creator =
     map af_artifact_id (filter (\<lambda>a. af_kind a = k \<and> creator (af_created_by_job_id a)) (dict_items (ag_artifacts ag)))"

definition agg_generic_v2 :: "case_aggregate \<Rightarrow> bool" where
  "agg_generic_v2 ag \<longleftrightarrow>
     (case cs_generic_result_v2 (ag_case ag) of
        None \<Rightarrow> True
      | Some g \<Rightarrow>
          generic_source_ok ag (g2_source_job_id g) (g2_source_outcome_id g) (g2_occurred_at g)
            (report_job_matches ag g)
            (\<lambda>p. case p of
               GenericV2Payload x \<Rightarrow> g2o_status x = g2_status g \<and> g2o_report_markdown x = g2_report_markdown g \<and>
                 g2o_report_utf8_size x = g2_report_utf8_size g \<and> g2o_report_sha256 x = g2_report_sha256 g \<and>
                 g2o_skill_name x = g2_skill_name g
             | _ \<Rightarrow> False) [g2_report_artifact_id g] \<and>
          (case map_of (ag_artifacts ag) (g2_report_artifact_id g) of
             None \<Rightarrow> False | Some a \<Rightarrow> report_artifact_matches g a) \<and>
          artifact_ids_of ag AK_GENERIC_REPORT (\<lambda>i. i = g2_source_job_id g) = [g2_report_artifact_id g])"

definition agg_reports :: "case_aggregate \<Rightarrow> bool" where
  "agg_reports ag \<longleftrightarrow>
     sort (artifact_ids_of ag AK_GENERIC_REPORT (\<lambda>i. True)) =
       (case cs_generic_result_v2 (ag_case ag) of None \<Rightarrow> [] | Some g \<Rightarrow> [g2_report_artifact_id g])"

text \<open>No generic and no Methods result: the case carries the results of a reviewed diagnosis.\<close>

definition legacy_result :: "case_t \<Rightarrow> bool" where
  "legacy_result c \<longleftrightarrow>
     cs_generic_result c = None \<and> cs_generic_result_v2 c = None \<and> cs_methods_result c = None"

definition agg_resolved :: "case_aggregate \<Rightarrow> bool" where
  "agg_resolved ag \<longleftrightarrow>
     (let c = ag_case ag
      in cs_status c \<in> {CS_RESOLVED, CS_PARTIALLY_RESOLVED} \<and> legacy_result c \<longrightarrow>
         (case cs_final_result c of
            None \<Rightarrow> False
          | Some f \<Rightarrow>
              (case map_of (ag_jobs ag) (cc_proposed_by_job_id f) of
                 None \<Rightarrow> False
               | Some j \<Rightarrow>
                   (let archives = artifact_ids_of ag AK_USER_RESULT_ARCHIVE (\<lambda>i. i = cc_proposed_by_job_id f)
                    in jb_job_type j = JT_DIAGNOSE \<and>
                       length (artifact_ids_of ag AK_USER_RESULT (\<lambda>i. i = cc_proposed_by_job_id f)) = 1 \<and>
                       length archives \<le> 1 \<and>
                       (cs_archive_status c = ''READY'' \<longrightarrow> length archives = 1)))))"

definition unresolved_result_ok :: "case_aggregate \<Rightarrow> unresolved_result \<Rightarrow> bool" where
  "unresolved_result_ok ag u \<longleftrightarrow>
     (case (map_of (ag_artifacts ag) (un_audit_artifact_id u), map_of (ag_artifacts ag) (un_user_result_artifact_id u)) of
        (Some a, Some b) \<Rightarrow>
          af_kind a = AK_AUDIT_BUNDLE \<and> af_kind b = AK_USER_RESULT \<and>
          af_created_by_job_id b = un_source_job_id u \<and>
          artifact_ids_of ag AK_USER_RESULT (\<lambda>i. i = un_source_job_id u) = [un_user_result_artifact_id u] \<and>
          artifact_ids_of ag AK_USER_RESULT_ARCHIVE (\<lambda>i. i = un_source_job_id u) = [] \<and>
          (case af_metadata a of
             AuditBundleMetadata m \<Rightarrow>
               un_source_job_id u = am_source_job_id m \<and> un_source_outcome_id u = am_source_outcome_id m
           | _ \<Rightarrow> False) \<and>
          list_all (has_key (ag_evidence ag)) (un_evidence_refs u)
      | _ \<Rightarrow> False)"

definition agg_unresolved :: "case_aggregate \<Rightarrow> bool" where
  "agg_unresolved ag \<longleftrightarrow>
     (cs_status (ag_case ag) = CS_UNRESOLVED \<and> legacy_result (ag_case ag) \<longrightarrow>
        (case cs_unresolved_result (ag_case ag) of None \<Rightarrow> False | Some u \<Rightarrow> unresolved_result_ok ag u))"

section \<open>The whole check\<close>

definition validate_maps :: "store_env \<Rightarrow> case_aggregate \<Rightarrow> bool" where
  "validate_maps sv ag \<longleftrightarrow>
     agg_keys ag \<and> agg_saved ag \<and> agg_owner ag \<and> agg_active ag \<and> agg_diagnosis (sv_py sv) ag \<and>
     agg_jobs_ok ag \<and> list_all (agg_evidence_item ag) (dict_items (ag_evidence ag)) \<and>
     list_all (agg_artifact ag) (dict_items (ag_artifacts ag)) \<and>
     list_all (agg_processing_record sv ag) (dict_items (ag_processing ag)) \<and>
     list_all (agg_failure_record ag) (dict_items (ag_failures ag)) \<and>
     agg_methods ag \<and> agg_generic ag \<and> agg_generic_v2 ag \<and> agg_reports ag \<and> agg_resolved ag \<and>
     agg_unresolved ag"

text \<open>The maps are dictionaries.\<close>

definition agg_dicts :: "case_aggregate \<Rightarrow> bool" where
  "agg_dicts ag \<longleftrightarrow>
     dict_ok (ag_jobs ag) \<and> dict_ok (ag_outcomes ag) \<and> dict_ok (ag_processing ag) \<and> dict_ok (ag_failures ag) \<and>
     dict_ok (ag_attachments ag) \<and> dict_ok (ag_evidence ag) \<and> dict_ok (ag_artifacts ag)"

definition valid_aggregate :: "store_env \<Rightarrow> case_aggregate \<Rightarrow> bool" where
  "valid_aggregate sv ag \<longleftrightarrow>
     valid_case (sv_py sv) (ag_case ag) \<and>
     list_all (valid_job (sv_py sv)) (dict_items (ag_jobs ag)) \<and>
     list_all valid_processing (dict_items (ag_processing ag)) \<and>
     list_all valid_evidence (dict_items (ag_evidence ag)) \<and>
     list_all valid_artifact (dict_items (ag_artifacts ag)) \<and>
     validate_maps sv ag"

end
