(* ===== verification/State_File.thy ===== *)
theory State_File
  imports Case_Aggregate
begin

text \<open>
  \<open>StateFile\<close> and \<open>StateMutation\<close> of \<open>contracts/models.py\<close> with their validators, and
  \<open>_apply_mutation\<close> of \<open>storage/state_repository.py\<close>, which turns one state and one mutation into the next
  state. Its helpers \<open>_find_case_id_for_job\<close>, \<open>_insert_unique\<close>, the two upserts of recovery records and
  \<open>_infer_affected_case_id\<close> are definitions of their own.
\<close>

section \<open>Records of the installation\<close>

record runtime_epoch_record =
  xe_runtime_epoch :: opaque_id
  xe_started_at :: timestamp
  xe_recovery_id :: opaque_id
  xe_recovery_completed_at :: "timestamp option"

record recovery_record =
  ry_recovery_id :: opaque_id
  ry_current_runtime_epoch :: opaque_id
  ry_interrupted_job_ids :: "opaque_id list"
  ry_pending_job_ids :: "opaque_id list"
  ry_completed_at :: "timestamp option"

definition valid_recovery_record :: "recovery_record \<Rightarrow> bool" where
  "valid_recovery_record r \<longleftrightarrow>
     distinct (ry_interrupted_job_ids r) \<and> sorted (ry_interrupted_job_ids r) \<and>
     distinct (ry_pending_job_ids r) \<and> sorted (ry_pending_job_ids r) \<and>
     set (ry_interrupted_job_ids r) \<inter> set (ry_pending_job_ids r) = {}"

record business_receipt =
  bz_operation :: text_t
  bz_primary_resource_id :: opaque_id
  bz_case_id :: "opaque_id option"
  bz_case_revision :: "int option"
  bz_job_id :: "opaque_id option"
  bz_status :: text_t

record idempotency_record =
  ik_operation :: text_t
  ik_idempotency_key :: text_t
  ik_request_hash :: sha256_t
  ik_business_receipt :: business_receipt
  ik_case_id :: "opaque_id option"
  ik_created_at :: timestamp

definition record_key :: "text_t \<Rightarrow> text_t \<Rightarrow> text_t" where
  "record_key operation idempotency_key = operation @ '':'' @ idempotency_key"

definition idempotency_key_of :: "idempotency_record \<Rightarrow> text_t" where
  "idempotency_key_of r = record_key (ik_operation r) (ik_idempotency_key r)"

section \<open>The state file\<close>

record state_file =
  sf_generation :: int
  sf_installation_id :: opaque_id
  sf_created_at :: timestamp
  sf_updated_at :: timestamp
  sf_runtime_epochs :: "runtime_epoch_record list"
  sf_recovery :: "recovery_record dict"
  sf_cases :: "case_aggregate dict"
  sf_idempotency :: "idempotency_record dict"

definition state_recovery_ok :: "state_file \<Rightarrow> bool" where
  "state_recovery_ok s \<longleftrightarrow>
     distinct (map xe_runtime_epoch (sf_runtime_epochs s)) \<and>
     distinct (map xe_recovery_id (sf_runtime_epochs s)) \<and>
     keyed_by ry_recovery_id (sf_recovery s) \<and>
     set (map xe_recovery_id (sf_runtime_epochs s)) = set (dict_keys (sf_recovery s)) \<and>
     list_all (\<lambda>r. case dict_by xe_recovery_id (sf_runtime_epochs s) (ry_recovery_id r) of
         None \<Rightarrow> False
       | Some x \<Rightarrow> xe_runtime_epoch x = ry_current_runtime_epoch r \<and>
           xe_recovery_completed_at x = ry_completed_at r) (dict_items (sf_recovery s)) \<and>
     length (filter (\<lambda>r. ry_completed_at r = None) (dict_items (sf_recovery s))) \<le> 1"

definition ids_of :: "(case_aggregate \<Rightarrow> 'v dict) \<Rightarrow> state_file \<Rightarrow> opaque_id list" where
  "ids_of field s = concat (map (\<lambda>ag. dict_keys (field ag)) (dict_items (sf_cases s)))"

definition state_ids_unique :: "state_file \<Rightarrow> bool" where
  "state_ids_unique s \<longleftrightarrow>
     distinct (ids_of ag_jobs s) \<and> distinct (ids_of ag_outcomes s) \<and> distinct (ids_of ag_processing s) \<and>
     distinct (ids_of ag_failures s) \<and> distinct (ids_of ag_attachments s) \<and> distinct (ids_of ag_evidence s) \<and>
     distinct (ids_of ag_artifacts s)"

definition validate_state_file :: "state_file \<Rightarrow> bool" where
  "validate_state_file s \<longleftrightarrow>
     keyed_by (\<lambda>ag. cs_case_id (ag_case ag)) (sf_cases s) \<and> state_recovery_ok s \<and>
     keyed_by idempotency_key_of (sf_idempotency s) \<and> state_ids_unique s"

text \<open>\<open>StateFile.model_validate\<close>: the validators of the parts and of the whole.\<close>

definition valid_state :: "store_env \<Rightarrow> state_file \<Rightarrow> bool" where
  "valid_state sv s \<longleftrightarrow>
     0 \<le> sf_generation s \<and> list_all valid_recovery_record (dict_items (sf_recovery s)) \<and>
     list_all (valid_aggregate sv) (dict_items (sf_cases s)) \<and> validate_state_file s"

definition state_dicts :: "state_file \<Rightarrow> bool" where
  "state_dicts s \<longleftrightarrow>
     dict_ok (sf_recovery s) \<and> dict_ok (sf_cases s) \<and> dict_ok (sf_idempotency s) \<and>
     list_all agg_dicts (dict_items (sf_cases s))"

section \<open>Mutations\<close>

record state_mutation =
  mn_upsert_case :: "case_t option"
  mn_runtime_epochs :: "runtime_epoch_record list"
  mn_recovery :: "recovery_record list"
  mn_insert_jobs :: "job list"
  mn_job_updates :: "job_update list"
  mn_outcomes :: "job_outcome list"
  mn_processing :: "outcome_processing list"
  mn_failures :: "failure_record list"
  mn_attachments :: "attachment list"
  mn_evidence :: "evidence list"
  mn_artifacts :: "artifact list"
  mn_idempotency :: "idempotency_record list"

record commit_receipt =
  ct_generation :: int
  ct_case_revision :: "int option"

text \<open>\<open>build_state_mutation\<close> with every argument at its default.\<close>

definition empty_mutation :: state_mutation where
  "empty_mutation =
     \<lparr>mn_upsert_case = None, mn_runtime_epochs = [], mn_recovery = [], mn_insert_jobs = [], mn_job_updates = [],
      mn_outcomes = [], mn_processing = [], mn_failures = [], mn_attachments = [], mn_evidence = [],
      mn_artifacts = [], mn_idempotency = []\<rparr>"

text \<open>The cases a mutation names directly.\<close>

definition mutation_cases :: "state_mutation \<Rightarrow> opaque_id list" where
  "mutation_cases m =
     map jb_case_id (mn_insert_jobs m) @ map oc_case_id (mn_outcomes m) @ map at_case_id (mn_attachments m) @
     map vd_case_id (mn_evidence m) @ map af_case_id (mn_artifacts m) @
     (case mn_upsert_case m of None \<Rightarrow> [] | Some c \<Rightarrow> [cs_case_id c])"

definition valid_mutation :: "state_mutation \<Rightarrow> bool" where
  "valid_mutation m \<longleftrightarrow>
     distinct (map xe_runtime_epoch (mn_runtime_epochs m)) \<and> distinct (map ry_recovery_id (mn_recovery m)) \<and>
     distinct (map jb_job_id (mn_insert_jobs m)) \<and> distinct (map ju_job_id (mn_job_updates m)) \<and>
     distinct (map oc_outcome_id (mn_outcomes m)) \<and> distinct (map op_outcome_id (mn_processing m)) \<and>
     distinct (map fr_failure_id (mn_failures m)) \<and> distinct (map at_attachment_id (mn_attachments m)) \<and>
     distinct (map vd_evidence_id (mn_evidence m)) \<and> distinct (map af_artifact_id (mn_artifacts m)) \<and>
     distinct (map (\<lambda>r. (ik_operation r, ik_idempotency_key r)) (mn_idempotency m)) \<and>
     set (map jb_job_id (mn_insert_jobs m)) \<inter> set (map ju_job_id (mn_job_updates m)) = {} \<and>
     length (remdups (mutation_cases m)) \<le> 1"

section \<open>Errors of the storage layer\<close>

text \<open>An \<open>ApplicationPortError\<close> carries its application error; other exceptions escape as they are.\<close>

datatype store_error = PortError application_error | Crash exn

definition raised :: "exn + 'a \<Rightarrow> store_error + 'a" where
  "raised r = (case r of Inl e \<Rightarrow> Inl (Crash e) | Inr x \<Rightarrow> Inr x)"

lemma raised_Inr [simp]: "raised r = Inr x \<longleftrightarrow> r = Inr x"
  by (auto simp: raised_def split: sum.splits)

definition port_error :: "error_code \<Rightarrow> text_t \<Rightarrow> application_error" where
  "port_error code message =
     \<lparr>ae_code = code, ae_message = message, ae_details = [],
      ae_retryable = (code \<in> set application_error_retryable_codes)\<rparr>"

definition conflict :: "text_t \<Rightarrow> store_error + 'a" where
  "conflict message = Inl (PortError (port_error EC_REVISION_CONFLICT message))"

definition msg_case_revision_changed :: text_t where
  "msg_case_revision_changed = ''The Case revision changed before commit.''"

definition msg_job_lifecycle_changed :: text_t where
  "msg_job_lifecycle_changed = ''The Job lifecycle changed before commit.''"

section \<open>Helpers of the mutation\<close>

definition empty_aggregate :: "case_t \<Rightarrow> case_aggregate" where
  "empty_aggregate c =
     \<lparr>ag_case = c, ag_jobs = [], ag_outcomes = [], ag_processing = [], ag_failures = [], ag_attachments = [],
      ag_evidence = [], ag_artifacts = []\<rparr>"

definition find_case_id_for_job :: "case_aggregate dict \<Rightarrow> opaque_id \<Rightarrow> store_error + opaque_id" where
  "find_case_id_for_job cases job_id =
     (case filter (\<lambda>(i, ag). has_key (ag_jobs ag) job_id) cases of
        [(i, ag)] \<Rightarrow> Inr i
      | _ \<Rightarrow> Inl (Crash ValueError))"

definition upsert_recovery_record :: "recovery_record \<Rightarrow> recovery_record dict \<Rightarrow> store_error + recovery_record dict" where
  "upsert_recovery_record r d =
     (case map_of d (ry_recovery_id r) of
        None \<Rightarrow> Inr (AList.update (ry_recovery_id r) r d)
      | Some x \<Rightarrow>
          if x = r then Inr d
          else if ry_current_runtime_epoch x = ry_current_runtime_epoch r \<and>
            ry_recovery_id x = ry_recovery_id r \<and>
            ry_interrupted_job_ids x = ry_interrupted_job_ids r \<and>
            ry_pending_job_ids x = ry_pending_job_ids r \<and> ry_completed_at x = None \<and> ry_completed_at r \<noteq> None
          then Inr (AList.update (ry_recovery_id r) r d)
          else Inl (Crash ValueError))"

definition upsert_runtime_epoch ::
  "runtime_epoch_record \<Rightarrow> runtime_epoch_record dict \<Rightarrow> store_error + runtime_epoch_record dict" where
  "upsert_runtime_epoch r d =
     (case map_of d (xe_runtime_epoch r) of
        None \<Rightarrow> Inr (AList.update (xe_runtime_epoch r) r d)
      | Some x \<Rightarrow>
          if x = r then Inr d
          else if xe_runtime_epoch x = xe_runtime_epoch r \<and> xe_started_at x = xe_started_at r \<and>
            xe_recovery_id x = xe_recovery_id r \<and> xe_recovery_completed_at x = None \<and>
            xe_recovery_completed_at r \<noteq> None
          then Inr (AList.update (xe_runtime_epoch r) r d)
          else Inl (Crash ValueError))"

text \<open>\<open>candidates\<close> of \<open>_infer_affected_case_id\<close>; a lifecycle update or an audit record names its case through
  its job.\<close>

definition job_case_ids :: "case_aggregate dict \<Rightarrow> opaque_id list \<Rightarrow> store_error + opaque_id list" where
  "job_case_ids cases job_ids =
     foldS (\<lambda>j acc. bindS (find_case_id_for_job cases j) (\<lambda>i. Inr (acc @ [i]))) job_ids []"

definition infer_affected_case_id :: "state_file \<Rightarrow> state_mutation \<Rightarrow> store_error + opaque_id" where
  "infer_affected_case_id s m =
     bindS (job_case_ids (sf_cases s)
         (map ju_job_id (mn_job_updates m) @ map op_job_id (mn_processing m) @ map fr_job_id (mn_failures m)))
       (\<lambda>by_job. case remdups (mutation_cases m @ by_job @ List.map_filter ik_case_id (mn_idempotency m)) of
          [i] \<Rightarrow> (if has_key (sf_cases s) i then Inr i else Inl (Crash LookupError))
        | _ \<Rightarrow> Inl (Crash ValueError))"

section \<open>Applying a mutation\<close>

text \<open>An operation on the aggregate of one case; \<open>cases[case_id]\<close> raises \<open>KeyError\<close>.\<close>

definition on_case :: "opaque_id \<Rightarrow> (case_aggregate \<Rightarrow> store_error + case_aggregate) \<Rightarrow> case_aggregate dict \<Rightarrow>
    store_error + case_aggregate dict" where
  "on_case i f cases =
     (case map_of cases i of
        None \<Rightarrow> Inl (Crash KeyError)
      | Some ag \<Rightarrow> bindS (f ag) (\<lambda>ag'. Inr (AList.update i ag' cases)))"

definition upsert_case :: "case_t option \<Rightarrow> case_aggregate dict \<Rightarrow> case_aggregate dict" where
  "upsert_case c cases =
     (case c of
        None \<Rightarrow> cases
      | Some x \<Rightarrow>
          (case map_of cases (cs_case_id x) of
             None \<Rightarrow> AList.update (cs_case_id x) (empty_aggregate x) cases
           | Some ag \<Rightarrow> AList.update (cs_case_id x) (ag\<lparr>ag_case := x\<rparr>) cases))"

definition insert_job :: "job \<Rightarrow> case_aggregate dict \<Rightarrow> store_error + case_aggregate dict" where
  "insert_job j = on_case (jb_case_id j) (\<lambda>ag.
     bindS (raised (insert_unique (ag_jobs ag) (jb_job_id j) j)) (\<lambda>d. Inr (ag\<lparr>ag_jobs := d\<rparr>)))"

definition updated_job :: "job_update \<Rightarrow> job \<Rightarrow> job" where
  "updated_job u j =
     j\<lparr>jb_status := ju_target_status u,
       jb_started_at := (if ju_started_at u = None then jb_started_at j else ju_started_at u),
       jb_finished_at := (if ju_finished_at u = None then jb_finished_at j else ju_finished_at u),
       jb_runtime_epoch := (if ju_runtime_epoch u = None then jb_runtime_epoch j else ju_runtime_epoch u)\<rparr>"

definition update_job :: "job_update \<Rightarrow> case_aggregate dict \<Rightarrow> store_error + case_aggregate dict" where
  "update_job u cases =
     bindS (find_case_id_for_job cases (ju_job_id u)) (\<lambda>i.
     on_case i (\<lambda>ag.
       case map_of (ag_jobs ag) (ju_job_id u) of
         None \<Rightarrow> Inl (Crash KeyError)
       | Some j \<Rightarrow>
           if jb_status j \<noteq> ju_expected_status u then conflict msg_job_lifecycle_changed
           else Inr (ag\<lparr>ag_jobs := AList.update (ju_job_id u) (updated_job u j) (ag_jobs ag)\<rparr>)) cases)"

definition insert_outcome :: "job_outcome \<Rightarrow> case_aggregate dict \<Rightarrow> store_error + case_aggregate dict" where
  "insert_outcome x = on_case (oc_case_id x) (\<lambda>ag.
     bindS (raised (insert_unique (ag_outcomes ag) (oc_outcome_id x) x)) (\<lambda>d. Inr (ag\<lparr>ag_outcomes := d\<rparr>)))"

definition insert_processing :: "outcome_processing \<Rightarrow> case_aggregate dict \<Rightarrow> store_error + case_aggregate dict" where
  "insert_processing x cases =
     bindS (find_case_id_for_job cases (op_job_id x)) (\<lambda>i. on_case i (\<lambda>ag.
       bindS (raised (insert_unique (ag_processing ag) (op_outcome_id x) x)) (\<lambda>d. Inr (ag\<lparr>ag_processing := d\<rparr>))) cases)"

definition insert_failure :: "failure_record \<Rightarrow> case_aggregate dict \<Rightarrow> store_error + case_aggregate dict" where
  "insert_failure x cases =
     bindS (find_case_id_for_job cases (fr_job_id x)) (\<lambda>i. on_case i (\<lambda>ag.
       bindS (raised (insert_unique (ag_failures ag) (fr_failure_id x) x)) (\<lambda>d. Inr (ag\<lparr>ag_failures := d\<rparr>))) cases)"

definition upsert_attachment :: "attachment \<Rightarrow> case_aggregate dict \<Rightarrow> store_error + case_aggregate dict" where
  "upsert_attachment x = on_case (at_case_id x) (\<lambda>ag.
     Inr (ag\<lparr>ag_attachments := AList.update (at_attachment_id x) x (ag_attachments ag)\<rparr>))"

definition insert_evidence :: "evidence \<Rightarrow> case_aggregate dict \<Rightarrow> store_error + case_aggregate dict" where
  "insert_evidence x = on_case (vd_case_id x) (\<lambda>ag.
     bindS (raised (insert_unique (ag_evidence ag) (vd_evidence_id x) x)) (\<lambda>d. Inr (ag\<lparr>ag_evidence := d\<rparr>)))"

definition insert_artifact :: "artifact \<Rightarrow> case_aggregate dict \<Rightarrow> store_error + case_aggregate dict" where
  "insert_artifact x = on_case (af_case_id x) (\<lambda>ag.
     bindS (raised (insert_unique (ag_artifacts ag) (af_artifact_id x) x)) (\<lambda>d. Inr (ag\<lparr>ag_artifacts := d\<rparr>)))"

definition apply_to_cases :: "state_mutation \<Rightarrow> case_aggregate dict \<Rightarrow> store_error + case_aggregate dict" where
  "apply_to_cases m cases =
     bindS (foldS insert_job (mn_insert_jobs m) cases) (\<lambda>c1.
     bindS (foldS update_job (mn_job_updates m) c1) (\<lambda>c2.
     bindS (foldS insert_outcome (mn_outcomes m) c2) (\<lambda>c3.
     bindS (foldS insert_processing (mn_processing m) c3) (\<lambda>c4.
     bindS (foldS insert_failure (mn_failures m) c4) (\<lambda>c5.
     bindS (foldS upsert_attachment (mn_attachments m) c5) (\<lambda>c6.
     bindS (foldS insert_evidence (mn_evidence m) c6) (\<lambda>c7.
     foldS insert_artifact (mn_artifacts m) c7)))))))"

definition epochs_by_id :: "runtime_epoch_record list \<Rightarrow> runtime_epoch_record dict" where
  "epochs_by_id xs = fold (\<lambda>x d. AList.update (xe_runtime_epoch x) x d) xs []"

text \<open>The revision check that precedes every change; the result is the affected case.\<close>

definition check_case_revision :: "state_file \<Rightarrow> int option \<Rightarrow> state_mutation \<Rightarrow> store_error + opaque_id option" where
  "check_case_revision s expected m =
     (let named = map_option cs_case_id (mn_upsert_case m)
      in case expected of
           None \<Rightarrow> Inr named
         | Some rv \<Rightarrow>
             bindS (case named of Some i \<Rightarrow> Inr i | None \<Rightarrow> infer_affected_case_id s m) (\<lambda>i.
             case map_of (sf_cases s) i of
               None \<Rightarrow> conflict msg_case_revision_changed
             | Some ag \<Rightarrow>
                 if cs_case_revision (ag_case ag) = rv then Inr (Some i)
                 else conflict msg_case_revision_changed))"

definition apply_mutation ::
  "store_env \<Rightarrow> timestamp \<Rightarrow> state_file \<Rightarrow> int option \<Rightarrow> state_mutation \<Rightarrow>
   store_error + (state_file \<times> opaque_id option)" where
  "apply_mutation sv now current expected m =
     bindS (check_case_revision current expected m) (\<lambda>affected.
     bindS (foldS upsert_runtime_epoch (mn_runtime_epochs m) (epochs_by_id (sf_runtime_epochs current))) (\<lambda>epochs.
     bindS (foldS upsert_recovery_record (mn_recovery m) (sf_recovery current)) (\<lambda>recovery.
     bindS (apply_to_cases m (upsert_case (mn_upsert_case m) (sf_cases current))) (\<lambda>cases.
     bindS (foldS (\<lambda>r d. raised (insert_unique d (idempotency_key_of r) r)) (mn_idempotency m)
         (sf_idempotency current)) (\<lambda>idempotency.
     let s = current\<lparr>sf_runtime_epochs := dict_items epochs, sf_recovery := recovery, sf_cases := cases,
         sf_idempotency := idempotency, sf_generation := sf_generation current + 1, sf_updated_at := now\<rparr>
     in raised (ensure (valid_state sv s) (s, affected)))))))"

end
