(* ===== verification/Case_Projection.thy ===== *)
theory Case_Projection
  imports State_File "HOL-Library.Product_Lexorder"
begin

text \<open>
  \<open>application/projection.py\<close>: the public view of a case, the coordinator's snapshot and the resources a
  follow-up job inherits, each computed from one state file; with the view models of \<open>contracts/models.py\<close>
  and their validators. Every \<open>raise ValueError\<close> is \<open>Inl ValueError\<close>.
\<close>

section \<open>View models\<close>

record attachment_summary =
  sa_attachment_id :: opaque_id
  sa_name :: text_t
  sa_status :: attachment_status
  sa_size :: "int option"

record job_summary =
  sj_job_id :: opaque_id
  sj_job_type :: job_type
  sj_diagnosis_mode :: "diagnosis_mode option"
  sj_status :: job_status
  sj_goal :: text_t
  sj_base_state_revision :: int
  sj_created_at :: timestamp
  sj_started_at :: "timestamp option"
  sj_finished_at :: "timestamp option"

definition valid_job_summary :: "job_summary \<Rightarrow> bool" where
  "valid_job_summary j \<longleftrightarrow>
     (case sj_status j of
        JS_PENDING \<Rightarrow> sj_started_at j = None \<and> sj_finished_at j = None
      | JS_RUNNING \<Rightarrow> sj_started_at j \<noteq> None \<and> sj_finished_at j = None
      | _ \<Rightarrow> sj_finished_at j \<noteq> None)"

record artifact_summary =
  su_artifact_id :: opaque_id
  su_kind :: artifact_kind
  su_name :: text_t
  su_content_type :: text_t
  su_resource_kind :: resource_kind
  su_size :: int
  su_sha256 :: sha256_t
  su_created_by_job_id :: opaque_id
  su_created_at :: timestamp
  su_downloadable :: bool

definition valid_artifact_summary :: "artifact_summary \<Rightarrow> bool" where
  "valid_artifact_summary a \<longleftrightarrow>
     artifact_shape (su_kind a) (su_resource_kind a) (su_content_type a) \<and>
     (su_kind a = AK_DIAGNOSTIC_EXPORT \<longrightarrow> su_downloadable a) \<and>
     (su_kind a = AK_LOGPARSE_RUN \<longrightarrow> \<not> su_downloadable a)"

record case_view =
  cv_case_id :: opaque_id
  cv_status :: case_status
  cv_case_revision :: int
  cv_archive_status :: text_t
  cv_attachments :: "attachment_summary list"
  cv_raw_problem_text :: text_t
  cv_diagnosis_state_revision :: int
  cv_problem_spec :: problem_spec
  cv_user_facts :: "diagnosis_item list"
  cv_confirmed_facts :: "diagnosis_item list"
  cv_open_questions :: "diagnosis_item list"
  cv_pending_requirements :: "pending_requirement list"
  cv_active_job :: "job_summary option"
  cv_selected_skill_ref :: "versioned_ref option"
  cv_final_result :: "candidate_conclusion option"
  cv_unresolved_result :: "unresolved_result option"
  cv_generic_result :: "generic_result option"
  cv_generic_result_v2 :: "generic_result_v2 option"
  cv_methods_result :: "methods_terminal_projection option"
  cv_failure :: "case_failure option"
  cv_artifacts :: "artifact_summary list"
  cv_created_at :: timestamp
  cv_updated_at :: timestamp

text \<open>\<open>CaseView.validate_view\<close>, in groups. A Methods result is refused at once, so the later branches on it
  never run.\<close>

definition view_generic :: "case_view \<Rightarrow> (generic_result_status \<times> text_t) option" where
  "view_generic v = generic_view (cv_generic_result v) (cv_generic_result_v2 v)"

definition valid_view_generic :: "case_view \<Rightarrow> bool" where
  "valid_view_generic v \<longleftrightarrow>
     \<not> (cv_generic_result v \<noteq> None \<and> cv_generic_result_v2 v \<noteq> None) \<and>
     (case view_generic v of
        None \<Rightarrow> True
      | Some (status, name) \<Rightarrow>
          cv_status v = generic_case_status status \<and> cv_final_result v = None \<and> cv_unresolved_result v = None \<and>
          (case cv_selected_skill_ref v of
             None \<Rightarrow> True
           | Some r \<Rightarrow> cv_generic_result_v2 v \<noteq> None \<and> ref_id r = skill_ref_prefix @ name))"

definition valid_view_result :: "case_view \<Rightarrow> bool" where
  "valid_view_result v \<longleftrightarrow>
     (if cv_status v \<in> {CS_RESOLVED, CS_PARTIALLY_RESOLVED}
      then view_generic v \<noteq> None \<or>
        (case cv_final_result v of
           None \<Rightarrow> False
         | Some f \<Rightarrow> cc_status f = CD_ACCEPTED \<and>
             cc_resolution_status f = (if cv_status v = CS_RESOLVED then DR_COMPLETE else DR_PARTIAL))
      else cv_final_result v = None) \<and>
     (if cv_status v = CS_UNRESOLVED then view_generic v \<noteq> None \<or> cv_unresolved_result v \<noteq> None
      else cv_unresolved_result v = None)"

definition valid_view_activity :: "case_view \<Rightarrow> bool" where
  "valid_view_activity v \<longleftrightarrow>
     (if cv_status v \<in> {CS_RUNNING, CS_REVIEWING}
      then (case cv_active_job v of
              None \<Rightarrow> False
            | Some j \<Rightarrow> sj_status j \<in> {JS_PENDING, JS_RUNNING} \<and>
                ((cv_status v = CS_REVIEWING) = (sj_job_type j = JT_REVIEW)))
      else cv_active_job v = None)"

definition valid_view_items :: "case_view \<Rightarrow> bool" where
  "valid_view_items v \<longleftrightarrow>
     distinct (map it_item_id (cv_user_facts v @ cv_confirmed_facts v @ cv_open_questions v)) \<and>
     list_all (\<lambda>i. pv_source_type (it_provenance i) = DP_USER_INPUT) (cv_user_facts v) \<and>
     list_all (\<lambda>i. pv_source_type (it_provenance i) = DP_AGENT_OUTCOME) (cv_confirmed_facts v @ cv_open_questions v) \<and>
     list_all (\<lambda>i. it_evidence_refs i \<noteq> []) (cv_confirmed_facts v) \<and>
     list_all (\<lambda>i. it_status i = DI_ACTIVE) (cv_open_questions v)"

definition valid_view_requirements :: "case_view \<Rightarrow> bool" where
  "valid_view_requirements v \<longleftrightarrow>
     (let open_reqs = filter (\<lambda>r. rq_status r = QS_OPEN) (cv_pending_requirements v)
      in distinct (map rq_requirement_id (cv_pending_requirements v)) \<and> distinct (map rq_name open_reqs) \<and>
         length (filter (\<lambda>r. rq_kind r = QK_ATTACHMENT) open_reqs) \<le> 1)"

definition view_criteria_covered :: "case_view \<Rightarrow> bool" where
  "view_criteria_covered v \<longleftrightarrow>
     (case cv_final_result v of
        None \<Rightarrow> True
      | Some f \<Rightarrow> criteria_mapped 0 (cc_completion_criteria_mapping f)
          (ps_completion_criteria (cv_problem_spec v)))"

definition summaries_of :: "artifact_kind \<Rightarrow> case_view \<Rightarrow> artifact_summary list" where
  "summaries_of k v = filter (\<lambda>a. su_kind a = k) (cv_artifacts v)"

definition valid_view_results :: "case_view \<Rightarrow> bool" where
  "valid_view_results v \<longleftrightarrow>
     (let user_results = summaries_of AK_USER_RESULT v; archives = summaries_of AK_USER_RESULT_ARCHIVE v
      in if cv_status v \<in> {CS_RESOLVED, CS_PARTIALLY_RESOLVED} \<and> view_generic v = None
         then (case (cv_final_result v, user_results) of
                 (Some f, [u]) \<Rightarrow>
                   su_created_by_job_id u = cc_proposed_by_job_id f \<and>
                   (cv_archive_status v = ''READY'' \<longrightarrow> length archives = 1) \<and>
                   (case archives of [] \<Rightarrow> True | a # _ \<Rightarrow> su_created_by_job_id a = cc_proposed_by_job_id f)
               | _ \<Rightarrow> False)
         else if cv_status v = CS_UNRESOLVED \<and> view_generic v = None
         then (case (cv_unresolved_result v, user_results) of
                 (Some n, [u]) \<Rightarrow> su_artifact_id u = un_user_result_artifact_id n \<and> archives = []
               | _ \<Rightarrow> False)
         else user_results = [] \<and> archives = [])"

definition valid_view_reports :: "case_view \<Rightarrow> bool" where
  "valid_view_reports v \<longleftrightarrow>
     (case cv_generic_result_v2 v of
        None \<Rightarrow> summaries_of AK_GENERIC_REPORT v = []
      | Some g \<Rightarrow>
          (case summaries_of AK_GENERIC_REPORT v of
             [a] \<Rightarrow> su_artifact_id a = g2_report_artifact_id g \<and> su_size a = g2_report_utf8_size g \<and>
               su_sha256 a = g2_report_sha256 g \<and> su_created_by_job_id a = g2_source_job_id g
           | _ \<Rightarrow> False))"

definition valid_view_audit :: "case_view \<Rightarrow> bool" where
  "valid_view_audit v \<longleftrightarrow>
     (if cv_status v = CS_UNRESOLVED \<and> view_generic v = None
      then (case (cv_unresolved_result v, summaries_of AK_AUDIT_BUNDLE v) of
              (Some n, [a]) \<Rightarrow> su_artifact_id a = un_audit_artifact_id n
            | _ \<Rightarrow> False)
      else summaries_of AK_AUDIT_BUNDLE v = [])"

definition valid_case_view :: "case_view \<Rightarrow> bool" where
  "valid_case_view v \<longleftrightarrow>
     cv_methods_result v = None \<and> (cv_status v = CS_FAILED \<longleftrightarrow> cv_failure v \<noteq> None) \<and>
     valid_view_generic v \<and> valid_view_result v \<and> valid_view_activity v \<and> valid_view_items v \<and>
     valid_view_requirements v \<and> view_criteria_covered v \<and> list_all su_downloadable (cv_artifacts v) \<and>
     distinct (map su_artifact_id (cv_artifacts v)) \<and>
     valid_view_results v \<and> valid_view_reports v \<and> valid_view_audit v"

section \<open>Artifacts\<close>

definition artifact_public :: "case_t \<Rightarrow> artifact \<Rightarrow> bool" where
  "artifact_public c a \<longleftrightarrow>
     (case af_kind a of
        AK_DIAGNOSTIC_EXPORT \<Rightarrow> True
      | AK_LOGPARSE_RUN \<Rightarrow> False
      | AK_AUDIT_BUNDLE \<Rightarrow>
          cs_status c = CS_UNRESOLVED \<and>
          (case cs_unresolved_result c of None \<Rightarrow> False | Some u \<Rightarrow> un_audit_artifact_id u = af_artifact_id a)
      | AK_GENERIC_REPORT \<Rightarrow>
          (case cs_generic_result_v2 c of
             None \<Rightarrow> False
           | Some g \<Rightarrow> g2_report_artifact_id g = af_artifact_id a \<and> g2_source_job_id g = af_created_by_job_id a \<and>
               g2_report_utf8_size g = af_size a \<and> g2_report_sha256 g = af_sha256 a)
      | k \<Rightarrow>
          (case (if k = AK_USER_RESULT \<and> cs_status c = CS_UNRESOLVED then cs_unresolved_result c else None) of
             Some u \<Rightarrow> af_artifact_id a = un_user_result_artifact_id u
           | None \<Rightarrow>
               cs_status c \<in> {CS_RESOLVED, CS_PARTIALLY_RESOLVED} \<and>
               (case cs_final_result c of
                  None \<Rightarrow> False | Some f \<Rightarrow> af_created_by_job_id a = cc_proposed_by_job_id f)))"

definition is_artifact_downloadable :: "case_t \<Rightarrow> artifact \<Rightarrow> exn + bool" where
  "is_artifact_downloadable c a = ensure (af_case_id a = cs_case_id c) (artifact_public c a)"

definition artifact_summary_of :: "artifact \<Rightarrow> bool \<Rightarrow> artifact_summary" where
  "artifact_summary_of a downloadable =
     \<lparr>su_artifact_id = af_artifact_id a, su_kind = af_kind a, su_name = af_name a,
      su_content_type = af_content_type a, su_resource_kind = af_resource_kind a, su_size = af_size a,
      su_sha256 = af_sha256 a, su_created_by_job_id = af_created_by_job_id a, su_created_at = af_created_at a,
      su_downloadable = downloadable\<rparr>"

definition project_artifact_summary :: "case_t \<Rightarrow> artifact \<Rightarrow> exn + artifact_summary" where
  "project_artifact_summary c a =
     bindE (is_artifact_downloadable c a) (\<lambda>d.
     ensure (valid_artifact_summary (artifact_summary_of a d)) (artifact_summary_of a d))"

definition project_artifact_summaries :: "store_env \<Rightarrow> case_t \<Rightarrow> artifact list \<Rightarrow> bool \<Rightarrow> exn + artifact_summary list" where
  "project_artifact_summaries sv c artifacts include_internal =
     bindE (mapE (project_artifact_summary c) artifacts) (\<lambda>xs.
     let ordered = sort_key (\<lambda>s. (sv_instant sv (su_created_at s), su_artifact_id s)) xs
     in Inr (if include_internal then ordered else filter su_downloadable ordered))"

section \<open>The case view\<close>

definition case_aggregate_of :: "state_file \<Rightarrow> opaque_id \<Rightarrow> exn + case_aggregate" where
  "case_aggregate_of s case_id =
     (case map_of (sf_cases s) case_id of
        None \<Rightarrow> Inl ValueError
      | Some ag \<Rightarrow> ensure (cs_case_id (ag_case ag) = case_id) ag)"

definition active_job_of :: "case_aggregate \<Rightarrow> exn + job option" where
  "active_job_of ag =
     (case cs_active_job_id (ag_case ag) of
        None \<Rightarrow> Inr None
      | Some i \<Rightarrow>
          (case map_of (ag_jobs ag) i of
             None \<Rightarrow> Inl ValueError
           | Some j \<Rightarrow>
               ensure (jb_case_id j = cs_case_id (ag_case ag) \<and> jb_status j \<in> {JS_PENDING, JS_RUNNING}) (Some j)))"

definition job_summary_of :: "job \<Rightarrow> exn + job_summary" where
  "job_summary_of j =
     (let s = \<lparr>sj_job_id = jb_job_id j, sj_job_type = jb_job_type j, sj_diagnosis_mode = jb_diagnosis_mode j,
           sj_status = jb_status j, sj_goal = jb_goal j, sj_base_state_revision = jb_base_state_revision j,
           sj_created_at = jb_created_at j, sj_started_at = jb_started_at j, sj_finished_at = jb_finished_at j\<rparr>
      in ensure (valid_job_summary s) s)"

definition attachment_summary_of :: "attachment \<Rightarrow> attachment_summary" where
  "attachment_summary_of a =
     \<lparr>sa_attachment_id = at_attachment_id a, sa_name = at_name a, sa_status = at_status a,
      sa_size = (if at_size a = None then at_declared_size a else at_size a)\<rparr>"

definition active_summary :: "job option \<Rightarrow> exn + job_summary option" where
  "active_summary j = (case j of None \<Rightarrow> Inr None | Some x \<Rightarrow> bindE (job_summary_of x) (\<lambda>s. Inr (Some s)))"

definition view_of :: "case_t \<Rightarrow> job_summary option \<Rightarrow> artifact_summary list \<Rightarrow> attachment list \<Rightarrow> case_view" where
  "view_of c active summaries attachments =
     \<lparr>cv_case_id = cs_case_id c, cv_status = cs_status c, cv_case_revision = cs_case_revision c,
      cv_archive_status = cs_archive_status c, cv_attachments = map attachment_summary_of attachments,
      cv_raw_problem_text = cs_raw_problem_text c,
      cv_diagnosis_state_revision = ds_revision (cs_diagnosis_state c),
      cv_problem_spec = ds_problem_spec (cs_diagnosis_state c),
      cv_user_facts = ds_user_facts (cs_diagnosis_state c),
      cv_confirmed_facts = ds_confirmed_facts (cs_diagnosis_state c),
      cv_open_questions = ds_open_questions (cs_diagnosis_state c),
      cv_pending_requirements = ds_pending_requirements (cs_diagnosis_state c),
      cv_active_job = active, cv_selected_skill_ref = cs_selected_skill_ref c,
      cv_final_result = cs_final_result c, cv_unresolved_result = cs_unresolved_result c,
      cv_generic_result = cs_generic_result c, cv_generic_result_v2 = cs_generic_result_v2 c,
      cv_methods_result = cs_methods_result c, cv_failure = cs_failure c, cv_artifacts = summaries,
      cv_created_at = cs_created_at c, cv_updated_at = cs_updated_at c\<rparr>"

definition project_case_components ::
  "store_env \<Rightarrow> case_t \<Rightarrow> job option \<Rightarrow> artifact list \<Rightarrow> attachment list \<Rightarrow> exn + case_view" where
  "project_case_components sv c active_job artifacts attachments =
     (if (active_job = None) \<noteq> (cs_active_job_id c = None) \<or>
         \<not> pred_option (\<lambda>j. jb_case_id j = cs_case_id c \<and> Some (jb_job_id j) = cs_active_job_id c) active_job
      then Inl ValueError
      else bindE (active_summary active_job) (\<lambda>active.
           bindE (project_artifact_summaries sv c artifacts False) (\<lambda>summaries.
           let v = view_of c active summaries attachments in ensure (valid_case_view v) v)))"

definition project_case_view :: "store_env \<Rightarrow> state_file \<Rightarrow> opaque_id \<Rightarrow> exn + case_view" where
  "project_case_view sv s case_id =
     bindE (case_aggregate_of s case_id) (\<lambda>ag.
     bindE (active_job_of ag) (\<lambda>active.
     project_case_components sv (ag_case ag) active (dict_items (ag_artifacts ag)) (dict_items (ag_attachments ag))))"

section \<open>The coordinator's snapshot\<close>

definition add_replacement :: "job dict \<Rightarrow> job \<Rightarrow> opaque_id dict \<Rightarrow> exn + opaque_id dict" where
  "add_replacement jobs j acc =
     (case jb_replacement_for_job_id j of
        None \<Rightarrow> Inr acc
      | Some source \<Rightarrow>
          if interrupted_job jobs source \<and> pred_option (\<lambda>k. k = jb_job_id j) (map_of acc source)
          then Inr (AList.update source (jb_job_id j) acc) else Inl ValueError)"

text \<open>\<open>max(candidates, key=...)\<close>: the first element with the largest key.\<close>

fun max_by :: "('a \<Rightarrow> 'k::linorder) \<Rightarrow> 'a list \<Rightarrow> 'a option" where
  "max_by key [] = None"
| "max_by key (x # xs) = Some (fold (\<lambda>y best. if key best < key y then y else best) xs x)"

definition resume_key :: "store_env \<Rightarrow> job \<Rightarrow> int \<times> int \<times> opaque_id" where
  "resume_key sv j =
     (sv_instant sv (case jb_finished_at j of None \<Rightarrow> jb_created_at j | Some t \<Rightarrow> t),
      sv_instant sv (jb_created_at j), jb_job_id j)"

definition resume_source :: "store_env \<Rightarrow> case_aggregate \<Rightarrow> opaque_id dict \<Rightarrow> job option" where
  "resume_source sv ag replacements =
     (if cs_status (ag_case ag) \<noteq> CS_INTERRUPTED then None
      else max_by (resume_key sv)
        (filter (\<lambda>j. jb_status j = JS_INTERRUPTED \<and> \<not> has_key replacements (jb_job_id j)) (dict_items (ag_jobs ag))))"

definition waiting_source :: "case_aggregate \<Rightarrow> job option" where
  "waiting_source ag =
     (if cs_status (ag_case ag) \<notin> {CS_WAITING_INPUT, CS_WAITING_ATTACHMENT} then None
      else case remdups (map rq_requested_by_job_id (open_requirements (cs_diagnosis_state (ag_case ag)))) of
             [i] \<Rightarrow> map_of (ag_jobs ag) i
           | _ \<Rightarrow> None)"

definition build_case_snapshot :: "store_env \<Rightarrow> state_file \<Rightarrow> opaque_id \<Rightarrow> exn + case_snapshot" where
  "build_case_snapshot sv s case_id =
     bindE (case_aggregate_of s case_id) (\<lambda>ag.
     bindE (foldS (add_replacement (ag_jobs ag)) (dict_items (ag_jobs ag)) []) (\<lambda>replacements.
     bindE (active_job_of ag) (\<lambda>active.
     let sn = \<lparr>sn_case = ag_case ag, sn_active_job = active, sn_resume_source_job = resume_source sv ag replacements,
           sn_waiting_source_job = waiting_source ag,
           sn_replacement_job_ids_by_source = sort_key fst replacements\<rparr>
     in ensure (valid_snapshot (sv_py sv) sn) sn)))"

definition empty_continuation_resources :: continuation_resources where
  "empty_continuation_resources =
     \<lparr>cr_evidence_refs = [], cr_attachment_refs = [], cr_artifact_refs = [], cr_previous_outcome_refs = []\<rparr>"

end
