(* ===== verification/Continuation.thy ===== *)
theory Continuation
  imports Case_Projection
begin

text \<open>
  The continuation resources of \<open>application/projection.py\<close>: which evidence, attachments, artifacts and
  earlier outcomes a follow-up job inherits after an outcome, a supplement or a resume. The closure adds the
  dependencies of every evidence item; a resume copies the arrays of the interrupted job and checks that they
  are closed.
\<close>

section \<open>Resolving one resource\<close>

definition source_job_of :: "case_aggregate \<Rightarrow> opaque_id \<Rightarrow> exn + job" where
  "source_job_of ag i =
     (case map_of (ag_jobs ag) i of
        None \<Rightarrow> Inl ValueError
      | Some j \<Rightarrow> ensure (jb_case_id j = cs_case_id (ag_case ag)) j)"

definition append_unique :: "opaque_id \<Rightarrow> opaque_id list \<Rightarrow> opaque_id list" where
  "append_unique v xs = (if v \<in> set xs then xs else xs @ [v])"

definition formal_evidence :: "case_aggregate \<Rightarrow> opaque_id \<Rightarrow> exn + evidence" where
  "formal_evidence ag i =
     (case map_of (ag_evidence ag) i of
        None \<Rightarrow> Inl ValueError
      | Some e \<Rightarrow>
          ensure (vd_case_id e = cs_case_id (ag_case ag) \<and>
            pred_option (\<lambda>r. 0 \<le> rr_size r \<and> length (rr_sha256 r) = 64 \<and>
              pred_option (\<lambda>h. h = rr_sha256 r) (vd_content_hash e)) (vd_resource_ref e)) e)"

definition formal_attachment :: "case_aggregate \<Rightarrow> opaque_id \<Rightarrow> exn + attachment" where
  "formal_attachment ag i =
     (case map_of (ag_attachments ag) i of
        None \<Rightarrow> Inl ValueError
      | Some a \<Rightarrow>
          ensure (at_case_id a = cs_case_id (ag_case ag) \<and> at_status a = AT_READY \<and> at_storage_key a \<noteq> None \<and>
            at_size a \<noteq> None \<and> at_sha256 a \<noteq> None) a)"

definition logparse_source_attachment :: "case_aggregate \<Rightarrow> artifact \<Rightarrow> exn + opaque_id" where
  "logparse_source_attachment ag a =
     (case (af_kind a, af_metadata a) of
        (AK_LOGPARSE_RUN, LogparseRunMetadata m) \<Rightarrow>
          bindE (formal_attachment ag (lm_source_attachment_id m)) (\<lambda>att.
          case map_of (ag_jobs ag) (af_created_by_job_id a) of
            None \<Rightarrow> Inl ValueError
          | Some producer \<Rightarrow>
              ensure (jb_case_id producer = cs_case_id (ag_case ag) \<and>
                lm_source_attachment_id m \<in> set (jb_attachment_refs producer) \<and>
                at_sha256 att = Some (lm_source_attachment_sha256 m) \<and>
                jb_logparse_tool_ref producer = Some (lm_logparse_version_ref m) \<and>
                jb_logparse_product producer = Some (lm_product m) \<and>
                lm_tree_manifest_sha256 m = af_sha256 a) (at_attachment_id att))
      | _ \<Rightarrow> Inl ValueError)"

definition formal_artifact :: "case_aggregate \<Rightarrow> artifact_kind option \<Rightarrow> opaque_id \<Rightarrow> exn + artifact" where
  "formal_artifact ag expected_kind i =
     (case map_of (ag_artifacts ag) i of
        None \<Rightarrow> Inl ValueError
      | Some a \<Rightarrow>
          bindE (ensure (af_case_id a = cs_case_id (ag_case ag) \<and> pred_option (\<lambda>k. af_kind a = k) expected_kind \<and>
            0 \<le> af_size a \<and> length (af_sha256 a) = 64) ()) (\<lambda>_.
          if af_kind a = AK_LOGPARSE_RUN then bindE (logparse_source_attachment ag a) (\<lambda>_. Inr a) else Inr a))"

definition outcome_is_applied :: "case_aggregate \<Rightarrow> opaque_id \<Rightarrow> bool" where
  "outcome_is_applied ag i \<longleftrightarrow>
     (case (map_of (ag_processing ag) i, map_of (ag_outcomes ag) i) of
        (Some r, Some oc) \<Rightarrow> op_outcome_id r = i \<and> op_disposition r = OD_APPLIED \<and> op_job_id r = oc_job_id oc
      | _ \<Rightarrow> False)"

definition formal_outcome :: "case_aggregate \<Rightarrow> opaque_id \<Rightarrow> exn + job_outcome" where
  "formal_outcome ag i =
     (case map_of (ag_outcomes ag) i of
        None \<Rightarrow> Inl ValueError
      | Some oc \<Rightarrow> ensure (oc_case_id oc = cs_case_id (ag_case ag) \<and> outcome_is_applied ag i) oc)"

definition locator_input_name :: "evidence_locator \<Rightarrow> text_t option" where
  "locator_input_name l = (case l of UserFactLocator n \<Rightarrow> Some n | _ \<Rightarrow> None)"

definition user_fact_source :: "case_aggregate \<Rightarrow> evidence \<Rightarrow> exn + unit" where
  "user_fact_source ag e =
     (case find (\<lambda>i. it_item_id i = vd_source_ref e) (ds_user_facts (cs_diagnosis_state (ag_case ag))) of
        None \<Rightarrow> Inl ValueError
      | Some x \<Rightarrow> ensure (pv_source_type (it_provenance x) = DP_USER_INPUT \<and>
          locator_input_name (vd_locator e) = pv_input_name (it_provenance x)) ())"

section \<open>The closure\<close>

record dependencies =
  dp_attachments :: "opaque_id list"
  dp_artifacts :: "opaque_id list"
  dp_outcomes :: "opaque_id list"

definition append_evidence_dependencies :: "case_aggregate \<Rightarrow> evidence \<Rightarrow> dependencies \<Rightarrow> exn + dependencies" where
  "append_evidence_dependencies ag e d =
     (case vd_source_type e of
        ES_USER_FACT \<Rightarrow> bindE (user_fact_source ag e) (\<lambda>_. Inr d)
      | ES_ATTACHMENT \<Rightarrow>
          bindE (formal_attachment ag (vd_source_ref e)) (\<lambda>a.
          Inr (d\<lparr>dp_attachments := append_unique (at_attachment_id a) (dp_attachments d)\<rparr>))
      | ES_LOGPARSE \<Rightarrow>
          bindE (formal_artifact ag (Some AK_LOGPARSE_RUN) (vd_source_ref e)) (\<lambda>a.
          bindE (logparse_source_attachment ag a) (\<lambda>i.
          Inr (d\<lparr>dp_artifacts := append_unique (af_artifact_id a) (dp_artifacts d),
                 dp_attachments := append_unique i (dp_attachments d)\<rparr>)))
      | ES_TOOL_OUTPUT \<Rightarrow>
          bindE (formal_artifact ag (Some AK_DIAGNOSTIC_EXPORT) (vd_source_ref e)) (\<lambda>a.
          Inr (d\<lparr>dp_artifacts := append_unique (af_artifact_id a) (dp_artifacts d)\<rparr>))
      | ES_PREVIOUS_OUTCOME \<Rightarrow>
          bindE (formal_outcome ag (vd_source_ref e)) (\<lambda>oc.
          Inr (d\<lparr>dp_outcomes := append_unique (oc_outcome_id oc) (dp_outcomes d)\<rparr>)))"

text \<open>The attachments a requirement contributes: a fulfilled one its references, the one being supplemented
  the new attachments.\<close>

definition requirement_attachments ::
  "case_aggregate \<Rightarrow> opaque_id option \<Rightarrow> opaque_id list \<Rightarrow> pending_requirement \<Rightarrow> opaque_id list \<Rightarrow>
   exn + opaque_id list" where
  "requirement_attachments ag supplemented supplement_ids r acc =
     (if rq_kind r \<noteq> QK_ATTACHMENT then Inr acc
      else let ids = (if rq_status r = QS_FULFILLED then rq_fulfilled_by_refs r
                      else if Some (rq_requirement_id r) = supplemented then supplement_ids else [])
           in foldS (\<lambda>i xs. bindE (formal_attachment ag i) (\<lambda>_. Inr (append_unique i xs))) ids acc)"

definition valid_continuation :: "continuation_resources \<Rightarrow> bool" where
  "valid_continuation v \<longleftrightarrow>
     distinct (cr_evidence_refs v) \<and> distinct (cr_attachment_refs v) \<and> distinct (cr_artifact_refs v) \<and>
     distinct (cr_previous_outcome_refs v)"

definition continuation_closure ::
  "case_aggregate \<Rightarrow> job \<Rightarrow> opaque_id list \<Rightarrow> opaque_id option \<Rightarrow> opaque_id option \<Rightarrow> opaque_id list \<Rightarrow>
   exn + continuation_resources" where
  "continuation_closure ag source leading allowed_unsaved supplemented supplement_ids =
     (let s = cs_diagnosis_state (ag_case ag); evidence_ids = ds_evidence_refs s;
          outcomes = fold append_unique (jb_previous_outcome_refs source) (fold append_unique leading [])
      in bindE (ensure (list_all (\<lambda>i. i \<in> set evidence_ids) (jb_evidence_refs source)) ()) (\<lambda>_.
         bindE (mapE (formal_attachment ag) (jb_attachment_refs source)) (\<lambda>_.
         bindE (mapE (formal_artifact ag None) (jb_artifact_refs source)) (\<lambda>_.
         bindE (mapE (formal_outcome ag) (jb_previous_outcome_refs source)) (\<lambda>_.
         bindE (foldS (requirement_attachments ag supplemented supplement_ids) (ds_pending_requirements s)
             (jb_attachment_refs source)) (\<lambda>attachments.
         bindE (foldS (\<lambda>i d. bindE (formal_evidence ag i) (\<lambda>e. append_evidence_dependencies ag e d)) evidence_ids
             \<lparr>dp_attachments = attachments, dp_artifacts = jb_artifact_refs source, dp_outcomes = outcomes\<rparr>) (\<lambda>d.
         bindE (mapE (\<lambda>i. if Some i = allowed_unsaved \<and> \<not> has_key (ag_outcomes ag) i then Inr ()
                          else bindE (formal_outcome ag i) (\<lambda>_. Inr ())) (dp_outcomes d)) (\<lambda>_.
         let v = \<lparr>cr_evidence_refs = evidence_ids, cr_attachment_refs = dp_attachments d,
               cr_artifact_refs = dp_artifacts d, cr_previous_outcome_refs = dp_outcomes d\<rparr>
         in ensure (valid_continuation v) v))))))))"

section \<open>Continuations\<close>

definition continuation_for_outcome :: "state_file \<Rightarrow> job_outcome \<Rightarrow> exn + continuation_resources" where
  "continuation_for_outcome s oc =
     bindE (case_aggregate_of s (oc_case_id oc)) (\<lambda>ag.
     bindE (source_job_of ag (oc_job_id oc)) (\<lambda>j.
     bindE (ensure (jb_job_type j = oc_job_type oc \<and> jb_base_state_revision j = oc_base_state_revision oc \<and>
         pred_option (\<lambda>x. x = oc) (map_of (ag_outcomes ag) (oc_outcome_id oc))) ()) (\<lambda>_.
     continuation_closure ag j [oc_outcome_id oc] (Some (oc_outcome_id oc)) None [])))"

definition continuation_for_supplement ::
  "state_file \<Rightarrow> opaque_id \<Rightarrow> opaque_id list \<Rightarrow> exn + continuation_resources" where
  "continuation_for_supplement s case_id ready_attachment_ids =
     bindE (case_aggregate_of s case_id) (\<lambda>ag.
     let reqs = open_requirements (cs_diagnosis_state (ag_case ag))
     in if cs_status (ag_case ag) \<notin> {CS_WAITING_INPUT, CS_WAITING_ATTACHMENT} then Inl ValueError
        else case remdups (map rq_requested_by_job_id reqs) of
          [i] \<Rightarrow>
            bindE (source_job_of ag i) (\<lambda>j.
            case filter (\<lambda>oc. oc_job_id oc = jb_job_id j \<and> oc_result_type oc \<in> {RT_NEED_INPUT, RT_NEED_ATTACHMENT} \<and>
                outcome_is_applied ag (oc_outcome_id oc)) (dict_items (ag_outcomes ag)) of
              [oc] \<Rightarrow>
                bindE (if ready_attachment_ids = [] then Inr None
                       else case filter (\<lambda>r. rq_kind r = QK_ATTACHMENT) reqs of
                              [r] \<Rightarrow> Inr (Some (rq_requirement_id r))
                            | _ \<Rightarrow> Inl ValueError) (\<lambda>supplemented.
                continuation_closure ag j [oc_outcome_id oc] None supplemented ready_attachment_ids)
            | _ \<Rightarrow> Inl ValueError)
        | _ \<Rightarrow> Inl ValueError)"

definition exact_evidence :: "case_aggregate \<Rightarrow> continuation_resources \<Rightarrow> opaque_id \<Rightarrow> exn + unit" where
  "exact_evidence ag v i =
     bindE (formal_evidence ag i) (\<lambda>e.
     case vd_source_type e of
       ES_ATTACHMENT \<Rightarrow>
         bindE (formal_attachment ag (vd_source_ref e)) (\<lambda>_.
         ensure (vd_source_ref e \<in> set (cr_attachment_refs v)) ())
     | ES_LOGPARSE \<Rightarrow>
         bindE (formal_artifact ag (Some AK_LOGPARSE_RUN) (vd_source_ref e)) (\<lambda>a.
         bindE (ensure (af_artifact_id a \<in> set (cr_artifact_refs v)) ()) (\<lambda>_.
         bindE (logparse_source_attachment ag a) (\<lambda>att.
         ensure (att \<in> set (cr_attachment_refs v)) ())))
     | ES_TOOL_OUTPUT \<Rightarrow>
         bindE (formal_artifact ag (Some AK_DIAGNOSTIC_EXPORT) (vd_source_ref e)) (\<lambda>a.
         ensure (af_artifact_id a \<in> set (cr_artifact_refs v)) ())
     | ES_PREVIOUS_OUTCOME \<Rightarrow>
         bindE (formal_outcome ag (vd_source_ref e)) (\<lambda>_.
         ensure (vd_source_ref e \<in> set (cr_previous_outcome_refs v)) ())
     | ES_USER_FACT \<Rightarrow> user_fact_source ag e)"

definition validate_exact_job_continuation :: "case_aggregate \<Rightarrow> job \<Rightarrow> continuation_resources \<Rightarrow> exn + unit" where
  "validate_exact_job_continuation ag source v =
     bindE (mapE (formal_attachment ag) (cr_attachment_refs v)) (\<lambda>_.
     bindE (mapE (formal_artifact ag None) (cr_artifact_refs v)) (\<lambda>_.
     bindE (mapE (formal_outcome ag) (cr_previous_outcome_refs v)) (\<lambda>_.
     bindE (mapE (exact_evidence ag v) (cr_evidence_refs v)) (\<lambda>_.
     ensure (set (cr_evidence_refs v) = set (jb_evidence_refs source)) ()))))"

definition job_resources :: "job \<Rightarrow> continuation_resources" where
  "job_resources j =
     \<lparr>cr_evidence_refs = jb_evidence_refs j, cr_attachment_refs = jb_attachment_refs j,
      cr_artifact_refs = jb_artifact_refs j, cr_previous_outcome_refs = jb_previous_outcome_refs j\<rparr>"

definition continuation_for_resume :: "store_env \<Rightarrow> state_file \<Rightarrow> opaque_id \<Rightarrow> exn + continuation_resources" where
  "continuation_for_resume sv s case_id =
     bindE (case_aggregate_of s case_id) (\<lambda>ag.
     bindE (build_case_snapshot sv s case_id) (\<lambda>sn.
     case sn_resume_source_job sn of
       None \<Rightarrow> Inl ValueError
     | Some j \<Rightarrow>
         bindE (ensure (valid_continuation (job_resources j)) (job_resources j)) (\<lambda>v.
         bindE (validate_exact_job_continuation ag j v) (\<lambda>_. Inr v))))"

end
