(* ===== verification/Job_Control.thy ===== *)
theory Job_Control
  imports Continuation Case_Application
begin

text \<open>
  \<open>JobControlService\<close> of \<open>application/job_control.py\<close> with the helpers of \<open>application/preparation.py\<close> it
  uses: claiming a job, reporting an execution infrastructure failure, and interrupting the jobs of an earlier
  runtime epoch. Each command is a bounded loop of optimistic attempts: read a state, decide, commit; a
  \<open>REVISION_CONFLICT\<close> of the commit starts the next attempt.

  The ports are a record of functions on a repository state. The clock, the identifier source and the asset
  catalogue answer from the record; \<open>pt_other\<close> is what other clients do to the repository between the steps
  of this one (even indices before a read, odd ones between the read and the next step). The coordinator is the
  modelled \<open>DomainCoordinator\<close>. Notifications and journey events have no result and are left out.
\<close>

section \<open>Ports\<close>

record 'r control_ports =
  pt_read_job :: "'r \<Rightarrow> opaque_id \<Rightarrow> 'r \<times> (store_error + state_file)"
  pt_read_all :: "'r \<Rightarrow> 'r \<times> (store_error + state_file)"
  pt_commit :: "'r \<Rightarrow> int \<Rightarrow> int option \<Rightarrow> state_mutation \<Rightarrow> 'r \<times> (store_error + commit_receipt)"
  pt_missing :: "nat \<Rightarrow> versioned_ref list \<Rightarrow> versioned_ref list"
  pt_now :: timestamp
  pt_trigger_id :: opaque_id
  pt_max_commit_attempts :: nat
  pt_other :: "nat \<Rightarrow> 'r \<Rightarrow> 'r"

text \<open>The pattern of \<open>OpaqueId\<close>, checked on raw input.\<close>

definition is_hex :: "char \<Rightarrow> bool" where
  "is_hex c \<longleftrightarrow> c \<in> set ''0123456789abcdef''"

definition is_uuid :: "text_t \<Rightarrow> bool" where
  "is_uuid s \<longleftrightarrow>
     length s = 36 \<and>
     list_all (\<lambda>(i, c). if i \<in> {8, 13, 18, 23} then c = CHR ''-'' else is_hex c) (enumerate 0 s)"

section \<open>The retry loop\<close>

datatype 'a decision =
    Answer "store_error + 'a"
  | Submit "int option" state_mutation "store_error + 'a"
  | Reread "state_file \<Rightarrow> store_error + 'a"

datatype ('r, 'a) attempt =
    Finished 'r "store_error + 'a"
  | Refused 'r store_error

definition is_revision_conflict :: "store_error \<Rightarrow> bool" where
  "is_revision_conflict e \<longleftrightarrow> (case e of PortError a \<Rightarrow> ae_code a = EC_REVISION_CONFLICT | Crash x \<Rightarrow> False)"

text \<open>One pass of the loop body.\<close>

definition run_attempt ::
  "'r control_ports \<Rightarrow> ('r \<Rightarrow> 'r \<times> (store_error + state_file)) \<Rightarrow> (nat \<Rightarrow> state_file \<Rightarrow> 'a decision) \<Rightarrow> nat \<Rightarrow> 'r \<Rightarrow>
   ('r, 'a) attempt" where
  "run_attempt P read decide n r =
     (case read (pt_other P (2 * n) r) of
        (r1, Inl e) \<Rightarrow> Finished r1 (Inl e)
      | (r1, Inr s) \<Rightarrow>
          (case decide n s of
             Answer x \<Rightarrow> Finished r1 x
           | Submit rv m x \<Rightarrow>
               (case pt_commit P (pt_other P (2 * n + 1) r1) (sf_generation s) rv m of
                  (r2, Inl e) \<Rightarrow> Refused r2 e
                | (r2, Inr receipt) \<Rightarrow> Finished r2 x)
           | Reread f \<Rightarrow>
               (case read (pt_other P (2 * n + 1) r1) of
                  (r2, Inl e) \<Rightarrow> Finished r2 (Inl e)
                | (r2, Inr t) \<Rightarrow> Finished r2 (f t))))"

text \<open>\<open>for attempt in range(max_commit_attempts)\<close>: \<open>left\<close> attempts remain, the first of them has index \<open>n\<close>.\<close>

fun retry :: "(nat \<Rightarrow> 'r \<Rightarrow> ('r, 'a) attempt) \<Rightarrow> nat \<Rightarrow> nat \<Rightarrow> 'r \<Rightarrow> 'r \<times> (store_error + 'a)" where
  "retry body 0 n r = (r, Inl (Crash AssertionError))"
| "retry body (Suc left) n r =
     (case body n r of
        Finished r' x \<Rightarrow> (r', x)
      | Refused r' e \<Rightarrow>
          if is_revision_conflict e \<and> 0 < left then retry body left (Suc n) r' else (r', Inl e))"

definition command ::
  "'r control_ports \<Rightarrow> ('r \<Rightarrow> 'r \<times> (store_error + state_file)) \<Rightarrow> (nat \<Rightarrow> state_file \<Rightarrow> 'a decision) \<Rightarrow> 'r \<Rightarrow>
   'r \<times> (store_error + 'a)" where
  "command P read decide r = retry (run_attempt P read decide) (pt_max_commit_attempts P) 0 r"

section \<open>Decisions and exceptions\<close>

definition failed :: "error_code \<Rightarrow> text_t \<Rightarrow> store_error + 'a" where
  "failed code message = Inl (PortError (port_error code message))"

text \<open>A call whose exceptions escape, and one whose \<open>ValueError\<close> is turned into a \<open>VALIDATION_ERROR\<close>.\<close>

definition escaping :: "exn + 'b \<Rightarrow> ('b \<Rightarrow> 'a decision) \<Rightarrow> 'a decision" where
  "escaping r f = (case r of Inl e \<Rightarrow> Answer (Inl (Crash e)) | Inr x \<Rightarrow> f x)"

definition caught :: "text_t \<Rightarrow> exn + 'b \<Rightarrow> ('b \<Rightarrow> 'a decision) \<Rightarrow> 'a decision" where
  "caught message r f =
     (case r of
        Inl ValueError \<Rightarrow> Answer (failed EC_VALIDATION_ERROR message)
      | Inl e \<Rightarrow> Answer (Inl (Crash e))
      | Inr x \<Rightarrow> f x)"

section \<open>Helpers\<close>

definition find_job :: "state_file \<Rightarrow> opaque_id \<Rightarrow> exn + (opaque_id \<times> case_aggregate \<times> job) option" where
  "find_job s job_id =
     (case List.map_filter (\<lambda>(c, ag). map_option (\<lambda>j. (c, ag, j)) (map_of (ag_jobs ag) job_id)) (sf_cases s) of
        [] \<Rightarrow> Inr None
      | [x] \<Rightarrow> Inr (Some x)
      | _ \<Rightarrow> Inl ValueError)"

definition find_failure_record ::
  "state_file \<Rightarrow> opaque_id \<Rightarrow> exn + (opaque_id \<times> case_aggregate \<times> failure_record) option" where
  "find_failure_record s failure_id =
     (case List.map_filter (\<lambda>(c, ag). map_option (\<lambda>f. (c, ag, f)) (map_of (ag_failures ag) failure_id)) (sf_cases s) of
        [] \<Rightarrow> Inr None
      | [x] \<Rightarrow> Inr (Some x)
      | _ \<Rightarrow> Inl ValueError)"

definition expected_case_status :: "job_type \<Rightarrow> case_status" where
  "expected_case_status t = (if t = JT_REVIEW then CS_REVIEWING else CS_RUNNING)"

definition claimable :: "case_aggregate \<Rightarrow> job \<Rightarrow> bool" where
  "claimable ag j \<longleftrightarrow>
     jb_status j = JS_PENDING \<and> cs_active_job_id (ag_case ag) = Some (jb_job_id j) \<and>
     cs_status (ag_case ag) = expected_case_status (jb_job_type j)"

definition fixed_asset_refs :: "job \<Rightarrow> versioned_ref list" where
  "fixed_asset_refs j =
     fold (\<lambda>r acc. if r \<in> set acc then acc else acc @ [r])
       ([jb_agent_profile_ref j] @ jb_available_skill_refs j @
        (case jb_skill_ref j of None \<Rightarrow> [] | Some r \<Rightarrow> [r]) @
        [jb_tool_bundle_ref j, jb_context_policy_ref j, jb_output_contract_ref j] @
        (case jb_logparse_tool_ref j of None \<Rightarrow> [] | Some r \<Rightarrow> [r])) []"

definition claim_lifecycle_update :: "job \<Rightarrow> opaque_id \<Rightarrow> timestamp \<Rightarrow> exn + job_update" where
  "claim_lifecycle_update j runtime_epoch started_at =
     ensure (jb_status j = JS_PENDING)
       \<lparr>ju_job_id = jb_job_id j, ju_expected_status = JS_PENDING, ju_target_status = JS_RUNNING,
        ju_started_at = Some started_at, ju_finished_at = None, ju_runtime_epoch = Some runtime_epoch\<rparr>"

definition running_job :: "py_env \<Rightarrow> job \<Rightarrow> job_update \<Rightarrow> exn + job" where
  "running_job env j u =
     (let j' = j\<lparr>jb_status := ju_target_status u, jb_started_at := ju_started_at u,
           jb_finished_at := ju_finished_at u, jb_runtime_epoch := ju_runtime_epoch u\<rparr>
      in ensure (valid_job env j') j')"

definition case_after_claim :: "py_env \<Rightarrow> case_t \<Rightarrow> timestamp \<Rightarrow> exn + case_t" where
  "case_after_claim env c occurred_at =
     (let c' = c\<lparr>cs_case_revision := cs_case_revision c + 1, cs_updated_at := occurred_at\<rparr>
      in ensure (valid_case env c') c')"

definition build_state_mutation :: "state_mutation \<Rightarrow> exn + state_mutation" where
  "build_state_mutation m = ensure (valid_mutation m) m"

definition control_case_status :: "job_status \<Rightarrow> case_status option" where
  "control_case_status st =
     (case st of JS_FAILED \<Rightarrow> Some CS_FAILED | JS_INTERRUPTED \<Rightarrow> Some CS_INTERRUPTED | _ \<Rightarrow> None)"

definition validate_control_plan ::
  "py_env \<Rightarrow> case_aggregate \<Rightarrow> plan \<Rightarrow> job \<Rightarrow> job_status list \<Rightarrow> timestamp \<Rightarrow> exn + case_t" where
  "validate_control_plan env ag p source targets occurred_at =
     (let ds = cs_diagnosis_state (ag_case ag)
      in if tp_outcome_disposition p \<noteq> None \<or> tp_accepted_evidence_keys p \<noteq> [] \<or> tp_accepted_artifact_keys p \<noteq> [] \<or>
            tp_accepted_candidate_key p \<noteq> None \<or> tp_selected_skill_update p \<noteq> None \<or> tp_candidate_mutation p \<noteq> None \<or>
            tp_next_job_spec p \<noteq> None \<or> tp_final_result_target p \<noteq> None \<or> \<not> tp_clear_active_job p
         then Inl ValueError
         else bindE (apply_diagnosis_state_delta env ds (tp_accepted_state_delta p) (\<lambda>_. None) None (\<lambda>_. None)
                (Some (ds_revision ds))) (\<lambda>target.
              if target \<noteq> ds then Inl ValueError
              else case tp_job_updates p of
                [u] \<Rightarrow>
                  if ju_job_id u \<noteq> jb_job_id source \<or> ju_expected_status u \<noteq> jb_status source \<or>
                     ju_target_status u \<notin> set targets \<or> ju_started_at u \<noteq> None \<or>
                     ju_finished_at u \<noteq> Some occurred_at \<or> ju_runtime_epoch u \<noteq> None
                  then Inl ValueError
                  else (case control_case_status (ju_target_status u) of
                          None \<Rightarrow> Inl KeyError
                        | Some st \<Rightarrow>
                            if tp_target_case_status p \<noteq> st then Inl ValueError
                            else apply_transition_plan_to_case env (ag_case ag) p target None occurred_at None None)
              | _ \<Rightarrow> Inl ValueError))"

text \<open>A control trigger, and the coordinator's decision on the snapshot of the case.\<close>

definition control_trigger_of ::
  "'r control_ports \<Rightarrow> opaque_id \<Rightarrow> case_aggregate \<Rightarrow> text_t \<Rightarrow> trigger_payload \<Rightarrow> trigger" where
  "control_trigger_of P case_id ag key payload =
     \<lparr>tr_trigger_id = pt_trigger_id P, tr_trigger_type = trigger_payload_type payload,
      tr_case_id = case_id, tr_expected_case_revision = cs_case_revision (ag_case ag),
      tr_idempotency_key = key, tr_payload = payload, tr_continuation_resources = empty_continuation_resources,
      tr_runtime_bindings = (\<lambda>_. None), tr_occurred_at = pt_now P\<rparr>"

definition coordinate :: "store_env \<Rightarrow> state_file \<Rightarrow> opaque_id \<Rightarrow> trigger \<Rightarrow> plan cres" where
  "coordinate sv s case_id t =
     (case build_case_snapshot sv s case_id of
        Inl e \<Rightarrow> Raise e
      | Inr sn \<Rightarrow> validate_coordinator_plan_result t (plan (sv_py sv) sn t))"

text \<open>The mutation of an accepted control plan.\<close>

definition submit_plan ::
  "case_aggregate \<Rightarrow> plan \<Rightarrow> case_t \<Rightarrow> failure_record list \<Rightarrow> (state_mutation \<Rightarrow> 'a decision) \<Rightarrow> 'a decision" where
  "submit_plan ag p case' failures f =
     escaping (build_state_mutation (empty_mutation
       \<lparr>mn_upsert_case := Some case', mn_job_updates := tp_job_updates p, mn_failures := failures\<rparr>)) f"

section \<open>Claiming a job\<close>

record claim_receipt =
  cl_claimed :: bool
  cl_job :: "job option"
  cl_failure_applied :: bool
  cl_failure_code :: "error_code option"

definition not_claimed :: claim_receipt where
  "not_claimed = \<lparr>cl_claimed = False, cl_job = None, cl_failure_applied = False, cl_failure_code = None\<rparr>"

definition claimed :: "job \<Rightarrow> claim_receipt" where
  "claimed j = \<lparr>cl_claimed = True, cl_job = Some j, cl_failure_applied = False, cl_failure_code = None\<rparr>"

definition claim_failed :: claim_receipt where
  "claim_failed = \<lparr>cl_claimed = False, cl_job = None, cl_failure_applied = True,
     cl_failure_code = Some EC_ASSET_VERSION_UNAVAILABLE\<rparr>"

definition submit_claim ::
  "store_env \<Rightarrow> 'r control_ports \<Rightarrow> case_aggregate \<Rightarrow> job \<Rightarrow> opaque_id \<Rightarrow> claim_receipt decision" where
  "submit_claim sv P ag j runtime_epoch =
     escaping (claim_lifecycle_update j runtime_epoch (pt_now P)) (\<lambda>u.
     escaping (case_after_claim (sv_py sv) (ag_case ag) (pt_now P)) (\<lambda>c.
     escaping (build_state_mutation (empty_mutation\<lparr>mn_upsert_case := Some c, mn_job_updates := [u]\<rparr>)) (\<lambda>m.
     Submit (Some (cs_case_revision (ag_case ag))) m
       (raised (bindE (running_job (sv_py sv) j u) (\<lambda>j'. Inr (claimed j')))))))"

definition fail_claim ::
  "store_env \<Rightarrow> 'r control_ports \<Rightarrow> state_file \<Rightarrow> opaque_id \<Rightarrow> case_aggregate \<Rightarrow> job \<Rightarrow> opaque_id \<Rightarrow> opaque_id \<Rightarrow>
   versioned_ref list \<Rightarrow> claim_receipt decision" where
  "fail_claim sv P s case_id ag j job_id runtime_epoch missing =
     (let t = control_trigger_of P case_id ag (''claim:'' @ job_id @ '':'' @ runtime_epoch)
           (AssetUnavailablePayload job_id missing)
      in case coordinate sv s case_id t of
           Raise ValueError \<Rightarrow> Answer (failed EC_VALIDATION_ERROR ''The asset-unavailable Claim decision is invalid.'')
         | Raise e \<Rightarrow> Answer (Inl (Crash e))
         | AppErr e \<Rightarrow> Answer (Inr not_claimed)
         | Ok p \<Rightarrow>
             caught ''The asset-unavailable Claim plan is invalid.''
               (validate_control_plan (sv_py sv) ag p j [JS_FAILED] (pt_now P)) (\<lambda>c.
             submit_plan ag p c [] (\<lambda>m. Submit (Some (cs_case_revision (ag_case ag))) m (Inr claim_failed))))"

definition claim_decision ::
  "store_env \<Rightarrow> 'r control_ports \<Rightarrow> opaque_id \<Rightarrow> opaque_id \<Rightarrow> nat \<Rightarrow> state_file \<Rightarrow> claim_receipt decision" where
  "claim_decision sv P job_id runtime_epoch n s =
     escaping (find_job s job_id) (\<lambda>found. case found of
       None \<Rightarrow> Answer (failed EC_JOB_NOT_FOUND ''The requested Job does not exist.'')
     | Some (case_id, ag, j) \<Rightarrow>
         if \<not> claimable ag j then Answer (Inr not_claimed)
         else let missing = pt_missing P n (fixed_asset_refs j)
              in if missing = [] then submit_claim sv P ag j runtime_epoch
                 else fail_claim sv P s case_id ag j job_id runtime_epoch missing)"

definition claim_job ::
  "store_env \<Rightarrow> 'r control_ports \<Rightarrow> opaque_id \<Rightarrow> opaque_id \<Rightarrow> 'r \<Rightarrow> 'r \<times> (store_error + claim_receipt)" where
  "claim_job sv P job_id runtime_epoch r =
     (if \<not> (is_uuid job_id \<and> is_uuid runtime_epoch)
      then (r, failed EC_VALIDATION_ERROR ''JobControlPort.claim_job received invalid raw input.'')
      else command P (\<lambda>r. pt_read_job P r job_id) (claim_decision sv P job_id runtime_epoch) r)"

section \<open>Reporting an execution infrastructure failure\<close>

record failure_command =
  fm_job_id :: opaque_id
  fm_runtime_epoch :: opaque_id
  fm_failure_id :: opaque_id
  fm_execution_failure :: execution_failure

definition valid_failure_command :: "failure_command \<Rightarrow> bool" where
  "valid_failure_command k \<longleftrightarrow>
     is_uuid (fm_job_id k) \<and> is_uuid (fm_runtime_epoch k) \<and> is_uuid (fm_failure_id k) \<and>
     xf_stage (fm_execution_failure k) = XS_EXECUTION_RECORD \<and>
     xf_code (fm_execution_failure k) = EC_EXECUTION_RECORD_FAILED"

record failure_receipt =
  fc_failure_id :: opaque_id
  fc_disposition :: failure_report_disposition
  fc_case_view :: "case_view option"

definition failure_hash :: "store_env \<Rightarrow> execution_failure \<Rightarrow> sha256_t" where
  "failure_hash sv f = env_sha256 (sv_py sv) (sv_failure_bytes sv f)"

definition same_report :: "store_env \<Rightarrow> failure_command \<Rightarrow> failure_record \<Rightarrow> bool" where
  "same_report sv k f \<longleftrightarrow>
     fr_job_id f = fm_job_id k \<and> fr_runtime_epoch f = fm_runtime_epoch k \<and>
     failure_hash sv (fr_failure f) = failure_hash sv (fm_execution_failure k)"

definition report_with_view ::
  "store_env \<Rightarrow> failure_command \<Rightarrow> failure_report_disposition \<Rightarrow> state_file \<Rightarrow> opaque_id \<Rightarrow> store_error + failure_receipt" where
  "report_with_view sv k d s case_id =
     raised (bindE (project_case_view sv s case_id) (\<lambda>v.
       Inr \<lparr>fc_failure_id = fm_failure_id k, fc_disposition = d, fc_case_view = Some v\<rparr>))"

definition repeated_report ::
  "store_env \<Rightarrow> failure_command \<Rightarrow> state_file \<Rightarrow> opaque_id \<Rightarrow> failure_record \<Rightarrow> store_error + failure_receipt" where
  "repeated_report sv k s case_id f =
     (if same_report sv k f then report_with_view sv k FD_DUPLICATE s case_id
      else failed EC_IDEMPOTENCY_CONFLICT ''The failure ID is already bound to different content.'')"

text \<open>The answer from a fresh state after the coordinator found the case in another status.\<close>

definition fresh_report :: "store_env \<Rightarrow> failure_command \<Rightarrow> state_file \<Rightarrow> store_error + failure_receipt" where
  "fresh_report sv k s =
     bindS (raised (find_failure_record s (fm_failure_id k))) (\<lambda>previous.
     case previous of
       Some (case_id, ag, f) \<Rightarrow> repeated_report sv k s case_id f
     | None \<Rightarrow>
         bindS (raised (find_job s (fm_job_id k))) (\<lambda>found.
         case found of
           None \<Rightarrow> failed EC_JOB_NOT_FOUND ''The requested Job does not exist.''
         | Some (case_id, ag, j) \<Rightarrow> report_with_view sv k FD_STALE s case_id))"

definition failure_record_of :: "'r control_ports \<Rightarrow> failure_command \<Rightarrow> job \<Rightarrow> failure_record" where
  "failure_record_of P k j =
     \<lparr>fr_failure_id = fm_failure_id k, fr_job_id = jb_job_id j, fr_runtime_epoch = fm_runtime_epoch k,
      fr_failure = fm_execution_failure k, fr_recorded_at = pt_now P\<rparr>"

definition apply_report ::
  "store_env \<Rightarrow> 'r control_ports \<Rightarrow> failure_command \<Rightarrow> state_file \<Rightarrow> opaque_id \<Rightarrow> case_aggregate \<Rightarrow> job \<Rightarrow>
   failure_receipt decision" where
  "apply_report sv P k s case_id ag j =
     (let t = control_trigger_of P case_id ag (fm_failure_id k)
           (ExecutionFailedPayload \<lparr>xp_source_job_id = jb_job_id j, xp_source_outcome_id = None,
              xp_execution_failure = fm_execution_failure k\<rparr>)
      in case coordinate sv s case_id t of
           Raise ValueError \<Rightarrow> Answer (failed EC_VALIDATION_ERROR ''The execution-failure decision is invalid.'')
         | Raise e \<Rightarrow> Answer (Inl (Crash e))
         | AppErr e \<Rightarrow>
             if ae_code e \<noteq> EC_INVALID_CASE_STATE then Answer (Inl (PortError e)) else Reread (fresh_report sv k)
         | Ok p \<Rightarrow>
             caught ''The execution-failure plan is invalid.''
               (validate_control_plan (sv_py sv) ag p j [JS_FAILED, JS_INTERRUPTED] (pt_now P)) (\<lambda>c.
             submit_plan ag p c [failure_record_of P k j] (\<lambda>m.
             escaping (project_case_components sv c None (dict_items (ag_artifacts ag)) []) (\<lambda>v.
             Submit (Some (cs_case_revision (ag_case ag))) m
               (Inr \<lparr>fc_failure_id = fm_failure_id k, fc_disposition = FD_APPLIED, fc_case_view = Some v\<rparr>)))))"

definition report_decision ::
  "store_env \<Rightarrow> 'r control_ports \<Rightarrow> failure_command \<Rightarrow> nat \<Rightarrow> state_file \<Rightarrow> failure_receipt decision" where
  "report_decision sv P k n s =
     escaping (find_failure_record s (fm_failure_id k)) (\<lambda>previous. case previous of
       Some (case_id, ag, f) \<Rightarrow> Answer (repeated_report sv k s case_id f)
     | None \<Rightarrow>
         escaping (find_job s (fm_job_id k)) (\<lambda>found. case found of
           None \<Rightarrow> Answer (failed EC_JOB_NOT_FOUND ''The requested Job does not exist.'')
         | Some (case_id, ag, j) \<Rightarrow>
             if jb_status j \<noteq> JS_RUNNING \<or> cs_active_job_id (ag_case ag) \<noteq> Some (jb_job_id j) \<or>
                jb_runtime_epoch j \<noteq> Some (fm_runtime_epoch k)
             then Answer (report_with_view sv k FD_STALE s case_id)
             else apply_report sv P k s case_id ag j))"

definition report_execution_infrastructure_failure ::
  "store_env \<Rightarrow> 'r control_ports \<Rightarrow> failure_command \<Rightarrow> 'r \<Rightarrow> 'r \<times> (store_error + failure_receipt)" where
  "report_execution_infrastructure_failure sv P k r =
     (if \<not> valid_failure_command k
      then (r, failed EC_VALIDATION_ERROR ''The execution infrastructure failure report is invalid.'')
      else command P (\<lambda>r. pt_read_job P r (fm_job_id k)) (report_decision sv P k) r)"

end
