(* ===== verification/Epoch_Recovery.thy ===== *)
theory Epoch_Recovery
  imports Job_Control
begin

text \<open>
  \<open>interrupt_previous_epoch\<close> of \<open>application/job_control.py\<close>: a new runtime epoch records which jobs of
  earlier epochs are still RUNNING, interrupts each of them, and marks the recovery complete. Every part is a
  retry loop of its own with its own clock and identifier answers, so the command takes a family of ports: index
  0 for the start, one index per interrupted job, and the next one for the completion.
\<close>

record recovery_receipt =
  rv_recovery_id :: opaque_id
  rv_interrupted_job_ids :: "opaque_id list"
  rv_pending_job_ids :: "opaque_id list"

definition recovery_receipt_of :: "recovery_record \<Rightarrow> exn + recovery_receipt" where
  "recovery_receipt_of r =
     ensure (valid_recovery_record r)
       \<lparr>rv_recovery_id = ry_recovery_id r, rv_interrupted_job_ids = ry_interrupted_job_ids r,
        rv_pending_job_ids = ry_pending_job_ids r\<rparr>"

section \<open>Starting a recovery\<close>

definition state_jobs :: "state_file \<Rightarrow> job list" where
  "state_jobs s = concat (map (\<lambda>ag. dict_items (ag_jobs ag)) (dict_items (sf_cases s)))"

definition old_running :: "opaque_id \<Rightarrow> job \<Rightarrow> bool" where
  "old_running current_runtime_epoch j \<longleftrightarrow>
     jb_status j = JS_RUNNING \<and> jb_runtime_epoch j \<noteq> Some current_runtime_epoch"

definition new_recovery :: "opaque_id \<Rightarrow> opaque_id \<Rightarrow> state_file \<Rightarrow> recovery_record" where
  "new_recovery current_runtime_epoch recovery_id s =
     \<lparr>ry_recovery_id = recovery_id, ry_current_runtime_epoch = current_runtime_epoch,
      ry_interrupted_job_ids = sort (map jb_job_id (filter (old_running current_runtime_epoch) (state_jobs s))),
      ry_pending_job_ids = sort (map jb_job_id (filter (\<lambda>j. jb_status j = JS_PENDING) (state_jobs s))),
      ry_completed_at = None\<rparr>"

definition recovery_mutation :: "runtime_epoch_record \<Rightarrow> recovery_record \<Rightarrow> state_mutation" where
  "recovery_mutation x r = empty_mutation\<lparr>mn_runtime_epochs := [x], mn_recovery := [r]\<rparr>"

definition start_decision ::
  "'r control_ports \<Rightarrow> opaque_id \<Rightarrow> opaque_id \<Rightarrow> nat \<Rightarrow> state_file \<Rightarrow> recovery_record decision" where
  "start_decision P current_runtime_epoch recovery_id n s =
     (case map_of (sf_recovery s) recovery_id of
        Some existing \<Rightarrow>
          Answer (if ry_current_runtime_epoch existing \<noteq> current_runtime_epoch
            then failed EC_IDEMPOTENCY_CONFLICT ''The recovery ID is already bound to another runtime epoch.''
            else Inr existing)
      | None \<Rightarrow>
          if list_ex (\<lambda>x. xe_runtime_epoch x = current_runtime_epoch \<and> xe_recovery_id x \<noteq> recovery_id)
               (sf_runtime_epochs s)
          then Answer (failed EC_IDEMPOTENCY_CONFLICT ''The runtime epoch is already bound to another recovery ID.'')
          else if list_ex (\<lambda>y. ry_completed_at y = None \<and> ry_recovery_id y \<noteq> recovery_id) (dict_items (sf_recovery s))
          then Answer (failed EC_IDEMPOTENCY_CONFLICT ''Another startup recovery is still incomplete.'')
          else
            let record = new_recovery current_runtime_epoch recovery_id s
            in escaping (ensure (valid_recovery_record record) ()) (\<lambda>_.
               escaping (build_state_mutation (recovery_mutation
                 \<lparr>xe_runtime_epoch = current_runtime_epoch, xe_started_at = pt_now P, xe_recovery_id = recovery_id,
                  xe_recovery_completed_at = None\<rparr> record)) (\<lambda>m.
               Submit None m (Inr record))))"

definition ensure_recovery_started ::
  "'r control_ports \<Rightarrow> opaque_id \<Rightarrow> opaque_id \<Rightarrow> 'r \<Rightarrow> 'r \<times> (store_error + recovery_record)" where
  "ensure_recovery_started P current_runtime_epoch recovery_id r =
     command P (pt_read_all P) (start_decision P current_runtime_epoch recovery_id) r"

section \<open>Interrupting one job\<close>

definition interrupt_fresh :: "opaque_id \<Rightarrow> opaque_id \<Rightarrow> application_error \<Rightarrow> state_file \<Rightarrow> store_error + unit" where
  "interrupt_fresh job_id current_runtime_epoch e s =
     bindS (raised (find_job s job_id)) (\<lambda>found.
     case found of
       None \<Rightarrow> Inr ()
     | Some (case_id, ag, j) \<Rightarrow>
         if old_running current_runtime_epoch j
         then Inl (PortError \<lparr>ae_code = EC_VALIDATION_ERROR, ae_message = ae_message e, ae_details = ae_details e,
                ae_retryable = (EC_VALIDATION_ERROR \<in> set application_error_retryable_codes)\<rparr>)
         else Inr ())"

definition interrupt_old_job ::
  "store_env \<Rightarrow> 'r control_ports \<Rightarrow> state_file \<Rightarrow> opaque_id \<Rightarrow> case_aggregate \<Rightarrow> job \<Rightarrow> opaque_id \<Rightarrow> opaque_id \<Rightarrow>
   opaque_id \<Rightarrow> unit decision" where
  "interrupt_old_job sv P s case_id ag j job_id current_runtime_epoch recovery_id =
     (case jb_runtime_epoch j of
        None \<Rightarrow> Answer (Inl (Crash ValueError))
      | Some previous \<Rightarrow>
          let t = control_trigger_of P case_id ag recovery_id
                (OldEpochPayload (jb_job_id j) previous current_runtime_epoch)
          in case coordinate sv s case_id t of
               Raise ValueError \<Rightarrow>
                 Answer (failed EC_VALIDATION_ERROR ''The old-epoch interruption decision is invalid.'')
             | Raise e \<Rightarrow> Answer (Inl (Crash e))
             | AppErr e \<Rightarrow>
                 if ae_code e \<noteq> EC_INVALID_CASE_STATE then Answer (Inl (PortError e))
                 else Reread (interrupt_fresh job_id current_runtime_epoch e)
             | Ok p \<Rightarrow>
                 caught ''The old-epoch interruption plan is invalid.''
                   (validate_control_plan (sv_py sv) ag p j [JS_INTERRUPTED] (pt_now P)) (\<lambda>c.
                 submit_plan ag p c [] (\<lambda>m. Submit (Some (cs_case_revision (ag_case ag))) m (Inr ()))))"

definition interrupt_decision ::
  "store_env \<Rightarrow> 'r control_ports \<Rightarrow> opaque_id \<Rightarrow> opaque_id \<Rightarrow> opaque_id \<Rightarrow> nat \<Rightarrow> state_file \<Rightarrow> unit decision" where
  "interrupt_decision sv P job_id current_runtime_epoch recovery_id n s =
     escaping (find_job s job_id) (\<lambda>found. case found of
       None \<Rightarrow> Answer (failed EC_STATE_CORRUPT ''A persisted recovery Job no longer exists.'')
     | Some (case_id, ag, j) \<Rightarrow>
         if \<not> old_running current_runtime_epoch j then Answer (Inr ())
         else if cs_active_job_id (ag_case ag) \<noteq> Some (jb_job_id j) \<or>
           cs_status (ag_case ag) \<noteq> expected_case_status (jb_job_type j)
         then Answer (failed EC_STATE_CORRUPT ''An old-epoch RUNNING Job is not its Case active Job.'')
         else interrupt_old_job sv P s case_id ag j job_id current_runtime_epoch recovery_id)"

definition interrupt_recovery_job ::
  "store_env \<Rightarrow> 'r control_ports \<Rightarrow> opaque_id \<Rightarrow> opaque_id \<Rightarrow> opaque_id \<Rightarrow> 'r \<Rightarrow> 'r \<times> (store_error + unit)" where
  "interrupt_recovery_job sv P job_id current_runtime_epoch recovery_id r =
     command P (\<lambda>r. pt_read_job P r job_id) (interrupt_decision sv P job_id current_runtime_epoch recovery_id) r"

section \<open>Completing a recovery\<close>

definition job_recovered :: "state_file \<Rightarrow> opaque_id \<Rightarrow> opaque_id \<Rightarrow> unit \<Rightarrow> store_error + unit" where
  "job_recovered s current_runtime_epoch job_id u =
     bindS (raised (find_job s job_id)) (\<lambda>found.
     case found of
       None \<Rightarrow> failed EC_STATE_CORRUPT ''A persisted recovery Job no longer exists.''
     | Some (case_id, ag, j) \<Rightarrow>
         if old_running current_runtime_epoch j
         then failed EC_STATE_CORRUPT ''Recovery cannot complete while an old Job remains RUNNING.''
         else Inr ())"

definition complete_decision ::
  "'r control_ports \<Rightarrow> opaque_id \<Rightarrow> opaque_id \<Rightarrow> nat \<Rightarrow> state_file \<Rightarrow> recovery_record decision" where
  "complete_decision P current_runtime_epoch recovery_id n s =
     (case map_of (sf_recovery s) recovery_id of
        None \<Rightarrow> Answer (failed EC_IDEMPOTENCY_CONFLICT ''The recovery audit record changed before completion.'')
      | Some y \<Rightarrow>
          if ry_current_runtime_epoch y \<noteq> current_runtime_epoch
          then Answer (failed EC_IDEMPOTENCY_CONFLICT ''The recovery audit record changed before completion.'')
          else if ry_completed_at y \<noteq> None then Answer (Inr y)
          else case foldS (job_recovered s current_runtime_epoch) (ry_interrupted_job_ids y) () of
            Inl e \<Rightarrow> Answer (Inl e)
          | Inr u \<Rightarrow>
              (case filter (\<lambda>x. xe_recovery_id x = recovery_id) (sf_runtime_epochs s) of
                 [x] \<Rightarrow>
                   if xe_runtime_epoch x \<noteq> current_runtime_epoch
                   then Answer (failed EC_IDEMPOTENCY_CONFLICT ''The recovery runtime epoch changed before completion.'')
                   else escaping (build_state_mutation (recovery_mutation
                       (x\<lparr>xe_recovery_completed_at := Some (pt_now P)\<rparr>) (y\<lparr>ry_completed_at := Some (pt_now P)\<rparr>))) (\<lambda>m.
                     Submit None m (Inr (y\<lparr>ry_completed_at := Some (pt_now P)\<rparr>)))
               | _ \<Rightarrow> Answer (failed EC_STATE_CORRUPT ''Recovery has no unique RuntimeEpochRecord.'')))"

definition complete_recovery ::
  "'r control_ports \<Rightarrow> opaque_id \<Rightarrow> opaque_id \<Rightarrow> 'r \<Rightarrow> 'r \<times> (store_error + recovery_record)" where
  "complete_recovery P current_runtime_epoch recovery_id r =
     command P (pt_read_all P) (complete_decision P current_runtime_epoch recovery_id) r"

section \<open>The command\<close>

text \<open>The loop over the recorded jobs; the first port index it uses is \<open>n\<close>.\<close>

fun interrupt_each ::
  "store_env \<Rightarrow> (nat \<Rightarrow> 'r control_ports) \<Rightarrow> opaque_id \<Rightarrow> opaque_id \<Rightarrow> opaque_id list \<Rightarrow> nat \<Rightarrow> 'r \<Rightarrow>
   'r \<times> (store_error + unit)" where
  "interrupt_each sv P current_runtime_epoch recovery_id [] n r = (r, Inr ())"
| "interrupt_each sv P current_runtime_epoch recovery_id (j # js) n r =
     (case interrupt_recovery_job sv (P n) j current_runtime_epoch recovery_id r of
        (r', Inl e) \<Rightarrow> (r', Inl e)
      | (r', Inr u) \<Rightarrow> interrupt_each sv P current_runtime_epoch recovery_id js (Suc n) r')"

definition receipt_result :: "'r \<Rightarrow> recovery_record \<Rightarrow> 'r \<times> (store_error + recovery_receipt)" where
  "receipt_result r y = (r, raised (recovery_receipt_of y))"

definition interrupt_previous_epoch ::
  "store_env \<Rightarrow> (nat \<Rightarrow> 'r control_ports) \<Rightarrow> opaque_id \<Rightarrow> opaque_id \<Rightarrow> 'r \<Rightarrow> 'r \<times> (store_error + recovery_receipt)" where
  "interrupt_previous_epoch sv P current_runtime_epoch recovery_id r =
     (if \<not> (is_uuid current_runtime_epoch \<and> is_uuid recovery_id)
      then (r, failed EC_VALIDATION_ERROR ''JobControlPort.interrupt_previous_epoch received invalid raw input.'')
      else case ensure_recovery_started (P 0) current_runtime_epoch recovery_id r of
        (r1, Inl e) \<Rightarrow> (r1, Inl e)
      | (r1, Inr y) \<Rightarrow>
          if ry_completed_at y \<noteq> None then receipt_result r1 y
          else case interrupt_each sv P current_runtime_epoch recovery_id (ry_interrupted_job_ids y) 1 r1 of
            (r2, Inl e) \<Rightarrow> (r2, Inl e)
          | (r2, Inr u) \<Rightarrow>
              (case complete_recovery (P (Suc (length (ry_interrupted_job_ids y)))) current_runtime_epoch recovery_id r2 of
                 (r3, Inl e) \<Rightarrow> (r3, Inl e)
               | (r3, Inr z) \<Rightarrow> receipt_result r3 z))"

end
