(* ===== verification/State_Mutation.thy ===== *)
theory State_Mutation
  imports State_File
begin

text \<open>
  What every mutation guarantees: the next state is valid and one generation later, its maps are
  dictionaries again, and history is kept: outcomes, audit records, evidence and artifacts never change or
  disappear, a job changes only in its lifecycle fields, and a case is never removed.
\<close>

section \<open>History\<close>

definition job_core :: "job \<Rightarrow> job" where
  "job_core j = j\<lparr>jb_status := JS_PENDING, jb_started_at := None, jb_finished_at := None, jb_runtime_epoch := None\<rparr>"

definition same_job :: "job \<Rightarrow> job \<Rightarrow> bool" where
  "same_job j j' \<longleftrightarrow> job_core j' = job_core j"

definition jobs_kept :: "job dict \<Rightarrow> job dict \<Rightarrow> bool" where
  "jobs_kept d d' \<longleftrightarrow>
     (\<forall>i j. map_of d i = Some j \<longrightarrow> (\<exists>j'. map_of d' i = Some j' \<and> same_job j j'))"

definition agg_kept :: "case_aggregate \<Rightarrow> case_aggregate \<Rightarrow> bool" where
  "agg_kept ag ag' \<longleftrightarrow>
     jobs_kept (ag_jobs ag) (ag_jobs ag') \<and>
     map_of (ag_outcomes ag) \<subseteq>\<^sub>m map_of (ag_outcomes ag') \<and>
     map_of (ag_processing ag) \<subseteq>\<^sub>m map_of (ag_processing ag') \<and>
     map_of (ag_failures ag) \<subseteq>\<^sub>m map_of (ag_failures ag') \<and>
     dom (map_of (ag_attachments ag)) \<subseteq> dom (map_of (ag_attachments ag')) \<and>
     map_of (ag_evidence ag) \<subseteq>\<^sub>m map_of (ag_evidence ag') \<and>
     map_of (ag_artifacts ag) \<subseteq>\<^sub>m map_of (ag_artifacts ag')"

definition cases_kept :: "case_aggregate dict \<Rightarrow> case_aggregate dict \<Rightarrow> bool" where
  "cases_kept cs cs' \<longleftrightarrow>
     (\<forall>i ag. map_of cs i = Some ag \<longrightarrow> (\<exists>ag'. map_of cs' i = Some ag' \<and> agg_kept ag ag'))"

lemma same_job_refl [simp]: "same_job j j"
  by (simp add: same_job_def)

lemma same_job_trans: "same_job j k \<Longrightarrow> same_job k l \<Longrightarrow> same_job j l"
  by (simp add: same_job_def)

lemma jobs_kept_refl [simp]: "jobs_kept d d"
  by (simp add: jobs_kept_def)

lemma jobs_kept_trans: "jobs_kept a b \<Longrightarrow> jobs_kept b c \<Longrightarrow> jobs_kept a c"
  unfolding jobs_kept_def using same_job_trans by blast

lemma agg_kept_refl [simp]: "agg_kept ag ag"
  by (simp add: agg_kept_def)

lemma agg_kept_trans: "agg_kept a b \<Longrightarrow> agg_kept b c \<Longrightarrow> agg_kept a c"
  unfolding agg_kept_def by (auto intro: jobs_kept_trans map_le_trans)

lemma cases_kept_refl [simp]: "cases_kept cs cs"
  by (simp add: cases_kept_def)

lemma cases_kept_trans: "cases_kept a b \<Longrightarrow> cases_kept b c \<Longrightarrow> cases_kept a c"
  unfolding cases_kept_def using agg_kept_trans by blast

lemma insert_unique_le: "insert_unique d k v = Inr d' \<Longrightarrow> map_of d \<subseteq>\<^sub>m map_of d'"
  by (auto simp: map_le_def dest: insert_unique_keeps)

lemma insert_unique_jobs_kept: "insert_unique d k v = Inr d' \<Longrightarrow> jobs_kept d d'"
  using insert_unique_keeps by (fastforce simp: jobs_kept_def)

lemma updated_job_same: "same_job j (updated_job u j)"
  by (simp add: same_job_def updated_job_def job_core_def)

lemma update_jobs_kept:
  "map_of d k = Some j \<Longrightarrow> jobs_kept d (AList.update k (updated_job u j) d)"
  by (auto simp: jobs_kept_def intro: updated_job_same)

section \<open>One step on one case\<close>

lemma on_case_cases:
  assumes "on_case i f cs = Inr cs'"
  obtains ag ag' where "map_of cs i = Some ag" "f ag = Inr ag'" "cs' = AList.update i ag' cs"
  using assms by (auto simp: on_case_def bindS_Inr split: option.splits)

lemma on_case_kept:
  assumes "on_case i f cs = Inr cs'" and "\<And>ag ag'. f ag = Inr ag' \<Longrightarrow> agg_kept ag ag'"
  shows "cases_kept cs cs'"
  using assms by (elim on_case_cases) (auto simp: cases_kept_def)

text \<open>An aggregate whose maps are dictionaries and whose case, if any, is unchanged.\<close>

definition steady :: "case_aggregate \<Rightarrow> case_aggregate \<Rightarrow> bool" where
  "steady ag ag' \<longleftrightarrow> ag_case ag' = ag_case ag \<and> (agg_dicts ag \<longrightarrow> agg_dicts ag')"

definition cases_steady :: "case_aggregate dict \<Rightarrow> case_aggregate dict \<Rightarrow> bool" where
  "cases_steady cs cs' \<longleftrightarrow>
     dict_keys cs' = dict_keys cs \<and>
     (\<forall>i ag'. map_of cs' i = Some ag' \<longrightarrow> (\<exists>ag. map_of cs i = Some ag \<and> steady ag ag'))"

lemma steady_refl [simp]: "steady ag ag"
  by (simp add: steady_def)

lemma steady_trans: "steady a b \<Longrightarrow> steady b c \<Longrightarrow> steady a c"
  by (simp add: steady_def)

lemma cases_steady_refl [simp]: "cases_steady cs cs"
  by (simp add: cases_steady_def)

lemma cases_steady_trans: "cases_steady a b \<Longrightarrow> cases_steady b c \<Longrightarrow> cases_steady a c"
  unfolding cases_steady_def using steady_trans by (metis (no_types, lifting))

lemma on_case_steady:
  assumes "on_case i f cs = Inr cs'" and "\<And>ag ag'. f ag = Inr ag' \<Longrightarrow> steady ag ag'"
  shows "cases_steady cs cs'"
  using assms
  by (elim on_case_cases) (auto simp: cases_steady_def dict_keys_update dict_get_key simp del: list.set_map set_map)

text \<open>Both relations hold for every primitive of the mutation.\<close>

definition step_ok :: "case_aggregate dict \<Rightarrow> case_aggregate dict \<Rightarrow> bool" where
  "step_ok cs cs' \<longleftrightarrow> cases_kept cs cs' \<and> cases_steady cs cs'"

lemma step_ok_refl [simp]: "step_ok cs cs"
  by (simp add: step_ok_def)

lemma step_ok_trans: "step_ok a b \<Longrightarrow> step_ok b c \<Longrightarrow> step_ok a c"
  unfolding step_ok_def using cases_kept_trans cases_steady_trans by blast

lemma on_case_step:
  assumes "on_case i f cs = Inr cs'" and "\<And>ag ag'. f ag = Inr ag' \<Longrightarrow> agg_kept ag ag' \<and> steady ag ag'"
  shows "step_ok cs cs'"
  unfolding step_ok_def using on_case_kept [OF assms(1)] on_case_steady [OF assms(1)] assms(2) by blast

lemma insert_job_step: "insert_job j cs = Inr cs' \<Longrightarrow> step_ok cs cs'"
  unfolding insert_job_def
  by (erule on_case_step)
    (auto simp: bindS_Inr agg_kept_def steady_def agg_dicts_def dest: insert_unique_jobs_kept insert_unique_ok)

lemma update_job_step: "update_job u cs = Inr cs' \<Longrightarrow> step_ok cs cs'"
  unfolding update_job_def bindS_Inr
  by (elim exE conjE, erule on_case_step)
    (auto simp: agg_kept_def steady_def agg_dicts_def update_jobs_kept conflict_def split: option.splits if_splits)

lemma insert_outcome_step: "insert_outcome x cs = Inr cs' \<Longrightarrow> step_ok cs cs'"
  unfolding insert_outcome_def
  by (erule on_case_step)
    (auto simp: bindS_Inr agg_kept_def steady_def agg_dicts_def dest: insert_unique_le insert_unique_ok)

lemma insert_processing_step: "insert_processing x cs = Inr cs' \<Longrightarrow> step_ok cs cs'"
  unfolding insert_processing_def bindS_Inr
  by (elim exE conjE, erule on_case_step)
    (auto simp: bindS_Inr agg_kept_def steady_def agg_dicts_def dest: insert_unique_le insert_unique_ok)

lemma insert_failure_step: "insert_failure x cs = Inr cs' \<Longrightarrow> step_ok cs cs'"
  unfolding insert_failure_def bindS_Inr
  by (elim exE conjE, erule on_case_step)
    (auto simp: bindS_Inr agg_kept_def steady_def agg_dicts_def dest: insert_unique_le insert_unique_ok)

lemma upsert_attachment_step: "upsert_attachment x cs = Inr cs' \<Longrightarrow> step_ok cs cs'"
  unfolding upsert_attachment_def
  by (erule on_case_step) (auto simp: agg_kept_def steady_def agg_dicts_def)

lemma insert_evidence_step: "insert_evidence x cs = Inr cs' \<Longrightarrow> step_ok cs cs'"
  unfolding insert_evidence_def
  by (erule on_case_step)
    (auto simp: bindS_Inr agg_kept_def steady_def agg_dicts_def dest: insert_unique_le insert_unique_ok)

lemma insert_artifact_step: "insert_artifact x cs = Inr cs' \<Longrightarrow> step_ok cs cs'"
  unfolding insert_artifact_def
  by (erule on_case_step)
    (auto simp: bindS_Inr agg_kept_def steady_def agg_dicts_def dest: insert_unique_le insert_unique_ok)

lemma foldS_step:
  assumes "foldS f xs cs = Inr cs'" and "\<And>x t t'. f x t = Inr t' \<Longrightarrow> step_ok t t'"
  shows "step_ok cs cs'"
  using foldS_invariant [OF assms(1), of "step_ok cs"] assms(2) step_ok_trans by auto

lemmas primitive_steps = insert_job_step update_job_step insert_outcome_step insert_processing_step
  insert_failure_step upsert_attachment_step insert_evidence_step insert_artifact_step

lemma apply_to_cases_step:
  assumes "apply_to_cases m cs = Inr cs'"
  shows "step_ok cs cs'"
proof -
  from assms obtain c1 c2 c3 c4 c5 c6 c7 where s:
    "foldS insert_job (mn_insert_jobs m) cs = Inr c1" "foldS update_job (mn_job_updates m) c1 = Inr c2"
    "foldS insert_outcome (mn_outcomes m) c2 = Inr c3" "foldS insert_processing (mn_processing m) c3 = Inr c4"
    "foldS insert_failure (mn_failures m) c4 = Inr c5" "foldS upsert_attachment (mn_attachments m) c5 = Inr c6"
    "foldS insert_evidence (mn_evidence m) c6 = Inr c7" "foldS insert_artifact (mn_artifacts m) c7 = Inr cs'"
    unfolding apply_to_cases_def by (elim bindS_InrE)
  note t = foldS_step [OF s(1) insert_job_step] foldS_step [OF s(2) update_job_step]
    foldS_step [OF s(3) insert_outcome_step] foldS_step [OF s(4) insert_processing_step]
    foldS_step [OF s(5) insert_failure_step] foldS_step [OF s(6) upsert_attachment_step]
    foldS_step [OF s(7) insert_evidence_step] foldS_step [OF s(8) insert_artifact_step]
  show ?thesis
    by (rule step_ok_trans [OF t(1) step_ok_trans [OF t(2) step_ok_trans [OF t(3) step_ok_trans [OF t(4)
          step_ok_trans [OF t(5) step_ok_trans [OF t(6) step_ok_trans [OF t(7) t(8)]]]]]]])
qed

section \<open>The whole mutation\<close>

lemma upsert_case_kept: "cases_kept cs (upsert_case c cs)"
  by (auto simp: upsert_case_def cases_kept_def agg_kept_def split: option.splits)

lemma upsert_case_dicts:
  assumes "dict_ok cs" "list_all agg_dicts (dict_items cs)"
  shows "dict_ok (upsert_case c cs) \<and> list_all agg_dicts (dict_items (upsert_case c cs))"
proof (cases c)
  case (Some x)
  have "agg_dicts (ag\<lparr>ag_case := x\<rparr>)" if "map_of cs (cs_case_id x) = Some ag" for ag
    using assms(2) dict_get_item [OF that] by (auto simp: agg_dicts_def list_all_iff)
  moreover have "agg_dicts (empty_aggregate x)" by (simp add: agg_dicts_def empty_aggregate_def)
  ultimately show ?thesis using assms Some
    by (auto simp: upsert_case_def list_all_iff set_update split: option.splits)
qed (use assms in \<open>simp add: upsert_case_def\<close>)

lemma steady_dicts:
  assumes "cases_steady cs cs'" "dict_ok cs" "list_all agg_dicts (dict_items cs)"
  shows "dict_ok cs' \<and> list_all agg_dicts (dict_items cs')"
proof -
  have ok: "dict_ok cs'" using assms(1,2) by (simp add: cases_steady_def dict_ok_def)
  have "agg_dicts ag'" if "(i, ag') \<in> set cs'" for i ag'
  proof -
    have "map_of cs' i = Some ag'" using that ok by (simp add: dict_get_iff)
    then obtain ag where "map_of cs i = Some ag" "steady ag ag'"
      using assms(1) by (auto simp: cases_steady_def)
    then show ?thesis using assms(3) dict_get_item [of cs i ag] by (auto simp: steady_def list_all_iff)
  qed
  then show ?thesis using ok by (auto simp: list_all_iff)
qed

lemma foldS_idempotency:
  assumes "foldS (\<lambda>r d. raised (insert_unique d (k r) r)) xs d = Inr d'"
  shows "map_of d \<subseteq>\<^sub>m map_of d' \<and> (dict_ok d \<longrightarrow> dict_ok d')"
  by (rule foldS_invariant [OF assms, of "\<lambda>e. map_of d \<subseteq>\<^sub>m map_of e \<and> (dict_ok d \<longrightarrow> dict_ok e)"])
    (auto intro: map_le_trans insert_unique_le insert_unique_ok)

lemma foldS_recovery:
  assumes "foldS upsert_recovery_record xs d = Inr d'"
  shows "dict_ok d \<longrightarrow> dict_ok d'"
  by (rule foldS_invariant [OF assms, of "\<lambda>e. dict_ok d \<longrightarrow> dict_ok e"])
    (auto simp: upsert_recovery_record_def split: option.splits if_splits)

lemma apply_mutation_parts:
  assumes "apply_mutation sv now s rv m = Inr (s', i)"
  obtains epochs recovery cases idem where
    "check_case_revision s rv m = Inr i"
    "foldS upsert_runtime_epoch (mn_runtime_epochs m) (epochs_by_id (sf_runtime_epochs s)) = Inr epochs"
    "foldS upsert_recovery_record (mn_recovery m) (sf_recovery s) = Inr recovery"
    "apply_to_cases m (upsert_case (mn_upsert_case m) (sf_cases s)) = Inr cases"
    "foldS (\<lambda>r d. raised (insert_unique d (idempotency_key_of r) r)) (mn_idempotency m) (sf_idempotency s) = Inr idem"
    "s' = s\<lparr>sf_runtime_epochs := dict_items epochs, sf_recovery := recovery, sf_cases := cases,
        sf_idempotency := idem, sf_generation := sf_generation s + 1, sf_updated_at := now\<rparr>"
    "valid_state sv s'"
  using assms unfolding apply_mutation_def Let_def by (elim bindS_InrE) (auto simp: Let_def)

lemma apply_mutation_valid:
  assumes "apply_mutation sv now s rv m = Inr (s', i)"
  shows "valid_state sv s'" "sf_generation s' = sf_generation s + 1"
  using assms by (elim apply_mutation_parts; simp)+

lemma apply_mutation_kept:
  assumes "apply_mutation sv now s rv m = Inr (s', i)"
  shows "cases_kept (sf_cases s) (sf_cases s')" "map_of (sf_idempotency s) \<subseteq>\<^sub>m map_of (sf_idempotency s')"
proof -
  obtain epochs :: "runtime_epoch_record dict" and recovery cases idem where
    p: "apply_to_cases m (upsert_case (mn_upsert_case m) (sf_cases s)) = Inr cases"
      "foldS (\<lambda>r d. raised (insert_unique d (idempotency_key_of r) r)) (mn_idempotency m) (sf_idempotency s) = Inr idem"
    and s': "s' = s\<lparr>sf_runtime_epochs := dict_items epochs, sf_recovery := recovery, sf_cases := cases,
        sf_idempotency := idem, sf_generation := sf_generation s + 1, sf_updated_at := now\<rparr>"
    by (rule apply_mutation_parts [OF assms])
  show "cases_kept (sf_cases s) (sf_cases s')"
    using cases_kept_trans [OF upsert_case_kept, of "mn_upsert_case m" "sf_cases s" cases]
      apply_to_cases_step [OF p(1)] s' by (simp add: step_ok_def)
  show "map_of (sf_idempotency s) \<subseteq>\<^sub>m map_of (sf_idempotency s')"
    using foldS_idempotency [OF p(2)] s' by simp
qed

lemma apply_mutation_dicts:
  assumes "apply_mutation sv now s rv m = Inr (s', i)" "state_dicts s"
  shows "state_dicts s'"
proof -
  obtain epochs :: "runtime_epoch_record dict" and recovery cases idem where
    p: "foldS upsert_recovery_record (mn_recovery m) (sf_recovery s) = Inr recovery"
      "apply_to_cases m (upsert_case (mn_upsert_case m) (sf_cases s)) = Inr cases"
      "foldS (\<lambda>r d. raised (insert_unique d (idempotency_key_of r) r)) (mn_idempotency m) (sf_idempotency s) = Inr idem"
    and s': "s' = s\<lparr>sf_runtime_epochs := dict_items epochs, sf_recovery := recovery, sf_cases := cases,
        sf_idempotency := idem, sf_generation := sf_generation s + 1, sf_updated_at := now\<rparr>"
    by (rule apply_mutation_parts [OF assms(1)])
  have "dict_ok cases \<and> list_all agg_dicts (dict_items cases)"
    using apply_to_cases_step [OF p(2)] upsert_case_dicts [of "sf_cases s" "mn_upsert_case m"] assms(2)
    by (intro steady_dicts [of "upsert_case (mn_upsert_case m) (sf_cases s)"]) (simp_all add: step_ok_def state_dicts_def)
  then show ?thesis using s' assms(2) foldS_recovery [OF p(1)] foldS_idempotency [OF p(3)]
    by (simp add: state_dicts_def)
qed

end
