(* ===== verification/Case_Repository.thy ===== *)
theory Case_Repository
  imports State_Mutation
begin

text \<open>
  \<open>CaseStateRepository\<close> of \<open>storage/state_repository.py\<close>: every live case has a state file of its own in
  memory, finished cases are rows of the database, and an installation-wide base state holds the recovery
  records. A read resolves the owner of an object through the indexes; a commit is optimistic: it succeeds only
  when the generation the caller read is still current.

  The process locks make each operation atomic, so operations are functions on the repository. The snapshot
  column of a finished case is represented by the state it encodes, or \<open>None\<close> when the bytes cannot be read.
  A commit takes the clock's answer, whether the database write fails, and whether a projection is registered.
\<close>

section \<open>Messages\<close>

definition msg_process_metadata_changed :: text_t where
  "msg_process_metadata_changed =
     utf8 [232, 191, 155, 231, 168, 139, 229, 133, 131, 230, 149, 176, 230, 141, 174, 229, 183,
       178, 229, 143, 145, 231, 148, 159, 229, 143, 152, 229, 140, 150, 227, 128, 130]"

definition msg_current_case_changed :: text_t where
  "msg_current_case_changed =
     utf8 [229, 189, 147, 229, 137, 141, 32, 67, 97, 115, 101, 32, 229, 183, 178, 229, 143, 145,
       231, 148, 159, 229, 143, 152, 229, 140, 150, 227, 128, 130]"

definition msg_mutation_invalid :: text_t where
  "msg_mutation_invalid =
     utf8 [229, 189, 147, 229, 137, 141, 32, 67, 97, 115, 101, 32, 231, 154, 132, 231, 138, 182,
       230, 128, 129, 229, 143, 152, 230, 155, 180, 230, 151, 160, 230, 149, 136, 227, 128,
       130]"

definition msg_request_committed :: text_t where
  "msg_request_committed =
     utf8 [232, 175, 165, 232, 175, 183, 230, 177, 130, 229, 183, 178, 231, 187, 143, 230, 143,
       144, 228, 186, 164, 239, 188, 140, 232, 175, 183, 232, 175, 187, 229, 143, 150, 230,
       156, 128, 230, 150, 176, 231, 187, 147, 230, 158, 156, 227, 128, 130]"

definition msg_persist_failed :: text_t where
  "msg_persist_failed =
     utf8 [230, 156, 128, 231, 187, 136, 231, 187, 147, 230, 158, 156, 230, 140, 129, 228, 185,
       133, 229, 140, 150, 229, 164, 177, 232, 180, 165, 239, 188, 140, 229, 176, 154, 230,
       156, 170, 228, 186, 164, 228, 187, 152, 227, 128, 130]"

definition msg_snapshot_unreadable :: text_t where
  "msg_snapshot_unreadable =
     utf8 [229, 183, 178, 229, 174, 140, 230, 136, 144, 32, 67, 97, 115, 101, 32, 231, 154, 132,
       229, 191, 171, 231, 133, 167, 230, 151, 160, 230, 179, 149, 232, 175, 187, 229, 143,
       150, 227, 128, 130]"

definition msg_case_missing :: text_t where
  "msg_case_missing =
     utf8 [67, 97, 115, 101, 32, 228, 184, 141, 229, 173, 152, 229, 156, 168, 230, 136, 150, 232,
       191, 144, 232, 161, 140, 228, 184, 173, 228, 187, 187, 229, 138, 161, 229, 183, 178,
       233, 154, 143, 230, 156, 141, 229, 138, 161, 233, 135, 141, 229, 144, 175, 229, 164,
       177, 230, 149, 136, 227, 128, 130]"

definition msg_job_missing :: text_t where
  "msg_job_missing =
     utf8 [74, 111, 98, 32, 228, 184, 141, 229, 173, 152, 229, 156, 168, 227, 128, 130]"

definition msg_artifact_missing :: text_t where
  "msg_artifact_missing =
     utf8 [228, 186, 167, 231, 137, 169, 228, 184, 141, 229, 173, 152, 229, 156, 168, 227, 128,
       130]"

section \<open>State\<close>

record archive_payload =
  py_report_artifact_id :: opaque_id
  py_source_job_id :: opaque_id
  py_plan :: archive_plan
  py_source_storage_keys :: "text_t list"

record archive_task =
  tk_status :: text_t
  tk_payload :: archive_payload

record repository =
  rp_base :: state_file
  rp_live :: "state_file dict"
  rp_objects :: "opaque_id dict"
  rp_requests :: "opaque_id dict"
  rp_failure :: "application_error option"
  db_completed :: "state_file option dict"
  db_object_index :: "opaque_id dict"
  db_request_index :: "opaque_id dict"
  db_resource_index :: "opaque_id dict"
  db_archive_tasks :: "archive_task dict"
  db_retention :: "timestamp dict"

text \<open>
  What a commit meets outside the repository: the clock, whether the transaction of the database fails, and the
  three callbacks of the repository. A callback that is set either returns or raises, and \<open>commit\<close> tells an error of
  the database from any other exception. \<open>on_terminal\<close> and \<open>on_case_committed\<close> are always set, \<open>on_case_projection\<close>
  may be missing.
\<close>

datatype callback_error = Database_Raises | Other_Raises store_error

record commit_io =
  ci_now :: timestamp
  ci_database_fails :: bool
  ci_case_projection :: "callback_error option option"
  ci_terminal :: "callback_error option"
  ci_case_committed :: "callback_error option"

text \<open>A fresh process on an empty database (\<open>_initialize_database\<close>).\<close>

definition initial_base :: "opaque_id \<Rightarrow> timestamp \<Rightarrow> state_file" where
  "initial_base installation_id created_at =
     \<lparr>sf_generation = 1, sf_installation_id = installation_id, sf_created_at = created_at,
      sf_updated_at = created_at, sf_runtime_epochs = [], sf_recovery = [], sf_cases = [], sf_idempotency = []\<rparr>"

section \<open>Reading\<close>

definition locate_object :: "repository \<Rightarrow> opaque_id \<Rightarrow> opaque_id option" where
  "locate_object r k =
     (case map_of (rp_objects r) k of Some c \<Rightarrow> Some c | None \<Rightarrow> map_of (db_object_index r) k)"

definition locate_request :: "repository \<Rightarrow> text_t \<Rightarrow> opaque_id option" where
  "locate_request r k =
     (case map_of (rp_requests r) k of Some c \<Rightarrow> Some c | None \<Rightarrow> map_of (db_request_index r) k)"

definition load_case :: "repository \<Rightarrow> opaque_id \<Rightarrow> repository \<times> (store_error + state_file option)" where
  "load_case r case_id =
     (case map_of (rp_live r) case_id of
        Some s \<Rightarrow> (r, Inr (Some s))
      | None \<Rightarrow>
          (case map_of (db_completed r) case_id of
             None \<Rightarrow> (r, Inr None)
           | Some (Some s) \<Rightarrow> (r, Inr (Some s))
           | Some None \<Rightarrow>
               let e = port_error EC_STATE_CORRUPT msg_snapshot_unreadable
               in (r\<lparr>rp_failure := Some e\<rparr>, Inl (PortError e))))"

text \<open>\<open>read_snapshot(case_id)\<close>.\<close>

definition read_case_state :: "repository \<Rightarrow> opaque_id \<Rightarrow> repository \<times> (store_error + state_file)" where
  "read_case_state r case_id =
     (case load_case r case_id of
        (r', Inl e) \<Rightarrow> (r', Inl e)
      | (r', Inr st) \<Rightarrow> (r', Inr (case st of None \<Rightarrow> rp_base r' | Some s \<Rightarrow> s)))"

definition dict_merge :: "'v dict \<Rightarrow> 'v dict \<Rightarrow> 'v dict" where
  "dict_merge d e = fold (\<lambda>(k, v) acc. AList.update k v acc) e d"

definition merge_state :: "store_env \<Rightarrow> state_file \<Rightarrow> state_file \<Rightarrow> state_file" where
  "merge_state sv acc s =
     acc\<lparr>sf_cases := dict_merge (sf_cases acc) (sf_cases s),
         sf_idempotency := dict_merge (sf_idempotency acc) (sf_idempotency s),
         sf_generation := max (sf_generation acc) (sf_generation s),
         sf_updated_at := (if sv_instant sv (sf_updated_at acc) < sv_instant sv (sf_updated_at s)
                           then sf_updated_at s else sf_updated_at acc)\<rparr>"

fun read_each :: "store_env \<Rightarrow> opaque_id list \<Rightarrow> state_file \<Rightarrow> repository \<Rightarrow>
    repository \<times> (store_error + state_file)" where
  "read_each sv [] acc r = (r, Inr acc)"
| "read_each sv (i # is) acc r =
     (case read_case_state r i of
        (r', Inl e) \<Rightarrow> (r', Inl e)
      | (r', Inr s) \<Rightarrow> read_each sv is (merge_state sv acc s) r')"

text \<open>\<open>read_snapshot()\<close> without a scope: the export of all cases.\<close>

definition read_all :: "store_env \<Rightarrow> repository \<Rightarrow> repository \<times> (store_error + state_file)" where
  "read_all sv r =
     read_each sv (sort (remdups (dict_keys (rp_live r) @ dict_keys (db_completed r)))) (rp_base r) r"

definition read_snapshot ::
  "store_env \<Rightarrow> repository \<Rightarrow> opaque_id option \<Rightarrow> opaque_id option \<Rightarrow> opaque_id option \<Rightarrow> text_t option \<Rightarrow>
   repository \<times> (store_error + state_file)" where
  "read_snapshot sv r case_id job_id attachment_id request_key =
     (let object_id = (case job_id of Some j \<Rightarrow> Some j | None \<Rightarrow> attachment_id);
          by_object = (case (case_id, object_id) of
              (None, Some k) \<Rightarrow> locate_object r k
            | _ \<Rightarrow> case_id);
          owner = (case (by_object, request_key) of
              (None, Some k) \<Rightarrow> locate_request r k
            | _ \<Rightarrow> by_object)
      in case owner of
           Some c \<Rightarrow>
             (case read_case_state r c of
                (r', Inl e) \<Rightarrow> (r', Inl e)
              | (r', Inr s) \<Rightarrow>
                  (case Option.bind request_key (locate_request r') of
                     None \<Rightarrow> (r', Inr s)
                   | Some other \<Rightarrow>
                       if other = c then (r', Inr s)
                       else case read_case_state r' other of
                         (r'', Inl e) \<Rightarrow> (r'', Inl e)
                       | (r'', Inr t) \<Rightarrow>
                           (r'', Inr (s\<lparr>sf_cases := dict_merge (sf_cases s) (sf_cases t),
                              sf_idempotency := dict_merge (sf_idempotency s) (sf_idempotency t)\<rparr>))))
         | None \<Rightarrow>
             if case_id \<noteq> None \<or> object_id \<noteq> None \<or> request_key \<noteq> None then (r, Inr (rp_base r))
             else read_all sv r)"

definition read_case :: "store_env \<Rightarrow> repository \<Rightarrow> opaque_id \<Rightarrow> repository \<times> (store_error + case_aggregate)" where
  "read_case sv r case_id =
     (case read_snapshot sv r (Some case_id) None None None of
        (r', Inl e) \<Rightarrow> (r', Inl e)
      | (r', Inr s) \<Rightarrow>
          (r', case map_of (sf_cases s) case_id of
                 None \<Rightarrow> Inl (PortError (port_error EC_CASE_NOT_FOUND msg_case_missing))
               | Some ag \<Rightarrow> Inr ag))"

definition read_job :: "store_env \<Rightarrow> repository \<Rightarrow> opaque_id \<Rightarrow> repository \<times> (store_error + job)" where
  "read_job sv r job_id =
     (case locate_object r job_id of
        None \<Rightarrow> (r, Inl (PortError (port_error EC_JOB_NOT_FOUND msg_job_missing)))
      | Some c \<Rightarrow>
          (case read_case sv r c of
             (r', Inl e) \<Rightarrow> (r', Inl e)
           | (r', Inr ag) \<Rightarrow>
               (r', case map_of (ag_jobs ag) job_id of None \<Rightarrow> Inl (Crash KeyError) | Some j \<Rightarrow> Inr j)))"

definition read_artifact :: "store_env \<Rightarrow> repository \<Rightarrow> opaque_id \<Rightarrow> repository \<times> (store_error + artifact)" where
  "read_artifact sv r artifact_id =
     (case locate_object r artifact_id of
        None \<Rightarrow> (r, Inl (PortError (port_error EC_ARTIFACT_NOT_FOUND msg_artifact_missing)))
      | Some c \<Rightarrow>
          (case read_case sv r c of
             (r', Inl e) \<Rightarrow> (r', Inl e)
           | (r', Inr ag) \<Rightarrow>
               (r', case map_of (ag_artifacts ag) artifact_id of None \<Rightarrow> Inl (Crash KeyError) | Some a \<Rightarrow> Inr a)))"

section \<open>Persisting a finished case\<close>

definition accepted_log_source :: "case_aggregate \<Rightarrow> opaque_id \<Rightarrow> text_t \<Rightarrow> exn + artifact" where
  "accepted_log_source ag job_id source_ref =
     (case filter (\<lambda>p. ap_proposal_key p = source_ref \<and> ap_artifact_kind p = AK_LOGPARSE_RUN)
             (concat (map oc_proposed_artifacts
               (filter (\<lambda>oc. oc_job_id oc = job_id) (dict_items (ag_outcomes ag))))) of
        [p] \<Rightarrow>
          (case filter (\<lambda>a. af_created_by_job_id a = job_id \<and> af_kind a = AK_LOGPARSE_RUN \<and>
                  af_sha256 a = ap_sha256 p \<and> af_size a = ap_size p) (dict_items (ag_artifacts ag)) of
             [a] \<Rightarrow> Inr a
           | _ \<Rightarrow> Inl ValueError)
      | _ \<Rightarrow> Inl ValueError)"

definition archive_log_key :: "case_aggregate \<Rightarrow> opaque_id \<Rightarrow> archive_source_file \<Rightarrow> exn + text_t" where
  "archive_log_key ag job_id source =
     bindE (case as_source_kind source of
              INPUT_ARTIFACT \<Rightarrow>
                (case map_of (ag_artifacts ag) (as_source_ref source) of None \<Rightarrow> Inl KeyError | Some a \<Rightarrow> Inr a)
            | OUTPUT_PROPOSAL \<Rightarrow> accepted_log_source ag job_id (as_source_ref source))
       (\<lambda>a. ensure (af_kind a = AK_LOGPARSE_RUN) (af_storage_key a @ ''/'' @ as_relative_path source))"

definition archive_payload_of :: "case_aggregate \<Rightarrow> exn + archive_payload option" where
  "archive_payload_of ag =
     (let c = ag_case ag
      in if cs_status c \<notin> {CS_RESOLVED, CS_PARTIALLY_RESOLVED} then Inr None
         else case cs_final_result c of
           None \<Rightarrow> Inr None
         | Some f \<Rightarrow>
             (case filter (\<lambda>a. af_kind a = AK_USER_RESULT \<and> af_created_by_job_id a = cc_proposed_by_job_id f)
                     (dict_items (ag_artifacts ag)) of
                [report] \<Rightarrow>
                  (case af_metadata report of
                     UserResultMetadata (Some pl) \<Rightarrow>
                       bindE (mapE (archive_log_key ag (af_created_by_job_id report)) (an_logs pl)) (\<lambda>paths.
                         Inr (Some \<lparr>py_report_artifact_id = af_artifact_id report,
                           py_source_job_id = af_created_by_job_id report, py_plan = pl,
                           py_source_storage_keys = paths\<rparr>))
                   | _ \<Rightarrow> Inr None)
              | _ \<Rightarrow> Inr None))"

definition object_keys :: "case_aggregate \<Rightarrow> opaque_id list" where
  "object_keys ag =
     dict_keys (ag_jobs ag) @ dict_keys (ag_attachments ag) @ dict_keys (ag_evidence ag) @
     dict_keys (ag_artifacts ag) @ dict_keys (ag_outcomes ag)"

definition resource_keys :: "case_aggregate \<Rightarrow> text_t list" where
  "resource_keys ag =
     filter (\<lambda>k. k \<noteq> []) (List.map_filter at_storage_key (dict_items (ag_attachments ag))) @
     map af_storage_key (dict_items (ag_artifacts ag)) @
     map rr_storage_key (List.map_filter vd_resource_ref (dict_items (ag_evidence ag)))"

text \<open>\<open>INSERT ... ON CONFLICT DO UPDATE\<close> of many rows, and \<open>ON CONFLICT DO NOTHING\<close>.\<close>

definition index_all :: "opaque_id list \<Rightarrow> opaque_id \<Rightarrow> opaque_id dict \<Rightarrow> opaque_id dict" where
  "index_all keys owner d = fold (\<lambda>k acc. AList.update k owner acc) keys d"

definition insert_if_new :: "opaque_id \<Rightarrow> 'v \<Rightarrow> 'v dict \<Rightarrow> 'v dict" where
  "insert_if_new k v d = (if has_key d k then d else AList.update k v d)"

definition drop_keys :: "opaque_id list \<Rightarrow> 'v dict \<Rightarrow> 'v dict" where
  "drop_keys keys d = filter (\<lambda>(k, v). k \<notin> set keys) d"

definition with_archive_status :: "text_t \<Rightarrow> opaque_id \<Rightarrow> state_file \<Rightarrow> state_file" where
  "with_archive_status status case_id s =
     (case map_of (sf_cases s) case_id of
        None \<Rightarrow> s
      | Some ag \<Rightarrow>
          s\<lparr>sf_cases := AList.update case_id (ag\<lparr>ag_case := (ag_case ag)\<lparr>cs_archive_status := status\<rparr>\<rparr>) (sf_cases s)\<rparr>)"

definition write_rows ::
  "opaque_id \<Rightarrow> state_file \<Rightarrow> case_aggregate \<Rightarrow> archive_payload option \<Rightarrow> repository \<Rightarrow> repository" where
  "write_rows case_id s ag payload r =
     r\<lparr>db_completed := AList.update case_id (Some s) (db_completed r),
       db_retention := insert_if_new case_id (cs_updated_at (ag_case ag)) (db_retention r),
       db_object_index := index_all (object_keys ag) case_id (db_object_index r),
       db_request_index := index_all (dict_keys (sf_idempotency s)) case_id (db_request_index r),
       db_resource_index := index_all (resource_keys ag) case_id (db_resource_index r),
       db_archive_tasks :=
         (let tasks = (case payload of
              None \<Rightarrow> db_archive_tasks r
            | Some p \<Rightarrow> insert_if_new case_id \<lparr>tk_status = ''PENDING'', tk_payload = p\<rparr> (db_archive_tasks r))
          in if cs_archive_status (ag_case ag) \<in> {''READY'', ''FAILED''}
             then map (\<lambda>(k, t). (k, if k = case_id then t\<lparr>tk_status := cs_archive_status (ag_case ag)\<rparr> else t)) tasks
             else tasks)\<rparr>"

datatype persist_result = Persisted repository state_file | Database_Error | Payload_Error exn

definition persist :: "bool \<Rightarrow> opaque_id \<Rightarrow> state_file \<Rightarrow> repository \<Rightarrow> persist_result" where
  "persist fails case_id s r =
     (case map_of (sf_cases s) case_id of
        None \<Rightarrow> Payload_Error KeyError
      | Some ag \<Rightarrow>
          (case archive_payload_of ag of
             Inl e \<Rightarrow> Payload_Error e
           | Inr payload \<Rightarrow>
               let s' = (if payload \<noteq> None \<and> cs_archive_status (ag_case ag) = ''NOT_REQUIRED''
                         then with_archive_status ''PENDING'' case_id s else s)
               in if fails then Database_Error
                  else case map_of (sf_cases s') case_id of
                    None \<Rightarrow> Payload_Error KeyError
                  | Some ag' \<Rightarrow> Persisted (write_rows case_id s' ag' payload r) s'))"

section \<open>Committing\<close>

text \<open>\<open>_mutation_case_id\<close>: the first object of the first non-empty collection names the case.\<close>

fun first_some :: "'a option list \<Rightarrow> 'a option" where
  "first_some [] = None"
| "first_some (None # xs) = first_some xs"
| "first_some (Some x # xs) = Some x"

definition head_of :: "('a \<Rightarrow> 'b) \<Rightarrow> 'a list \<Rightarrow> 'b option" where
  "head_of f xs = (case xs of [] \<Rightarrow> None | x # _ \<Rightarrow> Some (f x))"

definition mutation_case_id :: "repository \<Rightarrow> state_mutation \<Rightarrow> opaque_id option" where
  "mutation_case_id r m =
     (case first_some [map_option cs_case_id (mn_upsert_case m), head_of jb_case_id (mn_insert_jobs m),
             head_of oc_case_id (mn_outcomes m), head_of at_case_id (mn_attachments m),
             head_of vd_case_id (mn_evidence m), head_of af_case_id (mn_artifacts m)] of
        Some c \<Rightarrow> Some c
      | None \<Rightarrow>
          (case first_some [head_of ju_job_id (mn_job_updates m), head_of op_job_id (mn_processing m),
                  head_of fr_job_id (mn_failures m)] of
             None \<Rightarrow> None
           | Some j \<Rightarrow> locate_object r j))"

definition reserve_requests :: "opaque_id \<Rightarrow> idempotency_record list \<Rightarrow> repository \<Rightarrow> repository option" where
  "reserve_requests case_id records r =
     (let keys = map idempotency_key_of records
      in if list_all (\<lambda>k. locate_request r k = None) keys \<and> distinct keys
         then Some (r\<lparr>rp_requests := index_all keys case_id (rp_requests r)\<rparr>) else None)"

definition install :: "bool \<Rightarrow> opaque_id \<Rightarrow> state_file \<Rightarrow> case_aggregate \<Rightarrow> repository \<Rightarrow> repository" where
  "install finished case_id s ag r =
     (if finished
      then r\<lparr>rp_live := drop_keys [case_id] (rp_live r), rp_objects := drop_keys (object_keys ag) (rp_objects r),
             rp_requests := drop_keys (dict_keys (sf_idempotency s)) (rp_requests r)\<rparr>
      else r\<lparr>rp_live := AList.update case_id s (rp_live r),
             rp_objects := index_all (object_keys ag) case_id (rp_objects r)\<rparr>)"

definition write_failed :: "repository \<Rightarrow> repository \<times> (store_error + 'a)" where
  "write_failed r =
     (let e = port_error EC_STATE_WRITE_FAILED msg_persist_failed
      in (r\<lparr>rp_failure := Some e\<rparr>, Inl (PortError e)))"

text \<open>The two \<open>except\<close> clauses of \<open>commit\<close>: both give the reserved request keys back.\<close>

definition release_requests :: "text_t list \<Rightarrow> repository \<Rightarrow> repository" where
  "release_requests keys r = r\<lparr>rp_requests := drop_keys keys (rp_requests r)\<rparr>"

definition commit_error :: "callback_error \<Rightarrow> text_t list \<Rightarrow> repository \<Rightarrow> repository \<times> (store_error + 'a)" where
  "commit_error e keys r =
     (case e of
        Database_Raises \<Rightarrow> write_failed (release_requests keys r)
      | Other_Raises x \<Rightarrow> (release_requests keys r, Inl x))"

definition projection_error :: "commit_io \<Rightarrow> callback_error option" where
  "projection_error io = (case ci_case_projection io of None \<Rightarrow> None | Some e \<Rightarrow> e)"

text \<open>The callbacks that run once the case is replaced.\<close>

definition callback_error_of :: "commit_io \<Rightarrow> bool \<Rightarrow> callback_error option" where
  "callback_error_of io terminal =
     (case if terminal then ci_terminal io else None of Some e \<Rightarrow> Some e | None \<Rightarrow> ci_case_committed io)"

definition announce :: "commit_io \<Rightarrow> bool \<Rightarrow> text_t list \<Rightarrow> commit_receipt \<Rightarrow> repository \<Rightarrow>
    repository \<times> (store_error + commit_receipt)" where
  "announce io terminal keys receipt r =
     (case callback_error_of io terminal of None \<Rightarrow> (r, Inr receipt) | Some e \<Rightarrow> commit_error e keys r)"

text \<open>From the reserved keys on: persist a finished case or project a running one, replace the stored case, and
  run the callbacks. The keys stay reserved only when all of it succeeds.\<close>

definition publish :: "commit_io \<Rightarrow> text_t list \<Rightarrow> opaque_id \<Rightarrow> state_file \<Rightarrow> case_aggregate \<Rightarrow> repository \<Rightarrow>
    repository \<times> (store_error + commit_receipt)" where
  "publish io keys case_id s ag r =
     (let receipt = \<lparr>ct_generation = sf_generation s, ct_case_revision = Some (cs_case_revision (ag_case ag))\<rparr>
      in if terminal_status (cs_status (ag_case ag))
         then (case persist (ci_database_fails io) case_id s r of
                 Persisted r' s' \<Rightarrow>
                   (case projection_error io of
                      Some e \<Rightarrow> commit_error e keys r
                    | None \<Rightarrow> announce io True keys receipt (install True case_id s' ag r'))
               | Database_Error \<Rightarrow> commit_error Database_Raises keys r
               | Payload_Error e \<Rightarrow> commit_error (Other_Raises (Crash e)) keys r)
         else if ci_case_projection io \<noteq> None \<and> ci_database_fails io then commit_error Database_Raises keys r
         else (case projection_error io of
                 Some e \<Rightarrow> commit_error e keys r
               | None \<Rightarrow> announce io False keys receipt (install False case_id s ag r)))"

definition commit ::
  "store_env \<Rightarrow> commit_io \<Rightarrow> repository \<Rightarrow> int \<Rightarrow> int option \<Rightarrow> state_mutation \<Rightarrow>
   repository \<times> (store_error + commit_receipt)" where
  "commit sv io r expected_generation expected_case_revision m =
     (case rp_failure r of
        Some e \<Rightarrow> (r, Inl (PortError e))
      | None \<Rightarrow>
          (case mutation_case_id r m of
             None \<Rightarrow>
               if expected_generation \<noteq> sf_generation (rp_base r) then (r, conflict msg_process_metadata_changed)
               else (case apply_mutation sv (ci_now io) (rp_base r) None m of
                       Inl e \<Rightarrow> (r, Inl e)
                     | Inr (s, _) \<Rightarrow>
                         (r\<lparr>rp_base := s\<rparr>, Inr \<lparr>ct_generation = sf_generation s, ct_case_revision = None\<rparr>))
           | Some case_id \<Rightarrow>
               (case read_case_state r case_id of
                  (r', Inl e) \<Rightarrow> (r', Inl e)
                | (r', Inr current) \<Rightarrow>
                    if sf_generation current \<noteq> expected_generation then (r', conflict msg_current_case_changed)
                    else (case apply_mutation sv (ci_now io) current expected_case_revision m of
                            Inl (Crash ValueError) \<Rightarrow>
                              (r', Inl (PortError (port_error EC_STATE_WRITE_FAILED msg_mutation_invalid)))
                          | Inl e \<Rightarrow> (r', Inl e)
                          | Inr (s, _) \<Rightarrow>
                              (case map_of (sf_cases s) case_id of
                                 None \<Rightarrow> (r', Inl (Crash KeyError))
                               | Some ag \<Rightarrow>
                                   (case reserve_requests case_id (mn_idempotency m) r' of
                                      None \<Rightarrow> (r', conflict msg_request_committed)
                                    | Some reserved \<Rightarrow>
                                        publish io (map idempotency_key_of (mn_idempotency m)) case_id s ag reserved))))))"

end
