(* ===== verification/Aggregate_Refinement.thy ===== *)
theory Aggregate_Refinement
  imports State_Mutation
begin

text \<open>
  When does a change of a case and of the lifecycle of its jobs keep a stored aggregate valid? The checks of
  \<open>CaseAggregate\<close> read the lifecycle of a job in few places: the active job, the sources of reviews,
  replacements and results (finished jobs, which never change) and the runtime epoch of failure records. The
  theorem \<open>refined_aggregate_valid\<close> is what claiming, failing, interrupting and archiving rest on.
\<close>

section \<open>Jobs up to their lifecycle\<close>

definition with_life :: "job \<Rightarrow> job_status \<Rightarrow> timestamp option \<Rightarrow> timestamp option \<Rightarrow> opaque_id option \<Rightarrow> job" where
  "with_life j st sa fa ep = j\<lparr>jb_status := st, jb_started_at := sa, jb_finished_at := fa, jb_runtime_epoch := ep\<rparr>"

lemma same_job_life:
  "same_job j j' \<Longrightarrow> j' = with_life j (jb_status j') (jb_started_at j') (jb_finished_at j') (jb_runtime_epoch j')"
  unfolding same_job_def job_core_def with_life_def by (cases j; cases j') simp

lemma with_life_same: "same_job j (with_life j st sa fa ep)"
  by (simp add: same_job_def job_core_def with_life_def)

lemma with_life_fields [simp]:
  "jb_job_id (with_life j st sa fa ep) = jb_job_id j" "jb_case_id (with_life j st sa fa ep) = jb_case_id j"
  "jb_job_type (with_life j st sa fa ep) = jb_job_type j"
  "jb_diagnosis_mode (with_life j st sa fa ep) = jb_diagnosis_mode j"
  "jb_review_policy (with_life j st sa fa ep) = jb_review_policy j"
  "jb_generic_skill_name (with_life j st sa fa ep) = jb_generic_skill_name j"
  "jb_generic_log_preparation (with_life j st sa fa ep) = jb_generic_log_preparation j"
  "jb_generic_problem_text (with_life j st sa fa ep) = jb_generic_problem_text j"
  "jb_generic_product_line (with_life j st sa fa ep) = jb_generic_product_line j"
  "jb_generic_log_archive_expected (with_life j st sa fa ep) = jb_generic_log_archive_expected j"
  "jb_generic_supplement_texts (with_life j st sa fa ep) = jb_generic_supplement_texts j"
  "jb_continuation_context (with_life j st sa fa ep) = jb_continuation_context j"
  "jb_goal (with_life j st sa fa ep) = jb_goal j"
  "jb_base_state_revision (with_life j st sa fa ep) = jb_base_state_revision j"
  "jb_context_snapshot (with_life j st sa fa ep) = jb_context_snapshot j"
  "jb_evidence_refs (with_life j st sa fa ep) = jb_evidence_refs j"
  "jb_attachment_refs (with_life j st sa fa ep) = jb_attachment_refs j"
  "jb_previous_outcome_refs (with_life j st sa fa ep) = jb_previous_outcome_refs j"
  "jb_artifact_refs (with_life j st sa fa ep) = jb_artifact_refs j"
  "jb_agent_profile_ref (with_life j st sa fa ep) = jb_agent_profile_ref j"
  "jb_available_skill_refs (with_life j st sa fa ep) = jb_available_skill_refs j"
  "jb_skill_ref (with_life j st sa fa ep) = jb_skill_ref j"
  "jb_tool_bundle_ref (with_life j st sa fa ep) = jb_tool_bundle_ref j"
  "jb_context_policy_ref (with_life j st sa fa ep) = jb_context_policy_ref j"
  "jb_output_contract_ref (with_life j st sa fa ep) = jb_output_contract_ref j"
  "jb_logparse_tool_ref (with_life j st sa fa ep) = jb_logparse_tool_ref j"
  "jb_logparse_product (with_life j st sa fa ep) = jb_logparse_product j"
  "jb_review_target (with_life j st sa fa ep) = jb_review_target j"
  "jb_methods_review_target (with_life j st sa fa ep) = jb_methods_review_target j"
  "jb_replacement_for_job_id (with_life j st sa fa ep) = jb_replacement_for_job_id j"
  "jb_resource_limits (with_life j st sa fa ep) = jb_resource_limits j"
  "jb_created_at (with_life j st sa fa ep) = jb_created_at j"
  "jb_status (with_life j st sa fa ep) = st" "jb_started_at (with_life j st sa fa ep) = sa"
  "jb_finished_at (with_life j st sa fa ep) = fa" "jb_runtime_epoch (with_life j st sa fa ep) = ep"
  by (simp_all add: with_life_def)

lemma job_direct_life [simp]: "job_direct (with_life j st sa fa ep) = job_direct j"
  by (simp add: job_direct_def)

lemma direct_name_life [simp]:
  "specialized_direct_skill_name (with_life j st sa fa ep) = specialized_direct_skill_name j"
  by (simp add: specialized_direct_skill_name_def)

text \<open>The lifecycle clause is the only part of the job validator that sees the lifecycle.\<close>

lemma valid_job_life:
  assumes "valid_job env j" "valid_job_lifecycle (with_life j st sa fa ep)"
  shows "valid_job env (with_life j st sa fa ep)"
  using assms unfolding valid_job_def valid_job_generic_fields_def valid_job_snapshot_def valid_job_resources_def
    valid_job_mode_def valid_job_review_def with_life_fields job_direct_life by (elim conjE) (intro conjI)

section \<open>Outcomes see no lifecycle\<close>

lemma outcome_matches_life [simp]:
  "outcome_matches_job (with_life j st sa fa ep) oc = outcome_matches_job j oc"
  unfolding outcome_matches_job_def with_life_fields job_direct_life direct_name_life by (rule refl)

lemma validate_methods_life [simp]:
  "validate_methods_outcome (with_life j st sa fa ep) oc = validate_methods_outcome j oc"
  unfolding validate_methods_outcome_def specialist_handoff_ok_def terminal_reason_ok_def with_life_fields job_direct_life direct_name_life by (rule refl)

lemma log_content_types_life [simp]:
  "log_content_types (with_life j st sa fa ep) = log_content_types j"
  unfolding log_content_types_def with_life_fields job_direct_life direct_name_life by (rule refl)

lemma validate_generic_life [simp]:
  "validate_generic_outcome (with_life j st sa fa ep) oc = validate_generic_outcome j oc"
  unfolding validate_generic_outcome_def generic_preflight_ok_def preflight_requirement_ok_def log_content_types_def with_life_fields job_direct_life direct_name_life by (rule refl)

lemma direct_gate_life [simp]:
  "direct_gate (with_life j st sa fa ep) oc = direct_gate j oc"
  unfolding direct_gate_def with_life_fields job_direct_life direct_name_life by (rule refl)

lemma validate_audit_life [simp]:
  "validate_outcome_audit (with_life j st sa fa ep) oc = validate_outcome_audit j oc"
  unfolding validate_outcome_audit_def with_life_fields job_direct_life direct_name_life by (rule refl)

lemma validate_payload_life [simp]:
  "validate_outcome_payload (with_life j st sa fa ep) oc = validate_outcome_payload j oc"
  unfolding validate_outcome_payload_def validate_review_payload_def validate_diagnosis_payload_def with_life_fields job_direct_life direct_name_life by (rule refl)

lemma evidence_fixed_life [simp]:
  "evidence_proposal_fixed (with_life j st sa fa ep) = evidence_proposal_fixed j"
  unfolding evidence_proposal_fixed_def source_refs_def with_life_fields job_direct_life direct_name_life by (rule refl)

lemma artifact_fixed_life [simp]:
  "artifact_proposal_fixed (with_life j st sa fa ep) = artifact_proposal_fixed j"
  unfolding artifact_proposal_fixed_def with_life_fields job_direct_life direct_name_life by (rule refl)

section \<open>Refinement of the jobs of a case\<close>

text \<open>A job may move on, but a finished one stays as it is and an assigned epoch never changes.\<close>

definition job_advances :: "job \<Rightarrow> job \<Rightarrow> bool" where
  "job_advances j j' \<longleftrightarrow>
     same_job j j' \<and> (finished_job_status (jb_status j) \<longrightarrow> j' = j) \<and>
     (jb_runtime_epoch j \<noteq> None \<longrightarrow> jb_runtime_epoch j' = jb_runtime_epoch j)"

definition jobs_advance :: "job dict \<Rightarrow> job dict \<Rightarrow> bool" where
  "jobs_advance d d' \<longleftrightarrow> list_all2 (\<lambda>p q. fst q = fst p \<and> job_advances (snd p) (snd q)) d d'"

lemma job_advances_refl [simp]: "job_advances j j"
  by (simp add: job_advances_def)

lemma jobs_advance_refl [simp]: "jobs_advance d d"
  by (simp add: jobs_advance_def list_all2_same)

lemma jobs_advance_update:
  "map_of d i = Some j \<Longrightarrow> job_advances j j' \<Longrightarrow> jobs_advance d (AList.update i j' d)"
  by (induction d) (auto simp: jobs_advance_def list_all2_same split: if_splits)

lemma jobs_advance_get:
  "jobs_advance d d' \<Longrightarrow> map_of d i = None \<and> map_of d' i = None \<or>
     (\<exists>j j'. map_of d i = Some j \<and> map_of d' i = Some j' \<and> job_advances j j')"
  unfolding jobs_advance_def by (induction rule: list_all2_induct) auto

lemma jobs_advance_keys: "jobs_advance d d' \<Longrightarrow> dict_keys d' = dict_keys d"
  unfolding jobs_advance_def by (induction rule: list_all2_induct) auto

lemma jobs_advance_map:
  assumes "jobs_advance d d'" and "\<And>j j'. job_advances j j' \<Longrightarrow> f j' = f j"
  shows "map f (dict_items d') = map f (dict_items d)"
  using assms(1) unfolding jobs_advance_def by (induction rule: list_all2_induct) (auto simp: assms(2))

lemma jobs_advance_all:
  assumes "jobs_advance d d'" and "\<And>j j'. job_advances j j' \<Longrightarrow> P j \<Longrightarrow> Q j'" and "list_all P (dict_items d)"
  shows "list_all Q (dict_items d')"
  using assms(1,3) unfolding jobs_advance_def by (induction rule: list_all2_induct) (auto simp: assms(2))

lemma advances_life:
  assumes "job_advances j j'"
  obtains st sa fa ep where "j' = with_life j st sa fa ep"
  using assms same_job_life unfolding job_advances_def by blast

lemma has_key_advance: "jobs_advance d d' \<Longrightarrow> has_key d' i = has_key d i"
  by (simp add: has_key_def jobs_advance_keys)

lemma review_source_advance: "jobs_advance d d' \<Longrightarrow> review_source_ok d t \<Longrightarrow> review_source_ok d' t"
  using jobs_advance_get [of d d' "mt_source_job_id t"]
  by (auto simp: review_source_ok_def job_advances_def)

lemma interrupted_advance: "jobs_advance d d' \<Longrightarrow> interrupted_job d i \<Longrightarrow> interrupted_job d' i"
  using jobs_advance_get [of d d' i] by (auto simp: interrupted_job_def job_advances_def)

section \<open>Refinement of a whole case\<close>

definition case_advances :: "case_t \<Rightarrow> case_t \<Rightarrow> bool" where
  "case_advances c c' \<longleftrightarrow>
     cs_case_id c' = cs_case_id c \<and> cs_continuation_context c' = cs_continuation_context c \<and>
     cs_raw_problem_text c' = cs_raw_problem_text c \<and> cs_product_line c' = cs_product_line c \<and>
     cs_diagnosis_state c' = cs_diagnosis_state c \<and> cs_selected_skill_ref c' = cs_selected_skill_ref c \<and>
     cs_generic_result c' = cs_generic_result c \<and> cs_generic_result_v2 c' = cs_generic_result_v2 c \<and>
     (cs_status c' = cs_status c \<and> cs_final_result c' = cs_final_result c \<and>
      cs_unresolved_result c' = cs_unresolved_result c \<and>
      (cs_archive_status c' = cs_archive_status c \<or> cs_archive_status c' \<noteq> ''READY'') \<or>
      cs_status c' \<notin> {CS_RESOLVED, CS_PARTIALLY_RESOLVED, CS_UNRESOLVED})"

definition aggregate_advances :: "case_aggregate \<Rightarrow> case_aggregate \<Rightarrow> bool" where
  "aggregate_advances ag ag' \<longleftrightarrow>
     ag' = ag\<lparr>ag_case := ag_case ag', ag_jobs := ag_jobs ag'\<rparr> \<and>
     case_advances (ag_case ag) (ag_case ag') \<and> jobs_advance (ag_jobs ag) (ag_jobs ag')"

lemma aggregate_advances_same:
  assumes "aggregate_advances ag ag'"
  shows "ag_outcomes ag' = ag_outcomes ag" "ag_processing ag' = ag_processing ag" "ag_failures ag' = ag_failures ag"
    "ag_attachments ag' = ag_attachments ag" "ag_evidence ag' = ag_evidence ag" "ag_artifacts ag' = ag_artifacts ag"
  using assms unfolding aggregate_advances_def
  by (metis case_aggregate.select_convs case_aggregate.surjective case_aggregate.update_convs(1,2))+

text \<open>The stored job of an identifier before and after.\<close>

lemma advanced_job:
  assumes "jobs_advance d d'" "map_of d i = Some j"
  obtains j' where "map_of d' i = Some j'" "job_advances j j'"
  using jobs_advance_get [OF assms(1), of i] assms(2) by auto

lemma keyed_get: "keyed_by f d \<Longrightarrow> map_of d k = Some v \<Longrightarrow> f v = k"
  by (auto simp: keyed_by_def list_all_iff dest: map_of_SomeD)

lemma logparse_matches_same:
  assumes "ag_attachments ag' = ag_attachments ag"
  shows "logparse_source_matches (with_life j st sa fa ep) ag' m = logparse_source_matches j ag m"
  unfolding logparse_source_matches_def with_life_fields assms by (rule refl)

lemma outcome_check_advances:
  assumes adv: "aggregate_advances ag ag'"
    and stored: "map_of (ag_jobs ag) (jb_job_id j) = Some j" "map_of (ag_jobs ag') (jb_job_id j) = Some j'"
    and j': "j' = with_life j st sa fa ep"
  shows "validate_outcome_for_job j' oc (Some ag') = validate_outcome_for_job j oc (Some ag)"
proof -
  have case_id: "cs_case_id (ag_case ag') = cs_case_id (ag_case ag)"
    using adv by (simp add: aggregate_advances_def case_advances_def)
  have evidence: "evidence_source_resolves j' ag' = evidence_source_resolves j ag"
    unfolding evidence_source_resolves_def j' with_life_fields aggregate_advances_same [OF adv] by (rule refl)
  have logs: "logparse_source_matches j' ag' = logparse_source_matches j ag"
    using logparse_matches_same [OF aggregate_advances_same(4) [OF adv], of j st sa fa ep] j' by (simp add: fun_eq_iff)
  have resources: "validate_outcome_resources_for_job j' oc ag' = validate_outcome_resources_for_job j oc ag"
    unfolding validate_outcome_resources_for_job_def evidence logs case_id using stored j' by simp
  have common: "validate_outcome_common j' oc (Some ag') = validate_outcome_common j oc (Some ag)"
    unfolding validate_outcome_common_def validate_outcome_proposals_def option.case resources
    unfolding j' evidence_fixed_life artifact_fixed_life validate_audit_life validate_payload_life with_life_fields
    by (rule refl)
  show ?thesis unfolding validate_outcome_for_job_def common
    unfolding j' outcome_matches_life validate_methods_life validate_generic_life direct_gate_life job_direct_life
      with_life_fields by (rule refl)
qed

lemma agg_applied_advances:
  assumes adv: "aggregate_advances ag ag'"
    and stored: "map_of (ag_jobs ag) (jb_job_id j) = Some j" "map_of (ag_jobs ag') (jb_job_id j) = Some j'"
    and j': "j' = with_life j st sa fa ep"
    and "agg_applied ag j oc r"
  shows "agg_applied ag' j' oc r"
proof -
  have "pred_option (\<lambda>i. case map_of (ag_jobs ag') i of
      None \<Rightarrow> False | Some cj \<Rightarrow> jb_created_at cj = oc_produced_at oc) (op_created_job_id r)"
  proof (cases "op_created_job_id r")
    case (Some i)
    then obtain cj where "map_of (ag_jobs ag) i = Some cj" "jb_created_at cj = oc_produced_at oc"
      using assms(5) by (auto simp: agg_applied_def split: option.splits)
    then show ?thesis using Some adv jobs_advance_get [of "ag_jobs ag" "ag_jobs ag'" i]
      by (auto simp: aggregate_advances_def elim!: advances_life)
  qed simp
  then show ?thesis using assms(5) outcome_check_advances [OF adv stored j', of oc]
    unfolding agg_applied_def aggregate_advances_same [OF adv] j' with_life_fields by (elim conjE) (intro conjI; simp)
qed

section \<open>The checks, group by group\<close>

lemma advances_id: "job_advances j j' \<Longrightarrow> jb_job_id j' = jb_job_id j"
  by (auto elim: advances_life)

lemma keyed_advance: "jobs_advance d d' \<Longrightarrow> keyed_by jb_job_id d \<Longrightarrow> keyed_by jb_job_id d'"
  unfolding jobs_advance_def keyed_by_def
  by (induction rule: list_all2_induct) (auto simp: advances_id)

lemma agg_keys_advances: "aggregate_advances ag ag' \<Longrightarrow> agg_keys ag \<Longrightarrow> agg_keys ag'"
  using aggregate_advances_same [of ag ag'] keyed_advance [of "ag_jobs ag" "ag_jobs ag'"]
  by (simp add: agg_keys_def aggregate_advances_def)

lemma agg_saved_advances: "aggregate_advances ag ag' \<Longrightarrow> agg_saved ag \<Longrightarrow> agg_saved ag'"
  using aggregate_advances_same [of ag ag'] by (simp add: agg_saved_def)

lemma agg_owner_advances:
  assumes "aggregate_advances ag ag'" "agg_owner ag"
  shows "agg_owner ag'"
proof -
  have "cs_case_id (ag_case ag') = cs_case_id (ag_case ag)" "jobs_advance (ag_jobs ag) (ag_jobs ag')"
    using assms(1) by (simp_all add: aggregate_advances_def case_advances_def)
  moreover from this(2) have "map jb_case_id (dict_items (ag_jobs ag')) = map jb_case_id (dict_items (ag_jobs ag))"
    by (rule jobs_advance_map) (auto elim: advances_life)
  then have "list_all (\<lambda>j. jb_case_id j = c) (dict_items (ag_jobs ag')) =
      list_all (\<lambda>j. jb_case_id j = c) (dict_items (ag_jobs ag))" for c
    by (metis (mono_tags, lifting) list.pred_map list.pred_cong comp_apply)
  ultimately show ?thesis using assms(2) aggregate_advances_same [OF assms(1)] by (simp add: agg_owner_def)
qed

lemma agg_diagnosis_advances:
  assumes "aggregate_advances ag ag'" "agg_diagnosis env ag"
  shows "agg_diagnosis env ag'"
proof -
  have state: "cs_diagnosis_state (ag_case ag') = cs_diagnosis_state (ag_case ag)"
    and keys: "has_key (ag_jobs ag') = has_key (ag_jobs ag)"
    using assms(1) has_key_advance by (auto simp: aggregate_advances_def case_advances_def fun_eq_iff)
  show ?thesis
    using assms(2) unfolding agg_diagnosis_def aggregate_advances_same [OF assms(1)] state keys .
qed

lemma agg_job_advances:
  assumes adv: "aggregate_advances ag ag'" and "job_advances j j'" "agg_job ag j"
  shows "agg_job ag' j'"
proof -
  obtain st sa fa ep where j': "j' = with_life j st sa fa ep" using assms(2) by (rule advances_life)
  have c: "cs_continuation_context (ag_case ag') = cs_continuation_context (ag_case ag)"
      "cs_raw_problem_text (ag_case ag') = cs_raw_problem_text (ag_case ag)"
      "cs_product_line (ag_case ag') = cs_product_line (ag_case ag)"
    and jobs: "jobs_advance (ag_jobs ag) (ag_jobs ag')"
    using adv by (simp_all add: aggregate_advances_def case_advances_def)
  have "pred_option (review_source_ok (ag_jobs ag')) (jb_methods_review_target j)"
    "pred_option (interrupted_job (ag_jobs ag')) (jb_replacement_for_job_id j)"
    using assms(3) review_source_advance [OF jobs] interrupted_advance [OF jobs]
    by (auto simp: agg_job_def pred_option_def)
  then show ?thesis using assms(3)
    unfolding agg_job_def aggregate_advances_same [OF adv] c j' with_life_fields log_content_types_life
    by (elim conjE) (intro conjI)
qed

lemma agg_jobs_advances:
  assumes adv: "aggregate_advances ag ag'" and "agg_jobs_ok ag"
  shows "agg_jobs_ok ag'"
proof -
  have jobs: "jobs_advance (ag_jobs ag) (ag_jobs ag')" using adv by (simp add: aggregate_advances_def)
  have "map jb_replacement_for_job_id (dict_items (ag_jobs ag')) = map jb_replacement_for_job_id (dict_items (ag_jobs ag))"
    using jobs by (rule jobs_advance_map) (auto elim: advances_life)
  then have "List.map_filter jb_replacement_for_job_id (dict_items (ag_jobs ag')) =
      List.map_filter jb_replacement_for_job_id (dict_items (ag_jobs ag))"
    unfolding map_filter_via_map [of jb_replacement_for_job_id] by (rule arg_cong)
  moreover have "list_all (agg_job ag') (dict_items (ag_jobs ag'))"
    by (rule jobs_advance_all [OF jobs, of "agg_job ag"])
      (use agg_job_advances [OF adv] assms(2) in \<open>auto simp: agg_jobs_ok_def\<close>)
  ultimately show ?thesis using assms(2) by (simp add: agg_jobs_ok_def)
qed

lemma agg_evidence_advances:
  assumes "aggregate_advances ag ag'"
  shows "agg_evidence_item ag' e = agg_evidence_item ag e"
proof -
  have state: "cs_diagnosis_state (ag_case ag') = cs_diagnosis_state (ag_case ag)"
    using assms by (simp add: aggregate_advances_def case_advances_def)
  show ?thesis unfolding agg_evidence_item_def aggregate_advances_same [OF assms] state by (rule refl)
qed

lemma agg_artifact_advances:
  assumes adv: "aggregate_advances ag ag'" and "agg_artifact ag a"
  shows "agg_artifact ag' a"
proof -
  obtain j where j: "map_of (ag_jobs ag) (af_created_by_job_id a) = Some j"
    using assms(2) by (auto simp: agg_artifact_def split: option.splits)
  have case_id: "cs_case_id (ag_case ag') = cs_case_id (ag_case ag)"
    and jobs: "jobs_advance (ag_jobs ag) (ag_jobs ag')"
    using adv by (simp_all add: aggregate_advances_def case_advances_def)
  obtain st sa fa ep where "map_of (ag_jobs ag') (af_created_by_job_id a) = Some (with_life j st sa fa ep)"
    by (metis advanced_job [OF jobs j] advances_life)
  then show ?thesis using assms(2) j
    unfolding agg_artifact_def aggregate_advances_same [OF adv] case_id
      logparse_matches_same [OF aggregate_advances_same(4) [OF adv]]
    by (simp add: logparse_matches_same [OF aggregate_advances_same(4) [OF adv]] cong: artifact_metadata.case_cong)
qed

lemma agg_processing_advances:
  assumes adv: "aggregate_advances ag ag'" and keys: "keyed_by jb_job_id (ag_jobs ag)"
    and "agg_processing_record sv ag r"
  shows "agg_processing_record sv ag' r"
proof -
  obtain j where j: "map_of (ag_jobs ag) (op_job_id r) = Some j"
    using assms(3) by (auto simp: agg_processing_record_def split: option.splits)
  have jobs: "jobs_advance (ag_jobs ag) (ag_jobs ag')"
    and case_id: "cs_case_id (ag_case ag') = cs_case_id (ag_case ag)"
    using adv by (simp_all add: aggregate_advances_def case_advances_def)
  obtain st sa fa ep where j': "map_of (ag_jobs ag') (op_job_id r) = Some (with_life j st sa fa ep)"
    by (metis advanced_job [OF jobs j] advances_life)
  have id: "jb_job_id j = op_job_id r" using keyed_get [OF keys j] .
  show ?thesis
  proof (cases "map_of (ag_outcomes ag) (op_outcome_id r)")
    case None
    then show ?thesis using assms(3) j j' aggregate_advances_same [OF adv] by (simp add: agg_processing_record_def)
  next
    case (Some oc)
    have "agg_applied ag j oc r \<Longrightarrow> agg_applied ag' (with_life j st sa fa ep) oc r"
      by (rule agg_applied_advances [OF adv _ _ refl]) (simp_all add: id j j')
    then show ?thesis using Some assms(3) j j' aggregate_advances_same [OF adv] case_id
      by (simp add: agg_processing_record_def)
  qed
qed

lemma agg_failure_advances:
  assumes adv: "aggregate_advances ag ag'" and "agg_failure_record ag f"
  shows "agg_failure_record ag' f"
  using assms(2) adv jobs_advance_get [of "ag_jobs ag" "ag_jobs ag'" "fr_job_id f"]
  by (auto simp: agg_failure_record_def aggregate_advances_def job_advances_def)

lemma artifact_ids_advances: "aggregate_advances ag ag' \<Longrightarrow> artifact_ids_of ag' = artifact_ids_of ag"
  by (simp add: artifact_ids_of_def aggregate_advances_same fun_eq_iff)

lemma generic_source_advances:
  assumes adv: "aggregate_advances ag ag'" and "generic_source_ok ag i k t P Q gen"
  shows "generic_source_ok ag' i k t P Q gen"
proof -
  obtain j where "map_of (ag_jobs ag) i = Some j" "jb_status j = JS_SUCCEEDED"
    using assms(2) by (auto simp: generic_source_ok_def split: option.splits)
  then have "map_of (ag_jobs ag') i = map_of (ag_jobs ag) i"
    using adv jobs_advance_get [of "ag_jobs ag" "ag_jobs ag'" i]
    by (auto simp: aggregate_advances_def job_advances_def)
  then show ?thesis using assms(2) unfolding generic_source_ok_def aggregate_advances_same [OF adv] by simp
qed

lemma agg_generic_advances:
  assumes adv: "aggregate_advances ag ag'" and "agg_generic ag"
  shows "agg_generic ag'"
proof -
  have "cs_generic_result (ag_case ag') = cs_generic_result (ag_case ag)"
    using adv by (simp add: aggregate_advances_def case_advances_def)
  then show ?thesis using assms(2) generic_source_advances [OF adv]
    by (auto simp: agg_generic_def split: option.splits)
qed

lemma agg_generic_v2_advances:
  assumes adv: "aggregate_advances ag ag'" and "agg_generic_v2 ag"
  shows "agg_generic_v2 ag'"
proof -
  have c: "cs_generic_result_v2 (ag_case ag') = cs_generic_result_v2 (ag_case ag)"
    "cs_selected_skill_ref (ag_case ag') = cs_selected_skill_ref (ag_case ag)"
    "cs_diagnosis_state (ag_case ag') = cs_diagnosis_state (ag_case ag)"
    using adv by (simp_all add: aggregate_advances_def case_advances_def)
  have "report_job_matches ag' = report_job_matches ag" unfolding report_job_matches_def c by (rule refl)
  then show ?thesis using assms(2) generic_source_advances [OF adv] artifact_ids_advances [OF adv]
      aggregate_advances_same [OF adv] c
    by (auto simp: agg_generic_v2_def split: option.splits)
qed

lemma agg_reports_advances: "aggregate_advances ag ag' \<Longrightarrow> agg_reports ag \<Longrightarrow> agg_reports ag'"
  using artifact_ids_advances [of ag ag'] by (simp add: agg_reports_def aggregate_advances_def case_advances_def)

lemma legacy_advances:
  assumes "aggregate_advances ag ag'" "cs_methods_result (ag_case ag') = None" "cs_methods_result (ag_case ag) = None"
  shows "legacy_result (ag_case ag') = legacy_result (ag_case ag)"
  using assms by (simp add: legacy_result_def aggregate_advances_def case_advances_def)

lemma agg_resolved_advances:
  assumes adv: "aggregate_advances ag ag'" and "agg_resolved ag"
    and "legacy_result (ag_case ag') = legacy_result (ag_case ag)"
  shows "agg_resolved ag'"
proof (cases "cs_status (ag_case ag') \<in> {CS_RESOLVED, CS_PARTIALLY_RESOLVED} \<and> legacy_result (ag_case ag')")
  case True
  then have same: "cs_status (ag_case ag') = cs_status (ag_case ag)"
      "cs_final_result (ag_case ag') = cs_final_result (ag_case ag)"
    and arch: "cs_archive_status (ag_case ag') = cs_archive_status (ag_case ag) \<or> cs_archive_status (ag_case ag') \<noteq> ''READY''"
    using adv by (auto simp: aggregate_advances_def case_advances_def)
  with True assms(2,3) obtain f j where
    f: "cs_final_result (ag_case ag) = Some f" "map_of (ag_jobs ag) (cc_proposed_by_job_id f) = Some j"
    and rest: "jb_job_type j = JT_DIAGNOSE"
      "length (artifact_ids_of ag AK_USER_RESULT (\<lambda>i. i = cc_proposed_by_job_id f)) = 1"
      "length (artifact_ids_of ag AK_USER_RESULT_ARCHIVE (\<lambda>i. i = cc_proposed_by_job_id f)) \<le> 1"
      "cs_archive_status (ag_case ag) = ''READY'' \<longrightarrow>
        length (artifact_ids_of ag AK_USER_RESULT_ARCHIVE (\<lambda>i. i = cc_proposed_by_job_id f)) = 1"
    by (auto simp: agg_resolved_def Let_def split: option.splits)
  have jobs: "jobs_advance (ag_jobs ag) (ag_jobs ag')" using adv by (simp add: aggregate_advances_def)
  obtain st sa fa ep where j': "map_of (ag_jobs ag') (cc_proposed_by_job_id f) = Some (with_life j st sa fa ep)"
    by (metis advanced_job [OF jobs f(2)] advances_life)
  show ?thesis using same f j' rest arch by (auto simp: agg_resolved_def Let_def artifact_ids_advances [OF adv])
qed (auto simp: agg_resolved_def Let_def)

lemma agg_unresolved_advances:
  assumes adv: "aggregate_advances ag ag'" and "agg_unresolved ag"
    and "legacy_result (ag_case ag') = legacy_result (ag_case ag)"
  shows "agg_unresolved ag'"
proof (cases "cs_status (ag_case ag') = CS_UNRESOLVED")
  case True
  then have same: "cs_status (ag_case ag') = cs_status (ag_case ag)"
    "cs_unresolved_result (ag_case ag') = cs_unresolved_result (ag_case ag)"
    using adv by (auto simp: aggregate_advances_def case_advances_def)
  have ok: "unresolved_result_ok ag' = unresolved_result_ok ag"
    unfolding unresolved_result_ok_def artifact_ids_advances [OF adv] aggregate_advances_same [OF adv] by (rule refl)
  show ?thesis using assms(2) unfolding agg_unresolved_def same assms(3) ok .
qed (simp add: agg_unresolved_def)

section \<open>The whole aggregate\<close>

theorem refined_aggregate_valid:
  assumes adv: "aggregate_advances ag ag'" and valid: "valid_aggregate sv ag"
    and case_ok: "valid_case (sv_py sv) (ag_case ag')"
    and jobs_ok: "list_all (valid_job (sv_py sv)) (dict_items (ag_jobs ag'))" and active: "agg_active ag'"
  shows "valid_aggregate sv ag'"
proof -
  have none: "cs_methods_result (ag_case ag') = None" "cs_methods_result (ag_case ag) = None"
    using case_ok valid by (simp_all add: valid_case_def valid_aggregate_def)
  note legacy = legacy_advances [OF adv none]
  have maps: "validate_maps sv ag" using valid by (simp add: valid_aggregate_def)
  have "list_all (agg_processing_record sv ag') (dict_items (ag_processing ag))"
    using maps agg_processing_advances [OF adv, of sv] by (auto simp: validate_maps_def agg_keys_def list_all_iff)
  moreover have "list_all (agg_artifact ag') (dict_items (ag_artifacts ag))"
    using maps agg_artifact_advances [OF adv] by (auto simp: validate_maps_def list_all_iff)
  moreover have "list_all (agg_failure_record ag') (dict_items (ag_failures ag))"
    using maps agg_failure_advances [OF adv] by (auto simp: validate_maps_def list_all_iff)
  moreover have "list_all (agg_evidence_item ag') (dict_items (ag_evidence ag))"
    using maps agg_evidence_advances [OF adv] by (auto simp: validate_maps_def list_all_iff)
  moreover have "agg_methods ag'" using none by (simp add: agg_methods_def)
  ultimately have "validate_maps sv ag'"
    using maps active agg_keys_advances [OF adv] agg_saved_advances [OF adv] agg_owner_advances [OF adv]
      agg_diagnosis_advances [OF adv] agg_jobs_advances [OF adv] agg_generic_advances [OF adv]
      agg_generic_v2_advances [OF adv] agg_reports_advances [OF adv] agg_resolved_advances [OF adv _ legacy]
      agg_unresolved_advances [OF adv _ legacy]
    unfolding validate_maps_def aggregate_advances_same [OF adv] by (elim conjE) (intro conjI; blast)
  then show ?thesis using valid case_ok jobs_ok
    unfolding valid_aggregate_def aggregate_advances_same [OF adv] by (elim conjE) (intro conjI)
qed

end
