(* ===== verification/Repository_Laws.thy ===== *)
theory Repository_Laws
  imports Case_Repository Aggregate_Refinement
begin

text \<open>
  The contract of the repository: every stored state is valid and holds exactly its own case, every commit keeps
  that, a stale writer changes nothing, and a successful commit is what the next read of the case returns.
\<close>

section \<open>Case files\<close>

definition case_file :: "store_env \<Rightarrow> opaque_id \<Rightarrow> state_file \<Rightarrow> bool" where
  "case_file sv c s \<longleftrightarrow> valid_state sv s \<and> state_dicts s \<and> dict_keys (sf_cases s) = [c]"

lemma case_file_single: "case_file sv c s \<Longrightarrow> \<exists>ag. sf_cases s = [(c, ag)]"
  by (auto simp: case_file_def map_eq_Cons_conv)

text \<open>What a state says beside its cases.\<close>

definition state_frame :: "state_file \<Rightarrow> bool" where
  "state_frame s \<longleftrightarrow>
     0 \<le> sf_generation s \<and> list_all valid_recovery_record (dict_items (sf_recovery s)) \<and> state_recovery_ok s \<and>
     keyed_by idempotency_key_of (sf_idempotency s) \<and> dict_ok (sf_recovery s) \<and> dict_ok (sf_idempotency s)"

lemma single_case_file:
  assumes "sf_cases s = [(c, ag)]"
  shows "case_file sv c s \<longleftrightarrow> state_frame s \<and> valid_aggregate sv ag \<and> agg_dicts ag \<and> cs_case_id (ag_case ag) = c"
  using assms
  by (auto simp: case_file_def valid_state_def validate_state_file_def state_dicts_def state_frame_def keyed_by_def
      state_ids_unique_def ids_of_def agg_dicts_def dict_ok_def)

lemma state_frame_move:
  "state_frame s \<Longrightarrow> 0 \<le> g \<Longrightarrow> state_frame (s\<lparr>sf_cases := cs, sf_generation := g, sf_updated_at := t\<rparr>)"
  by (simp add: state_frame_def state_recovery_ok_def)

section \<open>The archive status\<close>

lemma valid_case_archive:
  assumes "valid_case env c"
  shows "valid_case env (c\<lparr>cs_archive_status := x\<rparr>)"
proof -
  have g: "case_generic (c\<lparr>cs_archive_status := x\<rparr>) = case_generic c" by (simp add: case_generic_def)
  have "valid_case_markdown (c\<lparr>cs_archive_status := x\<rparr>) = valid_case_markdown c"
    "valid_case_final (c\<lparr>cs_archive_status := x\<rparr>) = valid_case_final c"
    "valid_case_unresolved (c\<lparr>cs_archive_status := x\<rparr>) = valid_case_unresolved c"
    "valid_case_activity (c\<lparr>cs_archive_status := x\<rparr>) = valid_case_activity c"
    by (simp_all add: valid_case_markdown_def valid_case_final_def valid_case_unresolved_def valid_case_activity_def g
        cong: option.case_cong prod.case_cong if_cong)
  then show ?thesis using assms by (simp add: valid_case_def)
qed

lemma archive_keeps_aggregate:
  assumes "valid_aggregate sv ag" "x \<noteq> ''READY''"
  shows "valid_aggregate sv (ag\<lparr>ag_case := (ag_case ag)\<lparr>cs_archive_status := x\<rparr>\<rparr>)"
proof (rule refined_aggregate_valid [OF _ assms(1)])
  show "aggregate_advances ag (ag\<lparr>ag_case := (ag_case ag)\<lparr>cs_archive_status := x\<rparr>\<rparr>)"
    using assms(2) by (simp add: aggregate_advances_def case_advances_def)
  have "agg_active (ag\<lparr>ag_case := (ag_case ag)\<lparr>cs_archive_status := x\<rparr>\<rparr>) = agg_active ag"
    by (simp add: agg_active_def Let_def cong: option.case_cong)
  then show "agg_active (ag\<lparr>ag_case := (ag_case ag)\<lparr>cs_archive_status := x\<rparr>\<rparr>)"
    using assms(1) by (simp add: valid_aggregate_def validate_maps_def)
qed (use assms(1) valid_case_archive [of "sv_py sv" "ag_case ag" x] in \<open>simp_all add: valid_aggregate_def\<close>)

lemma archive_keeps_file:
  assumes "case_file sv c s" "x \<noteq> ''READY''"
  shows "case_file sv c (with_archive_status x c s)"
proof -
  obtain ag where ag: "sf_cases s = [(c, ag)]" using case_file_single [OF assms(1)] by blast
  then have "state_frame s" "valid_aggregate sv ag" "agg_dicts ag" "cs_case_id (ag_case ag) = c"
    using assms(1) by (simp_all add: single_case_file)
  then show ?thesis using ag archive_keeps_aggregate [OF _ assms(2), of sv ag]
    by (simp add: with_archive_status_def single_case_file state_frame_def state_recovery_ok_def agg_dicts_def)
qed

section \<open>The invariant\<close>

definition base_file :: "store_env \<Rightarrow> state_file \<Rightarrow> bool" where
  "base_file sv s \<longleftrightarrow> valid_state sv s \<and> state_dicts s \<and> sf_cases s = []"

definition repo_ok :: "store_env \<Rightarrow> repository \<Rightarrow> bool" where
  "repo_ok sv r \<longleftrightarrow>
     base_file sv (rp_base r) \<and> dict_ok (rp_live r) \<and> dict_ok (db_completed r) \<and>
     list_all (\<lambda>(c, s). case_file sv c s) (rp_live r) \<and>
     list_all (\<lambda>(c, s). pred_option (case_file sv c) s) (db_completed r)"

lemma initial_repository_ok: "base_file sv (initial_base i t)"
  by (simp add: base_file_def valid_state_def validate_state_file_def state_recovery_ok_def state_ids_unique_def
      ids_of_def keyed_by_def state_dicts_def initial_base_def)

lemma repo_ok_failure [simp]: "repo_ok sv (r\<lparr>rp_failure := e\<rparr>) = repo_ok sv r"
  by (simp add: repo_ok_def)

lemma list_all_update:
  "dict_ok d \<Longrightarrow> list_all (\<lambda>(k, v). P k v) d \<Longrightarrow> P k v \<Longrightarrow> list_all (\<lambda>(k, v). P k v) (AList.update k v d)"
  by (auto simp: list_all_iff set_update)

lemma dict_ok_drop [simp]: "dict_ok d \<Longrightarrow> dict_ok (drop_keys ks d)"
  by (induction d) (auto simp: dict_ok_def drop_keys_def)

lemma list_all_drop: "list_all P d \<Longrightarrow> list_all P (drop_keys ks d)"
  by (auto simp: list_all_iff drop_keys_def)

lemma load_case_repo: "repo_ok sv r \<Longrightarrow> load_case r c = (r', x) \<Longrightarrow> repo_ok sv r'"
  by (auto simp: load_case_def Let_def split: option.splits)

lemma read_case_state_repo: "repo_ok sv r \<Longrightarrow> read_case_state r c = (r', x) \<Longrightarrow> repo_ok sv r'"
  unfolding read_case_state_def using load_case_repo by (fastforce split: prod.splits sum.splits)

lemma read_case_state_Inr:
  assumes "read_case_state r c = (r', Inr s)"
  shows "r' = r \<and> (map_of (rp_live r) c = Some s \<or>
    map_of (rp_live r) c = None \<and> (map_of (db_completed r) c = Some (Some s) \<or>
      map_of (db_completed r) c = None \<and> s = rp_base r))"
  using assms unfolding read_case_state_def load_case_def
  by (auto simp: Let_def split: option.splits prod.splits sum.splits)

lemma read_case_state_file:
  assumes "repo_ok sv r" "read_case_state r c = (r', Inr s)"
  shows "base_file sv s \<or> case_file sv c s"
  using read_case_state_Inr [OF assms(2)] assms(1)
  by (auto simp: repo_ok_def list_all_iff dest!: map_of_SomeD)

text \<open>A mutation of a case never touches another one.\<close>

lemma apply_mutation_file:
  assumes "base_file sv s \<or> case_file sv c s"
    and step: "apply_mutation sv now s rv m = Inr (s', i)" and "map_of (sf_cases s') c \<noteq> None"
    and named: "mn_upsert_case m = None \<or> map_option cs_case_id (mn_upsert_case m) = Some c"
  shows "case_file sv c s'"
proof -
  have keys: "dict_keys (sf_cases s) = [] \<or> dict_keys (sf_cases s) = [c]" and dicts: "state_dicts s"
    using assms(1) by (auto simp: base_file_def case_file_def)
  have up: "dict_keys (upsert_case (mn_upsert_case m) (sf_cases s)) \<in> {[], [c]}"
    using keys named
    by (auto simp: upsert_case_def map_eq_Cons_conv split: option.splits if_splits)
  obtain epochs recovery cases idem where
    cases: "apply_to_cases m (upsert_case (mn_upsert_case m) (sf_cases s)) = Inr cases"
    and s': "sf_cases s' = cases"
    by (rule apply_mutation_parts [OF step]) auto
  have "dict_keys cases = dict_keys (upsert_case (mn_upsert_case m) (sf_cases s))"
    using apply_to_cases_step [OF cases] by (simp add: step_ok_def cases_steady_def)
  then have "dict_keys (sf_cases s') = [c]" using up s' assms(3) by auto
  then show ?thesis
    using apply_mutation_valid(1) [OF step] apply_mutation_dicts [OF step dicts] by (simp add: case_file_def)
qed

lemma apply_mutation_base:
  assumes "base_file sv s" and step: "apply_mutation sv now s rv m = Inr (s', i)" and "mn_upsert_case m = None"
  shows "base_file sv s'"
proof -
  obtain epochs recovery cases idem where
    cases: "apply_to_cases m (upsert_case (mn_upsert_case m) (sf_cases s)) = Inr cases" and s': "sf_cases s' = cases"
    by (rule apply_mutation_parts [OF step]) auto
  have "dict_keys cases = []"
    using apply_to_cases_step [OF cases] assms(1,3)
    by (simp add: step_ok_def cases_steady_def upsert_case_def base_file_def)
  then show ?thesis using s' apply_mutation_valid(1) [OF step] apply_mutation_dicts [OF step] assms(1)
    by (simp add: base_file_def)
qed

section \<open>Every commit keeps the repository valid\<close>

lemma mutation_case_id_None: "mutation_case_id r m = None \<Longrightarrow> mn_upsert_case m = None"
  by (cases "mn_upsert_case m") (auto simp: mutation_case_id_def)

lemma mutation_case_id_Some:
  "mutation_case_id r m = Some c \<Longrightarrow> mn_upsert_case m = None \<or> map_option cs_case_id (mn_upsert_case m) = Some c"
  by (cases "mn_upsert_case m") (auto simp: mutation_case_id_def)

lemma reserve_keeps:
  assumes "reserve_requests c recs r = Some r'" "repo_ok sv r"
  shows "repo_ok sv r'"
  using assms by (auto simp: reserve_requests_def Let_def repo_ok_def split: if_splits)

lemma persist_keeps:
  assumes "persist fails c s r = Persisted r' s'" "repo_ok sv r" "case_file sv c s"
  shows "repo_ok sv r' \<and> case_file sv c s'"
proof -
  obtain ag where ag: "sf_cases s = [(c, ag)]" using case_file_single [OF assms(3)] by blast
  obtain payload where p: "archive_payload_of ag = Inr payload"
    using assms(1) ag by (cases "archive_payload_of ag") (auto simp: persist_def)
  define t where "t = (if payload \<noteq> None \<and> cs_archive_status (ag_case ag) = ''NOT_REQUIRED''
    then with_archive_status ''PENDING'' c s else s)"
  have tfile: "case_file sv c t" using archive_keeps_file [OF assms(3), of "''PENDING''"] assms(3) by (simp add: t_def)
  then obtain ag' where "sf_cases t = [(c, ag')]" using case_file_single by blast
  then have "persist fails c s r = (if fails then Database_Error else Persisted (write_rows c t ag' payload r) t)"
    using ag p unfolding persist_def Let_def t_def by simp
  then have s': "s' = t" and r': "r' = write_rows c t ag' payload r" using assms(1) by (simp_all split: if_splits)
  then have cfile: "case_file sv c s'" using tfile by simp
  then have "repo_ok sv r'"
    using r' s' assms(2) list_all_update [of "db_completed r" "\<lambda>c s. pred_option (case_file sv c) s" c "Some s'"]
    by (auto simp: write_rows_def repo_ok_def)
  with cfile show ?thesis by blast
qed

lemma install_keeps:
  assumes "repo_ok sv r" "case_file sv c s"
  shows "repo_ok sv (install fin c s ag r)"
  using assms list_all_drop list_all_update [of "rp_live r" "case_file sv" c s]
  by (auto simp: install_def repo_ok_def)

lemma release_keeps [simp]: "repo_ok sv (release_requests keys r) = repo_ok sv r"
  by (simp add: release_requests_def repo_ok_def)

lemma commit_error_keeps: "repo_ok sv r \<Longrightarrow> repo_ok sv (fst (commit_error e keys r))"
  by (cases e) (simp_all add: commit_error_def write_failed_def Let_def)

lemma announce_keeps: "repo_ok sv r \<Longrightarrow> repo_ok sv (fst (announce io fin keys receipt r))"
  by (auto simp: announce_def intro: commit_error_keeps split: option.split)

lemma publish_keeps:
  assumes "repo_ok sv r" "case_file sv c s"
  shows "repo_ok sv (fst (publish io keys c s ag r))"
  using assms persist_keeps [of "ci_database_fails io" c s r _ _ sv] install_keeps
  by (auto simp: publish_def Let_def intro!: commit_error_keeps announce_keeps
      split: persist_result.splits option.splits)

lemma commit_keeps_repo:
  assumes ok: "repo_ok sv r"
  shows "repo_ok sv (fst (commit sv io r g rv m))"
proof (cases "rp_failure r")
  case None
  show ?thesis
  proof (cases "mutation_case_id r m")
    case none: None
    have "apply_mutation sv (ci_now io) (rp_base r) None m = Inr (s, i) \<Longrightarrow> base_file sv s" for s i
      using apply_mutation_base [OF _ _ mutation_case_id_None [OF none], of sv "rp_base r" "ci_now io" None s i] ok
      by (simp add: repo_ok_def)
    then show ?thesis using None none ok
      by (auto simp: commit_def repo_ok_def split: sum.splits)
  next
    case (Some c)
    obtain r' x where read: "read_case_state r c = (r', x)" by fastforce
    have ok': "repo_ok sv r'" using read_case_state_repo [OF ok read] .
    show ?thesis
    proof (cases x)
      case (Inr s)
      have cfile: "base_file sv s \<or> case_file sv c s" using read_case_state_file [OF ok] read Inr by blast
      have "repo_ok sv (fst (publish io keys c s' ag reserved))"
        if "apply_mutation sv (ci_now io) s rv m = Inr (s', i)" "map_of (sf_cases s') c = Some ag"
          "reserve_requests c (mn_idempotency m) r' = Some reserved" for s' i ag reserved keys
        using that apply_mutation_file [OF cfile that(1) _ mutation_case_id_Some [OF Some]] ok'
        by (intro publish_keeps) (auto intro: reserve_keeps)
      then show ?thesis using None Some read Inr ok'
        by (auto simp: commit_def split: sum.splits option.splits store_error.splits exn.splits)
    qed (use None Some read ok' in \<open>simp add: commit_def\<close>)
  qed
qed (use ok in \<open>simp add: commit_def\<close>)

section \<open>What a commit does to the stored cases\<close>

text \<open>The state of a case as a read finds it: the live one, or the row of a finished case.\<close>

definition stored :: "repository \<Rightarrow> opaque_id \<Rightarrow> state_file option" where
  "stored r c =
     (case map_of (rp_live r) c of
        Some s \<Rightarrow> Some s
      | None \<Rightarrow> (case map_of (db_completed r) c of Some (Some s) \<Rightarrow> Some s | _ \<Rightarrow> None))"

lemma read_stored: "stored r c = Some s \<Longrightarrow> read_case_state r c = (r, Inr s)"
  by (auto simp: stored_def read_case_state_def load_case_def split: option.splits)

lemma stored_file: "repo_ok sv r \<Longrightarrow> stored r c = Some s \<Longrightarrow> case_file sv c s"
  by (auto simp: stored_def repo_ok_def list_all_iff split: option.splits dest!: map_of_SomeD)

lemma map_of_index_all: "map_of (index_all ks c d) k = (if k \<in> set ks then Some c else map_of d k)"
  unfolding index_all_def by (induction ks arbitrary: d) auto

lemma map_of_drop_keys: "map_of (drop_keys ks d) k = (if k \<in> set ks then None else map_of d k)"
  by (induction d) (auto simp: drop_keys_def)

lemma with_archive_get:
  assumes "map_of (sf_cases s) c = Some ag"
  shows "map_of (sf_cases (with_archive_status x c s)) c = Some (ag\<lparr>ag_case := (ag_case ag)\<lparr>cs_archive_status := x\<rparr>\<rparr>)"
    "sf_generation (with_archive_status x c s) = sf_generation s"
    "sf_idempotency (with_archive_status x c s) = sf_idempotency s"
  using assms by (simp_all add: with_archive_status_def)

text \<open>A persisted state is the committed one, except that the case may now wait for its archive.\<close>

lemma persist_Persisted:
  assumes "persist fails c s r = Persisted r' s'" "map_of (sf_cases s) c = Some ag"
  shows "s' = s \<or> s' = with_archive_status ''PENDING'' c s"
    and "\<exists>ag' payload. r' = write_rows c s' ag' payload r \<and> object_keys ag' = object_keys ag"
    and "archive_payload_of ag = Inr None \<Longrightarrow> s' = s"
  using assms
  by (auto simp: persist_def Let_def object_keys_def with_archive_get split: sum.splits if_splits option.splits)

definition moved :: "repository \<Rightarrow> repository \<Rightarrow> opaque_id \<Rightarrow> case_aggregate \<Rightarrow> state_file \<Rightarrow> bool" where
  "moved r r' c ag s \<longleftrightarrow>
     (stored r' c = Some s \<or> stored r' c = Some (with_archive_status ''PENDING'' c s)) \<and>
     (archive_payload_of ag = Inr None \<or> \<not> terminal_status (cs_status (ag_case ag)) \<longrightarrow> stored r' c = Some s) \<and>
     rp_failure r' = None \<and> rp_base r' = rp_base r \<and> (\<forall>d. d \<noteq> c \<longrightarrow> stored r' d = stored r d) \<and>
     (\<forall>k. locate_object r' k = (if k \<in> set (object_keys ag) then Some c else locate_object r k))"

lemma install_live:
  assumes "rp_failure r = None" "\<not> terminal_status (cs_status (ag_case ag))"
  shows "moved r (install False c s ag (r\<lparr>rp_requests := q\<rparr>)) c ag s"
  using assms
  by (simp add: moved_def install_def stored_def locate_object_def map_of_index_all cong: option.case_cong)

lemma install_finished:
  assumes "rp_failure r = None" "persist fails c s (r\<lparr>rp_requests := q\<rparr>) = Persisted r1 s1"
    and ag: "map_of (sf_cases s) c = Some ag"
    and "terminal_status (cs_status (ag_case ag))"
  shows "moved r (install True c s1 ag r1) c ag s"
proof -
  obtain ag' payload where r1: "r1 = write_rows c s1 ag' payload (r\<lparr>rp_requests := q\<rparr>)" and keys: "object_keys ag' = object_keys ag"
    using persist_Persisted(2) [OF assms(2) ag] by blast
  have s1: "s1 = s \<or> s1 = with_archive_status ''PENDING'' c s" "archive_payload_of ag = Inr None \<Longrightarrow> s1 = s"
    using persist_Persisted(1,3) [OF assms(2) ag] by blast+
  let ?r = "install True c s1 ag r1"
  have st: "stored ?r d = (if d = c then Some s1 else stored r d)" for d
    by (simp add: install_def r1 write_rows_def stored_def map_of_drop_keys cong: option.case_cong)
  have loc: "locate_object ?r k = (if k \<in> set (object_keys ag) then Some c else locate_object r k)" for k
    by (simp add: install_def r1 write_rows_def locate_object_def map_of_drop_keys map_of_index_all keys
        cong: option.case_cong)
  have "rp_failure ?r = None" "rp_base ?r = rp_base r" using assms(1) by (simp_all add: install_def r1 write_rows_def)
  then show ?thesis using s1 st loc assms(4) by (auto simp: moved_def)
qed

lemma reserve_shape:
  "reserve_requests c recs r = Some r' \<Longrightarrow> \<exists>q. r' = r\<lparr>rp_requests := q\<rparr>"
  by (auto simp: reserve_requests_def Let_def split: if_splits)

text \<open>Giving reserved keys back undoes the reservation.\<close>

lemma drop_update: "k \<in> set ks \<Longrightarrow> drop_keys ks (AList.update k v d) = drop_keys ks d"
  by (induction d) (auto simp: drop_keys_def)

lemma drop_index_all: "set ks \<subseteq> set ls \<Longrightarrow> drop_keys ls (index_all ks c d) = drop_keys ls d"
  unfolding index_all_def by (induction ks arbitrary: d) (simp_all add: drop_update)

lemma drop_absent: "\<forall>k \<in> set ks. map_of d k = None \<Longrightarrow> drop_keys ks d = d"
  unfolding drop_keys_def by (rule filter_True) (force simp: map_of_eq_None_iff)

lemma reserve_released:
  assumes "reserve_requests c recs r = Some r1"
  shows "release_requests (map idempotency_key_of recs) r1 = r"
proof -
  let ?ks = "map idempotency_key_of recs"
  have "\<forall>k \<in> set ?ks. map_of (rp_requests r) k = None"
    and r1: "r1 = r\<lparr>rp_requests := index_all ?ks c (rp_requests r)\<rparr>"
    using assms by (auto simp: reserve_requests_def Let_def locate_request_def list_all_iff split: if_splits option.splits)
  then show ?thesis by (simp add: release_requests_def drop_index_all drop_absent)
qed

text \<open>A publication either fails before the case is replaced, and then only the failure flag can differ, or it
  replaces the case and ends with the callbacks.\<close>

abbreviation receipt_for :: "state_file \<Rightarrow> case_aggregate \<Rightarrow> commit_receipt" where
  "receipt_for s ag \<equiv> \<lparr>ct_generation = sf_generation s, ct_case_revision = Some (cs_case_revision (ag_case ag))\<rparr>"

lemma publish_outcome:
  assumes "reserve_requests c recs r = Some r1" "rp_failure r = None" "map_of (sf_cases s) c = Some ag"
    and keys: "keys = map idempotency_key_of recs"
  shows "(\<exists>e. publish io keys c s ag r1 = commit_error e keys r1) \<or>
    (\<exists>r2. moved r r2 c ag s \<and>
       publish io keys c s ag r1 = announce io (terminal_status (cs_status (ag_case ag))) keys (receipt_for s ag) r2)"
proof -
  obtain q where r1: "r1 = r\<lparr>rp_requests := q\<rparr>" using reserve_shape [OF assms(1)] by blast
  show ?thesis
  proof (cases "terminal_status (cs_status (ag_case ag))")
    case True
    show ?thesis
    proof (cases "persist (ci_database_fails io) c s r1")
      case (Persisted r2 s2)
      then have "moved r (install True c s2 ag r2) c ag s"
        using install_finished [OF assms(2) _ assms(3) True] r1 by blast
      then show ?thesis using True Persisted by (cases "projection_error io") (auto simp: publish_def)
    qed (use True in \<open>auto simp: publish_def\<close>)
  next
    case False
    then show ?thesis using install_live [OF assms(2) False, of c s q] r1
      by (cases "projection_error io") (auto simp: publish_def)
  qed
qed

text \<open>What the caller gets.\<close>

definition raised_error :: "callback_error \<Rightarrow> store_error" where
  "raised_error e =
     (case e of Database_Raises \<Rightarrow> PortError (port_error EC_STATE_WRITE_FAILED msg_persist_failed) | Other_Raises x \<Rightarrow> x)"

lemma commit_error_snd: "snd (commit_error e keys r) = Inl (raised_error e)"
  by (cases e) (simp_all add: commit_error_def write_failed_def Let_def raised_error_def)

lemma announce_snd:
  "snd (announce io fin keys receipt r) =
     (case callback_error_of io fin of None \<Rightarrow> Inr receipt | Some e \<Rightarrow> Inl (raised_error e))"
  by (simp add: announce_def commit_error_snd split: option.split)

lemma publish_moves:
  assumes pub: "publish io (map idempotency_key_of recs) c s ag r1 = (r', Inr rc)" and "reserve_requests c recs r = Some r1"
    "rp_failure r = None" "map_of (sf_cases s) c = Some ag"
  shows "moved r r' c ag s \<and> rc = receipt_for s ag"
  using publish_outcome [OF assms(2-4) refl, of io]
proof (elim disjE exE conjE)
  fix e assume "publish io (map idempotency_key_of recs) c s ag r1 = commit_error e (map idempotency_key_of recs) r1"
  then have "(r', Inr rc) = commit_error e (map idempotency_key_of recs) r1" using pub by simp
  then have "Inr rc = (Inl (raised_error e) :: store_error + commit_receipt)" using commit_error_snd by (metis snd_conv)
  then show ?thesis by simp
next
  fix r2
  assume "moved r r2 c ag s" and eq: "publish io (map idempotency_key_of recs) c s ag r1 =
    announce io (terminal_status (cs_status (ag_case ag))) (map idempotency_key_of recs) (receipt_for s ag) r2"
  moreover have "callback_error_of io (terminal_status (cs_status (ag_case ag))) = None"
  proof (rule ccontr)
    assume "callback_error_of io (terminal_status (cs_status (ag_case ag))) \<noteq> None"
    then obtain h where "snd (publish io (map idempotency_key_of recs) c s ag r1) = Inl (raised_error h)"
      unfolding eq announce_snd by auto
    then show False using pub by simp
  qed
  ultimately show ?thesis using pub by (simp add: announce_def)
qed

lemma commit_success:
  assumes "commit sv io r g rv m = (r', Inr rc)" "mutation_case_id r m = Some c" "stored r c = Some s"
  obtains s' i ag where "sf_generation s = g" "apply_mutation sv (ci_now io) s rv m = Inr (s', i)"
    "map_of (sf_cases s') c = Some ag" "moved r r' c ag s'"
    "rc = \<lparr>ct_generation = g + 1, ct_case_revision = Some (cs_case_revision (ag_case ag))\<rparr>"
proof -
  have ok: "rp_failure r = None" using assms(1) by (auto simp: commit_def split: option.splits)
  obtain s' i ag r1 where g: "sf_generation s = g" and am: "apply_mutation sv (ci_now io) s rv m = Inr (s', i)"
    and ag: "map_of (sf_cases s') c = Some ag" and res: "reserve_requests c (mn_idempotency m) r = Some r1"
    and pub: "publish io (map idempotency_key_of (mn_idempotency m)) c s' ag r1 = (r', Inr rc)"
    using assms(1) ok assms(2) read_stored [OF assms(3)]
    by (auto simp: commit_def conflict_def split: if_split_asm sum.split_asm store_error.split_asm exn.split_asm
        option.split_asm prod.split_asm)
  have "moved r r' c ag s' \<and> rc = \<lparr>ct_generation = g + 1, ct_case_revision = Some (cs_case_revision (ag_case ag))\<rparr>"
    using publish_moves [OF pub res ok ag] apply_mutation_valid(2) [OF am] g by simp
  then show thesis using that g am ag by blast
qed

text \<open>A writer that read an older generation changes nothing.\<close>

lemma commit_stale:
  assumes "rp_failure r = None" "mutation_case_id r m = Some c" "stored r c = Some s" "sf_generation s \<noteq> g"
  shows "commit sv io r g rv m = (r, conflict msg_current_case_changed)"
  using assms read_stored [OF assms(3)] by (simp add: commit_def)

text \<open>A current writer with an applicable mutation replaces the case while the database accepts writes and the
  projection returns; the commit then ends with the callbacks.\<close>

definition callbacks_return :: "commit_io \<Rightarrow> bool" where
  "callbacks_return io \<longleftrightarrow> projection_error io = None \<and> ci_terminal io = None \<and> ci_case_committed io = None"

lemma announce_returns: "callbacks_return io \<Longrightarrow> announce io fin keys receipt r = (r, Inr receipt)"
  by (simp add: callbacks_return_def announce_def callback_error_of_def)

lemma commit_replaces:
  assumes "rp_failure r = None" "mutation_case_id r m = Some c" "stored r c = Some s"
    and am: "apply_mutation sv (ci_now io) s rv m = Inr (s', i)" and ag: "map_of (sf_cases s') c = Some ag"
    and res: "reserve_requests c (mn_idempotency m) r = Some r1" and "\<not> ci_database_fails io" "projection_error io = None"
    and payload: "terminal_status (cs_status (ag_case ag)) \<Longrightarrow> archive_payload_of ag = Inr None"
  shows "\<exists>r2. moved r r2 c ag s' \<and> stored r2 c = Some s' \<and>
    commit sv io r (sf_generation s) rv m =
      announce io (terminal_status (cs_status (ag_case ag))) (map idempotency_key_of (mn_idempotency m)) (receipt_for s' ag) r2"
proof -
  let ?ks = "map idempotency_key_of (mn_idempotency m)"
  obtain q where r1: "r1 = r\<lparr>rp_requests := q\<rparr>" using reserve_shape [OF res] by blast
  have commit: "commit sv io r (sf_generation s) rv m = publish io ?ks c s' ag r1"
    using assms(1,2) read_stored [OF assms(3)] am ag res by (simp add: commit_def)
  obtain r2 where "moved r r2 c ag s'"
    "publish io ?ks c s' ag r1 = announce io (terminal_status (cs_status (ag_case ag))) ?ks (receipt_for s' ag) r2"
  proof (cases "terminal_status (cs_status (ag_case ag))")
    case True
    have p: "persist (ci_database_fails io) c s' r1 = Persisted (write_rows c s' ag None r1) s'"
      using True payload assms(7) ag by (simp add: persist_def)
    show thesis
      using that install_finished [of r "ci_database_fails io" c s' q _ _ ag, folded r1, OF assms(1) p ag True] True p assms(8)
      by (simp add: publish_def)
  next
    case False
    then show thesis
      using that install_live [of r ag c s' q] assms(1,7,8) r1 by (simp add: publish_def)
  qed
  then show ?thesis using commit payload by (auto simp: moved_def)
qed

lemma commit_applies:
  assumes "rp_failure r = None" "mutation_case_id r m = Some c" "stored r c = Some s"
    and am: "apply_mutation sv (ci_now io) s rv m = Inr (s', i)" and ag: "map_of (sf_cases s') c = Some ag"
    and "mn_idempotency m = []" "\<not> ci_database_fails io" "callbacks_return io"
    and payload: "terminal_status (cs_status (ag_case ag)) \<Longrightarrow> archive_payload_of ag = Inr None"
  shows "\<exists>r'. commit sv io r (sf_generation s) rv m =
      (r', Inr \<lparr>ct_generation = sf_generation s + 1, ct_case_revision = Some (cs_case_revision (ag_case ag))\<rparr>) \<and>
    moved r r' c ag s' \<and> stored r' c = Some s'"
proof -
  have res: "reserve_requests c (mn_idempotency m) r = Some (r\<lparr>rp_requests := rp_requests r\<rparr>)"
    using assms(6) by (simp add: reserve_requests_def index_all_def)
  show ?thesis
    using commit_replaces [OF assms(1-5) res assms(7) _ payload] assms(8) announce_returns [OF assms(8)]
      apply_mutation_valid(2) [OF am]
    by (auto simp: callbacks_return_def)
qed

text \<open>A commit either leaves every stored case and the base as they were, or installs the whole mutation. It can
  fail after the installation only because a callback raised.\<close>

lemma stored_failure [simp]: "stored (r\<lparr>rp_failure := e\<rparr>) d = stored r d"
  by (simp add: stored_def cong: option.case_cong)

lemma stored_release [simp]: "stored (release_requests keys r) d = stored r d"
  by (simp add: stored_def release_requests_def cong: option.case_cong)

lemma read_case_state_stored:
  "read_case_state r c = (r', x) \<Longrightarrow> (\<forall>d. stored r' d = stored r d) \<and> rp_base r' = rp_base r"
  by (auto simp: read_case_state_def load_case_def Let_def split: option.splits)

definition same_cases :: "repository \<Rightarrow> repository \<Rightarrow> bool" where
  "same_cases r r' \<longleftrightarrow> (\<forall>d. stored r' d = stored r d) \<and> rp_base r' = rp_base r"

lemma same_cases_refl [simp]: "same_cases r r" by (simp add: same_cases_def)

lemma commit_error_same: "same_cases r (fst (commit_error e keys r))"
  by (cases e) (simp_all add: commit_error_def write_failed_def Let_def same_cases_def release_requests_def stored_def
      cong: option.case_cong)

lemma announce_same: "same_cases r (fst (announce io fin keys receipt r))"
  by (auto simp: announce_def intro: commit_error_same split: option.split)

lemma reserve_same: "reserve_requests c recs r = Some r1 \<Longrightarrow> same_cases r r1"
  using reserve_shape [of c recs r r1] by (auto simp: same_cases_def stored_def cong: option.case_cong)

text \<open>The whole mutation of a commit to the case \<open>c\<close> is in the repository.\<close>

definition case_installed ::
  "store_env \<Rightarrow> commit_io \<Rightarrow> repository \<Rightarrow> int \<Rightarrow> int option \<Rightarrow> state_mutation \<Rightarrow> repository \<Rightarrow> opaque_id \<Rightarrow>
   state_file \<Rightarrow> state_file \<Rightarrow> case_aggregate \<Rightarrow> bool" where
  "case_installed sv io r g rv m r' c s s' ag \<longleftrightarrow>
     read_case_state r c = (r, Inr s) \<and> sf_generation s = g \<and>
     (\<exists>k. apply_mutation sv (ci_now io) s rv m = Inr (s', k)) \<and> map_of (sf_cases s') c = Some ag \<and>
     stored r' c \<in> {Some s', Some (with_archive_status ''PENDING'' c s')} \<and>
     rp_base r' = rp_base r \<and> (\<forall>d. d = c \<or> stored r' d = stored r d)"

lemma commit_case_outcome:
  assumes commit: "commit sv io r g rv m = (r', x)" and c: "mutation_case_id r m = Some c"
  shows "(\<exists>e. x = Inl e) \<and> same_cases r r' \<or>
    (\<exists>s s' ag. case_installed sv io r g rv m r' c s s' ag \<and>
       x = (case callback_error_of io (terminal_status (cs_status (ag_case ag))) of
              None \<Rightarrow> Inr \<lparr>ct_generation = g + 1, ct_case_revision = Some (cs_case_revision (ag_case ag))\<rparr>
            | Some h \<Rightarrow> Inl (raised_error h)))"
proof (cases "rp_failure r")
  case (Some e)
  then show ?thesis using commit by (auto simp: commit_def)
next
  case ok: None
  let ?ks = "map idempotency_key_of (mn_idempotency m)"
  obtain r1 y where read: "read_case_state r c = (r1, y)" by fastforce
  have same: "same_cases r r1" using read_case_state_stored [OF read] by (simp add: same_cases_def)
  show ?thesis
  proof (cases "(\<exists>e. x = Inl e) \<and> r' = r1")
    case True
    then show ?thesis using same by blast
  next
    case False
    obtain s s' k ag res where s: "y = Inr s" "sf_generation s = g" and am: "apply_mutation sv (ci_now io) s rv m = Inr (s', k)"
      and ag: "map_of (sf_cases s') c = Some ag" and res: "reserve_requests c (mn_idempotency m) r1 = Some res"
      and pub: "publish io ?ks c s' ag res = (r', x)"
      using commit c ok read False
      by (auto simp: commit_def conflict_def split: if_split_asm sum.split_asm store_error.split_asm exn.split_asm
          option.split_asm)
    have r1: "r1 = r" using read_case_state_Inr [of r c r1 s] read s by blast
    from publish_outcome [OF res [unfolded r1] ok ag refl, of io] show ?thesis
    proof (elim disjE exE conjE)
      fix e assume "publish io ?ks c s' ag res = commit_error e ?ks res"
      then have "(r', x) = commit_error e ?ks res" using pub by simp
      then have "x = Inl (raised_error e)" "same_cases res r'"
        using commit_error_snd [of e ?ks res] commit_error_same [of res e ?ks] by (metis fst_conv snd_conv)+
      then show ?thesis using reserve_same [OF res] r1 by (simp add: same_cases_def)
    next
      fix r2
      assume moved: "moved r r2 c ag s'" and "publish io ?ks c s' ag res =
        announce io (terminal_status (cs_status (ag_case ag))) ?ks (receipt_for s' ag) r2"
      then have eq: "(r', x) = announce io (terminal_status (cs_status (ag_case ag))) ?ks (receipt_for s' ag) r2"
        using pub by simp
      then have after: "same_cases r2 r'" and x: "x = (case callback_error_of io (terminal_status (cs_status (ag_case ag))) of
          None \<Rightarrow> Inr (receipt_for s' ag) | Some h \<Rightarrow> Inl (raised_error h))"
        using announce_same announce_snd by (metis fst_conv snd_conv)+
      have "receipt_for s' ag = \<lparr>ct_generation = g + 1, ct_case_revision = Some (cs_case_revision (ag_case ag))\<rparr>"
        using apply_mutation_valid(2) [OF am] s(2) by simp
      moreover have "case_installed sv io r g rv m r' c s s' ag"
        using read s am ag moved after r1 by (auto simp: case_installed_def moved_def same_cases_def)
      ultimately show ?thesis unfolding x by metis
    qed
  qed
qed

text \<open>A commit of process data.\<close>

lemma commit_base_outcome:
  assumes "commit sv io r g rv m = (r', x)" "mutation_case_id r m = None"
  shows "(\<exists>e. x = Inl e) \<and> same_cases r r' \<or>
    (\<exists>s k. sf_generation (rp_base r) = g \<and> apply_mutation sv (ci_now io) (rp_base r) None m = Inr (s, k) \<and>
       rp_base r' = s \<and> (\<forall>d. stored r' d = stored r d) \<and> x = Inr \<lparr>ct_generation = g + 1, ct_case_revision = None\<rparr>)"
  using assms apply_mutation_valid(2)
  by (auto simp: commit_def conflict_def stored_def cong: option.case_cong
      split: if_split_asm sum.split_asm option.split_asm prod.split_asm)

end
