(* ===== verification/Projection_Laws.thy ===== *)
theory Projection_Laws
  imports Continuation Aggregate_Refinement
begin

text \<open>
  Every valid aggregate has a coordinator snapshot and a public view, and the continuation of a job is closed:
  what a follow-up job inherits contains every dependency of the evidence it inherits.
\<close>

section \<open>Jobs of a valid aggregate\<close>

lemma aggregate_job:
  assumes "valid_aggregate sv ag" "map_of (ag_jobs ag) i = Some j"
  shows "jb_job_id j = i" "valid_job (sv_py sv) j" "jb_case_id j = cs_case_id (ag_case ag)" "agg_job ag j"
proof -
  have mem: "j \<in> set (dict_items (ag_jobs ag))" by (rule dict_get_item [OF assms(2)])
  show "jb_job_id j = i"
    using assms map_of_SomeD [OF assms(2)]
    by (auto simp: valid_aggregate_def validate_maps_def agg_keys_def keyed_by_def list_all_iff)
  show "valid_job (sv_py sv) j" "jb_case_id j = cs_case_id (ag_case ag)" "agg_job ag j"
    using assms(1) mem
    by (auto simp: valid_aggregate_def validate_maps_def agg_owner_def agg_jobs_ok_def list_all_iff Let_def)
qed

lemma active_job_total:
  assumes "valid_aggregate sv ag"
  shows "\<exists>a. active_job_of ag = Inr a \<and> map_option jb_job_id a = cs_active_job_id (ag_case ag) \<and>
    (\<forall>j. a = Some j \<longrightarrow> map_of (ag_jobs ag) (jb_job_id j) = Some j \<and> jb_status j \<in> {JS_PENDING, JS_RUNNING})"
proof (cases "cs_active_job_id (ag_case ag)")
  case (Some i)
  have act: "agg_active ag" using assms by (simp add: valid_aggregate_def validate_maps_def)
  then obtain j where j: "map_of (ag_jobs ag) i = Some j" and st: "jb_status j \<in> {JS_PENDING, JS_RUNNING}"
    using Some by (auto simp: agg_active_def Let_def split: option.splits)
  have eq: "active_job_of ag = Inr (Some j)"
    using Some j st aggregate_job(3) [OF assms j] by (simp add: active_job_of_def ensure_def)
  show ?thesis
    by (rule exI [of _ "Some j"]) (use eq Some j st aggregate_job(1) [OF assms j] in simp)
qed (simp add: active_job_of_def)

section \<open>The snapshot\<close>

lemma max_by_mem: "max_by key xs = Some x \<Longrightarrow> x \<in> set xs"
proof (cases xs)
  case (Cons y ys)
  have "fold (\<lambda>y best. if key best < key y then y else best) ys b \<in> insert b (set ys)" for b
    by (induction ys arbitrary: b) auto
  then show "max_by key xs = Some x \<Longrightarrow> x \<in> set xs" using Cons by force
qed simp

lemma add_replacements_total:
  assumes "list_all (\<lambda>j. pred_option (interrupted_job jobs) (jb_replacement_for_job_id j)) js"
    and "distinct (List.map_filter jb_replacement_for_job_id js)"
    and "set (dict_keys acc) \<inter> set (List.map_filter jb_replacement_for_job_id js) = {}"
  shows "\<exists>d. foldS (add_replacement jobs) js acc = Inr d \<and>
    set (dict_keys d) = set (dict_keys acc) \<union> set (List.map_filter jb_replacement_for_job_id js)"
  using assms
proof (induction js arbitrary: acc)
  case (Cons j js)
  show ?case
  proof (cases "jb_replacement_for_job_id j")
    case None
    then show ?thesis using Cons by (simp add: add_replacement_def List.map_filter_simps)
  next
    case (Some i)
    have "interrupted_job jobs i" using Cons.prems(1) Some by simp
    moreover have "map_of acc i = None"
      using Cons.prems(3) Some by (auto simp: map_of_eq_None_iff List.map_filter_simps)
    ultimately have step: "add_replacement jobs j acc = Inr (AList.update i (jb_job_id j) acc)"
      using Some by (simp add: add_replacement_def)
    have "\<exists>d. foldS (add_replacement jobs) js (AList.update i (jb_job_id j) acc) = Inr d \<and>
      set (dict_keys d) = set (dict_keys (AList.update i (jb_job_id j) acc)) \<union>
        set (List.map_filter jb_replacement_for_job_id js)"
      using Cons.prems Some
      by (intro Cons.IH) (auto simp: List.map_filter_simps set_dict_keys_update simp del: list.set_map set_map)
    then show ?thesis using step Some
      by (auto simp: List.map_filter_simps set_dict_keys_update simp del: list.set_map set_map)
  qed
qed simp

lemma waiting_source_ok:
  assumes "valid_aggregate sv ag" "waiting_source ag = Some w"
  shows "cs_status (ag_case ag) \<in> {CS_WAITING_INPUT, CS_WAITING_ATTACHMENT}" "map_of (ag_jobs ag) (jb_job_id w) = Some w"
    "rq_requested_by_job_id ` set (open_requirements (cs_diagnosis_state (ag_case ag))) = {jb_job_id w}"
proof -
  obtain i where rd: "remdups (map rq_requested_by_job_id (open_requirements (cs_diagnosis_state (ag_case ag)))) = [i]"
    and w: "map_of (ag_jobs ag) i = Some w"
    using assms(2) by (auto simp: waiting_source_def split: if_splits list.splits)
  show "cs_status (ag_case ag) \<in> {CS_WAITING_INPUT, CS_WAITING_ATTACHMENT}"
    using assms(2) by (auto simp: waiting_source_def split: if_splits)
  have i: "jb_job_id w = i" using aggregate_job(1) [OF assms(1) w] .
  then show "map_of (ag_jobs ag) (jb_job_id w) = Some w" using w by simp
  have "set (map rq_requested_by_job_id (open_requirements (cs_diagnosis_state (ag_case ag)))) = {i}"
    using rd by (metis list.set(1) list.set(2) set_remdups)
  then show "rq_requested_by_job_id ` set (open_requirements (cs_diagnosis_state (ag_case ag))) = {jb_job_id w}"
    using i by simp
qed

lemma resume_source_ok:
  assumes "valid_aggregate sv ag" "agg_dicts ag" "resume_source sv ag d = Some j"
  shows "cs_status (ag_case ag) = CS_INTERRUPTED" "map_of (ag_jobs ag) (jb_job_id j) = Some j"
    "jb_status j = JS_INTERRUPTED" "jb_job_id j \<notin> set (dict_keys d)"
proof -
  have m: "max_by (resume_key sv) (filter (\<lambda>j. jb_status j = JS_INTERRUPTED \<and> \<not> has_key d (jb_job_id j))
      (dict_items (ag_jobs ag))) = Some j"
    and st: "cs_status (ag_case ag) = CS_INTERRUPTED"
    using assms(3) by (auto simp: resume_source_def split: if_splits)
  have j: "j \<in> set (dict_items (ag_jobs ag))" "jb_status j = JS_INTERRUPTED" "\<not> has_key d (jb_job_id j)"
    using max_by_mem [OF m] by auto
  then obtain i where "(i, j) \<in> set (ag_jobs ag)" by auto
  then have "map_of (ag_jobs ag) i = Some j" using assms(2) by (simp add: dict_get_iff agg_dicts_def)
  then show "map_of (ag_jobs ag) (jb_job_id j) = Some j" using aggregate_job(1) [OF assms(1)] by simp
  show "cs_status (ag_case ag) = CS_INTERRUPTED" "jb_status j = JS_INTERRUPTED" "jb_job_id j \<notin> set (dict_keys d)"
    using st j(2,3) by (simp_all add: has_key_def)
qed

definition case_in :: "store_env \<Rightarrow> state_file \<Rightarrow> opaque_id \<Rightarrow> case_aggregate \<Rightarrow> bool" where
  "case_in sv s i ag \<longleftrightarrow> map_of (sf_cases s) i = Some ag \<and> valid_aggregate sv ag \<and> agg_dicts ag \<and>
     cs_case_id (ag_case ag) = i"

lemma case_in_aggregate: "case_in sv s i ag \<Longrightarrow> case_aggregate_of s i = Inr ag"
  by (simp add: case_in_def case_aggregate_of_def)

lemma snapshot_valid:
  assumes ag: "valid_aggregate sv ag" and dicts: "agg_dicts ag"
    and active: "active_job_of ag = Inr a" and keys: "set (dict_keys d) = set (dict_keys rs)"
  shows "valid_snapshot (sv_py sv) \<lparr>sn_case = ag_case ag, sn_active_job = a,
    sn_resume_source_job = resume_source sv ag rs, sn_waiting_source_job = waiting_source ag,
    sn_replacement_job_ids_by_source = d\<rparr>"
proof -
  have act: "map_option jb_job_id a = cs_active_job_id (ag_case ag)"
    "\<And>j. a = Some j \<Longrightarrow> map_of (ag_jobs ag) (jb_job_id j) = Some j"
    using active_job_total [OF ag] active by auto
  have case_ok: "valid_case (sv_py sv) (ag_case ag)" and agact: "agg_active ag"
    using ag by (simp_all add: valid_aggregate_def validate_maps_def)
  have review: "(case a of None \<Rightarrow> False | Some a \<Rightarrow> jb_job_type a = JT_REVIEW \<and>
      (if jb_methods_review_target a \<noteq> None
       then ds_candidate_conclusion (cs_diagnosis_state (ag_case ag)) = None \<and> jb_review_target a = None
       else (case ds_candidate_conclusion (cs_diagnosis_state (ag_case ag)) of
               None \<Rightarrow> False | Some k \<Rightarrow> cc_status k = CD_REVIEWING) \<and> jb_review_target a \<noteq> None))"
    if "cs_status (ag_case ag) = CS_REVIEWING"
    using that act agact case_ok
    by (cases a) (auto simp: agg_active_def Let_def review_activity_ok_def valid_case_def valid_case_activity_def
        split: option.splits if_splits)
  have jobs: "pred_option (valid_job (sv_py sv)) x \<and> pred_option (\<lambda>j. jb_case_id j = cs_case_id (ag_case ag)) x"
    if "\<And>j. x = Some j \<Longrightarrow> map_of (ag_jobs ag) (jb_job_id j) = Some j" for x
    using that aggregate_job(2,3) [OF ag] by (cases x) auto
  have res: "\<And>j. resume_source sv ag rs = Some j \<Longrightarrow> map_of (ag_jobs ag) (jb_job_id j) = Some j"
    using resume_source_ok(2) [OF ag dicts] .
  have wait: "\<And>j. waiting_source ag = Some j \<Longrightarrow> map_of (ag_jobs ag) (jb_job_id j) = Some j"
    using waiting_source_ok(2) [OF ag] .
  have resumed: "case resume_source sv ag rs of None \<Rightarrow> True | Some j \<Rightarrow>
      cs_status (ag_case ag) = CS_INTERRUPTED \<and> jb_case_id j = cs_case_id (ag_case ag) \<and>
      jb_status j = JS_INTERRUPTED \<and> jb_job_id j \<notin> fst ` set d"
  proof (cases "resume_source sv ag rs")
    case (Some j)
    show ?thesis using Some resume_source_ok [OF ag dicts Some] aggregate_job(3) [OF ag res [OF Some]] keys by simp
  qed simp
  have waits: "case waiting_source ag of None \<Rightarrow> True | Some w \<Rightarrow>
      cs_status (ag_case ag) \<in> {CS_WAITING_INPUT, CS_WAITING_ATTACHMENT} \<and> jb_case_id w = cs_case_id (ag_case ag) \<and>
      rq_requested_by_job_id ` set (open_requirements (cs_diagnosis_state (ag_case ag))) = {jb_job_id w}"
  proof (cases "waiting_source ag")
    case (Some w)
    show ?thesis using Some waiting_source_ok [OF ag Some] aggregate_job(3) [OF ag waiting_source_ok(2) [OF ag Some]]
      by simp
  qed simp
  note parts = jobs [OF act(2), THEN conjunct1] jobs [OF act(2), THEN conjunct2] jobs [OF res, THEN conjunct1]
    jobs [OF wait, THEN conjunct1]
  show ?thesis
    unfolding valid_snapshot_def Let_def case_snapshot.select_convs
    by (intro conjI impI case_ok act(1) parts resumed waits review) assumption+
qed

lemma build_case_snapshot_total:
  assumes "case_in sv s i ag"
  shows "\<exists>sn. build_case_snapshot sv s i = Inr sn \<and> valid_snapshot (sv_py sv) sn \<and> sn_case sn = ag_case ag \<and>
    active_job_of ag = Inr (sn_active_job sn)"
proof -
  have ag: "valid_aggregate sv ag" "agg_dicts ag" using assms by (simp_all add: case_in_def)
  then have "agg_jobs_ok ag" by (simp add: valid_aggregate_def validate_maps_def)
  then have "list_all (\<lambda>j. pred_option (interrupted_job (ag_jobs ag)) (jb_replacement_for_job_id j)) (dict_items (ag_jobs ag))"
    "distinct (List.map_filter jb_replacement_for_job_id (dict_items (ag_jobs ag)))"
    by (auto simp: agg_jobs_ok_def agg_job_def list_all_iff)
  then obtain rs where rs: "foldS (add_replacement (ag_jobs ag)) (dict_items (ag_jobs ag)) [] = Inr rs"
    using add_replacements_total [of "ag_jobs ag" "dict_items (ag_jobs ag)" "[]"] by auto
  obtain a where a: "active_job_of ag = Inr a" using active_job_total [OF ag(1)] by blast
  have v: "valid_snapshot (sv_py sv) \<lparr>sn_case = ag_case ag, sn_active_job = a,
    sn_resume_source_job = resume_source sv ag rs, sn_waiting_source_job = waiting_source ag,
    sn_replacement_job_ids_by_source = sort_key fst rs\<rparr>"
    by (rule snapshot_valid [OF ag a]) simp
  then show ?thesis
    using case_in_aggregate [OF assms] rs a by (simp add: build_case_snapshot_def Let_def)
qed

section \<open>The view\<close>

text \<open>The public artifacts of one kind, and how the view lists them.\<close>

definition public_artifacts :: "artifact_kind \<Rightarrow> case_aggregate \<Rightarrow> artifact list" where
  "public_artifacts k ag =
     filter (\<lambda>a. af_kind a = k \<and> artifact_public (ag_case ag) a) (dict_items (ag_artifacts ag))"

definition all_summaries :: "case_aggregate \<Rightarrow> artifact_summary list" where
  "all_summaries ag =
     map (\<lambda>a. artifact_summary_of a (artifact_public (ag_case ag) a)) (dict_items (ag_artifacts ag))"

definition summary_key :: "store_env \<Rightarrow> artifact_summary \<Rightarrow> int \<times> opaque_id" where
  "summary_key sv s = (sv_instant sv (su_created_at s), su_artifact_id s)"

lemma mapE_all: "(\<And>x. x \<in> set xs \<Longrightarrow> f x = Inr (g x)) \<Longrightarrow> mapE f xs = Inr (map g xs)"
  by (induction xs) auto

lemma artifact_summaries_total:
  assumes "valid_aggregate sv ag"
  shows "project_artifact_summaries sv (ag_case ag) (dict_items (ag_artifacts ag)) False =
    Inr (filter su_downloadable (sort_key (summary_key sv) (all_summaries ag)))"
proof -
  have "project_artifact_summary (ag_case ag) a = Inr (artifact_summary_of a (artifact_public (ag_case ag) a))"
    if "a \<in> set (dict_items (ag_artifacts ag))" for a
  proof -
    have "valid_artifact a" "af_case_id a = cs_case_id (ag_case ag)"
      using assms that by (auto simp: valid_aggregate_def validate_maps_def agg_owner_def list_all_iff Let_def)
    then show ?thesis
      by (auto simp: project_artifact_summary_def is_artifact_downloadable_def valid_artifact_summary_def
          valid_artifact_def artifact_summary_of_def artifact_public_def ensure_def)
  qed
  then have "mapE (project_artifact_summary (ag_case ag)) (dict_items (ag_artifacts ag)) = Inr (all_summaries ag)"
    unfolding all_summaries_def by (rule mapE_all)
  then show ?thesis by (simp add: project_artifact_summaries_def summary_key_def [abs_def])
qed

lemma view_summaries:
  assumes "cv_artifacts v = filter su_downloadable (sort_key (summary_key sv) (all_summaries ag))"
  shows "summaries_of k v = sort_key (summary_key sv) (map (\<lambda>a. artifact_summary_of a True) (public_artifacts k ag))"
proof -
  have "filter (\<lambda>a. su_downloadable a \<and> su_kind a = k) (all_summaries ag) =
    map (\<lambda>a. artifact_summary_of a True) (public_artifacts k ag)"
    by (auto simp: all_summaries_def public_artifacts_def filter_map comp_def artifact_summary_of_def conj_commute
        intro!: map_cong filter_cong)
  then show ?thesis using assms by (simp add: summaries_of_def filter_sort conj_commute)
qed

text \<open>The artifact with a given identifier is unique.\<close>

lemma artifacts_keyed: "valid_aggregate sv ag \<Longrightarrow> keyed_by af_artifact_id (ag_artifacts ag)"
  by (simp add: valid_aggregate_def validate_maps_def agg_keys_def)

lemma keyed_items: "keyed_by f d \<Longrightarrow> map f (dict_items d) = dict_keys d"
  by (induction d) (auto simp: keyed_by_def)

lemma filter_distinct_key:
  "distinct (map f xs) \<Longrightarrow> b \<in> set xs \<Longrightarrow> filter (\<lambda>a. f a = f b) xs = [b]"
proof (induction xs)
  case (Cons x xs)
  show ?case
  proof (cases "x = b")
    case True
    then have "filter (\<lambda>a. f a = f b) xs = []" using Cons.prems by (auto simp: filter_empty_conv image_iff)
    then show ?thesis using True by simp
  qed (use Cons in \<open>auto simp: image_iff\<close>)
qed simp

lemma single_artifact:
  assumes ag: "valid_aggregate sv ag" "agg_dicts ag" and "map_of (ag_artifacts ag) x = Some b" and "P b"
  shows "filter (\<lambda>a. P a \<and> af_artifact_id a = x) (dict_items (ag_artifacts ag)) = [b]"
proof -
  have x: "af_artifact_id b = x" using keyed_get [OF artifacts_keyed [OF ag(1)] assms(3)] .
  have d: "distinct (map af_artifact_id (dict_items (ag_artifacts ag)))"
    unfolding keyed_items [OF artifacts_keyed [OF ag(1)]] using ag(2) by (simp add: agg_dicts_def dict_ok_def)
  have "filter (\<lambda>a. P a \<and> af_artifact_id a = x) (dict_items (ag_artifacts ag)) =
    filter P (filter (\<lambda>a. af_artifact_id a = af_artifact_id b) (dict_items (ag_artifacts ag)))"
    using x by (simp add: conj_commute)
  also have "\<dots> = [b]" using filter_distinct_key [OF d dict_get_item [OF assms(3)]] assms(4) by simp
  finally show ?thesis .
qed

text \<open>The public artifacts of a valid aggregate, by kind.\<close>

lemma public_user_results:
  assumes ag: "valid_aggregate sv ag" "agg_dicts ag" and "case_generic (ag_case ag) = None"
  shows "cs_status (ag_case ag) \<in> {CS_RESOLVED, CS_PARTIALLY_RESOLVED} \<Longrightarrow> cs_final_result (ag_case ag) = Some f \<Longrightarrow>
      (\<exists>u. public_artifacts AK_USER_RESULT ag = [u] \<and> af_created_by_job_id u = cc_proposed_by_job_id f) \<and>
      (cs_archive_status (ag_case ag) = ''READY'' \<longrightarrow> length (public_artifacts AK_USER_RESULT_ARCHIVE ag) = 1) \<and>
      (\<forall>a \<in> set (public_artifacts AK_USER_RESULT_ARCHIVE ag). af_created_by_job_id a = cc_proposed_by_job_id f)"
    and "cs_status (ag_case ag) = CS_UNRESOLVED \<Longrightarrow> cs_unresolved_result (ag_case ag) = Some n \<Longrightarrow>
      (\<exists>u. public_artifacts AK_USER_RESULT ag = [u] \<and> af_artifact_id u = un_user_result_artifact_id n) \<and>
      (\<exists>u. public_artifacts AK_AUDIT_BUNDLE ag = [u] \<and> af_artifact_id u = un_audit_artifact_id n)"
proof -
  have legacy: "legacy_result (ag_case ag)"
    using assms(3) ag(1)
    by (auto simp: legacy_result_def case_generic_def generic_view_def valid_aggregate_def valid_case_def
        split: option.splits)
  have rs: "agg_resolved ag" "agg_unresolved ag" using ag(1) by (simp_all add: valid_aggregate_def validate_maps_def)
  show "(\<exists>u. public_artifacts AK_USER_RESULT ag = [u] \<and> af_created_by_job_id u = cc_proposed_by_job_id f) \<and>
      (cs_archive_status (ag_case ag) = ''READY'' \<longrightarrow> length (public_artifacts AK_USER_RESULT_ARCHIVE ag) = 1) \<and>
      (\<forall>a \<in> set (public_artifacts AK_USER_RESULT_ARCHIVE ag). af_created_by_job_id a = cc_proposed_by_job_id f)"
    if "cs_status (ag_case ag) \<in> {CS_RESOLVED, CS_PARTIALLY_RESOLVED}" "cs_final_result (ag_case ag) = Some f"
  proof -
    have pub: "public_artifacts k ag = filter (\<lambda>a. af_kind a = k \<and> af_created_by_job_id a = cc_proposed_by_job_id f)
        (dict_items (ag_artifacts ag))" if "k \<in> {AK_USER_RESULT, AK_USER_RESULT_ARCHIVE}" for k
      using that \<open>cs_status (ag_case ag) \<in> _\<close> \<open>cs_final_result (ag_case ag) = Some f\<close>
      by (auto simp: public_artifacts_def artifact_public_def intro!: filter_cong)
    have "length (public_artifacts AK_USER_RESULT ag) = 1"
      "cs_archive_status (ag_case ag) = ''READY'' \<longrightarrow> length (public_artifacts AK_USER_RESULT_ARCHIVE ag) = 1"
      using rs(1) that legacy
      by (auto simp: agg_resolved_def Let_def artifact_ids_of_def pub split: option.splits)
    moreover obtain u where u: "public_artifacts AK_USER_RESULT ag = [u]"
      using calculation(1) by (cases "public_artifacts AK_USER_RESULT ag") auto
    moreover have "u \<in> set (public_artifacts AK_USER_RESULT ag)" using u by simp
    then have "af_created_by_job_id u = cc_proposed_by_job_id f" by (simp add: pub)
    moreover have "\<forall>a \<in> set (public_artifacts AK_USER_RESULT_ARCHIVE ag). af_created_by_job_id a = cc_proposed_by_job_id f"
      by (simp add: pub)
    ultimately show ?thesis by blast
  qed
  show "(\<exists>u. public_artifacts AK_USER_RESULT ag = [u] \<and> af_artifact_id u = un_user_result_artifact_id n) \<and>
      (\<exists>u. public_artifacts AK_AUDIT_BUNDLE ag = [u] \<and> af_artifact_id u = un_audit_artifact_id n)"
    if un: "cs_status (ag_case ag) = CS_UNRESOLVED" "cs_unresolved_result (ag_case ag) = Some n"
  proof -
    have ok: "unresolved_result_ok ag n" using rs(2) un legacy by (simp add: agg_unresolved_def)
    then obtain a b where a: "map_of (ag_artifacts ag) (un_audit_artifact_id n) = Some a" "af_kind a = AK_AUDIT_BUNDLE"
      and b: "map_of (ag_artifacts ag) (un_user_result_artifact_id n) = Some b" "af_kind b = AK_USER_RESULT"
      by (auto simp: unresolved_result_ok_def split: option.splits)
    have "public_artifacts AK_USER_RESULT ag = filter (\<lambda>a. af_kind a = AK_USER_RESULT \<and>
        af_artifact_id a = un_user_result_artifact_id n) (dict_items (ag_artifacts ag))"
      "public_artifacts AK_AUDIT_BUNDLE ag = filter (\<lambda>a. af_kind a = AK_AUDIT_BUNDLE \<and>
        af_artifact_id a = un_audit_artifact_id n) (dict_items (ag_artifacts ag))"
      using un by (auto simp: public_artifacts_def artifact_public_def intro!: filter_cong)
    then show ?thesis
      using single_artifact [OF ag a(1), of "\<lambda>a. af_kind a = AK_AUDIT_BUNDLE"]
        single_artifact [OF ag b(1), of "\<lambda>a. af_kind a = AK_USER_RESULT"] a b
        keyed_get [OF artifacts_keyed [OF ag(1)] a(1)] keyed_get [OF artifacts_keyed [OF ag(1)] b(1)]
      by simp
  qed
qed

lemma public_none:
  "\<not> (cs_status (ag_case ag) \<in> {CS_RESOLVED, CS_PARTIALLY_RESOLVED} \<and> cs_final_result (ag_case ag) \<noteq> None) \<Longrightarrow>
     public_artifacts AK_USER_RESULT_ARCHIVE ag = []"
  "\<not> (cs_status (ag_case ag) \<in> {CS_RESOLVED, CS_PARTIALLY_RESOLVED} \<and> cs_final_result (ag_case ag) \<noteq> None) \<Longrightarrow>
     \<not> (cs_status (ag_case ag) = CS_UNRESOLVED \<and> cs_unresolved_result (ag_case ag) \<noteq> None) \<Longrightarrow>
     public_artifacts AK_USER_RESULT ag = []"
  "\<not> (cs_status (ag_case ag) = CS_UNRESOLVED \<and> cs_unresolved_result (ag_case ag) \<noteq> None) \<Longrightarrow>
     public_artifacts AK_AUDIT_BUNDLE ag = []"
  "cs_generic_result_v2 (ag_case ag) = None \<Longrightarrow> public_artifacts AK_GENERIC_REPORT ag = []"
  by (auto simp: public_artifacts_def artifact_public_def filter_empty_conv split: option.splits)

lemma public_report:
  assumes ag: "valid_aggregate sv ag" "agg_dicts ag" and g: "cs_generic_result_v2 (ag_case ag) = Some g"
  shows "\<exists>b. public_artifacts AK_GENERIC_REPORT ag = [b] \<and> af_artifact_id b = g2_report_artifact_id g \<and>
    af_size b = g2_report_utf8_size g \<and> af_sha256 b = g2_report_sha256 g \<and>
    af_created_by_job_id b = g2_source_job_id g"
proof -
  have "agg_generic_v2 ag" using ag(1) by (simp add: valid_aggregate_def validate_maps_def)
  then obtain b where b: "map_of (ag_artifacts ag) (g2_report_artifact_id g) = Some b" "report_artifact_matches g b"
    using g by (auto simp: agg_generic_v2_def split: option.splits)
  define P where "P a \<longleftrightarrow> af_kind a = AK_GENERIC_REPORT \<and> g2_source_job_id g = af_created_by_job_id a \<and>
    g2_report_utf8_size g = af_size a \<and> g2_report_sha256 g = af_sha256 a" for a :: artifact
  have "P b" using b(2) by (simp add: P_def report_artifact_matches_def)
  moreover have "public_artifacts AK_GENERIC_REPORT ag =
      filter (\<lambda>a. P a \<and> af_artifact_id a = g2_report_artifact_id g) (dict_items (ag_artifacts ag))"
    using g by (auto simp: public_artifacts_def artifact_public_def P_def intro!: filter_cong)
  ultimately show ?thesis
    using single_artifact [OF ag b(1), of P] keyed_get [OF artifacts_keyed [OF ag(1)] b(1)] by (simp add: P_def)
qed

text \<open>The parts of the view's check that read only the case.\<close>

lemma distinct_parts: "distinct (map f (a @ b @ c @ d @ e)) \<Longrightarrow> distinct (map f (a @ b @ e))"
  by auto

lemma view_of_case_parts:
  assumes "valid_case env c" and v: "v = view_of c active xs atts"
  shows "cv_methods_result v = None" "cv_status v = CS_FAILED \<longleftrightarrow> cv_failure v \<noteq> None" "valid_view_generic v"
    "valid_view_result v" "valid_view_items v" "valid_view_requirements v" "view_criteria_covered v"
proof -
  have g: "view_generic v = case_generic c" by (simp add: v view_of_def view_generic_def case_generic_def)
  have sp: "valid_diagnosis_state env (cs_diagnosis_state c)" "valid_case_markdown c" "valid_case_final c"
    "valid_case_unresolved c" "cs_methods_result c = None" "cs_status c = CS_FAILED \<longleftrightarrow> cs_failure c \<noteq> None"
    using assms(1) by (simp_all add: valid_case_def)
  show "cv_methods_result v = None" "cv_status v = CS_FAILED \<longleftrightarrow> cv_failure v \<noteq> None"
    using sp(5,6) by (simp_all add: v view_of_def)
  show "valid_view_generic v" using sp(2) unfolding valid_view_generic_def g
    by (auto simp: v view_of_def valid_case_markdown_def split: option.splits prod.splits)
  show "valid_view_result v" using sp(3,4) unfolding valid_view_result_def g
    by (auto simp: v view_of_def valid_case_final_def valid_case_unresolved_def split: option.splits if_splits)
  have items: "valid_state_items (cs_diagnosis_state c)" using sp(1) by (simp add: valid_diagnosis_state_def)
  have "distinct (map it_item_id (ds_user_facts (cs_diagnosis_state c) @ ds_confirmed_facts (cs_diagnosis_state c) @
      ds_open_questions (cs_diagnosis_state c)))"
    by (rule distinct_parts [where c = "ds_active_hypotheses (cs_diagnosis_state c)"
        and d = "ds_rejected_hypotheses (cs_diagnosis_state c)"])
      (use items in \<open>simp only: valid_state_items_def state_items_def append_assoc\<close>)
  then show "valid_view_items v" using items
    unfolding valid_view_items_def v view_of_def case_view.select_convs
    by (auto simp: valid_state_items_def agent_items_def list_all_iff simp del: map_append)
  show "valid_view_requirements v" using sp(1)
    by (simp add: v view_of_def valid_view_requirements_def valid_diagnosis_state_def valid_state_requirements_def
        open_requirements_def)
  show "view_criteria_covered v"
  proof (cases "cs_final_result c")
    case (Some f)
    then have "case_generic c = None" using sp(2) by (auto simp: valid_case_markdown_def split: option.splits)
    moreover have "cs_status c \<in> {CS_RESOLVED, CS_PARTIALLY_RESOLVED}"
      using sp(3) Some by (auto simp: valid_case_final_def split: if_splits)
    ultimately have "ds_candidate_conclusion (cs_diagnosis_state c) = Some f"
      using sp(3) Some by (simp add: valid_case_final_def)
    then show ?thesis using sp(1) Some
      by (simp add: v view_of_def view_criteria_covered_def valid_diagnosis_state_def valid_state_candidate_def)
  qed (simp add: v view_of_def view_criteria_covered_def)
qed

lemma view_artifacts_ok:
  assumes ag: "valid_aggregate sv ag" "agg_dicts ag"
    and v: "v = view_of (ag_case ag) active (filter su_downloadable (sort_key (summary_key sv) (all_summaries ag))) atts"
  shows "list_all su_downloadable (cv_artifacts v)" "distinct (map su_artifact_id (cv_artifacts v))"
    "valid_view_results v" "valid_view_reports v" "valid_view_audit v"
proof -
  let ?c = "ag_case ag"
  have ok: "valid_case (sv_py sv) ?c" using ag(1) by (simp add: valid_aggregate_def)
  have arts: "cv_artifacts v = filter su_downloadable (sort_key (summary_key sv) (all_summaries ag))"
    and proj: "cv_status v = cs_status ?c" "cv_final_result v = cs_final_result ?c"
      "cv_unresolved_result v = cs_unresolved_result ?c" "cv_generic_result_v2 v = cs_generic_result_v2 ?c"
      "cv_archive_status v = cs_archive_status ?c"
    and g: "view_generic v = case_generic ?c"
    by (simp_all add: v view_of_def view_generic_def case_generic_def)
  note S = view_summaries [OF arts]
  have fin: "case_generic ?c \<noteq> None \<Longrightarrow> cs_final_result ?c = None \<and> cs_unresolved_result ?c = None"
    "cs_status ?c \<in> {CS_RESOLVED, CS_PARTIALLY_RESOLVED} \<Longrightarrow> case_generic ?c = None \<Longrightarrow> \<exists>f. cs_final_result ?c = Some f"
    "cs_status ?c = CS_UNRESOLVED \<Longrightarrow> case_generic ?c = None \<Longrightarrow> \<exists>n. cs_unresolved_result ?c = Some n"
    using ok by (auto simp: valid_case_def valid_case_markdown_def valid_case_final_def valid_case_unresolved_def
        split: option.splits)
  show "list_all su_downloadable (cv_artifacts v)" by (simp add: arts list_all_iff)
  have ids: "map su_artifact_id (all_summaries ag) = dict_keys (ag_artifacts ag)"
    unfolding keyed_items [OF artifacts_keyed [OF ag(1)], symmetric]
    by (simp add: all_summaries_def artifact_summary_of_def)
  have "distinct (map su_artifact_id (all_summaries ag))" unfolding ids using ag(2) by (simp add: agg_dicts_def dict_ok_def)
  then have "distinct (map su_artifact_id (sort_key (summary_key sv) (all_summaries ag)))" by (simp add: distinct_map)
  then show "distinct (map su_artifact_id (cv_artifacts v))" by (simp add: arts distinct_map_filter)
  show "valid_view_reports v"
  proof (cases "cs_generic_result_v2 ?c")
    case None
    then show ?thesis using public_none(4) [of ag] by (simp add: valid_view_reports_def proj S)
  next
    case (Some g)
    then show ?thesis using public_report [OF ag Some]
      by (auto simp: valid_view_reports_def proj S artifact_summary_of_def)
  qed
  show "valid_view_audit v"
  proof (cases "cs_status ?c = CS_UNRESOLVED \<and> case_generic ?c = None")
    case True
    then obtain n where n: "cs_unresolved_result ?c = Some n" using fin(3) by blast
    then show ?thesis using True public_user_results(2) [OF ag, of n]
      by (auto simp: valid_view_audit_def proj g S artifact_summary_of_def)
  next
    case False
    then have "\<not> (cs_status ?c = CS_UNRESOLVED \<and> cs_unresolved_result ?c \<noteq> None)" using fin(1) by auto
    then show ?thesis using False public_none(3) [of ag] by (simp add: valid_view_audit_def proj g S)
  qed
  show "valid_view_results v"
  proof (cases "case_generic ?c")
    case None
    consider (r) "cs_status ?c \<in> {CS_RESOLVED, CS_PARTIALLY_RESOLVED}" | (u) "cs_status ?c = CS_UNRESOLVED"
      | (o) "cs_status ?c \<notin> {CS_RESOLVED, CS_PARTIALLY_RESOLVED, CS_UNRESOLVED}" by auto
    then show ?thesis
    proof cases
      case r
      then obtain f where f: "cs_final_result ?c = Some f" using fin(2) None by blast
      have archive: "\<forall>a \<in> set (summaries_of AK_USER_RESULT_ARCHIVE v). su_created_by_job_id a = cc_proposed_by_job_id f"
        using public_user_results(1) [OF ag None r f] by (auto simp: S artifact_summary_of_def)
      then have first: "case summaries_of AK_USER_RESULT_ARCHIVE v of [] \<Rightarrow> True
        | a # _ \<Rightarrow> su_created_by_job_id a = cc_proposed_by_job_id f"
        by (cases "summaries_of AK_USER_RESULT_ARCHIVE v") auto
      have "\<exists>u. summaries_of AK_USER_RESULT v = [u] \<and> su_created_by_job_id u = cc_proposed_by_job_id f"
        "cs_archive_status ?c = ''READY'' \<longrightarrow> length (summaries_of AK_USER_RESULT_ARCHIVE v) = 1"
        using public_user_results(1) [OF ag None r f] by (auto simp: S artifact_summary_of_def)
      then show ?thesis using r f None first by (auto simp: valid_view_results_def proj g Let_def)
    next
      case u
      then obtain n where n: "cs_unresolved_result ?c = Some n" using fin(3) None by blast
      then show ?thesis using u None public_user_results(2) [OF ag None u n] public_none(1) [of ag]
        by (auto simp: valid_view_results_def proj g S artifact_summary_of_def Let_def)
    next
      case o
      then show ?thesis using public_none(1,2) [of ag] by (simp add: valid_view_results_def proj g S Let_def)
    qed
  next
    case (Some y)
    then show ?thesis using fin(1) public_none(1,2) [of ag] by (simp add: valid_view_results_def proj g S Let_def)
  qed
qed

text \<open>Every case of a valid state has a public view. A case in status NEW has no active job yet.\<close>

lemma active_summary_total:
  assumes "valid_aggregate sv ag" "active_job_of ag = Inr a"
  shows "\<exists>x. active_summary a = Inr x \<and> map_option sj_job_id x = map_option jb_job_id a \<and>
    map_option sj_status x = map_option jb_status a \<and> map_option sj_job_type x = map_option jb_job_type a"
proof (cases a)
  case (Some j)
  have "map_of (ag_jobs ag) (jb_job_id j) = Some j"
    using active_job_total [OF assms(1)] assms(2) Some by auto
  then have "valid_job_lifecycle j" using aggregate_job(2) [OF assms(1)] by (simp add: valid_job_def)
  then show ?thesis using Some
    by (auto simp: active_summary_def job_summary_of_def valid_job_summary_def valid_job_lifecycle_def Let_def ensure_def
        split: job_status.splits)
qed (simp add: active_summary_def)

lemma view_activity_ok:
  assumes ag: "valid_aggregate sv ag" and a: "active_job_of ag = Inr a" and "active_summary a = Inr x"
    and new: "cs_status (ag_case ag) = CS_NEW \<longrightarrow> cs_active_job_id (ag_case ag) = None"
  shows "valid_view_activity (view_of (ag_case ag) x xs atts)"
proof -
  have act: "map_option jb_job_id a = cs_active_job_id (ag_case ag)"
    "\<And>j. a = Some j \<Longrightarrow> map_of (ag_jobs ag) (jb_job_id j) = Some j \<and> jb_status j \<in> {JS_PENDING, JS_RUNNING}"
    using active_job_total [OF ag] a by auto
  have x: "map_option sj_status x = map_option jb_status a" "map_option sj_job_type x = map_option jb_job_type a"
    using active_summary_total [OF ag a] assms(3) by auto
  have "valid_case_activity (ag_case ag)" "agg_active ag"
    using ag by (simp_all add: valid_aggregate_def validate_maps_def valid_case_def)
  then show ?thesis
    using act x new
    by (cases a; cases x) (auto simp: valid_view_activity_def view_of_def valid_case_activity_def agg_active_def Let_def
        split: if_splits)
qed

lemma project_components_total:
  assumes ag: "valid_aggregate sv ag" "agg_dicts ag" and a: "active_job_of ag = Inr a"
    and new: "cs_status (ag_case ag) = CS_NEW \<longrightarrow> cs_active_job_id (ag_case ag) = None"
  shows "\<exists>v. project_case_components sv (ag_case ag) a (dict_items (ag_artifacts ag)) atts = Inr v \<and> valid_case_view v \<and>
    cv_case_id v = cs_case_id (ag_case ag) \<and> cv_status v = cs_status (ag_case ag) \<and>
    map_option sj_job_id (cv_active_job v) = cs_active_job_id (ag_case ag) \<and>
    cv_attachments v = map attachment_summary_of atts"
proof -
  have act: "map_option jb_job_id a = cs_active_job_id (ag_case ag)"
    "\<And>j. a = Some j \<Longrightarrow> map_of (ag_jobs ag) (jb_job_id j) = Some j"
    using active_job_total [OF ag(1)] a by auto
  obtain x where x: "active_summary a = Inr x" "map_option sj_job_id x = map_option jb_job_id a"
    using active_summary_total [OF ag(1) a] by blast
  define v where "v = view_of (ag_case ag) x (filter su_downloadable (sort_key (summary_key sv) (all_summaries ag))) atts"
  have ok: "valid_case (sv_py sv) (ag_case ag)" using ag(1) by (simp add: valid_aggregate_def)
  have "valid_view_activity v" unfolding v_def by (rule view_activity_ok [OF ag(1) a x(1) new])
  then have valid: "valid_case_view v"
    using view_of_case_parts [OF ok v_def] view_artifacts_ok [OF ag v_def] by (simp add: valid_case_view_def)
  have match: "(a = None) = (cs_active_job_id (ag_case ag) = None) \<and>
    pred_option (\<lambda>j. jb_case_id j = cs_case_id (ag_case ag) \<and> Some (jb_job_id j) = cs_active_job_id (ag_case ag)) a"
  proof (cases a)
    case (Some j)
    show ?thesis using Some act(1) [symmetric] aggregate_job(3) [OF ag(1) act(2) [OF Some]] by simp
  qed (use act(1) [symmetric] in simp)
  have "project_case_components sv (ag_case ag) a (dict_items (ag_artifacts ag)) atts = Inr v"
    unfolding project_case_components_def
    using x(1) match valid by (simp add: artifact_summaries_total [OF ag(1)] v_def [symmetric])
  moreover have "cv_case_id v = cs_case_id (ag_case ag)" "cv_status v = cs_status (ag_case ag)" "cv_active_job v = x"
    "cv_attachments v = map attachment_summary_of atts"
    by (simp_all add: v_def view_of_def)
  ultimately show ?thesis using valid x(2) act(1) by auto
qed

lemma project_case_view_total:
  assumes "case_in sv s i ag" and "cs_status (ag_case ag) = CS_NEW \<longrightarrow> cs_active_job_id (ag_case ag) = None"
  shows "\<exists>v. project_case_view sv s i = Inr v \<and> valid_case_view v \<and> cv_case_id v = i \<and>
    cv_status v = cs_status (ag_case ag) \<and> map_option sj_job_id (cv_active_job v) = cs_active_job_id (ag_case ag)"
proof -
  have ag: "valid_aggregate sv ag" "agg_dicts ag" "cs_case_id (ag_case ag) = i" using assms(1) by (simp_all add: case_in_def)
  obtain a where a: "active_job_of ag = Inr a" using active_job_total [OF ag(1)] by blast
  show ?thesis
    using project_components_total [OF ag(1,2) a assms(2), of "dict_items (ag_attachments ag)"] a ag(3)
      case_in_aggregate [OF assms(1)] by (auto simp: project_case_view_def)
qed

end
