(* ===== verification/Control_Laws.thy ===== *)
theory Control_Laws
  imports Epoch_Recovery Repository_Laws Projection_Laws Coordinator_Errors Delta_Agreement
    State_History
begin

text \<open>
  The control commands on one case file: the mutation of a claim and of a control plan always applies, and the
  coordinator's control plans always pass the service's own check of them.
\<close>

section \<open>Control mutations apply\<close>

lemma epochs_items:
  assumes "distinct (map xe_runtime_epoch xs)"
  shows "dict_items (epochs_by_id xs) = xs"
proof -
  have "set (dict_keys d) \<inter> set (map xe_runtime_epoch xs) = {} \<Longrightarrow> distinct (map xe_runtime_epoch xs) \<Longrightarrow>
    fold (\<lambda>x d. AList.update (xe_runtime_epoch x) x d) xs d = d @ map (\<lambda>x. (xe_runtime_epoch x, x)) xs" for d
  proof (induction xs arbitrary: d)
    case (Cons x xs)
    have "AList.update (xe_runtime_epoch x) x d = d @ [(xe_runtime_epoch x, x)]"
      by (rule update_new) (use Cons.prems(1) in auto)
    then show ?case using Cons.IH [of "d @ [(xe_runtime_epoch x, x)]"] Cons.prems by auto
  qed simp
  from this [of "[]"] assms show ?thesis by (simp add: epochs_by_id_def comp_def)
qed

definition control_mutation :: "case_t \<Rightarrow> job_update \<Rightarrow> failure_record list \<Rightarrow> state_mutation" where
  "control_mutation c u fs = empty_mutation\<lparr>mn_upsert_case := Some c, mn_job_updates := [u], mn_failures := fs\<rparr>"

definition controlled :: "case_aggregate \<Rightarrow> case_t \<Rightarrow> job_update \<Rightarrow> job \<Rightarrow> failure_record list \<Rightarrow> case_aggregate" where
  "controlled ag c u j fs =
     ag\<lparr>ag_case := c, ag_jobs := AList.update (ju_job_id u) (updated_job u j) (ag_jobs ag),
        ag_failures := ag_failures ag @ map (\<lambda>f. (fr_failure_id f, f)) fs\<rparr>"

definition fresh_failures :: "case_aggregate \<Rightarrow> opaque_id \<Rightarrow> failure_record list \<Rightarrow> bool" where
  "fresh_failures ag i fs \<longleftrightarrow>
     fs = [] \<or> (\<exists>f. fs = [f] \<and> fr_job_id f = i \<and> \<not> has_key (ag_failures ag) (fr_failure_id f))"

definition moved_file :: "state_file \<Rightarrow> opaque_id \<Rightarrow> case_aggregate \<Rightarrow> timestamp \<Rightarrow> state_file" where
  "moved_file s c ag now = s\<lparr>sf_cases := [(c, ag)], sf_generation := sf_generation s + 1, sf_updated_at := now\<rparr>"

lemma control_applies:
  assumes s: "case_file sv c s" "sf_cases s = [(c, ag)]"
    and u: "map_of (ag_jobs ag) (ju_job_id u) = Some j" "jb_status j = ju_expected_status u"
    and c': "cs_case_id c' = c" and fs: "fresh_failures ag (ju_job_id u) fs"
    and ok: "valid_aggregate sv (controlled ag c' u j fs)"
  shows "apply_mutation sv now s (Some (cs_case_revision (ag_case ag))) (control_mutation c' u fs) =
    Inr (moved_file s c (controlled ag c' u j fs) now, Some c)"
proof -
  let ?ag = "controlled ag c' u j fs" and ?m = "control_mutation c' u fs"
  have frame: "state_frame s" "agg_dicts ag" using s by (simp_all add: single_case_file)
  have "agg_dicts ?ag" using frame(2) fs
    by (force simp: agg_dicts_def controlled_def fresh_failures_def dict_ok_def has_key_def distinct_update)
  moreover have "cs_case_id (ag_case ?ag) = c" using c' by (simp add: controlled_def)
  moreover have "state_frame (moved_file s c ?ag now)"
    using state_frame_move [OF frame(1), of "sf_generation s + 1"] frame(1) by (simp add: moved_file_def state_frame_def)
  ultimately have "case_file sv c (moved_file s c ?ag now)"
    using ok by (subst single_case_file [of _ c ?ag]) (simp_all add: moved_file_def)
  then have valid: "valid_state sv (moved_file s c ?ag now)" by (simp add: case_file_def)
  have key: "has_key (AList.update (ju_job_id u) x (ag_jobs ag)) (ju_job_id u)" "has_key (ag_jobs ag) (ju_job_id u)" for x
    using u(1) by (simp_all add: has_key_get)
  have upd: "foldS update_job [u] [(c, ag\<lparr>ag_case := c'\<rparr>)] =
      Inr [(c, ag\<lparr>ag_case := c', ag_jobs := AList.update (ju_job_id u) (updated_job u j) (ag_jobs ag)\<rparr>)]"
    using u key by (simp add: update_job_def find_case_id_for_job_def on_case_def)
  have ins: "foldS insert_failure fs [(c, ag\<lparr>ag_case := c', ag_jobs := AList.update (ju_job_id u) (updated_job u j) (ag_jobs ag)\<rparr>)]
      = Inr [(c, ?ag)]"
    using fs key
    by (auto simp: fresh_failures_def controlled_def insert_failure_def find_case_id_for_job_def on_case_def
        insert_unique_def has_key_def raised_def update_new)
  have cases: "apply_to_cases ?m (upsert_case (mn_upsert_case ?m) (sf_cases s)) = Inr [(c, ?ag)]"
    using upd ins s(2) c' by (simp add: apply_to_cases_def control_mutation_def empty_mutation_def upsert_case_def)
  have "check_case_revision s (Some (cs_case_revision (ag_case ag))) ?m = Inr (Some c)"
    using s(2) c' by (simp add: check_case_revision_def control_mutation_def)
  moreover have "dict_items (epochs_by_id (sf_runtime_epochs s)) = sf_runtime_epochs s"
    by (rule epochs_items) (use frame(1) in \<open>simp add: state_frame_def state_recovery_ok_def\<close>)
  ultimately show ?thesis
    using cases valid
    by (simp add: apply_mutation_def control_mutation_def empty_mutation_def moved_file_def Let_def)
qed

section \<open>The aggregate after a control mutation\<close>

lemma failure_sel:
  "ag_case (ag\<lparr>ag_failures := x\<rparr>) = ag_case ag" "ag_jobs (ag\<lparr>ag_failures := x\<rparr>) = ag_jobs ag"
  "ag_outcomes (ag\<lparr>ag_failures := x\<rparr>) = ag_outcomes ag" "ag_processing (ag\<lparr>ag_failures := x\<rparr>) = ag_processing ag"
  "ag_attachments (ag\<lparr>ag_failures := x\<rparr>) = ag_attachments ag" "ag_evidence (ag\<lparr>ag_failures := x\<rparr>) = ag_evidence ag"
  "ag_artifacts (ag\<lparr>ag_failures := x\<rparr>) = ag_artifacts ag"
  by simp_all

text \<open>Only the key check and the check of the failure records themselves read the failure records.\<close>

lemma failures_irrelevant:
  "agg_saved (ag\<lparr>ag_failures := x\<rparr>) = agg_saved ag" "agg_owner (ag\<lparr>ag_failures := x\<rparr>) = agg_owner ag"
  "agg_active (ag\<lparr>ag_failures := x\<rparr>) = agg_active ag" "agg_diagnosis env (ag\<lparr>ag_failures := x\<rparr>) = agg_diagnosis env ag"
  "agg_jobs_ok (ag\<lparr>ag_failures := x\<rparr>) = agg_jobs_ok ag"
  "agg_evidence_item (ag\<lparr>ag_failures := x\<rparr>) = agg_evidence_item ag"
  "agg_artifact (ag\<lparr>ag_failures := x\<rparr>) = agg_artifact ag"
  "agg_failure_record (ag\<lparr>ag_failures := x\<rparr>) = agg_failure_record ag"
  "agg_methods (ag\<lparr>ag_failures := x\<rparr>) = agg_methods ag" "agg_generic (ag\<lparr>ag_failures := x\<rparr>) = agg_generic ag"
  "agg_generic_v2 (ag\<lparr>ag_failures := x\<rparr>) = agg_generic_v2 ag" "agg_reports (ag\<lparr>ag_failures := x\<rparr>) = agg_reports ag"
  "agg_resolved (ag\<lparr>ag_failures := x\<rparr>) = agg_resolved ag" "agg_unresolved (ag\<lparr>ag_failures := x\<rparr>) = agg_unresolved ag"
  unfolding agg_saved_def agg_owner_def agg_active_def agg_diagnosis_def agg_jobs_ok_def agg_job_def agg_evidence_item_def
    agg_artifact_def logparse_source_matches_def agg_failure_record_def agg_methods_def methods_source_ok_def
    applied_outcome_def agg_generic_def generic_source_ok_def agg_generic_v2_def report_job_matches_def agg_reports_def
    artifact_ids_of_def agg_resolved_def agg_unresolved_def unresolved_result_ok_def failure_sel
  by (rule refl)+

lemma failures_irrelevant_outcomes:
  "agg_processing_record sv (ag\<lparr>ag_failures := x\<rparr>) = agg_processing_record sv ag"
  unfolding agg_processing_record_def agg_applied_def validate_outcome_for_job_def validate_outcome_common_def
    validate_outcome_proposals_def validate_outcome_resources_for_job_def evidence_source_resolves_def
    logparse_source_matches_def option.case failure_sel
  by (rule refl)

lemma add_failure_valid:
  assumes "valid_aggregate sv ag" "agg_failure_record ag f"
  shows "valid_aggregate sv (ag\<lparr>ag_failures := ag_failures ag @ [(fr_failure_id f, f)]\<rparr>)"
proof -
  have "agg_keys (ag\<lparr>ag_failures := ag_failures ag @ [(fr_failure_id f, f)]\<rparr>)"
    using assms(1) by (simp add: valid_aggregate_def validate_maps_def agg_keys_def keyed_by_def)
  then show ?thesis using assms
    unfolding valid_aggregate_def validate_maps_def failures_irrelevant failures_irrelevant_outcomes failure_sel by simp
qed

lemma controlled_valid:
  assumes ag: "valid_aggregate sv ag" and j: "map_of (ag_jobs ag) (ju_job_id u) = Some j"
    and c': "case_advances (ag_case ag) c'" "valid_case (sv_py sv) c'"
    and u: "job_advances j (updated_job u j)" "valid_job_lifecycle (updated_job u j)"
    and active: "agg_active (ag\<lparr>ag_case := c', ag_jobs := AList.update (ju_job_id u) (updated_job u j) (ag_jobs ag)\<rparr>)"
    and dicts: "agg_dicts ag" and fs: "fresh_failures ag (ju_job_id u) fs"
    and epoch: "\<forall>f \<in> set fs. jb_runtime_epoch (updated_job u j) = Some (fr_runtime_epoch f)"
  shows "valid_aggregate sv (controlled ag c' u j fs)"
proof -
  let ?ag = "ag\<lparr>ag_case := c', ag_jobs := AList.update (ju_job_id u) (updated_job u j) (ag_jobs ag)\<rparr>"
  have life: "updated_job u j = with_life j (jb_status (updated_job u j)) (jb_started_at (updated_job u j))
      (jb_finished_at (updated_job u j)) (jb_runtime_epoch (updated_job u j))"
    by (rule same_job_life [OF updated_job_same])
  have "valid_job (sv_py sv) (updated_job u j)"
    using valid_job_life [OF aggregate_job(2) [OF ag j]] u(2) life by metis
  then have jobs: "list_all (valid_job (sv_py sv)) (dict_items (ag_jobs ?ag))"
    using ag dicts by (auto simp: valid_aggregate_def list_all_iff agg_dicts_def set_update)
  have "aggregate_advances ag ?ag" using c'(1) jobs_advance_update [OF j u(1)] by (simp add: aggregate_advances_def)
  then have ok: "valid_aggregate sv ?ag"
    using refined_aggregate_valid [OF _ ag, of ?ag] c'(2) jobs active by simp
  show ?thesis
  proof (cases fs)
    case Nil
    then show ?thesis using ok by (simp add: controlled_def)
  next
    case (Cons f gs)
    then have f: "gs = []" "fr_job_id f = ju_job_id u" using fs by (auto simp: fresh_failures_def)
    have "agg_failure_record ?ag f" using epoch Cons f by (simp add: agg_failure_record_def)
    from add_failure_valid [OF ok this] show ?thesis using Cons f by (simp add: controlled_def)
  qed
qed

section \<open>Claims\<close>

lemma valid_case_touch:
  assumes "valid_case env c"
  shows "valid_case env (c\<lparr>cs_case_revision := cs_case_revision c + 1, cs_updated_at := t\<rparr>)"
proof -
  let ?c = "c\<lparr>cs_case_revision := cs_case_revision c + 1, cs_updated_at := t\<rparr>"
  have g: "case_generic ?c = case_generic c" by (simp add: case_generic_def)
  have "valid_case_markdown ?c = valid_case_markdown c" "valid_case_final ?c = valid_case_final c"
    "valid_case_unresolved ?c = valid_case_unresolved c" "valid_case_activity ?c = valid_case_activity c"
    by (simp_all add: valid_case_markdown_def valid_case_final_def valid_case_unresolved_def valid_case_activity_def g
        cong: option.case_cong prod.case_cong if_cong)
  then show ?thesis using assms by (simp add: valid_case_def)
qed

definition claim_update :: "job \<Rightarrow> opaque_id \<Rightarrow> timestamp \<Rightarrow> job_update" where
  "claim_update j epoch t =
     \<lparr>ju_job_id = jb_job_id j, ju_expected_status = JS_PENDING, ju_target_status = JS_RUNNING,
      ju_started_at = Some t, ju_finished_at = None, ju_runtime_epoch = Some epoch\<rparr>"

definition claimed_case :: "case_t \<Rightarrow> timestamp \<Rightarrow> case_t" where
  "claimed_case c t = c\<lparr>cs_case_revision := cs_case_revision c + 1, cs_updated_at := t\<rparr>"

definition claimed_job :: "job \<Rightarrow> opaque_id \<Rightarrow> timestamp \<Rightarrow> job" where
  "claimed_job j epoch t = with_life j JS_RUNNING (Some t) None (Some epoch)"

text \<open>A claimable job of a valid case: the update gives a valid RUNNING job, and the aggregate stays valid.\<close>

lemma claim_of_pending:
  assumes ag: "valid_aggregate sv ag" and dicts: "agg_dicts ag" and j: "map_of (ag_jobs ag) i = Some j"
    and cl: "claimable ag j"
  shows "updated_job (claim_update j e t) j = claimed_job j e t" "valid_job (sv_py sv) (claimed_job j e t)"
    "running_job (sv_py sv) j (claim_update j e t) = Inr (claimed_job j e t)"
    "valid_aggregate sv (controlled ag (claimed_case (ag_case ag) t) (claim_update j e t) j [])"
proof -
  have pend: "jb_status j = JS_PENDING" "cs_active_job_id (ag_case ag) = Some i"
    using cl aggregate_job(1) [OF ag j] by (simp_all add: claimable_def)
  have "valid_job_lifecycle j" using aggregate_job(2) [OF ag j] by (simp add: valid_job_def)
  then have idle: "jb_started_at j = None" "jb_finished_at j = None" "jb_runtime_epoch j = None"
    using pend by (simp_all add: valid_job_lifecycle_def)
  show upd: "updated_job (claim_update j e t) j = claimed_job j e t"
    by (simp add: updated_job_def claim_update_def claimed_job_def with_life_def idle)
  have life: "valid_job_lifecycle (claimed_job j e t)"
    by (simp add: claimed_job_def valid_job_lifecycle_def with_life_def)
  show job: "valid_job (sv_py sv) (claimed_job j e t)"
    unfolding claimed_job_def by (rule valid_job_life [OF aggregate_job(2) [OF ag j]]) (use life in \<open>simp add: claimed_job_def\<close>)
  have "j\<lparr>jb_status := JS_RUNNING, jb_started_at := Some t, jb_finished_at := None, jb_runtime_epoch := Some e\<rparr> = claimed_job j e t"
    by (simp add: claimed_job_def with_life_def)
  then show "running_job (sv_py sv) j (claim_update j e t) = Inr (claimed_job j e t)"
    using job by (simp add: running_job_def claim_update_def)
  have id: "ju_job_id (claim_update j e t) = i" using aggregate_job(1) [OF ag j] by (simp add: claim_update_def)
  have adv: "job_advances j (updated_job (claim_update j e t) j)"
    using idle pend updated_job_same by (simp add: job_advances_def)
  have "agg_active ag" using ag by (simp add: valid_aggregate_def validate_maps_def)
  then have act: "agg_active (ag\<lparr>ag_case := claimed_case (ag_case ag) t,
      ag_jobs := AList.update i (claimed_job j e t) (ag_jobs ag)\<rparr>)"
    using pend j by (auto simp: agg_active_def claimed_case_def claimed_job_def review_activity_ok_def Let_def with_life_def
        split: if_splits)
  have case_ok: "valid_case (sv_py sv) (claimed_case (ag_case ag) t)"
    unfolding claimed_case_def by (rule valid_case_touch) (use ag in \<open>simp add: valid_aggregate_def\<close>)
  show "valid_aggregate sv (controlled ag (claimed_case (ag_case ag) t) (claim_update j e t) j [])"
    by (rule controlled_valid [OF ag _ _ case_ok adv])
      (use j id upd life act dicts in \<open>simp_all add: claimed_case_def case_advances_def fresh_failures_def\<close>)
qed

lemma find_job_single:
  assumes "sf_cases s = [(c, ag)]" "map_of (ag_jobs ag) i = Some j"
  shows "find_job s i = Inr (Some (c, ag, j))"
  using assms by (simp add: find_job_def List.map_filter_simps)

lemma claim_decided:
  assumes s: "case_file sv c s" "sf_cases s = [(c, ag)]" and j: "map_of (ag_jobs ag) i = Some j" and cl: "claimable ag j"
    and assets: "pt_missing P n (fixed_asset_refs j) = []"
  shows "claim_decision sv P i e n s =
      Submit (Some (cs_case_revision (ag_case ag)))
        (control_mutation (claimed_case (ag_case ag) (pt_now P)) (claim_update j e (pt_now P)) [])
        (Inr (claimed (claimed_job j e (pt_now P))))"
    and "apply_mutation sv now s (Some (cs_case_revision (ag_case ag)))
        (control_mutation (claimed_case (ag_case ag) t) (claim_update j e t) []) =
      Inr (moved_file s c (controlled ag (claimed_case (ag_case ag) t) (claim_update j e t) j []) now, Some c)"
proof -
  have ag: "valid_aggregate sv ag" "agg_dicts ag" "cs_case_id (ag_case ag) = c" using s by (simp_all add: single_case_file)
  note cp = claim_of_pending [OF ag(1,2) j cl]
  have u: "claim_lifecycle_update j e t = Inr (claim_update j e t)" for t
    using cl by (simp add: claim_lifecycle_update_def claim_update_def claimable_def)
  have "valid_case (sv_py sv) (claimed_case (ag_case ag) t)" for t
    unfolding claimed_case_def by (rule valid_case_touch) (use ag(1) in \<open>simp add: valid_aggregate_def\<close>)
  then have c: "case_after_claim (sv_py sv) (ag_case ag) t = Inr (claimed_case (ag_case ag) t)" for t
    by (simp add: case_after_claim_def claimed_case_def)
  have m: "build_state_mutation (empty_mutation\<lparr>mn_upsert_case := Some x, mn_job_updates := [u]\<rparr>) =
      Inr (control_mutation x u [])" for x u
    by (simp add: build_state_mutation_def valid_mutation_def empty_mutation_def mutation_cases_def control_mutation_def)
  show "claim_decision sv P i e n s = Submit (Some (cs_case_revision (ag_case ag)))
        (control_mutation (claimed_case (ag_case ag) (pt_now P)) (claim_update j e (pt_now P)) [])
        (Inr (claimed (claimed_job j e (pt_now P))))"
    using cl assets find_job_single [OF s(2) j] u c m cp(3)
    by (simp add: claim_decision_def escaping_def submit_claim_def raised_def)
  show "apply_mutation sv now s (Some (cs_case_revision (ag_case ag)))
        (control_mutation (claimed_case (ag_case ag) t) (claim_update j e t) []) =
      Inr (moved_file s c (controlled ag (claimed_case (ag_case ag) t) (claim_update j e t) j []) now, Some c)"
    by (rule control_applies [OF s])
      (use j cl ag(3) aggregate_job(1) [OF ag(1) j] cp(4) in
        \<open>simp_all add: claim_update_def claimable_def claimed_case_def fresh_failures_def\<close>)
qed

section \<open>Control plans\<close>

lemma empty_delta_applies:
  assumes "valid_diagnosis_state env s" "supersedes_acyclic s"
  shows "apply_diagnosis_state_delta env s empty_delta ids None cands (Some (ds_revision s)) = Inr s"
proof -
  have "provisional_state env s empty_delta ids None cands =
      Inr (agent_state s empty_delta ids (ds_problem_spec s) (ds_candidate_conclusion s))"
    by (rule provisional_agent_state [OF assms(1)])
      (use assms in \<open>simp_all only: agent_state_empty, simp_all add: applicable_items_def applicable_bindings_def
        applicable_requirements_def delta_identity_ok_def delta_item_bindings_def delta_changes_def delta_drafts_def
        empty_delta_def delta_new_ids_def delta_changed_ids_def formalize_supersedes_ok_def supersedes_acyclic_def
        apply_spec_patch_opt_def apply_candidate_mutation_def valid_diagnosis_state_def valid_state_requirements_def\<close>)
  then show ?thesis using assms by (simp add: agent_state_empty apply_diagnosis_state_delta_def Let_def)
qed

text \<open>The plans of the three control triggers have one shape.\<close>

definition control_plan :: "plan \<Rightarrow> job \<Rightarrow> timestamp \<Rightarrow> job_status \<Rightarrow> bool" where
  "control_plan p j t st \<longleftrightarrow>
     (\<exists>status why failure. control_case_status st = Some status \<and>
        p = (base_plan status why)\<lparr>tp_job_updates := [job_update_to j st t], tp_case_failure_update := failure,
          tp_clear_active_job := True\<rparr>)"

definition failure_status :: "execution_failure \<Rightarrow> job_status" where
  "failure_status f = (if xf_code f \<in> set conditional_failure_codes \<and> xf_retryable f then JS_INTERRUPTED else JS_FAILED)"

lemma control_plans:
  "failure_plan env j f t i None = Ok p \<Longrightarrow> control_plan p j (tr_occurred_at t) (failure_status f)"
  "interrupt_plan env j t None why = Ok p \<Longrightarrow> control_plan p j (tr_occurred_at t) JS_INTERRUPTED"
  "control_plan ((base_plan CS_FAILED why)\<lparr>tp_job_updates := [job_update_to j JS_FAILED s],
     tp_case_failure_update := x, tp_clear_active_job := True\<rparr>) j s JS_FAILED"
  by (force simp: control_plan_def failure_plan_def interrupt_plan_def failure_status_def Let_def control_case_status_def
      base_plan_def split: if_splits)+

text \<open>The service's check accepts such a plan on a valid case, and leaves a valid, idle case.\<close>

lemma control_plan_accepted:
  assumes c: "valid_case env (ag_case ag)" "supersedes_acyclic (cs_diagnosis_state (ag_case ag))"
    "cs_status (ag_case ag) \<in> {CS_RUNNING, CS_REVIEWING}"
    and p: "control_plan p j t st" "plan_constructible env p" and st: "st \<in> set targets"
  shows "\<exists>c'. validate_control_plan env ag p j targets t = Inr c' \<and> valid_case env c' \<and>
    case_advances (ag_case ag) c' \<and> control_case_status st = Some (cs_status c') \<and>
    cs_case_revision c' = cs_case_revision (ag_case ag) + 1 \<and> cs_active_job_id c' = None \<and>
    tp_job_updates p = [job_update_to j st t]"
proof -
  let ?c = "ag_case ag" and ?s = "cs_diagnosis_state (ag_case ag)"
  obtain status why failure where status: "control_case_status st = Some status"
    and p_def: "p = (base_plan status why)\<lparr>tp_job_updates := [job_update_to j st t], tp_case_failure_update := failure,
          tp_clear_active_job := True\<rparr>"
    using p(1) by (auto simp: control_plan_def)
  have target: "status \<in> {CS_FAILED, CS_INTERRUPTED}"
    using status by (auto simp: control_case_status_def split: job_status.splits)
  have sp: "valid_diagnosis_state env ?s" "cs_generic_result ?c = None" "cs_generic_result_v2 ?c = None"
    using c(1,3)
    by (auto simp: valid_case_def valid_case_unresolved_def case_generic_def generic_view_def split: option.splits)
  have delta: "apply_diagnosis_state_delta env ?s empty_delta ids None cands (Some (ds_revision ?s)) = Inr ?s" for ids cands
    by (rule empty_delta_applies [OF sp(1) c(2)])
  have "\<exists>c'. apply_transition_plan_to_case env ?c p ?s None t None None = Inr c' \<and> valid_case env c' \<and>
      cs_status c' = tp_target_case_status p \<and> cs_case_revision c' = cs_case_revision ?c + 1 \<and>
      cs_diagnosis_state c' = ?s \<and> cs_active_job_id c' = map_option jb_job_id (None :: job option)"
    by (rule applied_case_valid [OF c(1)])
      (use p(2) target sp(1) c(3) in \<open>auto simp: p_def plan_constructible_def next_job_shape_def target_candidate_ok_def
        supplied_parts_def check_generic_v2_def plan_generic_def\<close>)
  then obtain c' where c': "apply_transition_plan_to_case env ?c p ?s None t None None = Inr c'" "valid_case env c'"
    "cs_status c' = status" "cs_case_revision c' = cs_case_revision ?c + 1" "cs_active_job_id c' = None"
    by (auto simp: p_def)
  have adv: "case_advances ?c c'"
    using c'(1) target sp(2,3)
    by (auto simp: p_def apply_transition_plan_to_case_def Let_def bindE_Inr case_advances_def check_generic_v2_def
        split: if_splits)
  have "validate_control_plan env ag p j targets t = Inr c'"
    using c'(1) status st delta by (simp add: validate_control_plan_def p_def job_update_to_def)
  then show ?thesis using c' adv status by (auto simp: p_def)
qed

section \<open>The coordinator on a control trigger\<close>

lemma case_file_in: "case_file sv c s \<Longrightarrow> sf_cases s = [(c, ag)] \<Longrightarrow> case_in sv s c ag"
  by (simp add: single_case_file case_in_def)

text \<open>Which control trigger fits a job, and how it leaves the job.\<close>

definition control_effect :: "job \<Rightarrow> trigger_payload \<Rightarrow> job_status \<Rightarrow> bool" where
  "control_effect j payload st \<longleftrightarrow>
     (case payload of
        ExecutionFailedPayload x \<Rightarrow>
          xp_source_job_id x = jb_job_id j \<and> xp_source_outcome_id x = None \<and> jb_status j = JS_RUNNING \<and>
          xf_code (xp_execution_failure x) \<in> set fatal_failure_codes \<union> set conditional_failure_codes \<and>
          st = failure_status (xp_execution_failure x)
      | AssetUnavailablePayload i missing \<Rightarrow> i = jb_job_id j \<and> jb_status j = JS_PENDING \<and> st = JS_FAILED
      | OldEpochPayload i previous current \<Rightarrow>
          i = jb_job_id j \<and> jb_status j = JS_RUNNING \<and> jb_runtime_epoch j = Some previous \<and> st = JS_INTERRUPTED
      | _ \<Rightarrow> False)"

lemma control_planned:
  assumes sn: "sn_active_job sn = Some j" "cs_status (sn_case sn) \<in> {CS_RUNNING, CS_REVIEWING}"
    and t: "tr_trigger_type t = trigger_payload_type (tr_payload t)" "tr_case_id t = cs_case_id (sn_case sn)"
      "tr_expected_case_revision t = cs_case_revision (sn_case sn)"
    and eff: "control_effect j (tr_payload t) st"
  shows "\<exists>p. plan env sn t = Ok p \<and> control_plan p j (tr_occurred_at t) st \<and> plan_constructible env p"
proof -
  have ctl: "control_trigger (trigger_payload_type (tr_payload t))"
    using eff by (cases "tr_payload t") (simp_all add: control_effect_def control_trigger_def)
  have guard: "plan_guard sn t = None"
    using t eff by (cases "tr_payload t") (simp_all add: plan_guard_def stable_target_changed_def control_effect_def)
  have pl: "plan env sn t = handler env (trigger_payload_type (tr_payload t)) sn t"
    using plan_transparent [OF t(1), of env sn] guard t(1) by simp
  have noerr: "handler env (trigger_payload_type (tr_payload t)) sn t \<noteq> AppErr e" for e
    using eff sn
    by (cases "tr_payload t")
      (auto simp: control_effect_def handler_def execution_failed_def asset_unavailable_def old_epoch_def
        failure_plan_def interrupt_plan_def Let_def)
  obtain p where p: "handler env (trigger_payload_type (tr_payload t)) sn t = Ok p"
    using control_handlers_no_Raise [OF ctl, of env sn] noerr
    by (cases "handler env (trigger_payload_type (tr_payload t)) sn t") auto
  have "control_plan p j (tr_occurred_at t) st"
    using p eff sn
    by (cases "tr_payload t")
      (auto simp: control_effect_def handler_def execution_failed_def asset_unavailable_def old_epoch_def Let_def
        intro: control_plans split: if_splits)
  moreover have "plan_constructible env p"
    using domain_coordinator.planned_constructible [of env sn t p] pl p by simp
  ultimately show ?thesis using pl p by auto
qed

lemma coordinated:
  assumes c: "case_in sv s c ag" and j: "map_of (ag_jobs ag) (jb_job_id j) = Some j"
    and act: "cs_active_job_id (ag_case ag) = Some (jb_job_id j)" "cs_status (ag_case ag) \<in> {CS_RUNNING, CS_REVIEWING}"
    and eff: "control_effect j payload st"
  shows "\<exists>p. coordinate sv s c (control_trigger_of P c ag key payload) = Ok p \<and> control_plan p j (pt_now P) st \<and>
    plan_constructible (sv_py sv) p"
proof -
  have ag: "valid_aggregate sv ag" "cs_case_id (ag_case ag) = c" using c by (simp_all add: case_in_def)
  let ?t = "control_trigger_of P c ag key payload"
  obtain sn where sn: "build_case_snapshot sv s c = Inr sn" "sn_case sn = ag_case ag" "active_job_of ag = Inr (sn_active_job sn)"
    using build_case_snapshot_total [OF c] by blast
  have "sn_active_job sn = Some j"
    using sn(3) act(1) j by (auto simp: active_job_of_def split: option.splits)
  then obtain p where p: "plan (sv_py sv) sn ?t = Ok p" "control_plan p j (pt_now P) st" "plan_constructible (sv_py sv) p"
    using control_planned [of sn j ?t st "sv_py sv"] sn(2) act(2) ag(2) eff by (auto simp: control_trigger_of_def)
  have "\<not> stable_target_changed ?t" using p(1) by (simp add: plan_def)
  then show ?thesis using sn(1) p by (simp add: coordinate_def)
qed

section \<open>A control step on a case file\<close>

lemma control_step:
  assumes s: "case_file sv c s" "sf_cases s = [(c, ag)]" and acyclic: "supersedes_acyclic (cs_diagnosis_state (ag_case ag))"
    and j: "map_of (ag_jobs ag) i = Some j"
    and act: "cs_active_job_id (ag_case ag) = Some (jb_job_id j)" "cs_status (ag_case ag) \<in> {CS_RUNNING, CS_REVIEWING}"
    and eff: "control_effect j payload st" "st \<in> set targets"
    and fs: "fresh_failures ag (jb_job_id j) fs" "\<forall>f \<in> set fs. jb_runtime_epoch j = Some (fr_runtime_epoch f)"
  obtains p c' u where "coordinate sv s c (control_trigger_of P c ag key payload) = Ok p"
    "validate_control_plan (sv_py sv) ag p j targets (pt_now P) = Inr c'" "tp_job_updates p = [u]"
    "u = job_update_to j st (pt_now P)" "valid_aggregate sv (controlled ag c' u j fs)"
    "agg_dicts (controlled ag c' u j fs)" "control_case_status st = Some (cs_status c')" "cs_active_job_id c' = None"
    "cs_case_id c' = c" "build_state_mutation (empty_mutation\<lparr>mn_upsert_case := Some c', mn_job_updates := [u], mn_failures := fs\<rparr>) =
      Inr (control_mutation c' u fs)"
    "\<And>now. apply_mutation sv now s (Some (cs_case_revision (ag_case ag))) (control_mutation c' u fs) =
       Inr (moved_file s c (controlled ag c' u j fs) now, Some c)"
proof -
  have ag: "valid_aggregate sv ag" "agg_dicts ag" "cs_case_id (ag_case ag) = c" using s by (simp_all add: single_case_file)
  have i: "jb_job_id j = i" using aggregate_job(1) [OF ag(1) j] .
  obtain p where p: "coordinate sv s c (control_trigger_of P c ag key payload) = Ok p"
    "control_plan p j (pt_now P) st" "plan_constructible (sv_py sv) p"
    using coordinated [OF case_file_in [OF s] _ act eff(1)] j i by blast
  have ok: "valid_case (sv_py sv) (ag_case ag)" using ag(1) by (simp add: valid_aggregate_def)
  obtain c' where c': "validate_control_plan (sv_py sv) ag p j targets (pt_now P) = Inr c'" "valid_case (sv_py sv) c'"
    "case_advances (ag_case ag) c'" "control_case_status st = Some (cs_status c')" "cs_active_job_id c' = None"
    "tp_job_updates p = [job_update_to j st (pt_now P)]"
    using control_plan_accepted [OF ok acyclic act(2) p(2,3) eff(2)] by blast
  let ?u = "job_update_to j st (pt_now P)"
  have idc: "cs_case_id c' = c" using c'(3) ag(3) by (simp add: case_advances_def)
  have uid: "ju_job_id ?u = i" "ju_expected_status ?u = jb_status j" using i by (simp_all add: job_update_to_def)
  have live: "jb_status j \<in> {JS_PENDING, JS_RUNNING}"
    using eff(1) by (auto simp: control_effect_def split: trigger_payload.splits)
  have fin: "st \<in> {JS_FAILED, JS_INTERRUPTED}"
    using c'(4) by (auto simp: control_case_status_def split: job_status.splits)
  have upd: "jb_runtime_epoch (updated_job ?u j) = jb_runtime_epoch j" "jb_finished_at (updated_job ?u j) = Some (pt_now P)"
    "jb_status (updated_job ?u j) = st"
    by (simp_all add: updated_job_def job_update_to_def)
  have adv: "job_advances j (updated_job ?u j)" using live upd(1) by (auto simp: job_advances_def intro: updated_job_same)
  have life: "valid_job_lifecycle (updated_job ?u j)" using fin upd by (auto simp: valid_job_lifecycle_def)
  have valid: "valid_aggregate sv (controlled ag c' ?u j fs)"
    by (rule controlled_valid [OF ag(1) _ c'(3,2) adv life])
      (use j uid c'(5) ag(2) fs i upd(1) in \<open>simp_all add: agg_active_def\<close>)
  have dicts: "agg_dicts (controlled ag c' ?u j fs)" using ag(2) fs(1)
    by (force simp: agg_dicts_def controlled_def fresh_failures_def dict_ok_def has_key_def distinct_update)
  have fresh: "fresh_failures ag (ju_job_id ?u) fs" using fs(1) i uid by simp
  have am: "apply_mutation sv now s (Some (cs_case_revision (ag_case ag))) (control_mutation c' ?u fs) =
       Inr (moved_file s c (controlled ag c' ?u j fs) now, Some c)" for now
    by (rule control_applies [OF s _ _ idc fresh valid]) (use j uid in simp_all)
  have "length fs \<le> 1" using fs(1) by (auto simp: fresh_failures_def)
  then have m: "build_state_mutation (empty_mutation\<lparr>mn_upsert_case := Some c', mn_job_updates := [?u], mn_failures := fs\<rparr>) =
      Inr (control_mutation c' ?u fs)"
    by (cases fs) (simp_all add: build_state_mutation_def valid_mutation_def empty_mutation_def mutation_cases_def control_mutation_def)
  show thesis using that [OF p(1) c'(1) c'(6) refl valid dicts c'(4,5) idc m am] .
qed

end
