(* ===== verification/Control_Store.thy ===== *)
theory Control_Store
  imports Control_Laws
begin

text \<open>
  The control commands over a repository. The locale \<open>case_store\<close> is the contract they rely on: a read of an
  owned object returns the stored state of its case, a commit with an outdated generation changes nothing and
  answers \<open>REVISION_CONFLICT\<close>, and one with the current generation and an applicable mutation is what the next
  read returns. The commands are proved against the contract; \<open>CaseStateRepository\<close> provides it.
\<close>

locale case_store =
  fixes sv :: store_env and now :: timestamp and good :: "'r \<Rightarrow> bool"
    and state_of :: "'r \<Rightarrow> opaque_id \<Rightarrow> state_file option" and owner :: "'r \<Rightarrow> opaque_id \<Rightarrow> opaque_id option"
    and read_state :: "'r \<Rightarrow> opaque_id \<Rightarrow> 'r \<times> (store_error + state_file)"
    and submit :: "'r \<Rightarrow> int \<Rightarrow> int option \<Rightarrow> state_mutation \<Rightarrow> 'r \<times> (store_error + commit_receipt)"
  assumes state_is_file: "good r \<Longrightarrow> state_of r c = Some s \<Longrightarrow> case_file sv c s"
    and read_owned: "good r \<Longrightarrow> owner r i = Some c \<Longrightarrow> state_of r c = Some s \<Longrightarrow> read_state r i = (r, Inr s)"
    and stale_refused: "good r \<Longrightarrow> mn_upsert_case m = Some x \<Longrightarrow> state_of r (cs_case_id x) = Some s \<Longrightarrow>
      sf_generation s \<noteq> g \<Longrightarrow> \<exists>e. submit r g rv m = (r, Inl e) \<and> is_revision_conflict e"
    and current_applied: "good r \<Longrightarrow> mn_upsert_case m = Some x \<Longrightarrow> state_of r (cs_case_id x) = Some s \<Longrightarrow>
      apply_mutation sv now s rv m = Inr (s', k) \<Longrightarrow> map_of (sf_cases s') (cs_case_id x) = Some ag \<Longrightarrow>
      mn_idempotency m = [] \<Longrightarrow> cs_status (ag_case ag) \<notin> {CS_RESOLVED, CS_PARTIALLY_RESOLVED} \<Longrightarrow>
      \<exists>r' rc. submit r (sf_generation s) rv m = (r', Inr rc) \<and> good r' \<and> state_of r' (cs_case_id x) = Some s' \<and>
        (\<forall>d. d \<noteq> cs_case_id x \<longrightarrow> state_of r' d = state_of r d) \<and>
        (\<forall>i \<in> set (object_keys ag). owner r' i = Some (cs_case_id x))"
begin

definition connected :: "'r control_ports \<Rightarrow> bool" where
  "connected P \<longleftrightarrow> pt_read_job P = read_state \<and> pt_commit P = submit \<and> 0 < pt_max_commit_attempts P"

definition quiet :: "'r control_ports \<Rightarrow> bool" where
  "quiet P \<longleftrightarrow> (\<forall>n r. pt_other P n r = r)"

definition holds_job :: "'r \<Rightarrow> opaque_id \<Rightarrow> opaque_id \<Rightarrow> state_file \<Rightarrow> case_aggregate \<Rightarrow> job \<Rightarrow> bool" where
  "holds_job r i c s ag j \<longleftrightarrow>
     good r \<and> owner r i = Some c \<and> state_of r c = Some s \<and> sf_cases s = [(c, ag)] \<and> map_of (ag_jobs ag) i = Some j"

lemma holds_job_read: "holds_job r i c s ag j \<Longrightarrow> read_state r i = (r, Inr s)"
  by (auto simp: holds_job_def intro: read_owned)

lemma holds_job_file: "holds_job r i c s ag j \<Longrightarrow> case_file sv c s"
  by (auto simp: holds_job_def intro: state_is_file)

lemma holds_job_id: "holds_job r i c s ag j \<Longrightarrow> jb_job_id j = i"
  using holds_job_file [of r i c s ag j] aggregate_job(1) [of sv ag i j] by (auto simp: holds_job_def single_case_file)

text \<open>A first attempt that answers, or whose commit succeeds, is the whole command.\<close>

lemma command_answers:
  assumes "quiet P" "0 < pt_max_commit_attempts P" "read r = (r, Inr s)" "decide 0 s = Answer x"
  shows "command P read decide r = (r, x)"
  using assms by (cases "pt_max_commit_attempts P") (simp_all add: command_def run_attempt_def quiet_def)

lemma command_commits:
  assumes "quiet P" "0 < pt_max_commit_attempts P" "read r = (r, Inr s)" "decide 0 s = Submit rv m x"
    "pt_commit P r (sf_generation s) rv m = (r', Inr rc)"
  shows "command P read decide r = (r', x)"
  using assms by (cases "pt_max_commit_attempts P") (simp_all add: command_def run_attempt_def quiet_def)

text \<open>A control mutation of the current state goes through.\<close>

lemma control_commits:
  assumes h: "holds_job r i c s ag j" and x: "cs_case_id c' = c"
    and am: "apply_mutation sv now s rv (control_mutation c' u fs) =
      Inr (moved_file s c (controlled ag c' u j fs) now, Some c)"
    and st: "cs_status c' \<notin> {CS_RESOLVED, CS_PARTIALLY_RESOLVED}" and u: "ju_job_id u = i"
  shows "\<exists>r' rc. submit r (sf_generation s) rv (control_mutation c' u fs) = (r', Inr rc) \<and>
    holds_job r' i c (moved_file s c (controlled ag c' u j fs) now) (controlled ag c' u j fs) (updated_job u j) \<and>
    (\<forall>d. d \<noteq> c \<longrightarrow> state_of r' d = state_of r d)"
proof -
  let ?ag = "controlled ag c' u j fs" and ?s = "moved_file s c (controlled ag c' u j fs) now"
  have "i \<in> set (dict_keys (ag_jobs ?ag))" using u by (auto simp: controlled_def simp del: list.set_map set_map)
  then have key: "i \<in> set (object_keys ?ag)" by (simp add: object_keys_def)
  obtain r' rc where r': "submit r (sf_generation s) rv (control_mutation c' u fs) = (r', Inr rc)" "good r'"
    "state_of r' c = Some ?s" "\<forall>d. d \<noteq> c \<longrightarrow> state_of r' d = state_of r d" "owner r' i = Some c"
    using current_applied [of r "control_mutation c' u fs" c' s rv ?s "Some c" ?ag] h am x st key
    by (auto simp: holds_job_def control_mutation_def empty_mutation_def moved_file_def controlled_def)
  have "holds_job r' i c ?s ?ag (updated_job u j)"
    using r' u by (simp add: holds_job_def moved_file_def controlled_def)
  with r' show ?thesis by blast
qed

lemma retry_twice:
  assumes "body 0 r = Refused r' x" "is_revision_conflict x" "body 1 r' = Finished r'' y"
  shows "retry body (Suc (Suc n)) 0 r = (r'', y)"
  using assms by simp

section \<open>Claims\<close>

lemma claim_wins:
  assumes h: "holds_job r i c s ag j" and cl: "claimable ag j"
    and P: "connected P" "quiet P" "pt_missing P 0 (fixed_asset_refs j) = []" and ids: "is_uuid i" "is_uuid e"
  shows "\<exists>r' s' ag'. claim_job sv P i e r = (r', Inr (claimed (claimed_job j e (pt_now P)))) \<and>
    holds_job r' i c s' ag' (claimed_job j e (pt_now P)) \<and> sf_generation s' = sf_generation s + 1 \<and>
    (\<forall>d. d \<noteq> c \<longrightarrow> state_of r' d = state_of r d)"
proof -
  have s: "sf_cases s = [(c, ag)]" "map_of (ag_jobs ag) i = Some j" using h by (simp_all add: holds_job_def)
  note cf = holds_job_file [OF h]
  have ag: "valid_aggregate sv ag" "agg_dicts ag" "cs_case_id (ag_case ag) = c" using cf s(1) by (simp_all add: single_case_file)
  let ?t = "pt_now P" let ?c = "claimed_case (ag_case ag) (pt_now P)" and ?u = "claim_update j e (pt_now P)"
  have st: "cs_status ?c \<notin> {CS_RESOLVED, CS_PARTIALLY_RESOLVED}"
    using cl by (auto simp: claimed_case_def claimable_def expected_case_status_def split: if_splits)
  have "cs_case_id ?c = c" "ju_job_id ?u = i"
    using ag(3) holds_job_id [OF h] by (simp_all add: claimed_case_def claim_update_def)
  from control_commits [OF h this(1) claim_decided(2) [OF cf s cl P(3)] st this(2)]
  obtain r' rc where r': "submit r (sf_generation s) (Some (cs_case_revision (ag_case ag))) (control_mutation ?c ?u []) = (r', Inr rc)"
    "holds_job r' i c (moved_file s c (controlled ag ?c ?u j []) now) (controlled ag ?c ?u j []) (updated_job ?u j)"
    "\<forall>d. d \<noteq> c \<longrightarrow> state_of r' d = state_of r d"
    by blast
  have upd: "updated_job ?u j = claimed_job j e ?t" using claim_of_pending(1) [OF ag(1,2) s(2) cl] .
  have "claim_job sv P i e r = (r', Inr (claimed (claimed_job j e ?t)))"
  proof -
    have "command P (\<lambda>r. pt_read_job P r i) (claim_decision sv P i e) r = (r', Inr (claimed (claimed_job j e ?t)))"
      using P(1) holds_job_read [OF h] r'(1)
      by (intro command_commits [OF P(2), where s = s and rv = "Some (cs_case_revision (ag_case ag))"
            and m = "control_mutation ?c ?u []"])
        (simp_all add: connected_def claim_decided(1) [OF cf s cl P(3)])
    then show ?thesis using ids by (simp add: claim_job_def)
  qed
  moreover have "sf_generation (moved_file s c (controlled ag ?c ?u j []) now) = sf_generation s + 1"
    by (simp add: moved_file_def)
  ultimately show ?thesis using r'(2,3) unfolding upd by blast
qed

lemma claim_loses:
  assumes h: "holds_job r i c s ag j" and cl: "\<not> claimable ag j" and P: "connected P" "quiet P" and ids: "is_uuid i" "is_uuid e"
  shows "claim_job sv P i e r = (r, Inr not_claimed)"
proof -
  have "claim_decision sv P i e 0 s = Answer (Inr not_claimed)"
    using h cl find_job_single [of s c ag i j] by (simp add: claim_decision_def holds_job_def escaping_def)
  then have "command P (\<lambda>r. pt_read_job P r i) (claim_decision sv P i e) r = (r, Inr not_claimed)"
    using P(1) holds_job_read [OF h] by (intro command_answers [OF P(2), where s = s]) (simp_all add: connected_def)
  then show ?thesis using ids by (simp add: claim_job_def)
qed

text \<open>A claimer that is overtaken between its read and its commit finds the job taken.\<close>

lemma claim_race:
  assumes h: "holds_job r i c s ag j" and cl: "claimable ag j"
    and Q: "connected Q" "quiet Q" "pt_missing Q 0 (fixed_asset_refs j) = []"
    and P: "connected P" "1 < pt_max_commit_attempts P" "pt_missing P 0 (fixed_asset_refs j) = []"
    and other: "\<And>n r. pt_other P n r = (if n = 1 then fst (claim_job sv Q i f r) else r)"
    and ids: "is_uuid i" "is_uuid e" "is_uuid f"
  shows "\<exists>r'. claim_job sv Q i f r = (r', Inr (claimed (claimed_job j f (pt_now Q)))) \<and>
    claim_job sv P i e r = (r', Inr not_claimed)"
proof -
  obtain r' s' ag' where won: "claim_job sv Q i f r = (r', Inr (claimed (claimed_job j f (pt_now Q))))"
    and h': "holds_job r' i c s' ag' (claimed_job j f (pt_now Q))" and gen: "sf_generation s' = sf_generation s + 1"
    using claim_wins [OF h cl Q ids(1,3)] by blast
  have s: "sf_cases s = [(c, ag)]" "map_of (ag_jobs ag) i = Some j" using h by (simp_all add: holds_job_def)
  note decided = claim_decided(1) [OF holds_job_file [OF h] s cl P(3), of e]
  let ?c = "claimed_case (ag_case ag) (pt_now P)" and ?u = "claim_update j e (pt_now P)"
  have "cs_case_id ?c = c" using holds_job_file [OF h] s(1) by (simp add: claimed_case_def single_case_file)
  then obtain x where x: "submit r' (sf_generation s) (Some (cs_case_revision (ag_case ag))) (control_mutation ?c ?u []) = (r', Inl x)"
    "is_revision_conflict x"
    using stale_refused [of r' "control_mutation ?c ?u []" ?c s' "sf_generation s" "Some (cs_case_revision (ag_case ag))"]
      h' gen unfolding holds_job_def control_mutation_def by auto
  have "\<not> claimable ag' (claimed_job j f (pt_now Q))" by (simp add: claimable_def claimed_job_def with_life_def)
  then have second: "claim_decision sv P i e 1 s' = Answer (Inr not_claimed)"
    using h' find_job_single [of s' c ag' i] by (simp add: claim_decision_def holds_job_def escaping_def)
  let ?read = "\<lambda>r. pt_read_job P r i" and ?decide = "claim_decision sv P i e"
  have a0: "run_attempt P ?read ?decide 0 r = Refused r' x"
    using P(1) holds_job_read [OF h] decided won x(1) by (simp add: run_attempt_def connected_def other)
  have a1: "run_attempt P ?read ?decide 1 r' = Finished r' (Inr not_claimed)"
    using P(1) holds_job_read [OF h'] second by (simp add: run_attempt_def connected_def other)
  have "pt_max_commit_attempts P = Suc (Suc (pt_max_commit_attempts P - 2))" using P(2) by arith
  then have "claim_job sv P i e r = (r', Inr not_claimed)"
    using ids retry_twice [OF a0 x(2) a1, of "pt_max_commit_attempts P - 2"]
    unfolding claim_job_def command_def by simp
  with won show ?thesis by blast
qed

section \<open>Failure reports\<close>

lemma find_failure_single:
  assumes "sf_cases s = [(c, ag)]"
  shows "find_failure_record s k = Inr (map_option (\<lambda>f. (c, ag, f)) (map_of (ag_failures ag) k))"
  using assms by (cases "map_of (ag_failures ag) k") (simp_all add: find_failure_record_def List.map_filter_simps)

lemma report_applied:
  assumes h: "holds_job r i c s ag j" and acyclic: "supersedes_acyclic (cs_diagnosis_state (ag_case ag))"
    and run: "jb_status j = JS_RUNNING" "cs_active_job_id (ag_case ag) = Some i"
      "cs_status (ag_case ag) \<in> {CS_RUNNING, CS_REVIEWING}" "jb_runtime_epoch j = Some (fm_runtime_epoch k)"
    and k: "valid_failure_command k" "fm_job_id k = i" "\<not> has_key (ag_failures ag) (fm_failure_id k)"
    and P: "connected P" "quiet P"
  shows "\<exists>r' s' ag' j' v. report_execution_infrastructure_failure sv P k r =
      (r', Inr \<lparr>fc_failure_id = fm_failure_id k, fc_disposition = FD_APPLIED, fc_case_view = Some v\<rparr>) \<and>
    holds_job r' i c s' ag' j' \<and> jb_status j' = failure_status (fm_execution_failure k) \<and>
    control_case_status (jb_status j') = Some (cs_status (ag_case ag')) \<and> cs_active_job_id (ag_case ag') = None \<and>
    map_of (ag_failures ag') (fm_failure_id k) = Some (failure_record_of P k j) \<and>
    (\<forall>d. d \<noteq> c \<longrightarrow> state_of r' d = state_of r d)"
proof -
  have s: "sf_cases s = [(c, ag)]" "map_of (ag_jobs ag) i = Some j" using h by (simp_all add: holds_job_def)
  note cf = holds_job_file [OF h] and id = holds_job_id [OF h]
  let ?f = "fm_execution_failure k" and ?fs = "[failure_record_of P k j]"
  let ?pay = "ExecutionFailedPayload \<lparr>xp_source_job_id = jb_job_id j, xp_source_outcome_id = None, xp_execution_failure = ?f\<rparr>"
  have eff: "control_effect j ?pay (failure_status ?f)"
    using run(1) k(1) by (simp add: control_effect_def valid_failure_command_def conditional_failure_codes_def)
  have targets: "failure_status ?f \<in> set [JS_FAILED, JS_INTERRUPTED]" by (simp add: failure_status_def)
  have fresh: "fresh_failures ag (jb_job_id j) ?fs" "\<forall>x \<in> set ?fs. jb_runtime_epoch j = Some (fr_runtime_epoch x)"
    using k(3) run(4) by (simp_all add: fresh_failures_def failure_record_of_def)
  have act: "cs_active_job_id (ag_case ag) = Some (jb_job_id j)" using run(2) id by simp
  obtain p c' u where step: "coordinate sv s c (control_trigger_of P c ag (fm_failure_id k) ?pay) = Ok p"
    "validate_control_plan (sv_py sv) ag p j [JS_FAILED, JS_INTERRUPTED] (pt_now P) = Inr c'" "tp_job_updates p = [u]"
    "u = job_update_to j (failure_status ?f) (pt_now P)" "valid_aggregate sv (controlled ag c' u j ?fs)"
    "agg_dicts (controlled ag c' u j ?fs)" "control_case_status (failure_status ?f) = Some (cs_status c')"
    "cs_active_job_id c' = None" "cs_case_id c' = c"
    "build_state_mutation (empty_mutation\<lparr>mn_upsert_case := Some c', mn_job_updates := [u], mn_failures := ?fs\<rparr>) =
      Inr (control_mutation c' u ?fs)"
    "\<And>now. apply_mutation sv now s (Some (cs_case_revision (ag_case ag))) (control_mutation c' u ?fs) =
       Inr (moved_file s c (controlled ag c' u j ?fs) now, Some c)"
    by (rule control_step [OF cf s(1) acyclic s(2) act run(3) eff targets fresh]) blast
  let ?ag = "controlled ag c' u j ?fs"
  have sel: "ag_case ?ag = c'" "ag_artifacts ?ag = ag_artifacts ag" by (simp_all add: controlled_def)
  have status: "cs_status c' \<in> {CS_FAILED, CS_INTERRUPTED}"
    using step(7) by (auto simp: control_case_status_def split: job_status.splits)
  have "active_job_of ?ag = Inr None" using step(8) sel(1) by (simp add: active_job_of_def)
  then obtain v where v: "project_case_components sv c' None (dict_items (ag_artifacts ag)) [] = Inr v"
    using project_components_total [OF step(5,6), of None "[]"] status unfolding sel by auto
  have dec: "report_decision sv P k 0 s = Submit (Some (cs_case_revision (ag_case ag))) (control_mutation c' u ?fs)
      (Inr \<lparr>fc_failure_id = fm_failure_id k, fc_disposition = FD_APPLIED, fc_case_view = Some v\<rparr>)"
    using find_failure_single [OF s(1)] k(2,3) find_job_single [OF s] run id step v
    by (simp add: report_decision_def apply_report_def escaping_def caught_def submit_plan_def has_key_get Let_def)
  have "ju_job_id u = i" using step(4) id by (simp add: job_update_to_def)
  then obtain r' rc where r': "submit r (sf_generation s) (Some (cs_case_revision (ag_case ag))) (control_mutation c' u ?fs) = (r', Inr rc)"
    "holds_job r' i c (moved_file s c ?ag now) ?ag (updated_job u j)" "\<forall>d. d \<noteq> c \<longrightarrow> state_of r' d = state_of r d"
    using control_commits [OF h step(9) step(11)] status by auto
  have "command P (\<lambda>r. pt_read_job P r i) (report_decision sv P k) r =
      (r', Inr \<lparr>fc_failure_id = fm_failure_id k, fc_disposition = FD_APPLIED, fc_case_view = Some v\<rparr>)"
    using P(1) holds_job_read [OF h] r'(1)
    by (intro command_commits [OF P(2), where s = s and rv = "Some (cs_case_revision (ag_case ag))"
          and m = "control_mutation c' u ?fs"]) (simp_all add: connected_def dec)
  then have res: "report_execution_infrastructure_failure sv P k r =
      (r', Inr \<lparr>fc_failure_id = fm_failure_id k, fc_disposition = FD_APPLIED, fc_case_view = Some v\<rparr>)"
    using k by (simp add: report_execution_infrastructure_failure_def)
  have fin: "jb_status (updated_job u j) = failure_status ?f" using step(4) by (simp add: updated_job_def job_update_to_def)
  have rec: "map_of (ag_failures ?ag) (fm_failure_id k) = Some (failure_record_of P k j)"
    using k(3) by (simp add: controlled_def failure_record_of_def has_key_get map_add_def)
  have "control_case_status (jb_status (updated_job u j)) = Some (cs_status (ag_case ?ag))" "cs_active_job_id (ag_case ?ag) = None"
    using step(7,8) fin sel(1) by simp_all
  with res r'(2,3) fin rec show ?thesis by blast
qed

lemma report_known:
  assumes h: "holds_job r i c s ag j" and f: "map_of (ag_failures ag) (fm_failure_id k) = Some f"
    and k: "valid_failure_command k" "fm_job_id k = i" and P: "connected P" "quiet P"
  shows "report_execution_infrastructure_failure sv P k r = (r, repeated_report sv k s c f)"
proof -
  have "report_decision sv P k 0 s = Answer (repeated_report sv k s c f)"
    using h f find_failure_single [of s c ag] by (simp add: report_decision_def escaping_def holds_job_def)
  then have "command P (\<lambda>r. pt_read_job P r i) (report_decision sv P k) r = (r, repeated_report sv k s c f)"
    using P(1) holds_job_read [OF h] by (intro command_answers [OF P(2), where s = s]) (simp_all add: connected_def)
  then show ?thesis using k by (simp add: report_execution_infrastructure_failure_def)
qed

text \<open>The second report of the same failure is a duplicate, one with other content is refused; neither changes
  anything.\<close>

lemma report_repeated:
  assumes h: "holds_job r i c s ag j" and f: "map_of (ag_failures ag) (fm_failure_id k) = Some f"
    and st: "cs_status (ag_case ag) \<noteq> CS_NEW" and k: "valid_failure_command k" "fm_job_id k = i"
    and P: "connected P" "quiet P"
  shows "if same_report sv k f
    then \<exists>v. report_execution_infrastructure_failure sv P k r =
        (r, Inr \<lparr>fc_failure_id = fm_failure_id k, fc_disposition = FD_DUPLICATE, fc_case_view = Some v\<rparr>) \<and> valid_case_view v \<and>
        cv_status v = cs_status (ag_case ag)
    else \<exists>e. report_execution_infrastructure_failure sv P k r = (r, Inl (PortError e)) \<and> ae_code e = EC_IDEMPOTENCY_CONFLICT"
proof -
  have "case_in sv s c ag" using case_file_in [OF holds_job_file [OF h]] h by (simp add: holds_job_def)
  then obtain v where "project_case_view sv s c = Inr v" "valid_case_view v" "cv_status v = cs_status (ag_case ag)"
    using project_case_view_total st by blast
  then show ?thesis
    using report_known [OF h f k P] by (auto simp: repeated_report_def report_with_view_def raised_def failed_def port_error_def)
qed

section \<open>Recovery\<close>

lemma old_job_interrupted:
  assumes h: "holds_job r i c s ag j" and acyclic: "supersedes_acyclic (cs_diagnosis_state (ag_case ag))"
    and old: "old_running e j" and act: "cs_active_job_id (ag_case ag) = Some i"
      "cs_status (ag_case ag) = expected_case_status (jb_job_type j)"
    and P: "connected P" "quiet P"
  shows "\<exists>r' s' ag' j'. interrupt_recovery_job sv P i e rid r = (r', Inr ()) \<and> holds_job r' i c s' ag' j' \<and>
    jb_status j' = JS_INTERRUPTED \<and> cs_status (ag_case ag') = CS_INTERRUPTED \<and> cs_active_job_id (ag_case ag') = None \<and>
    (\<forall>d. d \<noteq> c \<longrightarrow> state_of r' d = state_of r d)"
proof -
  have s: "sf_cases s = [(c, ag)]" "map_of (ag_jobs ag) i = Some j" using h by (simp_all add: holds_job_def)
  note cf = holds_job_file [OF h] and id = holds_job_id [OF h]
  have ag: "valid_aggregate sv ag" using cf s(1) by (simp add: single_case_file)
  have "valid_job_lifecycle j" using aggregate_job(2) [OF ag s(2)] by (simp add: valid_job_def)
  then obtain previous where prev: "jb_runtime_epoch j = Some previous"
    using old by (auto simp: valid_job_lifecycle_def old_running_def)
  let ?pay = "OldEpochPayload (jb_job_id j) previous e"
  have eff: "control_effect j ?pay JS_INTERRUPTED" "JS_INTERRUPTED \<in> set [JS_INTERRUPTED]"
    using old prev by (simp_all add: control_effect_def old_running_def)
  have act': "cs_active_job_id (ag_case ag) = Some (jb_job_id j)" "cs_status (ag_case ag) \<in> {CS_RUNNING, CS_REVIEWING}"
    using act id by (simp_all add: expected_case_status_def)
  have fresh: "fresh_failures ag (jb_job_id j) []" "\<forall>x \<in> set []. jb_runtime_epoch j = Some (fr_runtime_epoch x)"
    by (simp_all add: fresh_failures_def)
  obtain p c' u where step: "coordinate sv s c (control_trigger_of P c ag rid ?pay) = Ok p"
    "validate_control_plan (sv_py sv) ag p j [JS_INTERRUPTED] (pt_now P) = Inr c'" "tp_job_updates p = [u]"
    "u = job_update_to j JS_INTERRUPTED (pt_now P)" "control_case_status JS_INTERRUPTED = Some (cs_status c')"
    "cs_active_job_id c' = None" "cs_case_id c' = c"
    "build_state_mutation (empty_mutation\<lparr>mn_upsert_case := Some c', mn_job_updates := [u], mn_failures := []\<rparr>) =
      Inr (control_mutation c' u [])"
    "\<And>now. apply_mutation sv now s (Some (cs_case_revision (ag_case ag))) (control_mutation c' u []) =
       Inr (moved_file s c (controlled ag c' u j []) now, Some c)"
    by (rule control_step [OF cf s(1) acyclic s(2) act' eff fresh]) blast
  have status: "cs_status c' = CS_INTERRUPTED" using step(5) by (simp add: control_case_status_def)
  have dec: "interrupt_decision sv P i e rid 0 s = Submit (Some (cs_case_revision (ag_case ag))) (control_mutation c' u []) (Inr ())"
    using find_job_single [OF s] old act id prev step
    by (simp add: interrupt_decision_def interrupt_old_job_def escaping_def caught_def submit_plan_def Let_def)
  have "ju_job_id u = i" using step(4) id by (simp add: job_update_to_def)
  then obtain r' rc where r': "submit r (sf_generation s) (Some (cs_case_revision (ag_case ag))) (control_mutation c' u []) = (r', Inr rc)"
    "holds_job r' i c (moved_file s c (controlled ag c' u j []) now) (controlled ag c' u j []) (updated_job u j)"
    "\<forall>d. d \<noteq> c \<longrightarrow> state_of r' d = state_of r d"
    using control_commits [OF h step(7) step(9)] status by auto
  have res: "interrupt_recovery_job sv P i e rid r = (r', Inr ())"
    unfolding interrupt_recovery_job_def using P(1) holds_job_read [OF h] r'(1)
    by (intro command_commits [OF P(2), where s = s and rv = "Some (cs_case_revision (ag_case ag))"
          and m = "control_mutation c' u []"]) (simp_all add: connected_def dec)
  have "jb_status (updated_job u j) = JS_INTERRUPTED" "ag_case (controlled ag c' u j []) = c'"
    using step(4) by (simp_all add: updated_job_def job_update_to_def controlled_def)
  then show ?thesis using res r'(2,3) status step(6) by metis
qed

end

section \<open>The repository keeps the contract\<close>

text \<open>A repository in working order: its invariant, no recorded failure, a database that accepts writes and callbacks
  that return.\<close>

definition usable :: "store_env \<Rightarrow> commit_io \<Rightarrow> repository \<Rightarrow> bool" where
  "usable sv io r \<longleftrightarrow> repo_ok sv r \<and> rp_failure r = None \<and> \<not> ci_database_fails io \<and> callbacks_return io"

definition read_job_snapshot :: "store_env \<Rightarrow> repository \<Rightarrow> opaque_id \<Rightarrow> repository \<times> (store_error + state_file)" where
  "read_job_snapshot sv r i = read_snapshot sv r None (Some i) None None"

lemma no_archive: "cs_status (ag_case ag) \<notin> {CS_RESOLVED, CS_PARTIALLY_RESOLVED} \<Longrightarrow> archive_payload_of ag = Inr None"
  by (simp add: archive_payload_of_def)

lemma mutation_of_case: "mn_upsert_case m = Some x \<Longrightarrow> mutation_case_id r m = Some (cs_case_id x)"
  by (simp add: mutation_case_id_def)

interpretation live_store: case_store sv "ci_now io" "usable sv io" stored locate_object "read_job_snapshot sv" "commit sv io"
  for sv io
proof (unfold_locales, goal_cases)
  case (1 r c s)
  then show ?case by (auto simp: usable_def intro: stored_file)
next
  case (2 r i c s)
  then show ?case using read_stored [of r c s] by (simp add: read_job_snapshot_def read_snapshot_def)
next
  case (3 r m x s g rv)
  then show ?case using commit_stale [of r m "cs_case_id x" s g sv io rv] mutation_of_case [of m x r]
    by (auto simp: usable_def conflict_def is_revision_conflict_def port_error_def)
next
  case (4 r m x s rv s' k ag)
  let ?c = "cs_case_id x"
  have u: "repo_ok sv r" "rp_failure r = None" "\<not> ci_database_fails io" "callbacks_return io" using 4(1) by (simp_all add: usable_def)
  obtain r' where r': "commit sv io r (sf_generation s) rv m =
      (r', Inr \<lparr>ct_generation = sf_generation s + 1, ct_case_revision = Some (cs_case_revision (ag_case ag))\<rparr>)"
    "moved r r' ?c ag s'" "stored r' ?c = Some s'"
    using commit_applies [OF u(2) mutation_of_case [OF 4(2)] 4(3,4,5,6) u(3,4)] no_archive [OF 4(7)] by blast
  have "repo_ok sv r'" using commit_keeps_repo [OF u(1), of io "sf_generation s" rv m] r'(1) by simp
  then have "usable sv io r'" using r'(2) u(3,4) by (simp add: usable_def moved_def)
  then show ?case using r' by (auto simp: moved_def)
qed

end
