(* ===== verification/Continuation_Laws.thy ===== *)
theory Continuation_Laws
  imports Projection_Laws
begin

text \<open>
  What a follow-up job inherits is closed: every reference resolves, and the attachment, artifact or outcome
  behind each inherited evidence item is inherited too. So the check that precedes a resume accepts it.
\<close>

section \<open>Closed continuations\<close>

abbreviation resolves :: "(opaque_id \<Rightarrow> exn + 'a) \<Rightarrow> opaque_id list \<Rightarrow> bool" where
  "resolves f xs \<equiv> \<forall>i \<in> set xs. \<exists>x. f i = Inr x"

definition continuation_closed :: "case_aggregate \<Rightarrow> opaque_id option \<Rightarrow> continuation_resources \<Rightarrow> bool" where
  "continuation_closed ag unsaved v \<longleftrightarrow>
     valid_continuation v \<and> resolves (formal_attachment ag) (cr_attachment_refs v) \<and>
     resolves (formal_artifact ag None) (cr_artifact_refs v) \<and>
     (\<forall>i \<in> set (cr_previous_outcome_refs v). (\<exists>oc. formal_outcome ag i = Inr oc) \<or> Some i = unsaved) \<and>
     (\<forall>i \<in> set (cr_evidence_refs v). exact_evidence ag v i = Inr ())"

lemma mapE_resolves: "mapE f xs = Inr ys \<Longrightarrow> resolves f xs"
  by (induction xs arbitrary: ys) (auto simp: bindE_Inr)

lemma resolves_mapE: "resolves f xs \<Longrightarrow> \<exists>ys. mapE f xs = Inr ys"
  by (induction xs) auto

lemma closed_is_exact:
  assumes "continuation_closed ag None v" "set (cr_evidence_refs v) = set (jb_evidence_refs j)"
  shows "validate_exact_job_continuation ag j v = Inr ()"
proof -
  have "resolves (formal_attachment ag) (cr_attachment_refs v)" "resolves (formal_artifact ag None) (cr_artifact_refs v)"
    "resolves (formal_outcome ag) (cr_previous_outcome_refs v)" "resolves (exact_evidence ag v) (cr_evidence_refs v)"
    using assms(1) by (simp_all add: continuation_closed_def)
  from this [THEN resolves_mapE] show ?thesis
    using assms(2) by (auto simp: validate_exact_job_continuation_def ensure_def)
qed

section \<open>Resolved identifiers\<close>

lemma append_unique_set [simp]: "set (append_unique v xs) = insert v (set xs)"
  by (auto simp: append_unique_def)

lemma append_unique_fold [simp]: "set (fold append_unique xs ys) = set xs \<union> set ys"
  by (induction xs arbitrary: ys) auto

lemma aggregate_ids:
  assumes "valid_aggregate sv ag"
  shows "formal_attachment ag i = Inr a \<Longrightarrow> at_attachment_id a = i"
    and "formal_artifact ag k i = Inr x \<Longrightarrow> af_artifact_id x = i"
    and "formal_outcome ag i = Inr oc \<Longrightarrow> oc_outcome_id oc = i"
  using assms keyed_get
  by (fastforce simp: valid_aggregate_def validate_maps_def agg_keys_def formal_attachment_def formal_artifact_def
      formal_outcome_def bindE_Inr split: option.splits if_splits)+

lemma formal_artifact_any: "formal_artifact ag k i = Inr x \<Longrightarrow> formal_artifact ag None i = Inr x"
  by (auto simp: formal_artifact_def bindE_Inr ensure_def split: option.splits if_splits)

lemma logparse_attachment_formal:
  assumes "valid_aggregate sv ag" "logparse_source_attachment ag x = Inr i"
  shows "\<exists>a. formal_attachment ag i = Inr a"
proof -
  obtain j a where a: "formal_attachment ag j = Inr a" and i: "i = at_attachment_id a"
    using assms(2)
    by (auto simp: logparse_source_attachment_def bindE_Inr split: artifact_kind.splits artifact_metadata.splits
        option.splits)
  then show ?thesis using aggregate_ids(1) [OF assms(1) a] by auto
qed

section \<open>The loops\<close>

definition deps_ok :: "case_aggregate \<Rightarrow> dependencies \<Rightarrow> bool" where
  "deps_ok ag d \<longleftrightarrow> resolves (formal_attachment ag) (dp_attachments d) \<and> resolves (formal_artifact ag None) (dp_artifacts d)"

definition deps_le :: "dependencies \<Rightarrow> dependencies \<Rightarrow> bool" where
  "deps_le d e \<longleftrightarrow> set (dp_attachments d) \<subseteq> set (dp_attachments e) \<and> set (dp_artifacts d) \<subseteq> set (dp_artifacts e) \<and>
     set (dp_outcomes d) \<subseteq> set (dp_outcomes e)"

lemma deps_le_refl: "deps_le d d"
  by (simp add: deps_le_def)

lemma deps_le_trans: "deps_le a b \<Longrightarrow> deps_le b c \<Longrightarrow> deps_le a c"
  by (auto simp: deps_le_def)

definition deps_view :: "opaque_id list \<Rightarrow> dependencies \<Rightarrow> continuation_resources" where
  "deps_view ev d = \<lparr>cr_evidence_refs = ev, cr_attachment_refs = dp_attachments d,
     cr_artifact_refs = dp_artifacts d, cr_previous_outcome_refs = dp_outcomes d\<rparr>"

lemma exact_evidence_mono:
  assumes "exact_evidence ag (deps_view ev d) i = Inr ()" "deps_le d e"
  shows "exact_evidence ag (deps_view ev e) i = Inr ()"
  using assms
  by (auto simp: exact_evidence_def deps_view_def deps_le_def bindE_Inr split: evidence_source_type.splits)

lemma evidence_step:
  assumes "valid_aggregate sv ag" "deps_ok ag d"
    and "bindE (formal_evidence ag i) (\<lambda>e. append_evidence_dependencies ag e d) = Inr d'"
  shows "deps_ok ag d' \<and> deps_le d d' \<and> exact_evidence ag (deps_view ev d') i = Inr ()"
proof -
  obtain e where e: "formal_evidence ag i = Inr e" "append_evidence_dependencies ag e d = Inr d'"
    using assms(3) by (auto simp: bindE_Inr)
  show ?thesis
  proof (cases "vd_source_type e")
    case ES_USER_FACT
    then show ?thesis using e assms(2)
      by (auto simp: append_evidence_dependencies_def bindE_Inr exact_evidence_def deps_le_refl)
  next
    case ES_ATTACHMENT
    then obtain a where "formal_attachment ag (vd_source_ref e) = Inr a"
      "d' = d\<lparr>dp_attachments := append_unique (at_attachment_id a) (dp_attachments d)\<rparr>"
      using e(2) by (auto simp: append_evidence_dependencies_def bindE_Inr)
    then show ?thesis using ES_ATTACHMENT e(1) assms(2) aggregate_ids(1) [OF assms(1), of "vd_source_ref e" a]
      by (auto simp: deps_ok_def deps_le_def exact_evidence_def deps_view_def bindE_Inr)
  next
    case ES_LOGPARSE
    then obtain x j where x: "formal_artifact ag (Some AK_LOGPARSE_RUN) (vd_source_ref e) = Inr x"
      "logparse_source_attachment ag x = Inr j"
      "d' = d\<lparr>dp_artifacts := append_unique (af_artifact_id x) (dp_artifacts d),
         dp_attachments := append_unique j (dp_attachments d)\<rparr>"
      using e(2) by (auto simp: append_evidence_dependencies_def bindE_Inr)
    then show ?thesis
      using ES_LOGPARSE e(1) assms(2) aggregate_ids(2) [OF assms(1) x(1)] formal_artifact_any [OF x(1)]
        logparse_attachment_formal [OF assms(1) x(2)]
      by (auto simp: deps_ok_def deps_le_def exact_evidence_def deps_view_def bindE_Inr)
  next
    case ES_TOOL_OUTPUT
    then obtain x where x: "formal_artifact ag (Some AK_DIAGNOSTIC_EXPORT) (vd_source_ref e) = Inr x"
      "d' = d\<lparr>dp_artifacts := append_unique (af_artifact_id x) (dp_artifacts d)\<rparr>"
      using e(2) by (auto simp: append_evidence_dependencies_def bindE_Inr)
    then show ?thesis
      using ES_TOOL_OUTPUT e(1) assms(2) aggregate_ids(2) [OF assms(1) x(1)] formal_artifact_any [OF x(1)]
      by (auto simp: deps_ok_def deps_le_def exact_evidence_def deps_view_def bindE_Inr)
  next
    case ES_PREVIOUS_OUTCOME
    then obtain oc where x: "formal_outcome ag (vd_source_ref e) = Inr oc"
      "d' = d\<lparr>dp_outcomes := append_unique (oc_outcome_id oc) (dp_outcomes d)\<rparr>"
      using e(2) by (auto simp: append_evidence_dependencies_def bindE_Inr)
    then show ?thesis
      using ES_PREVIOUS_OUTCOME e(1) assms(2) aggregate_ids(3) [OF assms(1) x(1)]
      by (auto simp: deps_ok_def deps_le_def exact_evidence_def deps_view_def bindE_Inr)
  qed
qed

lemma evidence_loop:
  assumes ag: "valid_aggregate sv ag"
  shows "foldS (\<lambda>i d. bindE (formal_evidence ag i) (\<lambda>e. append_evidence_dependencies ag e d)) is d = Inr d' \<Longrightarrow>
    deps_ok ag d \<Longrightarrow>
    deps_ok ag d' \<and> deps_le d d' \<and> (\<forall>i \<in> set is. exact_evidence ag (deps_view ev d') i = Inr ())"
proof (induction "is" arbitrary: d)
  case (Cons i "is")
  obtain c where c: "bindE (formal_evidence ag i) (\<lambda>e. append_evidence_dependencies ag e d) = Inr c"
    "foldS (\<lambda>i d. bindE (formal_evidence ag i) (\<lambda>e. append_evidence_dependencies ag e d)) is c = Inr d'"
    using Cons.prems(1) by (auto simp: bindS_Inr)
  have step: "deps_ok ag c \<and> deps_le d c \<and> exact_evidence ag (deps_view ev c) i = Inr ()"
    by (rule evidence_step [OF ag Cons.prems(2) c(1)])
  have rest: "deps_ok ag d' \<and> deps_le c d' \<and> (\<forall>i \<in> set is. exact_evidence ag (deps_view ev d') i = Inr ())"
    using Cons.IH [OF c(2)] step by blast
  then show ?case using step deps_le_trans exact_evidence_mono by fastforce
qed (simp add: deps_le_refl)

lemma attachment_loop:
  "foldS (\<lambda>i xs. bindE (formal_attachment ag i) (\<lambda>_. Inr (append_unique i xs))) ids xs = Inr ys \<Longrightarrow>
     resolves (formal_attachment ag) xs \<Longrightarrow>
     resolves (formal_attachment ag) ys \<and> set ys = set xs \<union> set ids"
proof (induction ids arbitrary: xs)
  case (Cons i ids)
  then obtain a where "formal_attachment ag i = Inr a"
    "foldS (\<lambda>i xs. bindE (formal_attachment ag i) (\<lambda>_. Inr (append_unique i xs))) ids (append_unique i xs) = Inr ys"
    by (auto simp: bindS_Inr bindE_Inr)
  then show ?case using Cons.IH [of "append_unique i xs"] Cons.prems(2) by auto
qed simp

lemma requirement_loop:
  "foldS (requirement_attachments ag sp ids) rs xs = Inr ys \<Longrightarrow> resolves (formal_attachment ag) xs \<Longrightarrow>
     resolves (formal_attachment ag) ys \<and> set xs \<subseteq> set ys \<and>
     ((\<exists>r \<in> set rs. rq_kind r = QK_ATTACHMENT \<and> rq_status r \<noteq> QS_FULFILLED \<and> Some (rq_requirement_id r) = sp) \<longrightarrow>
        set ids \<subseteq> set ys)"
proof (induction rs arbitrary: xs)
  case (Cons r rs)
  obtain zs where z: "requirement_attachments ag sp ids r xs = Inr zs" "foldS (requirement_attachments ag sp ids) rs zs = Inr ys"
    using Cons.prems(1) by (auto simp: bindS_Inr)
  have "resolves (formal_attachment ag) zs \<and> set xs \<subseteq> set zs \<and>
    (rq_kind r = QK_ATTACHMENT \<and> rq_status r \<noteq> QS_FULFILLED \<and> Some (rq_requirement_id r) = sp \<longrightarrow> set ids \<subseteq> set zs)"
    using z(1) attachment_loop [OF _ Cons.prems(2)] Cons.prems(2)
    by (auto simp: requirement_attachments_def Let_def split: if_splits)
  then show ?case using Cons.IH [OF z(2)] by auto
qed simp

section \<open>The closure\<close>

lemma closure_closed:
  assumes ag: "valid_aggregate sv ag"
    and cl: "continuation_closure ag source leading unsaved sp ids = Inr v"
  shows "continuation_closed ag unsaved v" "cr_evidence_refs v = ds_evidence_refs (cs_diagnosis_state (ag_case ag))"
    "set (jb_evidence_refs source) \<subseteq> set (cr_evidence_refs v)"
    "set (jb_attachment_refs source) \<subseteq> set (cr_attachment_refs v)"
    "set (jb_artifact_refs source) \<subseteq> set (cr_artifact_refs v)"
    "set leading \<union> set (jb_previous_outcome_refs source) \<subseteq> set (cr_previous_outcome_refs v)"
    "\<exists>r \<in> set (ds_pending_requirements (cs_diagnosis_state (ag_case ag))). rq_kind r = QK_ATTACHMENT \<and>
       rq_status r \<noteq> QS_FULFILLED \<and> Some (rq_requirement_id r) = sp \<Longrightarrow> set ids \<subseteq> set (cr_attachment_refs v)"
proof -
  let ?s = "cs_diagnosis_state (ag_case ag)" and ?ev = "ds_evidence_refs (cs_diagnosis_state (ag_case ag))"
  let ?out = "fold append_unique (jb_previous_outcome_refs source) (fold append_unique leading [])"
  obtain xs ys zs atts d us where sub: "list_all (\<lambda>i. i \<in> set ?ev) (jb_evidence_refs source)"
    and m1: "mapE (formal_attachment ag) (jb_attachment_refs source) = Inr xs"
    and m2: "mapE (formal_artifact ag None) (jb_artifact_refs source) = Inr ys"
    and m3: "mapE (formal_outcome ag) (jb_previous_outcome_refs source) = Inr zs"
    and l1: "foldS (requirement_attachments ag sp ids) (ds_pending_requirements ?s) (jb_attachment_refs source) = Inr atts"
    and l2: "foldS (\<lambda>i d. bindE (formal_evidence ag i) (\<lambda>e. append_evidence_dependencies ag e d)) ?ev
        \<lparr>dp_attachments = atts, dp_artifacts = jb_artifact_refs source, dp_outcomes = ?out\<rparr> = Inr d"
    and m4: "mapE (\<lambda>i. if Some i = unsaved \<and> \<not> has_key (ag_outcomes ag) i then Inr ()
        else bindE (formal_outcome ag i) (\<lambda>_. Inr ())) (dp_outcomes d) = Inr us"
    and v: "v = deps_view ?ev d" "valid_continuation v"
    using cl unfolding continuation_closure_def Let_def deps_view_def by (auto simp: bindE_Inr)
  have req: "resolves (formal_attachment ag) atts" "set (jb_attachment_refs source) \<subseteq> set atts"
    using requirement_loop [OF l1 mapE_resolves [OF m1]] by auto
  have loop: "deps_ok ag d \<and> deps_le \<lparr>dp_attachments = atts, dp_artifacts = jb_artifact_refs source, dp_outcomes = ?out\<rparr> d \<and>
    (\<forall>i \<in> set ?ev. exact_evidence ag (deps_view ?ev d) i = Inr ())"
    by (rule evidence_loop [OF ag l2]) (use req(1) mapE_resolves [OF m2] in \<open>simp add: deps_ok_def\<close>)
  have out: "\<forall>i \<in> set (dp_outcomes d). (\<exists>oc. formal_outcome ag i = Inr oc) \<or> Some i = unsaved"
    using mapE_resolves [OF m4] by (force simp: bindE_Inr split: if_splits)
  show "continuation_closed ag unsaved v"
    using loop out v(2) unfolding v(1) by (simp add: continuation_closed_def deps_ok_def deps_view_def)
  show "cr_evidence_refs v = ?ev" by (simp add: v(1) deps_view_def)
  show "set (jb_evidence_refs source) \<subseteq> set (cr_evidence_refs v)" using sub by (auto simp: v(1) deps_view_def list_all_iff)
  show "set (jb_attachment_refs source) \<subseteq> set (cr_attachment_refs v)" "set (jb_artifact_refs source) \<subseteq> set (cr_artifact_refs v)"
    "set leading \<union> set (jb_previous_outcome_refs source) \<subseteq> set (cr_previous_outcome_refs v)"
    using loop req(2) by (auto simp: v(1) deps_view_def deps_le_def)
  show "set ids \<subseteq> set (cr_attachment_refs v)"
    if "\<exists>r \<in> set (ds_pending_requirements ?s). rq_kind r = QK_ATTACHMENT \<and> rq_status r \<noteq> QS_FULFILLED \<and>
      Some (rq_requirement_id r) = sp"
    using that requirement_loop [OF l1 mapE_resolves [OF m1]] loop by (auto simp: v(1) deps_view_def deps_le_def)
qed

lemma single_Inr: "(case xs of [] \<Rightarrow> Inl e | [x] \<Rightarrow> f x | x # y # ys \<Rightarrow> Inl e) = Inr z \<longleftrightarrow> (\<exists>x. xs = [x] \<and> f x = Inr z)"
  by (auto split: list.splits)

lemma supplement_closed:
  assumes c: "case_in sv s i ag" and "continuation_for_supplement s i ids = Inr v"
  shows "continuation_closed ag None v" "set ids \<subseteq> set (cr_attachment_refs v)"
proof -
  have ag: "valid_aggregate sv ag" using c by (simp add: case_in_def)
  obtain j and oc :: job_outcome and sp where cl: "continuation_closure ag j [oc_outcome_id oc] None sp ids = Inr v"
    and sp: "ids = [] \<or> (\<exists>r. filter (\<lambda>r. rq_kind r = QK_ATTACHMENT)
        (open_requirements (cs_diagnosis_state (ag_case ag))) = [r] \<and> sp = Some (rq_requirement_id r))"
    using assms(2) case_in_aggregate [OF c]
    by (auto simp: continuation_for_supplement_def Let_def bindE_Inr single_Inr split: if_split_asm)
  show "continuation_closed ag None v" by (rule closure_closed(1) [OF ag cl])
  show "set ids \<subseteq> set (cr_attachment_refs v)"
  proof (cases "ids = []")
    case False
    then obtain r where r: "filter (\<lambda>r. rq_kind r = QK_ATTACHMENT) (open_requirements (cs_diagnosis_state (ag_case ag))) = [r]"
      "sp = Some (rq_requirement_id r)" using sp by blast
    have "r \<in> set (filter (\<lambda>r. rq_kind r = QK_ATTACHMENT) (open_requirements (cs_diagnosis_state (ag_case ag))))"
      unfolding r(1) by simp
    then have "r \<in> set (ds_pending_requirements (cs_diagnosis_state (ag_case ag)))" "rq_kind r = QK_ATTACHMENT"
      "rq_status r = QS_OPEN" by (auto simp: open_requirements_def)
    then show ?thesis using r(2) by (intro closure_closed(7) [OF ag cl] bexI [of _ r]) simp_all
  qed simp
qed

lemma outcome_closed:
  assumes c: "case_in sv s (oc_case_id oc) ag" and "continuation_for_outcome s oc = Inr v"
  shows "continuation_closed ag (Some (oc_outcome_id oc)) v" "oc_outcome_id oc \<in> set (cr_previous_outcome_refs v)"
proof -
  have ag: "valid_aggregate sv ag" using c by (simp add: case_in_def)
  obtain j where "continuation_closure ag j [oc_outcome_id oc] (Some (oc_outcome_id oc)) None [] = Inr v"
    using assms(2) case_in_aggregate [OF c] by (auto simp: continuation_for_outcome_def bindE_Inr)
  from closure_closed(1,6) [OF ag this]
  show "continuation_closed ag (Some (oc_outcome_id oc)) v" "oc_outcome_id oc \<in> set (cr_previous_outcome_refs v)"
    by simp_all
qed

end
