(* ===== verification/Store_Scenario.thy ===== *)
theory Store_Scenario
  imports Scenario Control_Store Continuation_Laws
begin

text \<open>
  A small installation on which the properties of the store and of the commands are evaluated: one running
  case with one generic diagnosis job, pending or running, in a repository with an empty database.
\<close>

definition st_id :: "char \<Rightarrow> text_t" where
  "st_id c = replicate 8 c @ ''-'' @ replicate 4 c @ ''-'' @ replicate 4 c @ ''-'' @ replicate 4 c @ ''-'' @ replicate 12 c"

definition st_env :: store_env where
  "st_env = \<lparr>sv_py = sc_env, sv_outcome_bytes = (\<lambda>_. []), sv_failure_bytes = xf_message, sv_instant = (\<lambda>t. int (length t))\<rparr>"

definition st_job_id :: text_t where "st_job_id = st_id CHR ''1''"

definition st_epoch :: text_t where "st_epoch = st_id CHR ''2''"

definition st_pending :: job where
  "st_pending = sc_generic_job\<lparr>jb_job_id := st_job_id\<rparr>"

definition st_running :: job where
  "st_running = sc_running_job\<lparr>jb_job_id := st_job_id, jb_runtime_epoch := Some st_epoch\<rparr>"

definition st_case :: case_t where
  "st_case = sc_running_case\<lparr>cs_active_job_id := Some st_job_id\<rparr>"

definition st_aggregate :: "job \<Rightarrow> case_aggregate" where
  "st_aggregate j = (empty_aggregate st_case)\<lparr>ag_jobs := [(st_job_id, j)]\<rparr>"

definition st_file :: "job \<Rightarrow> state_file" where
  "st_file j = (initial_base ''installation'' ''t0'')\<lparr>sf_generation := 2, sf_cases := [(''case'', st_aggregate j)]\<rparr>"

definition st_repository :: "job \<Rightarrow> repository" where
  "st_repository j =
     \<lparr>rp_base = initial_base ''installation'' ''t0'', rp_live = [(''case'', st_file j)],
      rp_objects = [(st_job_id, ''case'')], rp_requests = [], rp_failure = None, db_completed = [],
      db_object_index = [], db_request_index = [], db_resource_index = [], db_archive_tasks = [], db_retention = []\<rparr>"

definition st_io :: commit_io where
  "st_io = \<lparr>ci_now = ''t9'', ci_database_fails = False, ci_case_projection = Some None, ci_terminal = None,
     ci_case_committed = None\<rparr>"

definition st_ports :: "repository control_ports" where
  "st_ports = \<lparr>pt_read_job = read_job_snapshot st_env, pt_read_all = read_all st_env, pt_commit = commit st_env st_io,
     pt_missing = (\<lambda>_ _. []), pt_now = ''t8'', pt_trigger_id = st_id CHR ''3'', pt_max_commit_attempts = 3,
     pt_other = (\<lambda>_ r. r)\<rparr>"

text \<open>The same ports while another client claims the job after this one's read.\<close>

definition st_raced :: "repository control_ports" where
  "st_raced = st_ports\<lparr>pt_other := (\<lambda>n r. if n = 1 then fst (claim_job st_env st_ports st_job_id (st_id CHR ''4'') r) else r)\<rparr>"

definition st_report :: "text_t \<Rightarrow> failure_command" where
  "st_report message = \<lparr>fm_job_id = st_job_id, fm_runtime_epoch = st_epoch, fm_failure_id = st_id CHR ''5'',
     fm_execution_failure = \<lparr>xf_stage = XS_EXECUTION_RECORD, xf_code = EC_EXECUTION_RECORD_FAILED, xf_message = message,
       xf_retryable = True, xf_details = [], xf_reason_code = None, xf_diagnostic_id = None\<rparr>\<rparr>"

text \<open>The claim of the pending job.\<close>

definition st_claim :: state_mutation where
  "st_claim = control_mutation (claimed_case st_case ''t8'') (claim_update st_pending st_epoch ''t8'') []"

text \<open>A running case with an attachment and an evidence item taken from it.\<close>

definition st_attachment :: attachment where
  "st_attachment = \<lparr>at_attachment_id = ''att'', at_case_id = ''case'', at_status = AT_READY, at_name = ''log'',
     at_content_type = ''text/plain'', at_declared_size = None, at_declared_sha256 = None, at_size = Some 1,
     at_sha256 = Some ''h'', at_storage_key = Some ''k'', at_created_at = ''t1'', at_updated_at = ''t1''\<rparr>"

definition st_evidence :: evidence where
  "st_evidence = \<lparr>vd_evidence_id = ''ev'', vd_case_id = ''case'', vd_source_type = ES_ATTACHMENT, vd_source_ref = ''att'',
     vd_locator = AttachmentLocator None None, vd_summary = ''disk usage'', vd_collected_at = ''t1'',
     vd_content_hash = None, vd_resource_ref = None\<rparr>"

definition st_evidence_aggregate :: case_aggregate where
  "st_evidence_aggregate = (st_aggregate st_running)
     \<lparr>ag_case := st_case\<lparr>cs_diagnosis_state := sc_state\<lparr>ds_evidence_refs := [''ev'']\<rparr>\<rparr>,
      ag_attachments := [(''att'', st_attachment)], ag_evidence := [(''ev'', st_evidence)]\<rparr>"

definition st_evidence_file :: state_file where
  "st_evidence_file = (st_file st_running)\<lparr>sf_cases := [(''case'', st_evidence_aggregate)]\<rparr>"

definition st_outcome :: job_outcome where
  "st_outcome = sc_outcome\<lparr>oc_job_id := st_job_id\<rparr>"

text \<open>A job of the specialised direct mode.\<close>

definition st_direct :: job where
  "st_direct = st_running\<lparr>jb_diagnosis_mode := Some DM_SPECIALIZED, jb_review_policy := Some RP_NONE,
     jb_skill_ref := Some sc_skill, jb_output_contract_ref := sc_ref direct_output_contract_id,
     jb_agent_profile_ref := sc_ref direct_agent_profile_id\<rparr>"

section \<open>Evaluation\<close>

lemmas st_data = st_env_def st_pending_def st_running_def st_case_def st_aggregate_def empty_aggregate_def
  st_file_def initial_base_def st_repository_def st_io_def st_ports_def st_raced_def st_report_def

lemma st_ids_valid: "is_uuid (st_id CHR ''1'')" "is_uuid (st_id CHR ''2'')" "is_uuid (st_id CHR ''3'')"
  "is_uuid (st_id CHR ''4'')" "is_uuid (st_id CHR ''5'')" "is_uuid (st_id CHR ''6'')"
  by (simp_all add: is_uuid_def is_hex_def st_id_def eval_nat_numeral)

lemmas run_aggregate = valid_aggregate_def validate_maps_def agg_keys_def keyed_by_def agg_saved_def agg_owner_def
  agg_active_def agg_diagnosis_def agg_jobs_ok_def agg_job_def agg_methods_def agg_generic_def agg_generic_v2_def
  agg_reports_def artifact_ids_of_def agg_resolved_def agg_unresolved_def legacy_result_def

lemma st_jobs_valid: "valid_job sc_env st_pending" "valid_job sc_env st_running"
  by (simp_all add: run_valid_job st_pending_def st_running_def sc_data spec_from_bindings_def spec_args_of_def)

lemma st_case_valid: "valid_case sc_env st_case"
  by (simp add: run_valid_case run_valid_state st_case_def sc_data)

lemma st_aggregate_valid: "valid_aggregate st_env (st_aggregate st_pending)" "valid_aggregate st_env (st_aggregate st_running)"
  using st_jobs_valid st_case_valid
  by (simp_all add: run_aggregate st_aggregate_def empty_aggregate_def st_env_def Let_def List.map_filter_simps
      st_pending_def st_running_def st_case_def sc_data spec_from_bindings_def spec_args_of_def)

lemma st_aggregate_dicts: "agg_dicts (st_aggregate j)"
  by (simp add: agg_dicts_def dict_ok_def st_aggregate_def empty_aggregate_def)

lemma st_file_ok: "valid_aggregate st_env (st_aggregate j) \<Longrightarrow> case_file st_env ''case'' (st_file j)"
  by (subst single_case_file [of _ "''case''" "st_aggregate j"])
    (simp_all add: st_file_def state_frame_def state_recovery_ok_def keyed_by_def initial_base_def st_aggregate_dicts,
      simp add: st_aggregate_def empty_aggregate_def st_case_def sc_data)

lemma st_repository_ok: "valid_aggregate st_env (st_aggregate j) \<Longrightarrow> repo_ok st_env (st_repository j)"
  using initial_repository_ok [of st_env "''installation''" "''t0''"] st_file_ok [of j]
  by (simp add: repo_ok_def st_repository_def dict_ok_def)

lemma st_usable: "valid_aggregate st_env (st_aggregate j) \<Longrightarrow> usable st_env st_io (st_repository j)"
  using st_repository_ok [of j] by (simp add: usable_def st_repository_def st_io_def callbacks_return_def projection_error_def)

lemma st_lookup [simp]:
  "stored (st_repository j) ''case'' = Some (st_file j)" "locate_object (st_repository j) st_job_id = Some ''case''"
  "sf_cases (st_file j) = [(''case'', st_aggregate j)]" "map_of (ag_jobs (st_aggregate j)) st_job_id = Some j"
  by (simp_all add: stored_def locate_object_def st_repository_def st_file_def st_aggregate_def)

lemma st_acyclic: "supersedes_acyclic (cs_diagnosis_state (ag_case (st_aggregate j)))"
  by (simp add: supersedes_acyclic_def facyclic_check_def supersedes_graph_def graph_keys_def state_items_def
      st_aggregate_def empty_aggregate_def st_case_def sc_data)

end
