(* ===== verification/Store_Properties.thy ===== *)
theory Store_Properties
  imports Store_Scenario
begin

text \<open>
  The properties of the store and of the control commands over it (C29 to C37). The statements are written out
  over the repository; the proofs are the laws of \<open>Repository_Laws\<close>, \<open>Projection_Laws\<close> and
  \<open>Continuation_Laws\<close>, and the facts of the locale \<open>case_store\<close> interpreted on the repository.
\<close>

section \<open>Commands on the repository\<close>

definition at_store :: "store_env \<Rightarrow> commit_io \<Rightarrow> repository control_ports \<Rightarrow> bool" where
  "at_store sv io P \<longleftrightarrow>
     pt_read_job P = read_job_snapshot sv \<and> pt_commit P = commit sv io \<and> 0 < pt_max_commit_attempts P"

definition undisturbed :: "repository control_ports \<Rightarrow> bool" where
  "undisturbed P \<longleftrightarrow> (\<forall>n r. pt_other P n r = r)"

text \<open>The job \<open>j\<close> with identifier \<open>i\<close> of the case \<open>c\<close>, whose stored state is \<open>s\<close> and whose aggregate is \<open>ag\<close>.\<close>

definition stored_job ::
  "store_env \<Rightarrow> commit_io \<Rightarrow> repository \<Rightarrow> opaque_id \<Rightarrow> opaque_id \<Rightarrow> state_file \<Rightarrow> case_aggregate \<Rightarrow> job \<Rightarrow> bool" where
  "stored_job sv io r i c s ag j \<longleftrightarrow>
     usable sv io r \<and> locate_object r i = Some c \<and> stored r c = Some s \<and> sf_cases s = [(c, ag)] \<and>
     map_of (ag_jobs ag) i = Some j"

lemma at_store_connected: "at_store sv io = live_store.connected sv io"
  by (rule ext) (simp add: at_store_def live_store.connected_def)

lemma undisturbed_quiet: "undisturbed = live_store.quiet"
  by (rule ext) (simp add: undisturbed_def live_store.quiet_def)

lemma stored_job_holds: "stored_job sv io = live_store.holds_job sv io"
  by (intro ext) (simp add: stored_job_def live_store.holds_job_def)

lemmas live = at_store_connected undisturbed_quiet stored_job_holds

lemma st_holds: "valid_aggregate st_env (st_aggregate j) \<Longrightarrow>
    stored_job st_env st_io (st_repository j) st_job_id ''case'' (st_file j) (st_aggregate j) j"
  by (simp add: stored_job_def st_usable)

lemma st_connected: "at_store st_env st_io st_ports" "undisturbed st_ports" "at_store st_env st_io st_raced"
  by (simp_all add: at_store_def undisturbed_def st_ports_def st_raced_def)

lemma st_claimable: "claimable (st_aggregate st_pending) st_pending"
  by (simp add: claimable_def expected_case_status_def st_aggregate_def empty_aggregate_def st_case_def st_pending_def
      sc_data spec_from_bindings_def spec_args_of_def)

section \<open>Commits\<close>

text \<open>C29. Every commit, whatever its mutation and whether or not it succeeds, leaves a repository in which
  every stored case file is a valid state with exactly its own case, under the expected identifier, and the base
  state is valid and holds no case.\<close>

theorem commit_preserves_repository:
  assumes "repo_ok sv r"
  shows "repo_ok sv (fst (commit sv io r g rv m))"
  by (rule commit_keeps_repo [OF assms])

theorem commit_preserves_repository_witness:
  "repo_ok st_env (fst (commit st_env st_io (st_repository st_pending) 2 (Some 2)
     (control_mutation (claimed_case st_case ''t8'') (claim_update st_pending st_epoch ''t8'') [])))"
  by (rule commit_preserves_repository [OF st_repository_ok [OF st_aggregate_valid(1)]])

text \<open>C30. A commit takes effect as a whole or not at all. Either it is refused, and then no stored case and no base
  state has changed, or the whole mutation is installed: the writer had read the current generation, the new state is
  the mutation applied to the state a read of the case gives (the archive status may now be PENDING), no other case
  has changed, and nothing recorded of the case is lost: every job keeps its identity, and outcomes, processing
  records, failures, evidence and artifacts are kept as they are. This covers a case that is committed for the first
  time as well as the base state, which a mutation that names no case replaces. An installed commit answers with the
  next generation, except when \<open>on_terminal\<close> or \<open>on_case_committed\<close>, which run after the installation, raise: then
  the caller gets their error, an error of the database as STATE_WRITE_FAILED, although the case has changed.\<close>

theorem commit_is_atomic:
  assumes "commit sv io r g rv m = (r', x)"
  shows "((\<exists>e. x = Inl e) \<and> rp_base r' = rp_base r \<and> (\<forall>d. stored r' d = stored r d)) \<or>
    (case mutation_case_id r m of
       None \<Rightarrow>
         (\<exists>s k. sf_generation (rp_base r) = g \<and> apply_mutation sv (ci_now io) (rp_base r) None m = Inr (s, k) \<and>
            rp_base r' = s \<and> (\<forall>d. stored r' d = stored r d) \<and> x = Inr \<lparr>ct_generation = g + 1, ct_case_revision = None\<rparr>)
     | Some c \<Rightarrow>
         (\<exists>s k s' ag. read_case_state r c = (r, Inr s) \<and> sf_generation s = g \<and>
            apply_mutation sv (ci_now io) s rv m = Inr (s', k) \<and> map_of (sf_cases s') c = Some ag \<and>
            cases_kept (sf_cases s) (sf_cases s') \<and>
            stored r' c \<in> {Some s', Some (with_archive_status ''PENDING'' c s')} \<and>
            rp_base r' = rp_base r \<and> (\<forall>d. d = c \<or> stored r' d = stored r d) \<and>
            x = (case callback_error_of io (terminal_status (cs_status (ag_case ag))) of
                   None \<Rightarrow> Inr \<lparr>ct_generation = g + 1, ct_case_revision = Some (cs_case_revision (ag_case ag))\<rparr>
                 | Some Database_Raises \<Rightarrow> Inl (PortError (port_error EC_STATE_WRITE_FAILED msg_persist_failed))
                 | Some (Other_Raises e) \<Rightarrow> Inl e)))"
proof (cases "mutation_case_id r m")
  case None
  then show ?thesis using commit_base_outcome [OF assms] by (auto simp: same_cases_def)
next
  case (Some c)
  show ?thesis
  proof (rule disjE [OF commit_case_outcome [OF assms Some]])
    assume "(\<exists>e. x = Inl e) \<and> same_cases r r'"
    then show ?thesis by (auto simp: same_cases_def)
  next
    assume "\<exists>s s' ag. case_installed sv io r g rv m r' c s s' ag \<and>
      x = (case callback_error_of io (terminal_status (cs_status (ag_case ag))) of
             None \<Rightarrow> Inr \<lparr>ct_generation = g + 1, ct_case_revision = Some (cs_case_revision (ag_case ag))\<rparr>
           | Some h \<Rightarrow> Inl (raised_error h))"
    then obtain s s' ag where i: "case_installed sv io r g rv m r' c s s' ag"
      and x: "x = (case callback_error_of io (terminal_status (cs_status (ag_case ag))) of
             None \<Rightarrow> Inr \<lparr>ct_generation = g + 1, ct_case_revision = Some (cs_case_revision (ag_case ag))\<rparr>
           | Some h \<Rightarrow> Inl (raised_error h))" by blast
    obtain k where am: "apply_mutation sv (ci_now io) s rv m = Inr (s', k)" using i by (auto simp: case_installed_def)
    have "x = (case callback_error_of io (terminal_status (cs_status (ag_case ag))) of
             None \<Rightarrow> Inr \<lparr>ct_generation = g + 1, ct_case_revision = Some (cs_case_revision (ag_case ag))\<rparr>
           | Some Database_Raises \<Rightarrow> Inl (PortError (port_error EC_STATE_WRITE_FAILED msg_persist_failed))
           | Some (Other_Raises e) \<Rightarrow> Inl e)"
      unfolding x raised_error_def by (simp split: option.split callback_error.split)
    with i am apply_mutation_kept(1) [OF am] show ?thesis unfolding Some option.case case_installed_def
      by (intro disjI2 exI [of _ s] exI [of _ k] exI [of _ s'] exI [of _ ag]) (simp only: simp_thms)
  qed
qed

lemma st_claim_target: "mutation_case_id (st_repository st_pending) st_claim = Some ''case''"
  by (simp add: mutation_case_id_def st_claim_def control_mutation_def claimed_case_def st_case_def sc_data)

text \<open>The claim of the pending job replaces the case, whatever \<open>on_case_committed\<close> does afterwards.\<close>

definition st_claimed :: case_aggregate where
  "st_claimed = controlled (st_aggregate st_pending) (claimed_case st_case ''t8'')
     (claim_update st_pending st_epoch ''t8'') st_pending []"

lemma st_claim_replaces:
  assumes io: "ci_now io = ci_now st_io" "\<not> ci_database_fails io" "projection_error io = None" "ci_terminal io = None"
  shows "\<exists>r2. stored r2 ''case'' = Some (moved_file (st_file st_pending) ''case'' st_claimed ''t9'') \<and>
    commit st_env io (st_repository st_pending) 2 (Some 2) st_claim =
      announce io False [] \<lparr>ct_generation = 3, ct_case_revision = Some 3\<rparr> r2"
proof -
  let ?r = "st_repository st_pending" and ?ag = "st_aggregate st_pending"
  have sel: "ag_case ?ag = st_case" "cs_case_revision st_case = 2" "cs_status st_case = CS_RUNNING"
    "sf_generation (st_file st_pending) = 2" "ci_now st_io = ''t9''"
    by (simp_all add: st_aggregate_def empty_aggregate_def st_case_def st_file_def st_io_def sc_data)
  have missing: "pt_missing st_ports 0 (fixed_asset_refs st_pending) = []" by (simp add: st_ports_def)
  have am: "apply_mutation st_env (ci_now io) (st_file st_pending) (Some 2) st_claim =
      Inr (moved_file (st_file st_pending) ''case'' st_claimed ''t9'', Some ''case'')"
    using claim_decided(2) [OF st_file_ok [OF st_aggregate_valid(1)] st_lookup(3,4) st_claimable missing,
        of "ci_now st_io" "''t8''" st_epoch]
    by (simp add: sel st_claim_def st_claimed_def io(1))
  have claimed: "terminal_status (cs_status (ag_case st_claimed)) = False" "cs_case_revision (ag_case st_claimed) = 3"
    by (simp_all add: st_claimed_def controlled_def claimed_case_def sel)
  have rest: "rp_failure ?r = None" "mn_idempotency st_claim = []"
    "map_of (sf_cases (moved_file (st_file st_pending) ''case'' st_claimed ''t9'')) ''case'' = Some st_claimed"
    by (simp_all add: st_repository_def st_claim_def control_mutation_def empty_mutation_def moved_file_def)
  have "reserve_requests ''case'' (mn_idempotency st_claim) ?r = Some (?r\<lparr>rp_requests := []\<rparr>)"
    unfolding rest(2) by (simp add: reserve_requests_def index_all_def st_repository_def)
  from commit_replaces [OF rest(1) st_claim_target st_lookup(1) am rest(3) this io(2,3)]
  show ?thesis unfolding sel(4) by (auto simp: claimed rest(2) moved_file_def sel)
qed

lemma st_claim_commits:
  "\<exists>r' rc. commit st_env st_io (st_repository st_pending) 2 (Some 2) st_claim = (r', Inr rc)"
  using st_claim_replaces [of st_io] by (auto simp: st_io_def projection_error_def announce_def callback_error_of_def)

text \<open>The same world, where the read of the database in \<open>on_case_committed\<close> fails.\<close>

definition st_unheard :: commit_io where
  "st_unheard = st_io\<lparr>ci_case_committed := Some Database_Raises\<rparr>"

lemma st_unheard_fails:
  "\<exists>r' e. commit st_env st_unheard (st_repository st_pending) 2 (Some 2) st_claim = (r', Inl e) \<and>
    stored r' ''case'' = Some (moved_file (st_file st_pending) ''case'' st_claimed ''t9'')"
  using st_claim_replaces [of st_unheard]
  by (auto simp: st_unheard_def st_io_def projection_error_def announce_def callback_error_of_def commit_error_def
      write_failed_def Let_def)

theorem commit_is_atomic_witness:
  "(\<exists>r' rc. commit st_env st_io (st_repository st_pending) 2 (Some 2) st_claim = (r', Inr rc) \<and> ct_generation rc = 3 \<and>
      rp_base r' = initial_base ''installation'' ''t0'' \<and> stored r' ''other'' = None) \<and>
   (\<exists>r' e. commit st_env st_unheard (st_repository st_pending) 2 (Some 2) st_claim = (r', Inl e) \<and>
      stored r' ''case'' \<noteq> stored (st_repository st_pending) ''case'' \<and>
      e = PortError (port_error EC_STATE_WRITE_FAILED msg_persist_failed))"
proof
  obtain r' rc where c: "commit st_env st_io (st_repository st_pending) 2 (Some 2) st_claim = (r', Inr rc)"
    using st_claim_commits by blast
  have base: "stored (st_repository st_pending) ''other'' = None"
    "rp_base (st_repository st_pending) = initial_base ''installation'' ''t0''"
    by (simp_all add: stored_def st_repository_def)
  have io: "callback_error_of st_io b = None" for b by (simp add: st_io_def callback_error_of_def)
  have "ct_generation rc = 2 + 1" "rp_base r' = rp_base (st_repository st_pending)"
    "\<forall>d. d = ''case'' \<or> stored r' d = stored (st_repository st_pending) d"
    using commit_is_atomic [OF c] unfolding st_claim_target io by auto
  then show "\<exists>r' rc. commit st_env st_io (st_repository st_pending) 2 (Some 2) st_claim = (r', Inr rc) \<and> ct_generation rc = 3 \<and>
      rp_base r' = initial_base ''installation'' ''t0'' \<and> stored r' ''other'' = None"
    using c base by (auto dest: spec [of _ "''other''"])
next
  obtain r' e where c: "commit st_env st_unheard (st_repository st_pending) 2 (Some 2) st_claim = (r', Inl e)"
    and "stored r' ''case'' = Some (moved_file (st_file st_pending) ''case'' st_claimed ''t9'')"
    using st_unheard_fails by blast
  moreover have "stored (st_repository st_pending) ''case'' = Some (st_file st_pending)" by (rule st_lookup(1))
  moreover have "moved_file (st_file st_pending) ''case'' st_claimed ''t9'' \<noteq> st_file st_pending"
    by (auto simp: moved_file_def dest: arg_cong [of _ _ sf_generation])
  ultimately have changed: "stored r' ''case'' \<noteq> stored (st_repository st_pending) ''case''" by simp
  have io: "callback_error_of st_unheard b = Some Database_Raises" for b
    by (simp add: st_unheard_def st_io_def callback_error_of_def)
  have "e = PortError (port_error EC_STATE_WRITE_FAILED msg_persist_failed)"
    using commit_is_atomic [OF c] changed unfolding st_claim_target io by auto
  then show "\<exists>r' e. commit st_env st_unheard (st_repository st_pending) 2 (Some 2) st_claim = (r', Inl e) \<and>
      stored r' ''case'' \<noteq> stored (st_repository st_pending) ''case'' \<and>
      e = PortError (port_error EC_STATE_WRITE_FAILED msg_persist_failed)" using c changed by blast
qed

section \<open>Claims, failure reports and recovery\<close>

text \<open>C31. A pending job is claimed at most once. When a second client claims the job after the first one has read
  it and before the first one commits, the second one gets the running job with its own epoch, and the first one,
  after its refused commit and a second read, gets nothing and changes nothing.\<close>

theorem claim_is_exclusive:
  assumes "stored_job sv io r i c s ag j" "claimable ag j"
    and "at_store sv io Q" "undisturbed Q" "pt_missing Q 0 (fixed_asset_refs j) = []"
    and "at_store sv io P" "1 < pt_max_commit_attempts P" "pt_missing P 0 (fixed_asset_refs j) = []"
    and "\<And>n r. pt_other P n r = (if n = 1 then fst (claim_job sv Q i f r) else r)"
    and "is_uuid i" "is_uuid e" "is_uuid f"
  shows "\<exists>r'. claim_job sv Q i f r = (r', Inr (claimed (claimed_job j f (pt_now Q)))) \<and>
    claim_job sv P i e r = (r', Inr not_claimed)"
  by (rule live_store.claim_race [OF assms [unfolded live]])

theorem claim_is_exclusive_witness:
  "\<exists>r'. claim_job st_env st_ports st_job_id (st_id CHR ''4'') (st_repository st_pending) =
      (r', Inr (claimed (claimed_job st_pending (st_id CHR ''4'') ''t8''))) \<and>
    claim_job st_env st_raced st_job_id st_epoch (st_repository st_pending) = (r', Inr not_claimed)"
  using claim_is_exclusive [OF st_holds [OF st_aggregate_valid(1)] st_claimable st_connected(1,2) _ st_connected(3),
      of "st_id CHR ''4''" st_epoch] st_ids_valid
  by (simp add: st_ports_def st_raced_def st_job_id_def st_epoch_def)

text \<open>C32. An execution failure is applied exactly once. The first report of a failure of the running job ends the
  job and its case and records the failure; the same report again answers DUPLICATE with the current view, and a
  report with the same identifier and other content answers IDEMPOTENCY_CONFLICT; neither changes the store.\<close>

theorem failure_applied_once:
  assumes "stored_job sv io r i c s ag j" "supersedes_acyclic (cs_diagnosis_state (ag_case ag))"
    and "jb_status j = JS_RUNNING" "cs_active_job_id (ag_case ag) = Some i"
      "cs_status (ag_case ag) \<in> {CS_RUNNING, CS_REVIEWING}" "jb_runtime_epoch j = Some (fm_runtime_epoch k)"
    and k: "valid_failure_command k" "fm_job_id k = i" and "\<not> has_key (ag_failures ag) (fm_failure_id k)"
    and P: "at_store sv io P" "undisturbed P"
    and k': "valid_failure_command k'" "fm_job_id k' = i" "fm_failure_id k' = fm_failure_id k"
      "failure_hash sv (fm_execution_failure k') \<noteq> failure_hash sv (fm_execution_failure k)"
  shows "\<exists>r' s' ag' j' v w e.
    report_execution_infrastructure_failure sv P k r =
      (r', Inr \<lparr>fc_failure_id = fm_failure_id k, fc_disposition = FD_APPLIED, fc_case_view = Some v\<rparr>) \<and>
    stored_job sv io r' i c s' ag' j' \<and> jb_status j' = failure_status (fm_execution_failure k) \<and>
    control_case_status (jb_status j') = Some (cs_status (ag_case ag')) \<and> cs_active_job_id (ag_case ag') = None \<and>
    report_execution_infrastructure_failure sv P k r' =
      (r', Inr \<lparr>fc_failure_id = fm_failure_id k, fc_disposition = FD_DUPLICATE, fc_case_view = Some w\<rparr>) \<and>
    valid_case_view w \<and> cv_status w = cs_status (ag_case ag') \<and>
    report_execution_infrastructure_failure sv P k' r' = (r', Inl (PortError e)) \<and> ae_code e = EC_IDEMPOTENCY_CONFLICT"
proof -
  obtain r' s' ag' j' v where first: "report_execution_infrastructure_failure sv P k r =
      (r', Inr \<lparr>fc_failure_id = fm_failure_id k, fc_disposition = FD_APPLIED, fc_case_view = Some v\<rparr>)"
    and h: "stored_job sv io r' i c s' ag' j'" and st: "jb_status j' = failure_status (fm_execution_failure k)"
      "control_case_status (jb_status j') = Some (cs_status (ag_case ag'))" "cs_active_job_id (ag_case ag') = None"
    and f: "map_of (ag_failures ag') (fm_failure_id k) = Some (failure_record_of P k j)"
    using live_store.report_applied [OF assms(1-11) [unfolded live]] unfolding live by blast
  have id: "jb_job_id j = i" using live_store.holds_job_id assms(1) unfolding live by blast
  have new: "cs_status (ag_case ag') \<noteq> CS_NEW"
    using st(2) by (auto simp: control_case_status_def split: job_status.splits)
  have same: "same_report sv k (failure_record_of P k j)" "\<not> same_report sv k' (failure_record_of P k j)"
    using k k' id by (simp_all add: same_report_def failure_record_of_def)
  obtain w where "report_execution_infrastructure_failure sv P k r' =
      (r', Inr \<lparr>fc_failure_id = fm_failure_id k, fc_disposition = FD_DUPLICATE, fc_case_view = Some w\<rparr>)"
    "valid_case_view w" "cv_status w = cs_status (ag_case ag')"
    using live_store.report_repeated [OF h [unfolded live] f new k P [unfolded live]] same by auto
  moreover obtain e where "report_execution_infrastructure_failure sv P k' r' = (r', Inl (PortError e))"
    "ae_code e = EC_IDEMPOTENCY_CONFLICT"
    using live_store.report_repeated [OF h [unfolded live] f [folded k'(3)] new k'(1,2) P [unfolded live]] same by auto
  ultimately show ?thesis using first h st by blast
qed

theorem failure_applied_once_witness:
  "\<exists>r' v w e. report_execution_infrastructure_failure st_env st_ports (st_report ''x'') (st_repository st_running) =
      (r', Inr \<lparr>fc_failure_id = st_id CHR ''5'', fc_disposition = FD_APPLIED, fc_case_view = Some v\<rparr>) \<and>
    report_execution_infrastructure_failure st_env st_ports (st_report ''x'') r' =
      (r', Inr \<lparr>fc_failure_id = st_id CHR ''5'', fc_disposition = FD_DUPLICATE, fc_case_view = Some w\<rparr>) \<and>
    cv_status w = CS_INTERRUPTED \<and>
    report_execution_infrastructure_failure st_env st_ports (st_report ''y'') r' = (r', Inl (PortError e)) \<and>
    ae_code e = EC_IDEMPOTENCY_CONFLICT"
proof -
  have job: "jb_status st_running = JS_RUNNING" "jb_runtime_epoch st_running = Some (fm_runtime_epoch (st_report ''x''))"
    "cs_active_job_id (ag_case (st_aggregate st_running)) = Some st_job_id"
    "cs_status (ag_case (st_aggregate st_running)) \<in> {CS_RUNNING, CS_REVIEWING}"
    "\<not> has_key (ag_failures (st_aggregate st_running)) (fm_failure_id (st_report ''x''))"
    by (simp_all add: st_running_def st_report_def st_aggregate_def empty_aggregate_def st_case_def has_key_def sc_data)
  have valid: "valid_failure_command (st_report m)" "fm_job_id (st_report m) = st_job_id"
    "fm_failure_id (st_report m) = st_id CHR ''5''" "failure_hash st_env (fm_execution_failure (st_report m)) = m"
    "failure_status (fm_execution_failure (st_report m)) = JS_INTERRUPTED" for m
    using st_ids_valid
    by (simp_all add: valid_failure_command_def st_report_def st_job_id_def st_epoch_def failure_hash_def st_env_def sc_env_def
        failure_status_def conditional_failure_codes_def)
  have "control_case_status JS_INTERRUPTED = Some CS_INTERRUPTED" by (simp add: control_case_status_def)
  then show ?thesis
    using failure_applied_once [OF st_holds [OF st_aggregate_valid(2)] st_acyclic job(1,3,4,2) valid(1,2) job(5)
        st_connected(1,2) valid(1,2), of "''y''"] valid(3,4,5)
    by auto
qed

text \<open>C33. A job that an earlier runtime epoch left running is interrupted by the recovery of the new epoch: the
  job and its case are INTERRUPTED, the case has no active job, and no other case changes.\<close>

theorem recovery_interrupts_old_job:
  assumes "stored_job sv io r i c s ag j" "supersedes_acyclic (cs_diagnosis_state (ag_case ag))"
    and "old_running e j" "cs_active_job_id (ag_case ag) = Some i"
      "cs_status (ag_case ag) = expected_case_status (jb_job_type j)"
    and "at_store sv io P" "undisturbed P"
  shows "\<exists>r' s' ag' j'. interrupt_recovery_job sv P i e rid r = (r', Inr ()) \<and> stored_job sv io r' i c s' ag' j' \<and>
    jb_status j' = JS_INTERRUPTED \<and> cs_status (ag_case ag') = CS_INTERRUPTED \<and> cs_active_job_id (ag_case ag') = None \<and>
    (\<forall>d. d = c \<or> stored r' d = stored r d)"
  using live_store.old_job_interrupted [OF assms [unfolded live], of rid] unfolding live by blast

theorem recovery_interrupts_old_job_witness:
  "\<exists>r' s' ag' j'. interrupt_recovery_job st_env st_ports st_job_id (st_id CHR ''6'') (st_id CHR ''3'')
      (st_repository st_running) = (r', Inr ()) \<and>
    stored_job st_env st_io r' st_job_id ''case'' s' ag' j' \<and> jb_status j' = JS_INTERRUPTED"
proof -
  have job: "old_running (st_id CHR ''6'') st_running"
    "cs_active_job_id (ag_case (st_aggregate st_running)) = Some st_job_id"
    "cs_status (ag_case (st_aggregate st_running)) = expected_case_status (jb_job_type st_running)"
    by (simp_all add: old_running_def st_running_def st_aggregate_def empty_aggregate_def st_case_def sc_data st_epoch_def
        st_id_def spec_from_bindings_def spec_args_of_def expected_case_status_def)
  show ?thesis
    using recovery_interrupts_old_job [OF st_holds [OF st_aggregate_valid(2)] st_acyclic job st_connected(1,2),
        of "st_id CHR ''3''"] by blast
qed

section \<open>Views and continuations\<close>

lemma valid_state_case_in:
  assumes "valid_state sv s" "state_dicts s" "map_of (sf_cases s) i = Some ag"
  shows "case_in sv s i ag"
proof -
  have "valid_aggregate sv ag" "agg_dicts ag"
    using assms by (auto simp: valid_state_def state_dicts_def list_all_iff dest!: map_of_SomeD)
  moreover have "cs_case_id (ag_case ag) = i"
    using assms(1,3) keyed_get by (fastforce simp: valid_state_def validate_state_file_def)
  ultimately show ?thesis using assms(3) by (simp add: case_in_def)
qed

text \<open>C34. Reads never fail on a valid state: every case of it that is not a NEW case with an active job has a
  valid public view with the status and the active job of the case, and every case has a valid snapshot for the
  coordinator, with the case itself and its active job.\<close>

theorem every_case_is_readable:
  assumes "valid_state sv s" "state_dicts s" "map_of (sf_cases s) i = Some ag"
  shows "(\<exists>sn. build_case_snapshot sv s i = Inr sn \<and> valid_snapshot (sv_py sv) sn \<and> sn_case sn = ag_case ag \<and>
      active_job_of ag = Inr (sn_active_job sn)) \<and>
    ((cs_status (ag_case ag) = CS_NEW \<longrightarrow> cs_active_job_id (ag_case ag) = None) \<longrightarrow>
      (\<exists>v. project_case_view sv s i = Inr v \<and> valid_case_view v \<and> cv_case_id v = i \<and>
        cv_status v = cs_status (ag_case ag) \<and> map_option sj_job_id (cv_active_job v) = cs_active_job_id (ag_case ag)))"
  using build_case_snapshot_total project_case_view_total valid_state_case_in [OF assms] by blast

theorem every_case_is_readable_witness:
  "\<exists>v. project_case_view st_env (st_file st_running) ''case'' = Inr v \<and> valid_case_view v \<and> cv_status v = CS_RUNNING \<and>
     map_option sj_job_id (cv_active_job v) = Some st_job_id"
proof -
  have st: "valid_state st_env (st_file st_running)" "state_dicts (st_file st_running)"
    "map_of (sf_cases (st_file st_running)) ''case'' = Some (st_aggregate st_running)"
    using st_file_ok [OF st_aggregate_valid(2)] by (simp_all add: case_file_def)
  have "cs_status (ag_case (st_aggregate st_running)) = CS_RUNNING"
    "cs_active_job_id (ag_case (st_aggregate st_running)) = Some st_job_id"
    by (simp_all add: st_aggregate_def empty_aggregate_def st_case_def sc_data)
  then show ?thesis using every_case_is_readable [OF st] by auto
qed

text \<open>C35. What a follow-up job inherits after an outcome is closed: every inherited attachment, artifact and
  previous outcome resolves to a usable object of the case (the new outcome itself apart, which is saved with the
  job), the source of every inherited evidence item is inherited too, the evidence is the one of the diagnosis state, and
  nothing the source job had, its evidence included, is dropped.\<close>

theorem continuation_is_closed:
  assumes "case_in sv s (oc_case_id oc) ag" "map_of (ag_jobs ag) (oc_job_id oc) = Some j"
    and "continuation_for_outcome s oc = Inr v"
  shows "continuation_closed ag (Some (oc_outcome_id oc)) v \<and>
    cr_evidence_refs v = ds_evidence_refs (cs_diagnosis_state (ag_case ag)) \<and>
    set (jb_evidence_refs j) \<subseteq> set (cr_evidence_refs v) \<and>
    set (jb_attachment_refs j) \<subseteq> set (cr_attachment_refs v) \<and> set (jb_artifact_refs j) \<subseteq> set (cr_artifact_refs v) \<and>
    set (oc_outcome_id oc # jb_previous_outcome_refs j) \<subseteq> set (cr_previous_outcome_refs v)"
proof -
  have ag: "valid_aggregate sv ag" using assms(1) by (simp add: case_in_def)
  have "continuation_closure ag j [oc_outcome_id oc] (Some (oc_outcome_id oc)) None [] = Inr v"
    using assms(2,3) case_in_aggregate [OF assms(1)]
    by (auto simp: continuation_for_outcome_def source_job_of_def ensure_def bindE_Inr split: if_split_asm)
  note closed = closure_closed [OF ag this]
  show ?thesis using closed(1-5) closed(6) by (intro conjI) simp_all
qed

lemmas st_evidence_data = st_evidence_aggregate_def st_evidence_file_def st_attachment_def st_evidence_def
  st_outcome_def st_aggregate_def empty_aggregate_def st_case_def sc_data

lemma st_evidence_in: "case_in st_env st_evidence_file ''case'' st_evidence_aggregate"
proof -
  have "valid_case sc_env (ag_case st_evidence_aggregate)"
    by (simp add: run_valid_case run_valid_state st_evidence_data)
  then have "valid_aggregate st_env st_evidence_aggregate"
    using st_jobs_valid(2)
    by (simp add: run_aggregate st_evidence_data st_env_def Let_def List.map_filter_simps st_running_def
        spec_from_bindings_def spec_args_of_def valid_evidence_def agg_evidence_item_def ready_attachment_def
        has_key_def)
  moreover have "agg_dicts st_evidence_aggregate" "cs_case_id (ag_case st_evidence_aggregate) = ''case''"
    by (simp_all add: agg_dicts_def dict_ok_def st_evidence_data)
  ultimately show ?thesis by (simp add: case_in_def st_evidence_file_def)
qed

lemma st_evidence_continuation:
  "continuation_for_outcome st_evidence_file st_outcome =
     Inr \<lparr>cr_evidence_refs = [''ev''], cr_attachment_refs = [''att''], cr_artifact_refs = [],
       cr_previous_outcome_refs = [''outcome'']\<rparr>"
  by (simp add: continuation_for_outcome_def case_aggregate_of_def source_job_of_def continuation_closure_def
      st_evidence_data st_running_def spec_from_bindings_def spec_args_of_def ensure_def Let_def append_unique_def
      formal_evidence_def formal_attachment_def append_evidence_dependencies_def valid_continuation_def has_key_def)

theorem continuation_is_closed_witness:
  "continuation_closed st_evidence_aggregate (Some ''outcome'')
     \<lparr>cr_evidence_refs = [''ev''], cr_attachment_refs = [''att''], cr_artifact_refs = [],
      cr_previous_outcome_refs = [''outcome'']\<rparr>"
proof -
  have x: "oc_case_id st_outcome = ''case''" "oc_outcome_id st_outcome = ''outcome''"
    "map_of (ag_jobs st_evidence_aggregate) (oc_job_id st_outcome) = Some st_running"
    by (simp_all add: st_evidence_data)
  show ?thesis
    using continuation_is_closed [OF _ x(3) st_evidence_continuation, of st_env] st_evidence_in unfolding x(1,2) by blast
qed

section \<open>Direct outcomes\<close>

text \<open>For a job of the specialised direct mode, the general check of an outcome against its job and the
  shortcut for direct outcomes agree, on accepted and on rejected outcomes.\<close>

lemma direct_outcome_check_agrees:
  assumes "job_direct j"
  shows "validate_outcome_for_job j oc None = validate_direct_outcome j oc"
  by (rule validate_direct_agrees [OF assms])

section \<open>Recovery records of the repository\<close>

lemma retry_refused:
  assumes "\<And>n. body n r = Refused r e" "0 < k"
  shows "retry body k n r = (r, Inl e)"
  using assms(2) by (induction k arbitrary: n) (auto simp: assms(1))

text \<open>C37. The start of a recovery reads all cases, which gives the largest generation of any of them, but its commit
  names no case and is compared with the generation of the base state: once a stored case is ahead of the base,
  every attempt is refused and the recovery never starts.\<close>

theorem recovery_start_conflicts:
  assumes P: "pt_read_all P = read_all sv" "pt_commit P = commit sv io" "undisturbed P" "0 < pt_max_commit_attempts P"
    and r: "rp_failure r = None" "read_all sv r = (r, Inr s)" "sf_generation s \<noteq> sf_generation (rp_base r)"
    and new: "\<not> has_key (sf_recovery s) rid" "sf_runtime_epochs s = []" "sf_recovery s = []"
    and ok: "valid_recovery_record (new_recovery e rid s)"
  shows "ensure_recovery_started P e rid r = (r, conflict msg_process_metadata_changed)"
proof -
  let ?m = "recovery_mutation \<lparr>xe_runtime_epoch = e, xe_started_at = pt_now P, xe_recovery_id = rid,
    xe_recovery_completed_at = None\<rparr> (new_recovery e rid s)"
  have m: "build_state_mutation ?m = Inr ?m"
    by (simp add: build_state_mutation_def recovery_mutation_def empty_mutation_def valid_mutation_def mutation_cases_def ensure_def)
  have dec: "start_decision P e rid n s = Submit None ?m (Inr (new_recovery e rid s))" for n
    using new ok m by (simp add: start_decision_def escaping_def ensure_def Let_def)
  have "mutation_case_id r ?m = None"
    by (simp add: mutation_case_id_def recovery_mutation_def empty_mutation_def head_of_def)
  then have "commit sv io r (sf_generation s) None ?m = (r, conflict msg_process_metadata_changed)"
    using r by (simp add: commit_def)
  then have "run_attempt P (pt_read_all P) (start_decision P e rid) n r =
      Refused r (PortError (port_error EC_REVISION_CONFLICT msg_process_metadata_changed))" for n
    using P r(2) dec by (simp add: run_attempt_def undisturbed_def conflict_def)
  from retry_refused [of "run_attempt P (pt_read_all P) (start_decision P e rid)", OF this P(4)]
  show ?thesis by (simp add: ensure_recovery_started_def command_def conflict_def)
qed

theorem recovery_start_conflicts_witness:
  "ensure_recovery_started st_ports (st_id CHR ''6'') (st_id CHR ''3'') (st_repository st_running) =
     (st_repository st_running, conflict msg_process_metadata_changed)"
proof -
  let ?r = "st_repository st_running" and ?s = "merge_state st_env (initial_base ''installation'' ''t0'') (st_file st_running)"
  have read: "read_all st_env ?r = (?r, Inr ?s)"
    using read_stored [OF st_lookup(1), of st_running]
    by (simp add: read_all_def) (simp add: st_repository_def)
  have "state_jobs ?s = [st_running]"
    by (simp add: state_jobs_def merge_state_def dict_merge_def st_file_def st_aggregate_def initial_base_def)
  then have ok: "valid_recovery_record (new_recovery (st_id CHR ''6'') (st_id CHR ''3'') ?s)"
    by (simp add: valid_recovery_record_def new_recovery_def st_running_def sc_data old_running_def)
  show ?thesis
    using st_connected(2)
    by (intro recovery_start_conflicts [OF _ _ _ _ _ read _ _ _ _ ok, where io = st_io])
      (simp_all add: st_ports_def st_repository_def merge_state_def st_file_def initial_base_def has_key_def)
qed

end
