(* ===== verification/Json_Printing.thy ===== *)
theory Json_Printing
  imports Canonical_Json
begin

text \<open>
  Canonical JSON determines the value it prints, up to the order of object keys: every printed value is a prefix
  code word when it is followed by a delimiter. So a canonical hash identifies the value as far as SHA-256 does.
\<close>

section \<open>Normal form\<close>

text \<open>The value with the keys of every object sorted.\<close>

fun json_normal :: "json \<Rightarrow> json" where
  "json_normal (JList xs) = JList (map json_normal xs)"
| "json_normal (JObj kvs) = JObj (sort_key fst (map (\<lambda>(k, v). (k, json_normal v)) kvs))"
| "json_normal j = j"

lemma sort_key_pairs:
  "sort_key fst (map (\<lambda>p. (fst p, f (fst p) (snd p))) kvs) = map (\<lambda>p. (fst p, f (fst p) (snd p))) (sort_key fst kvs)"
proof (induction kvs)
  case (Cons p kvs)
  have "insort_key fst (fst q, f (fst q) (snd q)) (map (\<lambda>p. (fst p, f (fst p) (snd p))) xs) =
      map (\<lambda>p. (fst p, f (fst p) (snd p))) (insort_key fst q xs)" for q xs
    by (induction xs) auto
  then show ?case using Cons by simp
qed simp

definition json_entry :: "text_t \<times> json \<Rightarrow> text_t" where
  "json_entry e = json_quote (fst e) @ '':'' @ json_dumps (snd e)"

lemma json_dumps_obj: "json_dumps (JObj kvs) = CHR ''{'' # joined (map json_entry (sort_key fst kvs)) @ [CHR ''}'']"
  using sort_key_pairs [of "\<lambda>k v. json_quote k @ '':'' @ json_dumps v" kvs]
  by (simp add: case_prod_unfold comp_def json_entry_def [abs_def])

lemma json_normal_obj: "json_normal (JObj kvs) = JObj (map (\<lambda>(k, v). (k, json_normal v)) (sort_key fst kvs))"
  using sort_key_pairs [of "\<lambda>k v. json_normal v" kvs] by (simp add: case_prod_unfold)

declare json_dumps.simps(6) [simp del] json_normal.simps(2) [simp del]

section \<open>Numbers\<close>

definition is_digit :: "char \<Rightarrow> bool" where
  "is_digit c \<longleftrightarrow> 48 \<le> (of_char c :: nat) \<and> (of_char c :: nat) \<le> 57"

definition delimited :: "text_t \<Rightarrow> bool" where
  "delimited r \<longleftrightarrow> (case r of [] \<Rightarrow> True | c # _ \<Rightarrow> \<not> is_digit c)"

lemma digit_char: "n < 10 \<Longrightarrow> of_char (char_of (48 + n)) = (48 + n :: nat)"
  by simp

lemma nat_str_digits: "nat_str n \<noteq> [] \<and> list_all is_digit (nat_str n)"
proof (induction n rule: nat_str.induct)
  case (1 n)
  have "is_digit (char_of (48 + k))" if "k < 10" for k :: nat using that by (simp add: is_digit_def)
  then show ?case using 1 by (subst (1 2) nat_str.simps) simp
qed

definition digits_value :: "text_t \<Rightarrow> nat" where
  "digits_value s = foldl (\<lambda>a c. 10 * a + (of_char c - 48)) 0 s"

lemma nat_str_value: "digits_value (nat_str n) = n"
  by (induction n rule: nat_str.induct) (subst nat_str.simps, auto simp: digits_value_def digit_char)

lemma delimited_prefix:
  assumes "list_all is_digit xs" "list_all is_digit ys" "delimited r" "delimited r'" "xs @ r = ys @ r'"
  shows "xs = ys \<and> r = r'"
proof -
  have "takeWhile is_digit (xs @ r) = xs" "takeWhile is_digit (ys @ r') = ys"
    using assms(1-4) by (auto simp: list_all_iff delimited_def takeWhile_append2 split: list.splits)
  then show ?thesis using assms(5) by auto
qed

lemma nat_str_prefix: "nat_str m @ r = nat_str n @ r' \<Longrightarrow> delimited r \<Longrightarrow> delimited r' \<Longrightarrow> m = n \<and> r = r'"
  using delimited_prefix [of "nat_str m" "nat_str n" r r'] nat_str_digits nat_str_value by metis

lemma hd_nat_str: "is_digit (hd (nat_str n))"
  using nat_str_digits [of n] by (cases "nat_str n") auto

lemma int_str_prefix:
  assumes "int_str i @ r = int_str k @ r'" "delimited r" "delimited r'"
  shows "i = k \<and> r = r'"
proof -
  have minus: "\<not> is_digit (CHR ''-'')" by (simp add: is_digit_def)
  have no: "nat_str m @ x \<noteq> CHR ''-'' # y" for m x y
    using hd_nat_str [of m] nat_str_digits [of m] minus by (cases "nat_str m") auto
  show ?thesis
  proof (cases "i < 0")
    case True
    then have "k < 0" using assms(1) no [of "nat k" r' "nat_str (nat (- i)) @ r"] by (auto simp: int_str_def split: if_splits)
    then have "nat (- i) = nat (- k) \<and> r = r'"
      using True assms nat_str_prefix [of "nat (- i)" r "nat (- k)" r'] by (simp add: int_str_def)
    with \<open>k < 0\<close> True show ?thesis by auto
  next
    case False
    then have "\<not> k < 0" using assms(1) no [of "nat i" r "nat_str (nat (- k)) @ r'"] by (auto simp: int_str_def split: if_splits)
    then have "nat i = nat k \<and> r = r'"
      using False assms nat_str_prefix [of "nat i" r "nat k" r'] by (simp add: int_str_def)
    with \<open>\<not> k < 0\<close> False show ?thesis by auto
  qed
qed

section \<open>Strings\<close>

text \<open>Reading one escaped character back.\<close>

definition hex_value :: "char \<Rightarrow> nat" where
  "hex_value c = (let n = of_char c in if n < 58 then n - 48 else n - 87)"

lemma hex_value_digit: "n < 16 \<Longrightarrow> hex_value (hex_digit n) = n"
  by (simp add: hex_value_def hex_digit_def)

fun unescape :: "text_t \<Rightarrow> (char \<times> text_t) option" where
  "unescape [] = None"
| "unescape (x # r) =
     (if of_char x \<noteq> (92 :: nat) then Some (x, r)
      else case r of
        [] \<Rightarrow> None
      | y # s \<Rightarrow>
          if of_char y = (110 :: nat) then Some (char_of (10 :: nat), s)
          else if of_char y = (114 :: nat) then Some (char_of (13 :: nat), s)
          else if of_char y = (116 :: nat) then Some (char_of (9 :: nat), s)
          else if of_char y = (102 :: nat) then Some (char_of (12 :: nat), s)
          else if of_char y = (98 :: nat) then Some (char_of (8 :: nat), s)
          else if of_char y = (117 :: nat) then Some (char_of (16 * hex_value (s ! 2) + hex_value (s ! 3)), drop 4 s)
          else Some (y, s))"

lemma unescape_escape: "unescape (json_escape c @ r) = Some (c, r)"
proof -
  let ?n = "of_char c :: nat"
  have c: "c = char_of ?n" by simp
  consider "?n = 34" | "?n = 92" | "?n = 10" | "?n = 13" | "?n = 9" | "?n = 12" | "?n = 8"
    | (control) "?n < 32" "?n \<notin> {8, 9, 10, 12, 13}" | (plain) "\<not> ?n < 32" "?n \<noteq> 34" "?n \<noteq> 92" by fastforce
  then show ?thesis
  proof cases
    case control
    have "16 * hex_value (hex_digit (?n div 16)) + hex_value (hex_digit (?n mod 16)) = ?n"
      using control(1) by (simp add: hex_value_digit)
    then show ?thesis using control by (simp add: json_escape_def Let_def)
  next
    case plain
    then show ?thesis by (simp add: json_escape_def Let_def)
  qed (use c in \<open>simp_all add: json_escape_def Let_def\<close>)
qed

lemma escape_prefix: "json_escape c @ r = json_escape d @ s \<Longrightarrow> c = d \<and> r = s"
  by (metis option.inject prod.inject unescape_escape)

lemma escape_not_quote: "json_escape c @ r \<noteq> char_of (34 :: nat) # s"
proof -
  have "hd (json_escape c) \<noteq> char_of (34 :: nat)" "json_escape c \<noteq> []"
    by (auto simp: json_escape_def Let_def)
  then show ?thesis by (cases "json_escape c") auto
qed

lemma escapes_prefix:
  "concat (map json_escape s) @ char_of (34 :: nat) # r = concat (map json_escape t) @ char_of (34 :: nat) # r' \<Longrightarrow> s = t \<and> r = r'"
proof (induction s arbitrary: t)
  case Nil
  then show ?case using escape_not_quote by (cases t) (fastforce dest: sym)+
next
  case (Cons c s)
  then obtain d t' where t: "t = d # t'" using escape_not_quote by (cases t) fastforce+
  then show ?case using Cons escape_prefix [of c _ d] by fastforce
qed

lemma quote_prefix: "json_quote s @ r = json_quote t @ r' \<Longrightarrow> s = t \<and> r = r'"
  using escapes_prefix [of s r t r'] by (simp add: json_quote_def)

section \<open>Values\<close>

text \<open>The first character tells the kind of the value.\<close>

fun json_kind :: "json \<Rightarrow> nat" where
  "json_kind JNull = 0"
| "json_kind (JBool b) = (if b then 1 else 2)"
| "json_kind (JInt i) = 3"
| "json_kind (JStr s) = 4"
| "json_kind (JList xs) = 5"
| "json_kind (JObj kvs) = 6"

definition char_kind :: "char \<Rightarrow> nat" where
  "char_kind c =
     (let n = of_char c :: nat
      in if n = 110 then 0 else if n = 116 then 1 else if n = 102 then 2 else if n = 34 then 4
         else if n = 91 then 5 else if n = 123 then 6 else 3)"

lemma digit_kind: "is_digit c \<Longrightarrow> char_kind c = 3"
  by (auto simp: is_digit_def char_kind_def)

lemma dumps_head: "json_dumps j \<noteq> [] \<and> char_kind (hd (json_dumps j)) = json_kind j"
proof (cases j)
  case (JInt i)
  then show ?thesis using nat_str_digits digit_kind [OF hd_nat_str]
    by (cases "i < 0") (simp_all add: int_str_def, simp add: char_kind_def)
qed (auto simp: json_dumps_obj json_quote_def char_kind_def)

lemma dumps_same_kind:
  assumes "json_dumps j @ r = json_dumps k @ r'"
  shows "json_kind j = json_kind k"
  using dumps_head [of j] dumps_head [of k] arg_cong [OF assms, of hd] by simp

definition closer :: "char \<Rightarrow> bool" where
  "closer c \<longleftrightarrow> of_char c = (93 :: nat) \<or> of_char c = (125 :: nat)"

definition opens :: "text_t \<Rightarrow> bool" where
  "opens t \<longleftrightarrow> (case t of [] \<Rightarrow> False | c # _ \<Rightarrow> \<not> closer c)"

lemma opens_dumps: "opens (json_dumps j)"
proof (cases j)
  case (JInt i)
  have "\<not> closer c" if "is_digit c" for c using that by (auto simp: is_digit_def closer_def)
  then have "opens (nat_str n)" for n using nat_str_digits [of n] by (cases "nat_str n") (auto simp: opens_def)
  then show ?thesis using JInt by (simp add: int_str_def opens_def closer_def)
qed (auto simp: json_dumps_obj json_quote_def opens_def closer_def)

lemma opens_entry: "opens (json_entry e)"
  by (simp add: opens_def closer_def json_entry_def json_quote_def)

lemma opens_append: "opens t \<Longrightarrow> closer c \<Longrightarrow> t @ r \<noteq> c # s"
  by (cases t) (auto simp: opens_def)

lemma joined_Cons: "joined (x # xs) = x @ (if xs = [] then [] else CHR '','' # joined xs)"
  by (cases xs) auto

lemma joined_prefix:
  assumes "\<And>x y r r'. x \<in> set xs \<Longrightarrow> f x @ r = f y @ r' \<Longrightarrow> delimited r \<Longrightarrow> delimited r' \<Longrightarrow> g x = g y \<and> r = r'"
    and opens: "\<And>x. opens (f x)" and c: "closer c"
    and "joined (map f xs) @ c # r = joined (map f ys) @ c # r'"
  shows "map g xs = map g ys \<and> r = r'"
  using assms(1,4)
proof (induction xs arbitrary: ys)
  case Nil
  show ?case
  proof (cases ys)
    case (Cons y zs)
    have "f y @ (if zs = [] then [] else CHR '','' # joined (map f zs)) @ c # r' = c # r"
      using Nil.prems(2) Cons by (simp add: joined_Cons)
    then show ?thesis using opens_append [OF opens c] by blast
  qed (use Nil in simp)
next
  case (Cons x xs)
  have "f x @ (if xs = [] then [] else CHR '','' # joined (map f xs)) @ c # r = joined (map f ys) @ c # r'"
    using Cons.prems(2) by (simp add: joined_Cons)
  then have "ys \<noteq> []" using opens_append [OF opens [of x] c] by auto
  then obtain y zs where zs: "ys = y # zs" by (cases ys) auto
  let ?tail = "\<lambda>xs r. if xs = [] then c # r else CHR '','' # joined (map f xs) @ c # r"
  have eq: "f x @ ?tail xs r = f y @ ?tail zs r'"
    using Cons.prems(2) zs by (cases "xs = []"; cases "zs = []") (simp_all add: joined_Cons)
  have d: "delimited (?tail us q)" for us q using c by (auto simp: delimited_def is_digit_def closer_def)
  have step: "g x = g y \<and> ?tail xs r = ?tail zs r'" using Cons.prems(1) [OF _ eq d d] by simp
  have comma: "c \<noteq> CHR '',''" using c by (auto simp: closer_def)
  show ?case
  proof (cases "xs = []")
    case True
    then have "zs = [] \<and> r = r'" using step comma by (cases "zs = []") simp_all
    then show ?thesis using True step zs by simp
  next
    case False
    then have "zs \<noteq> [] \<and> joined (map f xs) @ c # r = joined (map f zs) @ c # r'"
      using step comma by (cases "zs = []") simp_all
    then have "map g xs = map g zs \<and> r = r'"
      by (intro Cons.IH) (rule Cons.prems(1), simp, assumption+, blast)
    then show ?thesis using step zs by simp
  qed
qed

lemma kind_cases:
  "json_kind k = json_kind JNull \<Longrightarrow> k = JNull" "json_kind k = json_kind (JBool b) \<Longrightarrow> k = JBool b"
  "json_kind k = json_kind (JInt i) \<Longrightarrow> \<exists>l. k = JInt l" "json_kind k = json_kind (JStr s) \<Longrightarrow> \<exists>t. k = JStr t"
  "json_kind k = json_kind (JList xs) \<Longrightarrow> \<exists>ys. k = JList ys" "json_kind k = json_kind (JObj kvs) \<Longrightarrow> \<exists>ls. k = JObj ls"
  by (cases k; simp split: if_splits)+

lemma dumps_prefix:
  "json_dumps j @ r = json_dumps k @ r' \<Longrightarrow> delimited r \<Longrightarrow> delimited r' \<Longrightarrow> json_normal j = json_normal k \<and> r = r'"
proof (induction j arbitrary: k r r')
  case JNull
  then show ?case using kind_cases(1) [OF dumps_same_kind [OF JNull(1), symmetric]] by auto
next
  case (JBool b)
  then show ?case using kind_cases(2) [OF dumps_same_kind [OF JBool(1), symmetric]] by auto
next
  case (JInt i)
  then obtain l where k: "k = JInt l" using kind_cases(3) [OF dumps_same_kind [OF JInt(1), symmetric]] by blast
  then have "int_str i @ r = int_str l @ r'" using JInt(1) by simp
  then have "i = l \<and> r = r'" by (rule int_str_prefix [OF _ JInt(2,3)])
  then show ?case using k by simp
next
  case (JStr s)
  then obtain t where k: "k = JStr t" using kind_cases(4) [OF dumps_same_kind [OF JStr(1), symmetric]] by blast
  then have "json_quote s @ r = json_quote t @ r'" using JStr(1) by simp
  then have "s = t \<and> r = r'" by (rule quote_prefix)
  then show ?case using k by simp
next
  case (JList xs)
  then obtain ys where k: "k = JList ys" using kind_cases(5) [OF dumps_same_kind [OF JList(2), symmetric]] by blast
  have "map json_normal xs = map json_normal ys \<and> r = r'"
  proof (rule joined_prefix [where f = json_dumps and c = "CHR '']''"])
    show "joined (map json_dumps xs) @ CHR '']'' # r = joined (map json_dumps ys) @ CHR '']'' # r'"
      using JList(2) k by simp
    show "json_normal x = json_normal y \<and> q = q'"
      if "x \<in> set xs" "json_dumps x @ q = json_dumps y @ q'" "delimited q" "delimited q'" for x y q q'
      by (rule JList(1) [OF that])
  qed (simp_all add: opens_dumps closer_def)
  then show ?case using k by simp
next
  case (JObj kvs)
  then obtain ls where k: "k = JObj ls" using kind_cases(6) [OF dumps_same_kind [OF JObj(2), symmetric]] by blast
  let ?g = "\<lambda>(k, v). (k, json_normal v)"
  have entry: "?g x = ?g y \<and> q = q'"
    if "x \<in> set (sort_key fst kvs)" "json_entry x @ q = json_entry y @ q'" "delimited q" "delimited q'" for x y q q'
  proof -
    obtain a v b w where xy: "x = (a, v)" "y = (b, w)" by (cases x, cases y)
    have ab: "a = b \<and> CHR '':'' # json_dumps v @ q = CHR '':'' # json_dumps w @ q'"
      by (rule quote_prefix) (use that(2) xy in \<open>simp add: json_entry_def\<close>)
    have "(a, v) \<in> set kvs" using that(1) xy by simp
    moreover have "json_dumps v @ q = json_dumps w @ q'" using ab by blast
    ultimately have "json_normal v = json_normal w \<and> q = q'"
      by (intro JObj(1) [of "(a, v)" v q w q']) (simp_all add: that(3,4))
    then show ?thesis using ab xy by simp
  qed
  have "map ?g (sort_key fst kvs) = map ?g (sort_key fst ls) \<and> r = r'"
  proof (rule joined_prefix [where f = json_entry and c = "CHR ''}''", OF entry])
    show "joined (map json_entry (sort_key fst kvs)) @ CHR ''}'' # r = joined (map json_entry (sort_key fst ls)) @ CHR ''}'' # r'"
      using JObj(2) k by (simp add: json_dumps_obj)
  qed (simp_all add: opens_entry closer_def)
  then show ?case using k by (simp add: json_normal_obj)
qed

lemma dumps_normal: "json_dumps (json_normal j) = json_dumps j"
proof (induction j)
  case (JList xs)
  then show ?case by (simp add: comp_def cong: map_cong)
next
  case (JObj kvs)
  have sorted: "sort_key fst (map (\<lambda>(k, v). (k, json_normal v)) (sort_key fst kvs)) =
      map (\<lambda>(k, v). (k, json_normal v)) (sort_key fst kvs)"
    using sort_key_pairs [of "\<lambda>k v. json_normal v" "sort_key fst kvs"] sort_key_id_if_sorted [of fst "sort_key fst kvs"]
    by (simp add: case_prod_unfold)
  have "json_entry (fst p, json_normal (snd p)) = json_entry p" if "p \<in> set kvs" for p
    using JObj [of p "snd p"] that by (cases p) (simp add: json_entry_def)
  then have "map json_entry (map (\<lambda>(k, v). (k, json_normal v)) (sort_key fst kvs)) = map json_entry (sort_key fst kvs)"
    by (simp add: case_prod_unfold)
  then show ?case by (simp add: json_normal_obj json_dumps_obj sorted del: map_map)
qed auto

text \<open>The canonical bytes are equal exactly for values with the same normal form.\<close>

lemma canonical_json_bytes_inj: "canonical_json_bytes j = canonical_json_bytes k \<longleftrightarrow> json_normal j = json_normal k"
proof
  assume "canonical_json_bytes j = canonical_json_bytes k"
  then show "json_normal j = json_normal k"
    using dumps_prefix [of j "[char_of (10 :: nat)]" k] by (simp add: canonical_json_bytes_def delimited_def is_digit_def)
next
  assume "json_normal j = json_normal k"
  then show "canonical_json_bytes j = canonical_json_bytes k"
    using dumps_normal by (metis canonical_json_bytes_def)
qed

end
