(* ===== verification/Command_Models.thy ===== *)
theory Command_Models
  imports Json_Printing State_File
begin

text \<open>
  The external write commands of \<open>contracts/models.py\<close> with their validators, the projection of a command to
  the JSON object its request hash is computed from (\<open>contracts/serialization.py\<close>), and the idempotency
  decision of \<open>application/idempotency.py\<close>. The hash leaves \<open>wait_seconds\<close> out and omits the optional fields
  whose schema says so; everything else of a command is recovered from the canonical bytes.
\<close>

section \<open>Attachment names\<close>

datatype filename_suffix = FS_GZ | FS_ZIP | FS_TAR_GZ | FS_TGZ | FS_TAR

fun suffix_text :: "filename_suffix \<Rightarrow> text_t" where
  "suffix_text FS_GZ = ''.gz''"
| "suffix_text FS_ZIP = ''.zip''"
| "suffix_text FS_TAR_GZ = ''.tar.gz''"
| "suffix_text FS_TGZ = ''.tgz''"
| "suffix_text FS_TAR = ''.tar''"

text \<open>\<open>sorted(AttachmentFilenameSuffix, key=len, reverse=True)\<close>, which is stable.\<close>

definition suffixes_longest_first :: "filename_suffix list" where
  "suffixes_longest_first = [FS_TAR_GZ, FS_ZIP, FS_TGZ, FS_TAR, FS_GZ]"

definition suffixes_of_content_type :: "text_t \<Rightarrow> filename_suffix list option" where
  "suffixes_of_content_type ct =
     (if ct = ''application/gzip'' then Some [FS_TAR_GZ, FS_TGZ, FS_GZ]
      else if ct = ''application/zip'' then Some [FS_ZIP]
      else if ct = ''application/x-tar'' then Some [FS_TAR]
      else None)"

definition is_letter :: "char \<Rightarrow> bool" where
  "is_letter c \<longleftrightarrow> CHR ''A'' \<le> c \<and> c \<le> CHR ''Z'' \<or> CHR ''a'' \<le> c \<and> c \<le> CHR ''z''"

text \<open>A code point of category Cc in UTF-8: below 32, 127, or 128 to 159 as two bytes.\<close>

fun has_control :: "nat list \<Rightarrow> bool" where
  "has_control [] = False"
| "has_control [a] = (a < 32 \<or> a = 127)"
| "has_control (a # b # s) = (a < 32 \<or> a = 127 \<or> a = 194 \<and> 128 \<le> b \<and> b \<le> 159 \<or> has_control (b # s))"

definition valid_attachment_filename :: "text_t \<Rightarrow> bool" where
  "valid_attachment_filename name \<longleftrightarrow>
     valid_text name \<and> name \<notin> {''.'', ''..''} \<and> CHR ''/'' \<notin> set name \<and> CHR 0x5C \<notin> set name \<and>
     \<not> (case name of a # b # _ \<Rightarrow> is_letter a \<and> b = CHR '':'' | _ \<Rightarrow> False) \<and>
     \<not> has_control (map of_char name)"

definition media_head :: "char \<Rightarrow> bool" where
  "media_head c \<longleftrightarrow> CHR ''a'' \<le> c \<and> c \<le> CHR ''z'' \<or> CHR ''0'' \<le> c \<and> c \<le> CHR ''9''"

definition media_token :: "text_t \<Rightarrow> bool" where
  "media_token s \<longleftrightarrow>
     (case s of [] \<Rightarrow> False
      | c # cs \<Rightarrow> media_head c \<and> length cs \<le> 62 \<and> list_all (\<lambda>d. media_head d \<or> d \<in> set ''!#$&^_.+-'') cs)"

definition valid_content_type :: "text_t \<Rightarrow> bool" where
  "valid_content_type ct \<longleftrightarrow>
     (let a = takeWhile (\<lambda>c. c \<noteq> CHR ''/'') ct; b = dropWhile (\<lambda>c. c \<noteq> CHR ''/'') ct
      in media_token a \<and> b \<noteq> [] \<and> media_token (tl b))"

definition ascii_lower :: "char \<Rightarrow> char" where
  "ascii_lower c = (if CHR ''A'' \<le> c \<and> c \<le> CHR ''Z'' then char_of (of_char c + 32 :: nat) else c)"

definition ends_with :: "text_t \<Rightarrow> text_t \<Rightarrow> bool" where
  "ends_with s t \<longleftrightarrow> suffix t s"

text \<open>\<open>lower\<close> maps no other code point to a letter of a suffix, so it is read on ASCII.\<close>

definition derive_attachment_filename_suffix :: "text_t \<Rightarrow> text_t \<Rightarrow> exn + filename_suffix option" where
  "derive_attachment_filename_suffix name ct =
     (if \<not> valid_attachment_filename name \<or> \<not> valid_content_type ct then Inl ValueError
      else
      let sx = List.find (\<lambda>x. ends_with (map ascii_lower name) (suffix_text x)) suffixes_longest_first
      in if (case sx of None \<Rightarrow> False | Some x \<Rightarrow> \<not> ends_with name (suffix_text x)) then Inl ValueError
         else case suffixes_of_content_type ct of
           None \<Rightarrow> ensure (sx = None) sx
         | Some allowed \<Rightarrow> ensure (case sx of None \<Rightarrow> False | Some x \<Rightarrow> x \<in> set allowed) sx)"

definition max_attachment_bytes :: int where
  "max_attachment_bytes = 2684354560"

definition within_attachment_limit :: "int option \<Rightarrow> bool" where
  "within_attachment_limit x \<longleftrightarrow> pred_option (\<lambda>n. 0 \<le> n \<and> n \<le> max_attachment_bytes) x"

definition valid_attachment :: "attachment \<Rightarrow> bool" where
  "valid_attachment a \<longleftrightarrow>
     (case derive_attachment_filename_suffix (at_name a) (at_content_type a) of Inl _ \<Rightarrow> False | Inr _ \<Rightarrow> True) \<and>
     within_attachment_limit (at_declared_size a) \<and> within_attachment_limit (at_size a) \<and>
     (at_size a = None) = (at_sha256 a = None) \<and> (at_sha256 a = None) = (at_storage_key a = None) \<and>
     (if at_status a = AT_READY then at_storage_key a \<noteq> None else at_storage_key a = None)"

section \<open>Commands\<close>

record user_fact_input =
  ui_name :: text_t
  ui_value :: text_t

record problem_spec_input =
  pn_statement :: text_t
  pn_expected_behavior :: text_t
  pn_actual_behavior :: text_t
  pn_scope :: text_t
  pn_goals :: "text_t list"
  pn_non_goals :: "text_t list"
  pn_constraints :: "text_t list"
  pn_completion_criteria :: "text_t list"

record create_case =
  kc_idempotency_key :: text_t
  kc_raw_problem_text :: text_t
  kc_product_line :: "text_t option"
  kc_initial_log_archive_expected :: bool
  kc_force_generic :: bool
  kc_continuation_context :: "report_continuation option"
  kc_problem_spec :: problem_spec_input
  kc_initial_user_facts :: "user_fact_input list"
  kc_wait_seconds :: nat

record prepare_attachment =
  ka_idempotency_key :: text_t
  ka_case_id :: opaque_id
  ka_expected_case_revision :: int
  ka_name :: text_t
  ka_content_type :: text_t
  ka_declared_size :: "int option"
  ka_declared_sha256 :: "sha256_t option"

record submit_supplement_command =
  ks_idempotency_key :: text_t
  ks_case_id :: opaque_id
  ks_expected_case_revision :: int
  ks_inputs :: "text_t dict"
  ks_attachment_ids :: "opaque_id list"
  ks_generic_supplement_text :: text_t
  ks_wait_seconds :: nat

record resume_case =
  kr_idempotency_key :: text_t
  kr_case_id :: opaque_id
  kr_expected_case_revision :: int
  kr_wait_seconds :: nat

record cancel_case =
  kk_idempotency_key :: text_t
  kk_case_id :: opaque_id
  kk_expected_case_revision :: int

record restart_generic =
  kg_idempotency_key :: text_t
  kg_case_id :: opaque_id
  kg_expected_case_revision :: int
  kg_source_job_id :: opaque_id
  kg_supplement_text :: text_t

record mark_initial_log =
  km_idempotency_key :: text_t
  km_case_id :: opaque_id
  km_expected_case_revision :: int
  km_source_job_id :: opaque_id

datatype external_command =
    CreateCase create_case
  | PrepareAttachment prepare_attachment
  | SubmitSupplement submit_supplement_command
  | ResumeCase resume_case
  | CancelCase cancel_case
  | RestartGenericDiagnosis restart_generic
  | MarkInitialLogArchiveExpected mark_initial_log

text \<open>\<open>type(command).__name__\<close> and \<open>command.idempotency_key\<close>.\<close>

fun operation_name :: "external_command \<Rightarrow> text_t" where
  "operation_name (CreateCase _) = ''CreateCase''"
| "operation_name (PrepareAttachment _) = ''PrepareAttachment''"
| "operation_name (SubmitSupplement _) = ''SubmitSupplement''"
| "operation_name (ResumeCase _) = ''ResumeCase''"
| "operation_name (CancelCase _) = ''CancelCase''"
| "operation_name (RestartGenericDiagnosis _) = ''RestartGenericDiagnosis''"
| "operation_name (MarkInitialLogArchiveExpected _) = ''MarkInitialLogArchiveExpected''"

fun command_key :: "external_command \<Rightarrow> text_t" where
  "command_key (CreateCase k) = kc_idempotency_key k"
| "command_key (PrepareAttachment k) = ka_idempotency_key k"
| "command_key (SubmitSupplement k) = ks_idempotency_key k"
| "command_key (ResumeCase k) = kr_idempotency_key k"
| "command_key (CancelCase k) = kk_idempotency_key k"
| "command_key (RestartGenericDiagnosis k) = kg_idempotency_key k"
| "command_key (MarkInitialLogArchiveExpected k) = km_idempotency_key k"

text \<open>\<open>getattr(command, "case_id", None)\<close>.\<close>

fun command_case_id :: "external_command \<Rightarrow> opaque_id option" where
  "command_case_id (CreateCase k) = None"
| "command_case_id (PrepareAttachment k) = Some (ka_case_id k)"
| "command_case_id (SubmitSupplement k) = Some (ks_case_id k)"
| "command_case_id (ResumeCase k) = Some (kr_case_id k)"
| "command_case_id (CancelCase k) = Some (kk_case_id k)"
| "command_case_id (RestartGenericDiagnosis k) = Some (kg_case_id k)"
| "command_case_id (MarkInitialLogArchiveExpected k) = Some (km_case_id k)"

definition command_request_key :: "external_command \<Rightarrow> text_t" where
  "command_request_key k = record_key (operation_name k) (command_key k)"

section \<open>Validators\<close>

definition valid_problem_spec_input :: "problem_spec_input \<Rightarrow> bool" where
  "valid_problem_spec_input p \<longleftrightarrow>
     list_all valid_text [pn_statement p, pn_expected_behavior p, pn_actual_behavior p, pn_scope p] \<and>
     pn_goals p \<noteq> [] \<and> pn_completion_criteria p \<noteq> [] \<and>
     list_all (\<lambda>xs. list_all valid_text xs \<and> distinct xs)
       [pn_goals p, pn_non_goals p, pn_constraints p, pn_completion_criteria p]"

definition max_wait_seconds :: nat where
  "max_wait_seconds = 30"

fun valid_command :: "external_command \<Rightarrow> bool" where
  "valid_command (CreateCase k) \<longleftrightarrow>
     valid_text (kc_idempotency_key k) \<and> valid_text (kc_raw_problem_text k) \<and>
     valid_problem_spec_input (kc_problem_spec k) \<and> length (kc_initial_user_facts k) \<le> 64 \<and>
     distinct (map ui_name (kc_initial_user_facts k)) \<and>
     list_all (\<lambda>f. valid_text (ui_value f)) (kc_initial_user_facts k) \<and> kc_wait_seconds k \<le> max_wait_seconds"
| "valid_command (PrepareAttachment k) \<longleftrightarrow>
     valid_text (ka_idempotency_key k) \<and> 0 < ka_expected_case_revision k \<and> pred_option (\<lambda>n. 0 \<le> n) (ka_declared_size k) \<and>
     (case derive_attachment_filename_suffix (ka_name k) (ka_content_type k) of Inl _ \<Rightarrow> False | Inr _ \<Rightarrow> True)"
| "valid_command (SubmitSupplement k) \<longleftrightarrow>
     valid_text (ks_idempotency_key k) \<and> 0 < ks_expected_case_revision k \<and> dict_ok (ks_inputs k) \<and>
     list_all valid_text (dict_items (ks_inputs k)) \<and> (ks_inputs k \<noteq> [] \<or> ks_attachment_ids k \<noteq> []) \<and>
     distinct (ks_attachment_ids k) \<and> ks_wait_seconds k \<le> max_wait_seconds"
| "valid_command (ResumeCase k) \<longleftrightarrow>
     valid_text (kr_idempotency_key k) \<and> 0 < kr_expected_case_revision k \<and> kr_wait_seconds k \<le> max_wait_seconds"
| "valid_command (CancelCase k) \<longleftrightarrow> valid_text (kk_idempotency_key k) \<and> 0 < kk_expected_case_revision k"
| "valid_command (RestartGenericDiagnosis k) \<longleftrightarrow> valid_text (kg_idempotency_key k) \<and> 0 < kg_expected_case_revision k"
| "valid_command (MarkInitialLogArchiveExpected k) \<longleftrightarrow> valid_text (km_idempotency_key k) \<and> 0 < km_expected_case_revision k"

section \<open>The preimage of the request hash\<close>

definition present :: "bool \<Rightarrow> text_t \<Rightarrow> json \<Rightarrow> (text_t \<times> json) list" where
  "present b key v = (if b then [(key, v)] else [])"

definition json_dict :: "text_t dict \<Rightarrow> json" where
  "json_dict d = JObj (map (\<lambda>(k, v). (k, JStr v)) d)"

definition problem_spec_json :: "problem_spec_input \<Rightarrow> json" where
  "problem_spec_json p = JObj
     [(''statement'', JStr (pn_statement p)), (''expected_behavior'', JStr (pn_expected_behavior p)),
      (''actual_behavior'', JStr (pn_actual_behavior p)), (''scope'', JStr (pn_scope p)),
      (''goals'', json_strs (pn_goals p)), (''non_goals'', json_strs (pn_non_goals p)),
      (''constraints'', json_strs (pn_constraints p)), (''completion_criteria'', json_strs (pn_completion_criteria p))]"

definition user_fact_json :: "user_fact_input \<Rightarrow> json" where
  "user_fact_json f = JObj [(''name'', JStr (ui_name f)), (''value'', JStr (ui_value f))]"

definition continuation_json :: "report_continuation \<Rightarrow> json" where
  "continuation_json c = JObj
     ([(''parent_run_id'', JStr (rc_parent_run_id c)), (''parent_case_id'', JStr (rc_parent_case_id c)),
       (''parent_report_artifact_id'', JStr (rc_parent_report_artifact_id c)),
       (''parent_report_sha256'', JStr (rc_parent_report_sha256 c)),
       (''parent_report_markdown'', JStr (rc_parent_report_markdown c)),
       (''parent_report_version'', JInt (rc_parent_report_version c)),
       (''change_note'', JStr (rc_change_note c)), (''goal'', JStr (rc_goal c))] @
      present (rc_followup_context_json c \<noteq> None) ''followup_context_json'' (json_opt JStr (rc_followup_context_json c)))"

fun business_request_preimage :: "external_command \<Rightarrow> json" where
  "business_request_preimage (CreateCase k) = JObj
     ([(''idempotency_key'', JStr (kc_idempotency_key k)), (''raw_problem_text'', JStr (kc_raw_problem_text k))] @
      present (kc_product_line k \<noteq> None) ''product_line'' (json_opt JStr (kc_product_line k)) @
      present (kc_initial_log_archive_expected k) ''initial_log_archive_expected'' (JBool (kc_initial_log_archive_expected k)) @
      present (kc_force_generic k) ''force_generic'' (JBool (kc_force_generic k)) @
      present (kc_continuation_context k \<noteq> None) ''continuation_context''
        (json_opt continuation_json (kc_continuation_context k)) @
      [(''problem_spec'', problem_spec_json (kc_problem_spec k)),
       (''initial_user_facts'', JList (map user_fact_json (kc_initial_user_facts k)))])"
| "business_request_preimage (PrepareAttachment k) = JObj
     [(''idempotency_key'', JStr (ka_idempotency_key k)), (''case_id'', JStr (ka_case_id k)),
      (''expected_case_revision'', JInt (ka_expected_case_revision k)), (''name'', JStr (ka_name k)),
      (''content_type'', JStr (ka_content_type k)), (''declared_size'', json_opt JInt (ka_declared_size k)),
      (''declared_sha256'', json_opt JStr (ka_declared_sha256 k))]"
| "business_request_preimage (SubmitSupplement k) = JObj
     ([(''idempotency_key'', JStr (ks_idempotency_key k)), (''case_id'', JStr (ks_case_id k)),
       (''expected_case_revision'', JInt (ks_expected_case_revision k)), (''inputs'', json_dict (ks_inputs k)),
       (''attachment_ids'', json_strs (ks_attachment_ids k))] @
      present (ks_generic_supplement_text k \<noteq> []) ''generic_supplement_text'' (JStr (ks_generic_supplement_text k)))"
| "business_request_preimage (ResumeCase k) = JObj
     [(''idempotency_key'', JStr (kr_idempotency_key k)), (''case_id'', JStr (kr_case_id k)),
      (''expected_case_revision'', JInt (kr_expected_case_revision k))]"
| "business_request_preimage (CancelCase k) = JObj
     [(''idempotency_key'', JStr (kk_idempotency_key k)), (''case_id'', JStr (kk_case_id k)),
      (''expected_case_revision'', JInt (kk_expected_case_revision k))]"
| "business_request_preimage (RestartGenericDiagnosis k) = JObj
     ([(''idempotency_key'', JStr (kg_idempotency_key k)), (''case_id'', JStr (kg_case_id k)),
       (''expected_case_revision'', JInt (kg_expected_case_revision k)), (''source_job_id'', JStr (kg_source_job_id k))] @
      present (kg_supplement_text k \<noteq> []) ''supplement_text'' (JStr (kg_supplement_text k)))"
| "business_request_preimage (MarkInitialLogArchiveExpected k) = JObj
     [(''idempotency_key'', JStr (km_idempotency_key k)), (''case_id'', JStr (km_case_id k)),
      (''expected_case_revision'', JInt (km_expected_case_revision k)), (''source_job_id'', JStr (km_source_job_id k))]"

definition business_request_sha256 :: "py_env \<Rightarrow> external_command \<Rightarrow> sha256_t" where
  "business_request_sha256 env k = canonical_json_sha256 env (business_request_preimage k)"

section \<open>The idempotency decision\<close>

datatype idempotency_disposition = ID_NEW | ID_REPLAY | ID_CONFLICT

record idempotency_decision =
  dc_disposition :: idempotency_disposition
  dc_request_hash :: sha256_t
  dc_record :: "idempotency_record option"

definition decide_idempotency :: "py_env \<Rightarrow> state_file \<Rightarrow> external_command \<Rightarrow> idempotency_decision" where
  "decide_idempotency env s k =
     (let h = business_request_sha256 env k
      in case map_of (sf_idempotency s) (command_request_key k) of
           None \<Rightarrow> \<lparr>dc_disposition = ID_NEW, dc_request_hash = h, dc_record = None\<rparr>
         | Some rec \<Rightarrow>
             \<lparr>dc_disposition = (if ik_request_hash rec = h then ID_REPLAY else ID_CONFLICT), dc_request_hash = h,
              dc_record = Some rec\<rparr>)"

definition make_idempotency_record ::
  "external_command \<Rightarrow> sha256_t \<Rightarrow> business_receipt \<Rightarrow> opaque_id option \<Rightarrow> timestamp \<Rightarrow> exn + idempotency_record" where
  "make_idempotency_record k h receipt case_id created_at =
     (if bz_operation receipt \<noteq> operation_name k \<or> bz_case_id receipt \<noteq> case_id \<or>
         command_case_id k \<noteq> None \<and> command_case_id k \<noteq> case_id
      then Inl ValueError
      else Inr \<lparr>ik_operation = operation_name k, ik_idempotency_key = command_key k, ik_request_hash = h,
                ik_business_receipt = receipt, ik_case_id = case_id, ik_created_at = created_at\<rparr>)"

section \<open>What the hash identifies\<close>

text \<open>The command as far as its request hash is concerned: without the waiting time, and with the inputs as a
  dictionary, in the order of their names.\<close>

fun business_content :: "external_command \<Rightarrow> external_command" where
  "business_content (CreateCase k) = CreateCase (k\<lparr>kc_wait_seconds := 0\<rparr>)"
| "business_content (SubmitSupplement k) =
     SubmitSupplement (k\<lparr>ks_wait_seconds := 0, ks_inputs := sort_key fst (ks_inputs k)\<rparr>)"
| "business_content (ResumeCase k) = ResumeCase (k\<lparr>kr_wait_seconds := 0\<rparr>)"
| "business_content k = k"

fun json_field :: "text_t \<Rightarrow> json \<Rightarrow> json option" where
  "json_field key (JObj kvs) = map_of kvs key"
| "json_field key _ = None"

lemma map_of_insort: "key \<noteq> fst p \<Longrightarrow> map_of (insort_key fst p xs) key = map_of xs key"
  by (induction xs) auto

lemma map_of_insort_same: "map_of (insort_key fst (key, v) xs) key = Some v"
  by (induction xs) auto

lemma map_of_sort_key: "map_of (sort_key fst xs) key = map_of xs key"
proof (induction xs)
  case (Cons p xs)
  then show ?case by (cases "key = fst p"; cases p) (auto simp: map_of_insort map_of_insort_same)
qed simp

lemma field_of_normal: "json_field key (json_normal j) = map_option json_normal (json_field key j)"
proof (cases j)
  case (JObj kvs)
  have "map_of (map (\<lambda>(k, v). (k, json_normal v)) kvs) key = map_option json_normal (map_of kvs key)"
    by (induction kvs) auto
  then show ?thesis using JObj by (simp add: json_normal.simps(2) map_of_sort_key)
qed simp_all

lemma normal_field:
  "json_normal j = json_normal k \<Longrightarrow> map_option json_normal (json_field key j) = map_option json_normal (json_field key k)"
  by (metis field_of_normal)

lemma field_present: "json_field key (JObj (present b key' v @ kvs)) =
    (if b \<and> key = key' then Some v else json_field key (JObj kvs))"
  "json_field key (JObj (present b key' v)) = (if b \<and> key = key' then Some v else None)"
  by (simp_all add: present_def)

lemma field_Cons: "json_field key (JObj ((k, v) # kvs)) = (if key = k then Some v else json_field key (JObj kvs))"
  "json_field key (JObj []) = None"
  by simp_all

lemma normal_opt: "json_normal (json_opt JStr x) = json_opt JStr x" "json_normal (json_opt JInt y) = json_opt JInt y"
  by (simp_all add: json_opt_def split: option.splits)

lemma normal_strs [simp]: "json_normal (json_strs xs) = json_strs xs"
  by (simp add: json_strs_def)

lemma opt_inj [simp]: "json_opt JStr x = json_opt JStr y \<longleftrightarrow> x = y" "json_opt JInt a = json_opt JInt b \<longleftrightarrow> a = b"
  by (simp_all add: json_opt_def split: option.splits)

lemma normal_dict: "json_normal (json_dict d) = json_normal (json_dict e) \<longleftrightarrow> sort_key fst d = sort_key fst e"
proof -
  have "json_normal (json_dict x) = JObj (map (\<lambda>(k, v). (k, JStr v)) (sort_key fst x))" for x
    using sort_key_pairs [of "\<lambda>k v. JStr v" x]
    by (simp add: json_dict_def json_normal.simps(2) case_prod_unfold comp_def)
  moreover have "inj (\<lambda>(k :: text_t, v). (k, JStr v))" by (auto simp: inj_def)
  ultimately show ?thesis by (simp add: inj_map_eq_map)
qed

lemmas normal_fields = field_present field_Cons append.simps normal_opt

lemma problem_spec_identified: "json_normal (problem_spec_json p) = json_normal (problem_spec_json q) \<longleftrightarrow> p = q"
proof
  assume eq: "json_normal (problem_spec_json p) = json_normal (problem_spec_json q)"
  note f = normal_field [OF eq [unfolded problem_spec_json_def]]
  show "p = q"
    using f [of "''statement''"] f [of "''expected_behavior''"] f [of "''actual_behavior''"] f [of "''scope''"]
      f [of "''goals''"] f [of "''non_goals''"] f [of "''constraints''"] f [of "''completion_criteria''"]
    by (intro problem_spec_input.equality) (simp_all add: normal_fields del: json_field.simps)
qed simp

lemma user_fact_identified: "json_normal (user_fact_json p) = json_normal (user_fact_json q) \<longleftrightarrow> p = q"
proof
  assume eq: "json_normal (user_fact_json p) = json_normal (user_fact_json q)"
  note f = normal_field [OF eq [unfolded user_fact_json_def]]
  show "p = q" using f [of "''name''"] f [of "''value''"]
    by (intro user_fact_input.equality) (simp_all add: normal_fields del: json_field.simps)
qed simp

lemma continuation_identified: "json_normal (continuation_json c) = json_normal (continuation_json d) \<longleftrightarrow> c = d"
proof
  assume eq: "json_normal (continuation_json c) = json_normal (continuation_json d)"
  note f = normal_field [OF eq [unfolded continuation_json_def]]
  show "c = d"
    using f [of "''parent_run_id''"] f [of "''parent_case_id''"] f [of "''parent_report_artifact_id''"]
      f [of "''parent_report_sha256''"] f [of "''parent_report_markdown''"] f [of "''parent_report_version''"]
      f [of "''change_note''"] f [of "''goal''"] f [of "''followup_context_json''"]
    by (intro report_continuation.equality)
      (simp_all add: normal_fields del: json_field.simps split: if_splits)
qed simp

lemma list_identified:
  assumes "\<And>x y. json_normal (f x) = json_normal (f y) \<longleftrightarrow> x = y"
  shows "map (\<lambda>x. json_normal (f x)) xs = map (\<lambda>x. json_normal (f x)) ys \<longleftrightarrow> xs = ys"
  using inj_map_eq_map [of "\<lambda>x. json_normal (f x)"] assms by (simp add: inj_def)

lemma normal_option:
  assumes "\<And>x y. json_normal (f x) = json_normal (f y) \<longleftrightarrow> x = y"
    and "map_option json_normal (if x \<noteq> None then Some (json_opt f x) else None) =
      map_option json_normal (if y \<noteq> None then Some (json_opt f y) else None)"
  shows "x = y"
  using assms by (cases x; cases y) (simp_all add: json_opt_def)

lemma create_identified:
  assumes "json_normal (business_request_preimage (CreateCase k)) = json_normal (business_request_preimage (CreateCase l))"
  shows "k\<lparr>kc_wait_seconds := 0\<rparr> = l\<lparr>kc_wait_seconds := 0\<rparr>"
proof -
  note f = normal_field [OF assms [unfolded business_request_preimage.simps]]
  have "kc_continuation_context k = kc_continuation_context l"
    using f [of "''continuation_context''"]
    by (intro normal_option [where f = continuation_json, OF continuation_identified])
      (simp add: normal_fields del: json_field.simps cong: if_cong)
  moreover have "kc_product_line k = kc_product_line l"
    using f [of "''product_line''"]
    by (intro normal_option [where f = JStr]) (simp_all add: normal_fields del: json_field.simps cong: if_cong)
  ultimately show ?thesis
    using f [of "''idempotency_key''"] f [of "''raw_problem_text''"] f [of "''initial_log_archive_expected''"]
      f [of "''force_generic''"] f [of "''problem_spec''"] f [of "''initial_user_facts''"]
    by (intro create_case.equality)
      (simp_all add: normal_fields problem_spec_identified list_identified [of user_fact_json, OF user_fact_identified]
        comp_def del: json_field.simps split: if_splits)
qed

lemma supplement_identified:
  assumes "json_normal (business_request_preimage (SubmitSupplement k)) =
    json_normal (business_request_preimage (SubmitSupplement l))"
  shows "business_content (SubmitSupplement k) = business_content (SubmitSupplement l)"
proof -
  note f = normal_field [OF assms [unfolded business_request_preimage.simps]]
  have "k\<lparr>ks_wait_seconds := 0, ks_inputs := sort_key fst (ks_inputs k)\<rparr> =
      l\<lparr>ks_wait_seconds := 0, ks_inputs := sort_key fst (ks_inputs l)\<rparr>"
    using f [of "''idempotency_key''"] f [of "''case_id''"] f [of "''expected_case_revision''"] f [of "''inputs''"]
      f [of "''attachment_ids''"] f [of "''generic_supplement_text''"]
    by (intro submit_supplement_command.equality)
      (simp_all add: normal_fields normal_dict del: json_field.simps split: if_splits)
  then show ?thesis by simp
qed

lemma small_commands_identified:
  "json_normal (business_request_preimage (PrepareAttachment ka)) = json_normal (business_request_preimage (PrepareAttachment la)) \<Longrightarrow> ka = la"
  "json_normal (business_request_preimage (CancelCase kk)) = json_normal (business_request_preimage (CancelCase lk)) \<Longrightarrow> kk = lk"
  "json_normal (business_request_preimage (ResumeCase kr)) = json_normal (business_request_preimage (ResumeCase lr)) \<Longrightarrow>
     kr\<lparr>kr_wait_seconds := 0\<rparr> = lr\<lparr>kr_wait_seconds := 0\<rparr>"
  "json_normal (business_request_preimage (RestartGenericDiagnosis kg)) =
     json_normal (business_request_preimage (RestartGenericDiagnosis lg)) \<Longrightarrow> kg = lg"
  "json_normal (business_request_preimage (MarkInitialLogArchiveExpected km)) =
     json_normal (business_request_preimage (MarkInitialLogArchiveExpected lm)) \<Longrightarrow> km = lm"
proof goal_cases
  case 1
  note f = normal_field [OF 1 [unfolded business_request_preimage.simps]]
  show ?case using f [of "''idempotency_key''"] f [of "''case_id''"] f [of "''expected_case_revision''"] f [of "''name''"]
      f [of "''content_type''"] f [of "''declared_size''"] f [of "''declared_sha256''"]
    by (intro prepare_attachment.equality) (simp_all add: normal_fields del: json_field.simps)
next
  case 2
  note f = normal_field [OF 2 [unfolded business_request_preimage.simps]]
  show ?case using f [of "''idempotency_key''"] f [of "''case_id''"] f [of "''expected_case_revision''"]
    by (intro cancel_case.equality) (simp_all add: normal_fields del: json_field.simps)
next
  case 3
  note f = normal_field [OF 3 [unfolded business_request_preimage.simps]]
  show ?case using f [of "''idempotency_key''"] f [of "''case_id''"] f [of "''expected_case_revision''"]
    by (intro resume_case.equality) (simp_all add: normal_fields del: json_field.simps)
next
  case 4
  note f = normal_field [OF 4 [unfolded business_request_preimage.simps]]
  show ?case using f [of "''idempotency_key''"] f [of "''case_id''"] f [of "''expected_case_revision''"]
      f [of "''source_job_id''"] f [of "''supplement_text''"]
    by (intro restart_generic.equality) (simp_all add: normal_fields del: json_field.simps split: if_splits)
next
  case 5
  note f = normal_field [OF 5 [unfolded business_request_preimage.simps]]
  show ?case using f [of "''idempotency_key''"] f [of "''case_id''"] f [of "''expected_case_revision''"]
      f [of "''source_job_id''"]
    by (intro mark_initial_log.equality) (simp_all add: normal_fields del: json_field.simps)
qed

lemma content_preimage:
  "json_normal (business_request_preimage (business_content k)) = json_normal (business_request_preimage k)"
proof (cases k)
  case (SubmitSupplement q)
  have "json_normal (json_dict (sort_key fst (ks_inputs q))) = json_normal (json_dict (ks_inputs q))"
    by (subst normal_dict) (simp add: sort_key_id_if_sorted)
  then show ?thesis using SubmitSupplement by (simp add: json_normal.simps(2))
qed (simp_all add: json_normal.simps(2))

lemma same_operation:
  assumes "operation_name k = operation_name l"
  obtains a b where "k = CreateCase a" "l = CreateCase b"
  | a b where "k = PrepareAttachment a" "l = PrepareAttachment b"
  | a b where "k = SubmitSupplement a" "l = SubmitSupplement b"
  | a b where "k = ResumeCase a" "l = ResumeCase b"
  | a b where "k = CancelCase a" "l = CancelCase b"
  | a b where "k = RestartGenericDiagnosis a" "l = RestartGenericDiagnosis b"
  | a b where "k = MarkInitialLogArchiveExpected a" "l = MarkInitialLogArchiveExpected b"
  using assms by (cases k; cases l) simp_all

lemma business_content_identified:
  assumes "operation_name k = operation_name l"
  shows "canonical_json_bytes (business_request_preimage k) = canonical_json_bytes (business_request_preimage l) \<longleftrightarrow>
    business_content k = business_content l"
  unfolding canonical_json_bytes_inj
proof
  assume eq: "json_normal (business_request_preimage k) = json_normal (business_request_preimage l)"
  from assms show "business_content k = business_content l"
  proof (cases rule: same_operation)
    case 1
    show ?thesis using create_identified [OF eq [unfolded 1]] 1 by simp
  next
    case 2
    show ?thesis using small_commands_identified(1) [OF eq [unfolded 2]] 2 by simp
  next
    case 3
    show ?thesis using supplement_identified [OF eq [unfolded 3]] 3 by simp
  next
    case 4
    show ?thesis using small_commands_identified(3) [OF eq [unfolded 4]] 4 by simp
  next
    case 5
    show ?thesis using small_commands_identified(2) [OF eq [unfolded 5]] 5 by simp
  next
    case 6
    show ?thesis using small_commands_identified(4) [OF eq [unfolded 6]] 6 by simp
  next
    case 7
    show ?thesis using small_commands_identified(5) [OF eq [unfolded 7]] 7 by simp
  qed
next
  assume "business_content k = business_content l"
  then show "json_normal (business_request_preimage k) = json_normal (business_request_preimage l)"
    using content_preimage by metis
qed

end
