(* ===== verification/Command_Preparation.thy ===== *)
theory Command_Preparation
  imports Command_Models Job_Control Job_Construction Supplement_Application
begin

text \<open>
  What the handlers of \<open>application/external_commands.py\<close> call before they commit: the construction of facts,
  triggers, attachments and runtime bindings (\<open>application/preparation.py\<close>, \<open>application/runtime_bindings.py\<close>),
  the validator of \<open>ValidatedTrigger\<close>, the checks of a supplement against the case, and the checks of the plan
  that the coordinator returns. A refusal is an \<open>ApplicationPortError\<close> with the details of the source.
\<close>

section \<open>Refusals\<close>

definition msg_attachments_full :: text_t where
  "msg_attachments_full = utf8
     [230, 156, 172, 230, 172, 161, 232, 175, 138, 230, 150, 173, 231, 154, 132, 233, 153, 132, 228, 187, 182,
     229, 183, 178, 232, 190, 190, 32, 50, 48, 32, 228, 184, 170, 228, 184, 138, 233, 153, 144, 239, 188, 140,
     232, 175, 183, 229, 143, 166, 229, 187, 186, 232, 175, 138, 230, 150, 173, 227, 128, 130]"

definition msg_route_changed :: text_t where
  "msg_route_changed = utf8
     [232, 183, 175, 231, 148, 177, 229, 183, 178, 231, 187, 147, 230, 157, 159, 230, 136, 150, 229, 143, 145,
     231, 148, 159, 229, 143, 152, 229, 140, 150, 239, 188, 140, 232, 175, 183, 229, 136, 183, 230, 150, 176,
     229, 144, 142, 233, 135, 141, 230, 150, 176, 230, 143, 144, 228, 186, 164, 230, 151, 165, 229, 191, 151,
     227, 128, 130]"

definition msg_analysis_changed :: text_t where
  "msg_analysis_changed = utf8
     [230, 156, 172, 230, 172, 161, 229, 136, 134, 230, 158, 144, 229, 183, 178, 231, 187, 147, 230, 157, 159,
     230, 136, 150, 229, 143, 145, 231, 148, 159, 229, 143, 152, 229, 140, 150, 239, 188, 140, 232, 175, 183,
     229, 136, 183, 230, 150, 176, 229, 144, 142, 233, 135, 141, 230, 150, 176, 230, 143, 144, 228, 186, 164,
     227, 128, 130]"

definition msg_generic_inputs :: text_t where
  "msg_generic_inputs = utf8
     [233, 128, 154, 231, 148, 168, 229, 174, 154, 228, 189, 141, 230, 151, 160, 233, 156, 128, 230, 143, 144,
     229, 143, 150, 229, 143, 130, 230, 149, 176, 239, 188, 140, 232, 175, 183, 231, 155, 180, 230, 142, 165,
     232, 161, 165, 229, 133, 133, 230, 151, 165, 229, 191, 151, 229, 146, 140, 233, 151, 174, 233, 162, 152,
     232, 175, 180, 230, 152, 142, 227, 128, 130]"

definition msg_config_gone :: text_t where
  "msg_config_gone = utf8
     [230, 156, 172, 230, 172, 161, 232, 175, 138, 230, 150, 173, 229, 155, 186, 229, 174, 154, 231, 154, 132,
     233, 133, 141, 231, 189, 174, 229, 183, 178, 228, 184, 141, 229, 143, 175, 231, 148, 168, 239, 188, 140,
     232, 175, 183, 233, 135, 141, 230, 150, 176, 229, 143, 145, 232, 181, 183, 227, 128, 130]"

definition msg_generic_text_only :: text_t where
  "msg_generic_text_only = utf8
     [232, 175, 165, 232, 161, 165, 229, 133, 133, 232, 175, 180, 230, 152, 142, 228, 187, 133, 233, 128, 130,
     231, 148, 168, 228, 186, 142, 233, 128, 154, 231, 148, 168, 229, 174, 154, 228, 189, 141, 227, 128, 130]"

definition msg_no_log_preparation :: text_t where
  "msg_no_log_preparation = utf8
     [229, 176, 154, 230, 156, 170, 233, 133, 141, 231, 189, 174, 233, 128, 154, 231, 148, 168, 229, 174, 154,
     228, 189, 141, 231, 154, 132, 230, 151, 165, 229, 191, 151, 229, 135, 134, 229, 164, 135, 230, 150, 185,
     229, 188, 143, 227, 128, 130]"

definition msg_not_accepting :: text_t where
  "msg_not_accepting = utf8
     [230, 156, 141, 229, 138, 161, 229, 183, 178, 230, 154, 130, 229, 129, 156, 230, 142, 165, 230, 148, 182,
     230, 150, 176, 228, 187, 187, 229, 138, 161, 227, 128, 130]"

text \<open>\<open>_detail\<close> with no field set, and \<open>_raise_port_error\<close>.\<close>

definition no_detail :: error_detail where
  "no_detail =
     \<lparr>ed_field = None, ed_resource_type = None, ed_resource_id = None, ed_resource_ref = None, ed_expected = None,
      ed_actual = None, ed_limit = None, ed_observed = None\<rparr>"

definition refuse :: "error_code \<Rightarrow> text_t \<Rightarrow> error_detail list \<Rightarrow> store_error + 'a" where
  "refuse code message details = Inl (PortError ((port_error code message)\<lparr>ae_details := details\<rparr>))"

definition require :: "bool \<Rightarrow> error_code \<Rightarrow> text_t \<Rightarrow> error_detail list \<Rightarrow> store_error + unit" where
  "require ok code message details = (if ok then Inr () else refuse code message details)"

definition about_case :: "opaque_id \<Rightarrow> error_detail" where
  "about_case c = no_detail\<lparr>ed_resource_type := Some ''case'', ed_resource_id := Some c\<rparr>"

definition about_attachment :: "opaque_id \<Rightarrow> error_detail" where
  "about_attachment i = no_detail\<lparr>ed_resource_type := Some ''attachment'', ed_resource_id := Some i\<rparr>"

lemma require_Inr [simp]: "require ok c m ds = Inr u \<longleftrightarrow> ok"
  by (simp add: require_def refuse_def)

lemma refuse_not_Inr [simp]: "refuse c m ds \<noteq> Inr x"
  by (simp add: refuse_def)

section \<open>Facts, attachments and bindings\<close>

definition problem_spec_at_revision_one :: "create_case \<Rightarrow> problem_spec" where
  "problem_spec_at_revision_one k =
     (let p = kc_problem_spec k
      in \<lparr>ps_statement = pn_statement p, ps_expected_behavior = pn_expected_behavior p,
          ps_actual_behavior = pn_actual_behavior p, ps_scope = pn_scope p, ps_goals = pn_goals p,
          ps_non_goals = pn_non_goals p, ps_constraints = pn_constraints p,
          ps_completion_criteria = pn_completion_criteria p, ps_revision = 1\<rparr>)"

definition make_user_fact :: "user_fact_input \<Rightarrow> opaque_id \<Rightarrow> opaque_id \<Rightarrow> int \<Rightarrow> exn + diagnosis_item" where
  "make_user_fact f item_id trigger_id created_revision =
     (let i = \<lparr>it_item_id = item_id, it_statement = ui_value f, it_status = DI_ACTIVE,
           it_provenance = \<lparr>pv_source_type = DP_USER_INPUT, pv_source_ref = trigger_id, pv_input_name = Some (ui_name f)\<rparr>,
           it_evidence_refs = [], it_created_revision = created_revision, it_supersedes = []\<rparr>
      in ensure (valid_diagnosis_item i) i)"

definition build_uploading_attachment :: "prepare_attachment \<Rightarrow> opaque_id \<Rightarrow> timestamp \<Rightarrow> exn + attachment" where
  "build_uploading_attachment k attachment_id occurred_at =
     (let a = \<lparr>at_attachment_id = attachment_id, at_case_id = ka_case_id k, at_status = AT_UPLOADING, at_name = ka_name k,
           at_content_type = ka_content_type k, at_declared_size = ka_declared_size k,
           at_declared_sha256 = ka_declared_sha256 k, at_size = None, at_sha256 = None, at_storage_key = None,
           at_created_at = occurred_at, at_updated_at = occurred_at\<rparr>
      in ensure (valid_attachment a) a)"

definition finalize_attachment :: "attachment \<Rightarrow> resource_ref \<Rightarrow> timestamp \<Rightarrow> exn + attachment" where
  "finalize_attachment a ref occurred_at =
     (if at_status a \<noteq> AT_UPLOADING \<or> rr_resource_kind ref \<noteq> RS_FILE then Inl ValueError
      else let b = a\<lparr>at_status := AT_READY, at_size := Some (rr_size ref), at_sha256 := Some (rr_sha256 ref),
                at_storage_key := Some (rr_storage_key ref), at_updated_at := occurred_at\<rparr>
           in ensure (valid_attachment b) b)"

definition runtime_bindings_from_job :: "job \<Rightarrow> exn + runtime_bindings" where
  "runtime_bindings_from_job j = ensure (valid_runtime_bindings (runtime_from_job j)) (runtime_from_job j)"

definition runtime_bindings_from_job_spec :: "job_spec \<Rightarrow> exn + runtime_bindings" where
  "runtime_bindings_from_job_spec s =
     (let b = \<lparr>rb_diagnosis_mode = js_diagnosis_mode s, rb_review_policy = js_review_policy s,
           rb_generic_skill_name = js_generic_skill_name s, rb_generic_log_preparation = js_generic_log_preparation s,
           rb_agent_profile_ref = js_agent_profile_ref s, rb_available_skill_refs = js_available_skill_refs s,
           rb_skill_ref = js_skill_ref s, rb_tool_bundle_ref = js_tool_bundle_ref s,
           rb_context_policy_ref = js_context_policy_ref s, rb_output_contract_ref = js_output_contract_ref s,
           rb_logparse_tool_ref = js_logparse_tool_ref s, rb_logparse_product = js_logparse_product s,
           rb_resource_limits = js_resource_limits s\<rparr>
      in ensure (valid_runtime_bindings b) b)"

definition runtime_bindings_match_role :: "job_type \<Rightarrow> runtime_bindings \<Rightarrow> versioned_ref option \<Rightarrow> bool" where
  "runtime_bindings_match_role jt b expected_skill_ref \<longleftrightarrow>
     rb_resource_limits b = default_resource_limits jt \<and>
     (if jt = JT_ROUTE
      then rb_diagnosis_mode b = None \<and> rb_generic_skill_name b = None \<and> rb_skill_ref b = None \<and>
           rb_logparse_tool_ref b = None \<and> rb_logparse_product b = None
      else if jt = JT_REVIEW
      then rb_available_skill_refs b = [] \<and> rb_skill_ref b \<noteq> None \<and> rb_skill_ref b = expected_skill_ref \<and>
           rb_diagnosis_mode b = None \<and> rb_generic_skill_name b = None \<and>
           rb_logparse_tool_ref b = None \<and> rb_logparse_product b = None
      else if rb_diagnosis_mode b = Some DM_GENERIC
      then rb_available_skill_refs b = [] \<and> rb_skill_ref b = None \<and> expected_skill_ref = None \<and>
           rb_generic_skill_name b \<noteq> None
      else rb_diagnosis_mode b = Some DM_SPECIALIZED \<and> rb_generic_skill_name b = None \<and>
           rb_available_skill_refs b = [] \<and> rb_skill_ref b \<noteq> None \<and> rb_skill_ref b = expected_skill_ref)"

definition rebuild_runtime_bindings_for_role ::
  "job_type \<Rightarrow> runtime_bindings \<Rightarrow> versioned_ref option \<Rightarrow> exn + runtime_bindings" where
  "rebuild_runtime_bindings_for_role jt b expected_skill_ref =
     ensure (valid_runtime_bindings b \<and> runtime_bindings_match_role jt b expected_skill_ref) b"

text \<open>\<open>_validated_catalog_bindings\<close>: the answer of the catalogue, which may itself be an error.\<close>

definition validated_catalog_bindings ::
  "job_type \<Rightarrow> store_error + runtime_bindings \<Rightarrow> versioned_ref option \<Rightarrow> store_error + runtime_bindings" where
  "validated_catalog_bindings jt answer expected_skill_ref =
     bindS answer (\<lambda>b.
       case rebuild_runtime_bindings_for_role jt b expected_skill_ref of
         Inl _ \<Rightarrow> refuse EC_CONFIG_INVALID ''The Asset Catalog returned invalid runtime bindings.'' []
       | Inr b' \<Rightarrow> Inr b')"

section \<open>Triggers\<close>

definition valid_create_payload :: "create_case_payload \<Rightarrow> bool" where
  "valid_create_payload p \<longleftrightarrow>
     valid_text (pc_raw_problem_text p) \<and> valid_problem_spec (pc_problem_spec p) \<and> ps_revision (pc_problem_spec p) = 1 \<and>
     length (pc_initial_user_facts p) \<le> 64 \<and> distinct (map it_item_id (pc_initial_user_facts p)) \<and>
     distinct (map (\<lambda>i. pv_input_name (it_provenance i)) (pc_initial_user_facts p)) \<and>
     list_all (\<lambda>i. valid_diagnosis_item i \<and> it_status i = DI_ACTIVE \<and> it_created_revision i = 1 \<and>
        pv_source_type (it_provenance i) = DP_USER_INPUT \<and> it_supersedes i = [] \<and> it_evidence_refs i = [])
       (pc_initial_user_facts p)"

text \<open>The validators of the payloads of the external commands, and of the trigger around them.\<close>

definition valid_external_payload :: "opaque_id \<Rightarrow> trigger_payload \<Rightarrow> bool" where
  "valid_external_payload trigger_id p \<longleftrightarrow>
     (case p of
        CreateCasePayload q \<Rightarrow>
          valid_create_payload q \<and> list_all (\<lambda>i. pv_source_ref (it_provenance i) = trigger_id) (pc_initial_user_facts q)
      | SubmitSupplementPayload q \<Rightarrow>
          valid_supplement q \<and> list_all (\<lambda>i. pv_source_ref (it_provenance i) = trigger_id) (sp_user_facts q)
      | AssetUnavailablePayload _ missing \<Rightarrow> missing \<noteq> []
      | _ \<Rightarrow> True)"

definition valid_external_trigger :: "trigger \<Rightarrow> bool" where
  "valid_external_trigger t \<longleftrightarrow>
     tr_trigger_type t = trigger_payload_type (tr_payload t) \<and>
     list_all (\<lambda>jt. pred_option (role_bindings_ok jt) (tr_runtime_bindings t jt)) [JT_ROUTE, JT_DIAGNOSE, JT_REVIEW] \<and>
     valid_external_payload (tr_trigger_id t) (tr_payload t) \<and>
     (if tr_trigger_type t = TT_CREATE_CASE
      then tr_expected_case_revision t = 0 \<and> tr_continuation_resources t = empty_continuation_resources
      else 0 < tr_expected_case_revision t)"

definition external_trigger ::
  "opaque_id \<Rightarrow> opaque_id \<Rightarrow> int \<Rightarrow> text_t \<Rightarrow> trigger_payload \<Rightarrow> continuation_resources \<Rightarrow>
   (job_type \<rightharpoonup> runtime_bindings) \<Rightarrow> timestamp \<Rightarrow> exn + trigger" where
  "external_trigger trigger_id case_id revision key payload resources bindings occurred_at =
     (let t = \<lparr>tr_trigger_id = trigger_id, tr_trigger_type = trigger_payload_type payload, tr_case_id = case_id,
           tr_expected_case_revision = revision, tr_idempotency_key = key, tr_payload = payload,
           tr_continuation_resources = resources, tr_runtime_bindings = bindings, tr_occurred_at = occurred_at\<rparr>
      in ensure (valid_external_trigger t) t)"

definition initial_job_type :: "create_case \<Rightarrow> job_type" where
  "initial_job_type k = (if kc_force_generic k then JT_DIAGNOSE else JT_ROUTE)"

definition build_create_case_trigger ::
  "create_case \<Rightarrow> opaque_id \<Rightarrow> opaque_id \<Rightarrow> opaque_id list \<Rightarrow> runtime_bindings \<Rightarrow> timestamp \<Rightarrow> exn + trigger" where
  "build_create_case_trigger k case_id trigger_id fact_ids bindings occurred_at =
     (if length fact_ids \<noteq> length (kc_initial_user_facts k) then Inl ValueError
      else bindE (mapE (\<lambda>(f, i). make_user_fact f i trigger_id 1) (zip (kc_initial_user_facts k) fact_ids)) (\<lambda>facts.
        external_trigger trigger_id case_id 0 (kc_idempotency_key k)
          (CreateCasePayload
            \<lparr>pc_raw_problem_text = kc_raw_problem_text k, pc_product_line = kc_product_line k,
             pc_initial_log_archive_expected = kc_initial_log_archive_expected k, pc_force_generic = kc_force_generic k,
             pc_continuation_context = kc_continuation_context k, pc_problem_spec = problem_spec_at_revision_one k,
             pc_initial_user_facts = facts\<rparr>)
          empty_continuation_resources [initial_job_type k \<mapsto> bindings] occurred_at))"

definition provisional_case :: "py_env \<Rightarrow> create_case_payload \<Rightarrow> opaque_id \<Rightarrow> timestamp \<Rightarrow> exn + case_t" where
  "provisional_case env p case_id occurred_at =
     (let s = \<lparr>ds_revision = 1, ds_problem_spec = pc_problem_spec p, ds_user_facts = pc_initial_user_facts p,
           ds_confirmed_facts = [], ds_active_hypotheses = [], ds_rejected_hypotheses = [], ds_open_questions = [],
           ds_pending_requirements = [], ds_evidence_refs = [], ds_candidate_conclusion = None\<rparr>;
          c = \<lparr>cs_case_id = case_id, cs_status = CS_NEW, cs_case_revision = 1, cs_archive_status = ''NOT_REQUIRED'',
           cs_raw_problem_text = pc_raw_problem_text p, cs_product_line = pc_product_line p,
           cs_initial_log_archive_expected = pc_initial_log_archive_expected p,
           cs_continuation_context = pc_continuation_context p, cs_diagnosis_state = s, cs_active_job_id = None,
           cs_selected_skill_ref = None, cs_final_result = None, cs_unresolved_result = None, cs_generic_result = None,
           cs_generic_result_v2 = None, cs_methods_result = None, cs_failure = None, cs_created_at = occurred_at,
           cs_updated_at = occurred_at\<rparr>
      in ensure (valid_diagnosis_state env s \<and> valid_case env c) c)"

section \<open>Checks of the case\<close>

definition require_case :: "state_file \<Rightarrow> opaque_id \<Rightarrow> store_error + case_aggregate" where
  "require_case s case_id =
     (case map_of (sf_cases s) case_id of
        None \<Rightarrow> refuse EC_CASE_NOT_FOUND ''The requested Case does not exist.'' [about_case case_id]
      | Some ag \<Rightarrow> Inr ag)"

definition require_expected_revision :: "case_t \<Rightarrow> int \<Rightarrow> store_error + unit" where
  "require_expected_revision c expected =
     require (cs_case_revision c = expected) EC_REVISION_CONFLICT ''The expected Case revision is stale.''
       [(about_case (cs_case_id c))\<lparr>ed_field := Some ''expected_case_revision'', ed_expected := Some (DInt expected),
          ed_actual := Some (DInt (cs_case_revision c))\<rparr>]"

definition require_nonterminal :: "case_t \<Rightarrow> store_error + unit" where
  "require_nonterminal c =
     require (\<not> terminal_status (cs_status c)) EC_INVALID_CASE_STATE ''The command is not valid for a terminal Case.''
       [(about_case (cs_case_id c))\<lparr>ed_actual := Some (DStr (case_status_value (cs_status c)))\<rparr>]"

text \<open>\<open>_default_stable_target_detector\<close>.\<close>

definition default_stable_target_detector :: "case_t \<Rightarrow> text_t dict \<Rightarrow> bool" where
  "default_stable_target_detector c inputs \<longleftrightarrow>
     (let p = ds_problem_spec (cs_diagnosis_state c);
          scalar = [(''statement'', ps_statement p), (''expected_behavior'', ps_expected_behavior p),
                    (''actual_behavior'', ps_actual_behavior p), (''scope'', ps_scope p)]
      in list_ex (\<lambda>(name, value).
           (case map_of scalar name of None \<Rightarrow> False | Some v \<Rightarrow> value \<noteq> v) \<or>
           name \<in> {''goals'', ''non_goals'', ''constraints'', ''completion_criteria''}) inputs)"

section \<open>Checks of a supplement\<close>

fun each_ok :: "('a \<Rightarrow> store_error + unit) \<Rightarrow> 'a list \<Rightarrow> store_error + unit" where
  "each_ok f [] = Inr ()"
| "each_ok f (x # xs) = bindS (f x) (\<lambda>_. each_ok f xs)"

lemma each_ok_Inr [simp]: "each_ok f xs = Inr u \<longleftrightarrow> list_all (\<lambda>x. f x = Inr ()) xs"
  by (induction xs) (auto split: sum.splits elim: bindS.elims)

definition open_inputs :: "case_t \<Rightarrow> (text_t \<rightharpoonup> pending_requirement)" where
  "open_inputs c = dict_by rq_name (filter (\<lambda>r. rq_kind r = QK_INPUT) (open_requirements (cs_diagnosis_state c)))"

definition validate_supplement_input :: "py_env \<Rightarrow> case_t \<Rightarrow> text_t \<times> text_t \<Rightarrow> store_error + unit" where
  "validate_supplement_input env c entry =
     (let field = no_detail\<lparr>ed_field := Some (''inputs.'' @ fst entry)\<rparr>; v = snd entry
      in case open_inputs c (fst entry) of
           None \<Rightarrow>
             refuse EC_VALIDATION_ERROR ''A supplement input does not match an OPEN requirement.''
               [field\<lparr>ed_expected := Some (DStr ''OPEN requirement'')\<rparr>]
         | Some r \<Rightarrow>
             (case rq_constraints r of
                AttachmentConstraints _ \<Rightarrow>
                  refuse EC_VALIDATION_ERROR ''An INPUT requirement has invalid constraints.'' []
              | InputConstraints ic \<Rightarrow>
                  bindS (require (ic_min_utf8_bytes ic \<le> int (length v) \<and> int (length v) \<le> ic_max_utf8_bytes ic)
                    EC_VALIDATION_ERROR ''A supplement input violates its byte constraints.''
                    [field\<lparr>ed_limit := Some (ic_max_utf8_bytes ic), ed_observed := Some (int (length v))\<rparr>]) (\<lambda>_.
                  bindS (require (pred_option (\<lambda>p. env_fullmatch env p v) (ic_pattern ic))
                    EC_VALIDATION_ERROR ''A supplement input violates its required pattern.''
                    [field\<lparr>ed_expected := Some (DStr ''pattern match'')\<rparr>]) (\<lambda>_.
                  require (ic_allowed_values ic = [] \<or> v \<in> set (ic_allowed_values ic))
                    EC_VALIDATION_ERROR ''A supplement input is not in its allowed value set.''
                    [field\<lparr>ed_expected := Some (DStr ''allowed value'')\<rparr>]))))"

definition validate_supplement_inputs :: "py_env \<Rightarrow> case_t \<Rightarrow> text_t dict \<Rightarrow> store_error + unit" where
  "validate_supplement_inputs env c inputs = each_ok (validate_supplement_input env c) inputs"

definition attachment_status_text :: "attachment_status \<Rightarrow> text_t" where
  "attachment_status_text st = (case st of AT_UPLOADING \<Rightarrow> ''UPLOADING'' | AT_READY \<Rightarrow> ''READY'' | AT_FAILED \<Rightarrow> ''FAILED'')"

definition validate_supplement_attachment ::
  "state_file \<Rightarrow> case_aggregate \<Rightarrow> opaque_id \<Rightarrow> attachment_constraints \<Rightarrow> opaque_id \<Rightarrow> store_error + unit" where
  "validate_supplement_attachment s ag case_id ac i =
     (case map_of (ag_attachments ag) i of
        None \<Rightarrow>
          (case List.find (\<lambda>a. has_key (ag_attachments a) i) (dict_items (sf_cases s)) of
             Some other \<Rightarrow>
               refuse EC_RESOURCE_CASE_MISMATCH ''The Attachment belongs to another Case.''
                 [(about_attachment i)\<lparr>ed_expected := Some (DStr case_id),
                    ed_actual := Some (DStr (cs_case_id (ag_case other)))\<rparr>]
           | None \<Rightarrow> refuse EC_ATTACHMENT_NOT_FOUND ''The requested Attachment does not exist.'' [about_attachment i])
      | Some a \<Rightarrow>
          bindS (require (at_status a = AT_READY) EC_ATTACHMENT_NOT_READY ''The Attachment is not READY.''
            [(about_attachment i)\<lparr>ed_expected := Some (DStr ''READY''),
               ed_actual := Some (DStr (attachment_status_text (at_status a)))\<rparr>]) (\<lambda>_.
          require (ac_allowed_content_types ac = [] \<or> at_content_type a \<in> set (ac_allowed_content_types ac))
            EC_VALIDATION_ERROR ''The Attachment content type is not allowed.''
            [(about_attachment i)\<lparr>ed_expected := Some (DStr ''allowed content type''),
               ed_actual := Some (DStr (at_content_type a))\<rparr>]))"

definition validate_supplement_attachments ::
  "state_file \<Rightarrow> case_aggregate \<Rightarrow> opaque_id \<Rightarrow> opaque_id list \<Rightarrow> store_error + unit" where
  "validate_supplement_attachments s ag case_id ids =
     (if ids = [] then Inr ()
      else case filter (\<lambda>r. rq_kind r = QK_ATTACHMENT) (open_requirements (cs_diagnosis_state (ag_case ag))) of
        [r] \<Rightarrow>
          (case rq_constraints r of
             InputConstraints _ \<Rightarrow>
               refuse EC_VALIDATION_ERROR ''An ATTACHMENT requirement has invalid constraints.'' []
           | AttachmentConstraints ac \<Rightarrow>
               let refs = fold (\<lambda>i acc. if i \<in> set acc then acc else acc @ [i]) ids (rq_fulfilled_by_refs r);
                   count = int (length refs)
               in bindS (require (ac_min_count ac \<le> count \<and> count \<le> ac_max_count ac) EC_VALIDATION_ERROR
                    ''The submitted Attachment count violates the requirement.''
                    [no_detail\<lparr>ed_field := Some ''attachment_ids'',
                       ed_expected := Some (DStr (int_str (ac_min_count ac) @ ''..'' @ int_str (ac_max_count ac))),
                       ed_actual := Some (DInt count)\<rparr>]) (\<lambda>_.
                  each_ok (validate_supplement_attachment s ag case_id ac) ids))
      | _ \<Rightarrow> refuse EC_VALIDATION_ERROR ''Attachments require exactly one OPEN Attachment requirement.'' [])"

text \<open>\<open>_validate_supplement_target\<close>: every fact fulfils its own requirement, every attachment fulfils one.\<close>

definition fact_fulfills :: "case_t \<Rightarrow> case_t \<Rightarrow> diagnosis_item \<Rightarrow> store_error + (opaque_id \<times> opaque_id)" where
  "fact_fulfills source target f =
     (case Option.bind (pv_input_name (it_provenance f)) (open_inputs source) of
        None \<Rightarrow> refuse EC_VALIDATION_ERROR ''A supplied input did not originate from an OPEN input requirement.'' []
      | Some r \<Rightarrow>
          (case dict_by rq_requirement_id (ds_pending_requirements (cs_diagnosis_state target)) (rq_requirement_id r) of
             None \<Rightarrow> refuse EC_VALIDATION_ERROR ''The supplement plan did not fulfill the matching input requirement.'' []
           | Some q \<Rightarrow>
               if rq_kind q \<noteq> QK_INPUT \<or> Some (rq_name q) \<noteq> pv_input_name (it_provenance f) \<or>
                  rq_status q \<noteq> QS_FULFILLED \<or> rq_fulfilled_by_refs q \<noteq> [it_item_id f]
               then refuse EC_VALIDATION_ERROR ''The supplement plan did not fulfill the matching input requirement.'' []
               else Inr (it_item_id f, rq_requirement_id r)))"

definition validate_supplement_target ::
  "case_t \<Rightarrow> case_t \<Rightarrow> diagnosis_item list \<Rightarrow> opaque_id list \<Rightarrow> store_error + unit" where
  "validate_supplement_target source target facts ids =
     (let reqs = ds_pending_requirements (cs_diagnosis_state target)
      in bindS (require (set (map it_item_id facts) \<subseteq> set (map it_item_id (ds_user_facts (cs_diagnosis_state target))))
           EC_VALIDATION_ERROR ''The supplement plan omitted validated user facts.'' []) (\<lambda>_.
         bindS (foldS (\<lambda>f acc. bindS (fact_fulfills source target f) (\<lambda>p. Inr (p # acc))) facts []) (\<lambda>expected.
         bindS (require (list_all (\<lambda>r. list_all (\<lambda>ref. pred_option (\<lambda>i. i = rq_requirement_id r) (map_of expected ref))
             (rq_fulfilled_by_refs r)) reqs)
           EC_VALIDATION_ERROR ''A supplied input fulfilled a different requirement.'' []) (\<lambda>_.
         require (set ids \<subseteq> set (concat (map rq_fulfilled_by_refs (filter (\<lambda>r. rq_status r = QS_FULFILLED) reqs))))
           EC_VALIDATION_ERROR ''The supplement plan omitted validated Attachments.'' []))))"

section \<open>Checks of the plan\<close>

definition planned :: "plan cres \<Rightarrow> store_error + plan" where
  "planned r = (case r of Ok p \<Rightarrow> Inr p | AppErr e \<Rightarrow> Inl (PortError e) | Raise x \<Rightarrow> Inl (Crash x))"

lemma planned_Inr [simp]: "planned r = Inr p \<longleftrightarrow> r = Ok p"
  by (cases r) (simp_all add: planned_def)

definition validate_external_plan :: "plan \<Rightarrow> (job_type \<rightharpoonup> runtime_bindings) \<Rightarrow> store_error + unit" where
  "validate_external_plan p offered =
     bindS (require (tp_outcome_disposition p = None \<and> tp_accepted_evidence_keys p = [] \<and>
         tp_accepted_artifact_keys p = [] \<and> tp_accepted_candidate_key p = None)
       EC_VALIDATION_ERROR ''An external command plan cannot accept Outcome proposals.'' []) (\<lambda>_.
     case tp_next_job_spec p of
       None \<Rightarrow> Inr ()
     | Some spec \<Rightarrow>
         (case offered (js_job_type spec) of
            None \<Rightarrow>
              refuse EC_VALIDATION_ERROR ''The Coordinator replaced the trigger's pinned runtime bindings.'' []
          | Some expected \<Rightarrow>
              bindS (raised (runtime_bindings_from_job_spec spec)) (\<lambda>b.
              require (b = expected) EC_VALIDATION_ERROR
                ''The Coordinator replaced the trigger's pinned runtime bindings.'' [])))"

definition valid_create_plan :: "create_case \<Rightarrow> plan \<Rightarrow> bool" where
  "valid_create_plan k p \<longleftrightarrow>
     (case tp_next_job_spec p of None \<Rightarrow> False | Some spec \<Rightarrow> js_job_type spec = initial_job_type k) \<and>
     tp_job_updates p = [] \<and> tp_target_case_status p = CS_RUNNING \<and> \<not> tp_clear_active_job p \<and>
     tp_selected_skill_update p = None \<and> tp_case_failure_update p = None \<and> tp_candidate_mutation p = None \<and>
     tp_final_result_target p = None \<and> delta_is_empty (tp_accepted_state_delta p)"

definition valid_supplement_target_status :: "plan \<Rightarrow> bool" where
  "valid_supplement_target_status p \<longleftrightarrow>
     (case tp_target_case_status p of
        CS_RUNNING \<Rightarrow>
          (case tp_next_job_spec p of
             None \<Rightarrow> False
           | Some spec \<Rightarrow> js_job_type spec = JT_DIAGNOSE \<and> js_replacement_for_job_id spec = None)
      | CS_WAITING_INPUT \<Rightarrow> tp_next_job_spec p = None
      | CS_WAITING_ATTACHMENT \<Rightarrow> tp_next_job_spec p = None
      | _ \<Rightarrow> False)"

definition valid_supplement_plan :: "plan \<Rightarrow> diagnosis_item list \<Rightarrow> bool" where
  "valid_supplement_plan p facts \<longleftrightarrow>
     (let d = tp_accepted_state_delta p
      in delta_is_empty (d\<lparr>sd_add_user_facts := [], sd_fulfill_requirements := []\<rparr>) \<and>
         sd_add_user_facts d = sort_key it_item_id facts \<and> tp_job_updates p = [] \<and> \<not> tp_clear_active_job p \<and>
         tp_selected_skill_update p = None \<and> tp_case_failure_update p = None \<and> tp_candidate_mutation p = None \<and>
         tp_final_result_target p = None \<and> valid_supplement_target_status p)"

definition valid_resume_plan :: "plan \<Rightarrow> job \<Rightarrow> bool \<Rightarrow> bool" where
  "valid_resume_plan p source assets_available \<longleftrightarrow>
     delta_is_empty (tp_accepted_state_delta p) \<and> tp_job_updates p = [] \<and> tp_selected_skill_update p = None \<and>
     tp_candidate_mutation p = None \<and> tp_final_result_target p = None \<and>
     (if assets_available
      then tp_case_failure_update p = None \<and>
           (case tp_next_job_spec p of
              None \<Rightarrow> False
            | Some spec \<Rightarrow> js_job_type spec = jb_job_type source \<and> js_replacement_for_job_id spec = Some (jb_job_id source)) \<and>
           tp_target_case_status p = expected_case_status (jb_job_type source)
      else tp_target_case_status p = CS_FAILED \<and> tp_next_job_spec p = None \<and> tp_case_failure_update p \<noteq> None)"

definition cancels_active_job :: "plan \<Rightarrow> case_aggregate \<Rightarrow> timestamp \<Rightarrow> bool" where
  "cancels_active_job p ag occurred_at \<longleftrightarrow>
     (case cs_active_job_id (ag_case ag) of
        None \<Rightarrow> tp_job_updates p = []
      | Some i \<Rightarrow>
          (case (map_of (ag_jobs ag) i, tp_job_updates p) of
             (Some j, [x]) \<Rightarrow>
               ju_job_id x = jb_job_id j \<and> ju_expected_status x = jb_status j \<and> ju_target_status x = JS_CANCELLED \<and>
               ju_started_at x = None \<and> ju_finished_at x = Some occurred_at \<and> ju_runtime_epoch x = None
           | _ \<Rightarrow> False))"

definition valid_cancel_plan :: "plan \<Rightarrow> case_aggregate \<Rightarrow> timestamp \<Rightarrow> bool" where
  "valid_cancel_plan p ag occurred_at \<longleftrightarrow>
     tp_target_case_status p = CS_CANCELLED \<and> tp_next_job_spec p = None \<and>
     (cs_active_job_id (ag_case ag) \<noteq> None \<longrightarrow> tp_clear_active_job p) \<and>
     delta_is_empty (tp_accepted_state_delta p) \<and> tp_selected_skill_update p = None \<and>
     tp_case_failure_update p = None \<and> tp_candidate_mutation p = None \<and> tp_final_result_target p = None \<and>
     cancels_active_job p ag occurred_at"

end
