(* ===== verification/External_Commands.thy ===== *)
theory External_Commands
  imports Command_Preparation Case_Repository
begin

text \<open>
  \<open>ExternalCommandHandler\<close> of \<open>application/external_commands.py\<close>: creating a case, preparing an attachment,
  submitting a supplement, resuming, cancelling and restarting a diagnosis, and announcing a log archive. Every
  handler is a loop of three optimistic attempts (read, decide, publish the new job, commit); the identifiers, the
  time and the runtime bindings are fixed by the first attempt. A commit is followed by signals to the dispatcher,
  an optional wait for the job, and the projection of the case.

  The ports are a record over a repository state. The clock, the identifier source and the wait for a change
  answer from the record. The signals to the dispatcher are part of the result; journey events and notifications
  have no result and are left out. \<open>cp_other\<close> is what other clients do between the steps of the attempts,
  \<open>cp_later\<close> what they do after the commit.
\<close>

section \<open>Ports and results\<close>

record 'r command_ports =
  cp_read :: "'r \<Rightarrow> opaque_id option \<Rightarrow> text_t option \<Rightarrow> 'r \<times> (store_error + state_file)"
  cp_commit :: "'r \<Rightarrow> int \<Rightarrow> int option \<Rightarrow> state_mutation \<Rightarrow> 'r \<times> (store_error + commit_receipt)"
  cp_publish_job :: "job \<Rightarrow> store_error + unit"
  cp_total_bytes :: "opaque_id \<Rightarrow> store_error + int"
  cp_missing :: "nat \<Rightarrow> versioned_ref list \<Rightarrow> versioned_ref list"
  cp_route_bindings :: "text_t list \<Rightarrow> store_error + runtime_bindings"
  cp_generic_bindings :: "bool \<Rightarrow> store_error + runtime_bindings"
  cp_diagnose_bindings :: "versioned_ref \<Rightarrow> store_error + runtime_bindings"
  cp_stable_target :: "case_t \<Rightarrow> text_t dict \<Rightarrow> bool"
  cp_accepting :: bool
  cp_now :: timestamp
  cp_case_id :: opaque_id
  cp_trigger_id :: opaque_id
  cp_job_id :: opaque_id
  cp_attachment_id :: opaque_id
  cp_item_id :: "nat \<Rightarrow> opaque_id"
  cp_dispatch :: "opaque_id \<Rightarrow> (bool \<times> bool) option"
  cp_cancel :: "opaque_id \<Rightarrow> bool"
  cp_first_wait :: bool
  cp_waits :: "bool list"
  cp_other :: "nat \<Rightarrow> 'r \<Rightarrow> 'r"
  cp_later :: "nat \<Rightarrow> 'r \<Rightarrow> 'r"

datatype signal = Submit_Signal opaque_id | Cancel_Signal opaque_id

record application_response =
  ar_business_receipt :: business_receipt
  ar_case_view :: "case_view option"
  ar_wait_timed_out :: bool
  ar_dispatch_pending :: bool

type_synonym 'r command_run = "'r \<times> signal list \<times> (store_error + application_response)"

text \<open>What is done under the publication lease before the commit.\<close>

datatype publication = Publish_Job "job option" | Check_Capacity opaque_id int

record pending_commit =
  pd_revision :: "int option"
  pd_mutation :: state_mutation
  pd_publication :: publication
  pd_receipt :: business_receipt
  pd_submit :: "opaque_id option"
  pd_cancel :: "exn + opaque_id option"
  pd_wait :: nat
  pd_bindings :: "runtime_bindings option"

datatype attempt_step = Replay business_receipt | Commit pending_commit

section \<open>Recording a command\<close>

definition max_case_resource_bytes :: int where
  "max_case_resource_bytes = 5368709120"

definition max_case_attachments :: nat where
  "max_case_attachments = 20"

definition idempotency_result :: "store_env \<Rightarrow> state_file \<Rightarrow> external_command \<Rightarrow> store_error + business_receipt option" where
  "idempotency_result sv s k =
     (let d = decide_idempotency (sv_py sv) s k
      in case (dc_disposition d, dc_record d) of
           (ID_CONFLICT, _) \<Rightarrow>
             refuse EC_IDEMPOTENCY_CONFLICT ''The idempotency key is already bound to another request.''
               [no_detail\<lparr>ed_field := Some ''idempotency_key'', ed_actual := Some (DStr (command_key k))\<rparr>]
         | (ID_REPLAY, Some rec) \<Rightarrow> Inr (Some (ik_business_receipt rec))
         | (ID_REPLAY, None) \<Rightarrow> Inl (Crash AssertionError)
         | (ID_NEW, _) \<Rightarrow> Inr None)"

definition receipt_of :: "external_command \<Rightarrow> opaque_id \<Rightarrow> opaque_id \<Rightarrow> int \<Rightarrow> opaque_id option \<Rightarrow> text_t \<Rightarrow> business_receipt" where
  "receipt_of k primary case_id revision job_id status =
     \<lparr>bz_operation = operation_name k, bz_primary_resource_id = primary, bz_case_id = Some case_id,
      bz_case_revision = Some revision, bz_job_id = job_id, bz_status = status\<rparr>"

text \<open>The idempotency record and the mutation that carries it.\<close>

definition recorded_mutation ::
  "store_env \<Rightarrow> state_file \<Rightarrow> external_command \<Rightarrow> business_receipt \<Rightarrow> opaque_id \<Rightarrow> timestamp \<Rightarrow> state_mutation \<Rightarrow>
   store_error + state_mutation" where
  "recorded_mutation sv s k receipt case_id created_at m =
     bindS (raised (make_idempotency_record k (dc_request_hash (decide_idempotency (sv_py sv) s k)) receipt (Some case_id) created_at))
       (\<lambda>rec. raised (build_state_mutation (m\<lparr>mn_idempotency := [rec]\<rparr>)))"

definition touched_case :: "py_env \<Rightarrow> case_t \<Rightarrow> timestamp \<Rightarrow> exn + case_t" where
  "touched_case env c occurred_at =
     (let c' = c\<lparr>cs_case_revision := cs_case_revision c + 1, cs_updated_at := occurred_at\<rparr> in ensure (valid_case env c') c')"

section \<open>Creating a case\<close>

definition no_inputs :: "opaque_id \<Rightarrow> opaque_id \<Rightarrow> timestamp \<Rightarrow> job_inputs" where
  "no_inputs job_id case_id created_at =
     \<lparr>bi_job_id = job_id, bi_case_id = case_id, bi_created_at = created_at, bi_existing_evidence_ids = [],
      bi_evidence_ids = (\<lambda>_. None), bi_existing_artifact_ids = [], bi_artifact_ids = (\<lambda>_. None),
      bi_existing_candidate = None, bi_candidates = (\<lambda>_. None)\<rparr>"

definition create_snapshot :: "py_env \<Rightarrow> case_t \<Rightarrow> exn + case_snapshot" where
  "create_snapshot env c =
     (let sn = \<lparr>sn_case = c, sn_active_job = None, sn_resume_source_job = None, sn_waiting_source_job = None,
           sn_replacement_job_ids_by_source = []\<rparr>
      in ensure (valid_snapshot env sn) sn)"

definition created_case :: "py_env \<Rightarrow> case_t \<Rightarrow> plan \<Rightarrow> diagnosis_state \<Rightarrow> job \<Rightarrow> timestamp \<Rightarrow> exn + case_t" where
  "created_case env provisional p target j occurred_at =
     bindE (apply_transition_plan_to_case env provisional p target (Some j) occurred_at None None) (\<lambda>c.
     let c' = c\<lparr>cs_case_revision := 1\<rparr> in ensure (valid_case env c') c')"

definition create_bindings :: "'r command_ports \<Rightarrow> create_case \<Rightarrow> store_error + runtime_bindings" where
  "create_bindings P k =
     validated_catalog_bindings (initial_job_type k)
       (if kc_force_generic k then cp_generic_bindings P (kc_initial_log_archive_expected k)
        else cp_route_bindings P (map ui_name (kc_initial_user_facts k))) None"

definition planned_creation ::
  "store_env \<Rightarrow> 'r command_ports \<Rightarrow> create_case \<Rightarrow> runtime_bindings \<Rightarrow> store_error + (case_t \<times> plan)" where
  "planned_creation sv P k bindings =
     bindS (raised (build_create_case_trigger k (cp_case_id P) (cp_trigger_id P)
       (map (cp_item_id P) [0..<length (kc_initial_user_facts k)]) bindings (cp_now P))) (\<lambda>t.
     case tr_payload t of
       CreateCasePayload payload \<Rightarrow>
         bindS (raised (provisional_case (sv_py sv) payload (tr_case_id t) (cp_now P))) (\<lambda>c.
         bindS (raised (create_snapshot (sv_py sv) c)) (\<lambda>sn.
         bindS (planned (validate_coordinator_plan_result t (plan (sv_py sv) sn t))) (\<lambda>p.
         bindS (validate_external_plan p (tr_runtime_bindings t)) (\<lambda>_.
         bindS (require (valid_create_plan k p) EC_VALIDATION_ERROR ''The CreateCase transition plan is invalid.'' []) (\<lambda>_.
         Inr (c, p))))))
     | _ \<Rightarrow> Inl (Crash ValueError))"

definition create_commit ::
  "store_env \<Rightarrow> 'r command_ports \<Rightarrow> create_case \<Rightarrow> state_file \<Rightarrow> case_t \<Rightarrow> plan \<Rightarrow> store_error + pending_commit" where
  "create_commit sv P k s c p =
     bindS (raised (apply_diagnosis_state_delta (sv_py sv) (cs_diagnosis_state c) (tp_accepted_state_delta p) (\<lambda>_. None)
       (tp_candidate_mutation p) (\<lambda>_. None) (Some 1))) (\<lambda>target.
     case tp_next_job_spec p of
       None \<Rightarrow> Inl (Crash AttributeError)
     | Some spec \<Rightarrow>
         bindS (raised (build_job (sv_py sv) (project (sv_py sv)) spec (no_inputs (cp_job_id P) (cp_case_id P) (cp_now P)) target)) (\<lambda>j.
         bindS (raised (created_case (sv_py sv) c p target j (cp_now P))) (\<lambda>c'.
         let receipt = receipt_of (CreateCase k) (cp_case_id P) (cp_case_id P) 1 (Some (cp_job_id P))
               (case_status_value (cs_status c'))
         in bindS (recorded_mutation sv s (CreateCase k) receipt (cp_case_id P) (cp_now P)
              (empty_mutation\<lparr>mn_upsert_case := Some c', mn_insert_jobs := [j]\<rparr>)) (\<lambda>m.
            Inr \<lparr>pd_revision = None, pd_mutation = m, pd_publication = Publish_Job (Some j), pd_receipt = receipt,
                 pd_submit = Some (jb_job_id j), pd_cancel = Inr None, pd_wait = kc_wait_seconds k, pd_bindings = None\<rparr>))))"

definition create_decision :: "store_env \<Rightarrow> 'r command_ports \<Rightarrow> create_case \<Rightarrow> state_file \<Rightarrow> store_error + pending_commit" where
  "create_decision sv P k s =
     bindS (create_bindings P k) (\<lambda>bindings.
     bindS (require (\<not> has_key (sf_cases s) (cp_case_id P)) EC_REVISION_CONFLICT
       ''The allocated Case ID is no longer available.'' [about_case (cp_case_id P)]) (\<lambda>_.
     bindS (planned_creation sv P k bindings) (\<lambda>(c, p). create_commit sv P k s c p)))"

section \<open>Preparing an attachment\<close>

definition prepare_decision ::
  "store_env \<Rightarrow> 'r command_ports \<Rightarrow> prepare_attachment \<Rightarrow> state_file \<Rightarrow> store_error + pending_commit" where
  "prepare_decision sv P k s =
     bindS (require_case s (ka_case_id k)) (\<lambda>ag.
     bindS (require_expected_revision (ag_case ag) (ka_expected_case_revision k)) (\<lambda>_.
     bindS (require_nonterminal (ag_case ag)) (\<lambda>_.
     bindS (require (length (ag_attachments ag) < max_case_attachments) EC_RESOURCE_LIMIT_EXCEEDED msg_attachments_full
       [(about_case (ka_case_id k))\<lparr>ed_field := Some ''attachments'', ed_limit := Some (int max_case_attachments),
          ed_observed := Some (int (length (ag_attachments ag)) + 1)\<rparr>]) (\<lambda>_.
     bindS (require (pred_option (\<lambda>n. n \<le> max_attachment_bytes) (ka_declared_size k)) EC_RESOURCE_LIMIT_EXCEEDED
       ''The declared Attachment size exceeds the V1 limit.''
       [no_detail\<lparr>ed_field := Some ''declared_size'', ed_limit := Some max_attachment_bytes,
          ed_observed := ka_declared_size k\<rparr>]) (\<lambda>_.
     bindS (raised (build_uploading_attachment k (cp_attachment_id P) (cp_now P))) (\<lambda>a.
     bindS (raised (touched_case (sv_py sv) (ag_case ag) (cp_now P))) (\<lambda>c'.
     let receipt = receipt_of (PrepareAttachment k) (cp_attachment_id P) (ka_case_id k) (cs_case_revision c') None ''UPLOADING''
     in bindS (recorded_mutation sv s (PrepareAttachment k) receipt (ka_case_id k) (cp_now P)
          (empty_mutation\<lparr>mn_upsert_case := Some c', mn_attachments := [a]\<rparr>)) (\<lambda>m.
        Inr \<lparr>pd_revision = Some (cs_case_revision (ag_case ag)), pd_mutation = m,
             pd_publication = Check_Capacity (ka_case_id k) (case ka_declared_size k of None \<Rightarrow> 0 | Some n \<Rightarrow> n),
             pd_receipt = receipt, pd_submit = None, pd_cancel = Inr None, pd_wait = 0, pd_bindings = None\<rparr>))))))))"

section \<open>Commands that follow a plan\<close>

definition cancelled_job :: "case_aggregate \<Rightarrow> opaque_id option \<Rightarrow> exn + opaque_id option" where
  "cancelled_job ag i =
     (case i of None \<Rightarrow> Inr None | Some j \<Rightarrow> if has_key (ag_jobs ag) j then Inr (Some j) else Inl KeyError)"

definition plan_job ::
  "store_env \<Rightarrow> 'r command_ports \<Rightarrow> case_aggregate \<Rightarrow> opaque_id \<Rightarrow> plan \<Rightarrow> diagnosis_state \<Rightarrow> opaque_id option \<Rightarrow>
   store_error + job option" where
  "plan_job sv P ag case_id p target next_job_id =
     (case tp_next_job_spec p of
        None \<Rightarrow> Inr None
      | Some spec \<Rightarrow>
          (case next_job_id of
             None \<Rightarrow> refuse EC_VALIDATION_ERROR ''The transition unexpectedly creates a Job.'' []
           | Some i \<Rightarrow>
               bindS (raised (build_job (sv_py sv) (project (sv_py sv)) spec
                 ((no_inputs i case_id (cp_now P))\<lparr>bi_existing_evidence_ids := dict_keys (ag_evidence ag),
                    bi_existing_artifact_ids := dict_keys (ag_artifacts ag),
                    bi_existing_candidate := ds_candidate_conclusion (cs_diagnosis_state (ag_case ag))\<rparr>) target)) (\<lambda>j.
               Inr (Some j))))"

definition supplement_target_ok :: "external_command \<Rightarrow> case_t \<Rightarrow> case_t \<Rightarrow> plan \<Rightarrow> store_error + unit" where
  "supplement_target_ok k c c' p =
     (case k of
        SubmitSupplement q \<Rightarrow>
          validate_supplement_target c c' (sd_add_user_facts (tp_accepted_state_delta p)) (ks_attachment_ids q)
      | _ \<Rightarrow> Inr ())"

definition commit_case_plan ::
  "store_env \<Rightarrow> 'r command_ports \<Rightarrow> state_file \<Rightarrow> external_command \<Rightarrow> opaque_id \<Rightarrow> case_aggregate \<Rightarrow> plan \<Rightarrow>
   opaque_id option \<Rightarrow> opaque_id option \<Rightarrow> nat \<Rightarrow> runtime_bindings option \<Rightarrow> store_error + pending_commit" where
  "commit_case_plan sv P s k case_id ag p next_job_id cancel_job_id wait bindings =
     bindS (raised (apply_diagnosis_state_delta (sv_py sv) (cs_diagnosis_state (ag_case ag)) (tp_accepted_state_delta p)
       (\<lambda>_. None) (tp_candidate_mutation p) (\<lambda>_. None) (map_option js_target_state_revision (tp_next_job_spec p)))) (\<lambda>target.
     bindS (plan_job sv P ag case_id p target next_job_id) (\<lambda>created.
     bindS (raised (apply_transition_plan_to_case (sv_py sv) (ag_case ag) p target created (cp_now P) None None)) (\<lambda>c'.
     bindS (supplement_target_ok k (ag_case ag) c' p) (\<lambda>_.
     let job_id = (case created of Some j \<Rightarrow> Some (jb_job_id j) | None \<Rightarrow> cancel_job_id);
         receipt = receipt_of k case_id case_id (cs_case_revision c') job_id (case_status_value (cs_status c'))
     in bindS (recorded_mutation sv s k receipt case_id (cp_now P)
          (empty_mutation\<lparr>mn_upsert_case := Some c', mn_insert_jobs := (case created of None \<Rightarrow> [] | Some j \<Rightarrow> [j]),
             mn_job_updates := tp_job_updates p\<rparr>)) (\<lambda>m.
        Inr \<lparr>pd_revision = Some (cs_case_revision (ag_case ag)), pd_mutation = m, pd_publication = Publish_Job created,
             pd_receipt = receipt, pd_submit = map_option jb_job_id created,
             pd_cancel = cancelled_job ag cancel_job_id, pd_wait = wait, pd_bindings = bindings\<rparr>)))))"

text \<open>The coordinator's answer to a trigger on the current state, checked against the offered bindings.\<close>

definition external_plan ::
  "store_env \<Rightarrow> state_file \<Rightarrow> opaque_id \<Rightarrow> exn + trigger \<Rightarrow> store_error + plan" where
  "external_plan sv s case_id trigger =
     bindS (raised trigger) (\<lambda>t.
     bindS (planned (coordinate sv s case_id t)) (\<lambda>p.
     bindS (validate_external_plan p (tr_runtime_bindings t)) (\<lambda>_. Inr p)))"

section \<open>Supplements\<close>

definition supplement_facts :: "'r command_ports \<Rightarrow> submit_supplement_command \<Rightarrow> case_t \<Rightarrow> exn + diagnosis_item list" where
  "supplement_facts P k c =
     mapE (\<lambda>(n, name, v). make_user_fact \<lparr>ui_name = name, ui_value = v\<rparr> (cp_item_id P n) (cp_trigger_id P)
         (ds_revision (cs_diagnosis_state c) + 1))
       (enumerate 0 (sort_key fst (ks_inputs k)))"

definition generic_source :: "job option \<Rightarrow> bool" where
  "generic_source source \<longleftrightarrow> (case source of None \<Rightarrow> False | Some j \<Rightarrow> jb_diagnosis_mode j = Some DM_GENERIC)"

text \<open>The bindings of the follow-up job: those of the waiting generic job, or the catalogue's for the skill.\<close>

definition supplement_bindings ::
  "'r command_ports \<Rightarrow> submit_supplement_command \<Rightarrow> nat \<Rightarrow> versioned_ref option \<Rightarrow> job option \<Rightarrow>
   store_error + runtime_bindings" where
  "supplement_bindings P k n skill source =
     (case (generic_source source, source, skill) of
        (True, Some j, _) \<Rightarrow>
          bindS (require (ks_inputs k = []) EC_VALIDATION_ERROR msg_generic_inputs []) (\<lambda>_.
          bindS (require (cp_missing P n (fixed_asset_refs j) = []) EC_ASSET_VERSION_UNAVAILABLE msg_config_gone []) (\<lambda>_.
          raised (runtime_bindings_from_job j)))
      | (_, _, Some ref) \<Rightarrow>
          bindS (require (ks_generic_supplement_text k = []) EC_VALIDATION_ERROR msg_generic_text_only []) (\<lambda>_.
          validated_catalog_bindings JT_DIAGNOSE (cp_diagnose_bindings P ref) (Some ref))
      | (_, _, None) \<Rightarrow> refuse EC_INVALID_CASE_STATE ''The waiting Case has no selected diagnosis skill.'' [])"

definition supplement_trigger ::
  "'r command_ports \<Rightarrow> submit_supplement_command \<Rightarrow> state_file \<Rightarrow> case_t \<Rightarrow> diagnosis_item list \<Rightarrow> runtime_bindings \<Rightarrow>
   exn + trigger" where
  "supplement_trigger P k s c facts bindings =
     bindE (continuation_for_supplement s (ks_case_id k) (ks_attachment_ids k)) (\<lambda>resources.
     external_trigger (cp_trigger_id P) (ks_case_id k) (ks_expected_case_revision k) (ks_idempotency_key k)
       (SubmitSupplementPayload
         \<lparr>sp_user_facts = facts, sp_ready_attachment_ids = ks_attachment_ids k,
          sp_stable_target_changed = cp_stable_target P c (ks_inputs k),
          sp_generic_supplement_text = ks_generic_supplement_text k\<rparr>)
       resources [JT_DIAGNOSE \<mapsto> bindings] (cp_now P))"

definition supplement_decision ::
  "store_env \<Rightarrow> 'r command_ports \<Rightarrow> submit_supplement_command \<Rightarrow> nat \<Rightarrow> runtime_bindings option \<Rightarrow> state_file \<Rightarrow>
   store_error + pending_commit" where
  "supplement_decision sv P k n carried s =
     bindS (require_case s (ks_case_id k)) (\<lambda>ag.
     bindS (require_expected_revision (ag_case ag) (ks_expected_case_revision k)) (\<lambda>_.
     bindS (require (cs_status (ag_case ag) \<in> {CS_WAITING_INPUT, CS_WAITING_ATTACHMENT}) EC_INVALID_CASE_STATE
       ''SubmitSupplement requires a Case waiting for input or an Attachment.''
       [(about_case (ks_case_id k))\<lparr>ed_expected := Some (DStr ''WAITING_INPUT|WAITING_ATTACHMENT''),
          ed_actual := Some (DStr (case_status_value (cs_status (ag_case ag))))\<rparr>]) (\<lambda>_.
     bindS (validate_supplement_inputs (sv_py sv) (ag_case ag) (ks_inputs k)) (\<lambda>_.
     bindS (validate_supplement_attachments s ag (cs_case_id (ag_case ag)) (ks_attachment_ids k)) (\<lambda>_.
     bindS (raised (supplement_facts P k (ag_case ag))) (\<lambda>facts.
     bindS (raised (build_case_snapshot sv s (ks_case_id k))) (\<lambda>sn.
     bindS (require (cs_selected_skill_ref (ag_case ag) \<noteq> None \<or> generic_source (sn_waiting_source_job sn))
       EC_INVALID_CASE_STATE ''The waiting Case has no selected diagnosis skill.'' []) (\<lambda>_.
     bindS (case carried of
              Some b \<Rightarrow> Inr b
            | None \<Rightarrow> supplement_bindings P k n (cs_selected_skill_ref (ag_case ag)) (sn_waiting_source_job sn)) (\<lambda>bindings.
     bindS (external_plan sv s (ks_case_id k) (supplement_trigger P k s (ag_case ag) facts bindings)) (\<lambda>p.
     bindS (require (valid_supplement_plan p facts) EC_VALIDATION_ERROR
       ''The SubmitSupplement transition plan is invalid.'' []) (\<lambda>_.
     commit_case_plan sv P s (SubmitSupplement k) (ks_case_id k) ag p (Some (cp_job_id P)) None (ks_wait_seconds k)
       (Some bindings))))))))))))"

section \<open>Resuming, cancelling and restarting\<close>

text \<open>A case with an active job is resumed by recording the command; a pending job is signalled again.\<close>

definition resume_active ::
  "store_env \<Rightarrow> 'r command_ports \<Rightarrow> resume_case \<Rightarrow> state_file \<Rightarrow> case_aggregate \<Rightarrow> job \<Rightarrow> store_error + pending_commit" where
  "resume_active sv P k s ag j =
     bindS (require (jb_status j \<in> {JS_PENDING, JS_RUNNING}) EC_INVALID_CASE_STATE
       ''The Case active Job is not resumable.'' []) (\<lambda>_.
     let c = ag_case ag;
         receipt = receipt_of (ResumeCase k) (kr_case_id k) (kr_case_id k) (cs_case_revision c) (Some (jb_job_id j))
           (case_status_value (cs_status c))
     in bindS (recorded_mutation sv s (ResumeCase k) receipt (kr_case_id k) (cp_now P)
          (empty_mutation\<lparr>mn_upsert_case := Some c\<rparr>)) (\<lambda>m.
        Inr \<lparr>pd_revision = Some (cs_case_revision c), pd_mutation = m, pd_publication = Publish_Job None,
             pd_receipt = receipt, pd_submit = (if jb_status j = JS_PENDING then Some (jb_job_id j) else None),
             pd_cancel = Inr None, pd_wait = kr_wait_seconds k, pd_bindings = None\<rparr>))"

definition resume_trigger ::
  "store_env \<Rightarrow> 'r command_ports \<Rightarrow> resume_case \<Rightarrow> state_file \<Rightarrow> job \<Rightarrow> versioned_ref list \<Rightarrow> exn + trigger" where
  "resume_trigger sv P k s source missing =
     (if missing = []
      then bindE (continuation_for_resume sv s (kr_case_id k)) (\<lambda>resources.
           bindE (runtime_bindings_from_job source) (\<lambda>b.
           external_trigger (cp_trigger_id P) (kr_case_id k) (kr_expected_case_revision k) (kr_idempotency_key k)
             (ResumeInterruptedPayload (jb_job_id source)) resources [jb_job_type source \<mapsto> b] (cp_now P)))
      else external_trigger (cp_trigger_id P) (kr_case_id k) (kr_expected_case_revision k) (kr_idempotency_key k)
             (AssetUnavailablePayload (jb_job_id source) missing) empty_continuation_resources (\<lambda>_. None) (cp_now P))"

definition resume_interrupted_case ::
  "store_env \<Rightarrow> 'r command_ports \<Rightarrow> resume_case \<Rightarrow> nat \<Rightarrow> state_file \<Rightarrow> case_aggregate \<Rightarrow> store_error + pending_commit" where
  "resume_interrupted_case sv P k n s ag =
     bindS (require (cs_status (ag_case ag) = CS_INTERRUPTED) EC_INVALID_CASE_STATE
       ''ResumeCase requires an interrupted Case or an active Job.''
       [(about_case (kr_case_id k))\<lparr>ed_expected := Some (DStr ''INTERRUPTED''),
          ed_actual := Some (DStr (case_status_value (cs_status (ag_case ag))))\<rparr>]) (\<lambda>_.
     bindS (raised (build_case_snapshot sv s (kr_case_id k))) (\<lambda>sn.
     case sn_resume_source_job sn of
       None \<Rightarrow> refuse EC_INVALID_CASE_STATE ''The interrupted Case has no unreplaced Job.'' []
     | Some source \<Rightarrow>
         let missing = cp_missing P n (fixed_asset_refs source)
         in bindS (external_plan sv s (kr_case_id k) (resume_trigger sv P k s source missing)) (\<lambda>p.
            bindS (require (valid_resume_plan p source (missing = [])) EC_VALIDATION_ERROR
              ''The ResumeCase transition plan is invalid.'' []) (\<lambda>_.
            commit_case_plan sv P s (ResumeCase k) (kr_case_id k) ag p (Some (cp_job_id P)) None (kr_wait_seconds k) None))))"

definition resume_decision ::
  "store_env \<Rightarrow> 'r command_ports \<Rightarrow> resume_case \<Rightarrow> nat \<Rightarrow> state_file \<Rightarrow> store_error + pending_commit" where
  "resume_decision sv P k n s =
     bindS (require_case s (kr_case_id k)) (\<lambda>ag.
     bindS (require_expected_revision (ag_case ag) (kr_expected_case_revision k)) (\<lambda>_.
     case cs_active_job_id (ag_case ag) of
       None \<Rightarrow> resume_interrupted_case sv P k n s ag
     | Some i \<Rightarrow>
         (case map_of (ag_jobs ag) i of
            None \<Rightarrow> Inl (Crash KeyError)
          | Some j \<Rightarrow> resume_active sv P k s ag j)))"

definition cancel_decision ::
  "store_env \<Rightarrow> 'r command_ports \<Rightarrow> cancel_case \<Rightarrow> state_file \<Rightarrow> store_error + pending_commit" where
  "cancel_decision sv P k s =
     bindS (require_case s (kk_case_id k)) (\<lambda>ag.
     bindS (require_expected_revision (ag_case ag) (kk_expected_case_revision k)) (\<lambda>_.
     bindS (require_nonterminal (ag_case ag)) (\<lambda>_.
     let active = cs_active_job_id (ag_case ag)
     in bindS (external_plan sv s (kk_case_id k)
          (external_trigger (cp_trigger_id P) (kk_case_id k) (kk_expected_case_revision k) (kk_idempotency_key k)
            (CancelCasePayload active) empty_continuation_resources (\<lambda>_. None) (cp_now P))) (\<lambda>p.
        bindS (require (valid_cancel_plan p ag (cp_now P)) EC_VALIDATION_ERROR
          ''The CancelCase transition plan is invalid.'' []) (\<lambda>_.
        commit_case_plan sv P s (CancelCase k) (kk_case_id k) ag p None active 0 None)))))"

text \<open>The bindings of a restarted generic diagnosis: those of its source, completed with the log preparation of
  the catalogue when the source had none.\<close>

definition restart_bindings :: "'r command_ports \<Rightarrow> nat \<Rightarrow> job \<Rightarrow> store_error + runtime_bindings" where
  "restart_bindings P n source =
     bindS (raised (runtime_bindings_from_job source)) (\<lambda>b.
     bindS (if rb_logparse_tool_ref b = None \<and> rb_generic_log_preparation b = None
            then bindS (validated_catalog_bindings JT_DIAGNOSE (cp_generic_bindings P True) None) (\<lambda>logs.
                 let b' = b\<lparr>rb_generic_log_preparation := rb_generic_log_preparation logs,
                       rb_logparse_tool_ref := rb_logparse_tool_ref logs, rb_logparse_product := rb_logparse_product logs\<rparr>
                 in raised (ensure (valid_runtime_bindings b') b'))
            else Inr b) (\<lambda>b'.
     bindS (require (rb_logparse_tool_ref b' \<noteq> None \<or> rb_generic_log_preparation b' \<noteq> None) EC_CONFIG_INVALID
       msg_no_log_preparation []) (\<lambda>_.
     bindS (require (cp_missing P n (fixed_asset_refs source @ (case rb_logparse_tool_ref b' of None \<Rightarrow> [] | Some r \<Rightarrow> [r])) = [])
       EC_ASSET_VERSION_UNAVAILABLE msg_config_gone []) (\<lambda>_.
     Inr b'))))"

definition restart_decision ::
  "store_env \<Rightarrow> 'r command_ports \<Rightarrow> restart_generic \<Rightarrow> nat \<Rightarrow> runtime_bindings option \<Rightarrow> state_file \<Rightarrow>
   store_error + pending_commit" where
  "restart_decision sv P k n carried s =
     bindS (require_case s (kg_case_id k)) (\<lambda>ag.
     case map_of (ag_jobs ag) (kg_source_job_id k) of
       None \<Rightarrow> refuse EC_INVALID_CASE_STATE msg_analysis_changed []
     | Some source \<Rightarrow>
         bindS (require (cs_status (ag_case ag) = CS_RUNNING \<and> cs_active_job_id (ag_case ag) = Some (kg_source_job_id k) \<and>
             jb_diagnosis_mode source = Some DM_GENERIC \<and> jb_status source \<in> {JS_PENDING, JS_RUNNING} \<and>
             kg_expected_case_revision k \<le> cs_case_revision (ag_case ag))
           EC_INVALID_CASE_STATE msg_analysis_changed []) (\<lambda>_.
         bindS (case carried of Some b \<Rightarrow> Inr b | None \<Rightarrow> restart_bindings P n source) (\<lambda>bindings.
         bindS (external_plan sv s (kg_case_id k)
           (external_trigger (cp_trigger_id P) (kg_case_id k) (cs_case_revision (ag_case ag)) (kg_idempotency_key k)
             (RestartGenericPayload (kg_source_job_id k) (kg_supplement_text k)) empty_continuation_resources
             [JT_DIAGNOSE \<mapsto> bindings] (cp_now P))) (\<lambda>p.
         commit_case_plan sv P s (RestartGenericDiagnosis k) (kg_case_id k) ag p (Some (cp_job_id P))
           (Some (kg_source_job_id k)) 0 (Some bindings)))))"

section \<open>Announcing a log archive\<close>

definition mark_decision ::
  "store_env \<Rightarrow> 'r command_ports \<Rightarrow> mark_initial_log \<Rightarrow> state_file \<Rightarrow> store_error + pending_commit" where
  "mark_decision sv P k s =
     bindS (require_case s (km_case_id k)) (\<lambda>ag.
     case map_of (ag_jobs ag) (km_source_job_id k) of
       None \<Rightarrow> refuse EC_INVALID_CASE_STATE msg_route_changed []
     | Some source \<Rightarrow>
         bindS (require (cs_status (ag_case ag) = CS_RUNNING \<and> cs_active_job_id (ag_case ag) = Some (km_source_job_id k) \<and>
             jb_job_type source = JT_ROUTE \<and> jb_status source \<in> {JS_PENDING, JS_RUNNING} \<and>
             km_expected_case_revision k \<le> cs_case_revision (ag_case ag))
           EC_INVALID_CASE_STATE msg_route_changed []) (\<lambda>_.
         bindS (raised (touched_case (sv_py sv) ((ag_case ag)\<lparr>cs_initial_log_archive_expected := True\<rparr>) (cp_now P))) (\<lambda>c'.
         let receipt = receipt_of (MarkInitialLogArchiveExpected k) (km_case_id k) (km_case_id k) (cs_case_revision c')
               (Some (jb_job_id source)) (case_status_value (cs_status c'))
         in bindS (recorded_mutation sv s (MarkInitialLogArchiveExpected k) receipt (km_case_id k) (cp_now P)
              (empty_mutation\<lparr>mn_upsert_case := Some c'\<rparr>)) (\<lambda>m.
            Inr \<lparr>pd_revision = Some (cs_case_revision (ag_case ag)), pd_mutation = m, pd_publication = Publish_Job None,
                 pd_receipt = receipt, pd_submit = None, pd_cancel = Inr None, pd_wait = 0, pd_bindings = None\<rparr>))))"

section \<open>One attempt\<close>

fun decide :: "store_env \<Rightarrow> 'r command_ports \<Rightarrow> external_command \<Rightarrow> nat \<Rightarrow> runtime_bindings option \<Rightarrow> state_file \<Rightarrow>
    store_error + pending_commit" where
  "decide sv P (CreateCase k) n b s = create_decision sv P k s"
| "decide sv P (PrepareAttachment k) n b s = prepare_decision sv P k s"
| "decide sv P (SubmitSupplement k) n b s = supplement_decision sv P k n b s"
| "decide sv P (ResumeCase k) n b s = resume_decision sv P k n s"
| "decide sv P (CancelCase k) n b s = cancel_decision sv P k s"
| "decide sv P (RestartGenericDiagnosis k) n b s = restart_decision sv P k n b s"
| "decide sv P (MarkInitialLogArchiveExpected k) n b s = mark_decision sv P k s"

definition decide_step ::
  "store_env \<Rightarrow> 'r command_ports \<Rightarrow> external_command \<Rightarrow> nat \<Rightarrow> runtime_bindings option \<Rightarrow> state_file \<Rightarrow> store_error + attempt_step" where
  "decide_step sv P k n b s =
     bindS (idempotency_result sv s k) (\<lambda>replay.
     case replay of
       Some receipt \<Rightarrow> Inr (Replay receipt)
     | None \<Rightarrow> bindS (decide sv P k n b s) (\<lambda>pd. Inr (Commit pd)))"

text \<open>The lease around publication and commit; \<open>PATH_VIOLATION\<close> of a capacity check is renamed.\<close>

definition path_violation :: "store_error \<Rightarrow> bool" where
  "path_violation e \<longleftrightarrow> (case e of PortError a \<Rightarrow> ae_code a = EC_PATH_VIOLATION | Crash _ \<Rightarrow> False)"

definition renamed_violation :: "store_error \<Rightarrow> store_error" where
  "renamed_violation e =
     (if path_violation e
      then PortError (port_error EC_RESOURCE_PUBLISH_FAILED ''The Attachment capacity preflight could not be completed.'')
      else e)"

definition capacity_left :: "'r command_ports \<Rightarrow> opaque_id \<Rightarrow> int \<Rightarrow> store_error + unit" where
  "capacity_left P case_id declared =
     bindS (cp_total_bytes P case_id) (\<lambda>total.
     require (total + declared \<le> max_case_resource_bytes) EC_RESOURCE_LIMIT_EXCEEDED
       ''The Case resource capacity would be exceeded.''
       [(about_case case_id)\<lparr>ed_field := Some ''declared_size'', ed_limit := Some max_case_resource_bytes,
          ed_observed := Some (total + declared)\<rparr>])"

definition publish_and_commit ::
  "'r command_ports \<Rightarrow> int \<Rightarrow> pending_commit \<Rightarrow> 'r \<Rightarrow> 'r \<times> (store_error + commit_receipt)" where
  "publish_and_commit P generation pd r =
     (case pd_publication pd of
        Publish_Job j \<Rightarrow>
          (case (case j of None \<Rightarrow> Inr () | Some x \<Rightarrow> cp_publish_job P x) of
             Inl e \<Rightarrow> (r, Inl e)
           | Inr _ \<Rightarrow> cp_commit P r generation (pd_revision pd) (pd_mutation pd))
      | Check_Capacity case_id declared \<Rightarrow>
          (case capacity_left P case_id declared of
             Inl e \<Rightarrow> (r, Inl (renamed_violation e))
           | Inr _ \<Rightarrow>
               (case cp_commit P r generation (pd_revision pd) (pd_mutation pd) of
                  (r', Inl e) \<Rightarrow> (r', Inl (renamed_violation e))
                | (r', Inr x) \<Rightarrow> (r', Inr x))))"

section \<open>Responses\<close>

definition saved_response_without_projection :: "business_receipt \<Rightarrow> bool \<Rightarrow> application_response" where
  "saved_response_without_projection receipt pending =
     \<lparr>ar_business_receipt = receipt, ar_case_view = None, ar_wait_timed_out = False, ar_dispatch_pending = pending\<rparr>"

definition settled_statuses :: "case_status list" where
  "settled_statuses =
     [CS_WAITING_INPUT, CS_WAITING_ATTACHMENT, CS_RESOLVED, CS_PARTIALLY_RESOLVED, CS_UNRESOLVED, CS_FAILED,
      CS_CANCELLED, CS_INTERRUPTED]"

definition response_wait_is_live :: "state_file \<Rightarrow> opaque_id \<Rightarrow> opaque_id \<Rightarrow> bool" where
  "response_wait_is_live s case_id job_id \<longleftrightarrow>
     (case map_of (sf_cases s) case_id of
        None \<Rightarrow> False
      | Some ag \<Rightarrow>
          cs_status (ag_case ag) \<notin> set settled_statuses \<and>
          (case map_of (ag_jobs ag) job_id of None \<Rightarrow> False | Some j \<Rightarrow> jb_status j \<in> {JS_PENDING, JS_RUNNING}))"

text \<open>The wait for the job. Every element of the list is one answer of \<open>wait_for_change\<close> before the deadline;
  after the last one no time remains.\<close>

fun wait_for_job ::
  "'r command_ports \<Rightarrow> opaque_id \<Rightarrow> opaque_id \<Rightarrow> bool list \<Rightarrow> nat \<Rightarrow> state_file \<Rightarrow> 'r \<Rightarrow>
   'r \<times> (store_error + (state_file \<times> bool))" where
  "wait_for_job P case_id job_id [] n s r = (r, Inr (s, response_wait_is_live s case_id job_id))"
| "wait_for_job P case_id job_id (changed # waits) n s r =
     (if \<not> response_wait_is_live s case_id job_id then (r, Inr (s, False))
      else case cp_read P (cp_later P n r) (Some case_id) None of
        (r', Inl e) \<Rightarrow> (r', Inl e)
      | (r', Inr s') \<Rightarrow>
          if \<not> changed \<and> response_wait_is_live s' case_id job_id then (r', Inr (s', True))
          else wait_for_job P case_id job_id waits (Suc n) s' r')"

definition awaited_state ::
  "'r command_ports \<Rightarrow> business_receipt \<Rightarrow> opaque_id \<Rightarrow> nat \<Rightarrow> state_file \<Rightarrow> 'r \<Rightarrow> 'r \<times> (store_error + (state_file \<times> bool))" where
  "awaited_state P receipt case_id wait s r =
     (case bz_job_id receipt of
        Some j \<Rightarrow> if 0 < wait then wait_for_job P case_id j (cp_first_wait P # cp_waits P) 1 s r else (r, Inr (s, False))
      | None \<Rightarrow> (r, Inr (s, False)))"

definition response_from_state ::
  "store_env \<Rightarrow> 'r command_ports \<Rightarrow> state_file \<Rightarrow> business_receipt \<Rightarrow> nat \<Rightarrow> bool \<Rightarrow> 'r \<Rightarrow>
   'r \<times> (store_error + application_response)" where
  "response_from_state sv P s receipt wait pending r =
     (case bz_case_id receipt of
        None \<Rightarrow> (r, Inr (saved_response_without_projection receipt pending))
      | Some case_id \<Rightarrow>
          (case awaited_state P receipt case_id wait s r of
             (r', Inl e) \<Rightarrow> (r', Inl e)
           | (r', Inr (s', timed_out)) \<Rightarrow>
               (r', bindS (raised (project_case_view sv s' case_id)) (\<lambda>v.
                  Inr \<lparr>ar_business_receipt = receipt, ar_case_view = Some v, ar_wait_timed_out = timed_out,
                       ar_dispatch_pending = pending\<rparr>))))"

text \<open>A state that can no longer be read does not take back a durable receipt.\<close>

definition state_unreadable :: "store_error \<Rightarrow> bool" where
  "state_unreadable e \<longleftrightarrow>
     (case e of PortError a \<Rightarrow> ae_code a \<in> {EC_STATE_CORRUPT, EC_STATE_SCHEMA_UNSUPPORTED} | Crash _ \<Rightarrow> False)"

definition keeping_receipt ::
  "business_receipt \<Rightarrow> bool \<Rightarrow> 'r \<times> (store_error + application_response) \<Rightarrow> 'r \<times> (store_error + application_response)" where
  "keeping_receipt receipt pending x =
     (case x of
        (r, Inl e) \<Rightarrow> (r, if state_unreadable e then Inr (saved_response_without_projection receipt pending) else Inl e)
      | _ \<Rightarrow> x)"

definition submit_pending :: "'r command_ports \<Rightarrow> opaque_id \<Rightarrow> bool" where
  "submit_pending P j = (case cp_dispatch P j of None \<Rightarrow> True | Some (accepted, duplicate) \<Rightarrow> \<not> (accepted \<or> duplicate))"

text \<open>\<open>_after_commit\<close>: signals to the dispatcher, then the response from the current state.\<close>

definition after_commit :: "store_env \<Rightarrow> 'r command_ports \<Rightarrow> pending_commit \<Rightarrow> 'r \<Rightarrow> 'r command_run" where
  "after_commit sv P pd r =
     (case (pd_cancel pd, bz_case_id (pd_receipt pd)) of
        (Inl e, _) \<Rightarrow> (r, [], Inl (Crash e))
      | (Inr _, None) \<Rightarrow> (r, [], Inl (Crash AssertionError))
      | (Inr cancel, Some case_id) \<Rightarrow>
          let blocked = (case cancel of
                None \<Rightarrow> False
              | Some i \<Rightarrow> \<not> cp_cancel P i \<and> bz_operation (pd_receipt pd) = ''RestartGenericDiagnosis'');
              submitted = (if blocked then None else pd_submit pd);
              pending = (case submitted of None \<Rightarrow> blocked | Some j \<Rightarrow> submit_pending P j);
              signals = (case cancel of None \<Rightarrow> [] | Some i \<Rightarrow> [Cancel_Signal i]) @
                (case submitted of None \<Rightarrow> [] | Some j \<Rightarrow> [Submit_Signal j]);
              result = keeping_receipt (pd_receipt pd) pending
                (case cp_read P (cp_later P 0 r) (Some case_id) None of
                   (r', Inl e) \<Rightarrow> (r', Inl e)
                 | (r', Inr s) \<Rightarrow> response_from_state sv P s (pd_receipt pd) (pd_wait pd) pending r')
          in (fst result, signals, snd result))"

text \<open>\<open>_respond\<close>: the answer to a replayed command.\<close>

definition respond ::
  "store_env \<Rightarrow> 'r command_ports \<Rightarrow> state_file \<Rightarrow> business_receipt \<Rightarrow> nat \<Rightarrow> 'r \<Rightarrow> 'r command_run" where
  "respond sv P s receipt wait r =
     (let job = (case (bz_job_id receipt, bz_case_id receipt) of
            (Some j, Some c) \<Rightarrow>
              (case map_of (sf_cases s) c of None \<Rightarrow> None | Some ag \<Rightarrow> map_of (ag_jobs ag) j)
          | _ \<Rightarrow> None);
          signals = (case (bz_job_id receipt, bz_case_id receipt) of
              (Some j, Some c) \<Rightarrow>
                if bz_operation receipt = ''CancelCase'' then [Cancel_Signal j]
                else if bz_operation receipt \<noteq> ''MarkInitialLogArchiveExpected'' \<and>
                        (case job of None \<Rightarrow> False | Some x \<Rightarrow> jb_status x = JS_PENDING)
                then [Submit_Signal j] else []
            | _ \<Rightarrow> []);
          pending = (case signals of [Submit_Signal j] \<Rightarrow> submit_pending P j | _ \<Rightarrow> False);
          result = keeping_receipt receipt pending (response_from_state sv P s receipt wait pending r)
      in (fst result, signals, snd result))"

fun command_wait :: "external_command \<Rightarrow> nat" where
  "command_wait (CreateCase k) = kc_wait_seconds k"
| "command_wait (SubmitSupplement k) = ks_wait_seconds k"
| "command_wait (ResumeCase k) = kr_wait_seconds k"
| "command_wait _ = 0"

definition replayed ::
  "store_env \<Rightarrow> 'r command_ports \<Rightarrow> external_command \<Rightarrow> state_file \<Rightarrow> business_receipt \<Rightarrow> 'r \<Rightarrow> 'r command_run" where
  "replayed sv P k s receipt r =
     (case k of
        RestartGenericDiagnosis q \<Rightarrow>
          if \<not> cp_cancel P (kg_source_job_id q)
          then (r, [Cancel_Signal (kg_source_job_id q)], Inr (saved_response_without_projection receipt True))
          else (case respond sv P s receipt 0 r of
                  (r', signals, x) \<Rightarrow> (r', Cancel_Signal (kg_source_job_id q) # signals, x))
      | _ \<Rightarrow> respond sv P s receipt (command_wait k) r)"

section \<open>The handler\<close>

text \<open>\<open>for attempt in range(3)\<close>; only a \<open>REVISION_CONFLICT\<close> of publication or commit is tried again.\<close>

fun attempts ::
  "store_env \<Rightarrow> 'r command_ports \<Rightarrow> external_command \<Rightarrow> nat \<Rightarrow> nat \<Rightarrow> runtime_bindings option \<Rightarrow> 'r \<Rightarrow> 'r command_run" where
  "attempts sv P k 0 n b r = (r, [], Inl (Crash AssertionError))"
| "attempts sv P k (Suc left) n b r =
     (case cp_read P (cp_other P (2 * n) r) (command_case_id k) (Some (command_request_key k)) of
        (r1, Inl e) \<Rightarrow> (r1, [], Inl e)
      | (r1, Inr s) \<Rightarrow>
          (case decide_step sv P k n b s of
             Inl e \<Rightarrow> (r1, [], Inl e)
           | Inr (Replay receipt) \<Rightarrow> replayed sv P k s receipt r1
           | Inr (Commit pd) \<Rightarrow>
               (case publish_and_commit P (sf_generation s) pd (cp_other P (2 * n + 1) r1) of
                  (r2, Inl e) \<Rightarrow>
                    if is_revision_conflict e \<and> 0 < left then attempts sv P k left (Suc n) (pd_bindings pd) r2
                    else (r2, [], Inl e)
                | (r2, Inr _) \<Rightarrow> after_commit sv P pd r2)))"

fun needs_admission :: "external_command \<Rightarrow> bool" where
  "needs_admission (PrepareAttachment k) = False"
| "needs_admission (CancelCase k) = False"
| "needs_admission k = True"

definition classified :: "store_error + application_response \<Rightarrow> store_error + application_response" where
  "classified x =
     (case x of
        Inl (Crash ValueError) \<Rightarrow>
          refuse EC_VALIDATION_ERROR ''The command could not be applied to the validated state.'' []
      | _ \<Rightarrow> x)"

definition execute :: "store_env \<Rightarrow> 'r command_ports \<Rightarrow> external_command \<Rightarrow> 'r \<Rightarrow> 'r command_run" where
  "execute sv P k r =
     (if needs_admission k \<and> \<not> cp_accepting P
      then (r, [], refuse EC_DISPATCH_REJECTED msg_not_accepting [])
      else case attempts sv P k 3 0 None r of (r', signals, x) \<Rightarrow> (r', signals, classified x))"

end
