(* ===== verification/Command_Store.thy ===== *)
theory Command_Store
  imports External_Commands Control_Store
begin

text \<open>
  The external commands over a repository. The locale \<open>request_store\<close> is what their idempotency relies on: a
  successful commit with a record makes the record findable under its key, from the case and from the key alone;
  a commit refused with \<open>REVISION_CONFLICT\<close> changes nothing; a known key is also found by a command that names
  another case. The handler is proved against this contract, and \<open>CaseStateRepository\<close> provides it.
\<close>

section \<open>What a decision records\<close>

lemma applied_plan_case_id:
  "apply_transition_plan_to_case env c p target created at u g = Inr c' \<Longrightarrow> cs_case_id c' = cs_case_id c"
  by (auto simp: apply_transition_plan_to_case_def Let_def bindE_Inr split: if_splits)

definition records :: "py_env \<Rightarrow> external_command \<Rightarrow> pending_commit \<Rightarrow> bool" where
  "records env k pd \<longleftrightarrow>
     (\<exists>x rec. mn_upsert_case (pd_mutation pd) = Some x \<and> mn_idempotency (pd_mutation pd) = [rec] \<and>
        idempotency_key_of rec = command_request_key k \<and> ik_request_hash rec = business_request_sha256 env k \<and>
        ik_business_receipt rec = pd_receipt pd \<and> bz_case_id (pd_receipt pd) = Some (cs_case_id x) \<and>
        pred_option (\<lambda>c. c = cs_case_id x) (command_case_id k))"

lemma decided_hash [simp]: "dc_request_hash (decide_idempotency env s k) = business_request_sha256 env k"
  by (simp add: decide_idempotency_def Let_def split: option.split)

lemma recorded_mutation_Inr:
  assumes "recorded_mutation sv s k receipt case_id at m = Inr m'"
  shows "mn_upsert_case m' = mn_upsert_case m"
    and "\<exists>rec. mn_idempotency m' = [rec] \<and> idempotency_key_of rec = command_request_key k \<and>
      ik_request_hash rec = business_request_sha256 (sv_py sv) k \<and> ik_business_receipt rec = receipt \<and>
      pred_option (\<lambda>c. c = case_id) (command_case_id k)"
  using assms
  by (auto simp: recorded_mutation_def bindS_Inr make_idempotency_record_def build_state_mutation_def
      idempotency_key_of_def command_request_key_def option.pred_set split: if_splits)

lemma recordsI:
  assumes "recorded_mutation sv s k (pd_receipt pd) case_id at m = Inr (pd_mutation pd)"
    and "mn_upsert_case m = Some x" "bz_case_id (pd_receipt pd) = Some case_id" "cs_case_id x = case_id"
  shows "records (sv_py sv) k pd"
  using recorded_mutation_Inr [OF assms(1)] assms(2-4) unfolding records_def by auto

lemma receipt_case [simp]: "bz_case_id (receipt_of k i c rv j st) = Some c"
  by (simp add: receipt_of_def)

lemma plan_commit_records:
  assumes "commit_case_plan sv P s k case_id ag p nj cj w b = Inr pd" "cs_case_id (ag_case ag) = case_id"
  shows "records (sv_py sv) k pd"
proof -
  from assms(1) obtain target created c' m receipt where
    c': "apply_transition_plan_to_case (sv_py sv) (ag_case ag) p target created (cp_now P) None None = Inr c'"
    and m: "recorded_mutation sv s k receipt case_id (cp_now P)
      (empty_mutation\<lparr>mn_upsert_case := Some c', mn_insert_jobs := (case created of None \<Rightarrow> [] | Some j \<Rightarrow> [j]),
        mn_job_updates := tp_job_updates p\<rparr>) = Inr m"
    and pd: "pd_mutation pd = m" "pd_receipt pd = receipt" "bz_case_id receipt = Some case_id"
    unfolding commit_case_plan_def Let_def by (auto simp: bindS_Inr)
  show ?thesis
    using m applied_plan_case_id [OF c'] assms(2) pd by (intro recordsI [where x = c']) auto
qed

lemma created_case_id: "created_case env c p target j at = Inr c' \<Longrightarrow> cs_case_id c' = cs_case_id c"
  by (auto simp: created_case_def Let_def bindE_Inr dest: applied_plan_case_id)

lemma create_trigger_case: "build_create_case_trigger k c t ids b at = Inr x \<Longrightarrow> tr_case_id x = c"
  by (auto simp: build_create_case_trigger_def bindE_Inr external_trigger_def Let_def split: if_splits)

lemma planned_creation_id:
  assumes "planned_creation sv P k b = Inr (c, p)"
  shows "cs_case_id c = cp_case_id P"
proof -
  from assms obtain t payload where t: "build_create_case_trigger k (cp_case_id P) (cp_trigger_id P)
      (map (cp_item_id P) [0..<length (kc_initial_user_facts k)]) b (cp_now P) = Inr t"
    and "provisional_case (sv_py sv) payload (tr_case_id t) (cp_now P) = Inr c"
    unfolding planned_creation_def
    by (elim bindS_InrE, simp split: trigger_payload.split_asm) (auto simp: bindS_Inr)
  then show ?thesis using create_trigger_case [OF t] by (auto simp: provisional_case_def Let_def)
qed

lemma create_records:
  assumes "create_decision sv P k s = Inr pd"
  shows "records (sv_py sv) (CreateCase k) pd"
proof -
  from assms obtain b c p where p: "planned_creation sv P k b = Inr (c, p)" "create_commit sv P k s c p = Inr pd"
    unfolding create_decision_def by (auto simp: bindS_Inr)
  from p(2) obtain target j c' m receipt where c': "created_case (sv_py sv) c p target j (cp_now P) = Inr c'"
    and m: "recorded_mutation sv s (CreateCase k) receipt (cp_case_id P) (cp_now P)
      (empty_mutation\<lparr>mn_upsert_case := Some c', mn_insert_jobs := [j]\<rparr>) = Inr m"
    and pd: "pd_mutation pd = m" "pd_receipt pd = receipt" "bz_case_id receipt = Some (cp_case_id P)"
    unfolding create_commit_def Let_def by (auto simp: bindS_Inr split: option.splits)
  show ?thesis
    using m created_case_id [OF c'] planned_creation_id [OF p(1)] pd by (intro recordsI [where x = c']) auto
qed

lemma touched_case_id: "touched_case env c at = Inr c' \<Longrightarrow> cs_case_id c' = cs_case_id c"
  by (auto simp: touched_case_def Let_def)

lemma required_case: "require_case s c = Inr ag \<longleftrightarrow> map_of (sf_cases s) c = Some ag"
  by (auto simp: require_case_def split: option.splits)

lemma decide_records:
  assumes "decide sv P k n b s = Inr pd"
    and keyed: "\<And>c ag. map_of (sf_cases s) c = Some ag \<Longrightarrow> cs_case_id (ag_case ag) = c"
  shows "records (sv_py sv) k pd"
proof (cases k)
  case (CreateCase q)
  then show ?thesis using assms(1) by (simp add: create_records)
next
  case (PrepareAttachment q)
  from assms(1) PrepareAttachment obtain ag a c' m receipt where ag: "map_of (sf_cases s) (ka_case_id q) = Some ag"
    and c': "touched_case (sv_py sv) (ag_case ag) (cp_now P) = Inr c'"
    and m: "recorded_mutation sv s k receipt (ka_case_id q) (cp_now P)
      (empty_mutation\<lparr>mn_upsert_case := Some c', mn_attachments := [a]\<rparr>) = Inr m"
    and pd: "pd_mutation pd = m" "pd_receipt pd = receipt" "bz_case_id receipt = Some (ka_case_id q)"
    by (auto simp: prepare_decision_def Let_def bindS_Inr required_case)
  show ?thesis using m touched_case_id [OF c'] keyed [OF ag] pd by (intro recordsI [where x = c']) auto
next
  case (SubmitSupplement q)
  with assms(1) show ?thesis
    by (auto simp: supplement_decision_def bindS_Inr required_case intro: plan_commit_records dest: keyed)
next
  case (ResumeCase q)
  from assms(1) ResumeCase obtain ag where ag: "map_of (sf_cases s) (kr_case_id q) = Some ag"
    by (auto simp: resume_decision_def bindS_Inr required_case)
  have active: "records (sv_py sv) k pd" if res: "resume_active sv P q s ag j = Inr pd" for j
  proof -
    from res ResumeCase obtain m receipt where m: "recorded_mutation sv s k receipt (kr_case_id q) (cp_now P)
        (empty_mutation\<lparr>mn_upsert_case := Some (ag_case ag)\<rparr>) = Inr m"
      and pd: "pd_mutation pd = m" "pd_receipt pd = receipt" "bz_case_id receipt = Some (kr_case_id q)"
      by (auto simp: resume_active_def Let_def bindS_Inr)
    show ?thesis using m keyed [OF ag] pd by (intro recordsI [where x = "ag_case ag"]) auto
  qed
  have "records (sv_py sv) k pd" if "resume_interrupted_case sv P q n s ag = Inr pd"
    using that keyed [OF ag] ResumeCase
    by (auto simp: resume_interrupted_case_def Let_def bindS_Inr split: option.splits intro: plan_commit_records)
  with active show ?thesis using assms(1) ResumeCase ag
    by (auto simp: resume_decision_def bindS_Inr required_case split: option.splits)
next
  case (CancelCase q)
  with assms(1) show ?thesis
    by (auto simp: cancel_decision_def Let_def bindS_Inr required_case intro: plan_commit_records dest: keyed)
next
  case (RestartGenericDiagnosis q)
  with assms(1) obtain ag where ag: "map_of (sf_cases s) (kg_case_id q) = Some ag"
    by (auto simp: restart_decision_def bindS_Inr required_case)
  with assms(1) RestartGenericDiagnosis obtain p nj cj w b'
    where "commit_case_plan sv P s k (kg_case_id q) ag p nj cj w b' = Inr pd"
    by (cases "map_of (ag_jobs ag) (kg_source_job_id q)")
      (auto simp: restart_decision_def bindS_Inr required_case require_case_def)
  then show ?thesis using keyed [OF ag] by (rule plan_commit_records)
next
  case (MarkInitialLogArchiveExpected q)
  from assms(1) MarkInitialLogArchiveExpected obtain ag c' m receipt where
    ag: "map_of (sf_cases s) (km_case_id q) = Some ag"
    and c': "touched_case (sv_py sv) ((ag_case ag)\<lparr>cs_initial_log_archive_expected := True\<rparr>) (cp_now P) = Inr c'"
    and m: "recorded_mutation sv s k receipt (km_case_id q) (cp_now P) (empty_mutation\<lparr>mn_upsert_case := Some c'\<rparr>) = Inr m"
    and pd: "pd_mutation pd = m" "pd_receipt pd = receipt" "bz_case_id receipt = Some (km_case_id q)"
    by (auto simp: mark_decision_def Let_def bindS_Inr required_case split: option.splits)
  show ?thesis using m touched_case_id [OF c'] keyed [OF ag] pd by (intro recordsI [where x = c']) auto
qed

section \<open>The contract of the store\<close>

locale request_store =
  fixes sv :: store_env and good :: "'r \<Rightarrow> bool"
    and read_state :: "'r \<Rightarrow> opaque_id option \<Rightarrow> text_t option \<Rightarrow> 'r \<times> (store_error + state_file)"
    and submit :: "'r \<Rightarrow> int \<Rightarrow> int option \<Rightarrow> state_mutation \<Rightarrow> 'r \<times> (store_error + commit_receipt)"
  assumes read_keyed: "good r \<Longrightarrow> read_state r c (Some key) = (r', Inr s) \<Longrightarrow> map_of (sf_cases s) d = Some ag \<Longrightarrow>
      cs_case_id (ag_case ag) = d"
    and refused_unchanged: "good r \<Longrightarrow> submit r g rv m = (r', Inl e) \<Longrightarrow> is_revision_conflict e \<Longrightarrow> r' = r"
    and recorded: "good r \<Longrightarrow> submit r g rv m = (r', Inr rc) \<Longrightarrow> mn_upsert_case m = Some x \<Longrightarrow>
      mn_idempotency m = [rec] \<Longrightarrow>
      \<exists>s. map_of (sf_idempotency s) (idempotency_key_of rec) = Some rec \<and>
        read_state r' (Some (cs_case_id x)) None = (r', Inr s) \<and>
        read_state r' (Some (cs_case_id x)) (Some (idempotency_key_of rec)) = (r', Inr s) \<and>
        read_state r' None (Some (idempotency_key_of rec)) = (r', Inr s) \<and>
        (\<forall>d t. read_state r' (Some d) None = (r', Inr t) \<longrightarrow>
          (\<exists>u. read_state r' (Some d) (Some (idempotency_key_of rec)) = (r', Inr u) \<and>
            map_of (sf_idempotency u) (idempotency_key_of rec) = Some rec))"
begin

definition connected :: "'r command_ports \<Rightarrow> bool" where
  "connected P \<longleftrightarrow> cp_read P = read_state \<and> cp_commit P = submit"

definition quiet :: "'r command_ports \<Rightarrow> bool" where
  "quiet P \<longleftrightarrow> (\<forall>n r. cp_other P n r = r \<and> cp_later P n r = r)"

text \<open>The key of the command is new to the store.\<close>

definition unused :: "external_command \<Rightarrow> 'r \<Rightarrow> bool" where
  "unused k r \<longleftrightarrow>
     (\<exists>s. read_state r (command_case_id k) (Some (command_request_key k)) = (r, Inr s) \<and>
        map_of (sf_idempotency s) (command_request_key k) = None)"

lemma published:
  assumes "connected P" "good r" "publish_and_commit P g pd r = (r', x)"
  shows "(\<exists>rc. x = Inr rc \<and> submit r g (pd_revision pd) (pd_mutation pd) = (r', Inr rc)) \<or>
    (\<exists>e. x = Inl e \<and> (is_revision_conflict e \<longrightarrow> r' = r))"
proof -
  have renamed: "is_revision_conflict (renamed_violation e) \<Longrightarrow> is_revision_conflict e" for e
    by (auto simp: renamed_violation_def is_revision_conflict_def port_error_def split: if_splits)
  show ?thesis
    using assms refused_unchanged [OF assms(2), of g "pd_revision pd" "pd_mutation pd"] renamed
    by (cases x) (auto simp: publish_and_commit_def connected_def split: publication.split_asm sum.split_asm prod.split_asm)
qed

text \<open>A command with a new key that succeeds has committed.\<close>

lemma attempts_commit:
  assumes P: "connected P" "quiet P" and r: "good r"
    and s: "read_state r (command_case_id k) (Some (command_request_key k)) = (r, Inr s)"
    and new: "map_of (sf_idempotency s) (command_request_key k) = None"
  shows "attempts sv P k left n b r = (r', sg, Inr resp) \<Longrightarrow>
    \<exists>n' b' pd r1 rc. decide sv P k n' b' s = Inr pd \<and>
      submit r (sf_generation s) (pd_revision pd) (pd_mutation pd) = (r1, Inr rc) \<and>
      after_commit sv P pd r1 = (r', sg, Inr resp)"
proof (induction left arbitrary: n b)
  case (Suc left)
  have step: "decide_step sv P k n b s = bindS (decide sv P k n b s) (\<lambda>pd. Inr (Commit pd))"
    using new by (simp add: decide_step_def idempotency_result_def decide_idempotency_def Let_def)
  have reads: "cp_read P (cp_other P (2 * n) r) (command_case_id k) (Some (command_request_key k)) = (r, Inr s)"
    using P s by (simp add: connected_def quiet_def)
  have other: "cp_other P m x = x" for m x using P(2) by (simp add: quiet_def)
  show ?case
  proof (cases "decide sv P k n b s")
    case (Inl e)
    then show ?thesis using Suc.prems reads step by simp
  next
    case (Inr pd)
    obtain r1 x where pub: "publish_and_commit P (sf_generation s) pd r = (r1, x)" by fastforce
    from published [OF P(1) r pub] show ?thesis
    proof (elim disjE exE conjE)
      fix rc assume "x = Inr rc" "submit r (sf_generation s) (pd_revision pd) (pd_mutation pd) = (r1, Inr rc)"
      moreover from this have "after_commit sv P pd r1 = (r', sg, Inr resp)"
        using Suc.prems reads step Inr pub other by simp
      ultimately show ?thesis using Inr by blast
    next
      fix e assume e: "x = Inl e" "is_revision_conflict e \<longrightarrow> r1 = r"
      then have "is_revision_conflict e \<and> 0 < left \<and> attempts sv P k left (Suc n) (pd_bindings pd) r1 = (r', sg, Inr resp)"
        using Suc.prems reads step Inr pub other by (simp split: if_splits)
      then show ?thesis using e Suc.IH by auto
    qed
  qed
qed simp

section \<open>Responses of an undisturbed store\<close>

lemma quiet_wait:
  assumes "connected P" "quiet P" "read_state r (Some c) None = (r, Inr s)"
  shows "\<exists>out. wait_for_job P c j ws n s r = (r, Inr (s, out))"
  using assms by (induction ws arbitrary: n) (auto simp: connected_def quiet_def)

lemma quiet_response:
  assumes "connected P" "quiet P" "read_state r (Some c) None = (r, Inr s)" "bz_case_id receipt = Some c"
  shows "\<exists>out. response_from_state sv P s receipt wait pending r =
    (r, bindS (raised (project_case_view sv s c)) (\<lambda>v.
       Inr \<lparr>ar_business_receipt = receipt, ar_case_view = Some v, ar_wait_timed_out = out, ar_dispatch_pending = pending\<rparr>))"
proof -
  obtain out where "awaited_state P receipt c wait s r = (r, Inr (s, out))"
    using quiet_wait [OF assms(1-3), of _ "cp_first_wait P # cp_waits P" 1]
    by (cases "bz_job_id receipt"; cases "0 < wait") (auto simp: awaited_state_def simp del: wait_for_job.simps)
  then show ?thesis using assms(4) by (auto simp: response_from_state_def)
qed

lemma committed_response:
  assumes P: "connected P" "quiet P" "read_state r (Some c) None = (r, Inr s)" and c: "bz_case_id (pd_receipt pd) = Some c"
    and "after_commit sv P pd r = (r', sg, Inr resp)"
  shows "r' = r" "ar_business_receipt resp = pd_receipt pd" "\<exists>v. project_case_view sv s c = Inr v"
proof -
  obtain cancel where cancel: "pd_cancel pd = Inr cancel" using assms(5) by (cases "pd_cancel pd") (simp_all add: after_commit_def)
  obtain pending where res: "keeping_receipt (pd_receipt pd) pending
      (response_from_state sv P s (pd_receipt pd) (pd_wait pd) pending r) = (r', Inr resp)"
    using assms(5) cancel c P unfolding after_commit_def Let_def connected_def quiet_def
    by (auto simp: prod_eq_iff)
  obtain out where out: "response_from_state sv P s (pd_receipt pd) (pd_wait pd) pending r =
    (r, bindS (raised (project_case_view sv s c)) (\<lambda>v.
       Inr \<lparr>ar_business_receipt = pd_receipt pd, ar_case_view = Some v, ar_wait_timed_out = out, ar_dispatch_pending = pending\<rparr>))"
    using quiet_response [OF P c] by blast
  show "r' = r" "ar_business_receipt resp = pd_receipt pd" "\<exists>v. project_case_view sv s c = Inr v"
    using res unfolding out
    by (auto simp: keeping_receipt_def raised_def state_unreadable_def split: sum.splits)
qed

lemma replayed_response:
  assumes P: "connected P" "quiet P" "read_state r (Some c) None = (r, Inr s)" and c: "bz_case_id receipt = Some c"
    and v: "project_case_view sv s c = Inr v"
  shows "\<exists>sg resp. replayed sv P k s receipt r = (r, sg, Inr resp) \<and> ar_business_receipt resp = receipt"
proof -
  have resp: "\<exists>sg resp. respond sv P s receipt wait r = (r, sg, Inr resp) \<and> ar_business_receipt resp = receipt" for wait
  proof -
    have "\<exists>resp. keeping_receipt receipt pending (response_from_state sv P s receipt wait pending r) = (r, Inr resp) \<and>
        ar_business_receipt resp = receipt" for pending
      using quiet_response [OF P c, of wait pending] v by (auto simp: raised_def keeping_receipt_def)
    then show ?thesis by (auto simp: respond_def Let_def) (metis fst_conv snd_conv)+
  qed
  show ?thesis
  proof (cases k)
    case (RestartGenericDiagnosis q)
    then show ?thesis using resp [of 0]
      by (auto simp: replayed_def saved_response_without_projection_def split: prod.splits)
  qed (use resp in \<open>simp_all add: replayed_def\<close>)
qed

section \<open>A command is applied once\<close>

lemma execute_Inr:
  "execute sv P k r = (r', sg, Inr resp) \<longleftrightarrow>
     (needs_admission k \<longrightarrow> cp_accepting P) \<and> attempts sv P k 3 0 None r = (r', sg, Inr resp)"
  by (auto simp: execute_def classified_def refuse_def split: prod.splits sum.splits store_error.splits exn.splits)

lemma new_command_recorded:
  assumes P: "connected P" "quiet P" and r: "good r" "unused k r" and run: "execute sv P k r = (r', sg, Inr resp)"
  obtains s rec c v where "map_of (sf_idempotency s) (command_request_key k) = Some rec"
    "ik_request_hash rec = business_request_sha256 (sv_py sv) k" "ik_business_receipt rec = ar_business_receipt resp"
    "bz_case_id (ar_business_receipt resp) = Some c" "pred_option (\<lambda>d. d = c) (command_case_id k)"
    "read_state r' (Some c) None = (r', Inr s)" "read_state r' None (Some (command_request_key k)) = (r', Inr s)"
    "read_state r' (Some c) (Some (command_request_key k)) = (r', Inr s)" "project_case_view sv s c = Inr v"
    "\<And>d t. read_state r' (Some d) None = (r', Inr t) \<Longrightarrow> \<exists>u. read_state r' (Some d) (Some (command_request_key k)) = (r', Inr u) \<and>
      map_of (sf_idempotency u) (command_request_key k) = Some rec"
proof -
  obtain s0 where s0: "read_state r (command_case_id k) (Some (command_request_key k)) = (r, Inr s0)"
    "map_of (sf_idempotency s0) (command_request_key k) = None" using r(2) by (auto simp: unused_def)
  have "attempts sv P k 3 0 None r = (r', sg, Inr resp)" using run by (simp add: execute_Inr)
  then obtain n b pd r1 rc where d: "decide sv P k n b s0 = Inr pd"
    and sub: "submit r (sf_generation s0) (pd_revision pd) (pd_mutation pd) = (r1, Inr rc)"
    and after: "after_commit sv P pd r1 = (r', sg, Inr resp)"
    using attempts_commit [OF P r(1) s0] by blast
  have "records (sv_py sv) k pd" by (rule decide_records [OF d]) (rule read_keyed [OF r(1) s0(1)])
  then obtain x rec where m: "mn_upsert_case (pd_mutation pd) = Some x" "mn_idempotency (pd_mutation pd) = [rec]"
    and rec: "idempotency_key_of rec = command_request_key k" "ik_request_hash rec = business_request_sha256 (sv_py sv) k"
      "ik_business_receipt rec = pd_receipt pd" "bz_case_id (pd_receipt pd) = Some (cs_case_id x)"
      "pred_option (\<lambda>c. c = cs_case_id x) (command_case_id k)"
    unfolding records_def by blast
  obtain s where s: "map_of (sf_idempotency s) (command_request_key k) = Some rec"
    "read_state r1 (Some (cs_case_id x)) None = (r1, Inr s)"
    "read_state r1 (Some (cs_case_id x)) (Some (command_request_key k)) = (r1, Inr s)"
    "read_state r1 None (Some (command_request_key k)) = (r1, Inr s)"
    "\<And>d t. read_state r1 (Some d) None = (r1, Inr t) \<Longrightarrow> \<exists>u. read_state r1 (Some d) (Some (command_request_key k)) = (r1, Inr u) \<and>
      map_of (sf_idempotency u) (command_request_key k) = Some rec"
    using recorded [OF r(1) sub m] rec(1) by auto
  obtain v where "r' = r1" "ar_business_receipt resp = pd_receipt pd" "project_case_view sv s (cs_case_id x) = Inr v"
    using committed_response [OF P s(2) rec(4) after] by blast
  with s rec show thesis by (intro that [of s rec "cs_case_id x" v]) auto
qed

lemma content_same:
  assumes "business_content l = business_content k"
  shows "operation_name l = operation_name k" "command_key l = command_key k" "command_case_id l = command_case_id k"
    "business_request_sha256 env l = business_request_sha256 env k"
proof -
  show op: "operation_name l = operation_name k"
    using arg_cong [OF assms, of operation_name] by (cases l; cases k) simp_all
  show "business_request_sha256 env l = business_request_sha256 env k"
    using business_content_identified [OF op] assms by (simp add: business_request_sha256_def canonical_json_sha256_def)
  have "command_key (business_content x) = command_key x" "command_case_id (business_content x) = command_case_id x" for x
    by (cases x; simp)+
  then show "command_key l = command_key k" "command_case_id l = command_case_id k" using assms by metis+
qed

lemma command_replayed:
  assumes P: "connected P" "quiet P" and r: "good r" "unused k r" and run: "execute sv P k r = (r', sg, Inr resp)"
    and Q: "connected Q" "quiet Q" "cp_accepting Q" and l: "business_content l = business_content k"
  shows "\<exists>sg' resp'. execute sv Q l r' = (r', sg', Inr resp') \<and> ar_business_receipt resp' = ar_business_receipt resp"
proof -
  obtain s rec c v where rec: "map_of (sf_idempotency s) (command_request_key k) = Some rec"
    "ik_request_hash rec = business_request_sha256 (sv_py sv) k" "ik_business_receipt rec = ar_business_receipt resp"
    and c: "bz_case_id (ar_business_receipt resp) = Some c" "pred_option (\<lambda>d. d = c) (command_case_id k)"
    and reads: "read_state r' (Some c) None = (r', Inr s)" "read_state r' None (Some (command_request_key k)) = (r', Inr s)"
      "read_state r' (Some c) (Some (command_request_key k)) = (r', Inr s)"
    and v: "project_case_view sv s c = Inr v"
    by (rule new_command_recorded [OF P r run])
  note same = content_same [OF l]
  have key: "command_request_key l = command_request_key k" using same by (simp add: command_request_key_def)
  have "cp_read Q (cp_other Q 0 r') (command_case_id l) (Some (command_request_key l)) = (r', Inr s)"
    using Q reads(2,3) c(2) same(3) key by (cases "command_case_id k") (simp_all add: connected_def quiet_def)
  moreover have "decide_step sv Q l 0 None s = Inr (Replay (ar_business_receipt resp))"
    using rec same(4) key by (simp add: decide_step_def idempotency_result_def decide_idempotency_def Let_def)
  moreover obtain sg' resp' where "replayed sv Q l s (ar_business_receipt resp) r' = (r', sg', Inr resp')"
    "ar_business_receipt resp' = ar_business_receipt resp"
    using replayed_response [OF Q(1,2) reads(1) c(1) v] by blast
  ultimately show ?thesis using Q(3) by (auto simp: execute_Inr numeral_3_eq_3)
qed

lemma other_content_refused:
  assumes P: "connected P" "quiet P" and r: "good r" "unused k r" and run: "execute sv P k r = (r', sg, Inr resp)"
    and Q: "connected Q" "quiet Q" "cp_accepting Q"
    and l: "operation_name l = operation_name k" "command_key l = command_key k"
      "business_request_sha256 (sv_py sv) l \<noteq> business_request_sha256 (sv_py sv) k"
    and readable: "pred_option (\<lambda>d. \<exists>t. read_state r' (Some d) None = (r', Inr t)) (command_case_id l)"
  shows "\<exists>e. execute sv Q l r' = (r', [], Inl (PortError e)) \<and> ae_code e = EC_IDEMPOTENCY_CONFLICT"
proof -
  obtain s rec c v where rec: "map_of (sf_idempotency s) (command_request_key k) = Some rec"
    "ik_request_hash rec = business_request_sha256 (sv_py sv) k"
    and known: "read_state r' None (Some (command_request_key k)) = (r', Inr s)"
      "\<And>d t. read_state r' (Some d) None = (r', Inr t) \<Longrightarrow> \<exists>u. read_state r' (Some d) (Some (command_request_key k)) = (r', Inr u) \<and>
        map_of (sf_idempotency u) (command_request_key k) = Some rec"
    by (rule new_command_recorded [OF P r run]) blast
  have key: "command_request_key l = command_request_key k" using l by (simp add: command_request_key_def)
  obtain u where u: "read_state r' (command_case_id l) (Some (command_request_key l)) = (r', Inr u)"
    "map_of (sf_idempotency u) (command_request_key l) = Some rec"
    using readable known(1) rec(1) known(2) key by (cases "command_case_id l") auto
  have "decide_step sv Q l 0 None u = refuse EC_IDEMPOTENCY_CONFLICT
      ''The idempotency key is already bound to another request.''
      [no_detail\<lparr>ed_field := Some ''idempotency_key'', ed_actual := Some (DStr (command_key l))\<rparr>]"
    using u(2) rec(2) l(3) by (simp add: decide_step_def idempotency_result_def decide_idempotency_def Let_def refuse_def)
  moreover have "cp_read Q (cp_other Q 0 r') (command_case_id l) (Some (command_request_key l)) = (r', Inr u)"
    using Q u(1) by (simp add: connected_def quiet_def)
  ultimately show ?thesis using Q(3)
    by (simp add: execute_def numeral_3_eq_3 classified_def refuse_def port_error_def)
qed

end

section \<open>The repository keeps the contract\<close>

definition read_request :: "store_env \<Rightarrow> repository \<Rightarrow> opaque_id option \<Rightarrow> text_t option \<Rightarrow> repository \<times> (store_error + state_file)" where
  "read_request sv r case_id request_key = read_snapshot sv r case_id None None request_key"

lemma map_of_merge: "dict_ok e \<Longrightarrow> map_of (dict_merge d e) k = (case map_of e k of None \<Rightarrow> map_of d k | Some v \<Rightarrow> Some v)"
proof (induction e arbitrary: d)
  case (Cons p e)
  obtain a v where p: "p = (a, v)" by fastforce
  have "dict_ok e" "map_of e a = None" using Cons.prems p by (auto simp: dict_ok_def map_of_eq_None_iff)
  then show ?case using Cons.IH [of "AList.update a v d"] p
    by (cases "k = a") (auto simp: dict_merge_def update_conv' split: option.splits)
qed (simp add: dict_merge_def)

lemma file_keyed:
  assumes "base_file sv s \<or> case_file sv c s"
  shows "dict_ok (sf_cases s)" "map_of (sf_cases s) d = Some ag \<Longrightarrow> cs_case_id (ag_case ag) = d"
proof -
  have "sf_cases s = [] \<or> (\<exists>a. sf_cases s = [(c, a)] \<and> cs_case_id (ag_case a) = c)"
    using assms case_file_single [of sv c s] by (auto simp: base_file_def single_case_file)
  then show "dict_ok (sf_cases s)" "map_of (sf_cases s) d = Some ag \<Longrightarrow> cs_case_id (ag_case ag) = d"
    by (auto simp: dict_ok_def split: if_splits)
qed

lemma read_request_keyed:
  assumes "repo_ok sv r" "read_request sv r c (Some key) = (r', Inr s)" "map_of (sf_cases s) d = Some ag"
  shows "cs_case_id (ag_case ag) = d"
proof -
  let ?owner = "case c of None \<Rightarrow> locate_request r key | Some x \<Rightarrow> Some x"
  show ?thesis
  proof (cases ?owner)
    case None
    then have "s = rp_base r" using assms(2) by (auto simp: read_request_def read_snapshot_def split: option.splits)
    then show ?thesis using assms(1,3) by (simp add: repo_ok_def base_file_def)
  next
    case (Some o')
    obtain r1 t where t: "read_case_state r o' = (r1, Inr t)"
      using assms(2) Some by (auto simp: read_request_def read_snapshot_def split: option.splits prod.splits sum.splits)
    have r1: "r1 = r" using read_case_state_Inr [OF t] by blast
    note f = file_keyed [OF read_case_state_file [OF assms(1) t]]
    show ?thesis
    proof (cases "locate_request r key = None \<or> locate_request r key = Some o'")
      case True
      then have "s = t" using assms(2) Some t r1
        by (auto simp: read_request_def read_snapshot_def split: option.splits)
      then show ?thesis using f(2) assms(3) by blast
    next
      case False
      then obtain x where x: "locate_request r key = Some x" "x \<noteq> o'" by auto
      obtain r2 u where u: "read_case_state r x = (r2, Inr u)" and s: "sf_cases s = dict_merge (sf_cases t) (sf_cases u)"
        using assms(2) Some t r1 x
        by (auto simp: read_request_def read_snapshot_def split: option.splits prod.splits sum.splits)
      note g = file_keyed [OF read_case_state_file [OF assms(1) u]]
      show ?thesis using assms(3) f(2) g s by (auto simp: map_of_merge split: option.splits)
    qed
  qed
qed

lemma publish_no_conflict:
  assumes "callbacks_return io" "publish io keys c s ag r = (r', Inl e)"
  shows "\<not> is_revision_conflict e"
  using assms
  by (auto simp: publish_def Let_def commit_error_def write_failed_def is_revision_conflict_def port_error_def
      announce_returns callbacks_return_def split: persist_result.splits if_splits)

lemma commit_conflict_unchanged:
  assumes "usable sv io r" "commit sv io r g rv m = (r', Inl e)" "is_revision_conflict e"
  shows "r' = r"
proof -
  have ok: "rp_failure r = None" using assms(1) by (simp add: usable_def)
  show ?thesis
  proof (cases "mutation_case_id r m")
    case None
    then show ?thesis using assms(2) ok by (auto simp: commit_def split: if_splits sum.splits)
  next
    case (Some c)
    obtain r1 x where read: "read_case_state r c = (r1, x)" by fastforce
    show ?thesis
    proof (cases x)
      case (Inl y)
      then have "e = PortError (port_error EC_STATE_CORRUPT msg_snapshot_unreadable)"
        using assms(2) ok Some read
        by (auto simp: commit_def read_case_state_def load_case_def Let_def split: option.splits)
      then show ?thesis using assms(3) by (simp add: is_revision_conflict_def port_error_def)
    next
      case (Inr s)
      have r1: "r1 = r" using read_case_state_Inr [of r c r1 s] read Inr by blast
      have "is_revision_conflict e' \<Longrightarrow> publish io keys c s' ag res \<noteq> (r'', Inl e')" for e' keys s' ag res r''
        using publish_no_conflict [of io] assms(1) by (auto simp: usable_def)
      then show ?thesis using assms(2,3) ok Some read Inr r1
        by (auto simp: commit_def conflict_def split: if_split_asm sum.split_asm store_error.split_asm exn.split_asm
            option.split_asm prod.split_asm)
    qed
  qed
qed

text \<open>A successful commit to a case, read back to its parts.\<close>

lemma commit_parts:
  assumes "commit sv io r g rv m = (r', Inr rc)" "mutation_case_id r m = Some c"
  obtains s s' i ag r1 where "read_case_state r c = (r, Inr s)" "apply_mutation sv (ci_now io) s rv m = Inr (s', i)"
    "map_of (sf_cases s') c = Some ag" "reserve_requests c (mn_idempotency m) r = Some r1"
    "publish io (map idempotency_key_of (mn_idempotency m)) c s' ag r1 = (r', Inr rc)"
proof -
  have ok: "rp_failure r = None" using assms(1) by (auto simp: commit_def split: option.splits)
  obtain r0 x where read: "read_case_state r c = (r0, x)" by fastforce
  obtain s where x: "x = Inr s" using assms ok read by (cases x) (auto simp: commit_def)
  have r0: "r0 = r" using read_case_state_Inr [of r c r0 s] read x by blast
  show thesis
    using that assms ok read x r0
    by (auto simp: commit_def conflict_def split: if_split_asm sum.split_asm store_error.split_asm exn.split_asm
        option.split_asm prod.split_asm)
qed

lemma recorded_in_state:
  assumes "apply_mutation sv now s rv m = Inr (s', i)" "mn_idempotency m = [rec]"
  shows "map_of (sf_idempotency s') (idempotency_key_of rec) = Some rec"
proof -
  obtain epochs :: "runtime_epoch_record dict" and recovery cases idem where
    "foldS (\<lambda>r d. raised (insert_unique d (idempotency_key_of r) r)) (mn_idempotency m) (sf_idempotency s) = Inr idem"
    "sf_idempotency s' = idem"
    by (rule apply_mutation_parts [OF assms(1)]) auto
  then have "sf_idempotency s' = AList.update (idempotency_key_of rec) rec (sf_idempotency s)"
    using assms(2) by (auto simp: bindS_Inr insert_unique_def split: if_splits)
  then show ?thesis by (simp add: update_conv')
qed

lemma commit_error_no_receipt: "commit_error e keys r = (r', Inr x) \<Longrightarrow> False"
  by (cases e) (simp_all add: commit_error_def write_failed_def Let_def)

lemma announce_receipt: "announce io fin keys receipt r = (r', Inr x) \<Longrightarrow> r' = r"
  by (auto simp: announce_def dest: commit_error_no_receipt split: option.split_asm)

lemma published_request:
  assumes pub: "publish io keys c s ag r1 = (r', Inr rc)" and ag: "map_of (sf_cases s) c = Some ag"
    and key: "key \<in> set (dict_keys (sf_idempotency s))" and req: "map_of (rp_requests r1) key = Some c"
  shows "locate_request r' key = Some c"
proof (cases "terminal_status (cs_status (ag_case ag))")
  case True
  then obtain r2 s2 where p: "persist (ci_database_fails io) c s r1 = Persisted r2 s2" and r': "r' = install True c s2 ag r2"
    using pub True
    by (auto simp: publish_def Let_def dest: announce_receipt commit_error_no_receipt split: persist_result.splits option.splits)
  obtain ag' payload where r2: "r2 = write_rows c s2 ag' payload r1" using persist_Persisted(2) [OF p ag] by blast
  have "sf_idempotency s2 = sf_idempotency s" using persist_Persisted(1) [OF p ag] with_archive_get(3) [OF ag] by auto
  then show ?thesis using r' r2 key
    by (auto simp: install_def write_rows_def locate_request_def map_of_drop_keys map_of_index_all simp del: set_map list.set_map)
next
  case False
  then have "r' = install False c s ag r1"
    using pub
    by (auto simp: publish_def Let_def dest: announce_receipt commit_error_no_receipt split: if_splits option.splits)
  then show ?thesis using req by (simp add: install_def locate_request_def)
qed

lemma commit_recorded:
  assumes u: "usable sv io r" and commit: "commit sv io r g rv m = (r', Inr rc)"
    and m: "mn_upsert_case m = Some x" "mn_idempotency m = [rec]"
  obtains s where "stored r' (cs_case_id x) = Some s" "map_of (sf_idempotency s) (idempotency_key_of rec) = Some rec"
    "locate_request r' (idempotency_key_of rec) = Some (cs_case_id x)" "case_file sv (cs_case_id x) s"
proof -
  let ?c = "cs_case_id x" and ?k = "idempotency_key_of rec"
  obtain s0 s i ag r1 where am: "apply_mutation sv (ci_now io) s0 rv m = Inr (s, i)" and ag: "map_of (sf_cases s) ?c = Some ag"
    and res: "reserve_requests ?c (mn_idempotency m) r = Some r1" and pub: "publish io (map idempotency_key_of (mn_idempotency m)) ?c s ag r1 = (r', Inr rc)"
    by (rule commit_parts [OF commit mutation_of_case [OF m(1)]])
  have rec: "map_of (sf_idempotency s) ?k = Some rec" by (rule recorded_in_state [OF am m(2)])
  have r1: "r1 = r\<lparr>rp_requests := index_all [?k] ?c (rp_requests r)\<rparr>"
    using res m(2) by (auto simp: reserve_requests_def Let_def split: if_splits)
  have "?k \<in> set (dict_keys (sf_idempotency s))" using rec by (force dest: map_of_SomeD)
  then have loc: "locate_request r' ?k = Some ?c"
    by (rule published_request [OF pub ag]) (simp add: r1 map_of_index_all)
  have "moved r r' ?c ag s"
    using publish_moves [OF pub res _ ag] u by (simp add: usable_def)
  then obtain s1 where s1: "stored r' ?c = Some s1" "s1 = s \<or> s1 = with_archive_status ''PENDING'' ?c s"
    by (auto simp: moved_def)
  have "repo_ok sv r'" using commit_keeps_repo [of sv r io g rv m] commit u by (simp add: usable_def)
  then have "case_file sv ?c s1" using stored_file s1(1) by blast
  moreover have "sf_idempotency s1 = sf_idempotency s" using s1(2) with_archive_get(3) [OF ag] by auto
  ultimately show thesis using that s1(1) rec loc by auto
qed

interpretation command_store: request_store sv "usable sv io" "read_request sv" "commit sv io" for sv io
proof (unfold_locales, goal_cases)
  case (1 r c key r' s d ag)
  then show ?case using read_request_keyed [of sv r c key r' s d ag] by (simp add: usable_def)
next
  case (2 r g rv m r' e)
  then show ?case by (rule commit_conflict_unchanged)
next
  case (3 r g rv m r' rc x rec)
  let ?c = "cs_case_id x" and ?k = "idempotency_key_of rec"
  obtain s where s: "stored r' ?c = Some s" "map_of (sf_idempotency s) ?k = Some rec" "locate_request r' ?k = Some ?c"
    "case_file sv ?c s" by (rule commit_recorded [OF 3])
  note read = read_stored [OF s(1)]
  have elsewhere: "\<exists>u. read_request sv r' (Some d) (Some ?k) = (r', Inr u) \<and> map_of (sf_idempotency u) ?k = Some rec"
    if "read_request sv r' (Some d) None = (r', Inr t)" for d t
  proof -
    have t: "read_case_state r' d = (r', Inr t)"
      using that by (auto simp: read_request_def read_snapshot_def split: prod.splits sum.splits)
    have "dict_ok (sf_idempotency s)" using s(4) by (simp add: case_file_def state_dicts_def)
    then show ?thesis using t read s(2,3)
      by (cases "?c = d") (auto simp: read_request_def read_snapshot_def map_of_merge)
  qed
  have "read_request sv r' (Some ?c) None = (r', Inr s)" "read_request sv r' (Some ?c) (Some ?k) = (r', Inr s)"
    "read_request sv r' None (Some ?k) = (r', Inr s)"
    using read s(3) by (simp_all add: read_request_def read_snapshot_def)
  then show ?case using s(2) elsewhere by blast
qed

section \<open>Resuming a case with an active job\<close>

definition noted_file :: "state_file \<Rightarrow> idempotency_record \<Rightarrow> timestamp \<Rightarrow> state_file" where
  "noted_file s rec now =
     s\<lparr>sf_cases := sf_cases s, sf_idempotency := AList.update (idempotency_key_of rec) rec (sf_idempotency s),
       sf_generation := sf_generation s + 1, sf_updated_at := now\<rparr>"

lemma noted_file_ok:
  assumes "case_file sv c s" "sf_cases s = [(c, ag)]"
  shows "case_file sv c (noted_file s rec now)"
proof -
  have frame: "state_frame s" and ag: "valid_aggregate sv ag" "agg_dicts ag" "cs_case_id (ag_case ag) = c"
    using assms by (simp_all add: single_case_file)
  have "keyed_by idempotency_key_of (AList.update (idempotency_key_of rec) rec (sf_idempotency s))"
    using frame by (auto simp: state_frame_def keyed_by_def list_all_iff set_update)
  then have "state_frame (noted_file s rec now)"
    using frame by (simp add: state_frame_def noted_file_def state_recovery_ok_def)
  then show ?thesis using ag assms(2) by (subst single_case_file [of _ c ag]) (simp_all add: noted_file_def)
qed

text \<open>A mutation that only adds an idempotency record leaves the case as it is.\<close>

lemma note_applies:
  assumes s: "case_file sv c s" "sf_cases s = [(c, ag)]"
    and new: "map_of (sf_idempotency s) (idempotency_key_of rec) = None"
  shows "apply_mutation sv now s (Some (cs_case_revision (ag_case ag)))
      (empty_mutation\<lparr>mn_upsert_case := Some (ag_case ag), mn_idempotency := [rec]\<rparr>) = Inr (noted_file s rec now, Some c)"
proof -
  have c: "cs_case_id (ag_case ag) = c" and frame: "state_frame s" using s by (simp_all add: single_case_file)
  have "dict_items (epochs_by_id (sf_runtime_epochs s)) = sf_runtime_epochs s"
    by (rule epochs_items) (use frame in \<open>simp add: state_frame_def state_recovery_ok_def\<close>)
  moreover have "valid_state sv (noted_file s rec now)" using noted_file_ok [OF s] by (simp add: case_file_def)
  moreover have "idempotency_key_of rec \<notin> set (dict_keys (sf_idempotency s))" using new by (simp add: map_of_eq_None_iff)
  moreover have "ag\<lparr>ag_case := ag_case ag\<rparr> = ag" by simp
  ultimately show ?thesis using s(2) c
    by (simp add: apply_mutation_def check_case_revision_def empty_mutation_def apply_to_cases_def upsert_case_def
        insert_unique_def raised_def ensure_def Let_def noted_file_def)
qed

lemma resume_active_succeeds:
  assumes u: "usable sv io r" and s: "stored r c = Some s" "sf_cases s = [(c, ag)]"
    and j: "cs_active_job_id (ag_case ag) = Some i" "map_of (ag_jobs ag) i = Some j" "jb_status j \<in> {JS_PENDING, JS_RUNNING}"
    and st: "\<not> terminal_status (cs_status (ag_case ag))" "cs_status (ag_case ag) \<noteq> CS_NEW"
    and k: "kr_case_id k = c" "kr_expected_case_revision k = cs_case_revision (ag_case ag)"
    and new: "locate_request r (command_request_key (ResumeCase k)) = None"
      "map_of (sf_idempotency s) (command_request_key (ResumeCase k)) = None"
    and P: "command_store.connected sv io P" "command_store.quiet P" "cp_accepting P"
  shows "\<exists>r' sg resp. execute sv P (ResumeCase k) r = (r', sg, Inr resp)"
proof -
  let ?k = "ResumeCase k"
  have cf: "case_file sv c s" using stored_file u s(1) by (auto simp: usable_def)
  then have c: "cs_case_id (ag_case ag) = c" using s(2) by (simp add: single_case_file)
  define receipt where "receipt = receipt_of ?k c c (cs_case_revision (ag_case ag)) (Some (jb_job_id j)) (case_status_value (cs_status (ag_case ag)))"
  define rec where "rec = \<lparr>ik_operation = operation_name ?k, ik_idempotency_key = command_key ?k,
    ik_request_hash = business_request_sha256 (sv_py sv) ?k, ik_business_receipt = receipt, ik_case_id = Some c,
    ik_created_at = cp_now P\<rparr>"
  define m where "m = empty_mutation\<lparr>mn_upsert_case := Some (ag_case ag), mn_idempotency := [rec]\<rparr>"
  have key: "idempotency_key_of rec = command_request_key ?k"
    by (simp add: rec_def idempotency_key_of_def command_request_key_def)
  have "recorded_mutation sv s ?k receipt c (cp_now P) (empty_mutation\<lparr>mn_upsert_case := Some (ag_case ag)\<rparr>) = Inr m"
    using k(1) by (simp add: recorded_mutation_def make_idempotency_record_def receipt_def receipt_of_def rec_def m_def
        raised_def build_state_mutation_def valid_mutation_def mutation_cases_def empty_mutation_def ensure_def)
  then obtain pd where pd: "decide_step sv P ?k 0 None s = Inr (Commit pd)" "pd_mutation pd = m"
    "pd_publication pd = Publish_Job None" "pd_receipt pd = receipt" "pd_revision pd = Some (cs_case_revision (ag_case ag))"
    "pd_cancel pd = Inr None"
    using j s(2) k new(2) c
    by (simp add: decide_step_def idempotency_result_def decide_idempotency_def Let_def resume_decision_def require_case_def
        require_expected_revision_def require_def resume_active_def receipt_def)
  let ?s = "noted_file s rec (ci_now io)"
  have sf: "map_of (sf_cases ?s) c = Some ag" using s(2) by (simp add: noted_file_def)
  obtain r' rc where commit: "commit sv io r (sf_generation s) (Some (cs_case_revision (ag_case ag))) m = (r', Inr rc)"
    and st': "stored r' c = Some ?s"
  proof -
    have "mutation_case_id r m = Some c" using c by (simp add: mutation_case_id_def m_def)
    moreover have "apply_mutation sv (ci_now io) s (Some (cs_case_revision (ag_case ag))) m = Inr (?s, Some c)"
      unfolding m_def by (rule note_applies [OF cf s(2)]) (simp add: key new(2))
    moreover obtain r1 where "reserve_requests c (mn_idempotency m) r = Some r1"
      using new(1) key by (simp add: reserve_requests_def m_def)
    ultimately have "commit sv io r (sf_generation s) (Some (cs_case_revision (ag_case ag))) m =
        (install False c ?s ag r1, Inr \<lparr>ct_generation = sf_generation ?s, ct_case_revision = Some (cs_case_revision (ag_case ag))\<rparr>)"
      using u st(1) read_stored [OF s(1)] sf by (simp add: commit_def publish_def usable_def callbacks_return_def announce_returns Let_def)
    then show thesis by (rule that) (simp add: install_def stored_def)
  qed
  have "case_in sv ?s c ag"
    using cf sf c by (simp add: case_in_def single_case_file [OF s(2)])
  then obtain v where v: "project_case_view sv ?s c = Inr v" using project_case_view_total st(2) by blast
  have read': "read_request sv r' (Some c) None = (r', Inr ?s)"
    using read_stored [OF st'] by (simp add: read_request_def read_snapshot_def)
  have rc: "bz_case_id receipt = Some c" by (simp add: receipt_def)
  have "\<exists>sg resp. after_commit sv P pd r' = (r', sg, Inr resp)"
  proof -
    have ports: "cp_read P (cp_later P 0 r') (Some c) None = (r', Inr ?s)"
      using P(1,2) read' by (simp add: command_store.connected_def command_store.quiet_def)
    have "\<exists>resp. keeping_receipt receipt pending (response_from_state sv P ?s receipt (pd_wait pd) pending r') = (r', Inr resp)"
      for pending
      using command_store.quiet_response [OF P(1,2) read' rc, of "pd_wait pd" pending] v
      by (auto simp: raised_def keeping_receipt_def)
    then obtain f where "\<And>pending. keeping_receipt receipt pending
        (response_from_state sv P ?s receipt (pd_wait pd) pending r') = (r', Inr (f pending))"
      by metis
    then show ?thesis using pd(4,6) rc ports by (simp add: after_commit_def Let_def)
  qed
  moreover have "cp_read P (cp_other P 0 r) (command_case_id ?k) (Some (command_request_key ?k)) = (r, Inr s)"
    using P(1,2) k(1) new(1) read_stored [OF s(1)]
    by (simp add: command_store.connected_def command_store.quiet_def read_request_def read_snapshot_def)
  moreover have "publish_and_commit P (sf_generation s) pd (cp_other P 1 r) = (r', Inr rc')" if "rc' = rc" for rc'
    using P(1,2) pd commit that by (simp add: publish_and_commit_def command_store.connected_def command_store.quiet_def)
  ultimately show ?thesis using pd(1) P(3) by (auto simp: command_store.execute_Inr numeral_3_eq_3)
qed

end
