(* ===== verification/Command_Properties.thy ===== *)
theory Command_Properties
  imports Command_Store Store_Scenario
begin

text \<open>
  The properties of the external commands (C38, C39) with the concrete commands of their witnesses.
\<close>

section \<open>Which requests are the same\<close>

text \<open>C38. A request is recognised by its content. When the store holds the record of a command \<open>k\<close>, a command with
  the same operation and the same idempotency key is replayed exactly when it says the same thing (it may wait
  longer, and list its inputs in another order), and is a conflict otherwise. The canonical bytes of the two
  requests must not collide under SHA-256.\<close>

theorem request_hash_identifies_content:
  assumes "map_of (sf_idempotency s) (command_request_key k) = Some rec"
    and "ik_request_hash rec = business_request_sha256 env k"
    and "operation_name l = operation_name k" "command_key l = command_key k"
    and "env_sha256 env (canonical_json_bytes (business_request_preimage k)) =
        env_sha256 env (canonical_json_bytes (business_request_preimage l)) \<Longrightarrow>
      canonical_json_bytes (business_request_preimage k) = canonical_json_bytes (business_request_preimage l)"
  shows "dc_record (decide_idempotency env s l) = Some rec \<and>
    dc_disposition (decide_idempotency env s l) =
      (if business_content l = business_content k then ID_REPLAY else ID_CONFLICT)"
proof -
  have "business_request_sha256 env k = business_request_sha256 env l \<longleftrightarrow> business_content l = business_content k"
    unfolding business_request_sha256_def canonical_json_sha256_def
    using assms(5) business_content_identified [OF assms(3) [symmetric]] by metis
  moreover have "command_request_key l = command_request_key k"
    using assms(3,4) by (simp add: command_request_key_def)
  ultimately show ?thesis using assms(1,2) by (simp add: decide_idempotency_def Let_def)
qed

definition cm_supplement :: "text_t dict \<Rightarrow> nat \<Rightarrow> external_command" where
  "cm_supplement inputs wait = SubmitSupplement
     \<lparr>ks_idempotency_key = ''key'', ks_case_id = ''case'', ks_expected_case_revision = 2, ks_inputs = inputs,
      ks_attachment_ids = [], ks_generic_supplement_text = [], ks_wait_seconds = wait\<rparr>"

definition cm_plain :: py_env where
  "cm_plain = \<lparr>env_fullmatch = (\<lambda>_ _. True), env_sha256 = (\<lambda>x. x), env_canonical_sha256 = (\<lambda>_. [])\<rparr>"

definition cm_record :: "external_command \<Rightarrow> idempotency_record" where
  "cm_record k =
     \<lparr>ik_operation = operation_name k, ik_idempotency_key = command_key k,
      ik_request_hash = business_request_sha256 cm_plain k,
      ik_business_receipt = \<lparr>bz_operation = operation_name k, bz_primary_resource_id = ''case'', bz_case_id = Some ''case'',
        bz_case_revision = Some 3, bz_job_id = Some ''job'', bz_status = ''RUNNING''\<rparr>,
      ik_case_id = Some ''case'', ik_created_at = ''t1''\<rparr>"

definition cm_state :: "external_command \<Rightarrow> state_file" where
  "cm_state k = (initial_base ''installation'' ''t0'')\<lparr>sf_idempotency := [(command_request_key k, cm_record k)]\<rparr>"

theorem request_hash_identifies_content_witness:
  "dc_disposition (decide_idempotency cm_plain (cm_state (cm_supplement [(''a'', ''1''), (''b'', ''2'')] 0))
      (cm_supplement [(''b'', ''2''), (''a'', ''1'')] 30)) = ID_REPLAY \<and>
   dc_disposition (decide_idempotency cm_plain (cm_state (cm_supplement [(''a'', ''1''), (''b'', ''2'')] 0))
      (cm_supplement [(''a'', ''2''), (''b'', ''1'')] 0)) = ID_CONFLICT"
proof -
  let ?k = "cm_supplement [(''a'', ''1''), (''b'', ''2'')] 0"
  have rec: "map_of (sf_idempotency (cm_state ?k)) (command_request_key ?k) = Some (cm_record ?k)"
    "ik_request_hash (cm_record ?k) = business_request_sha256 cm_plain ?k"
    by (simp_all add: cm_state_def cm_record_def)
  have same: "operation_name (cm_supplement i w) = operation_name ?k" "command_key (cm_supplement i w) = command_key ?k" for i w
    by (simp_all add: cm_supplement_def)
  have plain: "env_sha256 cm_plain x = env_sha256 cm_plain y \<Longrightarrow> x = y" for x y by (simp add: cm_plain_def)
  show ?thesis
    using request_hash_identifies_content [OF rec same plain, of "[(''b'', ''2''), (''a'', ''1'')]" 30]
      request_hash_identifies_content [OF rec same plain, of "[(''a'', ''2''), (''b'', ''1'')]" 0]
    by (simp add: cm_supplement_def)
qed

section \<open>Repeating a command\<close>

definition at_repository :: "store_env \<Rightarrow> commit_io \<Rightarrow> repository command_ports \<Rightarrow> bool" where
  "at_repository sv io P \<longleftrightarrow> cp_read P = read_request sv \<and> cp_commit P = commit sv io"

definition alone :: "repository command_ports \<Rightarrow> bool" where
  "alone P \<longleftrightarrow> (\<forall>n r. cp_other P n r = r \<and> cp_later P n r = r)"

text \<open>The idempotency key of the command is new to the repository, and its case can be read.\<close>

definition new_request :: "store_env \<Rightarrow> external_command \<Rightarrow> repository \<Rightarrow> bool" where
  "new_request sv k r \<longleftrightarrow>
     (\<exists>s. read_request sv r (command_case_id k) (Some (command_request_key k)) = (r, Inr s) \<and>
        map_of (sf_idempotency s) (command_request_key k) = None)"

lemma at_repository_connected: "at_repository sv io = command_store.connected sv io"
  by (rule ext) (simp add: at_repository_def command_store.connected_def)

lemma alone_quiet: "alone = command_store.quiet"
  by (rule ext) (simp add: alone_def command_store.quiet_def)

lemma new_request_unused: "new_request sv = command_store.unused sv"
  by (intro ext) (simp add: new_request_def command_store.unused_def)

lemmas command_live = at_repository_connected alone_quiet new_request_unused

text \<open>C39. A command takes effect once. After the first successful run of any of the seven commands under a new key,
  repeating it (with another waiting time, or with its inputs in another order) answers with the receipt of the
  first run and changes nothing, whatever clock, identifiers, dispatcher and catalogue it runs with; a command of
  the same operation and key with another request hash is refused with IDEMPOTENCY_CONFLICT, signals nothing
  and changes nothing, also when it names another readable case.\<close>

theorem command_applied_once:
  assumes "usable sv io r" "new_request sv k r" "at_repository sv io P" "alone P"
    and "execute sv P k r = (r', sg, Inr resp)"
    and "at_repository sv io Q" "alone Q" "cp_accepting Q"
  shows "(business_content l = business_content k \<longrightarrow>
      (\<exists>sg' resp'. execute sv Q l r' = (r', sg', Inr resp') \<and> ar_business_receipt resp' = ar_business_receipt resp)) \<and>
    (operation_name l = operation_name k \<and> command_key l = command_key k \<and>
      business_request_sha256 (sv_py sv) l \<noteq> business_request_sha256 (sv_py sv) k \<and>
      pred_option (\<lambda>d. \<exists>t. read_request sv r' (Some d) None = (r', Inr t)) (command_case_id l) \<longrightarrow>
      (\<exists>e. execute sv Q l r' = (r', [], Inl (PortError e)) \<and> ae_code e = EC_IDEMPOTENCY_CONFLICT))"
proof -
  note run = assms(3,4,1,2,5-8) [unfolded command_live]
  show ?thesis
    using command_store.command_replayed [OF run, of l] command_store.other_content_refused [OF run, of l] by blast
qed

definition cm_resume :: "int \<Rightarrow> nat \<Rightarrow> external_command" where
  "cm_resume revision wait = ResumeCase
     \<lparr>kr_idempotency_key = ''key'', kr_case_id = ''case'', kr_expected_case_revision = revision, kr_wait_seconds = wait\<rparr>"

definition cm_ports :: "repository command_ports" where
  "cm_ports =
     \<lparr>cp_read = read_request st_env, cp_commit = commit st_env st_io, cp_publish_job = (\<lambda>_. Inr ()),
      cp_total_bytes = (\<lambda>_. Inr 0), cp_missing = (\<lambda>_ _. []),
      cp_route_bindings = (\<lambda>_. Inl (Crash KeyError)), cp_generic_bindings = (\<lambda>_. Inl (Crash KeyError)),
      cp_diagnose_bindings = (\<lambda>_. Inl (Crash KeyError)), cp_stable_target = default_stable_target_detector,
      cp_accepting = True, cp_now = ''t8'', cp_case_id = ''new'', cp_trigger_id = ''trigger'', cp_job_id = ''job2'',
      cp_attachment_id = ''attachment'', cp_item_id = (\<lambda>_. ''item''), cp_dispatch = (\<lambda>_. Some (True, False)),
      cp_cancel = (\<lambda>_. True), cp_first_wait = False, cp_waits = [], cp_other = (\<lambda>_ r. r), cp_later = (\<lambda>_ r. r)\<rparr>"

lemma cm_connected: "at_repository st_env st_io cm_ports" "alone cm_ports" "cp_accepting cm_ports"
  by (simp_all add: at_repository_def alone_def cm_ports_def)

lemma cm_new: "locate_request (st_repository st_pending) key = None" "map_of (sf_idempotency (st_file st_pending)) key = None"
  by (simp_all add: locate_request_def st_repository_def st_file_def initial_base_def)

lemma cm_first_run: "\<exists>r' sg resp. execute st_env cm_ports (cm_resume 2 0) (st_repository st_pending) = (r', sg, Inr resp)"
  unfolding cm_resume_def
  by (rule resume_active_succeeds [OF st_usable [OF st_aggregate_valid(1)] st_lookup(1,3) _ st_lookup(4)])
    (use cm_connected cm_new in \<open>simp_all add: command_live [symmetric] st_aggregate_def empty_aggregate_def st_case_def
      st_pending_def sc_data spec_from_bindings_def spec_args_of_def\<close>)

theorem command_applied_once_witness:
  "\<exists>r' sg resp sg' resp'.
     execute st_env cm_ports (cm_resume 2 0) (st_repository st_pending) = (r', sg, Inr resp) \<and>
     execute st_env cm_ports (cm_resume 2 30) r' = (r', sg', Inr resp') \<and>
     ar_business_receipt resp' = ar_business_receipt resp"
proof -
  obtain r' sg resp where run: "execute st_env cm_ports (cm_resume 2 0) (st_repository st_pending) = (r', sg, Inr resp)"
    using cm_first_run by blast
  have new: "new_request st_env (cm_resume 2 0) (st_repository st_pending)"
    using cm_new read_stored [OF st_lookup(1)]
    by (simp add: new_request_def cm_resume_def read_request_def read_snapshot_def)
  have "business_content (cm_resume 2 30) = business_content (cm_resume 2 0)" by (simp add: cm_resume_def)
  then show ?thesis
    using run command_applied_once [OF st_usable [OF st_aggregate_valid(1)] new cm_connected(1,2) run cm_connected,
        of "cm_resume 2 30"]
    by blast
qed

end
