(* ===== verification/Outcome_Resources.thy ===== *)
theory Outcome_Resources
  imports Command_Preparation
begin

text \<open>
  What the processing of an outcome uses besides the plan: the targets of published resources and the capacity of
  a case (\<open>storage/resource_store.py\<close>), the formal evidence and artifacts of accepted proposals
  (\<open>application/formalization.py\<close>), the five technical rejections (\<open>contracts/errors.py\<close>), and the
  classification of a submitted outcome (\<open>application/outcome_processing.py\<close>). A published resource is given
  by its kind, size and digest; the bytes behind it are not modelled.
\<close>

section \<open>Targets\<close>

datatype resource_type = RY_ATTACHMENT | RY_EVIDENCE | RY_ARTIFACT

record resource_target =
  tg_case_id :: opaque_id
  tg_resource_type :: resource_type
  tg_resource_id :: opaque_id
  tg_resource_kind :: resource_kind
  tg_size :: int
  tg_sha256 :: sha256_t
  tg_final_storage_key :: text_t

fun resource_category :: "resource_type \<Rightarrow> text_t" where
  "resource_category RY_ATTACHMENT = ''attachments''"
| "resource_category RY_EVIDENCE = ''evidence''"
| "resource_category RY_ARTIFACT = ''artifacts''"

fun resource_size_limit :: "resource_type \<Rightarrow> int" where
  "resource_size_limit RY_ATTACHMENT = max_attachment_bytes"
| "resource_size_limit t = 5368709120"

definition formal_storage_key :: "opaque_id \<Rightarrow> text_t \<Rightarrow> opaque_id \<Rightarrow> resource_kind \<Rightarrow> text_t" where
  "formal_storage_key case_id category i kind =
     ''resources/cases/'' @ case_id @ ''/'' @ category @ ''/'' @ i @ ''/'' @
     (if kind = RS_DIRECTORY then ''tree'' else ''payload'')"

definition plan_target ::
  "opaque_id \<Rightarrow> resource_type \<Rightarrow> opaque_id \<Rightarrow> resource_kind \<Rightarrow> int \<Rightarrow> sha256_t \<Rightarrow> store_error + resource_target" where
  "plan_target case_id t i kind n h =
     (if n < 0 \<or> (t = RY_ATTACHMENT \<and> kind \<noteq> RS_FILE) \<or> resource_size_limit t < n
      then failed EC_VALIDATION_ERROR ''The requested formal resource target is invalid.''
      else Inr \<lparr>tg_case_id = case_id, tg_resource_type = t, tg_resource_id = i, tg_resource_kind = kind, tg_size = n,
                tg_sha256 = h, tg_final_storage_key = formal_storage_key case_id (resource_category t) i kind\<rparr>)"

text \<open>The resources published for a case, by storage key, and the capacity check of a batch of targets. A batch
  must be sorted by key without repetition and belong to the case; a target that exists with other content is a
  conflict.\<close>

type_synonym published = "(text_t \<times> resource_ref) list"

fun new_bytes :: "published \<Rightarrow> resource_target list \<Rightarrow> int option" where
  "new_bytes existing [] = Some 0"
| "new_bytes existing (t # ts) =
     (case map_of existing (tg_final_storage_key t) of
        None \<Rightarrow> map_option (\<lambda>n. tg_size t + n) (new_bytes existing ts)
      | Some r \<Rightarrow>
          if rr_resource_kind r \<noteq> tg_resource_kind t \<or> rr_size r \<noteq> tg_size t \<or> rr_sha256 r \<noteq> tg_sha256 t then None
          else new_bytes existing ts)"

definition validate_case_capacity :: "published \<Rightarrow> opaque_id \<Rightarrow> resource_target list \<Rightarrow> store_error + int" where
  "validate_case_capacity existing case_id ts =
     (let keys = map tg_final_storage_key ts; current = sum_list (map (rr_size \<circ> snd) existing)
      in if keys \<noteq> sort keys \<or> \<not> distinct keys \<or> \<not> list_all (\<lambda>t. tg_case_id t = case_id) ts
         then failed EC_PATH_VIOLATION ''The Case capacity plan is invalid.''
         else case new_bytes existing ts of
           None \<Rightarrow> failed EC_RESOURCE_HASH_MISMATCH ''The Case capacity plan is invalid.''
         | Some n \<Rightarrow>
             if 5368709120 < current + n
             then refuse EC_RESOURCE_LIMIT_EXCEEDED ''The Case resource capacity is exceeded.''
                    [no_detail\<lparr>ed_field := Some ''case_resource_bytes'', ed_resource_type := Some ''CASE'',
                       ed_resource_id := Some case_id, ed_limit := Some 5368709120, ed_observed := Some (current + n)\<rparr>]
             else Inr (current + n))"

section \<open>Formal artifacts and evidence\<close>

definition resource_matches_staged ::
  "resource_ref \<Rightarrow> resource_target \<Rightarrow> opaque_id \<Rightarrow> resource_type \<Rightarrow> opaque_id \<Rightarrow> resource_kind \<Rightarrow> int \<Rightarrow> sha256_t \<Rightarrow> bool" where
  "resource_matches_staged r t case_id ty i kind n h \<longleftrightarrow>
     tg_case_id t = case_id \<and> tg_resource_type t = ty \<and> tg_resource_id t = i \<and> tg_resource_kind t = kind \<and>
     tg_size t = n \<and> tg_sha256 t = h \<and> rr_storage_key r = tg_final_storage_key t \<and> rr_resource_kind r = kind \<and>
     rr_size r = n \<and> rr_sha256 r = h"

definition index_proposals :: "('p \<Rightarrow> proposal_key) \<Rightarrow> 'p list \<Rightarrow> exn + (proposal_key \<rightharpoonup> 'p)" where
  "index_proposals key ps =
     ensure (list_all (\<lambda>p. key p \<noteq> []) ps \<and> distinct (map key ps)) (map_of (map (\<lambda>p. (key p, p)) ps))"

definition formal_artifact_of ::
  "(proposal_key \<rightharpoonup> artifact_proposal) \<Rightarrow> opaque_id \<Rightarrow> opaque_id \<Rightarrow> (proposal_key \<rightharpoonup> opaque_id) \<Rightarrow>
   (proposal_key \<rightharpoonup> resource_target) \<Rightarrow> (proposal_key \<rightharpoonup> resource_ref) \<Rightarrow> timestamp \<Rightarrow> proposal_key \<Rightarrow>
   exn + (proposal_key \<times> artifact)" where
  "formal_artifact_of proposals case_id job_id ids targets published at k =
     bindE (require_key proposals k) (\<lambda>p.
     bindE (require_key ids k) (\<lambda>i.
     bindE (require_key published k) (\<lambda>r.
     bindE (require_key targets k) (\<lambda>t.
     bindE (ensure (resource_matches_staged r t case_id RY_ARTIFACT i (ap_resource_kind p) (ap_size p) (ap_sha256 p)) ()) (\<lambda>_.
     let a = \<lparr>af_artifact_id = i, af_case_id = case_id, af_kind = ap_artifact_kind p, af_name = ap_name p,
           af_content_type = ap_content_type p, af_resource_kind = ap_resource_kind p, af_size = ap_size p,
           af_sha256 = ap_sha256 p, af_storage_key = rr_storage_key r, af_metadata = ap_metadata p,
           af_created_by_job_id = job_id, af_created_at = at\<rparr>
     in ensure (valid_artifact a) (k, a))))))"

definition formalize_accepted_artifacts ::
  "artifact_proposal list \<Rightarrow> proposal_key list \<Rightarrow> opaque_id \<Rightarrow> opaque_id \<Rightarrow> (proposal_key \<rightharpoonup> opaque_id) \<Rightarrow>
   (proposal_key \<rightharpoonup> resource_target) \<Rightarrow> (proposal_key \<rightharpoonup> resource_ref) \<Rightarrow> timestamp \<Rightarrow>
   exn + (proposal_key \<times> artifact) list" where
  "formalize_accepted_artifacts ps keys case_id job_id ids targets published at =
     bindE (ensure (distinct keys) ()) (\<lambda>_.
     bindE (index_proposals ap_proposal_key ps) (\<lambda>proposals.
     bindE (mapE (formal_artifact_of proposals case_id job_id ids targets published at) keys) (\<lambda>xs.
     ensure (distinct (map (af_artifact_id \<circ> snd) xs)) xs)))"

definition evidence_source_ref ::
  "opaque_id list \<Rightarrow> (proposal_key \<rightharpoonup> artifact) \<Rightarrow> opaque_id \<Rightarrow> source_binding \<Rightarrow> exn + opaque_id" where
  "evidence_source_ref existing artifacts case_id b =
     (case b of
        ExistingSource i \<Rightarrow> ensure (i \<in> set existing) i
      | ArtifactSource k \<Rightarrow>
          bindE (require_key artifacts k) (\<lambda>a.
          ensure (af_case_id a = case_id \<and> af_kind a = AK_LOGPARSE_RUN) (af_artifact_id a)))"

definition evidence_resource ::
  "(proposal_key \<rightharpoonup> resource_target) \<Rightarrow> (proposal_key \<rightharpoonup> resource_ref) \<Rightarrow> opaque_id \<Rightarrow> opaque_id \<Rightarrow> proposal_key \<Rightarrow>
   staged_resource_ref option \<Rightarrow> exn + resource_ref option" where
  "evidence_resource targets published case_id i k staged =
     (case staged of
        None \<Rightarrow> ensure (published k = None) None
      | Some g \<Rightarrow>
          bindE (require_key published k) (\<lambda>r.
          bindE (require_key targets k) (\<lambda>t.
          ensure (resource_matches_staged r t case_id RY_EVIDENCE i (sg_resource_kind g) (sg_size g) (sg_sha256 g)) (Some r))))"

definition formal_evidence_of ::
  "(proposal_key \<rightharpoonup> evidence_proposal) \<Rightarrow> opaque_id \<Rightarrow> (proposal_key \<rightharpoonup> opaque_id) \<Rightarrow> opaque_id list \<Rightarrow>
   (proposal_key \<rightharpoonup> artifact) \<Rightarrow> (proposal_key \<rightharpoonup> resource_target) \<Rightarrow> (proposal_key \<rightharpoonup> resource_ref) \<Rightarrow> timestamp \<Rightarrow>
   proposal_key \<Rightarrow> exn + (proposal_key \<times> evidence)" where
  "formal_evidence_of proposals case_id ids existing artifacts targets published at k =
     bindE (require_key proposals k) (\<lambda>p.
     bindE (require_key ids k) (\<lambda>i.
     bindE (evidence_source_ref existing artifacts case_id (ep_source_binding p)) (\<lambda>source.
     bindE (evidence_resource targets published case_id i k (ep_staged_resource_ref p)) (\<lambda>r.
     let e = \<lparr>vd_evidence_id = i, vd_case_id = case_id, vd_source_type = ep_source_type p, vd_source_ref = source,
           vd_locator = ep_locator p, vd_summary = ep_summary p, vd_collected_at = at,
           vd_content_hash = ep_content_hash p, vd_resource_ref = r\<rparr>
     in ensure (valid_evidence e) (k, e)))))"

definition formalize_accepted_evidence ::
  "evidence_proposal list \<Rightarrow> proposal_key list \<Rightarrow> opaque_id \<Rightarrow> (proposal_key \<rightharpoonup> opaque_id) \<Rightarrow> opaque_id list \<Rightarrow>
   (proposal_key \<rightharpoonup> artifact) \<Rightarrow> (proposal_key \<rightharpoonup> resource_target) \<Rightarrow> (proposal_key \<rightharpoonup> resource_ref) \<Rightarrow> timestamp \<Rightarrow>
   exn + (proposal_key \<times> evidence) list" where
  "formalize_accepted_evidence ps keys case_id ids existing artifacts targets published at =
     bindE (ensure (distinct keys) ()) (\<lambda>_.
     bindE (index_proposals ep_proposal_key ps) (\<lambda>proposals.
     bindE (mapE (formal_evidence_of proposals case_id ids existing artifacts targets published at) keys) (\<lambda>xs.
     ensure (distinct (map (vd_evidence_id \<circ> snd) xs)) xs)))"

section \<open>Technical rejections\<close>

definition deterministic_failure_spec :: "error_code \<Rightarrow> (execution_stage \<times> text_t) option" where
  "deterministic_failure_spec code =
     (case code of
        EC_OUTCOME_MISSING \<Rightarrow> Some (XS_OUTCOME_VALIDATE, ''Job outcome validation failed.'')
      | EC_OUTCOME_INVALID \<Rightarrow> Some (XS_OUTCOME_VALIDATE, ''Job outcome validation failed.'')
      | EC_EXECUTION_RECORD_FAILED \<Rightarrow> Some (XS_EXECUTION_RECORD, ''Execution record validation failed.'')
      | EC_RESOURCE_LIMIT_EXCEEDED \<Rightarrow> Some (XS_RESOURCE_STAGE, ''Case resource capacity exceeded.'')
      | EC_RESOURCE_HASH_MISMATCH \<Rightarrow> Some (XS_RESOURCE_STAGE, ''Resource publication validation failed.'')
      | _ \<Rightarrow> None)"

definition text_or_empty :: "text_t option \<Rightarrow> text_t" where
  "text_or_empty x = (case x of None \<Rightarrow> [] | Some s \<Rightarrow> s)"

text \<open>The details are sorted by field, resource and their own JSON bytes, which are the argument \<open>bytes\<close>.\<close>

definition deterministic_outcome_failure ::
  "(error_detail \<Rightarrow> text_t) \<Rightarrow> error_code \<Rightarrow> error_detail list \<Rightarrow> exn + execution_failure" where
  "deterministic_outcome_failure bytes code details =
     (case deterministic_failure_spec code of
        None \<Rightarrow> Inl ValueError
      | Some (stage, message) \<Rightarrow>
          let ordered = sort_key (\<lambda>d. (text_or_empty (ed_field d), text_or_empty (ed_resource_type d),
                text_or_empty (ed_resource_id d), bytes d)) details
          in ensure (code = EC_RESOURCE_LIMIT_EXCEEDED \<longrightarrow>
                list_ex (\<lambda>d. ed_limit d = Some 5368709120 \<and>
                  (case ed_observed d of None \<Rightarrow> False | Some n \<Rightarrow> 5368709120 < n)) ordered)
               \<lparr>xf_stage = stage, xf_code = code, xf_message = message, xf_retryable = False, xf_details = ordered,
                xf_reason_code = None, xf_diagnostic_id = None\<rparr>)"

definition semantic_outcome_codes :: "trigger_type \<Rightarrow> error_code list" where
  "semantic_outcome_codes t =
     (if t = TT_DIAGNOSIS_OUTCOME then [EC_VALIDATION_ERROR, EC_NEW_CASE_REQUIRED] else [EC_VALIDATION_ERROR])"

text \<open>The coordinator's semantic refusal of an outcome, as a terminal failure.\<close>

definition coordinator_outcome_error_failure ::
  "(error_detail \<Rightarrow> text_t) \<Rightarrow> trigger \<Rightarrow> application_error \<Rightarrow> exn + execution_failure" where
  "coordinator_outcome_error_failure bytes t e =
     (case validate_coordinator_plan_result t (AppErr e) of
        Raise x \<Rightarrow> Inl x
      | _ \<Rightarrow>
          if tr_trigger_type t \<notin> {TT_ROUTE_OUTCOME, TT_DIAGNOSIS_OUTCOME, TT_REVIEW_OUTCOME} \<or>
             ae_code e = EC_INVALID_CASE_STATE \<or> ae_code e \<notin> set (semantic_outcome_codes (tr_trigger_type t))
          then Inl ValueError
          else deterministic_outcome_failure bytes EC_OUTCOME_INVALID (ae_details e))"

section \<open>Classification of an outcome\<close>

datatype outcome_replay = Replay_New | Replay_Duplicate | Replay_Conflict

datatype outcome_activity = Activity_Active | Activity_Stale | Activity_Invalid | Activity_Job_Not_Found

text \<open>The worker's receipt against the published record; an error code, or the published outcome.\<close>

definition validate_published_outcome ::
  "store_env \<Rightarrow> job_outcome \<Rightarrow> execution_file_ref \<Rightarrow> (job_outcome \<times> execution_file_ref) option \<Rightarrow>
   error_code + job_outcome" where
  "validate_published_outcome sv expected expected_ref published =
     (case published of
        None \<Rightarrow> Inl EC_OUTCOME_MISSING
      | Some (oc, ref) \<Rightarrow>
          if ref \<noteq> expected_ref \<or> sv_outcome_bytes sv oc \<noteq> sv_outcome_bytes sv expected then Inl EC_OUTCOME_INVALID
          else Inr oc)"

definition decide_outcome_replay :: "case_aggregate \<Rightarrow> opaque_id \<Rightarrow> sha256_t \<Rightarrow> outcome_replay" where
  "decide_outcome_replay ag outcome_id h =
     (case map_of (ag_processing ag) outcome_id of
        None \<Rightarrow> Replay_New
      | Some x \<Rightarrow> if op_outcome_hash x = h then Replay_Duplicate else Replay_Conflict)"

definition classify_outcome_activity :: "case_aggregate \<Rightarrow> job_outcome \<Rightarrow> outcome_activity" where
  "classify_outcome_activity ag oc =
     (case map_of (ag_jobs ag) (oc_job_id oc) of
        None \<Rightarrow> Activity_Job_Not_Found
      | Some j \<Rightarrow>
          if oc_case_id oc \<noteq> cs_case_id (ag_case ag) \<or> oc_case_id oc \<noteq> jb_case_id j \<or> oc_job_type oc \<noteq> jb_job_type j \<or>
             oc_base_state_revision oc \<noteq> jb_base_state_revision j
          then Activity_Invalid
          else if jb_status j \<noteq> JS_RUNNING \<or> cs_active_job_id (ag_case ag) \<noteq> Some (jb_job_id j) \<or>
                  ds_revision (cs_diagnosis_state (ag_case ag)) \<noteq> oc_base_state_revision oc
          then Activity_Stale
          else if jb_job_type j = JT_REVIEW \<and>
                  map_option candidate_target_of (ds_candidate_conclusion (cs_diagnosis_state (ag_case ag))) \<noteq> jb_review_target j
          then Activity_Stale else Activity_Active)"

definition validate_published_job_recovery :: "job \<Rightarrow> opaque_id \<Rightarrow> opaque_id \<Rightarrow> timestamp \<Rightarrow> bool" where
  "validate_published_job_recovery j job_id case_id created_at \<longleftrightarrow>
     jb_job_id j = job_id \<and> jb_case_id j = case_id \<and> jb_status j = JS_PENDING \<and> jb_created_at j = created_at \<and>
     jb_started_at j = None \<and> jb_finished_at j = None \<and> jb_runtime_epoch j = None"

definition make_outcome_processing_record ::
  "job_outcome \<Rightarrow> execution_file_ref \<Rightarrow> outcome_disposition \<Rightarrow> timestamp \<Rightarrow> error_code option \<Rightarrow> opaque_id list \<Rightarrow>
   opaque_id list \<Rightarrow> opaque_id list \<Rightarrow> opaque_id option \<Rightarrow> text_t \<Rightarrow> exn + outcome_processing" where
  "make_outcome_processing_record oc ref disposition at code evidence artifacts generated created reason =
     (let x = \<lparr>op_outcome_id = oc_outcome_id oc, op_job_id = oc_job_id oc, op_outcome_hash = ef_sha256 ref,
           op_outcome_file_ref = ref, op_disposition = disposition, op_processed_at = at, op_error_code = code,
           op_accepted_evidence_ids = evidence, op_accepted_artifact_ids = artifacts,
           op_generated_artifact_ids = generated, op_created_job_id = created, op_reason = reason\<rparr>
      in ensure (valid_processing x) x)"

end
