(* ===== verification/Outcome_Plan.thy ===== *)
theory Outcome_Plan
  imports Outcome_Resources
begin

text \<open>
  The checks of a coordinator plan for an outcome: \<open>validate_transition_plan_for_outcome\<close> of
  \<open>contracts/outcomes.py\<close> on stored outcomes, and the helpers of \<open>application/outcome_submission.py\<close> that decide
  which job may follow an outcome, with which bindings, and how the plan has to end the source job.
\<close>

section \<open>Proposals and the plan\<close>

definition artifact_source :: "source_binding \<Rightarrow> proposal_key option" where
  "artifact_source b = (case b of ArtifactSource k \<Rightarrow> Some k | ExistingSource i \<Rightarrow> None)"

definition proposal_accepted :: "proposal_key list \<Rightarrow> evidence_binding \<Rightarrow> bool" where
  "proposal_accepted keys b \<longleftrightarrow> (case b of ProposedEvidence k \<Rightarrow> k \<in> set keys | ExistingEvidence i \<Rightarrow> True)"

definition keys_of_kind :: "artifact_kind \<Rightarrow> job_outcome \<Rightarrow> proposal_key list" where
  "keys_of_kind kind oc = map ap_proposal_key (filter (\<lambda>p. ap_artifact_kind p = kind) (oc_proposed_artifacts oc))"

definition outcome_candidate :: "job_outcome \<Rightarrow> candidate_draft option" where
  "outcome_candidate oc =
     (case oc_payload oc of Some (DiagnosisPayload d) \<Rightarrow> do_candidate_conclusion_draft d | _ \<Rightarrow> None)"

definition delta_evidence_bindings :: "state_delta \<Rightarrow> evidence_binding list" where
  "delta_evidence_bindings d =
     concat (map dr_evidence_bindings (sd_proposed_facts d @ sd_add_active_hypotheses d @ sd_add_open_questions d)) @
     concat (map ch_evidence_bindings (sd_update_hypotheses d @ sd_reject_hypotheses d @ sd_resolve_questions d)) @
     sd_add_evidence_bindings d"

definition accepted_proposals_known :: "plan \<Rightarrow> job_outcome \<Rightarrow> bool" where
  "accepted_proposals_known p oc \<longleftrightarrow>
     set (tp_accepted_evidence_keys p) \<subseteq> set (map ep_proposal_key (oc_proposed_evidence oc)) \<and>
     set (tp_accepted_artifact_keys p) \<subseteq> set (map ap_proposal_key (oc_proposed_artifacts oc)) \<and>
     (tp_outcome_disposition p = Some OD_APPLIED \<or>
        tp_accepted_evidence_keys p = [] \<and> tp_accepted_artifact_keys p = [] \<and> tp_accepted_candidate_key p = None)"

definition bound_together :: "plan \<Rightarrow> job_outcome \<Rightarrow> bool" where
  "bound_together p oc \<longleftrightarrow>
     list_all (\<lambda>e. pred_option (\<lambda>k. (ep_proposal_key e \<in> set (tp_accepted_evidence_keys p)) =
         (k \<in> set (tp_accepted_artifact_keys p))) (artifact_source (ep_source_binding e))) (oc_proposed_evidence oc)"

definition candidate_acceptance_ok :: "plan \<Rightarrow> job_outcome \<Rightarrow> bool" where
  "candidate_acceptance_ok p oc \<longleftrightarrow>
     (let accepted = set (tp_accepted_artifact_keys p); results = set (keys_of_kind AK_USER_RESULT oc);
          archives = set (keys_of_kind AK_USER_RESULT_ARCHIVE oc)
      in case tp_accepted_candidate_key p of
           Some k \<Rightarrow>
             (case outcome_candidate oc of None \<Rightarrow> False | Some c \<Rightarrow> cd_proposal_key c = k) \<and>
             card results = 1 \<and> results \<subseteq> accepted \<and> archives \<subseteq> accepted \<and>
             list_all (proposal_accepted (tp_accepted_evidence_keys p)) (candidate_bindings (outcome_candidate oc))
         | None \<Rightarrow>
             (case tp_unresolved_result_draft p of
                Some u \<Rightarrow>
                  results = {ud_user_result_proposal_key u} \<and> ud_user_result_proposal_key u \<in> accepted \<and> archives = {}
              | None \<Rightarrow> (results \<union> archives) \<inter> accepted = {}))"

definition bindings_accepted :: "plan \<Rightarrow> bool" where
  "bindings_accepted p \<longleftrightarrow>
     list_all (proposal_accepted (tp_accepted_evidence_keys p)) (delta_evidence_bindings (tp_accepted_state_delta p)) \<and>
     (case tp_unresolved_result_draft p of
        None \<Rightarrow> True
      | Some u \<Rightarrow> list_all (proposal_accepted (tp_accepted_evidence_keys p)) (ud_evidence_bindings u))"

section \<open>Results and skills\<close>

definition route_update_ok :: "plan \<Rightarrow> job_outcome \<Rightarrow> bool" where
  "route_update_ok p oc \<longleftrightarrow>
     (case oc_payload oc of
        Some (RoutePayload r) \<Rightarrow>
          tp_outcome_disposition p = Some OD_APPLIED \<longrightarrow>
          (if rd_kind r = RK_MATCHED
           then (case tp_selected_skill_update p of Some (SetSkill v) \<Rightarrow> rd_skill_ref r = Some v | _ \<Rightarrow> False)
           else tp_selected_skill_update p = Some ClearSkill)
      | _ \<Rightarrow> True)"

definition generic_result_matches :: "job_outcome \<Rightarrow> generic_diagnosis_outcome \<Rightarrow> generic_result \<Rightarrow> bool" where
  "generic_result_matches oc g r \<longleftrightarrow>
     gr_status r = go_status g \<and> gr_conclusion r = go_conclusion g \<and> gr_root_cause_analysis r = go_root_cause_analysis g \<and>
     gr_skill_name r = go_skill_name g \<and> gr_source_job_id r = oc_job_id oc \<and>
     gr_source_outcome_id r = oc_outcome_id oc \<and> gr_occurred_at r = oc_produced_at oc"

definition generic_draft_matches :: "job_outcome \<Rightarrow> generic_diagnosis_outcome_v2 \<Rightarrow> generic_result_v2_draft \<Rightarrow> bool" where
  "generic_draft_matches oc g r \<longleftrightarrow>
     gd_format_version r = g2o_format_version g \<and> gd_status r = g2o_status g \<and>
     gd_report_markdown r = g2o_report_markdown g \<and> gd_report_utf8_size r = g2o_report_utf8_size g \<and>
     gd_report_sha256 r = g2o_report_sha256 g \<and> gd_skill_name r = g2o_skill_name g \<and>
     gd_source_job_id r = oc_job_id oc \<and> gd_source_outcome_id r = oc_outcome_id oc \<and> gd_occurred_at r = oc_produced_at oc"

definition generic_installation_ok :: "plan \<Rightarrow> job_outcome \<Rightarrow> bool" where
  "generic_installation_ok p oc \<longleftrightarrow>
     (case oc_payload oc of
        Some (GenericPayload g) \<Rightarrow>
          tp_outcome_disposition p = Some OD_APPLIED \<and>
          (case tp_generic_result p of None \<Rightarrow> False | Some r \<Rightarrow> generic_result_matches oc g r)
      | _ \<Rightarrow> tp_generic_result p = None) \<and>
     (case oc_payload oc of
        Some (GenericV2Payload g) \<Rightarrow>
          tp_outcome_disposition p = Some OD_APPLIED \<and>
          (case tp_generic_result_v2_draft p of None \<Rightarrow> False | Some r \<Rightarrow> generic_draft_matches oc g r)
      | _ \<Rightarrow> tp_generic_result_v2_draft p = None)"

definition review_pass_target :: "job_outcome \<Rightarrow> candidate_target option" where
  "review_pass_target oc =
     (case (oc_result_type oc, oc_payload oc) of
        (RT_COMPLETED, Some (ReviewPayload a)) \<Rightarrow>
          if ra_verdict a = RV_PASS
          then Some \<lparr>ct_conclusion_id = ra_candidate_conclusion_id a, ct_revision = ra_candidate_revision a,
                 ct_content_hash = ra_candidate_content_hash a\<rparr>
          else None
      | _ \<Rightarrow> None)"

text \<open>A passing review has to accept the fixed candidate. The source reads the fields of the final target, which
  a binding does not have.\<close>

definition pass_plan_ok :: "plan \<Rightarrow> job_outcome \<Rightarrow> exn + unit" where
  "pass_plan_ok p oc =
     (case (tp_outcome_disposition p, review_pass_target oc) of
        (Some OD_APPLIED, Some target) \<Rightarrow>
          (case tp_final_result_target p of
             Some (FinalBinding b) \<Rightarrow> Inl AttributeError
           | final \<Rightarrow>
               ensure (final = Some (FinalTarget target) \<and>
                 (case tp_candidate_mutation p of
                    None \<Rightarrow> False
                  | Some m \<Rightarrow> mu_target_status m = CD_ACCEPTED \<and> mu_candidate_binding m = ExistingCandidate target)) ())
      | _ \<Rightarrow> Inr ())"

definition validate_transition_plan_for_outcome :: "plan \<Rightarrow> job_outcome \<Rightarrow> exn + plan" where
  "validate_transition_plan_for_outcome p oc =
     (if \<not> accepted_proposals_known p oc then Inl ValueError
      else case oc_methods_terminal_projection oc of
        Some terminal \<Rightarrow>
          ensure (tp_outcome_disposition p = Some OD_APPLIED \<and> tp_methods_terminal_projection p = Some terminal) p
      | None \<Rightarrow>
          bindE (ensure (tp_methods_terminal_projection p = None \<and> bound_together p oc \<and> candidate_acceptance_ok p oc \<and>
            bindings_accepted p \<and> route_update_ok p oc \<and> generic_installation_ok p oc \<and>
            (tp_outcome_disposition p = Some OD_APPLIED \<and> oc_result_type oc = RT_REROUTE \<longrightarrow>
               tp_selected_skill_update p = Some ClearSkill)) ()) (\<lambda>_.
          bindE (pass_plan_ok p oc) (\<lambda>_. Inr p)))"

section \<open>The job that follows\<close>

definition expected_next_job_type :: "job \<Rightarrow> job_outcome \<Rightarrow> job_type option" where
  "expected_next_job_type j oc =
     (case jb_job_type j of
        JT_ROUTE \<Rightarrow>
          (case oc_payload oc of
             Some (RoutePayload r) \<Rightarrow>
               if oc_result_type oc = RT_NO_CAPABILITY \<and> rd_kind r = RK_NO_CAPABILITY \<or>
                  oc_result_type oc = RT_COMPLETED \<and> rd_kind r = RK_MATCHED \<and> rd_skill_ref r \<noteq> None
               then Some JT_DIAGNOSE else None
           | _ \<Rightarrow> None)
      | JT_DIAGNOSE \<Rightarrow>
          if oc_result_type oc = RT_REROUTE then Some JT_ROUTE
          else if oc_result_type oc \<noteq> RT_COMPLETED \<or> jb_skill_ref j = None then None
          else if oc_methods_review_target oc \<noteq> None then Some JT_REVIEW
          else (case oc_payload oc of
             Some (DiagnosisPayload d) \<Rightarrow>
               (if do_candidate_conclusion_draft d = None then Some JT_DIAGNOSE
                else if jb_review_policy j = Some RP_NONE then None else Some JT_REVIEW)
           | _ \<Rightarrow> None)
      | JT_REVIEW \<Rightarrow> None)"

definition payload_skill_ref :: "job_outcome \<Rightarrow> versioned_ref option" where
  "payload_skill_ref oc = (case oc_payload oc of Some (RoutePayload r) \<Rightarrow> rd_skill_ref r | _ \<Rightarrow> None)"

definition expected_next_job_skill_ref :: "job \<Rightarrow> job_outcome \<Rightarrow> job_type \<Rightarrow> versioned_ref option" where
  "expected_next_job_skill_ref j oc next_type =
     (if next_type = JT_ROUTE then None
      else if jb_job_type j = JT_ROUTE then payload_skill_ref oc else jb_skill_ref j)"

definition validate_next_job_bindings :: "plan \<Rightarrow> (job_type \<rightharpoonup> runtime_bindings) \<Rightarrow> exn + unit" where
  "validate_next_job_bindings p offered =
     (case tp_next_job_spec p of
        None \<Rightarrow> Inr ()
      | Some spec \<Rightarrow>
          (case offered (js_job_type spec) of
             None \<Rightarrow> Inl ValueError
           | Some expected \<Rightarrow> bindE (runtime_bindings_from_job_spec spec) (\<lambda>b. ensure (b = expected) ())))"

text \<open>An applied plan ends exactly its active source job, in the status the outcome asks for.\<close>

definition applied_target_status :: "job_outcome \<Rightarrow> plan \<Rightarrow> exn + job_status" where
  "applied_target_status oc p =
     (if oc_result_type oc \<noteq> RT_FAILED then Inr JS_SUCCEEDED
      else case oc_error oc of
        None \<Rightarrow> Inl ValueError
      | Some f \<Rightarrow>
          let st = (if xf_retryable f then JS_INTERRUPTED else JS_FAILED);
              expected = (if xf_retryable f then CS_INTERRUPTED else CS_FAILED)
          in ensure (tp_target_case_status p = expected \<and> tp_next_job_spec p = None) st)"

definition validate_applied_outcome_lifecycle :: "job \<Rightarrow> job_outcome \<Rightarrow> plan \<Rightarrow> exn + unit" where
  "validate_applied_outcome_lifecycle source oc p =
     (if jb_case_id source \<noteq> oc_case_id oc \<or> jb_job_id source \<noteq> oc_job_id oc \<or> jb_status source \<noteq> JS_RUNNING \<or>
         \<not> tp_clear_active_job p
      then Inl ValueError
      else case tp_job_updates p of
        [u] \<Rightarrow>
          bindE (applied_target_status oc p) (\<lambda>st.
          ensure (ju_job_id u = jb_job_id source \<and> ju_expected_status u = JS_RUNNING \<and> ju_target_status u = st \<and>
            ju_started_at u = None \<and> ju_finished_at u = Some (oc_produced_at oc) \<and> ju_runtime_epoch u = None) ())
      | _ \<Rightarrow> Inl ValueError)"

definition finalize_unresolved_result ::
  "unresolved_result_draft \<Rightarrow> opaque_id \<Rightarrow> opaque_id \<Rightarrow> opaque_id list \<Rightarrow> exn + unresolved_result" where
  "finalize_unresolved_result d audit_id result_id refs =
     (let u = \<lparr>un_source_job_id = ud_source_job_id d, un_source_outcome_id = ud_source_outcome_id d,
           un_reason_code = ud_reason_code d, un_summary = ud_summary d, un_blocking_rule_ids = ud_blocking_rule_ids d,
           un_evidence_refs = refs, un_user_result_artifact_id = result_id,
           un_recommended_next_step = ud_recommended_next_step d, un_occurred_at = ud_occurred_at d,
           un_audit_artifact_id = audit_id\<rparr>
      in ensure (distinct (un_blocking_rule_ids u) \<and> distinct (un_evidence_refs u) \<and>
           (un_reason_code u \<in> {UR_MECHANICAL_VERIFICATION_FAILED, UR_INSUFFICIENT_EVIDENCE} \<longrightarrow>
              un_blocking_rule_ids u \<noteq> [])) u)"

end
