(* ===== verification/Outcome_Submission.thy ===== *)
theory Outcome_Submission
  imports Outcome_Plan Case_Repository
begin

text \<open>
  \<open>OutcomeSubmissionService\<close> of \<open>application/outcome_submission.py\<close>: the processing of one finalized outcome. An
  attempt reads the state of the job, recognises a replay, compares the outcome with its published record and its
  job, lets the coordinator plan, publishes the accepted resources, and commits the case, the outcome, its
  processing record and the next job. A technical rejection is decided again on a fresh state; a stale outcome is
  only recorded. A \<open>REVISION_CONFLICT\<close>, wherever it is raised, starts the next of three attempts.

  The ports are a record over a repository state; those without a state answer per attempt. The audit bundle of an
  unresolved case (\<open>audit_bundle_assembler.py\<close>) and the files of the resource store are ports; targets and
  capacities are computed. The outcome is taken as already validated against its own schema: the revalidation of
  raw input is left out, except for the file reference. Journey events and notifications have no result.
\<close>

section \<open>Ports and results\<close>

record 'r outcome_ports =
  os_read :: "'r \<Rightarrow> opaque_id \<Rightarrow> 'r \<times> (store_error + state_file)"
  os_commit :: "'r \<Rightarrow> int \<Rightarrow> int option \<Rightarrow> state_mutation \<Rightarrow> 'r \<times> (store_error + commit_receipt)"
  os_published_outcome :: "nat \<Rightarrow> opaque_id \<Rightarrow> store_error + (job_outcome \<times> execution_file_ref) option"
  os_published_job :: "nat \<Rightarrow> opaque_id \<Rightarrow> store_error + job option"
  os_publish_job :: "nat \<Rightarrow> job \<Rightarrow> store_error + unit"
  os_validate_staged :: "nat \<Rightarrow> staged_resource_ref \<Rightarrow> store_error + unit"
  os_stage_generated ::
    "nat \<Rightarrow> opaque_id \<Rightarrow> proposal_key \<Rightarrow> opaque_id \<Rightarrow> text_t \<Rightarrow> int \<Rightarrow> sha256_t \<Rightarrow> store_error + staged_resource_ref"
  os_resources :: "nat \<Rightarrow> opaque_id \<Rightarrow> published"
  os_publish :: "nat \<Rightarrow> staged_resource_ref \<Rightarrow> text_t \<Rightarrow> store_error + resource_ref"
  os_audit_bundle ::
    "nat \<Rightarrow> case_aggregate \<Rightarrow> job \<Rightarrow> job_outcome \<Rightarrow> unresolved_result_draft \<Rightarrow> opaque_id list \<Rightarrow>
     store_error + (text_t \<times> sha256_t)"
  os_route_bindings :: "text_t list \<Rightarrow> store_error + runtime_bindings"
  os_generic_bindings :: "bool \<Rightarrow> store_error + runtime_bindings"
  os_diagnose_bindings :: "versioned_ref \<Rightarrow> store_error + runtime_bindings"
  os_review_bindings :: "versioned_ref \<Rightarrow> store_error + runtime_bindings"
  os_derive :: "text_t \<Rightarrow> text_t list \<Rightarrow> opaque_id"
  os_detail_bytes :: "error_detail \<Rightarrow> text_t"
  os_job_bytes :: "job \<Rightarrow> text_t"
  os_now :: timestamp
  os_outcome_trigger_id :: opaque_id
  os_control_trigger_id :: opaque_id
  os_other :: "nat \<Rightarrow> 'r \<Rightarrow> 'r"

record submit_outcome_command =
  so_job_outcome :: job_outcome
  so_outcome_file_ref :: execution_file_ref

record outcome_receipt =
  rt_disposition :: outcome_disposition
  rt_case_view :: "case_view option"

datatype outcome_effect = Discard staged_resource_ref | Submit_Job opaque_id

record rejection =
  rj_code :: error_code
  rj_details :: "error_detail list"

text \<open>What an attempt does before it commits: it answers at once, rejects (with the outcome it trusts, and whether
  a stale outcome has to be recognised again), or records a stale outcome.\<close>

datatype outcome_answer =
    Reply "outcome_effect list" "store_error + outcome_receipt"
  | Reject "job_outcome option" rejection bool
  | Record_Stale job_outcome

record outcome_commit =
  ox_revision :: int
  ox_mutation :: state_mutation
  ox_effects :: "outcome_effect list"
  ox_receipt :: outcome_receipt

type_synonym 'a stage = "outcome_answer + 'a"

definition opened :: "exn + 'a \<Rightarrow> 'a stage" where
  "opened x = (case x of Inl e \<Rightarrow> Inl (Reply [] (Inl (Crash e))) | Inr y \<Rightarrow> Inr y)"

definition ported :: "store_error + 'a \<Rightarrow> 'a stage" where
  "ported x = (case x of Inl e \<Rightarrow> Inl (Reply [] (Inl e)) | Inr y \<Rightarrow> Inr y)"

definition otherwise :: "outcome_answer \<Rightarrow> exn list \<Rightarrow> exn + 'a \<Rightarrow> 'a stage" where
  "otherwise answer handled x =
     (case x of Inl e \<Rightarrow> if e \<in> set handled then Inl answer else Inl (Reply [] (Inl (Crash e))) | Inr y \<Rightarrow> Inr y)"

definition port_code :: "store_error \<Rightarrow> error_code option" where
  "port_code e = (case e of PortError a \<Rightarrow> Some (ae_code a) | Crash x \<Rightarrow> None)"

definition rejected :: "job_outcome \<Rightarrow> error_code \<Rightarrow> outcome_answer" where
  "rejected oc code = Reject (Some oc) \<lparr>rj_code = code, rj_details = []\<rparr> True"

definition rejected_early :: "job_outcome option \<Rightarrow> error_code \<Rightarrow> outcome_answer" where
  "rejected_early trusted code = Reject trusted \<lparr>rj_code = code, rj_details = []\<rparr> False"

section \<open>Finding the job and an earlier processing\<close>

definition first_job :: "state_file \<Rightarrow> opaque_id \<Rightarrow> job option" where
  "first_job s i =
     (case List.map_filter (\<lambda>(c, ag). map_of (ag_jobs ag) i) (sf_cases s) of [] \<Rightarrow> None | j # js \<Rightarrow> Some j)"

definition find_processing_record :: "state_file \<Rightarrow> opaque_id \<Rightarrow> (opaque_id \<times> outcome_processing) option" where
  "find_processing_record s i =
     (case List.map_filter (\<lambda>(c, ag). map_option (\<lambda>x. (c, x)) (map_of (ag_processing ag) i)) (sf_cases s) of
        [] \<Rightarrow> None | x # xs \<Rightarrow> Some x)"

definition replayed_outcome ::
  "store_env \<Rightarrow> state_file \<Rightarrow> job_outcome \<Rightarrow> execution_file_ref \<Rightarrow> opaque_id \<times> outcome_processing \<Rightarrow>
   store_error + outcome_receipt" where
  "replayed_outcome sv s oc ref x =
     (if op_job_id (snd x) \<noteq> oc_job_id oc \<or> op_outcome_hash (snd x) \<noteq> ef_sha256 ref
      then failed EC_IDEMPOTENCY_CONFLICT ''The Outcome ID is already bound to different content.''
      else raised (bindE (project_case_view sv s (fst x)) (\<lambda>v. Inr \<lparr>rt_disposition = OD_DUPLICATE, rt_case_view = Some v\<rparr>)))"

definition case_of_job :: "state_file \<Rightarrow> job \<Rightarrow> exn + case_aggregate" where
  "case_of_job s j = (case map_of (sf_cases s) (jb_case_id j) of None \<Rightarrow> Inl KeyError | Some ag \<Rightarrow> Inr ag)"

section \<open>The published outcome against its job\<close>

definition published_outcome ::
  "store_env \<Rightarrow> 'r outcome_ports \<Rightarrow> nat \<Rightarrow> submit_outcome_command \<Rightarrow> job_outcome stage" where
  "published_outcome sv P n k =
     (case os_published_outcome P n (oc_job_id (so_job_outcome k)) of
        Inl e \<Rightarrow>
          if port_code e = Some EC_EXECUTION_RECORD_FAILED then Inl (rejected_early None EC_EXECUTION_RECORD_FAILED)
          else Inl (Reply [] (Inl e))
      | Inr x \<Rightarrow>
          (case validate_published_outcome sv (so_job_outcome k) (so_outcome_file_ref k) x of
             Inl code \<Rightarrow> Inl (rejected_early None code)
           | Inr oc \<Rightarrow> Inr oc))"

definition outcome_activity_stage :: "job \<Rightarrow> case_aggregate \<Rightarrow> job_outcome \<Rightarrow> unit stage" where
  "outcome_activity_stage j ag oc =
     (let invalid = rejected_early (if oc_case_id oc = cs_case_id (ag_case ag) then Some oc else None) EC_OUTCOME_INVALID
      in bindS (otherwise invalid [ValueError] (validate_outcome_for_job j oc (Some ag))) (\<lambda>_.
         case classify_outcome_activity ag oc of
           Activity_Job_Not_Found \<Rightarrow> Inl (Reply [] (failed EC_JOB_NOT_FOUND ''The Job does not exist.''))
         | Activity_Invalid \<Rightarrow> Inl invalid
         | Activity_Stale \<Rightarrow> Inl (Record_Stale oc)
         | Activity_Active \<Rightarrow> Inr ()))"

definition staged_proposals :: "job_outcome \<Rightarrow> (proposal_key \<times> staged_resource_ref) list" where
  "staged_proposals oc =
     List.map_filter (\<lambda>p. map_option (Pair (ep_proposal_key p)) (ep_staged_resource_ref p)) (oc_proposed_evidence oc) @
     map (\<lambda>p. (ap_proposal_key p, ap_staged_resource_ref p)) (oc_proposed_artifacts oc)"

text \<open>The proposals whose staged files are gone: they may have been published by an earlier attempt.\<close>

fun missing_staged ::
  "(staged_resource_ref \<Rightarrow> store_error + unit) \<Rightarrow> job_outcome \<Rightarrow> (proposal_key \<times> staged_resource_ref) list \<Rightarrow>
   proposal_key list stage" where
  "missing_staged check oc [] = Inr []"
| "missing_staged check oc ((k, g) # gs) =
     (case check g of
        Inr _ \<Rightarrow> missing_staged check oc gs
      | Inl e \<Rightarrow>
          if port_code e = Some EC_RESOURCE_NOT_FOUND then bindS (missing_staged check oc gs) (\<lambda>ks. Inr (k # ks))
          else if port_code e = Some EC_RESOURCE_HASH_MISMATCH then Inl (rejected oc EC_OUTCOME_INVALID)
          else Inl (Reply [] (Inl e)))"

definition validate_active_outcome ::
  "'r outcome_ports \<Rightarrow> nat \<Rightarrow> state_file \<Rightarrow> job_outcome \<Rightarrow> proposal_key list stage" where
  "validate_active_outcome P n s oc =
     bindS (missing_staged (os_validate_staged P n) oc (staged_proposals oc)) (\<lambda>missing.
     bindS (otherwise (rejected oc EC_OUTCOME_INVALID) [ValueError] (continuation_for_outcome s oc)) (\<lambda>_.
     Inr missing))"

section \<open>What the next job inherits\<close>

definition route_without_skill :: "job_type \<Rightarrow> job_outcome \<Rightarrow> bool" where
  "route_without_skill t oc \<longleftrightarrow> t = JT_ROUTE \<and> oc_result_type oc = RT_NO_CAPABILITY"

text \<open>After a route without a capability only the logs that the preparation accepts are handed on.\<close>

definition outcome_continuation :: "state_file \<Rightarrow> job_outcome \<Rightarrow> text_t option \<Rightarrow> exn + continuation_resources" where
  "outcome_continuation s oc preparation =
     bindE (continuation_for_outcome s oc) (\<lambda>v.
     if \<not> route_without_skill (oc_job_type oc) oc then Inr v
     else case map_of (sf_cases s) (oc_case_id oc) of
       None \<Rightarrow> Inl KeyError
     | Some ag \<Rightarrow>
         let accepted = (if preparation = Some ''direct-v1'' then generic_direct_log_content_types
               else generic_legacy_log_content_types)
         in bindE (mapE (\<lambda>i. case map_of (ag_attachments ag) i of
                None \<Rightarrow> Inl KeyError | Some a \<Rightarrow> Inr (i, at_content_type a)) (cr_attachment_refs v)) (\<lambda>xs.
            Inr (v\<lparr>cr_attachment_refs := map fst (filter (\<lambda>(i, ct). ct \<in> set accepted) xs)\<rparr>)))"

definition wants_logs :: "state_file \<Rightarrow> case_aggregate \<Rightarrow> job_outcome \<Rightarrow> exn + bool" where
  "wants_logs s ag oc =
     (if cs_initial_log_archive_expected (ag_case ag) then Inr True
      else bindE (outcome_continuation s oc None) (\<lambda>v. Inr (cr_attachment_refs v \<noteq> [])))"

definition identity_base :: "state_file \<Rightarrow> job \<Rightarrow> job_outcome \<Rightarrow> text_t list" where
  "identity_base s j oc = [sf_installation_id s, jb_case_id j, oc_outcome_id oc]"

definition prospective_job_id ::
  "'r outcome_ports \<Rightarrow> state_file \<Rightarrow> case_aggregate \<Rightarrow> job \<Rightarrow> job_outcome \<Rightarrow> exn + opaque_id" where
  "prospective_job_id P s ag j oc =
     bindE (if route_without_skill (jb_job_type j) oc then wants_logs s ag oc else Inr False) (\<lambda>logs.
     Inr (os_derive P ''job'' (identity_base s j oc @ [''next_job''] @ (if logs then [''with_logs''] else []))))"

definition pinned_bindings ::
  "job_type \<Rightarrow> store_error + runtime_bindings \<Rightarrow> versioned_ref option \<Rightarrow> store_error + (job_type \<rightharpoonup> runtime_bindings)" where
  "pinned_bindings t answer skill =
     bindS answer (\<lambda>b.
       case rebuild_runtime_bindings_for_role t b skill of
         Inl _ \<Rightarrow> failed EC_CONFIG_INVALID ''The pinned runtime bindings are invalid for their requested role.''
       | Inr b' \<Rightarrow> Inr [t \<mapsto> b'])"

definition user_fact_names :: "job \<Rightarrow> exn + text_t list" where
  "user_fact_names j =
     (case jb_context_snapshot j of
        None \<Rightarrow> Inl AttributeError
      | Some cx \<Rightarrow> mapE (\<lambda>f. case pv_input_name (it_provenance f) of None \<Rightarrow> Inl ValueError | Some x \<Rightarrow> Inr x) (cx_user_facts cx))"

definition bindings_for_outcome ::
  "'r outcome_ports \<Rightarrow> state_file \<Rightarrow> case_aggregate \<Rightarrow> job \<Rightarrow> job_outcome \<Rightarrow> store_error + (job_type \<rightharpoonup> runtime_bindings)" where
  "bindings_for_outcome P s ag j oc =
     (case expected_next_job_type j oc of
        None \<Rightarrow> Inr (\<lambda>_. None)
      | Some JT_ROUTE \<Rightarrow> bindS (raised (user_fact_names j)) (\<lambda>names. pinned_bindings JT_ROUTE (os_route_bindings P names) None)
      | Some t \<Rightarrow>
          if route_without_skill (jb_job_type j) oc
          then bindS (raised (wants_logs s ag oc)) (\<lambda>logs. pinned_bindings JT_DIAGNOSE (os_generic_bindings P logs) None)
          else (case if jb_job_type j = JT_ROUTE then payload_skill_ref oc else jb_skill_ref j of
                  None \<Rightarrow> Inl (Crash AssertionError)
                | Some skill \<Rightarrow>
                    bindS (if t = JT_REVIEW then os_review_bindings P skill else os_diagnose_bindings P skill) (\<lambda>b.
                    bindS (if jb_job_type j = JT_ROUTE then Inr b
                           else let b' = b\<lparr>rb_review_policy := jb_review_policy j\<rparr>
                                in raised (ensure (valid_runtime_bindings b') b')) (\<lambda>b'.
                    pinned_bindings t (Inr b') (Some skill)))))"

text \<open>A next job that an earlier attempt has already published fixes its bindings.\<close>

definition recovered_job ::
  "'r outcome_ports \<Rightarrow> nat \<Rightarrow> job \<Rightarrow> job_outcome \<Rightarrow> opaque_id \<Rightarrow> job option stage" where
  "recovered_job P n j oc i =
     (case os_published_job P n i of
        Inl e \<Rightarrow>
          if port_code e = Some EC_EXECUTION_RECORD_FAILED then Inl (rejected oc EC_EXECUTION_RECORD_FAILED)
          else Inl (Reply [] (Inl e))
      | Inr None \<Rightarrow> Inr None
      | Inr (Some x) \<Rightarrow>
          if validate_published_job_recovery x i (jb_case_id j) (oc_produced_at oc) then Inr (Some x)
          else Inl (rejected oc EC_EXECUTION_RECORD_FAILED))"

definition next_bindings ::
  "'r outcome_ports \<Rightarrow> state_file \<Rightarrow> case_aggregate \<Rightarrow> job \<Rightarrow> job_outcome \<Rightarrow> job option \<Rightarrow> (job_type \<rightharpoonup> runtime_bindings) stage" where
  "next_bindings P s ag j oc recovered =
     (case recovered of
        None \<Rightarrow> ported (bindings_for_outcome P s ag j oc)
      | Some x \<Rightarrow>
          bindS (opened (runtime_bindings_from_job x)) (\<lambda>b.
          case expected_next_job_type j oc of
            None \<Rightarrow> Inl (rejected oc EC_EXECUTION_RECORD_FAILED)
          | Some t \<Rightarrow>
              if jb_job_type x = t \<and> runtime_bindings_match_role t b (expected_next_job_skill_ref j oc t)
              then Inr [t \<mapsto> b] else Inl (rejected oc EC_EXECUTION_RECORD_FAILED)))"

section \<open>The plan\<close>

definition outcome_trigger_payload :: "job_outcome \<Rightarrow> trigger_payload" where
  "outcome_trigger_payload oc =
     (case oc_job_type oc of
        JT_ROUTE \<Rightarrow> RouteOutcomePayload oc
      | JT_DIAGNOSE \<Rightarrow> DiagnosisOutcomePayload oc
      | JT_REVIEW \<Rightarrow> ReviewOutcomePayload oc)"

text \<open>The validators of an outcome trigger beside those of every trigger.\<close>

definition outcome_trigger_ok :: "job_outcome \<Rightarrow> trigger \<Rightarrow> bool" where
  "outcome_trigger_ok oc t \<longleftrightarrow>
     tr_case_id t = oc_case_id oc \<and> tr_occurred_at t = oc_produced_at oc \<and>
     (case cr_previous_outcome_refs (tr_continuation_resources t) of [] \<Rightarrow> False | i # js \<Rightarrow> i = oc_outcome_id oc)"

definition outcome_trigger ::
  "state_file \<Rightarrow> job_outcome \<Rightarrow> continuation_resources \<Rightarrow> (job_type \<rightharpoonup> runtime_bindings) \<Rightarrow> opaque_id \<Rightarrow> exn + trigger" where
  "outcome_trigger s oc resources bindings trigger_id =
     (case map_of (sf_cases s) (oc_case_id oc) of
        None \<Rightarrow> Inl KeyError
      | Some ag \<Rightarrow>
          bindE (external_trigger trigger_id (oc_case_id oc) (cs_case_revision (ag_case ag)) (oc_outcome_id oc)
            (outcome_trigger_payload oc) resources bindings (oc_produced_at oc)) (\<lambda>t.
          ensure (outcome_trigger_ok oc t) t))"

definition outcome_plan ::
  "store_env \<Rightarrow> 'r outcome_ports \<Rightarrow> state_file \<Rightarrow> job \<Rightarrow> job_outcome \<Rightarrow> (job_type \<rightharpoonup> runtime_bindings) \<Rightarrow> plan stage" where
  "outcome_plan sv P s j oc bindings =
     (let invalid = rejected oc EC_OUTCOME_INVALID;
          preparation = (case bindings JT_DIAGNOSE of None \<Rightarrow> None | Some b \<Rightarrow> rb_generic_log_preparation b)
      in bindS (otherwise invalid [ValueError] (outcome_continuation s oc preparation)) (\<lambda>resources.
         bindS (otherwise invalid [ValueError] (outcome_trigger s oc resources bindings (os_outcome_trigger_id P))) (\<lambda>t.
         case coordinate sv s (jb_case_id j) t of
           Raise e \<Rightarrow> otherwise invalid [ValueError] (Inl e)
         | AppErr e \<Rightarrow>
             if ae_code e = EC_INVALID_CASE_STATE then Inl (Record_Stale oc)
             else bindS (opened (coordinator_outcome_error_failure (os_detail_bytes P) t e)) (\<lambda>f.
               Inl (Reject (Some oc) \<lparr>rj_code = xf_code f, rj_details = xf_details f\<rparr> True))
         | Ok p \<Rightarrow>
             otherwise invalid [ValueError]
               (bindE (validate_transition_plan_for_outcome p oc) (\<lambda>_.
                bindE (ensure (tp_outcome_disposition p = Some OD_APPLIED) ()) (\<lambda>_.
                bindE (validate_applied_outcome_lifecycle j oc p) (\<lambda>_.
                bindE (validate_next_job_bindings p bindings) (\<lambda>_. Inr p))))))))"

end
