(* ===== verification/Outcome_Application.thy ===== *)
theory Outcome_Application
  imports Outcome_Submission
begin

text \<open>
  The second half of \<open>OutcomeSubmissionService\<close>: \<open>_apply_plan\<close> with the resources a plan accepts and the ones the
  server generates, \<open>_reject\<close>, \<open>_record_stale\<close>, and \<open>submit_outcome\<close> itself.
\<close>

section \<open>Server-generated resources\<close>

definition audit_key :: proposal_key where
  "audit_key = ''server-audit-bundle''"

definition generic_report_key :: proposal_key where
  "generic_report_key = ''server-generic-report''"

text \<open>A failure to stage a generated file is not a rejection of the outcome.\<close>

definition staged_safely :: "text_t \<Rightarrow> store_error + 'a \<Rightarrow> store_error + 'a" where
  "staged_safely message x =
     (case x of
        Inl (PortError e) \<Rightarrow>
          if ae_code e \<in> {EC_RESOURCE_STAGE_FAILED, EC_RESOURCE_HASH_MISMATCH, EC_RESOURCE_SIZE_MISMATCH,
               EC_RESOURCE_LIMIT_EXCEEDED, EC_PATH_VIOLATION, EC_VALIDATION_ERROR}
          then failed EC_RESOURCE_PUBLISH_FAILED message else x
      | Inl (Crash ValueError) \<Rightarrow> failed EC_RESOURCE_PUBLISH_FAILED message
      | _ \<Rightarrow> x)"

type_synonym target_row = "proposal_key \<times> staged_resource_ref \<times> resource_target"

definition generated_row ::
  "'r outcome_ports \<Rightarrow> nat \<Rightarrow> job \<Rightarrow> text_t list \<Rightarrow> proposal_key \<Rightarrow> text_t \<Rightarrow> text_t \<Rightarrow> int \<Rightarrow> sha256_t \<Rightarrow> text_t \<Rightarrow>
   store_error + target_row" where
  "generated_row P n j base key name payload bytes h message =
     staged_safely message
       (bindS (os_stage_generated P n (jb_job_id j) key (os_derive P ''resource_staging'' (base @ [name])) payload bytes h) (\<lambda>g.
        bindS (plan_target (jb_case_id j) RY_ARTIFACT (os_derive P ''artifact'' (base @ [name])) RS_FILE (sg_size g) (sg_sha256 g)) (\<lambda>t.
        Inr (key, g, t))))"

definition generic_report_rows ::
  "'r outcome_ports \<Rightarrow> nat \<Rightarrow> job \<Rightarrow> text_t list \<Rightarrow> plan \<Rightarrow> store_error + target_row list" where
  "generic_report_rows P n j base p =
     (case tp_generic_result_v2_draft p of
        None \<Rightarrow> Inr []
      | Some d \<Rightarrow>
          bindS (generated_row P n j base generic_report_key ''generic-report'' (gd_report_markdown d)
            (gd_report_utf8_size d) (gd_report_sha256 d) ''The server generic report could not be staged safely.'') (\<lambda>row.
          Inr [row]))"

text \<open>The evidence an unresolved result cites, and its audit bundle.\<close>

definition unresolved_refs ::
  "case_aggregate \<Rightarrow> (proposal_key \<rightharpoonup> opaque_id) \<Rightarrow> unresolved_result_draft \<Rightarrow> store_error + opaque_id list" where
  "unresolved_refs ag ids u =
     (case mapE (resolve_evidence_binding (dict_keys (ag_evidence ag)) ids) (ud_evidence_bindings u) of
        Inl e \<Rightarrow>
          if e \<in> {KeyError, ValueError}
          then failed EC_OUTCOME_INVALID ''The unresolved result cites Evidence outside its accepted closure.''
          else Inl (Crash e)
      | Inr refs \<Rightarrow> Inr (stable_unique refs))"

definition audit_bundle ::
  "'r outcome_ports \<Rightarrow> nat \<Rightarrow> case_aggregate \<Rightarrow> job \<Rightarrow> job_outcome \<Rightarrow> unresolved_result_draft \<Rightarrow> opaque_id list \<Rightarrow>
   store_error + (text_t \<times> sha256_t)" where
  "audit_bundle P n ag j oc u refs =
     (case os_audit_bundle P n ag j oc u refs of
        Inl (PortError e) \<Rightarrow> failed EC_EXECUTION_RECORD_FAILED ''The required V2 audit record could not be read.''
      | Inl (Crash e) \<Rightarrow>
          if e \<in> {KeyError, ValueError} then failed EC_EXECUTION_RECORD_FAILED ''The required V2 audit record is incomplete.''
          else Inl (Crash e)
      | Inr x \<Rightarrow> Inr x)"

definition audit_rows ::
  "'r outcome_ports \<Rightarrow> nat \<Rightarrow> case_aggregate \<Rightarrow> job \<Rightarrow> job_outcome \<Rightarrow> text_t list \<Rightarrow> (proposal_key \<rightharpoonup> opaque_id) \<Rightarrow> plan \<Rightarrow>
   store_error + (opaque_id list \<times> target_row list)" where
  "audit_rows P n ag j oc base ids p =
     (case tp_unresolved_result_draft p of
        None \<Rightarrow> Inr ([], [])
      | Some u \<Rightarrow>
          bindS (unresolved_refs ag ids u) (\<lambda>refs.
          bindS (audit_bundle P n ag j oc u refs) (\<lambda>(payload, h).
          bindS (generated_row P n j base audit_key ''audit-bundle'' payload (int (length payload)) h
            ''The server audit bundle could not be staged safely.'') (\<lambda>row.
          Inr (refs, [row])))))"

section \<open>Publishing the accepted resources\<close>

definition derived_ids :: "'r outcome_ports \<Rightarrow> text_t \<Rightarrow> text_t list \<Rightarrow> proposal_key list \<Rightarrow> (proposal_key \<rightharpoonup> opaque_id)" where
  "derived_ids P kind base keys = (\<lambda>k. if k \<in> set keys then Some (os_derive P kind (base @ [k])) else None)"

definition candidate_ids :: "'r outcome_ports \<Rightarrow> text_t list \<Rightarrow> job_outcome \<Rightarrow> plan \<Rightarrow> (proposal_key \<rightharpoonup> opaque_id)" where
  "candidate_ids P base oc p =
     (case (tp_accepted_candidate_key p, outcome_candidate oc) of
        (Some k, Some d) \<Rightarrow>
          if cd_existing_conclusion_id d = None then [k \<mapsto> os_derive P ''candidate_conclusion'' (base @ [k])] else (\<lambda>_. None)
      | _ \<Rightarrow> (\<lambda>_. None))"

text \<open>The targets of the accepted proposals. An unknown proposal or an invalid target rejects the outcome.\<close>

definition proposal_row ::
  "job_outcome \<Rightarrow> opaque_id \<Rightarrow> resource_type \<Rightarrow> opaque_id \<Rightarrow> proposal_key \<Rightarrow> staged_resource_ref \<Rightarrow> target_row stage" where
  "proposal_row oc case_id ty i k g =
     (case plan_target case_id ty i (sg_resource_kind g) (sg_size g) (sg_sha256 g) of
        Inl e \<Rightarrow>
          if port_code e = Some EC_VALIDATION_ERROR then Inl (rejected oc EC_OUTCOME_INVALID) else Inl (Reply [] (Inl e))
      | Inr t \<Rightarrow> Inr (k, g, t))"

fun evidence_rows ::
  "'r outcome_ports \<Rightarrow> job \<Rightarrow> job_outcome \<Rightarrow> text_t list \<Rightarrow> proposal_key list \<Rightarrow> target_row list stage" where
  "evidence_rows P j oc base [] = Inr []"
| "evidence_rows P j oc base (k # ks) =
     (case map_of (rev (map (\<lambda>p. (ep_proposal_key p, p)) (oc_proposed_evidence oc))) k of
        None \<Rightarrow> Inl (rejected oc EC_OUTCOME_INVALID)
      | Some p \<Rightarrow>
          (case ep_staged_resource_ref p of
             None \<Rightarrow> evidence_rows P j oc base ks
           | Some g \<Rightarrow>
               bindS (proposal_row oc (jb_case_id j) RY_EVIDENCE (os_derive P ''evidence'' (base @ [k])) k g) (\<lambda>row.
               bindS (evidence_rows P j oc base ks) (\<lambda>rows. Inr (row # rows)))))"

fun artifact_rows ::
  "'r outcome_ports \<Rightarrow> job \<Rightarrow> job_outcome \<Rightarrow> text_t list \<Rightarrow> proposal_key list \<Rightarrow> target_row list stage" where
  "artifact_rows P j oc base [] = Inr []"
| "artifact_rows P j oc base (k # ks) =
     (case map_of (rev (map (\<lambda>p. (ap_proposal_key p, p)) (oc_proposed_artifacts oc))) k of
        None \<Rightarrow> Inl (rejected oc EC_OUTCOME_INVALID)
      | Some p \<Rightarrow>
          bindS (proposal_row oc (jb_case_id j) RY_ARTIFACT (os_derive P ''artifact'' (base @ [k])) k
            (ap_staged_resource_ref p)) (\<lambda>row.
          bindS (artifact_rows P j oc base ks) (\<lambda>rows. Inr (row # rows))))"

definition row_key :: "target_row \<Rightarrow> text_t" where
  "row_key row = tg_final_storage_key (snd (snd row))"

definition capacity_stage :: "'r outcome_ports \<Rightarrow> nat \<Rightarrow> job \<Rightarrow> job_outcome \<Rightarrow> target_row list \<Rightarrow> unit stage" where
  "capacity_stage P n j oc rows =
     (if rows = [] then Inr ()
      else case validate_case_capacity (os_resources P n (jb_case_id j)) (jb_case_id j) (map (snd \<circ> snd) rows) of
        Inr _ \<Rightarrow> Inr ()
      | Inl (PortError e) \<Rightarrow>
          if ae_code e = EC_RESOURCE_LIMIT_EXCEEDED
          then Inl (Reject (Some oc) \<lparr>rj_code = EC_RESOURCE_LIMIT_EXCEEDED, rj_details = ae_details e\<rparr> True)
          else if ae_code e = EC_RESOURCE_HASH_MISMATCH then Inl (rejected oc EC_RESOURCE_HASH_MISMATCH)
          else if ae_code e = EC_PATH_VIOLATION
          then Inl (Reply [] (failed EC_RESOURCE_PUBLISH_FAILED ''The accepted Outcome targets could not be validated.''))
          else Inl (Reply [] (Inl (PortError e)))
      | Inl e \<Rightarrow> Inl (Reply [] (Inl e)))"

fun publish_rows ::
  "'r outcome_ports \<Rightarrow> nat \<Rightarrow> job_outcome \<Rightarrow> proposal_key list \<Rightarrow> target_row list \<Rightarrow> (proposal_key \<times> resource_ref) list stage" where
  "publish_rows P n oc missing [] = Inr []"
| "publish_rows P n oc missing ((k, g, t) # rows) =
     (case os_publish P n g (tg_final_storage_key t) of
        Inr r \<Rightarrow>
          if rr_storage_key r \<noteq> tg_final_storage_key t then Inl (rejected oc EC_OUTCOME_INVALID)
          else bindS (publish_rows P n oc missing rows) (\<lambda>rs. Inr ((k, r) # rs))
      | Inl e \<Rightarrow>
          if port_code e = Some EC_RESOURCE_HASH_MISMATCH then Inl (rejected oc EC_RESOURCE_HASH_MISMATCH)
          else if port_code e = Some EC_RESOURCE_NOT_FOUND \<and> k \<in> set missing then Inl (rejected oc EC_OUTCOME_INVALID)
          else if port_code e \<in> {Some EC_RESOURCE_NOT_FOUND, Some EC_PATH_VIOLATION}
          then Inl (Reply [] (failed EC_RESOURCE_PUBLISH_FAILED ''The accepted Outcome resource could not be published.''))
          else Inl (Reply [] (Inl e)))"

section \<open>Formal records\<close>

definition matches_target :: "resource_ref \<Rightarrow> resource_target \<Rightarrow> bool" where
  "matches_target r t \<longleftrightarrow>
     rr_storage_key r = tg_final_storage_key t \<and> rr_resource_kind r = RS_FILE \<and> rr_size r = tg_size t \<and> rr_sha256 r = tg_sha256 t"

definition audit_artifact :: "opaque_id \<Rightarrow> job \<Rightarrow> job_outcome \<Rightarrow> resource_ref \<Rightarrow> timestamp \<Rightarrow> artifact" where
  "audit_artifact i j oc r at =
     \<lparr>af_artifact_id = i, af_case_id = jb_case_id j, af_kind = AK_AUDIT_BUNDLE, af_name = ''problem-locator-audit-bundle.zip'',
      af_content_type = ''application/zip'', af_resource_kind = RS_FILE, af_size = rr_size r, af_sha256 = rr_sha256 r,
      af_storage_key = rr_storage_key r,
      af_metadata = AuditBundleMetadata
        \<lparr>am_description = ''Server-generated observable diagnosis and review audit bundle.'',
         am_case_id = jb_case_id j, am_source_job_id = jb_job_id j, am_source_outcome_id = oc_outcome_id oc\<rparr>,
      af_created_by_job_id = jb_job_id j, af_created_at = at\<rparr>"

definition msg_skill_report :: text_t where
  "msg_skill_report = utf8
     [83, 107, 105, 108, 108, 32, 232, 190, 147, 229, 135, 186, 231, 154, 132, 32, 77, 97, 114, 107, 100, 111, 119, 110,
      32, 230, 138, 165, 229, 145, 138, 229, 142, 159, 230, 150, 135, 227, 128, 130]"

definition report_artifact :: "opaque_id \<Rightarrow> job \<Rightarrow> job_outcome \<Rightarrow> generic_result_v2_draft \<Rightarrow> resource_ref \<Rightarrow> timestamp \<Rightarrow> artifact" where
  "report_artifact i j oc d r at =
     \<lparr>af_artifact_id = i, af_case_id = jb_case_id j, af_kind = AK_GENERIC_REPORT,
      af_name = (if job_direct j then ''skill-diagnosis-report.md'' else ''generic-diagnosis-report.md''),
      af_content_type = ''text/markdown'', af_resource_kind = RS_FILE, af_size = rr_size r, af_sha256 = rr_sha256 r,
      af_storage_key = rr_storage_key r,
      af_metadata = GenericReportMetadata
        \<lparr>gm_description = (if job_direct j then msg_skill_report
            else ''Server-generated public copy of the validated generic diagnosis Markdown report.''),
         gm_status = gd_status d, gm_source_job_id = jb_job_id j, gm_source_outcome_id = oc_outcome_id oc,
         gm_report_utf8_size = rr_size r, gm_report_sha256 = rr_sha256 r\<rparr>,
      af_created_by_job_id = jb_job_id j, af_created_at = at\<rparr>"

definition formal_audit ::
  "'r outcome_ports \<Rightarrow> text_t list \<Rightarrow> job \<Rightarrow> job_outcome \<Rightarrow> plan \<Rightarrow> (proposal_key \<rightharpoonup> resource_target) \<Rightarrow>
   (proposal_key \<rightharpoonup> resource_ref) \<Rightarrow> exn + artifact list" where
  "formal_audit P base j oc p targets published =
     (if tp_unresolved_result_draft p = None then Inr []
      else case (targets audit_key, published audit_key) of
        (Some t, Some r) \<Rightarrow>
          let a = audit_artifact (os_derive P ''artifact'' (base @ [''audit-bundle''])) j oc r (os_now P)
          in ensure (matches_target r t \<and> valid_artifact a) [a]
      | _ \<Rightarrow> Inl ValueError)"

definition formal_report ::
  "store_env \<Rightarrow> 'r outcome_ports \<Rightarrow> text_t list \<Rightarrow> job \<Rightarrow> job_outcome \<Rightarrow> plan \<Rightarrow> (proposal_key \<rightharpoonup> resource_ref) \<Rightarrow>
   exn + (artifact list \<times> generic_result_v2 option)" where
  "formal_report sv P base j oc p published =
     (case tp_generic_result_v2_draft p of
        None \<Rightarrow> Inr ([], None)
      | Some d \<Rightarrow>
          (case published generic_report_key of
             None \<Rightarrow> Inl KeyError
           | Some r \<Rightarrow>
               let i = os_derive P ''artifact'' (base @ [''generic-report'']); a = report_artifact i j oc d r (os_now P)
               in bindE (ensure (rr_resource_kind r = RS_FILE \<and> rr_size r = gd_report_utf8_size d \<and>
                    rr_sha256 r = gd_report_sha256 d \<and> valid_artifact a) ()) (\<lambda>_.
                  bindE (finalize_generic_result_v2 (sv_py sv) d i) (\<lambda>g. Inr ([a], Some g)))))"

definition existing_sources :: "case_aggregate \<Rightarrow> opaque_id list" where
  "existing_sources ag =
     dict_keys (ag_attachments ag) @ dict_keys (ag_artifacts ag) @ dict_keys (ag_outcomes ag) @
     map it_item_id (ds_user_facts (cs_diagnosis_state (ag_case ag)))"

text \<open>The state, the next job and the case of an accepted plan.\<close>

definition applied_state ::
  "store_env \<Rightarrow> 'r outcome_ports \<Rightarrow> text_t list \<Rightarrow> case_aggregate \<Rightarrow> job \<Rightarrow> job_outcome \<Rightarrow> plan \<Rightarrow> (proposal_key \<rightharpoonup> opaque_id) \<Rightarrow>
   exn + (diagnosis_state \<times> (proposal_key \<rightharpoonup> candidate_conclusion))" where
  "applied_state sv P base ag j oc p evidence_ids =
     (let s = cs_diagnosis_state (ag_case ag)
      in bindE (formalize_accepted_candidate (sv_py sv) (outcome_candidate oc) (tp_accepted_candidate_key p)
           (ds_candidate_conclusion s) (ps_completion_criteria (ds_problem_spec s)) (dict_keys (ag_evidence ag)) evidence_ids
           (candidate_ids P base oc p) (jb_job_id j)) (\<lambda>formal.
         let candidates = candidates_by_key (tp_accepted_candidate_key p) formal
         in bindE (apply_diagnosis_state_delta (sv_py sv) s (tp_accepted_state_delta p) evidence_ids
              (tp_candidate_mutation p) candidates (map_option js_target_state_revision (tp_next_job_spec p))) (\<lambda>target.
            Inr (target, candidates))))"

definition applied_job ::
  "store_env \<Rightarrow> case_aggregate \<Rightarrow> job \<Rightarrow> job_outcome \<Rightarrow> plan \<Rightarrow> opaque_id \<Rightarrow> (proposal_key \<rightharpoonup> opaque_id) \<Rightarrow>
   (proposal_key \<rightharpoonup> opaque_id) \<Rightarrow> (proposal_key \<rightharpoonup> candidate_conclusion) \<Rightarrow> diagnosis_state \<Rightarrow> exn + job option" where
  "applied_job sv ag j oc p job_id evidence_ids artifact_ids candidates target =
     (case tp_next_job_spec p of
        None \<Rightarrow> Inr None
      | Some spec \<Rightarrow>
          bindE (build_job (sv_py sv) (project (sv_py sv)) spec
            \<lparr>bi_job_id = job_id, bi_case_id = jb_case_id j, bi_created_at = oc_produced_at oc,
             bi_existing_evidence_ids = dict_keys (ag_evidence ag), bi_evidence_ids = evidence_ids,
             bi_existing_artifact_ids = dict_keys (ag_artifacts ag), bi_artifact_ids = artifact_ids,
             bi_existing_candidate = ds_candidate_conclusion (cs_diagnosis_state (ag_case ag)), bi_candidates = candidates\<rparr>
            target) (\<lambda>x. Inr (Some x)))"

definition applied_unresolved ::
  "'r outcome_ports \<Rightarrow> text_t list \<Rightarrow> plan \<Rightarrow> (proposal_key \<rightharpoonup> opaque_id) \<Rightarrow> opaque_id list \<Rightarrow> exn + unresolved_result option" where
  "applied_unresolved P base p artifact_ids refs =
     (case tp_unresolved_result_draft p of
        None \<Rightarrow> Inr None
      | Some u \<Rightarrow>
          (case artifact_ids (ud_user_result_proposal_key u) of
             None \<Rightarrow> Inl KeyError
           | Some i \<Rightarrow>
               bindE (finalize_unresolved_result u (os_derive P ''artifact'' (base @ [''audit-bundle''])) i refs) (\<lambda>x.
               Inr (Some x))))"

record applied_parts =
  pa_artifacts :: "artifact list"
  pa_generated :: "artifact list"
  pa_evidence :: "evidence list"
  pa_job :: "job option"
  pa_case :: case_t
  pa_view :: case_view

definition applied_parts_of ::
  "store_env \<Rightarrow> 'r outcome_ports \<Rightarrow> text_t list \<Rightarrow> case_aggregate \<Rightarrow> job \<Rightarrow> job_outcome \<Rightarrow> plan \<Rightarrow> opaque_id \<Rightarrow>
   opaque_id list \<Rightarrow> (proposal_key \<rightharpoonup> resource_target) \<Rightarrow> (proposal_key \<rightharpoonup> resource_ref) \<Rightarrow> exn + applied_parts" where
  "applied_parts_of sv P base ag j oc p job_id refs targets published =
     (let evidence_ids = derived_ids P ''evidence'' base (tp_accepted_evidence_keys p);
          artifact_ids = derived_ids P ''artifact'' base (tp_accepted_artifact_keys p)
      in bindE (formalize_accepted_artifacts (oc_proposed_artifacts oc) (tp_accepted_artifact_keys p) (jb_case_id j)
           (jb_job_id j) artifact_ids targets published (oc_produced_at oc)) (\<lambda>artifacts.
         bindE (formalize_accepted_evidence (oc_proposed_evidence oc) (tp_accepted_evidence_keys p) (jb_case_id j)
           evidence_ids (existing_sources ag) (map_of artifacts) targets published (oc_produced_at oc)) (\<lambda>evidence.
         bindE (formal_audit P base j oc p targets published) (\<lambda>audit.
         bindE (formal_report sv P base j oc p published) (\<lambda>(report, generic).
         bindE (applied_state sv P base ag j oc p evidence_ids) (\<lambda>(target, candidates).
         bindE (applied_job sv ag j oc p job_id evidence_ids artifact_ids candidates target) (\<lambda>created.
         bindE (applied_unresolved P base p artifact_ids refs) (\<lambda>unresolved.
         bindE (apply_transition_plan_to_case (sv_py sv) (ag_case ag) p target created (os_now P) unresolved generic) (\<lambda>c.
         bindE (ensure (pred_option (\<lambda>i. map_option jb_job_id created = Some i) (cs_active_job_id c)) ()) (\<lambda>_.
         bindE (project_case_components sv c (if cs_active_job_id c = None then None else created)
           (dict_items (ag_artifacts ag) @ map snd artifacts @ audit @ report) []) (\<lambda>v.
         Inr \<lparr>pa_artifacts = map snd artifacts, pa_generated = audit @ report, pa_evidence = map snd evidence,
              pa_job = created, pa_case = c, pa_view = v\<rparr>)))))))))))"

section \<open>Applying a plan\<close>

text \<open>The next job is published once; a job recovered from an earlier attempt has to be the same job.\<close>

definition publish_next_job ::
  "'r outcome_ports \<Rightarrow> nat \<Rightarrow> job_outcome \<Rightarrow> job option \<Rightarrow> job option \<Rightarrow> unit stage" where
  "publish_next_job P n oc recovered created =
     (case (created, recovered) of
        (None, None) \<Rightarrow> Inr ()
      | (None, Some x) \<Rightarrow> Inl (rejected oc EC_EXECUTION_RECORD_FAILED)
      | (Some c, Some x) \<Rightarrow>
          if os_job_bytes P x = os_job_bytes P c then Inr () else Inl (rejected oc EC_EXECUTION_RECORD_FAILED)
      | (Some c, None) \<Rightarrow>
          (case os_publish_job P n c of
             Inr _ \<Rightarrow> Inr ()
           | Inl e \<Rightarrow>
               if port_code e = Some EC_IDEMPOTENCY_CONFLICT then Inl (rejected oc EC_EXECUTION_RECORD_FAILED)
               else Inl (Reply [] (Inl e))))"

definition discarded_proposals :: "job_outcome \<Rightarrow> proposal_key list \<Rightarrow> outcome_effect list" where
  "discarded_proposals oc retained = map (Discard \<circ> snd) (filter (\<lambda>(k, g). k \<notin> set retained) (staged_proposals oc))"

definition applied_commit ::
  "'r outcome_ports \<Rightarrow> case_aggregate \<Rightarrow> job_outcome \<Rightarrow> execution_file_ref \<Rightarrow> plan \<Rightarrow> applied_parts \<Rightarrow> exn + outcome_commit" where
  "applied_commit P ag oc ref p x =
     bindE (make_outcome_processing_record oc ref OD_APPLIED (os_now P) None
       (sort (map vd_evidence_id (pa_evidence x))) (sort (map af_artifact_id (pa_artifacts x)))
       (sort (map af_artifact_id (pa_generated x))) (map_option jb_job_id (pa_job x)) (tp_reason p)) (\<lambda>record.
     bindE (build_state_mutation (empty_mutation
       \<lparr>mn_upsert_case := Some (pa_case x), mn_insert_jobs := (case pa_job x of None \<Rightarrow> [] | Some j \<Rightarrow> [j]),
        mn_job_updates := tp_job_updates p, mn_outcomes := [oc], mn_processing := [record],
        mn_evidence := pa_evidence x, mn_artifacts := pa_artifacts x @ pa_generated x\<rparr>)) (\<lambda>m.
     Inr \<lparr>ox_revision = cs_case_revision (ag_case ag), ox_mutation = m,
          ox_effects = discarded_proposals oc (tp_accepted_evidence_keys p @ tp_accepted_artifact_keys p) @
            (case pa_job x of None \<Rightarrow> [] | Some j \<Rightarrow> [Submit_Job (jb_job_id j)]),
          ox_receipt = \<lparr>rt_disposition = OD_APPLIED, rt_case_view = Some (pa_view x)\<rparr>\<rparr>))"

definition apply_plan ::
  "store_env \<Rightarrow> 'r outcome_ports \<Rightarrow> nat \<Rightarrow> state_file \<Rightarrow> case_aggregate \<Rightarrow> job \<Rightarrow> job_outcome \<Rightarrow> execution_file_ref \<Rightarrow> plan \<Rightarrow>
   opaque_id \<Rightarrow> job option \<Rightarrow> proposal_key list \<Rightarrow> outcome_commit stage" where
  "apply_plan sv P n s ag j oc ref p job_id recovered missing =
     (let base = identity_base s j oc
      in bindS (ported (generic_report_rows P n j base p)) (\<lambda>report_rows.
         bindS (ported (audit_rows P n ag j oc base (derived_ids P ''evidence'' base (tp_accepted_evidence_keys p)) p)) (\<lambda>(refs, bundle_rows).
         bindS (evidence_rows P j oc base (tp_accepted_evidence_keys p)) (\<lambda>es.
         bindS (artifact_rows P j oc base (tp_accepted_artifact_keys p)) (\<lambda>fs.
         let rows = sort_key row_key (report_rows @ bundle_rows @ es @ fs);
             targets = map_of (rev (map (\<lambda>(k, g, t). (k, t)) rows))
         in bindS (capacity_stage P n j oc rows) (\<lambda>_.
            bindS (publish_rows P n oc missing (sort_key (\<lambda>row. (fst row \<notin> set missing, row_key row)) rows)) (\<lambda>published.
            bindS (otherwise (rejected oc EC_OUTCOME_INVALID) [KeyError, ValueError]
              (applied_parts_of sv P base ag j oc p job_id refs targets (map_of (rev published)))) (\<lambda>x.
            bindS (publish_next_job P n oc recovered (pa_job x)) (\<lambda>_.
            opened (applied_commit P ag oc ref p x))))))))))"

section \<open>Rejecting and recording\<close>

text \<open>What remains to be done with a state: answer, or commit.\<close>

type_synonym settled = "(outcome_effect list \<times> (store_error + outcome_receipt)) + outcome_commit"

definition settle :: "exn + 'a \<Rightarrow> ('a \<Rightarrow> settled) \<Rightarrow> settled" where
  "settle x f = (case x of Inl e \<Rightarrow> Inl ([], Inl (Crash e)) | Inr y \<Rightarrow> f y)"

definition settle_or :: "text_t \<Rightarrow> exn + 'a \<Rightarrow> ('a \<Rightarrow> settled) \<Rightarrow> settled" where
  "settle_or message x f =
     (case x of
        Inl ValueError \<Rightarrow> Inl ([], failed EC_STATE_WRITE_FAILED message)
      | Inl e \<Rightarrow> Inl ([], Inl (Crash e))
      | Inr y \<Rightarrow> f y)"

text \<open>The coordinator's plan for a control trigger of an active job, and the case after it.\<close>

definition control_case ::
  "store_env \<Rightarrow> 'r outcome_ports \<Rightarrow> state_file \<Rightarrow> case_aggregate \<Rightarrow> job \<Rightarrow> exn + trigger \<Rightarrow> job_status list \<Rightarrow>
   text_t \<Rightarrow> text_t \<Rightarrow> text_t \<Rightarrow> (case_t \<times> job_update list \<Rightarrow> settled) \<Rightarrow> settled" where
  "control_case sv P s ag j trigger targets bad_decision no_plan bad_plan f =
     settle trigger (\<lambda>t.
     case coordinate sv s (jb_case_id j) t of
       Raise e \<Rightarrow> settle_or bad_decision (Inl e) f
     | AppErr e \<Rightarrow> Inl ([], failed EC_STATE_WRITE_FAILED no_plan)
     | Ok p \<Rightarrow>
         settle_or bad_plan (validate_control_plan (sv_py sv) ag p j targets (os_now P)) (\<lambda>c. f (c, tp_job_updates p)))"

definition failure_trigger ::
  "'r outcome_ports \<Rightarrow> case_aggregate \<Rightarrow> job \<Rightarrow> opaque_id \<Rightarrow> rejection \<Rightarrow> exn + trigger" where
  "failure_trigger P ag j outcome_id rj =
     bindE (deterministic_outcome_failure (os_detail_bytes P) (rj_code rj) (rj_details rj)) (\<lambda>f.
     external_trigger (os_control_trigger_id P) (jb_case_id j) (cs_case_revision (ag_case ag)) outcome_id
       (ExecutionFailedPayload \<lparr>xp_source_job_id = jb_job_id j, xp_source_outcome_id = Some outcome_id, xp_execution_failure = f\<rparr>)
       empty_continuation_resources (\<lambda>_. None) (os_now P))"

definition stale_trigger :: "'r outcome_ports \<Rightarrow> case_aggregate \<Rightarrow> job \<Rightarrow> job_outcome \<Rightarrow> exn + trigger" where
  "stale_trigger P ag j oc =
     (let actual = ds_revision (cs_diagnosis_state (ag_case ag))
      in bindE (ensure (oc_base_state_revision oc \<noteq> actual) ()) (\<lambda>_.
         external_trigger (os_control_trigger_id P) (jb_case_id j) (cs_case_revision (ag_case ag)) (oc_outcome_id oc)
           (StaleActivePayload (jb_job_id j) (oc_outcome_id oc) (oc_base_state_revision oc) actual)
           empty_continuation_resources (\<lambda>_. None) (os_now P)))"

definition audit_case :: "py_env \<Rightarrow> case_t \<Rightarrow> timestamp \<Rightarrow> exn + case_t" where
  "audit_case env c processed_at =
     (let c' = c\<lparr>cs_case_revision := cs_case_revision c + 1, cs_updated_at := processed_at\<rparr> in ensure (valid_case env c') c')"

definition view_after ::
  "store_env \<Rightarrow> case_aggregate \<Rightarrow> case_t \<Rightarrow> exn + case_view" where
  "view_after sv ag c =
     bindE (case cs_active_job_id c of
              None \<Rightarrow> Inr None
            | Some i \<Rightarrow> (case map_of (ag_jobs ag) i of None \<Rightarrow> Inl KeyError | Some j \<Rightarrow> Inr (Some j))) (\<lambda>active.
     project_case_components sv c active (dict_items (ag_artifacts ag)) [])"

text \<open>The commit of a rejected or stale outcome: the audit of the outcome beside the case.\<close>

definition audit_commit ::
  "store_env \<Rightarrow> case_aggregate \<Rightarrow> outcome_disposition \<Rightarrow> job_outcome list \<Rightarrow> exn + outcome_processing \<Rightarrow>
   case_t \<times> job_update list \<Rightarrow> settled" where
  "audit_commit sv ag disposition outcomes processing target =
     settle processing (\<lambda>record.
     settle (view_after sv ag (fst target)) (\<lambda>v.
     settle (build_state_mutation (empty_mutation
       \<lparr>mn_upsert_case := Some (fst target), mn_job_updates := snd target, mn_outcomes := outcomes,
        mn_processing := [record]\<rparr>)) (\<lambda>m.
     Inr \<lparr>ox_revision = cs_case_revision (ag_case ag), ox_mutation = m,
          ox_effects = concat (map (\<lambda>oc. discarded_proposals oc []) outcomes),
          ox_receipt = \<lparr>rt_disposition = disposition, rt_case_view = Some v\<rparr>\<rparr>)))"

definition record_stale ::
  "store_env \<Rightarrow> 'r outcome_ports \<Rightarrow> state_file \<Rightarrow> job \<Rightarrow> job_outcome \<Rightarrow> execution_file_ref \<Rightarrow> settled" where
  "record_stale sv P s j oc ref =
     settle (case_of_job s j) (\<lambda>ag.
     let commit_stale = audit_commit sv ag OD_STALE [oc]
           (make_outcome_processing_record oc ref OD_STALE (os_now P) None [] [] [] None ''The finalized Outcome is stale.'')
     in if jb_status j = JS_RUNNING \<and> cs_active_job_id (ag_case ag) = Some (jb_job_id j) \<and>
           ds_revision (cs_diagnosis_state (ag_case ag)) \<noteq> oc_base_state_revision oc
        then control_case sv P s ag j (stale_trigger P ag j oc) [JS_INTERRUPTED]
          ''The stale active Outcome decision is invalid.'' ''The stale active Outcome could not be materialized.''
          ''The stale active Outcome plan is invalid.'' commit_stale
        else settle (audit_case (sv_py sv) (ag_case ag) (os_now P)) (\<lambda>c. commit_stale (c, [])))"

definition rejection_commit ::
  "store_env \<Rightarrow> 'r outcome_ports \<Rightarrow> state_file \<Rightarrow> case_aggregate \<Rightarrow> job \<Rightarrow> submit_outcome_command \<Rightarrow> job_outcome option \<Rightarrow>
   rejection \<Rightarrow> settled" where
  "rejection_commit sv P s ag j k trusted rj =
     (let claimed = so_job_outcome k;
          commit_rejected = audit_commit sv ag OD_REJECTED (case trusted of None \<Rightarrow> [] | Some oc \<Rightarrow> [oc])
            (make_outcome_processing_record claimed (so_outcome_file_ref k) OD_REJECTED (os_now P) (Some (rj_code rj)) [] [] []
               None (''Technical Outcome rejection: '' @ error_code_value (rj_code rj) @ ''.''))
      in if jb_status j = JS_RUNNING \<and> cs_active_job_id (ag_case ag) = Some (jb_job_id j)
         then control_case sv P s ag j (failure_trigger P ag j (oc_outcome_id claimed) rj) [JS_FAILED, JS_INTERRUPTED]
           ''The active Outcome rejection decision is invalid.'' ''The active Outcome rejection could not be materialized.''
           ''The active Outcome rejection plan is invalid.'' commit_rejected
         else settle (audit_case (sv_py sv) (ag_case ag) (os_now P)) (\<lambda>c. commit_rejected (c, [])))"

text \<open>\<open>_reject\<close> on a fresh state.\<close>

definition reject_outcome ::
  "store_env \<Rightarrow> 'r outcome_ports \<Rightarrow> state_file \<Rightarrow> submit_outcome_command \<Rightarrow> opaque_id \<Rightarrow> job_outcome option \<Rightarrow> rejection \<Rightarrow>
   bool \<Rightarrow> settled" where
  "reject_outcome sv P s k job_id trusted rj reclassify =
     (case first_job s job_id of
        None \<Rightarrow> Inl ([], failed EC_JOB_NOT_FOUND ''The Job does not exist.'')
      | Some j \<Rightarrow>
          (case find_processing_record s (oc_outcome_id (so_job_outcome k)) of
             Some x \<Rightarrow>
               let answer = replayed_outcome sv s (so_job_outcome k) (so_outcome_file_ref k) x;
                   differs = (op_job_id (snd x) \<noteq> oc_job_id (so_job_outcome k) \<or>
                     op_outcome_hash (snd x) \<noteq> ef_sha256 (so_outcome_file_ref k))
               in Inl (if differs then [] else case trusted of None \<Rightarrow> [] | Some oc \<Rightarrow> discarded_proposals oc [], answer)
           | None \<Rightarrow>
               settle (case_of_job s j) (\<lambda>ag.
               case (reclassify, trusted) of
                 (True, Some oc) \<Rightarrow>
                   (case classify_outcome_activity ag oc of
                      Activity_Job_Not_Found \<Rightarrow> Inl ([], failed EC_JOB_NOT_FOUND ''The Job does not exist.'')
                    | Activity_Stale \<Rightarrow> record_stale sv P s j oc (so_outcome_file_ref k)
                    | _ \<Rightarrow> rejection_commit sv P s ag j k trusted rj)
               | _ \<Rightarrow> rejection_commit sv P s ag j k trusted rj)))"

section \<open>Submitting an outcome\<close>

text \<open>What one attempt decides on the state it has read.\<close>

definition active_outcome ::
  "store_env \<Rightarrow> 'r outcome_ports \<Rightarrow> nat \<Rightarrow> state_file \<Rightarrow> case_aggregate \<Rightarrow> job \<Rightarrow> job_outcome \<Rightarrow> execution_file_ref \<Rightarrow>
   outcome_commit stage" where
  "active_outcome sv P n s ag j oc ref =
     bindS (validate_active_outcome P n s oc) (\<lambda>missing.
     bindS (opened (prospective_job_id P s ag j oc)) (\<lambda>job_id.
     bindS (recovered_job P n j oc job_id) (\<lambda>recovered.
     bindS (next_bindings P s ag j oc recovered) (\<lambda>bindings.
     bindS (outcome_plan sv P s j oc bindings) (\<lambda>p.
     if \<not> set missing \<subseteq> set (tp_accepted_evidence_keys p @ tp_accepted_artifact_keys p)
     then Inl (rejected oc EC_OUTCOME_INVALID)
     else apply_plan sv P n s ag j oc ref p job_id recovered missing)))))"

definition located_outcome ::
  "store_env \<Rightarrow> 'r outcome_ports \<Rightarrow> nat \<Rightarrow> submit_outcome_command \<Rightarrow> state_file \<Rightarrow> job \<Rightarrow> outcome_commit stage" where
  "located_outcome sv P n k s j =
     bindS (opened (case_of_job s j)) (\<lambda>ag.
     case find_processing_record s (oc_outcome_id (so_job_outcome k)) of
       Some x \<Rightarrow> Inl (Reply [] (replayed_outcome sv s (so_job_outcome k) (so_outcome_file_ref k) x))
     | None \<Rightarrow>
         bindS (published_outcome sv P n k) (\<lambda>oc.
         bindS (outcome_activity_stage j ag oc) (\<lambda>_.
         active_outcome sv P n s ag j oc (so_outcome_file_ref k))))"

definition commit_outcome ::
  "'r outcome_ports \<Rightarrow> 'r \<Rightarrow> state_file \<Rightarrow> settled \<Rightarrow> 'r \<times> outcome_effect list \<times> (store_error + outcome_receipt)" where
  "commit_outcome P r s x =
     (case x of
        Inl (effects, answer) \<Rightarrow> (r, effects, answer)
      | Inr c \<Rightarrow>
          (case os_commit P r (sf_generation s) (Some (ox_revision c)) (ox_mutation c) of
             (r', Inl e) \<Rightarrow> (r', [], Inl e)
           | (r', Inr _) \<Rightarrow> (r', ox_effects c, Inr (ox_receipt c))))"

text \<open>\<open>_submit_once\<close>; the indices of \<open>os_other\<close> count the reads and commits of an attempt.\<close>

definition submit_once ::
  "store_env \<Rightarrow> 'r outcome_ports \<Rightarrow> submit_outcome_command \<Rightarrow> nat \<Rightarrow> 'r \<Rightarrow>
   'r \<times> outcome_effect list \<times> (store_error + outcome_receipt)" where
  "submit_once sv P k n r =
     (let job_id = oc_job_id (so_job_outcome k)
      in case os_read P (os_other P (4 * n) r) job_id of
           (r1, Inl e) \<Rightarrow> (r1, [], Inl e)
         | (r1, Inr s) \<Rightarrow>
             (case first_job s job_id of
                None \<Rightarrow> (r1, [], failed EC_JOB_NOT_FOUND ''The Job does not exist.'')
              | Some j \<Rightarrow>
                  (case located_outcome sv P n k s j of
                     Inr c \<Rightarrow> commit_outcome P (os_other P (4 * n + 1) r1) s (Inr c)
                   | Inl (Reply effects answer) \<Rightarrow> (r1, effects, answer)
                   | Inl (Record_Stale oc) \<Rightarrow>
                       commit_outcome P (os_other P (4 * n + 1) r1) s (record_stale sv P s j oc (so_outcome_file_ref k))
                   | Inl (Reject trusted rj reclassify) \<Rightarrow>
                       (case os_read P (os_other P (4 * n + 2) r1) (jb_job_id j) of
                          (r2, Inl e) \<Rightarrow> (r2, [], Inl e)
                        | (r2, Inr s2) \<Rightarrow>
                            commit_outcome P (os_other P (4 * n + 3) r2) s2
                              (reject_outcome sv P s2 k (jb_job_id j) trusted rj reclassify)))))"

fun submit_attempts ::
  "store_env \<Rightarrow> 'r outcome_ports \<Rightarrow> submit_outcome_command \<Rightarrow> nat \<Rightarrow> nat \<Rightarrow> 'r \<Rightarrow>
   'r \<times> outcome_effect list \<times> (store_error + outcome_receipt)" where
  "submit_attempts sv P k 0 n r = (r, [], Inl (Crash AssertionError))"
| "submit_attempts sv P k (Suc left) n r =
     (case submit_once sv P k n r of
        (r', effects, Inl e) \<Rightarrow>
          if is_revision_conflict e \<and> 0 < left
          then (case submit_attempts sv P k left (Suc n) r' of (r2, later, x) \<Rightarrow> (r2, effects @ later, x))
          else (r', effects, Inl e)
      | result \<Rightarrow> result)"

definition valid_submission :: "store_env \<Rightarrow> submit_outcome_command \<Rightarrow> bool" where
  "valid_submission sv k \<longleftrightarrow>
     (let oc = so_job_outcome k; ref = so_outcome_file_ref k; bytes = sv_outcome_bytes sv oc
      in ef_relative_key ref = ''jobs/'' @ oc_job_id oc @ ''/job_outcome.json'' \<and> ef_size ref = int (length bytes) \<and>
         ef_sha256 ref = env_sha256 (sv_py sv) bytes)"

definition submit_outcome ::
  "store_env \<Rightarrow> 'r outcome_ports \<Rightarrow> submit_outcome_command \<Rightarrow> 'r \<Rightarrow>
   'r \<times> outcome_effect list \<times> (store_error + outcome_receipt)" where
  "submit_outcome sv P k r =
     (if \<not> valid_submission sv k
      then (r, [], failed EC_VALIDATION_ERROR ''JobControlPort.submit_outcome received invalid raw input.'')
      else submit_attempts sv P k 3 0 r)"

end
