(* ===== verification/Outcome_Store.thy ===== *)
theory Outcome_Store
  imports Outcome_Application Command_Store
begin

text \<open>
  The submission of outcomes over a repository. Whatever an attempt decides concerns the outcome that was
  submitted, and what it commits is one processing record of it. The locale \<open>outcome_store\<close> is what the
  submission relies on: a commit with a processing record makes it findable from its job, a commit refused with
  \<open>REVISION_CONFLICT\<close> changes nothing, and reads change nothing. \<open>CaseStateRepository\<close> provides it.
\<close>

section \<open>What an attempt answers\<close>

text \<open>An answer before the commit is an error, or concerns the outcome at hand.\<close>

fun answers_for :: "job_outcome \<Rightarrow> outcome_answer \<Rightarrow> bool" where
  "answers_for oc (Reply es x) = (\<exists>e. x = Inl e)"
| "answers_for oc (Reject trusted rj reclassify) = pred_option (\<lambda>o'. o' = oc) trusted"
| "answers_for oc (Record_Stale o') = (o' = oc)"

definition stage_for :: "job_outcome \<Rightarrow> 'a stage \<Rightarrow> bool" where
  "stage_for oc x = (\<forall>a. x = Inl a \<longrightarrow> answers_for oc a)"

named_theorems stage_intros \<open>stages that only answer for the outcome at hand\<close>

lemma stage_for_Inr [simp]: "stage_for oc (Inr x)"
  and stage_for_Inl [stage_intros]: "answers_for oc a \<Longrightarrow> stage_for oc (Inl a)"
  by (simp_all add: stage_for_def)

lemma stage_for_bind [stage_intros]:
  "stage_for oc x \<Longrightarrow> (\<And>y. x = Inr y \<Longrightarrow> stage_for oc (f y)) \<Longrightarrow> stage_for oc (bindS x f)"
  by (cases x) (auto simp: stage_for_def)

lemma stage_for_opened [stage_intros]: "stage_for oc (opened x)"
  by (auto simp: stage_for_def opened_def split: sum.splits)

lemma stage_for_ported [stage_intros]: "stage_for oc (ported x)"
  by (auto simp: stage_for_def ported_def split: sum.splits)

lemma stage_for_otherwise [stage_intros]: "answers_for oc a \<Longrightarrow> stage_for oc (otherwise a es x)"
  by (auto simp: stage_for_def otherwise_def split: sum.splits)

lemma answers_rejected [simp]: "answers_for oc (rejected oc code)"
  by (simp add: rejected_def)

lemma stage_for_missing [stage_intros]: "stage_for oc (missing_staged check oc gs)"
  by (induction check oc gs rule: missing_staged.induct) (auto split: sum.splits intro!: stage_intros)

lemma stage_for_active [stage_intros]: "stage_for oc (validate_active_outcome P n s oc)"
  unfolding validate_active_outcome_def by (auto intro!: stage_intros)

lemma stage_for_recovered [stage_intros]: "stage_for oc (recovered_job P n j oc i)"
  unfolding recovered_job_def by (auto split: sum.splits option.splits intro!: stage_intros)

lemma stage_for_bindings [stage_intros]: "stage_for oc (next_bindings P s ag j oc x)"
  unfolding next_bindings_def by (auto split: option.splits intro!: stage_intros)

lemma stage_for_plan [stage_intros]: "stage_for oc (outcome_plan sv P s j oc b)"
  unfolding outcome_plan_def Let_def by (intro stage_intros answers_rejected) (auto split: cres.splits intro!: stage_intros)

lemma stage_for_proposal [stage_intros]: "stage_for oc (proposal_row oc c ty i k g)"
  unfolding proposal_row_def by (auto split: sum.splits intro!: stage_intros)

lemma stage_for_evidence [stage_intros]: "stage_for oc (evidence_rows P j oc base ks)"
  by (induction P j oc base ks rule: evidence_rows.induct) (auto split: option.splits intro!: stage_intros)

lemma stage_for_artifacts [stage_intros]: "stage_for oc (artifact_rows P j oc base ks)"
  by (induction P j oc base ks rule: artifact_rows.induct) (auto split: option.splits intro!: stage_intros)

lemma stage_for_capacity [stage_intros]: "stage_for oc (capacity_stage P n j oc rows)"
  unfolding capacity_stage_def by (auto split: sum.splits store_error.splits intro!: stage_intros simp: failed_def)

lemma stage_for_publish [stage_intros]: "stage_for oc (publish_rows P n oc missing rows)"
  by (induction P n oc missing rows rule: publish_rows.induct)
    (auto split: sum.splits intro!: stage_intros simp: failed_def)

lemma stage_for_next [stage_intros]: "stage_for oc (publish_next_job P n oc x y)"
  unfolding publish_next_job_def by (auto split: option.splits sum.splits intro!: stage_intros)

lemma stage_for_apply [stage_intros]: "stage_for oc (apply_plan sv P n s ag j oc ref p i x missing)"
  unfolding apply_plan_def Let_def by (intro stage_intros answers_rejected) (auto split: prod.splits intro!: stage_intros)

lemma stage_for_active_outcome [stage_intros]: "stage_for oc (active_outcome sv P n s ag j oc ref)"
  unfolding active_outcome_def by (intro stage_intros answers_rejected) (auto intro!: stage_intros)

lemma stage_for_activity [stage_intros]: "stage_for oc (outcome_activity_stage j ag oc)"
  unfolding outcome_activity_stage_def Let_def
  by (intro stage_intros) (auto simp: rejected_early_def failed_def split: outcome_activity.splits intro!: stage_intros)

section \<open>What an attempt commits\<close>

definition same_outcome :: "submit_outcome_command \<Rightarrow> job_outcome \<Rightarrow> bool" where
  "same_outcome k oc \<longleftrightarrow>
     oc_outcome_id oc = oc_outcome_id (so_job_outcome k) \<and> oc_job_id oc = oc_job_id (so_job_outcome k)"

text \<open>A published outcome with the bytes of the submitted one has its identity.\<close>

definition identified :: "store_env \<Rightarrow> 'r outcome_ports \<Rightarrow> submit_outcome_command \<Rightarrow> bool" where
  "identified sv P k \<longleftrightarrow>
     (\<forall>n oc ref. os_published_outcome P n (oc_job_id (so_job_outcome k)) = Inr (Some (oc, ref)) \<and>
        sv_outcome_bytes sv oc = sv_outcome_bytes sv (so_job_outcome k) \<longrightarrow> same_outcome k oc)"

definition record_of :: "submit_outcome_command \<Rightarrow> outcome_processing \<Rightarrow> bool" where
  "record_of k p \<longleftrightarrow>
     op_outcome_id p = oc_outcome_id (so_job_outcome k) \<and> op_job_id p = oc_job_id (so_job_outcome k) \<and>
     op_outcome_hash p = ef_sha256 (so_outcome_file_ref k)"

definition notes_outcome :: "submit_outcome_command \<Rightarrow> outcome_commit \<Rightarrow> bool" where
  "notes_outcome k cm \<longleftrightarrow>
     (\<exists>x p. mn_upsert_case (ox_mutation cm) = Some x \<and> mn_processing (ox_mutation cm) = [p] \<and> record_of k p \<and>
        op_disposition p = rt_disposition (ox_receipt cm) \<and> (cs_status x = CS_NEW \<longrightarrow> cs_active_job_id x = None))"

lemma processing_record:
  "make_outcome_processing_record oc ref d at code es fs gs created reason = Inr p \<Longrightarrow>
     op_outcome_id p = oc_outcome_id oc \<and> op_job_id p = oc_job_id oc \<and> op_outcome_hash p = ef_sha256 ref \<and>
     op_disposition p = d"
  by (auto simp: make_outcome_processing_record_def Let_def)

lemma projected_activity:
  assumes "project_case_components sv c a xs ys = Inr v" "cs_status c = CS_NEW"
  shows "cs_active_job_id c = None"
proof -
  obtain x zs where "active_summary a = Inr x" "valid_view_activity (view_of c x zs ys)" "(a = None) = (cs_active_job_id c = None)"
    using assms(1) by (auto simp: project_case_components_def bindE_Inr valid_case_view_def Let_def split: if_splits)
  then show ?thesis using assms(2)
    by (cases a) (auto simp: valid_view_activity_def view_of_def active_summary_def bindE_Inr split: if_splits)
qed

lemma audit_commit_notes:
  assumes "audit_commit sv ag d ocs processing target = Inr cm"
    and "\<And>p. processing = Inr p \<Longrightarrow> record_of k p \<and> op_disposition p = d"
  shows "notes_outcome k cm"
  using assms
  by (auto simp: audit_commit_def settle_def view_after_def build_state_mutation_def notes_outcome_def bindE_Inr
      dest: projected_activity split: sum.splits)

lemma settle_Inr: "settle x f = Inr cm \<longleftrightarrow> (\<exists>y. x = Inr y \<and> f y = Inr cm)"
  by (auto simp: settle_def split: sum.splits)

lemma settle_or_Inr: "settle_or msg x f = Inr cm \<longleftrightarrow> (\<exists>y. x = Inr y \<and> f y = Inr cm)"
  by (auto simp: settle_or_def failed_def split: sum.splits exn.splits)

lemma control_case_Inr:
  assumes "control_case sv P s ag j t targets m1 m2 m3 f = Inr cm"
  obtains y where "f y = Inr cm"
proof -
  obtain x where "(case coordinate sv s (jb_case_id j) x of
       Raise e \<Rightarrow> settle_or m1 (Inl e) f
     | AppErr e \<Rightarrow> Inl ([], failed EC_STATE_WRITE_FAILED m2)
     | Ok p \<Rightarrow> settle_or m3 (validate_control_plan (sv_py sv) ag p j targets (os_now P)) (\<lambda>c. f (c, tp_job_updates p))) = Inr cm"
    using assms unfolding control_case_def settle_Inr by blast
  then show thesis using that by (cases "coordinate sv s (jb_case_id j) x") (auto simp: settle_or_Inr)
qed

lemma stale_notes:
  assumes "record_stale sv P s j oc (so_outcome_file_ref k) = Inr cm" "same_outcome k oc"
  shows "notes_outcome k cm"
proof -
  obtain ag target where "audit_commit sv ag OD_STALE [oc]
      (make_outcome_processing_record oc (so_outcome_file_ref k) OD_STALE (os_now P) None [] [] [] None
        ''The finalized Outcome is stale.'') target = Inr cm"
    using assms(1)
    by (auto simp: record_stale_def settle_Inr Let_def elim!: control_case_Inr split: if_splits)
  then show ?thesis
    by (rule audit_commit_notes) (use assms(2) in \<open>auto simp: record_of_def same_outcome_def dest: processing_record\<close>)
qed

lemma rejection_notes:
  assumes "rejection_commit sv P s ag j k trusted rj = Inr cm"
  shows "notes_outcome k cm"
proof -
  obtain ocs reason target where "audit_commit sv ag OD_REJECTED ocs
      (make_outcome_processing_record (so_job_outcome k) (so_outcome_file_ref k) OD_REJECTED (os_now P) (Some (rj_code rj))
        [] [] [] None reason) target = Inr cm"
    using assms
    by (auto simp: rejection_commit_def settle_Inr Let_def elim!: control_case_Inr split: if_splits)
  then show ?thesis by (rule audit_commit_notes) (auto simp: record_of_def dest: processing_record)
qed

lemma reject_notes:
  assumes "reject_outcome sv P s k i trusted rj reclassify = Inr cm" "pred_option (same_outcome k) trusted"
  shows "notes_outcome k cm"
proof -
  obtain j ag where "(case (reclassify, trusted) of
      (True, Some oc) \<Rightarrow>
        (case classify_outcome_activity ag oc of
           Activity_Job_Not_Found \<Rightarrow> Inl ([], failed EC_JOB_NOT_FOUND ''The Job does not exist.'')
         | Activity_Stale \<Rightarrow> record_stale sv P s j oc (so_outcome_file_ref k)
         | _ \<Rightarrow> rejection_commit sv P s ag j k trusted rj)
    | _ \<Rightarrow> rejection_commit sv P s ag j k trusted rj) = Inr cm"
    using assms(1) unfolding reject_outcome_def Let_def
    by (cases "first_job s i"; cases "find_processing_record s (oc_outcome_id (so_job_outcome k))")
      (simp_all only: option.case sum.distinct settle_Inr, blast)
  then show ?thesis using assms(2)
    by (auto intro: rejection_notes stale_notes split: option.split_asm outcome_activity.split_asm bool.split_asm)
qed

lemma applied_notes:
  assumes "applied_commit P ag oc (so_outcome_file_ref k) p x = Inr cm" "same_outcome k oc"
    and "cs_status (pa_case x) = CS_NEW \<longrightarrow> cs_active_job_id (pa_case x) = None"
  shows "notes_outcome k cm"
  using assms
  by (auto simp: applied_commit_def bindE_Inr build_state_mutation_def notes_outcome_def record_of_def same_outcome_def
      dest: processing_record)

lemma otherwise_Inr: "otherwise a es x = Inr y \<longleftrightarrow> x = Inr y"
  by (auto simp: otherwise_def split: sum.splits)

lemma opened_Inr: "opened x = Inr y \<longleftrightarrow> x = Inr y"
  by (auto simp: opened_def split: sum.splits)

lemma parts_activity:
  "applied_parts_of sv P base ag j oc p i refs targets published = Inr x \<Longrightarrow>
     cs_status (pa_case x) = CS_NEW \<Longrightarrow> cs_active_job_id (pa_case x) = None"
  by (auto simp: applied_parts_of_def Let_def bindE_Inr dest: projected_activity split: prod.splits)

lemma plan_notes:
  assumes "apply_plan sv P n s ag j oc (so_outcome_file_ref k) p i x missing = Inr cm" "same_outcome k oc"
  shows "notes_outcome k cm"
  using assms(1) unfolding apply_plan_def Let_def
  by (auto simp: bindS_Inr otherwise_Inr opened_Inr elim!: applied_notes [OF _ assms(2)] intro: parts_activity
      split: prod.splits)

lemma published_identity:
  assumes "identified sv P k" "published_outcome sv P n k = Inr oc"
  shows "same_outcome k oc"
proof -
  obtain ref where "os_published_outcome P n (oc_job_id (so_job_outcome k)) = Inr (Some (oc, ref))"
    "sv_outcome_bytes sv oc = sv_outcome_bytes sv (so_job_outcome k)"
    using assms(2)
    by (auto simp: published_outcome_def validate_published_outcome_def rejected_early_def
        split: sum.split_asm option.split_asm if_split_asm)
  then show ?thesis using assms(1) unfolding identified_def by blast
qed

lemma published_answers:
  assumes "published_outcome sv P n k = Inl a"
  shows "(\<exists>es e. a = Reply es (Inl e)) \<or> (\<exists>rj b. a = Reject None rj b)"
  using assms by (auto simp: published_outcome_def rejected_early_def split: sum.split_asm if_split_asm)

lemma located_notes:
  assumes "identified sv P k" "located_outcome sv P n k s j = Inr cm"
  shows "notes_outcome k cm"
proof -
  obtain oc ag where oc: "published_outcome sv P n k = Inr oc" "active_outcome sv P n s ag j oc (so_outcome_file_ref k) = Inr cm"
    using assms(2) unfolding located_outcome_def
    by (cases "find_processing_record s (oc_outcome_id (so_job_outcome k))") (auto simp: bindS_Inr opened_Inr)
  from oc(2) obtain p i x missing where "apply_plan sv P n s ag j oc (so_outcome_file_ref k) p i x missing = Inr cm"
    by (auto simp: active_outcome_def bindS_Inr split: if_split_asm)
  then show ?thesis using plan_notes published_identity [OF assms(1) oc(1)] by blast
qed

text \<open>The answer of an attempt that does not commit: an error, a replay, or a rejection or stale record of the
  submitted outcome.\<close>

lemma located_answers:
  assumes "identified sv P k" "located_outcome sv P n k s j = Inl a"
  shows "(\<exists>es e. a = Reply es (Inl e)) \<or>
    (\<exists>x ag. find_processing_record s (oc_outcome_id (so_job_outcome k)) = Some x \<and> case_of_job s j = Inr ag \<and>
       a = Reply [] (replayed_outcome sv s (so_job_outcome k) (so_outcome_file_ref k) x)) \<or>
    (\<exists>trusted rj b. a = Reject trusted rj b \<and> pred_option (same_outcome k) trusted) \<or>
    (\<exists>oc. a = Record_Stale oc \<and> same_outcome k oc)"
proof (cases "case_of_job s j")
  case (Inl e)
  then show ?thesis using assms(2) by (auto simp: located_outcome_def opened_def)
next
  case (Inr ag)
  show ?thesis
  proof (cases "find_processing_record s (oc_outcome_id (so_job_outcome k))")
    case (Some x)
    then show ?thesis using assms(2) Inr by (simp add: located_outcome_def opened_def)
  next
    case None
    then have a: "bindS (published_outcome sv P n k) (\<lambda>oc. bindS (outcome_activity_stage j ag oc) (\<lambda>_.
        active_outcome sv P n s ag j oc (so_outcome_file_ref k))) = Inl a"
      using assms(2) Inr by (simp add: located_outcome_def opened_def)
    show ?thesis
    proof (cases "published_outcome sv P n k")
      case (Inl b)
      then show ?thesis using a published_answers [OF Inl] by auto
    next
      case oc: (Inr oc)
      have "stage_for oc (bindS (outcome_activity_stage j ag oc) (\<lambda>_. active_outcome sv P n s ag j oc (so_outcome_file_ref k)))"
        by (intro stage_intros)
      then have "answers_for oc a" using a oc by (simp add: stage_for_def)
      then show ?thesis using published_identity [OF assms(1) oc] by (cases a) (auto simp: option.pred_set)
    qed
  qed
qed

text \<open>Only a replay gives a receipt without a commit.\<close>

lemma settle_answer: "settle x f = Inl (es, Inr a) \<Longrightarrow> \<exists>y. x = Inr y \<and> f y = Inl (es, Inr a)"
  by (auto simp: settle_def split: sum.splits)

lemma settle_or_answer: "settle_or msg x f = Inl (es, Inr a) \<Longrightarrow> \<exists>y. x = Inr y \<and> f y = Inl (es, Inr a)"
  by (auto simp: settle_or_def failed_def split: sum.splits exn.splits)

lemma audit_commit_answer: "audit_commit sv ag d ocs p t \<noteq> Inl (es, Inr a)"
  by (auto simp: audit_commit_def dest!: settle_answer)

lemma control_case_answer:
  "control_case sv P s ag j t targets m1 m2 m3 f = Inl (es, Inr a) \<Longrightarrow> \<exists>y. f y = Inl (es, Inr a)"
  by (auto simp: control_case_def failed_def dest!: settle_answer settle_or_answer split: cres.split_asm) blast

lemma stale_answer: "record_stale sv P s j oc ref \<noteq> Inl (es, Inr a)"
proof
  assume "record_stale sv P s j oc ref = Inl (es, Inr a)"
  then show False
    by (auto simp: record_stale_def Let_def audit_commit_answer dest!: settle_answer control_case_answer split: if_split_asm)
qed

lemma rejection_answer: "rejection_commit sv P s ag j k trusted rj \<noteq> Inl (es, Inr a)"
proof
  assume "rejection_commit sv P s ag j k trusted rj = Inl (es, Inr a)"
  then show False
    by (auto simp: rejection_commit_def Let_def audit_commit_answer dest!: settle_answer control_case_answer split: if_split_asm)
qed

lemma reject_answer:
  assumes "reject_outcome sv P s k i trusted rj b = Inl (es, Inr a)"
  obtains j x where "find_processing_record s (oc_outcome_id (so_job_outcome k)) = Some x"
    "replayed_outcome sv s (so_job_outcome k) (so_outcome_file_ref k) x = Inr a"
proof (cases "find_processing_record s (oc_outcome_id (so_job_outcome k))")
  case (Some x)
  then show thesis using that assms by (auto simp: reject_outcome_def Let_def failed_def split: option.split_asm)
next
  case None
  then show thesis using assms
    by (auto simp: reject_outcome_def failed_def stale_answer rejection_answer dest!: settle_answer
        split: option.split_asm outcome_activity.split_asm bool.split_asm)
qed

section \<open>The contract of the store\<close>

locale outcome_store =
  fixes sv :: store_env and good :: "'r \<Rightarrow> bool"
    and read_state :: "'r \<Rightarrow> opaque_id \<Rightarrow> 'r \<times> (store_error + state_file)"
    and submit :: "'r \<Rightarrow> int \<Rightarrow> int option \<Rightarrow> state_mutation \<Rightarrow> 'r \<times> (store_error + commit_receipt)"
  assumes reads: "good r \<Longrightarrow> read_state r i = (r', y) \<Longrightarrow>
      (case y of Inr s \<Rightarrow> r' = r | Inl e \<Rightarrow> \<not> is_revision_conflict e)"
    and read_keyed: "good r \<Longrightarrow> read_state r i = (r', Inr s) \<Longrightarrow> first_job s i = Some j \<Longrightarrow> jb_job_id j = i"
    and refused_unchanged: "good r \<Longrightarrow> submit r g rv m = (r', Inl e) \<Longrightarrow> is_revision_conflict e \<Longrightarrow> r' = r"
    and processed: "good r \<Longrightarrow> submit r g rv m = (r', Inr rc) \<Longrightarrow> mn_upsert_case m = Some x \<Longrightarrow>
      mn_processing m = [p] \<Longrightarrow> (cs_status x = CS_NEW \<longrightarrow> cs_active_job_id x = None) \<Longrightarrow>
      \<exists>s j ag v. read_state r' (op_job_id p) = (r', Inr s) \<and> first_job s (op_job_id p) = Some j \<and> case_of_job s j = Inr ag \<and>
        find_processing_record s (op_outcome_id p) = Some (cs_case_id x, p) \<and> project_case_view sv s (cs_case_id x) = Inr v"
begin

definition connected :: "'r outcome_ports \<Rightarrow> bool" where
  "connected P \<longleftrightarrow> os_read P = read_state \<and> os_commit P = submit"

definition quiet :: "'r outcome_ports \<Rightarrow> bool" where
  "quiet P \<longleftrightarrow> (\<forall>n r. os_other P n r = r)"

text \<open>The repository holds the processing record of the outcome, and its case has a view.\<close>

definition holds :: "'r \<Rightarrow> submit_outcome_command \<Rightarrow> opaque_id \<Rightarrow> outcome_processing \<Rightarrow> case_view \<Rightarrow> bool" where
  "holds r k c p v \<longleftrightarrow>
     (\<exists>s j ag. read_state r (oc_job_id (so_job_outcome k)) = (r, Inr s) \<and>
        first_job s (oc_job_id (so_job_outcome k)) = Some j \<and> case_of_job s j = Inr ag \<and>
        find_processing_record s (oc_outcome_id (so_job_outcome k)) = Some (c, p) \<and> project_case_view sv s c = Inr v) \<and>
     op_job_id p = oc_job_id (so_job_outcome k)"

lemma commit_holds:
  assumes "connected P" "good r" "notes_outcome k cm" "commit_outcome P r s (Inr cm) = (r', es, Inr receipt)"
  shows "\<exists>c p v. holds r' k c p v \<and> op_outcome_hash p = ef_sha256 (so_outcome_file_ref k) \<and> op_disposition p = rt_disposition receipt"
proof -
  obtain x p where m: "mn_upsert_case (ox_mutation cm) = Some x" "mn_processing (ox_mutation cm) = [p]"
      "cs_status x = CS_NEW \<longrightarrow> cs_active_job_id x = None"
    and p: "record_of k p" "op_disposition p = rt_disposition (ox_receipt cm)"
    using assms(3) by (auto simp: notes_outcome_def)
  obtain rc where "submit r (sf_generation s) (Some (ox_revision cm)) (ox_mutation cm) = (r', Inr rc)" "receipt = ox_receipt cm"
    using assms(1,4) by (auto simp: commit_outcome_def connected_def split: prod.split_asm sum.split_asm)
  then show ?thesis using processed [OF assms(2) _ m] p by (force simp: holds_def record_of_def)
qed

lemma commit_outcome_result:
  assumes P: "connected P" and r: "good r" and x: "\<And>cm. x = Inr cm \<Longrightarrow> notes_outcome k cm"
    and no: "\<And>es receipt. x = Inl (es, Inr receipt) \<Longrightarrow> \<exists>c p v. holds r k c p v \<and>
      op_outcome_hash p = ef_sha256 (so_outcome_file_ref k) \<and> rt_disposition receipt = OD_DUPLICATE"
    and run: "commit_outcome P r s x = (r', es, Inr receipt)"
  shows "\<exists>c p v. holds r' k c p v \<and> op_outcome_hash p = ef_sha256 (so_outcome_file_ref k) \<and>
    rt_disposition receipt \<in> {OD_DUPLICATE, op_disposition p}"
proof (cases x)
  case (Inl y)
  then have "x = Inl (es, Inr receipt)" "r' = r" using run by (auto simp: commit_outcome_def split: prod.split_asm)
  then show ?thesis using no by blast
next
  case (Inr cm)
  then show ?thesis using commit_holds [OF P r x [OF Inr]] run by fastforce
qed

lemma commit_outcome_conflict:
  assumes "connected P" "good r" "commit_outcome P r s x = (r', es, Inl e)" "is_revision_conflict e"
  shows "r' = r"
  using assms refused_unchanged
  by (auto simp: commit_outcome_def connected_def split: sum.split_asm prod.split_asm)

lemma replay_holds:
  assumes P: "connected P" and s: "read_state r (oc_job_id (so_job_outcome k)) = (r, Inr s)"
    "first_job s (oc_job_id (so_job_outcome k)) = Some j" "case_of_job s j = Inr ag"
    and x: "find_processing_record s (oc_outcome_id (so_job_outcome k)) = Some x"
    "replayed_outcome sv s (so_job_outcome k) (so_outcome_file_ref k) x = Inr receipt"
  shows "\<exists>c p v. holds r k c p v \<and> op_outcome_hash p = ef_sha256 (so_outcome_file_ref k) \<and> rt_disposition receipt = OD_DUPLICATE"
  using s x
  by (cases x) (auto simp: replayed_outcome_def failed_def holds_def bindE_Inr split: if_split_asm)

text \<open>An attempt that answers leaves the outcome processed; one that meets a conflict leaves the repository as it was.\<close>

lemma once_result:
  assumes P: "connected P" "quiet P" and r: "good r" and k: "identified sv P k"
    and run: "submit_once sv P k n r = (r', es, Inr receipt)"
  shows "\<exists>c p v. holds r' k c p v \<and> op_outcome_hash p = ef_sha256 (so_outcome_file_ref k) \<and>
    rt_disposition receipt \<in> {OD_DUPLICATE, op_disposition p}"
proof -
  let ?i = "oc_job_id (so_job_outcome k)"
  have other: "os_other P m x = x" for m x using P(2) by (simp add: quiet_def)
  obtain r1 s where read1: "os_read P r ?i = (r1, Inr s)"
    using run other by (auto simp: submit_once_def Let_def split: prod.split_asm sum.split_asm)
  then have read: "read_state r ?i = (r, Inr s)" "os_read P r ?i = (r, Inr s)"
    using reads [OF r, of ?i r1 "Inr s"] P(1) by (auto simp: connected_def)
  obtain j where j: "first_job s ?i = Some j"
    using run read other by (auto simp: submit_once_def Let_def failed_def split: option.split_asm)
  have replay: "\<exists>c p v. holds r k c p v \<and> op_outcome_hash p = ef_sha256 (so_outcome_file_ref k) \<and> rt_disposition receipt = OD_DUPLICATE"
    if "case_of_job s j = Inr ag" "find_processing_record s (oc_outcome_id (so_job_outcome k)) = Some x"
      "replayed_outcome sv s (so_job_outcome k) (so_outcome_file_ref k) x = Inr receipt" for x ag
    using replay_holds [OF P(1) read(1) j that] .
  show ?thesis
  proof (cases "located_outcome sv P n k s j")
    case (Inr cm)
    then have "commit_outcome P r s (Inr cm) = (r', es, Inr receipt)"
      using run read j other by (simp add: submit_once_def)
    then show ?thesis by (rule commit_outcome_result [OF P(1) r, rotated -1]) (use located_notes [OF k Inr] in auto)
  next
    case (Inl a)
    from located_answers [OF k Inl] show ?thesis
    proof (elim disjE exE conjE)
      fix es' e assume "a = Reply es' (Inl e)"
      then show ?thesis using run read j other Inl by (simp add: submit_once_def)
    next
      fix x ag assume "find_processing_record s (oc_outcome_id (so_job_outcome k)) = Some x" "case_of_job s j = Inr ag"
        and a: "a = Reply [] (replayed_outcome sv s (so_job_outcome k) (so_outcome_file_ref k) x)"
      moreover have "r' = r" "replayed_outcome sv s (so_job_outcome k) (so_outcome_file_ref k) x = Inr receipt"
        using run read j other Inl a by (simp_all add: submit_once_def)
      ultimately show ?thesis using replay by blast
    next
      fix oc assume "a = Record_Stale oc" and oc: "same_outcome k oc"
      then have run': "commit_outcome P r s (record_stale sv P s j oc (so_outcome_file_ref k)) = (r', es, Inr receipt)"
        using run read j other Inl by (simp add: submit_once_def)
      show ?thesis
        by (rule commit_outcome_result [OF P(1) r stale_notes [OF _ oc] _ run'])
          (simp_all add: stale_answer)
    next
      fix trusted rj b assume a: "a = Reject trusted rj b" and trusted: "pred_option (same_outcome k) trusted"
      have "os_read P r (jb_job_id j) = (r, Inr s)" using read read_keyed [OF r read(1) j] by simp
      then have run': "commit_outcome P r s (reject_outcome sv P s k (jb_job_id j) trusted rj b) = (r', es, Inr receipt)"
        using run read(2) j other Inl a by (simp add: submit_once_def)
      show ?thesis
      proof (rule commit_outcome_result [OF P(1) r reject_notes [OF _ trusted] _ run'], assumption)
        fix es' receipt' assume "reject_outcome sv P s k (jb_job_id j) trusted rj b = Inl (es', Inr receipt')"
        then obtain x where x: "find_processing_record s (oc_outcome_id (so_job_outcome k)) = Some x"
          "replayed_outcome sv s (so_job_outcome k) (so_outcome_file_ref k) x = Inr receipt'" by (rule reject_answer)
        obtain ag where "case_of_job s j = Inr ag"
          using Inl a by (cases "case_of_job s j") (auto simp: located_outcome_def opened_def)
        then show "\<exists>c p v. holds r k c p v \<and> op_outcome_hash p = ef_sha256 (so_outcome_file_ref k) \<and>
            rt_disposition receipt' = OD_DUPLICATE"
          using replay_holds [OF P(1) read(1) j _ x] by blast
      qed
    qed
  qed
qed

lemma once_conflict:
  assumes P: "connected P" "quiet P" and r: "good r" and k: "identified sv P k"
    and run: "submit_once sv P k n r = (r', es, Inl e)" "is_revision_conflict e"
  shows "r' = r"
proof -
  let ?i = "oc_job_id (so_job_outcome k)"
  have other: "os_other P m x = x" for m x using P(2) by (simp add: quiet_def)
  obtain r1 y where read1: "read_state r ?i = (r1, y)" by fastforce
  obtain s where y: "y = Inr s"
    using run reads [OF r read1] read1 P(1) other
    by (cases y) (auto simp: submit_once_def Let_def connected_def)
  have read: "os_read P r ?i = (r, Inr s)" using reads [OF r read1] read1 P(1) y by (simp add: connected_def)
  show ?thesis
  proof (cases "first_job s ?i")
    case None
    then show ?thesis using run read other by (simp add: submit_once_def)
  next
    case (Some j)
    have keyed: "jb_job_id j = ?i" using read_keyed [OF r _ Some] read P(1) by (auto simp: connected_def)
    show ?thesis
    proof (cases "located_outcome sv P n k s j")
      case (Inr cm)
      then show ?thesis using run read Some other commit_outcome_conflict [OF P(1) r] by (simp add: submit_once_def)
    next
      case (Inl a)
      then show ?thesis using run read Some other keyed commit_outcome_conflict [OF P(1) r]
        by (cases a) (auto simp: submit_once_def)
    qed
  qed
qed

lemma attempts_result:
  assumes P: "connected P" "quiet P" and r: "good r" and k: "identified sv P k"
  shows "submit_attempts sv P k left n r = (r', es, Inr receipt) \<Longrightarrow>
    \<exists>c p v. holds r' k c p v \<and> op_outcome_hash p = ef_sha256 (so_outcome_file_ref k) \<and>
      rt_disposition receipt \<in> {OD_DUPLICATE, op_disposition p}"
proof (induction left arbitrary: n es)
  case (Suc left)
  obtain r1 es1 y where once: "submit_once sv P k n r = (r1, es1, y)" by (metis prod_cases3)
  show ?case
  proof (cases y)
    case (Inr receipt1)
    then show ?thesis using Suc.prems once once_result [OF P r k] by auto
  next
    case (Inl e)
    then have e: "is_revision_conflict e" using Suc.prems once by (auto split: if_splits)
    then have "r1 = r" using once_conflict [OF P r k] once Inl by blast
    then show ?thesis using Suc.prems once Inl e Suc.IH by (auto split: if_splits prod.splits)
  qed
qed simp

lemma submit_result:
  assumes "connected P" "quiet P" "good r" "identified sv P k" "submit_outcome sv P k r = (r', es, Inr receipt)"
  shows "\<exists>c p v. holds r' k c p v \<and> op_outcome_hash p = ef_sha256 (so_outcome_file_ref k) \<and>
    rt_disposition receipt \<in> {OD_DUPLICATE, op_disposition p}"
  using attempts_result [OF assms(1-4)] assms(5) by (auto simp: submit_outcome_def failed_def split: if_splits)

text \<open>A processed outcome is only recognised again.\<close>

lemma processed_replayed:
  assumes Q: "connected Q" "quiet Q" and h: "holds r k c p v"
    and l: "valid_submission sv l" "oc_outcome_id (so_job_outcome l) = oc_outcome_id (so_job_outcome k)"
      "oc_job_id (so_job_outcome l) = oc_job_id (so_job_outcome k)"
  shows "submit_outcome sv Q l r = (r, [],
    if ef_sha256 (so_outcome_file_ref l) = op_outcome_hash p then Inr \<lparr>rt_disposition = OD_DUPLICATE, rt_case_view = Some v\<rparr>
    else failed EC_IDEMPOTENCY_CONFLICT ''The Outcome ID is already bound to different content.'')"
proof -
  obtain s j ag where s: "os_read Q (os_other Q m r) (oc_job_id (so_job_outcome k)) = (r, Inr s)"
      "first_job s (oc_job_id (so_job_outcome k)) = Some j" "case_of_job s j = Inr ag"
      "find_processing_record s (oc_outcome_id (so_job_outcome k)) = Some (c, p)" "project_case_view sv s c = Inr v" for m
    using h Q by (auto simp: holds_def connected_def quiet_def)
  have "op_job_id p = oc_job_id (so_job_outcome k)" using h by (simp add: holds_def)
  then have "located_outcome sv Q 0 l s j = Inl (Reply [] (if ef_sha256 (so_outcome_file_ref l) = op_outcome_hash p
      then Inr \<lparr>rt_disposition = OD_DUPLICATE, rt_case_view = Some v\<rparr>
      else failed EC_IDEMPOTENCY_CONFLICT ''The Outcome ID is already bound to different content.''))"
    using s(2-5) l(2,3) by (simp add: located_outcome_def opened_def replayed_outcome_def raised_def)
  then show ?thesis using s(1) [of 0] s(2) l
    by (simp add: submit_outcome_def numeral_3_eq_3 submit_once_def failed_def is_revision_conflict_def port_error_def)
qed

end

section \<open>The repository keeps the contract\<close>

lemma on_case_result:
  assumes "on_case i f cs = Inr cs'"
  obtains ag ag' where "map_of cs i = Some ag" "f ag = Inr ag'" "map_of cs' i = Some ag'"
  using assms by (elim on_case_cases) auto

lemma find_case_has_job:
  assumes "find_case_id_for_job cs i = Inr c" "dict_ok cs"
  obtains ag where "map_of cs c = Some ag" "has_key (ag_jobs ag) i"
proof -
  have "(\<exists>ag. filter (\<lambda>(k, a). has_key (ag_jobs a) i) cs = [(c, ag)])"
    using assms(1) by (auto simp: find_case_id_for_job_def split: list.split_asm)
  then obtain ag where "(c, ag) \<in> set cs" "has_key (ag_jobs ag) i"
    by (metis (mono_tags, lifting) case_prod_conv filter_eq_ConsD in_set_conv_decomp)
  then show thesis using that assms(2) by (simp add: dict_get_iff)
qed

text \<open>A mutation with a processing record stores it beside its job, and the case as it was given.\<close>

lemma processing_in_state:
  assumes am: "apply_mutation sv now s rv m = Inr (s', i)" and s: "state_dicts s"
    and m: "mn_upsert_case m = Some x" "mn_processing m = [p]"
  obtains c ag where "map_of (sf_cases s') c = Some ag" "map_of (ag_jobs ag) (op_job_id p) \<noteq> None"
    "map_of (ag_processing ag) (op_outcome_id p) = Some p"
proof -
  obtain cases where cases: "apply_to_cases m (upsert_case (mn_upsert_case m) (sf_cases s)) = Inr cases" "sf_cases s' = cases"
    by (rule apply_mutation_parts [OF am]) auto
  let ?u = "upsert_case (mn_upsert_case m) (sf_cases s)"
  from cases(1) obtain c1 c2 c3 c4 c5 c6 c7 where f:
    "foldS insert_job (mn_insert_jobs m) ?u = Inr c1" "foldS update_job (mn_job_updates m) c1 = Inr c2"
    "foldS insert_outcome (mn_outcomes m) c2 = Inr c3" "foldS insert_processing (mn_processing m) c3 = Inr c4"
    "foldS insert_failure (mn_failures m) c4 = Inr c5" "foldS upsert_attachment (mn_attachments m) c5 = Inr c6"
    "foldS insert_evidence (mn_evidence m) c6 = Inr c7" "foldS insert_artifact (mn_artifacts m) c7 = Inr cases"
    unfolding apply_to_cases_def by (elim bindS_InrE)
  have "step_ok ?u c3"
    by (rule step_ok_trans [OF foldS_step [OF f(1) insert_job_step] step_ok_trans
        [OF foldS_step [OF f(2) update_job_step] foldS_step [OF f(3) insert_outcome_step]]])
  then have c3: "dict_ok c3"
    using upsert_case_dicts [of "sf_cases s" "mn_upsert_case m"] s
    by (auto simp: step_ok_def cases_steady_def state_dicts_def dict_ok_def)
  from f(4) m(2) have "insert_processing p c3 = Inr c4" by (simp add: bindS_Inr)
  then obtain c where c: "find_case_id_for_job c3 (op_job_id p) = Inr c"
    and on: "on_case c (\<lambda>ag. bindS (raised (insert_unique (ag_processing ag) (op_outcome_id p) p))
      (\<lambda>d. Inr (ag\<lparr>ag_processing := d\<rparr>))) c3 = Inr c4"
    by (auto simp: insert_processing_def bindS_Inr)
  obtain ag3 where ag3: "map_of c3 c = Some ag3" "has_key (ag_jobs ag3) (op_job_id p)" by (rule find_case_has_job [OF c c3])
  then have job3: "map_of (ag_jobs ag3) (op_job_id p) \<noteq> None" by (simp add: has_key_def map_of_eq_None_iff)
  obtain ag4 where ag4: "map_of c4 c = Some ag4" "map_of (ag_jobs ag4) (op_job_id p) \<noteq> None"
      "map_of (ag_processing ag4) (op_outcome_id p) = Some p"
    by (rule on_case_result [OF on])
      (use ag3(1) job3 in \<open>auto simp: bindS_Inr insert_unique_def update_conv' split: if_split_asm\<close>)
  have "step_ok c4 cases"
    by (rule step_ok_trans [OF foldS_step [OF f(5) insert_failure_step] step_ok_trans
        [OF foldS_step [OF f(6) upsert_attachment_step] step_ok_trans
          [OF foldS_step [OF f(7) insert_evidence_step] foldS_step [OF f(8) insert_artifact_step]]]])
  then obtain ag where ag: "map_of cases c = Some ag" "agg_kept ag4 ag"
    using ag4(1) by (auto simp: step_ok_def cases_kept_def)
  have "map_of (ag_processing ag) (op_outcome_id p) = Some p"
    using ag(2) ag4(3) by (auto simp: agg_kept_def map_le_def dom_def)
  moreover have "map_of (ag_jobs ag) (op_job_id p) \<noteq> None"
    using ag(2) ag4(2) unfolding agg_kept_def jobs_kept_def by fastforce
  ultimately show thesis using that ag(1) cases(2) by simp
qed

lemma case_in_state:
  assumes am: "apply_mutation sv now s rv m = Inr (s', i)" and m: "mn_upsert_case m = Some x"
    and ag: "map_of (sf_cases s') (cs_case_id x) = Some ag"
  shows "ag_case ag = x"
proof -
  obtain cases where cases: "apply_to_cases m (upsert_case (mn_upsert_case m) (sf_cases s)) = Inr cases" "sf_cases s' = cases"
    by (rule apply_mutation_parts [OF am]) auto
  obtain a where "map_of (upsert_case (mn_upsert_case m) (sf_cases s)) (cs_case_id x) = Some a" "steady a ag"
    using apply_to_cases_step [OF cases(1)] ag cases(2) by (auto simp: step_ok_def cases_steady_def)
  then show ?thesis using m
    by (auto simp: steady_def upsert_case_def empty_aggregate_def split: option.split_asm)
qed

lemma finder_single:
  assumes "sf_cases s = [(c, ag)]"
  shows "first_job s i = map_of (ag_jobs ag) i"
    and "find_processing_record s i = map_option (Pair c) (map_of (ag_processing ag) i)"
  using assms by (auto simp: first_job_def find_processing_record_def List.map_filter_def split: option.splits)

lemma commit_processed:
  assumes u: "usable sv io r" and commit: "commit sv io r g rv m = (r', Inr rc)"
    and m: "mn_upsert_case m = Some x" "mn_processing m = [p]"
    and x: "cs_status x = CS_NEW \<longrightarrow> cs_active_job_id x = None"
  shows "\<exists>s j ag v. read_job_snapshot sv r' (op_job_id p) = (r', Inr s) \<and> first_job s (op_job_id p) = Some j \<and>
    case_of_job s j = Inr ag \<and> find_processing_record s (op_outcome_id p) = Some (cs_case_id x, p) \<and>
    project_case_view sv s (cs_case_id x) = Inr v"
proof -
  let ?c = "cs_case_id x"
  obtain s0 s i ag r1 where read: "read_case_state r ?c = (r, Inr s0)" and am: "apply_mutation sv (ci_now io) s0 rv m = Inr (s, i)"
    and ag: "map_of (sf_cases s) ?c = Some ag" and res: "reserve_requests ?c (mn_idempotency m) r = Some r1"
    and pub: "publish io (map idempotency_key_of (mn_idempotency m)) ?c s ag r1 = (r', Inr rc)"
    by (rule commit_parts [OF commit mutation_of_case [OF m(1)]])
  have moved: "moved r r' ?c ag s" using publish_moves [OF pub res _ ag] u by (simp add: usable_def)
  have before: "base_file sv s0 \<or> case_file sv ?c s0" using read_case_state_file [OF _ read] u by (simp add: usable_def)
  then have "case_file sv ?c s" using apply_mutation_file [OF before am] ag m(1) by simp
  then have s: "sf_cases s = [(?c, ag)]" using case_file_single ag by fastforce
  obtain d ag' where "map_of (sf_cases s) d = Some ag'" "map_of (ag_jobs ag') (op_job_id p) \<noteq> None"
    "map_of (ag_processing ag') (op_outcome_id p) = Some p"
    by (rule processing_in_state [OF am _ m]) (use before in \<open>auto simp: base_file_def case_file_def\<close>)
  then have in_ag: "map_of (ag_jobs ag) (op_job_id p) \<noteq> None" "map_of (ag_processing ag) (op_outcome_id p) = Some p"
    using s by (auto split: if_split_asm)
  obtain s1 where s1: "stored r' ?c = Some s1" "s1 = s \<or> s1 = with_archive_status ''PENDING'' ?c s"
    using moved by (auto simp: moved_def)
  obtain ag1 where ag1: "map_of (sf_cases s1) ?c = Some ag1" "ag_jobs ag1 = ag_jobs ag" "ag_processing ag1 = ag_processing ag"
      "cs_status (ag_case ag1) = cs_status x" "cs_active_job_id (ag_case ag1) = cs_active_job_id x"
    using s1(2) with_archive_get(1) [OF ag] ag case_in_state [OF am m(1) ag] by auto
  have "repo_ok sv r'" using commit_keeps_repo [of sv r io g rv m] commit u by (simp add: usable_def)
  then have cf: "case_file sv ?c s1" using stored_file s1(1) by blast
  then have single: "sf_cases s1 = [(?c, ag1)]" using case_file_single ag1(1) by fastforce
  obtain j where j: "map_of (ag_jobs ag1) (op_job_id p) = Some j" using in_ag(1) ag1(2) by auto
  have "op_job_id p \<in> set (object_keys ag)"
    using in_ag(1) by (auto simp: object_keys_def map_of_eq_None_iff)
  then have "locate_object r' (op_job_id p) = Some ?c" using moved by (simp add: moved_def)
  then have "read_job_snapshot sv r' (op_job_id p) = (r', Inr s1)"
    using read_stored [OF s1(1)] by (simp add: read_job_snapshot_def read_snapshot_def)
  moreover have "jb_case_id j = ?c"
    using aggregate_job [of sv ag1 "op_job_id p" j] cf single j by (simp add: single_case_file)
  then have "case_of_job s1 j = Inr ag1" using single by (simp add: case_of_job_def)
  moreover obtain v where "project_case_view sv s1 ?c = Inr v"
    using project_case_view_total [OF case_file_in [OF cf single]] x ag1(4,5) by auto
  ultimately show ?thesis using finder_single [OF single] j in_ag(2) ag1(3) by auto
qed

lemma job_read:
  "read_job_snapshot sv r i =
     (case locate_object r i of None \<Rightarrow> (r, Inr (rp_base r)) | Some c \<Rightarrow> read_case_state r c)"
  by (auto simp: read_job_snapshot_def read_snapshot_def Let_def split: option.split sum.split prod.split)

interpretation outcome_store_at: outcome_store sv "usable sv io" "read_job_snapshot sv" "commit sv io" for sv io
proof (unfold_locales, goal_cases)
  case (1 r i r' y)
  then show ?case
    by (auto simp: job_read read_case_state_def load_case_def is_revision_conflict_def port_error_def Let_def
        split: option.splits sum.splits prod.splits)
next
  case (2 r i r' s j)
  from 2(2) have "base_file sv s \<or> (\<exists>c. case_file sv c s)"
    using read_case_state_file [of sv r _ _ s] 2(1)
    by (auto simp: job_read usable_def repo_ok_def split: option.split_asm)
  then show ?case
  proof (elim disjE exE)
    assume "base_file sv s"
    then show ?thesis using 2(3) by (simp add: base_file_def first_job_def List.map_filter_def)
  next
    fix c assume cf: "case_file sv c s"
    then obtain ag where ag: "sf_cases s = [(c, ag)]" using case_file_single by blast
    then have "map_of (ag_jobs ag) i = Some j" using 2(3) by (simp add: finder_single)
    then show ?thesis using aggregate_job(1) [of sv ag i j] cf ag by (simp add: single_case_file)
  qed
next
  case (3 r g rv m r' e)
  then show ?case by (rule commit_conflict_unchanged)
next
  case (4 r g rv m r' rc x p)
  then show ?case by (rule commit_processed)
qed

end
