(* ===== verification/Outcome_Properties.thy ===== *)
theory Outcome_Properties
  imports Outcome_Store Store_Scenario
begin

text \<open>
  The property of the submission of outcomes (C40) with the concrete submission of its witness: an outcome for a
  job that no published record backs.
\<close>

section \<open>Submitting an outcome again\<close>

definition submits_to :: "store_env \<Rightarrow> commit_io \<Rightarrow> repository outcome_ports \<Rightarrow> bool" where
  "submits_to sv io P \<longleftrightarrow> os_read P = read_job_snapshot sv \<and> os_commit P = commit sv io"

definition unshared :: "repository outcome_ports \<Rightarrow> bool" where
  "unshared P \<longleftrightarrow> (\<forall>n r. os_other P n r = r)"

lemma submits_to_connected: "submits_to sv io = outcome_store_at.connected sv io"
  by (rule ext) (simp add: submits_to_def outcome_store_at.connected_def)

lemma unshared_quiet: "unshared = outcome_store_at.quiet"
  by (rule ext) (simp add: unshared_def outcome_store_at.quiet_def)

lemmas submission_live = submits_to_connected unshared_quiet

text \<open>C40. An outcome is processed once. After a submission has been answered, whether the outcome was applied,
  rejected, found stale or already known, the repository holds its processing record with the disposition of the
  answer; every further submission of an outcome with its identifiers is answered DUPLICATE with the view of the
  case when it has the same file, and refused with IDEMPOTENCY_CONFLICT otherwise; it discards and dispatches
  nothing and leaves the repository as it is, whatever clock, catalogue, records and resources it runs with.\<close>

theorem outcome_processed_once:
  assumes "usable sv io r" "submits_to sv io P" "unshared P" "identified sv P k"
    and "submit_outcome sv P k r = (r', es, Inr receipt)"
    and "submits_to sv io Q" "unshared Q"
  shows "\<exists>s c p v. read_job_snapshot sv r' (oc_job_id (so_job_outcome k)) = (r', Inr s) \<and>
    find_processing_record s (oc_outcome_id (so_job_outcome k)) = Some (c, p) \<and>
    op_job_id p = oc_job_id (so_job_outcome k) \<and> op_outcome_hash p = ef_sha256 (so_outcome_file_ref k) \<and>
    rt_disposition receipt \<in> {OD_DUPLICATE, op_disposition p} \<and> project_case_view sv s c = Inr v \<and>
    (\<forall>l. valid_submission sv l \<and> oc_outcome_id (so_job_outcome l) = oc_outcome_id (so_job_outcome k) \<and>
        oc_job_id (so_job_outcome l) = oc_job_id (so_job_outcome k) \<longrightarrow>
      submit_outcome sv Q l r' = (r', [],
        if ef_sha256 (so_outcome_file_ref l) = ef_sha256 (so_outcome_file_ref k)
        then Inr \<lparr>rt_disposition = OD_DUPLICATE, rt_case_view = Some v\<rparr>
        else failed EC_IDEMPOTENCY_CONFLICT ''The Outcome ID is already bound to different content.''))"
proof -
  note live = assms(2,3,6,7) [unfolded submission_live]
  obtain c p v where h: "outcome_store_at.holds sv r' k c p v" "op_outcome_hash p = ef_sha256 (so_outcome_file_ref k)"
    "rt_disposition receipt \<in> {OD_DUPLICATE, op_disposition p}"
    using outcome_store_at.submit_result [OF live(1,2) assms(1,4,5)] by blast
  moreover note outcome_store_at.processed_replayed [OF live(3,4) h(1)]
  ultimately show ?thesis unfolding outcome_store_at.holds_def by metis
qed

section \<open>The submission of the witness\<close>

definition or_command :: "sha256_t \<Rightarrow> submit_outcome_command" where
  "or_command text = \<lparr>so_job_outcome = st_outcome,
     so_outcome_file_ref = \<lparr>ef_relative_key = ''jobs/'' @ st_job_id @ ''/job_outcome.json'', ef_size = int (length text),
       ef_sha256 = text\<rparr>\<rparr>"

definition or_ports :: "repository outcome_ports" where
  "or_ports =
     \<lparr>os_read = read_job_snapshot st_env, os_commit = commit st_env st_io, os_published_outcome = (\<lambda>_ _. Inr None),
      os_published_job = (\<lambda>_ _. Inr None), os_publish_job = (\<lambda>_ _. Inr ()), os_validate_staged = (\<lambda>_ _. Inr ()),
      os_stage_generated = (\<lambda>_ _ _ _ _ _ _. Inl (Crash KeyError)), os_resources = (\<lambda>_ _. []),
      os_publish = (\<lambda>_ _ _. Inl (Crash KeyError)), os_audit_bundle = (\<lambda>_ _ _ _ _ _. Inl (Crash KeyError)),
      os_route_bindings = (\<lambda>_. Inl (Crash KeyError)), os_generic_bindings = (\<lambda>_. Inl (Crash KeyError)),
      os_diagnose_bindings = (\<lambda>_. Inl (Crash KeyError)), os_review_bindings = (\<lambda>_. Inl (Crash KeyError)),
      os_derive = (\<lambda>kind parts. concat (kind # parts)), os_detail_bytes = (\<lambda>_. []), os_job_bytes = jb_job_id,
      os_now = ''t8'', os_outcome_trigger_id = ''trigger'', os_control_trigger_id = ''control'', os_other = (\<lambda>_ r. r)\<rparr>"

definition or_record :: outcome_processing where
  "or_record =
     \<lparr>op_outcome_id = ''outcome'', op_job_id = st_job_id, op_outcome_hash = [],
      op_outcome_file_ref = so_outcome_file_ref (or_command []), op_disposition = OD_REJECTED, op_processed_at = ''t8'',
      op_error_code = Some EC_OUTCOME_MISSING, op_accepted_evidence_ids = [], op_accepted_artifact_ids = [],
      op_generated_artifact_ids = [], op_created_job_id = None,
      op_reason = ''Technical Outcome rejection: OUTCOME_MISSING.''\<rparr>"

definition or_case :: case_t where
  "or_case = st_case\<lparr>cs_case_revision := cs_case_revision st_case + 1, cs_updated_at := ''t8''\<rparr>"

definition or_aggregate :: case_aggregate where
  "or_aggregate = (st_aggregate st_pending)\<lparr>ag_case := or_case, ag_processing := [(''outcome'', or_record)]\<rparr>"

definition or_mutation :: state_mutation where
  "or_mutation = empty_mutation\<lparr>mn_upsert_case := Some or_case, mn_processing := [or_record]\<rparr>"

lemma or_live: "submits_to st_env st_io or_ports" "unshared or_ports" "identified st_env or_ports k"
  by (simp_all add: submits_to_def unshared_def identified_def or_ports_def)

lemma or_case_valid: "valid_case sc_env or_case"
  unfolding or_case_def by (rule valid_case_touch [OF st_case_valid])

lemma or_record_valid: "valid_processing or_record"
  by (simp add: valid_processing_def or_record_def or_command_def outcome_rejection_codes_def untrusted_outcome_rejection_codes_def)

lemma or_aggregate_dicts: "agg_dicts or_aggregate"
  by (simp add: or_aggregate_def st_aggregate_def empty_aggregate_def agg_dicts_def dict_ok_def)

lemma or_record_trusted: "agg_processing_record st_env or_aggregate or_record"
  by (simp add: agg_processing_record_def or_aggregate_def st_aggregate_def empty_aggregate_def or_record_def
      untrusted_rejection_def code_in_def untrusted_outcome_rejection_codes_def)

lemma or_aggregate_valid: "valid_aggregate st_env or_aggregate"
  using or_record_trusted or_record_valid or_case_valid st_jobs_valid
  by (simp add: run_aggregate or_aggregate_def st_aggregate_def empty_aggregate_def st_env_def Let_def List.map_filter_simps
      or_record_def or_case_def st_pending_def st_running_def st_case_def sc_data spec_from_bindings_def spec_args_of_def
      untrusted_rejection_def code_in_def untrusted_outcome_rejection_codes_def)

lemma or_file_ok: "case_file st_env ''case'' (moved_file (st_file st_pending) ''case'' or_aggregate now)"
  using or_aggregate_valid or_aggregate_dicts
  by (subst single_case_file [of _ _ or_aggregate])
    (simp_all add: moved_file_def state_frame_def state_recovery_ok_def keyed_by_def st_file_def initial_base_def,
      simp add: or_aggregate_def or_case_def st_case_def sc_data)

lemma or_mutation_applied:
  "apply_mutation st_env (ci_now st_io) (st_file st_pending) (Some 2) or_mutation =
     Inr (moved_file (st_file st_pending) ''case'' or_aggregate (ci_now st_io), Some ''case'')"
proof -
  have ids: "cs_case_id or_case = ''case''" "cs_case_revision st_case = 2"
    by (simp_all add: or_case_def st_case_def sc_data)
  have find: "find_case_id_for_job [(''case'', (st_aggregate st_pending)\<lparr>ag_case := or_case\<rparr>)] (op_job_id or_record) = Inr ''case''"
    by (simp add: find_case_id_for_job_def has_key_def st_aggregate_def empty_aggregate_def or_record_def)
  have "apply_to_cases or_mutation (upsert_case (mn_upsert_case or_mutation) (sf_cases (st_file st_pending))) =
      Inr [(''case'', or_aggregate)]"
    using find ids
    by (simp add: apply_to_cases_def or_mutation_def empty_mutation_def upsert_case_def insert_processing_def on_case_def
        insert_unique_def raised_def or_aggregate_def st_aggregate_def empty_aggregate_def, simp add: or_record_def)
  moreover have "check_case_revision (st_file st_pending) (Some 2) or_mutation = Inr (Some ''case'')"
    using ids by (simp add: check_case_revision_def or_mutation_def st_aggregate_def empty_aggregate_def)
  moreover have "valid_state st_env (moved_file (st_file st_pending) ''case'' or_aggregate (ci_now st_io))"
    using or_file_ok by (simp add: case_file_def)
  ultimately show ?thesis
    by (simp add: apply_mutation_def or_mutation_def empty_mutation_def moved_file_def epochs_by_id_def Let_def raised_def
        ensure_def st_file_def initial_base_def)
qed

lemma or_committed:
  "\<exists>r' rc. commit st_env st_io (st_repository st_pending) 2 (Some 2) or_mutation = (r', Inr rc)"
proof -
  have "cs_case_id or_case = ''case''" by (simp add: or_case_def st_case_def sc_data)
  then have c: "mutation_case_id (st_repository st_pending) or_mutation = Some ''case''"
    by (simp add: mutation_case_id_def or_mutation_def)
  have found: "map_of (sf_cases (moved_file (st_file st_pending) ''case'' or_aggregate (ci_now st_io))) ''case'' = Some or_aggregate"
    by (simp add: moved_file_def)
  have idem: "mn_idempotency or_mutation = []" by (simp add: or_mutation_def empty_mutation_def)
  have live: "rp_failure (st_repository st_pending) = None" "\<not> ci_database_fails st_io" "callbacks_return st_io"
    using st_usable [OF st_aggregate_valid(1)] by (simp_all add: usable_def)
  have open_case: "\<not> terminal_status (cs_status (ag_case or_aggregate))"
    by (simp add: or_aggregate_def or_case_def st_case_def sc_data)
  have "sf_generation (st_file st_pending) = 2" by (simp add: st_file_def)
  then show ?thesis
    using commit_applies [OF live(1) c st_lookup(1) or_mutation_applied found idem live(2,3)] open_case by auto
qed

lemma or_view: "\<exists>v. view_after st_env (st_aggregate st_pending) or_case = Inr v"
proof -
  have act: "cs_active_job_id or_case = Some st_job_id" "cs_status or_case = CS_RUNNING"
    by (simp_all add: or_case_def st_case_def sc_data)
  have "active_job_of or_aggregate = Inr (Some st_pending)"
    using act
    by (simp add: active_job_of_def or_aggregate_def st_aggregate_def empty_aggregate_def)
      (simp add: or_case_def st_case_def st_pending_def sc_data spec_from_bindings_def spec_args_of_def)
  then obtain v where "project_case_components st_env or_case (Some st_pending) [] [] = Inr v"
    using project_components_total [OF or_aggregate_valid or_aggregate_dicts, of "Some st_pending" "[]"] act
    by (auto simp: or_aggregate_def st_aggregate_def empty_aggregate_def)
  then show ?thesis using act
    by (simp add: view_after_def st_aggregate_def empty_aggregate_def)
qed

lemma or_rejection:
  "\<exists>v. reject_outcome st_env or_ports (st_file st_pending) (or_command []) st_job_id None
      \<lparr>rj_code = EC_OUTCOME_MISSING, rj_details = []\<rparr> False =
    Inr \<lparr>ox_revision = 2, ox_mutation = or_mutation, ox_effects = [],
        ox_receipt = \<lparr>rt_disposition = OD_REJECTED, rt_case_view = Some v\<rparr>\<rparr>"
proof -
  obtain v where v: "view_after st_env (st_aggregate st_pending) or_case = Inr v" using or_view by blast
  have single: "sf_cases (st_file st_pending) = [(''case'', st_aggregate st_pending)]" by simp
  have find: "first_job (st_file st_pending) st_job_id = Some st_pending"
    "find_processing_record (st_file st_pending) i = None" for i
    by (simp_all add: finder_single [OF single] st_aggregate_def empty_aggregate_def)
  have job: "case_of_job (st_file st_pending) st_pending = Inr (st_aggregate st_pending)" "jb_status st_pending = JS_PENDING"
    by (simp_all add: case_of_job_def st_pending_def sc_data spec_from_bindings_def spec_args_of_def)
  have case0: "ag_case (st_aggregate st_pending) = st_case" "cs_case_revision st_case = 2"
    by (simp_all add: st_aggregate_def empty_aggregate_def st_case_def sc_data)
  have audit: "audit_case (sv_py st_env) st_case (os_now or_ports) = Inr or_case"
    using or_case_valid by (simp add: audit_case_def or_case_def [symmetric] or_ports_def st_env_def Let_def)
  have made: "make_outcome_processing_record (so_job_outcome (or_command [])) (so_outcome_file_ref (or_command [])) OD_REJECTED
      (os_now or_ports) (Some EC_OUTCOME_MISSING) [] [] [] None
      (''Technical Outcome rejection: '' @ error_code_value EC_OUTCOME_MISSING @ ''.'') = Inr or_record"
    using or_record_valid
    by (simp add: make_outcome_processing_record_def or_record_def or_command_def or_ports_def st_outcome_def sc_data Let_def)
  have m: "build_state_mutation (empty_mutation\<lparr>mn_upsert_case := Some or_case, mn_processing := [or_record]\<rparr>) = Inr or_mutation"
    by (simp add: build_state_mutation_def valid_mutation_def empty_mutation_def mutation_cases_def or_mutation_def)
  have "audit_commit st_env (st_aggregate st_pending) OD_REJECTED [] (Inr or_record) (or_case, []) =
      Inr \<lparr>ox_revision = 2, ox_mutation = or_mutation, ox_effects = [],
        ox_receipt = \<lparr>rt_disposition = OD_REJECTED, rt_case_view = Some v\<rparr>\<rparr>"
    using v m case0 by (simp add: audit_commit_def settle_def empty_mutation_def)
  then show ?thesis
    using find job case0 audit made by (simp add: reject_outcome_def rejection_commit_def settle_def)
qed

lemma or_first_run:
  "\<exists>r' es v. submit_outcome st_env or_ports (or_command []) (st_repository st_pending) =
     (r', es, Inr \<lparr>rt_disposition = OD_REJECTED, rt_case_view = Some v\<rparr>)"
proof -
  have ids: "oc_job_id (so_job_outcome (or_command x)) = st_job_id" "jb_job_id st_pending = st_job_id" for x
    by (simp_all add: or_command_def st_outcome_def st_pending_def)
  have valid: "valid_submission st_env (or_command [])"
    by (simp add: valid_submission_def or_command_def st_outcome_def st_env_def sc_env_def)
  have read: "os_read or_ports (os_other or_ports n r) st_job_id = (r, Inr (st_file st_pending))"
    if "r = st_repository st_pending" for n r
    using that read_stored [OF st_lookup(1)] by (simp add: or_ports_def job_read)
  have job: "first_job (st_file st_pending) st_job_id = Some st_pending"
    "find_processing_record (st_file st_pending) i = None"
    "case_of_job (st_file st_pending) st_pending = Inr (st_aggregate st_pending)" for i
    by (simp_all add: finder_single st_aggregate_def empty_aggregate_def case_of_job_def st_pending_def sc_data
        spec_from_bindings_def spec_args_of_def)
  have located: "located_outcome st_env or_ports 0 (or_command []) (st_file st_pending) st_pending =
      Inl (Reject None \<lparr>rj_code = EC_OUTCOME_MISSING, rj_details = []\<rparr> False)"
    using job by (simp add: located_outcome_def opened_def published_outcome_def or_ports_def validate_published_outcome_def
        rejected_early_def)
  obtain v where rejected: "reject_outcome st_env or_ports (st_file st_pending) (or_command []) st_job_id None
      \<lparr>rj_code = EC_OUTCOME_MISSING, rj_details = []\<rparr> False =
    Inr \<lparr>ox_revision = 2, ox_mutation = or_mutation, ox_effects = [],
        ox_receipt = \<lparr>rt_disposition = OD_REJECTED, rt_case_view = Some v\<rparr>\<rparr>" using or_rejection by blast
  obtain r' rc where "commit st_env st_io (st_repository st_pending) 2 (Some 2) or_mutation = (r', Inr rc)"
    using or_committed by blast
  then have "os_commit or_ports (os_other or_ports n (st_repository st_pending)) (sf_generation (st_file st_pending)) (Some 2) or_mutation =
      (r', Inr rc)" for n
    by (simp add: or_ports_def st_file_def)
  then show ?thesis
    using valid read [OF refl] job(1) ids located rejected or_live(2)
    by (simp add: submit_outcome_def numeral_3_eq_3 submit_once_def commit_outcome_def unshared_def)
qed

theorem outcome_processed_once_witness:
  "\<exists>r' es v w. submit_outcome st_env or_ports (or_command []) (st_repository st_pending) =
      (r', es, Inr \<lparr>rt_disposition = OD_REJECTED, rt_case_view = Some v\<rparr>) \<and>
    submit_outcome st_env or_ports (or_command []) r' = (r', [], Inr \<lparr>rt_disposition = OD_DUPLICATE, rt_case_view = Some w\<rparr>)"
proof -
  obtain r' es v where run: "submit_outcome st_env or_ports (or_command []) (st_repository st_pending) =
      (r', es, Inr \<lparr>rt_disposition = OD_REJECTED, rt_case_view = Some v\<rparr>)" using or_first_run by blast
  have "valid_submission st_env (or_command [])"
    by (simp add: valid_submission_def or_command_def st_outcome_def st_env_def sc_env_def)
  then show ?thesis
    using run outcome_processed_once [OF st_usable [OF st_aggregate_valid(1)] or_live run or_live(1,2)] by fastforce
qed

end
