(* ===== verification/Dispatch_Signals.thy ===== *)
theory Dispatch_Signals
  imports Complex_Main Command_Preparation
begin

text \<open>
  \<open>OperationalState\<close> of \<open>operational.py\<close>: the admission latch of one process and the faults it has seen. Only
  this process is described; a fault is never a verdict on a case.
\<close>

datatype lock_error = Runtime_Error | Value_Error

record fault =
  fl_runtime_epoch :: "opaque_id option"
  fl_case_id :: "opaque_id option"
  fl_job_id :: "opaque_id option"
  fl_phase :: text_t
  fl_error_code :: error_code
  fl_occurred_at :: timestamp
  fl_secondary_error_code :: "error_code option"
  fl_persistence :: text_t

type_synonym fault_key = "opaque_id option \<times> opaque_id option \<times> text_t"

record operational_state =
  ol_accepting :: bool
  ol_runtime_epoch :: "opaque_id option"
  ol_faults :: "(fault_key \<times> fault) list"
  ol_confirmed_jobs :: "opaque_id list"

definition new_operational_state :: operational_state where
  "new_operational_state = \<lparr>ol_accepting = True, ol_runtime_epoch = None, ol_faults = [], ol_confirmed_jobs = []\<rparr>"

section \<open>Faults as errors\<close>

definition msg_archive_unconfirmed :: text_t where
  "msg_archive_unconfirmed = utf8
     [230, 138, 165, 229, 145, 138, 229, 183, 178, 231, 148, 159, 230, 136, 144, 239, 188, 140, 228, 189, 134, 229, 189,
      146, 230, 161, 163, 231, 138, 182, 230, 128, 129, 230, 154, 130, 230, 151, 182, 230, 151, 160, 230, 179, 149, 231,
      161, 174, 232, 174, 164, 227, 128, 130]"

definition msg_dispatch_paused :: text_t where
  "msg_dispatch_paused = utf8
     [230, 156, 141, 229, 138, 161, 229, 188, 130, 229, 184, 184, 239, 188, 140, 230, 142, 146, 233, 152, 159, 228, 187,
      187, 229, 138, 161, 229, 183, 178, 230, 154, 130, 229, 129, 156, 239, 188, 140, 230, 156, 128, 231, 187, 136, 231,
      138, 182, 230, 128, 129, 229, 176, 154, 230, 156, 170, 231, 161, 174, 232, 174, 164, 227, 128, 130]"

definition msg_delivery_unconfirmed :: text_t where
  "msg_delivery_unconfirmed = utf8
     [228, 187, 187, 229, 138, 161, 228, 186, 164, 228, 187, 152, 229, 188, 130, 229, 184, 184, 239, 188, 140, 230, 156,
      128, 231, 187, 136, 231, 138, 182, 230, 128, 129, 230, 154, 130, 230, 151, 182, 230, 151, 160, 230, 179, 149, 231,
      161, 174, 232, 174, 164, 227, 128, 130]"

definition phase_message :: "text_t \<Rightarrow> text_t" where
  "phase_message phase =
     (if phase = ''ARCHIVE_STATUS_COMMIT'' then msg_archive_unconfirmed
      else if phase = ''DISPATCH_PAUSED'' then msg_dispatch_paused else msg_delivery_unconfirmed)"

definition fault_values :: "fault \<Rightarrow> (text_t \<times> text_t option) list" where
  "fault_values f =
     [(''runtime_epoch'', fl_runtime_epoch f), (''case_id'', fl_case_id f), (''job_id'', fl_job_id f),
      (''phase'', Some (fl_phase f)), (''persistence'', Some (fl_persistence f)),
      (''cause_code'', Some (error_code_value (fl_error_code f))), (''occurred_at'', Some (fl_occurred_at f)),
      (''secondary_error_code'', map_option error_code_value (fl_secondary_error_code f))]"

definition fault_error :: "fault \<Rightarrow> application_error" where
  "fault_error f =
     (port_error EC_DISPATCH_REJECTED (phase_message (fl_phase f)))
       \<lparr>ae_details := List.map_filter (\<lambda>(name, v). map_option (\<lambda>x. no_detail\<lparr>ed_field := Some name,
          ed_actual := Some (DStr x)\<rparr>) v) (fault_values f)\<rparr>"

section \<open>The latch\<close>

definition install_epoch :: "opaque_id \<Rightarrow> operational_state \<Rightarrow> lock_error + operational_state" where
  "install_epoch e st =
     (if ol_runtime_epoch st \<in> {None, Some e} then Inr (st\<lparr>ol_runtime_epoch := Some e\<rparr>) else Inl Runtime_Error)"

definition stop_accepting :: "operational_state \<Rightarrow> operational_state" where
  "stop_accepting st = st\<lparr>ol_accepting := False\<rparr>"

definition require_accepting :: "operational_state \<Rightarrow> store_error + unit" where
  "require_accepting st = (if ol_accepting st then Inr () else refuse EC_DISPATCH_REJECTED msg_not_accepting [])"

definition record_fault ::
  "opaque_id option \<Rightarrow> opaque_id option \<Rightarrow> text_t \<Rightarrow> error_code \<Rightarrow> error_code option \<Rightarrow> timestamp \<Rightarrow>
   operational_state \<Rightarrow> operational_state" where
  "record_fault case_id job_id phase code secondary now st =
     st\<lparr>ol_faults := AList.update (case_id, job_id, phase)
           \<lparr>fl_runtime_epoch = ol_runtime_epoch st, fl_case_id = case_id, fl_job_id = job_id, fl_phase = phase,
            fl_error_code = code, fl_occurred_at = now, fl_secondary_error_code = secondary,
            fl_persistence = ''UNKNOWN''\<rparr> (ol_faults st),
       ol_accepting := False\<rparr>"

definition faults :: "operational_state \<Rightarrow> fault list" where
  "faults st = map snd (ol_faults st)"

definition latest_error :: "operational_state \<Rightarrow> application_error option" where
  "latest_error st =
     (case rev (faults st) of
        [] \<Rightarrow> None
      | last_fault # fs \<Rightarrow>
          Some (fault_error (case filter (\<lambda>f. fl_phase f \<noteq> ''DISPATCH_PAUSED'') (last_fault # fs) of
            [] \<Rightarrow> last_fault | f # fs' \<Rightarrow> f)))"

definition confirm_finished_job :: "opaque_id \<Rightarrow> operational_state \<Rightarrow> operational_state" where
  "confirm_finished_job i st =
     (if list_ex (\<lambda>f. fl_job_id f = Some i) (faults st)
      then st\<lparr>ol_confirmed_jobs := List.insert i (ol_confirmed_jobs st)\<rparr> else st)"

text \<open>The newest fault that still concerns a case: a fault of its archive while the archive is not settled, any
  other one while the case has not ended and the job is not confirmed.\<close>

definition fault_concerns ::
  "operational_state \<Rightarrow> opaque_id \<Rightarrow> case_status option \<Rightarrow> text_t option \<Rightarrow> bool \<Rightarrow> fault \<Rightarrow> bool" where
  "fault_concerns st case_id status archive include_archive f \<longleftrightarrow>
     fl_case_id f \<in> {None, Some case_id} \<and>
     (if fl_phase f = ''ARCHIVE_STATUS_COMMIT''
      then include_archive \<and> archive \<in> {None, Some ''PENDING''}
      else \<not> (case status of None \<Rightarrow> False | Some s \<Rightarrow> terminal_status s) \<and>
           (case fl_job_id f of None \<Rightarrow> True | Some i \<Rightarrow> i \<notin> set (ol_confirmed_jobs st)))"

definition error_for_case ::
  "operational_state \<Rightarrow> opaque_id \<Rightarrow> case_status option \<Rightarrow> text_t option \<Rightarrow> bool \<Rightarrow> application_error option" where
  "error_for_case st case_id status archive include_archive =
     (case filter (fault_concerns st case_id status archive include_archive) (rev (faults st)) of
        [] \<Rightarrow> None | f # fs \<Rightarrow> Some (fault_error f))"

text \<open>
  The small objects the workers share: the cancellation of one job (\<open>dispatch/cancellation.py\<close>), the shutdown of
  the service (\<open>dispatch/shutdown.py\<close>), the waits between submissions (\<open>dispatch/backoff.py\<close>), the epoch of the
  process (\<open>dispatch/runtime_epoch.py\<close>) and the idle queue a scan saw (\<open>dispatch/activity.py\<close>). Each method runs
  under the lock of its object, so it is one function of the object's state. Seconds are real numbers.
\<close>

section \<open>Cancellation\<close>

datatype cancellation_reason = CN_USER_CANCEL | CN_SERVICE_SHUTDOWN

record controller =
  ct_reason :: "cancellation_reason option"
  ct_retired :: bool

definition new_controller :: controller where
  "new_controller = \<lparr>ct_reason = None, ct_retired = False\<rparr>"

definition is_cancelled :: "controller \<Rightarrow> bool" where
  "is_cancelled c \<longleftrightarrow> ct_reason c \<noteq> None"

definition cancel_controller :: "cancellation_reason \<Rightarrow> controller \<Rightarrow> bool \<times> controller" where
  "cancel_controller r c =
     (if ct_retired c \<or> ct_reason c \<noteq> None then (False, c) else (True, c\<lparr>ct_reason := Some r\<rparr>))"

definition retire :: "controller \<Rightarrow> bool \<times> controller" where
  "retire c = (if ct_retired c then (False, c) else (True, c\<lparr>ct_retired := True\<rparr>))"

text \<open>A controller that can no longer hear of a cancellation, or has heard of one.\<close>

definition settled_controller :: "controller \<Rightarrow> bool" where
  "settled_controller c \<longleftrightarrow> ct_retired c \<or> is_cancelled c"

text \<open>The order a controller moves in: a reason is never replaced, a retired controller keeps what it has.\<close>

definition controller_le :: "controller \<Rightarrow> controller \<Rightarrow> bool" where
  "controller_le c d \<longleftrightarrow>
     (ct_retired c \<longrightarrow> d = c) \<and> (ct_reason c \<noteq> None \<longrightarrow> ct_reason d = ct_reason c)"

lemma controller_le_refl [simp]: "controller_le c c"
  by (simp add: controller_le_def)

lemma controller_le_trans: "controller_le a b \<Longrightarrow> controller_le b c \<Longrightarrow> controller_le a c"
  by (auto simp: controller_le_def)

lemma cancel_le: "controller_le c (snd (cancel_controller r c))"
  by (auto simp: controller_le_def cancel_controller_def)

lemma retire_le: "controller_le c (snd (retire c))"
  by (auto simp: controller_le_def retire_def)

lemma cancel_settles: "settled_controller (snd (cancel_controller r c))"
  by (auto simp: settled_controller_def cancel_controller_def is_cancelled_def)

lemma settled_mono: "settled_controller c \<Longrightarrow> controller_le c d \<Longrightarrow> settled_controller d"
  by (auto simp: settled_controller_def controller_le_def is_cancelled_def)

lemma cancel_signals_iff: "fst (cancel_controller r c) \<longleftrightarrow> \<not> settled_controller c"
  by (auto simp: settled_controller_def cancel_controller_def is_cancelled_def)

section \<open>Shutdown and the waits between submissions\<close>

text \<open>A signal is the flag of its event: \<open>True\<close> once the shutdown was requested.\<close>

definition request_signal :: "bool \<Rightarrow> bool \<times> bool" where
  "request_signal requested = (\<not> requested, True)"

definition submission_backoff_delays :: "real list" where
  "submission_backoff_delays = [1/10, 1/5, 1/2, 1, 2, 5]"

definition submission_backoff_delay :: "int \<Rightarrow> exn + real" where
  "submission_backoff_delay attempt_index =
     (if attempt_index < 0 then Inl ValueError
      else Inr (submission_backoff_delays !
        nat (min attempt_index (int (length submission_backoff_delays) - 1))))"

lemma submission_backoff_delay_bounds:
  assumes "submission_backoff_delay i = Inr d"
  shows "1/10 \<le> d" "d \<le> 5" "5 \<le> i \<Longrightarrow> d = 5"
proof -
  have r: "i \<ge> 0" "d = submission_backoff_delays ! nat (min i 5)"
    using assms by (auto simp: submission_backoff_delay_def submission_backoff_delays_def split: if_splits)
  have "nat (min i 5) \<in> {0, 1, 2, 3, 4, 5}" using r(1) by auto
  then show "1/10 \<le> d" "d \<le> 5" by (auto simp: r(2) submission_backoff_delays_def numeral_nat)
  show "5 \<le> i \<Longrightarrow> d = 5" by (simp add: r(2) submission_backoff_delays_def)
qed

text \<open>One wait of \<open>InterruptibleSubmissionBackoff\<close>: \<open>woken\<close> says whether the shutdown was signalled while it
  waited; it answers \<open>True\<close> exactly when the time passed undisturbed.\<close>

definition backoff_wait :: "bool \<Rightarrow> bool \<Rightarrow> real \<Rightarrow> exn + bool" where
  "backoff_wait shutdown woken delay =
     (if delay < 0 then Inl ValueError else if shutdown then Inr False else Inr (\<not> woken))"

section \<open>The epoch of the process\<close>

definition install_runtime_epoch :: "opaque_id \<Rightarrow> opaque_id option \<Rightarrow> lock_error + bool \<times> opaque_id option" where
  "install_runtime_epoch e ctx =
     (case ctx of None \<Rightarrow> Inr (True, Some e)
      | Some e' \<Rightarrow> if e' \<noteq> e then Inl Runtime_Error else Inr (False, ctx))"

definition require_runtime_epoch :: "opaque_id option \<Rightarrow> lock_error + opaque_id" where
  "require_runtime_epoch ctx = (case ctx of None \<Rightarrow> Inl Runtime_Error | Some e \<Rightarrow> Inr e)"

text \<open>\<open>candidate\<close> is the identifier the generator gives when it is asked; the epoch is generated once.\<close>

definition create_runtime_epoch ::
  "opaque_id list \<Rightarrow> opaque_id \<Rightarrow> opaque_id option \<Rightarrow> lock_error + opaque_id \<times> opaque_id option" where
  "create_runtime_epoch historical candidate made =
     (case made of Some e \<Rightarrow> Inr (e, made)
      | None \<Rightarrow> if candidate \<in> set historical then Inl Runtime_Error else Inr (candidate, Some candidate))"

lemma install_runtime_epoch_once:
  assumes "install_runtime_epoch e ctx = Inr (new, ctx')"
  shows "ctx' = Some e" "new \<longleftrightarrow> ctx = None" "install_runtime_epoch e' ctx' = Inr r \<longleftrightarrow> e' = e \<and> r = (False, ctx')"
  using assms by (auto simp: install_runtime_epoch_def split: option.splits if_splits)

section \<open>The idle queue a scan saw\<close>

record idle_observation =
  id_generation :: nat
  id_idle :: bool

definition invalidate :: "idle_observation \<Rightarrow> idle_observation" where
  "invalidate q = q\<lparr>id_generation := id_generation q + 1, id_idle := False\<rparr>"

definition begin_scan :: "idle_observation \<Rightarrow> nat \<times> idle_observation" where
  "begin_scan q = (id_generation q, q\<lparr>id_idle := False\<rparr>)"

definition observed_empty :: "nat \<Rightarrow> idle_observation \<Rightarrow> idle_observation" where
  "observed_empty generation q = (if generation = id_generation q then q\<lparr>id_idle := True\<rparr> else q)"

text \<open>What the threads do to the observation, one call after the other, and the scan that reported last.\<close>

datatype scan_event = Notified | Scan_Begins | Scan_Empty nat

fun observe :: "scan_event \<Rightarrow> idle_observation \<Rightarrow> idle_observation" where
  "observe Notified q = invalidate q"
| "observe Scan_Begins q = snd (begin_scan q)"
| "observe (Scan_Empty g) q = observed_empty g q"

definition scan_events :: "scan_event list \<Rightarrow> idle_observation \<Rightarrow> idle_observation" where
  "scan_events es q = foldl (\<lambda>q e. observe e q) q es"

lemma scan_events_simps [simp]:
  "scan_events [] q = q"
  "scan_events (e # es) q = scan_events es (observe e q)"
  "scan_events (es @ fs) q = scan_events fs (scan_events es q)"
  by (simp_all add: scan_events_def)

lemma generation_grows: "id_generation q \<le> id_generation (scan_events es q)"
proof (induction es arbitrary: q)
  case (Cons e es)
  have "id_generation q \<le> id_generation (observe e q)"
    by (cases e) (auto simp: invalidate_def begin_scan_def observed_empty_def)
  then show ?case using Cons.IH [of "observe e q"] by simp
qed simp

text \<open>A scan that began before a notification cannot make the queue idle again.\<close>

lemma stale_scan_ignored:
  assumes "g = fst (begin_scan q)" "Notified \<in> set es"
  shows "scan_events (es @ [Scan_Empty g]) q = scan_events es q"
proof -
  obtain xs ys where es: "es = xs @ Notified # ys" using split_list [OF assms(2)] by blast
  have "id_generation q < id_generation (invalidate (scan_events xs q))"
    using generation_grows [of q xs] by (simp add: invalidate_def)
  also have "\<dots> \<le> id_generation (scan_events es q)"
    using generation_grows [of "invalidate (scan_events xs q)" ys] by (simp add: es)
  finally show ?thesis using assms(1) by (simp add: begin_scan_def observed_empty_def)
qed

end
