(* ===== verification/Dispatcher.thy ===== *)
theory Dispatcher
  imports Dispatch_Signals
begin

text \<open>
  \<open>InProcessDispatcher\<close> of \<open>dispatch/dispatcher.py\<close>: two queues of jobs, one execution per case, a fixed number of
  worker threads, and the fault handler \<open>dispatch/service.py\<close> installs. Every block under the condition is one
  function of the whole state; the step relation interleaves the blocks of the worker threads and of the callers.
  The admission latch has its own lock, and a block reads or writes it once. Times and log records are left out.
\<close>

section \<open>State\<close>

datatype lane = Route_Lane | Diagnose_Lane

text \<open>Where a worker thread is in \<open>_run\<close>, with the job and the case its local variables hold.\<close>

datatype program_point =
    Waiting
  | Executing opaque_id opaque_id
  | Pausing opaque_id opaque_id
  | Fencing opaque_id opaque_id
  | Reporting opaque_id opaque_id
  | Report_Paused opaque_id opaque_id "(opaque_id \<times> opaque_id) list"
  | Releasing opaque_id opaque_id
  | Dying opaque_id opaque_id
  | Returned

record worker_thread =
  wt_lane :: lane
  wt_at :: program_point

record dispatcher =
  dp_counts :: "lane \<Rightarrow> nat"
  dp_has_persisted_identity :: bool
  dp_queues :: "lane \<Rightarrow> opaque_id list"
  dp_queued :: "(opaque_id \<times> opaque_id \<times> lane) list"
  dp_running :: "(opaque_id \<times> opaque_id \<times> controller) list"
  dp_active_cases :: "opaque_id set"
  dp_finishing :: "opaque_id set"
  dp_deleted_cases :: "opaque_id set"
  dp_accepting :: bool
  dp_claiming_enabled :: bool
  dp_stop_requested :: bool
  dp_threads :: "worker_thread list"
  dp_operational :: operational_state
  dp_shutdown_signal :: bool
  dp_backoff_shutdown :: bool
  dp_fatal_error :: bool

definition new_dispatcher :: "bool \<Rightarrow> int \<Rightarrow> int \<Rightarrow> exn + dispatcher" where
  "new_dispatcher persisted route_workers diagnose_workers =
     (if route_workers < 1 \<or> diagnose_workers < 1 then Inl ValueError
      else Inr
        \<lparr>dp_counts = (\<lambda>l. case l of Route_Lane \<Rightarrow> nat route_workers | Diagnose_Lane \<Rightarrow> nat diagnose_workers),
         dp_has_persisted_identity = persisted, dp_queues = (\<lambda>l. []), dp_queued = [], dp_running = [],
         dp_active_cases = {}, dp_finishing = {}, dp_deleted_cases = {}, dp_accepting = True,
         dp_claiming_enabled = False, dp_stop_requested = False, dp_threads = [],
         dp_operational = new_operational_state, dp_shutdown_signal = False, dp_backoff_shutdown = False,
         dp_fatal_error = False\<rparr>)"

record dispatch_receipt =
  dr_job_id :: opaque_id
  dr_accepted :: bool
  dr_duplicate :: bool

record cancel_receipt =
  kr_job_id :: opaque_id
  kr_signalled :: bool

definition known_job :: "dispatcher \<Rightarrow> opaque_id \<Rightarrow> bool" where
  "known_job d i \<longleftrightarrow> map_of (dp_queued d) i \<noteq> None \<or> map_of (dp_running d) i \<noteq> None"

definition claiming_enabled :: "dispatcher \<Rightarrow> bool" where
  "claiming_enabled d \<longleftrightarrow> dp_claiming_enabled d \<and> \<not> dp_stop_requested d"

definition running_case_id :: "dispatcher \<Rightarrow> opaque_id \<Rightarrow> opaque_id option" where
  "running_case_id d i = map_option fst (map_of (dp_running d) i)"

definition queued_job_identities :: "dispatcher \<Rightarrow> (opaque_id \<times> opaque_id) list" where
  "queued_job_identities d = map (\<lambda>(i, c, l). (i, c)) (dp_queued d)"

definition cases_idle :: "dispatcher \<Rightarrow> opaque_id list \<Rightarrow> bool" where
  "cases_idle d selected \<longleftrightarrow>
     list_all (\<lambda>c. c \<notin> dp_active_cases d) selected \<and> list_all (\<lambda>(i, c, l). c \<notin> set selected) (dp_queued d)"

definition dispatcher_idle :: "dispatcher \<Rightarrow> bool" where
  "dispatcher_idle d \<longleftrightarrow> dp_queued d = [] \<and> dp_running d = []"

section \<open>Submitting and cancelling\<close>

type_synonym job_identity = "opaque_id \<times> job_type \<times> job_status option"

definition lane_of :: "job_type \<Rightarrow> lane" where
  "lane_of t = (if t = JT_ROUTE then Route_Lane else Diagnose_Lane)"

definition dispatch_answer :: "opaque_id \<Rightarrow> bool \<Rightarrow> bool \<Rightarrow> dispatch_receipt" where
  "dispatch_answer i a dup = \<lparr>dr_job_id = i, dr_accepted = a, dr_duplicate = dup\<rparr>"

text \<open>\<open>submit\<close> looks under the lock, reads the identity of the job without it, and looks again.\<close>

definition submit_first :: "opaque_id \<Rightarrow> dispatcher \<Rightarrow> dispatch_receipt option" where
  "submit_first i d =
     (if known_job d i then Some (dispatch_answer i False True)
      else if \<not> ol_accepting (dp_operational d) \<and> \<not> dp_has_persisted_identity d
      then Some (dispatch_answer i False False) else None)"

definition enqueue :: "opaque_id \<Rightarrow> opaque_id \<Rightarrow> lane \<Rightarrow> dispatcher \<Rightarrow> dispatcher" where
  "enqueue i c l d =
     d\<lparr>dp_queues := (dp_queues d)(l := dp_queues d l @ [i]), dp_queued := AList.update i (c, l) (dp_queued d)\<rparr>"

definition submit_second ::
  "opaque_id \<Rightarrow> job_identity \<Rightarrow> timestamp \<Rightarrow> dispatcher \<Rightarrow> dispatcher \<times> dispatch_receipt" where
  "submit_second i identity now d =
     (case identity of (case_id, t, status) \<Rightarrow>
        if known_job d i then (d, dispatch_answer i False True)
        else if case_id \<in> dp_deleted_cases d then (d, dispatch_answer i False False)
        else if \<not> dp_accepting d \<or> \<not> ol_accepting (dp_operational d)
        then (if dp_has_persisted_identity d \<and> status \<in> {None, Some JS_PENDING}
              then d\<lparr>dp_operational := record_fault (Some case_id) (Some i) ''DISPATCH_PAUSED'' EC_DISPATCH_REJECTED
                  None now (dp_operational d)\<rparr>
              else d, dispatch_answer i False False)
        else (enqueue i case_id (lane_of t) d, dispatch_answer i True False))"

text \<open>The whole call when no other thread runs in between; \<open>identity\<close> is what the reading of the job gives.\<close>

definition submit ::
  "opaque_id \<Rightarrow> store_error + job_identity \<Rightarrow> timestamp \<Rightarrow> dispatcher \<Rightarrow> dispatcher \<times> (store_error + dispatch_receipt)" where
  "submit i identity now d =
     (case submit_first i d of Some r \<Rightarrow> (d, Inr r)
      | None \<Rightarrow> case identity of
          Inl e \<Rightarrow> (d, if \<not> ol_accepting (dp_operational d) then Inr (dispatch_answer i False False) else Inl e)
        | Inr x \<Rightarrow> (case submit_second i x now d of (d', r) \<Rightarrow> (d', Inr r)))"

definition drop_queued :: "opaque_id \<Rightarrow> lane \<Rightarrow> dispatcher \<Rightarrow> dispatcher" where
  "drop_queued i l d =
     d\<lparr>dp_queues := (dp_queues d)(l := remove1 i (dp_queues d l)), dp_queued := AList.delete i (dp_queued d)\<rparr>"

definition cancel_where ::
  "cancellation_reason \<Rightarrow> (opaque_id \<Rightarrow> opaque_id \<Rightarrow> bool) \<Rightarrow> dispatcher \<Rightarrow> dispatcher" where
  "cancel_where reason p d =
     d\<lparr>dp_running := map (\<lambda>(i, c, k). (i, c, if p i c then snd (cancel_controller reason k) else k)) (dp_running d)\<rparr>"

definition cancel :: "opaque_id \<Rightarrow> dispatcher \<Rightarrow> dispatcher \<times> cancel_receipt" where
  "cancel i d =
     (case map_of (dp_queued d) i of
        Some (c, l) \<Rightarrow> (drop_queued i l d, \<lparr>kr_job_id = i, kr_signalled = True\<rparr>)
      | None \<Rightarrow> (case map_of (dp_running d) i of
          None \<Rightarrow> (d, \<lparr>kr_job_id = i, kr_signalled = False\<rparr>)
        | Some (c, k) \<Rightarrow>
            if i \<in> dp_finishing d then (d, \<lparr>kr_job_id = i, kr_signalled = False\<rparr>)
            else (cancel_where CN_USER_CANCEL (\<lambda>j c. j = i) d,
              \<lparr>kr_job_id = i, kr_signalled = fst (cancel_controller CN_USER_CANCEL k)\<rparr>)))"

definition drop_if_selected ::
  "opaque_id list \<Rightarrow> opaque_id \<times> opaque_id \<times> lane \<Rightarrow> dispatcher \<Rightarrow> dispatcher" where
  "drop_if_selected selected item d =
     (case item of (i, c, l) \<Rightarrow> if c \<in> set selected then drop_queued i l d else d)"

definition cancel_cases :: "opaque_id list \<Rightarrow> dispatcher \<Rightarrow> dispatcher" where
  "cancel_cases selected d =
     (let d1 = d\<lparr>dp_deleted_cases := dp_deleted_cases d \<union> set selected\<rparr>;
          d2 = fold (drop_if_selected selected) (dp_queued d1) d1
      in cancel_where CN_USER_CANCEL (\<lambda>i c. c \<in> set selected \<and> i \<notin> dp_finishing d2) d2)"

section \<open>Claiming, pausing and shutting down\<close>

definition pause_claiming :: "dispatcher \<Rightarrow> dispatcher" where
  "pause_claiming d = d\<lparr>dp_claiming_enabled := False\<rparr>"

definition enable_claiming :: "dispatcher \<Rightarrow> lock_error + dispatcher" where
  "enable_claiming d =
     (if dp_stop_requested d then Inl Runtime_Error else Inr (d\<lparr>dp_claiming_enabled := True\<rparr>))"

definition stop_admission :: "dispatcher \<Rightarrow> dispatcher" where
  "stop_admission d = d\<lparr>dp_operational := stop_accepting (dp_operational d)\<rparr>"

definition request_shutdown :: "dispatcher \<Rightarrow> dispatcher" where
  "request_shutdown d =
     (case request_signal (dp_shutdown_signal d) of (requested, signal) \<Rightarrow>
        d\<lparr>dp_shutdown_signal := signal, dp_backoff_shutdown := dp_backoff_shutdown d \<or> requested\<rparr>)"

definition shutdown_section :: "dispatcher \<Rightarrow> dispatcher" where
  "shutdown_section d =
     cancel_where CN_SERVICE_SHUTDOWN (\<lambda>i c. True)
       (d\<lparr>dp_accepting := False, dp_claiming_enabled := False, dp_stop_requested := True, dp_queued := [],
          dp_queues := (\<lambda>l. [])\<rparr>)"

text \<open>What \<open>shutdown\<close> does before it joins the threads.\<close>

definition shutdown :: "real \<Rightarrow> dispatcher \<Rightarrow> exn + dispatcher" where
  "shutdown timeout_seconds d =
     (if timeout_seconds < 0 then Inl ValueError
      else Inr (shutdown_section (stop_admission (request_shutdown d))))"

definition start_threads :: "dispatcher \<Rightarrow> dispatcher" where
  "start_threads d =
     (if dp_threads d \<noteq> [] then d
      else d\<lparr>dp_threads := concat (map (\<lambda>l. replicate (dp_counts d l) \<lparr>wt_lane = l, wt_at = Waiting\<rparr>)
         [Route_Lane, Diagnose_Lane])\<rparr>)"

definition case_busy :: "dispatcher \<Rightarrow> opaque_id \<Rightarrow> bool" where
  "case_busy d i = (case map_of (dp_queued d) i of None \<Rightarrow> True | Some (c, l) \<Rightarrow> c \<in> dp_active_cases d)"

definition eligible :: "lane \<Rightarrow> dispatcher \<Rightarrow> opaque_id option" where
  "eligible l d = (if \<not> dp_claiming_enabled d then None else List.find (\<lambda>i. \<not> case_busy d i) (dp_queues d l))"

definition claim_section :: "lane \<Rightarrow> dispatcher \<Rightarrow> (opaque_id \<times> opaque_id \<times> dispatcher) option" where
  "claim_section l d =
     (case eligible l d of None \<Rightarrow> None
      | Some i \<Rightarrow> (case map_of (dp_queued d) i of None \<Rightarrow> None
          | Some (c, l') \<Rightarrow> Some (i, c, (drop_queued i l d)
              \<lparr>dp_running := AList.update i (c, new_controller) (dp_running d),
               dp_active_cases := insert c (dp_active_cases d)\<rparr>)))"

definition release_section :: "opaque_id \<Rightarrow> opaque_id \<Rightarrow> dispatcher \<Rightarrow> dispatcher" where
  "release_section i c d =
     d\<lparr>dp_running := AList.delete i (dp_running d), dp_finishing := dp_finishing d - {i},
       dp_active_cases := dp_active_cases d - {c}\<rparr>"

definition goto :: "nat \<Rightarrow> program_point \<Rightarrow> dispatcher \<Rightarrow> dispatcher" where
  "goto k p d = d\<lparr>dp_threads := (dp_threads d)[k := (dp_threads d ! k)\<lparr>wt_at := p\<rparr>]\<rparr>"

definition at_point :: "nat \<Rightarrow> program_point \<Rightarrow> dispatcher \<Rightarrow> bool" where
  "at_point k p d \<longleftrightarrow> k < length (dp_threads d) \<and> wt_at (dp_threads d ! k) = p"

definition signal_controller :: "opaque_id \<Rightarrow> (controller \<Rightarrow> controller) \<Rightarrow> dispatcher \<Rightarrow> dispatcher" where
  "signal_controller i f d =
     d\<lparr>dp_running := map (\<lambda>(j, c, k). (j, c, if j = i then f k else k)) (dp_running d)\<rparr>"

text \<open>
  The threads of the dispatcher as one step relation: a step is one block under a lock, of a worker thread in
  \<open>_run\<close> or of a caller, in any order. The invariant of the reachable states is in three parts: the queues, the
  running jobs and the threads that own them, and what a shutdown leaves.
\<close>

section \<open>What a worker thread does when a job failed\<close>

definition epoch_known :: "opaque_id option \<Rightarrow> dispatcher \<Rightarrow> lock_error + dispatcher" where
  "epoch_known current d =
     (case current of None \<Rightarrow> Inr d
      | Some e \<Rightarrow> (case install_epoch e (dp_operational d) of Inl x \<Rightarrow> Inl x
          | Inr st \<Rightarrow> Inr (d\<lparr>dp_operational := st\<rparr>)))"

definition report_fault ::
  "opaque_id option \<Rightarrow> opaque_id option \<Rightarrow> text_t \<Rightarrow> error_code \<Rightarrow> error_code option \<Rightarrow> timestamp \<Rightarrow> dispatcher \<Rightarrow>
   dispatcher" where
  "report_fault c i phase code secondary now d =
     d\<lparr>dp_operational := record_fault c i phase code secondary now (dp_operational d)\<rparr>"

definition report_paused :: "opaque_id \<times> opaque_id \<Rightarrow> timestamp \<Rightarrow> dispatcher \<Rightarrow> dispatcher" where
  "report_paused x now d =
     report_fault (Some (snd x)) (Some (fst x)) ''DISPATCH_PAUSED'' EC_DISPATCH_REJECTED None now d"

definition fence :: "opaque_id \<Rightarrow> dispatcher \<Rightarrow> dispatcher" where
  "fence i d = d\<lparr>dp_finishing := insert i (dp_finishing d)\<rparr>"

definition record_fatal ::
  "opaque_id option \<Rightarrow> opaque_id \<Rightarrow> text_t \<Rightarrow> error_code \<Rightarrow> error_code option \<Rightarrow> timestamp \<Rightarrow> dispatcher \<Rightarrow> dispatcher" where
  "record_fatal c i phase code secondary now d =
     (report_fault c (Some i) phase code secondary now d)\<lparr>dp_fatal_error := True\<rparr>"

section \<open>The steps\<close>

inductive dispatch_step :: "dispatcher \<Rightarrow> dispatcher \<Rightarrow> bool" where
  submits: "dispatch_step d (fst (submit_second i x now d))"
| cancels: "dispatch_step d (fst (cancel i d))"
| cancels_cases: "dispatch_step d (cancel_cases cs d)"
| pauses: "dispatch_step d (pause_claiming d)"
| enables: "enable_claiming d = Inr d' \<Longrightarrow> dispatch_step d d'"
| stops_admission: "dispatch_step d (stop_admission d)"
| requests_shutdown: "dispatch_step d (request_shutdown d)"
| shuts_down: "dispatch_step d (shutdown_section d)"
| starts: "dispatch_step d (start_threads d)"
| records: "dispatch_step d (report_fault c i phase code secondary now d)"
| confirms: "dispatch_step d (d\<lparr>dp_operational := confirm_finished_job i (dp_operational d)\<rparr>)"
| installs: "epoch_known e d = Inr d' \<Longrightarrow> dispatch_step d d'"
| returns: "at_point k Waiting d \<Longrightarrow> dp_stop_requested d \<Longrightarrow> dispatch_step d (goto k Returned d)"
| claims: "at_point k Waiting d \<Longrightarrow> \<not> dp_stop_requested d \<Longrightarrow>
    claim_section (wt_lane (dp_threads d ! k)) d = Some (i, c, d') \<Longrightarrow> dispatch_step d (goto k (Executing i c) d')"
| worker_cancels: "at_point k (Executing i c) d \<Longrightarrow> dp_shutdown_signal d \<Longrightarrow>
    dispatch_step d (signal_controller i (\<lambda>x. snd (cancel_controller CN_SERVICE_SHUTDOWN x)) d)"
| worker_retires: "at_point k (Executing i c) d \<Longrightarrow> dispatch_step d (signal_controller i (\<lambda>x. snd (retire x)) d)"
| completes: "at_point k (Executing i c) d \<Longrightarrow> dispatch_step d (goto k (Releasing i c) d)"
| fails: "at_point k (Executing i c) d \<Longrightarrow> dispatch_step d (goto k (Pausing i c) (stop_admission d))"
| failed_pauses: "at_point k (Pausing i c) d \<Longrightarrow> dispatch_step d (goto k (Fencing i c) (pause_claiming d))"
| failed_fences: "at_point k (Fencing i c) d \<Longrightarrow> dispatch_step d (goto k (Reporting i c) (fence i d))"
| reports: "at_point k (Reporting i c) d \<Longrightarrow> epoch_known e d = Inr d' \<Longrightarrow>
    dispatch_step d (goto k (Report_Paused i c (queued_job_identities d')) d')"
| report_fails: "at_point k (Reporting i c) d \<Longrightarrow> epoch_known e d = Inl x \<Longrightarrow>
    dispatch_step d (goto k (Dying i c) d)"
| reports_paused: "at_point k (Report_Paused i c (x # xs)) d \<Longrightarrow>
    dispatch_step d (goto k (Report_Paused i c xs) (report_paused x now d))"
| reported: "at_point k (Report_Paused i c []) d \<Longrightarrow>
    dispatch_step d (goto k (Releasing i c) (record_fatal c' i phase code secondary now d))"
| releases: "at_point k (Releasing i c) d \<Longrightarrow> dispatch_step d (goto k Waiting (release_section i c d))"
| dies: "at_point k (Dying i c) d \<Longrightarrow> dispatch_step d (goto k Returned (release_section i c d))"

inductive dispatch_reachable :: "dispatcher \<Rightarrow> bool" where
  created: "new_dispatcher p r n = Inr d \<Longrightarrow> dispatch_reachable d"
| stepped: "dispatch_reachable d \<Longrightarrow> dispatch_step d d' \<Longrightarrow> dispatch_reachable d'"

inductive_cases new_dispatcherE: "dispatch_reachable d"

section \<open>The queues\<close>

definition lane_jobs :: "lane \<Rightarrow> (opaque_id \<times> opaque_id \<times> lane) list \<Rightarrow> opaque_id list" where
  "lane_jobs l q = map fst (filter (\<lambda>(i, c, l'). l' = l) q)"

definition queue_ok :: "dispatcher \<Rightarrow> bool" where
  "queue_ok d \<longleftrightarrow>
     distinct (map fst (dp_queued d)) \<and> (\<forall>l. dp_queues d l = lane_jobs l (dp_queued d)) \<and>
     (\<forall>(i, c, l) \<in> set (dp_queued d). map_of (dp_running d) i = None \<and> c \<notin> dp_deleted_cases d)"

lemma lane_jobs_simps [simp]:
  "lane_jobs l [] = []"
  "lane_jobs l ((i, c, l') # q) = (if l' = l then i # lane_jobs l q else lane_jobs l q)"
  "lane_jobs l (q @ r) = lane_jobs l q @ lane_jobs l r"
  by (simp_all add: lane_jobs_def)

lemma set_lane_jobs: "i \<in> set (lane_jobs l q) \<longleftrightarrow> (\<exists>c. (i, c, l) \<in> set q)"
  by (force simp: lane_jobs_def)

lemma update_absent: "map_of xs k = None \<Longrightarrow> AList.update k v xs = xs @ [(k, v)]"
  by (induction xs) (auto split: if_splits)

lemma lane_jobs_delete:
  assumes "distinct (map fst q)" "map_of q i = Some (c, l')"
  shows "lane_jobs l (AList.delete i q) = (if l = l' then remove1 i (lane_jobs l q) else lane_jobs l q)"
  using assms
proof (induction q)
  case (Cons x q)
  obtain j c' l'' where x: "x = (j, c', l'')" by (cases x)
  show ?case
  proof (cases "j = i")
    case True
    have "AList.delete i q = q" using Cons.prems(1) by (simp add: x True AList.delete_idem)
    then show ?thesis using Cons.prems by (auto simp: x True)
  next
    case False
    then show ?thesis using Cons by (auto simp: x)
  qed
qed simp

lemma map_of_delete_other: "map_of (AList.delete i q) j = (if j = i then None else map_of q j)"
  by (simp add: AList.delete_conv')

lemma queues_of_drop:
  assumes "distinct (map fst (dp_queued d))" "\<forall>l. dp_queues d l = lane_jobs l (dp_queued d)"
    "map_of (dp_queued d) i = Some (c, l)"
  shows "distinct (map fst (dp_queued (drop_queued i l d)))"
    "dp_queues (drop_queued i l d) l' = lane_jobs l' (dp_queued (drop_queued i l d))"
  using assms by (auto simp: drop_queued_def lane_jobs_delete AList.distinct_delete)

lemma drop_queued_simps [simp]:
  "dp_queued (drop_queued i l d) = AList.delete i (dp_queued d)"
  "dp_running (drop_queued i l d) = dp_running d"
  "dp_deleted_cases (drop_queued i l d) = dp_deleted_cases d"
  "dp_active_cases (drop_queued i l d) = dp_active_cases d"
  "dp_finishing (drop_queued i l d) = dp_finishing d"
  "dp_threads (drop_queued i l d) = dp_threads d"
  "dp_accepting (drop_queued i l d) = dp_accepting d"
  "dp_claiming_enabled (drop_queued i l d) = dp_claiming_enabled d"
  "dp_stop_requested (drop_queued i l d) = dp_stop_requested d"
  "dp_operational (drop_queued i l d) = dp_operational d"
  "dp_fatal_error (drop_queued i l d) = dp_fatal_error d"
  "dp_counts (drop_queued i l d) = dp_counts d"
  by (simp_all add: drop_queued_def)

lemma queue_ok_drop:
  assumes "queue_ok d" "map_of (dp_queued d) i = Some (c, l)"
  shows "queue_ok (drop_queued i l d)"
proof -
  have "set (AList.delete i (dp_queued d)) \<subseteq> set (dp_queued d)" by (auto simp: AList.delete_eq)
  moreover have q: "distinct (map fst (dp_queued d))" "\<forall>l. dp_queues d l = lane_jobs l (dp_queued d)"
    using assms(1) by (simp_all add: queue_ok_def)
  ultimately show ?thesis using assms(1) queues_of_drop [OF q assms(2)] unfolding queue_ok_def by simp blast
qed

lemma queued_running: "queue_ok d \<Longrightarrow> map_of (dp_queued d) i = Some x \<Longrightarrow> map_of (dp_running d) i = None"
  by (fastforce simp: queue_ok_def dest: map_of_SomeD)

text \<open>Dropping the jobs of the selected cases, one after the other.\<close>

definition selected_job :: "opaque_id list \<Rightarrow> (opaque_id \<times> opaque_id \<times> lane) list \<Rightarrow> opaque_id \<Rightarrow> bool" where
  "selected_job cs xs i \<longleftrightarrow> (\<exists>c l. (i, c, l) \<in> set xs \<and> c \<in> set cs)"

lemma drop_if_selected_queued:
  "dp_queued (drop_if_selected cs x d) = filter (\<lambda>y. \<not> selected_job cs [x] (fst y)) (dp_queued d)"
  by (cases x) (auto simp: drop_if_selected_def selected_job_def AList.delete_eq case_prod_unfold intro!: filter_cong)

lemma drop_selected_queued:
  "dp_queued (fold (drop_if_selected cs) xs d) = filter (\<lambda>y. \<not> selected_job cs xs (fst y)) (dp_queued d)"
proof (induction xs arbitrary: d)
  case (Cons x xs)
  have "selected_job cs (x # xs) i \<longleftrightarrow> selected_job cs [x] i \<or> selected_job cs xs i" for i
    by (auto simp: selected_job_def)
  then show ?case by (simp add: Cons drop_if_selected_queued)
qed (simp add: selected_job_def)

lemma drop_if_selected_rest [simp]:
  "dp_running (drop_if_selected cs x d) = dp_running d"
  "dp_deleted_cases (drop_if_selected cs x d) = dp_deleted_cases d"
  "dp_active_cases (drop_if_selected cs x d) = dp_active_cases d"
  "dp_finishing (drop_if_selected cs x d) = dp_finishing d"
  "dp_threads (drop_if_selected cs x d) = dp_threads d"
  "dp_accepting (drop_if_selected cs x d) = dp_accepting d"
  "dp_claiming_enabled (drop_if_selected cs x d) = dp_claiming_enabled d"
  "dp_stop_requested (drop_if_selected cs x d) = dp_stop_requested d"
  "dp_operational (drop_if_selected cs x d) = dp_operational d"
  "dp_fatal_error (drop_if_selected cs x d) = dp_fatal_error d"
  "dp_counts (drop_if_selected cs x d) = dp_counts d"
  by (cases x; simp add: drop_if_selected_def)+

lemma drop_selected_rest [simp]:
  "dp_running (fold (drop_if_selected cs) xs d) = dp_running d"
  "dp_deleted_cases (fold (drop_if_selected cs) xs d) = dp_deleted_cases d"
  "dp_active_cases (fold (drop_if_selected cs) xs d) = dp_active_cases d"
  "dp_finishing (fold (drop_if_selected cs) xs d) = dp_finishing d"
  "dp_threads (fold (drop_if_selected cs) xs d) = dp_threads d"
  "dp_accepting (fold (drop_if_selected cs) xs d) = dp_accepting d"
  "dp_claiming_enabled (fold (drop_if_selected cs) xs d) = dp_claiming_enabled d"
  "dp_stop_requested (fold (drop_if_selected cs) xs d) = dp_stop_requested d"
  "dp_operational (fold (drop_if_selected cs) xs d) = dp_operational d"
  "dp_fatal_error (fold (drop_if_selected cs) xs d) = dp_fatal_error d"
  "dp_counts (fold (drop_if_selected cs) xs d) = dp_counts d"
  by (induction xs arbitrary: d) simp_all

lemma drop_selected_queues:
  assumes "distinct (map fst (dp_queued d))" "\<forall>l. dp_queues d l = lane_jobs l (dp_queued d)"
    "\<forall>(i, c, l) \<in> set xs. map_of (dp_queued d) i \<in> {None, Some (c, l)}" "distinct (map fst xs)"
  shows "distinct (map fst (dp_queued (fold (drop_if_selected cs) xs d))) \<and>
    (\<forall>l. dp_queues (fold (drop_if_selected cs) xs d) l = lane_jobs l (dp_queued (fold (drop_if_selected cs) xs d)))"
  using assms
proof (induction xs arbitrary: d)
  case (Cons x xs)
  obtain i c l where x: "x = (i, c, l)" by (cases x)
  show ?case
  proof (cases "c \<in> set cs \<and> map_of (dp_queued d) i = Some (c, l)")
    case True
    have r: "\<forall>(i', c', l') \<in> set xs. map_of (dp_queued (drop_queued i l d)) i' \<in> {None, Some (c', l')}"
    proof
      fix y assume "y \<in> set xs"
      then have "case y of (i', c', l') \<Rightarrow> map_of (dp_queued d) i' \<in> {None, Some (c', l')}"
        using Cons.prems(3) by simp
      then show "case y of (i', c', l') \<Rightarrow> map_of (dp_queued (drop_queued i l d)) i' \<in> {None, Some (c', l')}"
        by (cases y) (auto simp: map_of_delete_other)
    qed
    have e: "drop_if_selected cs x d = drop_queued i l d" using True by (simp add: x drop_if_selected_def)
    note q = queues_of_drop [OF Cons.prems(1,2) conjunct2 [OF True]]
    have "distinct (map fst xs)" using Cons.prems(4) by simp
    from Cons.IH [OF q(1) allI [OF q(2)] r this] show ?thesis unfolding fold_simps e .
  next
    case False
    have "drop_if_selected cs x d = d"
    proof (cases "c \<in> set cs")
      case True
      then have n: "map_of (dp_queued d) i = None" using False Cons.prems(3) by (auto simp: x)
      then have k: "i \<notin> fst ` set (dp_queued d)" by (simp add: map_of_eq_None_iff)
      then have "AList.delete i (dp_queued d) = dp_queued d" by (force simp: AList.delete_eq filter_id_conv)
      moreover have "remove1 i (dp_queues d l) = dp_queues d l"
      proof (rule remove1_idem)
        show "i \<notin> set (dp_queues d l)" using k Cons.prems(2) by (metis fst_conv image_eqI set_lane_jobs)
      qed
      ultimately show ?thesis using True by (simp add: x drop_if_selected_def drop_queued_def)
    qed (simp add: x drop_if_selected_def)
    then show ?thesis using Cons by (simp add: x)
  qed
qed simp

lemma cancel_where_simps [simp]:
  "dp_queued (cancel_where r p d) = dp_queued d"
  "dp_queues (cancel_where r p d) = dp_queues d"
  "dp_deleted_cases (cancel_where r p d) = dp_deleted_cases d"
  "dp_active_cases (cancel_where r p d) = dp_active_cases d"
  "dp_finishing (cancel_where r p d) = dp_finishing d"
  "dp_threads (cancel_where r p d) = dp_threads d"
  "dp_accepting (cancel_where r p d) = dp_accepting d"
  "dp_claiming_enabled (cancel_where r p d) = dp_claiming_enabled d"
  "dp_stop_requested (cancel_where r p d) = dp_stop_requested d"
  "dp_operational (cancel_where r p d) = dp_operational d"
  "dp_fatal_error (cancel_where r p d) = dp_fatal_error d"
  "dp_counts (cancel_where r p d) = dp_counts d"
  by (simp_all add: cancel_where_def)

lemma map_of_cancel_where:
  "map_of (dp_running (cancel_where r p d)) i =
     map_option (\<lambda>(c, k). (c, if p i c then snd (cancel_controller r k) else k)) (map_of (dp_running d) i)"
proof -
  have "map_of (map (\<lambda>(i, c, k). (i, c, if p i c then snd (cancel_controller r k) else k)) xs) i =
     map_option (\<lambda>(c, k). (c, if p i c then snd (cancel_controller r k) else k)) (map_of xs i)" for xs
    by (induction xs) auto
  then show ?thesis by (simp add: cancel_where_def)
qed

lemma queue_ok_cancel_cases:
  assumes "queue_ok d"
  shows "queue_ok (cancel_cases cs d)"
    and "dp_queued (cancel_cases cs d) = filter (\<lambda>(i, c, l). c \<notin> set cs) (dp_queued d)"
proof -
  define d1 where "d1 = d\<lparr>dp_deleted_cases := dp_deleted_cases d \<union> set cs\<rparr>"
  define d2 where "d2 = fold (drop_if_selected cs) (dp_queued d1) d1"
  have q1: "dp_queued d1 = dp_queued d" "dp_queues d1 = dp_queues d" "dp_running d1 = dp_running d"
    by (simp_all add: d1_def)
  have ok: "distinct (map fst (dp_queued d1))" "\<forall>l. dp_queues d1 l = lane_jobs l (dp_queued d1)"
    "\<forall>(i, c, l) \<in> set (dp_queued d1). map_of (dp_queued d1) i \<in> {None, Some (c, l)}"
    using assms by (auto simp: queue_ok_def q1)
  have q2: "distinct (map fst (dp_queued d2))" "\<forall>l. dp_queues d2 l = lane_jobs l (dp_queued d2)"
    using drop_selected_queues [OF ok ok(1), of cs] by (simp_all add: d2_def)
  have f: "dp_queued d2 = filter (\<lambda>(i, c, l). c \<notin> set cs) (dp_queued d)"
    unfolding d2_def drop_selected_queued q1
  proof (rule filter_cong [OF refl])
    fix x assume x: "x \<in> set (dp_queued d)"
    obtain i c l where e: "x = (i, c, l)" by (cases x)
    have m: "(i, y) \<in> set (dp_queued d) \<Longrightarrow> map_of (dp_queued d) i = Some y" for y
      by (rule map_of_is_SomeI [OF ok(1)[unfolded q1]])
    have u: "(i, c', l') \<in> set (dp_queued d) \<longleftrightarrow> c' = c \<and> l' = l" for c' l'
      using x m [of "(c, l)"] m [of "(c', l')"] by (metis e option.inject prod.inject)
    show "(\<not> selected_job cs (dp_queued d) (fst x)) = (case x of (i, c, l) \<Rightarrow> c \<notin> set cs)"
      by (simp add: selected_job_def e u)
  qed
  have e: "cancel_cases cs d = cancel_where CN_USER_CANCEL (\<lambda>i c. c \<in> set cs \<and> i \<notin> dp_finishing d2) d2"
    by (simp add: cancel_cases_def d1_def d2_def)
  show "dp_queued (cancel_cases cs d) = filter (\<lambda>(i, c, l). c \<notin> set cs) (dp_queued d)" by (simp add: e f)
  show "queue_ok (cancel_cases cs d)"
    using assms q2 by (auto simp: queue_ok_def e f map_of_cancel_where) (auto simp: d2_def d1_def)
qed

lemma cancel_cases_simps [simp]:
  "dp_threads (cancel_cases cs d) = dp_threads d"
  "dp_active_cases (cancel_cases cs d) = dp_active_cases d"
  "dp_finishing (cancel_cases cs d) = dp_finishing d"
  "dp_accepting (cancel_cases cs d) = dp_accepting d"
  "dp_claiming_enabled (cancel_cases cs d) = dp_claiming_enabled d"
  "dp_stop_requested (cancel_cases cs d) = dp_stop_requested d"
  "dp_operational (cancel_cases cs d) = dp_operational d"
  "dp_fatal_error (cancel_cases cs d) = dp_fatal_error d"
  "dp_deleted_cases (cancel_cases cs d) = dp_deleted_cases d \<union> set cs"
  "dp_counts (cancel_cases cs d) = dp_counts d"
  by (simp_all add: cancel_cases_def)

lemma cancel_cases_running:
  "dp_running (cancel_cases cs d) =
     dp_running (cancel_where CN_USER_CANCEL (\<lambda>i c. c \<in> set cs \<and> i \<notin> dp_finishing d) d)"
  by (simp add: cancel_cases_def cancel_where_def)

end
