(* ===== verification/Dispatch_Laws.thy ===== *)
theory Dispatch_Laws
  imports Dispatcher
begin

text \<open>
  What every step of the dispatcher keeps: the queues are the queued jobs lane by lane; the running jobs have
  distinct cases, and each is owned by one thread; after a shutdown nothing is queued and every running job is told;
  the admission latch never opens again; a fatal error leaves no queued job without a fault.
\<close>

section \<open>The queues\<close>

lemma queue_ok_submit: "queue_ok d \<Longrightarrow> queue_ok (fst (submit_second i x now d))"
  by (cases x) (auto simp: queue_ok_def submit_second_def enqueue_def known_job_def update_absent
    map_of_eq_None_iff lane_jobs_def split: prod.splits)

lemma queue_ok_congI:
  assumes "queue_ok d" "dp_queued d' = dp_queued d" "dp_queues d' = dp_queues d" "dp_deleted_cases d' = dp_deleted_cases d"
    "\<And>i. map_of (dp_running d) i = None \<Longrightarrow> map_of (dp_running d') i = None"
  shows "queue_ok d'"
  using assms by (auto simp: queue_ok_def)

lemma queue_ok_cancel_where: "queue_ok d \<Longrightarrow> queue_ok (cancel_where r p d)"
  by (erule queue_ok_congI) (auto simp: map_of_cancel_where)

lemma queue_ok_cancel: "queue_ok d \<Longrightarrow> queue_ok (fst (cancel i d))"
  by (auto simp: cancel_def queue_ok_drop queue_ok_cancel_where split: option.splits)

lemma running_keys_map: "map_of (map (\<lambda>(j, c, k). (j, c, f j c k)) xs) i = None \<longleftrightarrow> map_of xs i = None"
  by (induction xs) auto

lemma queue_ok_claim:
  assumes "queue_ok d" "claim_section l d = Some (i, c, d')"
  shows "queue_ok d'"
proof -
  from assms(2) obtain l' where c: "map_of (dp_queued d) i = Some (c, l')" "eligible l d = Some i"
    "d' = (drop_queued i l d)\<lparr>dp_running := AList.update i (c, new_controller) (dp_running d),
       dp_active_cases := insert c (dp_active_cases d)\<rparr>"
    by (auto simp: claim_section_def split: option.splits)
  have "i \<in> set (dp_queues d l)" using c(2) by (auto simp: eligible_def find_Some_iff split: if_splits)
  then obtain c' where "(i, c', l) \<in> set (dp_queued d)" using assms(1) by (auto simp: queue_ok_def set_lane_jobs)
  then have l: "l' = l" using assms(1) c(1) map_of_is_SomeI [of "dp_queued d" i] unfolding queue_ok_def
    by (metis option.inject prod.inject)
  have q: "queue_ok (drop_queued i l d)" using queue_ok_drop [OF assms(1), of i c l] c(1) l by simp
  show ?thesis using q by (auto simp: queue_ok_def c(3) AList.update_conv' AList.delete_eq drop_queued_def split: prod.splits)
qed

lemma queue_ok_step:
  assumes "dispatch_step d d'" "queue_ok d"
  shows "queue_ok d'"
  using assms
proof (cases rule: dispatch_step.cases)
  case (claims k i c d1)
  then have "queue_ok d1" using queue_ok_claim assms(2) by blast
  then show ?thesis unfolding claims by (rule queue_ok_congI) (simp_all add: goto_def)
qed (auto intro: queue_ok_submit queue_ok_cancel queue_ok_cancel_cases(1) assms(2)
      queue_ok_congI [OF assms(2)]
    simp: pause_claiming_def enable_claiming_def stop_admission_def request_shutdown_def request_signal_def
      start_threads_def report_fault_def epoch_known_def goto_def signal_controller_def fence_def report_paused_def
      record_fatal_def release_section_def map_of_delete_other running_keys_map shutdown_section_def queue_ok_def [of "cancel_where _ _ _"]
    split: if_splits option.splits sum.splits)

section \<open>The running jobs and their threads\<close>

fun owned :: "program_point \<Rightarrow> (opaque_id \<times> opaque_id) option" where
  "owned Waiting = None"
| "owned Returned = None"
| "owned (Executing i c) = Some (i, c)"
| "owned (Pausing i c) = Some (i, c)"
| "owned (Fencing i c) = Some (i, c)"
| "owned (Reporting i c) = Some (i, c)"
| "owned (Report_Paused i c xs) = Some (i, c)"
| "owned (Releasing i c) = Some (i, c)"
| "owned (Dying i c) = Some (i, c)"

definition running_jobs :: "dispatcher \<Rightarrow> (opaque_id \<times> opaque_id) list" where
  "running_jobs d = map (\<lambda>(i, c, k). (i, c)) (dp_running d)"

definition points :: "dispatcher \<Rightarrow> program_point list" where
  "points d = map wt_at (dp_threads d)"

definition owns :: "program_point list \<Rightarrow> nat \<Rightarrow> opaque_id \<times> opaque_id \<Rightarrow> bool" where
  "owns ps k x \<longleftrightarrow> k < length ps \<and> owned (ps ! k) = Some x"

definition owners_ok ::
  "(opaque_id \<times> opaque_id) list \<Rightarrow> opaque_id set \<Rightarrow> opaque_id set \<Rightarrow> program_point list \<Rightarrow> bool" where
  "owners_ok rs active fin ps \<longleftrightarrow>
     distinct (map fst rs) \<and> distinct (map snd rs) \<and> active = snd ` set rs \<and> fin \<subseteq> fst ` set rs \<and>
     (\<forall>k x. owns ps k x \<longrightarrow> x \<in> set rs) \<and> (\<forall>k m x. owns ps k x \<longrightarrow> owns ps m x \<longrightarrow> m = k) \<and>
     (\<forall>x \<in> set rs. \<exists>k. owns ps k x)"

definition running_ok :: "dispatcher \<Rightarrow> bool" where
  "running_ok d \<longleftrightarrow> owners_ok (running_jobs d) (dp_active_cases d) (dp_finishing d) (points d)"

lemma owns_update: "owns (ps[k := p]) m x \<longleftrightarrow> (if m = k then k < length ps \<and> owned p = Some x else owns ps m x)"
  by (auto simp: owns_def)

lemma owners_ok_goto:
  assumes "owners_ok rs a f ps" "k < length ps" "owned p = owned (ps ! k)"
  shows "owners_ok rs a f (ps[k := p])"
proof -
  have "owns (ps[k := p]) = owns ps"
    using assms(2,3) unfolding fun_eq_iff owns_update by (auto simp: owns_def)
  then show ?thesis using assms(1) by (simp add: owners_ok_def)
qed

lemma owners_okD:
  assumes "owners_ok rs a f ps"
  shows "distinct (map fst rs)" "distinct (map snd rs)" "a = snd ` set rs" "f \<subseteq> fst ` set rs"
    "owns ps k x \<Longrightarrow> x \<in> set rs" "owns ps k x \<Longrightarrow> owns ps m x \<Longrightarrow> m = k" "x \<in> set rs \<Longrightarrow> \<exists>k. owns ps k x"
  using assms unfolding owners_ok_def by blast+

lemma owners_okI:
  assumes "distinct (map fst rs)" "distinct (map snd rs)" "a = snd ` set rs" "f \<subseteq> fst ` set rs"
    "\<And>k x. owns ps k x \<Longrightarrow> x \<in> set rs" "\<And>k m x. owns ps k x \<Longrightarrow> owns ps m x \<Longrightarrow> m = k"
    "\<And>x. x \<in> set rs \<Longrightarrow> \<exists>k. owns ps k x"
  shows "owners_ok rs a f ps"
  using assms unfolding owners_ok_def by blast

lemma owners_ok_claim:
  assumes "owners_ok rs a f ps" "k < length ps" "owned (ps ! k) = None" "i \<notin> fst ` set rs" "c \<notin> a"
  shows "owners_ok (rs @ [(i, c)]) (insert c a) f (ps[k := Executing i c])"
proof -
  note ok = owners_okD [OF assms(1)]
  have o: "owns (ps[k := Executing i c]) m x \<longleftrightarrow> (m = k \<and> x = (i, c)) \<or> owns ps m x" for m x
    using assms(2,3) unfolding owns_update by (auto simp: owns_def)
  have "(i, c) \<notin> set rs" using assms(4) image_eqI [of i fst "(i, c)"] by auto
  then have n: "\<not> owns ps m (i, c)" for m using ok(5) by blast
  show ?thesis
  proof (rule owners_okI)
    show "distinct (map fst (rs @ [(i, c)]))" using ok(1) assms(4) by simp
    show "distinct (map snd (rs @ [(i, c)]))" using ok(2,3) assms(5) by simp
    show "insert c a = snd ` set (rs @ [(i, c)])" using ok(3) by simp
    show "f \<subseteq> fst ` set (rs @ [(i, c)])" using ok(4) by auto
    show "x \<in> set (rs @ [(i, c)])" if "owns (ps[k := Executing i c]) m x" for m x
      using that ok(5) [of m x] unfolding o by auto
    show "l = m" if "owns (ps[k := Executing i c]) m x" "owns (ps[k := Executing i c]) l x" for m l x
      using that ok(6) n unfolding o by blast
    show "\<exists>m. owns (ps[k := Executing i c]) m x" if "x \<in> set (rs @ [(i, c)])" for x
      using that ok(7) [of x] unfolding o by auto
  qed
qed

lemma owners_ok_release:
  assumes "owners_ok rs a f ps" "k < length ps" "owned (ps ! k) = Some (i, c)" "owned p = None"
  shows "owners_ok (filter (\<lambda>x. fst x \<noteq> i) rs) (a - {c}) (f - {i}) (ps[k := p])"
proof -
  note ok = owners_okD [OF assms(1)]
  have k: "owns ps k (i, c)" using assms(2,3) by (simp add: owns_def)
  note m = ok(5) [OF k]
  have inj: "inj_on fst (set rs)" "inj_on snd (set rs)" using ok(1,2) by (simp_all add: distinct_map)
  have one: "x = (i, c)" if "x \<in> set rs" "fst x = i \<or> snd x = c" for x
    using that(2)
  proof
    assume "fst x = i"
    then show ?thesis using inj_onD [OF inj(1) _ that(1) m] by simp
  next
    assume "snd x = c"
    then show ?thesis using inj_onD [OF inj(2) _ that(1) m] by simp
  qed
  have set: "x \<in> set (filter (\<lambda>x. fst x \<noteq> i) rs) \<longleftrightarrow> x \<in> set rs \<and> x \<noteq> (i, c)" for x
    using one [of x] by (cases x) auto
  have o: "owns (ps[k := p]) n x \<longleftrightarrow> owns ps n x \<and> x \<noteq> (i, c)" for n x
  proof (cases "n = k")
    case True
    then show ?thesis using assms(3,4) by (auto simp: owns_update) (simp add: owns_def)
  next
    case False
    then show ?thesis using ok(6) [OF k, of n] unfolding owns_update by auto
  qed
  show ?thesis
  proof (rule owners_okI)
    show "distinct (map fst (filter (\<lambda>x. fst x \<noteq> i) rs))" "distinct (map snd (filter (\<lambda>x. fst x \<noteq> i) rs))"
      using ok(1,2) by (simp_all add: distinct_map_filter)
    show "a - {c} = snd ` set (filter (\<lambda>x. fst x \<noteq> i) rs)"
    proof (intro set_eqI iffI)
      fix y assume "y \<in> a - {c}"
      then obtain x where "x \<in> set rs" "snd x = y" "y \<noteq> c" using ok(3) by auto
      then have "x \<in> set (filter (\<lambda>x. fst x \<noteq> i) rs)" unfolding set by auto
      then show "y \<in> snd ` set (filter (\<lambda>x. fst x \<noteq> i) rs)" using \<open>snd x = y\<close> by (intro image_eqI [of y snd x]) simp_all
    next
      fix y assume "y \<in> snd ` set (filter (\<lambda>x. fst x \<noteq> i) rs)"
      then obtain x where x: "x \<in> set rs" "x \<noteq> (i, c)" "y = snd x" unfolding image_iff Bex_def set by auto
      then have "y \<noteq> c" using one [of x] by blast
      then show "y \<in> a - {c}" using ok(3) x by simp
    qed
    show "f - {i} \<subseteq> fst ` set (filter (\<lambda>x. fst x \<noteq> i) rs)"
    proof
      fix y assume "y \<in> f - {i}"
      then obtain x where "x \<in> set rs" "fst x = y" "y \<noteq> i" using ok(4) by auto
      then have "x \<in> set (filter (\<lambda>x. fst x \<noteq> i) rs)" by simp
      then show "y \<in> fst ` set (filter (\<lambda>x. fst x \<noteq> i) rs)" using \<open>fst x = y\<close> by (intro image_eqI [of y fst x]) simp_all
    qed
    show "x \<in> set (filter (\<lambda>x. fst x \<noteq> i) rs)" if "owns (ps[k := p]) n x" for n x
      using that ok(5) unfolding o set by blast
    show "l = n" if "owns (ps[k := p]) n x" "owns (ps[k := p]) l x" for n l x
      using that ok(6) unfolding o by blast
    show "\<exists>n. owns (ps[k := p]) n x" if "x \<in> set (filter (\<lambda>x. fst x \<noteq> i) rs)" for x
      using that ok(7) unfolding o set by blast
  qed
qed

lemma running_jobs_map: "map (\<lambda>(i, c, k). (i, c)) (map (\<lambda>(j, c, k). (j, c, f j c k)) xs) = map (\<lambda>(i, c, k). (i, c)) xs"
  by (simp add: case_prod_unfold)

lemma running_jobs_cancel_where [simp]: "running_jobs (cancel_where r p d) = running_jobs d"
  unfolding running_jobs_def cancel_where_def by (simp add: running_jobs_map del: map_map)

lemma running_jobs_signal [simp]: "running_jobs (signal_controller i f d) = running_jobs d"
  unfolding running_jobs_def signal_controller_def by (simp add: running_jobs_map del: map_map)

lemma running_jobs_cancel_cases [simp]: "running_jobs (cancel_cases cs d) = running_jobs d"
  using running_jobs_cancel_where by (simp add: running_jobs_def cancel_cases_running)

lemma points_goto: "points (goto k p d) = (points d)[k := p]"
  by (cases "k < length (dp_threads d)") (simp_all add: points_def goto_def map_update)

lemma at_point_points: "at_point k p d \<longleftrightarrow> k < length (points d) \<and> points d ! k = p"
  by (auto simp: at_point_def points_def)

lemma running_ok_congI:
  assumes "running_ok d" "running_jobs d' = running_jobs d" "dp_active_cases d' = dp_active_cases d"
    "dp_finishing d' = dp_finishing d" "points d' = points d"
  shows "running_ok d'"
  using assms by (simp add: running_ok_def)

lemma running_ok_goto:
  assumes "running_ok d" "at_point k q d" "owned p = owned q" "running_jobs d' = running_jobs d"
    "dp_active_cases d' = dp_active_cases d" "dp_finishing d' = dp_finishing d" "points d' = points d"
  shows "running_ok (goto k p d')"
proof -
  have e: "running_jobs (goto k p d') = running_jobs d" "dp_active_cases (goto k p d') = dp_active_cases d"
    "dp_finishing (goto k p d') = dp_finishing d"
    using assms by (simp_all add: goto_def running_jobs_def)
  show ?thesis unfolding running_ok_def e points_goto assms(7)
    using assms(1-3) by (intro owners_ok_goto) (auto simp: running_ok_def at_point_points)
qed

lemma running_ok_claim:
  assumes "running_ok d" "queue_ok d" "at_point k Waiting d" "claim_section l d = Some (i, c, d')"
  shows "running_ok (goto k (Executing i c) d')"
proof -
  from assms(4) obtain l' where c: "map_of (dp_queued d) i = Some (c, l')" "eligible l d = Some i"
    "d' = (drop_queued i l d)\<lparr>dp_running := AList.update i (c, new_controller) (dp_running d),
       dp_active_cases := insert c (dp_active_cases d)\<rparr>"
    by (auto simp: claim_section_def split: option.splits)
  have f: "c \<notin> dp_active_cases d"
    using c(1,2) by (auto simp: eligible_def find_Some_iff case_busy_def split: if_splits)
  have n: "map_of (dp_running d) i = None" using queued_running [OF assms(2) c(1)] .
  have e: "running_jobs (goto k p d') = running_jobs d @ [(i, c)]" "dp_active_cases (goto k p d') = insert c (dp_active_cases d)"
    "dp_finishing (goto k p d') = dp_finishing d" "points d' = points d" for p
    using n by (simp_all add: goto_def running_jobs_def c(3) update_absent points_def)
  have "i \<notin> fst ` set (running_jobs d)" using n by (force simp: running_jobs_def map_of_eq_None_iff)
  then show ?thesis unfolding running_ok_def e points_goto
    using assms(1,3) f by (intro owners_ok_claim) (auto simp: running_ok_def at_point_points)
qed

lemma running_ok_release:
  assumes "running_ok d" "at_point k q d" "owned q = Some (i, c)" "owned p = None"
  shows "running_ok (goto k p (release_section i c d))"
proof -
  have e: "running_jobs (goto k p (release_section i c d)) = filter (\<lambda>x. fst x \<noteq> i) (running_jobs d)"
    "dp_active_cases (goto k p (release_section i c d)) = dp_active_cases d - {c}"
    "dp_finishing (goto k p (release_section i c d)) = dp_finishing d - {i}" "points (release_section i c d) = points d"
    by (auto simp: goto_def running_jobs_def release_section_def AList.delete_eq filter_map o_def case_prod_unfold points_def
      intro!: arg_cong [of _ _ "map _"] filter_cong)
  show ?thesis unfolding running_ok_def e points_goto
    using assms by (intro owners_ok_release) (auto simp: running_ok_def at_point_points)
qed

lemma running_ok_start: "running_ok d \<Longrightarrow> running_ok (start_threads d)"
proof (cases "dp_threads d = []")
  case True
  assume ok: "running_ok d"
  then have "running_jobs d = []" using True by (cases "running_jobs d") (auto simp: running_ok_def owners_ok_def points_def owns_def)
  moreover have "\<forall>p \<in> set (points (start_threads d)). p = Waiting"
    using True by (auto simp: start_threads_def points_def)
  then have "owned (points (start_threads d) ! k) = None" if "k < length (points (start_threads d))" for k
    using nth_mem [OF that] by auto
  ultimately show ?thesis
    using ok True by (auto simp: running_ok_def owners_ok_def owns_def start_threads_def running_jobs_def)
qed (simp add: start_threads_def)

lemma running_jobs_updates [simp]:
  "running_jobs (d\<lparr>dp_queues := x0\<rparr>) = running_jobs d"
  "running_jobs (d\<lparr>dp_queued := x1\<rparr>) = running_jobs d"
  "running_jobs (d\<lparr>dp_deleted_cases := x2\<rparr>) = running_jobs d"
  "running_jobs (d\<lparr>dp_accepting := x3\<rparr>) = running_jobs d"
  "running_jobs (d\<lparr>dp_claiming_enabled := x4\<rparr>) = running_jobs d"
  "running_jobs (d\<lparr>dp_stop_requested := x5\<rparr>) = running_jobs d"
  "running_jobs (d\<lparr>dp_operational := x6\<rparr>) = running_jobs d"
  "running_jobs (d\<lparr>dp_shutdown_signal := x7\<rparr>) = running_jobs d"
  "running_jobs (d\<lparr>dp_backoff_shutdown := x8\<rparr>) = running_jobs d"
  "running_jobs (d\<lparr>dp_fatal_error := x9\<rparr>) = running_jobs d"
  by (simp_all add: running_jobs_def)

lemma points_updates [simp]:
  "points (d\<lparr>dp_queues := x0\<rparr>) = points d"
  "points (d\<lparr>dp_queued := x1\<rparr>) = points d"
  "points (d\<lparr>dp_deleted_cases := x2\<rparr>) = points d"
  "points (d\<lparr>dp_accepting := x3\<rparr>) = points d"
  "points (d\<lparr>dp_claiming_enabled := x4\<rparr>) = points d"
  "points (d\<lparr>dp_stop_requested := x5\<rparr>) = points d"
  "points (d\<lparr>dp_operational := x6\<rparr>) = points d"
  "points (d\<lparr>dp_shutdown_signal := x7\<rparr>) = points d"
  "points (d\<lparr>dp_backoff_shutdown := x8\<rparr>) = points d"
  "points (d\<lparr>dp_fatal_error := x9\<rparr>) = points d"
  "points (cancel_where r p d) = points d"
  "points (cancel_cases cs d) = points d"
  "points (signal_controller i f d) = points d"
  "points (drop_queued i l d) = points d"
  by (simp_all add: points_def signal_controller_def)

lemma running_jobs_drop [simp]: "running_jobs (drop_queued i l d) = running_jobs d"
  by (simp add: running_jobs_def)

lemma signal_controller_simps [simp]:
  "dp_active_cases (signal_controller i f d) = dp_active_cases d"
  "dp_finishing (signal_controller i f d) = dp_finishing d"
  "dp_stop_requested (signal_controller i f d) = dp_stop_requested d"
  "dp_queued (signal_controller i f d) = dp_queued d"
  "dp_fatal_error (signal_controller i f d) = dp_fatal_error d"
  "dp_accepting (signal_controller i f d) = dp_accepting d"
  "dp_claiming_enabled (signal_controller i f d) = dp_claiming_enabled d"
  by (simp_all add: signal_controller_def)

lemma running_ok_step:
  assumes "dispatch_step d d'" "running_ok d" "queue_ok d"
  shows "running_ok d'"
  using assms(1)
proof (cases rule: dispatch_step.cases)
  case (claims k i c d1)
  then show ?thesis using running_ok_claim assms(2,3) by blast
next
  case (failed_fences k i c)
  have o: "owners_ok (running_jobs d) (dp_active_cases d) (insert i (dp_finishing d)) (points d)"
  proof -
    have "owns (points d) k (i, c)" using failed_fences(2) by (simp add: at_point_points owns_def)
    then have "(i, c) \<in> set (running_jobs d)" using assms(2) by (auto simp: running_ok_def dest: owners_okD(5))
    then have "i \<in> fst ` set (running_jobs d)" by force
    then show ?thesis using assms(2) by (auto simp: running_ok_def owners_ok_def)
  qed
  then have "running_ok (fence i d)" by (simp add: running_ok_def fence_def running_jobs_def points_def)
  moreover have "at_point k (Fencing i c) (fence i d)" using failed_fences(2) by (simp add: at_point_def fence_def)
  ultimately show ?thesis unfolding failed_fences by (rule running_ok_goto) simp_all
next
  case (releases k i c)
  then show ?thesis using running_ok_release [OF assms(2)] by simp
next
  case (dies k i c)
  then show ?thesis using running_ok_release [OF assms(2)] by simp
qed (auto intro: running_ok_start running_ok_congI [OF assms(2)] running_ok_goto [OF assms(2)]
    simp: submit_second_def enqueue_def cancel_def pause_claiming_def enable_claiming_def stop_admission_def
      request_shutdown_def request_signal_def report_fault_def epoch_known_def report_paused_def record_fatal_def
      shutdown_section_def
    split: if_splits option.splits sum.splits prod.splits)

section \<open>Controllers\<close>

text \<open>A step only advances the controller of a job that keeps running.\<close>

lemma map_of_running_map:
  "map_of (map (\<lambda>(j, c, k). (j, c, f j c k)) xs) i = map_option (\<lambda>(c, k). (c, f i c k)) (map_of xs i)"
  by (induction xs) auto

lemma claim_keeps_running:
  assumes "claim_section l d = Some (i, c, d')" "queue_ok d" "map_of (dp_running d) j = Some x"
  shows "map_of (dp_running d') j = Some x"
proof -
  have "map_of (dp_queued d) i \<noteq> None" "dp_running d' = AList.update i (c, new_controller) (dp_running d)"
    using assms(1) by (auto simp: claim_section_def split: option.splits)
  then show ?thesis using assms(2,3) queued_running [OF assms(2), of i] by (auto simp: AList.update_conv')
qed

lemma controller_step:
  assumes "dispatch_step d d'" "queue_ok d" "map_of (dp_running d) j = Some (c, x)" "map_of (dp_running d') j = Some (c', x')"
  shows "c' = c \<and> controller_le x x'"
  using assms(1)
proof (cases rule: dispatch_step.cases)
  case (claims k i c1 d1)
  then have "map_of (dp_running d') j = Some (c, x)" using claim_keeps_running assms(2,3) by (fastforce simp: goto_def)
  then show ?thesis using assms(4) by simp
qed (insert assms(3,4), auto simp: submit_second_def enqueue_def cancel_def pause_claiming_def enable_claiming_def stop_admission_def
      request_shutdown_def request_signal_def report_fault_def epoch_known_def report_paused_def record_fatal_def
      shutdown_section_def goto_def fence_def release_section_def map_of_delete_other start_threads_def
      map_of_cancel_where cancel_cases_running signal_controller_def map_of_running_map cancel_le retire_le
    split: if_splits option.splits sum.splits prod.splits)

section \<open>Shutdown\<close>

definition stop_ok :: "dispatcher \<Rightarrow> bool" where
  "stop_ok d \<longleftrightarrow>
     (dp_stop_requested d \<longrightarrow> dp_queued d = [] \<and> \<not> dp_accepting d \<and> \<not> dp_claiming_enabled d \<and>
        (\<forall>(i, c, k) \<in> set (dp_running d). settled_controller k))"

lemma settled_cancel: "settled_controller k \<Longrightarrow> settled_controller (snd (cancel_controller r k))"
  by (rule settled_mono [OF _ cancel_le])

lemma settled_retire: "settled_controller k \<Longrightarrow> settled_controller (snd (retire k))"
  by (rule settled_mono [OF _ retire_le])

lemma stop_ok_congI:
  assumes "stop_ok d" "dp_stop_requested d' = dp_stop_requested d" "dp_queued d = [] \<Longrightarrow> dp_queued d' = []"
    "dp_accepting d' = dp_accepting d" "dp_claiming_enabled d' \<Longrightarrow> dp_claiming_enabled d"
    "\<And>i c k. (i, c, k) \<in> set (dp_running d') \<Longrightarrow> \<exists>k0. (i, c, k0) \<in> set (dp_running d) \<and> controller_le k0 k"
  shows "stop_ok d'"
  using assms unfolding stop_ok_def by (fastforce dest: settled_mono)

lemma cancel_where_from:
  "(i, c, k) \<in> set (dp_running (cancel_where r p d)) \<Longrightarrow> \<exists>k0. (i, c, k0) \<in> set (dp_running d) \<and> controller_le k0 k"
  using cancel_le by (fastforce simp: cancel_where_def split: if_splits)

lemma signal_from:
  assumes "\<And>k. controller_le k (f k)" "(i, c, k) \<in> set (dp_running (signal_controller j f d))"
  shows "\<exists>k0. (i, c, k0) \<in> set (dp_running d) \<and> controller_le k0 k"
  using assms by (fastforce simp: signal_controller_def split: if_splits)

lemma stop_ok_step:
  assumes "dispatch_step d d'" "stop_ok d"
  shows "stop_ok d'"
  using assms(1)
proof (cases rule: dispatch_step.cases)
  case (shuts_down)
  then show ?thesis
    by (auto simp: stop_ok_def shutdown_section_def cancel_where_def cancel_settles)
next
  case (submits i x now)
  then show ?thesis using assms(2)
    by (auto simp: stop_ok_def submit_second_def enqueue_def split: prod.splits)
next
  case (claims k i c d1)
  then show ?thesis by (auto simp: stop_ok_def goto_def claim_section_def split: option.splits)
next
  case (cancels i)
  then show ?thesis using assms(2)
    by (auto simp: cancel_def intro!: stop_ok_congI [OF assms(2)] dest: cancel_where_from split: option.splits)
next
  case (cancels_cases cs)
  then show ?thesis
    by (auto intro!: stop_ok_congI [OF assms(2)] simp: cancel_cases_running dest: cancel_where_from)
       (auto simp: cancel_cases_def drop_selected_queued)
next
  case (worker_cancels k i c)
  show ?thesis unfolding worker_cancels(1)
    by (rule stop_ok_congI [OF assms(2)]) (auto dest!: signal_from [rotated] intro: cancel_le)
next
  case (worker_retires k i c)
  show ?thesis unfolding worker_retires(1)
    by (rule stop_ok_congI [OF assms(2)]) (auto dest!: signal_from [rotated] intro: retire_le)
next
  case enables
  then show ?thesis by (auto simp: enable_claiming_def stop_ok_def split: if_splits)
qed (auto intro!: stop_ok_congI [OF assms(2)]
    simp: pause_claiming_def enable_claiming_def stop_admission_def request_shutdown_def request_signal_def report_fault_def
      epoch_known_def report_paused_def record_fatal_def goto_def fence_def release_section_def start_threads_def AList.delete_eq
    split: if_splits option.splits sum.splits)

section \<open>The admission latch and the faults\<close>

definition admitting :: "dispatcher \<Rightarrow> bool" where
  "admitting d \<longleftrightarrow> ol_accepting (dp_operational d)"

definition fault_keys :: "dispatcher \<Rightarrow> fault_key set" where
  "fault_keys d = fst ` set (ol_faults (dp_operational d))"

definition paused_key :: "opaque_id \<times> opaque_id \<Rightarrow> fault_key" where
  "paused_key x = (Some (snd x), Some (fst x), ''DISPATCH_PAUSED'')"

lemma record_fault_keys:
  "fst ` set (ol_faults (record_fault c i phase code secondary now st)) = insert (c, i, phase) (fst ` set (ol_faults st))"
  by (simp add: record_fault_def AList.dom_update)

lemma record_fault_closes [simp]: "\<not> ol_accepting (record_fault c i phase code secondary now st)"
  by (simp add: record_fault_def)

text \<open>Faults are only added, the latch is never opened, and once it is closed the queues only lose jobs.\<close>

lemma latch_step:
  assumes "dispatch_step d d'" "queue_ok d"
  shows "fault_keys d \<subseteq> fault_keys d'" "\<not> admitting d \<Longrightarrow> \<not> admitting d'"
    "\<not> admitting d \<Longrightarrow> set (dp_queued d') \<subseteq> set (dp_queued d)"
  using assms(1)
proof (atomize (full), cases rule: dispatch_step.cases)
  case (cancels_cases cs)
  then show "fault_keys d \<subseteq> fault_keys d' \<and> (\<not> admitting d \<longrightarrow> \<not> admitting d') \<and>
    (\<not> admitting d \<longrightarrow> set (dp_queued d') \<subseteq> set (dp_queued d))"
    using queue_ok_cancel_cases(2) [OF assms(2)] by (auto simp: fault_keys_def admitting_def)
qed (auto simp: fault_keys_def admitting_def submit_second_def enqueue_def cancel_def pause_claiming_def enable_claiming_def stop_admission_def
      stop_accepting_def request_shutdown_def request_signal_def report_fault_def epoch_known_def install_epoch_def
      report_paused_def record_fatal_def shutdown_section_def goto_def fence_def release_section_def start_threads_def
      signal_controller_def claim_section_def AList.delete_eq record_fault_keys confirm_finished_job_def
    split: if_splits option.splits sum.splits prod.splits)

fun unreported :: "program_point \<Rightarrow> (opaque_id \<times> opaque_id) list option" where
  "unreported (Report_Paused i c xs) = Some xs"
| "unreported p = None"

text \<open>Where the failure of a job has closed the admission.\<close>

fun failing :: "program_point \<Rightarrow> bool" where
  "failing (Pausing i c) \<longleftrightarrow> True"
| "failing (Fencing i c) \<longleftrightarrow> True"
| "failing (Reporting i c) \<longleftrightarrow> True"
| "failing (Report_Paused i c xs) \<longleftrightarrow> True"
| "failing p \<longleftrightarrow> False"

definition all_reported :: "dispatcher \<Rightarrow> (opaque_id \<times> opaque_id) list \<Rightarrow> bool" where
  "all_reported d xs \<longleftrightarrow>
     (\<forall>(i, c, l) \<in> set (dp_queued d). (i, c) \<in> set xs \<or> paused_key (i, c) \<in> fault_keys d)"

definition report_ok :: "dispatcher \<Rightarrow> bool" where
  "report_ok d \<longleftrightarrow>
     (\<forall>p \<in> set (points d). failing p \<longrightarrow> \<not> admitting d) \<and>
     (\<forall>p \<in> set (points d). \<forall>xs. unreported p = Some xs \<longrightarrow> all_reported d xs) \<and>
     (dp_fatal_error d \<longrightarrow> \<not> admitting d \<and> all_reported d [])"

lemma all_reported_mono:
  assumes "all_reported d xs" "set (dp_queued d') \<subseteq> set (dp_queued d)" "fault_keys d \<subseteq> fault_keys d'" "set xs \<subseteq> set ys"
  shows "all_reported d' ys"
  using assms unfolding all_reported_def by blast

text \<open>What a step does to the points: it leaves them, sets one, or makes the waiting threads.\<close>

lemma report_ok_keep:
  assumes "dispatch_step d d'" "queue_ok d" "report_ok d"
    "\<And>p. p \<in> set (points d') \<Longrightarrow> p \<in> set (points d) \<or> (failing p \<longrightarrow> \<not> admitting d') \<and>
       (\<forall>xs. unreported p = Some xs \<longrightarrow> all_reported d' xs)"
    "dp_fatal_error d' \<Longrightarrow> \<not> dp_fatal_error d \<Longrightarrow> \<not> admitting d' \<and> all_reported d' []"
  shows "report_ok d'"
proof -
  note l = latch_step [OF assms(1,2)]
  have keep: "all_reported d xs \<Longrightarrow> \<not> admitting d \<Longrightarrow> all_reported d' xs" for xs
    using l by (auto intro: all_reported_mono)
  have f: "unreported p = Some xs \<Longrightarrow> failing p" for p xs by (cases p) auto
  show ?thesis
    unfolding report_ok_def
  proof (intro conjI ballI allI impI)
    fix p assume "p \<in> set (points d')" "failing p"
    then show "\<not> admitting d'" using assms(3,4) l(2) by (auto simp: report_ok_def)
  next
    fix p xs assume p: "p \<in> set (points d')" "unreported p = Some xs"
    then show "all_reported d' xs" using assms(3) assms(4) [OF p(1)] keep f [OF p(2)] by (auto simp: report_ok_def)
  next
    assume "dp_fatal_error d'"
    then show "\<not> admitting d'" "all_reported d' []" using assms(3,5) l(2) keep by (auto simp: report_ok_def)
  qed
qed

lemma points_goto_from: "p \<in> set (points (goto k q d)) \<Longrightarrow> p \<in> set (points d) \<or> p = q"
  using set_update_subset_insert [of "points d" k q] by (auto simp: points_goto)

lemma at_point_in: "at_point k p d \<Longrightarrow> p \<in> set (points d)"
  by (auto simp: at_point_points)

lemma goto_rest [simp]:
  "admitting (goto k p d) = admitting d" "fault_keys (goto k p d) = fault_keys d" "dp_queued (goto k p d) = dp_queued d"
  "dp_fatal_error (goto k p d) = dp_fatal_error d" "all_reported (goto k p d) xs = all_reported d xs"
  by (simp_all add: goto_def admitting_def fault_keys_def all_reported_def)

lemma release_section_rest [simp]:
  "points (release_section i c d) = points d" "dp_fatal_error (release_section i c d) = dp_fatal_error d"
  by (simp_all add: release_section_def points_def)

lemma failing_closed: "report_ok d \<Longrightarrow> at_point k p d \<Longrightarrow> failing p \<Longrightarrow> \<not> admitting d"
  by (auto simp: report_ok_def dest: at_point_in)

lemma unreported_rest: "report_ok d \<Longrightarrow> at_point k p d \<Longrightarrow> unreported p = Some xs \<Longrightarrow> all_reported d xs"
  by (auto simp: report_ok_def dest: at_point_in)

lemma report_ok_step:
  assumes "dispatch_step d d'" "report_ok d" "queue_ok d"
  shows "report_ok d'"
proof -
  note keep = report_ok_keep [OF assms(1,3,2)]
  show ?thesis
    using assms(1)
  proof (cases rule: dispatch_step.cases)
    case (reports k i c e d1)
    have "\<not> admitting d1" "dp_queued d1 = dp_queued d" "points d1 = points d" "dp_fatal_error d1 = dp_fatal_error d"
      using reports failing_closed [OF assms(2) reports(2)]
      by (auto simp: epoch_known_def install_epoch_def admitting_def split: option.splits sum.splits if_splits)
    moreover have "all_reported d1 (queued_job_identities d1)"
      by (force simp: all_reported_def queued_job_identities_def)
    ultimately show ?thesis unfolding reports(1)
      by (intro keep [unfolded reports(1)]) (auto dest!: points_goto_from)
  next
    case (reports_paused k i c x xs now)
    have "all_reported d (x # xs)" "\<not> admitting d"
      using failing_closed [OF assms(2) reports_paused(2)] unreported_rest [OF assms(2) reports_paused(2)] by simp_all
    then have "all_reported (report_paused x now d) xs"
      by (auto simp: all_reported_def report_paused_def report_fault_def fault_keys_def record_fault_keys paused_key_def)
    moreover have "\<not> admitting (report_paused x now d)" "points (report_paused x now d) = points d"
      "dp_fatal_error (report_paused x now d) = dp_fatal_error d"
      by (simp_all add: report_paused_def report_fault_def admitting_def)
    ultimately show ?thesis
      by (intro keep) (auto dest!: points_goto_from simp: reports_paused(1))
  next
    case (reported k i c c' phase code secondary now)
    have "all_reported d []" "\<not> admitting d"
      using failing_closed [OF assms(2) reported(2)] unreported_rest [OF assms(2) reported(2)] by simp_all
    then have "all_reported (record_fatal c' i phase code secondary now d) []"
      by (auto simp: all_reported_def record_fatal_def report_fault_def fault_keys_def record_fault_keys)
    moreover have "\<not> admitting (record_fatal c' i phase code secondary now d)"
      "points (record_fatal c' i phase code secondary now d) = points d"
      by (simp_all add: record_fatal_def report_fault_def admitting_def)
    ultimately show ?thesis
      by (intro keep) (auto dest!: points_goto_from simp: reported(1))
  next
    case (starts)
    then show ?thesis
      by (intro keep) (auto simp: points_def start_threads_def split: if_splits)
  next
    case (fails k i c)
    moreover have "\<not> admitting (stop_admission d)" "points (stop_admission d) = points d"
      "dp_fatal_error (stop_admission d) = dp_fatal_error d"
      by (simp_all add: stop_admission_def admitting_def stop_accepting_def)
    ultimately show ?thesis by (intro keep) (auto dest!: points_goto_from)
  next
    case (failed_pauses k i c)
    moreover have "admitting (pause_claiming d) = admitting d" "points (pause_claiming d) = points d"
      "dp_fatal_error (pause_claiming d) = dp_fatal_error d"
      by (simp_all add: pause_claiming_def admitting_def)
    ultimately show ?thesis using failing_closed [OF assms(2) failed_pauses(2)]
      by (intro keep) (auto dest!: points_goto_from)
  next
    case (failed_fences k i c)
    moreover have "admitting (fence i d) = admitting d" "points (fence i d) = points d"
      "dp_fatal_error (fence i d) = dp_fatal_error d"
      by (simp_all add: fence_def admitting_def points_def)
    ultimately show ?thesis using failing_closed [OF assms(2) failed_fences(2)]
      by (intro keep) (auto dest!: points_goto_from)
  next
    case (claims k i c d1)
    have "points d1 = points d" "dp_fatal_error d1 = dp_fatal_error d"
      using claims(4) by (auto simp: claim_section_def points_def split: option.splits)
    then show ?thesis unfolding claims(1)
      by (intro keep [unfolded claims(1)]) (auto dest!: points_goto_from)
  qed (rule keep; auto dest!: points_goto_from simp: submit_second_def enqueue_def cancel_def pause_claiming_def
      enable_claiming_def stop_admission_def request_shutdown_def request_signal_def report_fault_def epoch_known_def
      shutdown_section_def
    split: if_splits option.splits sum.splits prod.splits)+
qed

end
