(* ===== verification/Dispatch_Properties.thy ===== *)
theory Dispatch_Properties
  imports Dispatch_Laws
begin

text \<open>The reachable states of the dispatcher, and what its clients may rely on.\<close>

section \<open>Reachable states\<close>

definition threads_ok :: "dispatcher \<Rightarrow> bool" where
  "threads_ok d \<longleftrightarrow>
     dp_threads d = [] \<or>
     map wt_lane (dp_threads d) = replicate (dp_counts d Route_Lane) Route_Lane @ replicate (dp_counts d Diagnose_Lane) Diagnose_Lane"

lemma lanes_goto [simp]: "map wt_lane (dp_threads (goto k p d)) = map wt_lane (dp_threads d)"
proof (cases "k < length (dp_threads d)")
  case True
  then have "(map wt_lane (dp_threads d))[k := wt_lane (dp_threads d ! k)] = map wt_lane (dp_threads d)"
    by (metis list_update_id nth_map)
  then show ?thesis by (simp add: goto_def map_update)
qed (simp add: goto_def list_update_beyond)

lemma threads_ok_congI:
  assumes "threads_ok d" "map wt_lane (dp_threads d') = map wt_lane (dp_threads d)" "dp_counts d' = dp_counts d"
  shows "threads_ok d'"
  using assms by (auto simp: threads_ok_def)

lemma counts_goto [simp]: "dp_counts (goto k p d) = dp_counts d"
  by (simp add: goto_def)

lemma threads_ok_step:
  assumes "dispatch_step d d'" "threads_ok d"
  shows "threads_ok d'" "dp_counts d' = dp_counts d"
proof -
  have "threads_ok d' \<and> dp_counts d' = dp_counts d"
    using assms(1)
  proof (cases rule: dispatch_step.cases)
    case starts
    then show ?thesis using assms(2) by (auto simp: start_threads_def threads_ok_def)
  qed (auto intro!: threads_ok_congI [OF assms(2)]
      simp: submit_second_def enqueue_def cancel_def pause_claiming_def enable_claiming_def stop_admission_def
        request_shutdown_def request_signal_def report_fault_def epoch_known_def report_paused_def record_fatal_def
        shutdown_section_def fence_def release_section_def signal_controller_def claim_section_def
      split: if_splits option.splits sum.splits prod.splits)
  then show "threads_ok d'" "dp_counts d' = dp_counts d" by simp_all
qed

lemma new_dispatcher_ok:
  assumes "new_dispatcher p r n = Inr d"
  shows "queue_ok d" "running_ok d" "stop_ok d" "report_ok d" "threads_ok d"
  using assms
  by (auto simp: new_dispatcher_def queue_ok_def running_ok_def owners_ok_def owns_def stop_ok_def report_ok_def
    threads_ok_def running_jobs_def points_def split: if_splits)

lemma reachable_ok:
  assumes "dispatch_reachable d"
  shows "queue_ok d" "running_ok d" "stop_ok d" "report_ok d" "threads_ok d"
  using assms
  by (induction rule: dispatch_reachable.induct)
     (auto intro: new_dispatcher_ok queue_ok_step running_ok_step stop_ok_step report_ok_step threads_ok_step)

lemma reachable_steps: "dispatch_reachable d \<Longrightarrow> dispatch_step\<^sup>*\<^sup>* d d' \<Longrightarrow> dispatch_reachable d'"
  by (rotate_tac, induction rule: rtranclp_induct) (auto intro: stepped)

section \<open>One execution per case\<close>

lemma owners_bound:
  assumes "owners_ok rs a f ps"
  shows "length rs \<le> length ps"
proof -
  have "set rs \<subseteq> (\<lambda>k. the (owned (ps ! k))) ` {..< length ps}"
  proof
    fix x assume "x \<in> set rs"
    then obtain k where "owns ps k x" using owners_okD(7) [OF assms] by blast
    then show "x \<in> (\<lambda>k. the (owned (ps ! k))) ` {..< length ps}" by (force simp: owns_def)
  qed
  then have "card (set rs) \<le> length ps" using surj_card_le [of "{..< length ps}"] by simp
  moreover have "distinct rs" using owners_okD(1) [OF assms] by (simp add: distinct_map)
  ultimately show ?thesis by (simp add: distinct_card)
qed

lemma running_owned_once:
  assumes "running_ok d" "(i, c, x) \<in> set (dp_running d)"
  shows "\<exists>!k. k < length (dp_threads d) \<and> owned (wt_at (dp_threads d ! k)) = Some (i, c)"
proof -
  have ok: "owners_ok (running_jobs d) (dp_active_cases d) (dp_finishing d) (points d)"
    using assms(1) by (simp add: running_ok_def)
  have o: "owns (points d) k y \<longleftrightarrow> k < length (dp_threads d) \<and> owned (wt_at (dp_threads d ! k)) = Some y" for k y
    by (auto simp: owns_def points_def)
  have "(i, c) \<in> set (running_jobs d)" using assms(2) by (force simp: running_jobs_def)
  then show ?thesis using owners_okD(6,7) [OF ok] unfolding o by blast
qed

lemma reachable_counts:
  assumes "dispatch_reachable d"
  shows "length (dp_running d) \<le> dp_counts d Route_Lane + dp_counts d Diagnose_Lane"
proof -
  have "length (dp_running d) \<le> length (dp_threads d)"
    using owners_bound [OF reachable_ok(2) [OF assms, unfolded running_ok_def]] by (simp add: running_jobs_def points_def)
  also have "\<dots> = length (map wt_lane (dp_threads d))" by simp
  also have "\<dots> \<le> dp_counts d Route_Lane + dp_counts d Diagnose_Lane"
    using reachable_ok(5) [OF assms] unfolding threads_ok_def by (auto dest: arg_cong [of _ _ length])
  finally show ?thesis .
qed

lemma reachable_cases_distinct:
  assumes "dispatch_reachable d"
  shows "distinct (map (\<lambda>(i, c, k). c) (dp_running d))" "distinct (map fst (dp_running d))"
  using reachable_ok(2) [OF assms]
  by (simp_all add: running_ok_def owners_ok_def running_jobs_def case_prod_unfold o_def)

text \<open>A claim takes the first job of its lane whose case is not running; the jobs it passes all wait for their case.\<close>

lemma claim_takes_first:
  assumes "claim_section l d = Some (i, c, d')"
  shows "\<exists>xs ys. dp_queues d l = xs @ i # ys \<and> list_all (case_busy d) xs \<and> c \<notin> dp_active_cases d"
proof -
  from assms obtain l' where e: "eligible l d = Some i" "map_of (dp_queued d) i = Some (c, l')"
    by (auto simp: claim_section_def split: option.splits)
  then obtain n where n: "n < length (dp_queues d l)" "\<not> case_busy d (dp_queues d l ! n)" "i = dp_queues d l ! n"
    "\<forall>m < n. case_busy d (dp_queues d l ! m)"
    by (auto simp: eligible_def find_Some_iff split: if_splits)
  have "dp_queues d l = take n (dp_queues d l) @ i # drop (Suc n) (dp_queues d l)"
    using n(1,3) by (simp add: id_take_nth_drop)
  moreover have "list_all (case_busy d) (take n (dp_queues d l))"
    using n(1,4) by (auto simp: list_all_length)
  moreover have "c \<notin> dp_active_cases d" using n(2,3) e(2) by (simp add: case_busy_def)
  ultimately show ?thesis by blast
qed

text \<open>A job is never stuck: with claiming enabled and a case that is not running, its lane can claim.\<close>

lemma idle_case_claimable:
  assumes "queue_ok d" "dp_claiming_enabled d" "(i, c, l) \<in> set (dp_queued d)" "c \<notin> dp_active_cases d"
  shows "claim_section l d \<noteq> None"
proof -
  have m: "map_of (dp_queued d) i = Some (c, l)" using assms(1,3) by (simp add: queue_ok_def)
  have "i \<in> set (dp_queues d l)" using assms(1,3) by (auto simp: queue_ok_def set_lane_jobs)
  moreover have "\<not> case_busy d i" using m assms(4) by (simp add: case_busy_def)
  ultimately obtain j where j: "List.find (\<lambda>i. \<not> case_busy d i) (dp_queues d l) = Some j"
    by (cases "List.find (\<lambda>i. \<not> case_busy d i) (dp_queues d l)") (auto simp: find_None_iff)
  then have "\<not> case_busy d j" by (auto simp: find_Some_iff)
  then obtain x where "map_of (dp_queued d) j = Some x" by (auto simp: case_busy_def split: option.splits)
  then show ?thesis using j assms(2) by (cases x) (simp add: claim_section_def eligible_def)
qed

section \<open>Shutdown\<close>

lemma stopped_step:
  assumes "dispatch_step d d'" "dp_stop_requested d"
  shows "dp_stop_requested d' \<and> fst ` set (dp_running d') \<subseteq> fst ` set (dp_running d)"
  using assms(1)
proof (cases rule: dispatch_step.cases)
  case (cancels i)
  then show ?thesis using assms(2) by (auto simp: cancel_def cancel_where_def image_image case_prod_unfold split: option.splits)
next
  case (cancels_cases cs)
  then show ?thesis using assms(2) by (auto simp: cancel_cases_running cancel_where_def image_image case_prod_unfold)
qed (use assms(2) in \<open>auto simp: submit_second_def enqueue_def pause_claiming_def enable_claiming_def stop_admission_def
      request_shutdown_def request_signal_def report_fault_def epoch_known_def report_paused_def record_fatal_def
      shutdown_section_def cancel_where_def fence_def release_section_def signal_controller_def goto_def start_threads_def
      AList.delete_eq case_prod_unfold image_image
    split: if_splits option.splits sum.splits\<close>)

lemma stopped_steps:
  assumes "dispatch_step\<^sup>*\<^sup>* d d'" "dp_stop_requested d"
  shows "dp_stop_requested d' \<and> fst ` set (dp_running d') \<subseteq> fst ` set (dp_running d)"
  using assms
proof (induction rule: rtranclp_induct)
  case (step y z)
  then show ?case using stopped_step [of y z] by blast
qed simp

section \<open>Faults\<close>

definition faults_ok :: "operational_state \<Rightarrow> bool" where
  "faults_ok st \<longleftrightarrow> (\<forall>(k, f) \<in> set (ol_faults st). k = (fl_case_id f, fl_job_id f, fl_phase f))"

lemma set_update_subset: "set (AList.update k v xs) \<subseteq> insert (k, v) (set xs)"
  by (induction xs) auto

lemma faults_ok_record: "faults_ok st \<Longrightarrow> faults_ok (record_fault c i phase code secondary now st)"
  using set_update_subset by (fastforce simp: faults_ok_def record_fault_def)

lemma faults_ok_updates [simp]:
  "faults_ok (st\<lparr>ol_accepting := x\<rparr>) = faults_ok st"
  "faults_ok (st\<lparr>ol_runtime_epoch := y\<rparr>) = faults_ok st"
  "faults_ok (st\<lparr>ol_confirmed_jobs := z\<rparr>) = faults_ok st"
  by (simp_all add: faults_ok_def)

lemma faults_ok_step:
  assumes "dispatch_step d d'" "faults_ok (dp_operational d)"
  shows "faults_ok (dp_operational d')"
  using assms(1)
  by (cases rule: dispatch_step.cases)
     (use assms(2) in \<open>auto simp: submit_second_def enqueue_def cancel_def pause_claiming_def enable_claiming_def
      stop_admission_def stop_accepting_def request_shutdown_def request_signal_def report_fault_def epoch_known_def
      install_epoch_def report_paused_def record_fatal_def shutdown_section_def fence_def release_section_def
      signal_controller_def goto_def start_threads_def claim_section_def confirm_finished_job_def faults_ok_record
    split: if_splits option.splits sum.splits prod.splits\<close>)

lemma reachable_faults:
  assumes "dispatch_reachable d"
  shows "faults_ok (dp_operational d)"
  using assms
proof (induction rule: dispatch_reachable.induct)
  case (created p r n d)
  then show ?case by (auto simp: new_dispatcher_def new_operational_state_def faults_ok_def split: if_splits)
qed (rule faults_ok_step)

text \<open>A paused job of a case that has not ended is an error of that case, whatever other faults there are.\<close>

lemma paused_job_seen:
  assumes "faults_ok st" "paused_key (i, c) \<in> fst ` set (ol_faults st)" "i \<notin> set (ol_confirmed_jobs st)"
    "\<not> (case status of None \<Rightarrow> False | Some s \<Rightarrow> terminal_status s)"
  shows "error_for_case st c status archive include_archive \<noteq> None"
proof -
  obtain f where f: "(paused_key (i, c), f) \<in> set (ol_faults st)" using assms(2) by auto
  then have "fl_case_id f = Some c" "fl_job_id f = Some i" "fl_phase f = ''DISPATCH_PAUSED''"
    using assms(1) by (auto simp: faults_ok_def paused_key_def)
  then have "fault_concerns st c status archive include_archive f"
    using assms(3,4) by (simp add: fault_concerns_def)
  moreover have "f \<in> set (rev (faults st))" using f by (force simp: faults_def)
  ultimately have "filter (fault_concerns st c status archive include_archive) (rev (faults st)) \<noteq> []"
    by (auto simp: filter_empty_conv simp del: set_rev)
  then show ?thesis by (auto simp: error_for_case_def split: list.splits)
qed

section \<open>Properties\<close>

text \<open>
  C13. in every state the threads can reach, in whatever order their blocks run, no two running jobs belong to the
  same case, no job is queued twice or both queued and running, each queue holds exactly the queued jobs of its lane
  in the order they came, no queued job belongs to a deleted case, no more jobs run than there are workers, and each
  running job is owned by exactly one thread.
\<close>

theorem one_execution_per_case:
  assumes "dispatch_reachable d"
  shows "distinct (map (\<lambda>(i, c, k). c) (dp_running d))
    \<and> distinct (map fst (dp_queued d) @ map fst (dp_running d))
    \<and> (\<forall>l. dp_queues d l = lane_jobs l (dp_queued d))
    \<and> list_all (\<lambda>(i, c, l). c \<notin> dp_deleted_cases d) (dp_queued d)
    \<and> length (dp_running d) \<le> dp_counts d Route_Lane + dp_counts d Diagnose_Lane
    \<and> list_all (\<lambda>(i, c, k). \<exists>!n. n < length (dp_threads d) \<and> owned (wt_at (dp_threads d ! n)) = Some (i, c)) (dp_running d)"
proof (intro conjI)
  have q: "queue_ok d" "running_ok d" using reachable_ok [OF assms] by simp_all
  show "distinct (map fst (dp_queued d) @ map fst (dp_running d))"
    using q(1) reachable_cases_distinct(2) [OF assms] by (fastforce simp: queue_ok_def map_of_eq_None_iff)
  show "\<forall>l. dp_queues d l = lane_jobs l (dp_queued d)" using q(1) by (simp add: queue_ok_def)
  show "list_all (\<lambda>(i, c, l). c \<notin> dp_deleted_cases d) (dp_queued d)" using q(1) by (auto simp: queue_ok_def list_all_iff)
  show "list_all (\<lambda>(i, c, k). \<exists>!n. n < length (dp_threads d) \<and> owned (wt_at (dp_threads d ! n)) = Some (i, c)) (dp_running d)"
    using running_owned_once [OF q(2)] unfolding list_all_iff by blast
qed (rule reachable_cases_distinct(1) [OF assms] reachable_counts [OF assms])+

text \<open>
  C16. once the block of \<open>shutdown\<close> has run, nothing is queued or accepted any more, whatever the threads still do,
  no further job starts, and every job still running has been told to stop or has already left the runtime.
\<close>

theorem shutdown_is_final:
  assumes "dispatch_reachable d" "dp_stop_requested d" "dispatch_step\<^sup>*\<^sup>* d d'"
  shows "dp_queued d' = [] \<and> \<not> claiming_enabled d' \<and> \<not> dr_accepted (snd (submit_second i x now d'))
    \<and> fst ` set (dp_running d') \<subseteq> fst ` set (dp_running d)
    \<and> list_all (\<lambda>(i, c, k). settled_controller k) (dp_running d')"
proof -
  have s: "stop_ok d'" using reachable_ok(3) [OF reachable_steps [OF assms(1,3)]] .
  have st: "dp_stop_requested d'" "fst ` set (dp_running d') \<subseteq> fst ` set (dp_running d)"
    using stopped_steps [OF assms(3,2)] by simp_all
  with s have o: "dp_queued d' = []" "\<not> dp_accepting d'" "\<forall>(i, c, k) \<in> set (dp_running d'). settled_controller k"
    by (simp_all add: stop_ok_def)
  have "\<not> dr_accepted (snd (submit_second i x now d'))"
    using o(2) by (cases x) (auto simp: submit_second_def dispatch_answer_def)
  then show ?thesis using o st by (auto simp: claiming_enabled_def list_all_iff)
qed

text \<open>
  C21. after the fault of a worker has been recorded, nothing is accepted any more, and a reader of any case with a
  job left in a queue gets an error, as long as the case has not ended and the job was not confirmed.
\<close>

theorem fatal_error_is_visible:
  assumes "dispatch_reachable d" "dp_fatal_error d"
    "(i, c, l) \<in> set (dp_queued d)" "i \<notin> set (ol_confirmed_jobs (dp_operational d))"
    "\<not> (case status of None \<Rightarrow> False | Some s \<Rightarrow> terminal_status s)"
  shows "error_for_case (dp_operational d) c status archive include_archive \<noteq> None
    \<and> \<not> dr_accepted (snd (submit_second j x now d))"
proof -
  have r: "\<not> admitting d" "all_reported d []" using reachable_ok(4) [OF assms(1)] assms(2) by (simp_all add: report_ok_def)
  then have "paused_key (i, c) \<in> fst ` set (ol_faults (dp_operational d))"
    using assms(3) by (auto simp: all_reported_def fault_keys_def)
  from paused_job_seen [OF reachable_faults [OF assms(1)] this assms(4,5)]
  have "error_for_case (dp_operational d) c status archive include_archive \<noteq> None" .
  moreover have "\<not> dr_accepted (snd (submit_second j x now d))"
    using r(1) by (cases x) (auto simp: submit_second_def admitting_def dispatch_answer_def)
  ultimately show ?thesis ..
qed

section \<open>Witnesses\<close>

text \<open>Two jobs of one case and one of another are queued; the first diagnosis worker claims the first job, the
  second passes the second job and claims the third.\<close>

definition example_started :: dispatcher where
  "example_started = start_threads (case new_dispatcher True 1 2 of Inr d \<Rightarrow> d)"

definition example_enabled :: dispatcher where
  "example_enabled = (case enable_claiming example_started of Inr d \<Rightarrow> d)"

definition example_submit :: "opaque_id \<Rightarrow> opaque_id \<Rightarrow> dispatcher \<Rightarrow> dispatcher" where
  "example_submit i c d = fst (submit_second i (c, JT_DIAGNOSE, Some JS_PENDING) ''t'' d)"

definition example_queued :: dispatcher where
  "example_queued = example_submit ''j3'' ''c2'' (example_submit ''j2'' ''c1'' (example_submit ''j1'' ''c1'' example_enabled))"

definition example_claim :: "nat \<Rightarrow> dispatcher \<Rightarrow> dispatcher" where
  "example_claim k d = (case claim_section (wt_lane (dp_threads d ! k)) d of Some (i, c, d') \<Rightarrow> goto k (Executing i c) d')"

definition example_running :: dispatcher where
  "example_running = example_claim 2 (example_claim 1 example_queued)"

definition example_failed :: dispatcher where
  "example_failed =
     (let d1 = goto 1 (Pausing ''j1'' ''c1'') (stop_admission example_running);
          d2 = goto 1 (Fencing ''j1'' ''c1'') (pause_claiming d1);
          d3 = goto 1 (Reporting ''j1'' ''c1'') (fence ''j1'' d2);
          d4 = goto 1 (Report_Paused ''j1'' ''c1'' (queued_job_identities d3)) d3;
          d5 = goto 1 (Report_Paused ''j1'' ''c1'' []) (report_paused (''j2'', ''c1'') ''t'' d4)
      in goto 1 (Releasing ''j1'' ''c1'')
           (record_fatal (Some ''c1'') ''j1'' ''WORKER_EXECUTION'' EC_STATE_WRITE_FAILED None ''t'' d5))"

lemmas example_evals =
  example_started_def example_enabled_def example_submit_def example_queued_def example_claim_def example_running_def
  new_dispatcher_def start_threads_def enable_claiming_def submit_second_def known_job_def enqueue_def lane_of_def
  dispatch_answer_def new_operational_state_def claim_section_def eligible_def case_busy_def drop_queued_def goto_def
  at_point_def numeral_2_eq_2

lemma example_queued_eq: "example_queued =
  \<lparr>dp_counts = (\<lambda>l. case l of Route_Lane \<Rightarrow> 1 | Diagnose_Lane \<Rightarrow> 2), dp_has_persisted_identity = True,
   dp_queues = (\<lambda>l. if l = Diagnose_Lane then [''j1'', ''j2'', ''j3''] else []),
   dp_queued = [(''j1'', ''c1'', Diagnose_Lane), (''j2'', ''c1'', Diagnose_Lane), (''j3'', ''c2'', Diagnose_Lane)],
   dp_running = [], dp_active_cases = {}, dp_finishing = {}, dp_deleted_cases = {}, dp_accepting = True,
   dp_claiming_enabled = True, dp_stop_requested = False,
   dp_threads = [\<lparr>wt_lane = Route_Lane, wt_at = Waiting\<rparr>, \<lparr>wt_lane = Diagnose_Lane, wt_at = Waiting\<rparr>,
     \<lparr>wt_lane = Diagnose_Lane, wt_at = Waiting\<rparr>],
   dp_operational = new_operational_state, dp_shutdown_signal = False, dp_backoff_shutdown = False,
   dp_fatal_error = False\<rparr>"
  by (simp add: example_evals fun_eq_iff split: lane.split)

lemma example_running_eq: "example_running = example_queued
  \<lparr>dp_queues := (\<lambda>l. if l = Diagnose_Lane then [''j2''] else []), dp_queued := [(''j2'', ''c1'', Diagnose_Lane)],
   dp_running := [(''j1'', ''c1'', new_controller), (''j3'', ''c2'', new_controller)], dp_active_cases := {''c1'', ''c2''},
   dp_threads := [\<lparr>wt_lane = Route_Lane, wt_at = Waiting\<rparr>, \<lparr>wt_lane = Diagnose_Lane, wt_at = Executing ''j1'' ''c1''\<rparr>,
     \<lparr>wt_lane = Diagnose_Lane, wt_at = Executing ''j3'' ''c2''\<rparr>]\<rparr>"
  by (simp add: example_running_def example_queued_eq example_claim_def claim_section_def eligible_def case_busy_def
    drop_queued_def goto_def fun_eq_iff insert_commute split: lane.split)

lemma example_claim_step:
  assumes "at_point k Waiting d" "\<not> dp_stop_requested d" "claim_section (wt_lane (dp_threads d ! k)) d \<noteq> None"
  shows "dispatch_step d (example_claim k d)"
proof -
  obtain i c d' where "claim_section (wt_lane (dp_threads d ! k)) d = Some (i, c, d')" using assms(3) by (auto)
  then show ?thesis using claims [OF assms(1,2)] by (simp add: example_claim_def)
qed

lemma example_queued_reachable: "dispatch_reachable example_queued"
proof -
  have "dispatch_reachable (case new_dispatcher True 1 2 of Inr d \<Rightarrow> d)"
    by (rule created [of True 1 2]) (simp add: new_dispatcher_def)
  then have "dispatch_reachable example_started" unfolding example_started_def by (rule stepped) (rule starts)
  then have "dispatch_reachable example_enabled"
    by (rule stepped) (rule enables, simp add: example_enabled_def example_started_def new_dispatcher_def start_threads_def
        enable_claiming_def)
  then show ?thesis unfolding example_queued_def example_submit_def by (intro stepped [OF _ submits])
qed

lemma example_running_reachable: "dispatch_reachable example_running"
  unfolding example_running_def
  by (intro stepped [OF _ example_claim_step] example_queued_reachable)
     (simp_all add: example_queued_eq example_claim_def claim_section_def eligible_def case_busy_def drop_queued_def
       goto_def at_point_def)

lemma example_failed_reachable: "dispatch_reachable example_failed"
proof -
  define d1 where "d1 = goto 1 (Pausing ''j1'' ''c1'') (stop_admission example_running)"
  define d2 where "d2 = goto 1 (Fencing ''j1'' ''c1'') (pause_claiming d1)"
  define d3 where "d3 = goto 1 (Reporting ''j1'' ''c1'') (fence ''j1'' d2)"
  define d4 where "d4 = goto 1 (Report_Paused ''j1'' ''c1'' (queued_job_identities d3)) d3"
  define d5 where "d5 = goto 1 (Report_Paused ''j1'' ''c1'' []) (report_paused (''j2'', ''c1'') ''t'' d4)"
  note defs = d1_def d2_def d3_def d4_def d5_def
  have t: "dp_threads (goto k p d) = (dp_threads d)[k := (dp_threads d ! k)\<lparr>wt_at := p\<rparr>]" for k p d
    by (simp add: goto_def)
  have l: "length (dp_threads example_running) = 3" "wt_at (dp_threads example_running ! Suc 0) = Executing ''j1'' ''c1''"
    unfolding example_running_eq by simp_all
  have q: "queued_job_identities d3 = [(''j2'', ''c1'')]"
    by (simp add: d1_def d2_def d3_def goto_def fence_def pause_claiming_def stop_admission_def queued_job_identities_def
      example_running_eq)
  have "dispatch_step example_running d1" unfolding d1_def by (rule fails) (simp add: at_point_def l)
  moreover have "dispatch_step d1 d2" unfolding d2_def
    by (rule failed_pauses) (simp add: at_point_def d1_def t stop_admission_def l)
  moreover have "dispatch_step d2 d3" unfolding d3_def
    by (rule failed_fences) (simp add: at_point_def d1_def d2_def t stop_admission_def pause_claiming_def l)
  moreover have "dispatch_step d3 d4" unfolding d4_def
    by (rule reports [where e = None])
       (simp_all add: epoch_known_def at_point_def d1_def d2_def d3_def t stop_admission_def pause_claiming_def fence_def l)
  moreover have "dispatch_step d4 d5" unfolding d5_def
    by (rule reports_paused)
       (simp add: d4_def q, simp add: at_point_def d1_def d2_def d3_def t stop_admission_def pause_claiming_def fence_def l)
  moreover have "dispatch_step d5 example_failed"
    unfolding example_failed_def Let_def d1_def [symmetric] d2_def [symmetric] d3_def [symmetric] d4_def [symmetric]
      d5_def [symmetric]
    by (rule reported) (simp add: at_point_def d1_def d2_def d3_def d4_def d5_def t stop_admission_def pause_claiming_def fence_def
      report_paused_def report_fault_def l)
  ultimately show ?thesis by (meson stepped example_running_reachable)
qed

theorem one_execution_per_case_witness:
  "length (dp_running example_running) = 2 \<and> distinct (map (\<lambda>(i, c, k). c) (dp_running example_running))
    \<and> dp_queues example_running Diagnose_Lane = lane_jobs Diagnose_Lane (dp_queued example_running)"
  using one_execution_per_case [OF example_running_reachable] by (simp add: example_running_eq)

theorem shutdown_is_final_witness:
  "dispatch_reachable (shutdown_section example_running) \<and> dp_stop_requested (shutdown_section example_running)
    \<and> dp_queued (shutdown_section example_running) = []
    \<and> list_all (\<lambda>(i, c, k). settled_controller k) (dp_running (shutdown_section example_running))"
proof -
  have r: "dispatch_reachable (shutdown_section example_running)"
    by (rule stepped [OF example_running_reachable shuts_down])
  moreover have s: "dp_stop_requested (shutdown_section example_running)" by (simp add: shutdown_section_def)
  ultimately show ?thesis using shutdown_is_final [OF r s rtranclp.rtrancl_refl] by simp
qed

theorem fatal_error_is_visible_witness:
  "error_for_case (dp_operational example_failed) ''c1'' (Some CS_RUNNING) None True \<noteq> None
    \<and> \<not> dr_accepted (snd (submit_second ''j9'' (''c9'', JT_ROUTE, None) ''t'' example_failed))"
proof -
  have "dp_fatal_error example_failed" by (simp add: example_failed_def Let_def goto_def record_fatal_def)
  moreover have "(''j2'', ''c1'', Diagnose_Lane) \<in> set (dp_queued example_failed)"
    "''j2'' \<notin> set (ol_confirmed_jobs (dp_operational example_failed))"
    by (simp_all add: example_failed_def Let_def goto_def record_fatal_def report_fault_def report_paused_def record_fault_def
      fence_def pause_claiming_def stop_admission_def stop_accepting_def example_running_eq example_queued_eq
      new_operational_state_def)
  ultimately show ?thesis
    by (intro fatal_error_is_visible [OF example_failed_reachable]) simp_all
qed

text \<open>
  \<open>SchedulerService\<close> of \<open>dispatch/service.py\<close> around the dispatcher, and \<open>RecoveryCoordinator.recover\<close> of
  \<open>dispatch/recovery.py\<close>: a start installs a fresh epoch and never replays work of an earlier process. What the
  service does when a worker fails is part of the steps of \<open>Dispatcher\<close>.
\<close>

record recovery_result =
  rc_runtime_epoch :: "opaque_id option"
  rc_completed :: bool
  rc_replayed_job_ids :: "opaque_id list"
  rc_interrupted_job_ids :: "opaque_id list"
  rc_pending_job_ids :: "opaque_id list"

record scheduler =
  sc_dispatcher :: dispatcher
  sc_epoch_context :: "opaque_id option"
  sc_epoch_made :: "opaque_id option"
  sc_recovery_result :: "recovery_result option"

definition new_scheduler :: "int \<Rightarrow> int \<Rightarrow> exn + scheduler" where
  "new_scheduler route_workers diagnose_workers =
     bindE (new_dispatcher True route_workers diagnose_workers) (\<lambda>d.
     Inr \<lparr>sc_dispatcher = d, sc_epoch_context = None, sc_epoch_made = None, sc_recovery_result = None\<rparr>)"

text \<open>\<open>candidate\<close> is what the identifier generator gives.\<close>

definition recover :: "opaque_id \<Rightarrow> scheduler \<Rightarrow> lock_error + scheduler \<times> recovery_result" where
  "recover candidate s =
     (case create_runtime_epoch [] candidate (sc_epoch_made s) of
        Inl e \<Rightarrow> Inl e
      | Inr (epoch, made) \<Rightarrow> (case install_runtime_epoch epoch (sc_epoch_context s) of
          Inl e \<Rightarrow> Inl e
        | Inr (new, ctx) \<Rightarrow> (case enable_claiming (pause_claiming (sc_dispatcher s)) of
            Inl e \<Rightarrow> Inl e
          | Inr d \<Rightarrow> Inr (s\<lparr>sc_dispatcher := d, sc_epoch_context := ctx, sc_epoch_made := made\<rparr>,
              \<lparr>rc_runtime_epoch = Some epoch, rc_completed = True, rc_replayed_job_ids = [],
               rc_interrupted_job_ids = [], rc_pending_job_ids = []\<rparr>))))"

definition start_service :: "opaque_id \<Rightarrow> scheduler \<Rightarrow> lock_error + scheduler" where
  "start_service candidate s =
     (case recover candidate (s\<lparr>sc_dispatcher := start_threads (sc_dispatcher s)\<rparr>) of
        Inl e \<Rightarrow> Inl e
      | Inr (s', result) \<Rightarrow> (case epoch_known (rc_runtime_epoch result) (sc_dispatcher s') of
          Inl e \<Rightarrow> Inl e
        | Inr d \<Rightarrow> Inr (s'\<lparr>sc_dispatcher := d, sc_recovery_result := Some result\<rparr>)))"

definition ready :: "scheduler \<Rightarrow> bool" where
  "ready s \<longleftrightarrow>
     (case sc_recovery_result s of None \<Rightarrow> False | Some r \<Rightarrow> rc_completed r) \<and> \<not> dp_fatal_error (sc_dispatcher s) \<and>
     claiming_enabled (sc_dispatcher s) \<and> ol_accepting (dp_operational (sc_dispatcher s))"

definition foreground_idle :: "scheduler \<Rightarrow> bool" where
  "foreground_idle s \<longleftrightarrow> ready s \<and> dispatcher_idle (sc_dispatcher s)"

lemma start_service_steps:
  assumes "start_service candidate s = Inr s'"
  shows "dispatch_step\<^sup>*\<^sup>* (sc_dispatcher s) (sc_dispatcher s')"
proof -
  obtain d1 e d2 where d: "enable_claiming (pause_claiming (start_threads (sc_dispatcher s))) = Inr d1"
    "epoch_known e d1 = Inr d2" "sc_dispatcher s' = d2"
    using assms by (auto simp: start_service_def recover_def split: sum.splits prod.splits)
  have "dispatch_step (sc_dispatcher s) (start_threads (sc_dispatcher s))" by (rule starts)
  moreover have "dispatch_step (start_threads (sc_dispatcher s)) (pause_claiming (start_threads (sc_dispatcher s)))"
    by (rule pauses)
  moreover have "dispatch_step (pause_claiming (start_threads (sc_dispatcher s))) d1" using d(1) by (rule enables)
  moreover have "dispatch_step d1 d2" using d(2) by (rule installs)
  ultimately show ?thesis unfolding d(3) by (meson converse_rtranclp_into_rtranclp rtranclp.rtrancl_refl)
qed

text \<open>A fresh service is ready after its start, with a worker thread for each place; starting it again keeps the epoch.\<close>

lemma started_service_ready:
  assumes "new_scheduler r n = Inr s"
  shows "\<exists>s'. start_service candidate s = Inr s' \<and> ready s' \<and> sc_epoch_context s' = Some candidate \<and>
    length (dp_threads (sc_dispatcher s')) = nat r + nat n"
  using assms
  by (auto simp: new_scheduler_def new_dispatcher_def start_service_def recover_def create_runtime_epoch_def
    install_runtime_epoch_def enable_claiming_def pause_claiming_def start_threads_def epoch_known_def install_epoch_def
    new_operational_state_def ready_def claiming_enabled_def split: if_splits)

lemma restart_keeps_epoch:
  assumes "start_service candidate s = Inr s'" "sc_epoch_made s = sc_epoch_context s" "sc_epoch_context s = Some e"
  shows "sc_epoch_context s' = Some e"
  using assms by (auto simp: start_service_def recover_def create_runtime_epoch_def install_runtime_epoch_def
    split: sum.splits prod.splits)

text \<open>A service that shut down, or met a fatal error, is not ready again.\<close>

lemma never_ready_again:
  assumes "dispatch_reachable (sc_dispatcher s)"
    "dp_stop_requested (sc_dispatcher s) \<or> \<not> admitting (sc_dispatcher s)"
    "dispatch_step\<^sup>*\<^sup>* (sc_dispatcher s) (sc_dispatcher s')"
  shows "\<not> ready s'"
  using assms(2)
proof
  assume "dp_stop_requested (sc_dispatcher s)"
  then have "dp_stop_requested (sc_dispatcher s')" using stopped_steps [OF assms(3)] by simp
  then show ?thesis by (simp add: ready_def claiming_enabled_def)
next
  assume n: "\<not> admitting (sc_dispatcher s)"
  have "\<not> admitting (sc_dispatcher s')"
    using assms(3)
  proof (induction rule: rtranclp_induct)
    case (step y z)
    have "queue_ok y" using reachable_ok(1) [OF reachable_steps [OF assms(1) step.hyps(1)]] .
    then show ?case using latch_step(2) [OF step.hyps(2)] step.IH by simp
  qed (rule n)
  then show ?thesis by (simp add: ready_def admitting_def)
qed

end
