(* ===== verification/Job_Worker.thy ===== *)
theory Job_Worker
  imports Dispatch_Signals Outcome_Application Job_Control
begin

text \<open>
  \<open>JobWorker\<close> of \<open>dispatch/worker.py\<close>: claim a job, run it once, and deliver what came out of it, retrying only the
  delivery and only for a bounded time. The calls of other components are functions of a world \<open>'w\<close> they change:
  the shutdown signal, the clock, the wait between submissions, the job control and the runtime. The two delivery
  loops have the same shape and share one definition; it takes fuel, and the second half of this theory shows how much is enough.
\<close>

section \<open>Ports and results\<close>

record runtime_receipt =
  rr_job_outcome :: job_outcome
  rr_outcome_file_ref :: execution_file_ref

text \<open>What \<open>Runtime.execute\<close> raises: \<open>RuntimeInfrastructureError\<close>, or another exception.\<close>

datatype runtime_error =
    Infrastructure_Error opaque_id execution_failure
  | Runtime_Crash exn

record 'w worker_ports =
  wp_shutdown_requested :: "'w \<Rightarrow> bool \<times> 'w"
  wp_monotonic :: "'w \<Rightarrow> real \<times> 'w"
  wp_wait :: "real \<Rightarrow> 'w \<Rightarrow> bool \<times> 'w"
  wp_claim :: "opaque_id \<Rightarrow> opaque_id \<Rightarrow> 'w \<Rightarrow> (store_error + claim_receipt) \<times> 'w"
  wp_execute :: "job \<Rightarrow> controller \<Rightarrow> 'w \<Rightarrow> (runtime_error + runtime_receipt) \<times> controller \<times> 'w"
  wp_submit :: "runtime_receipt \<Rightarrow> 'w \<Rightarrow> (store_error + outcome_receipt) \<times> 'w"
  wp_report :: "failure_command \<Rightarrow> 'w \<Rightarrow> (store_error + failure_receipt) \<times> 'w"
  wp_submission_window :: real

datatype worker_error =
    Scheduler_Invariant_Error
  | Delivery_Submission_Expired opaque_id opaque_id text_t error_code "error_code option"
  | Port_Raised store_error
  | Lock_Raised lock_error
  | Execution_Raised exn

record worker_run_result =
  wr_job_id :: opaque_id
  wr_claimed :: bool
  wr_runtime_called :: bool
  wr_delivery_completed :: bool
  wr_outcome_disposition :: "outcome_disposition option"
  wr_failure_disposition :: "failure_report_disposition option"

definition run_result :: "opaque_id \<Rightarrow> bool \<Rightarrow> bool \<Rightarrow> worker_run_result" where
  "run_result i c called =
     \<lparr>wr_job_id = i, wr_claimed = c, wr_runtime_called = called, wr_delivery_completed = False,
      wr_outcome_disposition = None, wr_failure_disposition = None\<rparr>"

definition submission_retry_codes :: "error_code list" where
  "submission_retry_codes =
     [EC_REVISION_CONFLICT, EC_STATE_WRITE_FAILED, EC_RESOURCE_PUBLISH_FAILED, EC_EXECUTION_RECORD_FAILED]"

definition failure_report_retry_codes :: "error_code list" where
  "failure_report_retry_codes = [EC_STATE_WRITE_FAILED, EC_REVISION_CONFLICT]"

section \<open>Delivering\<close>

definition wait_before_retry :: "'w worker_ports \<Rightarrow> nat \<Rightarrow> real \<Rightarrow> 'w \<Rightarrow> bool \<times> 'w" where
  "wait_before_retry P failed_attempt deadline w =
     (case wp_shutdown_requested P w of (requested, w1) \<Rightarrow>
        if requested then (False, w1)
        else case wp_monotonic P w1 of (t, w2) \<Rightarrow>
          let delay = min (case submission_backoff_delay (int failed_attempt) of Inr d \<Rightarrow> d | Inl e \<Rightarrow> 0)
            (max 0 (deadline - t))
          in case wp_wait P delay w2 of (waited, w3) \<Rightarrow>
            if waited then (case wp_shutdown_requested P w3 of (requested, w4) \<Rightarrow> (\<not> requested, w4)) else (False, w3))"

text \<open>One turn of a delivery loop: an answer, or the error to retry after and the world to go on with.\<close>

definition delivery_turn ::
  "'w worker_ports \<Rightarrow> ('w \<Rightarrow> (store_error + 'a) \<times> 'w) \<Rightarrow> error_code list \<Rightarrow> (error_code \<Rightarrow> worker_error) \<Rightarrow> real \<Rightarrow>
   error_code option \<Rightarrow> nat \<Rightarrow> 'w \<Rightarrow> (worker_error + 'a option) \<times> 'w + error_code \<times> 'w" where
  "delivery_turn P call codes expired deadline last_error failed_attempt w =
     (case wp_shutdown_requested P w of (requested, w1) \<Rightarrow>
        if requested then Inl (Inr None, w1)
        else case (case last_error of None \<Rightarrow> (None, w1)
            | Some c \<Rightarrow> (case wp_monotonic P w1 of (t, w2) \<Rightarrow> (if deadline \<le> t then Some c else None, w2))) of
          (Some c, w2) \<Rightarrow> Inl (Inl (expired c), w2)
        | (None, w2) \<Rightarrow> (case call w2 of
            (Inr x, w3) \<Rightarrow> Inl (Inr (Some x), w3)
          | (Inl e, w3) \<Rightarrow> (case port_code e of
              None \<Rightarrow> Inl (Inl (Port_Raised e), w3)
            | Some c \<Rightarrow>
                if c \<notin> set codes then Inl (Inl (Port_Raised e), w3)
                else case wp_monotonic P w3 of (t, w4) \<Rightarrow>
                  if deadline \<le> t then Inl (Inl (expired c), w4)
                  else (case wait_before_retry P failed_attempt deadline w4 of (go_on, w5) \<Rightarrow>
                    if go_on then Inr (c, w5) else Inl (Inr None, w5)))))"

fun delivery_loop ::
  "nat \<Rightarrow> 'w worker_ports \<Rightarrow> ('w \<Rightarrow> (store_error + 'a) \<times> 'w) \<Rightarrow> error_code list \<Rightarrow> (error_code \<Rightarrow> worker_error) \<Rightarrow> real \<Rightarrow>
   error_code option \<Rightarrow> nat \<Rightarrow> 'w \<Rightarrow> ((worker_error + 'a option) \<times> 'w) option" where
  "delivery_loop 0 P call codes expired deadline last_error failed_attempt w = None"
| "delivery_loop (Suc n) P call codes expired deadline last_error failed_attempt w =
     (case delivery_turn P call codes expired deadline last_error failed_attempt w of
        Inl r \<Rightarrow> Some r
      | Inr (c, w') \<Rightarrow> delivery_loop n P call codes expired deadline (Some c) (Suc failed_attempt) w')"

definition submit_with_retries ::
  "nat \<Rightarrow> 'w worker_ports \<Rightarrow> runtime_receipt \<Rightarrow> 'w \<Rightarrow> ((worker_error + outcome_receipt option) \<times> 'w) option" where
  "submit_with_retries n P r w =
     (case wp_monotonic P w of (t, w1) \<Rightarrow>
        delivery_loop n P (wp_submit P r) submission_retry_codes
          (\<lambda>c. Delivery_Submission_Expired (oc_job_id (rr_job_outcome r)) (oc_case_id (rr_job_outcome r))
             ''RESULT_DELIVERY'' c None)
          (t + wp_submission_window P) None 0 w1)"

definition report_with_retries ::
  "nat \<Rightarrow> 'w worker_ports \<Rightarrow> job \<Rightarrow> failure_command \<Rightarrow> 'w \<Rightarrow> ((worker_error + failure_receipt option) \<times> 'w) option" where
  "report_with_retries n P j k w =
     (case wp_monotonic P w of (t, w1) \<Rightarrow>
        delivery_loop n P (wp_report P k) failure_report_retry_codes
          (\<lambda>c. Delivery_Submission_Expired (jb_job_id j) (jb_case_id j) ''FAILURE_REPORT'' c
             (Some (xf_code (fm_execution_failure k))))
          (t + wp_submission_window P) None 0 w1)"

section \<open>One execution\<close>

text \<open>The typed worker of a job's type refuses jobs of another type.\<close>

definition typed_execute ::
  "'w worker_ports \<Rightarrow> job_type \<Rightarrow> job \<Rightarrow> controller \<Rightarrow> 'w \<Rightarrow>
   (worker_error + (runtime_error + runtime_receipt)) \<times> controller \<times> 'w" where
  "typed_execute P t j ct w =
     (if jb_job_type j \<noteq> t then (Inl Scheduler_Invariant_Error, ct, w)
      else case wp_execute P j ct w of (x, ct', w') \<Rightarrow> (Inr x, ct', w'))"

definition valid_runtime_receipt :: "job \<Rightarrow> runtime_receipt \<Rightarrow> bool" where
  "valid_runtime_receipt j r \<longleftrightarrow>
     (let oc = rr_job_outcome r
      in oc_job_id oc = jb_job_id j \<and> oc_case_id oc = jb_case_id j \<and> oc_job_type oc = jb_job_type j \<and>
         oc_base_state_revision oc = jb_base_state_revision j)"

definition claim_error :: "opaque_id \<Rightarrow> opaque_id \<Rightarrow> claim_receipt \<Rightarrow> worker_error + job" where
  "claim_error job_id runtime_epoch cl =
     (case cl_job cl of None \<Rightarrow> Inl Scheduler_Invariant_Error
      | Some j \<Rightarrow>
          if jb_job_id j \<noteq> job_id \<or> jb_status j \<noteq> JS_RUNNING \<or> jb_runtime_epoch j \<noteq> Some runtime_epoch
          then Inl Scheduler_Invariant_Error else Inr j)"

type_synonym 'w run = "((worker_error + worker_run_result) \<times> controller \<times> 'w) option"

definition report_failure_of ::
  "nat \<Rightarrow> 'w worker_ports \<Rightarrow> job \<Rightarrow> opaque_id \<Rightarrow> opaque_id \<Rightarrow> execution_failure \<Rightarrow> controller \<Rightarrow> 'w \<Rightarrow> 'w run" where
  "report_failure_of n P j runtime_epoch failure_id failure ct w =
     (case report_with_retries n P j \<lparr>fm_job_id = jb_job_id j, fm_runtime_epoch = runtime_epoch,
          fm_failure_id = failure_id, fm_execution_failure = failure\<rparr> w of
        None \<Rightarrow> None
      | Some (Inl e, w') \<Rightarrow> Some (Inl e, ct, w')
      | Some (Inr None, w') \<Rightarrow> Some (Inr (run_result (jb_job_id j) True True), ct, w')
      | Some (Inr (Some r), w') \<Rightarrow>
          if fc_failure_id r \<noteq> failure_id \<or> \<not> pred_option (\<lambda>v. cv_case_id v = jb_case_id j) (fc_case_view r)
          then Some (Inl Scheduler_Invariant_Error, ct, w')
          else Some (Inr ((run_result (jb_job_id j) True True)
            \<lparr>wr_delivery_completed := True, wr_failure_disposition := Some (fc_disposition r)\<rparr>), ct, w'))"

definition deliver_outcome_of :: "nat \<Rightarrow> 'w worker_ports \<Rightarrow> job \<Rightarrow> runtime_receipt \<Rightarrow> controller \<Rightarrow> 'w \<Rightarrow> 'w run" where
  "deliver_outcome_of n P j r ct w =
     (if \<not> valid_runtime_receipt j r then Some (Inl Scheduler_Invariant_Error, ct, w)
      else case submit_with_retries n P r w of
        None \<Rightarrow> None
      | Some (Inl e, w') \<Rightarrow> Some (Inl e, ct, w')
      | Some (Inr None, w') \<Rightarrow> Some (Inr (run_result (jb_job_id j) True True), ct, w')
      | Some (Inr (Some x), w') \<Rightarrow>
          if \<not> pred_option (\<lambda>v. cv_case_id v = jb_case_id j) (rt_case_view x)
          then Some (Inl Scheduler_Invariant_Error, ct, w')
          else Some (Inr ((run_result (jb_job_id j) True True)
            \<lparr>wr_delivery_completed := True, wr_outcome_disposition := Some (rt_disposition x)\<rparr>), ct, w'))"

definition run_claimed :: "nat \<Rightarrow> 'w worker_ports \<Rightarrow> job \<Rightarrow> opaque_id \<Rightarrow> controller \<Rightarrow> 'w \<Rightarrow> 'w run" where
  "run_claimed n P j runtime_epoch ct w =
     (case typed_execute P (jb_job_type j) j ct w of (x, ct1, w1) \<Rightarrow>
        let ct2 = snd (retire ct1)
        in case x of Inl e \<Rightarrow> Some (Inl e, ct2, w1)
        | Inr (Inl (Runtime_Crash e)) \<Rightarrow> Some (Inl (Execution_Raised e), ct2, w1)
        | Inr y \<Rightarrow> (case wp_shutdown_requested P w1 of (requested, w2) \<Rightarrow>
            if requested then Some (Inr (run_result (jb_job_id j) True True), ct2, w2)
            else case y of
              Inl (Infrastructure_Error i f) \<Rightarrow> report_failure_of n P j runtime_epoch i f ct2 w2
            | Inr r \<Rightarrow> deliver_outcome_of n P j r ct2 w2))"

definition execute_one ::
  "nat \<Rightarrow> 'w worker_ports \<Rightarrow> opaque_id option \<Rightarrow> opaque_id \<Rightarrow> controller \<Rightarrow> 'w \<Rightarrow> 'w run" where
  "execute_one n P epoch_context job_id ct w =
     (case wp_shutdown_requested P w of (requested, w1) \<Rightarrow>
        if requested then Some (Inr (run_result job_id False False), ct, w1)
        else case require_runtime_epoch epoch_context of
          Inl e \<Rightarrow> Some (Inl (Lock_Raised e), ct, w1)
        | Inr runtime_epoch \<Rightarrow> (case wp_claim P job_id runtime_epoch w1 of
            (Inl e, w2) \<Rightarrow> Some (Inl (Port_Raised e), ct, w2)
          | (Inr cl, w2) \<Rightarrow>
              if \<not> cl_claimed cl then Some (Inr (run_result job_id False False), ct, w2)
              else case claim_error job_id runtime_epoch cl of
                Inl e \<Rightarrow> Some (Inl e, ct, w2)
              | Inr j \<Rightarrow> (case wp_shutdown_requested P w2 of (requested', w3) \<Rightarrow>
                  if requested'
                  then Some (Inr (run_result job_id True False),
                    snd (retire (snd (cancel_controller CN_SERVICE_SHUTDOWN ct))), w3)
                  else run_claimed n P j runtime_epoch ct w3)))"

text \<open>
  The bound of the delivery loops. The locale \<open>delivery_clock\<close> is what they rely on: time does not run backwards,
  and a wait that was not woken lasts as long as it was asked to. The window of 30 seconds and the backoff delays
  then leave room for at most twelve turns. The ports of the running service, the clock with the job control of
  \<open>Job_Control\<close> and \<open>Outcome_Application\<close>, are an instance.
\<close>

section \<open>The loop against a clock\<close>

definition backoff_sum :: "nat \<Rightarrow> real" where
  "backoff_sum k = (\<Sum>i < k. submission_backoff_delays ! min i 5)"

lemma delay_of_attempt: "submission_backoff_delay (int k) = Inr (submission_backoff_delays ! min k 5)"
proof -
  have "nat (min (int k) 5) = min k 5" by simp
  then show ?thesis by (simp add: submission_backoff_delay_def submission_backoff_delays_def)
qed

lemma delay_nonneg: "0 \<le> submission_backoff_delays ! min k 5"
  using submission_backoff_delay_bounds(1) [OF delay_of_attempt [of k]] by simp

lemma backoff_sum_Suc [simp]: "backoff_sum (Suc k) = backoff_sum k + submission_backoff_delays ! min k 5"
  by (simp add: backoff_sum_def)

lemma backoff_sum_mono: "m \<le> k \<Longrightarrow> backoff_sum m \<le> backoff_sum k"
  by (induction k rule: dec_induct) (use delay_nonneg in \<open>auto intro: add_increasing2\<close>)

lemma backoff_sum_11: "30 \<le> backoff_sum 11"
  by (simp add: backoff_sum_def submission_backoff_delays_def eval_nat_numeral)

text \<open>What an ended loop means: a receipt came from a call, an error from a call whose code is not retried, and the
  window is over when the submission is given up.\<close>

definition delivery_meaning ::
  "'w worker_ports \<Rightarrow> ('w \<Rightarrow> real) \<Rightarrow> ('w \<Rightarrow> (store_error + 'a) \<times> 'w) \<Rightarrow> error_code list \<Rightarrow> (error_code \<Rightarrow> worker_error) \<Rightarrow>
   real \<Rightarrow> (worker_error + 'a option) \<times> 'w \<Rightarrow> bool" where
  "delivery_meaning P time call codes expired deadline r \<longleftrightarrow>
     (case r of
        (Inr (Some x), w') \<Rightarrow> \<exists>v. fst (call v) = Inr x
      | (Inr None, w') \<Rightarrow> (\<exists>v. fst (wp_shutdown_requested P v)) \<or> (\<exists>d v. \<not> fst (wp_wait P d v))
      | (Inl e, w') \<Rightarrow>
          (\<exists>c \<in> set codes. e = expired c \<and> deadline \<le> time w') \<or>
          (\<exists>v e'. e = Port_Raised e' \<and> fst (call v) = Inl e' \<and> pred_option (\<lambda>c. c \<notin> set codes) (port_code e')))"

locale delivery_clock =
  fixes P :: "'w worker_ports" and time :: "'w \<Rightarrow> real" and call :: "'w \<Rightarrow> (store_error + 'a) \<times> 'w"
  assumes looked: "wp_shutdown_requested P w = (b, w') \<Longrightarrow> time w \<le> time w'"
    and clocked: "wp_monotonic P w = (t, w') \<Longrightarrow> time w \<le> t \<and> t \<le> time w'"
    and waited: "0 \<le> d \<Longrightarrow> wp_wait P d w = (b, w') \<Longrightarrow> time w \<le> time w' \<and> (b \<longrightarrow> time w + d \<le> time w')"
    and called: "call w = (x, w') \<Longrightarrow> time w \<le> time w'"
begin

lemma wait_before_retry_time:
  assumes "wait_before_retry P k deadline w = (go_on, w')"
  shows "time w \<le> time w'"
    and "go_on \<Longrightarrow> deadline \<le> time w' \<or> time w + submission_backoff_delays ! min k 5 \<le> time w'"
proof -
  obtain r1 w1 where 1: "wp_shutdown_requested P w = (r1, w1)" by (cases "wp_shutdown_requested P w")
  obtain t w2 where 2: "wp_monotonic P w1 = (t, w2)" by (cases "wp_monotonic P w1")
  define delay where "delay = min (submission_backoff_delays ! min k 5) (max 0 (deadline - t))"
  have d: "0 \<le> delay" using delay_nonneg by (simp add: delay_def)
  obtain b w3 where 3: "wp_wait P delay w2 = (b, w3)" by (cases "wp_wait P delay w2")
  obtain r4 w4 where 4: "wp_shutdown_requested P w3 = (r4, w4)" by (cases "wp_shutdown_requested P w3")
  note times = looked [OF 1] clocked [OF 2] waited [OF d 3] looked [OF 4]
  have r: "(go_on, w') = (if r1 then (False, w1) else if b then (\<not> r4, w4) else (False, w3))"
    using assms by (cases r1) (auto simp: wait_before_retry_def 1 2 delay_of_attempt delay_def [symmetric] 3 4 Let_def)
  show "time w \<le> time w'" using r times by (auto split: if_splits)
  assume "go_on"
  then have "b" "w' = w4" using r by (auto split: if_splits)
  then have "t + delay \<le> time w'" "time w \<le> t" using times by auto
  then show "deadline \<le> time w' \<or> time w + submission_backoff_delays ! min k 5 \<le> time w'"
    by (auto simp: delay_def min_def max_def split: if_splits)
qed

lemma turn_goes_on:
  assumes "delivery_turn P call codes expired deadline last_error k w = Inr (c, w')"
  shows "last_error \<noteq> None \<Longrightarrow> time w < deadline"
    and "deadline \<le> time w' \<or> time w + submission_backoff_delays ! min k 5 \<le> time w'"
proof -
  obtain r1 w1 where 1: "wp_shutdown_requested P w = (r1, w1)" by (cases "wp_shutdown_requested P w")
  define late where "late = (case last_error of None \<Rightarrow> (None, w1)
    | Some c \<Rightarrow> (case wp_monotonic P w1 of (t, w2) \<Rightarrow> (if deadline \<le> t then Some c else None, w2)))"
  obtain l w2 where 2: "late = (l, w2)" by (cases late)
  obtain x w3 where 3: "call w2 = (x, w3)" by (cases "call w2")
  obtain t w4 where 4: "wp_monotonic P w3 = (t, w4)" by (cases "wp_monotonic P w3")
  obtain go_on w5 where 5: "wait_before_retry P k deadline w4 = (go_on, w5)" by (cases "wait_before_retry P k deadline w4")
  have r: "l = None" "go_on" "w' = w5"
    using assms by (auto simp: delivery_turn_def 1 late_def [symmetric] 2 3 4 5 split: if_splits option.splits sum.splits)
  have t2: "time w1 \<le> time w2"
    using 2 clocked [of w1] by (auto simp: late_def split: option.splits prod.splits)
  have "time w \<le> time w4"
    using looked [OF 1] t2 called [OF 3] clocked [OF 4] by linarith
  then show "deadline \<le> time w' \<or> time w + submission_backoff_delays ! min k 5 \<le> time w'"
    using wait_before_retry_time(2) [OF 5 r(2)] r(3) by auto
  show "time w < deadline" if "last_error \<noteq> None"
    using that 2 r(1) clocked [of w1] looked [OF 1] by (fastforce simp: late_def split: option.splits prod.splits if_splits)
qed

lemma loop_ends:
  assumes "start + backoff_sum k \<le> time w \<or> (last_error \<noteq> None \<and> deadline \<le> time w)"
    "deadline \<le> start + 30" "0 < k \<Longrightarrow> last_error \<noteq> None" "12 \<le> k + n" "0 < n"
  shows "delivery_loop n P call codes expired deadline last_error k w \<noteq> None"
  using assms
proof (induction n arbitrary: k w last_error)
  case (Suc n)
  show ?case
  proof (cases "delivery_turn P call codes expired deadline last_error k w")
    case (Inr cw)
    obtain c w' where t: "delivery_turn P call codes expired deadline last_error k w = Inr (c, w')"
      using Inr by (cases cw) auto
    note g = turn_goes_on [OF t]
    have s: "start + backoff_sum k \<le> time w" using Suc.prems(1) g(1) by auto
    have "k < 11"
    proof (rule ccontr)
      assume "\<not> k < 11"
      then have "30 \<le> backoff_sum k" using backoff_sum_mono [of 11 k] backoff_sum_11 by simp
      then show False using s Suc.prems(2,3) g(1) \<open>\<not> k < 11\<close> by fastforce
    qed
    then have "delivery_loop n P call codes expired deadline (Some c) (Suc k) w' \<noteq> None"
      using g(2) s Suc.prems by (intro Suc.IH) auto
    then show ?thesis by (simp add: t)
  qed simp
qed simp

lemma turn_meaning:
  assumes "pred_option (\<lambda>c. c \<in> set codes) last_error"
  shows "case delivery_turn P call codes expired deadline last_error k w of
      Inl r \<Rightarrow> delivery_meaning P time call codes expired deadline r | Inr (c, w') \<Rightarrow> c \<in> set codes"
proof -
  obtain r1 w1 where 1: "wp_shutdown_requested P w = (r1, w1)" by (cases "wp_shutdown_requested P w")
  define late where "late = (case last_error of None \<Rightarrow> (None, w1)
    | Some c \<Rightarrow> (case wp_monotonic P w1 of (t, w2) \<Rightarrow> (if deadline \<le> t then Some c else None, w2)))"
  obtain l w2 where 2: "late = (l, w2)" by (cases late)
  have l: "l = Some c \<Longrightarrow> c \<in> set codes \<and> deadline \<le> time w2" for c
    using 2 assms clocked [of w1] by (fastforce simp: late_def split: option.splits prod.splits if_splits)
  obtain x w3 where 3: "call w2 = (x, w3)" by (cases "call w2")
  obtain t w4 where 4: "wp_monotonic P w3 = (t, w4)" by (cases "wp_monotonic P w3")
  obtain go_on w5 where 5: "wait_before_retry P k deadline w4 = (go_on, w5)" by (cases "wait_before_retry P k deadline w4")
  have c: "\<exists>v. fst (call v) = x" using 3 by (metis fst_conv)
  have s: "r1 \<Longrightarrow> \<exists>v. fst (wp_shutdown_requested P v)" using 1 by (metis fst_conv)
  have n: "\<not> go_on \<Longrightarrow> (\<exists>v. fst (wp_shutdown_requested P v)) \<or> (\<exists>d v. \<not> fst (wp_wait P d v))"
    using 5 by (auto simp: wait_before_retry_def Let_def split: prod.splits if_splits) (metis fst_conv)+
  have t: "t \<le> time w4" using clocked [OF 4] by simp
  show ?thesis
    using s n t l c
    by (auto simp: delivery_turn_def 1 late_def [symmetric] 2 3 4 5 delivery_meaning_def split: option.split sum.split)
qed

lemma loop_meaning:
  assumes "delivery_loop n P call codes expired deadline last_error k w = Some r" "pred_option (\<lambda>c. c \<in> set codes) last_error"
  shows "delivery_meaning P time call codes expired deadline r"
  using assms
proof (induction n arbitrary: last_error k w)
  case (Suc n)
  show ?case
  proof (cases "delivery_turn P call codes expired deadline last_error k w")
    case (Inl r')
    then show ?thesis using turn_meaning [OF Suc.prems(2), of expired deadline k w] Suc.prems(1) by simp
  next
    case (Inr cw)
    then obtain c w' where t: "delivery_turn P call codes expired deadline last_error k w = Inr (c, w')" by (cases cw) auto
    then have "c \<in> set codes" using turn_meaning [OF Suc.prems(2), of expired deadline k w] by simp
    then show ?thesis using Suc.IH [of "Some c" "Suc k" w'] Suc.prems(1) t by simp
  qed
qed simp

end

end
