(* ===== verification/Worker_Properties.thy ===== *)
theory Worker_Properties
  imports Job_Worker Dispatch_Properties
begin

text \<open>
  The worker over the running service: the job control is the one of \<open>Job_Control\<close> and \<open>Outcome_Application\<close> on
  one repository, the clock moves with every call, and the environment decides how long a call takes, what the
  runtime returns and when the shutdown is requested.
\<close>

section \<open>The world of a worker\<close>

record 'r service_world =
  sw_clock :: real
  sw_calls :: nat
  sw_repository :: 'r

text \<open>What the environment does at the n-th call: the ports of the job control as they are then, the microseconds
  the call takes, whether the shutdown has been requested or a wait woken, and the runtime.\<close>

record 'r service_env =
  se_store :: store_env
  se_control :: "nat \<Rightarrow> 'r control_ports"
  se_outcome :: "nat \<Rightarrow> 'r outcome_ports"
  se_elapsed :: "nat \<Rightarrow> nat"
  se_shutdown :: "nat \<Rightarrow> bool"
  se_woken :: "nat \<Rightarrow> bool"
  se_runtime :: "nat \<Rightarrow> job \<Rightarrow> controller \<Rightarrow> (runtime_error + runtime_receipt) \<times> controller"

definition passed :: "'r service_env \<Rightarrow> 'r service_world \<Rightarrow> 'r service_world" where
  "passed E w = w\<lparr>sw_clock := sw_clock w + real (se_elapsed E (sw_calls w)) / 1000000, sw_calls := sw_calls w + 1\<rparr>"

definition service_wait :: "'r service_env \<Rightarrow> real \<Rightarrow> 'r service_world \<Rightarrow> bool \<times> 'r service_world" where
  "service_wait E delay w =
     (case backoff_wait (se_shutdown E (sw_calls w)) (se_woken E (sw_calls w)) delay of
        Inl e \<Rightarrow> (False, passed E w)
      | Inr waited \<Rightarrow> (waited, if waited then (passed E w)\<lparr>sw_clock := sw_clock (passed E w) + delay\<rparr> else passed E w))"

definition service_submit ::
  "'r service_env \<Rightarrow> runtime_receipt \<Rightarrow> 'r service_world \<Rightarrow> (store_error + outcome_receipt) \<times> 'r service_world" where
  "service_submit E r w =
     (case submit_outcome (se_store E) (se_outcome E (sw_calls w))
          \<lparr>so_job_outcome = rr_job_outcome r, so_outcome_file_ref = rr_outcome_file_ref r\<rparr> (sw_repository w) of
        (repo, effects, x) \<Rightarrow> (x, (passed E w)\<lparr>sw_repository := repo\<rparr>))"

definition service_report ::
  "'r service_env \<Rightarrow> failure_command \<Rightarrow> 'r service_world \<Rightarrow> (store_error + failure_receipt) \<times> 'r service_world" where
  "service_report E k w =
     (case report_execution_infrastructure_failure (se_store E) (se_control E (sw_calls w)) k (sw_repository w) of
        (repo, x) \<Rightarrow> (x, (passed E w)\<lparr>sw_repository := repo\<rparr>))"

definition service_claim ::
  "'r service_env \<Rightarrow> opaque_id \<Rightarrow> opaque_id \<Rightarrow> 'r service_world \<Rightarrow> (store_error + claim_receipt) \<times> 'r service_world" where
  "service_claim E i e w =
     (case claim_job (se_store E) (se_control E (sw_calls w)) i e (sw_repository w) of
        (repo, x) \<Rightarrow> (x, (passed E w)\<lparr>sw_repository := repo\<rparr>))"

definition service_ports :: "'r service_env \<Rightarrow> 'r service_world worker_ports" where
  "service_ports E =
     \<lparr>wp_shutdown_requested = (\<lambda>w. (se_shutdown E (sw_calls w), passed E w)),
      wp_monotonic = (\<lambda>w. (sw_clock w, passed E w)),
      wp_wait = service_wait E, wp_claim = service_claim E,
      wp_execute = (\<lambda>j ct w. case se_runtime E (sw_calls w) j ct of (x, ct') \<Rightarrow> (x, ct', passed E w)),
      wp_submit = service_submit E, wp_report = service_report E, wp_submission_window = 30\<rparr>"

lemma passed_clock [simp]: "sw_clock w \<le> sw_clock (passed E w)"
  by (simp add: passed_def)

interpretation submitting: delivery_clock "service_ports E" sw_clock "service_submit E r" for E r
  by unfold_locales
     (auto intro: add_increasing2 simp: service_ports_def service_wait_def backoff_wait_def service_submit_def split: prod.splits if_splits)

interpretation reporting: delivery_clock "service_ports E" sw_clock "service_report E k" for E k
  by unfold_locales
     (auto intro: add_increasing2 simp: service_ports_def service_wait_def backoff_wait_def service_report_def split: prod.splits if_splits)

lemma first_turn:
  "wp_monotonic (service_ports E) w = (sw_clock w, passed E w)" "wp_submission_window (service_ports E) = 30"
  "wp_submit (service_ports E) r = service_submit E r" "wp_report (service_ports E) k = service_report E k"
  by (simp_all add: service_ports_def)

lemma loops_end:
  "delivery_loop 12 (service_ports E) (service_submit E r) codes expired (sw_clock w + 30) None 0 (passed E w) \<noteq> None"
  "delivery_loop 12 (service_ports E) (service_report E k) codes expired' (sw_clock w + 30) None 0 (passed E w) \<noteq> None"
proof -
  have z: "sw_clock w + backoff_sum 0 \<le> sw_clock (passed E w) \<or> (None :: error_code option) \<noteq> None \<and> sw_clock w + 30 \<le> sw_clock (passed E w)"
    by (simp add: backoff_sum_def)
  show "delivery_loop 12 (service_ports E) (service_submit E r) codes expired (sw_clock w + 30) None 0 (passed E w) \<noteq> None"
    by (rule submitting.loop_ends [OF z]) simp_all
  show "delivery_loop 12 (service_ports E) (service_report E k) codes expired' (sw_clock w + 30) None 0 (passed E w) \<noteq> None"
    by (rule reporting.loop_ends [OF z]) simp_all
qed

lemma retries_end:
  "submit_with_retries 12 (service_ports E) r w \<noteq> None" "report_with_retries 12 (service_ports E) j k w \<noteq> None"
  using loops_end by (simp_all add: submit_with_retries_def report_with_retries_def first_turn del: not_None_eq)

text \<open>
  C36. both delivery loops end after at most twelve turns, whatever the job control answers and however long it
  takes. A receipt they give is one the job control gave; an error that is not retried is passed on; a delivery is
  given up only after the 30 seconds of its window.
\<close>

theorem delivery_bounded:
  "(\<exists>s. submit_with_retries 12 (service_ports E) r w = Some s \<and>
      delivery_meaning (service_ports E) sw_clock (service_submit E r) submission_retry_codes
        (\<lambda>c. Delivery_Submission_Expired (oc_job_id (rr_job_outcome r)) (oc_case_id (rr_job_outcome r))
           ''RESULT_DELIVERY'' c None) (sw_clock w + 30) s) \<and>
   (\<exists>s. report_with_retries 12 (service_ports E) j k w = Some s \<and>
      delivery_meaning (service_ports E) sw_clock (service_report E k) failure_report_retry_codes
        (\<lambda>c. Delivery_Submission_Expired (jb_job_id j) (jb_case_id j) ''FAILURE_REPORT'' c
           (Some (xf_code (fm_execution_failure k)))) (sw_clock w + 30) s)"
proof
  obtain s where s: "submit_with_retries 12 (service_ports E) r w = Some s" using retries_end(1) by blast
  from submitting.loop_meaning [OF s [unfolded submit_with_retries_def first_turn prod.case]]
  show "\<exists>s. submit_with_retries 12 (service_ports E) r w = Some s \<and>
      delivery_meaning (service_ports E) sw_clock (service_submit E r) submission_retry_codes
        (\<lambda>c. Delivery_Submission_Expired (oc_job_id (rr_job_outcome r)) (oc_case_id (rr_job_outcome r))
           ''RESULT_DELIVERY'' c None) (sw_clock w + 30) s"
    using s by simp
next
  obtain s where s: "report_with_retries 12 (service_ports E) j k w = Some s" using retries_end(2) by blast
  from reporting.loop_meaning [OF s [unfolded report_with_retries_def first_turn prod.case]]
  show "\<exists>s. report_with_retries 12 (service_ports E) j k w = Some s \<and>
      delivery_meaning (service_ports E) sw_clock (service_report E k) failure_report_retry_codes
        (\<lambda>c. Delivery_Submission_Expired (jb_job_id j) (jb_case_id j) ''FAILURE_REPORT'' c
           (Some (xf_code (fm_execution_failure k)))) (sw_clock w + 30) s"
    using s by simp
qed

section \<open>One execution\<close>

lemma deliver_outcome_shape:
  assumes "deliver_outcome_of n P j r ct w = Some (x, ct', w')"
  shows "ct' = ct" "x = Inr res \<Longrightarrow> wr_job_id res = jb_job_id j \<and> wr_runtime_called res"
    "x = Inr res \<Longrightarrow> wr_delivery_completed res \<Longrightarrow> valid_runtime_receipt j r \<and> wr_outcome_disposition res \<noteq> None"
  using assms by (auto simp: deliver_outcome_of_def run_result_def split: if_splits option.splits sum.splits prod.splits)

lemma report_failure_shape:
  assumes "report_failure_of n P j e f xf ct w = Some (x, ct', w')"
  shows "ct' = ct" "x = Inr res \<Longrightarrow> wr_job_id res = jb_job_id j \<and> wr_runtime_called res"
    "x = Inr res \<Longrightarrow> wr_delivery_completed res \<Longrightarrow> wr_failure_disposition res \<noteq> None"
  using assms by (auto simp: report_failure_of_def run_result_def split: if_splits option.splits sum.splits prod.splits)

text \<open>What the result of a run says about the answer of the runtime to the claimed job: a crash of the runtime is
  passed on; otherwise a result names the job and says that the runtime was called, and it reports a delivery only of
  an outcome that is bound to the job, or of an infrastructure failure.\<close>

definition run_of_answer :: "job \<Rightarrow> runtime_error + runtime_receipt \<Rightarrow> worker_error + worker_run_result \<Rightarrow> bool" where
  "run_of_answer j x r \<longleftrightarrow>
     (case (x, r) of
        (Inl (Runtime_Crash c), _) \<Rightarrow> r = Inl (Execution_Raised c)
      | (Inl (Infrastructure_Error f xf), Inr res) \<Rightarrow>
          wr_job_id res = jb_job_id j \<and> wr_runtime_called res \<and>
          (wr_delivery_completed res \<longrightarrow> wr_failure_disposition res \<noteq> None)
      | (Inr rr, Inr res) \<Rightarrow>
          wr_job_id res = jb_job_id j \<and> wr_runtime_called res \<and>
          (wr_delivery_completed res \<longrightarrow> valid_runtime_receipt j rr \<and> wr_outcome_disposition res \<noteq> None)
      | (_, Inl e) \<Rightarrow> True)"

lemma retired_retire [simp]: "ct_retired (snd (retire ct))"
  by (simp add: retire_def)

lemma run_claimed_shape:
  assumes "run_claimed n P j e ct w = Some (r, ct', w')"
  shows "ct_retired ct' \<and> run_of_answer j (fst (wp_execute P j ct w)) r"
proof -
  obtain x ct1 w1 where x: "wp_execute P j ct w = (x, ct1, w1)" by (cases "wp_execute P j ct w")
  obtain b w2 where b: "wp_shutdown_requested P w1 = (b, w2)" by (cases "wp_shutdown_requested P w1")
  show ?thesis
  proof (cases x)
    case (Inl y)
    then show ?thesis
    proof (cases y)
      case (Infrastructure_Error f xf)
      show ?thesis
      proof (cases b)
        case True
        then show ?thesis using Inl Infrastructure_Error assms
          by (auto simp: run_claimed_def typed_execute_def x b run_result_def run_of_answer_def Let_def)
      next
        case False
        then have "report_failure_of n P j e f xf (snd (retire ct1)) w2 = Some (r, ct', w')"
          using Inl Infrastructure_Error assms by (simp add: run_claimed_def typed_execute_def x b Let_def)
        from report_failure_shape [OF this] show ?thesis
          using Inl Infrastructure_Error by (cases r) (simp_all add: run_of_answer_def x)
      qed
    next
      case (Runtime_Crash c)
      with Inl assms show ?thesis by (auto simp: run_claimed_def typed_execute_def x Let_def run_of_answer_def)
    qed
  next
    case (Inr rr)
    show ?thesis
    proof (cases b)
      case True
      then show ?thesis using Inr assms
        by (auto simp: run_claimed_def typed_execute_def x b run_result_def run_of_answer_def Let_def)
    next
      case False
      then have "deliver_outcome_of n P j rr (snd (retire ct1)) w2 = Some (r, ct', w')"
        using Inr assms by (simp add: run_claimed_def typed_execute_def x b Let_def)
      from deliver_outcome_shape [OF this] show ?thesis
        using Inr by (cases r) (simp_all add: run_of_answer_def x)
    qed
  qed
qed

text \<open>What a run of the worker answers for, when it returns and when it raises. Either the runtime was not called: the
  run would be the same with any other runtime, and a result says so; the cancellation is as it was, or closed after a
  shutdown. Or the job was claimed for the epoch of this process and the runtime was called on it as it was claimed;
  then its cancellation is closed and the result is that of the answer of the runtime.\<close>

definition run_promise ::
  "nat \<Rightarrow> 'w worker_ports \<Rightarrow> opaque_id option \<Rightarrow> opaque_id \<Rightarrow> controller \<Rightarrow> 'w \<Rightarrow> worker_error + worker_run_result \<Rightarrow>
   controller \<Rightarrow> 'w \<Rightarrow> bool" where
  "run_promise n P ctx i ct w r ct' w' \<longleftrightarrow>
     (\<forall>x. execute_one n (P\<lparr>wp_execute := x\<rparr>) ctx i ct w = Some (r, ct', w')) \<and> (ct' = ct \<or> ct_retired ct') \<and>
     (case r of Inl e \<Rightarrow> True
      | Inr res \<Rightarrow> wr_job_id res = i \<and> \<not> wr_runtime_called res \<and> \<not> wr_delivery_completed res) \<or>
     ct_retired ct' \<and>
     (\<exists>e j cl v v'. ctx = Some e \<and> fst (wp_claim P i e v) = Inr cl \<and> cl_claimed cl \<and> cl_job cl = Some j \<and>
        jb_job_id j = i \<and> jb_status j = JS_RUNNING \<and> jb_runtime_epoch j = Some e \<and>
        run_of_answer j (fst (wp_execute P j ct v')) r)"

lemma run_result_simps [simp]:
  "wr_job_id (run_result i c r) = i" "wr_runtime_called (run_result i c r) = r"
  "wr_delivery_completed (run_result i c r) = False"
  by (simp_all add: run_result_def)

text \<open>A run that ends before the call of the runtime.\<close>

lemma not_called:
  assumes "\<And>x. execute_one n (P\<lparr>wp_execute := x\<rparr>) ctx i ct w = Some (r0, ct0, w0)" "ct0 = ct \<or> ct_retired ct0"
    and "\<And>res. r0 = Inr res \<Longrightarrow> wr_job_id res = i \<and> \<not> wr_runtime_called res \<and> \<not> wr_delivery_completed res"
    and "execute_one n P ctx i ct w = Some (r, ct', w')"
  shows "run_promise n P ctx i ct w r ct' w'"
proof -
  have "P\<lparr>wp_execute := wp_execute P\<rparr> = P" by simp
  then have "execute_one n P ctx i ct w = Some (r0, ct0, w0)" using assms(1) [of "wp_execute P"] by simp
  then have "r = r0" "ct' = ct0" "w' = w0" using assms(4) by simp_all
  then show ?thesis using assms(1,2,3) by (simp add: run_promise_def split: sum.split)
qed

lemma execute_one_promise:
  assumes run: "execute_one n P ctx i ct w = Some (r, ct', w')"
  shows "run_promise n P ctx i ct w r ct' w'"
proof -
  obtain b w1 where b: "wp_shutdown_requested P w = (b, w1)" by (cases "wp_shutdown_requested P w")
  show ?thesis
  proof (cases "b")
    case True
    then show ?thesis by (intro not_called [OF _ _ _ run, of "Inr (run_result i False False)" ct w1]) (auto simp: execute_one_def b)
  next
    case no_stop: False
    show ?thesis
    proof (cases ctx)
      case None
      then show ?thesis using no_stop
        by (intro not_called [OF _ _ _ run, of "Inl (Lock_Raised Runtime_Error)" ct w1])
           (auto simp: execute_one_def b require_runtime_epoch_def)
    next
      case e: (Some e)
      obtain y w2 where y: "wp_claim P i e w1 = (y, w2)" by (cases "wp_claim P i e w1")
      note start = execute_one_def b e no_stop y require_runtime_epoch_def
      show ?thesis
      proof (cases y)
        case (Inl x)
        then show ?thesis by (intro not_called [OF _ _ _ run, of "Inl (Port_Raised x)" ct w2]) (auto simp: start)
      next
        case cl: (Inr cl)
        show ?thesis
        proof (cases "cl_claimed cl")
          case False
          then show ?thesis using cl
            by (intro not_called [OF _ _ _ run, of "Inr (run_result i False False)" ct w2]) (auto simp: start)
        next
          case claimed: True
          show ?thesis
          proof (cases "claim_error i e cl")
            case (Inl x)
            then show ?thesis using cl claimed
              by (intro not_called [OF _ _ _ run, of "Inl x" ct w2]) (auto simp: start)
          next
            case j: (Inr j)
            obtain b' w3 where b': "wp_shutdown_requested P w2 = (b', w3)" by (cases "wp_shutdown_requested P w2")
            show ?thesis
            proof (cases b')
              case True
              then show ?thesis using cl claimed j
                by (intro not_called [OF _ _ _ run, of "Inr (run_result i True False)"
                      "snd (retire (snd (cancel_controller CN_SERVICE_SHUTDOWN ct)))" w3])
                   (auto simp: start b')
            next
              case False
              then have claimed_run: "run_claimed n P j e ct w3 = Some (r, ct', w')"
                using run cl claimed j by (simp add: start b')
              have facts: "cl_job cl = Some j" "jb_job_id j = i" "jb_status j = JS_RUNNING" "jb_runtime_epoch j = Some e"
                using j by (auto simp: claim_error_def split: option.splits if_splits)
              have claim: "fst (wp_claim P i e w1) = Inr cl" using y cl by simp
              show ?thesis
                unfolding run_promise_def using run_claimed_shape [OF claimed_run] e claimed facts claim by blast
            qed
          qed
        qed
      qed
    qed
  qed
qed

lemma deliver_outcome_ends: "deliver_outcome_of 12 (service_ports E) j r ct w \<noteq> None"
  using retries_end(1) [of E r w] by (auto simp: deliver_outcome_of_def split: option.splits sum.splits)

lemma report_failure_ends: "report_failure_of 12 (service_ports E) j e f xf ct w \<noteq> None"
  using retries_end(2) [of E j _ w] unfolding report_failure_of_def
  by (auto split: option.splits sum.splits simp del: not_None_eq)

lemma run_claimed_ends: "run_claimed 12 (service_ports E) j e ct w \<noteq> None"
  using deliver_outcome_ends report_failure_ends
  by (auto simp: run_claimed_def typed_execute_def Let_def split: prod.splits sum.splits runtime_error.splits)

lemma execute_one_ends: "execute_one 12 (service_ports E) ctx i ct w \<noteq> None"
  using run_claimed_ends by (auto simp: execute_one_def split: prod.splits sum.splits)

text \<open>
  C25. The worker always returns or raises with the fuel of one delivery, and both ways it has kept to the claim:
  either it did not call the runtime, or it had claimed the job it was asked to run for the epoch of this process, as a
  running job, the runtime was called on the job as it was claimed, and the cancellation of the job is closed. A
  crash of the runtime is raised again; a delivery is reported only for an outcome that is bound to the job, or for
  an infrastructure failure, and only after a call of the runtime.
\<close>

theorem worker_delivers_claimed_job:
  "\<exists>r ct' w'. execute_one 12 (service_ports E) ctx i ct w = Some (r, ct', w') \<and>
     run_promise 12 (service_ports E) ctx i ct w r ct' w'"
proof -
  obtain r ct' w' where "execute_one 12 (service_ports E) ctx i ct w = Some (r, ct', w')"
    using execute_one_ends [of E ctx i ct w] by auto
  then show ?thesis using execute_one_promise [of 12 "service_ports E" ctx i ct w] by blast
qed

end
