(* ===== verification/Storage_Coordination.thy ===== *)
theory Storage_Coordination
  imports Dispatch_Signals
begin

text \<open>
  \<open>StorageCoordinationLock\<close> of \<open>storage/coordination.py\<close>: a re-entrant lock with one scope per case and an unscoped
  maintenance barrier, with the publication depth that \<open>InProcessPublicationCommitGuard\<close> counts on it. A call of
  \<open>acquire\<close> or \<open>release\<close> is a few blocks (under the gate, on the \<open>RLock\<close> of the scope, under the gate again) that
  other threads may interleave; the \<open>RLock\<close> objects have identities, because the dictionary of locks forgets and
  remakes them. The second half is \<open>AttachmentUploadRegistry\<close>.
\<close>

section \<open>The coordination lock\<close>

type_synonym thread_id = nat
type_synonym lock_id = nat
type_synonym scope = "opaque_id option"

text \<open>Where a thread is: outside of a call, or between two blocks of one. \<open>nested\<close> is the local variable of
  \<open>acquire\<close>.\<close>

datatype lock_point =
    Outside
  | Selecting lock_id bool
  | Entering
  | Missing bool
  | Leaving
  | Left_Lock

record coordination =
  co_scope_by_thread :: "(thread_id \<times> scope) list"
  co_locks :: "(scope \<times> lock_id) list"
  co_next_lock :: lock_id
  co_owner :: "lock_id \<Rightarrow> (thread_id \<times> nat) option"
  co_depth :: "thread_id \<Rightarrow> nat"
  co_publication_depth :: "thread_id \<Rightarrow> nat"
  co_at :: "thread_id \<Rightarrow> lock_point"

definition new_coordination :: coordination where
  "new_coordination =
     \<lparr>co_scope_by_thread = [], co_locks = [], co_next_lock = 0, co_owner = (\<lambda>l. None), co_depth = (\<lambda>t. 0),
      co_publication_depth = (\<lambda>t. 0), co_at = (\<lambda>t. Outside)\<rparr>"

definition scope_of :: "coordination \<Rightarrow> thread_id \<Rightarrow> scope option" where
  "scope_of c t = map_of (co_scope_by_thread c) t"

definition lock_of :: "coordination \<Rightarrow> scope \<Rightarrow> lock_id option" where
  "lock_of c s = map_of (co_locks c) s"

definition point_to :: "thread_id \<Rightarrow> lock_point \<Rightarrow> coordination \<Rightarrow> coordination" where
  "point_to t p c = c\<lparr>co_at := (co_at c)(t := p)\<rparr>"

definition scope_available :: "scope \<Rightarrow> coordination \<Rightarrow> bool" where
  "scope_available s c \<longleftrightarrow>
     (if s = None then co_scope_by_thread c = [] else None \<notin> snd ` set (co_scope_by_thread c))"

text \<open>\<open>_locks.setdefault(scope, RLock())\<close>.\<close>

definition select_lock :: "scope \<Rightarrow> coordination \<Rightarrow> lock_id \<times> coordination" where
  "select_lock s c =
     (case lock_of c s of Some l \<Rightarrow> (l, c)
      | None \<Rightarrow> (co_next_lock c, c\<lparr>co_locks := AList.update s (co_next_lock c) (co_locks c), co_next_lock := co_next_lock c + 1\<rparr>))"

text \<open>The first block of \<open>acquire\<close>; \<open>None\<close> is a wait, or the refusal of a call that does not wait.\<close>

definition acquire_gate :: "thread_id \<Rightarrow> scope \<Rightarrow> coordination \<Rightarrow> lock_error + coordination option" where
  "acquire_gate t case_id c =
     (case scope_of c t of
        Some s \<Rightarrow>
          if case_id \<noteq> None \<and> s \<noteq> None \<and> s \<noteq> case_id then Inl Runtime_Error
          else (case select_lock s c of (l, c') \<Rightarrow> Inr (Some (point_to t (Selecting l True) c')))
      | None \<Rightarrow>
          if \<not> scope_available case_id c then Inr None
          else (case select_lock case_id (c\<lparr>co_scope_by_thread := AList.update t case_id (co_scope_by_thread c)\<rparr>) of
            (l, c') \<Rightarrow> Inr (Some (point_to t (Selecting l False) c'))))"

text \<open>\<open>RLock.acquire\<close> when it succeeds, and \<open>RLock.release\<close>.\<close>

definition rlock_acquire :: "thread_id \<Rightarrow> lock_id \<Rightarrow> coordination \<Rightarrow> coordination option" where
  "rlock_acquire t l c =
     (case co_owner c l of
        None \<Rightarrow> Some (c\<lparr>co_owner := (co_owner c)(l := Some (t, 1))\<rparr>)
      | Some (o', n) \<Rightarrow> if o' = t then Some (c\<lparr>co_owner := (co_owner c)(l := Some (t, n + 1))\<rparr>) else None)"

definition rlock_release :: "thread_id \<Rightarrow> lock_id \<Rightarrow> coordination \<Rightarrow> lock_error + coordination" where
  "rlock_release t l c =
     (case co_owner c l of
        None \<Rightarrow> Inl Runtime_Error
      | Some (o', n) \<Rightarrow>
          if o' \<noteq> t then Inl Runtime_Error
          else Inr (c\<lparr>co_owner := (co_owner c)(l := if n \<le> 1 then None else Some (t, n - 1))\<rparr>))"

definition acquire_entered :: "thread_id \<Rightarrow> coordination \<Rightarrow> coordination" where
  "acquire_entered t c = c\<lparr>co_depth := (co_depth c)(t := co_depth c t + 1)\<rparr>"

definition acquire_missed :: "thread_id \<Rightarrow> bool \<Rightarrow> coordination \<Rightarrow> coordination" where
  "acquire_missed t nested c =
     (if nested then c else c\<lparr>co_scope_by_thread := AList.delete t (co_scope_by_thread c)\<rparr>)"

definition release_check :: "thread_id \<Rightarrow> coordination \<Rightarrow> lock_error + unit" where
  "release_check t c =
     (if co_depth c t \<le> 0 then Inl Runtime_Error
      else if co_depth c t \<le> co_publication_depth c t then Inl Runtime_Error else Inr ())"

definition held_lock :: "thread_id \<Rightarrow> coordination \<Rightarrow> lock_id option" where
  "held_lock t c = (case scope_of c t of None \<Rightarrow> None | Some s \<Rightarrow> lock_of c s)"

definition release_gate :: "thread_id \<Rightarrow> coordination \<Rightarrow> coordination" where
  "release_gate t c =
     (let remaining = co_depth c t - 1
      in if remaining \<noteq> 0 then c\<lparr>co_depth := (co_depth c)(t := remaining)\<rparr>
         else (case scope_of c t of None \<Rightarrow> c
           | Some s \<Rightarrow>
               let scopes = AList.delete t (co_scope_by_thread c)
               in c\<lparr>co_depth := (co_depth c)(t := 0), co_scope_by_thread := scopes,
                    co_locks := if s \<notin> snd ` set scopes then AList.delete s (co_locks c) else co_locks c\<rparr>))"

definition mark_publication_acquired :: "thread_id \<Rightarrow> coordination \<Rightarrow> lock_error + coordination" where
  "mark_publication_acquired t c =
     (if co_depth c t \<le> co_publication_depth c t then Inl Runtime_Error
      else Inr (c\<lparr>co_publication_depth := (co_publication_depth c)(t := co_publication_depth c t + 1)\<rparr>))"

definition mark_publication_released :: "thread_id \<Rightarrow> coordination \<Rightarrow> lock_error + coordination" where
  "mark_publication_released t c =
     (if co_publication_depth c t \<le> 0 then Inl Runtime_Error
      else Inr (c\<lparr>co_publication_depth := (co_publication_depth c)(t := co_publication_depth c t - 1)\<rparr>))"

section \<open>The steps of the threads\<close>

inductive coord_step :: "coordination \<Rightarrow> coordination \<Rightarrow> bool" where
  enters_gate: "co_at c t = Outside \<Longrightarrow> acquire_gate t s c = Inr (Some c') \<Longrightarrow> coord_step c c'"
| locks: "co_at c t = Selecting l nested \<Longrightarrow> rlock_acquire t l c = Some c' \<Longrightarrow> coord_step c (point_to t Entering c')"
| misses: "co_at c t = Selecting l nested \<Longrightarrow> coord_step c (point_to t (Missing nested) c)"
| entered: "co_at c t = Entering \<Longrightarrow> coord_step c (point_to t Outside (acquire_entered t c))"
| missed: "co_at c t = Missing nested \<Longrightarrow> coord_step c (point_to t Outside (acquire_missed t nested c))"
| checks: "co_at c t = Outside \<Longrightarrow> release_check t c = Inr () \<Longrightarrow> coord_step c (point_to t Leaving c)"
| unlocks: "co_at c t = Leaving \<Longrightarrow> held_lock t c = Some l \<Longrightarrow> rlock_release t l c = Inr c' \<Longrightarrow>
    coord_step c (point_to t Left_Lock c')"
| leaves: "co_at c t = Left_Lock \<Longrightarrow> coord_step c (point_to t Outside (release_gate t c))"
| publishes: "co_at c t = Outside \<Longrightarrow> mark_publication_acquired t c = Inr c' \<Longrightarrow> coord_step c c'"
| unpublishes: "co_at c t = Outside \<Longrightarrow> mark_publication_released t c = Inr c' \<Longrightarrow> coord_step c c'"

inductive coord_reachable :: "coordination \<Rightarrow> bool" where
  fresh: "coord_reachable new_coordination"
| moved: "coord_reachable c \<Longrightarrow> coord_step c c' \<Longrightarrow> coord_reachable c'"

section \<open>The invariant\<close>

text \<open>How often a thread owns the lock of its scope.\<close>

definition owned_count :: "coordination \<Rightarrow> thread_id \<Rightarrow> nat" where
  "owned_count c t =
     (case held_lock t c of None \<Rightarrow> 0
      | Some l \<Rightarrow> (case co_owner c l of None \<Rightarrow> 0 | Some (o', n) \<Rightarrow> if o' = t then n else 0))"

text \<open>What the blocks already passed say about depth and ownership.\<close>

fun point_ok :: "lock_point \<Rightarrow> nat \<Rightarrow> nat \<Rightarrow> nat \<Rightarrow> bool" where
  "point_ok Outside depth pub n \<longleftrightarrow> depth = n \<and> pub \<le> depth"
| "point_ok (Selecting l nested) depth pub n \<longleftrightarrow> depth = n \<and> pub \<le> depth \<and> (\<not> nested \<longrightarrow> depth = 0)"
| "point_ok Entering depth pub n \<longleftrightarrow> n = depth + 1 \<and> pub \<le> depth"
| "point_ok (Missing nested) depth pub n \<longleftrightarrow> depth = n \<and> pub \<le> depth \<and> (\<not> nested \<longrightarrow> depth = 0)"
| "point_ok Leaving depth pub n \<longleftrightarrow> depth = n \<and> pub < depth"
| "point_ok Left_Lock depth pub n \<longleftrightarrow> depth = n + 1 \<and> pub < depth"

definition scopes_ok :: "coordination \<Rightarrow> bool" where
  "scopes_ok c \<longleftrightarrow>
     distinct (map fst (co_scope_by_thread c)) \<and>
     (\<forall>t u. scope_of c t = Some None \<longrightarrow> scope_of c u \<noteq> None \<longrightarrow> u = t) \<and>
     (\<forall>t s. scope_of c t = Some s \<longrightarrow> lock_of c s \<noteq> None) \<and>
     (\<forall>t. scope_of c t = None \<longrightarrow> co_at c t = Outside)"

definition locks_ok :: "coordination \<Rightarrow> bool" where
  "locks_ok c \<longleftrightarrow>
     (\<forall>s l. lock_of c s = Some l \<longrightarrow> l < co_next_lock c) \<and>
     (\<forall>s s' l. lock_of c s = Some l \<longrightarrow> lock_of c s' = Some l \<longrightarrow> s' = s) \<and>
     (\<forall>l t n. co_owner c l = Some (t, n) \<longrightarrow> 0 < n \<and> held_lock t c = Some l) \<and>
     (\<forall>t l b. co_at c t = Selecting l b \<longrightarrow> held_lock t c = Some l)"

definition points_ok :: "coordination \<Rightarrow> bool" where
  "points_ok c \<longleftrightarrow> (\<forall>t. point_ok (co_at c t) (co_depth c t) (co_publication_depth c t) (owned_count c t))"

definition coord_ok :: "coordination \<Rightarrow> bool" where
  "coord_ok c \<longleftrightarrow> scopes_ok c \<and> locks_ok c \<and> points_ok c"

lemma coord_ok_new: "coord_ok new_coordination"
  by (simp add: coord_ok_def scopes_ok_def locks_ok_def points_ok_def new_coordination_def scope_of_def lock_of_def
    held_lock_def owned_count_def)

lemma point_to_simps [simp]:
  "scope_of (point_to t p c) = scope_of c" "lock_of (point_to t p c) = lock_of c" "held_lock u (point_to t p c) = held_lock u c"
  "owned_count (point_to t p c) = owned_count c" "co_owner (point_to t p c) = co_owner c"
  "co_next_lock (point_to t p c) = co_next_lock c" "co_depth (point_to t p c) = co_depth c"
  "co_publication_depth (point_to t p c) = co_publication_depth c"
  "co_scope_by_thread (point_to t p c) = co_scope_by_thread c" "co_locks (point_to t p c) = co_locks c" "co_at (point_to t p c) = (co_at c)(t := p)"
  by (auto simp: point_to_def scope_of_def lock_of_def held_lock_def owned_count_def fun_eq_iff
    split: option.split)

lemma same_owner:
  assumes "\<And>n. x = Some (t, n) \<longleftrightarrow> y = Some (t, n)"
  shows "(case x of None \<Rightarrow> 0 | Some (o', n) \<Rightarrow> if o' = t then n else 0) =
    (case y of None \<Rightarrow> (0 :: nat) | Some (o', n) \<Rightarrow> if o' = t then n else 0)"
proof -
  have "\<forall>n. x = Some (t, n) \<longleftrightarrow> y = Some (t, n)" using assms by blast
  then show ?thesis by (cases x; cases y) (auto split: if_splits)
qed

text \<open>A step that leaves the dictionaries alone only has to say what it does to the thread itself.\<close>

lemma coord_ok_local:
  assumes "coord_ok c" "co_scope_by_thread c' = co_scope_by_thread c" "co_locks c' = co_locks c"
    "co_next_lock c' = co_next_lock c" "\<And>u. u \<noteq> t \<Longrightarrow> co_depth c' u = co_depth c u"
    "\<And>u. u \<noteq> t \<Longrightarrow> co_publication_depth c' u = co_publication_depth c u" "\<And>u. u \<noteq> t \<Longrightarrow> co_at c' u = co_at c u"
    "scope_of c t \<noteq> None \<or> co_at c' t = Outside"
    "\<And>l. held_lock t c \<noteq> Some l \<Longrightarrow> co_owner c' l = co_owner c l"
    "\<And>l o' n. held_lock t c = Some l \<Longrightarrow> co_owner c' l = Some (o', n) \<Longrightarrow> co_owner c l \<noteq> Some (o', n) \<Longrightarrow> o' = t \<and> 0 < n"
    "\<And>l o' n. held_lock t c = Some l \<Longrightarrow> co_owner c l = Some (o', n) \<Longrightarrow> o' \<noteq> t \<Longrightarrow> co_owner c' l = Some (o', n)"
    "\<And>l b. co_at c' t = Selecting l b \<Longrightarrow> held_lock t c = Some l"
    "point_ok (co_at c' t) (co_depth c' t) (co_publication_depth c' t) (owned_count c' t)"
  shows "coord_ok c'"
proof -
  have e: "scope_of c' = scope_of c" "lock_of c' = lock_of c" "\<And>u. held_lock u c' = held_lock u c"
    using assms(2,3) by (auto simp: scope_of_def lock_of_def held_lock_def fun_eq_iff split: option.split)
  have s: "scopes_ok c'"
    unfolding scopes_ok_def e assms(2)
  proof (intro conjI allI impI)
    fix u assume "scope_of c u = None"
    then show "co_at c' u = Outside"
      using assms(1,7,8) by (cases "u = t") (auto simp: coord_ok_def scopes_ok_def)
  qed (use assms(1) in \<open>auto simp: coord_ok_def scopes_ok_def\<close>)
  have own: "0 < n \<and> held_lock u c = Some l" if "co_owner c' l = Some (u, n)" for u n l
  proof (cases "held_lock t c = Some l \<and> co_owner c l \<noteq> Some (u, n)")
    case True
    then show ?thesis using assms(10) that by blast
  next
    case False
    then have "co_owner c l = Some (u, n)" using that assms(9) by metis
    then show ?thesis using assms(1) by (auto simp: coord_ok_def locks_ok_def)
  qed
  have l: "locks_ok c'"
    unfolding locks_ok_def e
  proof (intro conjI allI impI)
    fix u l b assume "co_at c' u = Selecting l b"
    then show "held_lock u c = Some l"
      using assms(1,7,12) by (cases "u = t") (auto simp: coord_ok_def locks_ok_def)
  qed (use assms(1,4) own in \<open>auto simp: coord_ok_def locks_ok_def\<close>)
  have "owned_count c' u = owned_count c u" if "u \<noteq> t" for u
  proof (cases "held_lock u c")
    case None
    then show ?thesis by (simp add: owned_count_def e)
  next
    case (Some m)
    show ?thesis
    proof (cases "held_lock t c = Some m")
      case True
      have "co_owner c' m = Some (u, n) \<longleftrightarrow> co_owner c m = Some (u, n)" for n
        using assms(10) [OF True, of u n] assms(11) [OF True, of u n] that by blast
      then show ?thesis using same_owner [of "co_owner c' m" u "co_owner c m"] by (simp add: owned_count_def e Some)
    qed (use Some assms(9) in \<open>simp add: owned_count_def e\<close>)
  qed
  then have "point_ok (co_at c' u) (co_depth c' u) (co_publication_depth c' u) (owned_count c' u)" for u
    using assms(1,5-7,13) by (cases "u = t") (simp_all add: coord_ok_def points_ok_def)
  then have "points_ok c'" by (simp add: points_ok_def)
  with s l show ?thesis by (simp add: coord_ok_def)
qed

text \<open>A thread without a scope owns nothing and is outside; one that owns nothing does not appear as an owner.\<close>

lemma unregistered:
  assumes "coord_ok c" "scope_of c t = None"
  shows "co_depth c t = 0" "co_publication_depth c t = 0" "co_owner c l \<noteq> Some (t, n)" "owned_count c t = 0"
proof -
  show o: "owned_count c t = 0" by (simp add: owned_count_def held_lock_def assms(2))
  have "point_ok Outside (co_depth c t) (co_publication_depth c t) 0"
    using assms o unfolding coord_ok_def points_ok_def scopes_ok_def by metis
  then show "co_depth c t = 0" "co_publication_depth c t = 0" by auto
  show "co_owner c l \<noteq> Some (t, n)"
    using assms by (force simp: coord_ok_def locks_ok_def held_lock_def)
qed

lemma owns_nothing:
  assumes "coord_ok c" "owned_count c t = 0"
  shows "co_owner c l \<noteq> Some (t, n)"
proof
  assume o: "co_owner c l = Some (t, n)"
  then have "0 < n" "held_lock t c = Some l" using assms(1) by (auto simp: coord_ok_def locks_ok_def)
  then show False using assms(2) o by (simp add: owned_count_def)
qed

lemma coord_ok_register:
  assumes ok: "coord_ok c" and n: "scope_of c t = None" and a: "scope_available s c"
    and s: "select_lock s (c\<lparr>co_scope_by_thread := AList.update t s (co_scope_by_thread c)\<rparr>) = (l, c')"
  shows "coord_ok (point_to t (Selecting l False) c')"
proof -
  have sc: "scope_of c' u = (if u = t then Some s else scope_of c u)" for u
    using s by (auto simp: select_lock_def scope_of_def AList.update_conv' lock_of_def split: option.splits)
  have lk: "lock_of c' s' = (if s' = s then Some l else lock_of c s')" for s'
    using s by (auto simp: select_lock_def lock_of_def AList.update_conv' split: option.splits)
  have lo: "lock_of c s = Some l \<and> co_next_lock c' = co_next_lock c \<or>
      lock_of c s = None \<and> l = co_next_lock c \<and> co_next_lock c' = co_next_lock c + 1"
    using s by (auto simp: select_lock_def lock_of_def split: option.splits)
  have rest: "co_owner c' = co_owner c" "co_at c' = co_at c" "co_depth c' = co_depth c"
    "co_publication_depth c' = co_publication_depth c"
    "co_scope_by_thread c' = AList.update t s (co_scope_by_thread c)"
    using s by (auto simp: select_lock_def split: option.splits)
  have reg: "lock_of c s' \<noteq> None" if "scope_of c u = Some s'" for u s'
    using ok that by (auto simp: coord_ok_def scopes_ok_def)
  have held: "held_lock u c' = (if u = t then Some l else held_lock u c)" for u
  proof (cases "scope_of c u")
    case (Some s')
    then show ?thesis using reg [OF Some] lo by (auto simp: held_lock_def sc lk n)
  qed (simp add: held_lock_def sc lk)
  have own: "owned_count c' u = owned_count c u" for u
  proof (cases "u = t")
    case True
    have "\<forall>k. co_owner c l \<noteq> Some (t, k)" using unregistered(3) [OF ok n] by blast
    then have "owned_count c' t = 0" by (cases "co_owner c l") (auto simp: owned_count_def held rest)
    then show ?thesis using True unregistered(4) [OF ok n] by simp
  qed (unfold owned_count_def held rest, simp)
  note un = unregistered [OF ok n]
  have "scopes_ok (point_to t (Selecting l False) c')"
  proof -
    have d: "distinct (map fst (AList.update t s (co_scope_by_thread c)))"
      using ok by (simp add: coord_ok_def scopes_ok_def AList.distinct_update)
    have none: "scope_of c u = None" if "s = None" for u
      using a that by (simp add: scope_available_def scope_of_def)
    have some: "scope_of c u \<noteq> Some None" if "s \<noteq> None" for u
    proof
      assume "scope_of c u = Some None"
      then have "None \<in> snd ` set (co_scope_by_thread c)" by (auto simp: scope_of_def dest!: map_of_SomeD) force
      then show False using a that by (simp add: scope_available_def)
    qed
    show ?thesis
      unfolding scopes_ok_def point_to_simps sc lk rest
    proof (intro conjI allI impI)
      fix u v assume "(if u = t then Some s else scope_of c u) = Some None" "(if v = t then Some s else scope_of c v) \<noteq> None"
      then show "v = u"
        using ok none some by (cases s) (auto simp: coord_ok_def scopes_ok_def split: if_splits)
    qed (use ok d reg in \<open>auto simp: coord_ok_def scopes_ok_def split: if_splits\<close>)
  qed
  moreover have "locks_ok (point_to t (Selecting l False) c')"
    unfolding locks_ok_def point_to_simps rest
  proof (intro conjI allI impI)
    fix s' m assume "lock_of c' s' = Some m"
    then show "m < co_next_lock c'"
      using ok lo by (auto simp: lk coord_ok_def locks_ok_def less_Suc_eq split: if_splits)
  next
    fix s' s'' m assume m: "lock_of c' s' = Some m" "lock_of c' s'' = Some m"
    have inj: "lock_of c u = Some m \<Longrightarrow> lock_of c v = Some m \<Longrightarrow> v = u" "lock_of c u = Some m \<Longrightarrow> m < co_next_lock c" for u v
      using ok by (auto simp: coord_ok_def locks_ok_def)
    show "s'' = s'"
      using m lo inj(1) [of s' s''] inj(1) [of s s''] inj(1) [of s' s] inj(2) [of s'] inj(2) [of s'']
      by (auto simp: lk split: if_splits)
  next
    fix m u k assume "co_owner c m = Some (u, k)"
    then show "0 < k" "held_lock u c' = Some m"
      using ok un(3) [of m k] by (auto simp: held coord_ok_def locks_ok_def)
  next
    fix u m b assume "((co_at c)(t := Selecting l False)) u = Selecting m b"
    then show "held_lock u c' = Some m"
      using ok by (auto simp: held coord_ok_def locks_ok_def split: if_splits)
  qed
  moreover have "points_ok (point_to t (Selecting l False) c')"
    using ok un by (auto simp: coord_ok_def points_ok_def rest own)
  ultimately show ?thesis by (simp add: coord_ok_def)
qed

lemma coord_ok_pop:
  assumes ok: "coord_ok c" and s: "scope_of c t = Some s" and o: "owned_count c t = 0" and p: "co_publication_depth c t = 0"
    and c': "co_scope_by_thread c' = AList.delete t (co_scope_by_thread c)"
      "co_locks c' = co_locks c \<or> co_locks c' = AList.delete s (co_locks c) \<and> s \<notin> snd ` set (co_scope_by_thread c')"
      "co_next_lock c' = co_next_lock c" "co_owner c' = co_owner c" "co_depth c' = (co_depth c)(t := 0)"
      "co_publication_depth c' = co_publication_depth c" "co_at c' = (co_at c)(t := Outside)"
  shows "coord_ok c'"
proof -
  have sc: "scope_of c' u = (if u = t then None else scope_of c u)" for u
    by (simp add: scope_of_def c'(1) AList.delete_conv')
  have lk: "lock_of c' s' = lock_of c s'" if "scope_of c' u = Some s'" for u s'
  proof -
    have "s' \<in> snd ` set (co_scope_by_thread c')" using that by (force simp: scope_of_def dest: map_of_SomeD)
    then have "s' \<noteq> s \<or> co_locks c' = co_locks c" using c'(2) by blast
    then show ?thesis using c'(2) by (auto simp: lock_of_def AList.delete_conv')
  qed
  have lk': "lock_of c' s' = Some l \<Longrightarrow> lock_of c s' = Some l" for s' l
    using c'(2) by (auto simp: lock_of_def AList.delete_conv' split: if_splits)
  have held: "held_lock u c' = (if u = t then None else held_lock u c)" for u
    using lk [of u] by (auto simp: held_lock_def sc split: option.splits if_splits)
  have own: "owned_count c' u = owned_count c u" for u
  proof (cases "u = t")
    case True
    have "owned_count c' t = 0" by (simp add: owned_count_def held)
    then show ?thesis using True o by simp
  qed (unfold owned_count_def held c'(4), simp)
  have "scopes_ok c'"
    using ok lk unfolding coord_ok_def scopes_ok_def sc c'(1,7)
    by (auto simp: AList.distinct_delete split: if_splits)
  moreover have "locks_ok c'"
    unfolding locks_ok_def held c'(3,4,7)
  proof (intro conjI allI impI)
    fix l u n assume "co_owner c l = Some (u, n)"
    then show "0 < n" "(if u = t then None else held_lock u c) = Some l"
      using ok owns_nothing [OF ok o, of l n] by (auto simp: coord_ok_def locks_ok_def)
  qed (use ok lk' in \<open>auto simp: coord_ok_def locks_ok_def split: if_splits\<close>)
  moreover have "points_ok c'"
    using ok o p by (auto simp: coord_ok_def points_ok_def own c'(5-7))
  ultimately show ?thesis by (simp add: coord_ok_def)
qed

lemma owned_count_updates [simp]:
  "owned_count (c\<lparr>co_depth := x\<rparr>) = owned_count c" "owned_count (c\<lparr>co_publication_depth := y\<rparr>) = owned_count c"
  by (auto simp: owned_count_def held_lock_def scope_of_def lock_of_def fun_eq_iff split: option.split)

lemma coord_ok_point: "coord_ok c \<Longrightarrow> point_ok (co_at c t) (co_depth c t) (co_publication_depth c t) (owned_count c t)"
  by (simp add: coord_ok_def points_ok_def)

lemma coord_ok_lock: "coord_ok c \<Longrightarrow> scope_of c t = Some s \<Longrightarrow> \<exists>l. lock_of c s = Some l \<and> held_lock t c = Some l"
  by (auto simp: coord_ok_def scopes_ok_def held_lock_def)

lemma coord_ok_scope: "coord_ok c \<Longrightarrow> co_at c t \<noteq> Outside \<Longrightarrow> scope_of c t \<noteq> None"
  by (auto simp: coord_ok_def scopes_ok_def)

lemma coord_ok_step:
  assumes "coord_step c c'" "coord_ok c"
  shows "coord_ok c'"
  using assms(1)
proof (cases rule: coord_step.cases)
  case (enters_gate t case_id)
  show ?thesis
  proof (cases "scope_of c t")
    case None
    then obtain l d where "select_lock case_id (c\<lparr>co_scope_by_thread := AList.update t case_id (co_scope_by_thread c)\<rparr>) = (l, d)"
      "c' = point_to t (Selecting l False) d" "scope_available case_id c"
      using enters_gate(2) by (auto simp: acquire_gate_def split: if_splits prod.splits)
    then show ?thesis using coord_ok_register [OF assms(2) None] by simp
  next
    case (Some s)
    obtain l where l: "lock_of c s = Some l" "held_lock t c = Some l" using coord_ok_lock [OF assms(2) Some] by blast
    then have "c' = point_to t (Selecting l True) c"
      using enters_gate(2) Some by (auto simp: acquire_gate_def select_lock_def split: if_splits)
    moreover have "coord_ok (point_to t (Selecting l True) c)"
      using coord_ok_point [OF assms(2), of t] enters_gate(1) l Some
      by (intro coord_ok_local [OF assms(2), where t = t]) auto
    ultimately show ?thesis by simp
  qed
next
  case (locks t l nested c1)
  have h: "held_lock t c = Some l" using locks(2) assms(2) by (auto simp: coord_ok_def locks_ok_def)
  have p: "co_depth c t = owned_count c t" "co_publication_depth c t \<le> co_depth c t"
    using coord_ok_point [OF assms(2), of t] locks(2) by auto
  show ?thesis
    unfolding locks(1)
    using locks(3) h p coord_ok_scope [OF assms(2), of t] locks(2)
    by (intro coord_ok_local [OF assms(2), where t = t])
       (auto simp: rlock_acquire_def point_to_def owned_count_def held_lock_def scope_of_def lock_of_def
         split: option.splits if_splits)
next
  case (misses t l nested)
  show ?thesis
    unfolding misses(1)
    using coord_ok_point [OF assms(2), of t] coord_ok_scope [OF assms(2), of t] misses(2)
    by (intro coord_ok_local [OF assms(2), where t = t]) auto
next
  case (entered t)
  show ?thesis
    unfolding entered(1)
    using coord_ok_point [OF assms(2), of t] coord_ok_scope [OF assms(2), of t] entered(2)
    by (intro coord_ok_local [OF assms(2), where t = t])
       (auto simp: acquire_entered_def)
next
  case (missed t nested)
  note p = coord_ok_point [OF assms(2), of t] coord_ok_scope [OF assms(2), of t]
  show ?thesis
  proof (cases nested)
    case True
    then show ?thesis
      unfolding missed(1) using p missed(2)
      by (intro coord_ok_local [OF assms(2), where t = t]) (auto simp: acquire_missed_def)
  next
    case False
    obtain s where "scope_of c t = Some s" using p(2) missed(2) by auto
    with False show ?thesis
      unfolding missed(1) using p(1) missed(2)
      by (intro coord_ok_pop [OF assms(2), where t = t and s = s]) (auto simp: acquire_missed_def point_to_def)
  qed
next
  case (checks t)
  have "0 < owned_count c t" using coord_ok_point [OF assms(2), of t] checks(2,3) by (auto simp: release_check_def split: if_splits)
  then have "scope_of c t \<noteq> None" using unregistered(4) [OF assms(2), of t] by auto
  then show ?thesis
    unfolding checks(1)
    using coord_ok_point [OF assms(2), of t] checks(2,3)
    by (intro coord_ok_local [OF assms(2), where t = t]) (auto simp: release_check_def split: if_splits)
next
  case (unlocks t l c1)
  have p: "co_depth c t = owned_count c t" "co_publication_depth c t < co_depth c t"
    using coord_ok_point [OF assms(2), of t] unlocks(2) by auto
  show ?thesis
    unfolding unlocks(1)
    using unlocks(3,4) p coord_ok_scope [OF assms(2), of t] unlocks(2)
    by (intro coord_ok_local [OF assms(2), where t = t])
       (auto simp: rlock_release_def point_to_def owned_count_def held_lock_def scope_of_def lock_of_def
         split: option.splits if_splits)
next
  case (leaves t)
  have p: "co_depth c t = owned_count c t + 1" "co_publication_depth c t < co_depth c t"
    using coord_ok_point [OF assms(2), of t] leaves(2) by auto
  obtain s where s: "scope_of c t = Some s" using coord_ok_scope [OF assms(2), of t] leaves(2) by auto
  show ?thesis
  proof (cases "co_depth c t = 1")
    case True
    then show ?thesis
      unfolding leaves(1) using p s
      by (intro coord_ok_pop [OF assms(2), where t = t and s = s]) (auto simp: release_gate_def point_to_def Let_def)
  next
    case False
    then show ?thesis
      unfolding leaves(1) using p s
      by (intro coord_ok_local [OF assms(2), where t = t])
         (auto simp: release_gate_def)
  qed
next
  case (publishes t)
  then show ?thesis
    using coord_ok_point [OF assms(2), of t] unregistered [OF assms(2), of t]
    by (intro coord_ok_local [OF assms(2), where t = t])
       (auto simp: mark_publication_acquired_def split: if_splits)
next
  case (unpublishes t)
  then show ?thesis
    using coord_ok_point [OF assms(2), of t] unregistered [OF assms(2), of t]
    by (intro coord_ok_local [OF assms(2), where t = t])
       (auto simp: mark_publication_released_def split: if_splits)
qed

lemma coord_reachable_ok: "coord_reachable c \<Longrightarrow> coord_ok c"
  by (induction rule: coord_reachable.induct) (auto intro: coord_ok_new coord_ok_step)

section \<open>Publications exclude each other\<close>

text \<open>A thread that may touch the formal storage: it holds the lock and is not already on its way out, or it holds a
  publication lease.\<close>

definition in_section :: "coordination \<Rightarrow> thread_id \<Rightarrow> bool" where
  "in_section c t \<longleftrightarrow> 0 < co_depth c t \<and> co_at c t \<noteq> Left_Lock \<or> 0 < co_publication_depth c t"

lemma in_section_owns:
  assumes "coord_ok c" "in_section c t"
  shows "\<exists>s l n. scope_of c t = Some s \<and> lock_of c s = Some l \<and> co_owner c l = Some (t, n)"
proof -
  have "0 < owned_count c t"
    using coord_ok_point [OF assms(1), of t] assms(2) by (cases "co_at c t") (auto simp: in_section_def)
  then show ?thesis
    by (auto simp: owned_count_def held_lock_def split: option.splits if_splits)
qed

lemma sections_exclude:
  assumes "coord_ok c" "t \<noteq> u" "in_section c t" "in_section c u"
  shows "\<exists>a b. scope_of c t = Some (Some a) \<and> scope_of c u = Some (Some b) \<and> a \<noteq> b"
proof -
  obtain s l n where t: "scope_of c t = Some s" "lock_of c s = Some l" "co_owner c l = Some (t, n)"
    using in_section_owns [OF assms(1,3)] by blast
  obtain s' l' n' where u: "scope_of c u = Some s'" "lock_of c s' = Some l'" "co_owner c l' = Some (u, n')"
    using in_section_owns [OF assms(1,4)] by blast
  have "s' \<noteq> s" using t u assms(2) by auto
  moreover have "s \<noteq> None" "s' \<noteq> None"
    using assms(1,2) t(1) u(1) unfolding coord_ok_def scopes_ok_def by (metis option.distinct(1))+
  ultimately show ?thesis using t(1) u(1) by auto
qed

section \<open>The registry of attachment uploads\<close>

text \<open>Tickets and leases are objects; a lease is its place in the list of all leases.\<close>

record upload_lease =
  ul_attachment_id :: opaque_id
  ul_owner_thread_id :: thread_id
  ul_released :: bool

record upload_registry =
  ur_waiters :: "(opaque_id \<times> nat list) list"
  ur_active :: "(opaque_id \<times> nat) list"
  ur_leases :: "upload_lease list"
  ur_next_ticket :: nat

definition new_registry :: upload_registry where
  "new_registry = \<lparr>ur_waiters = [], ur_active = [], ur_leases = [], ur_next_ticket = 0\<rparr>"

definition waiting_queue :: "opaque_id \<Rightarrow> upload_registry \<Rightarrow> nat list" where
  "waiting_queue a g = (case map_of (ur_waiters g) a of None \<Rightarrow> [] | Some q \<Rightarrow> q)"

definition set_queue :: "opaque_id \<Rightarrow> nat list \<Rightarrow> upload_registry \<Rightarrow> upload_registry" where
  "set_queue a q g =
     g\<lparr>ur_waiters := if q = [] then AList.delete a (ur_waiters g) else AList.update a q (ur_waiters g)\<rparr>"

definition upload_enqueue :: "opaque_id \<Rightarrow> upload_registry \<Rightarrow> nat \<times> upload_registry" where
  "upload_enqueue a g =
     (ur_next_ticket g, (set_queue a (waiting_queue a g @ [ur_next_ticket g]) g)\<lparr>ur_next_ticket := ur_next_ticket g + 1\<rparr>)"

text \<open>The block after the wait; \<open>None\<close> while the ticket is not the first or the attachment has a lease.\<close>

definition upload_take :: "opaque_id \<Rightarrow> nat \<Rightarrow> thread_id \<Rightarrow> upload_registry \<Rightarrow> (nat \<times> upload_registry) option" where
  "upload_take a ticket t g =
     (case waiting_queue a g of
        [] \<Rightarrow> None
      | first # later \<Rightarrow>
          if first \<noteq> ticket \<or> map_of (ur_active g) a \<noteq> None then None
          else let lease = length (ur_leases g)
               in Some (lease, (set_queue a later g)\<lparr>ur_active := AList.update a lease (ur_active g),
                   ur_leases := ur_leases g @ [\<lparr>ul_attachment_id = a, ul_owner_thread_id = t, ul_released = False\<rparr>]\<rparr>))"

definition upload_abandon :: "opaque_id \<Rightarrow> nat \<Rightarrow> upload_registry \<Rightarrow> upload_registry" where
  "upload_abandon a ticket g = set_queue a (remove1 ticket (waiting_queue a g)) g"

definition upload_release :: "thread_id \<Rightarrow> nat \<Rightarrow> upload_registry \<Rightarrow> lock_error + upload_registry" where
  "upload_release t k g =
     (let lease = ur_leases g ! k
      in if t \<noteq> ul_owner_thread_id lease then Inl Runtime_Error
         else if ul_released lease then Inr g
         else if map_of (ur_active g) (ul_attachment_id lease) \<noteq> Some k then Inl Runtime_Error
         else Inr (g\<lparr>ur_leases := (ur_leases g)[k := lease\<lparr>ul_released := True\<rparr>],
            ur_active := AList.delete (ul_attachment_id lease) (ur_active g)\<rparr>))"

definition validate_lease :: "thread_id \<Rightarrow> opaque_id \<Rightarrow> nat \<Rightarrow> upload_registry \<Rightarrow> lock_error + unit" where
  "validate_lease t a k g =
     (let lease = ur_leases g ! k
      in if \<not> k < length (ur_leases g) then Inl Value_Error
         else if ul_attachment_id lease \<noteq> a then Inl Value_Error
         else if ul_owner_thread_id lease \<noteq> t then Inl Runtime_Error
         else if ul_released lease then Inl Value_Error
         else if map_of (ur_active g) a \<noteq> Some k then Inl Value_Error else Inr ())"

definition require_current_thread_lease :: "thread_id \<Rightarrow> opaque_id \<Rightarrow> upload_registry \<Rightarrow> lock_error + nat" where
  "require_current_thread_lease t a g =
     (case map_of (ur_active g) a of None \<Rightarrow> Inl Runtime_Error
      | Some k \<Rightarrow>
          if ul_released (ur_leases g ! k) then Inl Runtime_Error
          else if ul_owner_thread_id (ur_leases g ! k) \<noteq> t then Inl Runtime_Error else Inr k)"

text \<open>A lease is unreleased exactly while it is the active one of its attachment; tickets wait in the order in which
  they came, and no empty queue is kept.\<close>

definition leases_ok :: "upload_registry \<Rightarrow> bool" where
  "leases_ok g \<longleftrightarrow>
     (\<forall>k < length (ur_leases g). \<not> ul_released (ur_leases g ! k) \<longleftrightarrow>
        map_of (ur_active g) (ul_attachment_id (ur_leases g ! k)) = Some k) \<and>
     (\<forall>a k. map_of (ur_active g) a = Some k \<longrightarrow> k < length (ur_leases g) \<and> ul_attachment_id (ur_leases g ! k) = a)"

definition queue_good :: "nat \<Rightarrow> nat list \<Rightarrow> bool" where
  "queue_good n q \<longleftrightarrow> sorted q \<and> distinct q \<and> (\<forall>x \<in> set q. x < n)"

definition queues_ok :: "upload_registry \<Rightarrow> bool" where
  "queues_ok g \<longleftrightarrow>
     (\<forall>a. queue_good (ur_next_ticket g) (waiting_queue a g)) \<and> (\<forall>a. map_of (ur_waiters g) a \<noteq> Some [])"

lemma queue_good_intros:
  "queue_good n []" "queue_good n q \<Longrightarrow> queue_good (Suc n) (q @ [n])" "queue_good n (x # q) \<Longrightarrow> queue_good n q"
  "queue_good n q \<Longrightarrow> queue_good n (remove1 x q)" "queue_good n q \<Longrightarrow> queue_good (Suc n) q"
  by (auto simp: queue_good_def sorted_append sorted_remove1 less_Suc_eq less_imp_le dest: notin_set_remove1)

lemma waiting_set_queue [simp]: "waiting_queue b (set_queue a q g) = (if b = a then q else waiting_queue b g)"
  by (auto simp: waiting_queue_def set_queue_def AList.delete_conv' AList.update_conv')

lemma set_queue_simps [simp]:
  "ur_active (set_queue a q g) = ur_active g" "ur_leases (set_queue a q g) = ur_leases g"
  "ur_next_ticket (set_queue a q g) = ur_next_ticket g"
  by (simp_all add: set_queue_def)

lemma no_empty_queue: "map_of (ur_waiters g) b \<noteq> Some [] \<Longrightarrow> map_of (ur_waiters (set_queue a q g)) b \<noteq> Some []"
  by (auto simp: set_queue_def AList.delete_conv' AList.update_conv')

lemma registry_ok_new: "leases_ok new_registry" "queues_ok new_registry"
  by (simp_all add: leases_ok_def queues_ok_def queue_good_def new_registry_def waiting_queue_def)

lemma registry_ok_enqueue:
  assumes "leases_ok g" "queues_ok g"
  shows "leases_ok (snd (upload_enqueue a g))" "queues_ok (snd (upload_enqueue a g))"
proof -
  show "leases_ok (snd (upload_enqueue a g))" using assms(1) by (simp add: leases_ok_def upload_enqueue_def)
  have w: "waiting_queue b (snd (upload_enqueue a g)) =
      (if b = a then waiting_queue a g @ [ur_next_ticket g] else waiting_queue b g)" for b
    by (simp add: upload_enqueue_def waiting_queue_def set_queue_def AList.update_conv')
  have n: "ur_next_ticket (snd (upload_enqueue a g)) = Suc (ur_next_ticket g)"
    "ur_waiters (snd (upload_enqueue a g)) = ur_waiters (set_queue a (waiting_queue a g @ [ur_next_ticket g]) g)"
    by (simp_all add: upload_enqueue_def)
  show "queues_ok (snd (upload_enqueue a g))"
    using assms(2) no_empty_queue [of g] unfolding queues_ok_def w n by (auto intro: queue_good_intros)
qed

lemma registry_ok_abandon:
  assumes "leases_ok g" "queues_ok g"
  shows "leases_ok (upload_abandon a x g)" "queues_ok (upload_abandon a x g)"
  using assms no_empty_queue [of g]
  by (auto simp: leases_ok_def queues_ok_def upload_abandon_def intro: queue_good_intros)

lemma registry_ok_take:
  assumes "leases_ok g" "queues_ok g" "upload_take a x t g = Some (k, g')"
  shows "leases_ok g'" "queues_ok g'" "k = length (ur_leases g)" "\<exists>later. waiting_queue a g = x # later"
proof -
  obtain later where w: "waiting_queue a g = x # later" "map_of (ur_active g) a = None" "k = length (ur_leases g)"
    "g' = (set_queue a later g)\<lparr>ur_active := AList.update a k (ur_active g),
       ur_leases := ur_leases g @ [\<lparr>ul_attachment_id = a, ul_owner_thread_id = t, ul_released = False\<rparr>]\<rparr>"
    using assms(3) by (auto simp: upload_take_def Let_def split: list.splits if_splits)
  show "leases_ok g'"
    unfolding leases_ok_def
  proof (intro conjI allI impI)
    fix m assume m: "m < length (ur_leases g')"
    show "\<not> ul_released (ur_leases g' ! m) \<longleftrightarrow> map_of (ur_active g') (ul_attachment_id (ur_leases g' ! m)) = Some m"
    proof (cases "m = k")
      case False
      then have "m < length (ur_leases g)" using m w(3,4) by simp
      then have "\<not> ul_released (ur_leases g ! m) \<longleftrightarrow> map_of (ur_active g) (ul_attachment_id (ur_leases g ! m)) = Some m"
        using assms(1) by (simp add: leases_ok_def)
      then show ?thesis using w(2-4) False \<open>m < length (ur_leases g)\<close> by (auto simp: nth_append AList.update_conv')
    qed (simp add: w(3,4) AList.update_conv')
  next
    fix b m assume "map_of (ur_active g') b = Some m"
    then show "m < length (ur_leases g')" "ul_attachment_id (ur_leases g' ! m) = b"
      using assms(1) w(3,4) by (auto simp: leases_ok_def AList.update_conv' nth_append less_Suc_eq split: if_splits)
  qed
  have q: "waiting_queue b g' = (if b = a then later else waiting_queue b g)" for b
    by (simp add: w(4) waiting_queue_def set_queue_def AList.delete_conv' AList.update_conv')
  have n: "ur_next_ticket g' = ur_next_ticket g" "ur_waiters g' = ur_waiters (set_queue a later g)" by (simp_all add: w(4))
  have "queue_good (ur_next_ticket g) (x # later)" using assms(2) w(1) by (metis queues_ok_def)
  then show "queues_ok g'"
    using assms(2) no_empty_queue [of g] unfolding queues_ok_def q n by (auto intro: queue_good_intros)
  show "k = length (ur_leases g)" "\<exists>later. waiting_queue a g = x # later" using w by simp_all
qed

lemma registry_ok_release:
  assumes "leases_ok g" "queues_ok g" "upload_release t k g = Inr g'" "k < length (ur_leases g)"
  shows "leases_ok g'" "queues_ok g'"
proof -
  let ?a = "ul_attachment_id (ur_leases g ! k)"
  have c: "g' = g \<or> map_of (ur_active g) ?a = Some k \<and>
      g' = g\<lparr>ur_leases := (ur_leases g)[k := (ur_leases g ! k)\<lparr>ul_released := True\<rparr>], ur_active := AList.delete ?a (ur_active g)\<rparr>"
    using assms(3) by (auto simp: upload_release_def Let_def split: if_splits)
  have "waiting_queue b g' = waiting_queue b g" "ur_next_ticket g' = ur_next_ticket g" "ur_waiters g' = ur_waiters g" for b
    using c by (auto simp: waiting_queue_def)
  then have "queues_ok g'" using assms(2) by (simp add: queues_ok_def)
  moreover have "leases_ok g'"
    using c
  proof
    assume r: "map_of (ur_active g) ?a = Some k \<and>
      g' = g\<lparr>ur_leases := (ur_leases g)[k := (ur_leases g ! k)\<lparr>ul_released := True\<rparr>], ur_active := AList.delete ?a (ur_active g)\<rparr>"
    show ?thesis
      unfolding leases_ok_def
    proof (intro conjI allI impI)
      fix m assume "m < length (ur_leases g')"
      then have m: "m < length (ur_leases g)" using r by simp
      have "\<not> ul_released (ur_leases g ! m) \<longleftrightarrow> map_of (ur_active g) (ul_attachment_id (ur_leases g ! m)) = Some m"
        using assms(1) m by (simp add: leases_ok_def)
      then show "\<not> ul_released (ur_leases g' ! m) \<longleftrightarrow> map_of (ur_active g') (ul_attachment_id (ur_leases g' ! m)) = Some m"
        using r m by (cases "m = k") (auto simp: AList.delete_conv' nth_list_update)
    next
      fix b m assume "map_of (ur_active g') b = Some m"
      then have "map_of (ur_active g) b = Some m" using r by (auto simp: AList.delete_conv' split: if_splits)
      then have "m < length (ur_leases g) \<and> ul_attachment_id (ur_leases g ! m) = b" using assms(1) by (simp add: leases_ok_def)
      then show "m < length (ur_leases g')" "ul_attachment_id (ur_leases g' ! m) = b"
        using r assms(4) by (auto simp: nth_list_update)
    qed
  qed (simp add: assms(1))
  ultimately show "leases_ok g'" "queues_ok g'" by simp_all
qed

text \<open>Two unreleased leases are of different attachments; a validated lease is the one the thread may use.\<close>

lemma one_lease_per_attachment:
  assumes "leases_ok g" "k < length (ur_leases g)" "m < length (ur_leases g)" "k \<noteq> m"
    "\<not> ul_released (ur_leases g ! k)" "\<not> ul_released (ur_leases g ! m)"
  shows "ul_attachment_id (ur_leases g ! k) \<noteq> ul_attachment_id (ur_leases g ! m)"
proof
  assume e: "ul_attachment_id (ur_leases g ! k) = ul_attachment_id (ur_leases g ! m)"
  have "map_of (ur_active g) (ul_attachment_id (ur_leases g ! k)) = Some k"
    using assms(1,2,5) unfolding leases_ok_def by blast
  moreover have "map_of (ur_active g) (ul_attachment_id (ur_leases g ! m)) = Some m"
    using assms(1,3,6) unfolding leases_ok_def by blast
  ultimately show False using e assms(4) by simp
qed

lemma validated_lease_is_required:
  assumes "leases_ok g" "validate_lease t a k g = Inr ()"
  shows "require_current_thread_lease t a g = Inr k"
  using assms by (auto simp: validate_lease_def require_current_thread_lease_def Let_def split: if_splits)

section \<open>Property\<close>

text \<open>
  C8. In every state that threads can reach by acquiring, releasing and publishing in any interleaving, a thread inside
  the formal storage (it holds the lock and is not on its way out, or it has a publication lease) owns the lock of its
  scope, at least as often as it has publication leases; and every other thread inside the formal storage at that
  moment works on another case, so that the unscoped maintenance is never inside together with anyone.
\<close>

theorem publications_exclude:
  assumes "coord_reachable c" "in_section c t"
  shows "(\<exists>s l n. scope_of c t = Some s \<and> lock_of c s = Some l \<and> co_owner c l = Some (t, n) \<and> 0 < n \<and>
      co_publication_depth c t \<le> n) \<and>
    co_publication_depth c t \<le> co_depth c t \<and>
    (\<forall>u. u = t \<or> \<not> in_section c u \<or>
      (\<exists>a b. scope_of c t = Some (Some a) \<and> scope_of c u = Some (Some b) \<and> a \<noteq> b))"
proof -
  have ok: "coord_ok c" by (rule coord_reachable_ok [OF assms(1)])
  have point: "co_publication_depth c t \<le> co_depth c t \<and> co_publication_depth c t \<le> owned_count c t"
    using coord_ok_point [OF ok, of t] by (cases "co_at c t") auto
  obtain s l n where own: "scope_of c t = Some s" "lock_of c s = Some l" "co_owner c l = Some (t, n)"
    using in_section_owns [OF ok assms(2)] by blast
  moreover have "0 < n" using ok own(3) unfolding coord_ok_def locks_ok_def by blast
  moreover have "owned_count c t = n" using own by (simp add: owned_count_def held_lock_def)
  ultimately have "\<exists>s l n. scope_of c t = Some s \<and> lock_of c s = Some l \<and> co_owner c l = Some (t, n) \<and> 0 < n \<and>
      co_publication_depth c t \<le> n" using point by auto
  then show ?thesis using point sections_exclude [OF ok _ assms(2)] by metis
qed

text \<open>Two threads acquire the locks of two cases, the second while the first is between its blocks.\<close>

definition example_gate :: "thread_id \<Rightarrow> opaque_id \<Rightarrow> coordination \<Rightarrow> coordination" where
  "example_gate t s c = (case acquire_gate t (Some s) c of Inr (Some c') \<Rightarrow> c')"

definition example_lock :: "thread_id \<Rightarrow> coordination \<Rightarrow> coordination" where
  "example_lock t c = (case co_at c t of Selecting l b \<Rightarrow> (case rlock_acquire t l c of Some c' \<Rightarrow>
     point_to t Outside (acquire_entered t (point_to t Entering c'))))"

definition example_both :: coordination where
  "example_both = example_lock 1 (example_lock 0 (example_gate 1 ''c2'' (example_gate 0 ''c1'' new_coordination)))"

lemma example_gate_step:
  assumes "coord_reachable c" "co_at c t = Outside" "acquire_gate t (Some s) c = Inr (Some (example_gate t s c))"
  shows "coord_reachable (example_gate t s c)"
  by (rule moved [OF assms(1) enters_gate [OF assms(2,3)]])

lemma example_lock_step:
  assumes "coord_reachable c" "co_at c t = Selecting l b" "rlock_acquire t l c = Some c'"
  shows "coord_reachable (example_lock t c)"
proof -
  have "coord_reachable (point_to t Entering c')" by (rule moved [OF assms(1) locks [OF assms(2,3)]])
  then have "coord_reachable (point_to t Outside (acquire_entered t (point_to t Entering c')))"
    by (rule moved) (rule entered, simp add: point_to_def)
  then show ?thesis using assms(2,3) by (simp add: example_lock_def)
qed

lemmas example_coordination = example_both_def example_gate_def example_lock_def acquire_gate_def scope_available_def
  select_lock_def rlock_acquire_def acquire_entered_def new_coordination_def scope_of_def lock_of_def point_to_def

lemma example_both_reachable: "coord_reachable example_both"
proof -
  define c1 where "c1 = example_gate 0 ''c1'' new_coordination"
  define c2 where "c2 = example_gate 1 ''c2'' c1"
  define c3 where "c3 = example_lock 0 c2"
  note defs = c1_def c2_def c3_def
  have 1: "coord_reachable c1" unfolding c1_def
    by (rule example_gate_step [OF fresh]) (simp_all add: example_coordination)
  have 2: "coord_reachable c2" unfolding c2_def
    by (rule example_gate_step [OF 1]) (simp_all add: defs example_coordination)
  have 3: "coord_reachable c3" unfolding c3_def
    by (rule example_lock_step [OF 2, where l = 0 and b = False and c' = "c2\<lparr>co_owner := (co_owner c2)(0 := Some (0, 1))\<rparr>"])
       (simp_all add: defs example_coordination)
  show ?thesis unfolding example_both_def c1_def [symmetric] c2_def [symmetric] c3_def [symmetric]
    by (rule example_lock_step [OF 3, where l = 1 and b = False and c' = "c3\<lparr>co_owner := (co_owner c3)(1 := Some (1, 1))\<rparr>"])
       (simp_all add: defs example_coordination)
qed

text \<open>The first thread then takes a publication lease.\<close>

definition example_publication :: coordination where
  "example_publication = (case mark_publication_acquired 0 example_both of Inr c \<Rightarrow> c)"

lemma example_publication_reachable: "coord_reachable example_publication"
proof (rule moved [OF example_both_reachable publishes])
  show "co_at example_both 0 = Outside" by (simp add: example_coordination)
  show "mark_publication_acquired 0 example_both = Inr example_publication"
    by (simp add: example_publication_def mark_publication_acquired_def example_coordination)
qed

theorem publications_exclude_witness:
  "co_publication_depth example_publication 0 = 1 \<and>
   (\<exists>l n. lock_of example_publication (Some ''c1'') = Some l \<and> co_owner example_publication l = Some (0, n) \<and>
      co_publication_depth example_publication 0 \<le> n) \<and>
   scope_of example_publication 1 = Some (Some ''c2'')"
proof -
  have "in_section example_publication 0" "in_section example_publication 1"
    and "co_publication_depth example_publication 0 = 1" "scope_of example_publication 0 = Some (Some ''c1'')"
      "scope_of example_publication 1 = Some (Some ''c2'')"
    by (simp_all add: in_section_def example_publication_def mark_publication_acquired_def example_coordination)
  then show ?thesis using publications_exclude [OF example_publication_reachable, of 0] by auto
qed

end
