(* ===== verification/Spec2Isabelle.thy ===== *)
theory Spec2Isabelle
  imports Scenario Methods_Properties Store_Properties Command_Properties Outcome_Properties Dispatch_Properties
    Worker_Properties Storage_Coordination
begin

text \<open>
  Problem Locator: a service that runs diagnosis agents over problem reports. A case holds the state of a
  diagnosis; jobs run agents; every external event reaches the domain as a trigger. This development
  models the deterministic core, the code that decides what happens and what is stored, in the order of
  the sources under \<open>src/src/problem_locator\<close>.

  \<^bold>\<open>Parts and theories.\<close>

  \<^item> \<open>PL_Prelude\<close>: results (a value, an application error, a raised exception), text as UTF-8 bytes, the
    list and dictionary idioms of the sources, the interface \<open>stable_dedupe\<close> of the deduplication helpers.
  \<^item> \<open>contracts\<close>: \<open>Contract_Enums\<close> (\<open>enums.py\<close>, \<open>errors.py\<close>), \<open>Contract_Models\<close> (the records of
    \<open>models.py\<close>), \<open>Contract_Validators\<close>, \<open>State_Contract\<close> and \<open>Plan_Contract\<close> (its validators, and the
    checks of \<open>outcomes.py\<close>), \<open>Canonical_Json\<close> (\<open>serialization.py\<close>), \<open>Command_Models\<close> (the external
    commands, their request hash, \<open>application/idempotency.py\<close>), \<open>Methods_Reasons\<close>,
    \<open>Methods_Contract\<close>, \<open>Methods_State\<close>, \<open>Methods_Result\<close> (\<open>methods_reason_v2.py\<close>, \<open>methods_v2.py\<close>,
    \<open>methods_state_v2.py\<close>). A validator is a bool-valued function that is true exactly when the pydantic
    model can be constructed.
  \<^item> \<open>domain/coordinator.py\<close>: \<open>Coordinator_Messages\<close>, \<open>Coordinator_Support\<close>, \<open>Delta_Normalization\<close>,
    \<open>Supersedes\<close>, \<open>Coordinator_Outcomes\<close> and \<open>Coordinator_Control\<close> define every trigger handler, from
    its first guard to the \<open>TransitionPlan\<close> it returns; \<open>plan\<close> is \<open>DomainCoordinator.plan\<close>.
  \<^item> \<open>application\<close>: \<open>Formalization\<close> (\<open>apply_diagnosis_state_delta\<close>, candidates, bindings),
    \<open>Case_Application\<close> (\<open>apply_transition_plan_to_case\<close>), \<open>Job_Construction\<close> (\<open>build_job\<close> and
    \<open>domain/projector.py\<close>), \<open>Case_Projection\<close> and \<open>Continuation\<close> (\<open>projection.py\<close>: the case view, the
    snapshot of the coordinator, what a follow-up job inherits), \<open>Job_Control\<close> and \<open>Epoch_Recovery\<close>
    (\<open>job_control.py\<close>: claims, failure reports, the recovery of a new runtime epoch),
    \<open>Command_Preparation\<close> and \<open>External_Commands\<close> (\<open>preparation.py\<close>, \<open>runtime_bindings.py\<close>,
    \<open>external_commands.py\<close>: the seven external commands, from admission to the response),
    \<open>Outcome_Resources\<close>, \<open>Outcome_Plan\<close>, \<open>Outcome_Submission\<close> and \<open>Outcome_Application\<close>
    (\<open>outcome_submission.py\<close>, \<open>outcome_processing.py\<close>: a finalized outcome from the replay check over the
    coordinator's plan and the publication of its resources to the commit; with it the targets and the
    capacity of \<open>storage/resource_store.py\<close> and the records of accepted artifacts and evidence).
  \<^item> \<open>storage/state_repository.py\<close>: \<open>PL_Dict\<close> (dictionaries), \<open>Resource_Models\<close>, \<open>Outcome_Contract\<close>,
    \<open>Case_Aggregate\<close> and \<open>State_File\<close> (the stored models with all their checks, and \<open>_apply_mutation\<close>),
    \<open>Case_Repository\<close> (the live cases, the indexes, the rows of finished cases, reads and \<open>commit\<close>).
  \<^item> \<open>storage/coordination.py\<close>: \<open>Storage_Coordination\<close>, the lock of the formal storage as blocks of threads that
    interleave, with the invariant of its reachable states (publications of different threads exclude each other,
    C8), and the registry of attachment uploads with its queues of tickets.
  \<^item> \<open>dispatch\<close> and \<open>operational.py\<close>: \<open>Dispatch_Signals\<close> (the admission latch and its faults, cancellation,
    shutdown, backoff, the epoch of the process, idle scans), \<open>Dispatcher\<close> (\<open>dispatcher.py\<close>: the queues, and the
    worker threads as steps that interleave; what \<open>service.py\<close> does when a worker fails), \<open>Job_Worker\<close>
    (\<open>worker.py\<close>: claim, run once, deliver with bounded retries), and, in \<open>Dispatch_Properties\<close>, the rest of
    \<open>service.py\<close> and \<open>recovery.py\<close>.
  \<^item> The Methods evaluation: \<open>Methods_Scan\<close> (\<open>scan_method_evidence_v2\<close>), \<open>Methods_Evaluation\<close> (plan,
    response parsing, blind consensus), \<open>Methods_Reducer\<close> (\<open>domain/methods_state_v2.py\<close>),
    \<open>Methods_Driver\<close> (the attempt loops, the handoff and the end of an evaluation in
    \<open>runtime/diagnosis_runtime.py\<close>), \<open>Methods_Result\<close> (\<open>runtime/methods_outcome_v2.py\<close>).

  The coordinator plans against a snapshot of the case; the application formalizes the accepted delta and
  candidate, builds the next job and writes the plan into the case. A command reads the state of one case,
  decides, and commits a mutation against the generation it has read; when another client was faster the
  commit is refused and the command starts again, a bounded number of times (three for an external command). The runtime scans the logs of a job
  into an evidence graph, plans one evaluation per activated method, lets a specialist and a blind reviewer
  answer, and projects the agreed result.

  \<^bold>\<open>State and operations.\<close> A pydantic model is a record with the fields of the source and a short prefix; a
  union or enumeration is a datatype. Code that raises returns \<open>exn + 'a\<close>, the coordinator returns
  \<open>'a cres\<close>, a value, the \<open>ApplicationError\<close> it returns or the exception it raises. Loops are
  structural recursion or \<open>function\<close> with a proved measure; only the delivery loop of the worker, which the clock
  ends, has fuel, and twelve turns are enough (C36). A step of the dispatcher is one block under its condition. Integers are Python's
  unbounded integers. The repository is a record with the fields of \<open>CaseStateRepository\<close>; a command is a
  function of it. The field \<open>pt_other\<close> (\<open>cp_other\<close> for an external command, \<open>os_other\<close> for an outcome) of its ports is what other
  clients do between its reads and its commits, \<open>cp_later\<close> what they do after its commit, and \<open>cp_waits\<close> the
  answers of the notifier until the deadline of a waiting response.

  \<^bold>\<open>Parameters.\<close> SHA-256, the canonical hash of a proposed item and \<open>re.fullmatch\<close> are the fields of
  \<open>py_env\<close>; \<open>str.casefold\<close> is an argument of the scan; the agent backend, the workspace files and the
  commits of the execution records are the fields of \<open>driver_io\<close>; the asset catalogue, the resource store, the
  dispatcher, the notifier and the identifiers of a command are those of \<open>command_ports\<close>; the execution records,
  the staged and published files, the audit bundle, the catalogue and the identifiers of a submission are those of
  \<open>outcome_ports\<close>; the canonical bytes of outcomes and
  failures and the order of timestamps are those of \<open>store_env\<close>; how long a call of the worker takes, when
  a wait is woken and the shutdown requested, and the runtime are those of \<open>service_env\<close>; the clock and the failures of the database
  are those of \<open>commit_io\<close>. Where a property needs it, it assumes
  that the content references that occur do not collide and that casefolding keeps non-empty text
  non-empty.

  \<^bold>\<open>What is shown.\<close>

  \<^item> \<open>Coordinator_Shape\<close>, \<open>Coordinator_Errors\<close>, \<open>Plan_Effects\<close>: what each handler may return; lifecycle,
    job updates, error codes, candidates (C5, C7, C9 to C11).
  \<^item> \<open>Delta_Application\<close>, \<open>Delta_Agreement\<close>, \<open>State_History\<close>, \<open>Supplement_Application\<close>: what the
    coordinator accepts the formalization applies; the diagnosis state keeps its history (C2, C3, C4).
    \<open>Supersedes\<close>: the depth-first search is the acyclicity of the relation (C15).
  \<^item> \<open>Case_Application\<close>, \<open>Case_Lifecycle\<close>, \<open>Job_Construction\<close>: plans apply, runs of triggers keep the
    case valid, jobs are built (C1, C6, C12, C14). The locale \<open>coordinator_port\<close> states what the
    application relies on, \<open>snapshot_projector\<close> what \<open>build_job\<close> relies on; both are interpreted on the
    modelled coordinator and projector.
  \<^item> \<open>Methods_Evidence\<close>, \<open>Methods_Planning\<close>: the scan and the plan are total and exact (C17 to C19); the
    locale \<open>evidence_source\<close> states what planning relies on and is interpreted on the scan.
    \<open>Methods_Workflow\<close>, \<open>Methods_Consensus\<close>: runs of the state machine and agreement (C20, C22, C23).
    \<open>Methods_Execution\<close>: the drivers are sound, terminal states are projected (C24, C26 to C28). These
    properties are in \<open>Methods_Properties\<close>.
  \<^item> \<open>State_Mutation\<close>, \<open>Aggregate_Refinement\<close>, \<open>Repository_Laws\<close>: a mutation loses nothing, which changes keep
    an aggregate valid, and the contract of the repository (C29, C30). \<open>Control_Laws\<close>, \<open>Control_Store\<close>: the
    control commands over the locale \<open>case_store\<close>, which is interpreted on the repository (C31 to C33).
    \<open>Projection_Laws\<close>, \<open>Continuation_Laws\<close>: views and snapshots always exist, continuations are closed (C34,
    C35). The generation a recovery is committed with
    (C37). These properties are in \<open>Store_Properties\<close>.
  \<^item> \<open>Json_Printing\<close>: canonical JSON is a prefix code, so it determines the printed value up to the order of
    keys. With \<open>Command_Models\<close> this gives which requests have the same hash (C38). \<open>Command_Store\<close>: the locale
    \<open>request_store\<close> states what the commands rely on, is interpreted on the repository, and gives that a command
    is applied once (C39). Both properties are in \<open>Command_Properties\<close>.
  \<^item> \<open>Outcome_Store\<close>: every early answer of a submission concerns the submitted outcome, every commit carries its
    processing record; the locale \<open>outcome_store\<close> states what the submission relies on and is interpreted on the
    repository. It gives that an outcome is processed once (C40, in \<open>Outcome_Properties\<close>).
  \<^item> \<open>Dispatch_Laws\<close>: what every step of the dispatcher keeps; with it one execution per case, the end of a
    shutdown and the visibility of a fatal error (C13, C16, C21, in \<open>Dispatch_Properties\<close>). The locale
    \<open>delivery_clock\<close> states what the worker relies on and is interpreted on the clock and the job control of the
    service; it gives the bound of the deliveries (C25, C36, in \<open>Worker_Properties\<close>).
  \<^item> \<open>Scenario\<close>, \<open>Methods_Scenario\<close> and \<open>Store_Scenario\<close> hold the concrete values of the witnesses.

  \<^bold>\<open>Not modelled.\<close> The SQL layer, files and retention of \<open>storage\<close>, the archive workers of
  \<open>dispatch\<close> and the joining of its threads, the processes and workspaces of \<open>runtime\<close>, the HTTP interface, the command line, the chat agent,
  the log parser broker, memory, follow-up and journey views: input and output around the modelled core. Of
  the scalar constraints of the contracts (UUID, timestamp and hash patterns) only those a modelled branch
  depends on are kept. In \<open>_execute_methods_specialist_v2\<close> the recovery and the commits of the graph, plan
  and limitations records before the evaluation starts are left out. Of \<open>application\<close> the assembly of
  audit bundles, streaming uploads, queries and reports are left out; a submitted outcome is taken as valid under
  its own schema, and journey events and notifications, which no result depends on, have no model.
\<close>

section \<open>From plan to stored case\<close>

text \<open>C1. The step from a plan of the coordinator to the stored case. The snapshot is valid and the candidate it
  shows the active job is the current one, the plan carries no Methods terminal projection, and its candidate and its
  delta have been formalized. Then the plan is applied exactly when the caller hands over the parts the plan names (a
  job of this case at the target revision exactly when the plan specifies one, an unresolved result exactly when it
  drafts one, the finalized Markdown result of its draft); otherwise the application raises \<open>ValueError\<close>. The new
  case is valid, has the status the plan announced, the next revision, the formalized state, and exactly the created
  job as its active job.\<close>

theorem coordinator_plan_applies:
  assumes "valid_snapshot env sn" and "active_candidate_current sn"
    and "plan env sn t = Ok p" and "tp_methods_terminal_projection p = None"
    and "formalize_accepted_candidate env (trigger_draft t) (tp_accepted_candidate_key p)
       (ds_candidate_conclusion (cs_diagnosis_state (sn_case sn))) crit ex eids cids jid = Inr fc"
    and "apply_diagnosis_state_delta env (cs_diagnosis_state (sn_case sn)) (tp_accepted_state_delta p)
       eids (tp_candidate_mutation p) (candidates_by_key (tp_accepted_candidate_key p) fc) expected = Inr target"
  shows "case apply_transition_plan_to_case env (sn_case sn) p target created tm unresolved generic_v2 of
      Inr c' \<Rightarrow> supplied_parts env (sn_case sn) p target created unresolved generic_v2 \<and>
        valid_case env c' \<and> cs_status c' = tp_target_case_status p \<and>
        cs_case_revision c' = cs_case_revision (sn_case sn) + 1 \<and> cs_diagnosis_state c' = target \<and>
        cs_active_job_id c' = map_option jb_job_id created
    | Inl e \<Rightarrow> e = ValueError \<and> \<not> supplied_parts env (sn_case sn) p target created unresolved generic_v2"
proof (cases "apply_transition_plan_to_case env (sn_case sn) p target created tm unresolved generic_v2")
  case (Inl e)
  with domain_coordinator.planned_case [OF assms, of created unresolved generic_v2 tm] application_raises_ValueError
  show ?thesis by auto
next
  case (Inr c')
  have "supplied_parts env (sn_case sn) p target created unresolved generic_v2"
    by (rule domain_coordinator.planned_parts [OF assms(3,4) Inr])
  with domain_coordinator.planned_case [OF assms this, of tm] Inr show ?thesis by simp
qed

theorem coordinator_plan_applies_witness:
  "\<exists>c'. apply_transition_plan_to_case sc_env sc_case sc_create_plan sc_state (Some sc_generic_job) ''t1'' None None = Inr c' \<and>
      valid_case sc_env c' \<and> cs_status c' = CS_RUNNING \<and> cs_case_revision c' = 2 \<and>
      cs_active_job_id c' = Some ''job'' \<and>
      apply_transition_plan_to_case sc_env sc_case sc_create_plan sc_state None ''t1'' None None = Inl ValueError"
proof -
  let ?sn = "sc_snapshot sc_case"
  have given: "active_candidate_current ?sn" "tp_methods_terminal_projection sc_create_plan = None"
    by (simp_all add: active_candidate_current_def sc_data base_plan_def)
  have formalized: "formalize_accepted_candidate sc_env (trigger_draft sc_create) (tp_accepted_candidate_key sc_create_plan)
      (ds_candidate_conclusion (cs_diagnosis_state (sn_case ?sn))) [] [] Map.empty Map.empty ''job'' = Inr None"
    by (simp add: formalize_accepted_candidate_def sc_data base_plan_def)
  have delta: "apply_diagnosis_state_delta sc_env (cs_diagnosis_state (sn_case ?sn))
      (tp_accepted_state_delta sc_create_plan) Map.empty (tp_candidate_mutation sc_create_plan)
      (candidates_by_key (tp_accepted_candidate_key sc_create_plan) None) (Some 1) = Inr sc_state"
    by (simp add: run_apply sc_data)
  note applied = coordinator_plan_applies [OF sc_snapshots_valid(1) given(1) sc_create_planned given(2) formalized delta]
  have parts: "supplied_parts sc_env (sn_case ?sn) sc_create_plan sc_state (Some sc_generic_job) None None"
    "\<not> supplied_parts sc_env (sn_case ?sn) sc_create_plan sc_state None None None"
    by (simp_all add: supplied_parts_def check_generic_v2_def sc_data base_plan_def spec_from_bindings_def spec_args_of_def)
  have fields: "sn_case ?sn = sc_case" "tp_target_case_status sc_create_plan = CS_RUNNING" "cs_case_revision sc_case = 1"
    "jb_job_id sc_generic_job = ''job''"
    by (simp_all add: sc_data base_plan_def)
  show ?thesis
    using applied [of "Some sc_generic_job" None None "''t1''"] applied [of None None None "''t1''"] parts fields
    by (simp split: sum.splits)
qed

section \<open>Deltas\<close>

text \<open>C2. Coordinator and formalization agree on deltas: whatever delta of an agent outcome the
  coordinator normalizes and accepts, the formalization applies to the state without an exception,
  whichever fresh identifiers the proposed evidence got; the result is a valid state and its revision
  moves exactly when the coordinator announced a semantic change.\<close>

theorem accepted_delta_applies:
  assumes "valid_diagnosis_state env s" and "normalize_delta s a oc d x = Ok (ad, ch, ek, ak)"
    and "delta_well_formed d" and "valid_agent_delta d oid jid" and "fresh_ids s ek ids"
  shows "\<exists>s'. apply_diagnosis_state_delta env s ad ids None cands
              (Some (ds_revision s + (if ch then 1 else 0))) = Inr s' \<and>
            valid_diagnosis_state env s' \<and> ds_candidate_conclusion s' = ds_candidate_conclusion s \<and>
            ds_revision s' = ds_revision s + (if ch then 1 else 0)"
proof -
  have "candidate_step_ok env s ad ids None cands (ds_candidate_conclusion s)"
    by (simp add: candidate_step_ok_def apply_candidate_mutation_def)
  from accepted_delta_step [OF assms this] show ?thesis by simp
qed

theorem accepted_delta_applies_witness:
  "\<exists>s'. apply_diagnosis_state_delta sc_env sc_working_state sc_accepted_delta [''p1'' \<mapsto> ''ev1''] None Map.empty
      (Some 2) = Inr s' \<and> valid_diagnosis_state sc_env s' \<and> ds_revision s' = 2"
proof -
  have "delta_well_formed sc_delta" "valid_agent_delta sc_delta ''outcome'' ''job''"
    by (simp_all add: delta_well_formed_def valid_agent_delta_def valid_state_delta_def valid_item_draft_def
        valid_provenance_def delta_drafts_def empty_delta_def sc_data)
  moreover have "fresh_ids sc_working_state [''p1''] [''p1'' \<mapsto> ''ev1'']"
    by (simp add: fresh_ids_def sc_data)
  ultimately show ?thesis
    using accepted_delta_applies [OF sc_working_state_valid sc_normalized, where ids = "[''p1'' \<mapsto> ''ev1'']"
        and cands = Map.empty and oid = "''outcome''" and jid = "''job''"]
    by (auto simp: sc_working_state_def sc_state_def)
qed

text \<open>C3. A supplement the coordinator accepts is applied to the diagnosis state without an exception:
  the supplied facts are appended, exactly the requirements the request answers stop being open, the
  revision moves by one and the result is a valid state. The case goes on running exactly when nothing
  is left open.\<close>

theorem supplement_answers_requirements:
  assumes "valid_diagnosis_state env (cs_diagnosis_state (sn_case sn))"
    and "supersedes_acyclic (cs_diagnosis_state (sn_case sn))"
    and "valid_supplement q" and "tr_payload t = SubmitSupplementPayload q"
    and "tr_trigger_type t = TT_SUBMIT_SUPPLEMENT" and "plan env sn t = Ok p"
  shows "\<exists>s'. apply_diagnosis_state_delta env (cs_diagnosis_state (sn_case sn)) (tp_accepted_state_delta p) ids
              (tp_candidate_mutation p) cands (Some (ds_revision (cs_diagnosis_state (sn_case sn)) + 1)) = Inr s' \<and>
            valid_diagnosis_state env s' \<and> supersedes_acyclic s' \<and>
            ds_user_facts s' = ds_user_facts (cs_diagnosis_state (sn_case sn)) @ sort_key it_item_id (sp_user_facts q) \<and>
            open_requirements s' =
              filter (\<lambda>r. \<not> answered_by q r) (open_requirements (cs_diagnosis_state (sn_case sn))) \<and>
            (tp_target_case_status p = CS_RUNNING \<longleftrightarrow> open_requirements s' = [])"
proof -
  let ?s = "cs_diagnosis_state (sn_case sn)"
  have acc: "accept_supplement env sn t q = Ok p"
    using assms(4-6) by (auto simp: plan_Ok handler_def submit_supplement_def Let_def split: if_splits)
  then obtain fs gs where fs: "fulfill_facts env ?s (sp_user_facts q) = Ok fs"
    and gs: "fulfill_attachments ?s (sp_ready_attachment_ids q) = Ok gs"
    and fixed: "\<forall>u \<in> set (sp_user_facts q). pv_input_name (it_provenance u) \<notin> set (fixed_input_names ?s)"
    and d: "tp_accepted_state_delta p = supplement_delta (sp_user_facts q) (fs @ gs)" "tp_candidate_mutation p = None"
    by (rule accepted_supplement)
  let ?z = "supplemented ?s (sp_user_facts q) (fs @ gs)"
  have ap: "apply_diagnosis_state_delta env ?s (tp_accepted_state_delta p) ids (tp_candidate_mutation p) cands
      (Some (ds_revision ?s + 1)) = Inr (?z\<lparr>ds_revision := ds_revision ?s + 1\<rparr>)"
    unfolding d by (rule supplement_applies [OF assms(1-3) fs gs fixed])
  have "valid_diagnosis_state env (?z\<lparr>ds_revision := ds_revision ?s + 1\<rparr>)"
    using ap by (rule applied_delta_parts)
  moreover have "supersedes_acyclic (?z\<lparr>ds_revision := ds_revision ?s + 1\<rparr>)"
    by (rule applied_delta_acyclic [OF assms(1) _ ap])
      (use assms(3) in \<open>simp add: d supplement_delta_def valid_supplement_def list_all_iff\<close>)
  moreover have left: "open_requirements ?z = filter (\<lambda>r. \<not> answered_by q r) (open_requirements ?s)"
    unfolding open_after by (rule filter_cong [OF refl]) (use answered_open [OF assms(1) fs gs] in blast)
  moreover have "tp_target_case_status p = CS_RUNNING \<longleftrightarrow> open_requirements ?z = []"
    by (rule supplement_status [OF acc fs gs assms(1)])
  moreover have "open_requirements (?z\<lparr>ds_revision := r\<rparr>) = open_requirements ?z" for r
    by (simp add: open_requirements_def)
  moreover have "ds_user_facts ?z = ds_user_facts ?s @ sort_key it_item_id (sp_user_facts q)"
    by (simp add: supplemented_def)
  ultimately show ?thesis using ap by simp
qed

theorem supplement_answers_requirements_witness:
  "\<exists>s'. apply_diagnosis_state_delta sc_env sc_waiting_state (tp_accepted_state_delta sc_supplement_plan) Map.empty
      None Map.empty (Some 2) = Inr s' \<and> ds_user_facts s' = [sc_user_fact] \<and>
      open_requirements s' = [sc_input ''time'']"
proof -
  have "tr_payload sc_supplement = SubmitSupplementPayload sc_supplement_payload"
    "tr_trigger_type sc_supplement = TT_SUBMIT_SUPPLEMENT"
    "cs_diagnosis_state (sn_case (sc_snapshot sc_waiting_case)) = sc_waiting_state"
    "tp_candidate_mutation sc_supplement_plan = None" "ds_revision sc_waiting_state = 1"
    "ds_user_facts sc_waiting_state = []" "sort_key it_item_id (sp_user_facts sc_supplement_payload) = [sc_user_fact]"
    "filter (\<lambda>r. \<not> answered_by sc_supplement_payload r) (open_requirements sc_waiting_state) = [sc_input ''time'']"
    by (simp_all add: sc_data base_plan_def answered_by_def open_requirements_def)
  then show ?thesis
    using supplement_answers_requirements [of sc_env "sc_snapshot sc_waiting_case", OF _ _ sc_waiting_valid(3) _ _
        sc_supplement_planned, where ids = Map.empty and cands = Map.empty] sc_waiting_valid
    by force
qed



section \<open>The coordinator\<close>

text \<open>C5. Every plan of the coordinator follows the lifecycle of a case: the status it announces is a
  successor of the current status under the trigger; it finishes the active job at the time of the
  trigger, or there was none; it carries a valid next job exactly when the case goes on running or into
  review; and the disposition of the outcome is the one of the trigger.\<close>

theorem plan_follows_lifecycle:
  assumes "plan env sn t = Ok p"
  shows "lifecycle (cs_status (sn_case sn)) (tr_trigger_type t) (tp_target_case_status p) \<and>
    job_update_shape sn t p \<and> next_job_shape p \<and>
    tp_outcome_disposition p = trigger_disposition (tr_trigger_type t)"
  using plan_has_shape [OF assms] by (simp add: plan_shape_def)

theorem plan_follows_lifecycle_witness:
  "lifecycle CS_NEW TT_CREATE_CASE CS_RUNNING \<and> next_job_shape sc_create_plan"
  using plan_follows_lifecycle [OF sc_create_planned] by (simp add: sc_data base_plan_def)

text \<open>C6. Along every sequence of triggers the case stays valid, its revision counts the triggers
  applied, its identity and problem text never change, and a case in a terminal status accepts no
  further trigger.\<close>

theorem case_run_invariants:
  assumes "case_run env c ts c'" and "valid_case env c"
  shows "valid_case env c' \<and> cs_case_revision c' = cs_case_revision c + int (length ts) \<and>
    cs_case_id c' = cs_case_id c \<and> cs_raw_problem_text c' = cs_raw_problem_text c \<and>
    cs_created_at c' = cs_created_at c \<and> (terminal_status (cs_status c) \<longrightarrow> ts = [] \<and> c' = c)"
  using run_valid [OF assms] run_revision [OF assms(1)] run_identity [OF assms(1)]
    run_from_terminal [OF assms(1)] by blast

theorem case_run_invariants_witness:
  "\<exists>c'. case_run sc_env sc_case [sc_create] c' \<and> valid_case sc_env c' \<and> cs_case_revision c' = 2"
proof -
  have ap: "apply_transition_plan_to_case sc_env sc_case sc_create_plan sc_state (Some sc_generic_job) ''t1'' None None =
      Inr sc_running_case"
    by (rule sc_create_applied)
  have "case_step sc_env sc_case sc_create sc_running_case"
    by (rule case_step.step [OF _ sc_create_planned ap]) (simp add: sc_snapshot_def)
  then have run: "case_run sc_env sc_case [sc_create] sc_running_case"
    by (rule case_run.run_Cons [OF _ case_run.run_Nil])
  have "valid_case sc_env sc_case" using sc_snapshots_valid(1) by (simp add: valid_snapshot_def Let_def sc_snapshot_def)
  from case_run_invariants [OF run this] run show ?thesis by (auto simp: sc_case_def)
qed

text \<open>C7. The check of the error channel at the end of \<open>plan\<close> never objects. For a trigger whose type is the one of
  its payload, every error of the guards and of the handler, before this check, has a code declared for the trigger
  and is not retryable; so \<open>plan\<close> returns what the guards and the handler produced, and none of their errors is
  turned into an exception.\<close>

theorem plan_error_codes:
  assumes "tr_trigger_type t = trigger_payload_type (tr_payload t)"
  shows "(\<forall>e. plan_guard sn t = Some e \<or> handler env (tr_trigger_type t) sn t = AppErr e \<longrightarrow>
      ae_code e \<in> set (coordinator_plan_error_codes (tr_trigger_type t)) \<and> \<not> ae_retryable e) \<and>
    plan env sn t = (case plan_guard sn t of None \<Rightarrow> handler env (tr_trigger_type t) sn t | Some e \<Rightarrow> AppErr e)"
  using handler_code [of env "tr_trigger_type t" sn t] plan_guard_code [OF _ assms] plan_transparent [OF assms]
  by (auto simp: error_in_def guardC_def split: option.splits)

theorem plan_error_codes_witness:
  "handler sc_env TT_CANCEL_CASE (sc_snapshot sc_case) sc_cancel = AppErr (invalid_state CS_NEW TT_CANCEL_CASE) \<and>
   plan_guard (sc_snapshot sc_case) sc_cancel \<noteq> None \<and>
   EC_INVALID_CASE_STATE \<in> set (coordinator_plan_error_codes TT_CANCEL_CASE)"
proof -
  have t: "tr_trigger_type sc_cancel = trigger_payload_type (tr_payload sc_cancel)" "tr_trigger_type sc_cancel = TT_CANCEL_CASE"
    by (simp_all add: sc_data)
  have refused: "handler sc_env TT_CANCEL_CASE (sc_snapshot sc_case) sc_cancel = AppErr (invalid_state CS_NEW TT_CANCEL_CASE)"
    by (simp add: handler_def cancel_case_def sc_data)
  moreover have "plan_guard (sc_snapshot sc_case) sc_cancel \<noteq> None"
    by (simp add: plan_guard_def stable_target_changed_def sc_data)
  moreover have "ae_code (invalid_state CS_NEW TT_CANCEL_CASE) \<in> set (coordinator_plan_error_codes TT_CANCEL_CASE)"
    using plan_error_codes [OF t(1), of "sc_snapshot sc_case" sc_env] refused t(2) by metis
  moreover have "ae_code (invalid_state CS_NEW TT_CANCEL_CASE) = EC_INVALID_CASE_STATE" by (simp add: invalid_state_def)
  ultimately show ?thesis by metis
qed

text \<open>What the five handlers of the control triggers return: never an exception, so each plan they build passes
  all validators of \<open>TransitionPlan\<close>.\<close>

lemma control_handler_result:
  assumes "tr_trigger_type t = trigger_payload_type (tr_payload t)" and "control_trigger (tr_trigger_type t)"
  shows "case handler env (tr_trigger_type t) sn t of
       Ok p \<Rightarrow> tp_accepted_state_delta p = empty_delta \<and> tp_candidate_mutation p = None \<and> tp_next_job_spec p = None
     | AppErr e \<Rightarrow>
         ae_code e = EC_INVALID_CASE_STATE \<longleftrightarrow>
           (\<forall>st. \<not> lifecycle (cs_status (sn_case sn)) (tr_trigger_type t) st)
     | Raise x \<Rightarrow> False"
  using assms
proof (cases "tr_payload t")
  case (CancelCasePayload a)
  with assms show ?thesis
    by (cases "cs_status (sn_case sn)")
      (auto simp: handler_def cancel_case_def mk_plan_def valid_plan_defs base_plan_def lifecycle_from
        split: option.splits cres.splits)
qed (auto simp: control_trigger_def handler_def execution_failed_def asset_unavailable_def old_epoch_def
    stale_active_outcome_def failure_plan_def interrupt_plan_def mk_plan_def valid_plan_defs base_plan_def Let_def
    lifecycle_from split: if_splits option.splits cres.splits)

text \<open>C11. A control trigger (cancellation, a reported failure, missing assets, an old runtime epoch, a stale
  outcome) whose type is the one of its payload never makes the coordinator raise, whatever the snapshot: every plan
  its handler builds passes the validators of \<open>TransitionPlan\<close>. A plan ends the work on the case, cancelled,
  interrupted or failed along its lifecycle, changes neither the diagnosis state nor the candidate and starts no job.
  An error is INVALID_CASE_STATE exactly when the trigger passed the guards and the lifecycle has no successor of the
  status of the case.\<close>

theorem control_triggers_total:
  assumes "tr_trigger_type t = trigger_payload_type (tr_payload t)" and "control_trigger (tr_trigger_type t)"
  shows "case plan env sn t of
       Ok p \<Rightarrow> tp_target_case_status p \<in> {CS_CANCELLED, CS_INTERRUPTED, CS_FAILED} \<and>
         lifecycle (cs_status (sn_case sn)) (tr_trigger_type t) (tp_target_case_status p) \<and>
         tp_accepted_state_delta p = empty_delta \<and> tp_candidate_mutation p = None \<and> tp_next_job_spec p = None
     | AppErr e \<Rightarrow>
         ae_code e = EC_INVALID_CASE_STATE \<longleftrightarrow>
           plan_guard sn t = None \<and> (\<forall>st. \<not> lifecycle (cs_status (sn_case sn)) (tr_trigger_type t) st)
     | Raise x \<Rightarrow> False"
proof (cases "plan_guard sn t")
  case None
  then have plan: "plan env sn t = handler env (tr_trigger_type t) sn t" by (simp add: plan_transparent [OF assms(1)])
  show ?thesis
  proof (cases "plan env sn t")
    case (Ok p)
    have life: "lifecycle (cs_status (sn_case sn)) (tr_trigger_type t) (tp_target_case_status p)"
      using plan_has_shape [OF Ok] by (simp add: plan_shape_def)
    with assms(2) have "tp_target_case_status p \<in> {CS_CANCELLED, CS_INTERRUPTED, CS_FAILED}"
      by (auto simp: control_trigger_def lifecycle_from)
    with life control_handler_result [OF assms, where env = env and sn = sn] Ok plan show ?thesis by simp
  qed (use control_handler_result [OF assms, where env = env and sn = sn] plan None in simp_all)
next
  case (Some e)
  have "ae_code e \<noteq> EC_INVALID_CASE_STATE" using Some by (auto simp: plan_guard_def split: if_splits)
  then show ?thesis using Some by (simp add: plan_transparent [OF assms(1)])
qed

theorem control_triggers_total_witness:
  "\<exists>p. plan sc_env sc_running sc_cancel = Ok p \<and> tp_target_case_status p = CS_CANCELLED \<and> tp_next_job_spec p = None"
proof -
  have "tr_trigger_type sc_cancel = trigger_payload_type (tr_payload sc_cancel)" "control_trigger (tr_trigger_type sc_cancel)"
    by (simp_all add: sc_data control_trigger_def)
  moreover have "\<exists>p. plan sc_env sc_running sc_cancel = Ok p \<and> tp_target_case_status p = CS_CANCELLED"
    by (simp add: run_plan cancel_case_def sc_data)
  ultimately show ?thesis using control_triggers_total [where env = sc_env and sn = sc_running and t = sc_cancel] by auto
qed

text \<open>C9. A reported execution failure ends the case in INTERRUPTED, where it can be resumed, exactly
  when its code is conditionally retryable and the report says so; in FAILED otherwise. Either way the
  diagnosis state is untouched and the job gets the matching status.\<close>

theorem execution_failure_classified:
  assumes "plan env sn t = Ok p" and "tr_trigger_type t = TT_EXECUTION_FAILED"
    and "tr_payload t = ExecutionFailedPayload x"
  shows "\<exists>a. sn_active_job sn = Some a \<and>
      (let resumable = xf_code (xp_execution_failure x) \<in> set conditional_failure_codes \<and>
                       xf_retryable (xp_execution_failure x)
       in tp_target_case_status p = (if resumable then CS_INTERRUPTED else CS_FAILED) \<and>
          tp_job_updates p =
            [job_update_to a (if resumable then JS_INTERRUPTED else JS_FAILED) (tr_occurred_at t)]) \<and>
      tp_accepted_state_delta p = empty_delta \<and> tp_candidate_mutation p = None \<and> tp_next_job_spec p = None"
proof -
  have "execution_failed env sn t = Ok p" using assms(1,2) by (simp add: plan_Ok handler_def)
  then show ?thesis
    using assms(3) unfolding execution_failed_def Let_def
    by (auto simp: Let_def dest!: failure_plan_Ok split: if_splits option.splits)
qed

theorem execution_failure_classified_witness:
  "\<exists>p. plan sc_env sc_running (sc_failed EC_BACKEND_TIMEOUT True) = Ok p \<and>
     tp_target_case_status p = CS_INTERRUPTED \<and> tp_accepted_state_delta p = empty_delta"
proof -
  obtain p where p: "plan sc_env sc_running (sc_failed EC_BACKEND_TIMEOUT True) = Ok p"
    using sc_failed_planned by blast
  moreover have "EC_BACKEND_TIMEOUT \<in> set conditional_failure_codes" by (simp add: conditional_failure_codes_def)
  moreover have "tr_trigger_type (sc_failed EC_BACKEND_TIMEOUT True) = TT_EXECUTION_FAILED"
    "tr_payload (sc_failed EC_BACKEND_TIMEOUT True) = ExecutionFailedPayload
       \<lparr>xp_source_job_id = ''job'', xp_source_outcome_id = None,
        xp_execution_failure = sc_failure EC_BACKEND_TIMEOUT True\<rparr>"
    by (simp_all add: sc_failed_def sc_trigger_def)
  ultimately show ?thesis
    using execution_failure_classified [OF p] by (auto simp: sc_failure_def)
qed

text \<open>C10. A case reaches RESOLVED or PARTIALLY_RESOLVED only through a delivered generic report, a
  Methods projection, or a candidate that the plan accepts: either the draft of the outcome, or the
  reviewed candidate of the state, with the status of its resolution; and it goes into review only with
  a candidate under review.\<close>

theorem resolution_needs_result:
  assumes "plan env sn t = Ok p"
  shows "(tp_target_case_status p \<in> {CS_RESOLVED, CS_PARTIALLY_RESOLVED} \<longrightarrow>
        plan_generic p \<noteq> None \<or> tp_methods_terminal_projection p \<noteq> None \<or> accepts_candidate sn t p) \<and>
     (tp_target_case_status p = CS_REVIEWING \<longrightarrow> reviews_candidate sn t p)"
proof -
  have "candidate_effect sn t p" using assms by (auto simp: plan_Ok intro: handler_effect)
  then show ?thesis unfolding candidate_effect_def by blast
qed

theorem resolution_needs_result_witness:
  "\<exists>p g. plan sc_env sc_running sc_report = Ok p \<and> tp_target_case_status p = CS_RESOLVED \<and> plan_generic p = Some g"
proof -
  obtain p where p: "plan sc_env sc_running sc_report = Ok p" "tp_target_case_status p = CS_RESOLVED"
    "tp_methods_terminal_projection p = None"
    using sc_report_planned by blast
  have "\<not> accepts_candidate sc_running sc_report p"
    by (simp add: accepts_candidate_def trigger_draft_def sc_data)
  with resolution_needs_result [OF p(1)] p show ?thesis by auto
qed

section \<open>Jobs\<close>

text \<open>C12. A valid job specification and a valid state become a stored job exactly when the references of the
  specification fit (\<open>job_references_fit\<close>): it was planned for the revision of the state, its evidence and its
  artifacts resolve without repetition, the evidence belongs to the state, a review target is the candidate under
  review with all its required evidence, and a direct job starts without a candidate. Otherwise \<open>build_job\<close> raises
  \<open>ValueError\<close>. The job is PENDING, passes the validator of \<open>Job\<close>, and its evidence is exactly the requested one in
  the order of the state.\<close>

theorem build_job_total:
  assumes spec: "valid_job_spec spec" and s: "valid_diagnosis_state env s"
  shows "case build_job env (project env) spec i s of
      Inr j \<Rightarrow> job_references_fit spec i s \<and> valid_job env j \<and> jb_status j = JS_PENDING \<and>
        (\<exists>requested. mapE (resolve_planned_resource_binding (bi_existing_evidence_ids i) (bi_evidence_ids i))
            (js_evidence_bindings spec) = Inr requested \<and> set (jb_evidence_refs j) = set requested) \<and>
        subseq (jb_evidence_refs j) (ds_evidence_refs s)
    | Inl e \<Rightarrow> e = ValueError \<and> \<not> job_references_fit spec i s"
proof (cases "job_references_fit spec i s")
  case True
  then show ?thesis using fitting_job_built [OF spec s] by (fastforce simp: job_evidence_def subseq_filter_left)
next
  case False
  then obtain e where "build_job env (project env) spec i s = Inl e"
    using built_job_fits [OF spec s] by (cases "build_job env (project env) spec i s") auto
  then show ?thesis using False build_job_Inl by simp
qed

theorem build_job_total_witness:
  "\<exists>j. build_job sc_env (project sc_env) sc_evidence_spec sc_evidence_inputs sc_evidence_state = Inr j \<and>
     valid_job sc_env j \<and> jb_status j = JS_PENDING \<and> set (jb_evidence_refs j) = {''ev0'', ''ev1''} \<and>
     subseq (jb_evidence_refs j) [''ev0'', ''ev1'']"
proof -
  have "valid_job_spec sc_evidence_spec" by (simp add: run_plan sc_data)
  moreover have "valid_diagnosis_state sc_env sc_evidence_state"
    by (simp add: run_valid_state valid_diagnosis_item_def valid_provenance_def sc_data)
  moreover have requested: "mapE (resolve_planned_resource_binding (bi_existing_evidence_ids sc_evidence_inputs)
      (bi_evidence_ids sc_evidence_inputs)) (js_evidence_bindings sc_evidence_spec) = Inr [''ev1'', ''ev0'']"
    and refs: "ds_evidence_refs sc_evidence_state = [''ev0'', ''ev1'']"
    by (simp_all add: sc_data spec_from_bindings_def spec_args_of_def ensure_def require_key_def)
  moreover have "job_references_fit sc_evidence_spec sc_evidence_inputs sc_evidence_state"
    unfolding job_references_fit_def requested refs
    by (simp add: review_ready_def sc_data spec_from_bindings_def spec_args_of_def)
  ultimately show ?thesis
    using build_job_total [of sc_evidence_spec sc_env sc_evidence_state sc_evidence_inputs]
    by (auto split: sum.splits)
qed

text \<open>Resuming an interrupted job replays the same work: the new job has the bindings, inputs,
  evidence, artifacts and review target of the interrupted one, is PENDING, and names it as the job it
  replaces.\<close>

lemma resumed_job_copies_source:
  assumes "plan env sn t = Ok p" and "tr_trigger_type t = TT_RESUME_INTERRUPTED"
    and spec: "tp_next_job_spec p = Some spec" and s: "valid_diagnosis_state env s"
    and b: "build_job env (project env) spec i s = Inr j"
  shows "\<exists>source. sn_resume_source_job sn = Some source \<and> same_work j source \<and>
      jb_replacement_for_job_id j = Some (jb_job_id source) \<and> jb_status j = JS_PENDING"
proof -
  have "resume_interrupted env sn t = Ok p" using assms(1,2) by (simp add: plan_Ok handler_def)
  then obtain source where src: "sn_resume_source_job sn = Some source"
    and sp: "spec = spec_from_bindings (jb_job_type source) (runtime_from_job source) (resume_args sn source)"
    using spec by (rule resume_spec)
  obtain x e artifacts target where j: "j = pending_job spec i x e artifacts target"
    and ar: "mapE (resolve_planned_resource_binding (bi_existing_artifact_ids i) (bi_artifact_ids i))
       (js_artifact_bindings spec) = Inr artifacts"
    and rt: "resolved_review_target spec i = Inr target"
    using b by (rule built_fields)
  obtain requested where req: "mapE (resolve_planned_resource_binding (bi_existing_evidence_ids i)
      (bi_evidence_ids i)) (js_evidence_bindings spec) = Inr requested"
    using b by (rule pure_projector.built_evidence)
  have "distinct (ds_evidence_refs s)"
    using s by (simp add: valid_diagnosis_state_def valid_state_evidence_def)
  then have "set (jb_evidence_refs j) = set requested"
    using pure_projector.built_evidence_set b req by blast
  moreover have "requested = jb_evidence_refs source"
    using req by (auto simp: sp spec_from_bindings_def resume_args_def intro: resolve_existing_bindings)
  moreover have "artifacts = jb_artifact_refs source"
    using ar by (auto simp: sp spec_from_bindings_def resume_args_def intro: resolve_existing_bindings)
  moreover have "target = jb_review_target source"
    using rt by (auto simp: sp spec_from_bindings_def resume_args_def resolved_review_target_def bindE_Inr
        split: option.splits)
  ultimately show ?thesis
    using src j sp
    by (auto simp: same_work_def pending_job_def spec_from_bindings_def resume_args_def runtime_from_job_def)
qed

text \<open>C14. A plan with a Methods terminal projection can never be applied to a case: the validator of
  Case rejects every non-null Methods result, so the application raises ValueError.\<close>

theorem methods_projection_rejected:
  assumes "tp_methods_terminal_projection p \<noteq> None"
  shows "apply_transition_plan_to_case env current p target created tm unresolved generic_v2 = Inl ValueError"
  using assms application_raises_ValueError application_not_methods by (metis sumE)

theorem methods_projection_rejected_witness:
  "apply_transition_plan_to_case sc_env sc_case
     (sc_create_plan\<lparr>tp_methods_terminal_projection := Some sc_projection\<rparr>) sc_state None ''t1'' None None = Inl ValueError"
  using methods_projection_rejected [of "sc_create_plan\<lparr>tp_methods_terminal_projection := Some sc_projection\<rparr>"] by simp

section \<open>Supersession and patches\<close>

text \<open>C15. The coordinator's depth-first check of the supersedes relation terminates on every graph and
  accepts a set of drafts exactly when every superseded item is known and the relation has no cycle.\<close>

theorem supersedes_check_correct:
  "validate_supersedes items drafts = None \<longleftrightarrow>
     Range (graph_edges (supersedes_graph items drafts)) \<subseteq> set (graph_keys (supersedes_graph items drafts)) \<and>
     acyclic (graph_edges (supersedes_graph items drafts))"
proof -
  let ?g = "supersedes_graph items drafts"
  have "list_ex (\<lambda>k. list_ex (\<lambda>r. r \<notin> set (graph_keys ?g)) (graph_get ?g k)) (graph_keys ?g) \<longleftrightarrow>
      \<not> Range (graph_edges ?g) \<subseteq> set (graph_keys ?g)"
    using graph_edges_key [of _ _ ?g] by (auto simp: list_ex_iff graph_edges_def)
  then show ?thesis by (simp add: validate_supersedes_def Let_def coordinator_check.check_iff)
qed

lemma named_changes:
  "(\<exists>f \<in> set (map snd (filter fst xs)). f \<in> S) \<longleftrightarrow> \<not> list_all (\<lambda>(b, n). b \<longrightarrow> n \<notin> S) xs"
  by (induction xs) auto

lemma patch_keeps_target:
  assumes "\<not> (\<exists>f \<in> set (patch_changes s p). f \<in> set stable_target_fields)"
  shows "ps_statement (patch_spec s p) = ps_statement s" "ps_expected_behavior (patch_spec s p) = ps_expected_behavior s"
    "ps_scope (patch_spec s p) = ps_scope s" "ps_goals (patch_spec s p) = ps_goals s"
    "ps_completion_criteria (patch_spec s p) = ps_completion_criteria s"
proof -
  have same: "patched c v = c" if "\<not> field_differs c v" for c :: 'a and v
    using that by (simp add: patched_def field_differs_def split: option.splits)
  have "\<not> field_differs (ps_statement s) (pp_statement p)"
    "\<not> field_differs (ps_expected_behavior s) (pp_expected_behavior p)"
    "\<not> field_differs (ps_scope s) (pp_scope p)" "\<not> field_differs (ps_goals s) (pp_goals p)"
    "\<not> field_differs (ps_completion_criteria s) (pp_completion_criteria p)"
    using assms unfolding patch_changes_def named_changes by (simp_all add: stable_target_fields_def)
  then show "ps_statement (patch_spec s p) = ps_statement s" "ps_expected_behavior (patch_spec s p) = ps_expected_behavior s"
    "ps_scope (patch_spec s p) = ps_scope s" "ps_goals (patch_spec s p) = ps_goals s"
    "ps_completion_criteria (patch_spec s p) = ps_completion_criteria s"
    by (simp_all add: patch_spec_def patched_def field_differs_def split: option.splits)
qed

text \<open>An accepted patch never touches the stable target of a case: statement, expected behaviour,
  scope, goals and completion criteria stay as they are; the patched specification is valid, and its
  revision moves by one exactly when the coordinator announced a change.\<close>

lemma accepted_patch_keeps_target:
  assumes "normalize_patch s q = Ok (patch, changed)" and "valid_diagnosis_state env s"
  shows "\<exists>sp. apply_spec_patch_opt (ds_problem_spec s) patch = Inr sp \<and> valid_problem_spec sp \<and>
      ps_statement sp = ps_statement (ds_problem_spec s) \<and>
      ps_expected_behavior sp = ps_expected_behavior (ds_problem_spec s) \<and>
      ps_scope sp = ps_scope (ds_problem_spec s) \<and> ps_goals sp = ps_goals (ds_problem_spec s) \<and>
      ps_completion_criteria sp = ps_completion_criteria (ds_problem_spec s) \<and>
      ps_revision sp = ps_revision (ds_problem_spec s) + (if changed then 1 else 0)"
proof (cases patch)
  case None
  then show ?thesis
    using assms normalize_patch_Ok(1) [OF assms(1)] by (simp add: apply_spec_patch_opt_def valid_diagnosis_state_def)
next
  case (Some p)
  obtain sp where sp: "apply_spec_patch_opt (ds_problem_spec s) patch = Inr sp" "valid_problem_spec sp"
    using accepted_patch_applies [OF assms] by metis
  moreover have "sp = patch_spec (ds_problem_spec s) p"
    using sp(1) normalize_patch_Ok(3) [OF assms(1) Some] by (simp add: Some apply_spec_patch_opt_def)
  moreover have "ps_revision (patch_spec (ds_problem_spec s) p) = ps_revision (ds_problem_spec s) + 1"
    by (simp add: patch_spec_def)
  ultimately show ?thesis
    using patch_keeps_target [OF normalize_patch_Ok(4) [OF assms(1) Some]] normalize_patch_Ok(1) [OF assms(1)] Some
    by simp
qed

end
